(* ===== verification/Errors.thy ===== *)
theory Errors
  imports Main
begin

text \<open>
  The errors the Go code returns. An error is the format string of its \<open>fmt.Errorf\<close> (or
  \<open>errors.New\<close>) call with the string operands that the code passes; numeric operands and quoted
  operands that are only printed are left out. \<open>Wrapf\<close> is an error with a \<open>%w\<close> operand. Each
  message has a name, which the definitions of the other theories use. Nothing in the code
  inspects a message, so no proof depends on the text.
\<close>

datatype error =
    Errorf string "string list"
  | Wrapf string "string list" error

section \<open>Params and consensus\<close>

definition UnknownMonetaryPolicy :: error where
  "UnknownMonetaryPolicy = Errorf ''unknown monetary policy %d'' []"

definition UnknownNetwork :: error where
  "UnknownNetwork = Errorf ''unknown network %q'' []"

definition MainnetLaunchNotAuthorized :: error where
  "MainnetLaunchNotAuthorized = Errorf ''mainnet launch is not authorized'' []"

definition EpochOutOfRange :: error where
  "EpochOutOfRange = Errorf ''mainnet epoch index %d out of range'' []"

section \<open>Wallet\<close>

definition BadAddress :: error where
  "BadAddress = Errorf ''address must be exactly %d lowercase hexadecimal characters'' []"

definition EmptyPrivateKey :: error where
  "EmptyPrivateKey = Errorf ''private key cannot be empty'' []"

definition InvalidPrivateKey :: error where
  "InvalidPrivateKey = Errorf ''invalid private key'' []"

definition SigningFailed :: error where
  "SigningFailed = Errorf ''ecdsa signing failed'' []"

section \<open>Transactions\<close>

definition NilTransaction :: error where
  "NilTransaction = Errorf ''transaction cannot be nil'' []"

definition InvalidIDLength :: error where
  "InvalidIDLength = Errorf ''invalid transaction ID length'' []"

definition InvalidSenderAddress :: "error \<Rightarrow> error" where
  "InvalidSenderAddress err = Wrapf ''invalid sender address: %w'' [] err"

definition InvalidReceiverAddress :: "error \<Rightarrow> error" where
  "InvalidReceiverAddress err = Wrapf ''invalid receiver address: %w'' [] err"

definition PublicKeyTooLarge :: error where
  "PublicKeyTooLarge = Errorf ''transaction public key exceeds maximum size'' []"

definition SignatureTooLarge :: error where
  "SignatureTooLarge = Errorf ''transaction signature exceeds maximum size'' []"

definition TransactionTooLarge :: error where
  "TransactionTooLarge = Errorf ''transaction exceeds maximum serialized size'' []"

definition BelowDustMinimum :: error where
  "BelowDustMinimum = Errorf ''transfer amount below dust minimum %d'' []"

definition EmptyNetwork :: error where
  "EmptyNetwork = Errorf ''network cannot be empty'' []"

definition EmptyTransactionID :: error where
  "EmptyTransactionID = Errorf ''transaction ID cannot be empty'' []"

definition UnknownSignatureDomain :: error where
  "UnknownSignatureDomain = Errorf ''unknown signature domain %d'' []"

definition NilWallet :: error where
  "NilWallet = Errorf ''wallet cannot be nil'' []"

definition WalletSenderMismatch :: error where
  "WalletSenderMismatch = Errorf ''wallet address does not match transaction sender'' []"

section \<open>State\<close>

definition NilState :: error where
  "NilState = Errorf ''state cannot be nil'' []"

definition MonetaryPolicyMismatch :: error where
  "MonetaryPolicyMismatch = Errorf ''monetary policy mismatch: state=%d block=%d'' []"

definition EmptyAddress :: error where
  "EmptyAddress = Errorf ''address cannot be empty'' []"

definition BalanceOverflow :: error where
  "BalanceOverflow = Errorf ''balance overflow'' []"

definition InsufficientBalance :: error where
  "InsufficientBalance = Errorf ''insufficient balance: have %d, need %d'' []"

definition ZeroTransfer :: error where
  "ZeroTransfer = Errorf ''transfer amount must be greater than zero'' []"

definition AlreadyProcessed :: "string \<Rightarrow> error" where
  "AlreadyProcessed ident = Errorf ''transaction already processed: %s'' [ident]"

definition NonceOverflow :: error where
  "NonceOverflow = Errorf ''account nonce overflow'' []"

definition SupplyAlreadyExceeded :: error where
  "SupplyAlreadyExceeded = Errorf ''issued supply already exceeds max supply'' []"

definition MaxSupplyExceeded :: error where
  "MaxSupplyExceeded = Errorf ''maximum Sudharma Network supply exceeded'' []"

definition NilReplacementState :: error where
  "NilReplacementState = Errorf ''replacement state cannot be nil'' []"

section \<open>Transaction and block processing\<close>

definition EmptySender :: error where
  "EmptySender = Errorf ''transaction sender cannot be empty'' []"

definition EmptyReceiver :: error where
  "EmptyReceiver = Errorf ''transaction receiver cannot be empty'' []"

definition ZeroAmount :: error where
  "ZeroAmount = Errorf ''transaction amount must be greater than zero'' []"

definition InvalidSignature :: error where
  "InvalidSignature = Errorf ''invalid transaction signature'' []"

definition InvalidNonce :: error where
  "InvalidNonce = Errorf ''invalid transaction nonce: expected %d, got %d'' []"

definition InvalidFee :: error where
  "InvalidFee = Errorf ''invalid transaction fee'' []"

definition InvalidFeeDistribution :: error where
  "InvalidFeeDistribution = Errorf ''invalid fee distribution'' []"

definition AmountOverflow :: error where
  "AmountOverflow = Errorf ''transaction amount overflow'' []"

definition TreasuryNotConfigured :: error where
  "TreasuryNotConfigured = Errorf ''development treasury address is not configured'' []"

definition ReceiverCreditFailed :: "error \<Rightarrow> error" where
  "ReceiverCreditFailed err = Wrapf ''receiver credit failed: %w'' [] err"

definition TreasuryCreditFailed :: "error \<Rightarrow> error" where
  "TreasuryCreditFailed err = Wrapf ''development treasury credit failed: %w'' [] err"

definition NilBlock :: error where
  "NilBlock = Errorf ''block cannot be nil'' []"

definition EmptyMinerAddress :: error where
  "EmptyMinerAddress = Errorf ''miner address cannot be empty'' []"

definition NilTransactionInBlock :: error where
  "NilTransactionInBlock = Errorf ''block contains nil transaction'' []"

definition TransactionFailed :: "string \<Rightarrow> error \<Rightarrow> error" where
  "TransactionFailed ident err = Wrapf ''transaction %s failed: %w'' [ident] err"

definition NilTransactionEntry :: error where
  "NilTransactionEntry = Errorf ''nil transaction'' []"

definition MinerFeeOverflow :: error where
  "MinerFeeOverflow = Errorf ''miner fee overflow'' []"

definition MinerRewardOverflow :: error where
  "MinerRewardOverflow = Errorf ''miner reward overflow'' []"

section \<open>Blocks and chain\<close>

definition MainnetGenesisNotAuthorized :: error where
  "MainnetGenesisNotAuthorized = Errorf ''mainnet genesis is not authorized'' []"

definition NilPreviousBlock :: error where
  "NilPreviousBlock = Errorf ''previous block cannot be nil'' []"

definition InvalidBlockVersion :: error where
  "InvalidBlockVersion = Errorf ''invalid block version: expected %d at height %d, got %d'' []"

definition VersionNotSupported :: error where
  "VersionNotSupported = Errorf ''proof verifier does not support block version %d'' []"

definition InvalidBlockHeight :: error where
  "InvalidBlockHeight = Errorf ''invalid block height: expected %d, got %d'' []"

definition InvalidPreviousHash :: error where
  "InvalidPreviousHash = Errorf ''invalid previous hash'' []"

definition TimestampNotAfterPrevious :: error where
  "TimestampNotAfterPrevious = Errorf ''invalid block timestamp: must be greater than previous block'' []"

definition TimestampTooFarInFuture :: error where
  "TimestampTooFarInFuture = Errorf ''invalid block timestamp: too far in the future'' []"

definition InvalidMerkleRoot :: error where
  "InvalidMerkleRoot = Errorf ''invalid merkle root'' []"

definition InvalidProofOfWork :: error where
  "InvalidProofOfWork = Errorf ''invalid proof of work'' []"

definition InvalidBlockDifficulty :: error where
  "InvalidBlockDifficulty = Errorf ''invalid block difficulty: expected %d, got %d'' []"

definition TooManyBlockTransactions :: error where
  "TooManyBlockTransactions = Errorf ''block contains too many transactions: %d > %d'' []"

definition BlockTransactionInvalid :: "string \<Rightarrow> error \<Rightarrow> error" where
  "BlockTransactionInvalid ident err = Wrapf ''block transaction %s invalid: %w'' [ident] err"

definition BlockPayloadTooLarge :: error where
  "BlockPayloadTooLarge = Errorf ''block transaction payload exceeds maximum size: %d > %d'' []"

definition NilChain :: error where
  "NilChain = Errorf ''chain cannot be nil'' []"

definition NilTip :: error where
  "NilTip = Errorf ''chain tip cannot be nil'' []"

definition ChainHasNoGenesis :: error where
  "ChainHasNoGenesis = Errorf ''chain has no genesis block'' []"

definition NilGenesis :: error where
  "NilGenesis = Errorf ''genesis block cannot be nil'' []"

definition NilProofVerifier :: error where
  "NilProofVerifier = Errorf ''proof verifier cannot be nil'' []"

definition LegacyVersionNotSupported :: error where
  "LegacyVersionNotSupported = Errorf ''proof verifier does not support legacy block Version 1'' []"

definition GPUVersionNotSupported :: error where
  "GPUVersionNotSupported = Errorf ''proof verifier does not support configured GPU-PoW Version 2 activation'' []"

definition GenesisVersionMismatch :: error where
  "GenesisVersionMismatch = Errorf ''genesis block version %d does not match proof-of-work policy version %d'' []"

definition GenesisMismatch :: error where
  "GenesisMismatch = Errorf ''genesis block does not match network %q'' []"

definition ChainIdentityMismatch :: error where
  "ChainIdentityMismatch = Errorf ''chain identity does not match network %q'' []"

definition ChainMissingGenesis :: error where
  "ChainMissingGenesis = Errorf ''chain missing genesis block'' []"

definition BlockValidationFailed :: "error \<Rightarrow> error" where
  "BlockValidationFailed err = Wrapf ''block validation failed: %w'' [] err"

definition InvalidHistoryDifficulty :: error where
  "InvalidHistoryDifficulty = Errorf ''invalid history-based block difficulty: expected %d, got %d'' []"

definition ExpectedDifficultyFailed :: "error \<Rightarrow> error" where
  "ExpectedDifficultyFailed err = Wrapf ''failed calculating expected difficulty: %w'' [] err"

section \<open>Finality, fork choice and reorganization\<close>

definition HeightAboveTip :: error where
  "HeightAboveTip = Errorf ''block height %d is above chain tip %d'' []"

definition NilCurrentChain :: error where
  "NilCurrentChain = Errorf ''current chain cannot be nil'' []"

definition NilCandidateChain :: error where
  "NilCandidateChain = Errorf ''candidate chain cannot be nil'' []"

definition NilCurrentState :: error where
  "NilCurrentState = Errorf ''current state cannot be nil'' []"

definition NilSourceChain :: error where
  "NilSourceChain = Errorf ''source chain cannot be nil'' []"

definition SourceChainEmpty :: error where
  "SourceChainEmpty = Errorf ''source chain has no blocks'' []"

definition SourceWrongGenesis :: "error \<Rightarrow> error" where
  "SourceWrongGenesis err = Wrapf ''source has wrong genesis block: %w'' [] err"

definition SourceBlockInvalid :: "error \<Rightarrow> error" where
  "SourceBlockInvalid err = Wrapf ''source block %d failed validation: %w'' [] err"

definition CandidateChainEmpty :: error where
  "CandidateChainEmpty = Errorf ''candidate chain has no blocks'' []"

definition CandidateWrongGenesis :: "error \<Rightarrow> error" where
  "CandidateWrongGenesis err = Wrapf ''candidate has wrong genesis block: %w'' [] err"

definition CandidateBlockInvalid :: "error \<Rightarrow> error" where
  "CandidateBlockInvalid err = Wrapf ''candidate block %d failed validation: %w'' [] err"

definition CandidateNetworkMismatch :: error where
  "CandidateNetworkMismatch = Errorf ''candidate network mismatch: current=%q candidate=%q'' []"

definition CandidatePolicyMismatch :: error where
  "CandidatePolicyMismatch = Errorf ''candidate proof-of-work policy mismatch: current=%+v candidate=%+v'' []"

definition CandidateInvalid :: "error \<Rightarrow> error" where
  "CandidateInvalid err = Wrapf ''candidate chain validation failed: %w'' [] err"

definition CandidateStateFailed :: "error \<Rightarrow> error" where
  "CandidateStateFailed err = Wrapf ''candidate state rebuild failed: %w'' [] err"

definition CrossNetworkForkChoice :: error where
  "CrossNetworkForkChoice = Errorf ''cross-network fork choice rejected: current=%q candidate=%q'' []"

definition NoCommonGenesis :: error where
  "NoCommonGenesis = Errorf ''chains do not share a common genesis'' []"

definition FinalizedHeightFailed :: "error \<Rightarrow> error" where
  "FinalizedHeightFailed err = Wrapf ''failed calculating finalized height: %w'' [] err"

definition CommonHeightFailed :: "error \<Rightarrow> error" where
  "CommonHeightFailed err = Wrapf ''failed calculating reorg common height: %w'' [] err"

definition ReorgDepthFailed :: "error \<Rightarrow> error" where
  "ReorgDepthFailed err = Wrapf ''failed calculating reorg depth: %w'' [] err"

definition FinalizedHistoryReplaced :: error where
  "FinalizedHistoryReplaced = Errorf ''candidate would replace finalized history: common height %d is below finalized height %d'' []"

definition ReorgTooDeep :: error where
  "ReorgTooDeep = Errorf ''reorganization depth %d exceeds maximum automatic depth %d'' []"

definition ReorgTooDeepAt :: "error \<Rightarrow> error" where
  "ReorgTooDeepAt err = Wrapf ''%w (common height %d)'' [] err"

definition BlockMissing :: error where
  "BlockMissing = Errorf ''block %d is missing'' []"

definition BlockHasNoMiner :: error where
  "BlockHasNoMiner = Errorf ''block %d has no miner address'' []"

definition ReplayFailed :: "error \<Rightarrow> error" where
  "ReplayFailed err = Wrapf ''failed replaying block %d: %w'' [] err"

definition ChainStatePolicyMismatch :: "error \<Rightarrow> error" where
  "ChainStatePolicyMismatch err = Wrapf ''current chain/state policy mismatch: %w'' [] err"

definition ChainReplaceFailed :: "error \<Rightarrow> error" where
  "ChainReplaceFailed err = Wrapf ''failed replacing chain: %w'' [] err"

definition StateReplaceFailed :: "error \<Rightarrow> error" where
  "StateReplaceFailed err = Wrapf ''failed replacing blockchain state: %w'' [] err"

section \<open>Mempool, block building and mining\<close>

definition NilMempool :: error where
  "NilMempool = Errorf ''mempool cannot be nil'' []"

definition TransactionRejected :: "error \<Rightarrow> error" where
  "TransactionRejected err = Wrapf ''transaction rejected: %w'' [] err"

definition TransactionExists :: "string \<Rightarrow> error" where
  "TransactionExists ident = Errorf ''transaction already exists: %s'' [ident]"

definition MempoolFull :: error where
  "MempoolFull = Errorf ''mempool transaction capacity reached'' []"

definition MempoolBytesFull :: error where
  "MempoolBytesFull = Errorf ''mempool byte capacity reached'' []"

definition MempoolSenderFull :: error where
  "MempoolSenderFull = Errorf ''mempool sender transaction capacity reached'' []"

definition SenderNoncePending :: "string \<Rightarrow> string \<Rightarrow> error" where
  "SenderNoncePending x0 x1 = Errorf ''sender nonce already pending: sender=%s nonce=%d transaction=%s'' [x0, x1]"

definition NilCandidateTransaction :: error where
  "NilCandidateTransaction = Errorf ''candidate transaction cannot be nil'' []"

definition NilMempoolTransaction :: error where
  "NilMempoolTransaction = Errorf ''mempool contains nil transaction'' []"

definition AlreadyInMempool :: "string \<Rightarrow> error" where
  "AlreadyInMempool ident = Errorf ''transaction already exists in mempool: %s'' [ident]"

definition PendingTransactionInvalid :: "string \<Rightarrow> error \<Rightarrow> error" where
  "PendingTransactionInvalid ident err = Wrapf ''existing sender mempool transaction %s is invalid: %w'' [ident] err"

definition RejectedByMempool :: "error \<Rightarrow> error" where
  "RejectedByMempool err = Wrapf ''transaction rejected by mempool: %w'' [] err"

definition ZeroMaxAttempts :: error where
  "ZeroMaxAttempts = Errorf ''max mining attempts must be greater than zero'' []"

definition InvalidChainNetwork :: "error \<Rightarrow> error" where
  "InvalidChainNetwork err = Wrapf ''invalid chain network identity: %w'' [] err"

definition ChainStateMismatch :: "error \<Rightarrow> error" where
  "ChainStateMismatch err = Wrapf ''chain/state monetary policy mismatch: %w'' [] err"

definition CandidateBlockFailed :: "error \<Rightarrow> error" where
  "CandidateBlockFailed err = Wrapf ''failed to build candidate block: %w'' [] err"

definition MiningDifficultyFailed :: "error \<Rightarrow> error" where
  "MiningDifficultyFailed err = Wrapf ''failed calculating mining difficulty: %w'' [] err"

definition NoValidNonce :: error where
  "NoValidNonce = Errorf ''no valid nonce found after %d attempts'' []"

definition MinedBlockInvalid :: "error \<Rightarrow> error" where
  "MinedBlockInvalid err = Wrapf ''mined block failed validation: %w'' [] err"

definition MinedBlockUnprocessable :: "error \<Rightarrow> error" where
  "MinedBlockUnprocessable err = Wrapf ''failed to process mined block: %w'' [] err"

definition MinedBlockNotAdded :: "error \<Rightarrow> error" where
  "MinedBlockNotAdded err = Wrapf ''failed to add mined block to chain: %w'' [] err"

definition StateCommitFailed :: "error \<Rightarrow> error" where
  "StateCommitFailed err = Wrapf ''failed to commit blockchain state: %w'' [] err"

section \<open>Storage\<close>

definition EmptyStoragePath :: error where
  "EmptyStoragePath = Errorf ''storage path cannot be empty'' []"

definition StorageDirFailed :: "error \<Rightarrow> error" where
  "StorageDirFailed err = Wrapf ''failed to create storage directory: %w'' [] err"

definition ChainEncodeFailed :: "error \<Rightarrow> error" where
  "ChainEncodeFailed err = Wrapf ''failed to encode blockchain: %w'' [] err"

definition ChainWriteFailed :: "error \<Rightarrow> error" where
  "ChainWriteFailed err = Wrapf ''failed to write blockchain: %w'' [] err"

definition ChainFinalizeFailed :: "error \<Rightarrow> error" where
  "ChainFinalizeFailed err = Wrapf ''failed to finalize blockchain file: %w'' [] err"

definition ChainReadFailed :: "error \<Rightarrow> error" where
  "ChainReadFailed err = Wrapf ''failed to read blockchain file: %w'' [] err"

definition ChainDecodeFailed :: "error \<Rightarrow> error" where
  "ChainDecodeFailed err = Wrapf ''failed to decode blockchain: %w'' [] err"

definition ChainFileEmpty :: error where
  "ChainFileEmpty = Errorf ''blockchain file contains no blocks'' []"

definition StoredGenesisNil :: error where
  "StoredGenesisNil = Errorf ''invalid genesis block'' []"

definition StoredGenesisInvalid :: "error \<Rightarrow> error" where
  "StoredGenesisInvalid err = Wrapf ''invalid genesis block: %w'' [] err"

definition StoredBlockInvalid :: "error \<Rightarrow> error" where
  "StoredBlockInvalid err = Wrapf ''invalid stored block at height %d: %w'' [] err"

definition EmptyStatePath :: error where
  "EmptyStatePath = Errorf ''state file path cannot be empty'' []"

definition StateEncodeFailed :: "error \<Rightarrow> error" where
  "StateEncodeFailed err = Wrapf ''failed to encode blockchain state: %w'' [] err"

definition StateDirFailed :: "error \<Rightarrow> error" where
  "StateDirFailed err = Wrapf ''failed to create state directory: %w'' [] err"

definition StateTempWriteFailed :: "error \<Rightarrow> error" where
  "StateTempWriteFailed err = Wrapf ''failed to write temporary state file: %w'' [] err"

definition StateOldReplaceFailed :: "error \<Rightarrow> error" where
  "StateOldReplaceFailed err = Wrapf ''failed to replace old state file: %w'' [] err"

definition StateFinalizeFailed :: "error \<Rightarrow> error" where
  "StateFinalizeFailed err = Wrapf ''failed to finalize state file: %w'' [] err"

definition StateDecodeFailed :: "error \<Rightarrow> error" where
  "StateDecodeFailed err = Wrapf ''failed to decode blockchain state: %w'' [] err"

definition UnsupportedStateVersion :: error where
  "UnsupportedStateVersion = Errorf ''unsupported state version: %d'' []"

definition StatePolicyInvalid :: "error \<Rightarrow> error" where
  "StatePolicyInvalid err = Wrapf ''invalid monetary policy in state file: %w'' [] err"

definition StateTreasuryInvalid :: error where
  "StateTreasuryInvalid = Errorf ''invalid development treasury address in state file'' []"

definition StateSupplyInvalid :: error where
  "StateSupplyInvalid = Errorf ''state issued supply exceeds monetary policy maximum supply'' []"

definition SyscallFailed :: error where
  "SyscallFailed = Errorf ''system call failed'' []"

definition FileNotFound :: error where
  "FileNotFound = Errorf ''file does not exist'' []"

definition JSONInvalid :: error where
  "JSONInvalid = Errorf ''invalid JSON'' []"

section \<open>Gpu proof of work\<close>

definition ZeroCacheNodes :: error where
  "ZeroCacheNodes = Errorf ''Khushi verifier cache node count must be positive'' []"

end
