(* ===== verification/Prelude.thy ===== *)
theory Prelude
  imports Errors "HOL-Library.Word" "HOL-Library.Multiset" "HOL-Library.Char_ord"
    "HOL-Library.List_Lexorder"
begin

text \<open>
  The shared base of the development: the machine types of the Go sources, the result
  type of a stateful call, byte and text encodings of the Go standard library that
  the node uses (hexadecimal, decimal, big-endian integers), and the generic lemmas on words,
  maps and lists that the component theories build on.

  Conventions. \<open>uint64\<close> and \<open>uint32\<close> are \<open>64 word\<close> and \<open>32 word\<close>, whose
  arithmetic wraps as Go's does. \<open>int64\<close> is \<open>int\<close> with the wrap-around written out by
  \<open>wrap64\<close>. \<open>*big.Int\<close> is \<open>int\<close>; a Go \<open>int\<close> that holds a length or a byte count is
  \<open>nat\<close>. A Go string is a \<open>string\<close> (one \<open>char\<close> per byte) and a \<open>[]byte\<close> is a list of
  \<open>8 word\<close>. A pointer the code compares with \<open>nil\<close> is an \<open>option\<close>. A Go map is a
  partial function; reading a missing key gives the zero value through \<open>goget\<close>. A call that
  mutates an object returns the object after the call beside its result, in the error case too,
  so that partial mutation is visible.
\<close>

unbundle bit_operations_syntax

named_theorems word_nat \<open>facts that move word arithmetic to natural numbers\<close>
named_theorems go_const \<open>the values of the constants of package params\<close>
named_theorems effect \<open>what the operations of the components leave unchanged\<close>

section \<open>Types\<close>

type_synonym u8 = "8 word"
type_synonym u32 = "32 word"
type_synonym u64 = "64 word"
type_synonym i64 = int
type_synonym bytes = "8 word list"

abbreviation MaxUint64 :: u64 where
  "MaxUint64 \<equiv> NOT 0"

abbreviation MaxUint32 :: u32 where
  "MaxUint32 \<equiv> NOT 0"

text \<open>Wrap-around of a signed 64-bit result.\<close>

definition wrap64 :: "int \<Rightarrow> i64" where
  "wrap64 x = (x + 2 ^ 63) mod 2 ^ 64 - 2 ^ 63"

section \<open>Results of calls\<close>

text \<open>A fallible call returns \<open>error + 'a\<close>; a fallible call on a mutable object returns the
  object as the call leaves it together with its result.\<close>

type_synonym 'a result = "error + 'a"
type_synonym ('s, 'a) outcome = "'s \<times> (error + 'a)"

definition is_ok :: "'a result \<Rightarrow> bool" where
  "is_ok r = (case r of Inl _ \<Rightarrow> False | Inr _ \<Rightarrow> True)"

lemma is_ok_simps [simp]: "\<not> is_ok (Inl e)" "is_ok (Inr x)"
  by (simp_all add: is_ok_def)

lemma is_ok_iff: "is_ok r \<longleftrightarrow> (\<exists>x. r = Inr x)"
  by (cases r) auto

text \<open>A call on an object behind a pointer the code compares with \<open>nil\<close> first.\<close>

definition on_object ::
  "error \<Rightarrow> ('s \<Rightarrow> ('s, 'a) outcome) \<Rightarrow> 's option \<Rightarrow> ('s option, 'a) outcome" where
  "on_object err f p =
     (case p of None \<Rightarrow> (None, Inl err) | Some s \<Rightarrow> (case f s of (t, r) \<Rightarrow> (Some t, r)))"

lemma on_object_None [simp]: "on_object err f None = (None, Inl err)"
  by (simp add: on_object_def)

lemma on_object_Some [simp]: "on_object err f (Some s) = (case f s of (t, r) \<Rightarrow> (Some t, r))"
  by (simp add: on_object_def)

section \<open>Unsigned words\<close>

lemma unat_less_64: "unat (a :: u64) < 18446744073709551616"
  using unsigned_less [of a] by simp

lemma unat_less_32: "unat (a :: u32) < 4294967296"
  using unsigned_less [of a] by simp

lemma unat_of_nat_64: "n < 2 ^ 64 \<Longrightarrow> unat (of_nat n :: u64) = n"
  by (simp add: unat_of_nat)

lemma unat_minus_one_64 [simp]: "unat (- 1 :: u64) = 18446744073709551615"
  by (simp add: unsigned_minus_1_eq_mask mask_eq_exp_minus_1)

lemma unat_minus_one_32 [simp]: "unat (- 1 :: u32) = 4294967295"
  by (simp add: unsigned_minus_1_eq_mask mask_eq_exp_minus_1)

text \<open>The overflow guard of the code, \<open>a > ^uint64(0) - b\<close>, is exactly the overflow of
  \<open>a + b\<close>.\<close>

lemma overflow_guard_iff:
  "a > MaxUint64 - b \<longleftrightarrow> 2 ^ 64 \<le> unat a + unat (b :: u64)"
proof -
  have "unat (MaxUint64 - b) = 18446744073709551615 - unat b"
    by (subst unat_sub) simp_all
  moreover have "(2 :: nat) ^ 64 = 18446744073709551616" by simp
  ultimately show ?thesis
    unfolding word_less_nat_alt using unat_less_64 [of b] by linarith
qed

lemma unat_add_no_overflow:
  "\<not> a > MaxUint64 - b \<Longrightarrow> unat (a + b) = unat a + unat (b :: u64)"
  unfolding overflow_guard_iff by (simp add: unat_plus_if')

lemma unat_add_bounded:
  "unat a + unat b < 2 ^ 64 \<Longrightarrow> unat (a + b) = unat a + unat (b :: u64)"
  by (simp add: unat_plus_if')

lemma unat_sub_bounded: "\<not> a < b \<Longrightarrow> unat (a - b) = unat a - unat (b :: u64)"
  by (simp add: unat_sub)

lemma unat_next_64: "i < m \<Longrightarrow> unat (i + 1) = unat i + 1" for i m :: u64
  using unat_less_64 [of m] unat_add_bounded [of i 1] by (simp add: word_less_nat_alt)

lemma unat_at_least_one:
  "unat (if x = 0 then 1 else x) = max 1 (unat (x :: 'a :: len word))"
  by (cases "unat x") (auto simp: unat_eq_0)

section \<open>Maps with a zero value\<close>

definition goget :: "('k \<rightharpoonup> 'v) \<Rightarrow> 'k \<Rightarrow> 'v \<Rightarrow> 'v" where
  "goget m k z = (case m k of None \<Rightarrow> z | Some v \<Rightarrow> v)"

lemma goget_upd [simp]: "goget (m(k \<mapsto> v)) k' z = (if k' = k then v else goget m k' z)"
  by (simp add: goget_def)

lemma goget_empty [simp]: "goget Map.empty k z = z"
  by (simp add: goget_def)

text \<open>The sum of all amounts of a map. Only keys with an entry count; a missing key reads 0.\<close>

definition map_total :: "('k \<rightharpoonup> u64) \<Rightarrow> nat" where
  "map_total m = (\<Sum>k\<in>dom m. unat (goget m k 0))"

lemma map_total_empty [simp]: "map_total Map.empty = 0"
  by (simp add: map_total_def)

lemma map_total_upd:
  assumes "finite (dom m)"
  shows "map_total (m(k \<mapsto> v)) + unat (goget m k 0) = map_total m + unat v"
proof -
  have split: "map_total m = unat (goget m k 0) + (\<Sum>j\<in>dom m - {k}. unat (goget m j 0))"
  proof (cases "k \<in> dom m")
    case True
    then show ?thesis
      using assms by (simp add: map_total_def sum.remove)
  next
    case False
    then have "goget m k 0 = 0" by (simp add: goget_def domIff)
    with False show ?thesis by (simp add: map_total_def)
  qed
  have "map_total (m(k \<mapsto> v)) = unat v + (\<Sum>j\<in>dom m - {k}. unat (goget m j 0))"
    using assms by (simp add: map_total_def sum.insert_remove)
  with split show ?thesis by simp
qed

lemma goget_le_map_total:
  assumes "finite (dom m)"
  shows "unat (goget m k 0) \<le> map_total m"
proof (cases "k \<in> dom m")
  case True
  then show ?thesis
    using assms unfolding map_total_def by (intro member_le_sum) auto
next
  case False
  then show ?thesis by (simp add: goget_def domIff)
qed

section \<open>Text encodings\<close>

text \<open>\<open>[]byte(s)\<close>: the bytes of a string.\<close>

definition bytes_of :: "string \<Rightarrow> bytes" where
  "bytes_of s = map (\<lambda>c. of_nat (of_char c)) s"

lemma length_bytes_of [simp]: "length (bytes_of s) = length s"
  by (simp add: bytes_of_def)

lemma bytes_of_append [simp]: "bytes_of (s @ t) = bytes_of s @ bytes_of t"
  by (simp add: bytes_of_def)

lemma byte_of_char_inj: "inj (\<lambda>c. of_nat (of_char c) :: u8)"
proof (rule injI)
  fix c d :: char
  assume "(of_nat (of_char c) :: u8) = of_nat (of_char d)"
  then have "unat (of_nat (of_char c) :: u8) = unat (of_nat (of_char d) :: u8)" by simp
  then have "(of_char c :: nat) = of_char d"
    by (simp add: unat_of_nat nat_of_char_less_256)
  then show "c = d" by simp
qed

lemma bytes_of_eq_iff [simp]: "bytes_of s = bytes_of t \<longleftrightarrow> s = t"
  by (simp add: bytes_of_def inj_map_eq_map [OF byte_of_char_inj])

text \<open>\<open>binary.BigEndian.PutUint32\<close> and \<open>PutUint64\<close>.\<close>

definition be32 :: "u32 \<Rightarrow> bytes" where
  "be32 w = map (\<lambda>i. ucast (drop_bit (8 * i) w)) [3, 2, 1, 0]"

definition be64 :: "u64 \<Rightarrow> bytes" where
  "be64 w = map (\<lambda>i. ucast (drop_bit (8 * i) w)) [7, 6, 5, 4, 3, 2, 1, 0]"

lemma length_be32 [simp]: "length (be32 w) = 4"
  by (simp add: be32_def)

lemma length_be64 [simp]: "length (be64 w) = 8"
  by (simp add: be64_def)

text \<open>Reading the bytes back, most significant first (\<open>big.Int.SetBytes\<close>).\<close>

definition be_nat :: "bytes \<Rightarrow> nat" where
  "be_nat bs = fold (\<lambda>b n. 256 * n + unat b) bs 0"

text \<open>\<open>hex.EncodeToString\<close> and \<open>hex.DecodeString\<close>.\<close>

definition hex_digit :: "nat \<Rightarrow> char" where
  "hex_digit n = (if n < 10 then char_of (48 + n) else char_of (87 + n))"

definition hex_encode :: "bytes \<Rightarrow> string" where
  "hex_encode bs = concat (map (\<lambda>b. [hex_digit (unat b div 16), hex_digit (unat b mod 16)]) bs)"

definition hex_value :: "char \<Rightarrow> nat option" where
  "hex_value c = (let n = of_char c :: nat in
     if 48 \<le> n \<and> n \<le> 57 then Some (n - 48)
     else if 97 \<le> n \<and> n \<le> 102 then Some (n - 87)
     else if 65 \<le> n \<and> n \<le> 70 then Some (n - 55) else None)"

fun hex_decode :: "string \<Rightarrow> bytes option" where
  "hex_decode [] = Some []"
| "hex_decode [c] = None"
| "hex_decode (c # d # s) =
     (case (hex_value c, hex_value d, hex_decode s) of
        (Some a, Some b, Some bs) \<Rightarrow> Some (of_nat (16 * a + b) # bs)
      | _ \<Rightarrow> None)"

text \<open>The characters \<open>0-9a-f\<close>.\<close>

definition is_lower_hex :: "char \<Rightarrow> bool" where
  "is_lower_hex c = (let n = of_char c :: nat in (48 \<le> n \<and> n \<le> 57) \<or> (97 \<le> n \<and> n \<le> 102))"

text \<open>The verb \<open>%d\<close> of a non-negative number.\<close>

fun dec :: "nat \<Rightarrow> string" where
  "dec n = (if n < 10 then [char_of (48 + n)] else dec (n div 10) @ [char_of (48 + n mod 10)])"

declare dec.simps [simp del]

section \<open>Injectivity of the encodings\<close>

lemma dec_not_Nil [simp]: "dec n \<noteq> []"
  by (subst dec.simps) simp

lemma digit_char_eq_iff:
  "m < 10 \<Longrightarrow> n < 10 \<Longrightarrow> (char_of (48 + m :: nat) = (char_of (48 + n) :: char)) = (m = n)"
  by (auto simp: char_of_eq_iff take_bit_eq_mod)

lemma dec_eq_iff [simp]: "dec m = dec n \<longleftrightarrow> m = n"
proof
  show "dec m = dec n \<Longrightarrow> m = n"
  proof (induction m arbitrary: n rule: less_induct)
    case (less m)
    show ?case
    proof (cases "m < 10 \<or> n < 10")
      case True
      with less.prems show ?thesis
        by (auto simp: dec.simps [of m] dec.simps [of n] digit_char_eq_iff append_eq_Cons_conv
            Cons_eq_append_conv split: if_splits)
    next
      case False
      with less.prems have "dec (m div 10) = dec (n div 10)"
        and "(char_of (48 + m mod 10) :: char) = char_of (48 + n mod 10)"
        by (simp_all add: dec.simps [of m] dec.simps [of n])
      then have "m div 10 = n div 10" "m mod 10 = n mod 10"
        using less.IH [of "m div 10" "n div 10"] False by (simp_all add: digit_char_eq_iff)
      then show ?thesis by (metis div_mod_decomp)
    qed
  qed
qed simp

lemma set_dec: "c \<in> set (dec n) \<Longrightarrow> (48 :: nat) \<le> of_char c \<and> of_char c \<le> (57 :: nat)"
proof (induction n rule: dec.induct)
  case (1 n)
  then show ?case
    by (cases "n < 10") (auto simp: dec.simps [of n] of_char_of)
qed

lemma separator_split:
  "c \<notin> set xs \<Longrightarrow> c \<notin> set xs' \<Longrightarrow> xs @ c # ys = xs' @ c # ys' \<longleftrightarrow> xs = xs' \<and> ys = ys'"
proof (induction xs arbitrary: xs')
  case Nil
  then show ?case by (cases xs') auto
next
  case (Cons x xs)
  then show ?case by (cases xs') auto
qed

lemma hex_digit_eq_iff: "m < 16 \<Longrightarrow> n < 16 \<Longrightarrow> hex_digit m = hex_digit n \<longleftrightarrow> m = n"
  by (auto simp: hex_digit_def char_of_eq_iff take_bit_eq_mod split: if_splits)

lemma hex_digit_lower: "n < 16 \<Longrightarrow> is_lower_hex (hex_digit n)"
  by (auto simp: hex_digit_def is_lower_hex_def of_char_of Let_def)

lemma byte_nibbles_bound: "unat (b :: u8) div 16 < 16"
proof -
  have "unat b < 2 ^ LENGTH(8)" by (rule unsigned_less)
  then show ?thesis by simp
qed

lemma hex_encode_Cons:
  "hex_encode (b # bs) = hex_digit (unat b div 16) # hex_digit (unat b mod 16) # hex_encode bs"
  by (simp add: hex_encode_def)

lemma hex_encode_Nil [simp]: "hex_encode [] = []"
  by (simp add: hex_encode_def)

lemma length_hex_encode [simp]: "length (hex_encode bs) = 2 * length bs"
  by (induction bs) (simp_all add: hex_encode_Cons)

lemma hex_encode_lower: "list_all is_lower_hex (hex_encode bs)"
  by (induction bs) (simp_all add: hex_encode_Cons hex_digit_lower byte_nibbles_bound)

lemma hex_encode_eq_iff [simp]: "hex_encode as = hex_encode bs \<longleftrightarrow> as = bs"
proof
  show "hex_encode as = hex_encode bs \<Longrightarrow> as = bs"
  proof (induction as arbitrary: bs)
    case Nil
    then show ?case by (cases bs) (simp_all add: hex_encode_Cons)
  next
    case (Cons a as)
    then obtain b bs' where bs: "bs = b # bs'"
      by (cases bs) (simp_all add: hex_encode_Cons)
    with Cons.prems have "unat a div 16 = unat b div 16" "unat a mod 16 = unat b mod 16"
      "hex_encode as = hex_encode bs'"
      by (simp_all add: hex_encode_Cons hex_digit_eq_iff byte_nibbles_bound)
    then have "a = b" by (metis div_mod_decomp word_unat_eq_iff)
    with bs Cons.IH [of bs'] \<open>hex_encode as = hex_encode bs'\<close> show ?case by simp
  qed
qed simp

lemma hex_value_digit: "n < 16 \<Longrightarrow> hex_value (hex_digit n) = Some n"
  by (auto simp: hex_value_def hex_digit_def of_char_of Let_def)

lemma hex_decode_encode [simp]: "hex_decode (hex_encode bs) = Some bs"
proof (induction bs)
  case Nil
  show ?case by simp
next
  case (Cons b bs)
  have "(of_nat (16 * (unat b div 16) + unat b mod 16) :: u8) = b" by simp
  with Cons show ?case
    by (simp add: hex_encode_Cons hex_value_digit byte_nibbles_bound)
qed

section \<open>Iteration over maps\<close>

text \<open>Go does not specify the order in which \<open>range\<close> visits a map. A Go map that the code iterates
  over is an association list, and the order is a function that permutes it.\<close>

definition visits_all :: "('a list \<Rightarrow> 'a list) \<Rightarrow> bool" where
  "visits_all iter \<longleftrightarrow> (\<forall>xs. mset (iter xs) = mset xs)"

lemma visits_all_set: "visits_all iter \<Longrightarrow> set (iter xs) = set xs"
  by (metis visits_all_def mset_eq_setD)

lemma visits_all_map: "visits_all iter \<Longrightarrow> mset (map f (iter xs)) = mset (map f xs)"
  by (simp add: visits_all_def)

lemma visits_all_length: "visits_all iter \<Longrightarrow> length (iter xs) = length xs"
  by (metis visits_all_def size_mset)

text \<open>Sorting by a key that tells the elements apart does not depend on the order they come in.\<close>

lemma sort_key_unique:
  assumes "mset xs = mset ys" "inj_on f (set xs)"
  shows "sort_key f xs = sort_key f ys"
  by (rule sort_key_inj_key_eq [OF _ assms(2)]) (simp_all add: assms(1))

section \<open>Trimming\<close>

text \<open>\<open>strings.TrimSpace\<close>: the encodings of the Unicode white space characters are removed at both
  ends.\<close>

definition space_codes :: "string list" where
  "space_codes = map (map char_of)
     ([[9], [10], [11], [12], [13], [32], [0xC2, 0x85], [0xC2, 0xA0], [0xE1, 0x9A, 0x80],
       [0xE2, 0x80, 0xA8], [0xE2, 0x80, 0xA9], [0xE2, 0x80, 0xAF], [0xE2, 0x81, 0x9F], [0xE3, 0x80, 0x80]]
      @ map (\<lambda>k. [0xE2, 0x80, 0x80 + k]) [0 :: nat ..< 11])"

definition starts_with :: "string list \<Rightarrow> string \<Rightarrow> nat" where
  "starts_with codes s =
     (case List.find (\<lambda>c. c \<noteq> [] \<and> take (length c) s = c) codes of None \<Rightarrow> 0 | Some c \<Rightarrow> length c)"

function trim_left :: "string list \<Rightarrow> string \<Rightarrow> string" where
  "trim_left codes s =
     (if 0 < starts_with codes s \<and> s \<noteq> [] then trim_left codes (drop (starts_with codes s) s) else s)"
  by pat_completeness auto
termination by (relation "measure (\<lambda>(codes, s). length s)") auto

declare trim_left.simps [simp del]

definition TrimSpace :: "string \<Rightarrow> string" where
  "TrimSpace s = rev (trim_left (map rev space_codes) (rev (trim_left space_codes s)))"

definition printable :: "char \<Rightarrow> bool" where
  "printable c \<longleftrightarrow> 32 < (of_char c :: nat) \<and> (of_char c :: nat) < 128"

lemma trim_left_plain:
  assumes "\<forall>c\<in>set codes. c \<noteq> [] \<longrightarrow> \<not> printable (hd c)" "s \<noteq> [] \<Longrightarrow> printable (hd s)"
  shows "trim_left codes s = s"
proof (cases s)
  case Nil
  then show ?thesis by (subst trim_left.simps) simp
next
  case (Cons a t)
  have "\<not> (c \<noteq> [] \<and> take (length c) s = c)" if "c \<in> set codes" for c
    using assms that Cons by (cases c) auto
  then have "List.find (\<lambda>c. c \<noteq> [] \<and> take (length c) s = c) codes = None"
    by (simp add: find_None_iff)
  then show ?thesis by (subst trim_left.simps) (simp add: starts_with_def)
qed

lemma space_codes_ends:
  "\<forall>c\<in>set space_codes. c \<noteq> [] \<longrightarrow> \<not> printable (hd c)"
  "\<forall>c\<in>set (map rev space_codes). c \<noteq> [] \<longrightarrow> \<not> printable (hd c)"
  by (simp_all add: space_codes_def printable_def)

text \<open>A string that begins and ends with a printable ASCII character is left as it is.\<close>

lemma TrimSpace_plain:
  assumes "printable (hd s)" "printable (last s)"
  shows "TrimSpace s = s"
proof -
  have "trim_left space_codes s = s" by (rule trim_left_plain [OF space_codes_ends(1)]) (rule assms)
  moreover have "trim_left (map rev space_codes) (rev s) = rev s"
    by (rule trim_left_plain [OF space_codes_ends(2)]) (simp add: hd_rev assms)
  ultimately show ?thesis by (simp add: TrimSpace_def)
qed

end
