(* ===== verification/Params.thy ===== *)
theory Params
  imports Prelude
begin

text \<open>
  Package \<open>params\<close>: the consensus constants, the two monetary policies with the mainnet emission
  table, the network identities and the mapping between networks and policies, the resource
  limits, and the launch-readiness gates.
\<close>

section \<open>Constants\<close>

definition NetworkName :: string where
  "NetworkName = ''Sudharma Network''"

definition CoinName :: string where
  "CoinName = ''Sudharma''"

definition CoinSymbol :: string where
  "CoinSymbol = ''SUDH''"

definition CoinDecimals :: u64 where
  [go_const]: "CoinDecimals = 100000000"

definition MaxSupplySUDH :: u64 where
  [go_const]: "MaxSupplySUDH = 51000000000"

definition MaxSupply :: u64 where
  [go_const]: "MaxSupply = MaxSupplySUDH * CoinDecimals"

definition TargetBlockTimeSeconds :: u64 where
  [go_const]: "TargetBlockTimeSeconds = 60"

definition MaxAutomaticReorgDepth :: u64 where
  [go_const]: "MaxAutomaticReorgDepth = 120"

definition InitialBlockReward :: u64 where
  [go_const]: "InitialBlockReward = 50 * CoinDecimals"

definition HalvingInterval :: u64 where
  [go_const]: "HalvingInterval = 1000000"

definition DevelopmentTreasuryAddress :: string where
  "DevelopmentTreasuryAddress = ''16d7dc9ec0495109007860a584c7cf9055da9abf''"

section \<open>Monetary policies\<close>

type_synonym monetary_policy = u8

definition MonetaryPolicyPublicTestnet :: monetary_policy where
  [go_const]: "MonetaryPolicyPublicTestnet = 1"

definition MonetaryPolicyMainnet :: monetary_policy where
  [go_const]: "MonetaryPolicyMainnet = 2"

definition MainnetMaxSupply :: u64 where
  [go_const]: "MainnetMaxSupply = 51000000 * CoinDecimals"

definition MainnetFinalSubsidyHeight :: u64 where
  [go_const]: "MainnetFinalSubsidyHeight = 5259600"

definition MainnetEpochLength :: u64 where
  [go_const]: "MainnetEpochLength = 131490"

definition MainnetEpochCount :: u64 where
  [go_const]: "MainnetEpochCount = 40"

definition ValidateMonetaryPolicy :: "monetary_policy \<Rightarrow> unit result" where
  "ValidateMonetaryPolicy policy =
     (if policy = MonetaryPolicyPublicTestnet \<or> policy = MonetaryPolicyMainnet then Inr ()
      else Inl UnknownMonetaryPolicy)"

definition MaxSupplyFor :: "monetary_policy \<Rightarrow> u64" where
  "MaxSupplyFor policy =
     (if policy = MonetaryPolicyMainnet then MainnetMaxSupply
      else if policy = MonetaryPolicyPublicTestnet then MaxSupply
      else 0)"

record EmissionEpoch =
  Issuance :: u64

definition MainnetEmissionEpochs :: "EmissionEpoch list" where
  "MainnetEmissionEpochs = map (\<lambda>n. \<lparr>Issuance = n * CoinDecimals\<rparr>)
     [2101200, 2060400, 2019600, 1978800,
      1838550, 1802850, 1767150, 1731450,
      1707225, 1674075, 1640925, 1607775,
      1575900, 1545300, 1514700, 1484100,
      1444575, 1416525, 1388475, 1360425,
      1313250, 1287750, 1262250, 1236750,
      1050600, 1030200, 1009800, 989400,
      919275, 901425, 883575, 865725,
      656625, 643875, 631125, 618375,
      525300, 515100, 504900, 494700]"

section \<open>Networks\<close>

type_synonym network_id = string

definition NetworkPublicTestnet :: network_id where
  [go_const]: "NetworkPublicTestnet = ''sudharma-testnet-1''"

definition NetworkMainnet :: network_id where
  [go_const]: "NetworkMainnet = ''sudharma-mainnet-1''"

definition DefaultNetwork :: network_id where
  [go_const]: "DefaultNetwork = NetworkPublicTestnet"

definition MainnetLaunchAuthorized :: bool where
  [go_const]: "MainnetLaunchAuthorized = False"

definition MainnetGenesisTimestamp :: u64 where
  [go_const]: "MainnetGenesisTimestamp = 0"

definition ParseNetwork :: "string \<Rightarrow> network_id result" where
  "ParseNetwork raw =
     (if raw \<in> {'''', ''public-testnet'', ''testnet'', NetworkPublicTestnet}
      then Inr NetworkPublicTestnet
      else if raw \<in> {''mainnet'', NetworkMainnet}
      then (if \<not> MainnetLaunchAuthorized then Inl MainnetLaunchNotAuthorized
            else Inr NetworkMainnet)
      else Inl UnknownNetwork)"

definition MonetaryPolicyFor :: "network_id \<Rightarrow> monetary_policy result" where
  "MonetaryPolicyFor network =
     (if network = NetworkPublicTestnet then Inr MonetaryPolicyPublicTestnet
      else if network = NetworkMainnet then Inr MonetaryPolicyMainnet
      else Inl UnknownNetwork)"

definition NetworkForMonetaryPolicy :: "monetary_policy \<Rightarrow> network_id result" where
  "NetworkForMonetaryPolicy policy =
     (if policy = MonetaryPolicyPublicTestnet then Inr NetworkPublicTestnet
      else if policy = MonetaryPolicyMainnet then Inr NetworkMainnet
      else Inl UnknownMonetaryPolicy)"

section \<open>Proof-of-work activation\<close>

definition GPUV1ActivationDisabled :: u64 where
  [go_const]: "GPUV1ActivationDisabled = NOT 0"

definition GPUV1TestnetActivationHeight :: u64 where
  [go_const]: "GPUV1TestnetActivationHeight = GPUV1ActivationDisabled"

definition GPUV1MainnetActivationHeight :: u64 where
  [go_const]: "GPUV1MainnetActivationHeight = GPUV1ActivationDisabled"

section \<open>Resource limits\<close>

definition MinTransferAmount :: u64 where
  [go_const]: "MinTransferAmount = 1000"

definition MaxTransactionIDLength :: nat where
  [go_const]: "MaxTransactionIDLength = 64"

definition MaxTransactionPublicKeySize :: nat where
  [go_const]: "MaxTransactionPublicKeySize = 65"

definition MaxTransactionSignatureSize :: nat where
  [go_const]: "MaxTransactionSignatureSize = 64"

definition MaxTransactionSerializedBytes :: nat where
  [go_const]: "MaxTransactionSerializedBytes = 1024"

definition MaxMempoolTransactions :: nat where
  [go_const]: "MaxMempoolTransactions = 4096"

definition MaxMempoolBytes :: nat where
  [go_const]: "MaxMempoolBytes = 4 * 1024 * 1024"

definition MaxMempoolTransactionsPerSender :: nat where
  [go_const]: "MaxMempoolTransactionsPerSender = 64"

definition MaxBlockTransactions :: nat where
  [go_const]: "MaxBlockTransactions = 1000"

definition MaxBlockTransactionBytes :: nat where
  [go_const]: "MaxBlockTransactionBytes = 1024 * 1024"

section \<open>Policies and networks correspond\<close>

lemma ValidateMonetaryPolicy_ok_iff:
  "ValidateMonetaryPolicy p = Inr () \<longleftrightarrow>
     p = MonetaryPolicyPublicTestnet \<or> p = MonetaryPolicyMainnet"
  by (simp add: ValidateMonetaryPolicy_def)

lemma policies_distinct [simp]:
  "MonetaryPolicyPublicTestnet \<noteq> MonetaryPolicyMainnet"
  "MonetaryPolicyMainnet \<noteq> MonetaryPolicyPublicTestnet"
  by (simp_all add: go_const)

lemma networks_distinct [simp]:
  "NetworkPublicTestnet \<noteq> NetworkMainnet" "NetworkMainnet \<noteq> NetworkPublicTestnet"
  by (simp_all add: go_const)

lemma NetworkForMonetaryPolicy_inverse:
  "NetworkForMonetaryPolicy p = Inr n \<longleftrightarrow> MonetaryPolicyFor n = Inr p"
  by (auto simp: NetworkForMonetaryPolicy_def MonetaryPolicyFor_def)

lemma MonetaryPolicyFor_valid:
  "MonetaryPolicyFor n = Inr p \<Longrightarrow> ValidateMonetaryPolicy p = Inr ()"
  by (auto simp: MonetaryPolicyFor_def ValidateMonetaryPolicy_def split: if_splits)

lemma unat_MaxSupplyFor_bound: "unat (MaxSupplyFor p) \<le> 5100000000000000000"
  by (simp add: MaxSupplyFor_def go_const)

end
