(* ===== verification/Wallet.thy ===== *)
theory Wallet
  imports Params
begin

text \<open>
  Package \<open>wallet\<close>: addresses, key pairs, signing and verification. The hash and the elliptic
  curve operations of the Go standard library are the fields of a record that every definition
  using them takes as its argument; the lemmas hold for every choice of them. Randomness is an
  explicit argument.
\<close>

section \<open>Cryptographic operations\<close>

record crypto =
  sha256 :: "bytes \<Rightarrow> bytes"
  p256_order :: nat
  p256_base_mult :: "nat \<Rightarrow> nat \<times> nat"
  p256_marshal :: "nat \<times> nat \<Rightarrow> bytes"
  p256_unmarshal :: "bytes \<Rightarrow> (nat \<times> nat) option"
  ecdsa_generate :: "nat \<Rightarrow> (nat \<times> (nat \<times> nat)) option"
  ecdsa_sign :: "nat \<Rightarrow> nat \<Rightarrow> bytes \<Rightarrow> (nat \<times> nat) option"
  ecdsa_verify :: "nat \<times> nat \<Rightarrow> bytes \<Rightarrow> nat \<Rightarrow> nat \<Rightarrow> bool"

text \<open>\<open>sha256.Sum256\<close> returns 32 bytes.\<close>

definition hash_size_ok :: "crypto \<Rightarrow> bool" where
  "hash_size_ok C \<longleftrightarrow> (\<forall>x. length (sha256 C x) = 32)"

section \<open>Addresses\<close>

definition AddressLength :: nat where
  [go_const]: "AddressLength = 40"

definition ValidateAddress :: "string \<Rightarrow> unit result" where
  "ValidateAddress address =
     (if length address = AddressLength \<and> list_all is_lower_hex address then Inr ()
      else Inl BadAddress)"

definition AddressFromPublicKey :: "crypto \<Rightarrow> bytes \<Rightarrow> string" where
  "AddressFromPublicKey C publicKey = hex_encode (take 20 (sha256 C publicKey))"

section \<open>Wallets\<close>

record wallet =
  PrivateKey :: nat
  PublicKey :: bytes
  Address :: string

definition NewWallet :: "crypto \<Rightarrow> nat \<Rightarrow> wallet result" where
  "NewWallet C rnd =
     (case ecdsa_generate C rnd of
        None \<Rightarrow> Inl SigningFailed
      | Some (d, point) \<Rightarrow>
          (let publicKey = p256_marshal C point;
               address = AddressFromPublicKey C publicKey
           in Inr \<lparr>PrivateKey = d, PublicKey = publicKey, Address = address\<rparr>))"

definition walletFromPrivateKeyBytes :: "crypto \<Rightarrow> bytes \<Rightarrow> wallet result" where
  "walletFromPrivateKeyBytes C privateBytes =
     (if length privateBytes = 0 then Inl EmptyPrivateKey
      else
        (let d = be_nat privateBytes
         in if d = 0 \<or> d \<ge> p256_order C then Inl InvalidPrivateKey
            else
              (let point = p256_base_mult C d;
                   publicKey = p256_marshal C point;
                   address = AddressFromPublicKey C publicKey
               in Inr \<lparr>PrivateKey = d, PublicKey = publicKey, Address = address\<rparr>)))"

text \<open>\<open>big.Int.FillBytes\<close> on a 32-byte slice: big-endian, padded with zeros.\<close>

fun fill_bytes :: "nat \<Rightarrow> nat \<Rightarrow> bytes" where
  "fill_bytes 0 n = []"
| "fill_bytes (Suc k) n = fill_bytes k (n div 256) @ [of_nat n]"

definition Sign :: "crypto \<Rightarrow> nat \<Rightarrow> wallet \<Rightarrow> bytes \<Rightarrow> bytes result" where
  "Sign C rnd w data =
     (case ecdsa_sign C rnd (PrivateKey w) (sha256 C data) of
        None \<Rightarrow> Inl SigningFailed
      | Some (r, s) \<Rightarrow> Inr (fill_bytes 32 r @ fill_bytes 32 s))"

definition VerifySignature :: "crypto \<Rightarrow> bytes \<Rightarrow> bytes \<Rightarrow> bytes \<Rightarrow> bool" where
  "VerifySignature C publicKey data signature =
     (if length signature \<noteq> 64 then False
      else
        (case p256_unmarshal C publicKey of
           None \<Rightarrow> False
         | Some key \<Rightarrow>
             (let r = be_nat (take 32 signature); s = be_nat (drop 32 signature)
              in ecdsa_verify C key (sha256 C data) r s)))"

definition Verify :: "crypto \<Rightarrow> wallet \<Rightarrow> bytes \<Rightarrow> bytes \<Rightarrow> bool" where
  "Verify C w data signature = VerifySignature C (PublicKey w) data signature"

section \<open>Lemmas\<close>

lemma ValidateAddress_ok_iff [simp]:
  "ValidateAddress a = Inr () \<longleftrightarrow> length a = 40 \<and> list_all is_lower_hex a"
  by (simp add: ValidateAddress_def go_const)

lemma AddressFromPublicKey_valid:
  "hash_size_ok C \<Longrightarrow> ValidateAddress (AddressFromPublicKey C pk) = Inr ()"
  by (simp add: AddressFromPublicKey_def hash_size_ok_def hex_encode_lower)

lemma length_fill_bytes [simp]: "length (fill_bytes k n) = k"
  by (induction k n rule: fill_bytes.induct) simp_all

lemma be_nat_append_one: "be_nat (bs @ [b]) = 256 * be_nat bs + unat b"
  by (simp add: be_nat_def)

lemma be_nat_fill_bytes: "n < 256 ^ k \<Longrightarrow> be_nat (fill_bytes k n) = n"
proof (induction k n rule: fill_bytes.induct)
  case (1 n)
  then show ?case by (simp add: be_nat_def)
next
  case (2 k n)
  then have "n div 256 < 256 ^ k" by (simp add: less_mult_imp_div_less mult.commute)
  with 2 show ?case by (simp add: be_nat_append_one unat_of_nat)
qed

text \<open>A wallet whose signatures verify: what ECDSA promises of a matching key pair.\<close>

definition key_pair_ok :: "crypto \<Rightarrow> wallet \<Rightarrow> bool" where
  "key_pair_ok C w \<longleftrightarrow>
     (\<exists>key. p256_unmarshal C (PublicKey w) = Some key \<and>
        (\<forall>rnd h r s. ecdsa_sign C rnd (PrivateKey w) h = Some (r, s) \<longrightarrow>
           r < 256 ^ 32 \<and> s < 256 ^ 32 \<and> ecdsa_verify C key h r s))"

lemma VerifySignature_Sign:
  assumes "key_pair_ok C w" "Sign C rnd w data = Inr sig"
  shows "VerifySignature C (PublicKey w) data sig" "length sig = 64"
proof -
  from assms(2) obtain r s where rs: "ecdsa_sign C rnd (PrivateKey w) (sha256 C data) = Some (r, s)"
    and sig: "sig = fill_bytes 32 r @ fill_bytes 32 s"
    by (auto simp: Sign_def split: option.splits)
  from assms(1) rs obtain key where "p256_unmarshal C (PublicKey w) = Some key"
    "r < 256 ^ 32" "s < 256 ^ 32" "ecdsa_verify C key (sha256 C data) r s"
    by (auto simp: key_pair_ok_def)
  then show "VerifySignature C (PublicKey w) data sig"
    by (simp add: VerifySignature_def sig Let_def be_nat_fill_bytes del: fill_bytes.simps power_Suc)
  show "length sig = 64" by (simp add: sig del: fill_bytes.simps)
qed

section \<open>A small instance\<close>

text \<open>
  Concrete operations for evaluating the model on small inputs: a 32-byte digest made of the
  first and the last 16 bytes, keys below 200 and signatures that repeat the start of the digest
  and the key. They meet the hypotheses that the lemmas place on the standard library.
\<close>

definition small_digest :: "bytes \<Rightarrow> bytes" where
  "small_digest x = take 16 (x @ replicate 16 0) @ take 16 (rev x @ replicate 16 0)"

definition small_crypto :: crypto where
  "small_crypto =
     \<lparr>sha256 = small_digest, p256_order = 200, p256_base_mult = (\<lambda>d. (d, d)),
      p256_marshal = (\<lambda>(x, y). [4, of_nat x, of_nat y]),
      p256_unmarshal = (\<lambda>bs. case bs of [t, x, y] \<Rightarrow> if t = 4 then Some (unat x, unat y) else None | _ \<Rightarrow> None),
      ecdsa_generate = (\<lambda>rnd. Some (rnd mod 199 + 1, (rnd mod 199 + 1, rnd mod 199 + 1))),
      ecdsa_sign = (\<lambda>rnd d h. Some (be_nat (take 2 h) + 1, d)),
      ecdsa_verify = (\<lambda>key h r s. r = be_nat (take 2 h) + 1 \<and> s = fst key)\<rparr>"

definition small_wallet :: "nat \<Rightarrow> wallet" where
  "small_wallet d =
     (case walletFromPrivateKeyBytes small_crypto [of_nat d] of
        Inl _ \<Rightarrow> \<lparr>PrivateKey = 0, PublicKey = [], Address = ''''\<rparr> | Inr w \<Rightarrow> w)"

lemma length_small_digest [simp]: "length (small_digest x) = 32"
  by (simp add: small_digest_def)

lemma small_digest_16: "small_digest (x @ [a]) ! 16 = a"
proof -
  have "length (take 16 ((x @ [a]) @ replicate 16 0)) = 16" by simp
  then show ?thesis unfolding small_digest_def nth_append by simp
qed

lemma small_digest_last: "small_digest (x @ [a]) = small_digest (y @ [b]) \<Longrightarrow> a = b"
  using small_digest_16 [of x a] small_digest_16 [of y b] by simp

lemma sha256_small [simp]: "sha256 small_crypto = small_digest"
  by (simp add: small_crypto_def)

lemma hash_size_small [simp]: "hash_size_ok small_crypto"
  by (simp add: hash_size_ok_def)

lemma be_nat_bound: "be_nat bs < 256 ^ length bs"
proof (induction bs rule: rev_induct)
  case Nil
  show ?case by (simp add: be_nat_def)
next
  case (snoc b bs)
  have "unat b < 256" using unsigned_less [of b] by simp
  with snoc show ?case by (simp add: be_nat_append_one)
qed

lemma small_wallet_keys:
  assumes "0 < d" "d < 200"
  shows "key_pair_ok small_crypto (small_wallet d)"
proof -
  have d: "unat (of_nat d :: u8) = d" using assms by (simp add: unat_of_nat)
  have "be_nat (take 2 h) < 256 ^ 2" for h :: bytes
    by (rule less_le_trans [OF be_nat_bound power_increasing]) auto
  then have "be_nat (take 2 h) + 1 < 256 ^ 32" for h :: bytes
    by (rule less_le_trans [OF add_strict_right_mono]) simp
  then show ?thesis
    using assms d
    by (simp add: key_pair_ok_def small_wallet_def walletFromPrivateKeyBytes_def small_crypto_def
        be_nat_def Let_def)
qed

end
