(* ===== verification/Transactions.thy ===== *)
theory Transactions
  imports Wallet
begin

text \<open>
  Package \<open>transactions\<close> with package \<open>networkcontext\<close>: the transaction record, its fees, its
  deterministic ID, the signature domains, signing and verification, and the resource bounds
  every validation path applies first.
\<close>

section \<open>The active network\<close>

text \<open>The process-wide network identity is a one-cell state.\<close>

type_synonym network_context = network_id

definition NetworkContextInit :: network_context where
  "NetworkContextInit = DefaultNetwork"

definition NetworkContextSet :: "network_id \<Rightarrow> network_context \<Rightarrow> network_context" where
  "NetworkContextSet network active = network"

definition NetworkContextActive :: "network_context \<Rightarrow> network_id" where
  "NetworkContextActive active = active"

definition NetworkContextReset :: "network_context \<Rightarrow> network_context" where
  "NetworkContextReset active = NetworkContextSet DefaultNetwork active"

section \<open>The transaction and its fees\<close>

record transaction =
  txID :: string
  txFrom :: string
  txTo :: string
  txAmount :: u64
  txFee :: u64
  txNonce :: u64
  txPublicKey :: bytes
  txSignature :: bytes

definition TotalFeeBasisPoints :: u64 where
  [go_const]: "TotalFeeBasisPoints = 10"

definition DevelopmentFeeBasisPoints :: u64 where
  [go_const]: "DevelopmentFeeBasisPoints = 1"

definition feeBasisPointsDivisor :: u64 where
  [go_const]: "feeBasisPointsDivisor = 10000"

definition basisPointsFee :: "u64 \<Rightarrow> u64 \<Rightarrow> u64" where
  "basisPointsFee amount basisPoints =
     (let whole = amount div feeBasisPointsDivisor;
          remainder = amount mod feeBasisPointsDivisor
      in whole * basisPoints + (remainder * basisPoints) div feeBasisPointsDivisor)"

definition CalculateFee :: "u64 \<Rightarrow> u64" where
  "CalculateFee amount = basisPointsFee amount TotalFeeBasisPoints"

definition DevelopmentFee :: "u64 \<Rightarrow> u64" where
  "DevelopmentFee amount = basisPointsFee amount DevelopmentFeeBasisPoints"

definition MiningFee :: "u64 \<Rightarrow> u64" where
  "MiningFee amount =
     (let total = CalculateFee amount; development = DevelopmentFee amount
      in total - development)"

section \<open>The transaction ID\<close>

definition id_preimage :: "transaction \<Rightarrow> string" where
  "id_preimage tx = txFrom tx @ ''|'' @ txTo tx @ ''|'' @ dec (unat (txAmount tx)) @ ''|'' @
     dec (unat (txFee tx)) @ ''|'' @ dec (unat (txNonce tx))"

definition calculateID :: "crypto \<Rightarrow> transaction \<Rightarrow> string" where
  "calculateID C tx = hex_encode (sha256 C (bytes_of (id_preimage tx)))"

definition NewTransaction ::
  "crypto \<Rightarrow> string \<Rightarrow> string \<Rightarrow> u64 \<Rightarrow> u64 list \<Rightarrow> transaction" where
  "NewTransaction C from to amount nonce =
     (let n = (case nonce of [] \<Rightarrow> 0 | x # _ \<Rightarrow> x);
          tx = \<lparr>txID = '''', txFrom = from, txTo = to, txAmount = amount, txFee = 0,
                txNonce = n, txPublicKey = [], txSignature = []\<rparr>;
          tx1 = tx\<lparr>txFee := CalculateFee amount\<rparr>
      in tx1\<lparr>txID := calculateID C tx1\<rparr>)"

section \<open>Signature domains\<close>

definition SignatureDomainLegacy :: int where
  [go_const]: "SignatureDomainLegacy = 1"

definition SignatureDomainNetworkBound :: int where
  [go_const]: "SignatureDomainNetworkBound = 2"

definition SigningMessage :: "int \<Rightarrow> network_id \<Rightarrow> string \<Rightarrow> bytes result" where
  "SigningMessage domain network ident =
     (if domain = SignatureDomainLegacy then Inr (bytes_of ident)
      else if domain = SignatureDomainNetworkBound then
        (if network = '''' then Inl EmptyNetwork
         else if ident = '''' then Inl EmptyTransactionID
         else Inr (bytes_of (''sudharma-tx-v2|'' @ network @ ''|'' @ ident)))
      else Inl UnknownSignatureDomain)"

definition verifySignatureDomain ::
  "crypto \<Rightarrow> transaction option \<Rightarrow> network_id \<Rightarrow> int \<Rightarrow> bool" where
  "verifySignatureDomain C txp network domain =
     (case txp of
        None \<Rightarrow> False
      | Some tx \<Rightarrow>
          (case SigningMessage domain network (txID tx) of
             Inl _ \<Rightarrow> False
           | Inr message \<Rightarrow> VerifySignature C (txPublicKey tx) message (txSignature tx)))"

text \<open>Signing writes the public key before it can fail, so the transaction is returned in
  every case.\<close>

definition SignForNetwork ::
  "crypto \<Rightarrow> nat \<Rightarrow> transaction \<Rightarrow> wallet option \<Rightarrow> network_id \<Rightarrow> (transaction, unit) outcome" where
  "SignForNetwork C rnd tx wp network =
     (case wp of
        None \<Rightarrow> (tx, Inl NilWallet)
      | Some w \<Rightarrow>
          if txFrom tx \<noteq> Address w then (tx, Inl WalletSenderMismatch)
          else
            (let tx1 = tx\<lparr>txPublicKey := PublicKey w\<rparr>
             in case SigningMessage SignatureDomainNetworkBound network (txID tx1) of
                  Inl err \<Rightarrow> (tx1, Inl err)
                | Inr message \<Rightarrow>
                    (case Sign C rnd w message of
                       Inl err \<Rightarrow> (tx1, Inl err)
                     | Inr signature \<Rightarrow> (tx1\<lparr>txSignature := signature\<rparr>, Inr ()))))"

definition SignTransaction ::
  "crypto \<Rightarrow> nat \<Rightarrow> network_context \<Rightarrow> transaction \<Rightarrow> wallet option \<Rightarrow> (transaction, unit) outcome" where
  "SignTransaction C rnd active tx wp = SignForNetwork C rnd tx wp (NetworkContextActive active)"

definition VerifyForNetwork :: "crypto \<Rightarrow> transaction \<Rightarrow> network_id \<Rightarrow> bool" where
  "VerifyForNetwork C tx network =
     (if length (txPublicKey tx) = 0 then False
      else if length (txSignature tx) = 0 then False
      else if AddressFromPublicKey C (txPublicKey tx) \<noteq> txFrom tx then False
      else if calculateID C tx \<noteq> txID tx then False
      else if verifySignatureDomain C (Some tx) network SignatureDomainNetworkBound then True
      else if network = NetworkPublicTestnet
      then verifySignatureDomain C (Some tx) network SignatureDomainLegacy
      else False)"

definition VerifyTransaction :: "crypto \<Rightarrow> transaction \<Rightarrow> bool" where
  "VerifyTransaction C tx = VerifyForNetwork C tx DefaultNetwork"

section \<open>Resource bounds\<close>

definition EstimatedSerializedSize :: "transaction option \<Rightarrow> nat" where
  "EstimatedSerializedSize txp =
     (case txp of
        None \<Rightarrow> 0
      | Some tx \<Rightarrow> length (txID tx) + length (txFrom tx) + length (txTo tx)
          + length (txPublicKey tx) + length (txSignature tx) + 24)"

definition ValidateResourceBounds :: "transaction option \<Rightarrow> unit result" where
  "ValidateResourceBounds txp =
     (case txp of
        None \<Rightarrow> Inl NilTransaction
      | Some tx \<Rightarrow>
          if length (txID tx) = 0 \<or> length (txID tx) > MaxTransactionIDLength
          then Inl InvalidIDLength
          else (case ValidateAddress (txFrom tx) of
             Inl err \<Rightarrow> Inl (InvalidSenderAddress err)
           | Inr _ \<Rightarrow>
          (case ValidateAddress (txTo tx) of
             Inl err \<Rightarrow> Inl (InvalidReceiverAddress err)
           | Inr _ \<Rightarrow>
          if length (txPublicKey tx) > MaxTransactionPublicKeySize then Inl PublicKeyTooLarge
          else if length (txSignature tx) > MaxTransactionSignatureSize then Inl SignatureTooLarge
          else if EstimatedSerializedSize (Some tx) > MaxTransactionSerializedBytes
          then Inl TransactionTooLarge
          else if txAmount tx < MinTransferAmount then Inl BelowDustMinimum
          else Inr ())))"

section \<open>Fees are exact\<close>

lemma basisPointsFee_exact:
  assumes "unat bp \<le> 10000"
  shows "unat (basisPointsFee a bp) = unat a * unat bp div 10000"
proof -
  define w r where "w = unat a div 10000" and "r = unat a mod 10000"
  have a: "unat a = 10000 * w + r" by (simp add: w_def r_def)
  have r: "r < 10000" by (simp add: r_def)
  have p64: "(2 :: nat) ^ 64 = 18446744073709551616" by simp
  have wle: "w * unat bp \<le> w * 10000" and rle: "r * unat bp \<le> r * 10000"
    using assms by (auto intro: mult_le_mono2)
  have wb: "w * unat bp < 2 ^ 64" and rq: "r * unat bp < 2 ^ 64"
    unfolding p64 using wle rle r a unat_less_64 [of a] by linarith+
  have rb: "r * unat bp div 10000 \<le> r" using div_le_mono [OF rle, of 10000] by simp
  have u1: "unat (a div 10000 * bp) = w * unat bp"
    using wb by (simp add: unat_word_ariths(2) unat_div w_def)
  have u2: "unat (a mod 10000 * bp div 10000) = r * unat bp div 10000"
    using rq by (simp add: unat_word_ariths(2) unat_div unat_mod r_def)
  have "w * unat bp + r * unat bp div 10000 < 2 ^ 64"
    unfolding p64 using wle rb a unat_less_64 [of a] by linarith
  then have "unat (basisPointsFee a bp) = w * unat bp + r * unat bp div 10000"
    unfolding basisPointsFee_def Let_def feeBasisPointsDivisor_def
    by (subst unat_add_bounded) (simp_all only: u1 u2)
  also have "\<dots> = (10000 * (w * unat bp) + r * unat bp) div 10000" by simp
  also have "10000 * (w * unat bp) + r * unat bp = unat a * unat bp" by (simp add: a algebra_simps)
  finally show ?thesis .
qed

lemma unat_CalculateFee: "unat (CalculateFee a) = unat a * 10 div 10000"
  by (simp add: CalculateFee_def basisPointsFee_exact go_const)

lemma unat_DevelopmentFee: "unat (DevelopmentFee a) = unat a div 10000"
  by (simp add: DevelopmentFee_def basisPointsFee_exact go_const)

lemma DevelopmentFee_le: "DevelopmentFee a \<le> CalculateFee a"
  unfolding word_le_nat_alt unat_CalculateFee unat_DevelopmentFee by (simp add: div_le_mono)

lemma unat_MiningFee: "unat (MiningFee a) = unat a * 10 div 10000 - unat a div 10000"
  by (simp add: MiningFee_def Let_def unat_sub DevelopmentFee_le unat_CalculateFee unat_DevelopmentFee)

lemma fee_split: "unat (DevelopmentFee a) + unat (MiningFee a) = unat (CalculateFee a)"
  using DevelopmentFee_le [of a]
  unfolding unat_MiningFee unat_CalculateFee unat_DevelopmentFee word_le_nat_alt by simp

lemma CalculateFee_pos_iff: "0 < CalculateFee a \<longleftrightarrow> MinTransferAmount \<le> a"
proof -
  have "0 < CalculateFee a \<longleftrightarrow> 0 < unat a * 10 div 10000"
    by (simp add: word_less_nat_alt unat_CalculateFee)
  also have "\<dots> \<longleftrightarrow> 1000 \<le> unat a" by (simp add: div_greater_zero_iff)
  finally show ?thesis by (simp add: go_const word_le_nat_alt)
qed

lemma CalculateFee_less: "a \<noteq> 0 \<Longrightarrow> unat (CalculateFee a) < unat a"
  by (simp add: unat_CalculateFee unat_gt_0 [symmetric])

section \<open>The ID binds the fields\<close>

lemma bar_not_hex: "list_all is_lower_hex s \<Longrightarrow> CHR ''|'' \<notin> set s"
  by (auto simp: list_all_iff is_lower_hex_def)

lemma bar_not_dec: "CHR ''|'' \<notin> set (dec n)"
  using set_dec [of "CHR ''|''" n] by auto

lemma id_preimage_inj:
  assumes "list_all is_lower_hex (txFrom t)" "list_all is_lower_hex (txTo t)"
    and "list_all is_lower_hex (txFrom u)" "list_all is_lower_hex (txTo u)"
    and "id_preimage t = id_preimage u"
  shows "txFrom t = txFrom u \<and> txTo t = txTo u \<and> txAmount t = txAmount u
    \<and> txFee t = txFee u \<and> txNonce t = txNonce u"
  using assms
  by (simp add: id_preimage_def separator_split bar_not_hex bar_not_dec word_unat_eq_iff)

section \<open>Signature domains are disjoint\<close>

lemma bar_not_network: "n \<in> {NetworkPublicTestnet, NetworkMainnet} \<Longrightarrow> CHR ''|'' \<notin> set n"
  by (auto simp: go_const)

lemma network_message_inj:
  assumes "SigningMessage SignatureDomainNetworkBound n i = Inr m"
    and "SigningMessage SignatureDomainNetworkBound n' i' = Inr m"
    and "CHR ''|'' \<notin> set n" "CHR ''|'' \<notin> set n'"
  shows "n = n' \<and> i = i'"
  using assms
  by (auto simp: SigningMessage_def go_const separator_split split: if_splits)

lemma legacy_message_differs:
  assumes "SigningMessage SignatureDomainNetworkBound n i = Inr m"
    and "SigningMessage SignatureDomainLegacy n' i' = Inr m'" "list_all is_lower_hex i'"
  shows "m \<noteq> m'"
proof
  assume "m = m'"
  with assms(1,2) have "i' = ''sudharma-tx-v2|'' @ n @ ''|'' @ i"
    by (auto simp: SigningMessage_def go_const split: if_splits)
  with assms(3) show False by (simp add: is_lower_hex_def)
qed

section \<open>Signing and verifying\<close>

lemma calculateID_cong:
  "id_preimage t = id_preimage u \<Longrightarrow> calculateID C t = calculateID C u"
  by (simp add: calculateID_def)

lemma NewTransaction_id: "txID (NewTransaction C f t a n) = calculateID C (NewTransaction C f t a n)"
  by (simp add: NewTransaction_def Let_def calculateID_def id_preimage_def)

lemma NewTransaction_fields [simp]:
  "txFrom (NewTransaction C f t a n) = f" "txTo (NewTransaction C f t a n) = t"
  "txAmount (NewTransaction C f t a n) = a" "txFee (NewTransaction C f t a n) = CalculateFee a"
  "txNonce (NewTransaction C f t a [k]) = k"
  by (simp_all add: NewTransaction_def Let_def)

lemma length_calculateID: "hash_size_ok C \<Longrightarrow> length (calculateID C t) = 64"
  by (simp add: calculateID_def hash_size_ok_def)

definition wallet_ok :: "crypto \<Rightarrow> wallet \<Rightarrow> bool" where
  "wallet_ok C w \<longleftrightarrow> key_pair_ok C w \<and> Address w = AddressFromPublicKey C (PublicKey w)
     \<and> PublicKey w \<noteq> [] \<and> length (PublicKey w) \<le> MaxTransactionPublicKeySize"

lemma SignForNetwork_verifies:
  assumes "hash_size_ok C" "wallet_ok C w" "network \<noteq> ''''"
    and "SignForNetwork C rnd (NewTransaction C (Address w) to a [n]) (Some w) network = (tx, Inr ())"
  shows "VerifyForNetwork C tx network"
    "tx = (NewTransaction C (Address w) to a [n])\<lparr>txPublicKey := PublicKey w, txSignature := txSignature tx\<rparr>"
    "length (txSignature tx) = 64"
proof -
  define t where "t = NewTransaction C (Address w) to a [n]"
  have ne: "txID t \<noteq> ''''"
    using length_calculateID [OF assms(1), of t] NewTransaction_id [of C "Address w" to a "[n]"]
    by (auto simp: t_def)
  define m where "m = bytes_of (''sudharma-tx-v2|'' @ network @ ''|'' @ txID t)"
  have sm: "SigningMessage SignatureDomainNetworkBound network (txID t) = Inr m"
    using assms(3) ne by (simp add: SigningMessage_def go_const m_def)
  from assms(4) sm obtain sig where sig: "Sign C rnd w m = Inr sig"
    and tx: "tx = t\<lparr>txPublicKey := PublicKey w, txSignature := sig\<rparr>"
    by (auto simp: SignForNetwork_def Let_def t_def [symmetric] split: if_splits sum.splits)
  have kp: "key_pair_ok C w" using assms(2) by (simp add: wallet_ok_def)
  note v = VerifySignature_Sign [OF kp sig]
  have "calculateID C tx = txID t"
    using NewTransaction_id [of C "Address w" to a "[n]"]
    by (simp add: tx calculateID_def id_preimage_def t_def)
  then show "VerifyForNetwork C tx network"
    using v sm assms(2) by (simp add: VerifyForNetwork_def verifySignatureDomain_def tx wallet_ok_def t_def)
  show "tx = (NewTransaction C (Address w) to a [n])\<lparr>txPublicKey := PublicKey w, txSignature := txSignature tx\<rparr>"
    by (simp add: tx t_def)
  show "length (txSignature tx) = 64" using v(2) by (simp add: tx)
qed

lemma SignForNetwork_accepts:
  assumes "hash_size_ok C" "network \<noteq> ''''" "\<And>m. \<exists>sig. Sign C rnd w m = Inr sig"
  shows "\<exists>tx. SignForNetwork C rnd (NewTransaction C (Address w) to a [n]) (Some w) network = (tx, Inr ())"
proof -
  define t where "t = NewTransaction C (Address w) to a [n]"
  have ne: "txID t \<noteq> ''''"
    using length_calculateID [OF assms(1), of t] NewTransaction_id [of C "Address w" to a "[n]"]
    by (auto simp: t_def)
  define m where "m = bytes_of (''sudharma-tx-v2|'' @ network @ ''|'' @ txID t)"
  have "SigningMessage SignatureDomainNetworkBound network (txID t) = Inr m"
    using assms(2) ne by (simp add: SigningMessage_def go_const m_def)
  then show ?thesis
    using assms(3) [of m] by (auto simp: SignForNetwork_def Let_def t_def)
qed

lemma signed_transfer_bounds:
  assumes "hash_size_ok C" "wallet_ok C w" "ValidateAddress to = Inr ()" "MinTransferAmount \<le> a"
    and tx: "tx = (NewTransaction C (Address w) to a [n])\<lparr>txPublicKey := PublicKey w, txSignature := sig\<rparr>"
    and "length sig = 64"
  shows "ValidateResourceBounds (Some tx) = Inr ()"
proof -
  have "length (txID tx) = 64"
    using length_calculateID [OF assms(1)] NewTransaction_id [of C "Address w" to a "[n]"] by (simp add: tx)
  moreover have "length (Address w) = 40" "list_all is_lower_hex (Address w)"
    using AddressFromPublicKey_valid [OF assms(1), of "PublicKey w"] assms(2) by (simp_all add: wallet_ok_def)
  ultimately show ?thesis
    using assms by (auto simp: ValidateResourceBounds_def ValidateAddress_def EstimatedSerializedSize_def
        go_const wallet_ok_def not_less word_le_nat_alt split: if_splits)
qed

text \<open>Transfers from the wallet with key 7, signed for the public testnet.\<close>

definition small_transfer :: "u64 \<Rightarrow> u64 \<Rightarrow> transaction" where
  "small_transfer amount nonce =
     fst (SignForNetwork small_crypto 0
       (NewTransaction small_crypto (Address (small_wallet 7)) (Address (small_wallet 8)) amount [nonce])
       (Some (small_wallet 7)) NetworkPublicTestnet)"

lemma small_wallet_ok: "0 < d \<Longrightarrow> d < 200 \<Longrightarrow> wallet_ok small_crypto (small_wallet d)"
  using small_wallet_keys [of d] unat_of_nat [of d, where 'a = 8]
  by (simp add: wallet_ok_def small_wallet_def walletFromPrivateKeyBytes_def Let_def
      small_crypto_def go_const be_nat_def split: prod.splits)

lemma network_nonempty [simp]: "NetworkPublicTestnet \<noteq> ''''" "NetworkMainnet \<noteq> ''''"
  by (simp_all add: go_const)

lemma small_transfer_ok:
  "SignForNetwork small_crypto 0
     (NewTransaction small_crypto (Address (small_wallet 7)) (Address (small_wallet 8)) a [n])
     (Some (small_wallet 7)) NetworkPublicTestnet = (small_transfer a n, Inr ())"
proof -
  have "\<exists>sig. Sign small_crypto 0 (small_wallet 7) m = Inr sig" for m
    by (simp add: Sign_def small_crypto_def)
  from SignForNetwork_accepts [OF hash_size_small network_nonempty(1) this]
  obtain tx where "SignForNetwork small_crypto 0
     (NewTransaction small_crypto (Address (small_wallet 7)) (Address (small_wallet 8)) a [n])
     (Some (small_wallet 7)) NetworkPublicTestnet = (tx, Inr ())" by blast
  then show ?thesis by (simp add: small_transfer_def)
qed

lemmas small_transfer_signed =
  SignForNetwork_verifies [OF hash_size_small small_wallet_ok [of 7, simplified] network_nonempty(1)
    small_transfer_ok]

lemma small_transfer_fields [simp]:
  "txFrom (small_transfer a n) = Address (small_wallet 7)"
  "txTo (small_transfer a n) = Address (small_wallet 8)"
  "txAmount (small_transfer a n) = a" "txFee (small_transfer a n) = CalculateFee a"
  "txNonce (small_transfer a n) = n"
  by (subst small_transfer_signed(2), simp)+

lemma small_transfer_verifies: "VerifyForNetwork small_crypto (small_transfer a n) NetworkPublicTestnet"
  by (rule small_transfer_signed(1))

lemma small_address_valid: "0 < d \<Longrightarrow> d < 200 \<Longrightarrow> ValidateAddress (Address (small_wallet d)) = Inr ()"
  using small_wallet_ok [of d] AddressFromPublicKey_valid [OF hash_size_small] by (simp add: wallet_ok_def)

lemma small_transfer_bounds:
  "MinTransferAmount \<le> a \<Longrightarrow> ValidateResourceBounds (Some (small_transfer a n)) = Inr ()"
  by (rule signed_transfer_bounds [OF hash_size_small small_wallet_ok [of 7, simplified]
      small_address_valid [of 8] _ small_transfer_signed(2) small_transfer_signed(3)]) simp_all

section \<open>Properties\<close>

text \<open>The fee routines are exact in 64-bit arithmetic. For every amount the total fee is 10
  basis points rounded down and the treasury share 1 basis point rounded down, without any
  intermediate overflow; the treasury share and the miner share add up to the total fee; and the
  fee is positive exactly for amounts of at least the minimum transfer.\<close>

theorem fees_exact:
  "unat (CalculateFee a) = unat a * 10 div 10000
   \<and> unat (DevelopmentFee a) = unat a div 10000
   \<and> unat (DevelopmentFee a) + unat (MiningFee a) = unat (CalculateFee a)
   \<and> (0 < CalculateFee a \<longleftrightarrow> MinTransferAmount \<le> a)"
  using unat_CalculateFee unat_DevelopmentFee fee_split CalculateFee_pos_iff by simp

lemma verified_id: "VerifyForNetwork C t n \<Longrightarrow> txID t = calculateID C t"
  by (auto simp: VerifyForNetwork_def split: if_splits)

lemma bounds_hex:
  assumes "ValidateResourceBounds (Some t) = Inr ()"
  shows "list_all is_lower_hex (txFrom t)" "list_all is_lower_hex (txTo t)"
  using assms by (auto simp: ValidateResourceBounds_def split: if_splits sum.splits)

text \<open>The ID of an accepted transaction determines its sender, receiver, amount, fee and nonce,
  as long as the hash does not collide on the two hashed strings. The fields are joined with bars
  and written in decimal, and the joined string can be split in one way only.\<close>

theorem transaction_id_binds_fields:
  assumes "VerifyForNetwork C t n" "VerifyForNetwork C u m"
    and "ValidateResourceBounds (Some t) = Inr ()" "ValidateResourceBounds (Some u) = Inr ()"
    and "inj_on (sha256 C) {bytes_of (id_preimage t), bytes_of (id_preimage u)}"
    and "txID t = txID u"
  shows "txFrom t = txFrom u \<and> txTo t = txTo u \<and> txAmount t = txAmount u
    \<and> txFee t = txFee u \<and> txNonce t = txNonce u"
proof -
  have "sha256 C (bytes_of (id_preimage t)) = sha256 C (bytes_of (id_preimage u))"
    using verified_id [OF assms(1)] verified_id [OF assms(2)] assms(6) by (simp add: calculateID_def)
  then have "id_preimage t = id_preimage u" using assms(5) by (auto dest: inj_onD)
  then show ?thesis using id_preimage_inj bounds_hex [OF assms(3)] bounds_hex [OF assms(4)] by blast
qed

lemma small_transfers_digest:
  "inj_on (sha256 small_crypto)
     {bytes_of (id_preimage (small_transfer 5000 1)), bytes_of (id_preimage (small_transfer 5000 2))}"
proof -
  have pre: "\<exists>x. bytes_of (id_preimage (small_transfer 5000 n)) = x @ [of_nat (48 + unat n)]"
    if "unat n < 10" for n
    using that by (simp add: id_preimage_def dec.simps [of "unat n"] bytes_of_def)
  obtain x y where "bytes_of (id_preimage (small_transfer 5000 1)) = x @ [49]"
    "bytes_of (id_preimage (small_transfer 5000 2)) = y @ [50]"
    using pre [of 1] pre [of 2] by auto
  then show ?thesis by (auto simp: inj_on_def dest: small_digest_last)
qed

theorem transaction_id_binds_fields_witness:
  "txID (small_transfer 5000 1) \<noteq> txID (small_transfer 5000 2)"
  using transaction_id_binds_fields [OF small_transfer_verifies [of 5000 1]
      small_transfer_verifies [of 5000 2] small_transfer_bounds small_transfer_bounds small_transfers_digest]
  by (auto simp: go_const)

text \<open>A transaction that the constructor builds for a wallet's own address and that the wallet
  signs for a network verifies on that network, and keeps the requested receiver, amount and
  nonce and the computed fee.\<close>

theorem signed_transaction_verifies:
  assumes "hash_size_ok C" "wallet_ok C w" "network \<noteq> ''''"
    and "SignForNetwork C rnd (NewTransaction C (Address w) to a [n]) (Some w) network = (tx, Inr ())"
  shows "VerifyForNetwork C tx network \<and> txFrom tx = Address w \<and> txTo tx = to \<and> txAmount tx = a
    \<and> txFee tx = CalculateFee a \<and> txNonce tx = n"
proof -
  note v = SignForNetwork_verifies [OF assms]
  show ?thesis using v(1) by (subst (2 3 4 5 6) v(2)) simp
qed

theorem signed_transaction_verifies_witness:
  "VerifyForNetwork small_crypto (small_transfer 5000 1) NetworkPublicTestnet
   \<and> txAmount (small_transfer 5000 1) = 5000 \<and> txNonce (small_transfer 5000 1) = 1"
  using signed_transaction_verifies [OF hash_size_small small_wallet_ok [of 7, simplified]
      network_nonempty(1) small_transfer_ok [of 5000 1]] by simp

text \<open>The bytes that are signed for different networks differ, and they differ from the bytes
  of the legacy domain: a network-bound signature for one network is never a signature over the
  message that another network, or the legacy rule, checks.\<close>

theorem signing_domains_disjoint:
  assumes "n \<in> {NetworkPublicTestnet, NetworkMainnet}" "m \<in> {NetworkPublicTestnet, NetworkMainnet}"
    and "SigningMessage SignatureDomainNetworkBound n i = Inr x"
  shows "(SigningMessage SignatureDomainNetworkBound m j = Inr x \<longrightarrow> m = n \<and> j = i)
    \<and> (list_all is_lower_hex j \<longrightarrow> SigningMessage SignatureDomainLegacy m j \<noteq> Inr x)"
  using network_message_inj [OF assms(3) _ bar_not_network [OF assms(1)] bar_not_network [OF assms(2)]]
    legacy_message_differs [OF assms(3)] by blast

theorem signing_domains_disjoint_witness:
  "SigningMessage SignatureDomainNetworkBound NetworkMainnet ''ab''
     \<noteq> Inr (bytes_of ''sudharma-tx-v2|sudharma-testnet-1|ab'')"
  using signing_domains_disjoint [of NetworkPublicTestnet NetworkMainnet "''ab''"
      "bytes_of ''sudharma-tx-v2|sudharma-testnet-1|ab''" "''ab''"]
  by (simp add: SigningMessage_def SignatureDomainNetworkBound_def SignatureDomainLegacy_def
      NetworkPublicTestnet_def NetworkMainnet_def)

text \<open>An accepted transaction is at most 297 bytes by the size estimate, so the check against
  the limit of 1024 serialized bytes never fires: the earlier length checks are stronger.\<close>

theorem resource_bounds_size:
  assumes "ValidateResourceBounds (Some tx) = Inr ()"
  shows "EstimatedSerializedSize (Some tx) \<le> 297"
  using assms by (auto simp: ValidateResourceBounds_def EstimatedSerializedSize_def go_const
      ValidateAddress_def split: if_splits sum.splits)

theorem resource_bounds_size_witness:
  "ValidateResourceBounds (Some (small_transfer 5000 1)) = Inr ()
   \<and> EstimatedSerializedSize (Some (small_transfer 5000 1)) \<le> 297"
  using resource_bounds_size [OF small_transfer_bounds [of 5000 1]] small_transfer_bounds [of 5000 1]
  by (simp add: go_const)

end
