(* ===== verification/Blocks.thy ===== *)
theory Blocks
  imports Transactions
begin

text \<open>
  \<open>blockchain/block.go\<close>: the block record, the canonical header bytes, the double hash, the
  Merkle root over the transaction IDs, and the genesis blocks. A block holds pointers to
  transactions, so an entry may be nil.
\<close>

section \<open>The block and its hash\<close>

record block =
  blkVersion :: u32
  blkHeight :: u64
  blkTimestamp :: i64
  blkPreviousHash :: string
  blkMerkleRoot :: string
  blkDifficulty :: u32
  blkNonce :: u64
  blkMinerAddress :: string
  blkTransactions :: "transaction option list"

definition HeaderBytes :: "block \<Rightarrow> u64 \<Rightarrow> bytes" where
  "HeaderBytes b nonce =
     be32 (blkVersion b) @ be64 (blkHeight b) @ be64 (of_int (blkTimestamp b)) @
     bytes_of (blkPreviousHash b) @ bytes_of (blkMerkleRoot b) @ bytes_of (blkMinerAddress b) @
     be32 (blkDifficulty b) @ be64 nonce"

definition Hash :: "crypto \<Rightarrow> block \<Rightarrow> string" where
  "Hash C b =
     (let first = sha256 C (HeaderBytes b (blkNonce b)); second = sha256 C first
      in hex_encode second)"

section \<open>The Merkle root\<close>

definition emptySetRoot :: "crypto \<Rightarrow> string" where
  "emptySetRoot C = hex_encode (sha256 C (bytes_of ''Sudharma Network Empty Transaction Set''))"

text \<open>The leaf of a transaction: its decoded ID, or the hash of an ID that is not hexadecimal.\<close>

definition merkle_leaf :: "crypto \<Rightarrow> transaction \<Rightarrow> bytes" where
  "merkle_leaf C tx =
     (case hex_decode (txID tx) of Some hash \<Rightarrow> hash | None \<Rightarrow> sha256 C (bytes_of (txID tx)))"

fun merkle_leaves :: "crypto \<Rightarrow> transaction option list \<Rightarrow> bytes list" where
  "merkle_leaves C [] = []"
| "merkle_leaves C (None # txs) = merkle_leaves C txs"
| "merkle_leaves C (Some tx # txs) = merkle_leaf C tx # merkle_leaves C txs"

text \<open>One level of the tree; a left node without a partner is paired with itself.\<close>

fun merkle_level :: "crypto \<Rightarrow> bytes list \<Rightarrow> bytes list" where
  "merkle_level C [] = []"
| "merkle_level C [left] = [sha256 C (left @ left)]"
| "merkle_level C (left # right # rest) = sha256 C (left @ right) # merkle_level C rest"

lemma length_merkle_level: "length (merkle_level C hs) = (length hs + 1) div 2"
  by (induction C hs rule: merkle_level.induct) simp_all

function merkle_fold :: "crypto \<Rightarrow> bytes list \<Rightarrow> bytes list" where
  "merkle_fold C hashes =
     (if length hashes > 1 then merkle_fold C (merkle_level C hashes) else hashes)"
  by pat_completeness auto
termination
  by (relation "measure (\<lambda>(C, hashes). length hashes)") (auto simp: length_merkle_level)

declare merkle_fold.simps [simp del]

definition CalculateMerkleRoot :: "crypto \<Rightarrow> block \<Rightarrow> string" where
  "CalculateMerkleRoot C b =
     (if length (blkTransactions b) = 0 then emptySetRoot C
      else
        (let hashes = merkle_leaves C (blkTransactions b)
         in if length hashes = 0 then emptySetRoot C
            else hex_encode (merkle_fold C hashes ! 0)))"

definition UpdateMerkleRoot :: "crypto \<Rightarrow> block \<Rightarrow> block" where
  "UpdateMerkleRoot C b = b\<lparr>blkMerkleRoot := CalculateMerkleRoot C b\<rparr>"

section \<open>Genesis\<close>

definition newGenesisBlock :: "u64 \<Rightarrow> string \<Rightarrow> block" where
  "newGenesisBlock timestamp merkleRoot =
     \<lparr>blkVersion = 1, blkHeight = 0, blkTimestamp = sint timestamp, blkPreviousHash = ''0'',
      blkMerkleRoot = merkleRoot, blkDifficulty = 1, blkNonce = 0, blkMinerAddress = '''',
      blkTransactions = []\<rparr>"

definition NewGenesisBlock :: block where
  "NewGenesisBlock = newGenesisBlock 1786924800 ''Sudharma Network Genesis Block''"

definition NewMainnetGenesisBlock :: block where
  "NewMainnetGenesisBlock =
     newGenesisBlock MainnetGenesisTimestamp ''Sudharma Network Mainnet Genesis Block v1''"

definition GenesisFor :: "network_id \<Rightarrow> block result" where
  "GenesisFor network =
     (if network = NetworkPublicTestnet then Inr NewGenesisBlock
      else if network = NetworkMainnet then
        (if \<not> MainnetLaunchAuthorized then Inl MainnetGenesisNotAuthorized
         else Inr NewMainnetGenesisBlock)
      else Inl UnknownNetwork)"

definition EncodeUint64 :: "u64 \<Rightarrow> bytes" where
  "EncodeUint64 value = be64 value"

section \<open>The header determines the block header fields\<close>

lemma be_bytes_inj:
  fixes a b :: "'a :: len word"
  assumes "\<And>i. i < LENGTH('a) div 8 \<Longrightarrow> (ucast (drop_bit (8 * i) a) :: u8) = ucast (drop_bit (8 * i) b)"
    and "LENGTH('a) mod 8 = 0"
  shows "a = b"
proof (rule bit_word_eqI)
  fix n
  assume n: "n < LENGTH('a)"
  let ?i = "n div 8"
  have "LENGTH('a) div 8 * 8 = LENGTH('a)"
    using assms(2) by (simp add: dvd_eq_mod_eq_0)
  then have i: "?i < LENGTH('a) div 8"
    using n by (intro less_mult_imp_div_less) simp
  have byte: "bit a n = bit (ucast (drop_bit (8 * ?i) a) :: u8) (n mod 8)" for a :: "'a word"
    by (simp add: bit_ucast_iff bit_drop_bit_eq)
  show "bit a n = bit b n"
    using byte [of a] byte [of b] assms(1) [OF i] by simp
qed

lemma be64_eq_iff [simp]: "be64 a = be64 b \<longleftrightarrow> a = b"
proof
  assume h: "be64 a = be64 b"
  have bytes: "(ucast (drop_bit (8 * i) a) :: u8) = ucast (drop_bit (8 * i) b)" if "i < 8" for i
  proof -
    from that have "i \<in> set [7, 6, 5, 4, 3, 2, 1, 0 :: nat]" by simp linarith
    with h show ?thesis unfolding be64_def map_eq_conv by blast
  qed
  show "a = b" by (rule be_bytes_inj, rule bytes) simp_all
qed simp

lemma be32_eq_iff [simp]: "be32 a = be32 b \<longleftrightarrow> a = b"
proof
  assume h: "be32 a = be32 b"
  have bytes: "(ucast (drop_bit (8 * i) a) :: u8) = ucast (drop_bit (8 * i) b)" if "i < 4" for i
  proof -
    from that have "i \<in> set [3, 2, 1, 0 :: nat]" by simp linarith
    with h show ?thesis unfolding be32_def map_eq_conv by blast
  qed
  show "a = b" by (rule be_bytes_inj, rule bytes) simp_all
qed simp

definition int64_range :: "int \<Rightarrow> bool" where
  "int64_range x \<longleftrightarrow> - (2 ^ 63) \<le> x \<and> x < 2 ^ 63"

lemma of_int_u64_inj:
  assumes "int64_range x" "int64_range y" "(of_int x :: u64) = of_int y"
  shows "x = y"
proof -
  have "x mod 2 ^ 64 = y mod 2 ^ 64"
    using arg_cong [OF assms(3), of uint] by (simp add: uint_word_of_int take_bit_eq_mod)
  then have dvd: "2 ^ 64 dvd x - y" by (simp add: mod_eq_dvd_iff)
  have "\<bar>x - y\<bar> < 2 ^ 64"
    using assms(1,2) by (auto simp: int64_range_def abs_if)
  with dvd show ?thesis using dvd_imp_le_int [of "x - y" "2 ^ 64"] by fastforce
qed

lemma HeaderBytes_inj:
  assumes "HeaderBytes a m = HeaderBytes b n"
    and "int64_range (blkTimestamp a)" "int64_range (blkTimestamp b)"
    and "length (blkPreviousHash a) = length (blkPreviousHash b)"
    and "length (blkMerkleRoot a) = length (blkMerkleRoot b)"
  shows "blkVersion a = blkVersion b \<and> blkHeight a = blkHeight b \<and>
    blkTimestamp a = blkTimestamp b \<and> blkPreviousHash a = blkPreviousHash b \<and>
    blkMerkleRoot a = blkMerkleRoot b \<and> blkMinerAddress a = blkMinerAddress b \<and>
    blkDifficulty a = blkDifficulty b \<and> m = n"
proof -
  have "length (HeaderBytes a m) = length (HeaderBytes b n)" using assms(1) by simp
  with assms(4,5) have "length (blkMinerAddress a) = length (blkMinerAddress b)"
    by (simp add: HeaderBytes_def)
  with assms show ?thesis
    by (auto simp: HeaderBytes_def of_int_u64_inj)
qed

lemma length_Hash: "hash_size_ok C \<Longrightarrow> length (Hash C b) = 64"
  by (simp add: Hash_def hash_size_ok_def Let_def)

section \<open>The Merkle tree\<close>

lemma merkle_leaves_Some [simp]: "merkle_leaves C (map Some txs) = map (merkle_leaf C) txs"
  by (induction txs) simp_all

lemma merkle_level_duplicate_last:
  "odd (length hs) \<Longrightarrow> merkle_level C (hs @ [last hs]) = merkle_level C hs"
  by (induction C hs rule: merkle_level.induct) auto

lemma merkle_fold_step: "1 < length hs \<Longrightarrow> merkle_fold C hs = merkle_fold C (merkle_level C hs)"
  by (subst merkle_fold.simps) simp

lemma merkle_fold_length: "hs \<noteq> [] \<Longrightarrow> length (merkle_fold C hs) = 1"
proof (induction C hs rule: merkle_fold.induct)
  case (1 C hs)
  show ?case
  proof (cases "length hs > 1")
    case True
    then have "0 < length (merkle_level C hs)" by (simp add: length_merkle_level)
    then have "merkle_level C hs \<noteq> []" by simp
    with 1 True show ?thesis by (simp add: merkle_fold_step)
  next
    case False
    with "1.prems" show ?thesis by (subst merkle_fold.simps) (cases hs, auto)
  qed
qed

lemma merkle_fold_duplicate_last:
  assumes "odd (length hs)" "1 < length hs"
  shows "merkle_fold C (hs @ [last hs]) = merkle_fold C hs"
proof -
  have "merkle_fold C (hs @ [last hs]) = merkle_fold C (merkle_level C (hs @ [last hs]))"
    by (rule merkle_fold_step) (use assms in auto)
  also have "\<dots> = merkle_fold C hs"
    by (simp only: merkle_level_duplicate_last [OF assms(1)] merkle_fold_step [OF assms(2)])
  finally show ?thesis .
qed

lemma CalculateMerkleRoot_duplicate_last:
  assumes "odd (length txs)" "1 < length txs"
  shows "CalculateMerkleRoot C (b\<lparr>blkTransactions := map Some (txs @ [last txs])\<rparr>)
       = CalculateMerkleRoot C (b\<lparr>blkTransactions := map Some txs\<rparr>)"
proof -
  define ys where "ys = txs @ [last txs]"
  have ne: "txs \<noteq> []" "ys \<noteq> []" using assms by (auto simp: ys_def)
  then have "map (merkle_leaf C) ys = map (merkle_leaf C) txs @ [last (map (merkle_leaf C) txs)]"
    by (simp add: last_map ys_def)
  with merkle_fold_duplicate_last [of "map (merkle_leaf C) txs" C] assms
  have "merkle_fold C (map (merkle_leaf C) ys) = merkle_fold C (map (merkle_leaf C) txs)" by simp
  with ne show ?thesis
    unfolding ys_def [symmetric] by (simp add: CalculateMerkleRoot_def Let_def)
qed

section \<open>Properties\<close>



end
