(* ===== verification/Consensus.thy ===== *)
theory Consensus
  imports Params
begin

text \<open>
  Package \<open>consensus\<close>: the difficulty rule, the median of recent block intervals, the block
  subsidy under both monetary policies, and the target and work of a difficulty.
\<close>

section \<open>Difficulty\<close>

definition NextDifficulty :: "u32 \<Rightarrow> i64 \<Rightarrow> u32" where
  "NextDifficulty currentDifficulty actualBlockTimeSeconds =
     (let current = (if currentDifficulty = 0 then 1 else currentDifficulty);
          target = sint TargetBlockTimeSeconds
      in if actualBlockTimeSeconds < target div 2 then
           (let quarter = current div 4;
                increase = (if quarter = 0 then 1 else quarter)
            in if current > MaxUint32 - increase then MaxUint32 else current + increase)
         else if actualBlockTimeSeconds > target * 2 then
           (let fifth = current div 5;
                decrease = (if fifth = 0 then 1 else fifth)
            in if decrease \<ge> current then 1
               else (let nxt = current - decrease in if nxt < 1 then 1 else nxt))
         else current)"

definition DifficultyHistoryWindow :: nat where
  [go_const]: "DifficultyHistoryWindow = 11"

definition MedianBlockInterval :: "i64 list \<Rightarrow> i64" where
  "MedianBlockInterval intervals =
     (let valid = filter (\<lambda>interval. interval > 0) intervals
      in if length valid = 0 then sint TargetBlockTimeSeconds
         else sort valid ! (length valid div 2))"

definition NextDifficultyFromHistory :: "u32 \<Rightarrow> i64 list \<Rightarrow> u32" where
  "NextDifficultyFromHistory currentDifficulty intervals =
     NextDifficulty currentDifficulty (MedianBlockInterval intervals)"

section \<open>Subsidy\<close>

definition BlockSubsidyFor :: "monetary_policy \<Rightarrow> u64 \<Rightarrow> u64 result" where
  "BlockSubsidyFor policy height =
     (case ValidateMonetaryPolicy policy of
        Inl err \<Rightarrow> Inl err
      | Inr _ \<Rightarrow>
          if policy = MonetaryPolicyPublicTestnet then
            (let halvings = height div HalvingInterval
             in if halvings \<ge> 64 then Inr 0
                else Inr (drop_bit (unat halvings) InitialBlockReward))
          else if height = 0 \<or> height > MainnetFinalSubsidyHeight then Inr 0
          else
            (let epochIndex = (height - 1) div MainnetEpochLength
             in if epochIndex \<ge> of_nat (length MainnetEmissionEpochs) then Inl EpochOutOfRange
                else
                  (let epoch = MainnetEmissionEpochs ! unat epochIndex;
                       base = Issuance epoch div MainnetEpochLength;
                       remainder = Issuance epoch mod MainnetEpochLength;
                       offset = (height - 1) mod MainnetEpochLength
                   in if offset < remainder then Inr (base + 1) else Inr base)))"

definition BlockSubsidy :: "u64 \<Rightarrow> u64" where
  "BlockSubsidy height =
     (case BlockSubsidyFor MonetaryPolicyPublicTestnet height of Inl _ \<Rightarrow> 0 | Inr reward \<Rightarrow> reward)"

section \<open>Target and work\<close>

definition TargetFromDifficulty :: "u32 \<Rightarrow> int" where
  "TargetFromDifficulty difficulty =
     (if difficulty = 0 then 0
      else (let maxHash = push_bit 256 1 - 1 in maxHash div uint difficulty))"

definition WorkFromDifficulty :: "u32 \<Rightarrow> int" where
  "WorkFromDifficulty difficulty =
     (if difficulty = 0 then 0
      else (let target = TargetFromDifficulty difficulty
            in if sgn target \<le> 0 then 0
               else (let twoTo256 = push_bit 256 1; denominator = target + 1
                     in twoTo256 div denominator)))"

section \<open>The difficulty rule over natural numbers\<close>

lemma sint_target [simp]: "sint TargetBlockTimeSeconds = 60"
  by (simp add: go_const)

text \<open>Saturating increase and decrease, free of word arithmetic.\<close>

definition difficulty_spec :: "nat \<Rightarrow> int \<Rightarrow> nat" where
  "difficulty_spec d t =
     (let c = max 1 d
      in if t < 30 then min (2 ^ 32 - 1) (c + max 1 (c div 4))
         else if t > 120 then max 1 (c - max 1 (c div 5))
         else c)"

lemma next_difficulty_up:
  fixes c :: u32
  assumes "c \<noteq> 0"
  defines "inc \<equiv> (if c div 4 = 0 then 1 else c div 4)"
  shows "unat (if c > MaxUint32 - inc then MaxUint32 else c + inc)
       = min 4294967295 (unat c + max 1 (unat c div 4))"
proof -
  have inc: "unat inc = max 1 (unat c div 4)"
    by (simp add: inc_def unat_at_least_one unat_div)
  have le: "inc \<le> MaxUint32" by simp
  have sub: "unat (MaxUint32 - inc) = 4294967295 - unat inc"
    by (subst unat_sub [OF le]) simp
  show ?thesis
    unfolding word_less_nat_alt sub inc [symmetric]
    using unat_less_32 [of c] unat_less_32 [of inc]
    by (auto simp: unat_plus_if' min_def)
qed

lemma next_difficulty_down:
  fixes c :: u32
  assumes "c \<noteq> 0"
  defines "decr \<equiv> (if c div 5 = 0 then 1 else c div 5)"
  shows "unat (if decr \<ge> c then 1 else let nxt = c - decr in if nxt < 1 then 1 else nxt)
       = max 1 (unat c - max 1 (unat c div 5))"
proof -
  have decr: "unat decr = max 1 (unat c div 5)"
    by (simp add: decr_def unat_at_least_one unat_div)
  show ?thesis
    unfolding decr [symmetric] Let_def
    by (auto simp: word_le_nat_alt word_less_nat_alt unat_sub max_def not_le)
qed

lemma NextDifficulty_eq_spec: "unat (NextDifficulty d t) = difficulty_spec (unat d) t"
proof -
  define c where "c = (if d = 0 then 1 else d)"
  have c0: "c \<noteq> 0" and c: "unat c = max 1 (unat d)"
    by (auto simp: c_def unat_at_least_one)
  consider "t < 30" | "t > 120" | "30 \<le> t" "t \<le> 120" by linarith
  then show ?thesis
  proof cases
    case 1
    then have "NextDifficulty d t =
        (if c > MaxUint32 - (if c div 4 = 0 then 1 else c div 4) then MaxUint32
         else c + (if c div 4 = 0 then 1 else c div 4))"
      by (simp only: NextDifficulty_def c_def [symmetric] Let_def sint_target) simp
    with 1 show ?thesis
      by (simp only: next_difficulty_up [OF c0] difficulty_spec_def c) (simp add: Let_def)
  next
    case 2
    then have "NextDifficulty d t =
        (if (if c div 5 = 0 then 1 else c div 5) \<ge> c then 1
         else let nxt = c - (if c div 5 = 0 then 1 else c div 5) in if nxt < 1 then 1 else nxt)"
      by (simp only: NextDifficulty_def c_def [symmetric] Let_def sint_target) simp
    with 2 show ?thesis
      by (simp only: next_difficulty_down [OF c0] difficulty_spec_def c) (simp add: Let_def)
  next
    case 3
    then have "NextDifficulty d t = c"
      by (simp only: NextDifficulty_def c_def [symmetric] Let_def sint_target) simp
    with 3 show ?thesis
      by (simp add: difficulty_spec_def c Let_def)
  qed
qed

section \<open>The median\<close>

lemma length_filter_sort: "length (filter P (sort xs)) = length (filter P xs)"
  by (metis mset_filter mset_sort size_mset)

lemma median_index_bounds:
  fixes s :: "int list"
  assumes s: "sorted s" and k: "k = length s div 2" "s \<noteq> []"
    and maj: "length s < 2 * length (filter (\<lambda>x. lo \<le> x \<and> x \<le> hi) s)"
  shows "lo \<le> s ! k \<and> s ! k \<le> hi"
proof -
  let ?P = "\<lambda>x. lo \<le> x \<and> x \<le> hi"
  have kl: "k < length s" using k by simp
  have split: "length (filter ?P s) = length (filter ?P (take n s)) + length (filter ?P (drop n s))" for n
    by (metis append_take_drop_id filter_append length_append)
  have below: "x \<le> s ! k" if "x \<in> set (take (Suc k) s)" for x
    using that s kl by (auto simp: in_set_conv_nth sorted_iff_nth_mono less_Suc_eq_le)
  have above: "s ! k \<le> x" if "x \<in> set (drop k s)" for x
    using that s kl by (auto simp: in_set_conv_nth sorted_iff_nth_mono less_Suc_eq_le)
  have "lo \<le> s ! k"
  proof (rule ccontr)
    assume "\<not> lo \<le> s ! k"
    then have "filter ?P (take (Suc k) s) = []"
      using below by (force simp: filter_empty_conv)
    then have "length (filter ?P s) \<le> length s - Suc k"
      using split [of "Suc k"] length_filter_le [of ?P "drop (Suc k) s"] by simp
    with maj k show False by linarith
  qed
  moreover have "s ! k \<le> hi"
  proof (rule ccontr)
    assume "\<not> s ! k \<le> hi"
    then have "filter ?P (drop k s) = []"
      using above by (force simp: filter_empty_conv)
    then have "length (filter ?P s) \<le> k"
      using split [of k] length_filter_le [of ?P "take k s"] by simp
    with maj k show False by linarith
  qed
  ultimately show ?thesis ..
qed

lemma MedianBlockInterval_majority:
  assumes "length (filter (\<lambda>x. x > 0) xs) < 2 * length (filter (\<lambda>x. x > 0 \<and> lo \<le> x \<and> x \<le> hi) xs)"
  shows "lo \<le> MedianBlockInterval xs \<and> MedianBlockInterval xs \<le> hi"
proof -
  let ?v = "filter (\<lambda>x. x > 0) xs"
  have f: "filter (\<lambda>x. lo \<le> x \<and> x \<le> hi) ?v = filter (\<lambda>x. x > 0 \<and> lo \<le> x \<and> x \<le> hi) xs"
    by (simp add: conj_commute)
  have ne: "?v \<noteq> []" using assms f by fastforce
  have ne': "sort ?v \<noteq> []" using ne by (metis mset_sort mset_zero_iff)
  have "lo \<le> sort ?v ! (length ?v div 2) \<and> sort ?v ! (length ?v div 2) \<le> hi"
    by (rule median_index_bounds [OF sorted_sort _ ne'])
      (simp, use assms in \<open>simp only: length_sort length_filter_sort f\<close>)
  with ne show ?thesis by (simp add: MedianBlockInterval_def Let_def)
qed

section \<open>Emission\<close>

text \<open>The subsidy of the block at a height, as a number.\<close>

definition subsidy_at :: "monetary_policy \<Rightarrow> nat \<Rightarrow> nat" where
  "subsidy_at policy h =
     (case BlockSubsidyFor policy (of_nat h) of Inl _ \<Rightarrow> 0 | Inr reward \<Rightarrow> unat reward)"

definition epoch_issuance :: "nat \<Rightarrow> nat" where
  "epoch_issuance e = unat (Issuance (MainnetEmissionEpochs ! e))"

lemma length_MainnetEmissionEpochs [simp]: "length MainnetEmissionEpochs = 40"
  by (simp add: MainnetEmissionEpochs_def)

lemma BlockSubsidyFor_valid:
  "BlockSubsidyFor MonetaryPolicyMainnet h =
     (if h = 0 \<or> h > MainnetFinalSubsidyHeight then Inr 0
      else
        (let epochIndex = (h - 1) div MainnetEpochLength
         in if epochIndex \<ge> 40 then Inl EpochOutOfRange
            else
              (let epoch = MainnetEmissionEpochs ! unat epochIndex;
                   base = Issuance epoch div MainnetEpochLength;
                   remainder = Issuance epoch mod MainnetEpochLength;
                   offset = (h - 1) mod MainnetEpochLength
               in if offset < remainder then Inr (base + 1) else Inr base)))"
  by (simp add: BlockSubsidyFor_def ValidateMonetaryPolicy_def)

lemma mainnet_epoch_in_range:
  assumes "h \<noteq> 0" "\<not> h > MainnetFinalSubsidyHeight"
  shows "(h - 1) div MainnetEpochLength < 40"
proof -
  from assms have "unat h \<le> 5259600"
    by (simp add: go_const word_less_nat_alt)
  moreover have "unat (h - 1) = unat h - 1"
    using assms by (simp add: unat_minus_one)
  ultimately have "unat (h - 1) div 131490 < 40" using assms by (simp add: unat_gt_0 [symmetric])
  then show ?thesis by (simp add: go_const word_less_nat_alt unat_div)
qed

lemma BlockSubsidyFor_total:
  assumes "ValidateMonetaryPolicy p = Inr ()"
  shows "\<exists>r. BlockSubsidyFor p h = Inr r"
proof (cases "p = MonetaryPolicyMainnet")
  case True
  then show ?thesis
    using mainnet_epoch_in_range [of h, THEN linorder_not_le [THEN iffD2]]
    by (cases "h = 0 \<or> h > MainnetFinalSubsidyHeight") (simp_all add: BlockSubsidyFor_valid Let_def)
next
  case False
  with assms have "p = MonetaryPolicyPublicTestnet" by (simp add: ValidateMonetaryPolicy_ok_iff)
  then show ?thesis by (simp add: BlockSubsidyFor_def ValidateMonetaryPolicy_def Let_def)
qed

lemma base_plus_one_no_wrap: "unat (x div 131490 + 1 :: u64) = unat x div 131490 + 1"
proof -
  have "unat x div 131490 < 18446744073709551615" using unat_less_64 [of x] by linarith
  then show ?thesis by (simp add: unat_plus_if' unat_div)
qed

lemma subsidy_at_epoch:
  assumes e: "e < 40" and o: "off < 131490"
  shows "subsidy_at MonetaryPolicyMainnet (Suc (e * 131490 + off)) =
     epoch_issuance e div 131490 + (if off < epoch_issuance e mod 131490 then 1 else 0)"
proof -
  define h :: u64 where "h = of_nat (Suc (e * 131490 + off))"
  have "e * 131490 + off < 5259600" using e o by linarith
  then have uh: "unat h = Suc (e * 131490 + off)"
    by (simp only: h_def unat_of_nat) simp
  then have h0: "h \<noteq> 0" and hle: "\<not> h > MainnetFinalSubsidyHeight"
    using \<open>e * 131490 + off < 5259600\<close> by (auto simp: go_const word_less_nat_alt)
  have u1: "unat (h - 1) = e * 131490 + off"
    using uh h0 by (simp add: unat_minus_one)
  have idx: "unat ((h - 1) div MainnetEpochLength) = e"
    using u1 o by (simp add: go_const unat_div)
  have off: "unat ((h - 1) mod MainnetEpochLength) = off"
    using u1 o by (simp add: go_const unat_mod)
  have rng: "\<not> (h - 1) div MainnetEpochLength \<ge> 40"
    using mainnet_epoch_in_range [OF h0 hle] by simp
  have len: "MainnetEpochLength = 131490" by (simp add: go_const)
  show ?thesis
    unfolding subsidy_at_def h_def [symmetric] BlockSubsidyFor_valid Let_def idx epoch_issuance_def
    using h0 hle rng off
    by (auto simp: word_less_nat_alt unat_mod unat_div len base_plus_one_no_wrap)
qed

lemma sum_first_excess: "(\<Sum>i<n. if i < r then 1 else (0::nat)) = min r n"
  by (induction n) auto

lemma epoch_sum:
  assumes "e < 40"
  shows "(\<Sum>i = e * 131490..<e * 131490 + 131490. subsidy_at MonetaryPolicyMainnet (Suc i)) = epoch_issuance e"
proof -
  have "(\<Sum>i = e * 131490..<e * 131490 + 131490. subsidy_at MonetaryPolicyMainnet (Suc i))
      = (\<Sum>i<131490. subsidy_at MonetaryPolicyMainnet (Suc (e * 131490 + i)))"
    using sum.shift_bounds_nat_ivl [of "\<lambda>i. subsidy_at MonetaryPolicyMainnet (Suc i)" 0 "e * 131490" 131490]
    by (simp add: add.commute atLeast0LessThan)
  also have "\<dots> = (\<Sum>i<131490. epoch_issuance e div 131490 + (if i < epoch_issuance e mod 131490 then 1 else 0))"
    using assms by (intro sum.cong) (simp_all add: subsidy_at_epoch)
  also have "\<dots> = 131490 * (epoch_issuance e div 131490) + epoch_issuance e mod 131490"
    by (simp add: sum.distrib sum_first_excess min_absorb1 less_imp_le)
  finally show ?thesis by simp
qed

lemma issuance_sum: "(\<Sum>e<40. epoch_issuance e) = 5100000000000000"
proof -
  have "(\<Sum>e<40. epoch_issuance e) = sum_list (map (\<lambda>x. unat (Issuance x)) MainnetEmissionEpochs)"
    by (simp add: sum_list_sum_nth epoch_issuance_def atLeast0LessThan)
  also have "\<dots> = 5100000000000000"
    by (simp add: MainnetEmissionEpochs_def go_const)
  finally show ?thesis .
qed

lemma mainnet_emission_through_final: "(\<Sum>i<5259600. subsidy_at MonetaryPolicyMainnet (Suc i)) = 5100000000000000"
proof -
  have "(\<Sum>e<40. \<Sum>i = e * 131490..<e * 131490 + 131490. subsidy_at MonetaryPolicyMainnet (Suc i))
      = (\<Sum>i<40 * 131490. subsidy_at MonetaryPolicyMainnet (Suc i))"
    by (rule sum.nat_group)
  moreover have "(\<Sum>e<40. \<Sum>i = e * 131490..<e * 131490 + 131490. subsidy_at MonetaryPolicyMainnet (Suc i))
      = (\<Sum>e<40. epoch_issuance e)"
    by (intro sum.cong) (simp_all add: epoch_sum)
  ultimately show ?thesis by (simp add: issuance_sum)
qed

lemma mainnet_no_subsidy_after: "5259600 < h \<Longrightarrow> h < 2 ^ 64 \<Longrightarrow> subsidy_at MonetaryPolicyMainnet h = 0"
proof -
  assume "5259600 < h" "h < 2 ^ 64"
  then have "of_nat h > MainnetFinalSubsidyHeight"
    by (simp add: go_const word_less_nat_alt unat_of_nat)
  then show ?thesis by (simp add: subsidy_at_def BlockSubsidyFor_valid)
qed

text \<open>Public testnet: the reward of era \<open>e\<close> is the initial reward shifted right by \<open>e\<close>.\<close>

lemma subsidy_at_testnet:
  assumes "h < 2 ^ 64"
  shows "subsidy_at MonetaryPolicyPublicTestnet h =
    (if 64 \<le> h div 1000000 then 0 else 5000000000 div 2 ^ (h div 1000000))"
proof -
  have u: "unat (of_nat h :: u64) = h" using assms by (simp add: unat_of_nat)
  have d: "unat (of_nat h div HalvingInterval :: u64) = h div 1000000"
    by (simp add: go_const unat_div u)
  have r: "unat InitialBlockReward = 5000000000" by (simp add: go_const)
  show ?thesis
    unfolding subsidy_at_def BlockSubsidyFor_def Let_def d
    using d by (auto simp: ValidateMonetaryPolicy_def word_le_nat_alt unat_drop_bit_eq r
      drop_bit_eq_div [where 'a = nat])
qed

lemma testnet_no_subsidy_after:
  assumes "64000000 \<le> h" "h < 2 ^ 64"
  shows "subsidy_at MonetaryPolicyPublicTestnet h = 0"
proof -
  have "64 \<le> h div 1000000" using assms(1) by linarith
  with assms(2) show ?thesis by (simp add: subsidy_at_testnet)
qed

lemma geometric_halving: "(\<Sum>e<n. c div 2 ^ e) + 2 * (c div 2 ^ n) \<le> 2 * (c :: nat)" for n
proof (induction n)
  case 0
  show ?case by simp
next
  case (Suc n)
  have "2 * (c div 2 ^ Suc n) \<le> c div 2 ^ n"
    by (simp add: div_mult2_eq mult.commute [of 2])
  with Suc show ?case by simp
qed

lemma testnet_era_sum:
  assumes "e < 64"
  shows "(\<Sum>i = e * 1000000..<e * 1000000 + 1000000. subsidy_at MonetaryPolicyPublicTestnet i)
     = 1000000 * (5000000000 div 2 ^ e)"
proof -
  have "subsidy_at MonetaryPolicyPublicTestnet i = 5000000000 div 2 ^ e"
    if "i \<in> {e * 1000000..<e * 1000000 + 1000000}" for i
  proof -
    have "i div 1000000 = e" using that by auto
    moreover have "i < 2 ^ 64" using that assms by auto
    ultimately show ?thesis using assms by (simp add: subsidy_at_testnet)
  qed
  then show ?thesis by simp
qed

lemma testnet_emission_64_eras: "(\<Sum>i<64 * 1000000. subsidy_at MonetaryPolicyPublicTestnet i) \<le> 10000000000000000"
proof -
  have "(\<Sum>i<64 * 1000000. subsidy_at MonetaryPolicyPublicTestnet i)
      = (\<Sum>e<64. \<Sum>i = e * 1000000..<e * 1000000 + 1000000. subsidy_at MonetaryPolicyPublicTestnet i)"
    by (rule sum.nat_group [symmetric])
  also have "\<dots> = 1000000 * (\<Sum>e<64. 5000000000 div 2 ^ e)"
    unfolding sum_distrib_left by (intro sum.cong) (simp_all add: testnet_era_sum)
  also have "\<dots> \<le> 1000000 * (2 * 5000000000)"
    using geometric_halving [of 5000000000 64] by linarith
  finally show ?thesis by simp
qed

text \<open>Cumulative issuance through a height, for both policies, never reaches past the cap.\<close>

definition emitted :: "monetary_policy \<Rightarrow> nat \<Rightarrow> nat" where
  "emitted policy n = (\<Sum>h = 1..n. subsidy_at policy h)"

lemma emitted_Suc: "emitted p (Suc n) = emitted p n + subsidy_at p (Suc n)"
  by (simp add: emitted_def)

lemma emitted_0 [simp]: "emitted p 0 = 0"
  by (simp add: emitted_def)

lemma emitted_mono: "m \<le> n \<Longrightarrow> emitted p m \<le> emitted p n"
  unfolding emitted_def by (intro sum_mono2) auto

lemma emitted_mainnet_final: "emitted MonetaryPolicyMainnet 5259600 = unat MainnetMaxSupply"
proof -
  have "emitted MonetaryPolicyMainnet 5259600 = (\<Sum>i<5259600. subsidy_at MonetaryPolicyMainnet (Suc i))"
    by (simp add: emitted_def sum.atLeast1_atMost_eq)
  also have "\<dots> = 5100000000000000"
    by (rule mainnet_emission_through_final)
  also have "\<dots> = unat MainnetMaxSupply"
    by (simp add: go_const)
  finally show ?thesis .
qed

lemma emitted_mainnet_le:
  assumes "n < 2 ^ 64"
  shows "emitted MonetaryPolicyMainnet n \<le> unat MainnetMaxSupply"
proof (cases "n \<le> 5259600")
  case True
  then show ?thesis
    using emitted_mono [OF True, of MonetaryPolicyMainnet] by (simp add: emitted_mainnet_final)
next
  case False
  have "emitted MonetaryPolicyMainnet n = emitted MonetaryPolicyMainnet 5259600"
    unfolding emitted_def using False assms
    by (intro sum.mono_neutral_right) (auto simp: mainnet_no_subsidy_after)
  then show ?thesis by (simp add: emitted_mainnet_final)
qed

lemma emitted_testnet_le:
  assumes "n < 2 ^ 64"
  shows "emitted MonetaryPolicyPublicTestnet n \<le> 10000000000000000"
proof -
  have "emitted MonetaryPolicyPublicTestnet n
      = (\<Sum>h\<in>{1..n} \<inter> {..<64 * 1000000}. subsidy_at MonetaryPolicyPublicTestnet h)"
    unfolding emitted_def
  proof (rule sum.mono_neutral_right)
    show "\<forall>h\<in>{1..n} - {1..n} \<inter> {..<64 * 1000000}. subsidy_at MonetaryPolicyPublicTestnet h = 0"
      using assms by (auto intro!: testnet_no_subsidy_after)
  qed auto
  also have "\<dots> \<le> (\<Sum>i<64 * 1000000. subsidy_at MonetaryPolicyPublicTestnet i)"
    by (intro sum_mono2) auto
  finally show ?thesis using testnet_emission_64_eras by linarith
qed

lemma emitted_le_MaxSupplyFor:
  assumes "ValidateMonetaryPolicy p = Inr ()" "n < 2 ^ 64"
  shows "emitted p n \<le> unat (MaxSupplyFor p)"
proof (cases "p = MonetaryPolicyMainnet")
  case True
  then show ?thesis using emitted_mainnet_le [OF assms(2)] by (simp add: MaxSupplyFor_def)
next
  case False
  with assms have "p = MonetaryPolicyPublicTestnet" by (simp add: ValidateMonetaryPolicy_ok_iff)
  then show ?thesis using emitted_testnet_le [OF assms(2)] by (simp add: MaxSupplyFor_def go_const)
qed

section \<open>Target and work\<close>

lemma TargetFromDifficulty_antimono:
  assumes "d \<noteq> 0" "d \<le> d'"
  shows "TargetFromDifficulty d' \<le> TargetFromDifficulty d"
proof -
  have "0 < uint d" "uint d \<le> uint d'"
    using assms by (simp_all add: word_le_def less_le uint_0_iff)
  then show ?thesis
    using assms by (auto simp: TargetFromDifficulty_def intro!: zdiv_mono2)
qed

lemma work_of_divisor:
  fixes N D :: int
  assumes "0 < D" "D dvd N" "D \<le> N"
  shows "N div ((N - 1) div D + 1) = D"
proof -
  from assms(2) obtain q where q: "N = D * q" by (elim dvdE)
  with assms have "0 < q" by (metis less_le_trans zero_less_mult_pos)
  have "(N - 1) div D = q - 1"
    using assms(1) q by (intro int_div_pos_eq [where r = "D - 1"]) (simp_all add: algebra_simps)
  with q \<open>0 < q\<close> show ?thesis by simp
qed

lemma work_of_non_divisor:
  fixes N D :: int
  assumes "0 < D" "\<not> D dvd N" "D * D < N"
  shows "N div ((N - 1) div D + 1) = D - 1"
proof -
  define q r where "q = N div D" and "r = N mod D"
  have N: "N = D * q + r" by (simp add: q_def r_def)
  have r: "0 < r" "r < D"
    using assms pos_mod_sign [of D N] pos_mod_bound [of D N]
    unfolding r_def dvd_eq_mod_eq_0 by linarith+
  have "D * D div D \<le> q"
    unfolding q_def using assms by (intro zdiv_mono1) auto
  then have "D \<le> q" using assms by simp
  have "(N - 1) div D = q"
    by (rule int_div_pos_eq [where r = "r - 1"]) (use N r in auto)
  moreover have "N div (q + 1) = D - 1"
    by (rule int_div_pos_eq [where r = "r + q + 1 - D"])
      (use N r \<open>D \<le> q\<close> in \<open>auto simp: algebra_simps\<close>)
  ultimately show ?thesis by simp
qed

lemma WorkFromDifficulty_exact:
  assumes "d \<noteq> 0"
  shows "WorkFromDifficulty d = (if uint d dvd 2 ^ 256 then uint d else uint d - 1)"
proof -
  let ?D = "uint d"
  have D: "0 < ?D" "?D < 2 ^ 32"
    using assms uint_lt2p [of d] by (simp_all add: less_le uint_0_iff)
  have "?D * ?D < 2 ^ 32 * 2 ^ 32"
    using D by (intro mult_strict_mono) auto
  then have sq: "?D * ?D < 2 ^ 256" by simp
  have le: "?D \<le> 2 ^ 256" using D by simp
  have pos: "0 < (2 ^ 256 - 1) div ?D"
    using D by (simp add: pos_imp_zdiv_pos_iff)
  have W: "WorkFromDifficulty d = 2 ^ 256 div ((2 ^ 256 - 1) div ?D + 1)"
    using assms pos
    by (simp only: WorkFromDifficulty_def TargetFromDifficulty_def Let_def push_bit_eq_mult mult_1_left) simp
  show ?thesis
    using work_of_divisor [OF D(1) _ le] work_of_non_divisor [OF D(1) _ sq]
    unfolding W by auto
qed

section \<open>Properties\<close>

text \<open>The mainnet subsidies of heights 1 to 5259600 add up to exactly the mainnet supply of
  51 million coins, and no height after that pays a subsidy.\<close>

theorem mainnet_emission_exact:
  "(\<Sum>h = 1..5259600. subsidy_at MonetaryPolicyMainnet h) = 51000000 * 100000000
   \<and> (\<forall>h. 5259600 < h \<and> h < 2 ^ 64 \<longrightarrow> subsidy_at MonetaryPolicyMainnet h = 0)"
  using emitted_mainnet_final mainnet_no_subsidy_after by (simp add: emitted_def go_const)

theorem mainnet_emission_exact_witness: "subsidy_at MonetaryPolicyMainnet 5259601 = 0"
  using mainnet_emission_exact by simp

text \<open>Under each valid policy the subsidies up to any height a block can have stay within the
  maximum supply of the policy, so the cut to the remaining supply never takes effect on a chain
  that starts at height 1; the testnet emission stays below 100 million coins.\<close>

theorem emission_within_cap:
  assumes "ValidateMonetaryPolicy p = Inr ()" "n < 2 ^ 64"
  shows "(\<Sum>h = 1..n. subsidy_at p h) \<le> unat (MaxSupplyFor p)
    \<and> (p = MonetaryPolicyPublicTestnet \<longrightarrow> (\<Sum>h = 1..n. subsidy_at p h) \<le> 100000000 * 100000000)"
  using emitted_le_MaxSupplyFor [OF assms] emitted_testnet_le [OF assms(2)] by (auto simp: emitted_def)

theorem emission_within_cap_witness:
  "(\<Sum>h = 1..1000. subsidy_at MonetaryPolicyPublicTestnet h) \<le> 10000000000000000"
  using emission_within_cap [of MonetaryPolicyPublicTestnet 1000]
  by (simp add: ValidateMonetaryPolicy_def)

text \<open>The 32-bit difficulty adjustment computes the saturating rule: a quarter up, at least
  one, when blocks come in less than half the target time; a fifth down, at least one and never
  below one, when they take more than twice the target time; unchanged otherwise.\<close>

theorem difficulty_adjustment:
  "unat (NextDifficulty d t) =
     (let c = max 1 (unat d)
      in if t < 30 then min (2 ^ 32 - 1) (c + max 1 (c div 4))
         else if t > 120 then max 1 (c - max 1 (c div 5))
         else c)"
  using NextDifficulty_eq_spec [of d t] by (simp add: difficulty_spec_def)

text \<open>The median interval is robust: when more than half of the positive intervals of the
  window lie between two bounds, so does the median the difficulty is computed from, whatever
  the other timestamps are.\<close>

theorem median_interval_robust:
  assumes "length (filter (\<lambda>x. x > 0) xs) < 2 * length (filter (\<lambda>x. x > 0 \<and> lo \<le> x \<and> x \<le> hi) xs)"
  shows "lo \<le> MedianBlockInterval xs \<and> MedianBlockInterval xs \<le> hi"
  by (rule MedianBlockInterval_majority [OF assms])

theorem median_interval_robust_witness:
  "30 \<le> MedianBlockInterval [60, 55, 7000, 61, 1] \<and> MedianBlockInterval [60, 55, 7000, 61, 1] \<le> 120"
  using median_interval_robust [of "[60, 55, 7000, 61, 1]" 30 120] by simp

text \<open>The work of a block is its difficulty when the difficulty is a power of two, and one
  less otherwise: the truncated target gives away one unit of work. In particular difficulties 2
  and 3 count as the same work.\<close>

theorem work_of_difficulty:
  assumes "d \<noteq> 0"
  shows "WorkFromDifficulty d = (if uint d dvd 2 ^ 256 then uint d else uint d - 1)"
  by (rule WorkFromDifficulty_exact [OF assms])

theorem work_of_difficulty_witness: "WorkFromDifficulty 3 = 2 \<and> WorkFromDifficulty 2 = 2"
  using work_of_difficulty [of 3] work_of_difficulty [of 2] by simp

end
