(* ===== verification/Chain.thy ===== *)
theory Chain
  imports Blocks Consensus
begin

text \<open>
  The chain of blocks: \<open>blockchain/pow_policy.go\<close>, \<open>proof_verifier.go\<close>,
  \<open>block_resource_validator.go\<close>, \<open>validator.go\<close>, \<open>validator_core.go\<close>,
  \<open>difficulty_history.go\<close>, \<open>chain.go\<close> and \<open>chain_validator.go\<close>.

  A \<open>Chain\<close> is built only by its constructors and by \<open>AddBlock\<close>, which refuse nil
  blocks, so its slice is a list of blocks. \<open>now\<close> stands for \<open>time.Now().Unix()\<close>. A proof
  verifier is a record of the two methods of the Go interface, and a nil interface is \<open>None\<close>.
\<close>

section \<open>Proof policy\<close>

record pow_policy =
  GPUV1ActivationHeight :: u64

definition LegacyOnlyPoWPolicy :: pow_policy where
  "LegacyOnlyPoWPolicy = \<lparr>GPUV1ActivationHeight = GPUV1ActivationDisabled\<rparr>"

definition PoWPolicyForNetwork :: "network_id \<Rightarrow> pow_policy result" where
  "PoWPolicyForNetwork network =
     (if network = NetworkPublicTestnet
      then Inr \<lparr>GPUV1ActivationHeight = GPUV1TestnetActivationHeight\<rparr>
      else if network = NetworkMainnet
      then Inr \<lparr>GPUV1ActivationHeight = GPUV1MainnetActivationHeight\<rparr>
      else Inl UnknownNetwork)"

definition VersionAllowed :: "pow_policy \<Rightarrow> u32 \<Rightarrow> u64 \<Rightarrow> bool" where
  "VersionAllowed p version height =
     (if version \<noteq> 1 \<and> version \<noteq> 2 then False
      else if GPUV1ActivationHeight p = GPUV1ActivationDisabled \<or> height < GPUV1ActivationHeight p
      then version = 1
      else version = 2)"

definition VersionAtHeight :: "pow_policy \<Rightarrow> u64 \<Rightarrow> u32 result" where
  "VersionAtHeight p height =
     (if GPUV1ActivationHeight p = GPUV1ActivationDisabled \<or> height < GPUV1ActivationHeight p
      then Inr 1 else Inr 2)"

section \<open>Proof verifiers\<close>

record proof_verifier =
  SupportsVersion :: "u32 \<Rightarrow> bool"
  VerifyProof :: "block option \<Rightarrow> bool"

definition blockTargetFromDifficulty :: "u32 \<Rightarrow> int" where
  "blockTargetFromDifficulty difficulty = TargetFromDifficulty difficulty"

definition validBlockProofOfWorkCore :: "crypto \<Rightarrow> block \<Rightarrow> bool" where
  "validBlockProofOfWorkCore C block =
     (case hex_decode (Hash C block) of
        None \<Rightarrow> False
      | Some hashBytes \<Rightarrow>
          (let hashInt = int (be_nat hashBytes);
               target = blockTargetFromDifficulty (blkDifficulty block)
           in target > 0 \<and> hashInt \<le> target))"

definition legacyProofVerifier :: "crypto \<Rightarrow> proof_verifier" where
  "legacyProofVerifier C =
     \<lparr>SupportsVersion = (\<lambda>version. version = 1),
      VerifyProof = (\<lambda>blockp. case blockp of
          None \<Rightarrow> False
        | Some block \<Rightarrow> blkVersion block = 1 \<and> validBlockProofOfWorkCore C block)\<rparr>"

section \<open>Block validation\<close>

text \<open>The loop over the transactions adds up their sizes and stops at the first bad one.\<close>

fun block_payload_bytes :: "nat \<Rightarrow> transaction option list \<Rightarrow> nat result" where
  "block_payload_bytes totalBytes [] = Inr totalBytes"
| "block_payload_bytes totalBytes (None # txs) = Inl NilTransactionInBlock"
| "block_payload_bytes totalBytes (Some tx # txs) =
     (case ValidateResourceBounds (Some tx) of
        Inl err \<Rightarrow> Inl (BlockTransactionInvalid (txID tx) err)
      | Inr _ \<Rightarrow> block_payload_bytes (totalBytes + EstimatedSerializedSize (Some tx)) txs)"

definition validateBlockTransactions :: "block option \<Rightarrow> unit result" where
  "validateBlockTransactions blockp =
     (case blockp of
        None \<Rightarrow> Inl NilBlock
      | Some block \<Rightarrow>
          if length (blkTransactions block) > MaxBlockTransactions then Inl TooManyBlockTransactions
          else (case block_payload_bytes 0 (blkTransactions block) of
              Inl err \<Rightarrow> Inl err
            | Inr totalBytes \<Rightarrow>
                if totalBytes > MaxBlockTransactionBytes then Inl BlockPayloadTooLarge
                else Inr ()))"

definition MaxFutureBlockSeconds :: i64 where
  [go_const]: "MaxFutureBlockSeconds = 2 * 60 * 60"

definition validateBlockCoreWithProof ::
  "crypto \<Rightarrow> i64 \<Rightarrow> block option \<Rightarrow> block option \<Rightarrow> pow_policy \<Rightarrow> proof_verifier option \<Rightarrow> unit result" where
  "validateBlockCoreWithProof C now blockp previousp policy verifierp =
     (case blockp of
       None \<Rightarrow> Inl NilBlock
     | Some block \<Rightarrow>
     (case previousp of
       None \<Rightarrow> Inl NilPreviousBlock
     | Some previous \<Rightarrow>
     if \<not> VersionAllowed policy (blkVersion block) (blkHeight block) then Inl InvalidBlockVersion
     else (case verifierp of
       None \<Rightarrow> Inl VersionNotSupported
     | Some verifier \<Rightarrow>
     if \<not> SupportsVersion verifier (blkVersion block) then Inl VersionNotSupported
     else (let expectedHeight = blkHeight previous + 1 in
     if blkHeight block \<noteq> expectedHeight then Inl InvalidBlockHeight
     else if blkPreviousHash block \<noteq> Hash C previous then Inl InvalidPreviousHash
     else if blkTimestamp block \<le> blkTimestamp previous then Inl TimestampNotAfterPrevious
     else if blkTimestamp block > wrap64 (now + MaxFutureBlockSeconds)
     then Inl TimestampTooFarInFuture
     else if blkMerkleRoot block \<noteq> CalculateMerkleRoot C block then Inl InvalidMerkleRoot
     else (case validateBlockTransactions (Some block) of
       Inl err \<Rightarrow> Inl err
     | Inr _ \<Rightarrow>
     if \<not> VerifyProof verifier (Some block) then Inl InvalidProofOfWork
     else Inr ())))))"

definition validateBlockCore :: "crypto \<Rightarrow> i64 \<Rightarrow> block option \<Rightarrow> block option \<Rightarrow> unit result" where
  "validateBlockCore C now blockp previousp =
     validateBlockCoreWithProof C now blockp previousp LegacyOnlyPoWPolicy
       (Some (legacyProofVerifier C))"

definition ValidateBlockBasic :: "crypto \<Rightarrow> i64 \<Rightarrow> block option \<Rightarrow> block option \<Rightarrow> unit result" where
  "ValidateBlockBasic C now blockp previousp =
     (case blockp of
       None \<Rightarrow> Inl NilBlock
     | Some block \<Rightarrow>
     (case previousp of
       None \<Rightarrow> Inl NilPreviousBlock
     | Some previous \<Rightarrow>
     (let actualBlockTime = wrap64 (blkTimestamp block - blkTimestamp previous);
          expectedDifficulty = NextDifficulty (blkDifficulty previous) actualBlockTime
      in if blkDifficulty block \<noteq> expectedDifficulty then Inl InvalidBlockDifficulty
         else validateBlockCore C now blockp previousp)))"

section \<open>The chain\<close>

record chain =
  network :: network_id
  blocks :: "block list"
  totalWork :: int
  powPolicy :: pow_policy
  proofVerifier :: "proof_verifier option"

definition blockWork :: "u32 \<Rightarrow> int" where
  "blockWork difficulty = WorkFromDifficulty difficulty"

text \<open>The intervals between the last blocks, at most \<open>DifficultyHistoryWindow\<close> of them, oldest
  first.\<close>

definition recentBlockIntervalsLocked :: "block list \<Rightarrow> i64 list" where
  "recentBlockIntervalsLocked bs =
     (if length bs < 2 then []
      else
        (let intervalCount = (if length bs - 1 > DifficultyHistoryWindow
                              then DifficultyHistoryWindow else length bs - 1);
             start = length bs - intervalCount
         in filter (\<lambda>interval. interval > 0)
              (map (\<lambda>i. wrap64 (blkTimestamp (bs ! i) - blkTimestamp (bs ! (i - 1))))
                [start..<length bs])))"

definition RecentBlockIntervals :: "chain option \<Rightarrow> i64 list result" where
  "RecentBlockIntervals chainp =
     (case chainp of None \<Rightarrow> Inl NilChain
      | Some c \<Rightarrow> Inr (recentBlockIntervalsLocked (blocks c)))"

definition ExpectedNextDifficulty :: "chain option \<Rightarrow> u32 result" where
  "ExpectedNextDifficulty chainp =
     (case chainp of
        None \<Rightarrow> Inl NilChain
      | Some c \<Rightarrow>
          if length (blocks c) = 0 then Inl ChainHasNoGenesis
          else
            (let previous = last (blocks c)
             in Inr (NextDifficultyFromHistory (blkDifficulty previous)
                  (recentBlockIntervalsLocked (blocks c)))))"

definition expectedGenesis :: "network_id \<Rightarrow> block result" where
  "expectedGenesis net =
     (if net = NetworkPublicTestnet then Inr NewGenesisBlock
      else if net = NetworkMainnet then Inr NewMainnetGenesisBlock
      else Inl UnknownNetwork)"

definition newChainFromGenesisForNetworkWithConsensus ::
  "crypto \<Rightarrow> network_id \<Rightarrow> block option \<Rightarrow> pow_policy \<Rightarrow> proof_verifier option \<Rightarrow> chain result" where
  "newChainFromGenesisForNetworkWithConsensus C net genesisp policy verifierp =
     (case genesisp of
       None \<Rightarrow> Inl NilGenesis
     | Some genesis \<Rightarrow>
     (case MonetaryPolicyFor net of
       Inl err \<Rightarrow> Inl err
     | Inr _ \<Rightarrow>
     (case verifierp of
       None \<Rightarrow> Inl NilProofVerifier
     | Some verifier \<Rightarrow>
     if \<not> SupportsVersion verifier 1 then Inl LegacyVersionNotSupported
     else if GPUV1ActivationHeight policy \<noteq> GPUV1ActivationDisabled
       \<and> \<not> SupportsVersion verifier 2 then Inl GPUVersionNotSupported
     else if \<not> VersionAllowed policy (blkVersion genesis) (blkHeight genesis)
     then Inl GenesisVersionMismatch
     else (case expectedGenesis net of
       Inl err \<Rightarrow> Inl err
     | Inr expected \<Rightarrow>
     if Hash C genesis \<noteq> Hash C expected then Inl GenesisMismatch
     else Inr \<lparr>network = net, blocks = [genesis], totalWork = blockWork (blkDifficulty genesis),
        powPolicy = policy, proofVerifier = Some verifier\<rparr>))))"

definition newChainFromGenesisForNetwork :: "crypto \<Rightarrow> network_id \<Rightarrow> block option \<Rightarrow> chain result" where
  "newChainFromGenesisForNetwork C net genesisp =
     (case PoWPolicyForNetwork net of
        Inl err \<Rightarrow> Inl err
      | Inr policy \<Rightarrow> newChainFromGenesisForNetworkWithConsensus C net genesisp policy
          (Some (legacyProofVerifier C)))"

definition NewChainForWithConsensus ::
  "crypto \<Rightarrow> network_id \<Rightarrow> pow_policy \<Rightarrow> proof_verifier option \<Rightarrow> chain result" where
  "NewChainForWithConsensus C net policy verifierp =
     (case GenesisFor net of
        Inl err \<Rightarrow> Inl err
      | Inr genesis \<Rightarrow>
          newChainFromGenesisForNetworkWithConsensus C net (Some genesis) policy verifierp)"

definition NewChainFor :: "crypto \<Rightarrow> network_id \<Rightarrow> chain result" where
  "NewChainFor C net =
     (case PoWPolicyForNetwork net of
        Inl err \<Rightarrow> Inl err
      | Inr policy \<Rightarrow> NewChainForWithConsensus C net policy (Some (legacyProofVerifier C)))"

definition NewChain :: "crypto \<Rightarrow> chain result" where
  "NewChain C = NewChainFor C NetworkPublicTestnet"

definition Network :: "chain option \<Rightarrow> network_id" where
  "Network chainp = (case chainp of None \<Rightarrow> '''' | Some c \<Rightarrow> network c)"

definition PoWPolicy :: "chain option \<Rightarrow> pow_policy" where
  "PoWPolicy chainp = (case chainp of None \<Rightarrow> \<lparr>GPUV1ActivationHeight = 0\<rparr> | Some c \<Rightarrow> powPolicy c)"

definition proofValidationConfig :: "chain option \<Rightarrow> pow_policy \<times> proof_verifier option" where
  "proofValidationConfig chainp =
     (case chainp of None \<Rightarrow> (\<lparr>GPUV1ActivationHeight = 0\<rparr>, None)
      | Some c \<Rightarrow> (powPolicy c, proofVerifier c))"

definition MonetaryPolicy :: "chain option \<Rightarrow> monetary_policy result" where
  "MonetaryPolicy chainp =
     (case chainp of None \<Rightarrow> Inl NilChain | Some c \<Rightarrow> MonetaryPolicyFor (network c))"

definition Height :: "chain \<Rightarrow> u64" where
  "Height c = (if length (blocks c) = 0 then 0 else blkHeight (last (blocks c)))"

definition Length :: "chain \<Rightarrow> nat" where
  "Length c = length (blocks c)"

definition Tip :: "chain \<Rightarrow> block option" where
  "Tip c = (if length (blocks c) = 0 then None else Some (last (blocks c)))"

definition BlockByHeight :: "chain \<Rightarrow> u64 \<Rightarrow> block option" where
  "BlockByHeight c height =
     (if height \<ge> of_nat (length (blocks c)) then None
      else
        (let block = blocks c ! unat height
         in if blkHeight block \<noteq> height then None else Some block))"

definition TotalWork :: "chain \<Rightarrow> int" where
  "TotalWork c = totalWork c"

definition ValidateChainGenesis :: "crypto \<Rightarrow> chain option \<Rightarrow> network_id \<Rightarrow> unit result" where
  "ValidateChainGenesis C chainp net =
     (case chainp of
       None \<Rightarrow> Inl NilChain
     | Some c \<Rightarrow>
     if Network chainp \<noteq> net then Inl ChainIdentityMismatch
     else (case BlockByHeight c 0 of
       None \<Rightarrow> Inl ChainMissingGenesis
     | Some genesis \<Rightarrow>
     (case expectedGenesis net of
       Inl err \<Rightarrow> Inl err
     | Inr expected \<Rightarrow>
     if Hash C genesis \<noteq> Hash C expected then Inl GenesisMismatch else Inr ())))"

definition AddBlock :: "crypto \<Rightarrow> i64 \<Rightarrow> chain \<Rightarrow> block option \<Rightarrow> (chain, unit) outcome" where
  "AddBlock C now c blockp =
     (case blockp of
       None \<Rightarrow> (c, Inl NilBlock)
     | Some block \<Rightarrow>
     if length (blocks c) = 0 then (c, Inl ChainHasNoGenesis)
     else (let previous = last (blocks c);
               expectedDifficulty = NextDifficultyFromHistory (blkDifficulty previous)
                 (recentBlockIntervalsLocked (blocks c)) in
     if blkDifficulty block \<noteq> expectedDifficulty then (c, Inl InvalidHistoryDifficulty)
     else (case validateBlockCoreWithProof C now (Some block) (Some previous) (powPolicy c)
             (proofVerifier c) of
       Inl err \<Rightarrow> (c, Inl (BlockValidationFailed err))
     | Inr _ \<Rightarrow>
       (c\<lparr>blocks := blocks c @ [block],
          totalWork := totalWork c + blockWork (blkDifficulty block)\<rparr>, Inr ()))))"

definition ValidateBlockAgainstChain :: "crypto \<Rightarrow> i64 \<Rightarrow> chain option \<Rightarrow> block option \<Rightarrow> unit result" where
  "ValidateBlockAgainstChain C now chainp blockp =
     (case chainp of
       None \<Rightarrow> Inl NilChain
     | Some c \<Rightarrow>
     (case blockp of
       None \<Rightarrow> Inl NilBlock
     | Some block \<Rightarrow>
     (case Tip c of
       None \<Rightarrow> Inl NilTip
     | Some previous \<Rightarrow>
     (case ExpectedNextDifficulty chainp of
       Inl err \<Rightarrow> Inl (ExpectedDifficultyFailed err)
     | Inr expectedDifficulty \<Rightarrow>
     if blkDifficulty block \<noteq> expectedDifficulty then Inl InvalidHistoryDifficulty
     else (case proofValidationConfig chainp of
       (policy, verifier) \<Rightarrow> validateBlockCoreWithProof C now blockp (Some previous) policy verifier)))))"

section \<open>What a validated block satisfies\<close>

text \<open>The consensus rules for a block on top of \<open>bs\<close>, apart from the bound on future time.\<close>

definition extends :: "crypto \<Rightarrow> pow_policy \<Rightarrow> proof_verifier \<Rightarrow> block list \<Rightarrow> block \<Rightarrow> bool" where
  "extends C policy V bs b \<longleftrightarrow>
     blkDifficulty b = NextDifficultyFromHistory (blkDifficulty (last bs)) (recentBlockIntervalsLocked bs)
     \<and> VersionAllowed policy (blkVersion b) (blkHeight b) \<and> SupportsVersion V (blkVersion b)
     \<and> blkHeight b = blkHeight (last bs) + 1 \<and> blkPreviousHash b = Hash C (last bs)
     \<and> blkTimestamp (last bs) < blkTimestamp b \<and> blkMerkleRoot b = CalculateMerkleRoot C b
     \<and> validateBlockTransactions (Some b) = Inr () \<and> VerifyProof V (Some b)"

lemma validateBlockCoreWithProof_ok_iff:
  "validateBlockCoreWithProof C now (Some b) (Some (last bs)) policy vp = Inr ()
    \<and> blkDifficulty b = NextDifficultyFromHistory (blkDifficulty (last bs)) (recentBlockIntervalsLocked bs)
   \<longleftrightarrow> (\<exists>V. vp = Some V \<and> extends C policy V bs b) \<and> blkTimestamp b \<le> wrap64 (now + MaxFutureBlockSeconds)"
proof (cases vp)
  case None
  then show ?thesis by (simp add: validateBlockCoreWithProof_def)
next
  case (Some V)
  show ?thesis
    unfolding validateBlockCoreWithProof_def extends_def Let_def Some
    by (cases "validateBlockTransactions (Some b)") (auto simp: not_le not_less split: if_splits)
qed

lemma AddBlock_ok_iff:
  "AddBlock C now c (Some b) = (d, Inr ()) \<longleftrightarrow>
     blocks c \<noteq> [] \<and> (\<exists>V. proofVerifier c = Some V \<and> extends C (powPolicy c) V (blocks c) b)
     \<and> blkTimestamp b \<le> wrap64 (now + MaxFutureBlockSeconds)
     \<and> d = c\<lparr>blocks := blocks c @ [b], totalWork := totalWork c + blockWork (blkDifficulty b)\<rparr>"
proof -
  let ?v = "validateBlockCoreWithProof C now (Some b) (Some (last (blocks c))) (powPolicy c) (proofVerifier c)"
  have "AddBlock C now c (Some b) = (d, Inr ()) \<longleftrightarrow> blocks c \<noteq> []
     \<and> (?v = Inr () \<and> blkDifficulty b = NextDifficultyFromHistory (blkDifficulty (last (blocks c)))
            (recentBlockIntervalsLocked (blocks c)))
     \<and> d = c\<lparr>blocks := blocks c @ [b], totalWork := totalWork c + blockWork (blkDifficulty b)\<rparr>"
    by (cases ?v) (auto simp: AddBlock_def Let_def)
  then show ?thesis unfolding validateBlockCoreWithProof_ok_iff by blast
qed

lemma AddBlock_err: "AddBlock C now c bp = (d, Inl e) \<Longrightarrow> d = c"
  by (auto simp: AddBlock_def Let_def split: option.splits if_splits sum.splits)

text \<open>The dry run on a chain accepts exactly the blocks that \<open>AddBlock\<close> appends.\<close>

lemma ValidateBlockAgainstChain_iff_AddBlock:
  "is_ok (ValidateBlockAgainstChain C now (Some c) bp) \<longleftrightarrow> is_ok (snd (AddBlock C now c bp))"
proof (cases bp)
  case None
  then show ?thesis by (simp add: ValidateBlockAgainstChain_def AddBlock_def)
next
  case (Some b)
  show ?thesis
    by (cases "validateBlockCoreWithProof C now bp (Some (last (blocks c))) (powPolicy c) (proofVerifier c)")
      (simp_all add: ValidateBlockAgainstChain_def AddBlock_def Tip_def ExpectedNextDifficulty_def
        proofValidationConfig_def Let_def Some)
qed

section \<open>The chain invariant\<close>

definition work_sum :: "block list \<Rightarrow> int" where
  "work_sum bs = sum_list (map (\<lambda>b. blockWork (blkDifficulty b)) bs)"

definition chain_inv :: "crypto \<Rightarrow> chain \<Rightarrow> bool" where
  "chain_inv C c \<longleftrightarrow> blocks c \<noteq> [] \<and> totalWork c = work_sum (blocks c)
     \<and> (case expectedGenesis (network c) of Inl _ \<Rightarrow> False
        | Inr e \<Rightarrow> Hash C (hd (blocks c)) = Hash C e)
     \<and> VersionAllowed (powPolicy c) (blkVersion (hd (blocks c))) (blkHeight (hd (blocks c)))
     \<and> (case proofVerifier c of None \<Rightarrow> False
        | Some V \<Rightarrow> list_all (\<lambda>i. extends C (powPolicy c) V (take i (blocks c)) (blocks c ! i))
            [1..<length (blocks c)])"

lemma newChain_inv:
  assumes "newChainFromGenesisForNetworkWithConsensus C net gp policy vp = Inr c"
  shows "chain_inv C c" "network c = net" "powPolicy c = policy" "proofVerifier c = vp"
    "\<exists>g. gp = Some g \<and> blocks c = [g]"
  using assms
  by (auto simp: newChainFromGenesisForNetworkWithConsensus_def chain_inv_def work_sum_def
      split: option.splits sum.splits if_splits)

lemma chain_inv_extends:
  assumes "chain_inv C c" "proofVerifier c = Some V" "Suc i < length (blocks c)"
  shows "extends C (powPolicy c) V (take (Suc i) (blocks c)) (blocks c ! Suc i)"
  using assms by (auto simp: chain_inv_def list_all_iff)

lemma chain_inv_verifier: "chain_inv C c \<Longrightarrow> \<exists>V. proofVerifier c = Some V"
  by (auto simp: chain_inv_def split: option.splits)

lemma chain_inv_step:
  assumes "chain_inv C c" "proofVerifier c = Some V" "extends C (powPolicy c) V (blocks c) b"
  shows "chain_inv C (c\<lparr>blocks := blocks c @ [b],
    totalWork := totalWork c + blockWork (blkDifficulty b)\<rparr>)"
  using assms
  by (auto simp: chain_inv_def work_sum_def list_all_iff nth_append less_Suc_eq split: sum.splits)

lemma AddBlock_inv:
  assumes "chain_inv C c" "AddBlock C now c bp = (d, r)"
  shows "chain_inv C d" "network d = network c" "powPolicy d = powPolicy c"
    "proofVerifier d = proofVerifier c" "\<exists>bs. blocks d = blocks c @ bs"
proof -
  have "d = c \<or> (\<exists>b V. proofVerifier c = Some V \<and> extends C (powPolicy c) V (blocks c) b
      \<and> d = c\<lparr>blocks := blocks c @ [b], totalWork := totalWork c + blockWork (blkDifficulty b)\<rparr>)"
  proof (cases r)
    case (Inl e)
    then show ?thesis using assms(2) AddBlock_err by blast
  next
    case (Inr u)
    with assms(2) obtain b where "bp = Some b" by (cases bp) (auto simp: AddBlock_def)
    with Inr assms(2) show ?thesis using AddBlock_ok_iff [of C now c b d] by auto
  qed
  then show "chain_inv C d" "network d = network c" "powPolicy d = powPolicy c"
    "proofVerifier d = proofVerifier c" "\<exists>bs. blocks d = blocks c @ bs"
    using assms(1) chain_inv_step by auto
qed

section \<open>Consequences of the invariant\<close>

lemma last_take_Suc: "i < length xs \<Longrightarrow> last (take (Suc i) xs) = xs ! i"
  by (simp add: take_Suc_conv_app_nth)

lemma chain_inv_next:
  assumes "chain_inv C c" "Suc i < length (blocks c)"
  defines "b \<equiv> blocks c ! Suc i" and "a \<equiv> blocks c ! i"
  shows "blkHeight b = blkHeight a + 1" "blkPreviousHash b = Hash C a"
    "blkTimestamp a < blkTimestamp b" "blkMerkleRoot b = CalculateMerkleRoot C b"
    "validateBlockTransactions (Some b) = Inr ()"
    "VersionAllowed (powPolicy c) (blkVersion b) (blkHeight b)"
    "blkDifficulty b = NextDifficultyFromHistory (blkDifficulty a)
       (recentBlockIntervalsLocked (take (Suc i) (blocks c)))"
proof -
  obtain V where V: "proofVerifier c = Some V" using chain_inv_verifier [OF assms(1)] by blast
  have "last (take (Suc i) (blocks c)) = a" using assms(2) by (simp add: a_def last_take_Suc)
  with chain_inv_extends [OF assms(1) V assms(2)]
  show "blkHeight b = blkHeight a + 1" "blkPreviousHash b = Hash C a"
    "blkTimestamp a < blkTimestamp b" "blkMerkleRoot b = CalculateMerkleRoot C b"
    "validateBlockTransactions (Some b) = Inr ()"
    "VersionAllowed (powPolicy c) (blkVersion b) (blkHeight b)"
    "blkDifficulty b = NextDifficultyFromHistory (blkDifficulty a)
       (recentBlockIntervalsLocked (take (Suc i) (blocks c)))"
    unfolding extends_def b_def by auto
qed

lemma chain_heights:
  assumes "chain_inv C c" "i < length (blocks c)"
  shows "blkHeight (blocks c ! i) = blkHeight (hd (blocks c)) + of_nat i"
  using assms(2)
proof (induction i)
  case 0
  with assms(1) show ?case by (simp add: hd_conv_nth chain_inv_def)
next
  case (Suc i)
  then show ?case using chain_inv_next(1) [OF assms(1) Suc.prems] by (simp add: add.assoc)
qed

lemma chain_timestamps:
  assumes "chain_inv C c" "i < j" "j < length (blocks c)"
  shows "blkTimestamp (blocks c ! i) < blkTimestamp (blocks c ! j)"
  using assms(2,3)
proof (induction j)
  case (Suc j)
  then show ?case using chain_inv_next(3) [OF assms(1) Suc.prems(2)]
    by (cases "i = j") (auto intro: less_trans)
qed simp

text \<open>With a genesis of height 0 the position of a block is its height.\<close>

lemma BlockByHeight_eq:
  assumes "chain_inv C c" "blkHeight (hd (blocks c)) = 0" "length (blocks c) < 2 ^ 64"
  shows "BlockByHeight c h = (if unat h < length (blocks c) then Some (blocks c ! unat h) else None)"
proof -
  have "of_nat (length (blocks c)) \<le> h \<longleftrightarrow> length (blocks c) \<le> unat h"
    using assms(3) by (simp add: word_le_nat_alt unat_of_nat_64)
  then show ?thesis
    using chain_heights [OF assms(1), of "unat h"] assms(2) by (auto simp: BlockByHeight_def Let_def)
qed

lemma Height_eq:
  assumes "chain_inv C c" "blkHeight (hd (blocks c)) = 0" "length (blocks c) < 2 ^ 64"
  shows "unat (Height c) = length (blocks c) - 1"
proof -
  have ne: "blocks c \<noteq> []" using assms(1) by (simp add: chain_inv_def)
  then have "Height c = of_nat (length (blocks c) - 1)"
    using chain_heights [OF assms(1), of "length (blocks c) - 1"] assms(2)
    by (simp add: Height_def last_conv_nth)
  then show ?thesis using assms(3) by (simp add: unat_of_nat_64)
qed

section \<open>Difficulty and work\<close>

lemma NextDifficulty_pos: "NextDifficulty d t \<noteq> 0"
proof -
  have "1 \<le> difficulty_spec (unat d) t" by (auto simp: difficulty_spec_def Let_def)
  then show ?thesis using NextDifficulty_eq_spec [of d t] by (auto simp: unat_eq_0)
qed

lemma blockWork_pos: "d \<noteq> 0 \<Longrightarrow> 1 \<le> blockWork d"
proof -
  assume d: "d \<noteq> 0"
  then have pos: "1 \<le> uint d" using uint_0_iff [of d] uint_ge_0 [of d] by linarith
  show ?thesis
  proof (cases "uint d = 1")
    case True
    then show ?thesis using WorkFromDifficulty_exact [OF d] by (simp add: blockWork_def)
  next
    case False
    with pos have "1 \<le> uint d - 1" by simp
    then show ?thesis
      unfolding blockWork_def WorkFromDifficulty_exact [OF d] using pos by (simp only: split: if_split) simp
  qed
qed

text \<open>Every appended block adds work, so a longer extension of a chain always wins the fork
  choice against it.\<close>

lemma AddBlock_work:
  assumes "AddBlock C now c (Some b) = (d, Inr ())"
  shows "totalWork c < totalWork d"
proof -
  from assms have "blkDifficulty b \<noteq> 0" "totalWork d = totalWork c + blockWork (blkDifficulty b)"
    unfolding AddBlock_ok_iff by (auto simp: extends_def NextDifficultyFromHistory_def NextDifficulty_pos)
  then show ?thesis using blockWork_pos [of "blkDifficulty b"] by simp
qed

section \<open>The tip hash commits to the history\<close>

text \<open>The inputs that are hashed when the blocks are hashed: the headers and their first hashes.\<close>

definition hashed_inputs :: "crypto \<Rightarrow> block set \<Rightarrow> bytes set" where
  "hashed_inputs C bs = (\<Union>b\<in>bs. {HeaderBytes b (blkNonce b), sha256 C (HeaderBytes b (blkNonce b))})"

text \<open>What the header bytes of a block determine once the length of the previous hash is fixed:
  the Merkle root and the miner address are written one after the other without a separator.\<close>

definition header_commitment ::
  "block \<Rightarrow> u32 \<times> u64 \<times> u64 \<times> string \<times> string \<times> u32 \<times> u64" where
  "header_commitment b =
     (blkVersion b, blkHeight b, of_int (blkTimestamp b), blkPreviousHash b,
      blkMerkleRoot b @ blkMinerAddress b, blkDifficulty b, blkNonce b)"

lemma HeaderBytes_height:
  "HeaderBytes a m = HeaderBytes b n \<Longrightarrow> blkVersion a = blkVersion b \<and> blkHeight a = blkHeight b"
  by (simp add: HeaderBytes_def)

lemma HeaderBytes_commitment:
  assumes "HeaderBytes a (blkNonce a) = HeaderBytes b (blkNonce b)"
    and "length (blkPreviousHash a) = length (blkPreviousHash b)"
  shows "header_commitment a = header_commitment b"
proof -
  have "length (HeaderBytes a (blkNonce a)) = length (HeaderBytes b (blkNonce b))" using assms(1) by simp
  with assms(2) have "length (blkMerkleRoot a @ blkMinerAddress a) = length (blkMerkleRoot b @ blkMinerAddress b)"
    by (simp add: HeaderBytes_def)
  moreover have bytes: "HeaderBytes x n = be32 (blkVersion x) @ be64 (blkHeight x) @
     be64 (of_int (blkTimestamp x)) @ bytes_of (blkPreviousHash x) @
     bytes_of (blkMerkleRoot x @ blkMinerAddress x) @ be32 (blkDifficulty x) @ be64 n" for x n
    by (simp add: HeaderBytes_def)
  ultimately show ?thesis
    using assms unfolding bytes header_commitment_def
    by (simp del: bytes_of_append length_append)
qed

lemma Hash_eq_header:
  assumes "Hash C a = Hash C b" "inj_on (sha256 C) (hashed_inputs C bs)" "a \<in> bs" "b \<in> bs"
  shows "HeaderBytes a (blkNonce a) = HeaderBytes b (blkNonce b)"
proof -
  let ?h = "\<lambda>b. HeaderBytes b (blkNonce b)"
  have mem: "?h a \<in> hashed_inputs C bs" "?h b \<in> hashed_inputs C bs"
    "sha256 C (?h a) \<in> hashed_inputs C bs" "sha256 C (?h b) \<in> hashed_inputs C bs"
    using assms(3,4) by (auto simp: hashed_inputs_def)
  from assms(1) have "sha256 C (sha256 C (?h a)) = sha256 C (sha256 C (?h b))"
    by (simp add: Hash_def Let_def)
  then show ?thesis using inj_onD [OF assms(2)] mem by blast
qed

text \<open>Two valid chains with the same block hash at one height agree on every hash below it and on
  every header above the genesis.\<close>

lemma equal_hash_commits:
  assumes inv: "chain_inv C c" "chain_inv C d" and size: "hash_size_ok C"
    and inj: "inj_on (sha256 C) (hashed_inputs C (set (blocks c) \<union> set (blocks d)))"
    and k: "k < length (blocks c)" "k < length (blocks d)"
    and eq: "Hash C (blocks c ! k) = Hash C (blocks d ! k)"
    and i: "i \<le> k"
  shows "Hash C (blocks c ! i) = Hash C (blocks d ! i)
    \<and> (0 < i \<longrightarrow> header_commitment (blocks c ! i) = header_commitment (blocks d ! i))"
proof -
  have commit: "header_commitment (blocks c ! Suc i) = header_commitment (blocks d ! Suc i)"
    if "Suc i \<le> k" "Hash C (blocks c ! Suc i) = Hash C (blocks d ! Suc i)" for i
  proof (rule HeaderBytes_commitment [OF Hash_eq_header [OF that(2) inj]])
    show "blocks c ! Suc i \<in> set (blocks c) \<union> set (blocks d)"
      "blocks d ! Suc i \<in> set (blocks c) \<union> set (blocks d)"
      using that(1) k by simp_all
    show "length (blkPreviousHash (blocks c ! Suc i)) = length (blkPreviousHash (blocks d ! Suc i))"
      using chain_inv_next(2) [OF inv(1), of i] chain_inv_next(2) [OF inv(2), of i] that(1) k
        length_Hash [OF size] by simp
  qed
  have hash: "Hash C (blocks c ! i) = Hash C (blocks d ! i)" if "i \<le> k" for i
    using that
  proof (induction rule: inc_induct)
    case base
    show ?case by (rule eq)
  next
    case (step n)
    then have "blkPreviousHash (blocks c ! Suc n) = blkPreviousHash (blocks d ! Suc n)"
      using commit [of n] by (simp add: header_commitment_def)
    then show ?case
      using chain_inv_next(2) [OF inv(1), of n] chain_inv_next(2) [OF inv(2), of n] step.hyps k by simp
  qed
  then show ?thesis using commit [of "i - 1"] i by (cases i) auto
qed

section \<open>The interface of a proof verifier\<close>

locale proof_system =
  fixes V :: proof_verifier
  assumes nil_rejected: "\<not> VerifyProof V None"
    and verified_supported: "VerifyProof V (Some b) \<Longrightarrow> SupportsVersion V (blkVersion b)"
    and verified_difficulty: "VerifyProof V (Some b) \<Longrightarrow> blkDifficulty b \<noteq> 0"
begin

text \<open>A chain that runs on this verifier holds only blocks whose version it supports and whose
  difficulty is positive.\<close>

lemma chain_blocks_proved:
  assumes "chain_inv C c" "proofVerifier c = Some V" "0 < i" "i < length (blocks c)"
  shows "SupportsVersion V (blkVersion (blocks c ! i)) \<and> blkDifficulty (blocks c ! i) \<noteq> 0"
proof -
  have "VerifyProof V (Some (blocks c ! i))"
    using chain_inv_extends [OF assms(1,2), of "i - 1"] assms(3,4) by (simp add: extends_def)
  then show ?thesis using verified_supported verified_difficulty by blast
qed

end

interpretation legacy: proof_system "legacyProofVerifier C" for C
  by unfold_locales
    (auto simp: legacyProofVerifier_def validBlockProofOfWorkCore_def blockTargetFromDifficulty_def
      TargetFromDifficulty_def Let_def split: option.splits)

section \<open>Histories\<close>

text \<open>The chains that the constructors and any number of calls of \<open>AddBlock\<close>, successful or
  not, at any times, lead to.\<close>

inductive chain_history :: "crypto \<Rightarrow> chain \<Rightarrow> bool" for C where
  start: "newChainFromGenesisForNetworkWithConsensus C net gp policy vp = Inr c \<Longrightarrow> chain_history C c"
| step: "chain_history C c \<Longrightarrow> AddBlock C now c bp = (d, r) \<Longrightarrow> chain_history C d"

lemma chain_history_inv: "chain_history C c \<Longrightarrow> chain_inv C c"
  by (induction rule: chain_history.induct) (use newChain_inv(1) AddBlock_inv(1) in blast)+

section \<open>A small chain\<close>

definition small_genesis_chain :: chain where
  "small_genesis_chain = \<lparr>network = NetworkPublicTestnet, blocks = [NewGenesisBlock],
     totalWork = blockWork 1, powPolicy = \<lparr>GPUV1ActivationHeight = GPUV1ActivationDisabled\<rparr>,
     proofVerifier = Some (legacyProofVerifier small_crypto)\<rparr>"

definition small_block :: "nat \<Rightarrow> block \<Rightarrow> block" where
  "small_block d previous = UpdateMerkleRoot small_crypto
     \<lparr>blkVersion = 1, blkHeight = blkHeight previous + 1, blkTimestamp = blkTimestamp previous + 60,
      blkPreviousHash = Hash small_crypto previous, blkMerkleRoot = '''', blkDifficulty = 1,
      blkNonce = 0, blkMinerAddress = Address (small_wallet d), blkTransactions = []\<rparr>"

lemma NewGenesisBlock_fields [simp]:
  "blkHeight NewGenesisBlock = 0" "blkVersion NewGenesisBlock = 1" "blkDifficulty NewGenesisBlock = 1"
  "blkTimestamp NewGenesisBlock = 1786924800"
  by (simp_all add: NewGenesisBlock_def newGenesisBlock_def)

lemma small_genesis_chain_new: "NewChainFor small_crypto NetworkPublicTestnet = Inr small_genesis_chain"
  by (simp add: NewChainFor_def PoWPolicyForNetwork_def NewChainForWithConsensus_def GenesisFor_def
      newChainFromGenesisForNetworkWithConsensus_def MonetaryPolicyFor_def legacyProofVerifier_def
      VersionAllowed_def GPUV1TestnetActivationHeight_def expectedGenesis_def small_genesis_chain_def)

lemma small_genesis_history: "chain_history small_crypto small_genesis_chain"
  using small_genesis_chain_new
  by (auto simp: NewChainFor_def NewChainForWithConsensus_def intro: chain_history.start
      split: sum.splits)

lemma small_hash_in_target:
  "blkDifficulty b = 1 \<Longrightarrow> validBlockProofOfWorkCore small_crypto b"
  using be_nat_bound [of "small_digest (small_digest (HeaderBytes b (blkNonce b)))"]
  by (simp add: validBlockProofOfWorkCore_def Hash_def Let_def blockTargetFromDifficulty_def
      TargetFromDifficulty_def)

lemma small_first_difficulty: "NextDifficultyFromHistory 1 [] = 1"
  by (simp add: NextDifficultyFromHistory_def MedianBlockInterval_def NextDifficulty_def)

lemma small_block_extends:
  "extends small_crypto \<lparr>GPUV1ActivationHeight = GPUV1ActivationDisabled\<rparr>
     (legacyProofVerifier small_crypto) [NewGenesisBlock] (small_block d NewGenesisBlock)"
  using small_hash_in_target [of "small_block d NewGenesisBlock"]
  by (simp add: extends_def small_block_def UpdateMerkleRoot_def CalculateMerkleRoot_def
      recentBlockIntervalsLocked_def small_first_difficulty VersionAllowed_def
      legacyProofVerifier_def validateBlockTransactions_def)

definition small_chain :: "nat \<Rightarrow> chain" where
  "small_chain d = small_genesis_chain\<lparr>blocks := [NewGenesisBlock, small_block d NewGenesisBlock],
     totalWork := 2\<rparr>"

lemma small_chain_added:
  "AddBlock small_crypto 1786924860 small_genesis_chain (Some (small_block d NewGenesisBlock))
     = (small_chain d, Inr ())"
  unfolding AddBlock_ok_iff
  using small_block_extends [of d]
  by (simp add: small_genesis_chain_def small_chain_def small_block_def UpdateMerkleRoot_def
      blockWork_def WorkFromDifficulty_exact wrap64_def go_const)

lemma small_chain_history: "chain_history small_crypto (small_chain d)"
  by (rule chain_history.step [OF small_genesis_history small_chain_added])

text \<open>The digests of the small instance do not collide on the headers of the small chain.\<close>

lemma small_digest_tail:
  "length t = 16 \<Longrightarrow> small_digest (x @ t) = take 16 (x @ t) @ rev t"
  by (simp add: small_digest_def)

lemma HeaderBytes_tail:
  assumes "blkMerkleRoot b @ blkMinerAddress b = m @ [c1, c2, c3, c4]" "blkDifficulty b = 1"
  shows "\<exists>x. HeaderBytes b 0 = x @ bytes_of [c1, c2, c3, c4] @ [0, 0, 0, 1] @ replicate 8 0"
proof -
  have "HeaderBytes b 0 = be32 (blkVersion b) @ be64 (blkHeight b) @ be64 (of_int (blkTimestamp b)) @
      bytes_of (blkPreviousHash b) @ bytes_of (blkMerkleRoot b @ blkMinerAddress b) @ be32 1 @ be64 0"
    by (simp add: HeaderBytes_def assms(2))
  then show ?thesis
    unfolding assms(1) by (simp add: be32_def be64_def numeral_eq_Suc)
qed

lemma small_header_digests:
  assumes "blkMerkleRoot b @ blkMinerAddress b = m @ [c1, c2, c3, c4]" "blkDifficulty b = 1"
    and "c1 \<noteq> CHR 0x00"
  defines "h \<equiv> HeaderBytes b 0"
  shows "small_digest h ! 16 = 0" "small_digest (small_digest h) ! 16 \<noteq> 0"
    "small_digest h ! 11 = ucast (blkHeight b)" "small_digest (small_digest h) ! 11 = ucast (blkHeight b)"
proof -
  define t where "t = bytes_of [c1, c2, c3, c4] @ [0, 0, 0, 1] @ replicate 8 (0 :: u8)"
  have t: "length t = 16" "rev t ! 0 = 0" "t ! 0 = of_nat (of_char c1)"
    by (simp_all add: t_def bytes_of_def numeral_eq_Suc)
  obtain x where x: "h = x @ t" using HeaderBytes_tail [OF assms(1,2)] by (auto simp: t_def h_def)
  have len: "length (take 16 h) = 16" using t(1) x by simp
  have d: "small_digest h = take 16 h @ rev t" using small_digest_tail [OF t(1), of x] x by simp
  have dd: "small_digest (small_digest h) = take 16 h @ t"
    using small_digest_tail [of "rev t" "take 16 h"] t(1) len unfolding d by simp
  show "small_digest h ! 16 = 0" unfolding d using len t(2) by (simp add: nth_append)
  have "of_nat (of_char c1) \<noteq> (0 :: u8)"
    using assms(3) byte_of_char_inj [THEN injD, of c1 "CHR 0x00"] by auto
  then show "small_digest (small_digest h) ! 16 \<noteq> 0" unfolding dd using len t(3) by (simp add: nth_append)
  have "h ! 11 = ucast (blkHeight b)"
    by (simp add: h_def HeaderBytes_def nth_append be32_def be64_def)
  then have "take 16 h ! 11 = ucast (blkHeight b)" by simp
  then show "small_digest h ! 11 = ucast (blkHeight b)" "small_digest (small_digest h) ! 11 = ucast (blkHeight b)"
    using len by (simp_all add: nth_append dd) (simp add: d nth_append)
qed

lemma small_chain_no_collision:
  "inj_on (sha256 small_crypto) (hashed_inputs small_crypto (set (blocks (small_chain 7))))"
proof -
  let ?g = "HeaderBytes NewGenesisBlock 0" and ?b = "HeaderBytes (small_block 7 NewGenesisBlock) 0"
  have gtail: "blkMerkleRoot NewGenesisBlock @ blkMinerAddress NewGenesisBlock
      = ''Sudharma Network Genesis B'' @ ''lock''"
    by (simp add: NewGenesisBlock_def newGenesisBlock_def)
  have g: "small_digest ?g ! 16 = 0" "small_digest (small_digest ?g) ! 16 \<noteq> 0"
    "small_digest ?g ! 11 = 0" "small_digest (small_digest ?g) ! 11 = 0"
    using small_header_digests [OF gtail] by simp_all
  have addr: "Address (small_wallet 7) = ''040707000000000000000000000000000707'' @ ''0400''"
    by code_simp
  have tail: "blkMerkleRoot (small_block 7 NewGenesisBlock) @ blkMinerAddress (small_block 7 NewGenesisBlock)
      = (blkMerkleRoot (small_block 7 NewGenesisBlock) @ ''040707000000000000000000000000000707'') @ ''0400''"
    by (simp add: small_block_def UpdateMerkleRoot_def addr)
  have dh: "blkDifficulty (small_block 7 NewGenesisBlock) = 1" "blkHeight (small_block 7 NewGenesisBlock) = 1"
    "blkNonce (small_block 7 NewGenesisBlock) = 0" "blkNonce NewGenesisBlock = 0"
    by (simp_all add: small_block_def UpdateMerkleRoot_def NewGenesisBlock_def newGenesisBlock_def)
  have b: "small_digest ?b ! 16 = 0" "small_digest (small_digest ?b) ! 16 \<noteq> 0"
    "small_digest ?b ! 11 = 1" "small_digest (small_digest ?b) ! 11 = 1"
    using small_header_digests [OF tail dh(1)] dh(2) by simp_all
  have "hashed_inputs small_crypto (set (blocks (small_chain 7))) =
      {?g, small_digest ?g, ?b, small_digest ?b}"
    by (auto simp: hashed_inputs_def small_chain_def dh)
  moreover have "inj_on small_digest {?g, small_digest ?g, ?b, small_digest ?b}"
    using g b by (auto simp: inj_on_def)
  ultimately show ?thesis by simp
qed

section \<open>Properties\<close>

text \<open>C9: whatever blocks are offered to a chain and whenever, it stays a chain: consecutive
  heights, each block naming the hash of the one before, strictly increasing timestamps, Merkle
  roots that match, payloads within the limits, the block version the policy selects, and a
  cumulative work equal to the sum over the blocks.\<close>

theorem chain_history_valid:
  assumes "chain_history C c"
  shows "blocks c \<noteq> [] \<and> totalWork c = (\<Sum>b\<leftarrow>blocks c. blockWork (blkDifficulty b))
    \<and> (\<forall>i. Suc i < length (blocks c) \<longrightarrow>
         (let a = blocks c ! i; b = blocks c ! Suc i
          in blkHeight b = blkHeight a + 1 \<and> blkPreviousHash b = Hash C a
             \<and> blkTimestamp a < blkTimestamp b \<and> blkMerkleRoot b = CalculateMerkleRoot C b
             \<and> validateBlockTransactions (Some b) = Inr ()
             \<and> VersionAllowed (powPolicy c) (blkVersion b) (blkHeight b)
             \<and> blkDifficulty b = NextDifficultyFromHistory (blkDifficulty a)
                 (recentBlockIntervalsLocked (take (Suc i) (blocks c)))))"
proof -
  note inv = chain_history_inv [OF assms]
  then show ?thesis
    using chain_inv_next [OF inv] by (simp add: chain_inv_def work_sum_def Let_def)
qed

theorem chain_history_valid_witness:
  "totalWork (small_chain 7) = (\<Sum>b\<leftarrow>blocks (small_chain 7). blockWork (blkDifficulty b))"
  using chain_history_valid [OF small_chain_history [of 7]] by blast

text \<open>The dry run against the chain accepts a block exactly if appending it at the same moment
  succeeds, and appending a block strictly increases the cumulative work.\<close>

theorem validation_agrees_with_append:
  "(is_ok (ValidateBlockAgainstChain C now (Some c) bp) \<longleftrightarrow> is_ok (snd (AddBlock C now c bp)))
   \<and> (is_ok (snd (AddBlock C now c bp)) \<longrightarrow> totalWork c < totalWork (fst (AddBlock C now c bp)))
   \<and> (\<not> is_ok (snd (AddBlock C now c bp)) \<longrightarrow> fst (AddBlock C now c bp) = c)"
proof -
  obtain d r where a: "AddBlock C now c bp = (d, r)" by fastforce
  have "totalWork c < totalWork d" if ok: "is_ok r"
  proof -
    obtain b where b: "bp = Some b" using a ok by (cases bp) (auto simp: AddBlock_def)
    have "r = Inr ()" using ok by (auto simp: is_ok_iff)
    then show ?thesis using AddBlock_work a b by blast
  qed
  moreover have "d = c" if "\<not> is_ok r" using a that AddBlock_err by (cases r) auto
  ultimately show ?thesis using ValidateBlockAgainstChain_iff_AddBlock [of C now c bp] a by simp
qed

theorem validation_agrees_with_append_witness:
  "is_ok (ValidateBlockAgainstChain small_crypto 1786924860 (Some small_genesis_chain)
     (Some (small_block 7 NewGenesisBlock))) \<and> totalWork small_genesis_chain < totalWork (small_chain 7)"
  using validation_agrees_with_append [of small_crypto 1786924860 small_genesis_chain
      "Some (small_block 7 NewGenesisBlock)"] small_chain_added [of 7] by simp

text \<open>A proof policy allows exactly one block version at each height, the one it reports.\<close>

theorem one_version_per_height: "VersionAllowed p v h \<longleftrightarrow> VersionAtHeight p h = Inr v"
  by (auto simp: VersionAllowed_def VersionAtHeight_def)



end
