(* ===== verification/State.thy ===== *)
theory State
  imports Consensus
begin

text \<open>
  The confirmed account state, \<open>blockchain/state.go\<close>: balances, processed transaction IDs,
  account nonces, the treasury address, the issued supply and the monetary policy the state is
  bound to. Each method is one definition; a method that writes returns the state as it leaves
  it, also when it returns an error. Locking is not modelled: a method is one step.

  The locale \<open>ledger\<close> is what the transaction and block processors rely on: crediting and
  debiting change the sum of all balances by exactly the amount, and a credit that keeps the
  sum within 64 bits cannot fail.
\<close>

section \<open>State and operations\<close>

record state =
  balances :: "string \<rightharpoonup> u64"
  processedTx :: "string \<rightharpoonup> bool"
  accountNonces :: "string \<rightharpoonup> u64"
  developmentAddress :: string
  issuedSupply :: u64
  monetaryPolicy :: monetary_policy

text \<open>The result \<open>Inl\<close> stands for the panic on an unknown policy.\<close>

definition NewStateFor :: "monetary_policy \<Rightarrow> state result" where
  "NewStateFor policy =
     (case ValidateMonetaryPolicy policy of
        Inl err \<Rightarrow> Inl err
      | Inr _ \<Rightarrow> Inr \<lparr>balances = Map.empty, processedTx = Map.empty, accountNonces = Map.empty,
          developmentAddress = DevelopmentTreasuryAddress, issuedSupply = 0,
          monetaryPolicy = policy\<rparr>)"

definition NewState :: "state result" where
  "NewState = NewStateFor MonetaryPolicyPublicTestnet"

definition EnsureMonetaryPolicy :: "state \<Rightarrow> monetary_policy \<Rightarrow> unit result" where
  "EnsureMonetaryPolicy s policy =
     (case ValidateMonetaryPolicy policy of
        Inl err \<Rightarrow> Inl err
      | Inr _ \<Rightarrow> if monetaryPolicy s \<noteq> policy then Inl MonetaryPolicyMismatch else Inr ())"

definition SetDevelopmentAddress :: "state \<Rightarrow> string \<Rightarrow> state" where
  "SetDevelopmentAddress s address =
     (if address \<noteq> DevelopmentTreasuryAddress then s else s\<lparr>developmentAddress := address\<rparr>)"

definition DevelopmentAddress :: "state \<Rightarrow> string" where
  "DevelopmentAddress s = developmentAddress s"

definition Balance :: "state \<Rightarrow> string \<Rightarrow> u64" where
  "Balance s address = goget (balances s) address 0"

definition Credit :: "state \<Rightarrow> string \<Rightarrow> u64 \<Rightarrow> (state, unit) outcome" where
  "Credit s address amount =
     (if address = '''' then (s, Inl EmptyAddress)
      else if amount = 0 then (s, Inr ())
      else
        (let current = goget (balances s) address 0
         in if current > MaxUint64 - amount then (s, Inl BalanceOverflow)
            else (s\<lparr>balances := (balances s)(address \<mapsto> current + amount)\<rparr>, Inr ())))"

definition Debit :: "state \<Rightarrow> string \<Rightarrow> u64 \<Rightarrow> (state, unit) outcome" where
  "Debit s address amount =
     (if address = '''' then (s, Inl EmptyAddress)
      else
        (let balance = goget (balances s) address 0
         in if balance < amount then (s, Inl InsufficientBalance)
            else (s\<lparr>balances := (balances s)(address \<mapsto> balance - amount)\<rparr>, Inr ())))"

definition Transfer :: "state \<Rightarrow> string \<Rightarrow> string \<Rightarrow> u64 \<Rightarrow> (state, unit) outcome" where
  "Transfer s from to amount =
     (if amount = 0 then (s, Inl ZeroTransfer)
      else
        (case Debit s from amount of
           (s1, Inl err) \<Rightarrow> (s1, Inl err)
         | (s1, Inr _) \<Rightarrow>
             (case Credit s1 to amount of
                (s2, Inl err) \<Rightarrow> (fst (Credit s2 from amount), Inl err)
              | (s2, Inr _) \<Rightarrow> (s2, Inr ()))))"

definition IsTransactionProcessed :: "state \<Rightarrow> string \<Rightarrow> bool" where
  "IsTransactionProcessed s ident = goget (processedTx s) ident False"

definition MarkTransactionProcessed :: "state \<Rightarrow> string \<Rightarrow> (state, unit) outcome" where
  "MarkTransactionProcessed s ident =
     (if ident = '''' then (s, Inl EmptyTransactionID)
      else if goget (processedTx s) ident False then (s, Inl (AlreadyProcessed ident))
      else (s\<lparr>processedTx := (processedTx s)(ident \<mapsto> True)\<rparr>, Inr ()))"

definition AccountNonce :: "state \<Rightarrow> string \<Rightarrow> u64" where
  "AccountNonce s address = goget (accountNonces s) address 0"

definition ExpectedNonce :: "state \<Rightarrow> string \<Rightarrow> u64 result" where
  "ExpectedNonce s address =
     (let current = goget (accountNonces s) address 0
      in if current = MaxUint64 then Inl NonceOverflow else Inr (current + 1))"

definition SetAccountNonce :: "state \<Rightarrow> string \<Rightarrow> u64 \<Rightarrow> (state, unit) outcome" where
  "SetAccountNonce s address nonce =
     (if address = '''' then (s, Inl EmptyAddress)
      else (s\<lparr>accountNonces := (accountNonces s)(address \<mapsto> nonce)\<rparr>, Inr ()))"

definition IssuedSupply :: "state \<Rightarrow> u64" where
  "IssuedSupply s = issuedSupply s"

definition MintSupplyFor :: "state \<Rightarrow> monetary_policy \<Rightarrow> u64 \<Rightarrow> (state, unit) outcome" where
  "MintSupplyFor s policy amount =
     (case ValidateMonetaryPolicy policy of
        Inl err \<Rightarrow> (s, Inl err)
      | Inr _ \<Rightarrow>
          if monetaryPolicy s \<noteq> policy then (s, Inl MonetaryPolicyMismatch)
          else if amount = 0 then (s, Inr ())
          else
            (let maxSupply = MaxSupplyFor policy
             in if issuedSupply s > maxSupply then (s, Inl SupplyAlreadyExceeded)
                else
                  (let remaining = maxSupply - issuedSupply s
                   in if amount > remaining then (s, Inl MaxSupplyExceeded)
                      else (s\<lparr>issuedSupply := issuedSupply s + amount\<rparr>, Inr ()))))"

definition MintSupply :: "state \<Rightarrow> u64 \<Rightarrow> (state, unit) outcome" where
  "MintSupply s amount = MintSupplyFor s (monetaryPolicy s) amount"

definition Clone :: "state \<Rightarrow> state" where
  "Clone s = \<lparr>balances = balances s, processedTx = processedTx s,
     accountNonces = accountNonces s, developmentAddress = developmentAddress s,
     issuedSupply = issuedSupply s, monetaryPolicy = monetaryPolicy s\<rparr>"

definition ReplaceWith :: "state \<Rightarrow> state option \<Rightarrow> (state, unit) outcome" where
  "ReplaceWith s otherp =
     (case otherp of
        None \<Rightarrow> (s, Inl NilReplacementState)
      | Some other \<Rightarrow>
          (s\<lparr>balances := balances other, processedTx := processedTx other,
             accountNonces := accountNonces other,
             developmentAddress := developmentAddress other,
             issuedSupply := issuedSupply other, monetaryPolicy := monetaryPolicy other\<rparr>,
           Inr ()))"

section \<open>Simplification of the copying operations\<close>

lemma Clone_id [simp]: "Clone s = s"
  by (simp add: Clone_def)

lemma ReplaceWith_Some [simp]: "ReplaceWith s (Some t) = (t, Inr ())"
  by (simp add: ReplaceWith_def)

section \<open>The interface of a ledger\<close>

locale ledger =
  fixes total :: "'s \<Rightarrow> nat"
    and wf :: "'s \<Rightarrow> bool"
    and credit :: "'s \<Rightarrow> string \<Rightarrow> u64 \<Rightarrow> ('s, unit) outcome"
    and debit :: "'s \<Rightarrow> string \<Rightarrow> u64 \<Rightarrow> ('s, unit) outcome"
  assumes credit_ok: "wf s \<Longrightarrow> credit s a n = (t, Inr ()) \<Longrightarrow> wf t \<and> total t = total s + unat n"
    and credit_err: "credit s a n = (t, Inl e) \<Longrightarrow> t = s"
    and credit_complete: "wf s \<Longrightarrow> a \<noteq> '''' \<Longrightarrow> total s + unat n < 2 ^ 64
      \<Longrightarrow> \<exists>t. credit s a n = (t, Inr ())"
    and debit_ok: "wf s \<Longrightarrow> debit s a n = (t, Inr ()) \<Longrightarrow> wf t \<and> total t + unat n = total s"
    and debit_err: "debit s a n = (t, Inl e) \<Longrightarrow> t = s"
begin

text \<open>A debit followed by two credits: what a transaction does to the balances.\<close>

lemma pay_two_total:
  assumes "wf s" "debit s f c = (s1, Inr ())" "credit s1 a m = (s2, Inr ())"
    "credit s2 b n = (s3, Inr ())"
  shows "wf s3 \<and> total s3 + unat c = total s + unat m + unat n"
proof -
  have 1: "wf s1" "total s1 + unat c = total s" using debit_ok [OF assms(1,2)] by auto
  have 2: "wf s2" "total s2 = total s1 + unat m" using credit_ok [OF 1(1) assms(3)] by auto
  have 3: "wf s3" "total s3 = total s2 + unat n" using credit_ok [OF 2(1) assms(4)] by auto
  show ?thesis using 1 2 3 by simp
qed

text \<open>The two credits cannot fail when they pay out no more than was debited and the sum of
  all balances fits 64 bits.\<close>

lemma pay_two_complete:
  assumes wf: "wf s" and small: "total s < 2 ^ 64"
    and d: "debit s f c = (s1, Inr ())" and a: "a \<noteq> ''''" and b: "b \<noteq> ''''"
    and le: "unat m + unat n \<le> unat c"
  shows "\<exists>s2 s3. credit s1 a m = (s2, Inr ()) \<and> credit s2 b n = (s3, Inr ())"
proof -
  have 1: "wf s1" "total s1 + unat c = total s" using debit_ok [OF wf d] by auto
  then have "total s1 + unat m < 2 ^ 64" using le small by linarith
  then obtain s2 where s2: "credit s1 a m = (s2, Inr ())"
    using credit_complete [OF 1(1) a] by blast
  then have 2: "wf s2" "total s2 = total s1 + unat m" using credit_ok [OF 1(1)] by auto
  then have "total s2 + unat n < 2 ^ 64" using 1 le small by linarith
  then show ?thesis using credit_complete [OF 2(1) b] s2 by blast
qed

lemma move_total:
  assumes "wf s" "debit s f n = (s1, Inr ())" "credit s1 a n = (s2, Inr ())"
  shows "wf s2 \<and> total s2 = total s"
proof -
  have 1: "wf s1" "total s1 + unat n = total s" using debit_ok [OF assms(1,2)] by auto
  show ?thesis using credit_ok [OF 1(1) assms(3)] 1 by auto
qed

end

section \<open>The state is a ledger\<close>

definition total_balance :: "state \<Rightarrow> nat" where
  "total_balance s = map_total (balances s)"

definition finite_state :: "state \<Rightarrow> bool" where
  "finite_state s \<longleftrightarrow> finite (dom (balances s))"

lemma Credit_ok:
  assumes "finite_state s" "Credit s a n = (t, Inr ())"
  shows "finite_state t \<and> total_balance t = total_balance s + unat n"
proof (cases "n = 0")
  case True
  with assms show ?thesis by (auto simp: Credit_def split: if_splits)
next
  case False
  let ?c = "goget (balances s) a 0"
  from assms(2) False have no: "\<not> ?c > MaxUint64 - n"
    and t: "t = s\<lparr>balances := (balances s)(a \<mapsto> ?c + n)\<rparr>"
    by (auto simp: Credit_def Let_def split: if_splits)
  have "map_total (balances t) + unat ?c = map_total (balances s) + unat (?c + n)"
    using map_total_upd [of "balances s" a "?c + n"] assms(1) by (simp add: t finite_state_def)
  then show ?thesis
    using assms(1) unat_add_no_overflow [OF no] by (simp add: total_balance_def t finite_state_def)
qed

lemma Credit_err: "Credit s a n = (t, Inl e) \<Longrightarrow> t = s"
  by (auto simp: Credit_def Let_def split: if_splits)

lemma Credit_complete:
  assumes "finite_state s" "a \<noteq> ''''" "total_balance s + unat n < 2 ^ 64"
  shows "\<exists>t. Credit s a n = (t, Inr ())"
proof -
  have "unat (goget (balances s) a 0) + unat n < 2 ^ 64"
    using goget_le_map_total [of "balances s" a] assms
    by (simp add: finite_state_def total_balance_def)
  then have "\<not> goget (balances s) a 0 > MaxUint64 - n"
    unfolding overflow_guard_iff by simp
  with assms(2) show ?thesis by (simp add: Credit_def Let_def)
qed

lemma Debit_ok:
  assumes "finite_state s" "Debit s a n = (t, Inr ())"
  shows "finite_state t \<and> total_balance t + unat n = total_balance s"
proof -
  let ?c = "goget (balances s) a 0"
  from assms(2) have no: "\<not> ?c < n"
    and t: "t = s\<lparr>balances := (balances s)(a \<mapsto> ?c - n)\<rparr>"
    by (auto simp: Debit_def Let_def split: if_splits)
  have "map_total (balances t) + unat ?c = map_total (balances s) + unat (?c - n)"
    using map_total_upd [of "balances s" a "?c - n"] assms(1) by (simp add: t finite_state_def)
  moreover have "unat n \<le> unat ?c" using no by (simp add: word_less_nat_alt)
  ultimately show ?thesis
    using assms(1) unat_sub_bounded [OF no] by (simp add: total_balance_def t finite_state_def)
qed

lemma Debit_err: "Debit s a n = (t, Inl e) \<Longrightarrow> t = s"
  by (auto simp: Debit_def Let_def split: if_splits)

interpretation bank: ledger total_balance finite_state Credit Debit
  by unfold_locales
    (rule Credit_ok Credit_err Credit_complete Debit_ok Debit_err, assumption+)+

section \<open>Frames and effects\<close>

lemma Credit_frame [effect]:
  assumes "Credit s a n = (t, r)"
  shows "processedTx t = processedTx s" "accountNonces t = accountNonces s"
    "developmentAddress t = developmentAddress s" "issuedSupply t = issuedSupply s"
    "monetaryPolicy t = monetaryPolicy s"
  using assms by (auto simp: Credit_def Let_def split: if_splits)

lemma Debit_frame [effect]:
  assumes "Debit s a n = (t, r)"
  shows "processedTx t = processedTx s" "accountNonces t = accountNonces s"
    "developmentAddress t = developmentAddress s" "issuedSupply t = issuedSupply s"
    "monetaryPolicy t = monetaryPolicy s"
  using assms by (auto simp: Debit_def Let_def split: if_splits)

lemma Credit_Balance:
  "Credit s a n = (t, Inr ()) \<Longrightarrow> Balance t b = (if b = a then Balance s a + n else Balance s b)"
  by (auto simp: Credit_def Balance_def Let_def split: if_splits)

lemma Debit_Balance:
  "Debit s a n = (t, Inr ()) \<Longrightarrow> Balance t b = (if b = a then Balance s a - n else Balance s b)"
  by (auto simp: Debit_def Balance_def Let_def split: if_splits)

lemma Credit_amount:
  assumes "Credit s a n = (t, Inr ())"
  shows "unat (Balance t b) = unat (Balance s b) + (if b = a then unat n else 0)"
proof (cases "n = 0")
  case True
  then show ?thesis using assms by (auto simp: Credit_def split: if_splits)
next
  case False
  with assms have "\<not> goget (balances s) a 0 > MaxUint64 - n"
    by (auto simp: Credit_def Let_def split: if_splits)
  from unat_add_no_overflow [OF this] Credit_Balance [OF assms] show ?thesis
    by (simp add: Balance_def)
qed

lemma Debit_amount:
  assumes "Debit s a n = (t, Inr ())"
  shows "unat (Balance t b) + (if b = a then unat n else 0) = unat (Balance s b)"
proof -
  have "\<not> Balance s a < n"
    using assms by (auto simp: Debit_def Balance_def Let_def split: if_splits)
  with Debit_Balance [OF assms] show ?thesis
    by (simp add: unat_sub not_less word_le_nat_alt)
qed

lemma Debit_ok_iff: "(\<exists>t. Debit s a n = (t, Inr ())) \<longleftrightarrow> a \<noteq> '''' \<and> n \<le> Balance s a"
  by (auto simp: Debit_def Balance_def Let_def)

lemma Transfer_conserves:
  assumes "finite_state s" "Transfer s f a n = (t, Inr ())"
  shows "finite_state t \<and> total_balance t = total_balance s"
  using assms bank.move_total [OF assms(1)]
  by (auto simp: Transfer_def split: if_splits prod.splits sum.splits)

text \<open>The rollback of a failed credit restores every balance.\<close>

lemma Transfer_err_restores:
  assumes "Transfer s f a n = (t, Inl e)"
  shows "Balance t b = Balance s b"
proof (cases "n = 0 \<or> f = '''' \<or> Balance s f < n")
  case True
  with assms show ?thesis by (auto simp: Transfer_def Debit_def Balance_def Let_def split: if_splits)
next
  case False
  define s1 where "s1 = s\<lparr>balances := (balances s)(f \<mapsto> Balance s f - n)\<rparr>"
  have d: "Debit s f n = (s1, Inr ())"
    using False by (simp add: Debit_def Balance_def Let_def s1_def)
  with assms False have "\<exists>e. Credit s1 a n = (s1, Inl e) \<and> t = fst (Credit s1 f n)"
    by (auto simp: Transfer_def dest: Credit_err split: prod.splits sum.splits)
  then have t: "t = fst (Credit s1 f n)" by blast
  have "unat (Balance s f - n) + unat n = unat (Balance s f)"
    using False by (simp add: unat_sub not_less word_le_nat_alt)
  then have "\<not> goget (balances s1) f 0 > MaxUint64 - n"
    unfolding overflow_guard_iff using unat_less_64 [of "Balance s f"] by (simp add: s1_def)
  with False t show ?thesis
    by (auto simp: Credit_def Let_def s1_def Balance_def)
qed

lemma MintSupplyFor_ok:
  assumes "MintSupplyFor s p n = (t, Inr ())"
  shows "unat (issuedSupply t) = unat (issuedSupply s) + unat n"
    "n \<noteq> 0 \<Longrightarrow> issuedSupply t \<le> MaxSupplyFor p"
    "balances t = balances s" "monetaryPolicy t = monetaryPolicy s"
    "processedTx t = processedTx s" "accountNonces t = accountNonces s"
    "developmentAddress t = developmentAddress s"
proof -
  have "n \<noteq> 0 \<Longrightarrow> \<not> issuedSupply s > MaxSupplyFor p \<and> \<not> n > MaxSupplyFor p - issuedSupply s
      \<and> t = s\<lparr>issuedSupply := issuedSupply s + n\<rparr>"
    and z: "n = 0 \<Longrightarrow> t = s"
    using assms by (auto simp: MintSupplyFor_def Let_def split: if_splits sum.splits)
  moreover have "unat (issuedSupply s + n) = unat (issuedSupply s) + unat n
      \<and> issuedSupply s + n \<le> MaxSupplyFor p"
    if "\<not> issuedSupply s > MaxSupplyFor p" "\<not> n > MaxSupplyFor p - issuedSupply s"
  proof -
    have "unat (issuedSupply s) + unat n \<le> unat (MaxSupplyFor p)"
      using that by (simp add: word_less_nat_alt unat_sub not_less word_le_nat_alt)
    then show ?thesis
      using unat_less_64 [of "MaxSupplyFor p"]
      by (simp add: unat_add_bounded word_le_nat_alt)
  qed
  ultimately show "unat (issuedSupply t) = unat (issuedSupply s) + unat n"
    "n \<noteq> 0 \<Longrightarrow> issuedSupply t \<le> MaxSupplyFor p"
    "balances t = balances s" "monetaryPolicy t = monetaryPolicy s"
    "processedTx t = processedTx s" "accountNonces t = accountNonces s"
    "developmentAddress t = developmentAddress s"
    by (cases "n = 0"; auto)+
qed

end
