(* ===== verification/TransactionProcessor.thy ===== *)
theory TransactionProcessor
  imports State Transactions
begin

text \<open>
  \<open>blockchain/transaction_processor.go\<close>: applying one signed transaction to the state. The
  mutating routine works on a private clone and may leave it partly changed when it fails; the
  public entry point commits the clone only after every step succeeded.
\<close>

section \<open>Operations\<close>

definition applyTransactionMutating ::
  "crypto \<Rightarrow> state option \<Rightarrow> transaction option \<Rightarrow> network_id \<Rightarrow> (state option, u64) outcome" where
  "applyTransactionMutating C statep txp network = on_object NilState (\<lambda>s.
     case txp of
       None \<Rightarrow> (s, Inl NilTransaction)
     | Some tx \<Rightarrow>
         if txID tx = '''' then (s, Inl EmptyTransactionID)
         else if IsTransactionProcessed s (txID tx) then (s, Inl (AlreadyProcessed (txID tx)))
         else if txFrom tx = '''' then (s, Inl EmptySender)
         else if txTo tx = '''' then (s, Inl EmptyReceiver)
         else if txAmount tx = 0 then (s, Inl ZeroAmount)
         else (case ValidateResourceBounds (Some tx) of
           Inl err \<Rightarrow> (s, Inl err)
         | Inr _ \<Rightarrow>
         if \<not> VerifyForNetwork C tx network then (s, Inl InvalidSignature)
         else (case ExpectedNonce s (txFrom tx) of
           Inl err \<Rightarrow> (s, Inl err)
         | Inr expectedNonce \<Rightarrow>
         if txNonce tx \<noteq> expectedNonce then (s, Inl InvalidNonce)
         else if txFee tx \<noteq> CalculateFee (txAmount tx) then (s, Inl InvalidFee)
         else (let developmentFee = DevelopmentFee (txAmount tx);
                   minerFee = MiningFee (txAmount tx) in
         if developmentFee > txFee tx \<or> minerFee \<noteq> txFee tx - developmentFee
         then (s, Inl InvalidFeeDistribution)
         else if txAmount tx > MaxUint64 - txFee tx then (s, Inl AmountOverflow)
         else (let totalCost = txAmount tx + txFee tx in
         if Balance s (txFrom tx) < totalCost then (s, Inl InsufficientBalance)
         else (let treasury = DevelopmentAddress s in
         if treasury = '''' then (s, Inl TreasuryNotConfigured)
         else (case Debit s (txFrom tx) totalCost of
           (s1, Inl err) \<Rightarrow> (s1, Inl err)
         | (s1, Inr _) \<Rightarrow>
         (case Credit s1 (txTo tx) (txAmount tx) of
           (s2, Inl err) \<Rightarrow> (s2, Inl (ReceiverCreditFailed err))
         | (s2, Inr _) \<Rightarrow>
         (case Credit s2 treasury developmentFee of
           (s3, Inl err) \<Rightarrow> (s3, Inl (TreasuryCreditFailed err))
         | (s3, Inr _) \<Rightarrow>
         (case SetAccountNonce s3 (txFrom tx) (txNonce tx) of
           (s4, Inl err) \<Rightarrow> (s4, Inl err)
         | (s4, Inr _) \<Rightarrow>
         (case MarkTransactionProcessed s4 (txID tx) of
           (s5, Inl err) \<Rightarrow> (s5, Inl err)
         | (s5, Inr _) \<Rightarrow> (s5, Inr minerFee))))))))))))
     statep"

definition ApplyTransactionFor ::
  "crypto \<Rightarrow> state option \<Rightarrow> transaction option \<Rightarrow> network_id \<Rightarrow> (state option, u64) outcome" where
  "ApplyTransactionFor C statep txp network = on_object NilState (\<lambda>s.
     case applyTransactionMutating C (Some (Clone s)) txp network of
       (workingState, Inl err) \<Rightarrow> (s, Inl err)
     | (workingState, Inr minerFee) \<Rightarrow>
         (case ReplaceWith s workingState of
            (s1, Inl err) \<Rightarrow> (s1, Inl err)
          | (s1, Inr _) \<Rightarrow> (s1, Inr minerFee)))
     statep"

definition ApplyTransaction ::
  "crypto \<Rightarrow> state option \<Rightarrow> transaction option \<Rightarrow> (state option, u64) outcome" where
  "ApplyTransaction C statep txp = ApplyTransactionFor C statep txp DefaultNetwork"

section \<open>What a successful application means\<close>

text \<open>The conditions under which a transaction is accepted.\<close>

definition admissible :: "crypto \<Rightarrow> state \<Rightarrow> transaction \<Rightarrow> network_id \<Rightarrow> bool" where
  "admissible C s tx network \<longleftrightarrow>
     \<not> IsTransactionProcessed s (txID tx) \<and>
     ValidateResourceBounds (Some tx) = Inr () \<and>
     VerifyForNetwork C tx network \<and>
     ExpectedNonce s (txFrom tx) = Inr (txNonce tx) \<and>
     txFee tx = CalculateFee (txAmount tx) \<and>
     unat (txAmount tx) + unat (txFee tx) \<le> unat (Balance s (txFrom tx)) \<and>
     DevelopmentAddress s \<noteq> ''''"

lemma bounds_ok:
  assumes "ValidateResourceBounds (Some tx) = Inr ()"
  shows "txID tx \<noteq> ''''" "length (txID tx) \<le> 64" "length (txFrom tx) = 40" "length (txTo tx) = 40"
    "list_all is_lower_hex (txFrom tx)" "list_all is_lower_hex (txTo tx)"
    "length (txPublicKey tx) \<le> 65" "length (txSignature tx) \<le> 64"
    "1000 \<le> unat (txAmount tx)" "txFrom tx \<noteq> ''''" "txTo tx \<noteq> ''''" "txAmount tx \<noteq> 0"
  using assms
  by (auto simp: ValidateResourceBounds_def go_const ValidateAddress_def word_less_nat_alt not_less
      split: if_splits sum.splits)

lemma fee_checks_pass:
  assumes "txFee tx = CalculateFee (txAmount tx)"
  shows "\<not> DevelopmentFee (txAmount tx) > txFee tx"
    "MiningFee (txAmount tx) = txFee tx - DevelopmentFee (txAmount tx)"
  using assms DevelopmentFee_le [of "txAmount tx"] by (simp_all add: MiningFee_def Let_def)

text \<open>The five writes of an accepted transaction, in order.\<close>

definition applied :: "state \<Rightarrow> transaction \<Rightarrow> state \<Rightarrow> bool" where
  "applied s tx t \<longleftrightarrow>
     (\<exists>s1 s2 s3. Debit s (txFrom tx) (txAmount tx + txFee tx) = (s1, Inr ()) \<and>
        Credit s1 (txTo tx) (txAmount tx) = (s2, Inr ()) \<and>
        Credit s2 (developmentAddress s) (DevelopmentFee (txAmount tx)) = (s3, Inr ()) \<and>
        t = s3\<lparr>accountNonces := (accountNonces s)(txFrom tx \<mapsto> txNonce tx),
               processedTx := (processedTx s)(txID tx \<mapsto> True)\<rparr>)"

lemma pay_frame:
  assumes "Debit s a k = (s1, r1)" "Credit s1 b m = (s2, r2)" "Credit s2 c n = (s3, r3)"
  shows "accountNonces s3 = accountNonces s" "processedTx s3 = processedTx s"
    "developmentAddress s3 = developmentAddress s" "issuedSupply s3 = issuedSupply s"
    "monetaryPolicy s3 = monetaryPolicy s"
  using Debit_frame [OF assms(1)] Credit_frame [OF assms(2)] Credit_frame [OF assms(3)]
  by simp_all

lemma ApplyTransactionFor_ok_writes:
  assumes "ApplyTransactionFor C (Some s) (Some tx) network = (sp, Inr fee)"
  shows "admissible C s tx network \<and> fee = MiningFee (txAmount tx) \<and>
    (\<exists>s1 s2 s3. Debit s (txFrom tx) (txAmount tx + txFee tx) = (s1, Inr ()) \<and>
        Credit s1 (txTo tx) (txAmount tx) = (s2, Inr ()) \<and>
        Credit s2 (developmentAddress s) (DevelopmentFee (txAmount tx)) = (s3, Inr ()) \<and>
        sp = Some (s3\<lparr>accountNonces := (accountNonces s3)(txFrom tx \<mapsto> txNonce tx),
               processedTx := (processedTx s3)(txID tx \<mapsto> True)\<rparr>))"
  using assms
  by (auto simp: ApplyTransactionFor_def applyTransactionMutating_def Let_def admissible_def
      unat_add_no_overflow word_less_nat_alt not_less SetAccountNonce_def
      MarkTransactionProcessed_def DevelopmentAddress_def
      split: if_splits prod.splits sum.splits)

lemma ApplyTransactionFor_ok_applied:
  assumes "ApplyTransactionFor C (Some s) (Some tx) network = (sp, Inr fee)"
  shows "admissible C s tx network" "fee = MiningFee (txAmount tx)"
    "\<exists>t. sp = Some t \<and> applied s tx t"
proof -
  from ApplyTransactionFor_ok_writes [OF assms]
  show "admissible C s tx network" "fee = MiningFee (txAmount tx)"
    "\<exists>t. sp = Some t \<and> applied s tx t"
    by (auto simp: applied_def pay_frame)
qed

text \<open>The entry point either commits the whole transaction or leaves the state as it was.\<close>

lemma ApplyTransactionFor_err_unchanged:
  "ApplyTransactionFor C (Some s) txp network = (sp, Inl e) \<Longrightarrow> sp = Some s"
  by (auto simp: ApplyTransactionFor_def applyTransactionMutating_def split: prod.splits sum.splits)

lemma ApplyTransactionFor_ok_tx:
  "ApplyTransactionFor C (Some s) txp network = (sp, Inr fee) \<Longrightarrow> \<exists>tx. txp = Some tx"
  by (cases txp) (auto simp: ApplyTransactionFor_def applyTransactionMutating_def)

section \<open>Effect on the accounts\<close>

lemma admissible_cost:
  assumes "admissible C s tx network"
  shows "unat (txAmount tx + txFee tx) = unat (txAmount tx) + unat (txFee tx)"
  by (rule unat_add_bounded)
    (use assms unat_less_64 [of "Balance s (txFrom tx)"] in \<open>auto simp: admissible_def\<close>)

lemma applied_amounts:
  assumes "admissible C s tx network" "applied s tx t"
  shows "unat (Balance t a) + (if a = txFrom tx then unat (txAmount tx) + unat (txFee tx) else 0)
    = unat (Balance s a) + (if a = txTo tx then unat (txAmount tx) else 0)
      + (if a = developmentAddress s then unat (DevelopmentFee (txAmount tx)) else 0)"
proof -
  from assms(2) obtain s1 s2 s3 where
    d: "Debit s (txFrom tx) (txAmount tx + txFee tx) = (s1, Inr ())" and
    c1: "Credit s1 (txTo tx) (txAmount tx) = (s2, Inr ())" and
    c2: "Credit s2 (developmentAddress s) (DevelopmentFee (txAmount tx)) = (s3, Inr ())" and
    t: "balances t = balances s3"
    by (auto simp: applied_def)
  have eq: "Balance t a = Balance s3 a" by (simp add: Balance_def t)
  show ?thesis
    using Debit_amount [OF d, of a] Credit_amount [OF c1, of a] Credit_amount [OF c2, of a]
    unfolding eq admissible_cost [OF assms(1)]
    by (cases "a = txFrom tx"; cases "a = txTo tx"; cases "a = developmentAddress s") auto
qed

lemma applied_total:
  assumes "admissible C s tx network" "applied s tx t" "finite_state s"
  shows "finite_state t" "total_balance t + unat (MiningFee (txAmount tx)) = total_balance s"
proof -
  from assms(2) obtain s1 s2 s3 where
    d: "Debit s (txFrom tx) (txAmount tx + txFee tx) = (s1, Inr ())" and
    c1: "Credit s1 (txTo tx) (txAmount tx) = (s2, Inr ())" and
    c2: "Credit s2 (developmentAddress s) (DevelopmentFee (txAmount tx)) = (s3, Inr ())" and
    t: "balances t = balances s3"
    by (auto simp: applied_def)
  have "txFee tx = CalculateFee (txAmount tx)" using assms(1) by (simp add: admissible_def)
  with bank.pay_two_total [OF assms(3) d c1 c2] fee_split [of "txAmount tx"] admissible_cost [OF assms(1)]
  show "finite_state t" "total_balance t + unat (MiningFee (txAmount tx)) = total_balance s"
    by (simp_all add: finite_state_def total_balance_def t)
qed

lemma applied_frame:
  assumes "applied s tx t"
  shows "issuedSupply t = issuedSupply s" "monetaryPolicy t = monetaryPolicy s"
    "developmentAddress t = developmentAddress s"
    "accountNonces t = (accountNonces s)(txFrom tx \<mapsto> txNonce tx)"
    "processedTx t = (processedTx s)(txID tx \<mapsto> True)"
  using assms by (auto simp: applied_def pay_frame)

section \<open>Admissible transactions are accepted\<close>

lemma ApplyTransactionFor_complete:
  assumes adm: "admissible C s tx network" and fin: "finite_state s"
    and small: "total_balance s < 2 ^ 64"
  shows "\<exists>t. ApplyTransactionFor C (Some s) (Some tx) network = (Some t, Inr (MiningFee (txAmount tx)))"
proof -
  let ?cost = "txAmount tx + txFee tx"
  have vb: "ValidateResourceBounds (Some tx) = Inr ()" and fee: "txFee tx = CalculateFee (txAmount tx)"
    and le: "unat (txAmount tx) + unat (txFee tx) \<le> unat (Balance s (txFrom tx))"
    and dev: "DevelopmentAddress s \<noteq> ''''"
    using adm by (auto simp: admissible_def)
  note b = bounds_ok [OF vb]
  note cost = admissible_cost [OF adm]
  have no: "\<not> txAmount tx > MaxUint64 - txFee tx"
    unfolding overflow_guard_iff using le unat_less_64 [of "Balance s (txFrom tx)"] by simp
  have bal: "\<not> Balance s (txFrom tx) < ?cost" using le cost by (simp add: word_less_nat_alt)
  then obtain s1 where d: "Debit s (txFrom tx) ?cost = (s1, Inr ())"
    using Debit_ok_iff [of s "txFrom tx" ?cost] b by auto
  have "unat (txAmount tx) + unat (DevelopmentFee (txAmount tx)) \<le> unat ?cost"
    using cost fee fee_split [of "txAmount tx"] by simp
  then obtain s2 s3 where c1: "Credit s1 (txTo tx) (txAmount tx) = (s2, Inr ())"
    and c2: "Credit s2 (DevelopmentAddress s) (DevelopmentFee (txAmount tx)) = (s3, Inr ())"
    using bank.pay_two_complete [OF fin small d b(11) dev] by blast
  have np: "\<not> goget (processedTx s3) (txID tx) False"
    using adm pay_frame [OF d c1 c2] by (simp add: admissible_def IsTransactionProcessed_def)
  show ?thesis
    using adm b no bal d c1 c2 np dev fee_checks_pass [OF fee] fee
    by (simp add: ApplyTransactionFor_def applyTransactionMutating_def admissible_def Let_def
        SetAccountNonce_def MarkTransactionProcessed_def)
qed

section \<open>Properties\<close>

text \<open>A state in which the wallet with key 7 holds 50 coins.\<close>

definition small_state :: state where
  "small_state = \<lparr>balances = [Address (small_wallet 7) \<mapsto> 5000000000], processedTx = Map.empty,
     accountNonces = Map.empty, developmentAddress = DevelopmentTreasuryAddress,
     issuedSupply = 5000000000, monetaryPolicy = MonetaryPolicyPublicTestnet\<rparr>"

lemma small_state_total: "finite_state small_state \<and> total_balance small_state = 5000000000"
  by (simp add: small_state_def finite_state_def total_balance_def map_total_def)

lemma small_transfer_admissible:
  "admissible small_crypto small_state (small_transfer 5000 1) NetworkPublicTestnet"
proof -
  have fee: "unat (CalculateFee 5000) = 5" by (simp add: unat_CalculateFee)
  have "ValidateResourceBounds (Some (small_transfer 5000 1)) = Inr ()"
    by (rule small_transfer_bounds) (simp add: go_const)
  then show ?thesis
    using small_transfer_verifies [of 5000 1] fee
    by (simp add: admissible_def small_state_def IsTransactionProcessed_def ExpectedNonce_def
        Balance_def DevelopmentAddress_def DevelopmentTreasuryAddress_def)
qed

lemma small_transfer_applies:
  "\<exists>t. ApplyTransactionFor small_crypto (Some small_state) (Some (small_transfer 5000 1))
     NetworkPublicTestnet = (Some t, Inr (MiningFee 5000))"
  using ApplyTransactionFor_complete [OF small_transfer_admissible] small_state_total by simp

text \<open>C8: an accepted transaction debits the sender the amount and the fee, credits the receiver
  the amount and the treasury its share of the fee, also when these accounts coincide, touches no
  other balance, advances the sender's nonce by one, records the ID, and returns the miner's
  share, which is exactly what leaves the sum of all balances.\<close>

theorem ApplyTransaction_effect:
  assumes "ApplyTransactionFor C (Some s) (Some tx) network = (sp, Inr fee)" "finite_state s"
  shows "\<exists>t. sp = Some t
    \<and> (\<forall>a. unat (Balance t a) + (if a = txFrom tx then unat (txAmount tx) + unat (txFee tx) else 0)
         = unat (Balance s a) + (if a = txTo tx then unat (txAmount tx) else 0)
           + (if a = developmentAddress s then unat (DevelopmentFee (txAmount tx)) else 0))
    \<and> (\<forall>a. AccountNonce t a = (if a = txFrom tx then AccountNonce s a + 1 else AccountNonce s a))
    \<and> (\<forall>i. IsTransactionProcessed t i = (i = txID tx \<or> IsTransactionProcessed s i))
    \<and> fee = MiningFee (txAmount tx) \<and> total_balance t + unat fee = total_balance s
    \<and> issuedSupply t = issuedSupply s"
proof -
  note ok = ApplyTransactionFor_ok_applied [OF assms(1)]
  from ok(3) obtain t where t: "sp = Some t" "applied s tx t" by blast
  note fr = applied_frame [OF t(2)] and amt = applied_amounts [OF ok(1) t(2)]
    and tot = applied_total [OF ok(1) t(2) assms(2)]
  have "txNonce tx = AccountNonce s (txFrom tx) + 1"
    using ok(1) by (auto simp: admissible_def ExpectedNonce_def AccountNonce_def Let_def split: if_splits)
  with t(1) fr amt tot ok(2) show ?thesis
    by (auto simp: AccountNonce_def IsTransactionProcessed_def)
qed

theorem ApplyTransaction_effect_witness:
  "\<exists>t. fst (ApplyTransactionFor small_crypto (Some small_state) (Some (small_transfer 5000 1))
      NetworkPublicTestnet) = Some t \<and> unat (Balance t (Address (small_wallet 7))) + 5005 = 5000000000"
proof -
  obtain u where u: "ApplyTransactionFor small_crypto (Some small_state) (Some (small_transfer 5000 1))
      NetworkPublicTestnet = (Some u, Inr (MiningFee 5000))" using small_transfer_applies by blast
  have ne: "Address (small_wallet 7) \<noteq> Address (small_wallet 8)"
    "Address (small_wallet 7) \<noteq> DevelopmentTreasuryAddress"
    by (simp_all add: small_wallet_def walletFromPrivateKeyBytes_def be_nat_def Let_def small_crypto_def
        AddressFromPublicKey_def small_digest_def DevelopmentTreasuryAddress_def hex_encode_def hex_digit_def)
  have fee: "unat (CalculateFee 5000) = 5" by (simp add: unat_CalculateFee)
  from ApplyTransaction_effect [OF u] small_state_total obtain t where
    "u = t" "unat (Balance t (Address (small_wallet 7))) + (5000 + unat (CalculateFee 5000))
      = unat (Balance small_state (Address (small_wallet 7)))"
    using ne by (auto simp: small_state_def dest!: spec [of _ "Address (small_wallet 7)"])
  then show ?thesis using u fee by (simp add: small_state_def Balance_def)
qed

text \<open>A transaction that is refused, for whatever reason and at whatever step, leaves the
  state exactly as it was.\<close>

theorem ApplyTransaction_atomic:
  assumes "ApplyTransactionFor C (Some s) txp network = (sp, Inl e)"
  shows "sp = Some s"
  by (rule ApplyTransactionFor_err_unchanged [OF assms])

theorem ApplyTransaction_atomic_witness:
  "fst (ApplyTransactionFor small_crypto (Some small_state) None NetworkPublicTestnet) = Some small_state"
proof -
  have "ApplyTransactionFor small_crypto (Some small_state) None NetworkPublicTestnet
    = (fst (ApplyTransactionFor small_crypto (Some small_state) None NetworkPublicTestnet), Inl NilTransaction)"
    by (simp add: ApplyTransactionFor_def applyTransactionMutating_def)
  from ApplyTransaction_atomic [OF this] show ?thesis .
qed

text \<open>When the balances add up to less than \<open>2^64\<close> a transaction is accepted exactly if it is
  admissible: unprocessed, within the resource bounds, signed by its sender for the network, with
  the next nonce and the exact fee, and covered by the sender's balance. None of the overflow
  branches and neither of the two credits can fail.\<close>

theorem ApplyTransaction_accepts_iff:
  assumes "finite_state s" "total_balance s < 2 ^ 64"
  shows "is_ok (snd (ApplyTransactionFor C (Some s) (Some tx) network)) \<longleftrightarrow> admissible C s tx network"
proof
  assume "is_ok (snd (ApplyTransactionFor C (Some s) (Some tx) network))"
  then obtain sp fee where "ApplyTransactionFor C (Some s) (Some tx) network = (sp, Inr fee)"
    by (metis is_ok_iff prod.collapse)
  then show "admissible C s tx network" by (rule ApplyTransactionFor_ok_applied(1))
next
  assume "admissible C s tx network"
  from ApplyTransactionFor_complete [OF this assms]
  show "is_ok (snd (ApplyTransactionFor C (Some s) (Some tx) network))" by auto
qed

theorem ApplyTransaction_accepts_iff_witness:
  "is_ok (snd (ApplyTransactionFor small_crypto (Some small_state) (Some (small_transfer 5000 1))
     NetworkPublicTestnet))"
  using ApplyTransaction_accepts_iff [of small_state] small_state_total small_transfer_admissible by simp

end
