(* ===== verification/BlockProcessor.thy ===== *)
theory BlockProcessor
  imports TransactionProcessor Blocks
begin

text \<open>
  \<open>blockchain/rewards.go\<close> and \<open>blockchain/block_processor.go\<close>: crediting the miner and applying a
  whole block. Transactions and the reward are applied to a clone of the state, which replaces
  the state only when everything succeeded.
\<close>

section \<open>Rewards\<close>

definition stateRemainingSupplyFor :: "state \<Rightarrow> monetary_policy \<Rightarrow> u64" where
  "stateRemainingSupplyFor s policy =
     (let maxSupply = MaxSupplyFor policy; issued = IssuedSupply s
      in if issued \<ge> maxSupply then 0 else maxSupply - issued)"

definition CreditMinerRewardFor ::
  "state option \<Rightarrow> monetary_policy \<Rightarrow> u64 \<Rightarrow> string \<Rightarrow> u64 \<Rightarrow> (state option, u64) outcome" where
  "CreditMinerRewardFor statep policy blockHeight minerAddress minerFees = on_object NilState (\<lambda>s.
     if minerAddress = '''' then (s, Inl EmptyMinerAddress)
     else (case BlockSubsidyFor policy blockHeight of
       Inl err \<Rightarrow> (s, Inl err)
     | Inr scheduled \<Rightarrow>
     (case (if scheduled > 0 then
              (let remaining = stateRemainingSupplyFor s policy;
                   subsidy = (if scheduled > remaining then remaining else scheduled)
               in case MintSupplyFor s policy subsidy of
                    (s1, Inl err) \<Rightarrow> (s1, Inl err)
                  | (s1, Inr _) \<Rightarrow> (s1, Inr subsidy))
            else (s, Inr scheduled)) of
       (s1, Inl err) \<Rightarrow> (s1, Inl err)
     | (s1, Inr subsidy) \<Rightarrow>
     if subsidy > MaxUint64 - minerFees then (s1, Inl MinerRewardOverflow)
     else (let totalReward = subsidy + minerFees in
     if totalReward = 0 then (s1, Inr 0)
     else (case Credit s1 minerAddress totalReward of
       (s2, Inl err) \<Rightarrow> (s2, Inl err)
     | (s2, Inr _) \<Rightarrow> (s2, Inr totalReward))))))
     statep"

definition CreditMinerReward ::
  "state option \<Rightarrow> u64 \<Rightarrow> string \<Rightarrow> u64 \<Rightarrow> (state option, u64) outcome" where
  "CreditMinerReward statep blockHeight minerAddress minerFees =
     CreditMinerRewardFor statep MonetaryPolicyPublicTestnet blockHeight minerAddress minerFees"

section \<open>Blocks\<close>

text \<open>The loop over the transactions of a block: the working state and the fees so far.\<close>

fun applyBlockTransactions ::
  "crypto \<Rightarrow> network_id \<Rightarrow> state option \<Rightarrow> u64 \<Rightarrow> transaction option list \<Rightarrow> (state option, u64) outcome" where
  "applyBlockTransactions C network w totalMinerFees [] = (w, Inr totalMinerFees)"
| "applyBlockTransactions C network w totalMinerFees (None # txs) = (w, Inl NilTransactionInBlock)"
| "applyBlockTransactions C network w totalMinerFees (Some tx # txs) =
     (case ApplyTransactionFor C w (Some tx) network of
        (w1, Inl err) \<Rightarrow> (w1, Inl (TransactionFailed (txID tx) err))
      | (w1, Inr minerFee) \<Rightarrow>
          if totalMinerFees > MaxUint64 - minerFee then (w1, Inl MinerFeeOverflow)
          else applyBlockTransactions C network w1 (totalMinerFees + minerFee) txs)"

definition ProcessBlockFor ::
  "crypto \<Rightarrow> state option \<Rightarrow> monetary_policy \<Rightarrow> block option \<Rightarrow> string \<Rightarrow> (state option, u64) outcome" where
  "ProcessBlockFor C statep policy blockp minerAddress = on_object NilState (\<lambda>s.
     case blockp of
       None \<Rightarrow> (s, Inl NilBlock)
     | Some block \<Rightarrow>
     if minerAddress = '''' then (s, Inl EmptyMinerAddress)
     else (case ValidateMonetaryPolicy policy of
       Inl err \<Rightarrow> (s, Inl err)
     | Inr _ \<Rightarrow>
     (case NetworkForMonetaryPolicy policy of
       Inl err \<Rightarrow> (s, Inl err)
     | Inr network \<Rightarrow>
     (case EnsureMonetaryPolicy s policy of
       Inl err \<Rightarrow> (s, Inl err)
     | Inr _ \<Rightarrow>
     (case applyBlockTransactions C network (Some (Clone s)) 0 (blkTransactions block) of
       (_, Inl err) \<Rightarrow> (s, Inl err)
     | (w1, Inr totalMinerFees) \<Rightarrow>
     (case CreditMinerRewardFor w1 policy (blkHeight block) minerAddress totalMinerFees of
       (_, Inl err) \<Rightarrow> (s, Inl err)
     | (w2, Inr totalReward) \<Rightarrow>
     (case ReplaceWith s w2 of
       (s1, Inl err) \<Rightarrow> (s1, Inl err)
     | (s1, Inr _) \<Rightarrow> (s1, Inr totalReward))))))))
     statep"

definition ProcessBlock ::
  "crypto \<Rightarrow> state option \<Rightarrow> block option \<Rightarrow> string \<Rightarrow> (state option, u64) outcome" where
  "ProcessBlock C statep blockp minerAddress =
     ProcessBlockFor C statep MonetaryPolicyPublicTestnet blockp minerAddress"

fun sumMinerFees :: "u64 \<Rightarrow> transaction option list \<Rightarrow> u64 result" where
  "sumMinerFees acc [] = Inr acc"
| "sumMinerFees acc (None # txs) = Inl NilTransactionEntry"
| "sumMinerFees acc (Some tx # txs) =
     (let fee = MiningFee (txAmount tx)
      in if acc > MaxUint64 - fee then Inl MinerFeeOverflow
         else sumMinerFees (acc + fee) txs)"

definition TotalMinerFees :: "transaction option list \<Rightarrow> u64 result" where
  "TotalMinerFees txs = sumMinerFees 0 txs"

section \<open>The supply invariant\<close>

text \<open>
  Every coin in a balance was issued by a subsidy, and no more was issued than the policy
  allows. \<open>pending\<close> are fees already debited from senders and not yet credited to the miner.
\<close>

definition backed :: "state \<Rightarrow> nat \<Rightarrow> bool" where
  "backed s pending \<longleftrightarrow> finite_state s \<and> total_balance s + pending = unat (issuedSupply s)
     \<and> issuedSupply s \<le> MaxSupplyFor (monetaryPolicy s)
     \<and> ValidateMonetaryPolicy (monetaryPolicy s) = Inr ()
     \<and> developmentAddress s = DevelopmentTreasuryAddress"

abbreviation supply_inv :: "state \<Rightarrow> bool" where
  "supply_inv s \<equiv> backed s 0"

lemma treasury_nonempty [simp]: "DevelopmentTreasuryAddress \<noteq> ''''"
  by (simp add: DevelopmentTreasuryAddress_def)

lemma backed_total_less: "backed s p \<Longrightarrow> total_balance s + p < 2 ^ 64"
  using unat_less_64 [of "issuedSupply s"] by (simp add: backed_def)

lemma NewStateFor_supply_inv: "NewStateFor p = Inr s \<Longrightarrow> supply_inv s"
  by (auto simp: NewStateFor_def backed_def finite_state_def total_balance_def split: sum.splits)

lemma ApplyTransactionFor_backed:
  assumes "backed s p" "ApplyTransactionFor C (Some s) txp network = (sp, Inr fee)"
  obtains t where "sp = Some t" "backed t (p + unat fee)" "issuedSupply t = issuedSupply s"
    "monetaryPolicy t = monetaryPolicy s"
proof -
  from ApplyTransactionFor_ok_tx [OF assms(2)] obtain tx where tx: "txp = Some tx" by blast
  note ok = ApplyTransactionFor_ok_applied [OF assms(2) [unfolded tx]]
  from ok(3) obtain t where t: "sp = Some t" "applied s tx t" by blast
  have fin: "finite_state s" using assms(1) by (simp add: backed_def)
  note tot = applied_total [OF ok(1) t(2) fin]
  note fr = applied_frame [OF t(2)]
  have "backed t (p + unat fee)"
    using assms(1) tot fr ok(2) by (simp add: backed_def)
  with t fr show ?thesis using that by blast
qed

lemma applyBlockTransactions_backed:
  assumes "backed s p" "unat fees = p"
    "applyBlockTransactions C network (Some s) fees txs = (w, Inr collected)"
  shows "\<exists>t. w = Some t \<and> backed t (unat collected) \<and> issuedSupply t = issuedSupply s
    \<and> monetaryPolicy t = monetaryPolicy s"
  using assms
proof (induction C network "Some s" fees txs arbitrary: s p rule: applyBlockTransactions.induct)
  case (1 C network fees)
  then show ?case by auto
next
  case (2 C network fees txs)
  then show ?case by simp
next
  case (3 C network fees tx txs)
  from "3.prems"(3) obtain w1 fee where a: "ApplyTransactionFor C (Some s) (Some tx) network = (w1, Inr fee)"
    and no: "\<not> fees > MaxUint64 - fee"
    and rest: "applyBlockTransactions C network w1 (fees + fee) txs = (w, Inr collected)"
    by (auto split: prod.splits sum.splits if_splits)
  from ApplyTransactionFor_backed [OF "3.prems"(1) a] obtain t where
    t: "w1 = Some t" "backed t (p + unat fee)" "issuedSupply t = issuedSupply s"
      "monetaryPolicy t = monetaryPolicy s" .
  have "unat (fees + fee) = p + unat fee"
    using unat_add_no_overflow [OF no] "3.prems"(2) by simp
  from "3.hyps" [OF a [symmetric, unfolded t(1)] refl no t(2) this] rest t show ?case by auto
qed

section \<open>The reward\<close>

text \<open>What a block at height \<open>h\<close> may still issue: the scheduled subsidy, cut to the rest of the
  supply.\<close>

definition mintable :: "monetary_policy \<Rightarrow> nat \<Rightarrow> nat \<Rightarrow> nat" where
  "mintable policy h issued = min (subsidy_at policy h) (unat (MaxSupplyFor policy) - issued)"

lemma unat_stateRemainingSupplyFor:
  "unat (stateRemainingSupplyFor s p) = unat (MaxSupplyFor p) - unat (issuedSupply s)"
  by (simp add: stateRemainingSupplyFor_def Let_def IssuedSupply_def word_le_nat_alt unat_sub)

lemma MintSupplyFor_accepts:
  assumes "ValidateMonetaryPolicy (monetaryPolicy s) = Inr ()"
    "unat (issuedSupply s) + unat n \<le> unat (MaxSupplyFor (monetaryPolicy s))"
  shows "MintSupplyFor s (monetaryPolicy s) n = (s\<lparr>issuedSupply := issuedSupply s + n\<rparr>, Inr ())"
  using assms by (auto simp: MintSupplyFor_def Let_def word_less_nat_alt unat_sub word_le_nat_alt)

text \<open>From a state in which fees are pending, the reward cannot fail, and it issues exactly
  \<open>mintable\<close> new coins and pays the pending fees.\<close>

lemma CreditMinerRewardFor_backed:
  fixes h :: u64
  assumes b: "backed s (unat fees)" and m: "miner \<noteq> ''''"
  defines "p \<equiv> monetaryPolicy s" and "new \<equiv> mintable (monetaryPolicy s) (unat h) (unat (issuedSupply s))"
  shows "\<exists>t reward. CreditMinerRewardFor (Some s) p h miner fees = (Some t, Inr reward)
    \<and> supply_inv t \<and> unat (issuedSupply t) = unat (issuedSupply s) + new
    \<and> unat reward = new + unat fees \<and> monetaryPolicy t = p"
proof -
  from b have pol: "ValidateMonetaryPolicy p = Inr ()" and fin: "finite_state s"
    and bal: "total_balance s + unat fees = unat (issuedSupply s)"
    and cap: "unat (issuedSupply s) \<le> unat (MaxSupplyFor p)"
    and dev: "developmentAddress s = DevelopmentTreasuryAddress"
    by (simp_all add: backed_def p_def word_le_nat_alt)
  obtain sub where sub: "BlockSubsidyFor p h = Inr sub" using BlockSubsidyFor_total [OF pol] by blast
  define n where "n = (if sub > stateRemainingSupplyFor s p then stateRemainingSupplyFor s p else sub)"
  have n: "unat n = new"
    using sub by (auto simp: n_def new_def p_def [symmetric] mintable_def subsidy_at_def
        unat_stateRemainingSupplyFor [symmetric] word_less_nat_alt min_def not_less)
  have room: "unat (issuedSupply s) + unat n \<le> unat (MaxSupplyFor p)"
    using cap unfolding n new_def by (simp add: p_def [symmetric] mintable_def)
  define s1 where "s1 = s\<lparr>issuedSupply := issuedSupply s + n\<rparr>"
  have mint: "MintSupplyFor s p n = (s1, Inr ())"
    using MintSupplyFor_accepts [of s n] pol room by (simp add: p_def s1_def)
  have small: "unat (issuedSupply s) + unat n < 2 ^ 64"
    using room unat_MaxSupplyFor_bound [of p] by simp
  have iss: "unat (issuedSupply s1) = unat (issuedSupply s) + unat n"
    using unat_add_bounded [OF small] by (simp add: s1_def)
  have sum: "unat n + unat fees < 2 ^ 64" using small bal by simp
  then have no: "\<not> n > MaxUint64 - fees" unfolding overflow_guard_iff by simp
  have reward: "unat (n + fees) = new + unat fees" using unat_add_bounded [OF sum] n by simp
  have tot1: "total_balance s1 = total_balance s" "finite_state s1"
    using fin by (simp_all add: s1_def total_balance_def finite_state_def)
  obtain t where t: "Credit s1 miner (n + fees) = (t, Inr ())"
    using Credit_complete [OF tot1(2) m, of "n + fees"] tot1 bal small reward n by auto
  have inv: "supply_inv t \<and> unat (issuedSupply t) = unat (issuedSupply s) + new \<and> monetaryPolicy t = p"
    using Credit_ok [OF tot1(2) t] Credit_frame [OF t] tot1 iss reward n bal pol room dev
    by (simp add: backed_def s1_def p_def word_le_nat_alt)
  have zero: "sub = 0 \<Longrightarrow> n = 0 \<and> s1 = s" by (simp add: n_def s1_def)
  have none: "n + fees = 0 \<Longrightarrow> t = s1" using t m by (simp add: Credit_def)
  have issue: "(if sub > 0 then (let remaining = stateRemainingSupplyFor s p;
            subsidy = (if sub > remaining then remaining else sub)
          in case MintSupplyFor s p subsidy of (s1, Inl err) \<Rightarrow> (s1, Inl err)
            | (s1, Inr _) \<Rightarrow> (s1, Inr subsidy)) else (s, Inr sub)) = (s1, Inr n)"
    using mint zero by (auto simp: Let_def n_def [symmetric] word_gt_0)
  have "CreditMinerRewardFor (Some s) p h miner fees = (Some t, Inr (n + fees))"
    unfolding CreditMinerRewardFor_def on_object_Some sub
    using m no t none by (simp add: issue Let_def)
  then show ?thesis using inv reward by blast
qed

section \<open>Whole blocks\<close>

lemma ProcessBlockFor_err_unchanged:
  "ProcessBlockFor C (Some s) p bp miner = (sp, Inl e) \<Longrightarrow> sp = Some s"
  by (auto simp: ProcessBlockFor_def ReplaceWith_def
      split: option.splits if_splits sum.splits prod.splits)

lemma ProcessBlockFor_ok:
  assumes "ProcessBlockFor C (Some s) p (Some b) miner = (sp, Inr reward)"
  obtains network w fees where "miner \<noteq> ''''" "NetworkForMonetaryPolicy p = Inr network"
    "monetaryPolicy s = p"
    "applyBlockTransactions C network (Some s) 0 (blkTransactions b) = (w, Inr fees)"
    "CreditMinerRewardFor w p (blkHeight b) miner fees = (sp, Inr reward)"
proof -
  have nil: "x = None" if "CreditMinerRewardFor x p h m f = (None, r)" for x h m f r
    using that by (cases x) (auto simp: CreditMinerRewardFor_def split: prod.splits)
  have nil_err: "False" if "CreditMinerRewardFor x p h m f = (None, Inr r)" for x h m f r
    using that nil [OF that] by (simp add: CreditMinerRewardFor_def)
  show ?thesis
    using assms that
    by (auto simp: ProcessBlockFor_def EnsureMonetaryPolicy_def ReplaceWith_def
        dest!: nil_err split: option.splits if_splits sum.splits prod.splits)
qed

lemma ProcessBlockFor_supply:
  assumes "supply_inv s" "ProcessBlockFor C (Some s) p (Some b) miner = (sp, Inr reward)"
  obtains t where "sp = Some t" "supply_inv t" "monetaryPolicy t = p" "monetaryPolicy s = p"
    "unat (issuedSupply t) = unat (issuedSupply s) + mintable p (unat (blkHeight b)) (unat (issuedSupply s))"
proof -
  from ProcessBlockFor_ok [OF assms(2)] obtain network w fees where
    m: "miner \<noteq> ''''" and p: "monetaryPolicy s = p" and
    a: "applyBlockTransactions C network (Some s) 0 (blkTransactions b) = (w, Inr fees)" and
    r: "CreditMinerRewardFor w p (blkHeight b) miner fees = (sp, Inr reward)" by metis
  from applyBlockTransactions_backed [OF assms(1) _ a] obtain u where
    u: "w = Some u" "backed u (unat fees)" "issuedSupply u = issuedSupply s" "monetaryPolicy u = p"
    using p by auto
  from CreditMinerRewardFor_backed [OF u(2) m, of "blkHeight b"] r u that p
  show ?thesis by auto
qed

text \<open>From a backed state only a transaction of the block can make it fail.\<close>

lemma ProcessBlockFor_complete:
  assumes "supply_inv s" "miner \<noteq> ''''" "monetaryPolicy s = p"
    "NetworkForMonetaryPolicy p = Inr network"
    "applyBlockTransactions C network (Some s) 0 (blkTransactions b) = (w, Inr fees)"
  shows "\<exists>t reward. ProcessBlockFor C (Some s) p (Some b) miner = (Some t, Inr reward)"
proof -
  from applyBlockTransactions_backed [OF assms(1) _ assms(5)] obtain u where
    u: "w = Some u" "backed u (unat fees)" "monetaryPolicy u = p"
    using assms(3) by auto
  from CreditMinerRewardFor_backed [OF u(2) assms(2), of "blkHeight b"] u
  obtain t reward where r: "CreditMinerRewardFor w p (blkHeight b) miner fees = (Some t, Inr reward)"
    by auto
  have "ValidateMonetaryPolicy p = Inr ()" using assms(1,3) by (simp add: backed_def)
  then show ?thesis using assms r
    by (simp add: ProcessBlockFor_def EnsureMonetaryPolicy_def)
qed

section \<open>No transaction is applied twice\<close>

lemma applyBlockTransactions_ids:
  assumes "applyBlockTransactions C network (Some s) fees txps = (w, Inr collected)"
  shows "\<exists>txs t. txps = map Some txs \<and> w = Some t \<and> distinct (map txID txs)
    \<and> (\<forall>tx\<in>set txs. \<not> IsTransactionProcessed s (txID tx))
    \<and> (\<forall>i. IsTransactionProcessed t i \<longleftrightarrow> IsTransactionProcessed s i \<or> i \<in> txID ` set txs)"
  using assms
proof (induction C network "Some s" fees txps arbitrary: s rule: applyBlockTransactions.induct)
  case (1 C network fees)
  then show ?case by (intro exI [of _ "[]"]) auto
next
  case (2 C network fees txs)
  then show ?case by simp
next
  case (3 C network fees tx txs)
  from "3.prems" obtain w1 fee where a: "ApplyTransactionFor C (Some s) (Some tx) network = (w1, Inr fee)"
    and no: "\<not> fees > MaxUint64 - fee"
    and rest: "applyBlockTransactions C network w1 (fees + fee) txs = (w, Inr collected)"
    by (auto split: prod.splits sum.splits if_splits)
  note ok = ApplyTransactionFor_ok_applied [OF a]
  from ok(3) obtain u where u: "w1 = Some u" "applied s tx u" by blast
  have un: "\<not> IsTransactionProcessed s (txID tx)" using ok(1) by (simp add: admissible_def)
  have proc: "IsTransactionProcessed u i \<longleftrightarrow> i = txID tx \<or> IsTransactionProcessed s i" for i
    using applied_frame(5) [OF u(2)] by (simp add: IsTransactionProcessed_def)
  from "3.hyps" [OF a [symmetric, unfolded u(1)] refl no] rest u(1)
  obtain txs' t where "txs = map Some txs'" "w = Some t" "distinct (map txID txs')"
    "\<forall>tx\<in>set txs'. \<not> IsTransactionProcessed u (txID tx)"
    "\<forall>i. IsTransactionProcessed t i \<longleftrightarrow> IsTransactionProcessed u i \<or> i \<in> txID ` set txs'" by blast
  then show ?case
    using un proc by (intro exI [of _ "tx # txs'"] exI [of _ t]) (auto simp: image_iff)
qed

section \<open>Properties\<close>

definition small_payment_block :: block where
  "small_payment_block = \<lparr>blkVersion = 1, blkHeight = 2, blkTimestamp = 1786924920,
     blkPreviousHash = ''00'', blkMerkleRoot = ''00'', blkDifficulty = 1, blkNonce = 0,
     blkMinerAddress = Address (small_wallet 9), blkTransactions = [Some (small_transfer 5000 1)]\<rparr>"

lemma small_state_backed: "supply_inv small_state"
  using small_state_total
  by (simp add: backed_def small_state_def ValidateMonetaryPolicy_def MaxSupplyFor_def go_const
      word_le_nat_alt)

lemma small_address_nonempty: "0 < d \<Longrightarrow> d < 200 \<Longrightarrow> Address (small_wallet d) \<noteq> ''''"
  using small_address_valid [of d] by (auto simp del: One_nat_def)

lemma small_payment_applies:
  "\<exists>t. applyBlockTransactions small_crypto NetworkPublicTestnet (Some small_state) 0
     (blkTransactions small_payment_block) = (Some t, Inr (MiningFee 5000))"
proof -
  obtain t where "ApplyTransactionFor small_crypto (Some small_state) (Some (small_transfer 5000 1))
      NetworkPublicTestnet = (Some t, Inr (MiningFee 5000))" using small_transfer_applies by blast
  then show ?thesis by (simp add: small_payment_block_def)
qed

lemma small_payment_processed:
  "\<exists>t r. ProcessBlockFor small_crypto (Some small_state) MonetaryPolicyPublicTestnet
     (Some small_payment_block) (Address (small_wallet 9)) = (Some t, Inr r)"
proof -
  obtain t where "applyBlockTransactions small_crypto NetworkPublicTestnet (Some small_state) 0
     (blkTransactions small_payment_block) = (Some t, Inr (MiningFee 5000))" using small_payment_applies by blast
  from ProcessBlockFor_complete [OF small_state_backed small_address_nonempty [of 9] _ _ this]
  show ?thesis by (simp add: small_state_def NetworkForMonetaryPolicy_def)
qed

text \<open>C7: processing a block keeps the books: if every coin in a balance was issued before, it was
  issued afterwards; the issued supply grows by exactly the scheduled subsidy of the height, cut
  to what the maximum supply leaves; it never exceeds that maximum. All fees the senders paid end
  in the balances of the treasury and the miner.\<close>

theorem ProcessBlock_conserves_supply:
  assumes "supply_inv s" "ProcessBlockFor C (Some s) p (Some b) miner = (sp, Inr reward)"
  shows "\<exists>t. sp = Some t \<and> supply_inv t \<and> total_balance t = unat (issuedSupply t)
    \<and> unat (issuedSupply t) = unat (issuedSupply s)
        + min (subsidy_at p (unat (blkHeight b))) (unat (MaxSupplyFor p) - unat (issuedSupply s))
    \<and> issuedSupply t \<le> MaxSupplyFor p"
  using ProcessBlockFor_supply [OF assms] by (metis add.right_neutral backed_def mintable_def)

theorem ProcessBlock_conserves_supply_witness:
  "\<exists>t. fst (ProcessBlockFor small_crypto (Some small_state) MonetaryPolicyPublicTestnet
      (Some small_payment_block) (Address (small_wallet 9))) = Some t \<and> total_balance t = unat (issuedSupply t)"
proof -
  obtain t r where p: "ProcessBlockFor small_crypto (Some small_state) MonetaryPolicyPublicTestnet
     (Some small_payment_block) (Address (small_wallet 9)) = (Some t, Inr r)"
    using small_payment_processed by blast
  from ProcessBlock_conserves_supply [OF small_state_backed p] p show ?thesis by auto
qed

text \<open>A block that fails, at any transaction or at the reward, leaves the state as it was.\<close>

theorem ProcessBlock_atomic:
  assumes "ProcessBlockFor C (Some s) p bp miner = (sp, Inl e)"
  shows "sp = Some s"
  by (rule ProcessBlockFor_err_unchanged [OF assms])

theorem ProcessBlock_atomic_witness:
  "fst (ProcessBlockFor small_crypto (Some small_state) MonetaryPolicyPublicTestnet
     (Some (small_payment_block\<lparr>blkTransactions := [Some (small_transfer 5000 1), None]\<rparr>))
     (Address (small_wallet 9))) = Some small_state"
proof -
  obtain t where t: "ApplyTransactionFor small_crypto (Some small_state) (Some (small_transfer 5000 1))
      NetworkPublicTestnet = (Some t, Inr (MiningFee 5000))" using small_transfer_applies by blast
  have "ProcessBlockFor small_crypto (Some small_state) MonetaryPolicyPublicTestnet
     (Some (small_payment_block\<lparr>blkTransactions := [Some (small_transfer 5000 1), None]\<rparr>))
     (Address (small_wallet 9)) = (Some small_state, Inl NilTransactionInBlock)"
    using t small_address_nonempty [of 9]
    by (simp add: ProcessBlockFor_def NetworkForMonetaryPolicy_def ValidateMonetaryPolicy_def
        EnsureMonetaryPolicy_def small_state_def [THEN arg_cong [where f = monetaryPolicy]])
  from ProcessBlock_atomic [OF this] this show ?thesis by simp
qed

text \<open>From a state whose coins are all issued, a block with a miner address succeeds as soon as
  its transactions do: neither the reward nor a sum of fees can overflow, and the supply check
  cannot refuse the subsidy.\<close>

theorem ProcessBlock_reward_cannot_fail:
  assumes "supply_inv s" "miner \<noteq> ''''" "monetaryPolicy s = p"
    "NetworkForMonetaryPolicy p = Inr network"
    "applyBlockTransactions C network (Some s) 0 (blkTransactions b) = (w, Inr fees)"
  shows "\<exists>t reward. ProcessBlockFor C (Some s) p (Some b) miner = (Some t, Inr reward)"
  by (rule ProcessBlockFor_complete [OF assms])

theorem ProcessBlock_reward_cannot_fail_witness:
  "\<exists>t reward. ProcessBlockFor small_crypto (Some small_state) MonetaryPolicyPublicTestnet
     (Some small_payment_block) (Address (small_wallet 9)) = (Some t, Inr reward)"
proof -
  obtain t where "applyBlockTransactions small_crypto NetworkPublicTestnet (Some small_state) 0
     (blkTransactions small_payment_block) = (Some t, Inr (MiningFee 5000))" using small_payment_applies by blast
  from ProcessBlock_reward_cannot_fail [OF small_state_backed small_address_nonempty [of 9] _ _ this]
  show ?thesis by (simp add: small_state_def NetworkForMonetaryPolicy_def)
qed

text \<open>A processed block holds no nil transaction, no ID twice and no ID that was processed
  before, and all its IDs are processed afterwards, so no transaction takes effect twice. In
  particular the second transaction list that a Merkle root with an odd number of leaves also
  commits to cannot be processed.\<close>

theorem ProcessBlock_no_replay:
  assumes "ProcessBlockFor C (Some s) p (Some b) miner = (sp, Inr reward)"
  shows "\<exists>txs. blkTransactions b = map Some txs \<and> distinct (map txID txs)
    \<and> (\<forall>tx\<in>set txs. \<not> IsTransactionProcessed s (txID tx))"
  using ProcessBlockFor_ok [OF assms] applyBlockTransactions_ids by metis

theorem ProcessBlock_no_replay_witness:
  "\<exists>txs. blkTransactions small_payment_block = map Some txs \<and> distinct (map txID txs)"
proof -
  obtain t r where p: "ProcessBlockFor small_crypto (Some small_state) MonetaryPolicyPublicTestnet
     (Some small_payment_block) (Address (small_wallet 9)) = (Some t, Inr r)"
    using small_payment_processed by blast
  from ProcessBlock_no_replay [OF p] show ?thesis by blast
qed

end
