(* ===== verification/Reorg.thy ===== *)
theory Reorg
  imports Chain BlockProcessor
begin

text \<open>
  Fork choice, finality and reorganization: \<open>blockchain/reorg.go\<close>, \<open>reorg_depth.go\<close>,
  \<open>finality.go\<close>, \<open>finality_reorg.go\<close>, \<open>finality_status.go\<close>, \<open>fork_choice.go\<close> and
  \<open>validated_chain.go\<close>.

  The clock is read anew for every block that is validated: \<open>clk i\<close> is the reading while the
  block at index \<open>i\<close> is checked, and \<open>ReorganizeToCandidate\<close>, which validates a chain up to
  three times, takes one such clock per pass. Pointer equality of two chains is decided by the
  caller: \<open>same\<close> says that the two arguments are one object.
\<close>

section \<open>Copying and revalidating\<close>

definition CloneChain :: "chain option \<Rightarrow> chain result" where
  "CloneChain sourcep =
     (case sourcep of
        None \<Rightarrow> Inl NilSourceChain
      | Some source \<Rightarrow>
          if length (blocks source) = 0 then Inl SourceChainEmpty
          else Inr \<lparr>network = network source, blocks = blocks source,
                    totalWork = totalWork source, powPolicy = powPolicy source,
                    proofVerifier = proofVerifier source\<rparr>)"

text \<open>The loop that feeds the blocks after the genesis to \<open>AddBlock\<close>; \<open>wrap\<close> is the error the
  caller builds around a failure.\<close>

fun addBlocks ::
  "crypto \<Rightarrow> (nat \<Rightarrow> i64) \<Rightarrow> (error \<Rightarrow> error) \<Rightarrow> nat \<Rightarrow> chain \<Rightarrow> block list \<Rightarrow> chain result" where
  "addBlocks C clk wrap i validated [] = Inr validated"
| "addBlocks C clk wrap i validated (block # rest) =
     (case AddBlock C (clk i) validated (Some block) of
        (_, Inl err) \<Rightarrow> Inl (wrap err)
      | (validated', Inr _) \<Rightarrow> addBlocks C clk wrap (Suc i) validated' rest)"

definition ValidateAndCloneChain :: "crypto \<Rightarrow> (nat \<Rightarrow> i64) \<Rightarrow> chain option \<Rightarrow> chain result" where
  "ValidateAndCloneChain C clk sourcep =
     (case sourcep of
        None \<Rightarrow> Inl NilSourceChain
      | Some source \<Rightarrow>
          (case blocks source of
             [] \<Rightarrow> Inl SourceChainEmpty
           | genesis # rest \<Rightarrow>
               (case newChainFromGenesisForNetworkWithConsensus C (network source) (Some genesis)
                       (powPolicy source) (proofVerifier source) of
                  Inl err \<Rightarrow> Inl (SourceWrongGenesis err)
                | Inr validated \<Rightarrow> addBlocks C clk SourceBlockInvalid 1 validated rest)))"

definition ReplaceChainWith ::
  "crypto \<Rightarrow> (nat \<Rightarrow> i64) \<Rightarrow> bool \<Rightarrow> chain option \<Rightarrow> chain option \<Rightarrow> (chain option, unit) outcome" where
  "ReplaceChainWith C clk same cp candidatep = on_object NilCurrentChain (\<lambda>c.
     case candidatep of
       None \<Rightarrow> (c, Inl NilCandidateChain)
     | Some candidate \<Rightarrow>
     if same then (c, Inr ())
     else if network c \<noteq> network candidate then (c, Inl CandidateNetworkMismatch)
     else if powPolicy c \<noteq> powPolicy candidate then (c, Inl CandidatePolicyMismatch)
     else (case blocks candidate of
       [] \<Rightarrow> (c, Inl CandidateChainEmpty)
     | genesis # rest \<Rightarrow>
     (case newChainFromGenesisForNetworkWithConsensus C (network c) (Some genesis)
             (powPolicy c) (proofVerifier c) of
       Inl err \<Rightarrow> (c, Inl (CandidateWrongGenesis err))
     | Inr validated \<Rightarrow>
     (case addBlocks C clk CandidateBlockInvalid 1 validated rest of
       Inl err \<Rightarrow> (c, Inl err)
     | Inr validated' \<Rightarrow>
       (c\<lparr>blocks := genesis # rest, totalWork := TotalWork validated'\<rparr>, Inr ())))))
     cp"

section \<open>State from a chain\<close>

fun replayBlocks ::
  "crypto \<Rightarrow> chain \<Rightarrow> monetary_policy \<Rightarrow> state option \<Rightarrow> u64 list \<Rightarrow> state option result" where
  "replayBlocks C c policy statep [] = Inr statep"
| "replayBlocks C c policy statep (blockHeight # rest) =
     (case BlockByHeight c blockHeight of
        None \<Rightarrow> Inl BlockMissing
      | Some block \<Rightarrow>
          if blkMinerAddress block = '''' then Inl BlockHasNoMiner
          else (case ProcessBlockFor C statep policy (Some block) (blkMinerAddress block) of
              (_, Inl err) \<Rightarrow> Inl (ReplayFailed err)
            | (statep', Inr _) \<Rightarrow> replayBlocks C c policy statep' rest))"

definition BuildStateFromChain :: "crypto \<Rightarrow> chain option \<Rightarrow> state option result" where
  "BuildStateFromChain C chainp =
     (case chainp of
        None \<Rightarrow> Inl NilChain
      | Some c \<Rightarrow>
          (case MonetaryPolicy chainp of
             Inl err \<Rightarrow> Inl err
           | Inr policy \<Rightarrow>
               (case NewStateFor policy of
                  Inl err \<Rightarrow> Inl err
                | Inr s \<Rightarrow> replayBlocks C c policy (Some s)
                    (map of_nat [1..<Suc (unat (Height c))]))))"

section \<open>Fork choice\<close>

text \<open>Which of its two arguments \<open>BetterChain\<close> returns.\<close>

datatype preference = KeepCurrent | TakeCandidate

definition BetterChain :: "chain option \<Rightarrow> chain option \<Rightarrow> preference result" where
  "BetterChain currentp candidatep =
     (case currentp of
       None \<Rightarrow> Inl NilCurrentChain
     | Some current \<Rightarrow>
     (case candidatep of
       None \<Rightarrow> Inl NilCandidateChain
     | Some candidate \<Rightarrow>
     if network current \<noteq> network candidate then Inl CrossNetworkForkChoice
     else if TotalWork candidate > TotalWork current then Inr TakeCandidate
     else if TotalWork candidate < TotalWork current then Inr KeepCurrent
     else if Height candidate > Height current then Inr TakeCandidate
     else Inr KeepCurrent))"

section \<open>Reorganization depth and finality\<close>

text \<open>The search for the last common block, from \<open>height\<close> downwards.\<close>

fun commonHeightFrom :: "crypto \<Rightarrow> chain \<Rightarrow> chain \<Rightarrow> nat \<Rightarrow> u64 option" where
  "commonHeightFrom C current candidate height =
     (if (case (BlockByHeight current (of_nat height), BlockByHeight candidate (of_nat height)) of
            (Some currentBlock, Some candidateBlock) \<Rightarrow> Hash C currentBlock = Hash C candidateBlock
          | _ \<Rightarrow> False)
      then Some (of_nat height)
      else (case height of 0 \<Rightarrow> None | Suc h \<Rightarrow> commonHeightFrom C current candidate h))"

declare commonHeightFrom.simps [simp del]

definition ReorgDepth :: "crypto \<Rightarrow> chain option \<Rightarrow> chain option \<Rightarrow> (u64 \<times> u64) result" where
  "ReorgDepth C currentp candidatep =
     (case currentp of
       None \<Rightarrow> Inl NilCurrentChain
     | Some current \<Rightarrow>
     (case candidatep of
       None \<Rightarrow> Inl NilCandidateChain
     | Some candidate \<Rightarrow>
     (let currentHeight = Height current; candidateHeight = Height candidate;
          maxCommon = (if candidateHeight < currentHeight then candidateHeight else currentHeight)
      in case commonHeightFrom C current candidate (unat maxCommon) of
           None \<Rightarrow> Inl NoCommonGenesis
         | Some commonHeight \<Rightarrow>
             if currentHeight \<le> commonHeight then Inr (0, commonHeight)
             else Inr (currentHeight - commonHeight, commonHeight))))"

definition ValidateAutomaticReorgDepth :: "u64 \<Rightarrow> unit result" where
  "ValidateAutomaticReorgDepth depth =
     (if depth > MaxAutomaticReorgDepth then Inl ReorgTooDeep else Inr ())"

definition Confirmations :: "chain option \<Rightarrow> u64 \<Rightarrow> u64 result" where
  "Confirmations chainp blockHeight =
     (case chainp of
        None \<Rightarrow> Inl NilChain
      | Some c \<Rightarrow>
          if blockHeight > Height c then Inl HeightAboveTip
          else Inr (Height c - blockHeight + 1))"

definition FinalizedHeight :: "chain option \<Rightarrow> u64 result" where
  "FinalizedHeight chainp =
     (case chainp of
        None \<Rightarrow> Inl NilChain
      | Some c \<Rightarrow>
          if Height c \<le> MaxAutomaticReorgDepth then Inr 0
          else Inr (Height c - MaxAutomaticReorgDepth))"

definition IsBlockFinalized :: "chain option \<Rightarrow> u64 \<Rightarrow> bool result" where
  "IsBlockFinalized chainp blockHeight =
     (case chainp of
        None \<Rightarrow> Inl NilChain
      | Some c \<Rightarrow>
          if blockHeight > Height c then Inl HeightAboveTip
          else (case FinalizedHeight chainp of
              Inl err \<Rightarrow> Inl err
            | Inr finalizedHeight \<Rightarrow> Inr (blockHeight \<le> finalizedHeight)))"

definition ValidateFinalizedReorg :: "crypto \<Rightarrow> chain option \<Rightarrow> chain option \<Rightarrow> unit result" where
  "ValidateFinalizedReorg C currentp candidatep =
     (case currentp of
       None \<Rightarrow> Inl NilCurrentChain
     | Some current \<Rightarrow>
     (case candidatep of
       None \<Rightarrow> Inl NilCandidateChain
     | Some candidate \<Rightarrow>
     (case FinalizedHeight currentp of
       Inl err \<Rightarrow> Inl (FinalizedHeightFailed err)
     | Inr finalizedHeight \<Rightarrow>
     (case ReorgDepth C currentp candidatep of
       Inl err \<Rightarrow> Inl (CommonHeightFailed err)
     | Inr (_, commonHeight) \<Rightarrow>
     if commonHeight < finalizedHeight then Inl FinalizedHistoryReplaced else Inr ()))))"

record finality_status =
  fsTipHeight :: u64
  fsFinalizedHeight :: u64
  fsReorgWindow :: u64

definition CurrentFinalityStatus :: "chain option \<Rightarrow> finality_status result" where
  "CurrentFinalityStatus chainp =
     (case chainp of
        None \<Rightarrow> Inl NilChain
      | Some c \<Rightarrow>
          (case FinalizedHeight chainp of
             Inl err \<Rightarrow> Inl err
           | Inr finalizedHeight \<Rightarrow>
               Inr \<lparr>fsTipHeight = Height c, fsFinalizedHeight = finalizedHeight,
                    fsReorgWindow = Height c - finalizedHeight\<rparr>))"

record block_finality_status =
  bfsHeight :: u64
  bfsConfirmations :: u64
  bfsFinalized :: bool

definition FinalityStatusForBlock :: "chain option \<Rightarrow> u64 \<Rightarrow> block_finality_status result" where
  "FinalityStatusForBlock chainp blockHeight =
     (case Confirmations chainp blockHeight of
        Inl err \<Rightarrow> Inl err
      | Inr confirmations \<Rightarrow>
          (case IsBlockFinalized chainp blockHeight of
             Inl err \<Rightarrow> Inl err
           | Inr finalized \<Rightarrow>
               Inr \<lparr>bfsHeight = blockHeight, bfsConfirmations = confirmations,
                    bfsFinalized = finalized\<rparr>))"

section \<open>Reorganization\<close>

text \<open>The live chain and the live state, as the call leaves them, and whether the candidate was
  adopted. \<open>clk 0\<close> is the clock of the validation, \<open>clk 1\<close> that of the replacement and
  \<open>clk 2\<close> that of the rollback.\<close>

definition ReorganizeToCandidate ::
  "crypto \<Rightarrow> (nat \<Rightarrow> nat \<Rightarrow> i64) \<Rightarrow> chain option \<Rightarrow> state option \<Rightarrow> chain option \<Rightarrow>
   (chain option \<times> state option, bool) outcome" where
  "ReorganizeToCandidate C clk currentp statep candidatep =
     (let live = (currentp, statep) in
     (case currentp of
       None \<Rightarrow> (live, Inl NilCurrentChain)
     | Some current \<Rightarrow>
     (case statep of
       None \<Rightarrow> (live, Inl NilCurrentState)
     | Some currentState \<Rightarrow>
     (case candidatep of
       None \<Rightarrow> (live, Inl NilCandidateChain)
     | Some candidate \<Rightarrow>
     (case MonetaryPolicy currentp of
       Inl err \<Rightarrow> (live, Inl err)
     | Inr policy \<Rightarrow>
     (case EnsureMonetaryPolicy currentState policy of
       Inl err \<Rightarrow> (live, Inl (ChainStatePolicyMismatch err))
     | Inr _ \<Rightarrow>
     (case ValidateAndCloneChain C (clk 0) candidatep of
       Inl err \<Rightarrow> (live, Inl (CandidateInvalid err))
     | Inr validatedCandidate \<Rightarrow>
     (case BetterChain currentp (Some validatedCandidate) of
       Inl err \<Rightarrow> (live, Inl err)
     | Inr KeepCurrent \<Rightarrow> (live, Inr False)
     | Inr TakeCandidate \<Rightarrow>
     (case ReorgDepth C currentp (Some validatedCandidate) of
       Inl err \<Rightarrow> (live, Inl (ReorgDepthFailed err))
     | Inr (reorgDepth, commonHeight) \<Rightarrow>
     (case ValidateFinalizedReorg C currentp (Some validatedCandidate) of
       Inl err \<Rightarrow> (live, Inl err)
     | Inr _ \<Rightarrow>
     (case ValidateAutomaticReorgDepth reorgDepth of
       Inl err \<Rightarrow> (live, Inl (ReorgTooDeepAt err))
     | Inr _ \<Rightarrow>
     (case BuildStateFromChain C (Some validatedCandidate) of
       Inl err \<Rightarrow> (live, Inl (CandidateStateFailed err))
     | Inr candidateState \<Rightarrow>
     (case CloneChain currentp of
       Inl err \<Rightarrow> (live, Inl err)
     | Inr originalChain \<Rightarrow>
     (let originalState = Clone currentState in
     (case ReplaceChainWith C (clk 1) False currentp (Some validatedCandidate) of
       (currentp1, Inl err) \<Rightarrow> ((currentp1, statep), Inl (ChainReplaceFailed err))
     | (currentp1, Inr _) \<Rightarrow>
     (case ReplaceWith currentState candidateState of
       (state1, Inl err) \<Rightarrow>
         ((fst (ReplaceChainWith C (clk 2) False currentp1 (Some originalChain)),
           Some (fst (ReplaceWith state1 (Some originalState)))),
          Inl (StateReplaceFailed err))
     | (state1, Inr _) \<Rightarrow> ((currentp1, Some state1), Inr True)))))))))))))))))"

section \<open>Revalidation rebuilds the chain\<close>

lemma addBlocks_inv:
  assumes "chain_inv C c" "addBlocks C clk wrap i c bs = Inr d"
  shows "chain_inv C d \<and> blocks d = blocks c @ bs \<and> network d = network c
    \<and> powPolicy d = powPolicy c \<and> proofVerifier d = proofVerifier c"
  using assms
proof (induction C clk wrap i c bs rule: addBlocks.induct)
  case (2 C clk wrap i c b bs)
  from "2.prems"(2) obtain c1 where a: "AddBlock C (clk i) c (Some b) = (c1, Inr ())"
    and rest: "addBlocks C clk wrap (Suc i) c1 bs = Inr d"
    by (auto split: prod.splits sum.splits)
  have "blocks c1 = blocks c @ [b]" using a unfolding AddBlock_ok_iff by auto
  with "2.IH" [OF a [symmetric] refl AddBlock_inv(1) [OF "2.prems"(1) a] rest]
    AddBlock_inv(2-4) [OF "2.prems"(1) a]
  show ?case by simp
qed simp

lemma ValidateAndCloneChain_ok:
  assumes "ValidateAndCloneChain C clk (Some c) = Inr v"
  shows "chain_inv C v" "blocks v = blocks c" "network v = network c"
    "powPolicy v = powPolicy c" "proofVerifier v = proofVerifier c" "totalWork v = work_sum (blocks c)"
proof -
  from assms obtain g rest w where b: "blocks c = g # rest"
    and w: "newChainFromGenesisForNetworkWithConsensus C (network c) (Some g) (powPolicy c)
      (proofVerifier c) = Inr w"
    and a: "addBlocks C clk SourceBlockInvalid 1 w rest = Inr v"
    by (auto simp: ValidateAndCloneChain_def split: list.splits sum.splits)
  note n = newChain_inv [OF w]
  from n(5) have bw: "blocks w = [g]" by simp
  from addBlocks_inv [OF n(1) a] n(2-4) bw b
  show "chain_inv C v" "blocks v = blocks c" "network v = network c"
    "powPolicy v = powPolicy c" "proofVerifier v = proofVerifier c" by simp_all
  with addBlocks_inv [OF n(1) a] show "totalWork v = work_sum (blocks c)" by (simp add: chain_inv_def)
qed

lemma ReplaceChainWith_ok:
  assumes "ReplaceChainWith C clk False (Some c) (Some d) = (cp, Inr ())"
  obtains e where "cp = Some e" "chain_inv C e" "blocks e = blocks d" "network e = network c"
    "network d = network c" "powPolicy e = powPolicy c" "proofVerifier e = proofVerifier c"
proof -
  from assms obtain g rest w v where b: "blocks d = g # rest" and net: "network c = network d"
    and pol: "powPolicy c = powPolicy d"
    and w: "newChainFromGenesisForNetworkWithConsensus C (network c) (Some g) (powPolicy c)
      (proofVerifier c) = Inr w"
    and a: "addBlocks C clk CandidateBlockInvalid 1 w rest = Inr v"
    and cp: "cp = Some (c\<lparr>blocks := g # rest, totalWork := totalWork v\<rparr>)"
    by (auto simp: ReplaceChainWith_def TotalWork_def split: list.splits sum.splits if_splits)
  note n = newChain_inv [OF w]
  from n(5) have bw: "blocks w = [g]" by simp
  from addBlocks_inv [OF n(1) a] n(2-4) bw
  have v: "chain_inv C v" "blocks v = g # rest" "network v = network c" "powPolicy v = powPolicy c"
    "proofVerifier v = proofVerifier c" by simp_all
  have e: "c\<lparr>blocks := g # rest, totalWork := totalWork v\<rparr> = v"
    by (rule chain.equality) (simp_all add: v)
  show ?thesis
    by (rule that [of v]) (simp_all add: cp [unfolded e] v b net)
qed

lemma ReplaceChainWith_err:
  "ReplaceChainWith C clk same (Some c) dp = (cp, Inl e) \<Longrightarrow> cp = Some c"
  by (auto simp: ReplaceChainWith_def split: option.splits list.splits sum.splits if_splits)

section \<open>The common height\<close>

lemma commonHeightFrom_Some:
  assumes "commonHeightFrom C c d n = Some k" "n < 2 ^ 64"
  shows "unat k \<le> n \<and> (\<exists>a b. BlockByHeight c k = Some a \<and> BlockByHeight d k = Some b \<and> Hash C a = Hash C b)
    \<and> (\<forall>m. unat k < m \<and> m \<le> n \<longrightarrow>
         \<not> (\<exists>a b. BlockByHeight c (of_nat m) = Some a \<and> BlockByHeight d (of_nat m) = Some b \<and> Hash C a = Hash C b))"
  using assms
proof (induction n)
  case 0
  then show ?case
    by (subst (asm) commonHeightFrom.simps) (auto split: if_splits option.splits)
next
  case (Suc n)
  show ?case
  proof (cases "\<exists>a b. BlockByHeight c (of_nat (Suc n)) = Some a
      \<and> BlockByHeight d (of_nat (Suc n)) = Some b \<and> Hash C a = Hash C b")
    case True
    with Suc.prems(1) have "k = of_nat (Suc n)"
      by (subst (asm) commonHeightFrom.simps) (auto split: if_splits option.splits)
    with True unat_of_nat_64 [OF Suc.prems(2)] show ?thesis
      by (auto simp del: of_nat_Suc)
  next
    case False
    with Suc.prems(1) have "commonHeightFrom C c d n = Some k"
      by (subst (asm) commonHeightFrom.simps) (auto split: if_splits option.splits)
    with Suc.IH Suc.prems(2) have IH: "unat k \<le> n \<and> (\<exists>a b. BlockByHeight c k = Some a \<and> BlockByHeight d k = Some b \<and> Hash C a = Hash C b)
      \<and> (\<forall>m. unat k < m \<and> m \<le> n \<longrightarrow>
         \<not> (\<exists>a b. BlockByHeight c (of_nat m) = Some a \<and> BlockByHeight d (of_nat m) = Some b \<and> Hash C a = Hash C b))"
      by simp
    then show ?thesis using False by (metis le_SucE le_SucI)
  qed
qed

text \<open>A chain as the node builds it: the invariant, a genesis at height 0 and a length that fits
  the 64-bit height.\<close>

definition chain_ok :: "crypto \<Rightarrow> chain \<Rightarrow> bool" where
  "chain_ok C c \<longleftrightarrow> chain_inv C c \<and> blkHeight (hd (blocks c)) = 0 \<and> length (blocks c) < 2 ^ 64"

lemma chain_ok_lookup:
  assumes "chain_ok C c"
  shows "BlockByHeight c h = (if unat h < length (blocks c) then Some (blocks c ! unat h) else None)"
    "unat (Height c) = length (blocks c) - 1" "blocks c \<noteq> []"
  using assms BlockByHeight_eq Height_eq by (auto simp: chain_ok_def chain_inv_def)

text \<open>\<open>ReorgDepth\<close> finds the highest common block and counts the blocks above it.\<close>

lemma ReorgDepth_correct:
  assumes "chain_ok C c" "chain_ok C d" "ReorgDepth C (Some c) (Some d) = Inr (depth, common)"
  shows "unat common < length (blocks c)" "unat common < length (blocks d)"
    "Hash C (blocks c ! unat common) = Hash C (blocks d ! unat common)"
    "\<And>m. unat common < m \<Longrightarrow> m < length (blocks c) \<Longrightarrow> m < length (blocks d)
       \<Longrightarrow> Hash C (blocks c ! m) \<noteq> Hash C (blocks d ! m)"
    "unat depth = length (blocks c) - 1 - unat common"
proof -
  note lc = chain_ok_lookup [OF assms(1)] and ld = chain_ok_lookup [OF assms(2)]
  define top where "top = (if Height d < Height c then Height d else Height c)"
  have top: "unat top = min (length (blocks c)) (length (blocks d)) - 1"
    using lc(2) ld(2) by (auto simp: top_def word_less_nat_alt min_def)
  from assms(3) have f: "commonHeightFrom C c d (unat top) = Some common"
    and dep: "depth = (if Height c \<le> common then 0 else Height c - common)"
    by (auto simp: ReorgDepth_def Let_def top_def [symmetric] split: option.splits if_splits)
  note f = commonHeightFrom_Some [OF f]
  from f lc(1) ld(1) show mem: "unat common < length (blocks c)" "unat common < length (blocks d)"
    "Hash C (blocks c ! unat common) = Hash C (blocks d ! unat common)"
    using unat_less_64 [of top] by (auto split: if_splits)
  show "Hash C (blocks c ! m) \<noteq> Hash C (blocks d ! m)"
    if m: "unat common < m" "m < length (blocks c)" "m < length (blocks d)" for m
  proof -
    have "m < 2 ^ 64" using m(2) assms(1) by (simp add: chain_ok_def)
    then have "unat (of_nat m :: u64) = m" by (rule unat_of_nat_64)
    then show ?thesis using f lc(1) [of "of_nat m"] ld(1) [of "of_nat m"] m top unat_less_64 [of top] by auto
  qed
  show "unat depth = length (blocks c) - 1 - unat common"
    using dep lc(2) mem(1) by (auto simp: word_le_nat_alt unat_sub)
qed

section \<open>The replayed state\<close>

lemma mintable_on_schedule:
  assumes "ValidateMonetaryPolicy p = Inr ()" "Suc h < 2 ^ 64"
  shows "mintable p (Suc h) (emitted p h) = subsidy_at p (Suc h)"
  using emitted_le_MaxSupplyFor [OF assms] by (simp add: mintable_def emitted_Suc)

text \<open>Replaying a range of blocks keeps every coin backed and issues exactly the scheduled
  emission of the range.\<close>

lemma replayBlocks_supply:
  assumes "chain_ok C c" "n \<le> length (blocks c)" "m \<le> n" "0 < m"
    and "supply_inv s" "monetaryPolicy s = p" "unat (issuedSupply s) = emitted p (m - 1)"
    and "replayBlocks C c p (Some s) (map of_nat [m..<n]) = Inr sp"
  shows "\<exists>t. sp = Some t \<and> supply_inv t \<and> monetaryPolicy t = p \<and> unat (issuedSupply t) = emitted p (n - 1)"
  using assms
proof (induction "n - m" arbitrary: m s)
  case 0
  then show ?case by auto
next
  case (Suc k)
  then have mn: "m < n" by simp
  then have list: "[m..<n] = m # [Suc m..<n]" by (rule upt_conv_Cons)
  have m64: "m < 2 ^ 64" using mn Suc.prems(1,2) by (simp add: chain_ok_def)
  note um = unat_of_nat_64 [OF m64]
  have blk: "BlockByHeight c (of_nat m) = Some (blocks c ! m)"
    using chain_ok_lookup(1) [OF Suc.prems(1), of "of_nat m"] mn Suc.prems(2) um by simp
  have h: "unat (blkHeight (blocks c ! m)) = m"
    using chain_heights [of C c m] mn Suc.prems(1,2) um by (simp add: chain_ok_def)
  from Suc.prems(8) blk list obtain sp1 r where
    p: "ProcessBlockFor C (Some s) p (Some (blocks c ! m)) (blkMinerAddress (blocks c ! m)) = (sp1, Inr r)"
    and rest: "replayBlocks C c p sp1 (map of_nat [Suc m..<n]) = Inr sp"
    by (auto split: if_splits prod.splits sum.splits)
  from ProcessBlockFor_supply [OF Suc.prems(5) p] obtain t where
    t: "sp1 = Some t" "supply_inv t" "monetaryPolicy t = p"
      "unat (issuedSupply t) = unat (issuedSupply s) + mintable p (unat (blkHeight (blocks c ! m))) (unat (issuedSupply s))"
    by metis
  have "ValidateMonetaryPolicy p = Inr ()" using t(2,3) by (simp add: backed_def)
  from mintable_on_schedule [OF this, of "m - 1"] Suc.prems(4) m64
  have "unat (issuedSupply t) = emitted p m"
    unfolding t(4) h Suc.prems(7) by (cases m) (simp_all add: emitted_Suc)
  with Suc.hyps(1) [of "Suc m" t] Suc.hyps(2) Suc.prems(1,2) mn t(1-3) rest
  show ?case by simp
qed

lemma BuildStateFromChain_supply:
  assumes "chain_ok C c" "MonetaryPolicyFor (network c) = Inr p"
    "BuildStateFromChain C (Some c) = Inr sp"
  shows "\<exists>s. sp = Some s \<and> supply_inv s \<and> monetaryPolicy s = p
    \<and> unat (issuedSupply s) = emitted p (unat (Height c))"
proof -
  note l = chain_ok_lookup [OF assms(1)]
  have v: "ValidateMonetaryPolicy p = Inr ()" using MonetaryPolicyFor_valid [OF assms(2)] .
  then obtain s where s: "NewStateFor p = Inr s" "monetaryPolicy s = p" "issuedSupply s = 0"
    by (simp add: NewStateFor_def)
  from assms(2,3) s(1) l(2,3) have "replayBlocks C c p (Some s) (map of_nat [1..<length (blocks c)]) = Inr sp"
    by (simp add: BuildStateFromChain_def MonetaryPolicy_def)
  from replayBlocks_supply [OF assms(1) _ _ _ NewStateFor_supply_inv [OF s(1)] s(2) _ this]
  show ?thesis using l(2,3) s(3) by (simp add: Suc_leI)
qed

lemma replayBlocks_append:
  "replayBlocks C c p sp (xs @ ys) =
     (case replayBlocks C c p sp xs of Inl e \<Rightarrow> Inl e | Inr tp \<Rightarrow> replayBlocks C c p tp ys)"
  by (induction C c p sp xs rule: replayBlocks.induct)
    (auto split: option.splits prod.splits sum.splits)

lemma replayBlocks_cong:
  "(\<And>h. h \<in> set hs \<Longrightarrow> BlockByHeight c h = BlockByHeight d h) \<Longrightarrow>
   replayBlocks C c p sp hs = replayBlocks C d p sp hs"
  by (induction C c p sp hs rule: replayBlocks.induct)
    (auto split: option.splits prod.splits sum.splits)

text \<open>Appending a block to a chain and processing it on the state that the chain replays to gives
  the state that the longer chain replays to: incremental and full rebuild agree.\<close>

lemma BuildStateFromChain_snoc:
  assumes c: "chain_ok C c" and d: "chain_ok C d" and bd: "blocks d = blocks c @ [b]"
    and net: "network d = network c" and p: "MonetaryPolicyFor (network c) = Inr p"
    and s: "BuildStateFromChain C (Some c) = Inr (Some s)" and m: "blkMinerAddress b \<noteq> ''''"
    and pb: "ProcessBlockFor C (Some s) p (Some b) (blkMinerAddress b) = (sp, Inr r)"
  shows "BuildStateFromChain C (Some d) = Inr sp"
proof -
  note lc = chain_ok_lookup [OF c] and ld = chain_ok_lookup [OF d]
  define n where "n = length (blocks c)"
  have n: "0 < n" "n < 2 ^ 64" using lc(3) c by (auto simp: n_def chain_ok_def)
  have hts: "unat (Height c) = n - 1" "unat (Height d) = n"
    using lc(2) ld(2) bd by (simp_all add: n_def)
  have same: "BlockByHeight d h = BlockByHeight c h" if "h \<in> set (map of_nat [1..<n])" for h
    using that lc(1) [of h] ld(1) [of h] n bd unat_of_nat_64 by (auto simp: n_def nth_append)
  have new: "BlockByHeight d (of_nat n) = Some b"
    using ld(1) [of "of_nat n"] unat_of_nat_64 [OF n(2)] bd by (simp add: n_def)
  obtain s0 where s0: "NewStateFor p = Inr s0" "replayBlocks C c p (Some s0) (map of_nat [1..<n]) = Inr (Some s)"
    using s p n hts by (auto simp: BuildStateFromChain_def MonetaryPolicy_def split: sum.splits)
  have "[1..<Suc n] = [1..<n] @ [n]" using n by simp
  then show ?thesis
    using s0 replayBlocks_cong [of "map of_nat [1..<n]" d c, OF same] new m pb p net hts
    by (simp add: BuildStateFromChain_def MonetaryPolicy_def replayBlocks_append)
qed

section \<open>Reorganization\<close>

text \<open>The facts that hold when a candidate is adopted.\<close>

definition adoption ::
  "crypto \<Rightarrow> chain \<Rightarrow> chain \<Rightarrow> chain \<Rightarrow> state \<Rightarrow> bool" where
  "adoption C c cand d t \<longleftrightarrow>
     chain_inv C d \<and> blocks d = blocks cand \<and> network d = network c \<and> powPolicy d = powPolicy c
     \<and> proofVerifier d = proofVerifier c
     \<and> (totalWork c < totalWork d \<or> totalWork c = totalWork d \<and> Height c < Height d)
     \<and> BuildStateFromChain C (Some d) = Inr (Some t)
     \<and> (\<exists>depth common fin. ReorgDepth C (Some c) (Some d) = Inr (depth, common)
          \<and> depth \<le> MaxAutomaticReorgDepth \<and> FinalizedHeight (Some c) = Inr fin \<and> fin \<le> common)"

lemma chain_observations_cong:
  assumes "blocks d = blocks e"
  shows "Height d = Height e" "BlockByHeight d h = BlockByHeight e h"
  using assms by (simp_all add: Height_def BlockByHeight_def)

lemma commonHeightFrom_cong:
  assumes "blocks d = blocks e"
  shows "commonHeightFrom C c d n = commonHeightFrom C c e n"
proof (induction n)
  case 0
  show ?case by (simp add: commonHeightFrom.simps [of C c _ 0] chain_observations_cong [OF assms])
next
  case (Suc n)
  then show ?case
    by (simp add: commonHeightFrom.simps [of C c _ "Suc n"] chain_observations_cong [OF assms])
qed

lemma ReorgDepth_cong:
  "blocks d = blocks e \<Longrightarrow> ReorgDepth C (Some c) (Some d) = ReorgDepth C (Some c) (Some e)"
  by (simp add: ReorgDepth_def Let_def commonHeightFrom_cong [of d e] chain_observations_cong [of d e])

lemma BuildStateFromChain_cong:
  assumes "blocks d = blocks e" "network d = network e"
  shows "BuildStateFromChain C (Some d) = BuildStateFromChain C (Some e)"
  using replayBlocks_cong [of _ d e] chain_observations_cong [OF assms(1)] assms(2)
  by (simp add: BuildStateFromChain_def MonetaryPolicy_def split: sum.splits)

lemma BuildStateFromChain_not_nil:
  assumes "BuildStateFromChain C cp = Inr sp"
  shows "sp \<noteq> None"
proof -
  have step: "replayBlocks C c p sp hs = Inr tp \<Longrightarrow> sp \<noteq> None \<Longrightarrow> tp \<noteq> None" for c p sp hs tp
  proof (induction C c p sp hs rule: replayBlocks.induct)
    case (2 C c p sp h hs)
    then show ?case
      by (auto simp: ProcessBlockFor_def split: option.splits if_splits prod.splits sum.splits)
  qed simp
  show ?thesis
    using assms step by (auto simp: BuildStateFromChain_def split: option.splits sum.splits)
qed

lemma ReorganizeToCandidate_cases:
  assumes "ReorganizeToCandidate C clk (Some c) (Some s) (Some cand) = ((cp, sp), r)"
  shows "(cp = Some c \<and> sp = Some s \<and> r \<noteq> Inr True)
    \<or> (\<exists>d t. cp = Some d \<and> sp = Some t \<and> r = Inr True \<and> adoption C c cand d t)"
proof (cases "r = Inr True")
  case False
  have "cp = Some c \<and> sp = Some s"
    using assms False BuildStateFromChain_not_nil [of C]
    by (auto simp: ReorganizeToCandidate_def Let_def ReplaceWith_def
        dest!: ReplaceChainWith_err split: sum.splits prod.splits preference.splits option.splits)
  with False show ?thesis by blast
next
  case True
  with assms obtain v depth common cs where
    v: "ValidateAndCloneChain C (clk 0) (Some cand) = Inr v" and
    better: "BetterChain (Some c) (Some v) = Inr TakeCandidate" and
    depth: "ReorgDepth C (Some c) (Some v) = Inr (depth, common)" and
    fin: "ValidateFinalizedReorg C (Some c) (Some v) = Inr ()" and
    limit: "ValidateAutomaticReorgDepth depth = Inr ()" and
    state: "BuildStateFromChain C (Some v) = Inr (Some cs)" and
    rep: "ReplaceChainWith C (clk 1) False (Some c) (Some v) = (cp, Inr ())" and
    sp: "sp = Some cs"
    by (auto simp: ReorganizeToCandidate_def Let_def ReplaceWith_def
        split: sum.splits prod.splits preference.splits option.splits)
  note vok = ValidateAndCloneChain_ok [OF v]
  from ReplaceChainWith_ok [OF rep] obtain d where
    d: "cp = Some d" "chain_inv C d" "blocks d = blocks v" "network d = network c"
      "network v = network c" "powPolicy d = powPolicy c" "proofVerifier d = proofVerifier c" .
  have work: "totalWork d = totalWork v" using d(2,3) vok(1) by (simp add: chain_inv_def)
  have "adoption C c cand d cs"
    using better depth fin limit state d vok(2) work
      ReorgDepth_cong [OF d(3), of C c] BuildStateFromChain_cong [OF d(3), of C]
      chain_observations_cong(1) [OF d(3)]
    by (auto simp: adoption_def BetterChain_def TotalWork_def ValidateFinalizedReorg_def
        ValidateAutomaticReorgDepth_def not_less split: if_splits sum.splits)
  with d(1) sp True show ?thesis by blast
qed

section \<open>A small reorganization\<close>

definition small_start_state :: state where
  "small_start_state = \<lparr>balances = Map.empty, processedTx = Map.empty, accountNonces = Map.empty,
     developmentAddress = DevelopmentTreasuryAddress, issuedSupply = 0,
     monetaryPolicy = MonetaryPolicyPublicTestnet\<rparr>"

definition small_clock :: "nat \<Rightarrow> nat \<Rightarrow> i64" where
  "small_clock pass i = 1786924860"

lemma small_start_new: "NewStateFor MonetaryPolicyPublicTestnet = Inr small_start_state"
  by (simp add: NewStateFor_def ValidateMonetaryPolicy_def small_start_state_def)

lemma small_chain_ok: "chain_ok small_crypto (small_chain d)" "chain_ok small_crypto small_genesis_chain"
  using chain_history_inv [OF small_chain_history [of d]] chain_history_inv [OF small_genesis_history]
  by (simp_all add: chain_ok_def small_chain_def small_genesis_chain_def)

lemma small_block_fields [simp]:
  "blkTransactions (small_block d p) = []" "blkMinerAddress (small_block d p) = Address (small_wallet d)"
  "blkHeight (small_block d p) = blkHeight p + 1"
  by (simp_all add: small_block_def UpdateMerkleRoot_def)

lemma small_chain_fields [simp]:
  "blocks (small_chain d) = [NewGenesisBlock, small_block d NewGenesisBlock]"
  "network (small_chain d) = NetworkPublicTestnet" "totalWork (small_chain d) = 2"
  "powPolicy (small_chain d) = powPolicy small_genesis_chain"
  "proofVerifier (small_chain d) = proofVerifier small_genesis_chain"
  "blocks small_genesis_chain = [NewGenesisBlock]" "network small_genesis_chain = NetworkPublicTestnet"
  "totalWork small_genesis_chain = 1"
  by (simp_all add: small_chain_def small_genesis_chain_def blockWork_def WorkFromDifficulty_exact)

lemma small_rebuilt:
  "newChainFromGenesisForNetworkWithConsensus small_crypto NetworkPublicTestnet (Some NewGenesisBlock)
     (powPolicy small_genesis_chain) (proofVerifier small_genesis_chain) = Inr small_genesis_chain"
  using small_genesis_chain_new
  by (simp add: NewChainFor_def PoWPolicyForNetwork_def NewChainForWithConsensus_def GenesisFor_def
      small_genesis_chain_def GPUV1TestnetActivationHeight_def)

lemma small_block_processed:
  assumes "0 < d" "d < 200"
  shows "\<exists>t r. ProcessBlockFor small_crypto (Some small_start_state) MonetaryPolicyPublicTestnet
    (Some (small_block d NewGenesisBlock)) (Address (small_wallet d)) = (Some t, Inr r)"
proof -
  have "applyBlockTransactions small_crypto NetworkPublicTestnet (Some small_start_state) 0
      (blkTransactions (small_block d NewGenesisBlock)) = (Some small_start_state, Inr 0)" by simp
  from ProcessBlockFor_complete [OF NewStateFor_supply_inv [OF small_start_new]
      small_address_nonempty [OF assms] _ _ this]
  show ?thesis by (simp add: small_start_state_def NetworkForMonetaryPolicy_def)
qed

lemma small_chain_state:
  assumes "0 < d" "d < 200"
  shows "\<exists>t. BuildStateFromChain small_crypto (Some (small_chain d)) = Inr (Some t)"
proof -
  obtain t r where p: "ProcessBlockFor small_crypto (Some small_start_state) MonetaryPolicyPublicTestnet
    (Some (small_block d NewGenesisBlock)) (Address (small_wallet d)) = (Some t, Inr r)"
    using small_block_processed [OF assms] by blast
  have h: "Height (small_chain d) = 1" "BlockByHeight (small_chain d) 1 = Some (small_block d NewGenesisBlock)"
    by (simp_all add: Height_def BlockByHeight_def word_le_nat_alt)
  then show ?thesis
    using p small_address_nonempty [OF assms]
    by (simp add: BuildStateFromChain_def MonetaryPolicy_def MonetaryPolicyFor_def small_start_new)
qed

lemma small_common:
  "ReorgDepth small_crypto (Some small_genesis_chain) (Some (small_chain d)) = Inr (0, 0)"
  by (simp add: ReorgDepth_def Height_def commonHeightFrom.simps [of _ _ _ 0] BlockByHeight_def
      word_le_nat_alt Let_def)

lemma small_reorganization:
  "\<exists>t. ReorganizeToCandidate small_crypto small_clock (Some small_genesis_chain) (Some small_start_state)
     (Some (small_chain 7)) = ((Some (small_chain 7), Some t), Inr True)"
proof -
  obtain t where t: "BuildStateFromChain small_crypto (Some (small_chain 7)) = Inr (Some t)"
    using small_chain_state [of 7] by auto
  have clk: "small_clock p i = 1786924860" for p i by (simp add: small_clock_def)
  have v: "ValidateAndCloneChain small_crypto (small_clock 0) (Some (small_chain 7)) = Inr (small_chain 7)"
    using small_rebuilt small_chain_added [of 7] by (simp add: ValidateAndCloneChain_def clk)
  have e: "small_genesis_chain\<lparr>blocks := [NewGenesisBlock, small_block 7 NewGenesisBlock],
      totalWork := TotalWork (small_chain 7)\<rparr> = small_chain 7"
    by (simp add: small_chain_def TotalWork_def)
  have r: "ReplaceChainWith small_crypto (small_clock 1) False (Some small_genesis_chain) (Some (small_chain 7))
      = (Some (small_chain 7), Inr ())"
    using small_rebuilt small_chain_added [of 7] e by (simp add: ReplaceChainWith_def clk)
  show ?thesis
    using t v r small_common [of 7]
    by (simp add: ReorganizeToCandidate_def Let_def MonetaryPolicy_def MonetaryPolicyFor_def
        EnsureMonetaryPolicy_def ValidateMonetaryPolicy_def small_start_state_def BetterChain_def TotalWork_def
        ValidateFinalizedReorg_def FinalizedHeight_def Height_def ValidateAutomaticReorgDepth_def CloneChain_def)
qed

section \<open>Properties\<close>

text \<open>C4: a reorganization is all or nothing. Either the live chain and the live state are both
  untouched, or both were replaced: the chain holds the candidate's blocks, revalidated from the
  genesis under the live chain's own policy and verifier, and wins the fork choice by locally
  recomputed work (or equal work and more height); the state is the replay of that chain; at most
  120 blocks were replaced and none at or below the finalized height.\<close>

theorem reorganization_atomic:
  assumes "ReorganizeToCandidate C clk (Some c) (Some s) (Some cand) = ((cp, sp), r)"
  shows "(cp = Some c \<and> sp = Some s \<and> r \<noteq> Inr True)
    \<or> (\<exists>d t depth common fin. cp = Some d \<and> sp = Some t \<and> r = Inr True
        \<and> chain_inv C d \<and> blocks d = blocks cand \<and> network d = network c
        \<and> powPolicy d = powPolicy c \<and> proofVerifier d = proofVerifier c
        \<and> (totalWork c < totalWork d \<or> totalWork c = totalWork d \<and> Height c < Height d)
        \<and> BuildStateFromChain C (Some d) = Inr (Some t)
        \<and> ReorgDepth C (Some c) (Some d) = Inr (depth, common) \<and> depth \<le> 120
        \<and> FinalizedHeight (Some c) = Inr fin \<and> fin \<le> common)"
  using ReorganizeToCandidate_cases [OF assms]
  unfolding adoption_def MaxAutomaticReorgDepth_def by blast

theorem reorganization_atomic_witness:
  "\<exists>t. BuildStateFromChain small_crypto (Some (small_chain 7)) = Inr (Some t)"
proof -
  obtain t where t: "ReorganizeToCandidate small_crypto small_clock (Some small_genesis_chain)
      (Some small_start_state) (Some (small_chain 7)) = ((Some (small_chain 7), Some t), Inr True)"
    using small_reorganization by blast
  from reorganization_atomic [OF this] show ?thesis by auto
qed

text \<open>C5: finality. When a reorganization is adopted, the block at every height up to the finalized
  height of the old chain has the same hash in the new chain, provided the hash does not collide
  on the headers of the two chains.\<close>

theorem finalized_blocks_never_replaced:
  assumes "ReorganizeToCandidate C clk (Some c) (Some s) (Some cand) = ((Some d, sp), Inr True)"
    and "chain_ok C c" "chain_ok C d" "hash_size_ok C"
    and "inj_on (sha256 C) (hashed_inputs C (set (blocks c) \<union> set (blocks d)))"
    and "FinalizedHeight (Some c) = Inr fin" "h \<le> unat fin"
  shows "h < length (blocks d) \<and> Hash C (blocks d ! h) = Hash C (blocks c ! h)"
proof -
  from ReorganizeToCandidate_cases [OF assms(1)] obtain depth common where
    dc: "ReorgDepth C (Some c) (Some d) = Inr (depth, common)" and le: "fin \<le> common"
    using assms(6) by (auto simp: adoption_def)
  note rd = ReorgDepth_correct [OF assms(2,3) dc]
  have "h \<le> unat common" using assms(7) le by (simp add: word_le_nat_alt)
  with equal_hash_commits [OF _ _ assms(4,5) rd(1,2,3)] rd(2) assms(2,3)
  show ?thesis by (simp add: chain_ok_def)
qed

theorem finalized_blocks_never_replaced_witness:
  "Hash small_crypto (blocks (small_chain 7) ! 0) = Hash small_crypto NewGenesisBlock"
proof -
  obtain t where t: "ReorganizeToCandidate small_crypto small_clock (Some small_genesis_chain)
      (Some small_start_state) (Some (small_chain 7)) = ((Some (small_chain 7), Some t), Inr True)"
    using small_reorganization by blast
  have f: "FinalizedHeight (Some small_genesis_chain) = Inr 0" by (simp add: FinalizedHeight_def Height_def)
  have "set (blocks small_genesis_chain) \<union> set (blocks (small_chain 7)) = set (blocks (small_chain 7))" by auto
  with finalized_blocks_never_replaced [OF t small_chain_ok(2) small_chain_ok(1) hash_size_small _ f, of 0]
    small_chain_no_collision
  show ?thesis by (simp del: small_chain_fields) simp
qed

text \<open>\<open>ReorgDepth\<close> finds the highest height at which both chains have the same block hash, and
  its depth is the number of blocks of the current chain above that height.\<close>

theorem reorg_depth_correct:
  assumes "chain_ok C c" "chain_ok C d" "ReorgDepth C (Some c) (Some d) = Inr (depth, common)"
  shows "unat common < length (blocks c) \<and> unat common < length (blocks d)
    \<and> Hash C (blocks c ! unat common) = Hash C (blocks d ! unat common)
    \<and> (\<forall>m. unat common < m \<and> m < length (blocks c) \<and> m < length (blocks d) \<longrightarrow>
         Hash C (blocks c ! m) \<noteq> Hash C (blocks d ! m))
    \<and> unat depth = length (blocks c) - Suc (unat common)"
  using ReorgDepth_correct [OF assms] by simp

theorem reorg_depth_correct_witness:
  "Hash small_crypto (blocks small_genesis_chain ! 0) = Hash small_crypto (blocks (small_chain 7) ! 0)"
  using reorg_depth_correct [OF small_chain_ok(2) small_chain_ok(1) small_common [of 7]] by simp

text \<open>The state rebuilt from a chain has issued exactly the scheduled emission of the heights 1
  to the tip, every balance is backed by it, and it is within the maximum supply.\<close>

theorem rebuilt_state_supply:
  assumes "chain_ok C c" "MonetaryPolicyFor (network c) = Inr p"
    "BuildStateFromChain C (Some c) = Inr sp"
  shows "\<exists>s. sp = Some s \<and> monetaryPolicy s = p \<and> total_balance s = unat (issuedSupply s)
    \<and> unat (issuedSupply s) = (\<Sum>h = 1..unat (Height c). subsidy_at p h)
    \<and> issuedSupply s \<le> MaxSupplyFor p"
  using BuildStateFromChain_supply [OF assms] by (auto simp: backed_def emitted_def)

theorem rebuilt_state_supply_witness:
  "\<exists>s. BuildStateFromChain small_crypto (Some (small_chain 7)) = Inr (Some s)
     \<and> total_balance s = unat (issuedSupply s)"
proof -
  obtain t where t: "BuildStateFromChain small_crypto (Some (small_chain 7)) = Inr (Some t)"
    using small_chain_state [of 7] by auto
  from rebuilt_state_supply [OF small_chain_ok(1) _ t] t show ?thesis
    by (simp add: MonetaryPolicyFor_def)
qed

text \<open>C23: the incremental update agrees with the full rebuild: processing a block on the state that
  a chain replays to gives the state that the chain with the block appended replays to.\<close>

theorem incremental_state_agrees:
  assumes "chain_ok C c" "chain_ok C d" "AddBlock C now c (Some b) = (d, Inr ())"
    and "MonetaryPolicyFor (network c) = Inr p" "blkMinerAddress b \<noteq> ''''"
    and "BuildStateFromChain C (Some c) = Inr (Some s)"
    and "ProcessBlockFor C (Some s) p (Some b) (blkMinerAddress b) = (sp, Inr reward)"
  shows "BuildStateFromChain C (Some d) = Inr sp"
proof -
  have "blocks d = blocks c @ [b]" "network d = network c"
    using assms(3) unfolding AddBlock_ok_iff by auto
  from BuildStateFromChain_snoc [OF assms(1,2) this assms(4,6,5,7)] show ?thesis .
qed

theorem incremental_state_agrees_witness:
  "\<exists>t. BuildStateFromChain small_crypto (Some (small_chain 7)) = Inr (Some t)"
proof -
  obtain t r where p: "ProcessBlockFor small_crypto (Some small_start_state) MonetaryPolicyPublicTestnet
    (Some (small_block 7 NewGenesisBlock)) (blkMinerAddress (small_block 7 NewGenesisBlock)) = (Some t, Inr r)"
    using small_block_processed [of 7] by auto
  have s: "BuildStateFromChain small_crypto (Some small_genesis_chain) = Inr (Some small_start_state)"
    by (simp add: BuildStateFromChain_def MonetaryPolicy_def MonetaryPolicyFor_def small_start_new Height_def)
  from incremental_state_agrees [OF small_chain_ok(2) small_chain_ok(1) small_chain_added [of 7] _ _ s p]
    small_address_nonempty [of 7]
  show ?thesis by (simp add: MonetaryPolicyFor_def)
qed

end
