(* ===== verification/Explorer.thy ===== *)
theory Explorer
  imports Reorg
begin

text \<open>
  Read access to the canonical chain: \<open>blockchain/transaction_lookup.go\<close> and
  \<open>blockchain/explorer.go\<close>. A Go \<open>int\<close> limit is an \<open>int\<close>; a \<open>*uint64\<close> bound that may be
  nil is an \<open>option\<close>. The loops run from the newest block down and stop when the limit is
  reached; the lemmas show that they are the first entries of the whole filtered history.
\<close>

section \<open>Lookups\<close>

fun findTransaction :: "string \<Rightarrow> transaction option list \<Rightarrow> transaction option" where
  "findTransaction ident [] = None"
| "findTransaction ident (None # txs) = findTransaction ident txs"
| "findTransaction ident (Some tx # txs) =
     (if txID tx = ident then Some tx else findTransaction ident txs)"

fun findInBlocks :: "string \<Rightarrow> block list \<Rightarrow> (transaction \<times> block) option" where
  "findInBlocks ident [] = None"
| "findInBlocks ident (b # bs) =
     (case findTransaction ident (blkTransactions b) of
        Some tx \<Rightarrow> Some (tx, b)
      | None \<Rightarrow> findInBlocks ident bs)"

definition TransactionByID :: "chain option \<Rightarrow> string \<Rightarrow> (transaction \<times> block) option" where
  "TransactionByID chainp ident =
     (case chainp of
        None \<Rightarrow> None
      | Some c \<Rightarrow> if ident = '''' then None else findInBlocks ident (blocks c))"

definition BlockByHash :: "crypto \<Rightarrow> chain option \<Rightarrow> string \<Rightarrow> block option" where
  "BlockByHash C chainp hash =
     (case chainp of
        None \<Rightarrow> None
      | Some c \<Rightarrow> if hash = '''' then None else List.find (\<lambda>b. Hash C b = hash) (blocks c))"

section \<open>Recent blocks and transactions\<close>

text \<open>\<open>scan\<close> lists the blocks still to visit, newest first.\<close>

fun recentBlocksLoop :: "nat \<Rightarrow> u64 option \<Rightarrow> block list \<Rightarrow> block list \<Rightarrow> block list" where
  "recentBlocksLoop limit before result [] = result"
| "recentBlocksLoop limit before result (b # scan) =
     (if length result < limit then
        (case before of
           Some h \<Rightarrow> if blkHeight b \<ge> h then recentBlocksLoop limit before result scan
                     else recentBlocksLoop limit before (result @ [b]) scan
         | None \<Rightarrow> recentBlocksLoop limit before (result @ [b]) scan)
      else result)"

definition RecentBlocks :: "chain option \<Rightarrow> int \<Rightarrow> u64 option \<Rightarrow> block list" where
  "RecentBlocks chainp limit before =
     (case chainp of
        None \<Rightarrow> []
      | Some c \<Rightarrow> if limit \<le> 0 then [] else recentBlocksLoop (nat limit) before [] (rev (blocks c)))"

record ConfirmedTransaction =
  ctTransaction :: transaction
  ctBlockHeight :: u64
  ctBlockHash :: string
  ctBlockTimestamp :: i64

definition confirmed :: "crypto \<Rightarrow> block \<Rightarrow> transaction \<Rightarrow> ConfirmedTransaction" where
  "confirmed C b tx = \<lparr>ctTransaction = tx, ctBlockHeight = blkHeight b, ctBlockHash = Hash C b,
     ctBlockTimestamp = blkTimestamp b\<rparr>"

text \<open>The inner loop over the transactions of one block; \<open>want\<close> is its filter.\<close>

fun collectTransactions ::
  "crypto \<Rightarrow> (transaction \<Rightarrow> bool) \<Rightarrow> nat \<Rightarrow> block \<Rightarrow> ConfirmedTransaction list \<Rightarrow> transaction option list \<Rightarrow>
   ConfirmedTransaction list" where
  "collectTransactions C want limit b result [] = result"
| "collectTransactions C want limit b result (None # txs) = collectTransactions C want limit b result txs"
| "collectTransactions C want limit b result (Some tx # txs) =
     (if \<not> want tx then collectTransactions C want limit b result txs
      else
        (let result1 = result @ [confirmed C b tx]
         in if length result1 = limit then result1
            else collectTransactions C want limit b result1 txs))"

fun recentTransactionsLoop ::
  "crypto \<Rightarrow> (transaction \<Rightarrow> bool) \<Rightarrow> nat \<Rightarrow> u64 option \<Rightarrow> ConfirmedTransaction list \<Rightarrow> block list \<Rightarrow>
   ConfirmedTransaction list" where
  "recentTransactionsLoop C want limit before result [] = result"
| "recentTransactionsLoop C want limit before result (b # scan) =
     (if length result < limit then
        (if (case before of Some h \<Rightarrow> blkHeight b \<ge> h | None \<Rightarrow> False)
         then recentTransactionsLoop C want limit before result scan
         else recentTransactionsLoop C want limit before
                (collectTransactions C want limit b result (blkTransactions b)) scan)
      else result)"

definition RecentTransactions ::
  "crypto \<Rightarrow> chain option \<Rightarrow> int \<Rightarrow> u64 option \<Rightarrow> ConfirmedTransaction list" where
  "RecentTransactions C chainp limit beforeHeight =
     (case chainp of
        None \<Rightarrow> []
      | Some c \<Rightarrow>
          if limit \<le> 0 then []
          else recentTransactionsLoop C (\<lambda>_. True) (nat limit) beforeHeight [] (rev (blocks c)))"

definition TransactionsForAddress ::
  "crypto \<Rightarrow> chain option \<Rightarrow> string \<Rightarrow> int \<Rightarrow> u64 option \<Rightarrow> ConfirmedTransaction list" where
  "TransactionsForAddress C chainp address limit beforeHeight =
     (case chainp of
        None \<Rightarrow> []
      | Some c \<Rightarrow>
          if address = '''' \<or> limit \<le> 0 then []
          else recentTransactionsLoop C (\<lambda>tx. \<not> (txFrom tx \<noteq> address \<and> txTo tx \<noteq> address))
                 (nat limit) beforeHeight [] (rev (blocks c)))"

section \<open>The loops are prefixes of the filtered history\<close>

definition below :: "u64 option \<Rightarrow> block \<Rightarrow> bool" where
  "below before b = (case before of None \<Rightarrow> True | Some h \<Rightarrow> blkHeight b < h)"

definition history :: "crypto \<Rightarrow> (transaction \<Rightarrow> bool) \<Rightarrow> u64 option \<Rightarrow> block list \<Rightarrow> ConfirmedTransaction list" where
  "history C want before scan =
     concat (map (\<lambda>b. map (confirmed C b) (filter want (List.map_filter id (blkTransactions b))))
       (filter (below before) scan))"

lemma recentBlocksLoop_take:
  "length result \<le> limit \<Longrightarrow>
   recentBlocksLoop limit before result scan
     = result @ take (limit - length result) (filter (below before) scan)"
proof (induction limit before result scan rule: recentBlocksLoop.induct)
  case (2 limit before result b scan)
  show ?case
  proof (cases "length result < limit")
    case True
    then have "limit - length result = Suc (limit - Suc (length result))" by simp
    with 2 True show ?thesis by (auto simp: below_def split: option.splits)
  next
    case False
    with "2.prems" show ?thesis by simp
  qed
qed simp

lemma collectTransactions_take:
  "length result < limit \<Longrightarrow>
   collectTransactions C want limit b result txs
     = result @ take (limit - length result) (map (confirmed C b) (filter want (List.map_filter id txs)))"
proof (induction C want limit b result txs rule: collectTransactions.induct)
  case (3 C want limit b result tx txs)
  show ?case
  proof (cases "want tx \<and> Suc (length result) \<noteq> limit")
    case True
    then have "limit - length result = Suc (limit - Suc (length result))" using "3.prems" by simp
    with 3 True show ?thesis by (simp add: List.map_filter_simps)
  next
    case False
    have one: "limit - length result = Suc 0" if "limit = Suc (length result)" using that by simp
    show ?thesis using False 3 one by (cases "want tx") (auto simp: List.map_filter_simps)
  qed
qed (simp_all add: List.map_filter_simps)

lemma recentTransactionsLoop_take:
  "length result \<le> limit \<Longrightarrow>
   recentTransactionsLoop C want limit before result scan
     = result @ take (limit - length result) (history C want before scan)"
proof (induction scan arbitrary: result)
  case Nil
  then show ?case by (simp add: history_def)
next
  case (Cons b scan)
  let ?own = "map (confirmed C b) (filter want (List.map_filter id (blkTransactions b)))"
  show ?case
  proof (cases "length result < limit")
    case True
    have skip: "(case before of Some h \<Rightarrow> blkHeight b \<ge> h | None \<Rightarrow> False) \<longleftrightarrow> \<not> below before b"
      by (auto simp: below_def not_less split: option.splits)
    show ?thesis
    proof (cases "below before b")
      case True
      note c = collectTransactions_take [OF \<open>length result < limit\<close>, of C want b "blkTransactions b"]
      have "length (result @ take (limit - length result) ?own) \<le> limit" using Cons.prems by simp
      note tail = Cons.IH [OF this]
      have cut: "limit - length (result @ take (limit - length result) ?own)
          = limit - length result - length ?own"
        using Cons.prems by auto
      have step: "recentTransactionsLoop C want limit before result (b # scan)
          = recentTransactionsLoop C want limit before (result @ take (limit - length result) ?own) scan"
        using skip True \<open>length result < limit\<close> by (simp only: recentTransactionsLoop.simps c if_True not_True_eq_False if_False)
      have hist: "history C want before (b # scan) = ?own @ history C want before scan"
        using True by (simp add: history_def)
      show ?thesis unfolding step tail cut hist by (simp only: take_append append_assoc)
    next
      case False
      with Cons skip \<open>length result < limit\<close> show ?thesis by (simp add: history_def)
    qed
  next
    case False
    with Cons.prems show ?thesis by simp
  qed
qed

lemma findTransaction_Some:
  "findTransaction i txs = Some tx \<Longrightarrow> Some tx \<in> set txs \<and> txID tx = i"
  by (induction i txs rule: findTransaction.induct) (auto split: if_splits)

lemma findTransaction_None:
  "findTransaction i txs = None \<longleftrightarrow> (\<forall>tx. Some tx \<in> set txs \<longrightarrow> txID tx \<noteq> i)"
  by (induction i txs rule: findTransaction.induct) auto

lemma findInBlocks_Some:
  "findInBlocks i bs = Some (tx, b) \<Longrightarrow> b \<in> set bs \<and> Some tx \<in> set (blkTransactions b) \<and> txID tx = i"
  by (induction i bs rule: findInBlocks.induct)
    (auto split: option.splits dest: findTransaction_Some)

lemma findInBlocks_None:
  "findInBlocks i bs = None \<longleftrightarrow> (\<forall>b\<in>set bs. findTransaction i (blkTransactions b) = None)"
  by (induction i bs rule: findInBlocks.induct) (simp_all split: option.split)

section \<open>Properties\<close>

text \<open>The explorer lists are exact: recent blocks are the newest blocks below the bound, and an
  address list is the newest-first history of the transactions that the address sent or received,
  both cut at the limit.\<close>

theorem explorer_lists_exact:
  assumes "0 < limit"
  shows "RecentBlocks (Some c) limit before = take (nat limit) (filter (below before) (rev (blocks c)))
    \<and> (a \<noteq> '''' \<longrightarrow> TransactionsForAddress C (Some c) a limit before
        = take (nat limit) (history C (\<lambda>tx. txFrom tx = a \<or> txTo tx = a) before (rev (blocks c))))"
proof -
  have "(\<lambda>tx. \<not> (txFrom tx \<noteq> a \<and> txTo tx \<noteq> a)) = (\<lambda>tx. txFrom tx = a \<or> txTo tx = a)" by auto
  then show ?thesis
    using assms recentBlocksLoop_take [of "[]" "nat limit" before "rev (blocks c)"]
      recentTransactionsLoop_take [of "[]" "nat limit" C _ before "rev (blocks c)"]
    by (simp add: RecentBlocks_def TransactionsForAddress_def)
qed

theorem explorer_lists_exact_witness:
  "RecentBlocks (Some (small_chain 7)) 1 None = [small_block 7 NewGenesisBlock]"
  using explorer_lists_exact [of 1 "small_chain 7" None] by (simp add: below_def)

text \<open>Looking up a transaction by ID finds one exactly if some block of the chain contains it,
  and returns it with a block that does.\<close>

theorem transaction_lookup_correct:
  assumes "i \<noteq> ''''"
  shows "(\<forall>tx b. TransactionByID (Some c) i = Some (tx, b) \<longrightarrow>
      b \<in> set (blocks c) \<and> Some tx \<in> set (blkTransactions b) \<and> txID tx = i)
    \<and> (TransactionByID (Some c) i = None \<longleftrightarrow>
      (\<forall>b\<in>set (blocks c). \<forall>tx. Some tx \<in> set (blkTransactions b) \<longrightarrow> txID tx \<noteq> i))"
  using assms findInBlocks_Some [of i "blocks c"]
  by (simp add: TransactionByID_def findInBlocks_None findTransaction_None)

theorem transaction_lookup_correct_witness:
  "TransactionByID (Some (small_chain 7)) ''ab'' = None"
  using transaction_lookup_correct [of "''ab''" "small_chain 7"]
  by (simp add: NewGenesisBlock_def newGenesisBlock_def)

end
