(* ===== verification/Disk.thy ===== *)
theory Disk
  imports Prelude
begin

text \<open>
  The part of Go's \<open>os\<close>, \<open>path/filepath\<close> and \<open>encoding/json\<close> packages that the storage code
  calls. A disk has the contents of its files, the faults that the coming system calls meet, and
  every contents the disk has had: a process that is killed leaves the disk at one of these. A
  write passes through every prefix of its data, so the contents seen on the way include the
  partly written files. Every definition takes the disk and returns it as the call leaves it.
  Directories, permissions and the loss of data that the kernel has not yet flushed are not
  modelled. JSON encoding is the argument \<open>json\<close>, with the round trip of a value as its law.

  The locales \<open>file_store\<close> and \<open>atomic_store\<close> are what the callers of the save routines rely
  on; each save routine is an interpretation of one of them in the theory that defines it.
\<close>

section \<open>Paths\<close>

type_synonym path = string

fun split_slash :: "string \<Rightarrow> string list" where
  "split_slash [] = [[]]"
| "split_slash (c # cs) =
     (if c = CHR ''/'' then [] # split_slash cs
      else (case split_slash cs of [] \<Rightarrow> [[c]] | p # ps \<Rightarrow> (c # p) # ps))"

fun join_slash :: "string list \<Rightarrow> string" where
  "join_slash [] = ''''"
| "join_slash [p] = p"
| "join_slash (p # ps) = p @ ''/'' @ join_slash ps"

text \<open>The elements of a cleaned path, last first.\<close>

fun clean_parts :: "bool \<Rightarrow> string list \<Rightarrow> string list \<Rightarrow> string list" where
  "clean_parts rooted done [] = done"
| "clean_parts rooted done (p # ps) =
     (if p = '''' \<or> p = ''.'' then clean_parts rooted done ps
      else if p = ''..''
      then (case done of
          [] \<Rightarrow> clean_parts rooted (if rooted then [] else [''..'']) ps
        | q # qs \<Rightarrow> clean_parts rooted (if q = ''..'' then ''..'' # done else qs) ps)
      else clean_parts rooted (p # done) ps)"

definition Clean :: "path \<Rightarrow> path" where
  "Clean p =
     (let rooted = (p \<noteq> '''' \<and> hd p = CHR ''/'');
          body = join_slash (rev (clean_parts rooted [] (split_slash p)))
      in if rooted then CHR ''/'' # body else if body = '''' then ''.'' else body)"

definition Dir :: "path \<Rightarrow> path" where
  "Dir p = Clean (rev (dropWhile (\<lambda>c. c \<noteq> CHR ''/'') (rev p)))"

lemma split_slash_ne [simp]: "split_slash a \<noteq> []"
  by (induction a) (auto split: list.splits)

lemma split_slash_append: "split_slash (a @ CHR ''/'' # b) = split_slash a @ split_slash b"
  by (induction a) (auto split: list.splits)

lemma split_slash_plain: "CHR ''/'' \<notin> set b \<Longrightarrow> split_slash b = [b]"
  by (induction b) auto

lemma clean_parts_append: "clean_parts rooted acc (ps @ qs) = clean_parts rooted (clean_parts rooted acc ps) qs"
  by (induction rooted acc ps rule: clean_parts.induct) (auto split: list.splits)

section \<open>Files, faults and system calls\<close>

text \<open>A call that fails either changed nothing or, when it writes, stopped after some bytes.\<close>

datatype fault = FailClean error | FailPartial error nat

record disk =
  files :: "path \<rightharpoonup> bytes"
  faults :: "fault option list"
  seen :: "(path \<rightharpoonup> bytes) list"

definition ErrNotExist :: error where
  "ErrNotExist = Errorf ''file does not exist'' []"

definition ErrExist :: error where
  "ErrExist = Errorf ''file already exists'' []"

definition IsNotExist :: "error \<Rightarrow> bool" where
  "IsNotExist err \<longleftrightarrow> err = ErrNotExist"

definition syscall :: "disk \<Rightarrow> fault option \<times> disk" where
  "syscall d = (case faults d of [] \<Rightarrow> (None, d) | f # fs \<Rightarrow> (f, d\<lparr>faults := fs\<rparr>))"

definition fault_error :: "fault \<Rightarrow> error" where
  "fault_error f = (case f of FailClean err \<Rightarrow> err | FailPartial err _ \<Rightarrow> err)"

text \<open>The files take these contents, one after the other.\<close>

definition pass_through :: "(path \<rightharpoonup> bytes) list \<Rightarrow> disk \<Rightarrow> disk" where
  "pass_through states d = d\<lparr>files := last (files d # states), seen := seen d @ states\<rparr>"

definition call_only :: "disk \<Rightarrow> (disk, unit) outcome" where
  "call_only d = (case syscall d of (Some f, d1) \<Rightarrow> (d1, Inl (fault_error f)) | (None, d1) \<Rightarrow> (d1, Inr ()))"

definition MkdirAll :: "path \<Rightarrow> disk \<Rightarrow> (disk, unit) outcome" where
  "MkdirAll dir d = call_only d"

definition ReadFile :: "path \<Rightarrow> disk \<Rightarrow> (disk, bytes) outcome" where
  "ReadFile p d =
     (case syscall d of
        (Some f, d1) \<Rightarrow> (d1, Inl (fault_error f))
      | (None, d1) \<Rightarrow> (case files d1 p of None \<Rightarrow> (d1, Inl ErrNotExist) | Some bs \<Rightarrow> (d1, Inr bs)))"

definition prefix_states :: "(path \<rightharpoonup> bytes) \<Rightarrow> path \<Rightarrow> bytes \<Rightarrow> bytes \<Rightarrow> nat \<Rightarrow> (path \<rightharpoonup> bytes) list" where
  "prefix_states fs p before data n = map (\<lambda>k. fs(p \<mapsto> before @ take k data)) [0..<Suc (min n (length data))]"

definition write_at :: "path \<Rightarrow> bytes \<Rightarrow> bytes \<Rightarrow> disk \<Rightarrow> (disk, unit) outcome" where
  "write_at p before data d =
     (case syscall d of
        (None, d1) \<Rightarrow> (pass_through (prefix_states (files d1) p before data (length data)) d1, Inr ())
      | (Some (FailClean err), d1) \<Rightarrow> (d1, Inl err)
      | (Some (FailPartial err n), d1) \<Rightarrow> (pass_through (prefix_states (files d1) p before data n) d1, Inl err))"

text \<open>\<open>os.WriteFile\<close> truncates the file and then writes.\<close>

definition WriteFile :: "path \<Rightarrow> bytes \<Rightarrow> disk \<Rightarrow> (disk, unit) outcome" where
  "WriteFile p data d = write_at p [] data d"

definition OpenTruncate :: "path \<Rightarrow> disk \<Rightarrow> (disk, unit) outcome" where
  "OpenTruncate p d = write_at p [] [] d"

definition OpenExclusive :: "path \<Rightarrow> disk \<Rightarrow> (disk, unit) outcome" where
  "OpenExclusive p d = (if files d p = None then write_at p [] [] d else (snd (syscall d), Inl ErrExist))"

definition FileWrite :: "path \<Rightarrow> bytes \<Rightarrow> disk \<Rightarrow> (disk, unit) outcome" where
  "FileWrite p data d = write_at p (goget (files d) p []) data d"

definition FileSync :: "path \<Rightarrow> disk \<Rightarrow> (disk, unit) outcome" where
  "FileSync p d = call_only d"

definition FileClose :: "path \<Rightarrow> disk \<Rightarrow> (disk, unit) outcome" where
  "FileClose p d = call_only d"

definition Remove :: "path \<Rightarrow> disk \<Rightarrow> (disk, unit) outcome" where
  "Remove p d =
     (case syscall d of
        (Some f, d1) \<Rightarrow> (d1, Inl (fault_error f))
      | (None, d1) \<Rightarrow>
          if files d1 p = None then (d1, Inl ErrNotExist)
          else (pass_through [(files d1)(p := None)] d1, Inr ()))"

definition Rename :: "path \<Rightarrow> path \<Rightarrow> disk \<Rightarrow> (disk, unit) outcome" where
  "Rename old new d =
     (case syscall d of
        (Some f, d1) \<Rightarrow> (d1, Inl (fault_error f))
      | (None, d1) \<Rightarrow>
          (case files d1 old of
             None \<Rightarrow> (d1, Inl ErrNotExist)
           | Some bs \<Rightarrow> (pass_through [(files d1)(old := None, new \<mapsto> bs)] d1, Inr ())))"

text \<open>A directory is created before a file is written into it, unless it is the current one.\<close>

definition ensure_dir :: "path \<Rightarrow> disk \<Rightarrow> (disk, unit) outcome" where
  "ensure_dir p d = (if Dir p \<noteq> ''.'' then MkdirAll (Dir p) d else (d, Inr ()))"

section \<open>JSON\<close>

record 'a json =
  Marshal :: "'a \<Rightarrow> bytes result"
  Unmarshal :: "bytes \<Rightarrow> 'a result"

definition json_ok :: "'a json \<Rightarrow> 'a \<Rightarrow> bool" where
  "json_ok J x \<longleftrightarrow> (\<exists>bs. Marshal J x = Inr bs \<and> Unmarshal J bs = Inr x)"

section \<open>What a sequence of calls does to the disk\<close>

text \<open>The contents a process may leave behind when it is killed between two moments.\<close>

definition crash_states :: "disk \<Rightarrow> disk \<Rightarrow> (path \<rightharpoonup> bytes) list" where
  "crash_states d d' = files d # drop (length (seen d)) (seen d')"

definition evolves :: "((path \<rightharpoonup> bytes) \<Rightarrow> bool) \<Rightarrow> disk \<Rightarrow> disk \<Rightarrow> bool" where
  "evolves P d d' \<longleftrightarrow> (\<exists>states. seen d' = seen d @ states \<and> files d' = last (files d # states) \<and> (\<forall>fs\<in>set states. P fs))"

named_theorems disk_calls \<open>what each system call leaves\<close>

lemma evolves_refl [simp, intro!]: "evolves P d d"
  by (simp add: evolves_def)

lemma evolves_trans: "evolves P d e \<Longrightarrow> evolves P e f \<Longrightarrow> evolves P d f"
  unfolding evolves_def
proof (elim exE conjE)
  fix s t
  assume "seen e = seen d @ s" "seen f = seen e @ t" "files e = last (files d # s)" "files f = last (files e # t)"
    "\<forall>fs\<in>set s. P fs" "\<forall>fs\<in>set t. P fs"
  then show "\<exists>states. seen f = seen d @ states \<and> files f = last (files d # states) \<and> (\<forall>fs\<in>set states. P fs)"
    by (intro exI [of _ "s @ t"]) auto
qed

lemma evolves_mono: "evolves P d e \<Longrightarrow> (\<And>fs. P fs \<Longrightarrow> Q fs) \<Longrightarrow> evolves Q d e"
  unfolding evolves_def by blast

lemma evolves_conj: "evolves P d e \<Longrightarrow> evolves Q d e \<Longrightarrow> evolves (\<lambda>fs. P fs \<and> Q fs) d e"
  unfolding evolves_def by auto

lemma evolves_last: "evolves P d e \<Longrightarrow> files e = files d \<or> P (files e)"
  unfolding evolves_def by (auto split: if_splits)

lemma evolves_crash: "evolves P d e \<Longrightarrow> fs \<in> set (crash_states d e) \<Longrightarrow> fs = files d \<or> P fs"
  by (auto simp: evolves_def crash_states_def)

lemma syscall_evolves: "syscall d = (f, d') \<Longrightarrow> evolves P d d' \<and> files d' = files d"
  unfolding evolves_def by (cases "faults d") (auto simp: syscall_def intro!: exI [of _ "[]"])

lemma pass_through_evolves: "(\<And>fs. fs \<in> set states \<Longrightarrow> P fs) \<Longrightarrow> evolves P d (pass_through states d)"
  by (auto simp: pass_through_def evolves_def)

lemma files_pass_through: "files (pass_through states d) = last (files d # states)"
  by (simp add: pass_through_def)

lemma last_prefix_states: "last (f # prefix_states fs p before data n) = fs(p \<mapsto> before @ take n data)"
  by (simp add: prefix_states_def min_def last_map)

lemma call_only_files [disk_calls]: "call_only d = (d', r) \<Longrightarrow> evolves P d d' \<and> files d' = files d"
  by (auto simp: call_only_def split: prod.splits option.splits dest: syscall_evolves)

lemmas plain_calls [disk_calls] =
  call_only_files [folded MkdirAll_def] call_only_files [folded FileSync_def] call_only_files [folded FileClose_def]

lemma ensure_dir_files [disk_calls]: "ensure_dir p d = (d', r) \<Longrightarrow> evolves P d d' \<and> files d' = files d"
  by (auto simp: ensure_dir_def split: if_splits dest: call_only_files simp: MkdirAll_def)

lemma ReadFile_files [disk_calls]: "ReadFile p d = (d', r) \<Longrightarrow> evolves P d d' \<and> files d' = files d"
  by (auto simp: ReadFile_def split: prod.splits option.splits dest: syscall_evolves)

lemma ReadFile_ok: "ReadFile p d = (d', Inr bs) \<Longrightarrow> files d p = Some bs"
  by (auto simp: ReadFile_def split: prod.splits option.splits dest: syscall_evolves)

lemma write_at_evolves:
  assumes "write_at p before data d = (d', r)" and P: "\<And>k. P ((files d)(p \<mapsto> before @ take k data))"
  shows "evolves P d d'"
proof -
  have step: "evolves P d (pass_through (prefix_states (files d1) p before data n) d1)"
    if "syscall d = (f, d1)" for f d1 n
  proof -
    note s = syscall_evolves [OF that, of P]
    have "evolves P d1 (pass_through (prefix_states (files d1) p before data n) d1)"
      by (rule pass_through_evolves) (use s P in \<open>auto simp: prefix_states_def simp del: upt_Suc\<close>)
    with s show ?thesis by (blast intro: evolves_trans)
  qed
  from assms(1) show ?thesis
    by (auto simp: write_at_def split: prod.splits option.splits fault.splits dest: syscall_evolves step)
qed

lemma write_at_files:
  assumes "write_at p before data d = (d', r)"
  shows "r = Inr () \<Longrightarrow> files d' = (files d)(p \<mapsto> before @ data)"
    and "files d' = files d \<or> (\<exists>k. files d' = (files d)(p \<mapsto> before @ take k data))"
proof -
  have s: "files d1 = files d" if "syscall d = (f, d1)" for f d1 using syscall_evolves [OF that] by blast
  have w: "files (pass_through (prefix_states (files d1) p before data n) d1) = (files d)(p \<mapsto> before @ take n data)"
    if "syscall d = (f, d1)" for f d1 n
    unfolding files_pass_through last_prefix_states s [OF that] ..
  show "r = Inr () \<Longrightarrow> files d' = (files d)(p \<mapsto> before @ data)"
    using assms w by (auto simp: write_at_def split: prod.splits option.splits fault.splits)
  obtain f d1 where f: "syscall d = (f, d1)" by fastforce
  have "files d' = files d1 \<or> (\<exists>n. files d' = files (pass_through (prefix_states (files d1) p before data n) d1))"
    using assms unfolding write_at_def f by (auto split: option.splits fault.splits)
  then show "files d' = files d \<or> (\<exists>k. files d' = (files d)(p \<mapsto> before @ take k data))"
    unfolding w [OF f] unfolding s [OF f] .
qed

lemmas write_calls =
  write_at_evolves [of _ "[]", folded WriteFile_def] write_at_evolves [of _ "[]" "[]", folded OpenTruncate_def]
lemmas write_results =
  write_at_files [of _ "[]", folded WriteFile_def] write_at_files [of _ "[]" "[]", folded OpenTruncate_def]

lemma Remove_evolves: "Remove p d = (d', r) \<Longrightarrow> P ((files d)(p := None)) \<Longrightarrow> evolves P d d'"
  by (auto simp: Remove_def split: prod.splits option.splits if_splits dest!: syscall_evolves [where P = P]
      intro!: evolves_trans [of P d _ "pass_through _ _"] pass_through_evolves)

lemma Remove_files: "Remove p d = (d', r) \<Longrightarrow> files d' = (if r = Inr () then (files d)(p := None) else files d)"
  by (auto simp: Remove_def files_pass_through split: prod.splits option.splits if_splits dest!: syscall_evolves)

lemma Rename_evolves:
  "Rename a b d = (d', r) \<Longrightarrow> (\<And>bs. files d a = Some bs \<Longrightarrow> P ((files d)(a := None, b \<mapsto> bs))) \<Longrightarrow> evolves P d d'"
  by (auto simp: Rename_def split: prod.splits option.splits if_splits dest!: syscall_evolves [where P = P]
      intro!: evolves_trans [of P d _ "pass_through _ _"] pass_through_evolves)

lemma Rename_files:
  "Rename a b d = (d', r) \<Longrightarrow>
     (\<exists>bs. r = Inr () \<and> files d a = Some bs \<and> files d' = (files d)(a := None, b \<mapsto> bs))
     \<or> (\<exists>err. r = Inl err) \<and> files d' = files d"
  by (auto simp: Rename_def files_pass_through split: prod.splits option.splits if_splits dest!: syscall_evolves)

section \<open>What a save routine promises\<close>

text \<open>
  A save routine replaces the contents of its target by an encoding. While it runs, or when it is
  killed, the target holds the old contents, nothing, or the whole encoding, and no file but the
  target and the scratch files changes. The atomic kind never leaves the target missing, and keeps
  the old contents when it fails.
\<close>

locale file_store =
  fixes save :: "disk \<Rightarrow> (disk, unit) outcome" and target :: path and scratch :: "path set"
    and encoded :: "bytes option"
  assumes crash: "save d = (d', r) \<Longrightarrow>
      evolves (\<lambda>fs. (fs target = files d target \<or> fs target = None \<or> encoded \<noteq> None \<and> fs target = encoded)
        \<and> (\<forall>q. q \<noteq> target \<and> q \<notin> scratch \<longrightarrow> fs q = files d q)) d d'"
    and saved: "save d = (d', Inr x) \<Longrightarrow> encoded \<noteq> None \<and> files d' target = encoded"
begin

lemma others:
  assumes "save d = (d', r)" "fs \<in> set (crash_states d d')" "q \<noteq> target" "q \<notin> scratch"
  shows "fs q = files d q"
  using evolves_crash [OF crash [OF assms(1)] assms(2)] assms(3,4) by auto

lemma others_after:
  assumes "save d = (d', r)" "q \<noteq> target" "q \<notin> scratch"
  shows "files d' q = files d q"
  using evolves_last [OF crash [OF assms(1)]] assms(2,3) by auto

lemma never_torn:
  assumes "save d = (d', r)" "fs \<in> set (crash_states d d')"
  shows "fs target = files d target \<or> fs target = None \<or> encoded \<noteq> None \<and> fs target = encoded"
  using evolves_crash [OF crash [OF assms(1)] assms(2)] by auto

end

locale atomic_store = file_store +
  assumes kept: "save d = (d', r) \<Longrightarrow>
      evolves (\<lambda>fs. fs target = files d target \<or> encoded \<noteq> None \<and> fs target = encoded) d d'"
    and unsaved: "save d = (d', Inl err) \<Longrightarrow> files d' target = files d target"
begin

lemma old_or_new:
  assumes "save d = (d', r)" "fs \<in> set (crash_states d d')"
  shows "fs target = files d target \<or> encoded \<noteq> None \<and> fs target = encoded"
  using evolves_crash [OF kept [OF assms(1)] assms(2)] by auto

text \<open>A file that a program has always saved through the routine is never missing again.\<close>

lemma stays_present:
  assumes "save d = (d', r)" "fs \<in> set (crash_states d d')" "files d target \<noteq> None"
  shows "fs target \<noteq> None"
  using old_or_new [OF assms(1,2)] assms(3) by auto

end

end
