(* ===== verification/Storage.thy ===== *)
theory Storage
  imports Disk Reorg
begin

text \<open>
  Persistence of the chain and of the account state: \<open>blockchain/storage.go\<close> and
  \<open>blockchain/state_storage.go\<close>. Both write a temporary file first. The chain file is then
  replaced by one rename, so it is an interpretation of \<open>atomic_store\<close>; the state file is removed
  before the rename, so it is an interpretation of \<open>file_store\<close> only. Loading a chain replays every
  block under the consensus rules; loading a state checks its version, policy, treasury and supply.
  The clock argument gives the time at which the \<open>n\<close>-th stored block is validated.
\<close>

section \<open>The chain file\<close>

definition SaveChainToFile :: "block option list json \<Rightarrow> chain option \<Rightarrow> path \<Rightarrow> disk \<Rightarrow> (disk, unit) outcome" where
  "SaveChainToFile J chainp p d =
     (case chainp of
       None \<Rightarrow> (d, Inl NilChain)
     | Some c \<Rightarrow>
     if p = '''' then (d, Inl EmptyStoragePath)
     else (case ensure_dir p d of
       (d1, Inl err) \<Rightarrow> (d1, Inl (StorageDirFailed err))
     | (d1, Inr _) \<Rightarrow>
     (case Marshal J (map Some (blocks c)) of
       Inl err \<Rightarrow> (d1, Inl (ChainEncodeFailed err))
     | Inr data \<Rightarrow>
     (let tempPath = p @ ''.tmp'' in
     (case WriteFile tempPath data d1 of
       (d2, Inl err) \<Rightarrow> (d2, Inl (ChainWriteFailed err))
     | (d2, Inr _) \<Rightarrow>
     (case Rename tempPath p d2 of
       (d3, Inl err) \<Rightarrow> (d3, Inl (ChainFinalizeFailed err))
     | (d3, Inr _) \<Rightarrow> (d3, Inr ())))))))"

fun addStoredBlocks :: "crypto \<Rightarrow> (nat \<Rightarrow> i64) \<Rightarrow> nat \<Rightarrow> chain \<Rightarrow> block option list \<Rightarrow> chain result" where
  "addStoredBlocks C clk i c [] = Inr c"
| "addStoredBlocks C clk i c (bp # rest) =
     (case AddBlock C (clk i) c bp of
        (_, Inl err) \<Rightarrow> Inl (StoredBlockInvalid err)
      | (c', Inr _) \<Rightarrow> addStoredBlocks C clk (Suc i) c' rest)"

definition LoadChainFromFileForWithConsensus ::
  "crypto \<Rightarrow> (nat \<Rightarrow> i64) \<Rightarrow> block option list json \<Rightarrow> path \<Rightarrow> network_id \<Rightarrow> pow_policy \<Rightarrow>
   proof_verifier option \<Rightarrow> disk \<Rightarrow> (disk, chain) outcome" where
  "LoadChainFromFileForWithConsensus C clk J p net policy verifierp d =
     (if p = '''' then (d, Inl EmptyStoragePath)
      else (case MonetaryPolicyFor net of
        Inl err \<Rightarrow> (d, Inl err)
      | Inr _ \<Rightarrow>
      (case ReadFile p d of
        (d1, Inl err) \<Rightarrow> (d1, Inl (ChainReadFailed err))
      | (d1, Inr data) \<Rightarrow> (d1,
      (case Unmarshal J data of
        Inl err \<Rightarrow> Inl (ChainDecodeFailed err)
      | Inr [] \<Rightarrow> Inl ChainFileEmpty
      | Inr (None # _) \<Rightarrow> Inl StoredGenesisNil
      | Inr (Some genesis # rest) \<Rightarrow>
      (case newChainFromGenesisForNetworkWithConsensus C net (Some genesis) policy verifierp of
        Inl err \<Rightarrow> Inl (StoredGenesisInvalid err)
      | Inr c \<Rightarrow> addStoredBlocks C clk 1 c rest))))))"

definition LoadChainFromFileFor ::
  "crypto \<Rightarrow> (nat \<Rightarrow> i64) \<Rightarrow> block option list json \<Rightarrow> path \<Rightarrow> network_id \<Rightarrow> disk \<Rightarrow> (disk, chain) outcome" where
  "LoadChainFromFileFor C clk J p net d =
     (case PoWPolicyForNetwork net of
        Inl err \<Rightarrow> (d, Inl err)
      | Inr policy \<Rightarrow> LoadChainFromFileForWithConsensus C clk J p net policy (Some (legacyProofVerifier C)) d)"

definition LoadChainFromFile ::
  "crypto \<Rightarrow> (nat \<Rightarrow> i64) \<Rightarrow> block option list json \<Rightarrow> path \<Rightarrow> disk \<Rightarrow> (disk, chain) outcome" where
  "LoadChainFromFile C clk J p d = LoadChainFromFileFor C clk J p NetworkPublicTestnet d"

section \<open>The state file\<close>

text \<open>The old file is removed, because on Windows a rename cannot replace it, and the temporary file
  takes its place; when a call fails the temporary file is removed. The mempool file is replaced by
  the same steps, with its own two error messages.\<close>

definition removeAndRename ::
  "(error \<Rightarrow> error) \<Rightarrow> (error \<Rightarrow> error) \<Rightarrow> path \<Rightarrow> path \<Rightarrow> disk \<Rightarrow> (disk, unit) outcome" where
  "removeAndRename replaceFailed finalizeFailed tempPath p d =
     (let (d1, removed) = Remove p d;
          rename = (case Rename tempPath p d1 of
              (d2, Inl err) \<Rightarrow> (fst (Remove tempPath d2), Inl (finalizeFailed err))
            | (d2, Inr _) \<Rightarrow> (d2, Inr ()))
      in case removed of
           Inl err \<Rightarrow> if \<not> IsNotExist err then (fst (Remove tempPath d1), Inl (replaceFailed err)) else rename
         | Inr _ \<Rightarrow> rename)"

record stateDiskData =
  sdVersion :: u32
  sdMonetaryPolicy :: u8
  sdBalances :: "(string \<rightharpoonup> u64) option"
  sdProcessedTx :: "(string \<rightharpoonup> bool) option"
  sdAccountNonces :: "(string \<rightharpoonup> u64) option"
  sdDevelopmentAddress :: string
  sdIssuedSupply :: u64

text \<open>The data that \<open>SaveToFile\<close> copies out of the state under its lock.\<close>

definition stateData :: "state \<Rightarrow> stateDiskData" where
  "stateData s = \<lparr>sdVersion = 2, sdMonetaryPolicy = monetaryPolicy s, sdBalances = Some (balances s),
     sdProcessedTx = Some (processedTx s), sdAccountNonces = Some (accountNonces s),
     sdDevelopmentAddress = developmentAddress s, sdIssuedSupply = issuedSupply s\<rparr>"

definition SaveStateToFile :: "stateDiskData json \<Rightarrow> state option \<Rightarrow> path \<Rightarrow> disk \<Rightarrow> (disk, unit) outcome" where
  "SaveStateToFile J statep p d =
     (case statep of
       None \<Rightarrow> (d, Inl NilState)
     | Some s \<Rightarrow>
     if p = '''' then (d, Inl EmptyStatePath)
     else (case Marshal J (stateData s) of
       Inl err \<Rightarrow> (d, Inl (StateEncodeFailed err))
     | Inr encoded \<Rightarrow>
     (case ensure_dir p d of
       (d1, Inl err) \<Rightarrow> (d1, Inl (StateDirFailed err))
     | (d1, Inr _) \<Rightarrow>
     (let tempPath = p @ ''.tmp'' in
     (case WriteFile tempPath encoded d1 of
       (d2, Inl err) \<Rightarrow> (d2, Inl (StateTempWriteFailed err))
     | (d2, Inr _) \<Rightarrow> removeAndRename StateOldReplaceFailed StateFinalizeFailed tempPath p d2)))))"

definition LoadStateFromFile :: "stateDiskData json \<Rightarrow> path \<Rightarrow> disk \<Rightarrow> (disk, state) outcome" where
  "LoadStateFromFile J p d =
     (if p = '''' then (d, Inl EmptyStatePath)
      else (case ReadFile p d of
        (d1, Inl err) \<Rightarrow> (d1, Inl err)
      | (d1, Inr encoded) \<Rightarrow> (d1,
      (case Unmarshal J encoded of
        Inl err \<Rightarrow> Inl (StateDecodeFailed err)
      | Inr data \<Rightarrow>
      if sdVersion data \<noteq> 1 \<and> sdVersion data \<noteq> 2 then Inl UnsupportedStateVersion
      else (case (if sdVersion data \<ge> 2
                  then (case ValidateMonetaryPolicy (sdMonetaryPolicy data) of
                      Inl err \<Rightarrow> Inl (StatePolicyInvalid err)
                    | Inr _ \<Rightarrow> Inr (sdMonetaryPolicy data))
                  else Inr MonetaryPolicyPublicTestnet) of
        Inl err \<Rightarrow> Inl err
      | Inr policy \<Rightarrow>
      if sdDevelopmentAddress data \<noteq> DevelopmentTreasuryAddress then Inl StateTreasuryInvalid
      else if sdIssuedSupply data > MaxSupplyFor policy then Inl StateSupplyInvalid
      else Inr \<lparr>balances = (case sdBalances data of None \<Rightarrow> Map.empty | Some m \<Rightarrow> m),
             processedTx = (case sdProcessedTx data of None \<Rightarrow> Map.empty | Some m \<Rightarrow> m),
             accountNonces = (case sdAccountNonces data of None \<Rightarrow> Map.empty | Some m \<Rightarrow> m),
             developmentAddress = DevelopmentTreasuryAddress, issuedSupply = sdIssuedSupply data,
             monetaryPolicy = policy\<rparr>)))))"

section \<open>The save routines as stores\<close>

definition encodedChain :: "block option list json \<Rightarrow> chain option \<Rightarrow> bytes option" where
  "encodedChain J chainp = (case chainp of None \<Rightarrow> None
     | Some c \<Rightarrow> (case Marshal J (map Some (blocks c)) of Inl _ \<Rightarrow> None | Inr bs \<Rightarrow> Some bs))"

definition encodedState :: "stateDiskData json \<Rightarrow> state option \<Rightarrow> bytes option" where
  "encodedState J statep = (case statep of None \<Rightarrow> None
     | Some s \<Rightarrow> (case Marshal J (stateData s) of Inl _ \<Rightarrow> None | Inr bs \<Rightarrow> Some bs))"

text \<open>A temporary file that has been written, in part or whole, changes nothing else; renaming it over
  the target, and removing it should the rename fail, replaces the target at once.\<close>

definition off_target :: "path \<Rightarrow> (path \<rightharpoonup> bytes) \<Rightarrow> (path \<rightharpoonup> bytes) \<Rightarrow> bool" where
  "off_target t fs gs \<longleftrightarrow> (\<forall>q. q \<noteq> t \<longrightarrow> gs q = fs q)"

lemma WriteFile_off_target:
  assumes "WriteFile t data d = (d1, w)"
  shows "evolves (off_target t (files d)) d d1" "is_ok w \<Longrightarrow> files d1 = (files d)(t \<mapsto> data)"
proof -
  show "evolves (off_target t (files d)) d d1" by (rule write_calls(1) [OF assms]) (simp add: off_target_def)
  assume "is_ok w"
  then have "w = Inr ()" by (auto simp: is_ok_def split: sum.splits)
  from write_results(1) [OF assms this] show "files d1 = (files d)(t \<mapsto> data)" by simp
qed

lemma tmp_rename:
  assumes "evolves (off_target t (files d)) d d1" "is_ok w \<Longrightarrow> files d1 = (files d)(t \<mapsto> data)" "\<not> is_ok w \<Longrightarrow> d' = d1 \<and> \<not> is_ok r"
    and "is_ok w \<Longrightarrow> \<exists>d2 x. Rename t p d1 = (d2, x) \<and> (is_ok r \<longleftrightarrow> x = Inr ())
        \<and> (d' = d2 \<or> x \<noteq> Inr () \<and> d' = fst (Remove t d2))" "t \<noteq> p"
  shows "evolves (\<lambda>fs. (fs p = files d p \<or> fs p = Some data) \<and> (\<forall>q. q \<noteq> p \<and> q \<noteq> t \<longrightarrow> fs q = files d q)) d d'"
      (is "evolves ?P d d'")
    and "if is_ok r then files d' p = Some data else files d' p = files d p"
proof -
  have e1: "evolves ?P d d1" by (rule evolves_mono [OF assms(1)]) (use assms(5) in \<open>simp add: off_target_def\<close>)
  have "evolves ?P d d' \<and> (if is_ok r then files d' p = Some data else files d' p = files d p)"
  proof (cases "is_ok w")
    case True
    note f = assms(2) [OF True]
    from assms(4) [OF True] obtain d2 x where x: "Rename t p d1 = (d2, x)" "is_ok r \<longleftrightarrow> x = Inr ()"
      "d' = d2 \<or> x \<noteq> Inr () \<and> d' = fst (Remove t d2)" by blast
    have e2: "evolves ?P d1 d2" by (rule Rename_evolves [OF x(1)]) (use f assms(5) in auto)
    obtain d3 y where y: "Remove t d2 = (d3, y)" by fastforce
    have "evolves ?P d2 d3" by (rule Remove_evolves [OF y]) (use Rename_files [OF x(1)] f assms(5) in auto)
    with e1 e2 x(3) y have "evolves ?P d d'" by (auto intro: evolves_trans)
    moreover have "if is_ok r then files d' p = Some data else files d' p = files d p"
      using Rename_files [OF x(1)] Remove_files [OF y] f x y assms(5) by (auto split: if_splits)
    ultimately show ?thesis ..
  next
    case False
    with assms(3,5) e1 evolves_last [OF assms(1)] show ?thesis by (auto simp: off_target_def)
  qed
  then show "evolves ?P d d'" "if is_ok r then files d' p = Some data else files d' p = files d p" by blast+
qed

lemma tmp_neq [simp]: "p @ ''.tmp'' \<noteq> p" "p \<noteq> p @ ''.tmp''"
  by (metis append_self_conv list.distinct(1))+

lemma SaveChainToFile_cases:
  assumes "SaveChainToFile J cp p d = (d', r)"
  shows "(\<exists>err. r = Inl err) \<and> (\<forall>P. evolves P d d') \<and> files d' = files d
    \<or> (\<exists>d1 data w d2. encodedChain J cp = Some data \<and> (\<forall>P. evolves P d d1) \<and> files d1 = files d
        \<and> WriteFile (p @ ''.tmp'') data d1 = (d2, w) \<and> (\<not> is_ok w \<longrightarrow> d' = d2 \<and> \<not> is_ok r)
        \<and> (is_ok w \<longrightarrow> (\<exists>d3 x. Rename (p @ ''.tmp'') p d2 = (d3, x) \<and> (is_ok r \<longleftrightarrow> x = Inr ())
            \<and> (d' = d3 \<or> x \<noteq> Inr () \<and> d' = fst (Remove (p @ ''.tmp'') d3)))))"
  using assms
  by (auto simp: SaveChainToFile_def encodedChain_def Let_def split: option.splits if_splits prod.splits sum.splits
      dest: ensure_dir_files)

text \<open>What a routine does that writes a temporary file and renames it.\<close>

lemma atomic_save:
  assumes "(\<exists>err. r = Inl err) \<and> (\<forall>P. evolves P d d') \<and> files d' = files d
    \<or> (\<exists>d1 data w d2. encoded = Some data \<and> (\<forall>P. evolves P d d1) \<and> files d1 = files d
        \<and> WriteFile t data d1 = (d2, w) \<and> (\<not> is_ok w \<longrightarrow> d' = d2 \<and> \<not> is_ok r)
        \<and> (is_ok w \<longrightarrow> (\<exists>d3 x. Rename t p d2 = (d3, x) \<and> (is_ok r \<longleftrightarrow> x = Inr ())
            \<and> (d' = d3 \<or> x \<noteq> Inr () \<and> d' = fst (Remove t d3)))))" "t \<noteq> p"
  shows "evolves (\<lambda>fs. (fs p = files d p \<or> encoded \<noteq> None \<and> fs p = encoded)
      \<and> (\<forall>q. q \<noteq> p \<and> q \<notin> {t} \<longrightarrow> fs q = files d q)) d d'" (is "evolves ?P d d'")
    and "if is_ok r then encoded \<noteq> None \<and> files d' p = encoded else files d' p = files d p"
proof -
  have "evolves ?P d d' \<and> (if is_ok r then encoded \<noteq> None \<and> files d' p = encoded else files d' p = files d p)"
    using assms(1)
  proof (elim disjE exE conjE)
    fix d1 data w d2
    assume a: "encoded = Some data" "\<forall>P. evolves P d d1" "files d1 = files d"
      "WriteFile t data d1 = (d2, w)" "\<not> is_ok w \<longrightarrow> d' = d2 \<and> \<not> is_ok r"
      "is_ok w \<longrightarrow> (\<exists>d3 x. Rename t p d2 = (d3, x) \<and> (is_ok r \<longleftrightarrow> x = Inr ())
            \<and> (d' = d3 \<or> x \<noteq> Inr () \<and> d' = fst (Remove t d3)))"
    note w = tmp_rename [where w = w, OF WriteFile_off_target [OF a(4)] a(5,6) [rule_format] assms(2)]
    have "evolves ?P d1 d'" by (rule evolves_mono [OF w(1)]) (use a(1,3) in auto)
    with a(2) have "evolves ?P d d'" by (blast intro: evolves_trans)
    with w(2) a(1,3) show ?thesis by (simp split: if_splits)
  qed (auto simp: is_ok_def)
  then show "evolves ?P d d'" "if is_ok r then encoded \<noteq> None \<and> files d' p = encoded else files d' p = files d p" by blast+
qed

lemma SaveChainToFile_store:
  assumes "SaveChainToFile J cp p d = (d', r)"
  shows "evolves (\<lambda>fs. (fs p = files d p \<or> encodedChain J cp \<noteq> None \<and> fs p = encodedChain J cp)
      \<and> (\<forall>q. q \<noteq> p \<and> q \<notin> {p @ ''.tmp''} \<longrightarrow> fs q = files d q)) d d'"
    and "if is_ok r then encodedChain J cp \<noteq> None \<and> files d' p = encodedChain J cp else files d' p = files d p"
  by (rule atomic_save [OF SaveChainToFile_cases [OF assms] tmp_neq(1)])+

interpretation chain_file: atomic_store "SaveChainToFile J cp p" p "{p @ ''.tmp''}" "encodedChain J cp" for J cp p
proof
  fix d d' r
  assume s: "SaveChainToFile J cp p d = (d', r)"
  show "evolves (\<lambda>fs. (fs p = files d p \<or> fs p = None \<or> encodedChain J cp \<noteq> None \<and> fs p = encodedChain J cp)
      \<and> (\<forall>q. q \<noteq> p \<and> q \<notin> {p @ ''.tmp''} \<longrightarrow> fs q = files d q)) d d'"
    "evolves (\<lambda>fs. fs p = files d p \<or> encodedChain J cp \<noteq> None \<and> fs p = encodedChain J cp) d d'"
    by (rule evolves_mono [OF SaveChainToFile_store(1) [OF s]]; blast)+
qed (use SaveChainToFile_store(2) in \<open>fastforce simp: is_ok_def\<close>)+

text \<open>Removing the old file first: the target may be missing, but is never torn.\<close>

lemma removeAndRename_evolves:
  assumes "removeAndRename e1 e2 t p d = (d', r)" "t \<noteq> p"
    and P: "P ((files d)(p := None))" "P ((files d)(t := None))" "P ((files d)(p := None, t := None))"
      "\<And>bs. files d t = Some bs \<Longrightarrow> P ((files d)(t := None, p \<mapsto> bs))"
  shows "evolves P d d'"
    and "is_ok r \<Longrightarrow> \<exists>bs. files d t = Some bs \<and> files d' = (files d)(t := None, p \<mapsto> bs)"
proof -
  obtain d1 x where x: "Remove p d = (d1, x)" by fastforce
  note f1 = Remove_files [OF x]
  have e1: "evolves P d d1" using Remove_evolves [OF x] P(1) by blast
  obtain d2 y where y: "Rename t p d1 = (d2, y)" by fastforce
  have e2: "evolves P d1 d2"
    by (rule Rename_evolves [OF y]) (use f1 P(4) assms(2) in \<open>auto simp: fun_upd_twist split: if_splits\<close>)
  have clean: "evolves P e (fst (Remove t e))" if "files e = files d1 \<or> files e = files d" for e
  proof -
    obtain e' z where z: "Remove t e = (e', z)" by fastforce
    have "P ((files e)(t := None))" using that f1 P by (auto split: if_splits)
    then show ?thesis using Remove_evolves [OF z] z by simp
  qed
  have f2: "y = Inl err \<Longrightarrow> files d2 = files d1" for err using Rename_files [OF y] by auto
  have tail: "evolves P d1 d'"
    using assms(1) x y e2 clean [of d1] clean [of d2] f2
    by (auto simp: removeAndRename_def Let_def split: prod.splits sum.splits if_splits intro: evolves_trans)
  from evolves_trans [OF e1 this] show "evolves P d d'" .
  show "\<exists>bs. files d t = Some bs \<and> files d' = (files d)(t := None, p \<mapsto> bs)" if "is_ok r"
    using assms(1,2) x y f1 Rename_files [OF y] that
    by (auto simp: removeAndRename_def Let_def fun_upd_twist is_ok_def split: prod.splits sum.splits if_splits)
qed

lemma SaveStateToFile_cases:
  assumes "SaveStateToFile J sp p d = (d', r)"
  shows "(\<exists>err. r = Inl err) \<and> (\<forall>P. evolves P d d') \<and> files d' = files d
    \<or> (\<exists>d1 data w d2. encodedState J sp = Some data \<and> (\<forall>P. evolves P d d1) \<and> files d1 = files d
        \<and> WriteFile (p @ ''.tmp'') data d1 = (d2, w) \<and> (\<not> is_ok w \<longrightarrow> d' = d2 \<and> \<not> is_ok r)
        \<and> (is_ok w \<longrightarrow> removeAndRename StateOldReplaceFailed StateFinalizeFailed (p @ ''.tmp'') p d2 = (d', r)))"
  using assms
  by (auto simp: SaveStateToFile_def encodedState_def Let_def split: option.splits if_splits prod.splits sum.splits
      dest: ensure_dir_files)

text \<open>What follows the writing of a temporary file when the old file is removed first.\<close>

lemma tmp_remove_rename:
  assumes "evolves (off_target t (files d)) d d1" "is_ok w \<Longrightarrow> files d1 = (files d)(t \<mapsto> data)" "\<not> is_ok w \<Longrightarrow> d' = d1 \<and> \<not> is_ok r"
    and "is_ok w \<Longrightarrow> removeAndRename e1 e2 t p d1 = (d', r)" "t \<noteq> p"
  shows "evolves (\<lambda>fs. (fs p = files d p \<or> fs p = None \<or> fs p = Some data) \<and> (\<forall>q. q \<noteq> p \<and> q \<noteq> t \<longrightarrow> fs q = files d q)) d d'"
      (is "evolves ?P d d'")
    and "is_ok r \<Longrightarrow> files d' p = Some data"
proof -
  have e1: "evolves ?P d d1" by (rule evolves_mono [OF assms(1)]) (use assms(5) in \<open>simp add: off_target_def\<close>)
  show "evolves ?P d d'"
  proof (cases "is_ok w")
    case True
    have "evolves ?P d1 d'"
      by (rule removeAndRename_evolves(1) [OF assms(4) [OF True] assms(5)]) (use assms(2) [OF True] assms(5) in auto)
    with e1 show ?thesis by (rule evolves_trans)
  qed (use assms(3) e1 in blast)
  assume ok: "is_ok r"
  then have w: "is_ok w" using assms(3) by blast
  have T: "(\<lambda>_. True) x" for x :: "path \<rightharpoonup> bytes" by simp
  from removeAndRename_evolves(2) [OF assms(4) [OF w] assms(5) T T T T ok] assms(2) [OF w] assms(5)
  show "files d' p = Some data" by auto
qed

text \<open>What a routine does that removes the old file before the rename, however it writes the temporary file.\<close>

lemma remove_save:
  assumes "(\<exists>err. r = Inl err) \<and> (\<forall>P. evolves P d d') \<and> files d' = files d
    \<or> (\<exists>d1 data w d2. encoded = Some data \<and> (\<forall>P. evolves P d d1) \<and> files d1 = files d
        \<and> write data d1 = (d2, w) \<and> (\<not> is_ok w \<longrightarrow> d' = d2 \<and> \<not> is_ok r)
        \<and> (is_ok w \<longrightarrow> removeAndRename e1 e2 t p d2 = (d', r)))" "t \<noteq> p"
    and "\<And>data e e' x. write data e = (e', x) \<Longrightarrow> evolves (off_target t (files e)) e e'"
    and "\<And>data e e' x. write data e = (e', x) \<Longrightarrow> is_ok x \<Longrightarrow> files e' = (files e)(t \<mapsto> data)"
  shows "evolves (\<lambda>fs. (fs p = files d p \<or> fs p = None \<or> encoded \<noteq> None \<and> fs p = encoded)
      \<and> (\<forall>q. q \<noteq> p \<and> q \<notin> {t} \<longrightarrow> fs q = files d q)) d d'" (is "evolves ?P d d'")
    and "is_ok r \<Longrightarrow> encoded \<noteq> None \<and> files d' p = encoded"
proof -
  have "evolves ?P d d' \<and> (is_ok r \<longrightarrow> encoded \<noteq> None \<and> files d' p = encoded)"
    using assms(1)
  proof (elim disjE exE conjE)
    fix d1 data w d2
    assume a: "encoded = Some data" "\<forall>P. evolves P d d1" "files d1 = files d"
      "write data d1 = (d2, w)" "\<not> is_ok w \<longrightarrow> d' = d2 \<and> \<not> is_ok r" "is_ok w \<longrightarrow> removeAndRename e1 e2 t p d2 = (d', r)"
    note w = tmp_remove_rename [where w = w, OF assms(3,4) [OF a(4)] a(5,6) [rule_format] assms(2)]
    have "evolves ?P d1 d'" by (rule evolves_mono [OF w(1)]) (use a(1,3) in auto)
    with a(2) have "evolves ?P d d'" by (blast intro: evolves_trans)
    with w(2) a(1) show ?thesis by simp
  qed (auto simp: is_ok_def)
  then show "evolves ?P d d'" "is_ok r \<Longrightarrow> encoded \<noteq> None \<and> files d' p = encoded" by blast+
qed

lemma SaveStateToFile_store:
  assumes "SaveStateToFile J sp p d = (d', r)"
  shows "evolves (\<lambda>fs. (fs p = files d p \<or> fs p = None \<or> encodedState J sp \<noteq> None \<and> fs p = encodedState J sp)
      \<and> (\<forall>q. q \<noteq> p \<and> q \<notin> {p @ ''.tmp''} \<longrightarrow> fs q = files d q)) d d'"
    and "is_ok r \<Longrightarrow> encodedState J sp \<noteq> None \<and> files d' p = encodedState J sp"
  by (rule remove_save [OF SaveStateToFile_cases [OF assms] tmp_neq(1) WriteFile_off_target], assumption+)+

interpretation state_file: file_store "SaveStateToFile J sp p" p "{p @ ''.tmp''}" "encodedState J sp" for J sp p
  by unfold_locales (erule SaveStateToFile_store, auto dest: SaveStateToFile_store(2) simp: is_ok_def)

section \<open>Loading\<close>

lemma addStoredBlocks_inv:
  assumes "chain_inv C c" "addStoredBlocks C clk i c bps = Inr e"
  shows "chain_inv C e \<and> map Some (blocks e) = map Some (blocks c) @ bps \<and> network e = network c
    \<and> powPolicy e = powPolicy c \<and> proofVerifier e = proofVerifier c"
  using assms
proof (induction C clk i c bps rule: addStoredBlocks.induct)
  case (2 C clk i c bp rest)
  from "2.prems"(2) obtain c' where a: "AddBlock C (clk i) c bp = (c', Inr ())" "addStoredBlocks C clk (Suc i) c' rest = Inr e"
    by (auto split: prod.splits sum.splits)
  note inv = AddBlock_inv [OF "2.prems"(1) a(1)]
  from a(1) obtain b where b: "bp = Some b" by (cases bp) (auto simp: AddBlock_def)
  with a(1) have "blocks c' = blocks c @ [b]" unfolding b AddBlock_ok_iff by auto
  with "2.IH" [OF a(1) [symmetric] refl inv(1) a(2)] inv b show ?case by simp
qed simp

lemma addStoredBlocks_replay:
  assumes "chain_inv C c" "blocks c = pre @ rest" "pre \<noteq> []"
    and "\<forall>b\<in>set rest. \<forall>i. blkTimestamp b \<le> wrap64 (clk i + MaxFutureBlockSeconds)"
  shows "addStoredBlocks C clk i (c\<lparr>blocks := pre, totalWork := work_sum pre\<rparr>) (map Some rest) = Inr c"
  using assms(2-4)
proof (induction rest arbitrary: pre i)
  case Nil
  then show ?case using assms(1) by (simp add: chain_inv_def)
next
  case (Cons b rest)
  obtain V where V: "proofVerifier c = Some V" using assms(1) by (auto simp: chain_inv_def split: option.splits)
  have "\<forall>i\<in>{1..<length (blocks c)}. extends C (powPolicy c) V (take i (blocks c)) (blocks c ! i)"
    using assms(1) V by (simp add: chain_inv_def list_all_iff)
  moreover have "length pre \<in> {1..<length (blocks c)}" using Cons.prems(1,2) by (simp add: Suc_le_eq)
  ultimately have "extends C (powPolicy c) V (take (length pre) (blocks c)) (blocks c ! length pre)" by blast
  then have "extends C (powPolicy c) V pre b" using Cons.prems(1) by (simp add: nth_append)
  then have "AddBlock C (clk i) (c\<lparr>blocks := pre, totalWork := work_sum pre\<rparr>) (Some b)
      = (c\<lparr>blocks := pre @ [b], totalWork := work_sum (pre @ [b])\<rparr>, Inr ())"
    unfolding AddBlock_ok_iff using Cons.prems V by (simp add: work_sum_def)
  with Cons.IH [of "pre @ [b]" "Suc i"] Cons.prems show ?case by simp
qed

lemma LoadChain_ok:
  assumes "LoadChainFromFileForWithConsensus C clk J p net policy vp d = (d', Inr c)"
  shows "chain_inv C c" "network c = net" "powPolicy c = policy" "proofVerifier c = vp"
    "\<exists>data. files d p = Some data \<and> Unmarshal J data = Inr (map Some (blocks c))"
proof -
  from assms obtain data g rest c0 where l: "ReadFile p d = (d', Inr data)" "Unmarshal J data = Inr (Some g # rest)"
    "newChainFromGenesisForNetworkWithConsensus C net (Some g) policy vp = Inr c0" "addStoredBlocks C clk 1 c0 rest = Inr c"
    by (auto simp: LoadChainFromFileForWithConsensus_def split: if_splits sum.splits prod.splits list.splits option.splits)
  note n = newChain_inv [OF l(3)]
  from addStoredBlocks_inv [OF n(1) l(4)] n show "chain_inv C c" "network c = net" "powPolicy c = policy" "proofVerifier c = vp"
    by simp_all
  show "\<exists>data. files d p = Some data \<and> Unmarshal J data = Inr (map Some (blocks c))"
    using addStoredBlocks_inv [OF n(1) l(4)] n(5) ReadFile_ok [OF l(1)] l(2) by auto
qed

lemma LoadChain_saved:
  assumes "chain_inv C c" "p \<noteq> ''''" "ReadFile p d = (d', Inr data)" "Unmarshal J data = Inr (map Some (blocks c))"
    and "newChainFromGenesisForNetworkWithConsensus C (network c) (Some (hd (blocks c))) (powPolicy c) (proofVerifier c) = Inr c0"
    and "\<forall>b\<in>set (blocks c). \<forall>i. blkTimestamp b \<le> wrap64 (clk i + MaxFutureBlockSeconds)"
  shows "LoadChainFromFileForWithConsensus C clk J p (network c) (powPolicy c) (proofVerifier c) d = (d', Inr c)"
proof -
  obtain g rest where b: "blocks c = g # rest" using assms(1) by (cases "blocks c") (auto simp: chain_inv_def)
  note n = newChain_inv [OF assms(5)]
  have "c0 = c\<lparr>blocks := [g], totalWork := work_sum [g]\<rparr>"
    using n assms(5) b by (cases c0; cases c) (auto simp: chain_inv_def)
  moreover have "addStoredBlocks C clk 1 (c\<lparr>blocks := [g], totalWork := work_sum [g]\<rparr>) (map Some rest) = Inr c"
    by (rule addStoredBlocks_replay [OF assms(1)]) (use b assms(6) in auto)
  moreover have "\<exists>policy. MonetaryPolicyFor (network c) = Inr policy"
    using assms(5) by (auto simp: newChainFromGenesisForNetworkWithConsensus_def split: option.splits sum.splits)
  ultimately show ?thesis
    using assms(2-5) b by (auto simp: LoadChainFromFileForWithConsensus_def)
qed

lemma LoadState_saved:
  assumes "p \<noteq> ''''" "ReadFile p d = (d', Inr data)" "Unmarshal J data = Inr (stateData s)"
    and "ValidateMonetaryPolicy (monetaryPolicy s) = Inr ()" "developmentAddress s = DevelopmentTreasuryAddress"
      "issuedSupply s \<le> MaxSupplyFor (monetaryPolicy s)"
  shows "LoadStateFromFile J p d = (d', Inr s)"
  using assms by (simp add: LoadStateFromFile_def stateData_def)

lemma LoadState_ok:
  assumes "LoadStateFromFile J p d = (d', Inr s)"
  shows "ValidateMonetaryPolicy (monetaryPolicy s) = Inr ()" "developmentAddress s = DevelopmentTreasuryAddress"
    "issuedSupply s \<le> MaxSupplyFor (monetaryPolicy s)"
  using assms
  by (auto simp: LoadStateFromFile_def ValidateMonetaryPolicy_def split: if_splits sum.splits prod.splits)

section \<open>Restarting\<close>

text \<open>The disk that a new process finds, on which no call fails.\<close>

definition reboot :: "(path \<rightharpoonup> bytes) \<Rightarrow> disk" where
  "reboot fs = \<lparr>files = fs, faults = [], seen = []\<rparr>"

lemma ReadFile_reboot: "ReadFile p (reboot fs) = (reboot fs, case fs p of None \<Rightarrow> Inl ErrNotExist | Some bs \<Rightarrow> Inr bs)"
  by (simp add: ReadFile_def reboot_def syscall_def split: option.splits)

lemma LoadChain_reboot:
  assumes "fs p = gs p"
  shows "snd (LoadChainFromFileForWithConsensus C clk J p net policy vp (reboot fs))
    = snd (LoadChainFromFileForWithConsensus C clk J p net policy vp (reboot gs))"
  using assms by (simp add: LoadChainFromFileForWithConsensus_def ReadFile_reboot split: option.splits sum.splits)

text \<open>How the calls run when none of them fails.\<close>

lemmas fault_free = ensure_dir_def MkdirAll_def call_only_def WriteFile_def write_at_def syscall_def removeAndRename_def
  Remove_def Rename_def pass_through_def prefix_states_def OpenTruncate_def FileWrite_def FileSync_def FileClose_def
  OpenExclusive_def ReadFile_def ErrNotExist_def IsNotExist_def Let_def

section \<open>A small instance\<close>

text \<open>A codec that knows one value: it encodes as a single byte, and nothing else decodes.\<close>

definition small_json :: "'a \<Rightarrow> 'a json" where
  "small_json v = \<lparr>Marshal = (\<lambda>_. Inr [1]), Unmarshal = (\<lambda>bs. if bs = [1] then Inr v else Inl JSONInvalid)\<rparr>"

lemma small_json_ok: "json_ok (small_json v) v"
  by (simp add: json_ok_def small_json_def)

definition small_disk :: disk where
  "small_disk = \<lparr>files = [''c'' \<mapsto> [7], ''s'' \<mapsto> [7]], faults = [None, Some (FailPartial SyscallFailed 0)], seen = []\<rparr>"

lemma small_dirs: "Dir ''c'' = ''.''" "Dir ''s'' = ''.''"
  by code_simp+

lemma small_times: "b \<in> set (blocks (small_chain 7)) \<Longrightarrow> blkTimestamp b \<le> wrap64 (small_clock 0 i + MaxFutureBlockSeconds)"
  by (auto simp: small_block_def UpdateMerkleRoot_def small_clock_def wrap64_def go_const)

section \<open>Properties\<close>

text \<open>C14: saving the chain is atomic under every fault and every kill of the process: whatever system
  call fails and wherever the process stops, the next start loads either the chain that was saved, or
  exactly what it would have loaded before; a save that reports success has stored the chain, and one
  that reports an error has kept the old file.\<close>

theorem chain_file_crash_safe:
  assumes "SaveChainToFile J (Some c) p d = (d', r)" "p \<noteq> ''''" "json_ok J (map Some (blocks c))" "chain_inv C c"
    and "newChainFromGenesisForNetworkWithConsensus C (network c) (Some (hd (blocks c))) (powPolicy c) (proofVerifier c) = Inr c0"
    and "\<forall>b\<in>set (blocks c). \<forall>i. blkTimestamp b \<le> wrap64 (clk i + MaxFutureBlockSeconds)"
  defines "start fs \<equiv> snd (LoadChainFromFileForWithConsensus C clk J p (network c) (powPolicy c) (proofVerifier c) (reboot fs))"
  shows "(\<forall>fs\<in>set (crash_states d d'). start fs = Inr c \<or> start fs = start (files d))
    \<and> (if is_ok r then start (files d') = Inr c else start (files d') = start (files d))
    \<and> (\<forall>fs\<in>set (crash_states d d'). \<forall>q. q \<noteq> p \<and> q \<noteq> p @ ''.tmp'' \<longrightarrow> fs q = files d q)"
proof -
  obtain bs where bs: "encodedChain J (Some c) = Some bs" "Unmarshal J bs = Inr (map Some (blocks c))"
    using assms(3) by (auto simp: json_ok_def encodedChain_def)
  have new: "start fs = Inr c" if "fs p = Some bs" for fs
    using LoadChain_saved [OF assms(4,2) _ bs(2) assms(5,6), of "reboot fs" "reboot fs"] that
    by (simp add: start_def ReadFile_reboot)
  have old: "start fs = start (files d)" if "fs p = files d p" for fs
    unfolding start_def by (rule LoadChain_reboot) (rule that)
  have "start fs = Inr c \<or> start fs = start (files d)" if "fs \<in> set (crash_states d d')" for fs
    using chain_file.old_or_new [OF assms(1) that] bs(1) new [of fs] old [of fs] by (elim disjE) simp_all
  moreover have "if is_ok r then start (files d') = Inr c else start (files d') = start (files d)"
    using SaveChainToFile_store(2) [OF assms(1)] bs(1) new [of "files d'"] old [of "files d'"] by (simp split: if_splits)
  moreover have "fs q = files d q" if "fs \<in> set (crash_states d d')" "q \<noteq> p" "q \<noteq> p @ ''.tmp''" for fs q
    using chain_file.others [OF assms(1) that(1,2)] that(3) by simp
  ultimately show ?thesis by blast
qed

theorem chain_file_crash_safe_witness:
  "\<exists>err d'. SaveChainToFile (small_json (map Some (blocks (small_chain 7)))) (Some (small_chain 7)) ''c'' small_disk = (d', Inl err)
     \<and> files d' ''c'' = Some [7] \<and> files d' ''c.tmp'' = Some [1]
     \<and> (\<forall>fs\<in>set (crash_states small_disk d'). fs ''s'' = Some [7])"
proof -
  let ?J = "small_json (map Some (blocks (small_chain 7)))"
  obtain d' r where s: "SaveChainToFile ?J (Some (small_chain 7)) ''c'' small_disk = (d', r)" by fastforce
  then have "\<exists>err. r = Inl err" "files d' ''c'' = Some [7]" "files d' ''c.tmp'' = Some [1]"
    by (auto simp: SaveChainToFile_def ensure_dir_def small_dirs small_json_def small_disk_def WriteFile_def write_at_def
        syscall_def Rename_def fault_error_def pass_through_def prefix_states_def Let_def)
  moreover have "\<forall>fs\<in>set (crash_states small_disk d'). fs ''s'' = Some [7]"
  proof
    fix fs assume "fs \<in> set (crash_states small_disk d')"
    moreover have "\<forall>b\<in>set (blocks (small_chain 7)). \<forall>i. blkTimestamp b \<le> wrap64 (small_clock 0 i + MaxFutureBlockSeconds)"
      using small_times by blast
    ultimately have "fs ''s'' = files small_disk ''s''"
      using chain_file_crash_safe [OF s _ small_json_ok chain_history_inv [OF small_chain_history], of small_genesis_chain "small_clock 0"]
        small_rebuilt by simp
    then show "fs ''s'' = Some [7]" by (simp add: small_disk_def)
  qed
  ultimately show ?thesis using s by blast
qed

text \<open>C31: the state file is not replaced atomically: whenever a state is saved over an existing file
  and no call fails, there is a moment at which the old file is already gone and the new one not yet
  in place, so a process killed then has no state file at its next start. It is never torn, though:
  at every moment the file is the old one, missing, or complete.\<close>

theorem state_file_vanishes:
  assumes "SaveStateToFile J (Some s) p d = (d', r)" "p \<noteq> ''''" "files d p \<noteq> None" "Marshal J (stateData s) = Inr bs"
  shows "(\<forall>fs\<in>set (crash_states d d'). fs p = files d p \<or> fs p = None \<or> fs p = Some bs)
    \<and> (faults d = [] \<longrightarrow> is_ok r \<and> files d' p = Some bs \<and>
         (\<exists>fs\<in>set (crash_states d d'). fs p = None
            \<and> snd (LoadStateFromFile J p (reboot fs)) = Inl ErrNotExist))"
proof -
  have e: "encodedState J (Some s) = Some bs" using assms(4) by (simp add: encodedState_def)
  have "fs p = files d p \<or> fs p = None \<or> fs p = Some bs" if "fs \<in> set (crash_states d d')" for fs
    using state_file.never_torn [OF assms(1) that] e by auto
  moreover have "is_ok r \<and> files d' p = Some bs \<and> (\<exists>fs\<in>set (crash_states d d'). fs p = None)" if f: "faults d = []"
    using assms f
    by (auto simp: SaveStateToFile_def ensure_dir_def MkdirAll_def call_only_def WriteFile_def write_at_def syscall_def
        removeAndRename_def Remove_def Rename_def pass_through_def prefix_states_def crash_states_def is_ok_def
        Let_def split: if_splits)
  moreover have "snd (LoadStateFromFile J p (reboot fs)) = Inl ErrNotExist" if "fs p = None" for fs
    using that assms(2) by (simp add: LoadStateFromFile_def ReadFile_reboot)
  ultimately show ?thesis by blast
qed

theorem state_file_vanishes_witness:
  "\<exists>d'. SaveStateToFile (small_json (stateData small_start_state)) (Some small_start_state) ''s'' (reboot [''s'' \<mapsto> [7]])
       = (d', Inr ()) \<and> (\<exists>fs\<in>set (crash_states (reboot [''s'' \<mapsto> [7]]) d'). fs ''s'' = None)"
proof -
  obtain d' r where s: "SaveStateToFile (small_json (stateData small_start_state)) (Some small_start_state) ''s''
      (reboot [''s'' \<mapsto> [7]]) = (d', r)" by fastforce
  have "Marshal (small_json (stateData small_start_state)) (stateData small_start_state) = Inr [1]"
    by (simp add: small_json_def)
  from state_file_vanishes [OF s _ _ this] s show ?thesis by (auto simp: reboot_def is_ok_def split: sum.splits)
qed

end
