(* ===== verification/WalletStorage.thy ===== *)
theory WalletStorage
  imports Disk Wallet Storage
begin

text \<open>
  Wallet files: \<open>wallet/storage.go\<close> (the plain format), \<open>wallet/encrypted_storage.go\<close> (scrypt and
  AES-256-GCM) and \<open>wallet/management.go\<close> (backup and change of the password). Key derivation and
  authenticated encryption are the argument record \<open>sealing\<close>; that opening inverts sealing is a named
  hypothesis. Random bytes and the names that \<open>os.CreateTemp\<close> draws are arguments. A wallet always has
  a private key in the model, so the guards against a nil key are left out.

  The lemmas show that a saved wallet opens again with its password, that a backup never overwrites
  a file and never touches its source, and that the private key survives a change of the password at
  every moment, whatever system call fails and wherever the process is killed.
\<close>

section \<open>Sealing\<close>

text \<open>\<open>scrypt.Key\<close> with password, salt, \<open>N\<close>, \<open>r\<close>, \<open>p\<close> and key length; \<open>Seal\<close> and \<open>Open\<close> of AES-GCM with
  key and nonce.\<close>

record sealing =
  scryptKey :: "bytes \<Rightarrow> bytes \<Rightarrow> nat \<Rightarrow> nat \<Rightarrow> nat \<Rightarrow> nat \<Rightarrow> bytes result"
  gcmSeal :: "bytes \<Rightarrow> bytes \<Rightarrow> bytes \<Rightarrow> bytes"
  gcmOpen :: "bytes \<Rightarrow> bytes \<Rightarrow> bytes \<Rightarrow> bytes option"

definition sealing_ok :: "sealing \<Rightarrow> bool" where
  "sealing_ok S \<longleftrightarrow> (\<forall>k n m. gcmOpen S k n (gcmSeal S k n m) = Some m)
     \<and> (\<forall>pw salt k. scryptKey S pw salt 32768 8 1 32 = Inr k \<longrightarrow> length k = 32)"

text \<open>\<open>aes.NewCipher\<close> accepts the three AES key sizes; a GCM nonce has twelve bytes.\<close>

definition NewCipher :: "bytes \<Rightarrow> unit result" where
  "NewCipher key =
     (if length key \<in> {16, 24, 32} then Inr ()
      else Inl (Errorf ''crypto/aes: invalid key size %d'' [dec (length key)]))"

definition NonceSize :: nat where
  "NonceSize = 12"

definition scryptN :: nat where
  [go_const]: "scryptN = 32768"

definition scryptR :: nat where
  [go_const]: "scryptR = 8"

definition scryptP :: nat where
  [go_const]: "scryptP = 1"

definition scryptKeyLen :: nat where
  [go_const]: "scryptKeyLen = 32"

definition walletSaltSize :: nat where
  [go_const]: "walletSaltSize = 16"

text \<open>\<open>big.Int.Bytes\<close>: big-endian without leading zeros.\<close>

function int_bytes :: "nat \<Rightarrow> bytes" where
  "int_bytes n = (if n = 0 then [] else int_bytes (n div 256) @ [of_nat n])"
  by pat_completeness auto
termination by (relation "measure id") auto

declare int_bytes.simps [simp del]

section \<open>The plain format\<close>

record walletFile =
  wfPrivateKey :: string

definition SaveWalletToFile :: "walletFile json \<Rightarrow> wallet option \<Rightarrow> path \<Rightarrow> disk \<Rightarrow> (disk, unit) outcome" where
  "SaveWalletToFile J walletp p d =
     (case walletp of
       None \<Rightarrow> (d, Inl (Errorf ''wallet cannot be nil'' []))
     | Some w \<Rightarrow>
     if p = '''' then (d, Inl (Errorf ''wallet path cannot be empty'' []))
     else (case Marshal J \<lparr>wfPrivateKey = hex_encode (int_bytes (PrivateKey w))\<rparr> of
       Inl err \<Rightarrow> (d, Inl (Wrapf ''failed to encode wallet: %w'' [] err))
     | Inr data \<Rightarrow>
     (case ensure_dir p d of
       (d1, Inl err) \<Rightarrow> (d1, Inl (Wrapf ''failed to create wallet directory: %w'' [] err))
     | (d1, Inr _) \<Rightarrow>
     (case WriteFile p data d1 of
       (d2, Inl err) \<Rightarrow> (d2, Inl (Wrapf ''failed to save wallet: %w'' [] err))
     | (d2, Inr _) \<Rightarrow> (d2, Inr ())))))"

definition LoadWalletFromFile :: "crypto \<Rightarrow> walletFile json \<Rightarrow> path \<Rightarrow> disk \<Rightarrow> (disk, wallet) outcome" where
  "LoadWalletFromFile C J p d =
     (if p = '''' then (d, Inl (Errorf ''wallet path cannot be empty'' []))
      else (case ReadFile p d of
        (d1, Inl err) \<Rightarrow> (d1, Inl (Wrapf ''failed to read wallet: %w'' [] err))
      | (d1, Inr data) \<Rightarrow> (d1,
      (case Unmarshal J data of
        Inl err \<Rightarrow> Inl (Wrapf ''invalid wallet file: %w'' [] err)
      | Inr stored \<Rightarrow>
      (case hex_decode (wfPrivateKey stored) of
        None \<Rightarrow> Inl (Errorf ''invalid private key encoding: %w'' [])
      | Some privateBytes \<Rightarrow>
      if length privateBytes = 0 then Inl EmptyPrivateKey
      else (let x = be_nat privateBytes in
        if x = 0 \<or> x \<ge> p256_order C then Inl (Errorf ''invalid private key value'' [])
        else (let publicKey = p256_marshal C (p256_base_mult C x) in
          Inr \<lparr>PrivateKey = x, PublicKey = publicKey, Address = AddressFromPublicKey C publicKey\<rparr>)))))))"

section \<open>The encrypted format\<close>

record encryptedWalletFile =
  ewVersion :: u32
  ewKDF :: string
  ewCipher :: string
  ewSalt :: string
  ewNonce :: string
  ewCiphertext :: string

text \<open>What the random source gives for the salt and for the nonce.\<close>

record wallet_random =
  drawSalt :: "bytes result"
  drawNonce :: "bytes result"

definition encryptedData :: "sealing \<Rightarrow> bytes \<Rightarrow> bytes \<Rightarrow> bytes \<Rightarrow> wallet \<Rightarrow> encryptedWalletFile" where
  "encryptedData S key salt nonce w =
     \<lparr>ewVersion = 1, ewKDF = ''scrypt'', ewCipher = ''aes-256-gcm'', ewSalt = hex_encode salt, ewNonce = hex_encode nonce,
      ewCiphertext = hex_encode (gcmSeal S key nonce (int_bytes (PrivateKey w)))\<rparr>"

definition SaveEncrypted ::
  "sealing \<Rightarrow> encryptedWalletFile json \<Rightarrow> wallet_random \<Rightarrow> wallet option \<Rightarrow> path \<Rightarrow> string \<Rightarrow> disk \<Rightarrow> (disk, unit) outcome" where
  "SaveEncrypted S J rnd walletp p password d =
     (case walletp of
       None \<Rightarrow> (d, Inl (Errorf ''wallet cannot be nil'' []))
     | Some w \<Rightarrow>
     if p = '''' then (d, Inl (Errorf ''wallet path cannot be empty'' []))
     else if length password < 12
     then (d, Inl (Errorf ''wallet password must contain at least 12 characters'' []))
     else (case drawSalt rnd of
       Inl err \<Rightarrow> (d, Inl (Wrapf ''failed to generate wallet salt: %w'' [] err))
     | Inr salt \<Rightarrow>
     (case scryptKey S (bytes_of password) salt scryptN scryptR scryptP scryptKeyLen of
       Inl err \<Rightarrow> (d, Inl (Wrapf ''failed to derive encryption key: %w'' [] err))
     | Inr key \<Rightarrow>
     (case NewCipher key of
       Inl err \<Rightarrow> (d, Inl (Wrapf ''failed to create cipher: %w'' [] err))
     | Inr _ \<Rightarrow>
     (case drawNonce rnd of
       Inl err \<Rightarrow> (d, Inl (Wrapf ''failed to generate encryption nonce: %w'' [] err))
     | Inr nonce \<Rightarrow>
     (case Marshal J (encryptedData S key salt nonce w) of
       Inl err \<Rightarrow> (d, Inl (Wrapf ''failed to encode encrypted wallet: %w'' [] err))
     | Inr encoded \<Rightarrow>
     (case ensure_dir p d of
       (d1, Inl err) \<Rightarrow> (d1, Inl (Wrapf ''failed to create wallet directory: %w'' [] err))
     | (d1, Inr _) \<Rightarrow>
     (case WriteFile p encoded d1 of
       (d2, Inl err) \<Rightarrow> (d2, Inl (Wrapf ''failed to save encrypted wallet: %w'' [] err))
     | (d2, Inr _) \<Rightarrow> (d2, Inr ())))))))))"

text \<open>What is done with the bytes that were read.\<close>

definition decryptWallet :: "crypto \<Rightarrow> sealing \<Rightarrow> encryptedWalletFile json \<Rightarrow> string \<Rightarrow> bytes \<Rightarrow> wallet result" where
  "decryptWallet C S J password data =
     (case Unmarshal J data of
       Inl err \<Rightarrow> Inl (Wrapf ''invalid encrypted wallet file: %w'' [] err)
     | Inr stored \<Rightarrow>
     if ewVersion stored \<noteq> 1 then Inl (Errorf ''unsupported wallet version: %d'' [dec (unat (ewVersion stored))])
     else if ewKDF stored \<noteq> ''scrypt'' then Inl (Errorf ''unsupported wallet KDF'' [])
     else if ewCipher stored \<noteq> ''aes-256-gcm'' then Inl (Errorf ''unsupported wallet cipher'' [])
     else (case hex_decode (ewSalt stored) of
       None \<Rightarrow> Inl (Errorf ''invalid wallet salt'' [])
     | Some salt \<Rightarrow>
     if length salt \<noteq> walletSaltSize then Inl (Errorf ''invalid wallet salt'' [])
     else (case hex_decode (ewNonce stored) of
       None \<Rightarrow> Inl (Errorf ''invalid wallet nonce'' [])
     | Some nonce \<Rightarrow>
     (case hex_decode (ewCiphertext stored) of
       None \<Rightarrow> Inl (Errorf ''invalid wallet ciphertext'' [])
     | Some ciphertext \<Rightarrow>
     (case scryptKey S (bytes_of password) salt scryptN scryptR scryptP scryptKeyLen of
       Inl err \<Rightarrow> Inl (Wrapf ''failed to derive decryption key: %w'' [] err)
     | Inr key \<Rightarrow>
     (case NewCipher key of
       Inl err \<Rightarrow> Inl (Wrapf ''failed to create cipher: %w'' [] err)
     | Inr _ \<Rightarrow>
     if length nonce \<noteq> NonceSize then Inl (Errorf ''invalid wallet nonce size'' [])
     else (case gcmOpen S key nonce ciphertext of
       None \<Rightarrow> Inl (Errorf ''incorrect password or corrupted wallet'' [])
     | Some privateKeyBytes \<Rightarrow> walletFromPrivateKeyBytes C privateKeyBytes)))))))"

definition LoadEncrypted ::
  "crypto \<Rightarrow> sealing \<Rightarrow> encryptedWalletFile json \<Rightarrow> path \<Rightarrow> string \<Rightarrow> disk \<Rightarrow> (disk, wallet) outcome" where
  "LoadEncrypted C S J p password d =
     (if p = '''' then (d, Inl (Errorf ''wallet path cannot be empty'' []))
      else if password = '''' then (d, Inl (Errorf ''wallet password cannot be empty'' []))
      else (case ReadFile p d of
        (d1, Inl err) \<Rightarrow> (d1, Inl (Wrapf ''failed to read encrypted wallet: %w'' [] err))
      | (d1, Inr data) \<Rightarrow> (d1, decryptWallet C S J password data)))"


section \<open>Backup\<close>

text \<open>Opening a file for reading and changing its mode fail when it does not exist. Copying is a read
  followed by a write; a read that fails halfway has the effect of a write that fails there.\<close>

definition existing_only :: "path \<Rightarrow> disk \<Rightarrow> (disk, unit) outcome" where
  "existing_only p d =
     (case call_only d of
        (d1, Inl err) \<Rightarrow> (d1, Inl err)
      | (d1, Inr _) \<Rightarrow> (d1, if files d1 p = None then Inl ErrNotExist else Inr ()))"

definition OpenRead :: "path \<Rightarrow> disk \<Rightarrow> (disk, unit) outcome" where
  "OpenRead p d = existing_only p d"

definition Chmod :: "path \<Rightarrow> disk \<Rightarrow> (disk, unit) outcome" where
  "Chmod p d = existing_only p d"

definition copyFile :: "path \<Rightarrow> path \<Rightarrow> disk \<Rightarrow> (disk, unit) outcome" where
  "copyFile dst src d =
     (case ReadFile src d of (d1, Inl err) \<Rightarrow> (d1, Inl err) | (d1, Inr bs) \<Rightarrow> FileWrite dst bs d1)"

definition BackupEncrypted ::
  "crypto \<Rightarrow> sealing \<Rightarrow> encryptedWalletFile json \<Rightarrow> path \<Rightarrow> path \<Rightarrow> string \<Rightarrow> disk \<Rightarrow> (disk, string) outcome" where
  "BackupEncrypted C S J sourcePath destinationPath password d =
     (if sourcePath = '''' \<or> destinationPath = ''''
      then (d, Inl (Errorf ''source and destination wallet paths are required'' []))
      else if Clean sourcePath = Clean destinationPath
      then (d, Inl (Errorf ''backup destination must differ from source wallet'' []))
      else (case LoadEncrypted C S J sourcePath password d of
        (d1, Inl err) \<Rightarrow> (d1, Inl (Wrapf ''source wallet verification failed: %w'' [] err))
      | (d1, Inr sourceWallet) \<Rightarrow>
      (case OpenRead sourcePath d1 of
        (d2, Inl err) \<Rightarrow> (d2, Inl (Wrapf ''failed to open source wallet: %w'' [] err))
      | (d2, Inr _) \<Rightarrow>
      (let closeSource = (\<lambda>d. fst (FileClose sourcePath d));
           discard = (\<lambda>d. closeSource (fst (Remove destinationPath d)))
       in
      (case ensure_dir destinationPath d2 of
        (d3, Inl err) \<Rightarrow> (closeSource d3, Inl (Wrapf ''failed to create backup directory: %w'' [] err))
      | (d3, Inr _) \<Rightarrow>
      (case OpenExclusive destinationPath d3 of
        (d4, Inl err) \<Rightarrow> (closeSource d4, Inl (Wrapf ''failed to create backup wallet: %w'' [] err))
      | (d4, Inr _) \<Rightarrow>
      (case copyFile destinationPath sourcePath d4 of
        (d5, Inl err) \<Rightarrow> (discard (fst (FileClose destinationPath d5)), Inl (Wrapf ''failed to copy encrypted wallet: %w'' [] err))
      | (d5, Inr _) \<Rightarrow>
      (case FileSync destinationPath d5 of
        (d6, Inl err) \<Rightarrow> (discard (fst (FileClose destinationPath d6)), Inl (Wrapf ''failed to sync backup wallet: %w'' [] err))
      | (d6, Inr _) \<Rightarrow>
      (case FileClose destinationPath d6 of
        (d7, Inl err) \<Rightarrow> (discard d7, Inl (Wrapf ''failed to close backup wallet: %w'' [] err))
      | (d7, Inr _) \<Rightarrow>
      (case LoadEncrypted C S J destinationPath password d7 of
        (d8, Inl err) \<Rightarrow> (discard d8, Inl (Wrapf ''backup verification failed: %w'' [] err))
      | (d8, Inr backupWallet) \<Rightarrow>
          if Address backupWallet \<noteq> Address sourceWallet
          then (discard d8, Inl (Errorf ''backup address mismatch'' []))
          else (closeSource d8, Inr (Address sourceWallet))))))))))))"

section \<open>Changing the password\<close>

text \<open>\<open>os.CreateTemp\<close> creates the first of the names it draws that does not exist.\<close>

fun CreateTemp :: "path list \<Rightarrow> disk \<Rightarrow> (disk, path) outcome" where
  "CreateTemp [] d = (d, Inl ErrExist)"
| "CreateTemp (p # ps) d =
     (case OpenExclusive p d of
        (d1, Inl err) \<Rightarrow> if err = ErrExist then CreateTemp ps d1 else (d1, Inl err)
      | (d1, Inr _) \<Rightarrow> (d1, Inr p))"

text \<open>The original has been moved to the recovery path and comes back unless the new wallet verifies.
  A failed restoration is tried once more by the deferred call.\<close>

definition replaceWallet ::
  "crypto \<Rightarrow> sealing \<Rightarrow> encryptedWalletFile json \<Rightarrow> path \<Rightarrow> string \<Rightarrow> wallet \<Rightarrow> path \<Rightarrow> path \<Rightarrow> disk \<Rightarrow> (disk, string) outcome" where
  "replaceWallet C S J p newPassword w tempPath originalPath d =
     (case Rename tempPath p d of
       (d1, Inl err) \<Rightarrow>
         (case Rename originalPath p d1 of
            (d2, Inl restoreErr) \<Rightarrow> (fst (Rename originalPath p d2), Inl (Errorf
              ''wallet replacement failed (%v) and original restore failed (%v); original remains at %s'' [originalPath]))
          | (d2, Inr _) \<Rightarrow> (d2, Inl (Wrapf ''failed to replace wallet after password rotation: %w'' [] err)))
     | (d1, Inr _) \<Rightarrow>
         (case LoadEncrypted C S J p newPassword d1 of
           (d2, finalCheck) \<Rightarrow>
           if (case finalCheck of Inl _ \<Rightarrow> True | Inr check \<Rightarrow> Address check \<noteq> Address w)
           then (case Rename originalPath p (fst (Remove p d2)) of
               (d3, Inl restoreErr) \<Rightarrow> (fst (Rename originalPath p d3),
                 Inl (Errorf ''rotated wallet verification failed and original restore failed: %v'' []))
             | (d3, Inr _) \<Rightarrow> (d3, (case finalCheck of
                   Inl err \<Rightarrow> Inl (Wrapf ''rotated wallet verification failed: %w'' [] err)
                 | Inr _ \<Rightarrow> Inl (Errorf ''rotated wallet address mismatch'' []))))
           else (case Remove originalPath d2 of
               (d3, Inl err) \<Rightarrow> (d3, Inl (Wrapf
                 ''password changed but failed to remove temporary original wallet copy at %s: %w'' [originalPath] err))
             | (d3, Inr _) \<Rightarrow> (d3, Inr (Address w)))))"

text \<open>The reserved recovery path is freed again and takes the original.\<close>

definition setAsideWallet ::
  "crypto \<Rightarrow> sealing \<Rightarrow> encryptedWalletFile json \<Rightarrow> path \<Rightarrow> string \<Rightarrow> wallet \<Rightarrow> path \<Rightarrow> path \<Rightarrow> disk \<Rightarrow> (disk, string) outcome" where
  "setAsideWallet C S J p newPassword w tempPath originalPath d =
     (case FileClose originalPath d of
       (d1, Inl err) \<Rightarrow> (fst (Remove originalPath d1), Inl (Wrapf ''failed to prepare original wallet recovery path: %w'' [] err))
     | (d1, Inr _) \<Rightarrow>
     (case Remove originalPath d1 of
       (d2, Inl err) \<Rightarrow> (d2, Inl (Wrapf ''failed to prepare original wallet recovery path: %w'' [] err))
     | (d2, Inr _) \<Rightarrow>
     (case Rename p originalPath d2 of
       (d3, Inl err) \<Rightarrow> (d3, Inl (Wrapf ''failed to preserve original wallet before replacement: %w'' [] err))
     | (d3, Inr _) \<Rightarrow> replaceWallet C S J p newPassword w tempPath originalPath d3)))"

definition rotateWallet ::
  "crypto \<Rightarrow> sealing \<Rightarrow> encryptedWalletFile json \<Rightarrow> wallet_random \<Rightarrow> path list \<Rightarrow> path \<Rightarrow> string \<Rightarrow> wallet \<Rightarrow> path \<Rightarrow> disk \<Rightarrow> (disk, string) outcome" where
  "rotateWallet C S J rnd originals p newPassword w tempPath d =
     (case SaveEncrypted S J rnd (Some w) tempPath newPassword d of
       (d1, Inl err) \<Rightarrow> (d1, Inl (Wrapf ''failed to encrypt wallet with new password: %w'' [] err))
     | (d1, Inr _) \<Rightarrow>
     (case Chmod tempPath d1 of
       (d2, Inl err) \<Rightarrow> (d2, Inl (Wrapf ''failed to secure temporary wallet permissions: %w'' [] err))
     | (d2, Inr _) \<Rightarrow>
     (case LoadEncrypted C S J tempPath newPassword d2 of
       (d3, Inl err) \<Rightarrow> (d3, Inl (Wrapf ''new encrypted wallet verification failed: %w'' [] err))
     | (d3, Inr check) \<Rightarrow>
     if Address check \<noteq> Address w then (d3, Inl (Errorf ''password rotation changed wallet address'' []))
     else (case CreateTemp originals d3 of
       (d4, Inl err) \<Rightarrow> (d4, Inl (Wrapf ''failed to reserve original wallet recovery path: %w'' [] err))
     | (d4, Inr originalPath) \<Rightarrow> setAsideWallet C S J p newPassword w tempPath originalPath d4))))"

definition ChangeEncryptedPassword ::
  "crypto \<Rightarrow> sealing \<Rightarrow> encryptedWalletFile json \<Rightarrow> wallet_random \<Rightarrow> path list \<Rightarrow> path list \<Rightarrow> path \<Rightarrow> string \<Rightarrow> string \<Rightarrow> disk
   \<Rightarrow> (disk, string) outcome" where
  "ChangeEncryptedPassword C S J rnd temps originals p currentPassword newPassword d =
     (if p = '''' then (d, Inl (Errorf ''wallet path cannot be empty'' []))
      else if currentPassword = newPassword
      then (d, Inl (Errorf ''new wallet password must differ from current password'' []))
      else (case LoadEncrypted C S J p currentPassword d of
        (d1, Inl err) \<Rightarrow> (d1, Inl (Wrapf ''current wallet password verification failed: %w'' [] err))
      | (d1, Inr w) \<Rightarrow>
      if length newPassword < 12
      then (d1, Inl (Errorf ''new wallet password must contain at least 12 characters'' []))
      else (case CreateTemp temps d1 of
        (d2, Inl err) \<Rightarrow> (d2, Inl (Wrapf ''failed to create temporary wallet file: %w'' [] err))
      | (d2, Inr tempPath) \<Rightarrow>
      (case FileClose tempPath d2 of
        (d3, Inl err) \<Rightarrow> (fst (Remove tempPath d3), Inl (Wrapf ''failed to prepare temporary wallet file: %w'' [] err))
      | (d3, Inr _) \<Rightarrow>
      (case rotateWallet C S J rnd originals p newPassword w tempPath d3 of
        (d4, r) \<Rightarrow> (fst (Remove tempPath d4), r))))))"


section \<open>Opening what was sealed\<close>

lemma be_nat_int_bytes [simp]: "be_nat (int_bytes n) = n"
proof (induction n rule: int_bytes.induct)
  case (1 n)
  then show ?case by (simp add: int_bytes.simps [of n] be_nat_append_one unat_of_nat) (simp add: be_nat_def)
qed

lemma int_bytes_Nil [simp]: "int_bytes n = [] \<longleftrightarrow> n = 0"
  by (subst int_bytes.simps) simp

text \<open>A wallet that was restored from a key is restored from its own key.\<close>

lemma wallet_from_own_key:
  "walletFromPrivateKeyBytes C bs = Inr w \<Longrightarrow> walletFromPrivateKeyBytes C (int_bytes (PrivateKey w)) = Inr w"
  by (auto simp: walletFromPrivateKeyBytes_def Let_def split: if_splits)

text \<open>The wallet has the key pair and the address of its private key.\<close>

definition wallet_of_key :: "crypto \<Rightarrow> wallet \<Rightarrow> bool" where
  "wallet_of_key C w \<longleftrightarrow> walletFromPrivateKeyBytes C (int_bytes (PrivateKey w)) = Inr w"

lemma decryptWallet_of_key: "decryptWallet C S J password data = Inr w \<Longrightarrow> wallet_of_key C w"
  by (auto simp: decryptWallet_def wallet_of_key_def intro: wallet_from_own_key split: sum.splits option.splits if_splits)

lemma decrypt_sealed:
  assumes "sealing_ok S" "wallet_of_key C w" "length salt = 16" "length nonce = 12"
    and "scryptKey S (bytes_of password) salt scryptN scryptR scryptP scryptKeyLen = Inr key"
    and "Unmarshal J data = Inr (encryptedData S key salt nonce w)"
  shows "decryptWallet C S J password data = Inr w"
proof -
  have "length key = 32" "gcmOpen S key nonce (gcmSeal S key nonce m) = Some m" for m
    using assms(1,5) by (auto simp: sealing_ok_def go_const)
  with assms show ?thesis
    by (simp add: decryptWallet_def encryptedData_def NewCipher_def NonceSize_def walletSaltSize_def wallet_of_key_def)
qed

lemma plain_wallet_loads:
  assumes "SaveWalletToFile J (Some w) p d = (d', Inr u)" "wallet_of_key C w"
    and "json_ok J \<lparr>wfPrivateKey = hex_encode (int_bytes (PrivateKey w))\<rparr>"
  shows "snd (LoadWalletFromFile C J p (reboot (files d'))) = Inr w"
proof -
  from assms(1) obtain d1 bs where s: "p \<noteq> []" "Marshal J \<lparr>wfPrivateKey = hex_encode (int_bytes (PrivateKey w))\<rparr> = Inr bs"
    "WriteFile p bs d1 = (d', Inr ())"
    by (auto simp: SaveWalletToFile_def split: if_splits sum.splits prod.splits)
  then have "files d' p = Some bs" using write_results(1) [of p bs d1 d' "Inr ()"] by simp
  moreover have "Unmarshal J bs = Inr \<lparr>wfPrivateKey = hex_encode (int_bytes (PrivateKey w))\<rparr>" using assms(3) s(2) by (auto simp: json_ok_def)
  ultimately show ?thesis
    using assms(2) s(1) by (auto simp: LoadWalletFromFile_def ReadFile_reboot wallet_of_key_def walletFromPrivateKeyBytes_def Let_def
        split: if_splits)
qed

section \<open>What the routines leave on the disk\<close>

text \<open>Every contents the disk takes on the way, and the last one, satisfies the predicate. The rules follow
  the shape of the code: one for a call whose result decides how to go on, one for each call.\<close>

definition runs :: "((path \<rightharpoonup> bytes) \<Rightarrow> bool) \<Rightarrow> disk \<Rightarrow> disk \<Rightarrow> bool" where
  "runs P d0 d \<longleftrightarrow> evolves P d0 d \<and> P (files d)"

named_theorems runs_rules \<open>steps of a run\<close>

lemma runs_start: "P (files d) \<Longrightarrow> runs P d d"
  by (simp add: runs_def)

lemma runs_mono: "runs P d0 d \<Longrightarrow> (\<And>fs. P fs \<Longrightarrow> Q fs) \<Longrightarrow> runs Q d0 d"
  by (auto simp: runs_def intro: evolves_mono)

lemma runs_trans: "runs P d0 d1 \<Longrightarrow> runs P d1 d2 \<Longrightarrow> runs P d0 d2"
  by (auto simp: runs_def intro: evolves_trans)

lemma runs_crash: "runs P d0 d \<Longrightarrow> P (files d0) \<Longrightarrow> fs \<in> set (crash_states d0 d) \<Longrightarrow> P fs"
  by (auto simp: runs_def dest: evolves_crash)

lemma runs_case:
  assumes "runs P d0 (fst m)" "\<And>d1 e. m = (d1, Inl e) \<Longrightarrow> runs P d0 d1 \<Longrightarrow> runs P d0 (fst (g d1 e))"
    and "\<And>d1 x. m = (d1, Inr x) \<Longrightarrow> runs P d0 d1 \<Longrightarrow> runs P d0 (fst (k d1 x))"
  shows "runs P d0 (fst (case m of (d1, Inl e) \<Rightarrow> g d1 e | (d1, Inr x) \<Rightarrow> k d1 x))"
  using assms by (cases m) (auto split: sum.split)

lemma runs_call:
  assumes "runs P d0 d" "\<And>d' r. call d = (d', r) \<Longrightarrow> evolves P d d' \<and> files d' = files d"
  shows "runs P d0 (fst (call d))"
  using assms(1) assms(2) [OF prod.collapse [symmetric]] by (auto simp: runs_def intro: evolves_trans)

lemma existing_only_files: "existing_only p d = (d', r) \<Longrightarrow> evolves P d d' \<and> files d' = files d"
  by (auto simp: existing_only_def split: prod.splits sum.splits dest: call_only_files)

lemma runs_plain_calls [runs_rules]:
  assumes "runs P d0 d"
  shows "runs P d0 (fst (FileClose p d))" "runs P d0 (fst (FileSync p d))" "runs P d0 (fst (ensure_dir p d))"
    "runs P d0 (fst (ReadFile p d))" "runs P d0 (fst (OpenRead p d))" "runs P d0 (fst (Chmod p d))"
  using runs_call [OF assms, of call_only] call_only_files runs_call [OF assms, of "ensure_dir p"] ensure_dir_files
    runs_call [OF assms, of "ReadFile p"] ReadFile_files runs_call [OF assms, of "existing_only p"] existing_only_files
  unfolding FileClose_def FileSync_def OpenRead_def Chmod_def by blast+

lemma runs_write_at:
  assumes "runs P d0 d" "\<And>k. P ((files d)(p \<mapsto> before @ take k data))"
  shows "runs P d0 (fst (write_at p before data d))"
proof -
  obtain d' r where w: "write_at p before data d = (d', r)" by fastforce
  have "P (files d')" using write_at_files(2) [OF w] assms by (auto simp: runs_def)
  then show ?thesis using assms write_at_evolves [OF w, of P] by (auto simp: w runs_def intro: evolves_trans)
qed

lemmas runs_WriteFile [runs_rules] = runs_write_at [where before = "[]", folded WriteFile_def]
lemmas runs_FileWrite [runs_rules] = runs_write_at [where before = "goget (files d) p []" and p = p and d = d for d p, folded FileWrite_def]

lemma runs_OpenExclusive [runs_rules]:
  assumes "runs P d0 d" "files d p = None \<Longrightarrow> P ((files d)(p \<mapsto> []))"
  shows "runs P d0 (fst (OpenExclusive p d))"
proof (cases "files d p = None")
  case True
  with runs_write_at [OF assms(1), of p "[]" "[]"] assms(2) show ?thesis by (simp add: OpenExclusive_def)
next
  case False
  obtain f d1 where f: "syscall d = (f, d1)" by fastforce
  with syscall_evolves [OF f, of P] assms(1) have "runs P d0 d1" by (auto simp: runs_def intro: evolves_trans)
  with False f show ?thesis by (auto simp: OpenExclusive_def)
qed

lemma runs_Remove [runs_rules]:
  assumes "runs P d0 d" "P ((files d)(p := None))"
  shows "runs P d0 (fst (Remove p d))"
proof -
  obtain d' r where m: "Remove p d = (d', r)" by fastforce
  show ?thesis using assms Remove_evolves [OF m, of P] Remove_files [OF m] by (auto simp: m runs_def intro: evolves_trans)
qed

lemma runs_Rename [runs_rules]:
  assumes "runs P d0 d" "\<And>bs. files d a = Some bs \<Longrightarrow> P ((files d)(a := None, b \<mapsto> bs))"
  shows "runs P d0 (fst (Rename a b d))"
proof -
  obtain d' r where m: "Rename a b d = (d', r)" by fastforce
  show ?thesis using assms Rename_evolves [OF m, of P] Rename_files [OF m] by (auto simp: m runs_def intro: evolves_trans)
qed


lemma runs_SaveEncrypted [runs_rules]:
  assumes "runs P d0 d" "\<And>bs k. P ((files d)(p \<mapsto> take k bs))"
  shows "runs P d0 (fst (SaveEncrypted S J rnd wp p password d))"
proof -
  have "files (fst (ensure_dir p d)) = files d" using ensure_dir_files [of p d] by (metis prod.collapse)
  then show ?thesis
    using assms by (auto simp: SaveEncrypted_def split: option.split sum.split intro!: runs_case runs_rules)
qed

lemma SaveEncrypted_ok:
  assumes "SaveEncrypted S J rnd (Some w) p password d = (d', Inr u)"
  shows "\<exists>salt nonce key bs. drawSalt rnd = Inr salt \<and> drawNonce rnd = Inr nonce
    \<and> scryptKey S (bytes_of password) salt scryptN scryptR scryptP scryptKeyLen = Inr key
    \<and> Marshal J (encryptedData S key salt nonce w) = Inr bs \<and> files d' = (files d)(p \<mapsto> bs) \<and> p \<noteq> '''' \<and> 12 \<le> length password"
  using assms by (auto simp: SaveEncrypted_def split: sum.splits prod.splits if_splits dest!: ensure_dir_files write_results(1))

lemma LoadEncrypted_files: "LoadEncrypted C S J p password d = (d', r) \<Longrightarrow> evolves P d d' \<and> files d' = files d"
  by (auto simp: LoadEncrypted_def split: if_splits sum.splits prod.splits dest: ReadFile_files)

lemma LoadEncrypted_ok:
  "LoadEncrypted C S J p password d = (d', Inr w) \<Longrightarrow> \<exists>data. files d p = Some data \<and> decryptWallet C S J password data = Inr w"
  by (auto simp: LoadEncrypted_def split: if_splits sum.splits prod.splits dest: ReadFile_ok)

lemma runs_LoadEncrypted [runs_rules]: "runs P d0 d \<Longrightarrow> runs P d0 (fst (LoadEncrypted C S J p password d))"
  using runs_call [of P d0 d "LoadEncrypted C S J p password"] LoadEncrypted_files by blast

lemma runs_copyFile [runs_rules]:
  assumes "runs P d0 d" "\<And>bs k. P ((files d)(dst \<mapsto> goget (files d) dst [] @ take k bs))"
  shows "runs P d0 (fst (copyFile dst src d))"
proof -
  have "files (fst (ReadFile src d)) = files d" using ReadFile_files [of src d] by (metis prod.collapse)
  with assms show ?thesis by (auto simp: copyFile_def intro!: runs_case runs_rules)
qed

lemma OpenExclusive_ok:
  assumes "OpenExclusive p d = (d', Inr u)"
  shows "files d p = None \<and> files d' = (files d)(p \<mapsto> [])"
  using assms by (auto simp: OpenExclusive_def split: if_splits dest: write_at_files(1))

lemma OpenExclusive_keeps: "OpenExclusive p d = (d', r) \<Longrightarrow> files d x \<noteq> None \<Longrightarrow> files d' x = files d x"
  by (auto simp: OpenExclusive_def split: if_splits dest!: write_at_files(2)) (metis snd_conv surj_pair syscall_evolves)

lemma CreateTemp_ok:
  assumes "CreateTemp ps d = (d', Inr q)"
  shows "q \<in> set ps \<and> files d q = None \<and> files d' q = Some [] \<and> (\<forall>x. files d x \<noteq> None \<longrightarrow> files d' x = files d x)"
  using assms
proof (induction ps arbitrary: d)
  case Nil
  then show ?case by simp
next
  case (Cons p ps)
  obtain d1 r where o: "OpenExclusive p d = (d1, r)" by fastforce
  note keeps = OpenExclusive_keeps [OF o]
  show ?case
  proof (cases r)
    case (Inl e)
    with Cons.prems o have "CreateTemp ps d1 = (d', Inr q)" by (simp split: if_splits)
    note ih = Cons.IH [OF this]
    have "files d q = None" using ih keeps [of q] by (cases "files d q") auto
    moreover have "files d' x = files d x" if "files d x \<noteq> None" for x using ih keeps [OF that] that by simp
    ultimately show ?thesis using ih by simp
  next
    case (Inr u)
    with Cons.prems o OpenExclusive_ok [of p d d1 u] show ?thesis by auto
  qed
qed

lemma runs_CreateTemp [runs_rules]:
  assumes "runs P d0 d" "\<And>fs q. P fs \<Longrightarrow> q \<in> set ps \<Longrightarrow> fs q = None \<Longrightarrow> P (fs(q \<mapsto> []))"
  shows "runs P d0 (fst (CreateTemp ps d))"
  using assms
proof (induction ps arbitrary: d)
  case Nil
  then show ?case by simp
next
  case (Cons p ps)
  have "P (files d)" using Cons.prems(1) by (simp add: runs_def)
  then have "runs P d0 (fst (OpenExclusive p d))" 
    by (intro runs_OpenExclusive [OF Cons.prems(1)] Cons.prems(2)) simp_all
  moreover have "runs P d0 (fst (CreateTemp ps e))" if "runs P d0 e" for e
    by (rule Cons.IH [OF that], rule Cons.prems(2)) simp_all
  ultimately show ?case unfolding CreateTemp.simps by (intro runs_case) simp_all
qed


section \<open>Backups\<close>

text \<open>The copy is made only when the destination did not exist; until then no file changes, and afterwards
  only the destination does.\<close>

definition only_new :: "path \<Rightarrow> (path \<rightharpoonup> bytes) \<Rightarrow> (path \<rightharpoonup> bytes) \<Rightarrow> bool" where
  "only_new p gs fs \<longleftrightarrow> (\<forall>q. q \<noteq> p \<or> gs p \<noteq> None \<longrightarrow> fs q = gs q)"

lemma only_new_upd: "only_new p gs fs \<Longrightarrow> gs p = None \<Longrightarrow> only_new p gs (fs(p := x))"
  by (simp add: only_new_def)

lemma BackupEncrypted_runs: "runs (only_new dst (files d)) d (fst (BackupEncrypted C S J src dst password d))"
proof -
  let ?P = "only_new dst (files d)"
  have st: "runs ?P d d" by (intro runs_start) (simp add: only_new_def)
  have upd: "?P ((files e)(dst := x))" if "runs ?P d e" "files d dst = None" for e x
    using that only_new_upd by (auto simp: runs_def)
  have free: "files d dst = None" if "runs ?P d e" "files e dst = None" for e
    using that unfolding runs_def only_new_def by metis
  show ?thesis
    using st unfolding BackupEncrypted_def Let_def
    by (auto intro!: runs_case runs_rules upd dest: OpenExclusive_ok free)
qed


lemma copyFile_ok:
  assumes "copyFile dst src d = (d', Inr u)" "files d dst = Some []"
  shows "\<exists>bs. files d src = Some bs \<and> files d' = (files d)(dst \<mapsto> bs)"
proof -
  obtain d1 bs where s: "ReadFile src d = (d1, Inr bs)" "FileWrite dst bs d1 = (d', Inr u)"
    using assms(1) by (auto simp: copyFile_def split: prod.splits sum.splits)
  with assms(2) ReadFile_files [OF s(1)] ReadFile_ok [OF s(1)] show ?thesis
    by (auto simp: FileWrite_def goget_def dest: write_at_files(1))
qed

lemma BackupEncrypted_ok:
  assumes "BackupEncrypted C S J src dst password d = (d', Inr a)"
  shows "files d dst = None \<and> (\<exists>data w. files d src = Some data \<and> files d' dst = Some data
    \<and> decryptWallet C S J password data = Inr w \<and> a = Address w)"
proof -
  have ne: "src \<noteq> dst" using assms by (auto simp: BackupEncrypted_def split: if_splits)
  obtain d1 d2 d3 d4 d5 d6 d7 w where s:
    "LoadEncrypted C S J src password d = (d1, Inr w)" "OpenRead src d1 = (d2, Inr ())" "ensure_dir dst d2 = (d3, Inr ())"
    "OpenExclusive dst d3 = (d4, Inr ())" "copyFile dst src d4 = (d5, Inr ())" "FileSync dst d5 = (d6, Inr ())"
    "FileClose dst d6 = (d7, Inr ())" "d' = fst (FileClose src (fst (LoadEncrypted C S J dst password d7)))" "a = Address w"
    using assms unfolding BackupEncrypted_def Let_def by (auto split: if_splits prod.splits sum.splits)
  have f3: "files d3 = files d"
    using LoadEncrypted_files [OF s(1)] existing_only_files [OF s(2) [unfolded OpenRead_def]] ensure_dir_files [OF s(3)] by simp
  note ex = OpenExclusive_ok [OF s(4)]
  from copyFile_ok [OF s(5)] ex obtain bs where bs: "files d4 src = Some bs" "files d5 = (files d4)(dst \<mapsto> bs)" by auto
  have "files d7 = files d5"
    using plain_calls(2) [OF s(6) [unfolded FileSync_def]] plain_calls(3) [OF s(7) [unfolded FileClose_def]] by simp
  moreover have "files d' = files d7"
    unfolding s(8) using LoadEncrypted_files call_only_files by (metis FileClose_def prod.collapse)
  ultimately have "files d' dst = Some bs" using bs(2) by simp
  moreover have "files d src = Some bs" using bs(1) ex f3 ne by simp
  ultimately show ?thesis using LoadEncrypted_ok [OF s(1)] ex f3 s(9) by auto
qed


section \<open>Change of the password\<close>

text \<open>The wallet is on the disk: the old file at its path or at a recovery path, or a file at its path that
  the new password opens to the same wallet.\<close>

definition wallet_kept ::
  "crypto \<Rightarrow> sealing \<Rightarrow> encryptedWalletFile json \<Rightarrow> path \<Rightarrow> path set \<Rightarrow> bytes \<Rightarrow> string \<Rightarrow> wallet \<Rightarrow> (path \<rightharpoonup> bytes) \<Rightarrow> bool" where
  "wallet_kept C S J p originals old newPassword w fs \<longleftrightarrow> fs p = Some old \<or> (\<exists>q\<in>originals. fs q = Some old)
     \<or> (\<exists>data. fs p = Some data \<and> decryptWallet C S J newPassword data = Inr w)"

lemma replaceWallet_runs:
  assumes "files d originalPath = Some old" "originalPath \<in> originals" "files d tempPath = Some new" "originalPath \<noteq> p"
    and "tempPath \<noteq> originalPath" "decryptWallet C S J newPassword new = Inr w"
  shows "runs (wallet_kept C S J p originals old newPassword w) d (fst (replaceWallet C S J p newPassword w tempPath originalPath d))"
    (is "runs ?P d _")
proof -
  have st: "runs ?P d d" using assms(1,2) by (intro runs_start) (auto simp: wallet_kept_def)
  have here: "?P fs" if "fs originalPath = Some old" for fs using that assms(2) by (auto simp: wallet_kept_def)
  obtain d1 r1 where r1: "Rename tempPath p d = (d1, r1)" by fastforce
  note f1 = Rename_files [OF r1]
  have o1: "files d1 originalPath = Some old" using f1 assms(1,4,5) by auto
  have run1: "runs ?P d d1" using runs_Rename [OF st, of tempPath p] r1 here assms(1,4,5) by auto
  have undo: "runs ?P d (fst (Rename originalPath p e))" if "runs ?P d e" "files e originalPath = Some old" for e
    using that by (intro runs_Rename) (auto simp: wallet_kept_def)
  have twice: "runs ?P d e" "files e originalPath = Some old" if "Rename originalPath p d1 = (e, Inl x)" for e x
    using undo [OF run1 o1] that Rename_files [OF that] o1 by auto
  obtain d2 r2 where l: "LoadEncrypted C S J p newPassword d1 = (d2, r2)" by fastforce
  have d2: "runs ?P d d2" "files d2 = files d1"
    using runs_LoadEncrypted [OF run1, of C S J p newPassword] LoadEncrypted_files [OF l] l by auto
  obtain d3 r3 where m: "Remove p d2 = (d3, r3)" by fastforce
  have d3: "runs ?P d d3" "files d3 originalPath = Some old"
    using runs_Remove [OF d2(1), of p] m here [of "(files d2)(p := None)"] Remove_files [OF m] d2(2) o1 assms(4) by auto
  show ?thesis
  proof (cases r1)
    case (Inl e)
    then show ?thesis using undo [OF run1 o1] twice undo by (auto simp: replaceWallet_def r1 split: prod.split sum.split)
  next
    case (Inr u)
    then have p1: "files d1 p = Some new" using f1 assms(3) by auto
    then have "?P ((files d2)(originalPath := None))" using d2(2) assms(4,6) by (auto simp: wallet_kept_def)
    from runs_Remove [OF d2(1) this] have rm: "runs ?P d (fst (Remove originalPath d2))" .
    have again: "runs ?P d e" "files e originalPath = Some old" if "Rename originalPath p d3 = (e, Inl x)" for e x
      using undo [OF d3] that Rename_files [OF that] d3(2) by auto
    show ?thesis using Inr rm undo [OF d3] again undo
      by (auto simp: replaceWallet_def r1 l m split: prod.split sum.split)
  qed
qed


lemma replaceWallet_ok:
  assumes "replaceWallet C S J p newPassword w tempPath originalPath d = (d', Inr a)" "originalPath \<noteq> p"
  shows "a = Address w \<and> files d' p = files d tempPath \<and> files d' originalPath = None"
proof -
  from assms(1) obtain d1 d2 u v r2 where s: "Rename tempPath p d = (d1, Inr u)" "LoadEncrypted C S J p newPassword d1 = (d2, r2)"
    "Remove originalPath d2 = (d', Inr v)" "a = Address w"
    by (auto simp: replaceWallet_def split: prod.splits sum.splits if_splits)
  show ?thesis
    using Rename_files [OF s(1)] LoadEncrypted_files [OF s(2)] Remove_files [OF s(3)] s(4) assms(2) by auto
qed

text \<open>A file that \<open>SaveEncrypted\<close> wrote for the wallet opens to it.\<close>

definition reopens :: "crypto \<Rightarrow> sealing \<Rightarrow> encryptedWalletFile json \<Rightarrow> wallet_random \<Rightarrow> string \<Rightarrow> wallet \<Rightarrow> bool" where
  "reopens C S J rnd password w \<longleftrightarrow> (\<forall>salt nonce key bs. drawSalt rnd = Inr salt \<and> drawNonce rnd = Inr nonce
     \<and> scryptKey S (bytes_of password) salt scryptN scryptR scryptP scryptKeyLen = Inr key
     \<and> Marshal J (encryptedData S key salt nonce w) = Inr bs \<longrightarrow> decryptWallet C S J password bs = Inr w)"

lemma setAsideWallet_runs:
  assumes "files d p = Some old" "files d tempPath = Some new" "originalPath \<in> originals" "originalPath \<noteq> p"
    and "tempPath \<noteq> originalPath" "tempPath \<noteq> p" "decryptWallet C S J newPassword new = Inr w"
  shows "runs (wallet_kept C S J p originals old newPassword w) d (fst (setAsideWallet C S J p newPassword w tempPath originalPath d))"
    and "setAsideWallet C S J p newPassword w tempPath originalPath d = (d', Inr a) \<Longrightarrow> a = Address w \<and> files d' p = Some new"
proof -
  let ?P = "wallet_kept C S J p originals old newPassword w"
  have here: "?P fs" if "fs p = Some old" for fs using that by (simp add: wallet_kept_def)
  obtain d1 r1 where e1: "FileClose originalPath d = (d1, r1)" by fastforce
  obtain d2 r2 where e2: "Remove originalPath d1 = (d2, r2)" by fastforce
  obtain d3 r3 where e3: "Rename p originalPath d2 = (d3, r3)" by fastforce
  have f1: "files d1 = files d" using call_only_files [OF e1 [unfolded FileClose_def]] by blast
  have f2: "files d2 p = Some old" "files d2 tempPath = Some new" using Remove_files [OF e2] f1 assms(1,2,4,5) by auto
  have q1: "runs ?P d d1" using runs_plain_calls(1) [OF runs_start, of ?P d originalPath] here [of "files d"] assms(1) e1 by simp
  have q2: "runs ?P d d2" using runs_Remove [OF q1, of originalPath] here [of "(files d1)(originalPath := None)"] f1 assms(1,4) e2 by simp
  have "?P fs" if "fs originalPath = Some old" for fs using that assms(3) by (auto simp: wallet_kept_def)
  then have "runs ?P d (fst (Rename p originalPath d2))" using f2(1) by (intro runs_Rename [OF q2]) simp
  then have q3: "runs ?P d d3" by (simp add: e3)
  have moved: "files d3 originalPath = Some old" "files d3 tempPath = Some new" if "r3 = Inr u" for u
    using Rename_files [OF e3] f2 that assms(4-6) by auto
  have rep: "runs ?P d (fst (replaceWallet C S J p newPassword w tempPath originalPath d3))" if "r3 = Inr u" for u
    by (rule runs_trans [OF q3 replaceWallet_runs]) (use moved [OF that] assms(3-7) in auto)
  show "runs ?P d (fst (setAsideWallet C S J p newPassword w tempPath originalPath d))"
    using q2 q3 rep by (cases r1; cases r2; cases r3) (simp_all add: setAsideWallet_def e1 e2 e3)
  show "a = Address w \<and> files d' p = Some new" if "setAsideWallet C S J p newPassword w tempPath originalPath d = (d', Inr a)"
    using that replaceWallet_ok [of C S J p newPassword w tempPath originalPath d3 d' a] moved assms(4)
    by (cases r1; cases r2; cases r3) (auto simp: setAsideWallet_def e1 e2 e3)
qed

lemma rotateWallet_runs:
  assumes "files d p = Some old" "tempPath \<noteq> p" "reopens C S J rnd newPassword w"
  shows "runs (wallet_kept C S J p (set originals - {tempPath}) old newPassword w) d
      (fst (rotateWallet C S J rnd originals p newPassword w tempPath d))"
    and "rotateWallet C S J rnd originals p newPassword w tempPath d = (d', Inr a) \<Longrightarrow>
      a = Address w \<and> (\<exists>data. files d' p = Some data \<and> decryptWallet C S J newPassword data = Inr w)"
proof -
  let ?P = "wallet_kept C S J p (set originals - {tempPath}) old newPassword w" and ?Q = "\<lambda>fs. fs p = Some old"
  have P: "runs ?Q d e \<Longrightarrow> runs ?P d e" for e by (erule runs_mono) (simp add: wallet_kept_def)
  obtain d1 r1 where e1: "SaveEncrypted S J rnd (Some w) tempPath newPassword d = (d1, r1)" by fastforce
  obtain d2 r2 where e2: "Chmod tempPath d1 = (d2, r2)" by fastforce
  obtain d3 r3 where e3: "LoadEncrypted C S J tempPath newPassword d2 = (d3, r3)" by fastforce
  obtain d4 r4 where e4: "CreateTemp originals d3 = (d4, r4)" by fastforce
  have "runs ?Q d (fst (SaveEncrypted S J rnd (Some w) tempPath newPassword d))"
    by (rule runs_SaveEncrypted [OF runs_start]) (use assms(1,2) in auto)
  then have q1: "runs ?Q d d1" by (simp add: e1)
  have q2: "runs ?Q d d2" using runs_plain_calls(6) [OF q1, of tempPath] e2 by simp
  have q3: "runs ?Q d d3" using runs_LoadEncrypted [OF q2, of C S J tempPath newPassword] e3 by simp
  have "runs ?Q d (fst (CreateTemp originals d3))" by (rule runs_CreateTemp [OF q3]) auto
  then have q4: "runs ?Q d d4" by (simp add: e4)
  have last: "runs ?P d (fst (setAsideWallet C S J p newPassword w tempPath q d4))"
    "setAsideWallet C S J p newPassword w tempPath q d4 = (d', Inr a) \<Longrightarrow>
       a = Address w \<and> (\<exists>data. files d' p = Some data \<and> decryptWallet C S J newPassword data = Inr w)"
    if ok: "r1 = Inr u" "r4 = Inr q" for u q
  proof -
    from SaveEncrypted_ok [of S J rnd w tempPath newPassword d d1 u] e1 ok(1) assms(3) obtain new where
      new: "files d1 tempPath = Some new" "decryptWallet C S J newPassword new = Inr w" by (auto simp: reopens_def)
    have f3: "files d3 = files d1"
      using existing_only_files [OF e2 [unfolded Chmod_def]] LoadEncrypted_files [OF e3] by simp
    note c = CreateTemp_ok [OF e4 [unfolded ok(2)]]
    have o: "files d3 p = Some old" using q3 by (simp add: runs_def)
    have d4: "files d4 p = Some old" "files d4 tempPath = Some new" "q \<in> set originals - {tempPath}" "q \<noteq> p" "tempPath \<noteq> q"
      using c o new(1) f3 by auto
    note s = setAsideWallet_runs [OF d4 assms(2) new(2)]
    show "runs ?P d (fst (setAsideWallet C S J p newPassword w tempPath q d4))" by (rule runs_trans [OF P [OF q4] s(1)])
    show "setAsideWallet C S J p newPassword w tempPath q d4 = (d', Inr a) \<Longrightarrow>
       a = Address w \<and> (\<exists>data. files d' p = Some data \<and> decryptWallet C S J newPassword data = Inr w)"
      using s(2) new(2) by blast
  qed
  show "runs ?P d (fst (rotateWallet C S J rnd originals p newPassword w tempPath d))"
    using P [OF q1] P [OF q2] P [OF q3] P [OF q4] last(1)
    by (cases r1; cases r2; cases r3; cases r4) (simp_all add: rotateWallet_def e1 e2 e3 e4)
  show "a = Address w \<and> (\<exists>data. files d' p = Some data \<and> decryptWallet C S J newPassword data = Inr w)"
    if "rotateWallet C S J rnd originals p newPassword w tempPath d = (d', Inr a)"
    using that last(2) by (cases r1; cases r2; cases r3; cases r4) (auto simp: rotateWallet_def e1 e2 e3 e4 split: if_splits)
qed


lemma ChangeEncryptedPassword_runs:
  assumes "files d p = Some old" "decryptWallet C S J currentPassword old = Inr w" "reopens C S J rnd newPassword w"
  shows "runs (wallet_kept C S J p (set originals) old newPassword w) d
      (fst (ChangeEncryptedPassword C S J rnd temps originals p currentPassword newPassword d))"
    and "ChangeEncryptedPassword C S J rnd temps originals p currentPassword newPassword d = (d', Inr a) \<Longrightarrow>
      a = Address w \<and> (\<exists>data. files d' p = Some data \<and> decryptWallet C S J newPassword data = Inr w)"
proof -
  let ?P = "wallet_kept C S J p (set originals) old newPassword w" and ?Q = "\<lambda>fs. fs p = Some old"
  have P: "runs ?Q d e \<Longrightarrow> runs ?P d e" for e by (erule runs_mono) (simp add: wallet_kept_def)
  have st: "runs ?Q d d" using assms(1) by (simp add: runs_start)
  obtain d1 r1 where e1: "LoadEncrypted C S J p currentPassword d = (d1, r1)" by fastforce
  obtain d2 r2 where e2: "CreateTemp temps d1 = (d2, r2)" by fastforce
  have q1: "runs ?Q d d1" using runs_LoadEncrypted [OF st, of C S J p currentPassword] e1 by simp
  have w: "v = w" if "r1 = Inr v" for v using LoadEncrypted_ok [OF e1 [unfolded that]] assms(1,2) by auto
  have "runs ?Q d (fst (CreateTemp temps d1))" by (rule runs_CreateTemp [OF q1]) auto
  then have q2: "runs ?Q d d2" by (simp add: e2)
  have rest: "runs ?P d (fst (Remove q d3))" "runs ?P d (fst (Remove q (fst (rotateWallet C S J rnd originals p newPassword w q d3))))"
    "rotateWallet C S J rnd originals p newPassword w q d3 = (d4, Inr a) \<Longrightarrow>
       a = Address w \<and> (\<exists>data. files (fst (Remove q d4)) p = Some data \<and> decryptWallet C S J newPassword data = Inr w)"
    if ok: "r2 = Inr q" and e3: "FileClose q d2 = (d3, r3)" for q d3 r3 d4
  proof -
    have ne: "q \<noteq> p" using CreateTemp_ok [OF e2 [unfolded ok]] q1 by (auto simp: runs_def)
    have q3: "runs ?Q d d3" using runs_plain_calls(1) [OF q2, of q] e3 by simp
    then have d3: "files d3 p = Some old" by (simp add: runs_def)
    let ?R = "wallet_kept C S J p (set originals - {q}) old newPassword w"
    have R: "runs ?Q d e \<Longrightarrow> runs ?R d e" for e by (erule runs_mono) (simp add: wallet_kept_def)
    have rm: "runs ?P d (fst (Remove q e))" if e: "runs ?R d e" for e
    proof -
      have "?R ((files e)(q := None))" using e ne by (auto simp: runs_def wallet_kept_def)
      from runs_Remove [OF e this] show ?thesis by (rule runs_mono) (auto simp: wallet_kept_def)
    qed
    show "runs ?P d (fst (Remove q d3))" by (rule rm [OF R [OF q3]])
    note s = rotateWallet_runs [OF d3 ne assms(3), of originals]
    show "runs ?P d (fst (Remove q (fst (rotateWallet C S J rnd originals p newPassword w q d3))))"
      by (rule rm [OF runs_trans [OF R [OF q3] s(1)]])
    show "a = Address w \<and> (\<exists>data. files (fst (Remove q d4)) p = Some data \<and> decryptWallet C S J newPassword data = Inr w)"
      if "rotateWallet C S J rnd originals p newPassword w q d3 = (d4, Inr a)"
    proof -
      obtain d5 x where m: "Remove q d4 = (d5, x)" by fastforce
      have "files d5 p = files d4 p" using Remove_files [OF m] ne by simp
      with s(2) [OF that] m show ?thesis by simp
    qed
  qed
  show "runs ?P d (fst (ChangeEncryptedPassword C S J rnd temps originals p currentPassword newPassword d))"
  proof (cases "\<exists>v q. r1 = Inr v \<and> r2 = Inr q")
    case True
    then obtain q where q: "r1 = Inr w" "r2 = Inr q" using w by blast
    obtain d3 r3 where e3: "FileClose q d2 = (d3, r3)" by fastforce
    show ?thesis using P [OF st] P [OF q1] rest(1,2) [OF q(2) e3]
      by (cases r3) (auto simp: ChangeEncryptedPassword_def e1 e2 e3 q case_prod_unfold)
  next
    case False
    then show ?thesis using P [OF st] P [OF q1] P [OF q2]
      by (cases r1; cases r2) (auto simp: ChangeEncryptedPassword_def e1 e2)
  qed
  show "a = Address w \<and> (\<exists>data. files d' p = Some data \<and> decryptWallet C S J newPassword data = Inr w)"
    if "ChangeEncryptedPassword C S J rnd temps originals p currentPassword newPassword d = (d', Inr a)"
  proof -
    from that obtain q where q: "r1 = Inr w" "r2 = Inr q"
      using w by (cases r1; cases r2) (auto simp: ChangeEncryptedPassword_def e1 e2 split: if_splits)
    obtain d3 r3 where e3: "FileClose q d2 = (d3, r3)" by fastforce
    obtain d4 r4 where e4: "rotateWallet C S J rnd originals p newPassword w q d3 = (d4, r4)" by fastforce
    have "r4 = Inr a" "d' = fst (Remove q d4)"
      using that by (cases r3; simp add: ChangeEncryptedPassword_def e1 e2 e3 e4 q split: if_splits)+
    with rest(3) [OF q(2) e3] e4 show ?thesis by simp
  qed
qed


text \<open>The random bytes have the sizes the code asks for, and the encoding of the file round-trips.\<close>

definition file_laws :: "sealing \<Rightarrow> encryptedWalletFile json \<Rightarrow> wallet_random \<Rightarrow> wallet \<Rightarrow> bool" where
  "file_laws S J rnd w \<longleftrightarrow> sealing_ok S \<and> (\<forall>salt. drawSalt rnd = Inr salt \<longrightarrow> length salt = 16)
     \<and> (\<forall>nonce. drawNonce rnd = Inr nonce \<longrightarrow> length nonce = 12)
     \<and> (\<forall>salt nonce key. drawSalt rnd = Inr salt \<and> drawNonce rnd = Inr nonce \<longrightarrow> json_ok J (encryptedData S key salt nonce w))"

lemma file_laws_at:
  assumes "file_laws S J rnd w" "drawSalt rnd = Inr salt" "drawNonce rnd = Inr nonce" "Marshal J (encryptedData S key salt nonce w) = Inr bs"
  shows "length salt = 16" "length nonce = 12" "Unmarshal J bs = Inr (encryptedData S key salt nonce w)" "sealing_ok S"
proof -
  have "json_ok J (encryptedData S key salt nonce w)" using assms(1-3) by (simp add: file_laws_def)
  with assms show "length salt = 16" "length nonce = 12" "Unmarshal J bs = Inr (encryptedData S key salt nonce w)" "sealing_ok S"
    by (simp_all add: file_laws_def json_ok_def)
qed

lemma file_laws_reopens:
  assumes "file_laws S J rnd w" "wallet_of_key C w"
  shows "reopens C S J rnd password w"
  unfolding reopens_def
proof (intro allI impI, elim conjE)
  fix salt nonce key bs
  assume a: "drawSalt rnd = Inr salt" "drawNonce rnd = Inr nonce"
    "scryptKey S (bytes_of password) salt scryptN scryptR scryptP scryptKeyLen = Inr key"
    "Marshal J (encryptedData S key salt nonce w) = Inr bs"
  note laws = file_laws_at [OF assms(1) a(1,2,4)]
  show "decryptWallet C S J password bs = Inr w" by (rule decrypt_sealed [OF laws(4) assms(2) laws(1,2) a(3) laws(3)])
qed

section \<open>A small instance\<close>

definition small_sealing :: sealing where
  "small_sealing = \<lparr>scryptKey = (\<lambda>_ _ _ _ _ _. Inr (replicate 32 0)), gcmSeal = (\<lambda>_ _ m. m), gcmOpen = (\<lambda>_ _ c. Some c)\<rparr>"

definition small_random :: wallet_random where
  "small_random = \<lparr>drawSalt = Inr (replicate 16 1), drawNonce = Inr (replicate 12 2)\<rparr>"

definition small_codec :: "wallet \<Rightarrow> encryptedWalletFile json" where
  "small_codec w = small_json (encryptedData small_sealing [] (replicate 16 1) (replicate 12 2) w)"

lemma small_file_laws: "file_laws small_sealing (small_codec w) small_random w"
proof -
  have "encryptedData small_sealing key salt nonce w = encryptedData small_sealing [] salt nonce w" for key salt nonce
    by (simp add: encryptedData_def small_sealing_def)
  then show ?thesis
    by (simp add: file_laws_def sealing_ok_def small_sealing_def [THEN arg_cong [where f = gcmSeal]]
        small_sealing_def [THEN arg_cong [where f = gcmOpen]] small_sealing_def [THEN arg_cong [where f = scryptKey]]
        small_random_def small_codec_def) (metis small_json_ok)
qed

lemma small_wallet_of_key: "wallet_of_key small_crypto (small_wallet 7)"
proof -
  have "walletFromPrivateKeyBytes small_crypto [7] = Inr (small_wallet 7)"
    by (simp add: small_wallet_def walletFromPrivateKeyBytes_def small_crypto_def be_nat_def Let_def)
  then show ?thesis unfolding wallet_of_key_def by (rule wallet_from_own_key)
qed

section \<open>Properties\<close>

text \<open>C18: a wallet saved under a password opens again with that password, to the same key pair and
  address; with a password whose derived key does not authenticate the ciphertext it is refused.\<close>

theorem encrypted_wallet_opens:
  assumes "SaveEncrypted S J rnd (Some w) p password d = (d', Inr ())" "file_laws S J rnd w" "wallet_of_key C w"
  shows "snd (LoadEncrypted C S J p password (reboot (files d'))) = Inr w
    \<and> (\<exists>salt nonce key. drawSalt rnd = Inr salt \<and> drawNonce rnd = Inr nonce
         \<and> scryptKey S (bytes_of password) salt scryptN scryptR scryptP scryptKeyLen = Inr key
         \<and> (\<forall>other key'. other \<noteq> '''' \<and> scryptKey S (bytes_of other) salt scryptN scryptR scryptP scryptKeyLen = Inr key'
               \<and> gcmOpen S key' nonce (gcmSeal S key nonce (int_bytes (PrivateKey w))) = None
             \<longrightarrow> snd (LoadEncrypted C S J p other (reboot (files d')))
                   = Inl (Errorf ''incorrect password or corrupted wallet'' [])))"
proof -
  from SaveEncrypted_ok [OF assms(1)] obtain salt nonce key bs where s: "drawSalt rnd = Inr salt" "drawNonce rnd = Inr nonce"
    "scryptKey S (bytes_of password) salt scryptN scryptR scryptP scryptKeyLen = Inr key"
    "Marshal J (encryptedData S key salt nonce w) = Inr bs" "files d' p = Some bs" "p \<noteq> ''''" "12 \<le> length password" by auto
  have load: "snd (LoadEncrypted C S J p pw (reboot (files d'))) = decryptWallet C S J pw bs" if "pw \<noteq> ''''" for pw
    using s(5,6) that by (simp add: LoadEncrypted_def ReadFile_reboot)
  have "decryptWallet C S J password bs = Inr w"
    using file_laws_reopens [OF assms(2,3), of password] s(1-4) by (auto simp: reopens_def)
  moreover have "decryptWallet C S J other bs = Inl (Errorf ''incorrect password or corrupted wallet'' [])"
    if "scryptKey S (bytes_of other) salt scryptN scryptR scryptP scryptKeyLen = Inr key'"
      "gcmOpen S key' nonce (gcmSeal S key nonce (int_bytes (PrivateKey w))) = None" for other key'
  proof -
    note laws = file_laws_at [OF assms(2) s(1,2,4)]
    have "length key' = 32" using laws(4) that(1) by (auto simp: sealing_ok_def go_const)
    with that laws(1-3) show ?thesis
      by (simp add: decryptWallet_def encryptedData_def NewCipher_def NonceSize_def walletSaltSize_def)
  qed
  moreover have "password \<noteq> ''''" using s(7) by auto
  ultimately show ?thesis using load s(1-3) by auto
qed

theorem encrypted_wallet_opens_witness:
  "\<exists>d'. SaveEncrypted small_sealing (small_codec (small_wallet 7)) small_random (Some (small_wallet 7)) ''w'' ''twelve chars''
       (reboot Map.empty) = (d', Inr ())
     \<and> snd (LoadEncrypted small_crypto small_sealing (small_codec (small_wallet 7)) ''w'' ''twelve chars'' (reboot (files d')))
       = Inr (small_wallet 7)"
proof -
  let ?w = "small_wallet 7"
  have "Dir ''w'' = ''.''" by code_simp
  then obtain d' where d': "SaveEncrypted small_sealing (small_codec ?w) small_random (Some ?w) ''w'' ''twelve chars''
      (reboot Map.empty) = (d', Inr ())"
    by (auto simp: SaveEncrypted_def small_sealing_def small_random_def small_codec_def small_json_def NewCipher_def reboot_def fault_free)
  from encrypted_wallet_opens [OF d' small_file_laws small_wallet_of_key] d' show ?thesis by blast
qed

text \<open>A backup is faithful and harmless. Whatever system call fails and wherever the process is killed,
  no file but the destination changes, and a destination that existed is never overwritten; a backup that
  reports success is a copy of the source file byte by byte, and it opened with the password.\<close>

theorem backup_never_overwrites:
  assumes "BackupEncrypted C S J src dst password d = (d', r)"
  shows "(\<forall>fs\<in>set (crash_states d d'). \<forall>q. q \<noteq> dst \<or> files d dst \<noteq> None \<longrightarrow> fs q = files d q)
    \<and> (\<forall>a. r = Inr a \<longrightarrow> files d dst = None \<and> (\<exists>data w. files d src = Some data \<and> files d' dst = Some data
         \<and> decryptWallet C S J password data = Inr w \<and> a = Address w))"
proof -
  have run: "runs (only_new dst (files d)) d d'" using BackupEncrypted_runs [of dst d C S J src password] assms by simp
  have "only_new dst (files d) fs" if "fs \<in> set (crash_states d d')" for fs
    by (rule runs_crash [OF run _ that]) (simp add: only_new_def)
  then show ?thesis using BackupEncrypted_ok [of C S J src dst password d d'] assms by (auto simp: only_new_def)
qed

theorem backup_never_overwrites_witness:
  "\<exists>d'. BackupEncrypted small_crypto small_sealing (small_codec (small_wallet 7)) ''w'' ''b'' ''twelve chars'' (reboot [''w'' \<mapsto> [1]])
       = (d', Inr (Address (small_wallet 7))) \<and> files d' ''b'' = Some [1]"
proof -
  let ?w = "small_wallet 7" and ?d = "reboot [''w'' \<mapsto> [1]]"
  have dirs: "Dir ''b'' = ''.''" "Clean ''w'' \<noteq> Clean ''b''" by code_simp+
  have "reopens small_crypto small_sealing (small_codec ?w) small_random ''twelve chars'' ?w"
    by (rule file_laws_reopens [OF small_file_laws small_wallet_of_key])
  then have dec: "decryptWallet small_crypto small_sealing (small_codec ?w) ''twelve chars'' [1] = Inr ?w"
    by (simp add: reopens_def small_random_def small_sealing_def small_codec_def small_json_def)
  obtain d' r where b: "BackupEncrypted small_crypto small_sealing (small_codec ?w) ''w'' ''b'' ''twelve chars'' ?d = (d', r)" by fastforce
  then have "r = Inr (Address ?w)"
    using dirs dec by (simp add: BackupEncrypted_def LoadEncrypted_def OpenRead_def existing_only_def copyFile_def reboot_def
        goget_def fault_free)
  with backup_never_overwrites [OF b] b show ?thesis by (auto simp: reboot_def)
qed

text \<open>C17: changing the password never loses the wallet. Whatever system call fails and wherever the process is
  killed, the disk holds the old file, at its path or at the recovery path, or a file at its path that the
  new password opens to the same wallet; a change that reports success has left the latter.\<close>

theorem password_change_keeps_wallet:
  assumes "ChangeEncryptedPassword C S J rnd temps originals p currentPassword newPassword d = (d', r)"
    and "files d p = Some old" "decryptWallet C S J currentPassword old = Inr w" "file_laws S J rnd w"
  shows "(\<forall>fs\<in>set (crash_states d d'). wallet_kept C S J p (set originals) old newPassword w fs)
    \<and> (\<forall>a. r = Inr a \<longrightarrow> a = Address w \<and> (\<exists>data. files d' p = Some data \<and> decryptWallet C S J newPassword data = Inr w))"
proof -
  have "reopens C S J rnd newPassword w" by (rule file_laws_reopens [OF assms(4) decryptWallet_of_key [OF assms(3)]])
  note s = ChangeEncryptedPassword_runs [OF assms(2,3) this, where originals = originals and temps = temps]
  have run: "runs (wallet_kept C S J p (set originals) old newPassword w) d d'" using s(1) assms(1) by simp
  have "wallet_kept C S J p (set originals) old newPassword w (files d)" using assms(2) by (simp add: wallet_kept_def)
  with runs_crash [OF run] s(2) assms(1) show ?thesis by blast
qed

theorem password_change_keeps_wallet_witness:
  "\<exists>d'. ChangeEncryptedPassword small_crypto small_sealing (small_codec (small_wallet 7)) small_random [''t''] [''o''] ''w''
       ''old password'' ''new password'' (reboot [''w'' \<mapsto> [1]]) = (d', Inr (Address (small_wallet 7)))
     \<and> wallet_kept small_crypto small_sealing (small_codec (small_wallet 7)) ''w'' {''o''} [1] ''new password'' (small_wallet 7) (files d')"
proof -
  let ?w = "small_wallet 7" and ?d = "reboot [''w'' \<mapsto> [1]]" and ?J = "small_codec (small_wallet 7)"
  have dirs: "Dir ''t'' = ''.''" by code_simp
  have dec: "decryptWallet small_crypto small_sealing ?J pw [1] = Inr ?w" for pw
    using file_laws_reopens [OF small_file_laws small_wallet_of_key, of pw]
    by (simp add: reopens_def small_random_def small_sealing_def small_codec_def small_json_def)
  have save: "SaveEncrypted small_sealing ?J small_random (Some ?w) ''t'' ''new password'' e = WriteFile ''t'' [1] e" if "faults e = []" for e
    using that dirs by (simp add: SaveEncrypted_def small_sealing_def small_random_def small_codec_def small_json_def NewCipher_def fault_free)
  obtain d' r where c: "ChangeEncryptedPassword small_crypto small_sealing ?J small_random [''t''] [''o''] ''w''
       ''old password'' ''new password'' ?d = (d', r)" by fastforce
  then have "r = Inr (Address ?w)"
    using dec by (simp add: ChangeEncryptedPassword_def LoadEncrypted_def rotateWallet_def save setAsideWallet_def replaceWallet_def
        Chmod_def existing_only_def reboot_def fault_free)
  with password_change_keeps_wallet [OF c, of "[1]" ?w] c dec small_file_laws show ?thesis by (auto simp: reboot_def wallet_kept_def)
qed

end
