(* ===== verification/Mempool.thy ===== *)
theory Mempool
  imports TransactionProcessor "HOL-Library.AList"
begin

text \<open>
  \<open>blockchain/mempool/mempool.go\<close> and \<open>blockchain/mempool_validator.go\<close>: the pool of pending
  transactions with its cached byte count and its sender/nonce index, and the validation of a
  candidate against the confirmed state and the sender's pending transactions.

  The Go maps are association lists with distinct keys, so that \<open>len\<close> is a length. The order in
  which \<open>range\<close> visits a map is not specified by Go: the functions that iterate take it as an
  argument \<open>iter\<close>, and the lemmas hold for every \<open>iter\<close> that returns a permutation.
\<close>

section \<open>The pool\<close>

record entryMetadata =
  metaSender :: string
  metaNonce :: u64
  metaSize :: nat

record mempool =
  mpTransactions :: "(string \<times> transaction) list"
  mpMetadata :: "(string \<times> entryMetadata) list"
  totalEstimatedBytes :: nat
  senderNonces :: "(string \<times> (u64 \<times> string) list) list"

text \<open>Reading a missing inner map gives the empty map.\<close>

definition noncesOf :: "mempool \<Rightarrow> string \<Rightarrow> (u64 \<times> string) list" where
  "noncesOf m sender = (case map_of (senderNonces m) sender of None \<Rightarrow> [] | Some nonces \<Rightarrow> nonces)"

definition NewMempool :: mempool where
  "NewMempool = \<lparr>mpTransactions = [], mpMetadata = [], totalEstimatedBytes = 0, senderNonces = []\<rparr>"

definition checkAdmissionLocked :: "mempool \<Rightarrow> transaction \<Rightarrow> unit result" where
  "checkAdmissionLocked m tx =
     (if txID tx = '''' then Inl EmptyTransactionID
      else if map_of (mpTransactions m) (txID tx) \<noteq> None then Inl (TransactionExists (txID tx))
      else if length (mpTransactions m) \<ge> MaxMempoolTransactions then Inl MempoolFull
      else if totalEstimatedBytes m + EstimatedSerializedSize (Some tx) > MaxMempoolBytes
      then Inl MempoolBytesFull
      else if length (noncesOf m (txFrom tx)) \<ge> MaxMempoolTransactionsPerSender
      then Inl MempoolSenderFull
      else (case map_of (noncesOf m (txFrom tx)) (txNonce tx) of
          Some existingID \<Rightarrow> Inl (SenderNoncePending (txFrom tx) existingID)
        | None \<Rightarrow> Inr ()))"

definition CheckAdmission :: "mempool option \<Rightarrow> transaction option \<Rightarrow> unit result" where
  "CheckAdmission mp txp =
     (case mp of
       None \<Rightarrow> Inl NilMempool
     | Some m \<Rightarrow>
     (case txp of
       None \<Rightarrow> Inl NilTransaction
     | Some tx \<Rightarrow>
     (case ValidateResourceBounds (Some tx) of
       Inl err \<Rightarrow> Inl (TransactionRejected err)
     | Inr _ \<Rightarrow> checkAdmissionLocked m tx)))"

definition AddTransaction :: "mempool option \<Rightarrow> transaction option \<Rightarrow> (mempool option, unit) outcome" where
  "AddTransaction mp txp = on_object NilMempool (\<lambda>m.
     case txp of
       None \<Rightarrow> (m, Inl NilTransaction)
     | Some tx \<Rightarrow>
     (case ValidateResourceBounds (Some tx) of
       Inl err \<Rightarrow> (m, Inl (TransactionRejected err))
     | Inr _ \<Rightarrow>
     (case checkAdmissionLocked m tx of
       Inl err \<Rightarrow> (m, Inl err)
     | Inr _ \<Rightarrow>
     (let meta = \<lparr>metaSender = txFrom tx, metaNonce = txNonce tx,
                  metaSize = EstimatedSerializedSize (Some tx)\<rparr>
      in (m\<lparr>mpTransactions := AList.update (txID tx) tx (mpTransactions m),
            mpMetadata := AList.update (txID tx) meta (mpMetadata m),
            senderNonces := AList.update (metaSender meta)
              (AList.update (metaNonce meta) (txID tx) (noncesOf m (metaSender meta)))
              (senderNonces m),
            totalEstimatedBytes := totalEstimatedBytes m + metaSize meta\<rparr>, Inr ())))))
     mp"

definition GetTransaction :: "mempool \<Rightarrow> string \<Rightarrow> transaction option" where
  "GetTransaction m ident = map_of (mpTransactions m) ident"

text \<open>The comparison of the two sorts in the package: by nonce, then by ID.\<close>

datatype nonce_key = NonceKey u64 string

instantiation nonce_key :: linorder
begin

fun less_nonce_key :: "nonce_key \<Rightarrow> nonce_key \<Rightarrow> bool" where
  "less_nonce_key (NonceKey n i) (NonceKey m j) = (if n \<noteq> m then n < m else i < j)"

definition less_eq_nonce_key :: "nonce_key \<Rightarrow> nonce_key \<Rightarrow> bool" where
  "less_eq_nonce_key a b = (a < b \<or> a = b)"

instance
proof
  fix x y z :: nonce_key
  show "x < y \<longleftrightarrow> x \<le> y \<and> \<not> y \<le> x"
    by (cases x; cases y) (auto simp: less_eq_nonce_key_def split: if_splits)
  show "x \<le> x" by (simp add: less_eq_nonce_key_def)
  show "x \<le> y \<Longrightarrow> y \<le> z \<Longrightarrow> x \<le> z"
    by (cases x; cases y; cases z) (auto simp: less_eq_nonce_key_def split: if_splits)
  show "x \<le> y \<Longrightarrow> y \<le> x \<Longrightarrow> x = y"
    by (cases x; cases y) (auto simp: less_eq_nonce_key_def split: if_splits)
  show "x \<le> y \<or> y \<le> x"
    by (cases x; cases y) (auto simp: less_eq_nonce_key_def)
qed

end

definition nonce_key_of :: "transaction \<Rightarrow> nonce_key" where
  "nonce_key_of tx = NonceKey (txNonce tx) (txID tx)"

definition TransactionsForSender ::
  "((u64 \<times> string) list \<Rightarrow> (u64 \<times> string) list) \<Rightarrow> mempool \<Rightarrow> string \<Rightarrow> transaction list" where
  "TransactionsForSender iter m sender =
     sort_key nonce_key_of
       (List.map_filter (\<lambda>(_, ident). map_of (mpTransactions m) ident) (iter (noncesOf m sender)))"

definition RemoveTransaction :: "mempool \<Rightarrow> string \<Rightarrow> mempool" where
  "RemoveTransaction m ident =
     (if map_of (mpTransactions m) ident = None then m
      else
        (let m1 = m\<lparr>mpTransactions := AList.delete ident (mpTransactions m)\<rparr>
         in case map_of (mpMetadata m1) ident of
              None \<Rightarrow> m1
            | Some meta \<Rightarrow>
                (let m2 = m1\<lparr>mpMetadata := AList.delete ident (mpMetadata m1),
                       totalEstimatedBytes :=
                         (if metaSize meta \<ge> totalEstimatedBytes m1 then 0
                          else totalEstimatedBytes m1 - metaSize meta)\<rparr>
                 in case map_of (senderNonces m2) (metaSender meta) of
                      None \<Rightarrow> m2
                    | Some nonces \<Rightarrow>
                        (let nonces1 = (if map_of nonces (metaNonce meta) = Some ident
                                        then AList.delete (metaNonce meta) nonces else nonces)
                         in m2\<lparr>senderNonces :=
                              (if length nonces1 = 0
                               then AList.delete (metaSender meta) (senderNonces m2)
                               else AList.update (metaSender meta) nonces1 (senderNonces m2))\<rparr>))))"

definition AllTransactions ::
  "((string \<times> transaction) list \<Rightarrow> (string \<times> transaction) list) \<Rightarrow> mempool \<Rightarrow> transaction list" where
  "AllTransactions iter m = map snd (iter (mpTransactions m))"

definition Count :: "mempool \<Rightarrow> nat" where
  "Count m = length (mpTransactions m)"

definition CountForSender :: "mempool \<Rightarrow> string \<Rightarrow> nat" where
  "CountForSender m sender = length (noncesOf m sender)"

definition TotalEstimatedBytes :: "mempool \<Rightarrow> nat" where
  "TotalEstimatedBytes m = totalEstimatedBytes m"

definition AtCapacity :: "mempool \<Rightarrow> bool" where
  "AtCapacity m \<longleftrightarrow> length (mpTransactions m) \<ge> MaxMempoolTransactions
     \<or> totalEstimatedBytes m \<ge> MaxMempoolBytes"

definition Clear :: "mempool \<Rightarrow> mempool" where
  "Clear m = m\<lparr>mpTransactions := [], mpMetadata := [], senderNonces := [], totalEstimatedBytes := 0\<rparr>"

section \<open>Validation of a candidate\<close>

text \<open>The scan of the pending list: the candidate's sender's transactions, in list order, or the
  error it stops with. \<open>found\<close> is the list collected so far.\<close>

fun collectSender ::
  "transaction \<Rightarrow> transaction list \<Rightarrow> transaction option list \<Rightarrow> transaction list result" where
  "collectSender candidate found [] = Inr found"
| "collectSender candidate found (None # rest) = Inl NilMempoolTransaction"
| "collectSender candidate found (Some tx # rest) =
     (if txID tx = txID candidate then Inl (AlreadyInMempool (txID candidate))
      else if txFrom tx \<noteq> txFrom candidate then collectSender candidate found rest
      else
        (let found1 = found @ [tx]
         in if length found1 \<ge> MaxMempoolTransactionsPerSender then Inl MempoolSenderFull
            else collectSender candidate found1 rest))"

fun replayPending ::
  "crypto \<Rightarrow> network_id \<Rightarrow> state option \<Rightarrow> transaction list \<Rightarrow> (state option, unit) outcome" where
  "replayPending C net w [] = (w, Inr ())"
| "replayPending C net w (tx # rest) =
     (case ApplyTransactionFor C w (Some tx) net of
        (w1, Inl err) \<Rightarrow> (w1, Inl (PendingTransactionInvalid (txID tx) err))
      | (w1, Inr _) \<Rightarrow> replayPending C net w1 rest)"

definition ValidateMempoolTransactionFor ::
  "crypto \<Rightarrow> state option \<Rightarrow> transaction option list \<Rightarrow> transaction option \<Rightarrow> network_id \<Rightarrow> unit result" where
  "ValidateMempoolTransactionFor C statep pending candidatep net =
     (case statep of
       None \<Rightarrow> Inl NilState
     | Some s \<Rightarrow>
     (case candidatep of
       None \<Rightarrow> Inl NilCandidateTransaction
     | Some candidate \<Rightarrow>
     if txID candidate = '''' then Inl EmptyTransactionID
     else (case ValidateResourceBounds (Some candidate) of
       Inl err \<Rightarrow> Inl (RejectedByMempool err)
     | Inr _ \<Rightarrow>
     (case collectSender candidate [] pending of
       Inl err \<Rightarrow> Inl err
     | Inr senderPending \<Rightarrow>
     (case replayPending C net (Some (Clone s)) (sort_key nonce_key_of senderPending) of
       (_, Inl err) \<Rightarrow> Inl err
     | (workingState, Inr _) \<Rightarrow>
     (case ApplyTransactionFor C workingState (Some candidate) net of
       (_, Inl err) \<Rightarrow> Inl (RejectedByMempool err)
     | (_, Inr _) \<Rightarrow> Inr ()))))))"

definition ValidateMempoolTransaction ::
  "crypto \<Rightarrow> state option \<Rightarrow> transaction option list \<Rightarrow> transaction option \<Rightarrow> unit result" where
  "ValidateMempoolTransaction C statep pending candidatep =
     ValidateMempoolTransactionFor C statep pending candidatep DefaultNetwork"

section \<open>Association lists\<close>

lemma update_new: "k \<notin> fst ` set al \<Longrightarrow> AList.update k v al = al @ [(k, v)]"
  by (induction al) auto

lemma map_of_None_iff_key: "map_of al k = None \<longleftrightarrow> k \<notin> fst ` set al"
  by (simp add: map_of_eq_None_iff)

lemma sum_list_delete:
  fixes f :: "'k \<times> 'v \<Rightarrow> nat"
  assumes "distinct (map fst al)" "map_of al k = Some v"
  shows "sum_list (map f (AList.delete k al)) + f (k, v) = sum_list (map f al)"
  using assms
proof (induction al)
  case (Cons x al)
  obtain j w where x: "x = (j, w)" by fastforce
  show ?case
  proof (cases "j = k")
    case True
    with Cons.prems x show ?thesis by (simp add: delete_id)
  next
    case False
    with Cons x show ?thesis by simp
  qed
qed simp

section \<open>The invariant\<close>

definition metaOf :: "transaction \<Rightarrow> entryMetadata" where
  "metaOf tx = \<lparr>metaSender = txFrom tx, metaNonce = txNonce tx,
     metaSize = EstimatedSerializedSize (Some tx)\<rparr>"

definition pool_bytes :: "(string \<times> transaction) list \<Rightarrow> nat" where
  "pool_bytes al = (\<Sum>(_, tx)\<leftarrow>al. EstimatedSerializedSize (Some tx))"

text \<open>The sender/nonce index holds exactly the pending transactions, without empty inner maps.\<close>

definition index_inv :: "mempool \<Rightarrow> bool" where
  "index_inv m \<longleftrightarrow> distinct (map fst (senderNonces m))
     \<and> (\<forall>s ns. map_of (senderNonces m) s = Some ns \<longrightarrow>
          distinct (map fst ns) \<and> ns \<noteq> [] \<and> length ns \<le> MaxMempoolTransactionsPerSender)
     \<and> (\<forall>s n i. map_of (noncesOf m s) n = Some i \<longleftrightarrow>
          (\<exists>tx. map_of (mpTransactions m) i = Some tx \<and> txFrom tx = s \<and> txNonce tx = n))"

definition mempool_inv :: "mempool \<Rightarrow> bool" where
  "mempool_inv m \<longleftrightarrow> distinct (map fst (mpTransactions m)) \<and> distinct (map fst (mpMetadata m))
     \<and> (\<forall>i tx. map_of (mpTransactions m) i = Some tx \<longrightarrow>
          txID tx = i \<and> ValidateResourceBounds (Some tx) = Inr ())
     \<and> map_of (mpMetadata m) = map_option metaOf \<circ> map_of (mpTransactions m)
     \<and> totalEstimatedBytes m = pool_bytes (mpTransactions m)
     \<and> length (mpTransactions m) \<le> MaxMempoolTransactions
     \<and> totalEstimatedBytes m \<le> MaxMempoolBytes
     \<and> index_inv m"

lemma noncesOf_update:
  "noncesOf (m\<lparr>senderNonces := AList.update s ns (senderNonces m)\<rparr>) t = (if t = s then ns else noncesOf m t)"
  by (simp add: noncesOf_def update_conv')

lemma noncesOf_delete:
  "noncesOf (m\<lparr>senderNonces := AList.delete s (senderNonces m)\<rparr>) t = (if t = s then [] else noncesOf m t)"
  by (simp add: noncesOf_def delete_conv')

lemma noncesOf_cong: "senderNonces m = senderNonces n \<Longrightarrow> noncesOf m s = noncesOf n s"
  by (simp add: noncesOf_def)

lemma mempool_index:
  "mempool_inv m \<Longrightarrow> map_of (noncesOf m s) n = Some i \<longleftrightarrow>
     (\<exists>tx. map_of (mpTransactions m) i = Some tx \<and> txFrom tx = s \<and> txNonce tx = n)"
  unfolding mempool_inv_def index_inv_def by blast

lemma NewMempool_inv: "mempool_inv NewMempool"
  by (auto simp: mempool_inv_def index_inv_def NewMempool_def noncesOf_def pool_bytes_def)

lemma Clear_inv: "Clear m = NewMempool"
  by (simp add: Clear_def NewMempool_def)

lemma AddTransaction_ok:
  assumes "AddTransaction (Some m) (Some tx) = (mp, Inr ())"
  shows "ValidateResourceBounds (Some tx) = Inr ()" "map_of (mpTransactions m) (txID tx) = None"
    "length (mpTransactions m) < MaxMempoolTransactions"
    "totalEstimatedBytes m + EstimatedSerializedSize (Some tx) \<le> MaxMempoolBytes"
    "length (noncesOf m (txFrom tx)) < MaxMempoolTransactionsPerSender"
    "map_of (noncesOf m (txFrom tx)) (txNonce tx) = None"
    "mp = Some (m\<lparr>mpTransactions := AList.update (txID tx) tx (mpTransactions m),
        mpMetadata := AList.update (txID tx) (metaOf tx) (mpMetadata m),
        senderNonces := AList.update (txFrom tx)
          (AList.update (txNonce tx) (txID tx) (noncesOf m (txFrom tx))) (senderNonces m),
        totalEstimatedBytes := totalEstimatedBytes m + EstimatedSerializedSize (Some tx)\<rparr>)"
proof -
  from assms have ok: "ValidateResourceBounds (Some tx) = Inr ()" "checkAdmissionLocked m tx = Inr ()"
    and mp: "mp = Some (m\<lparr>mpTransactions := AList.update (txID tx) tx (mpTransactions m),
        mpMetadata := AList.update (txID tx) (metaOf tx) (mpMetadata m),
        senderNonces := AList.update (txFrom tx)
          (AList.update (txNonce tx) (txID tx) (noncesOf m (txFrom tx))) (senderNonces m),
        totalEstimatedBytes := totalEstimatedBytes m + EstimatedSerializedSize (Some tx)\<rparr>)"
    by (auto simp: AddTransaction_def metaOf_def Let_def split: sum.splits)
  show "ValidateResourceBounds (Some tx) = Inr ()" by (rule ok(1))
  show "mp = Some (m\<lparr>mpTransactions := AList.update (txID tx) tx (mpTransactions m),
        mpMetadata := AList.update (txID tx) (metaOf tx) (mpMetadata m),
        senderNonces := AList.update (txFrom tx)
          (AList.update (txNonce tx) (txID tx) (noncesOf m (txFrom tx))) (senderNonces m),
        totalEstimatedBytes := totalEstimatedBytes m + EstimatedSerializedSize (Some tx)\<rparr>)"
    by (rule mp)
  from ok(2) show "map_of (mpTransactions m) (txID tx) = None"
    "length (mpTransactions m) < MaxMempoolTransactions"
    "totalEstimatedBytes m + EstimatedSerializedSize (Some tx) \<le> MaxMempoolBytes"
    "length (noncesOf m (txFrom tx)) < MaxMempoolTransactionsPerSender"
    "map_of (noncesOf m (txFrom tx)) (txNonce tx) = None"
    by (auto simp: checkAdmissionLocked_def not_le not_less split: if_splits option.splits)
qed

lemma AddTransaction_err: "AddTransaction (Some m) txp = (mp, Inl e) \<Longrightarrow> mp = Some m"
  by (auto simp: AddTransaction_def Let_def split: option.splits sum.splits)

lemma index_inv_add:
  assumes inv: "index_inv m" and new: "map_of (mpTransactions m) (txID tx) = None"
    and free: "map_of (noncesOf m (txFrom tx)) (txNonce tx) = None"
    and room: "length (noncesOf m (txFrom tx)) < MaxMempoolTransactionsPerSender"
    and n: "senderNonces n = AList.update (txFrom tx)
          (AList.update (txNonce tx) (txID tx) (noncesOf m (txFrom tx))) (senderNonces m)"
    and t: "mpTransactions n = AList.update (txID tx) tx (mpTransactions m)"
  shows "index_inv n"
proof -
  let ?ns = "noncesOf m (txFrom tx)"
  have ns: "distinct (map fst ?ns)"
    using inv by (auto simp: index_inv_def noncesOf_def split: option.splits)
  have upd: "AList.update (txNonce tx) (txID tx) ?ns = ?ns @ [(txNonce tx, txID tx)]"
    using free by (intro update_new) (simp add: map_of_None_iff_key)
  have look: "noncesOf n s = (if s = txFrom tx then AList.update (txNonce tx) (txID tx) ?ns else noncesOf m s)" for s
    using noncesOf_update [of "txFrom tx" "AList.update (txNonce tx) (txID tx) ?ns" m s] n
    by (simp add: noncesOf_def)
  have "distinct (map fst (senderNonces n))"
    using inv by (simp add: n index_inv_def distinct_update)
  moreover have "distinct (map fst ns) \<and> ns \<noteq> [] \<and> length ns \<le> MaxMempoolTransactionsPerSender"
    if "map_of (senderNonces n) s = Some ns" for s ns
    using that inv ns free room
    by (auto simp: n upd update_conv' index_inv_def map_of_None_iff_key image_iff split: if_splits)
  moreover have "map_of (noncesOf n s) k = Some i \<longleftrightarrow>
      (\<exists>u. map_of (mpTransactions n) i = Some u \<and> txFrom u = s \<and> txNonce u = k)" for s k i
  proof -
    have old: "map_of (noncesOf m s) k = Some i \<longleftrightarrow>
      (\<exists>u. map_of (mpTransactions m) i = Some u \<and> txFrom u = s \<and> txNonce u = k)"
      using inv by (simp add: index_inv_def)
    show ?thesis
      using old new free by (auto simp: look t update_conv')
  qed
  ultimately show ?thesis by (simp add: index_inv_def)
qed

lemma AddTransaction_inv:
  assumes inv: "mempool_inv m" and add: "AddTransaction (Some m) (Some tx) = (Some n, Inr ())"
  shows "mempool_inv n" "mpTransactions n = mpTransactions m @ [(txID tx, tx)]"
proof -
  note a = AddTransaction_ok [OF add]
  note ok = a(1) and new = a(2) and len = a(3) and bytes = a(4) and room = a(5) and free = a(6)
  note n = a(7) [unfolded option.inject]
  show app: "mpTransactions n = mpTransactions m @ [(txID tx, tx)]"
    using new by (simp add: n update_new map_of_None_iff_key)
  have "index_inv n"
    by (rule index_inv_add [OF _ new free room]) (use inv in \<open>simp_all add: n mempool_inv_def\<close>)
  moreover have "pool_bytes (mpTransactions n) = totalEstimatedBytes n"
    using inv app by (simp add: mempool_inv_def pool_bytes_def n)
  moreover have "length (mpTransactions n) \<le> MaxMempoolTransactions" using app len by simp
  ultimately show "mempool_inv n"
    using inv ok bytes
    by (auto simp: mempool_inv_def n distinct_update update_conv' fun_eq_iff)
qed

section \<open>Removal\<close>

lemma index_inv_remove:
  assumes inv: "index_inv m" and tx: "map_of (mpTransactions m) i = Some tx"
    and t: "mpTransactions n = AList.delete i (mpTransactions m)"
    and n: "senderNonces n =
      (let ns = AList.delete (txNonce tx) (noncesOf m (txFrom tx))
       in if length ns = 0 then AList.delete (txFrom tx) (senderNonces m)
          else AList.update (txFrom tx) ns (senderNonces m))"
  shows "index_inv n"
proof -
  let ?ns = "noncesOf m (txFrom tx)" and ?ns' = "AList.delete (txNonce tx) (noncesOf m (txFrom tx))"
  have at: "map_of ?ns (txNonce tx) = Some i" using inv tx by (auto simp: index_inv_def)
  then obtain ns where ns: "map_of (senderNonces m) (txFrom tx) = Some ns" "?ns = ns"
    by (auto simp: noncesOf_def split: option.splits)
  have ok: "distinct (map fst ?ns)" "length ?ns \<le> MaxMempoolTransactionsPerSender"
    using inv ns by (auto simp: index_inv_def)
  have look: "noncesOf n s = (if s = txFrom tx then ?ns' else noncesOf m s)" for s
    using noncesOf_update [of "txFrom tx" ?ns' m s] noncesOf_delete [of "txFrom tx" m s] n
    by (auto simp: noncesOf_def Let_def)
  have "distinct (map fst (senderNonces n))"
    using inv by (simp add: n index_inv_def Let_def distinct_update distinct_delete)
  moreover have "distinct (map fst ks) \<and> ks \<noteq> [] \<and> length ks \<le> MaxMempoolTransactionsPerSender"
    if "map_of (senderNonces n) s = Some ks" for s ks
    using that inv ok distinct_delete [of ?ns "txNonce tx"] length_delete_le [of "txNonce tx" ?ns]
    by (auto simp: n Let_def update_conv' delete_conv' index_inv_def split: if_splits)
  moreover have "map_of (noncesOf n s) k = Some j \<longleftrightarrow>
      (\<exists>u. map_of (mpTransactions n) j = Some u \<and> txFrom u = s \<and> txNonce u = k)" for s k j
  proof -
    have old: "map_of (noncesOf m s) k = Some j \<longleftrightarrow>
      (\<exists>u. map_of (mpTransactions m) j = Some u \<and> txFrom u = s \<and> txNonce u = k)"
      using inv by (simp add: index_inv_def)
    show ?thesis
      using old at tx by (auto simp: look t delete_conv')
  qed
  ultimately show ?thesis by (simp add: index_inv_def)
qed

lemma RemoveTransaction_inv:
  assumes inv: "mempool_inv m"
  shows "mempool_inv (RemoveTransaction m i)"
    "mpTransactions (RemoveTransaction m i) = AList.delete i (mpTransactions m)"
proof -
  have both: "mempool_inv (RemoveTransaction m i) \<and>
    mpTransactions (RemoveTransaction m i) = AList.delete i (mpTransactions m)"
  proof (cases "map_of (mpTransactions m) i")
    case None
    then have "AList.delete i (mpTransactions m) = mpTransactions m"
      by (simp add: map_of_None_iff_key delete_id)
    with None inv show ?thesis by (simp add: RemoveTransaction_def)
  next
    case (Some tx)
    have meta: "map_of (mpMetadata m) i = Some (metaOf tx)" using inv Some by (simp add: mempool_inv_def)
    have at: "map_of (noncesOf m (txFrom tx)) (txNonce tx) = Some i"
      using inv Some by (auto simp: mempool_inv_def index_inv_def)
    then obtain ns where ns: "map_of (senderNonces m) (txFrom tx) = Some ns" "noncesOf m (txFrom tx) = ns"
      by (auto simp: noncesOf_def split: option.splits)
    define n where "n = RemoveTransaction m i"
    have bytes: "pool_bytes (AList.delete i (mpTransactions m)) + EstimatedSerializedSize (Some tx)
        = pool_bytes (mpTransactions m)"
      using sum_list_delete [of "mpTransactions m" i tx "\<lambda>(_, tx). EstimatedSerializedSize (Some tx)"] inv Some
      by (simp add: pool_bytes_def mempool_inv_def)
    have n: "mpTransactions n = AList.delete i (mpTransactions m)"
      "mpMetadata n = AList.delete i (mpMetadata m)"
      "senderNonces n = (let ns = AList.delete (txNonce tx) (noncesOf m (txFrom tx))
         in if length ns = 0 then AList.delete (txFrom tx) (senderNonces m)
            else AList.update (txFrom tx) ns (senderNonces m))"
      and tot: "totalEstimatedBytes n = totalEstimatedBytes m - EstimatedSerializedSize (Some tx)"
      using Some meta ns at
      by (simp_all add: n_def RemoveTransaction_def metaOf_def Let_def)
    have n4: "totalEstimatedBytes n = pool_bytes (AList.delete i (mpTransactions m))"
      using tot bytes inv by (simp add: mempool_inv_def)
    have "index_inv n"
      by (rule index_inv_remove [OF _ Some n(1,3)]) (use inv in \<open>simp add: mempool_inv_def\<close>)
    moreover have "length (mpTransactions n) \<le> MaxMempoolTransactions"
      using inv length_delete_le [of i "mpTransactions m"] by (simp add: n mempool_inv_def)
    moreover have "totalEstimatedBytes n \<le> MaxMempoolBytes"
      using inv bytes by (simp add: n4 mempool_inv_def)
    ultimately have "mempool_inv n"
      using inv by (auto simp: mempool_inv_def n n4 distinct_delete delete_conv' fun_eq_iff)
    with n(1) show ?thesis by (simp add: n_def)
  qed
  then show "mempool_inv (RemoveTransaction m i)"
    "mpTransactions (RemoveTransaction m i) = AList.delete i (mpTransactions m)" by simp_all
qed

section \<open>The pool as a set of transactions\<close>

definition pending :: "mempool \<Rightarrow> transaction list" where
  "pending m = map snd (mpTransactions m)"

lemma pending_ids:
  assumes "mempool_inv m"
  shows "map txID (pending m) = map fst (mpTransactions m)"
proof -
  have "txID tx = i" if "(i, tx) \<in> set (mpTransactions m)" for i tx
    using assms that by (auto simp: mempool_inv_def)
  then show ?thesis by (auto simp: pending_def)
qed

lemma pending_distinct: "mempool_inv m \<Longrightarrow> distinct (map txID (pending m))"
  by (simp add: pending_ids) (simp add: mempool_inv_def)

lemma pending_lookup:
  assumes "mempool_inv m"
  shows "tx \<in> set (pending m) \<longleftrightarrow> map_of (mpTransactions m) (txID tx) = Some tx"
proof -
  have d: "distinct (map fst (mpTransactions m))"
    and k: "\<And>i tx. map_of (mpTransactions m) i = Some tx \<Longrightarrow> txID tx = i"
    using assms by (auto simp: mempool_inv_def)
  show ?thesis
  proof
    assume "tx \<in> set (pending m)"
    then obtain i where "(i, tx) \<in> set (mpTransactions m)" by (auto simp: pending_def)
    then have "map_of (mpTransactions m) i = Some tx" using d by simp
    with k show "map_of (mpTransactions m) (txID tx) = Some tx" by auto
  next
    assume "map_of (mpTransactions m) (txID tx) = Some tx"
    from map_of_SomeD [OF this] show "tx \<in> set (pending m)" by (force simp: pending_def)
  qed
qed

lemma map_filter_total:
  "(\<And>x. x \<in> set xs \<Longrightarrow> \<exists>y. f x = Some y) \<Longrightarrow> List.map_filter f xs = map (\<lambda>x. the (f x)) xs"
proof (induction xs)
  case (Cons a xs)
  from Cons.prems [of a] obtain y where "f a = Some y" by auto
  with Cons show ?case by (simp add: List.map_filter_simps)
qed (simp add: List.map_filter_simps)

text \<open>The sender's list holds exactly the sender's pending transactions.\<close>

lemma sender_transactions:
  fixes s :: string
  assumes inv: "mempool_inv m" and iter: "visits_all iter"
  defines "xs \<equiv> List.map_filter (\<lambda>(_, ident). map_of (mpTransactions m) ident) (iter (noncesOf m s))"
  shows "mset xs = mset (filter (\<lambda>tx. txFrom tx = s) (pending m))"
    "distinct (map txNonce xs)" "length xs = length (noncesOf m s)"
proof -
  let ?ns = "iter (noncesOf m s)"
  have ms: "mset ?ns = mset (noncesOf m s)" using iter by (simp add: visits_all_def)
  have "distinct (map fst (noncesOf m s))"
    using inv by (auto simp: mempool_inv_def index_inv_def noncesOf_def split: option.splits)
  then have d: "distinct (map fst ?ns)" using ms by (metis mset_eq_imp_distinct_iff mset_map)
  have key: "\<exists>tx. map_of (mpTransactions m) i = Some tx \<and> txFrom tx = s \<and> txNonce tx = n"
    if "(n, i) \<in> set ?ns" for n i
  proof -
    have "(n, i) \<in> set (noncesOf m s)" using that ms by (metis mset_eq_setD)
    then have "map_of (noncesOf m s) n = Some i"
      using inv by (auto simp: mempool_inv_def index_inv_def noncesOf_def split: option.splits)
    then show ?thesis using inv by (simp add: mempool_inv_def index_inv_def)
  qed
  have xs: "xs = map (\<lambda>(_, i). the (map_of (mpTransactions m) i)) ?ns"
    unfolding xs_def using key by (subst map_filter_total) (auto simp: case_prod_unfold, blast)
  have "txNonce (the (map_of (mpTransactions m) (snd p))) = fst p" if "p \<in> set ?ns" for p
    using key [of "fst p" "snd p"] that by auto
  then have "map txNonce xs = map fst ?ns" unfolding xs by (simp add: case_prod_unfold)
  with d show dn: "distinct (map txNonce xs)" by simp
  show "length xs = length (noncesOf m s)" using mset_eq_length [OF ms] by (simp add: xs)
  have "set xs = set (filter (\<lambda>tx. txFrom tx = s) (pending m))"
  proof (intro equalityI subsetI)
    fix tx
    assume "tx \<in> set xs"
    then obtain n i where "(n, i) \<in> set ?ns" "tx = the (map_of (mpTransactions m) i)" by (auto simp: xs)
    with key [of n i] inv show "tx \<in> set (filter (\<lambda>tx. txFrom tx = s) (pending m))"
      by (auto simp: pending_lookup mempool_inv_def)
  next
    fix tx
    assume "tx \<in> set (filter (\<lambda>tx. txFrom tx = s) (pending m))"
    then have tx: "map_of (mpTransactions m) (txID tx) = Some tx" "txFrom tx = s"
      using inv by (auto simp: pending_lookup)
    then have "map_of (noncesOf m s) (txNonce tx) = Some (txID tx)"
      unfolding mempool_index [OF inv] by blast
    then have "(txNonce tx, txID tx) \<in> set (noncesOf m s)" by (rule map_of_SomeD)
    then have "(txNonce tx, txID tx) \<in> set ?ns" unfolding mset_eq_setD [OF ms] .
    then have "the (map_of (mpTransactions m) (txID tx)) \<in> set xs" unfolding xs by force
    then show "tx \<in> set xs" by (simp add: tx(1))
  qed
  moreover have "distinct xs" using dn by (simp add: distinct_map)
  moreover have "distinct (filter (\<lambda>tx. txFrom tx = s) (pending m))"
    using pending_distinct [OF inv] by (simp add: distinct_map)
  ultimately show "mset xs = mset (filter (\<lambda>tx. txFrom tx = s) (pending m))"
    using set_eq_iff_mset_eq_distinct by blast
qed

lemma CountForSender_eq:
  assumes "mempool_inv m"
  shows "CountForSender m s = length (filter (\<lambda>tx. txFrom tx = s) (pending m))"
proof -
  have "visits_all (\<lambda>xs :: (u64 \<times> string) list. xs)" by (simp add: visits_all_def)
  note x = sender_transactions [OF assms this, of s]
  show ?thesis using mset_eq_length [OF x(1)] x(3) by (simp only: CountForSender_def)
qed

lemma CountForSender_le: "mempool_inv m \<Longrightarrow> CountForSender m s \<le> MaxMempoolTransactionsPerSender"
  by (auto simp: CountForSender_def noncesOf_def mempool_inv_def index_inv_def split: option.splits)

section \<open>The interface of a transaction pool\<close>

text \<open>What the block builder and the miner rely on: removing an ID drops exactly the transaction
  with that ID and keeps the pool well-formed.\<close>

locale tx_pool =
  fixes contents :: "'m \<Rightarrow> transaction list"
    and wf :: "'m \<Rightarrow> bool"
    and remove :: "'m \<Rightarrow> string \<Rightarrow> 'm"
  assumes remove_wf: "wf m \<Longrightarrow> wf (remove m i)"
    and remove_contents: "wf m \<Longrightarrow> contents (remove m i) = filter (\<lambda>tx. txID tx \<noteq> i) (contents m)"
    and ids_distinct: "wf m \<Longrightarrow> distinct (map txID (contents m))"
begin

lemma remove_all:
  assumes "wf m"
  shows "wf (foldl remove m is) \<and> contents (foldl remove m is) = filter (\<lambda>tx. txID tx \<notin> set is) (contents m)"
  using assms
proof (induction "is" arbitrary: m)
  case (Cons i "is")
  then have "wf (remove m i)" by (simp add: remove_wf)
  from Cons.IH [OF this] Cons.prems show ?case
    by (auto simp: remove_contents intro!: filter_cong)
qed simp

lemma remove_all_gone: "wf m \<Longrightarrow> i \<in> set is \<Longrightarrow> i \<notin> txID ` set (contents (foldl remove m is))"
  using remove_all by auto

end

lemma pending_remove:
  assumes "mempool_inv m"
  shows "pending (RemoveTransaction m i) = filter (\<lambda>tx. txID tx \<noteq> i) (pending m)"
proof -
  have id: "txID tx = j" if "(j, tx) \<in> set (mpTransactions m)" for j tx
    using assms that by (auto simp: mempool_inv_def)
  have del: "map snd (AList.delete i al) = filter (\<lambda>tx. txID tx \<noteq> i) (map snd al)"
    if "\<And>j tx. (j, tx) \<in> set al \<Longrightarrow> txID tx = j" for al
    using that
  proof (induction al)
    case (Cons x al)
    obtain j tx where x: "x = (j, tx)" by fastforce
    have "txID tx = j" by (rule Cons.prems) (simp add: x)
    moreover have "map snd (AList.delete i al) = filter (\<lambda>tx. txID tx \<noteq> i) (map snd al)"
      by (rule Cons.IH, rule Cons.prems) simp
    ultimately show ?case by (simp add: x)
  qed simp
  show ?thesis unfolding pending_def RemoveTransaction_inv(2) [OF assms] by (rule del) (rule id)
qed

interpretation pool: tx_pool pending mempool_inv RemoveTransaction
  by unfold_locales (auto simp: RemoveTransaction_inv pending_remove pending_distinct)

lemma sorted_keys_strict:
  assumes "sorted (map nonce_key_of xs)" "distinct (map txNonce xs)"
  shows "sorted_wrt (\<lambda>t u. txNonce t < txNonce u) xs"
  using assms
  by (induction xs)
    (auto simp: nonce_key_of_def less_eq_nonce_key_def image_iff split: if_splits)

section \<open>Histories of a pool\<close>

inductive pool_history :: "mempool \<Rightarrow> bool" where
  empty: "pool_history NewMempool"
| add: "pool_history m \<Longrightarrow> AddTransaction (Some m) txp = (Some n, r) \<Longrightarrow> pool_history n"
| remove: "pool_history m \<Longrightarrow> pool_history (RemoveTransaction m i)"
| clear: "pool_history m \<Longrightarrow> pool_history (Clear m)"

lemma AddTransaction_keeps_inv:
  assumes "mempool_inv m" "AddTransaction (Some m) txp = (Some n, r)"
  shows "mempool_inv n"
proof (cases r)
  case (Inl e)
  with assms AddTransaction_err [of m txp "Some n" e] show ?thesis by simp
next
  case (Inr u)
  with assms(2) obtain tx where "txp = Some tx" by (cases txp) (auto simp: AddTransaction_def)
  with assms Inr show ?thesis using AddTransaction_inv(1) by simp
qed

lemma pool_history_inv: "pool_history m \<Longrightarrow> mempool_inv m"
proof (induction rule: pool_history.induct)
  case empty
  show ?case by (rule NewMempool_inv)
next
  case (add m txp n r)
  show ?case by (rule AddTransaction_keeps_inv [OF add.IH add.hyps(2)])
next
  case (remove m i)
  show ?case by (rule RemoveTransaction_inv(1) [OF remove.IH])
next
  case (clear m)
  show ?case by (simp add: Clear_inv NewMempool_inv)
qed

section \<open>Replaying the sender's transactions\<close>

lemma applied_nonce:
  assumes "admissible C s tx net" "applied s tx t"
  shows "unat (AccountNonce t (txFrom tx)) = unat (AccountNonce s (txFrom tx)) + 1"
    "txNonce tx = AccountNonce t (txFrom tx)"
proof -
  from assms(1) have e: "ExpectedNonce s (txFrom tx) = Inr (txNonce tx)" by (simp add: admissible_def)
  then have n: "txNonce tx = AccountNonce s (txFrom tx) + 1" "AccountNonce s (txFrom tx) \<noteq> MaxUint64"
    by (auto simp: ExpectedNonce_def AccountNonce_def Let_def split: if_splits)
  have t: "AccountNonce t (txFrom tx) = txNonce tx"
    using applied_frame(4) [OF assms(2)] by (simp add: AccountNonce_def)
  then show "txNonce tx = AccountNonce t (txFrom tx)" by simp
  have "unat (AccountNonce s (txFrom tx)) + 1 < 2 ^ 64"
  proof -
    have "AccountNonce s (txFrom tx) \<noteq> - 1" using n(2) by simp
    then have "unat (AccountNonce s (txFrom tx)) \<noteq> unat (- 1 :: u64)" using word_unat_eq_iff by blast
    then show ?thesis using unat_less_64 [of "AccountNonce s (txFrom tx)"] by simp
  qed
  then show "unat (AccountNonce t (txFrom tx)) = unat (AccountNonce s (txFrom tx)) + 1"
    using t n(1) unat_add_bounded [of "AccountNonce s (txFrom tx)" 1] by simp
qed

lemma replayPending_nonce:
  assumes "replayPending C net (Some s) txs = (w, Inr ())" "\<forall>tx\<in>set txs. txFrom tx = a"
  shows "\<exists>t. w = Some t \<and> unat (AccountNonce t a) = unat (AccountNonce s a) + length txs"
  using assms
proof (induction txs arbitrary: s)
  case (Cons tx txs)
  from Cons.prems(1) obtain w1 fee where a: "ApplyTransactionFor C (Some s) (Some tx) net = (w1, Inr fee)"
    and rest: "replayPending C net w1 txs = (w, Inr ())"
    by (auto split: prod.splits sum.splits)
  note ok = ApplyTransactionFor_ok_applied [OF a]
  from ok(3) obtain u where u: "w1 = Some u" "applied s tx u" by blast
  have "unat (AccountNonce u a) = unat (AccountNonce s a) + 1"
    using applied_nonce(1) [OF ok(1) u(2)] Cons.prems(2) by simp
  with Cons.IH [of u] rest u(1) Cons.prems(2) show ?case by auto
qed auto

lemma collectSender_filter:
  assumes "collectSender candidate found (map Some txs) = Inr senderPending"
  shows "senderPending = found @ filter (\<lambda>tx. txFrom tx = txFrom candidate) txs
    \<and> (\<forall>tx\<in>set txs. txID tx \<noteq> txID candidate)"
  using assms
proof (induction txs arbitrary: found)
  case (Cons tx txs)
  then show ?case
    using Cons.IH [of found] Cons.IH [of "found @ [tx]"] by (auto simp: Let_def split: if_splits)
qed simp

section \<open>Properties\<close>

text \<open>C6: whatever sequence of additions (accepted or refused), removals and clears a pool goes
  through, it holds at most 4096 transactions and 4 MiB, the cached byte count is the sum of the
  sizes, every sender has at most 64 pending transactions and the cached count of a sender is the
  true one, IDs are unique, and no sender has two pending transactions with one nonce.\<close>

theorem pool_limits:
  assumes "pool_history m"
  shows "Count m \<le> 4096 \<and> TotalEstimatedBytes m \<le> 4194304
    \<and> TotalEstimatedBytes m = (\<Sum>tx\<leftarrow>pending m. EstimatedSerializedSize (Some tx))
    \<and> (\<forall>s. CountForSender m s \<le> 64
          \<and> CountForSender m s = length (filter (\<lambda>tx. txFrom tx = s) (pending m)))
    \<and> distinct (map txID (pending m))
    \<and> (\<forall>t\<in>set (pending m). \<forall>u\<in>set (pending m).
          txFrom t = txFrom u \<and> txNonce t = txNonce u \<longrightarrow> t = u)"
proof -
  note inv = pool_history_inv [OF assms]
  have one: "t = u" if "t \<in> set (pending m)" "u \<in> set (pending m)" "txFrom t = txFrom u" "txNonce t = txNonce u" for t u
  proof -
    have t: "map_of (mpTransactions m) (txID t) = Some t" "map_of (mpTransactions m) (txID u) = Some u"
      using that(1,2) by (simp_all add: pending_lookup [OF inv])
    have "map_of (noncesOf m (txFrom t)) (txNonce t) = Some (txID t)"
      "map_of (noncesOf m (txFrom t)) (txNonce t) = Some (txID u)"
      using t that(3,4) unfolding mempool_index [OF inv] by auto
    with t show ?thesis by simp
  qed
  have "pool_bytes (mpTransactions m) = (\<Sum>tx\<leftarrow>pending m. EstimatedSerializedSize (Some tx))"
    by (simp add: pool_bytes_def pending_def comp_def case_prod_unfold)
  then show ?thesis
    using inv CountForSender_eq [OF inv] CountForSender_le [OF inv] pending_distinct [OF inv] one
    by (simp add: mempool_inv_def Count_def TotalEstimatedBytes_def go_const)
qed

definition small_pool :: mempool where
  "small_pool = (case AddTransaction (Some NewMempool) (Some (small_transfer 5000 1)) of
     (Some m, _) \<Rightarrow> m | _ \<Rightarrow> NewMempool)"

lemma small_pool_added:
  "AddTransaction (Some NewMempool) (Some (small_transfer 5000 1)) = (Some small_pool, Inr ())"
proof -
  have b: "ValidateResourceBounds (Some (small_transfer 5000 1)) = Inr ()"
    by (rule small_transfer_bounds) (simp add: go_const)
  have "EstimatedSerializedSize (Some (small_transfer 5000 1)) \<le> 1024"
    using b by (auto simp: ValidateResourceBounds_def go_const split: if_splits sum.splits)
  then have "checkAdmissionLocked NewMempool (small_transfer 5000 1) = Inr ()"
    using bounds_ok(1) [OF b]
    by (simp add: checkAdmissionLocked_def NewMempool_def noncesOf_def go_const)
  with b show ?thesis by (simp add: small_pool_def AddTransaction_def Let_def)
qed

lemma small_pool_history: "pool_history small_pool"
  by (rule pool_history.add [OF pool_history.empty small_pool_added])

lemma small_pool_pending: "pending small_pool = [small_transfer 5000 1]"
  using AddTransaction_inv(2) [OF NewMempool_inv small_pool_added]
  by (simp add: pending_def NewMempool_def)

theorem pool_limits_witness: "Count small_pool \<le> 4096 \<and> CountForSender small_pool (Address (small_wallet 7)) = 1"
  using pool_limits [OF small_pool_history] by (simp add: small_pool_pending)

text \<open>An added transaction is found under its ID, every other lookup is as before, and removing
  the ID again restores the pending list; adding an ID that is pending, or a nonce the sender
  already uses, is refused without any change.\<close>

theorem pool_add_get_remove:
  assumes "mempool_inv m" "AddTransaction (Some m) (Some tx) = (Some n, Inr ())"
  shows "GetTransaction n i = (if i = txID tx then Some tx else GetTransaction m i)
    \<and> pending n = pending m @ [tx] \<and> pending (RemoveTransaction n (txID tx)) = pending m
    \<and> fst (AddTransaction (Some n) (Some tx)) = Some n \<and> \<not> is_ok (snd (AddTransaction (Some n) (Some tx)))"
proof -
  note a = AddTransaction_ok [OF assms(2)] and i = AddTransaction_inv [OF assms]
  have get: "GetTransaction n i = (if i = txID tx then Some tx else GetTransaction m i)"
    using a(7) by (simp add: GetTransaction_def update_conv')
  have p: "pending n = pending m @ [tx]" using i(2) by (simp add: pending_def)
  have "txID tx \<notin> txID ` set (pending m)"
    using a(2) pending_lookup [OF assms(1)] by fastforce
  then have "filter (\<lambda>t. txID t \<noteq> txID tx) (pending m) = pending m"
    by (metis (mono_tags, lifting) filter_True image_eqI)
  then have r: "pending (RemoveTransaction n (txID tx)) = pending m"
    using pending_remove [OF i(1), of "txID tx"] p by simp
  have "map_of (mpTransactions n) (txID tx) \<noteq> None" using a(7) by (simp add: update_conv')
  then have "\<exists>e. AddTransaction (Some n) (Some tx) = (Some n, Inl e)"
    using a(1) by (auto simp: AddTransaction_def checkAdmissionLocked_def Let_def)
  with get p r show ?thesis by auto
qed

theorem pool_add_get_remove_witness:
  "GetTransaction small_pool (txID (small_transfer 5000 1)) = Some (small_transfer 5000 1)"
  using pool_add_get_remove [OF NewMempool_inv small_pool_added] by simp

text \<open>For every iteration order of the map, the list for a sender holds exactly the sender's
  pending transactions, strictly ascending in the nonce; so it does not depend on the order.\<close>

theorem sender_transactions_sorted:
  assumes "pool_history m" "visits_all iter"
  shows "mset (TransactionsForSender iter m s) = mset (filter (\<lambda>tx. txFrom tx = s) (pending m))
    \<and> sorted_wrt (\<lambda>t u. txNonce t < txNonce u) (TransactionsForSender iter m s)"
proof -
  note inv = pool_history_inv [OF assms(1)]
  let ?xs = "TransactionsForSender iter m s"
  note x = sender_transactions [OF inv assms(2), of s]
  have ms: "mset ?xs = mset (filter (\<lambda>tx. txFrom tx = s) (pending m))"
    using x(1) by (simp add: TransactionsForSender_def)
  have "sorted (map nonce_key_of ?xs)" by (simp add: TransactionsForSender_def)
  moreover have "distinct (map txNonce ?xs)"
    using x(2) by (simp add: TransactionsForSender_def distinct_map inj_on_def)
  ultimately have "sorted_wrt (\<lambda>t u. txNonce t < txNonce u) ?xs" by (rule sorted_keys_strict)
  with ms show ?thesis by blast
qed

theorem sender_transactions_sorted_witness:
  "mset (TransactionsForSender rev small_pool (Address (small_wallet 7))) = {#small_transfer 5000 1#}"
proof -
  have "visits_all (rev :: (u64 \<times> string) list \<Rightarrow> _)" by (simp add: visits_all_def)
  from sender_transactions_sorted [OF small_pool_history this, of "Address (small_wallet 7)"]
  show ?thesis by (simp add: small_pool_pending)
qed

text \<open>A candidate is admitted only as the next link of its sender's chain: its nonce is the
  confirmed nonce plus the number of the sender's pending transactions plus one, there are fewer
  than 64 of them, no pending transaction has its ID, and the sender's pending transactions
  followed by the candidate can be applied to the confirmed state.\<close>

theorem mempool_admission_gapless:
  assumes "ValidateMempoolTransactionFor C (Some s) (map Some txs) (Some cand) net = Inr ()"
  shows "unat (txNonce cand) = unat (AccountNonce s (txFrom cand))
      + length (filter (\<lambda>tx. txFrom tx = txFrom cand) txs) + 1
    \<and> (\<forall>tx\<in>set txs. txID tx \<noteq> txID cand)
    \<and> (\<exists>w u. replayPending C net (Some s)
          (sort_key nonce_key_of (filter (\<lambda>tx. txFrom tx = txFrom cand) txs)) = (Some w, Inr ())
        \<and> fst (ApplyTransactionFor C (Some w) (Some cand) net) = Some u \<and> applied w cand u)"
proof -
  let ?own = "filter (\<lambda>tx. txFrom tx = txFrom cand) txs"
  from assms obtain sp w wp fee where
    c: "collectSender cand [] (map Some txs) = Inr sp" and
    r: "replayPending C net (Some s) (sort_key nonce_key_of sp) = (w, Inr ())" and
    a: "ApplyTransactionFor C w (Some cand) net = (wp, Inr fee)"
    by (auto simp: ValidateMempoolTransactionFor_def split: if_splits sum.splits prod.splits)
  have sp: "sp = ?own" "\<forall>tx\<in>set txs. txID tx \<noteq> txID cand" using collectSender_filter [OF c] by auto
  from replayPending_nonce [OF r, of "txFrom cand"] sp obtain v where
    v: "w = Some v" "unat (AccountNonce v (txFrom cand)) = unat (AccountNonce s (txFrom cand)) + length ?own"
    by auto
  note ok = ApplyTransactionFor_ok_applied [OF a [unfolded v(1)]]
  from ok(3) obtain u where u: "wp = Some u" "applied v cand u" by blast
  have "unat (txNonce cand) = unat (AccountNonce v (txFrom cand)) + 1"
    using applied_nonce [OF ok(1) u(2)] by simp
  with v sp r a u show ?thesis by auto
qed

theorem mempool_admission_gapless_witness:
  "unat (txNonce (small_transfer 5000 1)) = unat (AccountNonce small_state (Address (small_wallet 7))) + 1"
proof -
  have b: "ValidateResourceBounds (Some (small_transfer 5000 1)) = Inr ()"
    by (rule small_transfer_bounds) (simp add: go_const)
  obtain t where "ApplyTransactionFor small_crypto (Some small_state) (Some (small_transfer 5000 1))
      NetworkPublicTestnet = (Some t, Inr (MiningFee 5000))" using small_transfer_applies by blast
  with b bounds_ok(1) [OF b] have "ValidateMempoolTransactionFor small_crypto (Some small_state) (map Some [])
      (Some (small_transfer 5000 1)) NetworkPublicTestnet = Inr ()"
    by (simp add: ValidateMempoolTransactionFor_def)
  from mempool_admission_gapless [OF this] show ?thesis by simp
qed

end
