(* ===== verification/Miner.thy ===== *)
theory Miner
  imports Reorg Mempool "HOL-Library.Sublist"
begin

text \<open>
  \<open>blockchain/block_builder.go\<close>, \<open>pow/pow.go\<close>, \<open>miner/miner.go\<close> and \<open>miner/pipeline.go\<close>:
  building a candidate block from the pool, the legacy proof of work, the nonce search, and the
  pipeline that mines a block and commits it to the chain, the state and the pool.

  The pool never holds a nil transaction (\<open>AddTransaction\<close> refuses it), so \<open>AllTransactions\<close> is a
  list of transactions. The pipeline reads the clock three times: when the block is built, when
  it is validated and when it is appended; these readings are the arguments \<open>now\<close>. The duration
  of a search is not modelled.
\<close>

section \<open>Block builder\<close>

text \<open>The selection loop: the transactions taken so far and their bytes.\<close>

fun selectTransactions :: "transaction list \<Rightarrow> nat \<Rightarrow> transaction list \<Rightarrow> transaction list" where
  "selectTransactions selected totalBytes [] = selected"
| "selectTransactions selected totalBytes (tx # rest) =
     (if length selected \<ge> MaxBlockTransactions then selected
      else
        (let size = EstimatedSerializedSize (Some tx)
         in if totalBytes + size > MaxBlockTransactionBytes
            then selectTransactions selected totalBytes rest
            else selectTransactions (selected @ [tx]) (totalBytes + size) rest))"

type_synonym map_order = "(string \<times> transaction) list \<Rightarrow> (string \<times> transaction) list"

definition NewBlockFromMempool ::
  "crypto \<Rightarrow> map_order \<Rightarrow> i64 \<Rightarrow> block option \<Rightarrow> mempool option \<Rightarrow> block result" where
  "NewBlockFromMempool C iter now previousp poolp =
     (case previousp of
        None \<Rightarrow> Inl NilPreviousBlock
      | Some previousBlock \<Rightarrow>
          (case poolp of
             None \<Rightarrow> Inl NilMempool
           | Some pool \<Rightarrow>
               (let selected = selectTransactions [] 0 (AllTransactions iter pool);
                    block = \<lparr>blkVersion = 1, blkHeight = blkHeight previousBlock + 1,
                      blkTimestamp = now, blkPreviousHash = Hash C previousBlock,
                      blkMerkleRoot = '''', blkDifficulty = blkDifficulty previousBlock,
                      blkNonce = 0, blkMinerAddress = '''', blkTransactions = map Some selected\<rparr>
                in Inr (UpdateMerkleRoot C block))))"

section \<open>Legacy proof of work\<close>

definition sha256Hash :: "crypto \<Rightarrow> bytes \<Rightarrow> bytes" where
  "sha256Hash C data = sha256 C data"

definition HashBlock :: "crypto \<Rightarrow> block \<Rightarrow> u64 \<Rightarrow> string" where
  "HashBlock C block nonce =
     (let header = HeaderBytes block nonce; first = sha256Hash C header;
          second = sha256Hash C first
      in hex_encode second)"

definition ValidHash :: "string \<Rightarrow> u32 \<Rightarrow> bool" where
  "ValidHash hash difficulty =
     (if difficulty = 0 then False
      else
        (let target = TargetFromDifficulty difficulty
         in case hex_decode hash of
              None \<Rightarrow> False
            | Some hashBytes \<Rightarrow> int (be_nat hashBytes) \<le> target))"

definition CheckBlock :: "crypto \<Rightarrow> block \<Rightarrow> bool" where
  "CheckBlock C block =
     (let hash = HashBlock C block (blkNonce block) in ValidHash hash (blkDifficulty block))"

section \<open>Nonce search\<close>

record mining_result =
  resBlock :: "block option"
  resHash :: string
  resNonce :: u64
  resHashesRun :: u64
  resFound :: bool

definition emptyResult :: mining_result where
  "emptyResult = \<lparr>resBlock = None, resHash = '''', resNonce = 0, resHashesRun = 0, resFound = False\<rparr>"

text \<open>The search loop. The counter runs from \<open>i\<close> while it is below \<open>maxAttempts\<close>.\<close>

function mineFrom :: "crypto \<Rightarrow> block \<Rightarrow> u64 \<Rightarrow> u64 \<Rightarrow> u64 \<Rightarrow> mining_result" where
  "mineFrom C block startNonce maxAttempts i =
     (if i < maxAttempts then
        (let nonce = startNonce + i; hash = HashBlock C block nonce
         in if ValidHash hash (blkDifficulty block)
            then \<lparr>resBlock = Some (block\<lparr>blkNonce := nonce\<rparr>), resHash = hash, resNonce = nonce,
                  resHashesRun = i + 1, resFound = True\<rparr>
            else mineFrom C block startNonce maxAttempts (i + 1))
      else \<lparr>resBlock = Some block, resHash = '''', resNonce = 0, resHashesRun = maxAttempts,
            resFound = False\<rparr>)"
  by pat_completeness auto
termination
proof (relation "measure (\<lambda>(C, block, startNonce, maxAttempts, i). unat maxAttempts - unat i)")
  fix C :: crypto and block :: block and startNonce maxAttempts i :: u64
  assume "i < maxAttempts"
  then have lt: "unat i < unat maxAttempts" by (simp add: word_less_nat_alt)
  with unat_next_64 [OF \<open>i < maxAttempts\<close>] show "((C, block, startNonce, maxAttempts, i + 1), C, block, startNonce, maxAttempts, i)
      \<in> measure (\<lambda>(C, block, startNonce, maxAttempts, i). unat maxAttempts - unat i)" by simp
qed simp

declare mineFrom.simps [simp del]

definition Mine :: "crypto \<Rightarrow> block \<Rightarrow> u64 \<Rightarrow> u64 \<Rightarrow> mining_result" where
  "Mine C block startNonce maxAttempts = mineFrom C block startNonce maxAttempts 0"

section \<open>The mining pipeline\<close>

type_synonym node = "chain option \<times> state option \<times> mempool option"

text \<open>The part that prepares the block to be mined, up to the second Merkle root update.\<close>

definition prepareBlock ::
  "crypto \<Rightarrow> map_order \<Rightarrow> i64 \<Rightarrow> chain \<Rightarrow> mempool \<Rightarrow> string \<Rightarrow> block result" where
  "prepareBlock C iter now c pool minerAddress =
     (case Tip c of
       None \<Rightarrow> Inl NilTip
     | Some previous \<Rightarrow>
     (case NewBlockFromMempool C iter now (Some previous) (Some pool) of
       Inl err \<Rightarrow> Inl (CandidateBlockFailed err)
     | Inr block0 \<Rightarrow>
     (let block1 = (if blkTimestamp block0 \<le> blkTimestamp previous
                    then block0\<lparr>blkTimestamp := wrap64 (blkTimestamp previous + 1)\<rparr> else block0) in
     (case ExpectedNextDifficulty (Some c) of
       Inl err \<Rightarrow> Inl (MiningDifficultyFailed err)
     | Inr difficulty \<Rightarrow>
       Inr (UpdateMerkleRoot C
         (block1\<lparr>blkDifficulty := difficulty, blkMinerAddress := minerAddress, blkNonce := 0\<rparr>))))))"

definition MineNextBlock ::
  "crypto \<Rightarrow> map_order \<Rightarrow> i64 \<times> i64 \<times> i64 \<Rightarrow> chain option \<Rightarrow> state option \<Rightarrow> mempool option \<Rightarrow>
   string \<Rightarrow> u64 \<Rightarrow> node \<times> mining_result \<times> u64 result" where
  "MineNextBlock C iter now chainp statep poolp minerAddress maxAttempts =
     (let node = (chainp, statep, poolp); fail = (\<lambda>result err. (node, result, Inl err)) in
     (case chainp of
       None \<Rightarrow> fail emptyResult NilChain
     | Some c \<Rightarrow>
     (case statep of
       None \<Rightarrow> fail emptyResult NilState
     | Some s \<Rightarrow>
     (case poolp of
       None \<Rightarrow> fail emptyResult NilMempool
     | Some pool \<Rightarrow>
     if minerAddress = '''' then fail emptyResult EmptyMinerAddress
     else if maxAttempts = 0 then fail emptyResult ZeroMaxAttempts
     else (case MonetaryPolicy chainp of
       Inl err \<Rightarrow> fail emptyResult (InvalidChainNetwork err)
     | Inr policy \<Rightarrow>
     (case EnsureMonetaryPolicy s policy of
       Inl err \<Rightarrow> fail emptyResult (ChainStateMismatch err)
     | Inr _ \<Rightarrow>
     (case prepareBlock C iter (fst now) c pool minerAddress of
       Inl err \<Rightarrow> fail emptyResult err
     | Inr block0 \<Rightarrow>
     (let result = Mine C block0 0 maxAttempts;
          block = (case resBlock result of None \<Rightarrow> block0 | Some b \<Rightarrow> b) in
     if \<not> resFound result then fail result NoValidNonce
     else (case ValidateBlockAgainstChain C (fst (snd now)) chainp (Some block) of
       Inl err \<Rightarrow> fail result (MinedBlockInvalid err)
     | Inr _ \<Rightarrow>
     (case ProcessBlockFor C (Some (Clone s)) policy (Some block) (blkMinerAddress block) of
       (_, Inl err) \<Rightarrow> fail result (MinedBlockUnprocessable err)
     | (workingState, Inr minerReward) \<Rightarrow>
     (case AddBlock C (snd (snd now)) c (Some block) of
       (c1, Inl err) \<Rightarrow> ((Some c1, statep, poolp), result, Inl (MinedBlockNotAdded err))
     | (c1, Inr _) \<Rightarrow>
     (case ReplaceWith s workingState of
       (s1, Inl err) \<Rightarrow> ((Some c1, Some s1, poolp), result, Inl (StateCommitFailed err))
     | (s1, Inr _) \<Rightarrow>
       ((Some c1, Some s1,
         Some (foldl RemoveTransaction pool
           (List.map_filter (map_option txID) (blkTransactions block)))),
        result, Inr minerReward)))))))))))))"

section \<open>The builder respects the block limits\<close>

definition payload :: "transaction list \<Rightarrow> nat" where
  "payload txs = (\<Sum>tx\<leftarrow>txs. EstimatedSerializedSize (Some tx))"

lemma selectTransactions_spec:
  assumes "length selected \<le> MaxBlockTransactions" "payload selected = totalBytes"
    "totalBytes \<le> MaxBlockTransactionBytes"
  shows "\<exists>more. selectTransactions selected totalBytes txs = selected @ more \<and> subseq more txs
    \<and> length (selected @ more) \<le> MaxBlockTransactions
    \<and> payload (selected @ more) \<le> MaxBlockTransactionBytes"
  using assms
proof (induction selected totalBytes txs rule: selectTransactions.induct)
  case (1 selected totalBytes)
  then show ?case by simp
next
  case (2 selected totalBytes tx rest)
  let ?size = "EstimatedSerializedSize (Some tx)"
  consider "length selected \<ge> MaxBlockTransactions"
    | "length selected < MaxBlockTransactions" "totalBytes + ?size > MaxBlockTransactionBytes"
    | "length selected < MaxBlockTransactions" "totalBytes + ?size \<le> MaxBlockTransactionBytes"
    by linarith
  then show ?case
  proof cases
    case 1
    with "2.prems" show ?thesis by (intro exI [of _ "[]"]) simp
  next
    case 2
    with "2.IH"(1) "2.prems" obtain more where
      "selectTransactions selected totalBytes rest = selected @ more" "subseq more rest"
      "length (selected @ more) \<le> MaxBlockTransactions" "payload (selected @ more) \<le> MaxBlockTransactionBytes"
      by force
    with 2 show ?thesis by (intro exI [of _ more]) (auto intro: list_emb_Cons)
  next
    case 3
    with "2.IH"(2) "2.prems" obtain more where
      "selectTransactions (selected @ [tx]) (totalBytes + ?size) rest = (selected @ [tx]) @ more" "subseq more rest"
      "length ((selected @ [tx]) @ more) \<le> MaxBlockTransactions"
      "payload ((selected @ [tx]) @ more) \<le> MaxBlockTransactionBytes"
      by (force simp: payload_def)
    with 3 show ?thesis by (intro exI [of _ "tx # more"]) simp
  qed
qed

lemma block_payload_bytes_ok:
  "(\<And>tx. tx \<in> set txs \<Longrightarrow> ValidateResourceBounds (Some tx) = Inr ()) \<Longrightarrow>
   block_payload_bytes n (map Some txs) = Inr (n + payload txs)"
  by (induction txs arbitrary: n) (simp_all add: payload_def)

lemma pending_bounds:
  "mempool_inv m \<Longrightarrow> tx \<in> set (pending m) \<Longrightarrow> ValidateResourceBounds (Some tx) = Inr ()"
  by (auto simp: pending_lookup mempool_inv_def)

lemma set_subseq: "subseq xs ys \<Longrightarrow> set xs \<subseteq> set ys"
  unfolding subseq_conv_nths by (auto dest: in_set_nthsD)

lemma distinct_subseq: "subseq xs ys \<Longrightarrow> distinct ys \<Longrightarrow> distinct xs"
  unfolding subseq_conv_nths by (auto intro: distinct_nthsI)

lemma selected_valid:
  assumes "mempool_inv m" "visits_all iter"
  defines "txs \<equiv> selectTransactions [] 0 (AllTransactions iter m)"
  shows "subseq txs (AllTransactions iter m)" "set txs \<subseteq> set (pending m)" "distinct (map txID txs)"
    "blkTransactions b = map Some txs \<Longrightarrow> validateBlockTransactions (Some b) = Inr ()"
proof -
  have all: "mset (AllTransactions iter m) = mset (pending m)"
    using assms(2) by (simp add: AllTransactions_def pending_def visits_all_def)
  from selectTransactions_spec [of "[]" 0 "AllTransactions iter m"] obtain more where
    "txs = more" "subseq more (AllTransactions iter m)" "length more \<le> MaxBlockTransactions"
    "payload more \<le> MaxBlockTransactionBytes"
    by (auto simp: txs_def payload_def)
  then have sub: "subseq txs (AllTransactions iter m)" and len: "length txs \<le> MaxBlockTransactions"
    and pay: "payload txs \<le> MaxBlockTransactionBytes" by simp_all
  show "subseq txs (AllTransactions iter m)" by (rule sub)
  show mem: "set txs \<subseteq> set (pending m)" using mset_eq_setD [OF all] set_subseq [OF sub] by simp
  have "block_payload_bytes 0 (map Some txs) = Inr (payload txs)"
    using block_payload_bytes_ok [of txs 0] mem pending_bounds [OF assms(1)] by auto
  then show "validateBlockTransactions (Some b) = Inr ()" if "blkTransactions b = map Some txs"
    using that len pay by (simp add: validateBlockTransactions_def)
  have "distinct (map txID (AllTransactions iter m))"
    using pending_distinct [OF assms(1)] all by (metis mset_eq_imp_distinct_iff mset_map)
  then show "distinct (map txID txs)" using subseq_map [OF sub, of txID] distinct_subseq by blast
qed

section \<open>Proof of work\<close>

lemma HashBlock_eq: "HashBlock C b n = Hash C (b\<lparr>blkNonce := n\<rparr>)"
  by (simp add: HashBlock_def Hash_def sha256Hash_def HeaderBytes_def Let_def)

lemma TargetFromDifficulty_pos: "d \<noteq> 0 \<Longrightarrow> 0 < TargetFromDifficulty d"
proof -
  assume "d \<noteq> 0"
  then have "0 < uint d" using uint_0_iff [of d] uint_ge_0 [of d] by linarith
  moreover have "uint d < 2 ^ 32" using uint_lt2p [of d] by simp
  ultimately show ?thesis using \<open>d \<noteq> 0\<close>
    by (simp add: TargetFromDifficulty_def pos_imp_zdiv_pos_iff)
qed

lemma ValidHash_iff:
  "ValidHash (HashBlock C b n) (blkDifficulty b) \<longleftrightarrow> validBlockProofOfWorkCore C (b\<lparr>blkNonce := n\<rparr>)"
proof (cases "blkDifficulty b = 0")
  case True
  then show ?thesis
    by (simp add: ValidHash_def validBlockProofOfWorkCore_def blockTargetFromDifficulty_def
        TargetFromDifficulty_def Let_def split: option.splits)
next
  case False
  then show ?thesis using TargetFromDifficulty_pos [OF False]
    by (simp add: ValidHash_def validBlockProofOfWorkCore_def blockTargetFromDifficulty_def
        HashBlock_eq Let_def split: option.splits)
qed

lemma mineFrom_spec:
  "(resFound (mineFrom C b start m i) \<longrightarrow>
      (\<exists>k\<ge>i. k < m \<and> validBlockProofOfWorkCore C (b\<lparr>blkNonce := start + k\<rparr>)
        \<and> (\<forall>j. i \<le> j \<and> j < k \<longrightarrow> \<not> validBlockProofOfWorkCore C (b\<lparr>blkNonce := start + j\<rparr>))
        \<and> resBlock (mineFrom C b start m i) = Some (b\<lparr>blkNonce := start + k\<rparr>)
        \<and> resNonce (mineFrom C b start m i) = start + k \<and> resHashesRun (mineFrom C b start m i) = k + 1))
   \<and> (\<not> resFound (mineFrom C b start m i) \<longrightarrow>
      (\<forall>j. i \<le> j \<and> j < m \<longrightarrow> \<not> validBlockProofOfWorkCore C (b\<lparr>blkNonce := start + j\<rparr>)))"
proof (induction C b start m i rule: mineFrom.induct)
  case (1 C b start m i)
  show ?case
  proof (cases "i < m")
    case False
    then show ?thesis by (subst (1 2 3 4 5) mineFrom.simps) auto
  next
    case True
    show ?thesis
    proof (cases "ValidHash (HashBlock C b (start + i)) (blkDifficulty b)")
      case valid: True
      then have "mineFrom C b start m i = \<lparr>resBlock = Some (b\<lparr>blkNonce := start + i\<rparr>),
          resHash = HashBlock C b (start + i), resNonce = start + i, resHashesRun = i + 1, resFound = True\<rparr>"
        using True by (subst mineFrom.simps) (simp add: Let_def)
      then show ?thesis using valid True ValidHash_iff [of C b "start + i"] by auto
    next
      case no: False
      then have eq: "mineFrom C b start m i = mineFrom C b start m (i + 1)"
        using True by (subst mineFrom.simps) (simp add: Let_def)
      have step: "i \<le> j \<longleftrightarrow> j = i \<or> i + 1 \<le> j" for j
        using unat_next_64 [OF True] by (auto simp: word_le_nat_alt word_unat_eq_iff)
      from no have "\<not> validBlockProofOfWorkCore C (b\<lparr>blkNonce := start + i\<rparr>)"
        by (simp add: ValidHash_iff)
      with "1.IH" [OF True refl refl no] show ?thesis unfolding eq step by blast
    qed
  qed
qed

section \<open>The pipeline\<close>

lemma ProcessBlockFor_not_nil [simp]: "ProcessBlockFor C (Some s) p bp m \<noteq> (None, r)"
  by (auto simp: ProcessBlockFor_def split: prod.splits)

lemma MineNextBlock_err:
  assumes "MineNextBlock C iter now (Some c) (Some s) (Some pool) miner n = (node, result, Inl e)"
  shows "node = (Some c, Some s, Some pool)"
  using assms
  by (auto simp: MineNextBlock_def Let_def ReplaceWith_def dest: AddBlock_err
      split: if_splits option.splits sum.splits prod.splits)

text \<open>The prepared block satisfies every consensus rule but the proof of work.\<close>

lemma prepareBlock_ok:
  assumes "prepareBlock C iter now c pool miner = Inr b"
  shows "blocks c \<noteq> []" "blkVersion b = 1" "blkHeight b = blkHeight (last (blocks c)) + 1"
    "blkPreviousHash b = Hash C (last (blocks c))" "blkMinerAddress b = miner"
    "blkTransactions b = map Some (selectTransactions [] 0 (AllTransactions iter pool))"
    "blkMerkleRoot b = CalculateMerkleRoot C b"
    "blkDifficulty b = NextDifficultyFromHistory (blkDifficulty (last (blocks c)))
       (recentBlockIntervalsLocked (blocks c))"
    "blkTimestamp b = (if now \<le> blkTimestamp (last (blocks c))
       then wrap64 (blkTimestamp (last (blocks c)) + 1) else now)"
  using assms
  by (auto simp: prepareBlock_def Tip_def NewBlockFromMempool_def UpdateMerkleRoot_def Let_def
      ExpectedNextDifficulty_def CalculateMerkleRoot_def split: if_splits)

lemma Mine_found:
  assumes "resFound (Mine C b 0 n)"
  obtains k where "resBlock (Mine C b 0 n) = Some (b\<lparr>blkNonce := k\<rparr>)"
    "validBlockProofOfWorkCore C (b\<lparr>blkNonce := k\<rparr>)"
  using assms mineFrom_spec [of C b 0 n 0] by (auto simp: Mine_def)

text \<open>What the pipeline has done when it succeeds.\<close>

lemma MineNextBlock_ok:
  assumes "MineNextBlock C iter now (Some c) (Some s) (Some pool) miner n = (node, result, Inr reward)"
  obtains policy b d t where "MonetaryPolicyFor (network c) = Inr policy" "monetaryPolicy s = policy"
    "resBlock result = Some b" "blkMinerAddress b = miner" "miner \<noteq> ''''"
    "blkTransactions b = map Some (selectTransactions [] 0 (AllTransactions iter pool))"
    "AddBlock C (snd (snd now)) c (Some b) = (d, Inr ())"
    "ProcessBlockFor C (Some s) policy (Some b) miner = (Some t, Inr reward)"
    "node = (Some d, Some t, Some (foldl RemoveTransaction pool
       (map txID (selectTransactions [] 0 (AllTransactions iter pool)))))"
proof -
  let ?sel = "selectTransactions [] 0 (AllTransactions iter pool)"
  have sel: "List.map_filter (map_option txID) (map Some ?sel) = map txID ?sel"
    by (subst map_filter_total) (auto simp: comp_def)
  from assms obtain policy b0 where
    pol: "MonetaryPolicyFor (network c) = Inr policy" "EnsureMonetaryPolicy s policy = Inr ()" and
    prep: "prepareBlock C iter (fst now) c pool miner = Inr b0" and
    found: "resFound (Mine C b0 0 n)" and res: "result = Mine C b0 0 n" and m: "miner \<noteq> ''''"
    by (auto simp: MineNextBlock_def MonetaryPolicy_def Let_def ReplaceWith_def
        split: if_splits sum.splits prod.splits option.splits)
  from Mine_found [OF found] obtain k where
    k: "resBlock (Mine C b0 0 n) = Some (b0\<lparr>blkNonce := k\<rparr>)" by blast
  note p = prepareBlock_ok [OF prep]
  define b where "b = b0\<lparr>blkNonce := k\<rparr>"
  have b: "blkMinerAddress b = miner" "blkTransactions b = map Some ?sel" "resBlock result = Some b"
    using p(5,6) k res by (simp_all add: b_def)
  from assms pol prep found m k b obtain d t where
    "AddBlock C (snd (snd now)) c (Some b) = (d, Inr ())"
    "ProcessBlockFor C (Some s) policy (Some b) miner = (Some t, Inr reward)"
    "node = (Some d, Some t, Some (foldl RemoveTransaction pool (map txID ?sel)))"
    by (auto simp: MineNextBlock_def MonetaryPolicy_def Let_def ReplaceWith_def sel b_def [symmetric]
        split: if_splits sum.splits prod.splits option.splits)
  with that pol b m show ?thesis
    by (auto simp: EnsureMonetaryPolicy_def split: if_splits sum.splits)
qed

section \<open>Nonce order inside a block\<close>

lemma applyBlockTransactions_nonces:
  assumes "applyBlockTransactions C net (Some s) fees (map Some txs) = (w, Inr collected)"
  shows "map (\<lambda>tx. unat (txNonce tx)) (filter (\<lambda>tx. txFrom tx = a) txs)
    = [unat (AccountNonce s a) + 1..<unat (AccountNonce s a) + 1 + length (filter (\<lambda>tx. txFrom tx = a) txs)]"
  using assms
proof (induction txs arbitrary: s fees)
  case (Cons tx txs)
  from Cons.prems obtain w1 fee where ap: "ApplyTransactionFor C (Some s) (Some tx) net = (w1, Inr fee)"
    and rest: "applyBlockTransactions C net w1 (fees + fee) (map Some txs) = (w, Inr collected)"
    by (auto split: prod.splits sum.splits if_splits)
  note ok = ApplyTransactionFor_ok_applied [OF ap]
  from ok(3) obtain u where u: "w1 = Some u" "applied s tx u" by blast
  note IH = Cons.IH [OF rest [unfolded u(1)]]
  show ?case
  proof (cases "txFrom tx = a")
    case True
    have "unat (AccountNonce u a) = unat (AccountNonce s a) + 1" "txNonce tx = AccountNonce u a"
      using applied_nonce [OF ok(1) u(2)] True by simp_all
    moreover have "[x + 1..<x + 1 + Suc k] = (x + 1) # [x + 1 + 1..<x + 1 + 1 + k]" for x k
      by (simp add: upt_conv_Cons del: upt_Suc)
    ultimately show ?thesis using IH True by (simp del: upt_Suc)
  next
    case False
    then have "AccountNonce u a = AccountNonce s a"
      using applied_frame(4) [OF u(2)] by (auto simp: AccountNonce_def)
    with IH False show ?thesis by simp
  qed
qed simp

lemma mined_order:
  assumes "MineNextBlock C iter now (Some c) (Some s) (Some pool) miner n = (node, result, Inr reward)"
  defines "txs \<equiv> selectTransactions [] 0 (AllTransactions iter pool)"
  shows "sorted_wrt (\<lambda>t u. txFrom t = txFrom u \<longrightarrow> txNonce t < txNonce u) txs"
proof -
  from MineNextBlock_ok [OF assms(1)] obtain policy b t where
    "blkTransactions b = map Some txs" "ProcessBlockFor C (Some s) policy (Some b) miner = (Some t, Inr reward)"
    unfolding txs_def by metis
  with ProcessBlockFor_ok obtain net w fees where
    ap: "applyBlockTransactions C net (Some s) 0 (map Some txs) = (w, Inr fees)" by metis
  have "txNonce (txs ! i) < txNonce (txs ! j)"
    if ij: "i < j" "j < length txs" "txFrom (txs ! i) = txFrom (txs ! j)" for i j
  proof -
    let ?P = "\<lambda>tx. txFrom tx = txFrom (txs ! j)" and ?f = "\<lambda>tx. unat (txNonce tx)"
    have "txs = take j txs @ txs ! j # drop (Suc j) txs" using ij(2) by (simp add: id_take_nth_drop)
    then have split: "map ?f (filter ?P txs)
        = map ?f (filter ?P (take j txs)) @ ?f (txs ! j) # map ?f (filter ?P (drop (Suc j) txs))"
      by (metis (mono_tags, lifting) filter.simps(2) filter_append list.map(2) map_append)
    have "sorted_wrt (<) (map ?f (filter ?P txs))"
      unfolding applyBlockTransactions_nonces [OF ap] by (rule sorted_wrt_upt)
    moreover have "txs ! i \<in> set (filter ?P (take j txs))"
      using ij by (simp add: in_set_conv_nth) (metis nth_take)
    ultimately show ?thesis unfolding split by (auto simp: sorted_wrt_append word_less_nat_alt)
  qed
  then show ?thesis by (simp add: sorted_wrt_iff_nth_less)
qed

section \<open>A small mining run\<close>

lemma small_prepared:
  "prepareBlock small_crypto iter 1786924860 small_genesis_chain NewMempool (Address (small_wallet 7))
     = Inr (small_block 7 NewGenesisBlock)" if "visits_all iter"
proof -
  have "mset (iter ([] :: (string \<times> transaction) list)) = {#}" using that by (simp add: visits_all_def)
  then have "iter [] = []" by simp
  then show ?thesis
    by (simp add: prepareBlock_def Tip_def NewBlockFromMempool_def AllTransactions_def NewMempool_def
        ExpectedNextDifficulty_def recentBlockIntervalsLocked_def small_first_difficulty
        small_block_def UpdateMerkleRoot_def CalculateMerkleRoot_def Let_def)
qed

lemma small_mined:
  "Mine small_crypto (small_block 7 NewGenesisBlock) 0 1 =
     \<lparr>resBlock = Some (small_block 7 NewGenesisBlock), resHash = HashBlock small_crypto (small_block 7 NewGenesisBlock) 0,
      resNonce = 0, resHashesRun = 1, resFound = True\<rparr>"
proof -
  let ?b = "small_block 7 NewGenesisBlock"
  have b: "?b\<lparr>blkNonce := 0\<rparr> = ?b" "blkDifficulty ?b = 1" by (simp_all add: small_block_def UpdateMerkleRoot_def)
  have "ValidHash (HashBlock small_crypto ?b 0) (blkDifficulty ?b)"
    unfolding ValidHash_iff using small_hash_in_target [of ?b] b by simp
  then show ?thesis unfolding Mine_def by (subst mineFrom.simps) (simp add: Let_def b)
qed

lemma small_mining_run:
  "\<exists>t r. MineNextBlock small_crypto rev (1786924860, 1786924860, 1786924860) (Some small_genesis_chain)
     (Some small_start_state) (Some NewMempool) (Address (small_wallet 7)) 1
     = ((Some (small_chain 7), Some t, Some NewMempool),
        Mine small_crypto (small_block 7 NewGenesisBlock) 0 1, Inr r)"
proof -
  obtain t r where p: "ProcessBlockFor small_crypto (Some small_start_state) MonetaryPolicyPublicTestnet
    (Some (small_block 7 NewGenesisBlock)) (Address (small_wallet 7)) = (Some t, Inr r)"
    using small_block_processed [of 7] by auto
  have "is_ok (ValidateBlockAgainstChain small_crypto 1786924860 (Some small_genesis_chain)
      (Some (small_block 7 NewGenesisBlock)))"
    by (simp add: ValidateBlockAgainstChain_iff_AddBlock small_chain_added)
  then have v: "ValidateBlockAgainstChain small_crypto 1786924860 (Some small_genesis_chain)
      (Some (small_block 7 NewGenesisBlock)) = Inr ()" by (auto simp: is_ok_iff)
  have "visits_all (rev :: (string \<times> transaction) list \<Rightarrow> _)" by (simp add: visits_all_def)
  note prep = small_prepared [OF this]
  show ?thesis
    using p v prep small_chain_added [of 7] small_address_nonempty [of 7]
    by (simp add: MineNextBlock_def MonetaryPolicy_def MonetaryPolicyFor_def EnsureMonetaryPolicy_def
        ValidateMonetaryPolicy_def small_start_state_def [THEN arg_cong [where f = monetaryPolicy]]
        small_mined Let_def List.map_filter_simps)
qed

section \<open>Properties\<close>

text \<open>The chain, the state and the pool of a consistent node.\<close>

definition node_ok :: "crypto \<Rightarrow> chain \<Rightarrow> state \<Rightarrow> mempool \<Rightarrow> bool" where
  "node_ok C c s pool \<longleftrightarrow> chain_ok C c \<and> BuildStateFromChain C (Some c) = Inr (Some s) \<and> mempool_inv pool"

lemma small_node_ok: "node_ok small_crypto small_genesis_chain small_start_state NewMempool"
  using small_chain_ok(2) NewMempool_inv
  by (simp add: node_ok_def BuildStateFromChain_def MonetaryPolicy_def MonetaryPolicyFor_def
      small_start_new Height_def)

text \<open>C2: mining keeps a node consistent. Whatever the pipeline returns, the state is still the
  replay of the chain and the pool is well-formed; on an error nothing changed at all; on success
  the chain grew by exactly the mined block, and the pool lost exactly the block's transactions.\<close>

theorem mining_keeps_node_consistent:
  assumes "node_ok C c s pool" "visits_all iter" "Suc (length (blocks c)) < 2 ^ 64"
    and "MineNextBlock C iter now (Some c) (Some s) (Some pool) miner n = (node, result, r)"
  shows "\<exists>d t q. node = (Some d, Some t, Some q) \<and> node_ok C d t q
    \<and> (is_ok r \<or> d = c \<and> t = s \<and> q = pool)
    \<and> (is_ok r \<longrightarrow> (\<exists>b. resBlock result = Some b \<and> blocks d = blocks c @ [b] \<and> blkMinerAddress b = miner
          \<and> pending q = filter (\<lambda>tx. Some tx \<notin> set (blkTransactions b)) (pending pool)))"
proof (cases r)
  case (Inl e)
  have "node = (Some c, Some s, Some pool)" by (rule MineNextBlock_err [OF assms(4) [unfolded Inl]])
  with assms(1) Inl show ?thesis by simp
next
  case (Inr reward)
  let ?sel = "selectTransactions [] 0 (AllTransactions iter pool)"
  obtain policy b d t where
    pol: "MonetaryPolicyFor (network c) = Inr policy" and "monetaryPolicy s = policy" and
    b: "resBlock result = Some b" "blkMinerAddress b = miner" "miner \<noteq> ''''" "blkTransactions b = map Some ?sel" and
    add: "AddBlock C (snd (snd now)) c (Some b) = (d, Inr ())" and
    p: "ProcessBlockFor C (Some s) policy (Some b) miner = (Some t, Inr reward)" and
    node: "node = (Some d, Some t, Some (foldl RemoveTransaction pool (map txID ?sel)))"
    by (rule MineNextBlock_ok [OF assms(4) [unfolded Inr]])
  have inv: "chain_ok C c" "BuildStateFromChain C (Some c) = Inr (Some s)" "mempool_inv pool"
    using assms(1) by (simp_all add: node_ok_def)
  have bd: "blocks d = blocks c @ [b]" "network d = network c" using add unfolding AddBlock_ok_iff by auto
  have d: "chain_ok C d"
    using AddBlock_inv(1) [OF _ add] inv(1) bd assms(3) chain_ok_lookup(3) [OF inv(1)]
    by (simp add: chain_ok_def)
  have st: "BuildStateFromChain C (Some d) = Inr (Some t)"
    by (rule BuildStateFromChain_snoc [OF inv(1) d bd pol inv(2)]) (use b p in simp_all)
  note rem = pool.remove_all [OF inv(3), of "map txID ?sel"]
  have sel: "set ?sel \<subseteq> set (pending pool)" by (rule selected_valid(2) [OF inv(3) assms(2)])
  have "txID tx \<in> txID ` set ?sel \<longleftrightarrow> tx \<in> set ?sel" if "tx \<in> set (pending pool)" for tx
    using that sel pending_distinct [OF inv(3)] by (auto simp: distinct_map inj_on_def)
  then have "pending (foldl RemoveTransaction pool (map txID ?sel))
      = filter (\<lambda>tx. Some tx \<notin> set (blkTransactions b)) (pending pool)"
    using rem b(4) by (auto intro!: filter_cong)
  moreover have "node_ok C d t (foldl RemoveTransaction pool (map txID ?sel))"
    using d st rem by (simp add: node_ok_def)
  ultimately show ?thesis using node b(1,2) bd(1) Inr by simp
qed

theorem mining_keeps_node_consistent_witness:
  "\<exists>t. node_ok small_crypto (small_chain 7) t NewMempool"
proof -
  obtain t r where m: "MineNextBlock small_crypto rev (1786924860, 1786924860, 1786924860) (Some small_genesis_chain)
     (Some small_start_state) (Some NewMempool) (Address (small_wallet 7)) 1
     = ((Some (small_chain 7), Some t, Some NewMempool),
        Mine small_crypto (small_block 7 NewGenesisBlock) 0 1, Inr r)"
    using small_mining_run by blast
  have "visits_all (rev :: (string \<times> transaction) list \<Rightarrow> _)" by (simp add: visits_all_def)
  from mining_keeps_node_consistent [OF small_node_ok this _ m] show ?thesis by auto
qed

text \<open>A block the pipeline finds a nonce for always passes the chain's validation, under the
  legacy verifier while the legacy version is selected, as long as its timestamp is not too far
  ahead of the clock and below the largest 64-bit time.\<close>

theorem mined_block_validates:
  assumes "mempool_inv pool" "visits_all iter" "proofVerifier c = Some (legacyProofVerifier C)"
    and "prepareBlock C iter now c pool miner = Inr b"
    and "VersionAllowed (powPolicy c) 1 (blkHeight b)" "resFound (Mine C b 0 n)"
    and "int64_range (blkTimestamp (last (blocks c)) + 1)" "int64_range (blkTimestamp (last (blocks c)))"
    and "blkTimestamp b \<le> wrap64 (now' + MaxFutureBlockSeconds)"
  shows "is_ok (ValidateBlockAgainstChain C now' (Some c) (resBlock (Mine C b 0 n)))"
proof -
  note p = prepareBlock_ok [OF assms(4)]
  from Mine_found [OF assms(6)] obtain k where
    k: "resBlock (Mine C b 0 n) = Some (b\<lparr>blkNonce := k\<rparr>)" "validBlockProofOfWorkCore C (b\<lparr>blkNonce := k\<rparr>)" .
  let ?b = "b\<lparr>blkNonce := k\<rparr>" and ?t = "blkTimestamp (last (blocks c))"
  have w: "wrap64 (?t + 1) = ?t + 1"
    using assms(7) by (simp add: wrap64_def int64_range_def)
  have time: "?t < blkTimestamp b" using p(9) w by auto
  have tx: "validateBlockTransactions (Some ?b) = Inr ()"
    by (rule selected_valid(4) [OF assms(1,2)]) (simp add: p(6))
  have "extends C (powPolicy c) (legacyProofVerifier C) (blocks c) ?b"
    using p time tx k(2) assms(5)
    by (simp add: extends_def legacyProofVerifier_def CalculateMerkleRoot_def)
  then have "AddBlock C now' c (Some ?b) = (c\<lparr>blocks := blocks c @ [?b],
      totalWork := totalWork c + blockWork (blkDifficulty ?b)\<rparr>, Inr ())"
    unfolding AddBlock_ok_iff using p(1) assms(3,9) by simp
  then show ?thesis unfolding ValidateBlockAgainstChain_iff_AddBlock k(1) by simp
qed

theorem mined_block_validates_witness:
  "is_ok (ValidateBlockAgainstChain small_crypto 1786924860 (Some small_genesis_chain)
     (Some (small_block 7 NewGenesisBlock)))"
proof -
  have v: "visits_all (rev :: (string \<times> transaction) list \<Rightarrow> _)" by (simp add: visits_all_def)
  have "proofVerifier small_genesis_chain = Some (legacyProofVerifier small_crypto)"
    by (simp add: small_genesis_chain_def)
  note m = mined_block_validates [OF NewMempool_inv v this small_prepared [OF v], of 1 1786924860]
  have "blkTimestamp (small_block 7 NewGenesisBlock) = 1786924860"
    by (simp add: small_block_def UpdateMerkleRoot_def)
  then show ?thesis
    using m by (simp add: small_mined VersionAllowed_def small_genesis_chain_def int64_range_def wrap64_def
        MaxFutureBlockSeconds_def)
qed

text \<open>The candidate block takes distinct pending transactions, in the order of the map, within
  the count and byte limits that validation enforces, so its payload check cannot fail.\<close>

theorem builder_respects_limits:
  assumes "mempool_inv pool" "visits_all iter"
    and "NewBlockFromMempool C iter now (Some previous) (Some pool) = Inr b"
  shows "validateBlockTransactions (Some b) = Inr () \<and> blkMerkleRoot b = CalculateMerkleRoot C b
    \<and> (\<exists>txs. blkTransactions b = map Some txs \<and> distinct (map txID txs) \<and> set txs \<subseteq> set (pending pool)
          \<and> subseq txs (AllTransactions iter pool) \<and> length txs \<le> 1000)"
proof -
  let ?sel = "selectTransactions [] 0 (AllTransactions iter pool)"
  have b: "blkTransactions b = map Some ?sel" "blkMerkleRoot b = CalculateMerkleRoot C b"
    using assms(3) by (auto simp: NewBlockFromMempool_def UpdateMerkleRoot_def CalculateMerkleRoot_def Let_def)
  note s = selected_valid [OF assms(1,2)]
  have v: "validateBlockTransactions (Some b) = Inr ()" by (rule s(4)) (rule b(1))
  then have "length ?sel \<le> 1000"
    using b(1) by (auto simp: validateBlockTransactions_def go_const split: if_splits)
  with v b s(1-3) show ?thesis by blast
qed

theorem builder_respects_limits_witness:
  "\<exists>b. NewBlockFromMempool small_crypto rev 0 (Some NewGenesisBlock) (Some small_pool) = Inr b
     \<and> validateBlockTransactions (Some b) = Inr ()"
proof -
  have v: "visits_all (rev :: (string \<times> transaction) list \<Rightarrow> _)" by (simp add: visits_all_def)
  obtain b where b: "NewBlockFromMempool small_crypto rev 0 (Some NewGenesisBlock) (Some small_pool) = Inr b"
    by (simp add: NewBlockFromMempool_def Let_def)
  from builder_respects_limits [OF pool_history_inv [OF small_pool_history] v b] b show ?thesis by blast
qed

text \<open>The nonce search is complete and exact: it reports success exactly if one of the nonces
  of its range satisfies the consensus proof-of-work rule, and then returns the block with the
  first such nonce and the number of hashes tried.\<close>

theorem nonce_search_exact:
  "(resFound (Mine C b start n) \<longleftrightarrow>
      (\<exists>k<n. validBlockProofOfWorkCore C (b\<lparr>blkNonce := start + k\<rparr>)))
   \<and> (resFound (Mine C b start n) \<longrightarrow>
      (\<exists>k<n. validBlockProofOfWorkCore C (b\<lparr>blkNonce := start + k\<rparr>)
        \<and> (\<forall>j<k. \<not> validBlockProofOfWorkCore C (b\<lparr>blkNonce := start + j\<rparr>))
        \<and> resBlock (Mine C b start n) = Some (b\<lparr>blkNonce := start + k\<rparr>)
        \<and> resHashesRun (Mine C b start n) = k + 1))"
  using mineFrom_spec [of C b start n 0] unfolding Mine_def
  by (cases "resFound (mineFrom C b start n 0)") auto

theorem nonce_search_exact_witness:
  "\<exists>k<1. resBlock (Mine small_crypto (small_block 7 NewGenesisBlock) 0 1)
     = Some (small_block 7 NewGenesisBlock\<lparr>blkNonce := 0 + k\<rparr>)"
  using nonce_search_exact [of small_crypto "small_block 7 NewGenesisBlock" 0 1] small_mined by auto

text \<open>The proof check of package \<open>pow\<close> and the one of package \<open>blockchain\<close> agree on every
  block.\<close>

theorem proof_checks_agree: "CheckBlock C b \<longleftrightarrow> validBlockProofOfWorkCore C b"
  using ValidHash_iff [of C b "blkNonce b"] by (simp add: CheckBlock_def Let_def)



end
