(* ===== verification/Peers.thy ===== *)
theory Peers
  imports Prelude "HOL-Library.AList" "HOL-Library.Product_Lexorder"
begin

text \<open>
  The peer table of a node, package \<open>p2p\<close>: reputation (\<open>peer_scoring.go\<close>,
  \<open>node_peer_scoring.go\<close>, \<open>peer_abuse.go\<close>), network diversity (\<open>peer_diversity.go\<close>,
  \<open>peer_connection_policy.go\<close>), the live peer map (\<open>node.go\<close>, \<open>peer_lifecycle.go\<close>,
  \<open>peer_keepalive.go\<close>, \<open>peer_status.go\<close>), discovery (\<open>peer_discovery.go\<close>,
  \<open>peer_discovery_store.go\<close>), recovery from partitions (\<open>partition_recovery.go\<close>,
  \<open>partition_discovery.go\<close>) and the bound on inbound handshakes (\<open>peer_handshake_limits.go\<close>).

  The record \<open>peer_node\<close> holds the networking fields of \<open>Node\<close>; the theory \<open>P2PNode\<close> extends it
  by the chain, the state and the pool. The node's score table, which the code keeps in a global map
  under the node, is a field. A connection is a number: two records are the same Go pointer exactly
  if their numbers agree. \<open>closedConns\<close> collects the connections that the node closed. Only
  non-nil connections are stored, so the map holds records. Address parsing of package \<open>net\<close> and
  \<open>strings.ToLower\<close> are the fields of an argument record.
\<close>

section \<open>Peers and connections\<close>

record KnownPeer =
  kpNodeID :: string
  kpAddress :: string

record PeerInfo =
  infoNodeID :: string
  infoListenAddress :: string
  infoHeight :: u64
  infoTipHash :: string
  infoTotalWork :: string

record PeerConnection =
  pcInfo :: PeerInfo
  pcConn :: nat
  pcRemoteAddress :: string

record peer_node =
  nodeID :: string
  listenAddress :: string
  peers :: "(string \<times> PeerConnection) list"
  discoveredPeers :: "(string \<times> KnownPeer) list"
  peerScores :: "string \<rightharpoonup> int"
  listener :: "nat option"
  handshakeSlots :: nat
  handshakeConns :: "nat list"
  closedConns :: "nat list"

record netlib =
  splitHostPort :: "string \<Rightarrow> string option"
  parseIP :: "string \<Rightarrow> bytes option"
  toLower :: "string \<Rightarrow> string"

type_synonym peer_order = "(string \<times> PeerConnection) list \<Rightarrow> (string \<times> PeerConnection) list"

section \<open>Reputation\<close>

definition PeerScoreInitial :: int where
  [go_const]: "PeerScoreInitial = 0"

definition PeerScoreMin :: int where
  [go_const]: "PeerScoreMin = - 100"

definition PeerScoreMax :: int where
  [go_const]: "PeerScoreMax = 100"

definition PeerScoreGoodEvent :: int where
  [go_const]: "PeerScoreGoodEvent = 1"

definition PeerPenaltyConnectionFailure :: int where
  [go_const]: "PeerPenaltyConnectionFailure = 2"

definition PeerPenaltyMalformed :: int where
  [go_const]: "PeerPenaltyMalformed = 10"

definition PeerPenaltyInvalidData :: int where
  [go_const]: "PeerPenaltyInvalidData = 20"

definition PeerPenaltyProtocolAbuse :: int where
  [go_const]: "PeerPenaltyProtocolAbuse = 30"

definition PeerDisconnectThreshold :: int where
  [go_const]: "PeerDisconnectThreshold = - 50"

definition PeerAvoidThreshold :: int where
  [go_const]: "PeerAvoidThreshold = - 30"

definition Score :: "(string \<rightharpoonup> int) \<Rightarrow> string \<Rightarrow> int" where
  "Score scores ident = (if ident = '''' then PeerScoreInitial else goget scores ident 0)"

text \<open>The score after a change, and the table that holds it; the sum of two \<open>int\<close>s wraps.\<close>

definition adjust :: "(string \<rightharpoonup> int) \<Rightarrow> string \<Rightarrow> int \<Rightarrow> (string \<rightharpoonup> int) \<times> int" where
  "adjust scores ident delta =
     (let next0 = wrap64 (goget scores ident 0 + delta);
          next1 = (if next0 > PeerScoreMax then PeerScoreMax else next0);
          next2 = (if next1 < PeerScoreMin then PeerScoreMin else next1)
      in (scores(ident \<mapsto> next2), next2))"

definition Reward :: "(string \<rightharpoonup> int) \<Rightarrow> string \<Rightarrow> int \<Rightarrow> (string \<rightharpoonup> int) \<times> int" where
  "Reward scores ident amount =
     (if ident = '''' \<or> amount \<le> 0 then (scores, Score scores ident) else adjust scores ident amount)"

definition Penalize :: "(string \<rightharpoonup> int) \<Rightarrow> string \<Rightarrow> int \<Rightarrow> (string \<rightharpoonup> int) \<times> int" where
  "Penalize scores ident amount =
     (if ident = '''' \<or> amount \<le> 0 then (scores, Score scores ident)
      else adjust scores ident (wrap64 (- amount)))"

definition ShouldAvoid :: "(string \<rightharpoonup> int) \<Rightarrow> string \<Rightarrow> bool" where
  "ShouldAvoid scores ident \<longleftrightarrow> Score scores ident \<le> PeerAvoidThreshold"

definition ShouldDisconnect :: "(string \<rightharpoonup> int) \<Rightarrow> string \<Rightarrow> bool" where
  "ShouldDisconnect scores ident \<longleftrightarrow> Score scores ident \<le> PeerDisconnectThreshold"

definition RemoveScore :: "(string \<rightharpoonup> int) \<Rightarrow> string \<Rightarrow> (string \<rightharpoonup> int)" where
  "RemoveScore scores ident = (if ident = '''' then scores else scores(ident := None))"

definition rewardPeer :: "'a peer_node_scheme \<Rightarrow> string \<Rightarrow> int \<Rightarrow> 'a peer_node_scheme \<times> int" where
  "rewardPeer n ident amount =
     (case Reward (peerScores n) ident amount of (scores, score) \<Rightarrow> (n\<lparr>peerScores := scores\<rparr>, score))"

definition penalizePeer :: "'a peer_node_scheme \<Rightarrow> string \<Rightarrow> int \<Rightarrow> 'a peer_node_scheme \<times> int" where
  "penalizePeer n ident amount =
     (case Penalize (peerScores n) ident amount of (scores, score) \<Rightarrow> (n\<lparr>peerScores := scores\<rparr>, score))"

definition shouldAvoidPeer :: "'a peer_node_scheme \<Rightarrow> string \<Rightarrow> bool" where
  "shouldAvoidPeer n ident = ShouldAvoid (peerScores n) ident"

definition closeConn :: "'a peer_node_scheme \<Rightarrow> nat \<Rightarrow> 'a peer_node_scheme" where
  "closeConn n conn = n\<lparr>closedConns := conn # closedConns n\<rparr>"

definition penalizePeerAndMaybeDisconnect ::
  "'a peer_node_scheme \<Rightarrow> PeerConnection \<Rightarrow> int \<Rightarrow> 'a peer_node_scheme \<times> int" where
  "penalizePeerAndMaybeDisconnect n peer amount =
     (if infoNodeID (pcInfo peer) = '''' \<or> amount \<le> 0 then (n, PeerScoreInitial)
      else
        (case penalizePeer n (infoNodeID (pcInfo peer)) amount of
           (n1, score) \<Rightarrow>
             (if score \<le> PeerDisconnectThreshold then closeConn n1 (pcConn peer) else n1, score)))"

definition punishPeer :: "'a peer_node_scheme \<Rightarrow> PeerConnection \<Rightarrow> int \<Rightarrow> 'a peer_node_scheme \<times> bool" where
  "punishPeer n peer amount =
     (case penalizePeerAndMaybeDisconnect n peer amount of
        (n1, score) \<Rightarrow> (n1, score \<le> PeerDisconnectThreshold))"

definition rewardValidPeerMessage :: "'a peer_node_scheme \<Rightarrow> PeerConnection \<Rightarrow> 'a peer_node_scheme \<times> int" where
  "rewardValidPeerMessage n peer =
     (if infoNodeID (pcInfo peer) = '''' then (n, PeerScoreInitial)
      else rewardPeer n (infoNodeID (pcInfo peer)) PeerScoreGoodEvent)"

section \<open>Network groups\<close>

definition MaxPeersPerNetworkGroup :: nat where
  [go_const]: "MaxPeersPerNetworkGroup = 2"

definition MaxConnectedPeers :: nat where
  [go_const]: "MaxConnectedPeers = 64"

text \<open>\<open>strings.Trim\<close> with a set of characters, and \<open>net.IP.To4\<close>.\<close>

definition trim_chars :: "char set \<Rightarrow> string \<Rightarrow> string" where
  "trim_chars cs s = rev (dropWhile (\<lambda>c. c \<in> cs) (rev (dropWhile (\<lambda>c. c \<in> cs) s)))"

definition To4 :: "bytes \<Rightarrow> bytes option" where
  "To4 ip =
     (if length ip = 4 then Some ip
      else if length ip = 16 \<and> take 12 ip = replicate 10 0 @ [0xff, 0xff] then Some (drop 12 ip)
      else None)"

definition PeerNetworkGroup :: "netlib \<Rightarrow> string \<Rightarrow> string result" where
  "PeerNetworkGroup L address0 =
     (let address = TrimSpace address0 in
      if address = '''' then Inl (Errorf ''peer address cannot be empty'' [])
      else (case splitHostPort L address of
          None \<Rightarrow> Inl (Errorf ''invalid peer address %q: %w'' [address])
        | Some host0 \<Rightarrow>
            (let host = TrimSpace (trim_chars {CHR ''['', CHR '']''} host0) in
             if host = '''' then Inl (Errorf ''peer host cannot be empty'' [])
             else (case parseIP L host of
                 None \<Rightarrow> Inr (''dns:'' @ toLower L host)
               | Some ip \<Rightarrow>
                   (case To4 ip of
                      Some v4 \<Rightarrow> Inr (''ipv4:'' @ dec (unat (v4 ! 0)) @ ''.'' @ dec (unat (v4 ! 1)))
                    | None \<Rightarrow>
                        if length ip \<noteq> 16 then Inl (Errorf ''invalid peer IP %q'' [host])
                        else Inr (''ipv6:'' @ hex_encode (take 2 ip) @ '':'' @ hex_encode (take 2 (drop 2 ip))))))))"

definition inGroup :: "netlib \<Rightarrow> string \<Rightarrow> string \<Rightarrow> bool" where
  "inGroup L g address = (case PeerNetworkGroup L address of Inl _ \<Rightarrow> False | Inr h \<Rightarrow> h = g)"

definition CanAddPeerFromNetworkGroup :: "netlib \<Rightarrow> string list \<Rightarrow> string \<Rightarrow> bool" where
  "CanAddPeerFromNetworkGroup L existing address =
     (case PeerNetworkGroup L address of
        Inl _ \<Rightarrow> False
      | Inr g \<Rightarrow> length (filter (inGroup L g) existing) < MaxPeersPerNetworkGroup)"

section \<open>The peer map\<close>

definition peerNetworkAddress :: "PeerConnection \<Rightarrow> string" where
  "peerNetworkAddress peer =
     (if pcRemoteAddress peer \<noteq> '''' then pcRemoteAddress peer else infoListenAddress (pcInfo peer))"

text \<open>The loop over the map only counts, so the order does not matter.\<close>

definition canStorePeerLocked :: "netlib \<Rightarrow> 'a peer_node_scheme \<Rightarrow> PeerConnection \<Rightarrow> bool" where
  "canStorePeerLocked L n candidate =
     (if length (peers n) \<ge> MaxConnectedPeers then False
      else
        (let candidateAddress = peerNetworkAddress candidate in
         if candidateAddress = '''' then False
         else CanAddPeerFromNetworkGroup L
           (filter (\<lambda>a. a \<noteq> '''') (map (peerNetworkAddress \<circ> snd) (peers n))) candidateAddress))"

definition storePeer :: "netlib \<Rightarrow> 'a peer_node_scheme \<Rightarrow> PeerConnection \<Rightarrow> 'a peer_node_scheme \<times> bool" where
  "storePeer L n peer =
     (let ident = infoNodeID (pcInfo peer) in
      if ident = '''' \<or> ident = nodeID n then (n, False)
      else if map_of (peers n) ident \<noteq> None then (n, False)
      else if \<not> canStorePeerLocked L n peer then (n, False)
      else (n\<lparr>peers := AList.update ident peer (peers n)\<rparr>, True))"

definition removePeer :: "'a peer_node_scheme \<Rightarrow> string \<Rightarrow> 'a peer_node_scheme" where
  "removePeer n ident = n\<lparr>peers := AList.delete ident (peers n)\<rparr>"

definition samePeer :: "PeerConnection \<Rightarrow> PeerConnection \<Rightarrow> bool" where
  "samePeer p q \<longleftrightarrow> pcConn p = pcConn q"

definition isCurrentPeerConnection :: "'a peer_node_scheme \<Rightarrow> PeerConnection \<Rightarrow> bool" where
  "isCurrentPeerConnection n peer \<longleftrightarrow> infoNodeID (pcInfo peer) \<noteq> '''' \<and>
     (case map_of (peers n) (infoNodeID (pcInfo peer)) of
        None \<Rightarrow> False | Some current \<Rightarrow> samePeer current peer)"

definition removePeerConnection :: "'a peer_node_scheme \<Rightarrow> PeerConnection \<Rightarrow> 'a peer_node_scheme" where
  "removePeerConnection n peer =
     (let ident = infoNodeID (pcInfo peer) in
      if ident = '''' then n
      else (case map_of (peers n) ident of
          None \<Rightarrow> n
        | Some current \<Rightarrow>
            if \<not> samePeer current peer then n else n\<lparr>peers := AList.delete ident (peers n)\<rparr>))"

definition PeerCount :: "'a peer_node_scheme \<Rightarrow> nat" where
  "PeerCount n = length (peers n)"

definition Peer :: "'a peer_node_scheme \<Rightarrow> string \<Rightarrow> PeerInfo option" where
  "Peer n ident = map_option pcInfo (map_of (peers n) ident)"

definition IsPeerConnected :: "'a peer_node_scheme \<Rightarrow> string \<Rightarrow> bool" where
  "IsPeerConnected n ident = (if ident = '''' then False else Peer n ident \<noteq> None)"

text \<open>\<open>Stop\<close>: the maps are emptied and every connection they held is closed. The result of closing
  the listener is an argument.\<close>

definition Stop :: "unit result \<Rightarrow> 'a peer_node_scheme \<Rightarrow> ('a peer_node_scheme, unit) outcome" where
  "Stop closeResult n =
     (n\<lparr>listener := None, peers := [], handshakeConns := [],
        closedConns := map (pcConn \<circ> snd) (peers n) @ handshakeConns n @ closedConns n\<rparr>,
      if listener n \<noteq> None then closeResult else Inr ())"

section \<open>Inbound handshakes\<close>

definition MaxConcurrentInboundHandshakes :: nat where
  [go_const]: "MaxConcurrentInboundHandshakes = 32"

definition tryAcquireInboundHandshake :: "'a peer_node_scheme \<Rightarrow> 'a peer_node_scheme \<times> bool" where
  "tryAcquireInboundHandshake n =
     (if handshakeSlots n < MaxConcurrentInboundHandshakes
      then (n\<lparr>handshakeSlots := handshakeSlots n + 1\<rparr>, True) else (n, False))"

definition releaseInboundHandshake :: "'a peer_node_scheme \<Rightarrow> 'a peer_node_scheme" where
  "releaseInboundHandshake n =
     (if 0 < handshakeSlots n then n\<lparr>handshakeSlots := handshakeSlots n - 1\<rparr> else n)"

definition trackInboundHandshake :: "'a peer_node_scheme \<Rightarrow> nat \<Rightarrow> nat \<Rightarrow> 'a peer_node_scheme \<times> bool" where
  "trackInboundHandshake n l conn =
     (if listener n \<noteq> Some l then (n, False)
      else (n\<lparr>handshakeConns := List.insert conn (handshakeConns n)\<rparr>, True))"

definition untrackInboundHandshake :: "'a peer_node_scheme \<Rightarrow> nat \<Rightarrow> 'a peer_node_scheme" where
  "untrackInboundHandshake n conn = n\<lparr>handshakeConns := filter (\<lambda>c. c \<noteq> conn) (handshakeConns n)\<rparr>"

text \<open>One round of the accept loop after a connection arrived on listener \<open>l\<close>: the connection is
  closed, or its handshake starts.\<close>

definition acceptConnection :: "'a peer_node_scheme \<Rightarrow> nat \<Rightarrow> nat \<Rightarrow> 'a peer_node_scheme \<times> bool" where
  "acceptConnection n l conn =
     (case tryAcquireInboundHandshake n of
        (n1, False) \<Rightarrow> (closeConn n1 conn, False)
      | (n1, True) \<Rightarrow>
          (case trackInboundHandshake n1 l conn of
             (n2, False) \<Rightarrow> (closeConn (releaseInboundHandshake n2) conn, False)
           | (n2, True) \<Rightarrow> (n2, True)))"

definition finishHandshake :: "'a peer_node_scheme \<Rightarrow> nat \<Rightarrow> 'a peer_node_scheme" where
  "finishHandshake n conn = releaseInboundHandshake (untrackInboundHandshake n conn)"


section \<open>Discovery\<close>

definition MaxPeersPerMessage :: nat where
  [go_const]: "MaxPeersPerMessage = 128"

definition PeerDiscoverySnapshot :: "peer_order \<Rightarrow> 'a peer_node_scheme \<Rightarrow> string \<Rightarrow> KnownPeer list" where
  "PeerDiscoverySnapshot iter n excludeNodeID =
     (let result = map (\<lambda>(ident, peer). \<lparr>kpNodeID = ident, kpAddress = infoListenAddress (pcInfo peer)\<rparr>)
            (filter (\<lambda>(ident, peer). \<not> (ident = '''' \<or> ident = nodeID n \<or> ident = excludeNodeID)
                \<and> infoListenAddress (pcInfo peer) \<noteq> '''') (iter (peers n)))
      in take MaxPeersPerMessage (sort_key kpNodeID result))"

text \<open>The loop that several functions run: \<open>skip\<close> drops entries, and of the rest the first with a new
  node ID and a new address is kept. \<open>ids\<close> and \<open>addrs\<close> are the sets seen so far.\<close>

fun dedupPeers :: "(KnownPeer \<Rightarrow> bool) \<Rightarrow> string set \<Rightarrow> string set \<Rightarrow> KnownPeer list \<Rightarrow> KnownPeer list" where
  "dedupPeers skip ids addrs [] = []"
| "dedupPeers skip ids addrs (p # ps) =
     (if skip p \<or> kpNodeID p \<in> ids \<or> kpAddress p \<in> addrs then dedupPeers skip ids addrs ps
      else p # dedupPeers skip (insert (kpNodeID p) ids) (insert (kpAddress p) addrs) ps)"

definition filterDiscoveredPeers :: "'a peer_node_scheme \<Rightarrow> KnownPeer list \<Rightarrow> KnownPeer list" where
  "filterDiscoveredPeers n known =
     (let connectedNodeIDs = fst ` set (peers n);
          connectedAddresses = {a \<in> (infoListenAddress \<circ> pcInfo \<circ> snd) ` set (peers n). a \<noteq> ''''};
          skip = (\<lambda>p. kpNodeID p = '''' \<or> kpAddress p = '''' \<or> kpNodeID p = nodeID n
              \<or> kpAddress p = listenAddress n \<or> kpNodeID p \<in> connectedNodeIDs
              \<or> kpAddress p \<in> connectedAddresses)
      in sort_key kpNodeID (dedupPeers skip {} {} known))"

definition connectedPeerAddresses :: "peer_order \<Rightarrow> 'a peer_node_scheme \<Rightarrow> string list" where
  "connectedPeerAddresses iter n =
     filter (\<lambda>a. a \<noteq> '''') (map (infoListenAddress \<circ> pcInfo \<circ> snd) (iter (peers n)))"

definition DiscoveredPeersSnapshot ::
  "((string \<times> KnownPeer) list \<Rightarrow> (string \<times> KnownPeer) list) \<Rightarrow> 'a peer_node_scheme \<Rightarrow> KnownPeer list" where
  "DiscoveredPeersSnapshot iter n = sort_key kpNodeID (map snd (iter (discoveredPeers n)))"

fun addDiscovered :: "'a peer_node_scheme \<Rightarrow> nat \<Rightarrow> KnownPeer list \<Rightarrow> 'a peer_node_scheme \<times> nat" where
  "addDiscovered n added [] = (n, added)"
| "addDiscovered n added (p # ps) =
     (if kpNodeID p = nodeID n \<or> kpAddress p = listenAddress n
         \<or> map_of (discoveredPeers n) (kpNodeID p) \<noteq> None
      then addDiscovered n added ps
      else addDiscovered (n\<lparr>discoveredPeers := AList.update (kpNodeID p) p (discoveredPeers n)\<rparr>) (added + 1) ps)"

definition mergeDiscoveredPeers :: "'a peer_node_scheme \<Rightarrow> KnownPeer list \<Rightarrow> 'a peer_node_scheme \<times> nat" where
  "mergeDiscoveredPeers n known = addDiscovered n 0 (filterDiscoveredPeers n known)"

text \<open>The auto-connect loop; \<open>connect\<close> is the node's \<open>Connect\<close>, \<open>selected\<close> the addresses it counts
  for diversity.\<close>

fun autoConnect ::
  "netlib \<Rightarrow> ('a peer_node_scheme \<Rightarrow> string \<Rightarrow> ('a peer_node_scheme, PeerInfo) outcome) \<Rightarrow>
   'a peer_node_scheme \<Rightarrow> string list \<Rightarrow> nat \<Rightarrow> nat \<Rightarrow> KnownPeer list \<Rightarrow> 'a peer_node_scheme \<times> nat \<times> nat" where
  "autoConnect L connect n selected connected failed [] = (n, connected, failed)"
| "autoConnect L connect n selected connected failed (p # ps) =
     (if kpNodeID p = '''' \<or> kpAddress p = '''' then autoConnect L connect n selected connected failed ps
      else if map_of (peers n) (kpNodeID p) \<noteq> None \<or> kpNodeID p = nodeID n \<or> kpAddress p = listenAddress n
      then autoConnect L connect n selected connected failed ps
      else if shouldAvoidPeer n (kpNodeID p) then autoConnect L connect n selected connected failed ps
      else if \<not> CanAddPeerFromNetworkGroup L selected (kpAddress p)
      then autoConnect L connect n selected connected failed ps
      else
        (case connect n (kpAddress p) of
           (n1, Inl err) \<Rightarrow>
             autoConnect L connect (fst (penalizePeer n1 (kpNodeID p) PeerPenaltyConnectionFailure))
               selected connected (failed + 1) ps
         | (n1, Inr info) \<Rightarrow>
             autoConnect L connect (fst (rewardPeer n1 (infoNodeID info) PeerScoreGoodEvent))
               (selected @ [kpAddress p]) (connected + 1) failed ps))"

definition AutoConnectDiscoveredPeers ::
  "netlib \<Rightarrow> peer_order \<Rightarrow> ((string \<times> KnownPeer) list \<Rightarrow> (string \<times> KnownPeer) list) \<Rightarrow>
   ('a peer_node_scheme \<Rightarrow> string \<Rightarrow> ('a peer_node_scheme, PeerInfo) outcome) \<Rightarrow>
   'a peer_node_scheme \<Rightarrow> 'a peer_node_scheme \<times> nat \<times> nat" where
  "AutoConnectDiscoveredPeers L iter kiter connect n =
     autoConnect L connect n (connectedPeerAddresses iter n) 0 0 (DiscoveredPeersSnapshot kiter n)"

section \<open>Recovery order\<close>

text \<open>The buckets of the first loop, one per network group in the order of first appearance.\<close>

fun collectGroups ::
  "netlib \<Rightarrow> (string \<times> KnownPeer list) list \<Rightarrow> string set \<Rightarrow> string set \<Rightarrow> KnownPeer list \<Rightarrow>
   (string \<times> KnownPeer list) list" where
  "collectGroups L groups ids addrs [] = groups"
| "collectGroups L groups ids addrs (p # ps) =
     (if kpNodeID p = '''' \<or> kpAddress p = '''' \<or> kpNodeID p \<in> ids \<or> kpAddress p \<in> addrs
      then collectGroups L groups ids addrs ps
      else (case PeerNetworkGroup L (kpAddress p) of
          Inl err \<Rightarrow> collectGroups L groups ids addrs ps
        | Inr g \<Rightarrow>
            (let bucket = (case map_of groups g of None \<Rightarrow> [] | Some b \<Rightarrow> b)
             in collectGroups L (AList.update g (bucket @ [p]) groups)
                  (insert (kpNodeID p) ids) (insert (kpAddress p) addrs) ps)))"

text \<open>One round of the last loop takes the entry number \<open>round\<close> of every bucket that has one; the
  loop ends with the first round that takes nothing.\<close>

definition roundEntries :: "KnownPeer list list \<Rightarrow> nat \<Rightarrow> KnownPeer list" where
  "roundEntries buckets round = concat (map (\<lambda>b. if round \<ge> length b then [] else [b ! round]) buckets)"

lemma roundEntries_Nil_iff: "roundEntries buckets round = [] \<longleftrightarrow> (\<forall>b\<in>set buckets. length b \<le> round)"
  by (auto simp: roundEntries_def)

function roundRobin :: "KnownPeer list list \<Rightarrow> nat \<Rightarrow> KnownPeer list \<Rightarrow> KnownPeer list" where
  "roundRobin buckets round ordered =
     (let entries = roundEntries buckets round
      in if entries = [] then ordered else roundRobin buckets (round + 1) (ordered @ entries))"
  by pat_completeness auto
termination
proof (relation "measure (\<lambda>(buckets, round, ordered). Max (insert 0 (length ` set buckets)) - round)")
  fix buckets :: "KnownPeer list list" and round :: nat and ordered entries
  assume "entries = roundEntries buckets round" "entries \<noteq> []"
  then obtain b where b: "b \<in> set buckets" "round < length b"
    by (auto simp: roundEntries_Nil_iff not_le)
  then have "length b \<le> Max (insert 0 (length ` set buckets))" by (intro Max_ge) auto
  with b(2) show "((buckets, round + 1, ordered @ entries), buckets, round, ordered)
      \<in> measure (\<lambda>(buckets, round, ordered). Max (insert 0 (length ` set buckets)) - round)" by simp
qed simp

declare roundRobin.simps [simp del]

definition known_peer_key :: "KnownPeer \<Rightarrow> string \<times> string" where
  "known_peer_key p = (kpNodeID p, kpAddress p)"

definition DiversifiedPeerOrder :: "netlib \<Rightarrow> KnownPeer list \<Rightarrow> KnownPeer list" where
  "DiversifiedPeerOrder L known =
     (let groups = collectGroups L [] {} {} known;
          groupNames = sort (map fst groups);
          bucket = (\<lambda>g. sort_key known_peer_key (case map_of groups g of None \<Rightarrow> [] | Some b \<Rightarrow> b))
      in roundRobin (map bucket groupNames) 0 [])"

section \<open>Discovery after a partition\<close>

definition MaxPartitionRecoveryDiscoverySources :: nat where
  [go_const]: "MaxPartitionRecoveryDiscoverySources = 8"

fun onePerGroup :: "netlib \<Rightarrow> PeerConnection list \<Rightarrow> string set \<Rightarrow> PeerConnection list \<Rightarrow> PeerConnection list" where
  "onePerGroup L selected seen [] = selected"
| "onePerGroup L selected seen (p # ps) =
     (case PeerNetworkGroup L (peerNetworkAddress p) of
        Inl err \<Rightarrow> onePerGroup L selected seen ps
      | Inr g \<Rightarrow>
          if g \<in> seen then onePerGroup L selected seen ps
          else
            (let selected1 = selected @ [p]
             in if length selected1 \<ge> MaxPartitionRecoveryDiscoverySources then selected1
                else onePerGroup L selected1 (insert g seen) ps))"

definition partitionDiscoveryCandidates :: "netlib \<Rightarrow> peer_order \<Rightarrow> 'a peer_node_scheme \<Rightarrow> PeerConnection list" where
  "partitionDiscoveryCandidates L iter n =
     (let candidates = filter (\<lambda>p. \<not> (infoNodeID (pcInfo p) = '''' \<or> shouldAvoidPeer n (infoNodeID (pcInfo p))))
            (map snd (iter (peers n)))
      in onePerGroup L [] {} (sort_key (infoNodeID \<circ> pcInfo) candidates))"

section \<open>The invariant of the peer table\<close>

definition group_load :: "netlib \<Rightarrow> 'a peer_node_scheme \<Rightarrow> string \<Rightarrow> nat" where
  "group_load L n g = length (filter (\<lambda>(_, p). inGroup L g (peerNetworkAddress p)) (peers n))"

definition peer_inv :: "netlib \<Rightarrow> 'a peer_node_scheme \<Rightarrow> bool" where
  "peer_inv L n \<longleftrightarrow> distinct (map fst (peers n))
     \<and> (\<forall>(i, p)\<in>set (peers n). i = infoNodeID (pcInfo p) \<and> i \<noteq> '''' \<and> i \<noteq> nodeID n)
     \<and> length (peers n) \<le> MaxConnectedPeers
     \<and> (\<forall>g. group_load L n g \<le> MaxPeersPerNetworkGroup)
     \<and> (\<forall>i v. peerScores n i = Some v \<longrightarrow> PeerScoreMin \<le> v \<and> v \<le> PeerScoreMax)
     \<and> handshakeSlots n \<le> MaxConcurrentInboundHandshakes"

lemma trim_left_Nil [simp]: "trim_left codes [] = []"
  by (simp add: trim_left.simps)

lemma inGroup_empty [simp]: "\<not> inGroup L g ''''"
  by (simp add: inGroup_def PeerNetworkGroup_def TrimSpace_def)

lemma filter_delete: "filter P (AList.delete k al) = AList.delete k (filter P al)"
  by (induction al) auto

lemma group_load_delete:
  "peers n' = AList.delete i (peers n) \<Longrightarrow> group_load L n' g \<le> group_load L n g"
  by (simp add: group_load_def filter_delete length_delete_le)

lemma adjust_bounds:
  assumes "adjust scores i d = (scores', v)"
  shows "scores' = scores(i \<mapsto> v)" "PeerScoreMin \<le> v \<and> v \<le> PeerScoreMax"
  using assms by (auto simp: adjust_def Let_def go_const split: if_splits)

lemma group_count_nonempty:
  "length (filter (inGroup L g) (filter (\<lambda>a. a \<noteq> '''') (map (peerNetworkAddress \<circ> snd) al)))
   = length (filter (\<lambda>(_, p). inGroup L g (peerNetworkAddress p)) al)"
  by (induction al) auto

lemma storePeer_ok:
  assumes "storePeer L n p = (n', True)"
  shows "infoNodeID (pcInfo p) \<noteq> ''''" "infoNodeID (pcInfo p) \<noteq> nodeID n"
    "infoNodeID (pcInfo p) \<notin> fst ` set (peers n)" "length (peers n) < MaxConnectedPeers"
    "\<exists>g. PeerNetworkGroup L (peerNetworkAddress p) = Inr g \<and> group_load L n g < MaxPeersPerNetworkGroup"
    "n' = n\<lparr>peers := peers n @ [(infoNodeID (pcInfo p), p)]\<rparr>"
proof -
  have upd: "AList.update k v al = al @ [(k, v)]" if "k \<notin> fst ` set al" for k v and al :: "(string \<times> PeerConnection) list"
    using that by (induction al) auto
  from assms show a: "infoNodeID (pcInfo p) \<noteq> ''''" "infoNodeID (pcInfo p) \<noteq> nodeID n"
    "infoNodeID (pcInfo p) \<notin> fst ` set (peers n)"
    by (auto simp: storePeer_def Let_def map_of_eq_None_iff split: if_splits)
  have c: "canStorePeerLocked L n p" and n': "n' = n\<lparr>peers := AList.update (infoNodeID (pcInfo p)) p (peers n)\<rparr>"
    using assms by (auto simp: storePeer_def Let_def split: if_splits)
  from c show "length (peers n) < MaxConnectedPeers"
    by (simp add: canStorePeerLocked_def split: if_splits)
  from c show "\<exists>g. PeerNetworkGroup L (peerNetworkAddress p) = Inr g \<and> group_load L n g < MaxPeersPerNetworkGroup"
    unfolding canStorePeerLocked_def CanAddPeerFromNetworkGroup_def Let_def group_count_nonempty group_load_def
    by (auto split: if_splits sum.splits)
  show "n' = n\<lparr>peers := peers n @ [(infoNodeID (pcInfo p), p)]\<rparr>" using n' upd [OF a(3)] by simp
qed

lemma storePeer_refused: "storePeer L n p = (n', False) \<Longrightarrow> n' = n"
  by (auto simp: storePeer_def Let_def split: if_splits)

lemma storePeer_inv:
  assumes "peer_inv L n" "storePeer L n p = (n', ok)"
  shows "peer_inv L n'"
proof (cases ok)
  case False
  with assms storePeer_refused show ?thesis by metis
next
  case True
  then have "storePeer L n p = (n', True)" using assms(2) by simp
  note s = storePeer_ok [OF this]
  from s(5) obtain g where g: "PeerNetworkGroup L (peerNetworkAddress p) = Inr g"
    "group_load L n g < MaxPeersPerNetworkGroup" by blast
  have "group_load L n' h = group_load L n h + (if h = g then 1 else 0)" for h
    using g(1) by (simp add: group_load_def s(6) inGroup_def)
  then have "group_load L n' h \<le> MaxPeersPerNetworkGroup" for h
    using g(2) assms(1) by (auto simp: peer_inv_def)
  moreover have "group_load L n' = group_load L (n\<lparr>peers := peers n @ [(infoNodeID (pcInfo p), p)]\<rparr>)"
    by (simp add: s(6))
  ultimately show ?thesis
    using assms(1) s(1-4) unfolding peer_inv_def by (auto simp: s(6) image_iff)
qed

lemma peers_shrink_inv:
  assumes "peer_inv L n" "peers n' = AList.delete i (peers n)" "nodeID n' = nodeID n"
    "peerScores n' = peerScores n" "handshakeSlots n' = handshakeSlots n"
  shows "peer_inv L n'"
proof -
  have "group_load L n' g \<le> MaxPeersPerNetworkGroup" for g
    by (rule le_trans [OF group_load_delete [OF assms(2)]]) (use assms(1) in \<open>simp add: peer_inv_def\<close>)
  moreover have "length (peers n') \<le> MaxConnectedPeers"
    using assms(1) length_delete_le [of i "peers n"] by (simp add: peer_inv_def assms(2))
  moreover have "set (peers n') \<subseteq> set (peers n)"
    unfolding assms(2) by (auto simp: AList.delete_eq)
  ultimately show ?thesis
    using assms(1) by (auto simp: peer_inv_def assms distinct_delete)
qed

lemma peer_inv_fields:
  assumes "peer_inv L n" "peers n' = peers n" "nodeID n' = nodeID n" "handshakeSlots n' \<le> MaxConcurrentInboundHandshakes"
    "\<And>i v. peerScores n' i = Some v \<Longrightarrow> PeerScoreMin \<le> v \<and> v \<le> PeerScoreMax"
  shows "peer_inv L n'"
proof -
  have "group_load L n' = group_load L n" by (simp add: group_load_def assms(2) fun_eq_iff)
  with assms show ?thesis by (simp add: peer_inv_def)
qed

lemma score_change:
  "Reward scores i a = (scores', v) \<or> Penalize scores i a = (scores', v) \<Longrightarrow>
   scores' = scores \<or> (\<exists>w. scores' = scores(i \<mapsto> w) \<and> PeerScoreMin \<le> w \<and> w \<le> PeerScoreMax)"
  by (auto simp: Reward_def Penalize_def dest: adjust_bounds split: if_splits)

lemma scored_inv:
  assumes "peer_inv L n" "rewardPeer n i a = (n', v) \<or> penalizePeer n i a = (n', v)"
  shows "peer_inv L n'"
proof -
  from assms(2) obtain scores' where n': "n' = n\<lparr>peerScores := scores'\<rparr>"
    and "Reward (peerScores n) i a = (scores', v) \<or> Penalize (peerScores n) i a = (scores', v)"
    by (auto simp: rewardPeer_def penalizePeer_def split: prod.splits)
  with score_change have "scores' = peerScores n \<or>
      (\<exists>w. scores' = (peerScores n)(i \<mapsto> w) \<and> PeerScoreMin \<le> w \<and> w \<le> PeerScoreMax)" by blast
  then show ?thesis
    using assms(1) by (intro peer_inv_fields [OF assms(1)]) (auto simp: n' peer_inv_def split: if_splits)
qed

lemma punished_inv:
  assumes "peer_inv L n" "penalizePeerAndMaybeDisconnect n p a = (n', v)"
  shows "peer_inv L n'"
proof (cases "infoNodeID (pcInfo p) = '''' \<or> a \<le> 0")
  case True
  with assms show ?thesis by (auto simp: penalizePeerAndMaybeDisconnect_def)
next
  case False
  obtain n1 w where pen: "penalizePeer n (infoNodeID (pcInfo p)) a = (n1, w)" by fastforce
  have "peer_inv L n1" using scored_inv [OF assms(1)] pen by blast
  moreover have "n' = n1 \<or> n' = closeConn n1 (pcConn p)"
    using assms(2) False pen by (auto simp: penalizePeerAndMaybeDisconnect_def split: if_splits)
  ultimately show ?thesis
    by (auto simp: peer_inv_def closeConn_def group_load_def)
qed

lemma addDiscovered_fields:
  "addDiscovered n k ps = (n', k') \<Longrightarrow> \<exists>ds. n' = n\<lparr>discoveredPeers := ds\<rparr>"
proof (induction n k ps rule: addDiscovered.induct)
  case (1 n added)
  then show ?case by (metis addDiscovered.simps(1) fst_conv peer_node.surjective peer_node.update_convs(4))
next
  case (2 n added p ps)
  then show ?case by (auto split: if_splits)
qed


section \<open>Deduplication and round robin\<close>

lemma dedupPeers_distinct:
  "distinct (map kpNodeID (dedupPeers skip ids addrs ps)) \<and> distinct (map kpAddress (dedupPeers skip ids addrs ps))
   \<and> kpNodeID ` set (dedupPeers skip ids addrs ps) \<inter> ids = {}
   \<and> kpAddress ` set (dedupPeers skip ids addrs ps) \<inter> addrs = {}"
  by (induction skip ids addrs ps rule: dedupPeers.induct) auto

lemma dedupPeers_sound: "p \<in> set (dedupPeers skip ids addrs ps) \<Longrightarrow> p \<in> set ps \<and> \<not> skip p"
  by (induction skip ids addrs ps rule: dedupPeers.induct) (auto split: if_splits)

lemma dedupPeers_complete:
  "p \<in> set ps \<Longrightarrow> \<not> skip p \<Longrightarrow> kpNodeID p \<in> ids \<or> kpAddress p \<in> addrs
     \<or> (\<exists>q\<in>set (dedupPeers skip ids addrs ps). kpNodeID q = kpNodeID p \<or> kpAddress q = kpAddress p)"
  by (induction skip ids addrs ps rule: dedupPeers.induct) (auto split: if_splits)

lemma mset_roundEntries:
  "mset (roundEntries bs r) + mset (concat (map (drop (Suc r)) bs)) = mset (concat (map (drop r) bs))"
proof (induction bs)
  case (Cons b bs)
  show ?case
  proof (cases "r < length b")
    case True
    then have "drop r b = b ! r # drop (Suc r) b" by (rule Cons_nth_drop_Suc [symmetric])
    with Cons True show ?thesis by (simp add: roundEntries_def)
  next
    case False
    with Cons show ?thesis by (simp add: roundEntries_def)
  qed
qed (simp add: roundEntries_def)

lemma roundRobin_mset: "mset (roundRobin bs r acc) = mset acc + mset (concat (map (drop r) bs))"
proof (induction bs r acc rule: roundRobin.induct)
  case (1 bs r acc)
  show ?case
  proof (cases "roundEntries bs r = []")
    case True
    then have "concat (map (drop r) bs) = []" by (simp add: roundEntries_Nil_iff)
    then have "mset (concat (map (drop r) bs)) = {#}" by (simp only: mset.simps)
    with True show ?thesis unfolding roundRobin.simps [of bs r acc] by (simp only: Let_def if_True) simp
  next
    case False
    with 1 mset_roundEntries [of bs r] show ?thesis
      unfolding roundRobin.simps [of bs r acc] by (simp add: Let_def)
  qed
qed

lemma roundRobin_prefix: "\<exists>rest. roundRobin bs r acc = acc @ roundEntries bs r @ rest"
proof (induction bs r acc rule: roundRobin.induct)
  case (1 bs r acc)
  then show ?case
    unfolding roundRobin.simps [of bs r acc] by (cases "roundEntries bs r = []") (auto simp: Let_def)
qed

lemma roundEntries_zero: "\<forall>b\<in>set bs. b \<noteq> [] \<Longrightarrow> roundEntries bs 0 = map hd bs"
  by (induction bs) (auto simp: roundEntries_def hd_conv_nth)

text \<open>The peers that can be grouped at all.\<close>

definition unusable :: "netlib \<Rightarrow> KnownPeer \<Rightarrow> bool" where
  "unusable L p \<longleftrightarrow> kpNodeID p = '''' \<or> kpAddress p = '''' \<or> \<not> is_ok (PeerNetworkGroup L (kpAddress p))"

definition buckets_ok :: "netlib \<Rightarrow> (string \<times> KnownPeer list) list \<Rightarrow> bool" where
  "buckets_ok L groups \<longleftrightarrow> distinct (map fst groups)
     \<and> (\<forall>(g, b)\<in>set groups. b \<noteq> [] \<and> (\<forall>p\<in>set b. PeerNetworkGroup L (kpAddress p) = Inr g))"

lemma mset_update_bucket:
  "distinct (map fst groups) \<Longrightarrow>
   mset (concat (map snd (AList.update g ((case map_of groups g of None \<Rightarrow> [] | Some b \<Rightarrow> b) @ [p]) groups)))
     = add_mset p (mset (concat (map snd groups)))"
proof (induction groups)
  case (Cons x groups)
  obtain h b where x: "x = (h, b)" by fastforce
  show ?case using Cons by (cases "h = g") (simp_all add: x)
qed simp

lemma buckets_ok_update:
  assumes "buckets_ok L groups" "PeerNetworkGroup L (kpAddress p) = Inr g"
  shows "buckets_ok L (AList.update g ((case map_of groups g of None \<Rightarrow> [] | Some b \<Rightarrow> b) @ [p]) groups)"
proof -
  let ?b = "(case map_of groups g of None \<Rightarrow> [] | Some b \<Rightarrow> b) @ [p]"
  have d: "distinct (map fst groups)" using assms(1) by (simp add: buckets_ok_def)
  have "c \<noteq> [] \<and> (\<forall>q\<in>set c. PeerNetworkGroup L (kpAddress q) = Inr h)"
    if "(h, c) \<in> set (AList.update g ?b groups)" for h c
  proof -
    have "map_of (AList.update g ?b groups) h = Some c" using that d by (simp add: distinct_update)
    moreover have "b \<noteq> [] \<and> (\<forall>q\<in>set b. PeerNetworkGroup L (kpAddress q) = Inr k)"
      if "map_of groups k = Some b" for k b
      using assms(1) map_of_SomeD [OF that] by (auto simp: buckets_ok_def)
    ultimately show ?thesis using assms(2) by (auto simp: update_conv' split: if_splits option.splits)
  qed
  then show ?thesis using d by (auto simp: buckets_ok_def distinct_update)
qed

lemma collectGroups_spec:
  "buckets_ok L groups \<Longrightarrow> buckets_ok L (collectGroups L groups ids addrs ps)
   \<and> mset (concat (map snd (collectGroups L groups ids addrs ps)))
     = mset (concat (map snd groups)) + mset (dedupPeers (unusable L) ids addrs ps)"
proof (induction L groups ids addrs ps rule: collectGroups.induct)
  case (2 L groups ids addrs p ps)
  show ?case
  proof (cases "unusable L p \<or> kpNodeID p \<in> ids \<or> kpAddress p \<in> addrs")
    case True
    then have "collectGroups L groups ids addrs (p # ps) = collectGroups L groups ids addrs ps"
      by (auto simp: unusable_def is_ok_def split: sum.splits)
    moreover have "dedupPeers (unusable L) ids addrs (p # ps) = dedupPeers (unusable L) ids addrs ps"
      using True by simp
    moreover have "buckets_ok L (collectGroups L groups ids addrs ps)
        \<and> mset (concat (map snd (collectGroups L groups ids addrs ps)))
          = mset (concat (map snd groups)) + mset (dedupPeers (unusable L) ids addrs ps)"
    proof (cases "kpNodeID p = '''' \<or> kpAddress p = '''' \<or> kpNodeID p \<in> ids \<or> kpAddress p \<in> addrs")
      case True
      then show ?thesis using 2(1,4) by blast
    next
      case False
      with True obtain e where "PeerNetworkGroup L (kpAddress p) = Inl e"
        by (cases "PeerNetworkGroup L (kpAddress p)") (auto simp: unusable_def)
      then show ?thesis using 2(2,4) False by blast
    qed
    ultimately show ?thesis by (simp only:)
  next
    case False
    then obtain g where g: "PeerNetworkGroup L (kpAddress p) = Inr g" by (auto simp: unusable_def is_ok_iff)
    let ?groups = "AList.update g ((case map_of groups g of None \<Rightarrow> [] | Some b \<Rightarrow> b) @ [p]) groups"
    have "collectGroups L groups ids addrs (p # ps)
        = collectGroups L ?groups (insert (kpNodeID p) ids) (insert (kpAddress p) addrs) ps"
      using False g by (simp add: unusable_def)
    moreover have "buckets_ok L ?groups" by (rule buckets_ok_update [OF 2(4) g])
    moreover have "mset (concat (map snd ?groups)) = add_mset p (mset (concat (map snd groups)))"
      using 2(4) by (intro mset_update_bucket) (simp add: buckets_ok_def)
    ultimately show ?thesis using 2(3) [OF _ g refl] False by (simp add: unusable_def)
  qed
qed simp


section \<open>Histories of a peer table\<close>

definition NewPeerNode :: "string \<Rightarrow> string \<Rightarrow> peer_node" where
  "NewPeerNode ident address = \<lparr>nodeID = ident, listenAddress = address, peers = [], discoveredPeers = [],
     peerScores = Map.empty, listener = None, handshakeSlots = 0, handshakeConns = [], closedConns = []\<rparr>"

inductive peer_history :: "netlib \<Rightarrow> peer_node \<Rightarrow> bool" for L where
  new: "peer_history L (NewPeerNode ident address)"
| listen: "peer_history L n \<Longrightarrow> peer_history L (n\<lparr>listener := Some l, listenAddress := a\<rparr>)"
| store: "peer_history L n \<Longrightarrow> storePeer L n p = (n', ok) \<Longrightarrow> peer_history L n'"
| remove: "peer_history L n \<Longrightarrow> peer_history L (removePeer n i)"
| leave: "peer_history L n \<Longrightarrow> peer_history L (removePeerConnection n p)"
| reward: "peer_history L n \<Longrightarrow> rewardPeer n i a = (n', v) \<Longrightarrow> peer_history L n'"
| penalize: "peer_history L n \<Longrightarrow> penalizePeer n i a = (n', v) \<Longrightarrow> peer_history L n'"
| punish: "peer_history L n \<Longrightarrow> penalizePeerAndMaybeDisconnect n p a = (n', v) \<Longrightarrow> peer_history L n'"
| merge: "peer_history L n \<Longrightarrow> mergeDiscoveredPeers n ps = (n', k) \<Longrightarrow> peer_history L n'"
| connection: "peer_history L n \<Longrightarrow> acceptConnection n l c = (n', ok) \<Longrightarrow> peer_history L n'"
| finish: "peer_history L n \<Longrightarrow> peer_history L (finishHandshake n c)"
| stop: "peer_history L n \<Longrightarrow> Stop r n = (n', q) \<Longrightarrow> peer_history L n'"

lemma removePeerConnection_cases:
  "removePeerConnection n p = n \<or> removePeerConnection n p = removePeer n (infoNodeID (pcInfo p))"
  by (auto simp: removePeerConnection_def removePeer_def Let_def split: option.splits)

lemma acceptConnection_fields:
  assumes "acceptConnection n l c = (n', ok)" "handshakeSlots n \<le> MaxConcurrentInboundHandshakes"
  shows "peers n' = peers n \<and> nodeID n' = nodeID n \<and> peerScores n' = peerScores n
    \<and> handshakeSlots n' \<le> MaxConcurrentInboundHandshakes"
  using assms
  by (auto simp: acceptConnection_def tryAcquireInboundHandshake_def trackInboundHandshake_def
      releaseInboundHandshake_def closeConn_def go_const split: if_splits)

lemma peer_history_inv: "peer_history L n \<Longrightarrow> peer_inv L n"
proof (induction rule: peer_history.induct)
  case (new ident address)
  show ?case by (simp add: peer_inv_def NewPeerNode_def group_load_def)
next
  case (listen n l a)
  then show ?case by (intro peer_inv_fields [OF listen.IH]) (auto simp: peer_inv_def)
next
  case (store n p n' ok)
  then show ?case using storePeer_inv by blast
next
  case (remove n i)
  then show ?case by (intro peers_shrink_inv [OF remove.IH]) (auto simp: removePeer_def)
next
  case (leave n p)
  have "peer_inv L (removePeer n (infoNodeID (pcInfo p)))"
    by (intro peers_shrink_inv [OF leave.IH]) (auto simp: removePeer_def)
  then show ?case using removePeerConnection_cases [of n p] leave.IH by metis
next
  case (reward n i a n' v)
  then show ?case using scored_inv by blast
next
  case (penalize n i a n' v)
  then show ?case using scored_inv by blast
next
  case (punish n p a n' v)
  then show ?case using punished_inv by blast
next
  case (merge n ps n' k)
  then obtain ds where "n' = n\<lparr>discoveredPeers := ds\<rparr>"
    using addDiscovered_fields by (metis mergeDiscoveredPeers_def)
  then show ?case using merge.IH by (auto simp: peer_inv_def group_load_def)
next
  case (connection n l c n' ok)
  then show ?case using acceptConnection_fields [OF connection.hyps(2)]
    by (intro peer_inv_fields [OF connection.IH]) (auto simp: peer_inv_def)
next
  case (finish n c)
  then show ?case
    by (intro peer_inv_fields [OF finish.IH])
      (auto simp: peer_inv_def finishHandshake_def releaseInboundHandshake_def untrackInboundHandshake_def
        split: if_splits)
next
  case (stop n r n' q)
  then show ?case by (auto simp: Stop_def peer_inv_def group_load_def)
qed

section \<open>What the recovery order ranges over\<close>

definition usable_peers :: "netlib \<Rightarrow> KnownPeer list \<Rightarrow> KnownPeer list" where
  "usable_peers L known = dedupPeers (unusable L) {} {} known"

definition usable_groups :: "netlib \<Rightarrow> KnownPeer list \<Rightarrow> string set" where
  "usable_groups L known = {g. \<exists>p\<in>set (usable_peers L known). PeerNetworkGroup L (kpAddress p) = Inr g}"

text \<open>The sorted buckets of the known peers: one per network group, and together every usable peer.\<close>

definition bucket_of :: "netlib \<Rightarrow> KnownPeer list \<Rightarrow> string \<Rightarrow> KnownPeer list" where
  "bucket_of L known g = sort_key known_peer_key
     (case map_of (collectGroups L [] {} {} known) g of None \<Rightarrow> [] | Some b \<Rightarrow> b)"

lemma groups_of_known:
  shows "buckets_ok L (collectGroups L [] {} {} known)"
    "mset (concat (map snd (collectGroups L [] {} {} known))) = mset (usable_peers L known)"
  using collectGroups_spec [of L "[]" "{}" "{}" known] by (auto simp: usable_peers_def buckets_ok_def)

lemma bucket_of_ok:
  assumes "g \<in> fst ` set (collectGroups L [] {} {} known)"
  shows "bucket_of L known g \<noteq> []" "\<forall>p\<in>set (bucket_of L known g). PeerNetworkGroup L (kpAddress p) = Inr g"
proof -
  let ?gs = "collectGroups L [] {} {} known"
  have e: "sort_key known_peer_key b = [] \<longleftrightarrow> b = []" for b by (metis length_0_conv length_sort)
  have ok: "distinct (map fst ?gs)" "\<forall>(h, b)\<in>set ?gs. b \<noteq> [] \<and> (\<forall>p\<in>set b. PeerNetworkGroup L (kpAddress p) = Inr h)"
    using groups_of_known(1) [of L known] by (simp_all add: buckets_ok_def)
  from assms obtain b where b: "(g, b) \<in> set ?gs" by auto
  with ok(1) have "bucket_of L known g = sort_key known_peer_key b" by (simp add: bucket_of_def)
  with ok(2) b e show "bucket_of L known g \<noteq> []"
    "\<forall>p\<in>set (bucket_of L known g). PeerNetworkGroup L (kpAddress p) = Inr g"
    by fastforce+
qed

lemma group_names: "fst ` set (collectGroups L [] {} {} known) = usable_groups L known"
proof -
  let ?gs = "collectGroups L [] {} {} known"
  have "set (usable_peers L known) = set (concat (map snd ?gs))"
    using mset_eq_setD [OF groups_of_known(2) [of L known]] by simp
  then have v: "p \<in> set (usable_peers L known) \<longleftrightarrow> (\<exists>(g, b)\<in>set ?gs. p \<in> set b)" for p
    by (simp add: case_prod_unfold)
  have b: "b \<noteq> [] \<and> (\<forall>p\<in>set b. PeerNetworkGroup L (kpAddress p) = Inr g)" if "(g, b) \<in> set ?gs" for g b
    using groups_of_known(1) [of L known] that by (auto simp: buckets_ok_def)
  show ?thesis
  proof (intro set_eqI iffI)
    fix h assume "h \<in> fst ` set ?gs"
    then obtain b' where b': "(h, b') \<in> set ?gs" by auto
    then have "hd b' \<in> set b'" using b by simp
    with b' b [OF b'] have "hd b' \<in> set (usable_peers L known)" "PeerNetworkGroup L (kpAddress (hd b')) = Inr h"
      unfolding v by (auto intro!: bexI [where x = "(h, b')"])
    then show "h \<in> usable_groups L known" unfolding usable_groups_def by blast
  next
    fix h assume "h \<in> usable_groups L known"
    then obtain p where q: "PeerNetworkGroup L (kpAddress p) = Inr h" "p \<in> set (usable_peers L known)"
      by (auto simp: usable_groups_def)
    from q(2) obtain g' b' where p: "(g', b') \<in> set ?gs" "p \<in> set b'" unfolding v by auto
    with b [OF p(1)] q(1) have "h = g'" by simp
    with p(1) show "h \<in> fst ` set ?gs" by (metis fst_conv imageI)
  qed
qed

lemma group_order: "sort (map fst (collectGroups L [] {} {} known)) = sorted_list_of_set (usable_groups L known)"
proof -
  have "distinct (map fst (collectGroups L [] {} {} known))"
    using groups_of_known(1) [of L known] by (simp add: buckets_ok_def)
  then show ?thesis
    using sorted_list_of_set_sort_remdups [of "map fst (collectGroups L [] {} {} known)"]
    by (simp add: group_names distinct_remdups_id)
qed

lemma bucket_of_mset:
  "mset (concat (map (bucket_of L known) (sort (map fst (collectGroups L [] {} {} known))))) = mset (usable_peers L known)"
proof -
  let ?gs = "collectGroups L [] {} {} known"
  have d: "distinct (map fst ?gs)" using groups_of_known(1) [of L known] by (simp add: buckets_ok_def)
  have "mset (concat (map (bucket_of L known) (sort (map fst ?gs)))) = (\<Sum>g\<in>#mset (map fst ?gs). mset (bucket_of L known g))"
    by (simp add: mset_concat comp_def flip: sum_mset_sum_list)
  also have "\<dots> = (\<Sum>(g, b)\<in>#mset ?gs. mset b)"
    using d by (auto simp: bucket_of_def image_mset.compositionality comp_def case_prod_unfold
        intro!: arg_cong [where f = sum_mset] image_mset_cong)
  also have "\<dots> = mset (concat (map snd ?gs))"
    by (simp add: mset_concat comp_def case_prod_unfold flip: sum_mset_sum_list)
  finally show ?thesis using groups_of_known(2) [of L known] by simp
qed

lemma DiversifiedPeerOrder_buckets:
  "DiversifiedPeerOrder L known = roundRobin (map (bucket_of L known) (sort (map fst (collectGroups L [] {} {} known)))) 0 []"
  by (simp add: DiversifiedPeerOrder_def bucket_of_def [abs_def] Let_def)

section \<open>A small instance\<close>

text \<open>Hosts are \<open>a:1\<close> or \<open>b:1\<close> with the last two characters as the port; nothing is an IP address.\<close>

definition small_net :: netlib where
  "small_net = \<lparr>splitHostPort = (\<lambda>s. if 2 < length s then Some (take (length s - 2) s) else None),
     parseIP = (\<lambda>_. None), toLower = id\<rparr>"

definition small_peer :: "string \<Rightarrow> nat \<Rightarrow> PeerConnection" where
  "small_peer ident c = \<lparr>pcInfo = \<lparr>infoNodeID = ident, infoListenAddress = ident @ '':1'', infoHeight = 0,
     infoTipHash = '''', infoTotalWork = ''0''\<rparr>, pcConn = c, pcRemoteAddress = ident @ '':1''\<rparr>"

definition small_peer_node :: peer_node where
  "small_peer_node = fst (storePeer small_net (NewPeerNode ''me'' ''me:1'') (small_peer ''a'' 1))"

lemma small_trims: "TrimSpace ''a:1'' = ''a:1''" "TrimSpace ''a'' = ''a''"
  by (simp_all add: TrimSpace_plain printable_def)

lemma small_peer_node_value:
  "nodeID small_peer_node = ''me''" "peers small_peer_node = [(''a'', small_peer ''a'' 1)]"
  by (simp_all add: small_peer_node_def small_peer_def storePeer_def NewPeerNode_def Let_def canStorePeerLocked_def
      peerNetworkAddress_def CanAddPeerFromNetworkGroup_def PeerNetworkGroup_def small_net_def small_trims
      trim_chars_def go_const)

lemma small_peer_history: "peer_history small_net small_peer_node"
  unfolding small_peer_node_def by (metis peer_history.new peer_history.store prod.collapse)

section \<open>Properties\<close>

text \<open>C38: whatever sequence of admissions, departures, score changes, discoveries, inbound
  connections and stops a node goes through, its peer table holds at most 64 peers, at most two of
  them in one network group of their real address, one entry per node ID and none for the node
  itself; every reputation score stays within -100 and 100, and at most 32 inbound handshakes are
  under way.\<close>

theorem peer_table_policy:
  assumes "peer_history L n"
  shows "PeerCount n \<le> 64 \<and> distinct (map fst (peers n)) \<and> Peer n (nodeID n) = None
    \<and> (\<forall>g. length (filter (\<lambda>p. PeerNetworkGroup L (peerNetworkAddress p) = Inr g) (map snd (peers n))) \<le> 2)
    \<and> (\<forall>i. - 100 \<le> Score (peerScores n) i \<and> Score (peerScores n) i \<le> 100)
    \<and> handshakeSlots n \<le> 32"
proof -
  note inv = peer_history_inv [OF assms]
  have "nodeID n \<notin> fst ` set (peers n)" using inv by (auto simp: peer_inv_def)
  then have "map_of (peers n) (nodeID n) = None" by (simp add: map_of_eq_None_iff)
  moreover have "length (filter (\<lambda>p. PeerNetworkGroup L (peerNetworkAddress p) = Inr g) (map snd (peers n)))
      = group_load L n g" for g
    by (simp add: group_load_def inGroup_def filter_map comp_def case_prod_unfold sum.case_eq_if)
      (metis (mono_tags, lifting) Inr_inject Inl_Inr_False sum.exhaust_sel sum.collapse(2) sum.disc(2))
  moreover have "- 100 \<le> Score (peerScores n) i \<and> Score (peerScores n) i \<le> 100" for i
    using inv by (cases "peerScores n i") (auto simp: peer_inv_def Score_def goget_def go_const)
  ultimately show ?thesis
    using inv by (simp add: peer_inv_def PeerCount_def Peer_def go_const)
qed

theorem peer_table_policy_witness: "PeerCount small_peer_node \<le> 64 \<and> Peer small_peer_node ''me'' = None"
  using peer_table_policy [OF small_peer_history] by (simp add: small_peer_node_value)

text \<open>The recovery order lists each usable known peer exactly once, where of peers that share a
  node ID or an address the first counts; and the first round of reconnection attempts visits every
  network group once, in the order of the group names, before any group is visited twice.\<close>

theorem diversified_order_fair:
  "mset (DiversifiedPeerOrder L known) = mset (usable_peers L known)
    \<and> distinct (map kpNodeID (DiversifiedPeerOrder L known)) \<and> distinct (map kpAddress (DiversifiedPeerOrder L known))
    \<and> map (PeerNetworkGroup L \<circ> kpAddress) (take (card (usable_groups L known)) (DiversifiedPeerOrder L known))
        = map Inr (sorted_list_of_set (usable_groups L known))"
proof -
  let ?o = "DiversifiedPeerOrder L known" and ?G = "usable_groups L known"
  let ?bs = "map (bucket_of L known) (sorted_list_of_set ?G)"
  have order: "?o = roundRobin ?bs 0 []" by (simp add: DiversifiedPeerOrder_buckets group_order)
  have all: "mset ?o = mset (usable_peers L known)"
    using bucket_of_mset [of L known] by (simp add: order roundRobin_mset comp_def group_order)
  have fin: "finite ?G" unfolding group_names [symmetric] by simp
  have ok: "bucket_of L known g \<noteq> []" "\<forall>p\<in>set (bucket_of L known g). PeerNetworkGroup L (kpAddress p) = Inr g" if "g \<in> ?G" for g
    using bucket_of_ok that unfolding group_names by blast+
  obtain rest where "?o = map hd ?bs @ rest"
    using roundRobin_prefix [of ?bs 0 "[]"] ok(1) fin by (auto simp: order roundEntries_zero)
  then have "take (card ?G) ?o = map (hd \<circ> bucket_of L known) (sorted_list_of_set ?G)" by simp
  moreover have "PeerNetworkGroup L (kpAddress (hd (bucket_of L known g))) = Inr g" if "g \<in> ?G" for g
    using ok [OF that] hd_in_set by blast
  ultimately have "map (PeerNetworkGroup L \<circ> kpAddress) (take (card ?G) ?o) = map Inr (sorted_list_of_set ?G)"
    using fin by simp
  moreover have "distinct (map kpNodeID (usable_peers L known))" "distinct (map kpAddress (usable_peers L known))"
    using dedupPeers_distinct [of "unusable L" "{}" "{}" known] by (simp_all add: usable_peers_def)
  then have "distinct (map kpNodeID ?o)" "distinct (map kpAddress ?o)"
    using all by (metis mset_eq_imp_distinct_iff mset_map)+
  ultimately show ?thesis using all by blast
qed

text \<open>When a read loop ends, its cleanup removes exactly its own connection: a newer connection
  that took over the node ID stays, and afterwards the ended connection is not the current one.\<close>

theorem stale_cleanup_harmless:
  assumes "distinct (map fst (peers n))"
  shows "\<not> isCurrentPeerConnection (removePeerConnection n p) p
    \<and> (\<forall>i q. map_of (peers n) i = Some q \<and> \<not> samePeer q p \<longrightarrow>
          map_of (peers (removePeerConnection n p)) i = Some q)"
  using assms
  by (auto simp: removePeerConnection_def isCurrentPeerConnection_def Let_def delete_conv'
      dest: eq_key_imp_eq_value split: option.splits if_splits)

theorem stale_cleanup_harmless_witness:
  "map_of (peers (removePeerConnection small_peer_node (small_peer ''a'' 2))) ''a''
     = map_of (peers small_peer_node) ''a''"
proof -
  have "distinct (map fst (peers small_peer_node))"
    using peer_history_inv [OF small_peer_history] by (simp add: peer_inv_def)
  from stale_cleanup_harmless [OF this, of "small_peer ''a'' 2"] show ?thesis
    by (auto simp: small_peer_node_value small_peer_def samePeer_def)
qed

end
