(* ===== verification/P2PMessages.thy ===== *)
theory P2PMessages
  imports Blocks Peers
begin

text \<open>
  The wire format of package \<open>p2p\<close>: \<open>network.go\<close>, \<open>message.go\<close>, \<open>block_message.go\<close>,
  \<open>sync_message.go\<close>, \<open>transaction_decode_network.go\<close> and the framing of
  \<open>peer_transport_limits.go\<close>.

  JSON encoding and decoding are the fields of an argument record \<open>codec\<close>, one per Go type the
  package marshals; \<open>codec_ok\<close> states for one value that decoding its encoding gives it back.
  A pointer inside a payload is an option, a nil slice and an empty one are both the empty list.
  The buffered reader is the list of bytes that are still to come on the connection; after the last
  one the reader reports the end of the stream.
\<close>

section \<open>The local namespace\<close>

definition ProtocolVersion :: u32 where
  [go_const]: "ProtocolVersion = 1"

definition NetworkID :: string where
  [go_const]: "NetworkID = ''sudharma-testnet-1''"

definition MainnetNetworkID :: string where
  [go_const]: "MainnetNetworkID = ''sudharma-mainnet-1''"

definition MaxHandshakeTotalWorkDigits :: nat where
  [go_const]: "MaxHandshakeTotalWorkDigits = 128"

text \<open>The two process-wide cells: the signing domain and the handshake namespace.\<close>

type_synonym local_network = "network_context \<times> string"

definition localNetworkInit :: local_network where
  "localNetworkInit = (NetworkContextInit, NetworkID)"

definition SetLocalNetworkID :: "network_id \<Rightarrow> local_network \<Rightarrow> local_network" where
  "SetLocalNetworkID network g =
     (NetworkContextSet network (fst g),
      if network = NetworkMainnet then MainnetNetworkID
      else if network = NetworkPublicTestnet then NetworkID
      else network)"

definition LocalNetworkID :: "local_network \<Rightarrow> string" where
  "LocalNetworkID g = snd g"

definition ResetLocalNetworkIDForTests :: "local_network \<Rightarrow> local_network" where
  "ResetLocalNetworkIDForTests g = (NetworkContextReset (fst g), NetworkID)"

section \<open>Messages and payloads\<close>

type_synonym MessageType = string

definition MessageHandshake :: MessageType where
  [go_const]: "MessageHandshake = ''handshake''"

definition MessagePing :: MessageType where
  [go_const]: "MessagePing = ''ping''"

definition MessagePong :: MessageType where
  [go_const]: "MessagePong = ''pong''"

definition MessageTransaction :: MessageType where
  [go_const]: "MessageTransaction = ''transaction''"

definition MessageBlock :: MessageType where
  [go_const]: "MessageBlock = ''block''"

definition MessageGetBlocks :: MessageType where
  [go_const]: "MessageGetBlocks = ''get_blocks''"

definition MessageBlocks :: MessageType where
  [go_const]: "MessageBlocks = ''blocks''"

definition MessageGetMempool :: MessageType where
  [go_const]: "MessageGetMempool = ''get_mempool''"

definition MessageGetPeers :: MessageType where
  [go_const]: "MessageGetPeers = ''get_peers''"

definition MessagePeers :: MessageType where
  [go_const]: "MessagePeers = ''peers''"

record Message =
  msgType :: MessageType
  msgPayload :: bytes

record Handshake =
  hsProtocolVersion :: u32
  hsNetworkID :: string
  hsNodeID :: string
  hsListenAddress :: string
  hsHeight :: u64
  hsTipHash :: string
  hsTotalWork :: string

record GetBlocksMessage =
  StartHeight :: u64
  Limit :: u64

text \<open>The values that \<open>encodeMessage\<close> is called with.\<close>

datatype payload =
    HandshakePayload Handshake
  | PingPayload u64
  | PongPayload u64
  | TransactionPayload "transaction option"
  | BlockPayload "block option"
  | GetBlocksPayload GetBlocksMessage
  | BlocksPayload "block option list"
  | GetMempoolPayload
  | GetPeersPayload
  | PeersPayload "KnownPeer list"

record codec =
  marshalPayload :: "payload \<Rightarrow> bytes result"
  marshalMessage :: "Message \<Rightarrow> bytes result"
  unmarshalMessage :: "bytes \<Rightarrow> Message result"
  unmarshalHandshake :: "bytes \<Rightarrow> Handshake result"
  unmarshalPing :: "bytes \<Rightarrow> u64 result"
  unmarshalPong :: "bytes \<Rightarrow> u64 result"
  unmarshalTransaction :: "bytes \<Rightarrow> transaction option result"
  unmarshalBlock :: "bytes \<Rightarrow> block option result"
  unmarshalGetBlocks :: "bytes \<Rightarrow> GetBlocksMessage result"
  unmarshalBlocks :: "bytes \<Rightarrow> block option list result"
  unmarshalGetMempool :: "bytes \<Rightarrow> unit result"
  unmarshalGetPeers :: "bytes \<Rightarrow> unit result"
  unmarshalPeers :: "bytes \<Rightarrow> KnownPeer list result"

definition encodeMessage :: "codec \<Rightarrow> MessageType \<Rightarrow> payload \<Rightarrow> bytes result" where
  "encodeMessage J messageType p =
     (case marshalPayload J p of
        Inl err \<Rightarrow> Inl (Wrapf ''failed to encode payload: %w'' [] err)
      | Inr payloadData \<Rightarrow>
          (case marshalMessage J \<lparr>msgType = messageType, msgPayload = payloadData\<rparr> of
             Inl err \<Rightarrow> Inl (Wrapf ''failed to encode message: %w'' [] err)
           | Inr msgData \<Rightarrow> Inr (msgData @ [10])))"

definition knownMessageTypes :: "MessageType list" where
  "knownMessageTypes =
     [MessageHandshake, MessagePing, MessagePong, MessageTransaction, MessageBlock, MessageGetBlocks,
      MessageBlocks, MessageGetMempool, MessageGetPeers, MessagePeers]"

definition DecodeMessage :: "codec \<Rightarrow> bytes \<Rightarrow> Message result" where
  "DecodeMessage J frame =
     (case unmarshalMessage J frame of
        Inl err \<Rightarrow> Inl (Wrapf ''invalid P2P message: %w'' [] err)
      | Inr message \<Rightarrow>
          if msgType message \<in> set knownMessageTypes then Inr message
          else Inl (Errorf ''unknown P2P message type: %s'' [msgType message]))"

text \<open>What every decoder does first: a nil message and a message of another type are refused, then
  the payload is unmarshalled.\<close>

definition decodePayload ::
  "MessageType \<Rightarrow> error \<Rightarrow> string \<Rightarrow> (bytes \<Rightarrow> 'a result) \<Rightarrow> Message option \<Rightarrow> 'a result" where
  "decodePayload t wrongType what unmarshal messagep =
     (case messagep of
        None \<Rightarrow> Inl (Errorf ''message cannot be nil'' [])
      | Some message \<Rightarrow>
          if msgType message \<noteq> t then Inl wrongType
          else (case unmarshal (msgPayload message) of
              Inl err \<Rightarrow> Inl (Wrapf what [] err)
            | Inr x \<Rightarrow> Inr x))"

section \<open>The handshake\<close>

text \<open>\<open>big.Int.SetString\<close> with base 10: an optional sign and at least one digit.\<close>

definition digitValue :: "char \<Rightarrow> nat" where
  "digitValue c = of_char c - 48"

definition isDigit :: "char \<Rightarrow> bool" where
  "isDigit c \<longleftrightarrow> 48 \<le> (of_char c :: nat) \<and> (of_char c :: nat) \<le> 57"

definition SetString10 :: "string \<Rightarrow> int option" where
  "SetString10 s =
     (let neg = (s \<noteq> [] \<and> hd s = CHR ''-'');
          digits = (if s \<noteq> [] \<and> (hd s = CHR ''-'' \<or> hd s = CHR ''+'') then tl s else s)
      in if digits = [] \<or> \<not> list_all isDigit digits then None
         else (let v = int (foldl (\<lambda>a c. 10 * a + digitValue c) 0 digits)
               in Some (if neg then - v else v)))"

definition checkTotalWork :: "string \<Rightarrow> string \<Rightarrow> unit result" where
  "checkTotalWork prefix work =
     (if work = '''' then Inl (Errorf (prefix @ ''total work cannot be empty'') [])
      else if length work > MaxHandshakeTotalWorkDigits
      then Inl (Errorf (prefix @ ''total work exceeds maximum encoded length'') [])
      else (case SetString10 work of
          None \<Rightarrow> Inl (Errorf (prefix @ ''total work is not a valid integer'') [])
        | Some w \<Rightarrow>
            if w < 0 then Inl (Errorf (prefix @ ''total work cannot be negative'') []) else Inr ()))"

definition NewHandshakeMessage ::
  "codec \<Rightarrow> local_network \<Rightarrow> string \<Rightarrow> string \<Rightarrow> u64 \<Rightarrow> string \<Rightarrow> string \<Rightarrow> bytes result" where
  "NewHandshakeMessage J g nodeID0 listenAddress0 height tipHash work =
     (if nodeID0 = '''' then Inl (Errorf ''node ID cannot be empty'' [])
      else (case checkTotalWork '''' work of
          Inl err \<Rightarrow> Inl err
        | Inr _ \<Rightarrow>
            encodeMessage J MessageHandshake (HandshakePayload
              \<lparr>hsProtocolVersion = ProtocolVersion, hsNetworkID = LocalNetworkID g, hsNodeID = nodeID0,
               hsListenAddress = listenAddress0, hsHeight = height, hsTipHash = tipHash,
               hsTotalWork = work\<rparr>)))"

definition DecodeHandshake :: "codec \<Rightarrow> local_network \<Rightarrow> Message option \<Rightarrow> Handshake result" where
  "DecodeHandshake J g messagep =
     (case decodePayload MessageHandshake (Errorf ''message is not a handshake'' [])
             ''invalid handshake: %w'' (unmarshalHandshake J) messagep of
        Inl err \<Rightarrow> Inl err
      | Inr h \<Rightarrow>
          if hsProtocolVersion h \<noteq> ProtocolVersion
          then Inl (Errorf ''unsupported protocol version: %d'' [dec (unat (hsProtocolVersion h))])
          else if hsNetworkID h \<noteq> LocalNetworkID g
          then Inl (Errorf ''wrong Sudharma Network network: %s'' [hsNetworkID h])
          else if hsNodeID h = '''' then Inl (Errorf ''remote node ID cannot be empty'' [])
          else (case checkTotalWork ''remote '' (hsTotalWork h) of
              Inl err \<Rightarrow> Inl err
            | Inr _ \<Rightarrow> Inr h))"

section \<open>Pings, transactions and peer lists\<close>

definition NewPingMessage :: "codec \<Rightarrow> u64 \<Rightarrow> bytes result" where
  "NewPingMessage J nonce = encodeMessage J MessagePing (PingPayload nonce)"

definition NewPongMessage :: "codec \<Rightarrow> u64 \<Rightarrow> bytes result" where
  "NewPongMessage J nonce = encodeMessage J MessagePong (PongPayload nonce)"

definition DecodePing :: "codec \<Rightarrow> Message option \<Rightarrow> u64 result" where
  "DecodePing J messagep =
     decodePayload MessagePing (Errorf ''message is not ping'' []) ''invalid ping: %w'' (unmarshalPing J) messagep"

definition DecodePong :: "codec \<Rightarrow> Message option \<Rightarrow> u64 result" where
  "DecodePong J messagep =
     decodePayload MessagePong (Errorf ''message is not pong'' []) ''invalid pong: %w'' (unmarshalPong J) messagep"

definition NewTransactionMessage :: "codec \<Rightarrow> transaction option \<Rightarrow> bytes result" where
  "NewTransactionMessage J txp =
     (if txp = None then Inl (Errorf ''transaction cannot be nil'' [])
      else encodeMessage J MessageTransaction (TransactionPayload txp))"

definition DecodeTransaction :: "codec \<Rightarrow> crypto \<Rightarrow> Message option \<Rightarrow> transaction result" where
  "DecodeTransaction J C messagep =
     (case decodePayload MessageTransaction (Errorf ''message is not a transaction'' [])
             ''invalid transaction message: %w'' (unmarshalTransaction J) messagep of
        Inl err \<Rightarrow> Inl err
      | Inr None \<Rightarrow> Inl (Errorf ''transaction payload is nil'' [])
      | Inr (Some tx) \<Rightarrow>
          if \<not> VerifyTransaction C tx then Inl (Errorf ''transaction signature verification failed'' [])
          else Inr tx)"

definition DecodeTransactionForNetwork ::
  "codec \<Rightarrow> crypto \<Rightarrow> Message option \<Rightarrow> network_id \<Rightarrow> transaction result" where
  "DecodeTransactionForNetwork J C messagep net =
     (case decodePayload MessageTransaction (Errorf ''message is not a transaction'' [])
             ''invalid transaction message: %w'' (unmarshalTransaction J) messagep of
        Inl err \<Rightarrow> Inl err
      | Inr None \<Rightarrow> Inl (Errorf ''transaction payload is nil'' [])
      | Inr (Some tx) \<Rightarrow>
          (case ValidateResourceBounds (Some tx) of
             Inl err \<Rightarrow> Inl (Wrapf ''transaction resource bounds failed: %w'' [] err)
           | Inr _ \<Rightarrow>
               if \<not> VerifyForNetwork C tx net
               then Inl (Errorf ''transaction signature verification failed'' [])
               else Inr tx))"

definition NewGetMempoolMessage :: "codec \<Rightarrow> bytes result" where
  "NewGetMempoolMessage J = encodeMessage J MessageGetMempool GetMempoolPayload"

definition DecodeGetMempool :: "codec \<Rightarrow> Message option \<Rightarrow> unit result" where
  "DecodeGetMempool J messagep =
     decodePayload MessageGetMempool (Errorf ''message is not a get_mempool request'' [])
       ''invalid get_mempool message: %w'' (unmarshalGetMempool J) messagep"

definition NewGetPeersMessage :: "codec \<Rightarrow> bytes result" where
  "NewGetPeersMessage J = encodeMessage J MessageGetPeers GetPeersPayload"

definition DecodeGetPeers :: "codec \<Rightarrow> Message option \<Rightarrow> unit result" where
  "DecodeGetPeers J messagep =
     decodePayload MessageGetPeers (Errorf ''message is not a get_peers request'' [])
       ''invalid get_peers message: %w'' (unmarshalGetPeers J) messagep"

text \<open>The loop of the encoder and of the decoder of peer lists: an entry without node ID or address is
  an error, of the others the first with a new node ID and a new address is kept.\<close>

fun normalizePeers ::
  "error \<Rightarrow> (string \<Rightarrow> error) \<Rightarrow> string set \<Rightarrow> string set \<Rightarrow> KnownPeer list \<Rightarrow> KnownPeer list result" where
  "normalizePeers noID noAddress ids addrs [] = Inr []"
| "normalizePeers noID noAddress ids addrs (p # ps) =
     (if kpNodeID p = '''' then Inl noID
      else if kpAddress p = '''' then Inl (noAddress (kpNodeID p))
      else if kpNodeID p \<in> ids \<or> kpAddress p \<in> addrs then normalizePeers noID noAddress ids addrs ps
      else (case normalizePeers noID noAddress (insert (kpNodeID p) ids) (insert (kpAddress p) addrs) ps of
          Inl err \<Rightarrow> Inl err
        | Inr rest \<Rightarrow> Inr (p # rest)))"

definition tooManyPeers :: "nat \<Rightarrow> error" where
  "tooManyPeers n = Errorf ''too many peers in discovery message: %d > %d'' [dec n, dec MaxPeersPerMessage]"

definition NewPeersMessage :: "codec \<Rightarrow> KnownPeer list \<Rightarrow> bytes result" where
  "NewPeersMessage J known =
     (if length known > MaxPeersPerMessage then Inl (tooManyPeers (length known))
      else (case normalizePeers (Errorf ''peer node ID cannot be empty'' [])
                   (\<lambda>_. Errorf ''peer address cannot be empty'' []) {} {} known of
          Inl err \<Rightarrow> Inl err
        | Inr normalized \<Rightarrow> encodeMessage J MessagePeers (PeersPayload normalized)))"

definition DecodePeers :: "codec \<Rightarrow> Message option \<Rightarrow> KnownPeer list result" where
  "DecodePeers J messagep =
     (case decodePayload MessagePeers (Errorf ''message is not a peers response'' [])
             ''invalid peers message: %w'' (unmarshalPeers J) messagep of
        Inl err \<Rightarrow> Inl err
      | Inr known \<Rightarrow>
          if length known > MaxPeersPerMessage then Inl (tooManyPeers (length known))
          else normalizePeers (Errorf ''discovered peer node ID cannot be empty'' [])
            (\<lambda>ident. Errorf ''discovered peer %s has empty address'' [ident]) {} {} known)"

section \<open>Blocks\<close>

definition MaxBlocksPerMessage :: u64 where
  [go_const]: "MaxBlocksPerMessage = 128"

definition NewBlockMessage :: "codec \<Rightarrow> block option \<Rightarrow> bytes result" where
  "NewBlockMessage J blockp =
     (if blockp = None then Inl (Errorf ''block cannot be nil'' [])
      else encodeMessage J MessageBlock (BlockPayload blockp))"

definition DecodeBlock :: "codec \<Rightarrow> Message option \<Rightarrow> block result" where
  "DecodeBlock J messagep =
     (case decodePayload MessageBlock (Errorf ''message is not a block'' [])
             ''invalid block message: %w'' (unmarshalBlock J) messagep of
        Inl err \<Rightarrow> Inl err
      | Inr None \<Rightarrow> Inl (Errorf ''block payload is nil'' [])
      | Inr (Some block) \<Rightarrow> Inr block)"

definition checkRequestLimit :: "u64 \<Rightarrow> unit result" where
  "checkRequestLimit limit =
     (if limit = 0 then Inl (Errorf ''block request limit cannot be zero'' [])
      else if limit > MaxBlocksPerMessage
      then Inl (Errorf ''block request limit exceeds maximum %d'' [dec (unat MaxBlocksPerMessage)])
      else Inr ())"

definition NewGetBlocksMessage :: "codec \<Rightarrow> u64 \<Rightarrow> u64 \<Rightarrow> bytes result" where
  "NewGetBlocksMessage J startHeight limit =
     (case checkRequestLimit limit of
        Inl err \<Rightarrow> Inl err
      | Inr _ \<Rightarrow>
          encodeMessage J MessageGetBlocks (GetBlocksPayload \<lparr>StartHeight = startHeight, Limit = limit\<rparr>))"

definition DecodeGetBlocks :: "codec \<Rightarrow> Message option \<Rightarrow> GetBlocksMessage result" where
  "DecodeGetBlocks J messagep =
     (case decodePayload MessageGetBlocks (Errorf ''message is not a get_blocks request'' [])
             ''invalid get_blocks message: %w'' (unmarshalGetBlocks J) messagep of
        Inl err \<Rightarrow> Inl err
      | Inr request \<Rightarrow>
          (case checkRequestLimit (Limit request) of Inl err \<Rightarrow> Inl err | Inr _ \<Rightarrow> Inr request))"

text \<open>The checks that a batch is non-empty, within the limit and without nil blocks.\<close>

fun nonNilBlocks :: "nat \<Rightarrow> block option list \<Rightarrow> block list result" where
  "nonNilBlocks i [] = Inr []"
| "nonNilBlocks i (None # rest) = Inl (Errorf ''block %d is nil'' [dec i])"
| "nonNilBlocks i (Some b # rest) =
     (case nonNilBlocks (Suc i) rest of Inl err \<Rightarrow> Inl err | Inr bs \<Rightarrow> Inr (b # bs))"

definition checkBatch :: "block option list \<Rightarrow> block list result" where
  "checkBatch batch =
     (if length batch = 0 then Inl (Errorf ''blocks response cannot be empty'' [])
      else if length batch > unat MaxBlocksPerMessage
      then Inl (Errorf ''blocks response exceeds maximum %d'' [dec (unat MaxBlocksPerMessage)])
      else nonNilBlocks 0 batch)"

fun checkLinks :: "crypto \<Rightarrow> block list \<Rightarrow> unit result" where
  "checkLinks C (previous # current # rest) =
     (if blkHeight current \<noteq> blkHeight previous + 1
      then Inl (Errorf ''non-consecutive blocks: expected height %d, got %d''
        [dec (unat (blkHeight previous + 1)), dec (unat (blkHeight current))])
      else if blkPreviousHash current \<noteq> Hash C previous
      then Inl (Errorf ''block %d does not link to previous block'' [dec (unat (blkHeight current))])
      else checkLinks C (current # rest))"
| "checkLinks C bs = Inr ()"

definition NewBlocksMessage :: "codec \<Rightarrow> block option list \<Rightarrow> bytes result" where
  "NewBlocksMessage J batch =
     (case checkBatch batch of
        Inl err \<Rightarrow> Inl err
      | Inr _ \<Rightarrow> encodeMessage J MessageBlocks (BlocksPayload batch))"

definition DecodeBlocks :: "codec \<Rightarrow> crypto \<Rightarrow> Message option \<Rightarrow> block list result" where
  "DecodeBlocks J C messagep =
     (case decodePayload MessageBlocks (Errorf ''message is not a blocks response'' [])
             ''invalid blocks message: %w'' (unmarshalBlocks J) messagep of
        Inl err \<Rightarrow> Inl err
      | Inr batch \<Rightarrow>
          (case checkBatch batch of
             Inl err \<Rightarrow> Inl err
           | Inr bs \<Rightarrow> (case checkLinks C bs of Inl err \<Rightarrow> Inl err | Inr _ \<Rightarrow> Inr bs)))"

section \<open>Framing\<close>

definition MaxPeerMessageBytes :: nat where
  [go_const]: "MaxPeerMessageBytes = 16 * 2 ^ 20"

definition ErrPeerMessageTooLarge :: error where
  "ErrPeerMessageTooLarge = Errorf ''peer message exceeds maximum size'' []"

text \<open>\<open>bufio.Reader.ReadSlice\<close> for the newline, with a buffer of the default size: the bytes up to the
  newline, or a full buffer without a newline, or what is left of the stream.\<close>

definition readerBufferSize :: nat where
  [go_const]: "readerBufferSize = 4096"

datatype read_status = ReadOK | BufferFull | StreamEnd

definition ReadSlice :: "bytes \<Rightarrow> bytes \<times> read_status \<times> bytes" where
  "ReadSlice stream =
     (let line = takeWhile (\<lambda>b. b \<noteq> 10) stream in
      if length line < length stream \<and> length line < readerBufferSize
      then (line @ [10], ReadOK, drop (length line + 1) stream)
      else if readerBufferSize \<le> length stream
      then (take readerBufferSize stream, BufferFull, drop readerBufferSize stream)
      else (stream, StreamEnd, []))"

text \<open>The frame or the error, and the stream behind it.\<close>

function readFrame :: "bytes \<Rightarrow> bytes \<Rightarrow> bytes result \<times> bytes" where
  "readFrame message stream =
     (case ReadSlice stream of
        (fragment, status, rest) \<Rightarrow>
          if length message + length fragment > MaxPeerMessageBytes
          then (Inl ErrPeerMessageTooLarge, rest)
          else (case status of
              ReadOK \<Rightarrow> (Inr (message @ fragment), rest)
            | BufferFull \<Rightarrow> readFrame (message @ fragment) rest
            | StreamEnd \<Rightarrow> (Inl (Errorf ''EOF'' []), rest)))"
  by pat_completeness auto
termination
  by (relation "measure (\<lambda>(message, stream). length stream)")
    (auto simp: ReadSlice_def Let_def go_const split: if_splits)

declare readFrame.simps [simp del]

definition readBoundedPeerMessage :: "bytes option \<Rightarrow> bytes result \<times> bytes" where
  "readBoundedPeerMessage readerp =
     (case readerp of
        None \<Rightarrow> (Inl (Errorf ''peer reader cannot be nil'' []), [])
      | Some stream \<Rightarrow> readFrame [] stream)"

section \<open>Frames\<close>

text \<open>The bytes up to and including the first newline, or everything when there is none.\<close>

fun first_line :: "bytes \<Rightarrow> bytes" where
  "first_line [] = []"
| "first_line (b # bs) = (if b = 10 then [b] else b # first_line bs)"

lemma first_line_append: "first_line (xs @ ys) = (if 10 \<in> set xs then first_line xs else xs @ first_line ys)"
  by (induction xs) auto

lemma first_line_length: "length (first_line s) \<le> length s"
  by (induction s) auto

lemma first_line_no_newline: "10 \<notin> set s \<Longrightarrow> first_line s = s"
  by (induction s) auto

lemma first_line_newline:
  "10 \<in> set s \<Longrightarrow> first_line s = takeWhile (\<lambda>b. b \<noteq> 10) s @ [10]
     \<and> s = first_line s @ drop (length (takeWhile (\<lambda>b. b \<noteq> 10) s) + 1) s"
  by (induction s) auto

lemma takeWhile_newline: "length (takeWhile (\<lambda>b. b \<noteq> 10) s) < length s \<longleftrightarrow> 10 \<in> set s" for s :: bytes
  by (induction s) auto

lemma takeWhile_prefix_clean:
  "k \<le> length (takeWhile (\<lambda>b. b \<noteq> 10) s) \<Longrightarrow> 10 \<notin> set (take k s)" for s :: bytes
proof (induction s arbitrary: k)
  case (Cons a s)
  then show ?case by (cases k) (auto split: if_splits)
qed simp

text \<open>What \<open>ReadSlice\<close> returns is a prefix of the first line.\<close>

lemma ReadSlice_line:
  assumes "ReadSlice stream = (fragment, status, rest)"
  shows "stream = fragment @ rest"
    "status = ReadOK \<Longrightarrow> 10 \<in> set stream \<and> first_line stream = fragment"
    "status = BufferFull \<Longrightarrow> 10 \<notin> set fragment \<and> length rest < length stream"
    "status = StreamEnd \<Longrightarrow> 10 \<notin> set stream \<and> fragment = stream \<and> rest = []"
proof -
  let ?w = "takeWhile (\<lambda>b. b \<noteq> 10) stream"
  show "stream = fragment @ rest"
    using assms first_line_newline [of stream]
    by (auto simp: ReadSlice_def Let_def takeWhile_newline split: if_splits)
  show "10 \<in> set stream \<and> first_line stream = fragment" if "status = ReadOK"
    using assms that first_line_newline [of stream]
    by (auto simp: ReadSlice_def Let_def takeWhile_newline split: if_splits)
  show "10 \<notin> set fragment \<and> length rest < length stream" if s: "status = BufferFull"
  proof -
    have f: "fragment = take readerBufferSize stream" "rest = drop readerBufferSize stream"
      "readerBufferSize \<le> length stream" and "\<not> (10 \<in> set stream \<and> length ?w < readerBufferSize)"
      using assms s by (auto simp: ReadSlice_def Let_def takeWhile_newline split: if_splits)
    then have "10 \<notin> set stream \<or> readerBufferSize \<le> length ?w" by auto
    then have "10 \<notin> set fragment"
      unfolding f(1) using takeWhile_prefix_clean in_set_takeD by metis
    with f show ?thesis by (simp add: go_const)
  qed
  show "10 \<notin> set stream \<and> fragment = stream \<and> rest = []" if s: "status = StreamEnd"
  proof -
    have "\<not> (10 \<in> set stream \<and> length ?w < readerBufferSize)" "length stream < readerBufferSize"
      and r: "fragment = stream \<and> rest = []"
      using assms s by (auto simp: ReadSlice_def Let_def takeWhile_newline split: if_splits)
    with length_takeWhile_le [of "\<lambda>b. b \<noteq> 10" stream] show ?thesis by auto
  qed
qed

lemma readFrame_line:
  assumes "length message \<le> MaxPeerMessageBytes"
  shows "fst (readFrame message stream) =
     (if length message + length (first_line stream) > MaxPeerMessageBytes then Inl ErrPeerMessageTooLarge
      else if 10 \<in> set stream then Inr (message @ first_line stream) else Inl (Errorf ''EOF'' []))
    \<and> (\<forall>frame. fst (readFrame message stream) = Inr frame \<longrightarrow>
         message @ stream = frame @ snd (readFrame message stream))"
  using assms
proof (induction message stream rule: readFrame.induct)
  case (1 message stream)
  obtain fragment status rest where r: "ReadSlice stream = (fragment, status, rest)" by (metis prod_cases3)
  note l = ReadSlice_line [OF r]
  note step = readFrame.simps [of message stream, unfolded r prod.case]
  show ?case
  proof (cases status)
    case ReadOK
    then have "first_line stream = fragment" "10 \<in> set stream" using l(2) by auto
    then show ?thesis using ReadOK by (simp add: step l(1) [symmetric])
  next
    case StreamEnd
    with l(4) have "10 \<notin> set stream" "fragment = stream" "first_line stream = stream"
      by (auto simp: first_line_no_newline)
    then show ?thesis using StreamEnd by (simp add: step)
  next
    case BufferFull
    with l(1,3) have fl: "first_line stream = fragment @ first_line rest" "10 \<in> set stream \<longleftrightarrow> 10 \<in> set rest"
      by (auto simp: first_line_append)
    show ?thesis
    proof (cases "length message + length fragment > MaxPeerMessageBytes")
      case True
      then show ?thesis by (simp add: step fl)
    next
      case False
      then have "readFrame message stream = readFrame (message @ fragment) rest"
        using BufferFull by (simp add: step)
      moreover have "length (message @ fragment) \<le> MaxPeerMessageBytes" using False by simp
      note "1.IH" [OF r [symmetric] refl False BufferFull this]
      ultimately show ?thesis by (simp add: fl l(1) [symmetric])
    qed
  qed
qed

section \<open>Decimal numbers\<close>

lemma digit_of_nat: "n < 10 \<Longrightarrow> isDigit (char_of (48 + n)) \<and> digitValue (char_of (48 + n)) = n"
  by (simp add: isDigit_def digitValue_def)

lemma dec_digits: "list_all isDigit (dec n) \<and> foldl (\<lambda>a c. 10 * a + digitValue c) 0 (dec n) = n"
proof (induction n rule: dec.induct)
  case (1 n)
  show ?case
  proof (cases "n < 10")
    case True
    then show ?thesis using digit_of_nat [of n] by (simp add: dec.simps [of n])
  next
    case False
    with 1 digit_of_nat [of "n mod 10"] show ?thesis by (simp add: dec.simps [of n])
  qed
qed

text \<open>The decimal text of a natural number is read back by \<open>SetString\<close>.\<close>

lemma SetString10_dec: "SetString10 (dec n) = Some (int n)"
proof -
  have "isDigit (hd (dec n))" using dec_digits [of n] by (metis dec_not_Nil list.pred_set hd_in_set)
  then have "hd (dec n) \<noteq> CHR ''-''" "hd (dec n) \<noteq> CHR ''+''" by (auto simp: isDigit_def)
  then show ?thesis using dec_digits [of n] by (simp add: SetString10_def)
qed

section \<open>Encoding and decoding\<close>

text \<open>The documented law of JSON for one message: unmarshalling what was marshalled, with the newline
  behind it, gives the message back.\<close>

definition codec_ok :: "codec \<Rightarrow> MessageType \<Rightarrow> payload \<Rightarrow> bytes \<Rightarrow> bool" where
  "codec_ok J t p data \<longleftrightarrow> marshalPayload J p = Inr data
     \<and> (\<exists>m. marshalMessage J \<lparr>msgType = t, msgPayload = data\<rparr> = Inr m
          \<and> unmarshalMessage J (m @ [10]) = Inr \<lparr>msgType = t, msgPayload = data\<rparr>)"

lemma encode_decode:
  assumes "codec_ok J t p data" "t \<in> set knownMessageTypes"
  shows "\<exists>frame. encodeMessage J t p = Inr frame \<and> DecodeMessage J frame = Inr \<lparr>msgType = t, msgPayload = data\<rparr>"
  using assms by (auto simp: codec_ok_def encodeMessage_def DecodeMessage_def)

lemma decodePayload_same [simp]:
  "decodePayload t e w u (Some \<lparr>msgType = t, msgPayload = data\<rparr>) =
     (case u data of Inl err \<Rightarrow> Inl (Wrapf w [] err) | Inr x \<Rightarrow> Inr x)"
  by (simp add: decodePayload_def)

lemma known_types [simp]:
  "MessageHandshake \<in> set knownMessageTypes" "MessageBlocks \<in> set knownMessageTypes"
  "MessagePeers \<in> set knownMessageTypes" "MessageTransaction \<in> set knownMessageTypes"
  by (simp_all add: knownMessageTypes_def)

lemma checkTotalWork_prefix: "is_ok (checkTotalWork p w) \<longleftrightarrow> is_ok (checkTotalWork q w)"
  by (simp add: checkTotalWork_def split: option.splits)

lemma checkTotalWork_ok:
  "is_ok (checkTotalWork p w) \<longleftrightarrow> w \<noteq> '''' \<and> length w \<le> 128 \<and> (\<exists>v\<ge>0. SetString10 w = Some v)"
  by (auto simp: checkTotalWork_def go_const split: option.splits)

section \<open>Batches of blocks\<close>

lemma nonNilBlocks_map: "nonNilBlocks i batch = Inr bs \<longleftrightarrow> batch = map Some bs"
proof (induction i batch arbitrary: bs rule: nonNilBlocks.induct)
  case (3 i b rest)
  then show ?case by (auto split: sum.splits) (metis sum.exhaust)
qed auto

lemma checkLinks_iff:
  "checkLinks C bs = Inr () \<longleftrightarrow>
     (\<forall>i. Suc i < length bs \<longrightarrow> blkHeight (bs ! Suc i) = blkHeight (bs ! i) + 1
        \<and> blkPreviousHash (bs ! Suc i) = Hash C (bs ! i))"
proof (induction C bs rule: checkLinks.induct)
  case (1 C p c rest)
  show ?case (is "_ \<longleftrightarrow> (\<forall>i. ?P (p # c # rest) i)")
  proof -
    have "(\<forall>i. ?P (p # c # rest) i) \<longleftrightarrow> ?P (p # c # rest) 0 \<and> (\<forall>i. ?P (p # c # rest) (Suc i))"
      by (metis not0_implies_Suc)
    then show ?thesis using 1 by auto
  qed
qed auto

section \<open>Peer lists\<close>

lemma normalizePeers_dedup:
  assumes "normalizePeers e f ids addrs known = Inr ps"
  shows "ps = dedupPeers (\<lambda>_. False) ids addrs known
    \<and> (\<forall>p\<in>set known. kpNodeID p \<noteq> '''' \<and> kpAddress p \<noteq> '''')"
  using assms
proof (induction e f ids addrs known arbitrary: ps rule: normalizePeers.induct)
  case (2 noID noAddress ids addrs p known)
  have ne: "kpNodeID p \<noteq> ''''" "kpAddress p \<noteq> ''''" using "2.prems" by (auto split: if_splits)
  show ?case
  proof (cases "kpNodeID p \<in> ids \<or> kpAddress p \<in> addrs")
    case True
    with "2.prems" ne have "normalizePeers noID noAddress ids addrs known = Inr ps" by simp
    from "2.IH"(1) [OF ne True this] show ?thesis using True ne by simp
  next
    case False
    with "2.prems" ne obtain qs where
      q: "normalizePeers noID noAddress (insert (kpNodeID p) ids) (insert (kpAddress p) addrs) known = Inr qs"
        "ps = p # qs" by (simp split: sum.splits)
    from "2.IH"(2) [OF ne False q(1)] show ?thesis using False ne q(2) by simp
  qed
qed simp

section \<open>Properties\<close>

text \<open>C37: a frame is read exactly, whatever the size of the reader's buffer: the bytes up to and
  including the first newline are returned and the stream continues behind them; a line above
  16 MiB is refused, and a stream that ends without a newline is an error.\<close>

theorem frame_reader_exact:
  "fst (readBoundedPeerMessage (Some stream)) =
     (if length (first_line stream) > 16777216 then Inl ErrPeerMessageTooLarge
      else if 10 \<in> set stream then Inr (first_line stream) else Inl (Errorf ''EOF'' []))
   \<and> (\<forall>frame rest. readBoundedPeerMessage (Some stream) = (Inr frame, rest) \<longrightarrow> stream = frame @ rest)"
  using readFrame_line [of "[]" stream] by (simp add: readBoundedPeerMessage_def go_const) (metis fst_conv snd_conv)

theorem frame_reader_exact_witness:
  "\<exists>rest. readBoundedPeerMessage (Some [97, 10, 98]) = (Inr [97, 10], rest) \<and> [97, 10, 98] = [97, 10] @ rest"
proof -
  have "fst (readBoundedPeerMessage (Some [97, 10, 98])) = Inr [97, 10]"
    using frame_reader_exact [of "[97, 10, 98]"] by simp
  then show ?thesis using frame_reader_exact [of "[97, 10, 98]"] by (metis prod.collapse)
qed

text \<open>A handshake that a node writes is read back by a peer on the same namespace with exactly the
  values that were advertised, and a peer on another namespace refuses it.\<close>

theorem handshake_roundtrip:
  assumes "NewHandshakeMessage J g ident addr height tip work = Inr frame"
    and "codec_ok J MessageHandshake (HandshakePayload h) payloadData" "unmarshalHandshake J payloadData = Inr h"
    and "h = \<lparr>hsProtocolVersion = 1, hsNetworkID = LocalNetworkID g, hsNodeID = ident, hsListenAddress = addr,
           hsHeight = height, hsTipHash = tip, hsTotalWork = work\<rparr>"
  shows "\<exists>m. DecodeMessage J frame = Inr m \<and> DecodeHandshake J g (Some m) = Inr h
    \<and> (\<forall>g'. LocalNetworkID g' = LocalNetworkID g \<or> \<not> is_ok (DecodeHandshake J g' (Some m)))"
proof -
  have ident: "ident \<noteq> ''''" and work: "checkTotalWork '''' work = Inr ()"
    and enc: "encodeMessage J MessageHandshake (HandshakePayload h) = Inr frame"
    using assms(1,4) by (auto simp: NewHandshakeMessage_def go_const split: if_splits sum.splits)
  have "checkTotalWork ''remote '' work = Inr ()"
    using checkTotalWork_prefix [of "''remote ''" work "''''"] work by (cases "checkTotalWork ''remote '' work") auto
  moreover from encode_decode [OF assms(2)] enc
  have "DecodeMessage J frame = Inr \<lparr>msgType = MessageHandshake, msgPayload = payloadData\<rparr>" by auto
  ultimately show ?thesis using ident assms(3,4) by (auto simp: DecodeHandshake_def ProtocolVersion_def)
qed

definition small_handshake :: Handshake where
  "small_handshake = \<lparr>hsProtocolVersion = 1, hsNetworkID = NetworkID, hsNodeID = ''a'', hsListenAddress = ''a:1'',
     hsHeight = 3, hsTipHash = ''ff'', hsTotalWork = ''42''\<rparr>"

text \<open>A codec for one message at a time: \<open>t\<close> with a payload that decodes to the given values.\<close>

definition small_codec :: "MessageType \<Rightarrow> Handshake \<Rightarrow> transaction option \<Rightarrow> block option \<Rightarrow> block option list \<Rightarrow> codec" where
  "small_codec t h txp blockp batch = \<lparr>marshalPayload = (\<lambda>_. Inr [1]), marshalMessage = (\<lambda>_. Inr [2]),
     unmarshalMessage = (\<lambda>_. Inr \<lparr>msgType = t, msgPayload = [1]\<rparr>),
     unmarshalHandshake = (\<lambda>_. Inr h), unmarshalPing = (\<lambda>_. Inr 0), unmarshalPong = (\<lambda>_. Inr 0),
     unmarshalTransaction = (\<lambda>_. Inr txp), unmarshalBlock = (\<lambda>_. Inr blockp),
     unmarshalGetBlocks = (\<lambda>_. Inr \<lparr>StartHeight = 1, Limit = 2\<rparr>), unmarshalBlocks = (\<lambda>_. Inr batch),
     unmarshalGetMempool = (\<lambda>_. Inr ()), unmarshalGetPeers = (\<lambda>_. Inr ()), unmarshalPeers = (\<lambda>_. Inr [])\<rparr>"

theorem handshake_roundtrip_witness:
  "\<exists>frame m. DecodeMessage (small_codec MessageHandshake small_handshake None None []) frame = Inr m
     \<and> DecodeHandshake (small_codec MessageHandshake small_handshake None None []) localNetworkInit (Some m) = Inr small_handshake"
proof -
  let ?J = "small_codec MessageHandshake small_handshake None None []"
  have n: "NewHandshakeMessage ?J localNetworkInit ''a'' ''a:1'' 3 ''ff'' ''42'' = Inr [2, 10]"
    by (simp add: NewHandshakeMessage_def checkTotalWork_def go_const SetString10_def isDigit_def digitValue_def
        encodeMessage_def small_codec_def)
  have c: "codec_ok ?J MessageHandshake (HandshakePayload small_handshake) [1]"
    by (simp add: codec_ok_def small_codec_def)
  have u: "unmarshalHandshake ?J [1] = Inr small_handshake" by (simp add: small_codec_def)
  have v: "small_handshake = \<lparr>hsProtocolVersion = 1, hsNetworkID = LocalNetworkID localNetworkInit, hsNodeID = ''a'',
      hsListenAddress = ''a:1'', hsHeight = 3, hsTipHash = ''ff'', hsTotalWork = ''42''\<rparr>"
    by (simp add: small_handshake_def LocalNetworkID_def localNetworkInit_def)
  from handshake_roundtrip [OF n c u v] show ?thesis by blast
qed

text \<open>A batch of blocks that passes decoding is a non-empty chain segment of at most 128 blocks:
  no block is nil, the heights follow each other and every block names the hash of the one before.\<close>

theorem decoded_blocks_linked:
  assumes "DecodeBlocks J C messagep = Inr bs"
  shows "bs \<noteq> [] \<and> length bs \<le> 128
    \<and> (\<exists>m. messagep = Some m \<and> msgType m = ''blocks'' \<and> unmarshalBlocks J (msgPayload m) = Inr (map Some bs))
    \<and> (\<forall>i. Suc i < length bs \<longrightarrow> blkHeight (bs ! Suc i) = blkHeight (bs ! i) + 1
        \<and> blkPreviousHash (bs ! Suc i) = Hash C (bs ! i))"
proof -
  from assms obtain m batch where m: "messagep = Some m" "msgType m = ''blocks''" "unmarshalBlocks J (msgPayload m) = Inr batch"
    and b: "checkBatch batch = Inr bs" and l: "checkLinks C bs = Inr ()"
    by (auto simp: DecodeBlocks_def decodePayload_def go_const split: option.splits if_splits sum.splits)
  from b have "batch = map Some bs" "batch \<noteq> []" "length batch \<le> 128"
    by (auto simp: checkBatch_def nonNilBlocks_map go_const split: if_splits)
  with m l show ?thesis by (simp add: checkLinks_iff)
qed

theorem decoded_blocks_linked_witness:
  "\<exists>b. blkHeight b = 1 \<and> DecodeBlocks (small_codec MessageBlocks small_handshake None None [Some NewGenesisBlock, Some b])
     small_crypto (Some \<lparr>msgType = MessageBlocks, msgPayload = [1]\<rparr>) = Inr [NewGenesisBlock, b]
     \<and> blkPreviousHash ([NewGenesisBlock, b] ! Suc 0) = Hash small_crypto ([NewGenesisBlock, b] ! 0)"
proof -
  let ?b = "NewGenesisBlock\<lparr>blkHeight := 1, blkPreviousHash := Hash small_crypto NewGenesisBlock\<rparr>"
  have "blkHeight NewGenesisBlock = 0" by (simp add: NewGenesisBlock_def newGenesisBlock_def)
  then have d: "DecodeBlocks (small_codec MessageBlocks small_handshake None None [Some NewGenesisBlock, Some ?b])
     small_crypto (Some \<lparr>msgType = MessageBlocks, msgPayload = [1]\<rparr>) = Inr [NewGenesisBlock, ?b]"
    by (simp add: DecodeBlocks_def small_codec_def checkBatch_def go_const)
  from decoded_blocks_linked [OF d] show ?thesis by (intro exI [of _ ?b]) (use d in auto)
qed

end
