(* ===== verification/P2PNode.thy ===== *)
theory P2PNode
  imports Miner P2PMessages
begin

text \<open>
  The node of package \<open>p2p\<close>: its chain, state and pool (\<open>node.go\<close>, \<open>chain_access.go\<close>,
  \<open>mempool_access.go\<close>), block and transaction admission (\<open>block_handler.go\<close>,
  \<open>transaction_submit.go\<close>), gossip (\<open>block_gossip.go\<close>, \<open>transaction_gossip.go\<close>), block
  synchronization (\<open>sync_handler.go\<close>, \<open>sync_abuse.go\<close>), the exchange of pending transactions
  (\<open>mempool_sync.go\<close>), reorganization with recovery of the pool (\<open>reorg_mempool.go\<close>),
  connections (\<open>Connect\<close>, \<open>handleIncomingConnection\<close>) and the read loop.

  The node record extends the peer table by the chain, the state and the pool, whose objects the node
  owns. What comes from outside is an argument record: the outcome of writes, the streams of new
  connections, the clock and the orders in which Go visits a map. \<open>frames\<close> records what was written
  completely to which connection. A run is sequential; where the code waits for the network during a
  synchronization, what other goroutines do to the node meanwhile is a function argument. Deadlines
  only decide when a read or a write fails.
\<close>

section \<open>The node\<close>

record p2p_node = peer_node +
  nodeHeight :: u64
  nodeTipHash :: string
  nodeMempool :: mempool
  nodeState :: "state option"
  nodeChain :: "chain option"
  blocksResponse :: "block list option"
  syncRequestActive :: bool
  frames :: "(nat \<times> bytes) list"

text \<open>A dialled or accepted connection: its number, the remote address and the bytes it delivers.\<close>

record stream_conn =
  scConn :: nat
  scRemote :: string
  scStream :: bytes

record p2p_env =
  envCrypto :: crypto
  envNet :: netlib
  envCodec :: codec
  envLocal :: local_network
  envDeadline :: "nat \<Rightarrow> unit result"
  envConnWrite :: "nat \<Rightarrow> bytes \<Rightarrow> nat \<times> error option"
  envDial :: "string \<Rightarrow> stream_conn result"
  envPeers :: peer_order
  envKnown :: "(string \<times> KnownPeer) list \<Rightarrow> (string \<times> KnownPeer) list"
  envPool :: map_order
  envNonces :: "(u64 \<times> string) list \<Rightarrow> (u64 \<times> string) list"
  envClock :: "nat \<Rightarrow> nat \<Rightarrow> i64"

definition NewNode :: "string \<Rightarrow> string \<Rightarrow> u64 \<Rightarrow> string \<Rightarrow> p2p_node result" where
  "NewNode ident address height tipHash =
     (if ident = '''' then Inl (Errorf ''node ID cannot be empty'' [])
      else if address = '''' then Inl (Errorf ''listen address cannot be empty'' [])
      else Inr \<lparr>nodeID = ident, listenAddress = address, peers = [], discoveredPeers = [],
        peerScores = Map.empty, listener = None, handshakeSlots = 0, handshakeConns = [], closedConns = [],
        nodeHeight = height, nodeTipHash = tipHash, nodeMempool = NewMempool, nodeState = None,
        nodeChain = None, blocksResponse = None, syncRequestActive = False, frames = []\<rparr>)"

definition SetState :: "p2p_node \<Rightarrow> state option \<Rightarrow> (p2p_node, unit) outcome" where
  "SetState n statep =
     (case statep of
       None \<Rightarrow> (n, Inl (Errorf ''blockchain state cannot be nil'' []))
     | Some s \<Rightarrow>
     (case nodeChain n of
       None \<Rightarrow> (n\<lparr>nodeState := Some s\<rparr>, Inr ())
     | Some c \<Rightarrow>
     (case MonetaryPolicy (Some c) of
       Inl err \<Rightarrow> (n, Inl (Wrapf ''invalid blockchain network identity: %w'' [] err))
     | Inr policy \<Rightarrow>
     (case EnsureMonetaryPolicy s policy of
       Inl err \<Rightarrow> (n, Inl (Wrapf ''blockchain/state policy mismatch: %w'' [] err))
     | Inr _ \<Rightarrow> (n\<lparr>nodeState := Some s\<rparr>, Inr ())))))"

definition RefreshChainStatus :: "crypto \<Rightarrow> p2p_node \<Rightarrow> p2p_node" where
  "RefreshChainStatus C n =
     (case nodeChain n of
        None \<Rightarrow> n
      | Some c \<Rightarrow>
          (let n1 = n\<lparr>nodeHeight := Height c\<rparr>
           in case Tip c of None \<Rightarrow> n1 | Some tip \<Rightarrow> n1\<lparr>nodeTipHash := Hash C tip\<rparr>))"

definition SetChain :: "p2p_env \<Rightarrow> p2p_node \<Rightarrow> chain option \<Rightarrow> (p2p_node, unit) outcome" where
  "SetChain E n chainp =
     (case chainp of
       None \<Rightarrow> (n, Inl (Errorf ''blockchain cannot be nil'' []))
     | Some c \<Rightarrow>
     (case MonetaryPolicy chainp of
       Inl err \<Rightarrow> (n, Inl (Wrapf ''invalid blockchain network identity: %w'' [] err))
     | Inr policy \<Rightarrow>
     if LocalNetworkID (envLocal E) \<noteq> Network chainp
     then (n, Inl (Errorf ''P2P namespace mismatch: node=%q chain=%q'' [LocalNetworkID (envLocal E), Network chainp]))
     else if (case nodeState n of None \<Rightarrow> False | Some s \<Rightarrow> monetaryPolicy s \<noteq> policy)
     then (n, Inl (Errorf ''blockchain/state monetary policy mismatch: chain=%d state=%d'' []))
     else (let n1 = n\<lparr>nodeChain := Some c, nodeHeight := Height c\<rparr>
       in (case Tip c of None \<Rightarrow> n1 | Some tip \<Rightarrow> n1\<lparr>nodeTipHash := Hash (envCrypto E) tip\<rparr>, Inr ()))))"

definition ActiveNetwork :: "p2p_node \<Rightarrow> network_id" where
  "ActiveNetwork n = (case nodeChain n of None \<Rightarrow> DefaultNetwork | Some c \<Rightarrow> Network (Some c))"

definition AdvertisedChainStatus :: "p2p_node \<Rightarrow> u64 \<times> string" where
  "AdvertisedChainStatus n = (nodeHeight n, nodeTipHash n)"

definition localTotalWork :: "p2p_node \<Rightarrow> string" where
  "localTotalWork n =
     (case nodeChain n of
        None \<Rightarrow> ''0''
      | Some c \<Rightarrow> (if TotalWork c < 0 then ''-'' @ dec (nat (- TotalWork c)) else dec (nat (TotalWork c))))"

definition MempoolCount :: "p2p_node \<Rightarrow> nat" where
  "MempoolCount n = Count (nodeMempool n)"

definition MempoolTransaction :: "p2p_node \<Rightarrow> string \<Rightarrow> transaction option" where
  "MempoolTransaction n ident = GetTransaction (nodeMempool n) ident"

text \<open>\<open>Start\<close>: the outcome of listening, the listener with the address it got, is an argument.\<close>

definition Start :: "(nat \<times> string) result \<Rightarrow> p2p_node \<Rightarrow> (p2p_node, unit) outcome" where
  "Start listening n =
     (if listener n \<noteq> None then (n, Inl (Errorf ''node is already running'' []))
      else (case listening of
          Inl err \<Rightarrow> (n, Inl (Wrapf ''failed to listen on %s: %w'' [listenAddress n] err))
        | Inr (l, address) \<Rightarrow> (n\<lparr>listener := Some l, listenAddress := address\<rparr>, Inr ())))"

section \<open>Writing\<close>

text \<open>The loop of \<open>write\<close>: \<open>w\<close> is the connection's \<open>Write\<close>, which reports how much it took.\<close>

function writeAll :: "(bytes \<Rightarrow> nat \<times> error option) \<Rightarrow> bytes \<Rightarrow> unit result" where
  "writeAll w data =
     (if data = [] then Inr ()
      else (case w data of
          (k, Some err) \<Rightarrow> Inl err
        | (k, None) \<Rightarrow> if k = 0 then Inl (Errorf ''unexpected EOF'' []) else writeAll w (drop k data)))"
  by pat_completeness auto
termination by (relation "measure (\<lambda>(w, data). length data)") auto

declare writeAll.simps [simp del]

definition peerWrite :: "p2p_env \<Rightarrow> p2p_node \<Rightarrow> PeerConnection \<Rightarrow> bytes \<Rightarrow> (p2p_node, unit) outcome" where
  "peerWrite E n peer data =
     (case envDeadline E (pcConn peer) of
        Inl err \<Rightarrow> (n, Inl err)
      | Inr _ \<Rightarrow>
          (case writeAll (envConnWrite E (pcConn peer)) data of
             Inl err \<Rightarrow> (n, Inl err)
           | Inr _ \<Rightarrow> (n\<lparr>frames := frames n @ [(pcConn peer, data)]\<rparr>, Inr ())))"

text \<open>Two loops over connections: gossip counts the successes and skips failures, a broadcast stops at
  the first failure.\<close>

fun writeEach :: "p2p_env \<Rightarrow> p2p_node \<Rightarrow> bytes \<Rightarrow> nat \<Rightarrow> PeerConnection list \<Rightarrow> p2p_node \<times> nat" where
  "writeEach E n data sent [] = (n, sent)"
| "writeEach E n data sent (p # ps) =
     (case peerWrite E n p data of
        (n1, Inl err) \<Rightarrow> writeEach E n1 data sent ps
      | (n1, Inr _) \<Rightarrow> writeEach E n1 data (sent + 1) ps)"

fun writeUntil :: "p2p_env \<Rightarrow> string \<Rightarrow> p2p_node \<Rightarrow> bytes \<Rightarrow> PeerConnection list \<Rightarrow> (p2p_node, unit) outcome" where
  "writeUntil E what n data [] = (n, Inr ())"
| "writeUntil E what n data (p # ps) =
     (case peerWrite E n p data of
        (n1, Inl err) \<Rightarrow> (n1, Inl (Wrapf what [infoNodeID (pcInfo p)] err))
      | (n1, Inr _) \<Rightarrow> writeUntil E what n1 data ps)"

definition relayTargets :: "p2p_env \<Rightarrow> p2p_node \<Rightarrow> string \<Rightarrow> PeerConnection list" where
  "relayTargets E n excludeNodeID = map snd (filter (\<lambda>(ident, _). ident \<noteq> excludeNodeID) (envPeers E (peers n)))"

section \<open>Gossip\<close>

definition relayTransaction ::
  "p2p_env \<Rightarrow> p2p_node \<Rightarrow> transaction option \<Rightarrow> string \<Rightarrow> p2p_node \<times> nat \<times> unit result" where
  "relayTransaction E n txp excludeNodeID =
     (case txp of
       None \<Rightarrow> (n, 0, Inl (Errorf ''transaction cannot be nil'' []))
     | Some tx \<Rightarrow>
     if \<not> VerifyForNetwork (envCrypto E) tx (ActiveNetwork n)
     then (n, 0, Inl (Errorf ''cannot relay invalid transaction'' []))
     else (case NewTransactionMessage (envCodec E) txp of
       Inl err \<Rightarrow> (n, 0, Inl err)
     | Inr data \<Rightarrow>
     (case writeEach E n data 0 (relayTargets E n excludeNodeID) of (n1, sent) \<Rightarrow> (n1, sent, Inr ()))))"

definition relayBlock ::
  "p2p_env \<Rightarrow> p2p_node \<Rightarrow> block option \<Rightarrow> string \<Rightarrow> p2p_node \<times> nat \<times> unit result" where
  "relayBlock E n blockp excludeNodeID =
     (case blockp of
       None \<Rightarrow> (n, 0, Inl (Errorf ''block cannot be nil'' []))
     | Some block \<Rightarrow>
     if blkMinerAddress block = ''''
     then (n, 0, Inl (Errorf ''cannot relay block without miner address'' []))
     else (case NewBlockMessage (envCodec E) blockp of
       Inl err \<Rightarrow> (n, 0, Inl err)
     | Inr data \<Rightarrow>
     (case writeEach E n data 0 (relayTargets E n excludeNodeID) of (n1, sent) \<Rightarrow> (n1, sent, Inr ()))))"

definition BroadcastBlock :: "p2p_env \<Rightarrow> p2p_node \<Rightarrow> block option \<Rightarrow> (p2p_node, unit) outcome" where
  "BroadcastBlock E n blockp =
     (case blockp of
       None \<Rightarrow> (n, Inl (Errorf ''block cannot be nil'' []))
     | Some block \<Rightarrow>
     if blkMinerAddress block = ''''
     then (n, Inl (Errorf ''cannot broadcast block without miner address'' []))
     else (case NewBlockMessage (envCodec E) blockp of
       Inl err \<Rightarrow> (n, Inl err)
     | Inr data \<Rightarrow>
       writeUntil E ''failed to broadcast block to %s: %w'' n data (map snd (envPeers E (peers n)))))"

definition BroadcastTransaction :: "p2p_env \<Rightarrow> p2p_node \<Rightarrow> transaction option \<Rightarrow> (p2p_node, unit) outcome" where
  "BroadcastTransaction E n txp =
     (case txp of
       None \<Rightarrow> (n, Inl (Errorf ''transaction cannot be nil'' []))
     | Some tx \<Rightarrow>
     if \<not> VerifyForNetwork (envCrypto E) tx (ActiveNetwork n)
     then (n, Inl (Errorf ''cannot broadcast invalid transaction'' []))
     else (case NewTransactionMessage (envCodec E) txp of
       Inl err \<Rightarrow> (n, Inl err)
     | Inr data \<Rightarrow>
       writeUntil E ''failed to broadcast transaction to %s: %w'' n data (map snd (envPeers E (peers n)))))"

definition SendPing :: "p2p_env \<Rightarrow> p2p_node \<Rightarrow> string \<Rightarrow> u64 \<Rightarrow> (p2p_node, unit) outcome" where
  "SendPing E n ident nonce =
     (case map_of (peers n) ident of
       None \<Rightarrow> (n, Inl (Errorf ''peer not found: %s'' [ident]))
     | Some peer \<Rightarrow>
     (case NewPingMessage (envCodec E) nonce of
       Inl err \<Rightarrow> (n, Inl err)
     | Inr data \<Rightarrow>
     (case peerWrite E n peer data of
       (n1, Inl err) \<Rightarrow> (n1, Inl (Wrapf ''failed to send ping: %w'' [] err))
     | (n1, Inr _) \<Rightarrow> (n1, Inr ()))))"

text \<open>One tick of the keepalive loop of a connection; \<open>False\<close> ends the loop.\<close>

definition keepPeerAlive :: "p2p_env \<Rightarrow> p2p_node \<Rightarrow> PeerConnection \<Rightarrow> u64 \<Rightarrow> p2p_node \<times> bool" where
  "keepPeerAlive E n peer nonce =
     (if \<not> isCurrentPeerConnection n peer then (n, False)
      else (case NewPingMessage (envCodec E) nonce of
          Inl err \<Rightarrow> (n, False)
        | Inr ping \<Rightarrow>
            (case peerWrite E n peer ping of
               (n1, Inl err) \<Rightarrow> (closeConn (removePeerConnection n1 peer) (pcConn peer), False)
             | (n1, Inr _) \<Rightarrow> (n1, True))))"

section \<open>Discovery requests\<close>

definition SendGetPeers :: "p2p_env \<Rightarrow> p2p_node \<Rightarrow> string \<Rightarrow> (p2p_node, unit) outcome" where
  "SendGetPeers E n ident =
     (if ident = '''' then (n, Inl (Errorf ''peer node ID cannot be empty'' []))
      else (case map_of (peers n) ident of
          None \<Rightarrow> (n, Inl (Errorf ''peer not found: %s'' [ident]))
        | Some peer \<Rightarrow>
            (case NewGetPeersMessage (envCodec E) of
               Inl err \<Rightarrow> (n, Inl err)
             | Inr data \<Rightarrow>
                 (case peerWrite E n peer data of
                    (n1, Inl err) \<Rightarrow> (n1, Inl (Wrapf ''failed requesting peers from %s: %w'' [ident] err))
                  | (n1, Inr _) \<Rightarrow> (n1, Inr ())))))"

definition sendPeersToPeer :: "p2p_env \<Rightarrow> p2p_node \<Rightarrow> PeerConnection \<Rightarrow> (p2p_node, nat) outcome" where
  "sendPeersToPeer E n peer =
     (let known = PeerDiscoverySnapshot (envPeers E) n (infoNodeID (pcInfo peer)) in
      case NewPeersMessage (envCodec E) known of
        Inl err \<Rightarrow> (n, Inl err)
      | Inr data \<Rightarrow>
          (case peerWrite E n peer data of
             (n1, Inl err) \<Rightarrow> (n1, Inl (Wrapf ''failed sending peers to %s: %w'' [infoNodeID (pcInfo peer)] err))
           | (n1, Inr _) \<Rightarrow> (n1, Inr (length known))))"

text \<open>The numbers of requests sent and failed.\<close>

definition requestPartitionRecoveryPeersOnce :: "p2p_env \<Rightarrow> p2p_node \<Rightarrow> p2p_node \<times> nat \<times> nat" where
  "requestPartitionRecoveryPeersOnce E n =
     (let targets = partitionDiscoveryCandidates (envNet E) (envPeers E) n in
      case NewGetPeersMessage (envCodec E) of
        Inl err \<Rightarrow> (n, 0, length targets)
      | Inr data \<Rightarrow>
          (case writeEach E n data 0 targets of (n1, requested) \<Rightarrow> (n1, requested, length targets - requested)))"

section \<open>Admission of transactions\<close>

definition admitVerifiedTransaction :: "p2p_env \<Rightarrow> p2p_node \<Rightarrow> transaction option \<Rightarrow> (p2p_node, unit) outcome" where
  "admitVerifiedTransaction E n txp =
     (case txp of
       None \<Rightarrow> (n, Inl (Errorf ''transaction cannot be nil'' []))
     | Some tx \<Rightarrow>
     (case ValidateResourceBounds txp of
       Inl err \<Rightarrow> (n, Inl (Wrapf ''transaction rejected by resource policy: %w'' [] err))
     | Inr _ \<Rightarrow>
     (case nodeState n of
       None \<Rightarrow> (n, Inl (Errorf ''blockchain state is unavailable'' []))
     | Some s \<Rightarrow>
     if IsTransactionProcessed s (txID tx)
     then (n, Inl (Errorf ''transaction already confirmed: %s'' [txID tx]))
     else (case CheckAdmission (Some (nodeMempool n)) txp of
       Inl err \<Rightarrow> (n, Inl (Wrapf ''transaction rejected by mempool capacity/index policy: %w'' [] err))
     | Inr _ \<Rightarrow>
     (let pending = TransactionsForSender (envNonces E) (nodeMempool n) (txFrom tx) in
     (case ValidateMempoolTransactionFor (envCrypto E) (Some s) (map Some pending) txp (ActiveNetwork n) of
       Inl err \<Rightarrow> (n, Inl (Wrapf ''transaction rejected by mempool validation: %w'' [] err))
     | Inr _ \<Rightarrow>
     (case AddTransaction (Some (nodeMempool n)) txp of
       (mp, Inl err) \<Rightarrow> (n, Inl (Wrapf ''failed to add transaction to mempool: %w'' [] err))
     | (mp, Inr _) \<Rightarrow>
       (case mp of None \<Rightarrow> n | Some m \<Rightarrow> n\<lparr>nodeMempool := m\<rparr>, Inr ()))))))))"

definition admitTransaction :: "p2p_env \<Rightarrow> p2p_node \<Rightarrow> transaction option \<Rightarrow> (p2p_node, unit) outcome" where
  "admitTransaction E n txp =
     (case txp of
       None \<Rightarrow> (n, Inl (Errorf ''transaction cannot be nil'' []))
     | Some tx \<Rightarrow>
     (case ValidateResourceBounds txp of
       Inl err \<Rightarrow> (n, Inl (Wrapf ''transaction rejected by resource policy: %w'' [] err))
     | Inr _ \<Rightarrow>
     (case CheckAdmission (Some (nodeMempool n)) txp of
       Inl err \<Rightarrow> (n, Inl (Wrapf ''transaction rejected by mempool capacity/index policy: %w'' [] err))
     | Inr _ \<Rightarrow>
     if \<not> VerifyForNetwork (envCrypto E) tx (ActiveNetwork n)
     then (n, Inl (Errorf ''transaction signature or identity is invalid'' []))
     else admitVerifiedTransaction E n txp)))"

definition SubmitTransaction :: "p2p_env \<Rightarrow> p2p_node \<Rightarrow> transaction option \<Rightarrow> p2p_node \<times> nat \<times> unit result" where
  "SubmitTransaction E n txp =
     (case admitTransaction E n txp of
        (n1, Inl err) \<Rightarrow> (n1, 0, Inl err)
      | (n1, Inr _) \<Rightarrow>
          (case relayTransaction E n1 txp '''' of
             (n2, sent, Inl err) \<Rightarrow> (n2, sent, Inl (Wrapf ''transaction accepted locally but relay failed: %w'' [] err))
           | (n2, sent, Inr _) \<Rightarrow> (n2, sent, Inr ())))"

section \<open>Admission of blocks\<close>

definition AcceptBlock :: "p2p_env \<Rightarrow> p2p_node \<Rightarrow> block option \<Rightarrow> (p2p_node, unit) outcome" where
  "AcceptBlock E n blockp =
     (case blockp of
       None \<Rightarrow> (n, Inl (Errorf ''block cannot be nil'' []))
     | Some block \<Rightarrow>
     if blkMinerAddress block = '''' then (n, Inl (Errorf ''block miner address cannot be empty'' []))
     else (case nodeChain n of
       None \<Rightarrow> (n, Inl (Errorf ''blockchain is not attached'' []))
     | Some c \<Rightarrow>
     (case nodeState n of
       None \<Rightarrow> (n, Inl (Errorf ''blockchain state is not attached'' []))
     | Some s \<Rightarrow>
     (case MonetaryPolicy (Some c) of
       Inl err \<Rightarrow> (n, Inl (Wrapf ''invalid blockchain network identity: %w'' [] err))
     | Inr policy \<Rightarrow>
     (case EnsureMonetaryPolicy s policy of
       Inl err \<Rightarrow> (n, Inl (Wrapf ''blockchain/state policy mismatch: %w'' [] err))
     | Inr _ \<Rightarrow>
     (case ValidateBlockAgainstChain (envCrypto E) (envClock E 0 0) (Some c) blockp of
       Inl err \<Rightarrow> (n, Inl (Wrapf ''block validation failed: %w'' [] err))
     | Inr _ \<Rightarrow>
     (case ProcessBlockFor (envCrypto E) (Some (Clone s)) policy blockp (blkMinerAddress block) of
       (_, Inl err) \<Rightarrow> (n, Inl (Wrapf ''block state processing failed: %w'' [] err))
     | (workingState, Inr _) \<Rightarrow>
     (case AddBlock (envCrypto E) (envClock E 0 1) c blockp of
       (c1, Inl err) \<Rightarrow> (n\<lparr>nodeChain := Some c1\<rparr>, Inl (Wrapf ''failed to add block: %w'' [] err))
     | (c1, Inr _) \<Rightarrow>
     (case ReplaceWith s workingState of
       (s1, Inl err) \<Rightarrow>
         (n\<lparr>nodeChain := Some c1, nodeState := Some s1\<rparr>, Inl (Wrapf ''failed to commit state: %w'' [] err))
     | (s1, Inr _) \<Rightarrow>
       (RefreshChainStatus (envCrypto E)
          (n\<lparr>nodeChain := Some c1, nodeState := Some s1,
             nodeMempool := foldl RemoveTransaction (nodeMempool n)
               (List.map_filter (map_option txID) (blkTransactions block))\<rparr>), Inr ()))))))))))"

section \<open>Reorganization with recovery of the pool\<close>

text \<open>The comparison of the two sorts of the package: by sender, then nonce, then ID.\<close>

definition tx_order :: "transaction \<Rightarrow> string \<times> u64 \<times> string" where
  "tx_order tx = (txFrom tx, txNonce tx, txID tx)"

fun pendingCandidates :: "(string \<times> transaction) list \<Rightarrow> transaction list \<Rightarrow> (string \<times> transaction) list" where
  "pendingCandidates candidates [] = candidates"
| "pendingCandidates candidates (tx # txs) =
     (if txID tx = '''' then pendingCandidates candidates txs
      else pendingCandidates (AList.update (txID tx) tx candidates) txs)"

fun orphanCandidates ::
  "state \<Rightarrow> (string \<times> transaction) list \<Rightarrow> transaction option list \<Rightarrow> (string \<times> transaction) list" where
  "orphanCandidates s candidates [] = candidates"
| "orphanCandidates s candidates (txp # txs) =
     (case txp of
        None \<Rightarrow> orphanCandidates s candidates txs
      | Some tx \<Rightarrow>
          if txID tx = '''' \<or> IsTransactionProcessed s (txID tx) then orphanCandidates s candidates txs
          else orphanCandidates s (AList.update (txID tx) tx candidates) txs)"

text \<open>The transactions of the blocks of a chain above the genesis, in order.\<close>

definition chainTransactions :: "chain \<Rightarrow> transaction option list" where
  "chainTransactions c =
     concat (map (\<lambda>h. case BlockByHeight c (of_nat h) of None \<Rightarrow> [] | Some b \<Rightarrow> blkTransactions b)
       [1..<Suc (unat (Height c))])"

fun recoverTransactions ::
  "p2p_env \<Rightarrow> state \<Rightarrow> network_id \<Rightarrow> mempool \<Rightarrow> nat \<Rightarrow> transaction list \<Rightarrow> mempool \<times> nat" where
  "recoverTransactions E s net pool recovered [] = (pool, recovered)"
| "recoverTransactions E s net pool recovered (tx # txs) =
     (if IsTransactionProcessed s (txID tx) then recoverTransactions E s net pool recovered txs
      else
        (let pending = TransactionsForSender (envNonces E) pool (txFrom tx)
         in case ValidateMempoolTransactionFor (envCrypto E) (Some s) (map Some pending) (Some tx) net of
              Inl err \<Rightarrow> recoverTransactions E s net pool recovered txs
            | Inr _ \<Rightarrow>
                (case AddTransaction (Some pool) (Some tx) of
                   (Some pool1, Inr _) \<Rightarrow> recoverTransactions E s net pool1 (recovered + 1) txs
                 | _ \<Rightarrow> recoverTransactions E s net pool recovered txs)))"

definition ReorganizeWithMempoolRecovery ::
  "p2p_env \<Rightarrow> p2p_node \<Rightarrow> chain option \<Rightarrow> (p2p_node, bool \<times> nat) outcome" where
  "ReorganizeWithMempoolRecovery E n candidatep =
     (case candidatep of
       None \<Rightarrow> (n, Inl (Errorf ''candidate chain cannot be nil'' []))
     | Some candidate \<Rightarrow>
     (case nodeChain n of
       None \<Rightarrow> (n, Inl (Errorf ''blockchain is not attached'' []))
     | Some current \<Rightarrow>
     (case nodeState n of
       None \<Rightarrow> (n, Inl (Errorf ''blockchain state is not attached'' []))
     | Some s \<Rightarrow>
     (case CloneChain (Some current) of
       Inl err \<Rightarrow> (n, Inl (Wrapf ''failed to clone old chain: %w'' [] err))
     | Inr oldChain \<Rightarrow>
     (let oldPending = AllTransactions (envPool E) (nodeMempool n) in
     (case ReorganizeToCandidate (envCrypto E) (envClock E) (Some current) (Some s) candidatep of
       ((cp, sp), Inl err) \<Rightarrow> (n\<lparr>nodeChain := cp, nodeState := sp\<rparr>, Inl err)
     | ((cp, sp), Inr False) \<Rightarrow> (n\<lparr>nodeChain := cp, nodeState := sp\<rparr>, Inr (False, 0))
     | ((cp, sp), Inr True) \<Rightarrow>
       (let s1 = (case sp of None \<Rightarrow> s | Some t \<Rightarrow> t);
            candidates = orphanCandidates s1 (pendingCandidates [] oldPending) (chainTransactions oldChain);
            ordered = sort_key tx_order (map snd (envPool E candidates));
            n1 = n\<lparr>nodeChain := cp, nodeState := sp\<rparr>
        in (case recoverTransactions E s1 (ActiveNetwork n1) (Clear (nodeMempool n)) 0 ordered of
              (pool, recovered) \<Rightarrow>
                (RefreshChainStatus (envCrypto E) (n1\<lparr>nodeMempool := pool\<rparr>), Inr (True, recovered))))))))))"

section \<open>Serving blocks\<close>

fun collectBlocks :: "chain \<Rightarrow> u64 \<Rightarrow> u64 \<Rightarrow> nat \<Rightarrow> block list result" where
  "collectBlocks c chainHeight height 0 = Inr []"
| "collectBlocks c chainHeight height (Suc k) =
     (if height \<le> chainHeight
      then (case BlockByHeight c height of
          None \<Rightarrow> Inl (Errorf ''block %d not found'' [dec (unat height)])
        | Some b \<Rightarrow>
            (case collectBlocks c chainHeight (height + 1) k of Inl err \<Rightarrow> Inl err | Inr bs \<Rightarrow> Inr (b # bs)))
      else Inr [])"

definition blocksFromHeight :: "p2p_node \<Rightarrow> u64 \<Rightarrow> u64 \<Rightarrow> block list result" where
  "blocksFromHeight n startHeight limit =
     (case checkRequestLimit limit of
       Inl err \<Rightarrow> Inl err
     | Inr _ \<Rightarrow>
     (case nodeChain n of
       None \<Rightarrow> Inl (Errorf ''blockchain is not attached'' [])
     | Some c \<Rightarrow>
       if startHeight > Height c then Inr [] else collectBlocks c (Height c) startHeight (unat limit)))"

definition handleGetBlocks :: "p2p_env \<Rightarrow> p2p_node \<Rightarrow> PeerConnection \<Rightarrow> Message \<Rightarrow> p2p_node" where
  "handleGetBlocks E n peer message =
     (case DecodeGetBlocks (envCodec E) (Some message) of
       Inl err \<Rightarrow> n
     | Inr request \<Rightarrow>
     (case blocksFromHeight n (StartHeight request) (Limit request) of
       Inl err \<Rightarrow> n
     | Inr bs \<Rightarrow>
       if length bs = 0 then n
       else (case NewBlocksMessage (envCodec E) (map Some bs) of
           Inl err \<Rightarrow> n
         | Inr data \<Rightarrow> fst (peerWrite E n peer data))))"

definition handleGetBlocksSecure :: "p2p_env \<Rightarrow> p2p_node \<Rightarrow> PeerConnection \<Rightarrow> Message \<Rightarrow> p2p_node" where
  "handleGetBlocksSecure E n peer message =
     (case DecodeGetBlocks (envCodec E) (Some message) of
       Inl err \<Rightarrow> fst (penalizePeerAndMaybeDisconnect n peer PeerPenaltyMalformed)
     | Inr request \<Rightarrow>
     (case blocksFromHeight n (StartHeight request) (Limit request) of
       Inl err \<Rightarrow> n
     | Inr bs \<Rightarrow>
       (let n1 = fst (rewardValidPeerMessage n peer) in
        if length bs = 0 then n1
        else (case NewBlocksMessage (envCodec E) (map Some bs) of
            Inl err \<Rightarrow> n1
          | Inr data \<Rightarrow> fst (peerWrite E n1 peer data)))))"

definition handleBlocksResponse :: "p2p_env \<Rightarrow> p2p_node \<Rightarrow> Message \<Rightarrow> p2p_node" where
  "handleBlocksResponse E n message =
     (case DecodeBlocks (envCodec E) (envCrypto E) (Some message) of
        Inl err \<Rightarrow> n
      | Inr bs \<Rightarrow> if blocksResponse n = None then n\<lparr>blocksResponse := Some bs\<rparr> else n)"

definition handleBlocksResponseSecure :: "p2p_env \<Rightarrow> p2p_node \<Rightarrow> PeerConnection \<Rightarrow> Message \<Rightarrow> p2p_node" where
  "handleBlocksResponseSecure E n peer message =
     (case DecodeBlocks (envCodec E) (envCrypto E) (Some message) of
       Inl err \<Rightarrow> fst (penalizePeerAndMaybeDisconnect n peer PeerPenaltyMalformed)
     | Inr bs \<Rightarrow>
       if \<not> syncRequestActive n then fst (penalizePeerAndMaybeDisconnect n peer PeerPenaltyProtocolAbuse)
       else if blocksResponse n = None
       then fst (rewardValidPeerMessage (n\<lparr>blocksResponse := Some bs\<rparr>) peer)
       else fst (penalizePeerAndMaybeDisconnect n peer PeerPenaltyProtocolAbuse))"

section \<open>Requesting blocks\<close>

text \<open>\<open>reply\<close> is the batch that reaches the response channel before the timer, whoever sent it, or
  \<open>None\<close> when the timer comes first. The request mutex is held throughout, so at the end it is free
  and the channel is empty.\<close>

definition RequestBlocks ::
  "p2p_env \<Rightarrow> block list option \<Rightarrow> p2p_node \<Rightarrow> string \<Rightarrow> u64 \<Rightarrow> u64 \<Rightarrow> i64 \<Rightarrow> (p2p_node, block list) outcome" where
  "RequestBlocks E reply n ident startHeight limit timeout =
     (if timeout \<le> 0 then (n, Inl (Errorf ''sync timeout must be greater than zero'' []))
      else if limit = 0 \<or> limit > MaxBlocksPerMessage then (n, Inl (Errorf ''invalid block request limit'' []))
      else (case map_of (peers n) ident of
          None \<Rightarrow> (n, Inl (Errorf ''peer not found: %s'' [ident]))
        | Some peer \<Rightarrow>
            (let n1 = n\<lparr>blocksResponse := None\<rparr> in
             case NewGetBlocksMessage (envCodec E) startHeight limit of
               Inl err \<Rightarrow> (n1, Inl err)
             | Inr data \<Rightarrow>
                 (case peerWrite E n1 peer data of
                    (n2, Inl err) \<Rightarrow> (n2, Inl (Wrapf ''failed to send block request: %w'' [] err))
                  | (n2, Inr _) \<Rightarrow>
                      (case reply of
                         Some bs \<Rightarrow> (n2, Inr bs)
                       | None \<Rightarrow> (n2, Inl (Errorf ''timed out waiting for blocks from %s'' [ident])))))))"

definition peerChainStatus :: "p2p_node \<Rightarrow> string \<Rightarrow> (u64 \<times> string \<times> int) result" where
  "peerChainStatus n ident =
     (case map_of (peers n) ident of
       None \<Rightarrow> Inl (Errorf ''peer not found: %s'' [ident])
     | Some peer \<Rightarrow>
     (case SetString10 (infoTotalWork (pcInfo peer)) of
       None \<Rightarrow> Inl (Errorf ''peer %s advertised invalid total work %q'' [ident, infoTotalWork (pcInfo peer)])
     | Some w \<Rightarrow>
       if w < 0 then Inl (Errorf ''peer %s advertised negative total work'' [ident])
       else Inr (infoHeight (pcInfo peer), infoTipHash (pcInfo peer), w)))"

text \<open>The blocks of one batch; the loop stops when the remote height is passed. Decoded batches hold no
  nil block.\<close>

fun addCandidateBlocks ::
  "p2p_env \<Rightarrow> u64 \<Rightarrow> chain \<Rightarrow> u64 \<Rightarrow> block list \<Rightarrow> (chain \<times> u64) result" where
  "addCandidateBlocks E remoteHeight candidate nextHeight [] = Inr (candidate, nextHeight)"
| "addCandidateBlocks E remoteHeight candidate nextHeight (b # bs) =
     (if blkHeight b \<noteq> nextHeight
      then Inl (Errorf ''unexpected candidate block height: expected %d, got %d''
        [dec (unat nextHeight), dec (unat (blkHeight b))])
      else (case AddBlock (envCrypto E) (envClock E 3 (unat nextHeight)) candidate (Some b) of
          (_, Inl err) \<Rightarrow> Inl (Wrapf ''candidate block %d failed validation: %w'' [dec (unat (blkHeight b))] err)
        | (candidate1, Inr _) \<Rightarrow>
            if nextHeight + 1 > remoteHeight then Inr (candidate1, nextHeight + 1)
            else addCandidateBlocks E remoteHeight candidate1 (nextHeight + 1) bs))"

text \<open>The download loop over the replies to its requests; after the last listed reply the peer is
  silent.\<close>

fun downloadLoop ::
  "p2p_env \<Rightarrow> string \<Rightarrow> u64 \<Rightarrow> i64 \<Rightarrow> p2p_node \<Rightarrow> chain \<Rightarrow> u64 \<Rightarrow> block list option list \<Rightarrow> (p2p_node, chain) outcome" where
  "downloadLoop E ident remoteHeight timeout n candidate nextHeight replies =
     (if \<not> nextHeight \<le> remoteHeight then (n, Inr candidate)
      else
        (let remaining = remoteHeight - nextHeight + 1;
             limit = (if remaining > MaxBlocksPerMessage then MaxBlocksPerMessage else remaining);
             reply = (case replies of [] \<Rightarrow> None | r # _ \<Rightarrow> r)
         in case RequestBlocks E reply n ident nextHeight limit timeout of
              (n1, Inl err) \<Rightarrow>
                (n1, Inl (Wrapf ''failed requesting candidate blocks from height %d: %w'' [dec (unat nextHeight)] err))
            | (n1, Inr bs) \<Rightarrow>
                if length bs = 0
                then (n1, Inl (Errorf ''peer returned no blocks while candidate download is incomplete'' []))
                else (case addCandidateBlocks E remoteHeight candidate nextHeight bs of
                    Inl err \<Rightarrow> (n1, Inl err)
                  | Inr (candidate1, nextHeight1) \<Rightarrow>
                      (case replies of
                         [] \<Rightarrow> (n1, Inl (Errorf ''timed out waiting for blocks from %s'' [ident]))
                       | _ # rest \<Rightarrow> downloadLoop E ident remoteHeight timeout n1 candidate1 nextHeight1 rest))))"

declare downloadLoop.simps [simp del]

definition downloadCandidateChain ::
  "p2p_env \<Rightarrow> block list option list \<Rightarrow> p2p_node \<Rightarrow> string \<Rightarrow> u64 \<Rightarrow> string \<Rightarrow> int \<Rightarrow> i64 \<Rightarrow> (p2p_node, chain) outcome" where
  "downloadCandidateChain E replies n ident remoteHeight remoteTip remoteWork timeout =
     (case NewChain (envCrypto E) of
       Inl err \<Rightarrow> (n, Inl err)
     | Inr candidate \<Rightarrow>
     if remoteHeight = 0
     then (case Tip candidate of
         None \<Rightarrow> (n, Inl (Errorf ''candidate genesis tip is nil'' []))
       | Some tip \<Rightarrow>
           if Hash (envCrypto E) tip \<noteq> remoteTip
           then (n, Inl (Errorf ''peer genesis tip does not match Sudharma Network genesis'' []))
           else if TotalWork candidate \<noteq> remoteWork
           then (n, Inl (Errorf ''peer advertised total work does not match genesis work'' []))
           else (n, Inr candidate))
     else (case downloadLoop E ident remoteHeight timeout n candidate 1 replies of
       (n1, Inl err) \<Rightarrow> (n1, Inl err)
     | (n1, Inr candidate1) \<Rightarrow>
       if Height candidate1 \<noteq> remoteHeight
       then (n1, Inl (Errorf ''candidate ended at wrong height: expected %d, got %d''
         [dec (unat remoteHeight), dec (unat (Height candidate1))]))
       else (case Tip candidate1 of
           None \<Rightarrow> (n1, Inl (Errorf ''candidate chain tip is nil'' []))
         | Some tip \<Rightarrow>
             if Hash (envCrypto E) tip \<noteq> remoteTip
             then (n1, Inl (Errorf ''candidate tip does not match peer advertised tip'' []))
             else if TotalWork candidate1 \<noteq> remoteWork
             then (n1, Inl (Errorf ''candidate work mismatch: peer advertised %s, validated chain has %s'' []))
             else (n1, Inr candidate1))))"

definition removeConfirmedCandidateTransactions :: "p2p_node \<Rightarrow> chain option \<Rightarrow> p2p_node" where
  "removeConfirmedCandidateTransactions n chainp =
     (case chainp of
        None \<Rightarrow> n
      | Some c \<Rightarrow> n\<lparr>nodeMempool := foldl RemoveTransaction (nodeMempool n)
                    (List.map_filter (map_option txID) (chainTransactions c))\<rparr>)"

text \<open>\<open>during\<close> is what other goroutines do to the node while the candidate is downloaded.\<close>

definition SyncFromPeer ::
  "p2p_env \<Rightarrow> (p2p_node \<Rightarrow> p2p_node) \<Rightarrow> block list option list \<Rightarrow> p2p_node \<Rightarrow> string \<Rightarrow> i64 \<Rightarrow> (p2p_node, unit) outcome" where
  "SyncFromPeer E during replies n ident timeout =
     (if timeout \<le> 0 then (n, Inl (Errorf ''sync timeout must be greater than zero'' []))
      else (case nodeChain n of
       None \<Rightarrow> (n, Inl (Errorf ''blockchain is not attached'' []))
     | Some c \<Rightarrow>
     (case nodeState n of
       None \<Rightarrow> (n, Inl (Errorf ''blockchain state is not attached'' []))
     | Some s \<Rightarrow>
     (case peerChainStatus n ident of
       Inl err \<Rightarrow> (n, Inl err)
     | Inr (remoteHeight, remoteTip, remoteWork) \<Rightarrow>
     (case Tip c of
       None \<Rightarrow> (n, Inl (Errorf ''local chain tip is nil'' []))
     | Some localTip \<Rightarrow>
     if Height c = remoteHeight \<and> Hash (envCrypto E) localTip = remoteTip then (n, Inr ())
     else if remoteWork < TotalWork c then (n, Inr ())
     else if remoteWork = TotalWork c \<and> remoteHeight \<le> Height c then (n, Inr ())
     else (case downloadCandidateChain E replies n ident remoteHeight remoteTip remoteWork timeout of
       (n1, Inl err) \<Rightarrow> (during n1, Inl (Wrapf ''candidate chain download failed: %w'' [] err))
     | (n1, Inr candidate) \<Rightarrow>
     (let n2 = during n1 in
     (case BetterChain (nodeChain n2) (Some candidate) of
       Inl err \<Rightarrow> (n2, Inl (Wrapf ''fork-choice comparison failed: %w'' [] err))
     | Inr KeepCurrent \<Rightarrow> (n2, Inr ())
     | Inr TakeCandidate \<Rightarrow>
     (case ReorganizeWithMempoolRecovery E n2 (Some candidate) of
       (n3, Inl err) \<Rightarrow> (n3, Inl (Wrapf ''chain reorganization failed: %w'' [] err))
     | (n3, Inr (adopted, recovered)) \<Rightarrow>
       if \<not> adopted then (n3, Inr ())
       else (case nodeChain n3 of
           None \<Rightarrow> (n3, Inl (Errorf ''reorganized chain tip is nil'' []))
         | Some c3 \<Rightarrow>
             if Tip c3 = None then (n3, Inl (Errorf ''reorganized chain tip is nil'' [])) else (n3, Inr ())))))))))))"

section \<open>Exchange of pending transactions\<close>

definition MempoolSnapshot :: "p2p_env \<Rightarrow> p2p_node \<Rightarrow> transaction list" where
  "MempoolSnapshot E n = sort_key tx_order (AllTransactions (envPool E) (nodeMempool n))"

fun sendTransactions ::
  "p2p_env \<Rightarrow> p2p_node \<Rightarrow> PeerConnection \<Rightarrow> nat \<Rightarrow> transaction list \<Rightarrow> p2p_node \<times> nat \<times> unit result" where
  "sendTransactions E n peer sent [] = (n, sent, Inr ())"
| "sendTransactions E n peer sent (tx # txs) =
     (case NewTransactionMessage (envCodec E) (Some tx) of
        Inl err \<Rightarrow> (n, sent, Inl (Wrapf ''failed encoding transaction %s: %w'' [txID tx] err))
      | Inr data \<Rightarrow>
          (case peerWrite E n peer data of
             (n1, Inl err) \<Rightarrow> (n1, sent, Inl (Wrapf ''failed sending transaction %s: %w'' [txID tx] err))
           | (n1, Inr _) \<Rightarrow> sendTransactions E n1 peer (sent + 1) txs))"

definition syncMempoolToPeer :: "p2p_env \<Rightarrow> p2p_node \<Rightarrow> PeerConnection \<Rightarrow> p2p_node \<times> nat \<times> unit result" where
  "syncMempoolToPeer E n peer = sendTransactions E n peer 0 (MempoolSnapshot E n)"

definition SyncMempoolWithPeer ::
  "p2p_env \<Rightarrow> (p2p_node \<Rightarrow> p2p_node) \<Rightarrow> p2p_node \<Rightarrow> string \<Rightarrow> (p2p_node, unit) outcome" where
  "SyncMempoolWithPeer E during n ident =
     (if ident = '''' then (n, Inl (Errorf ''peer node ID cannot be empty'' []))
      else (case map_of (peers n) ident of
       None \<Rightarrow> (n, Inl (Errorf ''peer not found: %s'' [ident]))
     | Some peer \<Rightarrow>
     (case syncMempoolToPeer E n peer of
       (n1, sent, Inl err) \<Rightarrow> (n1, Inl (Wrapf ''failed sending local mempool to %s: %w'' [ident] err))
     | (n1, sent, Inr _) \<Rightarrow>
     (case NewGetMempoolMessage (envCodec E) of
       Inl err \<Rightarrow> (n1, Inl err)
     | Inr request \<Rightarrow>
     (case peerWrite E n1 peer request of
       (n2, Inl err) \<Rightarrow> (n2, Inl (Wrapf ''failed requesting mempool from %s: %w'' [ident] err))
     | (n2, Inr _) \<Rightarrow> (during (fst (requestPartitionRecoveryPeersOnce E n2)), Inr ()))))))"

section \<open>Connections\<close>

text \<open>The part that both directions share: the handshake of the remote side is read and checked. The
  second component is the rest of the stream.\<close>

definition readHandshake :: "p2p_env \<Rightarrow> bytes \<Rightarrow> Handshake result \<times> bytes" where
  "readHandshake E stream =
     (case readBoundedPeerMessage (Some stream) of
       (Inl err, rest) \<Rightarrow> (Inl (Wrapf ''failed to read handshake response: %w'' [] err), rest)
     | (Inr data, rest) \<Rightarrow>
     (case DecodeMessage (envCodec E) data of
       Inl err \<Rightarrow> (Inl err, rest)
     | Inr message \<Rightarrow> (DecodeHandshake (envCodec E) (envLocal E) (Some message), rest)))"

definition ownHandshake :: "p2p_env \<Rightarrow> p2p_node \<Rightarrow> bytes result" where
  "ownHandshake E n =
     NewHandshakeMessage (envCodec E) (envLocal E) (nodeID n) (listenAddress n) (nodeHeight n) (nodeTipHash n)
       (localTotalWork n)"

definition peerOf :: "stream_conn \<Rightarrow> Handshake \<Rightarrow> PeerConnection" where
  "peerOf k h = \<lparr>pcInfo = \<lparr>infoNodeID = hsNodeID h, infoListenAddress = hsListenAddress h, infoHeight = hsHeight h,
     infoTipHash = hsTipHash h, infoTotalWork = hsTotalWork h\<rparr>, pcConn = scConn k, pcRemoteAddress = scRemote k\<rparr>"

text \<open>The node and, when the peer was stored, its record and the stream its read loop starts with.\<close>

definition handleIncomingConnection ::
  "p2p_env \<Rightarrow> p2p_node \<Rightarrow> stream_conn \<Rightarrow> p2p_node \<times> (PeerConnection \<times> bytes) option" where
  "handleIncomingConnection E n k =
     (case readHandshake E (scStream k) of
       (Inl err, _) \<Rightarrow> (closeConn n (scConn k), None)
     | (Inr h, rest) \<Rightarrow>
     (case ownHandshake E n of
       Inl err \<Rightarrow> (closeConn n (scConn k), None)
     | Inr response \<Rightarrow>
     (case snd (envConnWrite E (scConn k) response) of
       Some err \<Rightarrow> (closeConn n (scConn k), None)
     | None \<Rightarrow>
     (case storePeer (envNet E) (n\<lparr>frames := frames n @ [(scConn k, response)]\<rparr>) (peerOf k h) of
       (n1, False) \<Rightarrow> (closeConn n1 (scConn k), None)
     | (n1, True) \<Rightarrow> (n1, Some (peerOf k h, rest))))))"

definition Connect :: "p2p_env \<Rightarrow> p2p_node \<Rightarrow> string \<Rightarrow> (p2p_node, PeerInfo) outcome" where
  "Connect E n address =
     (if address = '''' then (n, Inl (Errorf ''peer address cannot be empty'' []))
      else (case envDial E address of
       Inl err \<Rightarrow> (n, Inl (Wrapf ''failed to connect to peer %s: %w'' [address] err))
     | Inr k \<Rightarrow>
     (case ownHandshake E n of
       Inl err \<Rightarrow> (closeConn n (scConn k), Inl err)
     | Inr handshakeData \<Rightarrow>
     (case snd (envConnWrite E (scConn k) handshakeData) of
       Some err \<Rightarrow> (closeConn n (scConn k), Inl (Wrapf ''failed to send handshake: %w'' [] err))
     | None \<Rightarrow>
     (let n1 = n\<lparr>frames := frames n @ [(scConn k, handshakeData)]\<rparr> in
     (case readHandshake E (scStream k) of
       (Inl err, _) \<Rightarrow> (closeConn n1 (scConn k), Inl err)
     | (Inr h, rest) \<Rightarrow>
     (case storePeer (envNet E) n1 (peerOf k h) of
       (n2, False) \<Rightarrow>
         (closeConn n2 (scConn k), Inl (Errorf ''peer already connected or rejected by connection policy'' []))
     | (n2, True) \<Rightarrow> (n2, Inr (pcInfo (peerOf k h))))))))))"

section \<open>The read loop\<close>

text \<open>A punished peer ends the loop when its score has reached the threshold.\<close>

definition punish :: "p2p_node \<Rightarrow> PeerConnection \<Rightarrow> int \<Rightarrow> p2p_node \<times> bool" where
  "punish n peer amount = (case punishPeer n peer amount of (n1, stop) \<Rightarrow> (n1, \<not> stop))"

definition handleTransactionMessage :: "p2p_env \<Rightarrow> p2p_node \<Rightarrow> PeerConnection \<Rightarrow> Message \<Rightarrow> p2p_node \<times> bool" where
  "handleTransactionMessage E n peer message =
     (case DecodeTransactionForNetwork (envCodec E) (envCrypto E) (Some message) (ActiveNetwork n) of
       Inl err \<Rightarrow> punish n peer PeerPenaltyMalformed
     | Inr tx \<Rightarrow>
     if GetTransaction (nodeMempool n) (txID tx) \<noteq> None then (n, True)
     else (case admitVerifiedTransaction E n (Some tx) of
       (n1, Inl err) \<Rightarrow> punish n1 peer PeerPenaltyInvalidData
     | (n1, Inr _) \<Rightarrow>
       (let n2 = fst (rewardValidPeerMessage n1 peer)
        in (fst (relayTransaction E n2 (Some tx) (infoNodeID (pcInfo peer))), True))))"

definition handleBlockMessage :: "p2p_env \<Rightarrow> p2p_node \<Rightarrow> PeerConnection \<Rightarrow> Message \<Rightarrow> p2p_node \<times> bool" where
  "handleBlockMessage E n peer message =
     (case DecodeBlock (envCodec E) (Some message) of
       Inl err \<Rightarrow> punish n peer PeerPenaltyMalformed
     | Inr block \<Rightarrow>
     (case AcceptBlock E n (Some block) of
       (n1, Inl err) \<Rightarrow> punish n1 peer PeerPenaltyInvalidData
     | (n1, Inr _) \<Rightarrow>
       (let n2 = fst (rewardValidPeerMessage n1 peer)
        in (fst (relayBlock E n2 (Some block) (infoNodeID (pcInfo peer))), True))))"

definition handlePeersMessage :: "p2p_env \<Rightarrow> p2p_node \<Rightarrow> PeerConnection \<Rightarrow> Message \<Rightarrow> p2p_node \<times> bool" where
  "handlePeersMessage E n peer message =
     (case DecodePeers (envCodec E) (Some message) of
       Inl err \<Rightarrow> punish n peer PeerPenaltyMalformed
     | Inr discovered \<Rightarrow>
     (case mergeDiscoveredPeers n discovered of
       (n1, added) \<Rightarrow>
         (let n2 = fst (rewardValidPeerMessage n1 peer)
          in if added > 0
             then (fst (AutoConnectDiscoveredPeers (envNet E) (envPeers E) (envKnown E) (Connect E) n2), True)
             else (n2, True))))"

definition handleRequestMessage :: "p2p_env \<Rightarrow> p2p_node \<Rightarrow> PeerConnection \<Rightarrow> Message \<Rightarrow> p2p_node \<times> bool" where
  "handleRequestMessage E n peer message =
     (if msgType message = MessagePing
      then (case DecodePing (envCodec E) (Some message) of
          Inl err \<Rightarrow> punish n peer PeerPenaltyMalformed
        | Inr nonce \<Rightarrow>
            (case NewPongMessage (envCodec E) nonce of
               Inl err \<Rightarrow> (n, True)
             | Inr pong \<Rightarrow> (fst (peerWrite E n peer pong), True)))
      else if msgType message = MessageGetMempool
      then (case DecodeGetMempool (envCodec E) (Some message) of
          Inl err \<Rightarrow> punish n peer PeerPenaltyMalformed
        | Inr _ \<Rightarrow>
            (case syncMempoolToPeer E n peer of
               (n1, sent, Inl err) \<Rightarrow> (n1, True)
             | (n1, sent, Inr _) \<Rightarrow> (fst (rewardValidPeerMessage n1 peer), True)))
      else (case DecodeGetPeers (envCodec E) (Some message) of
          Inl err \<Rightarrow> punish n peer PeerPenaltyMalformed
        | Inr _ \<Rightarrow>
            (case sendPeersToPeer E n peer of
               (n1, Inl err) \<Rightarrow> (n1, True)
             | (n1, Inr sent) \<Rightarrow> (fst (rewardValidPeerMessage n1 peer), True))))"

text \<open>One round of the loop for a frame; \<open>False\<close> ends the loop.\<close>

definition handleFrame :: "p2p_env \<Rightarrow> p2p_node \<Rightarrow> PeerConnection \<Rightarrow> bytes \<Rightarrow> p2p_node \<times> bool" where
  "handleFrame E n peer data =
     (case DecodeMessage (envCodec E) data of
       Inl err \<Rightarrow> punish n peer PeerPenaltyProtocolAbuse
     | Inr message \<Rightarrow>
     if msgType message = MessagePing \<or> msgType message = MessageGetMempool \<or> msgType message = MessageGetPeers
     then handleRequestMessage E n peer message
     else if msgType message = MessagePong then (n, True)
     else if msgType message = MessageTransaction then handleTransactionMessage E n peer message
     else if msgType message = MessagePeers then handlePeersMessage E n peer message
     else if msgType message = MessageBlock then handleBlockMessage E n peer message
     else if msgType message = MessageGetBlocks then (handleGetBlocksSecure E n peer message, True)
     else if msgType message = MessageBlocks then (handleBlocksResponseSecure E n peer message, True)
     else punish n peer PeerPenaltyProtocolAbuse)"

text \<open>The loop ends when the connection delivers no further frame or a handler ends it; the node then
  forgets the connection and closes it.\<close>

lemma readBounded_shorter:
  assumes "readBoundedPeerMessage (Some stream) = (Inr frame, rest)"
  shows "length rest < length stream"
proof -
  have f: "fst (readFrame [] stream) = Inr frame" "snd (readFrame [] stream) = rest"
    using assms by (simp_all add: readBoundedPeerMessage_def)
  with readFrame_line [of "[]" stream]
  have e: "10 \<in> set stream" "frame = first_line stream" "stream = frame @ rest" by (auto split: if_splits)
  have "first_line stream \<noteq> []" using e(1) by (cases stream) auto
  then show ?thesis using e by (metis length_append length_greater_0_conv less_add_same_cancel2)
qed

function readLoop :: "p2p_env \<Rightarrow> p2p_node \<Rightarrow> PeerConnection \<Rightarrow> bytes \<Rightarrow> p2p_node" where
  "readLoop E n peer stream =
     (let leave = (\<lambda>m. closeConn (removePeerConnection m peer) (pcConn peer)) in
      case readBoundedPeerMessage (Some stream) of
        (Inl err, _) \<Rightarrow> leave n
      | (Inr data, rest) \<Rightarrow>
          (case handleFrame E n peer data of
             (n1, True) \<Rightarrow> readLoop E n1 peer rest
           | (n1, False) \<Rightarrow> leave n1))"
  by pat_completeness auto
termination
  by (relation "measure (\<lambda>(E, n, peer, stream). length stream)") (auto dest: readBounded_shorter [OF sym])

declare readLoop.simps [simp del]

end
