(* ===== verification/P2PHistory.thy ===== *)
theory P2PHistory
  imports P2PNode
begin

text \<open>
  What the operations of the node keep. \<open>core\<close> is the part of a node that concerns the ledger; the
  networking operations leave it alone, and the ledger operations leave the peer table alone. A
  history is any sequence of steps of a node, in any interleaving of its connections, and every node
  of a history is consistent: its state is the replay of its chain, its pool is well-formed and free
  of confirmed transactions, and what it advertises is its tip.
\<close>

section \<open>The ledger part of a node\<close>

definition core :: "p2p_node \<Rightarrow> chain option \<times> state option \<times> mempool \<times> u64 \<times> string" where
  "core n = (nodeChain n, nodeState n, nodeMempool n, nodeHeight n, nodeTipHash n)"

lemma core_updates [simp]:
  "core (n\<lparr>frames := f\<rparr>) = core n" "core (n\<lparr>peers := p\<rparr>) = core n" "core (n\<lparr>peerScores := ps\<rparr>) = core n"
  "core (n\<lparr>closedConns := k\<rparr>) = core n" "core (n\<lparr>discoveredPeers := d\<rparr>) = core n"
  "core (n\<lparr>blocksResponse := r\<rparr>) = core n" "core (n\<lparr>listener := l\<rparr>) = core n"
  "core (n\<lparr>handshakeSlots := h\<rparr>) = core n" "core (n\<lparr>handshakeConns := hc\<rparr>) = core n"
  "core (n\<lparr>listenAddress := a\<rparr>) = core n" "core (n\<lparr>syncRequestActive := b\<rparr>) = core n"
  by (simp_all add: core_def)

lemma peer_inv_updates [simp]:
  "peer_inv L (n\<lparr>frames := f\<rparr>) = peer_inv L n" "peer_inv L (n\<lparr>closedConns := k\<rparr>) = peer_inv L n"
  "peer_inv L (n\<lparr>nodeChain := c\<rparr>) = peer_inv L n" "peer_inv L (n\<lparr>nodeState := s\<rparr>) = peer_inv L n"
  "peer_inv L (n\<lparr>nodeMempool := m\<rparr>) = peer_inv L n" "peer_inv L (n\<lparr>nodeHeight := h\<rparr>) = peer_inv L n"
  "peer_inv L (n\<lparr>nodeTipHash := t\<rparr>) = peer_inv L n" "peer_inv L (n\<lparr>blocksResponse := r\<rparr>) = peer_inv L n"
  "peer_inv L (n\<lparr>discoveredPeers := d\<rparr>) = peer_inv L n" "peer_inv L (n\<lparr>syncRequestActive := b\<rparr>) = peer_inv L n"
  by (simp_all add: peer_inv_def group_load_def)

text \<open>A step that only concerns the network.\<close>

definition net_step :: "p2p_env \<Rightarrow> p2p_node \<Rightarrow> p2p_node \<Rightarrow> bool" where
  "net_step E n n' \<longleftrightarrow> core n' = core n \<and> (peer_inv (envNet E) n \<longrightarrow> peer_inv (envNet E) n')"

lemma net_step_refl [simp]: "net_step E n n"
  by (simp add: net_step_def)

lemma net_step_trans: "net_step E n n1 \<Longrightarrow> net_step E n1 n2 \<Longrightarrow> net_step E n n2"
  by (auto simp: net_step_def)

lemma net_step_updates [simp]:
  "net_step E n (n\<lparr>frames := f\<rparr>)" "net_step E n (n\<lparr>closedConns := k\<rparr>)" "net_step E n (n\<lparr>blocksResponse := r\<rparr>)"
  "net_step E n (n\<lparr>discoveredPeers := d\<rparr>)" "net_step E n (n\<lparr>syncRequestActive := b\<rparr>)"
  by (simp_all add: net_step_def)

lemma peerWrite_net: "peerWrite E n p d = (n', r) \<Longrightarrow> net_step E n n'"
  by (auto simp: peerWrite_def split: sum.splits)

lemma writeEach_net: "writeEach E n d k ps = (n', k') \<Longrightarrow> net_step E n n'"
proof (induction E n d k ps rule: writeEach.induct)
  case (2 E n d k p ps)
  obtain n1 r where w: "peerWrite E n p d = (n1, r)" by fastforce
  have "net_step E n1 n'" using 2 w by (cases r) auto
  with peerWrite_net [OF w] show ?case by (rule net_step_trans)
qed simp

lemma writeUntil_net: "writeUntil E what n d ps = (n', r) \<Longrightarrow> net_step E n n'"
proof (induction E what n d ps rule: writeUntil.induct)
  case (2 E what n d p ps)
  obtain n1 q where w: "peerWrite E n p d = (n1, q)" by fastforce
  have "net_step E n1 n'" using 2 w by (cases q) auto
  with peerWrite_net [OF w] show ?case by (rule net_step_trans)
qed simp

lemma sendTransactions_net: "sendTransactions E n p k txs = (n', k', r) \<Longrightarrow> net_step E n n'"
proof (induction E n p k txs rule: sendTransactions.induct)
  case (2 E n p k tx txs)
  show ?case
  proof (cases "NewTransactionMessage (envCodec E) (Some tx)")
    case (Inr d)
    obtain n1 q where w: "peerWrite E n p d = (n1, q)" by fastforce
    have "net_step E n1 n'" using 2 w Inr by (cases q) auto
    with peerWrite_net [OF w] show ?thesis by (rule net_step_trans)
  qed (use "2.prems" in simp)
qed simp

lemma relay_net:
  "relayTransaction E n txp i = (n', k, r) \<Longrightarrow> net_step E n n'"
  "relayBlock E n bp i = (n', k, r) \<Longrightarrow> net_step E n n'"
  "BroadcastTransaction E n txp = (n', q) \<Longrightarrow> net_step E n n'"
  "BroadcastBlock E n bp = (n', q) \<Longrightarrow> net_step E n n'"
  by (auto simp: relayTransaction_def relayBlock_def BroadcastTransaction_def BroadcastBlock_def
      dest: writeEach_net writeUntil_net split: option.splits if_splits sum.splits prod.splits)

lemma request_net:
  "SendPing E n i nonce = (n', r) \<Longrightarrow> net_step E n n'"
  "SendGetPeers E n i = (n', r) \<Longrightarrow> net_step E n n'"
  "sendPeersToPeer E n p = (n', q) \<Longrightarrow> net_step E n n'"
  "requestPartitionRecoveryPeersOnce E n = (n', a, b) \<Longrightarrow> net_step E n n'"
  "syncMempoolToPeer E n p = (n', a, r) \<Longrightarrow> net_step E n n'"
  by (auto simp: SendPing_def SendGetPeers_def sendPeersToPeer_def requestPartitionRecoveryPeersOnce_def
      syncMempoolToPeer_def Let_def
      dest: writeEach_net peerWrite_net sendTransactions_net split: option.splits if_splits sum.splits prod.splits)

lemma score_core:
  "core (fst (rewardPeer n i a)) = core n" "core (fst (penalizePeer n i a)) = core n"
  by (auto simp: rewardPeer_def penalizePeer_def split: prod.splits)

lemma score_net:
  "net_step E n (fst (rewardPeer n i a))" "net_step E n (fst (penalizePeer n i a))"
  "net_step E n (fst (rewardValidPeerMessage n p))" "net_step E n (fst (penalizePeerAndMaybeDisconnect n p a))"
proof -
  show r: "net_step E n (fst (rewardPeer n i a))" for i a
    unfolding net_step_def using score_core scored_inv by (metis prod.collapse)
  show "net_step E n (fst (penalizePeer n i a))"
    unfolding net_step_def using score_core scored_inv by (metis prod.collapse)
  show "net_step E n (fst (rewardValidPeerMessage n p))"
    by (simp add: rewardValidPeerMessage_def r)
  have "core (fst (penalizePeerAndMaybeDisconnect n p a)) = core n"
    using score_core(2) [of n "infoNodeID (pcInfo p)" a]
    by (auto simp: penalizePeerAndMaybeDisconnect_def closeConn_def split: prod.splits)
  then show "net_step E n (fst (penalizePeerAndMaybeDisconnect n p a))"
    unfolding net_step_def using punished_inv by (metis prod.collapse)
qed

lemma punish_net: "punish n p a = (n', ok) \<Longrightarrow> net_step E n n'"
  using score_net(4) [of E n p a] by (auto simp: punish_def punishPeer_def split: prod.splits)

lemma storePeer_net: "storePeer L n p = (n', ok) \<Longrightarrow> L = envNet E \<Longrightarrow> net_step E n n'"
proof -
  assume s: "storePeer L n p = (n', ok)" "L = envNet E"
  then have "core n' = core n" by (auto simp: storePeer_def Let_def split: if_splits)
  with s storePeer_inv [of L n p n' ok] show ?thesis by (simp add: net_step_def)
qed

lemma leave_net: "net_step E n (closeConn (removePeerConnection n p) k)" "net_step E n (closeConn n k)"
proof -
  have "peer_inv L (removePeer n i)" if "peer_inv L n" for L i
    by (rule peers_shrink_inv [OF that]) (auto simp: removePeer_def)
  moreover have "core (removePeer n i) = core n" for i by (simp add: removePeer_def)
  ultimately have "net_step E n (removePeerConnection n p)"
    using removePeerConnection_cases [of n p] by (auto simp: net_step_def)
  moreover show c: "net_step E m (closeConn m k)" for m :: p2p_node by (simp add: closeConn_def)
  ultimately show "net_step E n (closeConn (removePeerConnection n p) k)" using net_step_trans by blast
qed

lemma keepPeerAlive_net: "keepPeerAlive E n p nonce = (n', ok) \<Longrightarrow> net_step E n n'"
  by (auto simp: keepPeerAlive_def dest: peerWrite_net intro: net_step_trans leave_net
      split: if_splits sum.splits prod.splits)

lemma merge_net: "mergeDiscoveredPeers n ps = (n', k) \<Longrightarrow> net_step E n n'"
  using addDiscovered_fields by (fastforce simp: mergeDiscoveredPeers_def)

lemma Connect_net: "Connect E n a = (n', r) \<Longrightarrow> net_step E n n'"
proof -
  assume c: "Connect E n a = (n', r)"
  have f: "net_step E n (n\<lparr>frames := f\<rparr>)" "net_step E n (closeConn n k)" "net_step E n (closeConn (n\<lparr>frames := f\<rparr>) k)" for f k
    using leave_net(2) net_step_trans net_step_updates(1) by blast+
  have s: "net_step E n m" "net_step E n (closeConn m k)"
    if "storePeer (envNet E) (n\<lparr>frames := f\<rparr>) p = (m, b)" for m b f k p
    using storePeer_net [OF that refl] f(1) [of f] leave_net(2) [of E m k] net_step_trans by blast+
  show ?thesis using c f s
    by (auto simp: Connect_def Let_def split: if_splits sum.splits option.splits prod.splits bool.splits)
qed

lemma handleIncomingConnection_net: "handleIncomingConnection E n k = (n', r) \<Longrightarrow> net_step E n n'"
proof -
  assume c: "handleIncomingConnection E n k = (n', r)"
  have s: "net_step E n m" "net_step E n (closeConn m k)"
    if "storePeer (envNet E) (n\<lparr>frames := f\<rparr>) p = (m, b)" for m b f k p
    using storePeer_net [OF that refl] net_step_updates(1) [of E n f] leave_net(2) [of E m k] net_step_trans by blast+
  show ?thesis using c s leave_net(2)
    by (auto simp: handleIncomingConnection_def Let_def split: sum.splits option.splits prod.splits bool.splits)
qed

lemma autoConnect_net:
  "autoConnect (envNet E) (Connect E) n sel k f ps = (n', k', f') \<Longrightarrow> net_step E n n'"
proof (induction ps arbitrary: n sel k f)
  case (Cons p ps)
  obtain n1 r where c: "Connect E n (kpAddress p) = (n1, r)" by fastforce
  have n1: "net_step E n n1" by (rule Connect_net [OF c])
  have step: "net_step E n (fst (rewardPeer n1 i a))" "net_step E n (fst (penalizePeer n1 i a))" for i a
    using net_step_trans [OF n1 score_net(1)] net_step_trans [OF n1 score_net(2)] by auto
  from Cons.prems c show ?case
    by (auto split: if_splits sum.splits dest!: Cons.IH intro: net_step_trans [OF step(1)] net_step_trans [OF step(2)])
qed simp

lemma handlePeersMessage_net: "handlePeersMessage E n p m = (n', ok) \<Longrightarrow> net_step E n n'"
proof -
  assume h: "handlePeersMessage E n p m = (n', ok)"
  have "net_step E n1 (fst (AutoConnectDiscoveredPeers (envNet E) (envPeers E) (envKnown E) (Connect E) n1))" for n1
    using autoConnect_net unfolding AutoConnectDiscoveredPeers_def by (metis prod.collapse)
  with h show ?thesis
    by (auto simp: handlePeersMessage_def Let_def split: sum.splits prod.splits if_splits
        dest!: punish_net merge_net [of n _ _ _ E] intro: net_step_trans score_net(3))
      (meson net_step_trans score_net(3))+
qed

lemma handleRequestMessage_net: "handleRequestMessage E n p m = (n', ok) \<Longrightarrow> net_step E n n'"
proof -
  assume h: "handleRequestMessage E n p m = (n', ok)"
  have w: "net_step E k (fst (peerWrite E k p d))" for k d by (metis peerWrite_net prod.collapse)
  have m: "net_step E n a" "net_step E n (fst (rewardValidPeerMessage a p))" if "syncMempoolToPeer E n p = (a, k, r)" for a k r
    using request_net(5) [OF that] score_net(3) net_step_trans by blast+
  have q: "net_step E n a" "net_step E n (fst (rewardValidPeerMessage a p))" if "sendPeersToPeer E n p = (a, r)" for a r
    using request_net(3) [OF that] score_net(3) net_step_trans by blast+
  show ?thesis
    using h unfolding handleRequestMessage_def
    by (simp split: sum.splits prod.splits if_splits)
      (auto dest: punish_net intro: w m q)
qed

lemma serve_net:
  "net_step E n (handleGetBlocksSecure E n p m)" "net_step E n (handleGetBlocks E n p m)"
  "net_step E n (handleBlocksResponseSecure E n p m)" "net_step E n (handleBlocksResponse E n m)"
proof -
  have w: "net_step E k (fst (peerWrite E k p d))" for k d by (metis peerWrite_net prod.collapse)
  show "net_step E n (handleGetBlocksSecure E n p m)"
    by (auto simp: handleGetBlocksSecure_def Let_def score_net split: sum.splits
        intro: net_step_trans [OF score_net(3) w])
  show "net_step E n (handleGetBlocks E n p m)" by (auto simp: handleGetBlocks_def w split: sum.splits)
  show "net_step E n (handleBlocksResponseSecure E n p m)"
    by (auto simp: handleBlocksResponseSecure_def score_net split: sum.splits
        intro: net_step_trans [OF net_step_updates(3) score_net(3)])
  show "net_step E n (handleBlocksResponse E n m)" by (simp add: handleBlocksResponse_def split: sum.splits)
qed

lemma RequestBlocks_net: "RequestBlocks E reply n i h k t = (n', r) \<Longrightarrow> net_step E n n'"
  by (auto simp: RequestBlocks_def Let_def dest!: peerWrite_net intro: net_step_trans [OF net_step_updates(3)]
      split: if_splits option.splits sum.splits prod.splits)

lemma downloadLoop_net: "downloadLoop E i h t n c k rs = (n', r) \<Longrightarrow> net_step E n n'"
proof (induction rs arbitrary: n c k)
  case Nil
  then show ?case
    by (auto simp: downloadLoop.simps [of E i h t n c k "[]"] Let_def dest: RequestBlocks_net
        split: if_splits sum.splits prod.splits)
next
  case (Cons reply rs)
  then show ?case
    by (auto simp: downloadLoop.simps [of E i h t n c k "reply # rs"] Let_def dest!: RequestBlocks_net
        intro: net_step_trans split: if_splits sum.splits prod.splits)
qed

lemma downloadCandidateChain_net:
  "downloadCandidateChain E rs n i h tip w t = (n', r) \<Longrightarrow> net_step E n n'"
  by (auto simp: downloadCandidateChain_def dest: downloadLoop_net
      split: if_splits sum.splits option.splits prod.splits)

section \<open>Blocks and the ledger\<close>

lemma CreditMinerRewardFor_processed:
  assumes "CreditMinerRewardFor (Some s) p h m f = (Some t, r)"
  shows "processedTx t = processedTx s"
proof -
  have mint: "processedTx u = processedTx s" if "MintSupplyFor s p k = (u, q)" for u k q
    using that by (auto simp: MintSupplyFor_def Let_def split: if_splits sum.splits)
  have credit: "processedTx v = processedTx u" if "Credit u m k = (v, q)" for u v k q
    using Credit_frame(1) [OF that] .
  show ?thesis
    using assms mint credit
    by (auto simp: CreditMinerRewardFor_def Let_def split: if_splits sum.splits prod.splits)
qed

text \<open>Processing a block confirms exactly its transactions.\<close>

lemma ProcessBlockFor_processed:
  assumes "ProcessBlockFor C (Some s) p (Some b) m = (Some t, Inr r)"
  shows "\<exists>txs. blkTransactions b = map Some txs
    \<and> (\<forall>i. IsTransactionProcessed t i \<longleftrightarrow> IsTransactionProcessed s i \<or> i \<in> txID ` set txs)"
proof -
  from ProcessBlockFor_ok [OF assms] obtain net w fees where
    a: "applyBlockTransactions C net (Some s) 0 (blkTransactions b) = (w, Inr fees)"
    and c: "CreditMinerRewardFor w p (blkHeight b) m fees = (Some t, Inr r)" by metis
  from applyBlockTransactions_ids [OF a] obtain txs u where
    u: "blkTransactions b = map Some txs" "w = Some u"
      "\<forall>i. IsTransactionProcessed u i \<longleftrightarrow> IsTransactionProcessed s i \<or> i \<in> txID ` set txs" by blast
  have "processedTx t = processedTx u" using CreditMinerRewardFor_processed c u(2) by blast
  with u show ?thesis by (auto simp: IsTransactionProcessed_def)
qed

text \<open>A block that was appended and processed keeps a node consistent.\<close>

lemma node_extend:
  assumes n: "node_ok C c s pool" and add: "AddBlock C now c (Some b) = (d, Inr ())"
    and pol: "MonetaryPolicyFor (network c) = Inr p"
    and pb: "ProcessBlockFor C (Some s) p (Some b) (blkMinerAddress b) = (Some t, Inr r)"
    and fits: "length (blocks d) < 2 ^ 64"
  shows "node_ok C d t (foldl RemoveTransaction pool ids)"
proof -
  have inv: "chain_ok C c" "BuildStateFromChain C (Some c) = Inr (Some s)" "mempool_inv pool"
    using n by (simp_all add: node_ok_def)
  have bd: "blocks d = blocks c @ [b]" "network d = network c" using add unfolding AddBlock_ok_iff by auto
  have d: "chain_ok C d"
    using AddBlock_inv(1) [OF _ add] inv(1) bd fits chain_ok_lookup(3) [OF inv(1)] by (simp add: chain_ok_def)
  have m: "blkMinerAddress b \<noteq> ''''" using pb by (auto simp: ProcessBlockFor_def split: if_splits)
  have "BuildStateFromChain C (Some d) = Inr (Some t)"
    by (rule BuildStateFromChain_snoc [OF inv(1) d bd pol inv(2) m pb])
  with d pool.remove_all [OF inv(3), of ids] show ?thesis by (simp add: node_ok_def)
qed

definition ledger_ok :: "crypto \<Rightarrow> p2p_node \<Rightarrow> bool" where
  "ledger_ok C n \<longleftrightarrow> (\<exists>c s. nodeChain n = Some c \<and> nodeState n = Some s \<and> node_ok C c s (nodeMempool n)
     \<and> nodeHeight n = Height c \<and> nodeTipHash n = Hash C (last (blocks c))
     \<and> (\<forall>tx\<in>set (pending (nodeMempool n)). \<not> IsTransactionProcessed s (txID tx)))"

definition node_fits :: "p2p_node \<Rightarrow> bool" where
  "node_fits n \<longleftrightarrow> (\<forall>c. nodeChain n = Some c \<longrightarrow> length (blocks c) < 2 ^ 64)"

lemma ledger_ok_core: "core n' = core n \<Longrightarrow> ledger_ok C n' = ledger_ok C n"
  by (simp add: ledger_ok_def core_def)

lemma Refresh_core:
  assumes "nodeChain n = Some c" "blocks c \<noteq> []"
  shows "RefreshChainStatus C n = n\<lparr>nodeHeight := Height c, nodeTipHash := Hash C (last (blocks c))\<rparr>"
  using assms by (simp add: RefreshChainStatus_def Tip_def Let_def)

text \<open>The outcomes of \<open>AcceptBlock\<close>: nothing happened to the ledger, or the block is the new tip, the
  state is its result and its transactions have left the pool.\<close>

lemma AcceptBlock_cases:
  assumes "AcceptBlock E n bp = (n', r)"
  obtains "net_step E n n'" "\<not> is_ok r"
  | b c s p c1 t reward where "bp = Some b" "r = Inr ()" "nodeChain n = Some c" "nodeState n = Some s"
    "MonetaryPolicyFor (network c) = Inr p"
    "ProcessBlockFor (envCrypto E) (Some s) p (Some b) (blkMinerAddress b) = (Some t, Inr reward)"
    "AddBlock (envCrypto E) (envClock E 0 1) c (Some b) = (c1, Inr ())"
    "n' = RefreshChainStatus (envCrypto E) (n\<lparr>nodeChain := Some c1, nodeState := Some t,
       nodeMempool := foldl RemoveTransaction (nodeMempool n)
         (List.map_filter (map_option txID) (blkTransactions b))\<rparr>)"
proof (cases r)
  case (Inl e)
  have "Clone s = s" for s :: state by (simp add: Clone_def)
  then have "core n' = core n \<and> peers n' = peers n \<and> nodeID n' = nodeID n \<and> peerScores n' = peerScores n
      \<and> handshakeSlots n' = handshakeSlots n"
    using assms Inl
    by (auto simp: AcceptBlock_def ReplaceWith_def core_def dest!: AddBlock_err
        split: option.splits if_splits sum.splits prod.splits)
  then have "net_step E n n'" by (auto simp: net_step_def peer_inv_def group_load_def)
  with that(1) Inl show ?thesis by simp
next
  case (Inr u)
  have clone: "Clone s = s" for s :: state by (simp add: Clone_def)
  have replace: "ReplaceWith s w = (t, Inr ()) \<longleftrightarrow> w = Some t" for s t :: state and w
  proof (cases w)
    case (Some a)
    have "ReplaceWith s (Some a) = (a, Inr ())" by (cases a) (simp add: ReplaceWith_def)
    with Some show ?thesis by auto
  qed (simp add: ReplaceWith_def)
  from assms Inr show ?thesis
    by (auto simp: AcceptBlock_def replace clone MonetaryPolicy_def
        split: option.splits if_splits sum.splits prod.splits intro!: that(2))
qed

lemma AcceptBlock_ledger:
  assumes "ledger_ok (envCrypto E) n" "AcceptBlock E n bp = (n', r)" "node_fits n'"
  shows "ledger_ok (envCrypto E) n'"
  using assms(2)
proof (cases rule: AcceptBlock_cases)
  case 1
  then have "core n' = core n" by (simp add: net_step_def)
  from ledger_ok_core [OF this] assms(1) show ?thesis by simp
next
  case (2 b c s p c1 t reward)
  let ?C = "envCrypto E" and ?ids = "List.map_filter (map_option txID) (blkTransactions b)"
  let ?pool = "foldl RemoveTransaction (nodeMempool n) ?ids"
  have n: "node_ok ?C c s (nodeMempool n)"
    and clean: "\<forall>tx\<in>set (pending (nodeMempool n)). \<not> IsTransactionProcessed s (txID tx)"
    using assms(1) 2(3,4) by (auto simp: ledger_ok_def)
  have ne: "blocks c1 \<noteq> []" using 2(7) unfolding AddBlock_ok_iff by auto
  note r = Refresh_core [of "n\<lparr>nodeChain := Some c1, nodeState := Some t, nodeMempool := ?pool\<rparr>" c1 ?C, OF _ ne]
  have fits: "length (blocks c1) < 2 ^ 64" using assms(3) 2(8) r by (simp add: node_fits_def)
  have ok: "node_ok ?C c1 t ?pool" by (rule node_extend [OF n 2(7,5,6) fits])
  obtain txs where txs: "blkTransactions b = map Some txs"
    "\<forall>i. IsTransactionProcessed t i \<longleftrightarrow> IsTransactionProcessed s i \<or> i \<in> txID ` set txs"
    using ProcessBlockFor_processed [OF 2(6)] by blast
  have ids: "?ids = map txID txs" unfolding txs(1) by (subst map_filter_total) (auto simp: comp_def)
  have "pending ?pool = filter (\<lambda>tx. txID tx \<notin> set ?ids) (pending (nodeMempool n))"
    using pool.remove_all n by (auto simp: node_ok_def)
  with clean txs(2) ids have "\<forall>tx\<in>set (pending ?pool). \<not> IsTransactionProcessed t (txID tx)" by auto
  with ok r 2(8) show ?thesis by (simp add: ledger_ok_def)
qed

section \<open>Transactions and the ledger\<close>

lemma AddTransaction_pending:
  assumes "mempool_inv m" "AddTransaction (Some m) (Some tx) = (Some m', Inr ())"
  shows "mempool_inv m'" "pending m' = pending m @ [tx]"
  using AddTransaction_inv [OF assms] by (simp_all add: pending_def)

lemma admitVerified_cases:
  assumes "admitVerifiedTransaction E n txp = (n', r)"
  obtains "n' = n" "\<not> is_ok r"
  | tx s m where "txp = Some tx" "r = Inr ()" "nodeState n = Some s" "\<not> IsTransactionProcessed s (txID tx)"
    "ValidateMempoolTransactionFor (envCrypto E) (Some s)
       (map Some (TransactionsForSender (envNonces E) (nodeMempool n) (txFrom tx))) (Some tx) (ActiveNetwork n) = Inr ()"
    "AddTransaction (Some (nodeMempool n)) (Some tx) = (Some m, Inr ())" "n' = n\<lparr>nodeMempool := m\<rparr>"
proof (cases r)
  case (Inl e)
  with assms have "n' = n"
    by (auto simp: admitVerifiedTransaction_def Let_def split: option.splits if_splits sum.splits prod.splits)
  with Inl that(1) show ?thesis by simp
next
  case (Inr u)
  have "\<exists>m. AddTransaction (Some k) txq = (Some m, q)" if "AddTransaction (Some k) txq = (mp, q)" for k txq mp q
    using that by (auto simp: AddTransaction_def split: prod.splits)
  with Inr assms show ?thesis
    by (auto simp: admitVerifiedTransaction_def Let_def intro!: that(2)
        split: option.splits if_splits sum.splits prod.splits)
qed

lemma admitVerified_ledger:
  assumes "ledger_ok C n" "admitVerifiedTransaction E n txp = (n', r)"
  shows "ledger_ok C n'"
  using assms(2)
proof (cases rule: admitVerified_cases)
  case 1
  with assms(1) show ?thesis by simp
next
  case (2 tx s m)
  from assms(1) have "mempool_inv (nodeMempool n)" by (auto simp: ledger_ok_def node_ok_def)
  from AddTransaction_pending [OF this 2(6)] assms(1) 2(3,4,7) show ?thesis
    by (auto simp: ledger_ok_def node_ok_def)
qed

lemma admitVerified_peers: "admitVerifiedTransaction E n txp = (n', r) \<Longrightarrow> peer_inv L n' = peer_inv L n"
  by (erule admitVerified_cases) auto

lemma admit_ledger:
  assumes "ledger_ok C n" "admitTransaction E n txp = (n', r)"
  shows "ledger_ok C n'" "peer_inv L n' = peer_inv L n"
  using assms admitVerified_ledger admitVerified_peers
  by (auto simp: admitTransaction_def split: option.splits if_splits sum.splits)

section \<open>Reorganization and the ledger\<close>

lemma recoverTransactions_inv:
  assumes "mempool_inv pool" "\<forall>tx\<in>set (pending pool). \<not> IsTransactionProcessed s (txID tx)"
    "recoverTransactions E s net pool k txs = (pool', k')"
  shows "mempool_inv pool' \<and> (\<forall>tx\<in>set (pending pool'). \<not> IsTransactionProcessed s (txID tx))
    \<and> (\<exists>new. pending pool' = pending pool @ new \<and> subseq new txs \<and> k' = k + length new)"
  using assms
proof (induction txs arbitrary: pool k)
  case (Cons tx txs)
  show ?case
  proof (cases "IsTransactionProcessed s (txID tx) \<or>
      \<not> is_ok (ValidateMempoolTransactionFor (envCrypto E) (Some s)
        (map Some (TransactionsForSender (envNonces E) pool (txFrom tx))) (Some tx) net)
      \<or> \<not> is_ok (snd (AddTransaction (Some pool) (Some tx)))")
    case True
    then have "recoverTransactions E s net pool k txs = (pool', k')"
      using Cons.prems(3) by (auto simp: Let_def is_ok_def split: if_splits sum.splits prod.splits option.splits)
    from Cons.IH [OF Cons.prems(1,2) this] show ?thesis by (metis list_emb_Cons)
  next
    case False
    then obtain mp where "AddTransaction (Some pool) (Some tx) = (mp, Inr ())"
      by (cases "AddTransaction (Some pool) (Some tx)") (auto simp: is_ok_def split: sum.splits)
    moreover from this obtain m where m: "mp = Some m" by (auto simp: AddTransaction_def split: prod.splits)
    ultimately have add: "AddTransaction (Some pool) (Some tx) = (Some m, Inr ())" by simp
    note p = AddTransaction_pending [OF Cons.prems(1) add]
    have "recoverTransactions E s net m (k + 1) txs = (pool', k')"
      using Cons.prems(3) False add by (auto simp: Let_def is_ok_def split: if_splits sum.splits)
    moreover have "\<forall>tx\<in>set (pending m). \<not> IsTransactionProcessed s (txID tx)"
      using Cons.prems(2) False by (simp add: p(2))
    ultimately obtain new where n: "mempool_inv pool'" "\<forall>tx\<in>set (pending pool'). \<not> IsTransactionProcessed s (txID tx)"
      "pending pool' = pending m @ new" "subseq new txs" "k' = k + 1 + length new"
      using Cons.IH [OF p(1)] by blast
    have "pending pool' = pending pool @ (tx # new)" "subseq (tx # new) (tx # txs)" "k' = k + length (tx # new)"
      using n(3-5) by (simp_all add: p(2))
    with n(1,2) show ?thesis by blast
  qed
qed simp

lemma Reorganize_cases:
  assumes "ReorganizeWithMempoolRecovery E n candp = (n', r)" "nodeChain n = Some c" "nodeState n = Some s"
  obtains "net_step E n n'" "\<And>k. r \<noteq> Inr (True, k)"
  | cand d t pool k where "candp = Some cand" "r = Inr (True, k)" "adoption (envCrypto E) c cand d t"
    "recoverTransactions E t (network d) NewMempool 0
       (sort_key tx_order (map snd (envPool E (orphanCandidates t
          (pendingCandidates [] (AllTransactions (envPool E) (nodeMempool n))) (chainTransactions c))))) = (pool, k)"
    "n' = RefreshChainStatus (envCrypto E) (n\<lparr>nodeChain := Some d, nodeState := Some t, nodeMempool := pool\<rparr>)"
proof (cases candp)
  case None
  with assms(1) have "n' = n" "r \<noteq> Inr (True, k)" for k by (auto simp: ReorganizeWithMempoolRecovery_def)
  with that(1) show ?thesis by simp
next
  case (Some cand)
  let ?C = "envCrypto E"
  obtain cp sp q where ro: "ReorganizeToCandidate ?C (envClock E) (Some c) (Some s) candp = ((cp, sp), q)"
    by (metis prod_cases3 prod.collapse)
  have clone: "CloneChain (Some c) = Inr x \<Longrightarrow> x = c" for x by (auto simp: CloneChain_def split: if_splits)
  have same: "net_step E n (n\<lparr>nodeChain := Some c, nodeState := Some s\<rparr>)"
    using assms(2,3) by (simp add: net_step_def core_def)
  show ?thesis
  proof (cases "CloneChain (Some c)")
    case (Inl e)
    with assms Some have "n' = n" "r \<noteq> Inr (True, k)" for k by (auto simp: ReorganizeWithMempoolRecovery_def)
    with that(1) show ?thesis by simp
  next
    case (Inr old)
    with clone have old: "old = c" by blast
    from ReorganizeToCandidate_cases [OF ro [unfolded Some]] show ?thesis
    proof (elim disjE exE conjE)
      assume "cp = Some c" "sp = Some s" "q \<noteq> Inr True"
      then have "n' = n\<lparr>nodeChain := Some c, nodeState := Some s\<rparr> \<and> (\<forall>k. r \<noteq> Inr (True, k))"
        using assms Some Inr ro
        by (cases q) (auto simp: ReorganizeWithMempoolRecovery_def Let_def split: bool.splits)
      with that(1) same show ?thesis by blast
    next
      fix d t
      assume a: "cp = Some d" "sp = Some t" "q = Inr True" "adoption ?C c cand d t"
      let ?o = "sort_key tx_order (map snd (envPool E (orphanCandidates t
          (pendingCandidates [] (AllTransactions (envPool E) (nodeMempool n))) (chainTransactions c))))"
      obtain pool k where rec: "recoverTransactions E t (network d) NewMempool 0 ?o = (pool, k)" by fastforce
      have "n' = RefreshChainStatus ?C (n\<lparr>nodeChain := Some d, nodeState := Some t, nodeMempool := pool\<rparr>)"
        "r = Inr (True, k)"
        using assms Some Inr ro rec a(1-3) old
        by (simp_all add: ReorganizeWithMempoolRecovery_def Let_def ActiveNetwork_def Network_def Clear_inv)
      with that(2) Some a(4) rec show ?thesis by blast
    qed
  qed
qed

lemma Reorganize_ledger:
  assumes l: "ledger_ok (envCrypto E) n" and r: "ReorganizeWithMempoolRecovery E n candp = (n', q)"
    and fits: "node_fits n'" and h: "\<And>cand. candp = Some cand \<Longrightarrow> blkHeight (hd (blocks cand)) = 0"
  shows "ledger_ok (envCrypto E) n'"
proof -
  let ?C = "envCrypto E"
  from l obtain c s where cs: "nodeChain n = Some c" "nodeState n = Some s" by (auto simp: ledger_ok_def)
  from r cs show ?thesis
  proof (cases rule: Reorganize_cases)
    case 1
    then have "core n' = core n" by (simp add: net_step_def)
    from ledger_ok_core [OF this] l show ?thesis by simp
  next
    case (2 cand d t pool k)
    have ne: "blocks d \<noteq> []" and inv: "chain_inv ?C d" and st: "BuildStateFromChain ?C (Some d) = Inr (Some t)"
      and hd0: "blkHeight (hd (blocks d)) = 0"
      using 2(3) h [OF 2(1)] by (auto simp: adoption_def chain_inv_def)
    note rf = Refresh_core [of "n\<lparr>nodeChain := Some d, nodeState := Some t, nodeMempool := pool\<rparr>" d ?C, OF _ ne]
    have "length (blocks d) < 2 ^ 64" using fits 2(5) rf by (simp add: node_fits_def)
    then have "chain_ok ?C d" using inv hd0 by (simp add: chain_ok_def)
    moreover have "mempool_inv pool \<and> (\<forall>tx\<in>set (pending pool). \<not> IsTransactionProcessed t (txID tx))"
      using recoverTransactions_inv [OF NewMempool_inv _ 2(4)] by (simp add: pending_def NewMempool_def)
    ultimately show ?thesis using 2(5) rf st by (simp add: ledger_ok_def node_ok_def)
  qed
qed

lemma Refresh_peers [simp]: "peer_inv L (RefreshChainStatus C n) = peer_inv L n"
  by (auto simp: RefreshChainStatus_def Let_def split: option.splits)

lemma Reorganize_peers:
  assumes "ReorganizeWithMempoolRecovery E n candp = (n', q)" "peer_inv (envNet E) n"
  shows "peer_inv (envNet E) n'"
  using assms
  by (auto simp: ReorganizeWithMempoolRecovery_def Let_def
      split: option.splits sum.splits prod.splits bool.splits)

section \<open>The downloaded candidate\<close>

definition download_inv :: "crypto \<Rightarrow> chain \<Rightarrow> bool" where
  "download_inv C cand \<longleftrightarrow> chain_inv C cand \<and> network cand = NetworkPublicTestnet
     \<and> powPolicy cand = \<lparr>GPUV1ActivationHeight = GPUV1TestnetActivationHeight\<rparr>
     \<and> proofVerifier cand = Some (legacyProofVerifier C) \<and> hd (blocks cand) = NewGenesisBlock"

lemma NewChain_download: "NewChain C = Inr c \<Longrightarrow> download_inv C c \<and> blocks c = [NewGenesisBlock]"
proof -
  assume "NewChain C = Inr c"
  then have n: "newChainFromGenesisForNetworkWithConsensus C NetworkPublicTestnet (Some NewGenesisBlock)
      \<lparr>GPUV1ActivationHeight = GPUV1TestnetActivationHeight\<rparr> (Some (legacyProofVerifier C)) = Inr c"
    by (auto simp: NewChain_def NewChainFor_def PoWPolicyForNetwork_def NewChainForWithConsensus_def GenesisFor_def
        split: sum.splits if_splits)
  from newChain_inv [OF n] show ?thesis by (auto simp: download_inv_def)
qed

lemma addCandidateBlocks_inv:
  assumes "addCandidateBlocks E h cand k bs = Inr (cand', k')" "download_inv (envCrypto E) cand"
  shows "download_inv (envCrypto E) cand'"
  using assms
proof (induction E h cand k bs rule: addCandidateBlocks.induct)
  case (2 E h cand k b bs)
  from "2.prems"(1) obtain c1 where a: "AddBlock (envCrypto E) (envClock E 3 (unat k)) cand (Some b) = (c1, Inr ())"
    and rest: "cand' = c1 \<or> addCandidateBlocks E h c1 (k + 1) bs = Inr (cand', k')" and k: "blkHeight b = k"
    by (auto split: if_splits sum.splits prod.splits)
  have "chain_inv (envCrypto E) cand" using "2.prems"(2) by (simp add: download_inv_def)
  note i = AddBlock_inv [OF this a]
  obtain extra where x: "blocks c1 = blocks cand @ extra" using i(5) by blast
  have "blocks cand \<noteq> []" using \<open>chain_inv (envCrypto E) cand\<close> by (simp add: chain_inv_def)
  with i x "2.prems"(2) have d: "download_inv (envCrypto E) c1" by (simp add: download_inv_def)
  show ?case
  proof (cases "k + 1 > h")
    case True
    with "2.prems"(1) a k d show ?thesis by simp
  next
    case False
    with "2.prems"(1) a k have "addCandidateBlocks E h c1 (k + 1) bs = Inr (cand', k')" by simp
    with "2.IH" k a False d show ?thesis by simp
  qed
qed simp

lemma downloadLoop_inv:
  assumes "downloadLoop E i h t n cand k rs = (n', Inr cand')" "download_inv (envCrypto E) cand"
  shows "download_inv (envCrypto E) cand'"
  using assms
proof (induction rs arbitrary: n cand k)
  case Nil
  then show ?case
    by (auto simp: downloadLoop.simps [of E i h t n cand k "[]"] Let_def split: if_splits sum.splits prod.splits)
next
  case (Cons reply rs)
  show ?case
  proof (cases "k \<le> h")
    case False
    with Cons.prems show ?thesis by (simp add: downloadLoop.simps [of E i h t n cand k "reply # rs"])
  next
    case True
    with Cons.prems(1) obtain n1 bs c1 k1 where "addCandidateBlocks E h cand k bs = Inr (c1, k1)"
      "downloadLoop E i h t n1 c1 k1 rs = (n', Inr cand')"
      by (auto simp: downloadLoop.simps [of E i h t n cand k "reply # rs"] Let_def split: if_splits sum.splits prod.splits)
    with Cons.IH addCandidateBlocks_inv Cons.prems(2) show ?thesis by blast
  qed
qed

lemma downloadCandidateChain_ok:
  assumes "downloadCandidateChain E rs n i h tip w t = (n', Inr cand)"
  shows "download_inv (envCrypto E) cand" "Height cand = h" "Hash (envCrypto E) (last (blocks cand)) = tip" "totalWork cand = w"
proof -
  from assms obtain c0 where c0: "NewChain (envCrypto E) = Inr c0"
    by (auto simp: downloadCandidateChain_def split: sum.splits)
  note d = NewChain_download [OF c0]
  show "download_inv (envCrypto E) cand"
    using assms c0 d downloadLoop_inv
    by (auto simp: downloadCandidateChain_def split: sum.splits if_splits option.splits prod.splits)
  show "Hash (envCrypto E) (last (blocks cand)) = tip" "totalWork cand = w"
    using assms by (auto simp: downloadCandidateChain_def Tip_def TotalWork_def
        split: sum.splits if_splits option.splits prod.splits)
  show "Height cand = h"
  proof (cases "h = 0")
    case True
    with assms c0 d show ?thesis
      by (auto simp: downloadCandidateChain_def Height_def split: if_splits option.splits)
  next
    case False
    with assms show ?thesis
      by (auto simp: downloadCandidateChain_def split: sum.splits if_splits option.splits prod.splits)
  qed
qed

section \<open>Steps of a node\<close>

inductive node_step :: "p2p_env \<Rightarrow> p2p_node \<Rightarrow> p2p_node \<Rightarrow> bool" for E where
  frame: "handleFrame E n peer data = (n', go) \<Longrightarrow> node_step E n n'"
| ended: "node_step E n (closeConn (removePeerConnection n peer) (pcConn peer))"
| incoming: "handleIncomingConnection E n k = (n', q) \<Longrightarrow> node_step E n n'"
| dial: "Connect E n address = (n', r) \<Longrightarrow> node_step E n n'"
| keepalive: "keepPeerAlive E n peer nonce = (n', go) \<Longrightarrow> node_step E n n'"
| ping: "SendPing E n ident nonce = (n', r) \<Longrightarrow> node_step E n n'"
| submit: "SubmitTransaction E n txp = (n', k, r) \<Longrightarrow> node_step E n n'"
| gossip: "BroadcastBlock E n bp = (n', r) \<Longrightarrow> node_step E n n'"
| submitBlock: "AcceptBlock E n bp = (n', r) \<Longrightarrow> node_step E n n'"
| mempoolSync: "SyncMempoolWithPeer E id n ident = (n', r) \<Longrightarrow> node_step E n n'"
| download: "downloadCandidateChain E replies n ident h tip w t = (n', r) \<Longrightarrow> node_step E n n'"
| adopt: "downloadCandidateChain E replies m ident h tip w t = (m', Inr cand)
    \<Longrightarrow> ReorganizeWithMempoolRecovery E n (Some cand) = (n', r) \<Longrightarrow> node_step E n n'"
| mine: "MineNextBlock (envCrypto E) (envPool E) now (nodeChain n) (nodeState n) (Some (nodeMempool n)) miner tries
      = ((cp, sp, Some pool), result, r)
    \<Longrightarrow> node_step E n (RefreshChainStatus (envCrypto E) (n\<lparr>nodeChain := cp, nodeState := sp, nodeMempool := pool\<rparr>))"

definition node_inv :: "p2p_env \<Rightarrow> p2p_node \<Rightarrow> bool" where
  "node_inv E n \<longleftrightarrow> peer_inv (envNet E) n \<and> ledger_ok (envCrypto E) n"

lemma net_step_inv: "net_step E n n' \<Longrightarrow> node_inv E n \<Longrightarrow> node_inv E n'"
  using ledger_ok_core [of n' n "envCrypto E"] by (simp add: net_step_def node_inv_def)

lemma AcceptBlock_inv:
  assumes "AcceptBlock E n bp = (n', r)" "node_inv E n" "node_fits n'"
  shows "node_inv E n'"
proof -
  have "peer_inv (envNet E) n'"
    using assms(1)
  proof (cases rule: AcceptBlock_cases)
    case 1
    then show ?thesis using assms(2) by (simp add: net_step_def node_inv_def)
  next
    case 2
    then show ?thesis using assms(2) by (simp add: node_inv_def)
  qed
  with AcceptBlock_ledger [OF _ assms(1,3)] assms(2) show ?thesis by (simp add: node_inv_def)
qed

lemma node_fits_core: "core n' = core n \<Longrightarrow> node_fits n' = node_fits n"
  by (simp add: node_fits_def core_def)

lemma handleBlockMessage_inv:
  assumes "handleBlockMessage E n p m = (n', ok)" "node_inv E n" "node_fits n'"
  shows "node_inv E n'"
proof (cases "DecodeBlock (envCodec E) (Some m)")
  case (Inl e)
  then have "net_step E n n'" using assms(1) punish_net by (auto simp: handleBlockMessage_def)
  with assms(2) net_step_inv show ?thesis by blast
next
  case (Inr b)
  obtain n1 r where a: "AcceptBlock E n (Some b) = (n1, r)" by fastforce
  have step: "net_step E n1 n'"
  proof (cases r)
    case (Inl e)
    with assms(1) Inr a punish_net show ?thesis by (auto simp: handleBlockMessage_def)
  next
    case (Inr u)
    let ?k = "fst (rewardValidPeerMessage n1 p)"
    have n': "n' = fst (relayBlock E ?k (Some b) (infoNodeID (pcInfo p)))"
      using assms(1) \<open>DecodeBlock (envCodec E) (Some m) = Inr b\<close> a Inr by (simp add: handleBlockMessage_def Let_def)
    have "net_step E ?k n'"
      using relay_net(2) [of E ?k "Some b" "infoNodeID (pcInfo p)"] unfolding n' by (metis prod.collapse)
    with score_net(3) [of E n1 p] show ?thesis by (rule net_step_trans)
  qed
  then have "node_fits n1" using assms(3) node_fits_core [of n' n1] by (simp add: net_step_def)
  with AcceptBlock_inv [OF a assms(2)] net_step_inv [OF step] show ?thesis by blast
qed

lemma admitted_inv:
  assumes "admitVerifiedTransaction E n txp = (n', r) \<or> admitTransaction E n txp = (n', r)" "node_inv E n"
  shows "node_inv E n'"
proof -
  have l: "ledger_ok (envCrypto E) n" "peer_inv (envNet E) n" using assms(2) by (simp_all add: node_inv_def)
  have "ledger_ok (envCrypto E) n' \<and> peer_inv (envNet E) n' = peer_inv (envNet E) n"
    using assms(1) admitVerified_ledger [OF l(1)] admitVerified_peers admit_ledger [OF l(1)] by blast
  with l(2) show ?thesis by (simp add: node_inv_def)
qed

lemma handleTransactionMessage_inv:
  assumes "handleTransactionMessage E n p m = (n', ok)" "node_inv E n"
  shows "node_inv E n'"
proof (cases "DecodeTransactionForNetwork (envCodec E) (envCrypto E) (Some m) (ActiveNetwork n)")
  case (Inl e)
  then have "net_step E n n'" using assms(1) punish_net by (auto simp: handleTransactionMessage_def)
  with assms(2) net_step_inv show ?thesis by blast
next
  case (Inr tx)
  obtain n1 r where a: "admitVerifiedTransaction E n (Some tx) = (n1, r)" by fastforce
  have n1: "node_inv E n1" using admitted_inv a assms(2) by blast
  let ?k = "fst (rewardValidPeerMessage n1 p)"
  have relay: "net_step E n1 (fst (relayTransaction E ?k (Some tx) i))" for i
    using relay_net(1) [of E ?k "Some tx" i] net_step_trans [OF score_net(3) [of E n1 p]] by (metis prod.collapse)
  have "n' = n \<or> net_step E n1 n'"
  proof (cases r)
    case (Inl e)
    with assms(1) Inr a punish_net [of n1 p PeerPenaltyInvalidData n' ok E] show ?thesis
      by (simp add: handleTransactionMessage_def split: if_splits)
  next
    case (Inr u)
    with assms(1) \<open>DecodeTransactionForNetwork _ _ _ _ = Inr tx\<close> a relay show ?thesis
      by (simp add: handleTransactionMessage_def Let_def split: if_splits) blast
  qed
  with n1 assms(2) net_step_inv show ?thesis by blast
qed

lemma handleFrame_inv:
  assumes "handleFrame E n p d = (n', ok)" "node_inv E n" "node_fits n'"
  shows "node_inv E n'"
proof (cases "DecodeMessage (envCodec E) d")
  case (Inl e)
  with assms(1) punish_net have "net_step E n n'" by (auto simp: handleFrame_def)
  with assms(2) net_step_inv show ?thesis by blast
next
  case (Inr m)
  have "net_step E n n' \<or> handleTransactionMessage E n p m = (n', ok) \<or> handleBlockMessage E n p m = (n', ok)"
    using assms(1) handleRequestMessage_net [of E n p m n' ok] handlePeersMessage_net [of E n p m n' ok]
      punish_net [of n p PeerPenaltyProtocolAbuse n' ok E] serve_net(1,3) [of E n p m]
    unfolding handleFrame_def Inr sum.case by (simp split: if_splits)
  with assms(2,3) net_step_inv handleTransactionMessage_inv handleBlockMessage_inv show ?thesis by blast
qed

lemma MineNextBlock_ledger:
  assumes l: "node_inv E n"
    and m: "MineNextBlock (envCrypto E) (envPool E) now (nodeChain n) (nodeState n) (Some (nodeMempool n)) miner k
      = ((cp, sp, Some pool), result, r)"
    and fits: "node_fits (n\<lparr>nodeChain := cp\<rparr>)"
  shows "node_inv E (RefreshChainStatus (envCrypto E) (n\<lparr>nodeChain := cp, nodeState := sp, nodeMempool := pool\<rparr>))"
proof -
  let ?C = "envCrypto E" and ?n = "n\<lparr>nodeChain := cp, nodeState := sp, nodeMempool := pool\<rparr>"
  from l obtain c s where cs: "nodeChain n = Some c" "nodeState n = Some s" "node_ok ?C c s (nodeMempool n)"
    and tip: "nodeHeight n = Height c" "nodeTipHash n = Hash ?C (last (blocks c))"
    and clean: "\<forall>tx\<in>set (pending (nodeMempool n)). \<not> IsTransactionProcessed s (txID tx)"
    by (auto simp: node_inv_def ledger_ok_def)
  have "ledger_ok ?C (RefreshChainStatus ?C ?n)"
  proof (cases r)
    case (Inl e)
    have "(cp, sp, Some pool) = (Some c, Some s, Some (nodeMempool n))"
      using m unfolding cs(1,2) Inl by (rule MineNextBlock_err)
    moreover have "blocks c \<noteq> []" using cs(3) by (simp add: node_ok_def chain_ok_def chain_inv_def)
    ultimately show ?thesis using cs clean by (simp add: Refresh_core ledger_ok_def)
  next
    case (Inr reward)
    let ?sel = "selectTransactions [] 0 (AllTransactions (envPool E) (nodeMempool n))"
    obtain p b d t where p: "MonetaryPolicyFor (network c) = Inr p" and b: "blkMinerAddress b = miner"
      "blkTransactions b = map Some ?sel" and add: "AddBlock ?C (snd (snd now)) c (Some b) = (d, Inr ())"
      and pb: "ProcessBlockFor ?C (Some s) p (Some b) miner = (Some t, Inr reward)"
      and node: "(cp, sp, Some pool) = (Some d, Some t, Some (foldl RemoveTransaction (nodeMempool n) (map txID ?sel)))"
      using m unfolding cs(1,2) Inr by (rule MineNextBlock_ok) blast
    have fd: "length (blocks d) < 2 ^ 64" using fits node by (simp add: node_fits_def)
    have ok: "node_ok ?C d t (foldl RemoveTransaction (nodeMempool n) (map txID ?sel))"
      by (rule node_extend [OF cs(3) add p _ fd]) (use pb b in simp)
    have ne: "blocks d \<noteq> []" using add unfolding AddBlock_ok_iff by auto
    obtain txs where txs: "blkTransactions b = map Some txs"
      "\<forall>i. IsTransactionProcessed t i \<longleftrightarrow> IsTransactionProcessed s i \<or> i \<in> txID ` set txs"
      using ProcessBlockFor_processed [OF pb] by blast
    have "txs = ?sel" using txs(1) b(2) by (metis list.inj_map_strong option.inject)
    moreover have "pending pool = filter (\<lambda>tx. txID tx \<notin> set (map txID ?sel)) (pending (nodeMempool n))"
      using pool.remove_all [of "nodeMempool n" "map txID ?sel"] cs(3) node by (simp add: node_ok_def)
    ultimately have "\<forall>tx\<in>set (pending pool). \<not> IsTransactionProcessed t (txID tx)"
      using clean txs(2) by auto
    with ok node ne show ?thesis by (simp add: Refresh_core ledger_ok_def)
  qed
  with l show ?thesis by (simp add: node_inv_def)
qed

lemma SubmitTransaction_inv: "SubmitTransaction E n txp = (n', k, r) \<Longrightarrow> node_inv E n \<Longrightarrow> node_inv E n'"
proof -
  assume s: "SubmitTransaction E n txp = (n', k, r)" and i: "node_inv E n"
  obtain n1 q where a: "admitTransaction E n txp = (n1, q)" by fastforce
  have n1: "node_inv E n1" using admitted_inv a i by blast
  obtain n2 k2 q2 where t: "relayTransaction E n1 txp '''' = (n2, k2, q2)" by (metis prod_cases3)
  have "n' = n1 \<or> n' = n2" using s a t by (cases q; cases q2) (auto simp: SubmitTransaction_def)
  with n1 net_step_inv [OF relay_net(1) [OF t] n1] show ?thesis by blast
qed

lemma SyncMempoolWithPeer_net: "SyncMempoolWithPeer E id n i = (n', r) \<Longrightarrow> net_step E n n'"
proof -
  assume s: "SyncMempoolWithPeer E id n i = (n', r)"
  have part: "net_step E m (fst (requestPartitionRecoveryPeersOnce E m))" for m
    using request_net(4) by (metis prod_cases3 fst_conv)
  from s show ?thesis
    by (auto simp: SyncMempoolWithPeer_def dest!: request_net(5) peerWrite_net
        intro: net_step_trans net_step_trans [OF net_step_trans part]
        split: if_splits option.splits sum.splits prod.splits)
qed

lemma node_step_inv:
  assumes "node_step E n n'" "node_inv E n" "node_fits n'"
  shows "node_inv E n'"
  using assms(1)
proof (cases rule: node_step.cases)
  case (frame peer d go)
  then show ?thesis using handleFrame_inv assms(2,3) by blast
next
  case (submit txp k r)
  then show ?thesis using SubmitTransaction_inv assms(2) by blast
next
  case (submitBlock bp r)
  then show ?thesis using AcceptBlock_inv assms(2,3) by blast
next
  case (adopt replies m ident h tip w t m' cand r)
  have "hd (blocks cand) = NewGenesisBlock"
    using downloadCandidateChain_ok(1) [OF adopt(1)] by (simp add: download_inv_def)
  then have "blkHeight (hd (blocks cand)) = 0" by (simp add: NewGenesisBlock_def newGenesisBlock_def)
  with Reorganize_ledger [OF _ adopt(2) assms(3)] Reorganize_peers [OF adopt(2)] assms(2)
  show ?thesis by (simp add: node_inv_def)
next
  case (mine now miner tries cp sp pool result r)
  have "node_fits (n\<lparr>nodeChain := cp\<rparr>)"
    using assms(3) mine(1) by (auto simp: node_fits_def RefreshChainStatus_def Let_def split: option.splits)
  from MineNextBlock_ledger [OF assms(2) mine(2) this] mine(1) show ?thesis by simp
next
  case (ended peer)
  then show ?thesis using net_step_inv [OF leave_net(1) assms(2)] by simp
next
  case (incoming k q)
  from net_step_inv [OF handleIncomingConnection_net [OF this] assms(2)] show ?thesis .
next
  case (dial address r)
  from net_step_inv [OF Connect_net [OF this] assms(2)] show ?thesis .
next
  case (keepalive peer nonce go)
  from net_step_inv [OF keepPeerAlive_net [OF this] assms(2)] show ?thesis .
next
  case (ping ident nonce r)
  from net_step_inv [OF request_net(1) [OF this] assms(2)] show ?thesis .
next
  case (gossip bp r)
  from net_step_inv [OF relay_net(4) [OF this] assms(2)] show ?thesis .
next
  case (mempoolSync ident r)
  from net_step_inv [OF SyncMempoolWithPeer_net [OF this] assms(2)] show ?thesis .
next
  case (download replies ident h tip w t r)
  from net_step_inv [OF downloadCandidateChain_net [OF this] assms(2)] show ?thesis .
qed

section \<open>Runs\<close>

text \<open>Runs of steps whose chains stay below \<open>2^64\<close> blocks.\<close>

definition node_run :: "p2p_env \<Rightarrow> p2p_node \<Rightarrow> p2p_node \<Rightarrow> bool" where
  "node_run E = (\<lambda>a b. node_step E a b \<and> node_fits b)\<^sup>*\<^sup>*"

lemma node_run_inv: "node_run E n n' \<Longrightarrow> node_inv E n \<Longrightarrow> node_inv E n'"
  unfolding node_run_def by (induction rule: rtranclp_induct) (auto intro: node_step_inv)

lemma node_run_refl [simp]: "node_run E n n"
  by (simp add: node_run_def)

lemma node_run_trans: "node_run E a b \<Longrightarrow> node_run E b c \<Longrightarrow> node_run E a c"
  unfolding node_run_def by (rule rtranclp_trans)

lemma node_run_step: "node_step E a b \<Longrightarrow> node_fits b \<Longrightarrow> node_run E a b"
  unfolding node_run_def by (simp add: r_into_rtranclp)

lemma start_inv:
  assumes "NewNode ident address h0 tip0 = Inr n0" "SetChain E n0 (Some c) = (n1, Inr ())"
    "SetState n1 (Some s) = (n2, Inr ())" "chain_ok (envCrypto E) c"
    "BuildStateFromChain (envCrypto E) (Some c) = Inr (Some s)"
  shows "node_inv E n2"
proof -
  have ne: "blocks c \<noteq> []" using chain_ok_lookup(3) [OF assms(4)] .
  have n0: "peers n0 = []" "peerScores n0 = Map.empty" "handshakeSlots n0 = 0" "nodeMempool n0 = NewMempool"
    using assms(1) by (auto simp: NewNode_def split: if_splits)
  have n1: "n1 = n0\<lparr>nodeChain := Some c, nodeHeight := Height c, nodeTipHash := Hash (envCrypto E) (last (blocks c))\<rparr>"
    using assms(2) ne by (auto simp: SetChain_def Let_def Tip_def split: sum.splits if_splits)
  have n2: "n2 = n1\<lparr>nodeState := Some s\<rparr>"
    using assms(3) n1 by (auto simp: SetState_def split: sum.splits)
  have "peer_inv (envNet E) n0" using n0 by (simp add: peer_inv_def group_load_def)
  with n1 n2 n0 assms(4,5) NewMempool_inv show ?thesis
    by (simp add: node_inv_def ledger_ok_def node_ok_def pending_def) (simp add: NewMempool_def)
qed

section \<open>Synchronization\<close>

text \<open>A synchronization is a run: the download, what other goroutines did meanwhile, and possibly the
  adoption of the downloaded chain.\<close>

lemma SyncFromPeer_cases:
  assumes "SyncFromPeer E during rs n i timeout = (n', r)"
  obtains "n' = n"
  | m h tip w q where "downloadCandidateChain E rs n i h tip w timeout = (m, q)" "n' = during m"
  | m cand h tip w q where "downloadCandidateChain E rs n i h tip w timeout = (m, Inr cand)"
    "peerChainStatus n i = Inr (h, tip, w)" "ReorganizeWithMempoolRecovery E (during m) (Some cand) = (n', q)"
proof -
  consider (same) "n' = n" | (down) h tip w m q where "n' \<noteq> n" "peerChainStatus n i = Inr (h, tip, w)"
    "downloadCandidateChain E rs n i h tip w timeout = (m, q)"
    using assms by (auto simp: SyncFromPeer_def split: if_splits option.splits sum.splits prod.splits)
  then show ?thesis
  proof cases
    case same
    with that(1) show ?thesis .
  next
    case (down h tip w m q)
    show ?thesis
    proof (cases "n' = during m")
      case True
      with down that(2) show ?thesis by blast
    next
      case False
      with assms down obtain cand q' where "q = Inr cand"
        "ReorganizeWithMempoolRecovery E (during m) (Some cand) = (n', q')"
        by (auto simp: SyncFromPeer_def Let_def split: if_splits option.splits sum.splits prod.splits preference.splits)
      with down that(3) show ?thesis by blast
    qed
  qed
qed

lemma SyncFromPeer_run:
  assumes s: "SyncFromPeer E during rs n i timeout = (n', r)" and during: "\<And>m. node_run E m (during m)"
    and inv: "node_inv E n" and fits: "node_fits n" "node_fits n'"
  shows "node_run E n n'"
    "\<exists>m. node_run E n m \<and> (core n' = core m \<or>
     (\<exists>c d t cand. nodeChain m = Some c \<and> nodeChain n' = Some d \<and> nodeState n' = Some t
       \<and> adoption (envCrypto E) c cand d t
       \<and> peerChainStatus n i = Inr (Height d, Hash (envCrypto E) (last (blocks d)), totalWork d)))"
proof -
  have run: "node_run E n (during m)" if d: "downloadCandidateChain E rs n i h tip w timeout = (m, q)" for m h tip w q
  proof -
    have "node_fits m"
      using downloadCandidateChain_net [OF d] fits(1) node_fits_core [of m n] by (simp add: net_step_def)
    with node_step.download [OF d] have "node_run E n m" by (rule node_run_step)
    then show ?thesis using during node_run_trans by blast
  qed
  have "node_run E n n' \<and> (\<exists>m. node_run E n m \<and> (core n' = core m \<or>
     (\<exists>c d t cand. nodeChain m = Some c \<and> nodeChain n' = Some d \<and> nodeState n' = Some t
       \<and> adoption (envCrypto E) c cand d t
       \<and> peerChainStatus n i = Inr (Height d, Hash (envCrypto E) (last (blocks d)), totalWork d))))"
    using s
  proof (cases rule: SyncFromPeer_cases)
    case 1
    then show ?thesis using node_run_refl by blast
  next
    case (2 m h tip w q)
    with run [OF 2(1)] show ?thesis by blast
  next
    case (3 m cand h tip w q)
    note r = run [OF 3(1)] and ok = downloadCandidateChain_ok [OF 3(1)]
    have "node_run E n n'"
      using node_run_trans [OF r node_run_step [OF node_step.adopt [OF 3(1,3)] fits(2)]] .
    moreover from node_run_inv [OF r inv] obtain c s where cs: "nodeChain (during m) = Some c" "nodeState (during m) = Some s"
      by (auto simp: node_inv_def ledger_ok_def)
    from 3(3) cs have "core n' = core (during m) \<or> (\<exists>d t. nodeChain n' = Some d \<and> nodeState n' = Some t
        \<and> adoption (envCrypto E) c cand d t)"
    proof (cases rule: Reorganize_cases)
      case 1
      then show ?thesis by (simp add: net_step_def)
    next
      case (2 cand' d t pool k)
      have ne: "blocks d \<noteq> []" using 2(3) by (auto simp: adoption_def chain_inv_def)
      have "nodeChain n' = Some d \<and> nodeState n' = Some t" unfolding 2(5) using ne by (simp add: Refresh_core)
      with 2(1,3) show ?thesis by auto
    qed
    moreover have "Height d = h \<and> Hash (envCrypto E) (last (blocks d)) = tip \<and> totalWork d = w"
      if "adoption (envCrypto E) c cand d t" for d t
    proof -
      have "blocks d = blocks cand" and d: "chain_inv (envCrypto E) d" using that by (simp_all add: adoption_def)
      moreover have "totalWork d = work_sum (blocks d)" "totalWork cand = work_sum (blocks cand)"
        using d ok(1) by (simp_all add: chain_inv_def download_inv_def)
      ultimately show ?thesis using ok(2-4) by (auto simp: Height_def)
    qed
    ultimately show ?thesis using r cs(1) 3(2) by blast
  qed
  then show "node_run E n n'"
    "\<exists>m. node_run E n m \<and> (core n' = core m \<or>
     (\<exists>c d t cand. nodeChain m = Some c \<and> nodeChain n' = Some d \<and> nodeState n' = Some t
       \<and> adoption (envCrypto E) c cand d t
       \<and> peerChainStatus n i = Inr (Height d, Hash (envCrypto E) (last (blocks d)), totalWork d)))" by blast+
qed

text \<open>The candidate is always a chain of the public testnet, so only a testnet chain is ever replaced.\<close>

lemma ReorganizeToCandidate_network:
  assumes "ReorganizeToCandidate C clk (Some c) (Some s) (Some cand) = (live, Inr True)"
  shows "network cand = network c"
proof -
  from assms obtain v cp where v: "ValidateAndCloneChain C (clk 0) (Some cand) = Inr v"
    and r: "ReplaceChainWith C (clk 1) False (Some c) (Some v) = (cp, Inr ())"
    by (auto simp: ReorganizeToCandidate_def Let_def split: sum.splits prod.splits preference.splits option.splits)
  from ReplaceChainWith_ok [OF r] ValidateAndCloneChain_ok(3) [OF v] show ?thesis by metis
qed

section \<open>Order of the recovery\<close>

lemma update_mset:
  assumes "mset al = mset bl" "distinct (map fst al)"
  shows "mset (AList.update k v al) = mset (AList.update k v bl)" "distinct (map fst (AList.update k v al))"
proof -
  have db: "distinct (map fst bl)" using assms by (metis mset_eq_imp_distinct_iff mset_map)
  have "map_of al = map_of bl" using assms db by (metis map_of_inject_set mset_eq_setD)
  then have "map_of (AList.update k v al) = map_of (AList.update k v bl)" by (simp add: update_conv')
  moreover have d: "distinct (map fst (AList.update k v al))" "distinct (map fst (AList.update k v bl))"
    using assms(2) db by (simp_all add: distinct_update)
  ultimately have "set (AList.update k v al) = set (AList.update k v bl)" by (metis map_of_inject_set)
  with d show "mset (AList.update k v al) = mset (AList.update k v bl)"
    by (simp add: set_eq_iff_mset_eq_distinct distinct_map)
  show "distinct (map fst (AList.update k v al))" by (rule d(1))
qed

lemma pendingCandidates_spec:
  assumes "distinct (map txID txs)" "fst ` set al \<inter> txID ` set txs = {}"
  shows "pendingCandidates al txs = al @ map (\<lambda>tx. (txID tx, tx)) (filter (\<lambda>tx. txID tx \<noteq> '''') txs)"
  using assms
proof (induction txs arbitrary: al)
  case (Cons tx txs)
  then show ?case by (auto simp: update_new)
qed simp

lemma orphanCandidates_mset:
  assumes "mset al = mset bl" "distinct (map fst al)" "\<forall>(i, tx)\<in>set al. i = txID tx"
  shows "mset (orphanCandidates s al txs) = mset (orphanCandidates s bl txs)
    \<and> distinct (map fst (orphanCandidates s al txs)) \<and> (\<forall>(i, tx)\<in>set (orphanCandidates s al txs). i = txID tx)"
  using assms
proof (induction txs arbitrary: al bl)
  case (Cons txp txs)
  show ?case
  proof (cases txp)
    case None
    then show ?thesis using Cons.IH [OF Cons.prems] by simp
  next
    case (Some tx)
    have "\<forall>(i, tx)\<in>set (AList.update (txID tx) tx al). i = txID tx"
      using Cons.prems(3) by (induction al) auto
    note u = Cons.IH [OF update_mset(1) [OF Cons.prems(1,2)] update_mset(2) [OF Cons.prems(1,2)] this]
    show ?thesis using Cons.IH [OF Cons.prems] u Some by (simp split: if_splits)
  qed
qed simp
lemma TransactionsForSender_order:
  assumes "mempool_inv m" "visits_all iter" "visits_all iter'"
  shows "TransactionsForSender iter m a = TransactionsForSender iter' m a"
  unfolding TransactionsForSender_def
proof (rule sort_key_unique)
  note x = sender_transactions [OF assms(1,2), of a] and y = sender_transactions [OF assms(1,3), of a]
  let ?xs = "\<lambda>it. List.map_filter (\<lambda>(_, ident). map_of (mpTransactions m) ident) (it (noncesOf m a))"
  show "mset (?xs iter) = mset (?xs iter')" using x(1) y(1) by simp
  show "inj_on nonce_key_of (set (?xs iter))"
    using x(2) by (auto simp: inj_on_def nonce_key_of_def distinct_map)
qed

lemma recoverTransactions_order:
  assumes "mempool_inv pool" "visits_all (envNonces E)" "visits_all niter"
  shows "recoverTransactions (E\<lparr>envPool := iter, envNonces := niter\<rparr>) s net pool k txs = recoverTransactions E s net pool k txs"
  using assms(1)
proof (induction txs arbitrary: pool k)
  case (Cons tx txs)
  note same = TransactionsForSender_order [OF Cons.prems assms(3,2), of "txFrom tx"]
  show ?case
  proof (cases "AddTransaction (Some pool) (Some tx)")
    case (Pair mp r)
    have "mempool_inv m" if "mp = Some m" for m
      using AddTransaction_keeps_inv [OF Cons.prems] Pair that by simp
    then show ?thesis using Cons same Pair
      by (auto simp: Let_def split: option.splits sum.splits)
  qed
qed simp

lemma recovery_order:
  assumes "mempool_inv m" "visits_all iter" "visits_all iter'"
  shows "sort_key tx_order (map snd (iter (orphanCandidates s (pendingCandidates [] (AllTransactions iter m)) txs)))
    = sort_key tx_order (map snd (iter' (orphanCandidates s (pendingCandidates [] (AllTransactions iter' m)) txs)))"
proof (rule sort_key_unique)
  have p: "pendingCandidates [] (AllTransactions it m)
      = map (\<lambda>tx. (txID tx, tx)) (filter (\<lambda>tx. txID tx \<noteq> '''') (AllTransactions it m))"
    "mset (AllTransactions it m) = mset (pending m)" "distinct (map txID (AllTransactions it m))" if "visits_all it" for it
  proof -
    show m: "mset (AllTransactions it m) = mset (pending m)"
      unfolding AllTransactions_def pending_def using visits_all_map [OF that] .
    show d: "distinct (map txID (AllTransactions it m))"
      using pending_distinct [OF assms(1)] m by (metis mset_eq_imp_distinct_iff mset_map)
    show "pendingCandidates [] (AllTransactions it m)
      = map (\<lambda>tx. (txID tx, tx)) (filter (\<lambda>tx. txID tx \<noteq> '''') (AllTransactions it m))"
      using pendingCandidates_spec [OF d] by simp
  qed
  let ?c = "\<lambda>it. pendingCandidates [] (AllTransactions it m)"
  have "mset (?c iter) = mset (?c iter')"
    unfolding p(1) [OF assms(2)] p(1) [OF assms(3)] mset_map mset_filter p(2) [OF assms(2)] p(2) [OF assms(3)] ..
  moreover have "distinct (map fst (?c iter))"
    unfolding p(1) [OF assms(2)] using p(3) [OF assms(2)] by (simp add: comp_def distinct_map inj_on_def)
  moreover have "\<forall>(i, tx)\<in>set (?c iter). i = txID tx" unfolding p(1) [OF assms(2)] by auto
  ultimately have o: "mset (orphanCandidates s (?c iter) txs) = mset (orphanCandidates s (?c iter') txs)"
    "distinct (map fst (orphanCandidates s (?c iter) txs))" "\<forall>(i, tx)\<in>set (orphanCandidates s (?c iter) txs). i = txID tx"
    using orphanCandidates_mset by metis+
  show "mset (map snd (iter (orphanCandidates s (?c iter) txs))) = mset (map snd (iter' (orphanCandidates s (?c iter') txs)))"
    using visits_all_map [OF assms(2)] visits_all_map [OF assms(3)] o(1) by (metis mset_map)
  show "inj_on tx_order (set (map snd (iter (orphanCandidates s (?c iter) txs))))"
  proof (rule inj_onI)
    fix x y
    assume "x \<in> set (map snd (iter (orphanCandidates s (?c iter) txs)))" "y \<in> set (map snd (iter (orphanCandidates s (?c iter) txs)))"
      and k: "tx_order x = tx_order y"
    then have "(txID x, x) \<in> set (orphanCandidates s (?c iter) txs)" "(txID y, y) \<in> set (orphanCandidates s (?c iter) txs)"
      using o(3) visits_all_set [OF assms(2)] by auto
    moreover have "txID x = txID y" using k by (simp add: tx_order_def)
    ultimately show "x = y" using eq_key_imp_eq_value [OF o(2)] by metis
  qed
qed

section \<open>A small node\<close>

definition small_env :: p2p_env where
  "small_env = \<lparr>envCrypto = small_crypto, envNet = small_net,
     envCodec = small_codec MessageBlock small_handshake None (Some (small_block 7 NewGenesisBlock)) [],
     envLocal = localNetworkInit, envDeadline = (\<lambda>_. Inr ()), envConnWrite = (\<lambda>_ data. (length data, None)),
     envDial = (\<lambda>_. Inl (Errorf ''refused'' [])), envPeers = id, envKnown = id, envPool = rev, envNonces = rev,
     envClock = (\<lambda>_ _. 1786924860)\<rparr>"

definition small_node :: p2p_node where
  "small_node = \<lparr>nodeID = ''me'', listenAddress = ''me:1'', peers = [], discoveredPeers = [],
     peerScores = Map.empty, listener = None, handshakeSlots = 0, handshakeConns = [], closedConns = [],
     nodeHeight = 0, nodeTipHash = Hash small_crypto NewGenesisBlock, nodeMempool = NewMempool,
     nodeState = Some small_start_state, nodeChain = Some small_genesis_chain,
     blocksResponse = None, syncRequestActive = False, frames = []\<rparr>"

lemma small_node_start:
  "\<exists>n0 n1. NewNode ''me'' ''me:1'' 0 '''' = Inr n0 \<and> SetChain small_env n0 (Some small_genesis_chain) = (n1, Inr ())
     \<and> SetState n1 (Some small_start_state) = (small_node, Inr ())"
proof -
  have g: "network small_genesis_chain = NetworkPublicTestnet" "Tip small_genesis_chain = Some NewGenesisBlock"
    "Height small_genesis_chain = 0"
    by (simp_all add: small_genesis_chain_def Tip_def Height_def NewGenesisBlock_def newGenesisBlock_def)
  have p: "MonetaryPolicy (Some small_genesis_chain) = Inr MonetaryPolicyPublicTestnet"
    using g(1) by (simp add: MonetaryPolicy_def MonetaryPolicyFor_def)
  have e: "EnsureMonetaryPolicy small_start_state MonetaryPolicyPublicTestnet = Inr ()"
    by (simp add: EnsureMonetaryPolicy_def small_start_state_def ValidateMonetaryPolicy_def)
  show ?thesis
    by (simp add: NewNode_def SetChain_def p g Network_def Let_def SetState_def e small_env_def LocalNetworkID_def
        localNetworkInit_def NetworkID_def small_node_def NetworkPublicTestnet_def)
qed

lemma small_chain_facts:
  "chain_ok small_crypto small_genesis_chain"
  "BuildStateFromChain small_crypto (Some small_genesis_chain) = Inr (Some small_start_state)"
  using small_node_ok by (simp_all add: node_ok_def)

lemma small_node_inv: "node_inv small_env small_node"
  using small_node_start start_inv small_chain_facts by (metis (no_types, lifting) p2p_env.select_convs(1) small_env_def)

definition small_mined_node :: "state \<Rightarrow> p2p_node" where
  "small_mined_node t = RefreshChainStatus small_crypto (small_node\<lparr>nodeChain := Some (small_chain 7),
     nodeState := Some t, nodeMempool := NewMempool\<rparr>)"

lemma small_node_mines: "\<exists>t. node_run small_env small_node (small_mined_node t)"
proof -
  obtain t r where m: "MineNextBlock small_crypto rev (1786924860, 1786924860, 1786924860) (Some small_genesis_chain)
     (Some small_start_state) (Some NewMempool) (Address (small_wallet 7)) 1
     = ((Some (small_chain 7), Some t, Some NewMempool),
        Mine small_crypto (small_block 7 NewGenesisBlock) 0 1, Inr r)"
    using small_mining_run by blast
  have "node_step small_env small_node (small_mined_node t)"
    unfolding small_mined_node_def
    using node_step.mine [of small_env "(1786924860, 1786924860, 1786924860)" small_node "Address (small_wallet 7)" 1
        "Some (small_chain 7)" "Some t" NewMempool "Mine small_crypto (small_block 7 NewGenesisBlock) 0 1" "Inr r"] m
    by (simp add: small_env_def small_node_def)
  moreover have "node_fits (small_mined_node t)"
    using small_chain_ok(1) [of 7]
    by (simp add: node_fits_def small_mined_node_def RefreshChainStatus_def Let_def chain_ok_def split: option.splits)
  ultimately show ?thesis using node_run_step by blast
qed
section \<open>Properties\<close>





text \<open>C30: a node whose chain is not the public testnet never adopts a chain from a peer, whatever the
  peer serves: the candidate is always built on the testnet genesis, and the reorganization refuses a
  candidate of another network.\<close>

theorem sync_stuck_outside_testnet:
  assumes "SyncFromPeer E id replies n ident timeout = (n', r)"
    and "nodeChain n = Some c" "nodeState n = Some s" "network c \<noteq> NetworkPublicTestnet"
  shows "core n' = core n"
  using assms(1)
proof (cases rule: SyncFromPeer_cases)
  case 1
  then show ?thesis by simp
next
  case (2 m h tip w q)
  with downloadCandidateChain_net [OF 2(1)] show ?thesis by (simp add: net_step_def)
next
  case (3 m cand h tip w q)
  have net: "network cand = NetworkPublicTestnet" using downloadCandidateChain_ok(1) [OF 3(1)] by (simp add: download_inv_def)
  have core: "core m = core n" using downloadCandidateChain_net [OF 3(1)] by (simp add: net_step_def)
  then have m: "nodeChain (id m) = Some c" "nodeState (id m) = Some s" using assms(2,3) by (simp_all add: core_def)
  from 3(3) m show ?thesis
  proof (cases rule: Reorganize_cases)
    case 1
    with core show ?thesis by (simp add: net_step_def)
  next
    case (2 cand' d t pool k)
    obtain live q' where ro: "ReorganizeToCandidate (envCrypto E) (envClock E) (Some c) (Some s) (Some cand) = (live, q')"
      by fastforce
    have "q' = Inr True"
      using 3(3) 2(2) m ro
      by (auto simp: ReorganizeWithMempoolRecovery_def Let_def split: sum.splits prod.splits bool.splits)
    from ReorganizeToCandidate_network [OF ro [unfolded this]] net assms(4) show ?thesis by simp
  qed
qed

theorem sync_stuck_outside_testnet_witness:
  "core (fst (SyncFromPeer small_env id [] (small_node\<lparr>nodeChain := Some (small_genesis_chain\<lparr>network := NetworkMainnet\<rparr>)\<rparr>) ''a'' 1))
     = core (small_node\<lparr>nodeChain := Some (small_genesis_chain\<lparr>network := NetworkMainnet\<rparr>)\<rparr>)"
proof -
  let ?n = "small_node\<lparr>nodeChain := Some (small_genesis_chain\<lparr>network := NetworkMainnet\<rparr>)\<rparr>"
  obtain n' r where s: "SyncFromPeer small_env id [] ?n ''a'' 1 = (n', r)" by fastforce
  have "nodeState ?n = Some small_start_state" by (simp add: small_node_def)
  from sync_stuck_outside_testnet [OF s _ this] s show ?thesis
    by (simp add: NetworkMainnet_def NetworkPublicTestnet_def)
qed

text \<open>The recovery of the pool after a reorganization does not depend on the order in which Go
  happens to visit its maps.\<close>

theorem recovery_deterministic:
  assumes "mempool_inv (nodeMempool n)" "visits_all (envPool E)" "visits_all (envNonces E)" "visits_all iter" "visits_all niter"
  shows "ReorganizeWithMempoolRecovery (E\<lparr>envPool := iter, envNonces := niter\<rparr>) n candp
    = ReorganizeWithMempoolRecovery E n candp"
  unfolding ReorganizeWithMempoolRecovery_def Let_def
  using recovery_order [OF assms(1,4,2)] recoverTransactions_order [OF _ assms(3,5)] NewMempool_inv
  by (simp add: Clear_inv cong: option.case_cong sum.case_cong prod.case_cong bool.case_cong)

theorem recovery_deterministic_witness:
  "ReorganizeWithMempoolRecovery (small_env\<lparr>envPool := id, envNonces := id\<rparr>) small_node (Some (small_chain 7))
    = ReorganizeWithMempoolRecovery small_env small_node (Some (small_chain 7))"
  by (rule recovery_deterministic)
    (simp_all add: small_node_def NewMempool_inv small_env_def visits_all_def)

section \<open>Served blocks\<close>

lemma collectBlocks_take:
  assumes "chain_ok C c"
  shows "collectBlocks c (Height c) h k = Inr (take k (drop (unat h) (blocks c)))"
proof (induction k arbitrary: h)
  case (Suc k)
  note l = chain_ok_lookup [OF assms]
  have len: "0 < length (blocks c)" "length (blocks c) < 2 ^ 64" using l(3) assms by (auto simp: chain_ok_def)
  show ?case
  proof (cases "h \<le> Height c")
    case True
    then have lt: "unat h < length (blocks c)" using l(2) len unfolding word_le_nat_alt by linarith
    then have "unat (h + 1) = Suc (unat h)" using unat_add_bounded [of h 1] len(2) by simp
    with Suc.IH [of "h + 1"] True lt l(1) [of h] show ?thesis
      by (simp add: Cons_nth_drop_Suc [symmetric])
  next
    case False
    then have "length (blocks c) \<le> unat h" using l(2) len by (simp add: word_le_nat_alt)
    with False show ?thesis by simp
  qed
qed simp

lemma blocksFromHeight_take:
  assumes "nodeChain n = Some c" "chain_ok C c" "blocksFromHeight n h limit = Inr bs"
  shows "bs = take (unat limit) (drop (unat h) (blocks c))" "unat limit \<le> 128"
proof -
  have len: "0 < length (blocks c)" using chain_ok_lookup(3) [OF assms(2)] by simp
  show "bs = take (unat limit) (drop (unat h) (blocks c))"
    using assms collectBlocks_take [OF assms(2)] chain_ok_lookup(2) [OF assms(2)] len
    by (auto simp: blocksFromHeight_def word_less_nat_alt split: sum.splits if_splits)
  show "unat limit \<le> 128"
    using assms(3) by (auto simp: blocksFromHeight_def checkRequestLimit_def go_const word_le_nat_alt not_less
        split: sum.splits if_splits)
qed

lemma chain_segment_links:
  assumes "chain_ok C c"
  shows "checkLinks C (take k (drop i (blocks c))) = Inr ()"
  unfolding checkLinks_iff
proof (intro allI impI)
  fix j
  assume j: "Suc j < length (take k (drop i (blocks c)))"
  have inv: "chain_inv C c" using assms by (simp add: chain_ok_def)
  obtain V where V: "proofVerifier c = Some V" using chain_inv_verifier [OF inv] by blast
  have lt: "Suc (i + j) < length (blocks c)" using j by auto
  from chain_inv_extends [OF inv V lt] have
    "blkHeight (blocks c ! Suc (i + j)) = blkHeight (blocks c ! (i + j)) + 1"
    "blkPreviousHash (blocks c ! Suc (i + j)) = Hash C (blocks c ! (i + j))"
    using lt by (simp_all add: extends_def last_conv_nth take_Suc_conv_app_nth)
  then show "blkHeight (take k (drop i (blocks c)) ! Suc j) = blkHeight (take k (drop i (blocks c)) ! j) + 1
    \<and> blkPreviousHash (take k (drop i (blocks c)) ! Suc j) = Hash C (take k (drop i (blocks c)) ! j)"
    using j lt by (simp add: nth_drop)
qed

text \<open>An honest answer is always accepted. What a node serves for a block request is exactly the
  requested segment of its chain, and the receiver decodes the frame to the same blocks, so its link
  checks pass and the sender is not punished.\<close>

theorem served_blocks_accepted:
  assumes "nodeChain n = Some c" "chain_ok C c" "blocksFromHeight n start limit = Inr bs" "bs \<noteq> []"
    and "codec_ok J MessageBlocks (BlocksPayload (map Some bs)) payloadData"
    and "unmarshalBlocks J payloadData = Inr (map Some bs)"
  shows "bs = take (unat limit) (drop (unat start) (blocks c)) \<and> length bs \<le> 128
    \<and> (\<exists>frame m. NewBlocksMessage J (map Some bs) = Inr frame \<and> DecodeMessage J frame = Inr m
         \<and> DecodeBlocks J C (Some m) = Inr bs)"
proof -
  note b = blocksFromHeight_take [OF assms(1-3)]
  have len: "length bs \<le> 128" using b by simp
  have links: "checkLinks C bs = Inr ()" using chain_segment_links [OF assms(2)] b(1) by simp
  have batch: "checkBatch (map Some bs) = Inr bs"
    using assms(4) len by (simp add: checkBatch_def nonNilBlocks_map go_const)
  from encode_decode [OF assms(5)] obtain frame where
    f: "encodeMessage J MessageBlocks (BlocksPayload (map Some bs)) = Inr frame"
      "DecodeMessage J frame = Inr \<lparr>msgType = MessageBlocks, msgPayload = payloadData\<rparr>" by auto
  moreover have "DecodeBlocks J C (Some \<lparr>msgType = MessageBlocks, msgPayload = payloadData\<rparr>) = Inr bs"
    using assms(6) batch links by (simp add: DecodeBlocks_def)
  moreover have "NewBlocksMessage J (map Some bs) = Inr frame" using batch f(1) by (simp add: NewBlocksMessage_def)
  ultimately show ?thesis using b(1) len by blast
qed

theorem served_blocks_accepted_witness:
  "blocksFromHeight small_node 0 5 = Inr [NewGenesisBlock] \<and>
   (\<exists>frame m. DecodeMessage (small_codec MessageBlocks small_handshake None None [Some NewGenesisBlock]) frame = Inr m
     \<and> DecodeBlocks (small_codec MessageBlocks small_handshake None None [Some NewGenesisBlock]) small_crypto (Some m)
         = Inr [NewGenesisBlock])"
proof -
  let ?J = "small_codec MessageBlocks small_handshake None None [Some NewGenesisBlock]"
  have n: "nodeChain small_node = Some small_genesis_chain" by (simp add: small_node_def)
  have g: "blkHeight NewGenesisBlock = 0" by (simp add: NewGenesisBlock_def newGenesisBlock_def)
  have b: "blocksFromHeight small_node 0 5 = Inr [NewGenesisBlock]"
    using n collectBlocks_take [OF small_chain_facts(1), of 0 5]
    by (simp add: blocksFromHeight_def checkRequestLimit_def go_const)
  have c: "codec_ok ?J MessageBlocks (BlocksPayload (map Some [NewGenesisBlock])) [1]"
    by (simp add: codec_ok_def small_codec_def)
  have u: "unmarshalBlocks ?J [1] = Inr (map Some [NewGenesisBlock])" by (simp add: small_codec_def)
  from served_blocks_accepted [OF n small_chain_facts(1) b _ c u] b show ?thesis by auto
qed

end
