(* ===== verification/NodeStorage.thy ===== *)
theory NodeStorage
  imports Storage P2PHistory
begin

text \<open>
  Persistence of the pending transactions (\<open>p2p/mempool_persistence.go\<close>) and of the known peers
  (\<open>p2p/peer_persistence.go\<close>). The mempool file is written, synced, and then replaced like the state
  file, by removing the old file first; the peer file is replaced by one rename. A loaded mempool is
  validated again against the current state before the live pool is cleared and refilled.
\<close>

section \<open>The mempool file\<close>

record persistedMempool =
  pmVersion :: u32
  pmTransactions :: "transaction option list"

definition MempoolFileVersion :: u32 where
  [go_const]: "MempoolFileVersion = 1"

text \<open>The data written, in the order of sender, nonce and ID.\<close>

definition mempoolData :: "p2p_env \<Rightarrow> p2p_node \<Rightarrow> persistedMempool" where
  "mempoolData E n = \<lparr>pmVersion = MempoolFileVersion,
     pmTransactions = map Some (sort_key tx_order (AllTransactions (envPool E) (nodeMempool n)))\<rparr>"

text \<open>The temporary file is opened, written, synced and closed; when one of these fails after the
  file was opened, it is removed.\<close>

definition writeSynced :: "path \<Rightarrow> bytes \<Rightarrow> disk \<Rightarrow> (disk, unit) outcome" where
  "writeSynced tempPath data d =
     (let cleanup = (\<lambda>d. fst (Remove tempPath d)) in
     (case OpenTruncate tempPath d of
       (d1, Inl err) \<Rightarrow> (d1, Inl (Wrapf ''failed creating temporary mempool file: %w'' [] err))
     | (d1, Inr _) \<Rightarrow>
     (case FileWrite tempPath data d1 of
       (d2, Inl err) \<Rightarrow> (cleanup (fst (FileClose tempPath d2)), Inl (Wrapf ''failed writing mempool file: %w'' [] err))
     | (d2, Inr _) \<Rightarrow>
     (case FileSync tempPath d2 of
       (d3, Inl err) \<Rightarrow> (cleanup (fst (FileClose tempPath d3)), Inl (Wrapf ''failed syncing mempool file: %w'' [] err))
     | (d3, Inr _) \<Rightarrow>
     (case FileClose tempPath d3 of
       (d4, Inl err) \<Rightarrow> (cleanup d4, Inl (Wrapf ''failed closing mempool file: %w'' [] err))
     | (d4, Inr _) \<Rightarrow> (d4, Inr ()))))))"

definition SaveMempoolToFile ::
  "p2p_env \<Rightarrow> persistedMempool json \<Rightarrow> p2p_node option \<Rightarrow> path \<Rightarrow> disk \<Rightarrow> (disk, unit) outcome" where
  "SaveMempoolToFile E J nodep p d =
     (case nodep of
       None \<Rightarrow> (d, Inl (Errorf ''node cannot be nil'' []))
     | Some n \<Rightarrow>
     if p = '''' then (d, Inl (Errorf ''mempool path cannot be empty'' []))
     else (case Marshal J (mempoolData E n) of
       Inl err \<Rightarrow> (d, Inl (Wrapf ''failed encoding mempool: %w'' [] err))
     | Inr data \<Rightarrow>
     (case MkdirAll (Dir p) d of
       (d1, Inl err) \<Rightarrow> (d1, Inl (Wrapf ''failed creating mempool directory: %w'' [] err))
     | (d1, Inr _) \<Rightarrow>
     (let tempPath = p @ ''.tmp'' in
     (case writeSynced tempPath data d1 of
       (d2, Inl err) \<Rightarrow> (d2, Inl err)
     | (d2, Inr _) \<Rightarrow>
       removeAndRename (Wrapf ''failed replacing old mempool file: %w'' [])
         (Wrapf ''failed installing mempool file: %w'' []) tempPath p d2)))))"

text \<open>Entries without a transaction or an ID, and repeated IDs, are rejected.\<close>

fun structurallyValid :: "string set \<Rightarrow> transaction option list \<Rightarrow> transaction list \<times> nat" where
  "structurallyValid ids [] = ([], 0)"
| "structurallyValid ids (txp # txps) =
     (case txp of
        None \<Rightarrow> (let (ordered, rejected) = structurallyValid ids txps in (ordered, rejected + 1))
      | Some tx \<Rightarrow>
          if txID tx = '''' \<or> txID tx \<in> ids
          then (let (ordered, rejected) = structurallyValid ids txps in (ordered, rejected + 1))
          else (let (ordered, rejected) = structurallyValid (insert (txID tx) ids) txps in (tx # ordered, rejected)))"

fun revalidate :: "crypto \<Rightarrow> state \<Rightarrow> network_id \<Rightarrow> transaction list \<Rightarrow> nat \<Rightarrow> transaction list \<Rightarrow> transaction list \<times> nat" where
  "revalidate C s net valid rejected [] = (valid, rejected)"
| "revalidate C s net valid rejected (tx # txs) =
     (if IsTransactionProcessed s (txID tx) \<or> \<not> VerifyForNetwork C tx net
        \<or> \<not> is_ok (ValidateMempoolTransactionFor C (Some s) (map Some valid) (Some tx) net)
      then revalidate C s net valid (rejected + 1) txs
      else revalidate C s net (valid @ [tx]) rejected txs)"

fun restore :: "mempool \<Rightarrow> nat \<Rightarrow> transaction list \<Rightarrow> mempool \<times> nat \<times> unit result" where
  "restore pool loaded [] = (pool, loaded, Inr ())"
| "restore pool loaded (tx # txs) =
     (case AddTransaction (Some pool) (Some tx) of
        (poolp, Inl err) \<Rightarrow> ((case poolp of None \<Rightarrow> pool | Some pool1 \<Rightarrow> pool1),
          loaded, Inl (Wrapf ''failed restoring transaction %s: %w'' [txID tx] err))
      | (poolp, Inr _) \<Rightarrow> restore (case poolp of None \<Rightarrow> pool | Some pool1 \<Rightarrow> pool1) (loaded + 1) txs)"

definition LoadMempoolFromFile ::
  "p2p_env \<Rightarrow> persistedMempool json \<Rightarrow> p2p_node \<Rightarrow> path \<Rightarrow> disk \<Rightarrow>
   disk \<times> p2p_node \<times> nat \<times> nat \<times> unit result" where
  "LoadMempoolFromFile E J n p d =
     (if p = '''' then (d, n, 0, 0, Inl (Errorf ''mempool path cannot be empty'' []))
      else (case nodeState n of
        None \<Rightarrow> (d, n, 0, 0, Inl (Errorf ''blockchain state is not attached'' []))
      | Some s \<Rightarrow>
      (case ReadFile p d of
        (d1, Inl err) \<Rightarrow>
          if IsNotExist err then (d1, n, 0, 0, Inr ())
          else (d1, n, 0, 0, Inl (Wrapf ''failed reading mempool file: %w'' [] err))
      | (d1, Inr data) \<Rightarrow>
      (case Unmarshal J data of
        Inl err \<Rightarrow> (d1, n, 0, 0, Inl (Wrapf ''invalid mempool file: %w'' [] err))
      | Inr stored \<Rightarrow>
      if pmVersion stored \<noteq> MempoolFileVersion
      then (d1, n, 0, 0, Inl (Errorf ''unsupported mempool file version: %d'' [dec (unat (pmVersion stored))]))
      else
        (let (kept, rejected) = structurallyValid {} (pmTransactions stored);
             (valid, rejected1) = revalidate (envCrypto E) s (ActiveNetwork n) [] rejected (sort_key tx_order kept);
             (pool, loaded, err) = restore (Clear (nodeMempool n)) 0 valid
         in (d1, n\<lparr>nodeMempool := pool\<rparr>, loaded, rejected1, err))))))"

section \<open>The peer file\<close>

record knownPeerFile =
  kfPeers :: "KnownPeer list"

text \<open>Trimmed peers without repeated node IDs or addresses; an empty field is an error, and so is the
  local node when \<open>localError\<close> is an error, otherwise it is skipped.\<close>

fun normalizeKnown ::
  "error \<Rightarrow> (string \<Rightarrow> error) \<Rightarrow> error option \<Rightarrow> string \<Rightarrow> string set \<Rightarrow> string set \<Rightarrow> KnownPeer list \<Rightarrow> KnownPeer list result" where
  "normalizeKnown noID noAddress localError me ids addrs [] = Inr []"
| "normalizeKnown noID noAddress localError me ids addrs (p # ps) =
     (let ident = TrimSpace (kpNodeID p); address = TrimSpace (kpAddress p) in
      if ident = '''' then Inl noID
      else if address = '''' then Inl (noAddress ident)
      else if ident = me
      then (case localError of
          Some err \<Rightarrow> Inl err
        | None \<Rightarrow> normalizeKnown noID noAddress localError me ids addrs ps)
      else if ident \<in> ids \<or> address \<in> addrs then normalizeKnown noID noAddress localError me ids addrs ps
      else (case normalizeKnown noID noAddress localError me (insert ident ids) (insert address addrs) ps of
          Inl err \<Rightarrow> Inl err
        | Inr rest \<Rightarrow> Inr (\<lparr>kpNodeID = ident, kpAddress = address\<rparr> # rest)))"

definition normalizeForSave :: "string \<Rightarrow> KnownPeer list \<Rightarrow> KnownPeer list result" where
  "normalizeForSave me known =
     normalizeKnown (Errorf ''known peer node ID cannot be empty'' [])
       (\<lambda>_. Errorf ''known peer address cannot be empty'' [])
       (Some (Errorf ''cannot persist local node as known peer'' [])) me {} {} known"

definition SaveKnownPeersToFile ::
  "knownPeerFile json \<Rightarrow> path \<Rightarrow> string \<Rightarrow> KnownPeer list \<Rightarrow> disk \<Rightarrow> (disk, unit) outcome" where
  "SaveKnownPeersToFile J p me known d =
     (if TrimSpace p = '''' then (d, Inl (Errorf ''peer file path cannot be empty'' []))
      else if TrimSpace me = '''' then (d, Inl (Errorf ''local node ID cannot be empty'' []))
      else (case normalizeForSave me known of
        Inl err \<Rightarrow> (d, Inl err)
      | Inr normalized \<Rightarrow>
      (case Marshal J \<lparr>kfPeers = sort_key kpNodeID normalized\<rparr> of
        Inl err \<Rightarrow> (d, Inl (Wrapf ''failed encoding known peers: %w'' [] err))
      | Inr data \<Rightarrow>
      (case ensure_dir p d of
        (d1, Inl err) \<Rightarrow> (d1, Inl (Wrapf ''failed creating peer directory: %w'' [] err))
      | (d1, Inr _) \<Rightarrow>
      (let temporaryPath = p @ ''.tmp'' in
      (case WriteFile temporaryPath data d1 of
        (d2, Inl err) \<Rightarrow> (d2, Inl (Wrapf ''failed writing temporary peer file: %w'' [] err))
      | (d2, Inr _) \<Rightarrow>
      (case Rename temporaryPath p d2 of
        (d3, Inl err) \<Rightarrow> (fst (Remove temporaryPath d3), Inl (Wrapf ''failed committing peer file: %w'' [] err))
      | (d3, Inr _) \<Rightarrow> (d3, Inr ()))))))))"

definition LoadKnownPeersFromFile ::
  "netlib \<Rightarrow> knownPeerFile json \<Rightarrow> path \<Rightarrow> string \<Rightarrow> disk \<Rightarrow> (disk, KnownPeer list) outcome" where
  "LoadKnownPeersFromFile L J p me d =
     (if TrimSpace p = '''' then (d, Inl (Errorf ''peer file path cannot be empty'' []))
      else if TrimSpace me = '''' then (d, Inl (Errorf ''local node ID cannot be empty'' []))
      else (case ReadFile p d of
        (d1, Inl err) \<Rightarrow>
          if IsNotExist err then (d1, Inr [])
          else (d1, Inl (Wrapf ''failed reading known peer file: %w'' [] err))
      | (d1, Inr data) \<Rightarrow> (d1,
      (case Unmarshal J data of
        Inl err \<Rightarrow> Inl (Wrapf ''failed decoding known peer file: %w'' [] err)
      | Inr stored \<Rightarrow>
      (case normalizeKnown (Errorf ''persisted peer has empty node ID'' [])
              (\<lambda>ident. Errorf ''persisted peer %s has empty address'' [ident]) None me {} {} (kfPeers stored) of
        Inl err \<Rightarrow> Inl err
      | Inr normalized \<Rightarrow> Inr (DiversifiedPeerOrder L normalized))))))"

section \<open>Restored pools\<close>

lemma structurallyValid_spec:
  "structurallyValid ids txps = (kept, rejected) \<Longrightarrow>
     length kept + rejected = length txps \<and> distinct (map txID kept) \<and> txID ` set kept \<inter> insert '''' ids = {}
     \<and> Some ` set kept \<subseteq> set txps"
proof (induction txps arbitrary: ids kept rejected)
  case (Cons txp txps)
  show ?case
  proof (cases "txp = None \<or> (\<exists>tx. txp = Some tx \<and> (txID tx = '''' \<or> txID tx \<in> ids))")
    case True
    obtain k1 r1 where k: "structurallyValid ids txps = (k1, r1)" by fastforce
    with True Cons.prems have "kept = k1" "rejected = r1 + 1" by auto
    with Cons.IH [OF k] show ?thesis by auto
  next
    case False
    then obtain tx where tx: "txp = Some tx" "txID tx \<noteq> ''''" "txID tx \<notin> ids" by auto
    obtain k1 r1 where k: "structurallyValid (insert (txID tx) ids) txps = (k1, r1)" by fastforce
    with tx Cons.prems have "kept = tx # k1" "rejected = r1" by auto
    with Cons.IH [OF k] tx show ?thesis by auto
  qed
qed simp

lemma revalidate_spec:
  "revalidate C s net valid k txs = (valid', k') \<Longrightarrow>
     \<exists>new. valid' = valid @ new \<and> subseq new txs \<and> length new + k' = length txs + k
       \<and> (\<forall>tx\<in>set new. \<not> IsTransactionProcessed s (txID tx) \<and> VerifyForNetwork C tx net)"
proof (induction txs arbitrary: valid k)
  case (Cons tx txs)
  show ?case
  proof (cases "IsTransactionProcessed s (txID tx) \<or> \<not> VerifyForNetwork C tx net
      \<or> \<not> is_ok (ValidateMempoolTransactionFor C (Some s) (map Some valid) (Some tx) net)")
    case True
    with Cons.prems have "revalidate C s net valid (k + 1) txs = (valid', k')" by simp
    from Cons.IH [OF this] show ?thesis by (metis add_Suc_right add_Suc_shift length_Cons list_emb_Cons Suc_eq_plus1)
  next
    case False
    with Cons.prems have "revalidate C s net (valid @ [tx]) k txs = (valid', k')" by simp
    from Cons.IH [OF this] obtain new where "valid' = valid @ [tx] @ new" "subseq new txs" "length new + k' = length txs + k"
      "\<forall>tx\<in>set new. \<not> IsTransactionProcessed s (txID tx) \<and> VerifyForNetwork C tx net" by auto
    with False show ?thesis by (intro exI [of _ "tx # new"]) simp
  qed
qed auto

lemma restore_spec:
  assumes "restore pool k txs = (pool', k', r)" "mempool_inv pool"
  shows "mempool_inv pool' \<and> (\<exists>stored rest. txs = stored @ rest \<and> pending pool' = pending pool @ stored
    \<and> k' = k + length stored \<and> (is_ok r \<longleftrightarrow> rest = []))"
  using assms
proof (induction txs arbitrary: pool k)
  case Nil
  then show ?case by (auto simp: is_ok_def)
next
  case (Cons tx txs)
  obtain mp x where a: "AddTransaction (Some pool) (Some tx) = (mp, x)" by fastforce
  show ?case
  proof (cases x)
    case (Inl err)
    with a Cons.prems(1) have "pool' = pool" "k' = k" "\<not> is_ok r"
      using AddTransaction_err [of pool "Some tx" mp err] by (auto simp: is_ok_def)
    with Cons.prems(2) show ?thesis by (intro conjI exI [of _ "[]"] exI [of _ "tx # txs"]) auto
  next
    case (Inr u)
    with a AddTransaction_ok(7) [of pool tx mp] obtain m where m: "mp = Some m" by auto
    have a1: "AddTransaction (Some pool) (Some tx) = (Some m, Inr ())" using a m Inr by simp
    note p = AddTransaction_pending [OF Cons.prems(2) a1]
    have "restore m (k + 1) txs = (pool', k', r)" using Cons.prems(1) a m Inr by simp
    from Cons.IH [OF this p(1)] obtain stored rest where "mempool_inv pool'" "txs = stored @ rest"
      "pending pool' = pending m @ stored" "k' = k + 1 + length stored" "is_ok r \<longleftrightarrow> rest = []" by auto
    with p(2) show ?thesis by (intro conjI exI [of _ "tx # stored"] exI [of _ rest]) auto
  qed
qed

text \<open>A pool that holds some of the transactions of a well-formed pool accepts any other of them.\<close>

lemma pending_bytes: "mempool_inv m \<Longrightarrow> totalEstimatedBytes m = (\<Sum>tx\<leftarrow>pending m. EstimatedSerializedSize (Some tx))"
  by (simp add: mempool_inv_def pool_bytes_def pending_def case_prod_unfold comp_def)

lemma pending_nonce_unique:
  assumes "mempool_inv m" "t \<in> set (pending m)" "u \<in> set (pending m)" "txFrom t = txFrom u" "txNonce t = txNonce u"
  shows "t = u"
proof -
  have "map_of (mpTransactions m) (txID t) = Some t" "map_of (mpTransactions m) (txID u) = Some u"
    using assms(2,3) by (simp_all add: pending_lookup [OF assms(1)])
  then have "map_of (noncesOf m (txFrom t)) (txNonce t) = Some (txID t)"
    "map_of (noncesOf m (txFrom t)) (txNonce t) = Some (txID u)"
    using assms(4,5) by (auto simp: mempool_index [OF assms(1)])
  then show ?thesis using \<open>map_of _ (txID t) = _\<close> \<open>map_of _ (txID u) = _\<close> by simp
qed

lemma distinct_submset: "mset xs \<subseteq># mset ys \<Longrightarrow> distinct ys \<Longrightarrow> distinct xs"
  by (metis distinct_append ex_mset mset_append mset_eq_imp_distinct_iff mset_subset_eq_exists_conv)

lemma submset_measures:
  fixes f :: "'a \<Rightarrow> nat"
  assumes "mset xs \<subseteq># mset ys"
  shows "length xs \<le> length ys" "(\<Sum>x\<leftarrow>xs. f x) \<le> (\<Sum>x\<leftarrow>ys. f x)" "length (filter P xs) \<le> length (filter P ys)"
proof -
  obtain zs where zs: "mset ys = mset (xs @ zs)"
    using assms by (metis ex_mset mset_append mset_subset_eq_exists_conv)
  show "length xs \<le> length ys" using mset_eq_length [OF zs] by simp
  have "mset (map f ys) = mset (map f (xs @ zs))" "mset (filter P ys) = mset (filter P (xs @ zs))"
    by (simp_all only: mset_map mset_filter zs)
  from arg_cong [OF this(1), of sum_mset] mset_eq_length [OF this(2)]
  show "(\<Sum>x\<leftarrow>xs. f x) \<le> (\<Sum>x\<leftarrow>ys. f x)" "length (filter P xs) \<le> length (filter P ys)"
    by (simp_all add: sum_mset_sum_list del: mset_map mset_filter)
qed

lemma sub_pool_free:
  assumes "mempool_inv m0" "mempool_inv m" "mset (pending m @ [tx]) \<subseteq># mset (pending m0)"
  shows "map_of (mpTransactions m) (txID tx) = None" "map_of (noncesOf m (txFrom tx)) (txNonce tx) = None"
    "tx \<in> set (pending m0)"
proof -
  have sub: "set (pending m @ [tx]) \<subseteq> set (pending m0)" using set_mset_mono [OF assms(3)] by (simp only: set_mset_mset)
  then show in0: "tx \<in> set (pending m0)" by simp
  have d: "distinct (pending m @ [tx])"
    using distinct_submset [OF assms(3)] pending_distinct [OF assms(1)] by (simp only: distinct_map)
  show "map_of (mpTransactions m) (txID tx) = None"
  proof (rule ccontr)
    assume "map_of (mpTransactions m) (txID tx) \<noteq> None"
    then obtain u where "map_of (mpTransactions m) (txID tx) = Some u" by auto
    moreover then have "txID u = txID tx" using assms(2) by (auto simp: mempool_inv_def)
    ultimately have "u \<in> set (pending m)" "txID u = txID tx" by (simp_all add: pending_lookup [OF assms(2)])
    then have "u = tx" using sub in0 pending_distinct [OF assms(1)] by (auto simp: distinct_map inj_on_def)
    with d \<open>u \<in> set (pending m)\<close> show False by simp
  qed
  show "map_of (noncesOf m (txFrom tx)) (txNonce tx) = None"
  proof (rule ccontr)
    assume "map_of (noncesOf m (txFrom tx)) (txNonce tx) \<noteq> None"
    then obtain i u where "map_of (mpTransactions m) i = Some u" "txFrom u = txFrom tx" "txNonce u = txNonce tx"
      using mempool_index [OF assms(2)] by (metis not_None_eq)
    moreover then have "txID u = i" using assms(2) by (auto simp: mempool_inv_def)
    ultimately have "u \<in> set (pending m)" "u = tx"
      using sub in0 pending_nonce_unique [OF assms(1)] by (auto simp: pending_lookup [OF assms(2)])
    with d show False by simp
  qed
qed

lemma AddTransaction_fits:
  assumes "mempool_inv m0" "mempool_inv m" "mset (pending m @ [tx]) \<subseteq># mset (pending m0)"
  shows "\<exists>n. AddTransaction (Some m) (Some tx) = (Some n, Inr ())"
proof -
  note new = sub_pool_free(1) [OF assms] and free = sub_pool_free(2) [OF assms] and in0 = sub_pool_free(3) [OF assms]
  have bounds: "ValidateResourceBounds (Some tx) = Inr ()"
    using assms(1) in0 by (auto simp: pending_lookup [OF assms(1)] mempool_inv_def)
  have "length (pending m @ [tx]) \<le> length (pending m0)" by (rule submset_measures [OF assms(3)])
  then have count: "length (mpTransactions m) < MaxMempoolTransactions"
    using assms(1) by (simp add: pending_def mempool_inv_def)
  have "(\<Sum>t\<leftarrow>pending m @ [tx]. EstimatedSerializedSize (Some t)) \<le> (\<Sum>t\<leftarrow>pending m0. EstimatedSerializedSize (Some t))"
    by (rule submset_measures [OF assms(3)])
  then have bytes: "totalEstimatedBytes m + EstimatedSerializedSize (Some tx) \<le> MaxMempoolBytes"
    using pending_bytes [OF assms(1)] pending_bytes [OF assms(2)] assms(1) by (simp add: mempool_inv_def)
  have "length (filter (\<lambda>t. txFrom t = txFrom tx) (pending m @ [tx])) \<le> length (filter (\<lambda>t. txFrom t = txFrom tx) (pending m0))"
    by (rule submset_measures [OF assms(3)])
  then have room: "length (noncesOf m (txFrom tx)) < MaxMempoolTransactionsPerSender"
    using CountForSender_eq [OF assms(2), of "txFrom tx"] CountForSender_eq [OF assms(1), of "txFrom tx"]
      CountForSender_le [OF assms(1), of "txFrom tx"] by (simp add: CountForSender_def)
  have "checkAdmissionLocked m tx = Inr ()"
    using bounds_ok(1) [OF bounds] new free count bytes room by (simp add: checkAdmissionLocked_def)
  with bounds show ?thesis by (simp add: AddTransaction_def on_object_def Let_def)
qed

lemma restore_all:
  assumes "mempool_inv m0" "mempool_inv pool" "mset (pending pool @ txs) \<subseteq># mset (pending m0)"
  shows "\<exists>pool'. restore pool k txs = (pool', k + length txs, Inr ()) \<and> mempool_inv pool' \<and> pending pool' = pending pool @ txs"
  using assms(2,3)
proof (induction txs arbitrary: pool k)
  case (Cons tx txs)
  have "mset (pending pool @ [tx]) \<subseteq># mset (pending m0)"
    by (rule subset_mset.order_trans [OF _ Cons.prems(2)]) simp
  from AddTransaction_fits [OF assms(1) Cons.prems(1) this] obtain m where
    a: "AddTransaction (Some pool) (Some tx) = (Some m, Inr ())" by blast
  note p = AddTransaction_pending [OF Cons.prems(1) a]
  have "mset (pending m @ txs) \<subseteq># mset (pending m0)" using Cons.prems(2) p(2) by simp
  from Cons.IH [OF p(1) this, of "k + 1"] a p(2) show ?case by simp
qed simp

section \<open>Revalidation of a saved pool\<close>

text \<open>Every pending transaction is still valid after the earlier ones of its sender.\<close>

definition pool_replays :: "crypto \<Rightarrow> state \<Rightarrow> network_id \<Rightarrow> mempool \<Rightarrow> bool" where
  "pool_replays C s net m \<longleftrightarrow> (\<forall>tx\<in>set (pending m). \<not> IsTransactionProcessed s (txID tx) \<and> VerifyForNetwork C tx net
     \<and> ValidateMempoolTransactionFor C (Some s) (map Some (filter (\<lambda>u. txFrom u = txFrom tx \<and> txNonce u < txNonce tx)
         (sort_key tx_order (pending m)))) (Some tx) net = Inr ())"

lemma collectSender_own:
  "\<forall>u\<in>set txs. txID u \<noteq> txID cand \<Longrightarrow>
     collectSender cand found (map Some txs) = collectSender cand found (map Some (filter (\<lambda>u. txFrom u = txFrom cand) txs))"
  by (induction txs arbitrary: found) (auto simp: Let_def)

lemma ValidateMempool_own:
  assumes "\<forall>u\<in>set txs. txID u \<noteq> txID cand"
  shows "ValidateMempoolTransactionFor C sp (map Some txs) (Some cand) net
    = ValidateMempoolTransactionFor C sp (map Some (filter (\<lambda>u. txFrom u = txFrom cand) txs)) (Some cand) net"
  using collectSender_own [OF assms, of "[]"] by (simp only: ValidateMempoolTransactionFor_def option.case)

text \<open>In the saved order, what precedes a transaction of a sender is what has a smaller nonce.\<close>

lemma earlier_of_sender:
  assumes "sorted (map tx_order (pre @ tx # post))" "\<And>t u. t \<in> set (pre @ tx # post) \<Longrightarrow> u \<in> set (pre @ tx # post) \<Longrightarrow>
      txFrom t = txFrom u \<Longrightarrow> txNonce t = txNonce u \<Longrightarrow> t = u" "distinct (pre @ tx # post)"
  shows "filter (\<lambda>u. txFrom u = txFrom tx \<and> txNonce u < txNonce tx) (pre @ tx # post) = filter (\<lambda>u. txFrom u = txFrom tx) pre"
proof -
  have "txNonce u < txNonce tx" if u: "u \<in> set pre" "txFrom u = txFrom tx" for u
  proof -
    have "tx_order u \<le> tx_order tx" using assms(1) u(1) by (auto simp: sorted_append)
    then have "txNonce u \<le> txNonce tx" using u(2) by (auto simp: tx_order_def less_eq_prod_def)
    moreover have "txNonce u \<noteq> txNonce tx" using assms(2) [of u tx] u assms(3) by auto
    ultimately show ?thesis by simp
  qed
  moreover have "\<not> txNonce u < txNonce tx" if u: "u \<in> set post" "txFrom u = txFrom tx" for u
  proof -
    have "tx_order tx \<le> tx_order u" using assms(1) u(1) by (auto simp: sorted_append)
    then show ?thesis using u(2) by (auto simp: tx_order_def less_eq_prod_def)
  qed
  ultimately show ?thesis by (auto intro!: filter_cong simp: filter_empty_conv)
qed

lemma revalidate_saved:
  assumes "mempool_inv m" "pool_replays C s net m" "sort_key tx_order (pending m) = pre @ post"
  shows "revalidate C s net pre k post = (pre @ post, k)"
  using assms(3)
proof (induction post arbitrary: pre)
  case (Cons tx post)
  let ?L = "pre @ tx # post"
  have L: "mset ?L = mset (pending m)" "sorted (map tx_order ?L)" using Cons.prems by (metis mset_sort, metis sorted_sort_key)
  have set: "set ?L = set (pending m)" using mset_eq_setD [OF L(1)] .
  then have tx: "tx \<in> set (pending m)" by auto
  have ids: "distinct (map txID ?L)"
    using pending_distinct [OF assms(1)] L(1) by (metis mset_eq_imp_distinct_iff mset_map)
  then have "distinct ?L" "\<forall>u\<in>set pre. txID u \<noteq> txID tx" by (auto simp: distinct_map rev_image_eqI)
  then have own: "ValidateMempoolTransactionFor C (Some s) (map Some pre) (Some tx) net
      = ValidateMempoolTransactionFor C (Some s) (map Some (filter (\<lambda>u. txFrom u = txFrom tx) pre)) (Some tx) net"
    by (intro ValidateMempool_own)
  from earlier_of_sender [OF L(2) _ \<open>distinct ?L\<close>] pending_nonce_unique [OF assms(1)] set
  have earlier: "filter (\<lambda>u. txFrom u = txFrom tx \<and> txNonce u < txNonce tx) ?L = filter (\<lambda>u. txFrom u = txFrom tx) pre" by metis
  have "ValidateMempoolTransactionFor C (Some s) (map Some (filter (\<lambda>u. txFrom u = txFrom tx \<and> txNonce u < txNonce tx) ?L))
      (Some tx) net = Inr ()"
    using assms(2) tx unfolding pool_replays_def Cons.prems by blast
  then have "ValidateMempoolTransactionFor C (Some s) (map Some pre) (Some tx) net = Inr ()" unfolding own earlier .
  then have "revalidate C s net pre k (tx # post) = revalidate C s net (pre @ [tx]) k post"
    using assms(2) tx by (simp add: pool_replays_def is_ok_def)
  with Cons.IH [of "pre @ [tx]"] Cons.prems show ?case by simp
qed simp

lemma structurallyValid_saved:
  "distinct (map txID txs) \<Longrightarrow> '''' \<notin> txID ` set txs \<Longrightarrow> txID ` set txs \<inter> ids = {} \<Longrightarrow> structurallyValid ids (map Some txs) = (txs, 0)"
  by (induction txs arbitrary: ids) auto

lemma saved_order:
  assumes "mempool_inv m" "visits_all iter"
  shows "sort_key tx_order (AllTransactions iter m) = sort_key tx_order (pending m)"
proof (rule sort_key_unique)
  show m: "mset (AllTransactions iter m) = mset (pending m)"
    using assms(2) by (auto simp: AllTransactions_def pending_def visits_all_def)
  have "inj_on txID (set (pending m))" using pending_distinct [OF assms(1)] by (simp add: distinct_map)
  then show "inj_on tx_order (set (AllTransactions iter m))"
    unfolding mset_eq_setD [OF m] by (simp add: inj_on_def tx_order_def)
qed

lemma LoadMempool_saved:
  assumes "mempool_inv m" "visits_all (envPool E)" "pool_replays (envCrypto E) s (ActiveNetwork n') m" "p \<noteq> ''''"
    and "nodeState n' = Some s" "ReadFile p d = (d', Inr data)" "Unmarshal J data = Inr (mempoolData E n)" "nodeMempool n = m"
  shows "\<exists>pool. LoadMempoolFromFile E J n' p d = (d', n'\<lparr>nodeMempool := pool\<rparr>, length (pending m), 0, Inr ())
    \<and> mempool_inv pool \<and> mset (pending pool) = mset (pending m)"
proof -
  let ?L = "sort_key tx_order (pending m)"
  have ids: "distinct (map txID ?L)" using pending_distinct [OF assms(1)] by (metis mset_eq_imp_distinct_iff mset_map mset_sort)
  have "ValidateResourceBounds (Some tx) = Inr ()" if "tx \<in> set (pending m)" for tx
    using assms(1) that by (auto simp: pending_lookup [OF assms(1)] mempool_inv_def)
  then have "'''' \<notin> txID ` set ?L" using bounds_ok(1) by fastforce
  with ids have kept: "structurallyValid {} (map Some ?L) = (?L, 0)" by (intro structurallyValid_saved) auto
  have valid: "revalidate (envCrypto E) s (ActiveNetwork n') [] 0 ?L = (?L, 0)"
    using revalidate_saved [OF assms(1,3), of "[]" ?L 0] by simp
  obtain pool where pool: "restore NewMempool 0 ?L = (pool, length ?L, Inr ())" "mempool_inv pool" "pending pool = ?L"
    using restore_all [OF assms(1) NewMempool_inv, of ?L 0] by (auto simp: NewMempool_def pending_def)
  have stored: "mempoolData E n = \<lparr>pmVersion = MempoolFileVersion, pmTransactions = map Some ?L\<rparr>"
    unfolding mempoolData_def assms(8) saved_order [OF assms(1,2)] ..
  have "sort_key tx_order ?L = ?L" by (simp add: sort_key_id_if_sorted)
  then have "LoadMempoolFromFile E J n' p d = (d', n'\<lparr>nodeMempool := pool\<rparr>, length (pending m), 0, Inr ())"
    using assms(4-6) by (simp add: LoadMempoolFromFile_def assms(7) stored kept valid pool Clear_inv)
  moreover have "mset (pending pool) = mset (pending m)" by (simp add: pool(3))
  ultimately show ?thesis using pool(2) by blast
qed

section \<open>The save routines as stores\<close>

definition encodedMempool :: "p2p_env \<Rightarrow> persistedMempool json \<Rightarrow> p2p_node option \<Rightarrow> bytes option" where
  "encodedMempool E J nodep = (case nodep of None \<Rightarrow> None
     | Some n \<Rightarrow> (case Marshal J (mempoolData E n) of Inl _ \<Rightarrow> None | Inr bs \<Rightarrow> Some bs))"

definition encodedPeers :: "knownPeerFile json \<Rightarrow> string \<Rightarrow> KnownPeer list \<Rightarrow> bytes option" where
  "encodedPeers J me known = (case normalizeForSave me known of Inl _ \<Rightarrow> None
     | Inr normalized \<Rightarrow> (case Marshal J \<lparr>kfPeers = sort_key kpNodeID normalized\<rparr> of Inl _ \<Rightarrow> None | Inr bs \<Rightarrow> Some bs))"

lemma writeSynced_files:
  assumes "writeSynced t data d = (d', r)"
  shows "evolves (off_target t (files d)) d d'" (is "evolves ?P d d'")
    and "is_ok r \<Longrightarrow> files d' = (files d)(t \<mapsto> data)"
proof -
  have off: "files e q = files d q" if "evolves ?P d e" "q \<noteq> t" for e q using evolves_last [OF that(1)] that(2) by (auto simp: off_target_def)
  have rem: "evolves ?P d (fst (Remove t e))" if "evolves ?P d e" for e
  proof -
    obtain e' x where x: "Remove t e = (e', x)" by fastforce
    then have "evolves ?P e e'" by (rule Remove_evolves) (use off [OF that] in \<open>simp add: off_target_def\<close>)
    with that x show ?thesis by (auto intro: evolves_trans)
  qed
  have call: "evolves ?P d e'" if "evolves ?P d e" "call_only e = (e', x)" for e e' x
    using evolves_trans [OF that(1)] call_only_files [OF that(2)] by blast
  obtain d1 x1 where 1: "OpenTruncate t d = (d1, x1)" by fastforce
  obtain d2 x2 where 2: "FileWrite t data d1 = (d2, x2)" by fastforce
  obtain d3 x3 where 3: "call_only d2 = (d3, x3)" by fastforce
  obtain d4 x4 where 4: "call_only d3 = (d4, x4)" by fastforce
  have e1: "evolves ?P d d1" by (rule write_calls(2) [OF 1]) (simp add: off_target_def)
  have "evolves ?P d1 d2"
    by (rule write_at_evolves [OF 2 [unfolded FileWrite_def]]) (use off [OF e1] in \<open>simp add: off_target_def\<close>)
  with e1 have e2: "evolves ?P d d2" by (rule evolves_trans)
  note e3 = call [OF e2 3] and e4 = call [OF call [OF e2 3] 4]
  have "evolves ?P d (fst (call_only d2))" "evolves ?P d (fst (call_only d3))" using e3 3 e4 4 by simp_all
  with assms 1 2 3 4 e1 e2 e3 e4 rem show "evolves ?P d d'"
    by (auto simp: writeSynced_def Let_def FileSync_def FileClose_def split: sum.splits prod.splits)
  assume ok: "is_ok r"
  then have x: "x1 = Inr ()" "x2 = Inr ()" "d' = d4"
    using assms 1 2 3 4 by (auto simp: writeSynced_def Let_def FileSync_def FileClose_def is_ok_def split: sum.splits prod.splits)
  have "files d1 = (files d)(t \<mapsto> [])" using write_results(3) [OF 1 x(1)] by simp
  moreover have "files d2 = (files d1)(t \<mapsto> goget (files d1) t [] @ data)"
    by (rule write_at_files(1) [OF 2 [unfolded FileWrite_def] x(2)])
  moreover have "files d4 = files d2" using call_only_files [OF 3] call_only_files [OF 4] by metis
  ultimately show "files d' = (files d)(t \<mapsto> data)" using x(3) by (simp add: goget_def)
qed

lemma SaveMempoolToFile_cases:
  assumes "SaveMempoolToFile E J np p d = (d', r)"
  shows "(\<exists>err. r = Inl err) \<and> (\<forall>P. evolves P d d') \<and> files d' = files d
    \<or> (\<exists>d1 data w d2. encodedMempool E J np = Some data \<and> (\<forall>P. evolves P d d1) \<and> files d1 = files d
        \<and> writeSynced (p @ ''.tmp'') data d1 = (d2, w) \<and> (\<not> is_ok w \<longrightarrow> d' = d2 \<and> \<not> is_ok r)
        \<and> (is_ok w \<longrightarrow> removeAndRename (Wrapf ''failed replacing old mempool file: %w'' [])
             (Wrapf ''failed installing mempool file: %w'' []) (p @ ''.tmp'') p d2 = (d', r)))"
  using assms
  by (auto simp: SaveMempoolToFile_def encodedMempool_def MkdirAll_def Let_def split: option.splits if_splits prod.splits sum.splits
      dest: call_only_files)

lemma SaveMempoolToFile_store:
  assumes "SaveMempoolToFile E J np p d = (d', r)"
  shows "evolves (\<lambda>fs. (fs p = files d p \<or> fs p = None \<or> encodedMempool E J np \<noteq> None \<and> fs p = encodedMempool E J np)
      \<and> (\<forall>q. q \<noteq> p \<and> q \<notin> {p @ ''.tmp''} \<longrightarrow> fs q = files d q)) d d'"
    and "is_ok r \<Longrightarrow> encodedMempool E J np \<noteq> None \<and> files d' p = encodedMempool E J np"
  by (rule remove_save [OF SaveMempoolToFile_cases [OF assms] tmp_neq(1) writeSynced_files], assumption+)+

interpretation mempool_file: file_store "SaveMempoolToFile E J np p" p "{p @ ''.tmp''}" "encodedMempool E J np" for E J np p
  by unfold_locales (erule SaveMempoolToFile_store, auto dest: SaveMempoolToFile_store(2) simp: is_ok_def)

lemma SaveKnownPeersToFile_cases:
  assumes "SaveKnownPeersToFile J p me known d = (d', r)"
  shows "(\<exists>err. r = Inl err) \<and> (\<forall>P. evolves P d d') \<and> files d' = files d
    \<or> (\<exists>d1 data w d2. encodedPeers J me known = Some data \<and> (\<forall>P. evolves P d d1) \<and> files d1 = files d
        \<and> WriteFile (p @ ''.tmp'') data d1 = (d2, w) \<and> (\<not> is_ok w \<longrightarrow> d' = d2 \<and> \<not> is_ok r)
        \<and> (is_ok w \<longrightarrow> (\<exists>d3 x. Rename (p @ ''.tmp'') p d2 = (d3, x) \<and> (is_ok r \<longleftrightarrow> x = Inr ())
            \<and> (d' = d3 \<or> x \<noteq> Inr () \<and> d' = fst (Remove (p @ ''.tmp'') d3)))))"
  using assms
  by (auto simp: SaveKnownPeersToFile_def encodedPeers_def Let_def split: if_splits prod.splits sum.splits
      dest: ensure_dir_files)

lemma SaveKnownPeersToFile_store:
  assumes "SaveKnownPeersToFile J p me known d = (d', r)"
  shows "evolves (\<lambda>fs. (fs p = files d p \<or> encodedPeers J me known \<noteq> None \<and> fs p = encodedPeers J me known)
      \<and> (\<forall>q. q \<noteq> p \<and> q \<notin> {p @ ''.tmp''} \<longrightarrow> fs q = files d q)) d d'"
    and "if is_ok r then encodedPeers J me known \<noteq> None \<and> files d' p = encodedPeers J me known else files d' p = files d p"
  by (rule atomic_save [OF SaveKnownPeersToFile_cases [OF assms] tmp_neq(1)])+

interpretation peer_file: atomic_store "SaveKnownPeersToFile J p me known" p "{p @ ''.tmp''}" "encodedPeers J me known"
  for J p me known
proof
  fix d d' r
  assume s: "SaveKnownPeersToFile J p me known d = (d', r)"
  show "evolves (\<lambda>fs. (fs p = files d p \<or> fs p = None \<or> encodedPeers J me known \<noteq> None \<and> fs p = encodedPeers J me known)
      \<and> (\<forall>q. q \<noteq> p \<and> q \<notin> {p @ ''.tmp''} \<longrightarrow> fs q = files d q)) d d'"
    "evolves (\<lambda>fs. fs p = files d p \<or> encodedPeers J me known \<noteq> None \<and> fs p = encodedPeers J me known) d d'"
    by (rule evolves_mono [OF SaveKnownPeersToFile_store(1) [OF s]]; blast)+
qed (use SaveKnownPeersToFile_store(2) in \<open>fastforce simp: is_ok_def\<close>)+

section \<open>Loading any file\<close>

lemma LoadMempool_cases:
  assumes "LoadMempoolFromFile E J n p d = (d', n', loaded, rejected, r)"
  shows "n' = n \<and> loaded = 0 \<and> rejected = 0
    \<or> (\<exists>s stored kept k valid pool. nodeState n = Some s \<and> n' = n\<lparr>nodeMempool := pool\<rparr>
        \<and> structurallyValid {} (pmTransactions stored) = (kept, k)
        \<and> revalidate (envCrypto E) s (ActiveNetwork n) [] k (sort_key tx_order kept) = (valid, rejected)
        \<and> restore NewMempool 0 valid = (pool, loaded, r)
        \<and> (\<exists>data. files d p = Some data \<and> Unmarshal J data = Inr stored))"
proof (cases "ReadFile p d")
  case (Pair d1 x)
  then show ?thesis
    using assms ReadFile_ok [of p d d1] unfolding LoadMempoolFromFile_def Clear_inv Let_def
    by (cases x) (auto split: if_splits option.splits sum.splits prod.splits)
qed

lemma LoadMempool_spec:
  assumes "node_inv E n" "LoadMempoolFromFile E J n p d = (d', n', loaded, rejected, r)"
  shows "node_inv E n' \<and> core (n'\<lparr>nodeMempool := nodeMempool n\<rparr>) = core n \<and> (n' = n \<or>
    (\<exists>data stored. files d p = Some data \<and> Unmarshal J data = Inr stored \<and> loaded = MempoolCount n'
      \<and> Some ` set (pending (nodeMempool n')) \<subseteq> set (pmTransactions stored)
      \<and> (\<forall>tx\<in>set (pending (nodeMempool n')). VerifyForNetwork (envCrypto E) tx (ActiveNetwork n))
      \<and> loaded + rejected \<le> length (pmTransactions stored)
      \<and> (is_ok r \<longrightarrow> loaded + rejected = length (pmTransactions stored))))"
  using LoadMempool_cases [OF assms(2)]
proof (elim disjE exE conjE)
  fix s stored kept k valid pool data
  assume a: "nodeState n = Some s" "n' = n\<lparr>nodeMempool := pool\<rparr>" "structurallyValid {} (pmTransactions stored) = (kept, k)"
    "revalidate (envCrypto E) s (ActiveNetwork n) [] k (sort_key tx_order kept) = (valid, rejected)"
    "restore NewMempool 0 valid = (pool, loaded, r)" "files d p = Some data" "Unmarshal J data = Inr stored"
  note k = structurallyValid_spec [OF a(3)]
  from revalidate_spec [OF a(4)] have v: "subseq valid (sort_key tx_order kept)" "length valid + rejected = length kept + k"
    "\<forall>tx\<in>set valid. \<not> IsTransactionProcessed s (txID tx) \<and> VerifyForNetwork (envCrypto E) tx (ActiveNetwork n)" by auto
  from restore_spec [OF a(5) NewMempool_inv] obtain fit rest where m: "mempool_inv pool" "valid = fit @ rest"
    "pending pool = fit" "loaded = length fit" "is_ok r \<longleftrightarrow> rest = []" by (auto simp: NewMempool_def pending_def)
  have "set valid \<subseteq> set kept" using list_emb_set [OF v(1)] set_sort [of tx_order kept] by blast
  then have "set fit \<subseteq> set kept" using m(2) by simp
  with k have "Some ` set fit \<subseteq> set (pmTransactions stored)" by blast
  moreover have "node_inv E n'"
    using assms(1) a(1,2) m v(3) by (auto simp: node_inv_def ledger_ok_def node_ok_def peer_inv_def group_load_def)
  moreover have "MempoolCount n' = loaded" using m a(2) by (simp add: MempoolCount_def Count_def pending_def flip: length_map [of snd])
  ultimately show ?thesis using a k v m by (auto simp: core_def)
qed (use assms(1) in simp)

section \<open>Properties\<close>



end
