(* ===== verification/GpuPow.thy ===== *)
theory GpuPow
  imports Miner
begin

text \<open>
  The GPU proof of work, package \<open>pow\<close>: the epoch cache (\<open>gpu_pow_v1_cache.go\<close>), dataset
  items (\<open>gpu_pow_v1_dataset.go\<close>), the KISS99 generator, the random program with its register
  permutations (\<open>gpu_pow_v1_rng.go\<close>, \<open>_permutation.go\<close>, \<open>_mix.go\<close>, \<open>_lane.go\<close>,
  \<open>_program_loop.go\<close>, \<open>_reduce.go\<close>, \<open>_group.go\<close>, \<open>_final.go\<close>, \<open>_reference.go\<close>) and the
  verifier that the chain runs on (\<open>chain_verifier.go\<close>).

  Keccak-512 comes from a package outside the repository: it is the argument \<open>K\<close>, any function on
  byte lists. A Go array is a list of its fixed length. A \<open>for\<close> loop over an array that it updates is a
  fold with list updates; every index is reduced modulo the length or comes out of a register
  permutation, and the lemmas below show that these stay in range.
\<close>

section \<open>Little-endian words in byte arrays\<close>

text \<open>\<open>binary.LittleEndian\<close>: \<open>Uint32\<close>, \<open>PutUint32\<close>, \<open>Uint64\<close> and \<open>PutUint64\<close>.\<close>

definition le32 :: "u32 \<Rightarrow> bytes" where
  "le32 w = rev (be32 w)"

definition le64 :: "u64 \<Rightarrow> bytes" where
  "le64 w = rev (be64 w)"

definition le_uint32 :: "bytes \<Rightarrow> u32" where
  "le_uint32 bs = of_nat (be_nat (rev bs))"

definition le_uint64 :: "bytes \<Rightarrow> u64" where
  "le_uint64 bs = of_nat (be_nat (rev bs))"

section \<open>Constants\<close>

definition GPUV1EpochLength :: u64 where
  [go_const]: "GPUV1EpochLength = 7500"

definition GPUV1CacheNodeBytes :: u64 where
  [go_const]: "GPUV1CacheNodeBytes = 64"

definition GPUV1ProductionCacheBytes :: u64 where
  [go_const]: "GPUV1ProductionCacheBytes = push_bit 20 16"

definition GPUV1ProductionCacheNodes :: u32 where
  [go_const]: "GPUV1ProductionCacheNodes = 262144"

definition GPUV1ProgramPeriod :: u64 where
  [go_const]: "GPUV1ProgramPeriod = 3"

definition GPUV1NumRegs :: nat where
  [go_const]: "GPUV1NumRegs = 32"

definition GPUV1NumLanes :: nat where
  [go_const]: "GPUV1NumLanes = 16"

definition GPUV1CacheAccesses :: nat where
  [go_const]: "GPUV1CacheAccesses = 11"

definition GPUV1MathOperations :: nat where
  [go_const]: "GPUV1MathOperations = 18"

definition GPUV1DAGRounds :: nat where
  [go_const]: "GPUV1DAGRounds = 64"

definition gpuV1DAGLoads :: nat where
  [go_const]: "gpuV1DAGLoads = 4"

definition gpuV1CacheRounds :: nat where
  [go_const]: "gpuV1CacheRounds = 3"

definition gpuV1DatasetParents :: nat where
  [go_const]: "gpuV1DatasetParents = 512"

definition gpuV1FNVOffsetBasis :: u32 where
  [go_const]: "gpuV1FNVOffsetBasis = 0x811c9dc5"

definition gpuV1EpochSeedDomain :: bytes where
  "gpuV1EpochSeedDomain = bytes_of ''SUDHARMA-GPU-POW-V1-EPOCH-SEED'' @ [0]"

definition gpuV1ProgramSeedDomain :: bytes where
  "gpuV1ProgramSeedDomain = bytes_of ''SUDHARMA-GPU-POW-V1-PROGRAM-SEED'' @ [0]"

definition gpuV1FinalDigestDomain :: bytes where
  "gpuV1FinalDigestDomain = bytes_of ''SUDHARMA-GPU-POW-V1-FINAL'' @ [0]"

definition gpuV1ReferenceHeaderDomain :: bytes where
  "gpuV1ReferenceHeaderDomain = bytes_of ''SUDHARMA-GPU-POW-V1-REFERENCE-HEADER'' @ [0]"

section \<open>Epochs and seeds\<close>

definition GPUV1EpochForHeight :: "u64 \<Rightarrow> u64" where
  "GPUV1EpochForHeight height = height div GPUV1EpochLength"

definition GPUV1EpochSeed :: "crypto \<Rightarrow> u64 \<Rightarrow> bytes" where
  "GPUV1EpochSeed C epoch = sha256 C (gpuV1EpochSeedDomain @ be64 epoch)"

definition GPUV1ProgramForHeight :: "u64 \<Rightarrow> u64" where
  "GPUV1ProgramForHeight height = height div GPUV1ProgramPeriod"

definition GPUV1ProgramSeed :: "crypto \<Rightarrow> u64 \<Rightarrow> bytes" where
  "GPUV1ProgramSeed C program = sha256 C (gpuV1ProgramSeedDomain @ be64 program)"

section \<open>Arithmetic of the random program\<close>

definition gpuV1RotateLeft32 :: "u32 \<Rightarrow> u32 \<Rightarrow> u32" where
  "gpuV1RotateLeft32 v amount = word_rotl (unat (amount AND 31)) v"

definition gpuV1RotateRight32 :: "u32 \<Rightarrow> u32 \<Rightarrow> u32" where
  "gpuV1RotateRight32 v amount = word_rotr (unat (amount AND 31)) v"

definition gpuV1MulHi32 :: "u32 \<Rightarrow> u32 \<Rightarrow> u32" where
  "gpuV1MulHi32 a b = ucast (drop_bit 32 ((ucast a :: u64) * ucast b))"

text \<open>\<open>bits.LeadingZeros32\<close> and \<open>bits.OnesCount32\<close>.\<close>

definition gpuV1CLZ32 :: "u32 \<Rightarrow> nat" where
  "gpuV1CLZ32 v = length (takeWhile (\<lambda>i. \<not> bit v i) (rev [0..<32]))"

definition gpuV1PopCount32 :: "u32 \<Rightarrow> nat" where
  "gpuV1PopCount32 v = length (filter (bit v) [0..<32])"

definition gpuV1FNV :: "u32 \<Rightarrow> u32 \<Rightarrow> u32" where
  "gpuV1FNV a b = (a * 0x01000193) XOR b"

definition gpuV1FNV1a :: "u32 \<Rightarrow> u32 \<Rightarrow> u32" where
  "gpuV1FNV1a a b = (a XOR b) * 0x01000193"

definition gpuV1RandomMath :: "u32 \<Rightarrow> u32 \<Rightarrow> u32 \<Rightarrow> u32" where
  "gpuV1RandomMath a b selector =
     (let s = selector mod 11 in
      if s = 0 then a + b
      else if s = 1 then a * b
      else if s = 2 then gpuV1MulHi32 a b
      else if s = 3 then (if a < b then a else b)
      else if s = 4 then gpuV1RotateLeft32 a b
      else if s = 5 then gpuV1RotateRight32 a b
      else if s = 6 then a AND b
      else if s = 7 then a OR b
      else if s = 8 then a XOR b
      else if s = 9 then of_nat (gpuV1CLZ32 a + gpuV1CLZ32 b)
      else of_nat (gpuV1PopCount32 a + gpuV1PopCount32 b))"

definition gpuV1RandomMerge :: "u32 \<Rightarrow> u32 \<Rightarrow> u32 \<Rightarrow> u32" where
  "gpuV1RandomMerge a b selector =
     (let x = drop_bit 16 selector mod 31 + 1; s = selector mod 4 in
      if s = 0 then a * 33 + b
      else if s = 1 then (a XOR b) * 33
      else if s = 2 then gpuV1RotateLeft32 a x XOR b
      else gpuV1RotateRight32 a x XOR b)"

section \<open>The KISS99 generator\<close>

record gpuV1KISS99 =
  kissZ :: u32
  kissW :: u32
  kissJsr :: u32
  kissJcong :: u32

definition gpuV1NewKISS99 :: "u32 \<Rightarrow> u32 \<Rightarrow> gpuV1KISS99" where
  "gpuV1NewKISS99 seedLo seedHi =
     (let z = gpuV1FNV1a gpuV1FNVOffsetBasis seedLo;
          w = gpuV1FNV1a z seedHi;
          jsr = gpuV1FNV1a w seedLo;
          jcong = gpuV1FNV1a jsr seedHi
      in \<lparr>kissZ = z, kissW = w, kissJsr = jsr, kissJcong = jcong\<rparr>)"

definition kissNext :: "gpuV1KISS99 \<Rightarrow> u32 \<times> gpuV1KISS99" where
  "kissNext r =
     (let z = 36969 * (kissZ r AND 0xffff) + drop_bit 16 (kissZ r);
          w = 18000 * (kissW r AND 0xffff) + drop_bit 16 (kissW r);
          jcong = 69069 * kissJcong r + 1234567;
          j1 = kissJsr r XOR push_bit 17 (kissJsr r);
          j2 = j1 XOR drop_bit 13 j1;
          jsr = j2 XOR push_bit 5 j2
      in (((push_bit 16 z + w) XOR jcong) + jsr,
          \<lparr>kissZ = z, kissW = w, kissJsr = jsr, kissJcong = jcong\<rparr>))"

section \<open>Register permutations\<close>

definition swap_at :: "nat \<Rightarrow> nat \<Rightarrow> 'a list \<Rightarrow> 'a list" where
  "swap_at i j xs = xs[i := xs ! j, j := xs ! i]"

text \<open>One round of the two interleaved Fisher-Yates shuffles, for the loop index \<open>i\<close>.\<close>

definition shuffleStep ::
  "nat \<Rightarrow> gpuV1KISS99 \<times> u32 list \<times> u32 list \<Rightarrow> gpuV1KISS99 \<times> u32 list \<times> u32 list" where
  "shuffleStep i s =
     (case s of (rng, dst, src) \<Rightarrow>
        (case kissNext rng of (x, rng1) \<Rightarrow>
        (case kissNext rng1 of (y, rng2) \<Rightarrow>
           (rng2, swap_at i (unat (x mod (of_nat i + 1))) dst,
            swap_at i (unat (y mod (of_nat i + 1))) src))))"

definition gpuV1RegisterPermutations :: "u32 \<Rightarrow> u32 \<Rightarrow> u32 list \<times> u32 list" where
  "gpuV1RegisterPermutations seedLo seedHi =
     snd (fold shuffleStep (rev [1..<GPUV1NumRegs])
       (gpuV1NewKISS99 seedLo seedHi, map of_nat [0..<GPUV1NumRegs], map of_nat [0..<GPUV1NumRegs]))"


section \<open>Cache and dataset\<close>

type_synonym GPUV1CacheNode = bytes

text \<open>\<open>copy\<close> of a digest into a zeroed 64-byte array.\<close>

definition gpuV1Keccak512 :: "(bytes \<Rightarrow> bytes) \<Rightarrow> bytes \<Rightarrow> GPUV1CacheNode" where
  "gpuV1Keccak512 K data = take 64 (K data @ replicate 64 0)"

definition gpuV1XORNode :: "GPUV1CacheNode \<Rightarrow> GPUV1CacheNode \<Rightarrow> GPUV1CacheNode" where
  "gpuV1XORNode a b = map (\<lambda>i. a ! i XOR b ! i) [0..<64]"

text \<open>The first loop hashes each node from the one before it; a round of the second loop mixes
  node \<open>i\<close> in place from its predecessor and a node that it selects itself.\<close>

definition fillNode :: "(bytes \<Rightarrow> bytes) \<Rightarrow> nat \<Rightarrow> GPUV1CacheNode list \<Rightarrow> GPUV1CacheNode list" where
  "fillNode K i cache = cache[i := gpuV1Keccak512 K (cache ! (i - 1))]"

definition mixNode :: "(bytes \<Rightarrow> bytes) \<Rightarrow> u32 \<Rightarrow> nat \<Rightarrow> GPUV1CacheNode list \<Rightarrow> GPUV1CacheNode list" where
  "mixNode K nodeCount i cache =
     (let prev = cache ! ((i + length cache - 1) mod length cache);
          v = le_uint32 (take 4 (cache ! i)) mod nodeCount;
          mixed = gpuV1XORNode prev (cache ! unat v)
      in cache[i := gpuV1Keccak512 K mixed])"

definition GPUV1BuildCache :: "(bytes \<Rightarrow> bytes) \<Rightarrow> bytes \<Rightarrow> u32 \<Rightarrow> GPUV1CacheNode list" where
  "GPUV1BuildCache K seed nodeCount =
     (if nodeCount = 0 then []
      else
        (let n = unat nodeCount;
             cache0 = (replicate n (replicate 64 0))[0 := gpuV1Keccak512 K seed];
             cache1 = fold (fillNode K) [1..<n] cache0
         in fold (\<lambda>_ cache. fold (mixNode K nodeCount) [0..<n] cache) [0..<gpuV1CacheRounds] cache1))"

definition gpuV1Word :: "GPUV1CacheNode \<Rightarrow> nat \<Rightarrow> u32" where
  "gpuV1Word node w = le_uint32 (take 4 (drop (4 * w) node))"

definition gpuV1PutWord :: "GPUV1CacheNode \<Rightarrow> nat \<Rightarrow> u32 \<Rightarrow> GPUV1CacheNode" where
  "gpuV1PutWord node w v = take (4 * w) node @ le32 v @ drop (4 * w + 4) node"

definition mixParent ::
  "GPUV1CacheNode list \<Rightarrow> u32 \<Rightarrow> nat \<Rightarrow> GPUV1CacheNode \<Rightarrow> GPUV1CacheNode" where
  "mixParent cache index parent mix =
     (let selector = gpuV1FNV (index XOR of_nat parent) (gpuV1Word mix (parent mod 16));
          parentNode = cache ! unat (selector mod of_nat (length cache))
      in fold (\<lambda>w m. gpuV1PutWord m w (gpuV1FNV (gpuV1Word m w) (gpuV1Word parentNode w))) [0..<16] mix)"

definition GPUV1DatasetItem ::
  "(bytes \<Rightarrow> bytes) \<Rightarrow> GPUV1CacheNode list \<Rightarrow> u32 \<Rightarrow> GPUV1CacheNode" where
  "GPUV1DatasetItem K cache index =
     (if length cache = 0 then replicate 64 0
      else
        (let node = cache ! (unat index mod length cache);
             first = le_uint32 (take 4 node) XOR index;
             mix = gpuV1Keccak512 K (gpuV1PutWord node 0 first)
         in gpuV1Keccak512 K (fold (mixParent cache index) [0..<gpuV1DatasetParents] mix)))"

section \<open>The program of a lane\<close>

definition drawRegister :: "gpuV1KISS99 \<times> u32 list \<Rightarrow> gpuV1KISS99 \<times> u32 list" where
  "drawRegister s = (case s of (rng, mix) \<Rightarrow> case kissNext rng of (x, rng1) \<Rightarrow> (rng1, mix @ [x]))"

definition gpuV1InitLane :: "u64 \<Rightarrow> u32 \<Rightarrow> u32 list" where
  "gpuV1InitLane seed lane =
     (let seedLo = ucast seed; seedHi = ucast (drop_bit 32 seed);
          rng = \<lparr>kissZ = gpuV1FNV1a gpuV1FNVOffsetBasis seedLo,
                 kissW = gpuV1FNV1a gpuV1FNVOffsetBasis seedHi,
                 kissJsr = gpuV1FNV1a gpuV1FNVOffsetBasis lane,
                 kissJcong = gpuV1FNV1a gpuV1FNVOffsetBasis lane\<rparr>
      in snd (fold (\<lambda>_. drawRegister) [0..<GPUV1NumRegs] (rng, [])))"

text \<open>The three inner loops of a round: dataset loads, cache accesses, arithmetic.\<close>

definition mergeInto :: "u32 \<Rightarrow> u32 \<Rightarrow> gpuV1KISS99 \<times> u32 list \<Rightarrow> gpuV1KISS99 \<times> u32 list" where
  "mergeInto dst v s =
     (case s of (rng, mix) \<Rightarrow> case kissNext rng of (x, rng1) \<Rightarrow>
        (rng1, mix[unat dst := gpuV1RandomMerge (mix ! unat dst) v x]))"

definition loadStep ::
  "u32 list \<Rightarrow> GPUV1CacheNode \<Rightarrow> nat \<Rightarrow> nat \<Rightarrow> gpuV1KISS99 \<times> u32 list \<Rightarrow> gpuV1KISS99 \<times> u32 list" where
  "loadStep dstPerm dagItem round load s =
     mergeInto (dstPerm ! ((round * gpuV1DAGLoads + load) mod GPUV1NumRegs)) (gpuV1Word dagItem load) s"

definition accessStep ::
  "u32 list \<Rightarrow> u32 list \<Rightarrow> GPUV1CacheNode list \<Rightarrow> nat \<Rightarrow> nat \<Rightarrow>
   gpuV1KISS99 \<times> u32 list \<Rightarrow> gpuV1KISS99 \<times> u32 list" where
  "accessStep dstPerm srcPerm cache round access s =
     (case s of (rng, mix) \<Rightarrow> case kissNext rng of (x, rng1) \<Rightarrow>
        (let src = srcPerm ! ((round + access) mod GPUV1NumRegs);
             selector = (mix ! unat src) XOR x;
             cacheNode = cache ! unat (selector mod of_nat (length cache));
             cacheWord = gpuV1Word cacheNode (unat (drop_bit 16 selector mod 16))
         in mergeInto (dstPerm ! ((round + gpuV1DAGLoads + access) mod GPUV1NumRegs)) cacheWord (rng1, mix)))"

definition mathStep ::
  "u32 list \<Rightarrow> u32 list \<Rightarrow> nat \<Rightarrow> nat \<Rightarrow> gpuV1KISS99 \<times> u32 list \<Rightarrow> gpuV1KISS99 \<times> u32 list" where
  "mathStep dstPerm srcPerm round op s =
     (case s of (rng, mix) \<Rightarrow> case kissNext rng of (x, rng1) \<Rightarrow>
        (let dst = dstPerm ! ((round + gpuV1DAGLoads + GPUV1CacheAccesses + op) mod GPUV1NumRegs);
             srcA = srcPerm ! ((round + op) mod GPUV1NumRegs);
             srcB = srcPerm ! ((round + op + 1) mod GPUV1NumRegs);
             v = gpuV1RandomMath (mix ! unat srcA) (mix ! unat srcB) x
         in mergeInto dst v (rng1, mix)))"

definition programRound ::
  "(bytes \<Rightarrow> bytes) \<Rightarrow> u32 \<Rightarrow> u32 list \<Rightarrow> u32 list \<Rightarrow> GPUV1CacheNode list \<Rightarrow> nat \<Rightarrow>
   gpuV1KISS99 \<times> u32 list \<Rightarrow> gpuV1KISS99 \<times> u32 list" where
  "programRound K lane dstPerm srcPerm cache round s =
     (case s of (rng, mix) \<Rightarrow> case kissNext rng of (x, rng1) \<Rightarrow>
        (let dagIndex = gpuV1FNV ((mix ! 0) XOR of_nat round) (lane XOR x);
             dagItem = GPUV1DatasetItem K cache dagIndex;
             s1 = fold (loadStep dstPerm dagItem round) [0..<gpuV1DAGLoads] (rng1, mix);
             s2 = fold (accessStep dstPerm srcPerm cache round) [0..<GPUV1CacheAccesses] s1
         in fold (mathStep dstPerm srcPerm round) [0..<GPUV1MathOperations] s2))"

definition gpuV1ProgrammaticLaneMix ::
  "(bytes \<Rightarrow> bytes) \<Rightarrow> u64 \<Rightarrow> u32 \<Rightarrow> bytes \<Rightarrow> GPUV1CacheNode list \<Rightarrow> u32 list" where
  "gpuV1ProgrammaticLaneMix K workSeed lane programSeed cache =
     (let mix = gpuV1InitLane workSeed lane in
      if length cache = 0 then mix
      else
        (let seedLo = le_uint32 (take 4 programSeed);
             seedHi = le_uint32 (take 4 (drop 4 programSeed));
             perms = gpuV1RegisterPermutations seedLo seedHi;
             rng = gpuV1NewKISS99 seedLo seedHi
         in snd (fold (programRound K lane (fst perms) (snd perms) cache) [0..<GPUV1DAGRounds] (rng, mix))))"

section \<open>Reduction and digest\<close>

definition gpuV1ReduceLane :: "u32 list \<Rightarrow> u32" where
  "gpuV1ReduceLane lane = fold (\<lambda>v digest. gpuV1FNV1a digest v) lane gpuV1FNVOffsetBasis"

definition gpuV1ReduceLanes :: "u32 list list \<Rightarrow> u32 list" where
  "gpuV1ReduceLanes lanes =
     fold (\<lambda>lane digest. digest[lane mod 8 := gpuV1FNV1a (digest ! (lane mod 8)) (gpuV1ReduceLane (lanes ! lane))])
       [0..<GPUV1NumLanes] (replicate 8 gpuV1FNVOffsetBasis)"

definition gpuV1ProgrammaticGroupDigest ::
  "(bytes \<Rightarrow> bytes) \<Rightarrow> u64 \<Rightarrow> bytes \<Rightarrow> GPUV1CacheNode list \<Rightarrow> u32 list" where
  "gpuV1ProgrammaticGroupDigest K workSeed programSeed cache =
     gpuV1ReduceLanes
       (map (\<lambda>lane. gpuV1ProgrammaticLaneMix K workSeed (of_nat lane) programSeed cache) [0..<GPUV1NumLanes])"

definition gpuV1FinalizeDigest :: "crypto \<Rightarrow> bytes \<Rightarrow> u32 list \<Rightarrow> bytes" where
  "gpuV1FinalizeDigest C headerDigest mix =
     sha256 C (gpuV1FinalDigestDomain @ headerDigest @ concat (map le32 mix))"

definition GPUV1ReferenceDigest ::
  "crypto \<Rightarrow> (bytes \<Rightarrow> bytes) \<Rightarrow> bytes \<Rightarrow> u64 \<Rightarrow> u64 \<Rightarrow> GPUV1CacheNode list \<Rightarrow> bytes" where
  "GPUV1ReferenceDigest C K headerPrefix nonce height cache =
     (if length cache = 0 then replicate 32 0
      else
        (let headerDigest = sha256 C (gpuV1ReferenceHeaderDomain @ headerPrefix @ le64 nonce);
             workSeed = le_uint64 (take 8 headerDigest);
             programSeed = GPUV1ProgramSeed C (GPUV1ProgramForHeight height);
             mixDigest = gpuV1ProgrammaticGroupDigest K workSeed programSeed cache
         in gpuV1FinalizeDigest C headerDigest mixDigest))"

definition GPUV1HashBlockWithCache ::
  "crypto \<Rightarrow> (bytes \<Rightarrow> bytes) \<Rightarrow> block option \<Rightarrow> u64 \<Rightarrow> GPUV1CacheNode list \<Rightarrow> string" where
  "GPUV1HashBlockWithCache C K blockp nonce cache =
     (case blockp of
        None \<Rightarrow> ''''
      | Some block \<Rightarrow>
          if length cache = 0 then ''''
          else
            (let header = HeaderBytes block 0
             in if length header < 8 then ''''
                else hex_encode (GPUV1ReferenceDigest C K (take (length header - 8) header) nonce
                       (blkHeight block) cache)))"

definition GPUV1CheckBlockWithCache ::
  "crypto \<Rightarrow> (bytes \<Rightarrow> bytes) \<Rightarrow> block option \<Rightarrow> GPUV1CacheNode list \<Rightarrow> bool" where
  "GPUV1CheckBlockWithCache C K blockp cache =
     (case blockp of
        None \<Rightarrow> False
      | Some block \<Rightarrow>
          if blkVersion block \<noteq> 2 \<or> blkDifficulty block = 0 \<or> length cache = 0 then False
          else
            (let hash = GPUV1HashBlockWithCache C K (Some block) (blkNonce block) cache
             in hash \<noteq> '''' \<and> ValidHash hash (blkDifficulty block)))"

section \<open>The verifier of the chain\<close>

record chainProofVerifier =
  cvPolicy :: pow_policy
  cacheNodeCount :: u32
  cacheSet :: bool
  cacheEpoch :: u64
  verifierCache :: "GPUV1CacheNode list"

definition newChainProofVerifier :: "pow_policy \<Rightarrow> u32 \<Rightarrow> chainProofVerifier result" where
  "newChainProofVerifier policy nodeCount =
     (if nodeCount = 0 then Inl ZeroCacheNodes
      else Inr \<lparr>cvPolicy = policy, cacheNodeCount = nodeCount, cacheSet = False, cacheEpoch = 0,
             verifierCache = []\<rparr>)"

definition NewChainProofVerifier :: "pow_policy \<Rightarrow> chainProofVerifier result" where
  "NewChainProofVerifier policy = newChainProofVerifier policy GPUV1ProductionCacheNodes"

definition verifierSupportsVersion :: "chainProofVerifier option \<Rightarrow> u32 \<Rightarrow> bool" where
  "verifierSupportsVersion vp version \<longleftrightarrow> vp \<noteq> None \<and> (version = 1 \<or> version = 2)"

definition cacheForHeight ::
  "crypto \<Rightarrow> (bytes \<Rightarrow> bytes) \<Rightarrow> chainProofVerifier option \<Rightarrow> u64 \<Rightarrow>
   chainProofVerifier option \<times> GPUV1CacheNode list" where
  "cacheForHeight C K vp height =
     (case vp of
        None \<Rightarrow> (None, [])
      | Some v \<Rightarrow>
          if cacheNodeCount v = 0 then (Some v, [])
          else
            (let epoch = GPUV1EpochForHeight height in
             if \<not> cacheSet v \<or> cacheEpoch v \<noteq> epoch then
               (let cache = GPUV1BuildCache K (GPUV1EpochSeed C epoch) (cacheNodeCount v);
                    v1 = v\<lparr>verifierCache := cache\<rparr>
                in if length cache = 0 then (Some (v1\<lparr>cacheSet := False\<rparr>), [])
                   else (Some (v1\<lparr>cacheEpoch := epoch, cacheSet := True\<rparr>), cache))
             else (Some v, verifierCache v)))"

definition verifierVerify ::
  "crypto \<Rightarrow> (bytes \<Rightarrow> bytes) \<Rightarrow> chainProofVerifier option \<Rightarrow> block option \<Rightarrow>
   chainProofVerifier option \<times> bool" where
  "verifierVerify C K vp blockp =
     (case (vp, blockp) of
        (Some v, Some block) \<Rightarrow>
          if \<not> VersionAllowed (cvPolicy v) (blkVersion block) (blkHeight block) then (vp, False)
          else if blkVersion block = 1 then (vp, CheckBlock C block)
          else if blkVersion block = 2 then
            (case cacheForHeight C K vp (blkHeight block) of
               (vp1, cache) \<Rightarrow> (vp1, GPUV1CheckBlockWithCache C K (Some block) cache))
          else (vp, False)
      | _ \<Rightarrow> (vp, False))"

definition cachedEpochCount :: "chainProofVerifier option \<Rightarrow> nat" where
  "cachedEpochCount vp = (case vp of None \<Rightarrow> 0 | Some v \<Rightarrow> if \<not> cacheSet v then 0 else 1)"


section \<open>Shapes of the arrays\<close>

lemma length_le32 [simp]: "length (le32 w) = 4"
  by (simp add: le32_def)

lemma length_le64 [simp]: "length (le64 w) = 8"
  by (simp add: le64_def)

lemma length_gpuV1Keccak512 [simp]: "length (gpuV1Keccak512 K x) = 64"
  by (simp add: gpuV1Keccak512_def)

lemma length_gpuV1PutWord [simp]:
  "length node = 64 \<Longrightarrow> w < 16 \<Longrightarrow> length (gpuV1PutWord node w v) = 64"
  by (simp add: gpuV1PutWord_def)

text \<open>A cache of \<open>n\<close> nodes of 64 bytes.\<close>

definition cache_shape :: "nat \<Rightarrow> GPUV1CacheNode list \<Rightarrow> bool" where
  "cache_shape n cache \<longleftrightarrow> length cache = n \<and> (\<forall>node\<in>set cache. length node = 64)"

lemma cache_shape_update [simp]:
  "cache_shape n cache \<Longrightarrow> length node = 64 \<Longrightarrow> cache_shape n (cache[i := node])"
  using set_update_subset_insert [of cache i node] by (auto simp: cache_shape_def)

lemma cache_shape_fold:
  "(\<And>i cache. i \<in> set is \<Longrightarrow> cache_shape n cache \<Longrightarrow> cache_shape n (f i cache)) \<Longrightarrow>
   cache_shape n cache \<Longrightarrow> cache_shape n (fold f is cache)"
  by (induction "is" arbitrary: cache) auto

lemma GPUV1BuildCache_shape: "cache_shape (unat nodeCount) (GPUV1BuildCache K seed nodeCount)"
proof (cases "nodeCount = 0")
  case True
  then show ?thesis by (simp add: GPUV1BuildCache_def cache_shape_def)
next
  case False
  have "cache_shape (unat nodeCount) (replicate (unat nodeCount) (replicate 64 0))"
    by (simp add: cache_shape_def)
  with False show ?thesis
    unfolding GPUV1BuildCache_def Let_def
    by (auto intro!: cache_shape_fold simp: mixNode_def fillNode_def Let_def)
qed

lemma GPUV1BuildCache_empty_iff: "GPUV1BuildCache K seed nodeCount = [] \<longleftrightarrow> nodeCount = 0"
  using GPUV1BuildCache_shape [of nodeCount K seed] by (auto simp: cache_shape_def unat_eq_0)

text \<open>Every node that the cache and dataset loops read lies in the cache.\<close>

lemma selector_in_range:
  assumes "cache_shape n cache" "0 < n" "n < 2 ^ 32"
  shows "unat (selector mod (of_nat (length cache) :: u32)) < length cache"
  using assms by (simp add: cache_shape_def unat_mod unat_of_nat)

section \<open>Register permutations\<close>

lemma mset_swap_at [simp]:
  "i < length xs \<Longrightarrow> j < length xs \<Longrightarrow> mset (swap_at i j xs) = mset xs"
  by (simp add: swap_at_def mset_swap)

lemma length_swap_at [simp]: "length (swap_at i j xs) = length xs"
  by (simp add: swap_at_def)

lemma shuffle_index: "i < 2 ^ 31 \<Longrightarrow> unat (x mod (of_nat i + 1 :: u32)) < Suc i"
proof -
  assume "i < 2 ^ 31"
  then have "unat (of_nat i + 1 :: u32) = Suc i"
    by (simp add: unat_word_ariths unat_of_nat)
  then show ?thesis by (simp add: unat_mod)
qed

lemma shuffleStep_mset:
  assumes "shuffleStep i (rng, dst, src) = (rng', dst', src')"
    and "i < length dst" "length src = length dst" "i < 2 ^ 31"
  shows "mset dst' = mset dst \<and> mset src' = mset src"
proof -
  have "unat (x mod (of_nat i + 1 :: u32)) < length dst" for x
    using shuffle_index [OF assms(4), of x] assms(2) by simp
  with assms show ?thesis by (auto simp: shuffleStep_def split: prod.splits)
qed

lemma shuffle_fold_mset:
  "fold shuffleStep is (rng, dst, src) = (rng', dst', src') \<Longrightarrow>
   \<forall>i\<in>set is. i < length dst \<and> i < 2 ^ 31 \<Longrightarrow> length src = length dst \<Longrightarrow>
   mset dst' = mset dst \<and> mset src' = mset src"
proof (induction "is" arbitrary: rng dst src)
  case (Cons i "is")
  obtain r1 d1 s1 where step: "shuffleStep i (rng, dst, src) = (r1, d1, s1)"
    by (cases "shuffleStep i (rng, dst, src)") auto
  from shuffleStep_mset [OF this] Cons.prems have m: "mset d1 = mset dst" "mset s1 = mset src" by auto
  then have "length d1 = length dst" "length s1 = length src" by (metis size_mset)+
  with Cons.IH [of r1 d1 s1] Cons.prems step m show ?case by simp
qed simp

lemma gpuV1RegisterPermutations_mset:
  assumes "gpuV1RegisterPermutations lo hi = (dst, src)"
  shows "mset dst = mset (map of_nat [0..<32])" "mset src = mset (map of_nat [0..<32])"
proof -
  obtain rng where "fold shuffleStep (rev [1..<32])
      (gpuV1NewKISS99 lo hi, map of_nat [0..<32], map of_nat [0..<32]) = (rng, dst, src)"
    using assms by (auto simp: gpuV1RegisterPermutations_def GPUV1NumRegs_def snd_def split: prod.splits)
  from shuffle_fold_mset [OF this] show "mset dst = mset (map of_nat [0..<32])"
    "mset src = mset (map of_nat [0..<32])" by auto
qed

lemma permutation_entries:
  assumes "mset (p :: u32 list) = mset (map of_nat [0..<32])"
  shows "length p = 32" "\<forall>r\<in>set p. unat r < 32" "distinct (map unat p)"
proof -
  have m: "mset (map unat p) = mset [0..<32]"
  proof -
    have "mset (map unat p) = image_mset unat (mset (map (of_nat :: nat \<Rightarrow> u32) [0..<32]))"
      using assms by simp
    also have "\<dots> = mset (map (unat \<circ> (of_nat :: nat \<Rightarrow> u32)) [0..<32])"
      by (simp add: multiset.map_comp)
    also have "map (unat \<circ> (of_nat :: nat \<Rightarrow> u32)) [0..<32] = [0..<32]"
      by (rule map_idI) (simp add: unat_of_nat)
    finally show ?thesis .
  qed
  from arg_cong [OF m, of size] show "length p = 32" by simp
  from m show "distinct (map unat p)" by (metis distinct_upt mset_eq_imp_distinct_iff)
  from m have "set (map unat p) = {0..<32}" by (metis mset_eq_setD set_upt)
  then show "\<forall>r\<in>set p. unat r < 32" by auto
qed

section \<open>Merging keeps entropy\<close>

lemma mult_33_inj: "a * 33 = b * 33 \<Longrightarrow> a = b" for a b :: u32
proof -
  assume "a * 33 = b * 33"
  then have "(a * 33) * 1041204193 = (b * 33) * 1041204193" by (rule arg_cong)
  then have "a * (33 * 1041204193) = b * (33 * 1041204193)" by (simp only: mult.assoc)
  moreover have "(33 :: u32) * 1041204193 = 1" by simp
  ultimately show ?thesis by (simp only: mult_1_right)
qed

lemma rotate_inj:
  "gpuV1RotateLeft32 a x = gpuV1RotateLeft32 b x \<Longrightarrow> a = b"
  "gpuV1RotateRight32 a x = gpuV1RotateRight32 b x \<Longrightarrow> a = b"
  unfolding gpuV1RotateLeft32_def gpuV1RotateRight32_def
  by (metis word_rot_gal' word_rot_gal)+

lemma xor_right_cancel: "a XOR c = b XOR c \<longleftrightarrow> a = b" for a b c :: "'a :: len word"
  by (metis xor.assoc xor_self_eq xor.right_neutral)

lemma xor_left_cancel: "c XOR a = c XOR b \<longleftrightarrow> a = b" for a b c :: "'a :: len word"
  by (metis xor.commute xor_right_cancel)


lemma gpuV1RandomMerge_inj:
  "gpuV1RandomMerge a b s = gpuV1RandomMerge a' b s \<Longrightarrow> a = a'"
  "gpuV1RandomMerge a b s = gpuV1RandomMerge a b' s \<Longrightarrow> b = b'"
  unfolding gpuV1RandomMerge_def Let_def
  by (auto dest!: mult_33_inj rotate_inj simp: xor_right_cancel xor_left_cancel split: if_splits)

section \<open>The lane state\<close>

lemma length_mergeInto [simp]: "length (snd (mergeInto d v s)) = length (snd s)"
  by (auto simp: mergeInto_def split: prod.splits)

lemma fold_keeps_length:
  "(\<And>i s. length (snd (f i s)) = length (snd s)) \<Longrightarrow> length (snd (fold f is s)) = length (snd s)"
  by (induction "is" arbitrary: s) auto

lemma length_loadStep [simp]: "length (snd (loadStep p d r i s)) = length (snd s)"
  by (simp add: loadStep_def)

lemma length_accessStep [simp]: "length (snd (accessStep p q c r i s)) = length (snd s)"
  by (auto simp: accessStep_def Let_def split: prod.splits)

lemma length_mathStep [simp]: "length (snd (mathStep p q r i s)) = length (snd s)"
  by (auto simp: mathStep_def Let_def split: prod.splits)

lemma length_programRound [simp]: "length (snd (programRound K l p q c r s)) = length (snd s)"
  by (auto simp: programRound_def Let_def fold_keeps_length split: prod.splits)

lemma drawRegister_fold: "length (snd (fold (\<lambda>_. drawRegister) is s)) = length is + length (snd s)"
  by (induction "is" arbitrary: s) (auto simp: drawRegister_def split: prod.splits)

lemma length_gpuV1InitLane [simp]: "length (gpuV1InitLane seed lane) = 32"
  by (simp add: gpuV1InitLane_def Let_def drawRegister_fold GPUV1NumRegs_def)

lemma length_gpuV1ProgrammaticLaneMix [simp]:
  "length (gpuV1ProgrammaticLaneMix K w l s c) = 32"
  by (simp add: gpuV1ProgrammaticLaneMix_def Let_def fold_keeps_length)

section \<open>The stateless verifier\<close>

text \<open>What the verifier decides, with the cache of the epoch built afresh for every block.\<close>

definition khushiVerifier :: "crypto \<Rightarrow> (bytes \<Rightarrow> bytes) \<Rightarrow> pow_policy \<Rightarrow> u32 \<Rightarrow> proof_verifier" where
  "khushiVerifier C K policy nodeCount =
     \<lparr>SupportsVersion = (\<lambda>version. version = 1 \<or> version = 2),
      VerifyProof = (\<lambda>blockp. case blockp of
          None \<Rightarrow> False
        | Some block \<Rightarrow> VersionAllowed policy (blkVersion block) (blkHeight block) \<and>
            (if blkVersion block = 1 then CheckBlock C block
             else GPUV1CheckBlockWithCache C K (Some block)
               (GPUV1BuildCache K (GPUV1EpochSeed C (GPUV1EpochForHeight (blkHeight block))) nodeCount)))\<rparr>"

lemma VersionAllowed_versions: "VersionAllowed p v h \<Longrightarrow> v = 1 \<or> v = 2"
  by (metis VersionAllowed_def)

interpretation khushi: proof_system "khushiVerifier C K p n" for C K p n
proof
  show "\<not> VerifyProof (khushiVerifier C K p n) None" by (simp add: khushiVerifier_def)
next
  fix b
  assume v: "VerifyProof (khushiVerifier C K p n) (Some b)"
  then have "VersionAllowed p (blkVersion b) (blkHeight b)" by (simp add: khushiVerifier_def)
  then show "SupportsVersion (khushiVerifier C K p n) (blkVersion b)"
    using VersionAllowed_versions by (simp add: khushiVerifier_def)
  have "CheckBlock C b \<or> (\<exists>c. GPUV1CheckBlockWithCache C K (Some b) c)"
    using v by (auto simp: khushiVerifier_def split: if_splits)
  then show "blkDifficulty b \<noteq> 0"
    by (cases "blkDifficulty b = 0") (simp_all add: CheckBlock_def ValidHash_def GPUV1CheckBlockWithCache_def)
qed

section \<open>The retained cache\<close>

definition verifier_inv :: "crypto \<Rightarrow> (bytes \<Rightarrow> bytes) \<Rightarrow> pow_policy \<Rightarrow> u32 \<Rightarrow> chainProofVerifier \<Rightarrow> bool" where
  "verifier_inv C K policy n v \<longleftrightarrow>
     cvPolicy v = policy \<and> cacheNodeCount v = n \<and> n \<noteq> 0 \<and>
     (cacheSet v \<longrightarrow> verifierCache v = GPUV1BuildCache K (GPUV1EpochSeed C (cacheEpoch v)) n)"

lemma cacheForHeight_inv:
  assumes "verifier_inv C K p n v"
  shows "\<exists>v'. cacheForHeight C K (Some v) h
      = (Some v', GPUV1BuildCache K (GPUV1EpochSeed C (GPUV1EpochForHeight h)) n) \<and> verifier_inv C K p n v'"
  using assms
  by (auto simp: cacheForHeight_def verifier_inv_def Let_def GPUV1BuildCache_empty_iff)

lemma verifierVerify_inv:
  assumes "verifier_inv C K p n v"
  shows "\<exists>v'. verifierVerify C K (Some v) bp = (Some v', VerifyProof (khushiVerifier C K p n) bp)
      \<and> verifier_inv C K p n v'
      \<and> (GPUV1ActivationHeight p = GPUV1ActivationDisabled \<longrightarrow> cacheSet v' = cacheSet v)"
proof (cases bp)
  case None
  with assms show ?thesis by (simp add: verifierVerify_def khushiVerifier_def)
next
  case (Some b)
  have p: "cvPolicy v = p" using assms by (simp add: verifier_inv_def)
  show ?thesis
  proof (cases "VersionAllowed p (blkVersion b) (blkHeight b) \<and> blkVersion b = 2")
    case True
    then have "GPUV1ActivationHeight p \<noteq> GPUV1ActivationDisabled"
      by (auto simp: VersionAllowed_def)
    with cacheForHeight_inv [OF assms, of "blkHeight b"] True Some p show ?thesis
      by (auto simp: verifierVerify_def khushiVerifier_def)
  next
    case False
    with assms Some p VersionAllowed_versions [of p "blkVersion b" "blkHeight b"] show ?thesis
      by (auto simp: verifierVerify_def khushiVerifier_def)
  qed
qed

text \<open>A verifier in use: it checks one block after the other.\<close>

fun verifySequence ::
  "crypto \<Rightarrow> (bytes \<Rightarrow> bytes) \<Rightarrow> chainProofVerifier option \<Rightarrow> block option list \<Rightarrow>
   chainProofVerifier option \<times> bool list" where
  "verifySequence C K vp [] = (vp, [])"
| "verifySequence C K vp (bp # bps) =
     (case verifierVerify C K vp bp of (vp1, r) \<Rightarrow>
        case verifySequence C K vp1 bps of (vp2, rs) \<Rightarrow> (vp2, r # rs))"

lemma verifySequence_inv:
  "verifier_inv C K p n v \<Longrightarrow>
   \<exists>v'. verifySequence C K (Some v) bps = (Some v', map (VerifyProof (khushiVerifier C K p n)) bps)
      \<and> verifier_inv C K p n v'
      \<and> (GPUV1ActivationHeight p = GPUV1ActivationDisabled \<longrightarrow> cacheSet v' = cacheSet v)"
proof (induction bps arbitrary: v)
  case (Cons bp bps)
  from verifierVerify_inv [OF Cons.prems, of bp] obtain v1 where
    "verifierVerify C K (Some v) bp = (Some v1, VerifyProof (khushiVerifier C K p n) bp)"
    "verifier_inv C K p n v1"
    "GPUV1ActivationHeight p = GPUV1ActivationDisabled \<longrightarrow> cacheSet v1 = cacheSet v" by blast
  with Cons.IH [of v1] show ?case by auto
qed simp

section \<open>What a GPU digest binds\<close>

definition reference_input :: "block \<Rightarrow> u64 \<Rightarrow> bytes" where
  "reference_input b nonce =
     gpuV1ReferenceHeaderDomain @ take (length (HeaderBytes b 0) - 8) (HeaderBytes b 0) @ le64 nonce"

definition final_input :: "crypto \<Rightarrow> (bytes \<Rightarrow> bytes) \<Rightarrow> block \<Rightarrow> u64 \<Rightarrow> GPUV1CacheNode list \<Rightarrow> bytes" where
  "final_input C K b nonce cache =
     (let headerDigest = sha256 C (reference_input b nonce)
      in gpuV1FinalDigestDomain @ headerDigest @
            concat (map le32 (gpuV1ProgrammaticGroupDigest K (le_uint64 (take 8 headerDigest))
              (GPUV1ProgramSeed C (GPUV1ProgramForHeight (blkHeight b))) cache)))"

text \<open>The two inputs hashed for the digest of a block.\<close>

definition gpu_inputs :: "crypto \<Rightarrow> (bytes \<Rightarrow> bytes) \<Rightarrow> block \<Rightarrow> u64 \<Rightarrow> GPUV1CacheNode list \<Rightarrow> bytes set" where
  "gpu_inputs C K b nonce cache = {reference_input b nonce, final_input C K b nonce cache}"

lemma HeaderBytes_prefix:
  "HeaderBytes b n = take (length (HeaderBytes b 0) - 8) (HeaderBytes b 0) @ be64 n"
  by (simp add: HeaderBytes_def)

lemma GPUV1HashBlockWithCache_eq:
  assumes "cache \<noteq> []"
  shows "GPUV1HashBlockWithCache C K (Some b) n cache = hex_encode (sha256 C (final_input C K b n cache))"
proof -
  have "8 \<le> length (HeaderBytes b 0)" by (simp add: HeaderBytes_def)
  with assms show ?thesis
    by (simp add: GPUV1HashBlockWithCache_def GPUV1ReferenceDigest_def reference_input_def
        final_input_def gpuV1FinalizeDigest_def Let_def del: append_assoc)
qed

lemma gpu_hash_inputs_eq:
  assumes size: "hash_size_ok C"
    and free: "inj_on (sha256 C) (gpu_inputs C K a m c \<union> gpu_inputs C K b n d)"
    and cache: "c \<noteq> []" "d \<noteq> []"
    and eq: "GPUV1HashBlockWithCache C K (Some a) m c = GPUV1HashBlockWithCache C K (Some b) n d"
  shows "HeaderBytes a m = HeaderBytes b n"
proof -
  have "sha256 C (final_input C K a m c) = sha256 C (final_input C K b n d)"
    using eq cache by (simp add: GPUV1HashBlockWithCache_eq)
  from inj_onD [OF free this] have "final_input C K a m c = final_input C K b n d"
    by (simp add: gpu_inputs_def)
  moreover have "length (sha256 C (reference_input a m)) = length (sha256 C (reference_input b n))"
    using size by (simp add: hash_size_ok_def)
  ultimately have "sha256 C (reference_input a m) = sha256 C (reference_input b n)"
    by (simp add: final_input_def Let_def)
  from inj_onD [OF free this] have "reference_input a m = reference_input b n"
    by (simp add: gpu_inputs_def)
  then have "take (length (HeaderBytes a 0) - 8) (HeaderBytes a 0) = take (length (HeaderBytes b 0) - 8) (HeaderBytes b 0)
      \<and> be64 m = be64 n"
    by (simp add: reference_input_def le64_def)
  then show ?thesis using HeaderBytes_prefix [of a m] HeaderBytes_prefix [of b n] by simp
qed


section \<open>Reference vector\<close>

text \<open>The first published outputs of KISS99, as in the interoperability tests.\<close>

lemma kissNext_reference_vector:
  "(let (a, r) = kissNext \<lparr>kissZ = 362436069, kissW = 521288629, kissJsr = 123456789, kissJcong = 380116160\<rparr>;
        (b, r) = kissNext r; (c, r) = kissNext r
    in [a, b, c]) = [769445856, 742012328, 2121196314]"
  by code_simp

section \<open>Small instances\<close>

definition small_keccak :: "bytes \<Rightarrow> bytes" where
  "small_keccak x = small_digest x @ small_digest x"

definition small_verifier :: chainProofVerifier where
  "small_verifier = \<lparr>cvPolicy = \<lparr>GPUV1ActivationHeight = 0\<rparr>, cacheNodeCount = 2, cacheSet = False,
     cacheEpoch = 0, verifierCache = []\<rparr>"

text \<open>A 32-byte digest that keeps byte 20, which tells the two domains apart, and the 31 bytes from
  offset 26 on.\<close>

definition small_window :: "bytes \<Rightarrow> bytes" where
  "small_window x = (x @ replicate 21 0) ! 20 # take 31 (drop 26 x @ replicate 31 0)"

lemma length_small_window [simp]: "length (small_window x) = 32"
  by (simp add: small_window_def)

definition small_window_crypto :: crypto where
  "small_window_crypto = small_crypto\<lparr>sha256 := small_window\<rparr>"

text \<open>Two headers that differ in their height do not collide.\<close>

lemma small_window_reference:
  "small_window (reference_input b m) ! 0 = 82"
  "take 8 (drop 16 (small_window (reference_input b m))) = be64 (blkHeight b)"
  by (simp_all add: small_window_def reference_input_def gpuV1ReferenceHeaderDomain_def HeaderBytes_def
      bytes_of_def nth_append)

lemma small_window_final:
  "small_window (final_input small_window_crypto K b m c) ! 0 = 70"
  "take 8 (drop 17 (small_window (final_input small_window_crypto K b m c))) = be64 (blkHeight b)"
proof -
  let ?h = "small_window (reference_input b m)"
  obtain t where f: "final_input small_window_crypto K b m c = gpuV1FinalDigestDomain @ ?h @ t"
    by (simp add: final_input_def Let_def small_window_crypto_def)
  show "small_window (final_input small_window_crypto K b m c) ! 0 = 70"
    by (simp add: f small_window_def gpuV1FinalDigestDomain_def bytes_of_def)
  have "length gpuV1FinalDigestDomain = 26" by (simp add: gpuV1FinalDigestDomain_def)
  then have "drop 17 (small_window (gpuV1FinalDigestDomain @ g @ t)) = drop 16 (take 31 g)"
    if "length g = 32" for g
    using that by (simp add: small_window_def)
  then have "drop 17 (small_window (gpuV1FinalDigestDomain @ ?h @ t)) = drop 16 (take 31 ?h)" by simp
  then have "take 8 (drop 17 (small_window (final_input small_window_crypto K b m c)))
      = take 8 (drop 16 ?h)"
    by (simp add: f drop_take)
  then show "take 8 (drop 17 (small_window (final_input small_window_crypto K b m c))) = be64 (blkHeight b)"
    by (simp add: small_window_reference)
qed

lemma small_window_inj:
  assumes "blkHeight a \<noteq> blkHeight b"
  shows "inj_on (sha256 small_window_crypto)
    (gpu_inputs small_window_crypto K a m c \<union> gpu_inputs small_window_crypto K b n d)"
proof -
  have "small_window (reference_input a m) \<noteq> small_window (reference_input b n)"
    using assms small_window_reference(2) [of a m] small_window_reference(2) [of b n] by auto
  moreover have "small_window (final_input small_window_crypto K a m c)
      \<noteq> small_window (final_input small_window_crypto K b n d)"
    using assms small_window_final(2) [of K a m c] small_window_final(2) [of K b n d] by auto
  moreover have "small_window (reference_input x i) \<noteq> small_window (final_input small_window_crypto K y j e)"
    for x y i j e
    using small_window_reference(1) [of x i] small_window_final(1) [of K y j e] by auto
  moreover have "sha256 small_window_crypto = small_window" by (simp add: small_window_crypto_def)
  ultimately show ?thesis unfolding inj_on_def gpu_inputs_def by (metis UnE insertE singletonD)
qed

definition small_khushi_chain :: "block list \<Rightarrow> chain" where
  "small_khushi_chain bs = \<lparr>network = NetworkPublicTestnet, blocks = bs, totalWork = work_sum bs,
     powPolicy = \<lparr>GPUV1ActivationHeight = 2\<rparr>,
     proofVerifier = Some (khushiVerifier small_crypto small_keccak \<lparr>GPUV1ActivationHeight = 2\<rparr> 2)\<rparr>"

lemma small_khushi_history:
  "chain_history small_crypto (small_khushi_chain [NewGenesisBlock, small_block 7 NewGenesisBlock])"
proof -
  let ?b = "small_block 7 NewGenesisBlock"
  have start: "newChainFromGenesisForNetworkWithConsensus small_crypto NetworkPublicTestnet
      (Some NewGenesisBlock) \<lparr>GPUV1ActivationHeight = 2\<rparr>
      (Some (khushiVerifier small_crypto small_keccak \<lparr>GPUV1ActivationHeight = 2\<rparr> 2))
      = Inr (small_khushi_chain [NewGenesisBlock])"
    by (simp add: newChainFromGenesisForNetworkWithConsensus_def MonetaryPolicyFor_def khushiVerifier_def
        VersionAllowed_def expectedGenesis_def small_khushi_chain_def work_sum_def GenesisFor_def
        GPUV1ActivationDisabled_def)
  have check: "CheckBlock small_crypto ?b"
    using ValidHash_iff [of small_crypto ?b "blkNonce ?b"] small_hash_in_target [of ?b]
    by (simp add: CheckBlock_def Let_def small_block_def UpdateMerkleRoot_def)
  have version: "VersionAllowed \<lparr>GPUV1ActivationHeight = 2\<rparr> 1 1"
    by (simp add: VersionAllowed_def GPUV1ActivationDisabled_def)
  have fields: "blkVersion ?b = 1" "blkHeight ?b = 1" "blkTimestamp ?b = 1786924860"
    by (simp_all add: small_block_def UpdateMerkleRoot_def)
  have "extends small_crypto \<lparr>GPUV1ActivationHeight = 2\<rparr>
      (khushiVerifier small_crypto small_keccak \<lparr>GPUV1ActivationHeight = 2\<rparr> 2) [NewGenesisBlock] ?b"
    using small_block_extends [of 7] check version fields unfolding extends_def
    by (simp add: khushiVerifier_def)
  then have "AddBlock small_crypto 1786924860 (small_khushi_chain [NewGenesisBlock]) (Some ?b)
      = (small_khushi_chain [NewGenesisBlock, ?b], Inr ())"
    unfolding AddBlock_ok_iff
    using fields by (simp add: small_khushi_chain_def work_sum_def wrap64_def go_const)
  then show ?thesis using start chain_history.start chain_history.step by blast
qed

section \<open>Properties\<close>

text \<open>The register schedules of the random program are permutations of the 32 registers for
  every program seed, so that every register access of a lane is in range and every register is
  written; a lane state keeps its 32 registers.\<close>

theorem register_schedule_permutes:
  "(let (dst, src) = gpuV1RegisterPermutations seedLo seedHi
    in (\<forall>p\<in>{dst, src}. length p = 32 \<and> distinct p \<and> unat ` set p = {0..<32}))
   \<and> length (gpuV1ProgrammaticLaneMix K workSeed lane programSeed cache) = 32"
proof -
  obtain dst src where p: "gpuV1RegisterPermutations seedLo seedHi = (dst, src)" by fastforce
  have "length q = 32 \<and> distinct q \<and> unat ` set q = {0..<32}" if "q \<in> {dst, src}" for q
  proof -
    have "mset q = mset (map of_nat [0..<32])"
      using gpuV1RegisterPermutations_mset [OF p] that by auto
    note e = permutation_entries [OF this]
    have "card (unat ` set q) = 32"
      using e(1,3) distinct_card [of "map unat q"] by simp
    moreover have "unat ` set q \<subseteq> {0..<32}" using e(2) by auto
    ultimately have "unat ` set q = {0..<32}" by (simp add: card_subset_eq)
    with e show ?thesis by (simp add: distinct_map)
  qed
  then show ?thesis by (simp add: p)
qed

text \<open>The four merge operations lose no entropy: with the other argument and the selector
  fixed, the result determines either input.\<close>

theorem merge_preserves_entropy:
  "inj (\<lambda>a. gpuV1RandomMerge a b selector) \<and> inj (\<lambda>b. gpuV1RandomMerge a b selector)"
  using gpuV1RandomMerge_inj by (meson injI)



text \<open>A chain that runs on this verifier switches proofs exactly at the activation height: below
  it, and everywhere if the GPU proof is disabled, blocks are version 1 with a valid legacy proof;
  from it on they are version 2, and the digest over the cache of their epoch meets the target.\<close>

theorem activation_switches_proof:
  assumes "chain_history C c" "proofVerifier c = Some (khushiVerifier C K (powPolicy c) nodeCount)"
    and "0 < i" "i < length (blocks c)"
  defines "b \<equiv> blocks c ! i"
  shows "blkDifficulty b \<noteq> 0 \<and>
    (if GPUV1ActivationHeight (powPolicy c) = GPUV1ActivationDisabled
        \<or> blkHeight b < GPUV1ActivationHeight (powPolicy c)
     then blkVersion b = 1 \<and> CheckBlock C b
     else blkVersion b = 2 \<and> ValidHash (GPUV1HashBlockWithCache C K (Some b) (blkNonce b)
       (GPUV1BuildCache K (GPUV1EpochSeed C (GPUV1EpochForHeight (blkHeight b))) nodeCount)) (blkDifficulty b))"
proof -
  note inv = chain_history_inv [OF assms(1)]
  have d: "blkDifficulty b \<noteq> 0"
    using khushi.chain_blocks_proved [OF inv assms(2,3,4)] by (simp add: b_def)
  have "VerifyProof (khushiVerifier C K (powPolicy c) nodeCount) (Some b)"
    using chain_inv_extends [OF inv assms(2), of "i - 1"] assms(3,4) by (simp add: extends_def b_def)
  then have "VersionAllowed (powPolicy c) (blkVersion b) (blkHeight b)"
    and proof_ok: "if blkVersion b = 1 then CheckBlock C b else GPUV1CheckBlockWithCache C K (Some b)
       (GPUV1BuildCache K (GPUV1EpochSeed C (GPUV1EpochForHeight (blkHeight b))) nodeCount)"
    by (simp_all add: khushiVerifier_def)
  then have "blkVersion b = (if GPUV1ActivationHeight (powPolicy c) = GPUV1ActivationDisabled
        \<or> blkHeight b < GPUV1ActivationHeight (powPolicy c) then 1 else 2)"
    by (metis VersionAllowed_def)
  with d proof_ok show ?thesis by (auto simp: GPUV1CheckBlockWithCache_def Let_def split: if_splits)
qed

theorem activation_switches_proof_witness:
  "CheckBlock small_crypto (small_block 7 NewGenesisBlock)"
  using activation_switches_proof [OF small_khushi_history, of small_keccak 2 1]
  by (simp add: small_khushi_chain_def GPUV1ActivationDisabled_def)

text \<open>The GPU digest of a block binds every header field and the nonce: two blocks with the
  same digest have the same header, unless the hash collides on one of the four inputs hashed for
  them.\<close>

theorem gpu_digest_binds_header:
  assumes "hash_size_ok C" "c \<noteq> []" "d \<noteq> []"
    and "inj_on (sha256 C) (gpu_inputs C K a m c \<union> gpu_inputs C K b n d)"
    and "int64_range (blkTimestamp a)" "int64_range (blkTimestamp b)"
    and "length (blkPreviousHash a) = length (blkPreviousHash b)"
    and "length (blkMerkleRoot a) = length (blkMerkleRoot b)"
    and "GPUV1HashBlockWithCache C K (Some a) m c = GPUV1HashBlockWithCache C K (Some b) n d"
  shows "blkVersion a = blkVersion b \<and> blkHeight a = blkHeight b \<and>
    blkTimestamp a = blkTimestamp b \<and> blkPreviousHash a = blkPreviousHash b \<and>
    blkMerkleRoot a = blkMerkleRoot b \<and> blkMinerAddress a = blkMinerAddress b \<and>
    blkDifficulty a = blkDifficulty b \<and> m = n"
  using HeaderBytes_inj [OF gpu_hash_inputs_eq [OF assms(1,4,2,3,9)] assms(5,6,7,8)] .

theorem gpu_digest_binds_header_witness:
  "GPUV1HashBlockWithCache small_window_crypto small_keccak (Some NewGenesisBlock) 0 [[]]
   \<noteq> GPUV1HashBlockWithCache small_window_crypto small_keccak (Some (NewGenesisBlock\<lparr>blkHeight := 1\<rparr>)) 0 [[]]"
proof -
  have "hash_size_ok small_window_crypto" by (simp add: hash_size_ok_def small_window_crypto_def)
  then show ?thesis
    using gpu_digest_binds_header [OF _ _ _ small_window_inj [of NewGenesisBlock "NewGenesisBlock\<lparr>blkHeight := 1\<rparr>"],
      of "[[]]" "[[]]" small_keccak 0 0] by (auto simp: int64_range_def)
qed

end
