(* ===== verification/Daemon.thy ===== *)
theory Daemon
  imports NodeStorage GpuPow
begin

text \<open>
  The node process, \<open>cmd/sudharmad\<close>: opening the data directory, attaching chain, state, pending
  transactions and known peers to the p2p node, the work of one tick of the main loop, the saving of
  the node's data and the shutdown, and the development mining modes. The command-line flags, the
  JSON codecs, the listening socket and what the network delivers are the fields of \<open>daemon_env\<close>;
  printing is left out. An early return of \<open>main\<close> is an error result. The chain and the state that
  \<open>main\<close> holds are the objects attached to the p2p node, so they are its fields here.
\<close>

section \<open>The environment\<close>

record daemon_env =
  dmEnv :: p2p_env
  dmPermutation :: "bytes \<Rightarrow> bytes"
  dmClock :: "nat \<Rightarrow> i64"
  dmChainJSON :: "block option list json"
  dmStateJSON :: "stateDiskData json"
  dmPoolJSON :: "persistedMempool json"
  dmPeersJSON :: "knownPeerFile json"
  dmNetworkName :: string
  dmNodeID :: string
  dmListenAddress :: string
  dmDirectory :: path
  dmPeerAddress :: string
  dmListening :: "(nat \<times> string) result"
  dmDuring :: "string \<Rightarrow> p2p_node \<Rightarrow> p2p_node"
  dmReplies :: "string \<Rightarrow> block list option list"
  dmSpare :: nat

record daemon =
  dmDisk :: disk
  dmNode :: p2p_node
  knownPeers :: "KnownPeer list"
  remoteNodeID :: string

text \<open>\<open>filepath.Join\<close> of the data directory and a file name.\<close>

definition Join :: "path \<Rightarrow> string \<Rightarrow> path" where
  "Join dir name = (if dir = '''' then Clean name else Clean (dir @ ''/'' @ name))"

definition chainPath :: "daemon_env \<Rightarrow> path" where
  "chainPath D = Join (dmDirectory D) ''sudharma-chain.json''"

definition statePath :: "daemon_env \<Rightarrow> path" where
  "statePath D = Join (dmDirectory D) ''sudharma-state.json''"

definition mempoolPath :: "daemon_env \<Rightarrow> path" where
  "mempoolPath D = Join (dmDirectory D) ''sudharma-mempool.json''"

definition peersPath :: "daemon_env \<Rightarrow> path" where
  "peersPath D = Join (dmDirectory D) ''sudharma-peers.json''"

section \<open>Opening the chain and the state\<close>

text \<open>The verifier of the chain package, as a function of the block: its cache does not show.\<close>

definition runtimeConsensusForNetwork :: "daemon_env \<Rightarrow> network_id \<Rightarrow> (pow_policy \<times> proof_verifier) result" where
  "runtimeConsensusForNetwork D net =
     (case PoWPolicyForNetwork net of
        Inl err \<Rightarrow> Inl err
      | Inr policy \<Rightarrow>
          (case NewChainProofVerifier policy of
             Inl err \<Rightarrow> Inl err
           | Inr v \<Rightarrow> Inr (policy, khushiVerifier (envCrypto (dmEnv D)) (dmPermutation D) (cvPolicy v) (cacheNodeCount v))))"

definition loadChainForNetwork :: "daemon_env \<Rightarrow> path \<Rightarrow> network_id \<Rightarrow> disk \<Rightarrow> (disk, chain) outcome" where
  "loadChainForNetwork D p net d =
     (case runtimeConsensusForNetwork D net of
        Inl err \<Rightarrow> (d, Inl err)
      | Inr (policy, verifier) \<Rightarrow>
          LoadChainFromFileForWithConsensus (envCrypto (dmEnv D)) (dmClock D) (dmChainJSON D) p net policy (Some verifier) d)"

definition newChainForNetwork :: "daemon_env \<Rightarrow> network_id \<Rightarrow> chain result" where
  "newChainForNetwork D net =
     (case runtimeConsensusForNetwork D net of
        Inl err \<Rightarrow> Inl err
      | Inr (policy, verifier) \<Rightarrow> NewChainForWithConsensus (envCrypto (dmEnv D)) net policy (Some verifier))"

definition newGenesisStateForPolicy :: "monetary_policy \<Rightarrow> state result" where
  "newGenesisStateForPolicy policy = NewStateFor policy"

definition openChain :: "daemon_env \<Rightarrow> network_id \<Rightarrow> disk \<Rightarrow> (disk, chain) outcome" where
  "openChain D net d =
     (case loadChainForNetwork D (chainPath D) net d of
        (d1, Inr loaded) \<Rightarrow>
          (case ValidateChainGenesis (envCrypto (dmEnv D)) (Some loaded) net of
             Inl err \<Rightarrow> (d1, Inl err)
           | Inr _ \<Rightarrow> (d1, Inr loaded))
      | (d1, Inl _) \<Rightarrow>
          (case newChainForNetwork D net of
             Inl err \<Rightarrow> (d1, Inl err)
           | Inr c \<Rightarrow>
               (case SaveChainToFile (dmChainJSON D) (Some c) (chainPath D) d1 of
                  (d2, Inl err) \<Rightarrow> (d2, Inl err)
                | (d2, Inr _) \<Rightarrow> (d2, Inr c))))"

fun replayFrom :: "crypto \<Rightarrow> chain \<Rightarrow> monetary_policy \<Rightarrow> state option \<Rightarrow> u64 list \<Rightarrow> state option result" where
  "replayFrom C c policy statep [] = Inr statep"
| "replayFrom C c policy statep (height # rest) =
     (case BlockByHeight c height of
        None \<Rightarrow> Inl (Errorf ''block %d is missing'' [dec (unat height)])
      | Some block \<Rightarrow>
          if blkMinerAddress block = '''' then Inl (Errorf ''block %d has no miner address'' [dec (unat height)])
          else (case ProcessBlockFor C statep policy (Some block) (blkMinerAddress block) of
              (_, Inl err) \<Rightarrow> Inl (Wrapf ''failed replaying block %d: %w'' [dec (unat height)] err)
            | (statep1, Inr _) \<Rightarrow> replayFrom C c policy statep1 rest))"

definition rebuildStateFromChain :: "daemon_env \<Rightarrow> chain option \<Rightarrow> monetary_policy \<Rightarrow> state option result" where
  "rebuildStateFromChain D chainp policy =
     (case chainp of
        None \<Rightarrow> Inl (Errorf ''chain cannot be nil'' [])
      | Some c \<Rightarrow>
          (case newGenesisStateForPolicy policy of
             Inl err \<Rightarrow> Inl err
           | Inr s \<Rightarrow> replayFrom (envCrypto (dmEnv D)) c policy (Some s) (map of_nat [1..<Suc (unat (Height c))])))"

definition openState :: "daemon_env \<Rightarrow> monetary_policy \<Rightarrow> chain \<Rightarrow> disk \<Rightarrow> (disk, state) outcome" where
  "openState D policy c d =
     (case LoadStateFromFile (dmStateJSON D) (statePath D) d of
        (d1, Inr loaded) \<Rightarrow> (d1, Inr loaded)
      | (d1, Inl err) \<Rightarrow>
          if IsNotExist err
          then (case (if Height c = 0 then map_sum id Some (newGenesisStateForPolicy policy)
                      else rebuildStateFromChain D (Some c) policy) of
              Inl err1 \<Rightarrow> (d1, Inl err1)
            | Inr statep \<Rightarrow>
                (case SaveStateToFile (dmStateJSON D) statep (statePath D) d1 of
                   (d2, Inl err1) \<Rightarrow> (d2, Inl err1)
                 | (d2, Inr _) \<Rightarrow> (d2, (case statep of None \<Rightarrow> Inl NilState | Some s \<Rightarrow> Inr s))))
          else (d1, Inl err))"

section \<open>Starting\<close>

definition openData :: "daemon_env \<Rightarrow> disk \<Rightarrow> (disk, chain \<times> state) outcome" where
  "openData D d =
     (case ParseNetwork (dmNetworkName D) of
       Inl err \<Rightarrow> (d, Inl err)
     | Inr net \<Rightarrow>
     (case MonetaryPolicyFor net of
       Inl err \<Rightarrow> (d, Inl err)
     | Inr policy \<Rightarrow>
     (case openChain D net d of
       (d1, Inl err) \<Rightarrow> (d1, Inl err)
     | (d1, Inr c) \<Rightarrow>
     (case openState D policy c d1 of
       (d2, Inl err) \<Rightarrow> (d2, Inl err)
     | (d2, Inr s) \<Rightarrow> (d2, Inr (c, s))))))"

text \<open>The node with its pool, the peers to reconnect to, and the listener.\<close>

definition attachNode :: "daemon_env \<Rightarrow> chain \<Rightarrow> state \<Rightarrow> disk \<Rightarrow> (disk, p2p_node \<times> KnownPeer list) outcome" where
  "attachNode D c s d =
     (case Tip c of
       None \<Rightarrow> (d, Inl (Errorf ''chain tip is nil'' []))
     | Some tip \<Rightarrow>
     (case NewNode (dmNodeID D) (dmListenAddress D) (Height c) (Hash (envCrypto (dmEnv D)) tip) of
       Inl err \<Rightarrow> (d, Inl err)
     | Inr n0 \<Rightarrow>
     (case SetChain (dmEnv D) n0 (Some c) of
       (n1, Inl err) \<Rightarrow> (d, Inl err)
     | (n1, Inr _) \<Rightarrow>
     (case SetState n1 (Some s) of
       (n2, Inl err) \<Rightarrow> (d, Inl err)
     | (n2, Inr _) \<Rightarrow>
     (case LoadMempoolFromFile (dmEnv D) (dmPoolJSON D) n2 (mempoolPath D) d of
       (d1, n3, loaded, rejected, mempoolErr) \<Rightarrow>
     (let n4 = (if is_ok mempoolErr then n3 else n3\<lparr>nodeMempool := Clear (nodeMempool n3)\<rparr>);
          (d2, known) = LoadKnownPeersFromFile (envNet (dmEnv D)) (dmPeersJSON D) (peersPath D) (dmNodeID D) d1
      in (d2, Inr (n4, (case known of Inl _ \<Rightarrow> [] | Inr ps \<Rightarrow> ps)))))))))"

definition startDaemon :: "daemon_env \<Rightarrow> disk \<Rightarrow> (disk, daemon) outcome" where
  "startDaemon D d =
     (case openData D d of
       (d1, Inl err) \<Rightarrow> (d1, Inl err)
     | (d1, Inr (c, s)) \<Rightarrow>
     (case attachNode D c s d1 of
       (d2, Inl err) \<Rightarrow> (d2, Inl err)
     | (d2, Inr (n, known)) \<Rightarrow>
     (case Start (dmListening D) n of
       (n1, Inl err) \<Rightarrow> (d2, Inl err)
     | (n1, Inr _) \<Rightarrow> (d2, Inr \<lparr>dmDisk = d2, dmNode = n1, knownPeers = known, remoteNodeID = ''''\<rparr>))))"

section \<open>Saving and known peers\<close>

fun rememberKnownPeer :: "KnownPeer list \<Rightarrow> KnownPeer \<Rightarrow> KnownPeer list" where
  "rememberKnownPeer [] candidate = [candidate]"
| "rememberKnownPeer (p # ps) candidate =
     (if kpNodeID p = kpNodeID candidate then candidate # ps else p # rememberKnownPeer ps candidate)"

definition saveNodeData :: "daemon_env \<Rightarrow> chain option \<Rightarrow> state option \<Rightarrow> disk \<Rightarrow> (disk, unit) outcome" where
  "saveNodeData D chainp statep d =
     (if chainp = None then (d, Inl (Errorf ''chain cannot be nil'' []))
      else if statep = None then (d, Inl (Errorf ''state cannot be nil'' []))
      else (case SaveChainToFile (dmChainJSON D) chainp (chainPath D) d of
        (d1, Inl err) \<Rightarrow> (d1, Inl (Wrapf ''failed saving blockchain: %w'' [] err))
      | (d1, Inr _) \<Rightarrow>
      (case SaveStateToFile (dmStateJSON D) statep (statePath D) d1 of
        (d2, Inl err) \<Rightarrow> (d2, Inl (Wrapf ''failed saving blockchain state: %w'' [] err))
      | (d2, Inr _) \<Rightarrow> (d2, Inr ()))))"

text \<open>Chain, state and then pending transactions, stopping at the first error.\<close>

definition saveAll :: "daemon_env \<Rightarrow> p2p_node \<Rightarrow> disk \<Rightarrow> (disk, unit) outcome" where
  "saveAll D n d =
     (case saveNodeData D (nodeChain n) (nodeState n) d of
        (d1, Inl err) \<Rightarrow> (d1, Inl err)
      | (d1, Inr _) \<Rightarrow> SaveMempoolToFile (dmEnv D) (dmPoolJSON D) (Some n) (mempoolPath D) d1)"

definition syncTimeout :: i64 where
  "syncTimeout = 10 * 10 ^ 9"

text \<open>Chain synchronization, then exchange of pending transactions.\<close>

definition syncWith :: "daemon_env \<Rightarrow> p2p_node \<Rightarrow> string \<Rightarrow> (p2p_node, unit) outcome" where
  "syncWith D n ident =
     (case SyncFromPeer (dmEnv D) (dmDuring D ident) (dmReplies D ident) n ident syncTimeout of
        (n1, Inl err) \<Rightarrow> (n1, Inl err)
      | (n1, Inr _) \<Rightarrow> SyncMempoolWithPeer (dmEnv D) id n1 ident)"

fun reconnectLoop :: "daemon_env \<Rightarrow> p2p_node \<Rightarrow> string \<Rightarrow> KnownPeer list \<Rightarrow> disk \<Rightarrow> disk \<times> p2p_node \<times> string" where
  "reconnectLoop D n lastID [] d = (d, n, lastID)"
| "reconnectLoop D n lastID (p # ps) d =
     (if kpNodeID p = '''' \<or> kpAddress p = '''' \<or> IsPeerConnected n (kpNodeID p)
      then reconnectLoop D n lastID ps d
      else (case Connect (dmEnv D) n (kpAddress p) of
        (n1, Inl _) \<Rightarrow> reconnectLoop D n1 lastID ps d
      | (n1, Inr peer) \<Rightarrow>
      (case syncWith D n1 (infoNodeID peer) of
        (n2, Inl _) \<Rightarrow> reconnectLoop D n2 (infoNodeID peer) ps d
      | (n2, Inr _) \<Rightarrow> reconnectLoop D n2 (infoNodeID peer) ps (fst (saveAll D n2 d)))))"

definition reconnectKnownPeersRuntime :: "daemon_env \<Rightarrow> p2p_node \<Rightarrow> KnownPeer list \<Rightarrow> disk \<Rightarrow> disk \<times> p2p_node \<times> string" where
  "reconnectKnownPeersRuntime D n known d =
     (if nodeChain n = None \<or> nodeState n = None then (d, n, '''')
      else reconnectLoop D n '''' known d)"

text \<open>The peer is remembered under the address it advertises, or the one that was dialled, together
  with the peers discovered so far.\<close>

definition rememberConnected :: "daemon_env \<Rightarrow> p2p_node \<Rightarrow> KnownPeer list \<Rightarrow> PeerInfo \<Rightarrow> string \<Rightarrow> KnownPeer list" where
  "rememberConnected D n known peer dialled =
     foldl rememberKnownPeer
       (rememberKnownPeer known \<lparr>kpNodeID = infoNodeID peer,
          kpAddress = (if infoListenAddress peer = '''' then dialled else infoListenAddress peer)\<rparr>)
       (DiscoveredPeersSnapshot (envKnown (dmEnv D)) n)"

text \<open>Automatic reconnection at start. The loop ranges over the slice as it was loaded. Remembering a
  peer updates an entry in place, which the loop sees as long as the list shares its array with that
  slice; an append beyond the spare capacity moves the list to a new array. \<open>spare\<close> is the capacity
  left while the array is shared, and \<open>None\<close> afterwards.\<close>

record peer_slice =
  current :: "KnownPeer list"
  ranged :: "KnownPeer list"
  spare :: "nat option"

definition rememberInSlice :: "peer_slice \<Rightarrow> KnownPeer \<Rightarrow> peer_slice" where
  "rememberInSlice l candidate =
     (let updated = rememberKnownPeer (current l) candidate in
      if length updated = length (current l)
      then l\<lparr>current := updated, ranged := (if spare l = None then ranged l else take (length (ranged l)) updated)\<rparr>
      else l\<lparr>current := updated, spare := (case spare l of Some (Suc k) \<Rightarrow> Some k | _ \<Rightarrow> None)\<rparr>)"

definition rememberAllInSlice :: "daemon_env \<Rightarrow> p2p_node \<Rightarrow> peer_slice \<Rightarrow> PeerInfo \<Rightarrow> string \<Rightarrow> peer_slice" where
  "rememberAllInSlice D n l peer dialled =
     foldl rememberInSlice
       (rememberInSlice l \<lparr>kpNodeID = infoNodeID peer,
          kpAddress = (if infoListenAddress peer = '''' then dialled else infoListenAddress peer)\<rparr>)
       (DiscoveredPeersSnapshot (envKnown (dmEnv D)) n)"

fun autoReconnect :: "daemon_env \<Rightarrow> nat \<Rightarrow> nat \<Rightarrow> peer_slice \<Rightarrow> daemon \<Rightarrow> daemon" where
  "autoReconnect D i 0 l m = m\<lparr>knownPeers := current l\<rparr>"
| "autoReconnect D i (Suc k) l m =
     (let p = ranged l ! i in
      if kpNodeID p = '''' \<or> kpAddress p = '''' then autoReconnect D (Suc i) k l m
      else (case Connect (dmEnv D) (dmNode m) (kpAddress p) of
        (n1, Inl _) \<Rightarrow> autoReconnect D (Suc i) k l (m\<lparr>dmNode := n1\<rparr>)
      | (n1, Inr peer) \<Rightarrow>
        (let l1 = rememberAllInSlice D n1 l peer (kpAddress p);
             d1 = fst (SaveKnownPeersToFile (dmPeersJSON D) (peersPath D) (dmNodeID D) (current l1) (dmDisk m));
             m1 = m\<lparr>dmDisk := d1, remoteNodeID := infoNodeID peer\<rparr>
         in case syncWith D n1 (infoNodeID peer) of
              (n2, Inl _) \<Rightarrow> autoReconnect D (Suc i) k l1 (m1\<lparr>dmNode := n2\<rparr>)
            | (n2, Inr _) \<Rightarrow> autoReconnect D (Suc i) k l1 (m1\<lparr>dmNode := n2, dmDisk := fst (saveAll D n2 d1)\<rparr>))))"

text \<open>The peer of the \<open>-peer\<close> flag: a connection that fails is ignored, a synchronization or a save
  that fails ends the process.\<close>

definition connectPeer :: "daemon_env \<Rightarrow> daemon \<Rightarrow> (daemon, unit) outcome" where
  "connectPeer D m =
     (case Connect (dmEnv D) (dmNode m) (dmPeerAddress D) of
       (n1, Inl _) \<Rightarrow> (m\<lparr>dmNode := n1\<rparr>, Inr ())
     | (n1, Inr peer) \<Rightarrow>
     (let known = rememberConnected D n1 (knownPeers m) peer (dmPeerAddress D);
          d1 = fst (SaveKnownPeersToFile (dmPeersJSON D) (peersPath D) (dmNodeID D) known (dmDisk m));
          m1 = m\<lparr>dmDisk := d1, knownPeers := known, remoteNodeID := infoNodeID peer\<rparr>
      in (case syncWith D n1 (infoNodeID peer) of
           (n2, Inl err) \<Rightarrow> (m1\<lparr>dmNode := n2\<rparr>, Inl err)
         | (n2, Inr _) \<Rightarrow>
           (let n3 = fst (SendGetPeers (dmEnv D) n2 (infoNodeID peer));
                (d2, saved) = saveAll D n3 d1
            in (m1\<lparr>dmNode := n3, dmDisk := d2\<rparr>, saved)))))"

definition connectPeers :: "daemon_env \<Rightarrow> daemon \<Rightarrow> (daemon, unit) outcome" where
  "connectPeers D m =
     (if dmPeerAddress D = ''''
      then (autoReconnect D 0 (length (knownPeers m))
              \<lparr>current = knownPeers m, ranged = knownPeers m, spare = Some (dmSpare D)\<rparr> m, Inr ())
      else connectPeer D m)"

section \<open>The main loop\<close>

definition tick :: "daemon_env \<Rightarrow> u64 \<Rightarrow> daemon \<Rightarrow> daemon" where
  "tick D nonce m =
     (let d1 = fst (SaveMempoolToFile (dmEnv D) (dmPoolJSON D) (Some (dmNode m)) (mempoolPath D) (dmDisk m));
          (d2, n2, reconnected) = reconnectKnownPeersRuntime D (dmNode m) (knownPeers m) d1;
          remote = (if reconnected \<noteq> '''' then reconnected else remoteNodeID m);
          n3 = (if remote \<noteq> '''' \<and> IsPeerConnected n2 remote then fst (SendPing (dmEnv D) n2 remote nonce) else n2)
      in m\<lparr>dmDisk := d2, dmNode := n3, remoteNodeID := remote\<rparr>)"

definition shutdown :: "daemon_env \<Rightarrow> daemon \<Rightarrow> (daemon, unit) outcome" where
  "shutdown D m =
     (case saveAll D (dmNode m) (dmDisk m) of
        (d1, Inl err) \<Rightarrow> (m\<lparr>dmDisk := d1\<rparr>, Inl err)
      | (d1, Inr _) \<Rightarrow>
          (let known = foldl rememberKnownPeer (knownPeers m) (DiscoveredPeersSnapshot (envKnown (dmEnv D)) (dmNode m));
               (d2, r) = SaveKnownPeersToFile (dmPeersJSON D) (peersPath D) (dmNodeID D) known d1
           in (m\<lparr>dmDisk := d2, knownPeers := known\<rparr>, r)))"

section \<open>Development mining\<close>

text \<open>One call of the mining pipeline on the objects of the node.\<close>

definition mineInto :: "daemon_env \<Rightarrow> i64 \<times> i64 \<times> i64 \<Rightarrow> string \<Rightarrow> p2p_node \<Rightarrow> p2p_node \<times> mining_result \<times> u64 result" where
  "mineInto D now miner n =
     (case MineNextBlock (envCrypto (dmEnv D)) (envPool (dmEnv D)) now (nodeChain n) (nodeState n) (Some (nodeMempool n))
             miner 1000000 of
        ((cp, sp, poolp), result, r) \<Rightarrow>
          (n\<lparr>nodeChain := cp, nodeState := sp, nodeMempool := (case poolp of None \<Rightarrow> nodeMempool n | Some pool \<Rightarrow> pool)\<rparr>,
           result, r))"

text \<open>Mining and broadcasting, with the clock of the blocks still to mine; the argument names the kind
  of block in the error messages.\<close>

fun mineAndBroadcast ::
  "daemon_env \<Rightarrow> string \<Rightarrow> string \<Rightarrow> (i64 \<times> i64 \<times> i64) list \<Rightarrow> p2p_node \<Rightarrow> (p2p_node, unit) outcome" where
  "mineAndBroadcast D kind miner [] n = (n, Inr ())"
| "mineAndBroadcast D kind miner (now # later) n =
     (let target = (case nodeChain n of None \<Rightarrow> [] | Some c \<Rightarrow> [dec (unat (Height c + 1))]) in
      case mineInto D now miner n of
        (n1, result, Inl err) \<Rightarrow> (n1, Inl (Wrapf (''failed mining '' @ kind @ '' %d: %w'') target err))
      | (n1, result, Inr reward) \<Rightarrow>
          if \<not> resFound result then (n1, Inl (Errorf (kind @ '' %d was not found'') target))
          else (case BroadcastBlock (dmEnv D) (RefreshChainStatus (envCrypto (dmEnv D)) n1) (resBlock result) of
              (n2, Inl err) \<Rightarrow> (n2, Inl (Wrapf (''failed broadcasting '' @ kind @ '' %d: %w'') target err))
            | (n2, Inr _) \<Rightarrow> mineAndBroadcast D kind miner later n2))"

text \<open>The guards that the two modes share. The clock list stands for the requested number of blocks.\<close>

definition miningRequest :: "string \<Rightarrow> string \<Rightarrow> (i64 \<times> i64 \<times> i64) list \<Rightarrow> p2p_node \<Rightarrow> unit result" where
  "miningRequest kind miner clock n =
     (if nodeChain n = None then Inl (Errorf ''chain cannot be nil'' [])
      else if nodeState n = None then Inl (Errorf ''state cannot be nil'' [])
      else if miner = '''' then Inl (Errorf ''miner address cannot be empty'' [])
      else if clock = [] then Inl (Errorf (kind @ '' count must be greater than zero'') [])
      else if length clock > 100 then Inl (Errorf (''development '' @ kind @ '' count cannot exceed 100'') [])
      else Inr ())"

definition mineAndSave ::
  "daemon_env \<Rightarrow> string \<Rightarrow> string \<Rightarrow> (i64 \<times> i64 \<times> i64) list \<Rightarrow> daemon \<Rightarrow> (daemon, unit) outcome" where
  "mineAndSave D kind miner clock m =
     (case mineAndBroadcast D kind miner clock (dmNode m) of
        (n1, Inl err) \<Rightarrow> (m\<lparr>dmNode := n1\<rparr>, Inl err)
      | (n1, Inr _) \<Rightarrow>
          (case saveNodeData D (nodeChain n1) (nodeState n1) (dmDisk m) of
             (d1, r) \<Rightarrow> (m\<lparr>dmNode := n1, dmDisk := d1\<rparr>, r)))"

definition runEmptyBlockMiningTest ::
  "daemon_env \<Rightarrow> string \<Rightarrow> (i64 \<times> i64 \<times> i64) list \<Rightarrow> daemon \<Rightarrow> (daemon, unit) outcome" where
  "runEmptyBlockMiningTest D miner clock m =
     (case miningRequest ''empty block'' miner clock (dmNode m) of
        Inl err \<Rightarrow> (m, Inl err)
      | Inr _ \<Rightarrow>
          if Count (nodeMempool (dmNode m)) \<noteq> 0
          then (m, Inl (Errorf ''cannot mine empty test blocks while mempool contains %d transaction(s)''
            [dec (Count (nodeMempool (dmNode m)))]))
          else mineAndSave D ''empty block'' miner clock m)"

definition runBlockMiningTest ::
  "daemon_env \<Rightarrow> string \<Rightarrow> (i64 \<times> i64 \<times> i64) list \<Rightarrow> daemon \<Rightarrow> (daemon, unit) outcome" where
  "runBlockMiningTest D miner clock m =
     (case miningRequest ''block'' miner clock (dmNode m) of
        Inl err \<Rightarrow> (m, Inl err)
      | Inr _ \<Rightarrow> mineAndSave D ''block'' miner clock m)"

text \<open>A positive number of blocks is mined and ends the process; the result tells whether to stop.\<close>

definition runBlockMiningMode ::
  "(i64 \<times> i64 \<times> i64) list \<Rightarrow> (daemon \<Rightarrow> (daemon, unit) outcome) option \<Rightarrow> daemon \<Rightarrow> daemon \<times> bool \<times> unit result" where
  "runBlockMiningMode clock minep m =
     (if clock = [] then (m, False, Inr ())
      else (case minep of
          None \<Rightarrow> (m, True, Inl (Errorf ''block mining function is required'' []))
        | Some mine \<Rightarrow> (case mine m of (m1, r) \<Rightarrow> (m1, True, r))))"

definition tenCoins :: u64 where
  "tenCoins = 10 * CoinDecimals"

text \<open>A payment from a fresh, hence unfunded, wallet is signed and broadcast without entering the pool.\<close>

definition runUnfundedTransactionTest :: "daemon_env \<Rightarrow> network_context \<Rightarrow> nat \<times> nat \<times> nat \<Rightarrow> p2p_node \<Rightarrow> p2p_node" where
  "runUnfundedTransactionTest D active rnd n =
     (case NewWallet (envCrypto (dmEnv D)) (fst rnd) of
       Inl err \<Rightarrow> n
     | Inr sender \<Rightarrow>
     (case NewWallet (envCrypto (dmEnv D)) (fst (snd rnd)) of
       Inl err \<Rightarrow> n
     | Inr receiver \<Rightarrow>
     (case SignTransaction (envCrypto (dmEnv D)) (snd (snd rnd)) active
             (NewTransaction (envCrypto (dmEnv D)) (Address sender) (Address receiver) tenCoins [1]) (Some sender) of
       (tx, Inl err) \<Rightarrow> n
     | (tx, Inr _) \<Rightarrow> fst (BroadcastTransaction (dmEnv D) n (Some tx)))))"

text \<open>A funded payment of ten coins enters the pool: the common part of the two funded test modes.\<close>

definition poolPayment ::
  "daemon_env \<Rightarrow> network_context \<Rightarrow> nat \<Rightarrow> string \<times> string \<times> string \<times> string \<Rightarrow> wallet \<Rightarrow> wallet \<Rightarrow> p2p_node \<Rightarrow> (p2p_node, unit) outcome" where
  "poolPayment D active rnd messages sender receiver n =
     (case messages of (nonceMsg, signMsg, validMsg, addMsg) \<Rightarrow>
     (case nodeState n of
       None \<Rightarrow> (n, Inl NilState)
     | Some s \<Rightarrow>
     (case ExpectedNonce s (Address sender) of
       Inl err \<Rightarrow> (n, Inl (Wrapf nonceMsg [] err))
     | Inr nonce \<Rightarrow>
     (case SignTransaction (envCrypto (dmEnv D)) rnd active
             (NewTransaction (envCrypto (dmEnv D)) (Address sender) (Address receiver) tenCoins [nonce]) (Some sender) of
       (tx, Inl err) \<Rightarrow> (n, Inl (Wrapf signMsg [] err))
     | (tx, Inr _) \<Rightarrow>
     (case ValidateMempoolTransaction (envCrypto (dmEnv D)) (Some s)
             (map Some (AllTransactions (envPool (dmEnv D)) (nodeMempool n))) (Some tx) of
       Inl err \<Rightarrow> (n, Inl (Wrapf validMsg [] err))
     | Inr _ \<Rightarrow>
     (case AddTransaction (Some (nodeMempool n)) (Some tx) of
       (poolp, Inl err) \<Rightarrow> (n, Inl (Wrapf addMsg [] err))
     | (poolp, Inr _) \<Rightarrow> (n\<lparr>nodeMempool := (case poolp of None \<Rightarrow> nodeMempool n | Some pool \<Rightarrow> pool)\<rparr>, Inr ())))))))"

text \<open>Mining one block for a wallet, with the message of the error and of a block that is not found.\<close>

definition mineFor ::
  "daemon_env \<Rightarrow> string \<Rightarrow> string \<Rightarrow> i64 \<times> i64 \<times> i64 \<Rightarrow> wallet \<Rightarrow> p2p_node \<Rightarrow> (p2p_node, unit) outcome" where
  "mineFor D failed missing now w n =
     (case mineInto D now (Address w) n of
        (n1, result, Inl err) \<Rightarrow> (n1, Inl (Wrapf failed [] err))
      | (n1, result, Inr reward) \<Rightarrow>
          if \<not> resFound result then (n1, Inl (Errorf missing []))
          else (RefreshChainStatus (envCrypto (dmEnv D)) n1, Inr ()))"

definition runMiningTest ::
  "daemon_env \<Rightarrow> network_context \<Rightarrow> nat \<times> nat \<times> nat \<Rightarrow> (i64 \<times> i64 \<times> i64) \<times> (i64 \<times> i64 \<times> i64) \<Rightarrow> daemon \<Rightarrow> (daemon, unit) outcome" where
  "runMiningTest D active rnd clock m =
     (case NewWallet (envCrypto (dmEnv D)) (fst rnd) of
       Inl err \<Rightarrow> (m, Inl (Wrapf ''failed to create miner wallet: %w'' [] err))
     | Inr minerWallet \<Rightarrow>
     (case NewWallet (envCrypto (dmEnv D)) (fst (snd rnd)) of
       Inl err \<Rightarrow> (m, Inl (Wrapf ''failed to create receiver wallet: %w'' [] err))
     | Inr receiver \<Rightarrow>
     (case mineFor D ''failed to mine funding block: %w'' ''funding block was not found'' (fst clock) minerWallet (dmNode m) of
       (n1, Inl err) \<Rightarrow> (m\<lparr>dmNode := n1\<rparr>, Inl err)
     | (n1, Inr _) \<Rightarrow>
     (case poolPayment D active (snd (snd rnd)) (''failed to determine transaction nonce: %w'',
             ''failed to sign transaction: %w'', ''mempool validation failed: %w'',
             ''failed to add transaction to mempool: %w'') minerWallet receiver n1 of
       (n2, Inl err) \<Rightarrow> (m\<lparr>dmNode := n2\<rparr>, Inl err)
     | (n2, Inr _) \<Rightarrow>
     (case mineFor D ''failed to mine transaction block: %w'' ''transaction block was not found'' (snd clock) minerWallet n2 of
       (n3, Inl err) \<Rightarrow> (m\<lparr>dmNode := n3\<rparr>, Inl err)
     | (n3, Inr _) \<Rightarrow>
     (case saveNodeData D (nodeChain n3) (nodeState n3) (dmDisk m) of
       (d1, r) \<Rightarrow> (m\<lparr>dmNode := n3, dmDisk := d1\<rparr>, r)))))))"

definition runMempoolPersistenceTest ::
  "daemon_env \<Rightarrow> network_context \<Rightarrow> nat \<times> nat \<times> nat \<Rightarrow> i64 \<times> i64 \<times> i64 \<Rightarrow> daemon \<Rightarrow> (daemon, unit) outcome" where
  "runMempoolPersistenceTest D active rnd clock m =
     (if nodeChain (dmNode m) = None then (m, Inl (Errorf ''chain cannot be nil'' []))
      else if nodeState (dmNode m) = None then (m, Inl (Errorf ''state cannot be nil'' []))
      else if MempoolCount (dmNode m) \<noteq> 0
      then (m, Inl (Errorf ''mempool persistence test requires an empty mempool'' []))
      else (case NewWallet (envCrypto (dmEnv D)) (fst rnd) of
        Inl err \<Rightarrow> (m, Inl (Wrapf ''failed creating sender wallet: %w'' [] err))
      | Inr sender \<Rightarrow>
      (case NewWallet (envCrypto (dmEnv D)) (fst (snd rnd)) of
        Inl err \<Rightarrow> (m, Inl (Wrapf ''failed creating receiver wallet: %w'' [] err))
      | Inr receiver \<Rightarrow>
      (case mineFor D ''failed mining funding block: %w'' ''funding block was not found'' clock sender (dmNode m) of
        (n1, Inl err) \<Rightarrow> (m\<lparr>dmNode := n1\<rparr>, Inl err)
      | (n1, Inr _) \<Rightarrow>
      (case poolPayment D active (snd (snd rnd)) (''failed determining nonce: %w'', ''failed signing transaction: %w'',
              ''pending transaction validation failed: %w'', ''failed adding pending transaction: %w'') sender receiver n1 of
        (n2, Inl err) \<Rightarrow> (m\<lparr>dmNode := n2\<rparr>, Inl err)
      | (n2, Inr _) \<Rightarrow>
      (case saveNodeData D (nodeChain n2) (nodeState n2) (dmDisk m) of
        (d1, Inl err) \<Rightarrow> (m\<lparr>dmNode := n2, dmDisk := d1\<rparr>, Inl err)
      | (d1, Inr _) \<Rightarrow>
      (case SaveMempoolToFile (dmEnv D) (dmPoolJSON D) (Some n2) (mempoolPath D) d1 of
        (d2, Inl err) \<Rightarrow> (m\<lparr>dmNode := n2, dmDisk := d2\<rparr>, Inl (Wrapf ''failed saving mempool: %w'' [] err))
      | (d2, Inr _) \<Rightarrow> (m\<lparr>dmNode := n2, dmDisk := d2\<rparr>, Inr ()))))))))"

text \<open>The modes that the flags select, in the order in which the process runs them before its main
  loop; the result tells whether it stops there.\<close>

record daemon_flags =
  testTransaction :: bool
  mineTest :: bool
  mempoolTest :: bool
  emptyBlocks :: "(i64 \<times> i64 \<times> i64) list"
  mineBlocks :: "(i64 \<times> i64 \<times> i64) list"
  testMinerAddress :: string

definition runModes ::
  "daemon_env \<Rightarrow> network_context \<Rightarrow> (nat \<Rightarrow> nat \<times> nat \<times> nat) \<Rightarrow> (nat \<Rightarrow> i64 \<times> i64 \<times> i64) \<Rightarrow> daemon_flags \<Rightarrow> daemon \<Rightarrow>
   daemon \<times> bool \<times> unit result" where
  "runModes D active rnd clock fl m0 =
     (let m1 = (if testTransaction fl \<and> PeerCount (dmNode m0) \<noteq> 0
                then m0\<lparr>dmNode := runUnfundedTransactionTest D active (rnd 0) (dmNode m0)\<rparr> else m0) in
     (case (if mineTest fl then runMiningTest D active (rnd 1) (clock 0, clock 1) m1 else (m1, Inr ())) of
       (m2, Inl err) \<Rightarrow> (m2, True, Inl err)
     | (m2, Inr _) \<Rightarrow>
     (case (if mempoolTest fl then runMempoolPersistenceTest D active (rnd 2) (clock 2) m2 else (m2, Inr ())) of
       (m3, Inl err) \<Rightarrow> (m3, True, Inl err)
     | (m3, Inr _) \<Rightarrow>
     if emptyBlocks fl \<noteq> [] \<and> testMinerAddress fl = ''''
     then (m3, True, Inl (Errorf ''-testmineraddress is required when -emptyblocks is used'' []))
     else (case (if emptyBlocks fl \<noteq> [] then runEmptyBlockMiningTest D (testMinerAddress fl) (emptyBlocks fl) m3
                 else (m3, Inr ())) of
       (m4, Inl err) \<Rightarrow> (m4, True, Inl err)
     | (m4, Inr _) \<Rightarrow>
     if mineBlocks fl \<noteq> [] \<and> testMinerAddress fl = ''''
     then (m4, True, Inl (Errorf ''-testmineraddress is required when -mineblocks is used'' []))
     else runBlockMiningMode (mineBlocks fl) (Some (runBlockMiningTest D (testMinerAddress fl) (mineBlocks fl))) m4))))"

section \<open>Data paths\<close>

text \<open>The files of the data directory differ only in their last element, so they are different files.\<close>

lemma join_slash_snoc: "\<exists>pre. \<forall>x. join_slash (ps @ [x]) = pre @ x"
proof (induction ps rule: join_slash.induct)
  case 1
  show ?case by (intro exI [of _ "''''"]) simp
next
  case (2 p)
  show ?case by (intro exI [of _ "p @ ''/''"]) simp
next
  case (3 p q ps)
  then obtain pre where "\<forall>x. join_slash ((q # ps) @ [x]) = pre @ x" by blast
  then show ?case by (intro exI [of _ "p @ ''/'' @ pre"]) simp
qed

definition plain_name :: "string \<Rightarrow> bool" where
  "plain_name x \<longleftrightarrow> CHR ''/'' \<notin> set x \<and> x \<noteq> '''' \<and> x \<noteq> ''.'' \<and> x \<noteq> ''..''"

lemma Join_plain: "\<exists>pre. \<forall>x. plain_name x \<longrightarrow> Join dir x = pre @ x"
proof -
  let ?rooted = "dir \<noteq> '''' \<and> hd dir = CHR ''/''"
  let ?ps = "rev (clean_parts ?rooted [] (if dir = '''' then [] else split_slash dir))"
  obtain pre where pre: "\<forall>x. join_slash (?ps @ [x]) = pre @ x" using join_slash_snoc by blast
  have "Join dir x = (if ?rooted then ''/'' else '''') @ pre @ x" if x: "plain_name x" for x
  proof -
    have "x \<noteq> ''''" "hd x \<noteq> CHR ''/''" "split_slash x = [x]"
      using x split_slash_plain [of x] by (auto simp: plain_name_def) (metis hd_in_set)
    then show ?thesis
      using x pre [rule_format, of x]
      by (auto simp: Join_def Clean_def Let_def split_slash_append split_slash_plain clean_parts_append plain_name_def hd_append)
  qed
  then show ?thesis by (intro exI [of _ "(if ?rooted then ''/'' else '''') @ pre"]) simp
qed

lemma data_paths:
  shows "distinct [chainPath D, statePath D, mempoolPath D, peersPath D, chainPath D @ ''.tmp'', statePath D @ ''.tmp'',
      mempoolPath D @ ''.tmp'', peersPath D @ ''.tmp'']"
    and "chainPath D \<noteq> ''''" "statePath D \<noteq> ''''" "mempoolPath D \<noteq> ''''" "peersPath D \<noteq> ''''"
proof -
  obtain pre where "\<forall>x. plain_name x \<longrightarrow> Join (dmDirectory D) x = pre @ x" using Join_plain by blast
  then have p: "chainPath D = pre @ ''sudharma-chain.json''" "statePath D = pre @ ''sudharma-state.json''"
    "mempoolPath D = pre @ ''sudharma-mempool.json''" "peersPath D = pre @ ''sudharma-peers.json''"
    by (simp_all add: chainPath_def statePath_def mempoolPath_def peersPath_def plain_name_def)
  show "distinct [chainPath D, statePath D, mempoolPath D, peersPath D, chainPath D @ ''.tmp'', statePath D @ ''.tmp'',
      mempoolPath D @ ''.tmp'', peersPath D @ ''.tmp'']"
    "chainPath D \<noteq> ''''" "statePath D \<noteq> ''''" "mempoolPath D \<noteq> ''''" "peersPath D \<noteq> ''''"
    unfolding p by simp_all
qed

section \<open>What is on the disk after saving\<close>

lemma saveNodeData_ok:
  assumes "saveNodeData D chainp statep d = (d', Inr u)"
  shows "files d' (chainPath D) = encodedChain (dmChainJSON D) chainp" "files d' (statePath D) = encodedState (dmStateJSON D) statep"
proof -
  from assms obtain d1 x y where s: "SaveChainToFile (dmChainJSON D) chainp (chainPath D) d = (d1, Inr x)"
    "SaveStateToFile (dmStateJSON D) statep (statePath D) d1 = (d', Inr y)"
    by (auto simp: saveNodeData_def split: if_splits prod.splits sum.splits)
  note p = data_paths(1) [of D]
  show "files d' (statePath D) = encodedState (dmStateJSON D) statep" using state_file.saved [OF s(2)] by blast
  have "files d' (chainPath D) = files d1 (chainPath D)" by (rule state_file.others_after [OF s(2)]) (use p in auto)
  then show "files d' (chainPath D) = encodedChain (dmChainJSON D) chainp" using chain_file.saved [OF s(1)] by simp
qed

lemma saveAll_ok:
  assumes "saveAll D n d = (d', Inr u)"
  shows "files d' (chainPath D) = encodedChain (dmChainJSON D) (nodeChain n)"
    "files d' (statePath D) = encodedState (dmStateJSON D) (nodeState n)"
    "files d' (mempoolPath D) = encodedMempool (dmEnv D) (dmPoolJSON D) (Some n)"
proof -
  from assms obtain d1 x where s: "saveNodeData D (nodeChain n) (nodeState n) d = (d1, Inr x)"
    "SaveMempoolToFile (dmEnv D) (dmPoolJSON D) (Some n) (mempoolPath D) d1 = (d', Inr u)"
    by (auto simp: saveAll_def split: prod.splits sum.splits)
  note p = data_paths(1) [of D] and o = mempool_file.others_after [OF s(2)]
  show "files d' (mempoolPath D) = encodedMempool (dmEnv D) (dmPoolJSON D) (Some n)" using mempool_file.saved [OF s(2)] by blast
  have "files d' (chainPath D) = files d1 (chainPath D)" "files d' (statePath D) = files d1 (statePath D)"
    by (rule o; use p in auto)+
  with saveNodeData_ok [OF s(1)] show "files d' (chainPath D) = encodedChain (dmChainJSON D) (nodeChain n)"
    "files d' (statePath D) = encodedState (dmStateJSON D) (nodeState n)" by simp_all
qed

lemma shutdown_ok:
  assumes "shutdown D m = (m', Inr u)"
  shows "files (dmDisk m') (chainPath D) = encodedChain (dmChainJSON D) (nodeChain (dmNode m))"
    "files (dmDisk m') (statePath D) = encodedState (dmStateJSON D) (nodeState (dmNode m))"
    "files (dmDisk m') (mempoolPath D) = encodedMempool (dmEnv D) (dmPoolJSON D) (Some (dmNode m))"
proof -
  let ?known = "foldl rememberKnownPeer (knownPeers m) (DiscoveredPeersSnapshot (envKnown (dmEnv D)) (dmNode m))"
  from assms obtain d1 d2 x where s: "saveAll D (dmNode m) (dmDisk m) = (d1, Inr x)"
    "SaveKnownPeersToFile (dmPeersJSON D) (peersPath D) (dmNodeID D) ?known d1 = (d2, Inr u)" "dmDisk m' = d2"
    by (auto simp: shutdown_def Let_def split: prod.splits sum.splits)
  note p = data_paths(1) [of D] and o = peer_file.others_after [OF s(2)]
  have "files d2 (chainPath D) = files d1 (chainPath D)" "files d2 (statePath D) = files d1 (statePath D)"
    "files d2 (mempoolPath D) = files d1 (mempoolPath D)"
    by (rule o; use p in auto)+
  with saveAll_ok [OF s(1)] s(3) show "files (dmDisk m') (chainPath D) = encodedChain (dmChainJSON D) (nodeChain (dmNode m))"
    "files (dmDisk m') (statePath D) = encodedState (dmStateJSON D) (nodeState (dmNode m))"
    "files (dmDisk m') (mempoolPath D) = encodedMempool (dmEnv D) (dmPoolJSON D) (Some (dmNode m))" by simp_all
qed

text \<open>Saving succeeds when the system calls do.\<close>

lemma SaveChainToFile_fault_free:
  assumes "faults d = []" "p \<noteq> ''''" "Marshal J (map Some (blocks c)) = Inr bs"
  shows "\<exists>d'. SaveChainToFile J (Some c) p d = (d', Inr ()) \<and> faults d' = []"
  using assms by (simp add: SaveChainToFile_def fault_free)

lemma SaveStateToFile_fault_free:
  assumes "faults d = []" "p \<noteq> ''''" "Marshal J (stateData s) = Inr bs"
  shows "\<exists>d'. SaveStateToFile J (Some s) p d = (d', Inr ()) \<and> faults d' = []"
  using assms by (simp add: SaveStateToFile_def fault_free)

lemma SaveMempoolToFile_fault_free:
  assumes "faults d = []" "p \<noteq> ''''" "Marshal J (mempoolData E n) = Inr bs"
  shows "\<exists>d'. SaveMempoolToFile E J (Some n) p d = (d', Inr ()) \<and> faults d' = []"
  using assms by (simp add: SaveMempoolToFile_def writeSynced_def fault_free goget_def)

lemma SaveKnownPeersToFile_fault_free:
  assumes "faults d = []" "TrimSpace p \<noteq> ''''" "TrimSpace me \<noteq> ''''" "normalizeForSave me known = Inr ps"
    and "Marshal J \<lparr>kfPeers = sort_key kpNodeID ps\<rparr> = Inr bs"
  shows "\<exists>d'. SaveKnownPeersToFile J p me known d = (d', Inr ()) \<and> faults d' = []"
  using assms by (simp add: SaveKnownPeersToFile_def fault_free)

lemma shutdown_fault_free:
  assumes "faults (dmDisk m) = []" "nodeChain (dmNode m) = Some c" "nodeState (dmNode m) = Some s"
    and "Marshal (dmChainJSON D) (map Some (blocks c)) = Inr b1" "Marshal (dmStateJSON D) (stateData s) = Inr b2"
      "Marshal (dmPoolJSON D) (mempoolData (dmEnv D) (dmNode m)) = Inr b3"
    and "TrimSpace (peersPath D) \<noteq> ''''" "TrimSpace (dmNodeID D) \<noteq> ''''"
      "normalizeForSave (dmNodeID D) (foldl rememberKnownPeer (knownPeers m)
         (DiscoveredPeersSnapshot (envKnown (dmEnv D)) (dmNode m))) = Inr ps"
      "Marshal (dmPeersJSON D) \<lparr>kfPeers = sort_key kpNodeID ps\<rparr> = Inr b4"
  shows "\<exists>m'. shutdown D m = (m', Inr ())"
proof -
  from SaveChainToFile_fault_free [OF assms(1) data_paths(2) assms(4)] obtain d1 where
    d1: "SaveChainToFile (dmChainJSON D) (Some c) (chainPath D) (dmDisk m) = (d1, Inr ())" "faults d1 = []" by blast
  from SaveStateToFile_fault_free [OF this(2) data_paths(3) assms(5)] obtain d2 where
    d2: "SaveStateToFile (dmStateJSON D) (Some s) (statePath D) d1 = (d2, Inr ())" "faults d2 = []" by blast
  from SaveMempoolToFile_fault_free [OF this(2) data_paths(4) assms(6)] obtain d3 where
    d3: "SaveMempoolToFile (dmEnv D) (dmPoolJSON D) (Some (dmNode m)) (mempoolPath D) d2 = (d3, Inr ())" "faults d3 = []" by blast
  from SaveKnownPeersToFile_fault_free [OF this(2) assms(7-10)] d1(1) d2(1) d3(1) assms(2,3) show ?thesis
    by (auto simp: shutdown_def saveAll_def saveNodeData_def)
qed

section \<open>Opening saved data\<close>

text \<open>The chain has the consensus configuration with which the process opens its network.\<close>

definition configured :: "daemon_env \<Rightarrow> chain \<Rightarrow> bool" where
  "configured D c \<longleftrightarrow> ParseNetwork (dmNetworkName D) = Inr (network c) \<and> LocalNetworkID (envLocal (dmEnv D)) = network c
     \<and> (\<exists>V. runtimeConsensusForNetwork D (network c) = Inr (powPolicy c, V) \<and> proofVerifier c = Some V)"

text \<open>The clock lies behind the timestamps by less than the allowed two hours.\<close>

definition clock_ok :: "daemon_env \<Rightarrow> chain \<Rightarrow> bool" where
  "clock_ok D c \<longleftrightarrow> (\<forall>b\<in>set (blocks c). \<forall>i. blkTimestamp b \<le> wrap64 (dmClock D i + MaxFutureBlockSeconds))"

lemma configured_new:
  assumes "configured D c" "chain_inv (envCrypto (dmEnv D)) c" "MonetaryPolicyFor (network c) = Inr policy"
  shows "\<exists>c0. newChainFromGenesisForNetworkWithConsensus (envCrypto (dmEnv D)) (network c) (Some (hd (blocks c)))
      (powPolicy c) (proofVerifier c) = Inr c0"
proof -
  from assms(1) obtain V where V: "runtimeConsensusForNetwork D (network c) = Inr (powPolicy c, V)" "proofVerifier c = Some V"
    by (auto simp: configured_def)
  then have "SupportsVersion V 1" "SupportsVersion V 2"
    by (auto simp: runtimeConsensusForNetwork_def khushiVerifier_def split: sum.splits)
  with V assms(2,3) show ?thesis
    by (auto simp: newChainFromGenesisForNetworkWithConsensus_def chain_inv_def split: sum.splits option.splits)
qed

lemma openChain_saved:
  assumes "configured D c" "chain_ok (envCrypto (dmEnv D)) c" "clock_ok D c" "MonetaryPolicyFor (network c) = Inr policy"
    and "fs (chainPath D) = Some data" "Unmarshal (dmChainJSON D) data = Inr (map Some (blocks c))"
  shows "openChain D (network c) (reboot fs) = (reboot fs, Inr c)"
proof -
  have inv: "chain_inv (envCrypto (dmEnv D)) c" using assms(2) by (simp add: chain_ok_def)
  from configured_new [OF assms(1) inv assms(4)] obtain c0 where
    c0: "newChainFromGenesisForNetworkWithConsensus (envCrypto (dmEnv D)) (network c) (Some (hd (blocks c)))
      (powPolicy c) (proofVerifier c) = Inr c0" by blast
  have "ReadFile (chainPath D) (reboot fs) = (reboot fs, Inr data)" using assms(5) by (simp add: ReadFile_reboot)
  from LoadChain_saved [OF inv data_paths(2) this assms(6) c0 assms(3) [unfolded clock_ok_def]] assms(1)
  have load: "loadChainForNetwork D (chainPath D) (network c) (reboot fs) = (reboot fs, Inr c)"
    by (auto simp: loadChainForNetwork_def configured_def)
  have "BlockByHeight c 0 = Some (hd (blocks c))"
    using chain_ok_lookup(1,3) [OF assms(2)] by (simp add: hd_conv_nth)
  then have "ValidateChainGenesis (envCrypto (dmEnv D)) (Some c) (network c) = Inr ()"
    using inv by (auto simp: ValidateChainGenesis_def Network_def chain_inv_def split: sum.splits)
  with load show ?thesis by (simp add: openChain_def)
qed

lemma replayed_state_loads:
  assumes "chain_ok C c" "MonetaryPolicyFor (network c) = Inr policy" "BuildStateFromChain C (Some c) = Inr (Some s)"
  shows "ValidateMonetaryPolicy (monetaryPolicy s) = Inr ()" "developmentAddress s = DevelopmentTreasuryAddress"
    "issuedSupply s \<le> MaxSupplyFor (monetaryPolicy s)" "monetaryPolicy s = policy"
  using BuildStateFromChain_supply [OF assms] MonetaryPolicyFor_valid [OF assms(2)] by (auto simp: backed_def)

lemma openState_saved:
  assumes "ValidateMonetaryPolicy (monetaryPolicy s) = Inr ()" "developmentAddress s = DevelopmentTreasuryAddress"
      "issuedSupply s \<le> MaxSupplyFor (monetaryPolicy s)"
    and "fs (statePath D) = Some data" "Unmarshal (dmStateJSON D) data = Inr (stateData s)"
  shows "openState D policy c (reboot fs) = (reboot fs, Inr s)"
proof -
  have "ReadFile (statePath D) (reboot fs) = (reboot fs, Inr data)" using assms(4) by (simp add: ReadFile_reboot)
  from LoadState_saved [OF data_paths(3) this assms(5,1-3)] show ?thesis by (simp add: openState_def)
qed

lemma replayFrom_agrees: "replayFrom C c policy sp hs = Inr t \<longleftrightarrow> replayBlocks C c policy sp hs = Inr t"
  by (induction hs arbitrary: sp) (auto split: option.splits prod.splits sum.splits)

lemma rebuildStateFromChain_agrees:
  assumes "MonetaryPolicyFor (network c) = Inr policy"
  shows "rebuildStateFromChain D (Some c) policy = Inr t \<longleftrightarrow> BuildStateFromChain (envCrypto (dmEnv D)) (Some c) = Inr t"
  using assms
  by (auto simp: rebuildStateFromChain_def BuildStateFromChain_def MonetaryPolicy_def newGenesisStateForPolicy_def
      replayFrom_agrees split: sum.splits)

section \<open>The node after a start\<close>

lemma attachNode_node:
  assumes "dmNodeID D \<noteq> ''''" "dmListenAddress D \<noteq> ''''" "LocalNetworkID (envLocal (dmEnv D)) = network c"
    and "MonetaryPolicyFor (network c) = Inr policy" "monetaryPolicy s = policy" "blocks c \<noteq> []"
  obtains n0 n1 n2 where "NewNode (dmNodeID D) (dmListenAddress D) (Height c) (Hash (envCrypto (dmEnv D)) (last (blocks c))) = Inr n0"
    "SetChain (dmEnv D) n0 (Some c) = (n1, Inr ())" "SetState n1 (Some s) = (n2, Inr ())"
    "nodeChain n2 = Some c" "nodeState n2 = Some s" "listener n2 = None"
proof -
  have v: "ValidateMonetaryPolicy policy = Inr ()" using MonetaryPolicyFor_valid [OF assms(4)] .
  obtain n0 where n0: "NewNode (dmNodeID D) (dmListenAddress D) (Height c) (Hash (envCrypto (dmEnv D)) (last (blocks c))) = Inr n0"
    "nodeState n0 = None" "listener n0 = None" using assms(1,2) by (simp add: NewNode_def)
  then obtain n1 where n1: "SetChain (dmEnv D) n0 (Some c) = (n1, Inr ())" "nodeChain n1 = Some c" "listener n1 = None"
    using assms(3,4,6) by (simp add: SetChain_def MonetaryPolicy_def Network_def Tip_def Let_def)
  moreover from this(2) have "SetState n1 (Some s) = (n1\<lparr>nodeState := Some s\<rparr>, Inr ())"
    using assms(4,5) v by (simp add: SetState_def MonetaryPolicy_def EnsureMonetaryPolicy_def)
  ultimately show ?thesis using that n0(1) by simp
qed

lemma start_attached:
  assumes "openData D d = (d1, Inr (c, s))" "Tip c = Some (last (blocks c))"
    and "NewNode (dmNodeID D) (dmListenAddress D) (Height c) (Hash (envCrypto (dmEnv D)) (last (blocks c))) = Inr n0"
    and "SetChain (dmEnv D) n0 (Some c) = (n1, Inr ())" "SetState n1 (Some s) = (n2, Inr ())" "listener n2 = None"
    and "LoadMempoolFromFile (dmEnv D) (dmPoolJSON D) n2 (mempoolPath D) d1 = (d3, n3, loaded, rejected, r)"
    and "n3 = n2\<lparr>nodeMempool := pool\<rparr>" "dmListening D = Inr (l, address)"
  shows "\<exists>d2 known. startDaemon D d = (d2, Inr \<lparr>dmDisk = d2,
      dmNode = n2\<lparr>nodeMempool := (if is_ok r then pool else Clear pool), listener := Some l, listenAddress := address\<rparr>,
      knownPeers = known, remoteNodeID = ''''\<rparr>)"
  using assms by (simp add: startDaemon_def attachNode_def Start_def split: prod.splits)

lemma LoadMempool_node:
  assumes "LoadMempoolFromFile E J n p d = (d', n', loaded, rejected, r)"
  shows "\<exists>pool. n' = n\<lparr>nodeMempool := pool\<rparr>"
  using LoadMempool_cases [OF assms] by (metis p2p_node.surjective p2p_node.update_convs(3))

lemma listening_inv: "node_inv E n \<Longrightarrow> node_inv E (n\<lparr>listener := l, listenAddress := a\<rparr>)"
  by (simp add: node_inv_def ledger_ok_def peer_inv_def group_load_def)

text \<open>A start from any disk on which chain and state load succeeds, whatever the other two files hold.\<close>

lemma start_any:
  assumes "openData D d = (d1, Inr (c, s))" "chain_ok (envCrypto (dmEnv D)) c" "configured D c" "monetaryPolicy s = policy"
    and "MonetaryPolicyFor (network c) = Inr policy" "dmNodeID D \<noteq> ''''" "dmListenAddress D \<noteq> ''''" "dmListening D = Inr l"
  shows "\<exists>d2 m. startDaemon D d = (d2, Inr m) \<and> nodeChain (dmNode m) = Some c \<and> nodeState (dmNode m) = Some s"
proof -
  have ne: "blocks c \<noteq> []" using chain_ok_lookup(3) [OF assms(2)] .
  then have tip: "Tip c = Some (last (blocks c))" by (simp add: Tip_def)
  have local: "LocalNetworkID (envLocal (dmEnv D)) = network c" using assms(3) by (simp add: configured_def)
  from attachNode_node [OF assms(6,7) local assms(5,4) ne] obtain n0 n1 n2 where
    n: "NewNode (dmNodeID D) (dmListenAddress D) (Height c) (Hash (envCrypto (dmEnv D)) (last (blocks c))) = Inr n0"
    "SetChain (dmEnv D) n0 (Some c) = (n1, Inr ())" "SetState n1 (Some s) = (n2, Inr ())"
    "nodeChain n2 = Some c" "nodeState n2 = Some s" "listener n2 = None" by metis
  obtain d3 n3 loaded rejected r where
    m: "LoadMempoolFromFile (dmEnv D) (dmPoolJSON D) n2 (mempoolPath D) d1 = (d3, n3, loaded, rejected, r)" by (metis prod_cases5)
  from LoadMempool_node [OF m] obtain pool where pool: "n3 = n2\<lparr>nodeMempool := pool\<rparr>" by blast
  obtain k address where "l = (k, address)" by fastforce
  from start_attached [OF assms(1) tip n(1-3,6) m pool assms(8) [unfolded this]] n(4,5) show ?thesis by fastforce
qed

lemma crash_states_between:
  assumes "evolves P d d1" "evolves Q d1 d2"
  shows "files d1 \<in> set (crash_states d d2)"
proof -
  from assms obtain s t where "seen d1 = seen d @ s" "files d1 = last (files d # s)" "seen d2 = seen d1 @ t"
    by (auto simp: evolves_def)
  then show ?thesis by (cases s rule: rev_cases) (auto simp: crash_states_def)
qed

section \<open>A small instance\<close>

definition small_daemon :: "block option list \<Rightarrow> state \<Rightarrow> daemon_env" where
  "small_daemon bs s = \<lparr>dmEnv = small_env, dmPermutation = id, dmClock = small_clock 0,
     dmChainJSON = small_json bs, dmStateJSON = small_json (stateData s),
     dmPoolJSON = small_json \<lparr>pmVersion = 1, pmTransactions = []\<rparr>, dmPeersJSON = small_json \<lparr>kfPeers = []\<rparr>,
     dmNetworkName = '''', dmNodeID = ''me'', dmListenAddress = ''me:1'', dmDirectory = '''', dmPeerAddress = '''',
     dmListening = Inr (1, ''me:1''), dmDuring = (\<lambda>_ n. n), dmReplies = (\<lambda>_. []), dmSpare = 0\<rparr>"

lemma small_daemon_names: "TrimSpace (peersPath (small_daemon bs s)) = ''sudharma-peers.json''" "TrimSpace (dmNodeID (small_daemon bs s)) = ''me''"
proof -
  have "peersPath (small_daemon bs s) = ''sudharma-peers.json''"
    by (simp add: peersPath_def small_daemon_def) code_simp
  then show "TrimSpace (peersPath (small_daemon bs s)) = ''sudharma-peers.json''" "TrimSpace (dmNodeID (small_daemon bs s)) = ''me''"
    by (simp_all add: TrimSpace_plain printable_def small_daemon_def)
qed

text \<open>The two-block chain with the verifier that the process uses.\<close>

definition small_runtime_chain :: chain where
  "small_runtime_chain = (small_chain 7)\<lparr>proofVerifier := Some (khushiVerifier small_crypto id
     \<lparr>GPUV1ActivationHeight = GPUV1ActivationDisabled\<rparr> GPUV1ProductionCacheNodes)\<rparr>"

lemma small_runtime_consensus:
  "runtimeConsensusForNetwork (small_daemon bs s) NetworkPublicTestnet
     = Inr (\<lparr>GPUV1ActivationHeight = GPUV1ActivationDisabled\<rparr>, khushiVerifier small_crypto id
         \<lparr>GPUV1ActivationHeight = GPUV1ActivationDisabled\<rparr> GPUV1ProductionCacheNodes)"
  by (simp add: runtimeConsensusForNetwork_def PoWPolicyForNetwork_def NewChainProofVerifier_def newChainProofVerifier_def
      small_daemon_def small_env_def GPUV1TestnetActivationHeight_def GPUV1ProductionCacheNodes_def)

lemma small_runtime_configured: "configured (small_daemon bs s) small_runtime_chain"
  using small_runtime_consensus [of bs s]
  by (simp add: configured_def small_runtime_chain_def ParseNetwork_def small_daemon_def small_env_def
      localNetworkInit_def LocalNetworkID_def NetworkID_def NetworkPublicTestnet_def small_genesis_chain_def)

lemma small_runtime_ok: "chain_ok small_crypto small_runtime_chain"
proof -
  let ?p = "\<lparr>GPUV1ActivationHeight = GPUV1ActivationDisabled\<rparr>"
  have "CheckBlock small_crypto (small_block 7 NewGenesisBlock)"
    using small_hash_in_target [of "small_block 7 NewGenesisBlock"]
      ValidHash_iff [of small_crypto "small_block 7 NewGenesisBlock" "blkNonce (small_block 7 NewGenesisBlock)"]
    by (simp add: CheckBlock_def Let_def) (simp add: small_block_def UpdateMerkleRoot_def)
  moreover have "blkVersion (small_block 7 NewGenesisBlock) = 1" by (simp add: small_block_def UpdateMerkleRoot_def)
  ultimately have "extends small_crypto ?p (khushiVerifier small_crypto id ?p GPUV1ProductionCacheNodes)
      [NewGenesisBlock] (small_block 7 NewGenesisBlock)"
    using small_block_extends [of 7] by (simp add: extends_def khushiVerifier_def)
  then show ?thesis
    using small_chain_ok(1) [of 7]
    by (simp add: chain_ok_def chain_inv_def small_runtime_chain_def)
      (simp add: small_genesis_chain_def split: sum.splits)
qed

lemma small_runtime_state:
  "\<exists>t. BuildStateFromChain small_crypto (Some small_runtime_chain) = Inr (Some t) \<and> t \<noteq> small_start_state"
proof -
  obtain t where t: "BuildStateFromChain small_crypto (Some (small_chain 7)) = Inr (Some t)"
    using small_chain_state [of 7] by auto
  have eq: "BuildStateFromChain small_crypto (Some small_runtime_chain) = BuildStateFromChain small_crypto (Some (small_chain 7))"
    by (rule BuildStateFromChain_cong) (simp_all add: small_runtime_chain_def)
  have h: "Height (small_chain 7) = 1" by (simp add: Height_def)
  have "MonetaryPolicyFor (network (small_chain 7)) = Inr MonetaryPolicyPublicTestnet" by (simp add: MonetaryPolicyFor_def)
  from BuildStateFromChain_supply [OF small_chain_ok(1) this t]
  have "unat (issuedSupply t) = emitted MonetaryPolicyPublicTestnet 1" using h by simp
  also have "\<dots> \<noteq> 0" by (simp add: emitted_def subsidy_at_def BlockSubsidyFor_def ValidateMonetaryPolicy_def Let_def go_const)
  finally have "t \<noteq> small_start_state" by (auto simp: small_start_state_def)
  with t eq show ?thesis by auto
qed

section \<open>Starting on saved data\<close>

lemma built_policy:
  assumes "BuildStateFromChain C (Some c) = Inr (Some s)"
  obtains policy where "MonetaryPolicyFor (network c) = Inr policy"
  using assms by (auto simp: BuildStateFromChain_def MonetaryPolicy_def split: sum.splits)

lemma openData_saved:
  assumes "configured D c" "chain_ok (envCrypto (dmEnv D)) c" "clock_ok D c" "MonetaryPolicyFor (network c) = Inr policy"
    and "fs (chainPath D) = Some b1" "Unmarshal (dmChainJSON D) b1 = Inr (map Some (blocks c))"
    and "ValidateMonetaryPolicy (monetaryPolicy s) = Inr ()" "developmentAddress s = DevelopmentTreasuryAddress"
      "issuedSupply s \<le> MaxSupplyFor (monetaryPolicy s)"
    and "fs (statePath D) = Some b2" "Unmarshal (dmStateJSON D) b2 = Inr (stateData s)"
  shows "openData D (reboot fs) = (reboot fs, Inr (c, s))"
  using openChain_saved [where fs = fs, OF assms(1-6)] openState_saved [where fs = fs, OF assms(7-11)] assms(1,4)
  by (simp add: openData_def configured_def)

lemma start_with_pool:
  assumes "openData D (reboot fs) = (reboot fs, Inr (c, s))" "chain_ok (envCrypto (dmEnv D)) c"
      "BuildStateFromChain (envCrypto (dmEnv D)) (Some c) = Inr (Some s)"
    and "configured D c" "MonetaryPolicyFor (network c) = Inr policy"
    and "dmNodeID D \<noteq> ''''" "dmListenAddress D \<noteq> ''''" "dmListening D = Inr l"
    and "mempool_inv p" "visits_all (envPool (dmEnv D))" "pool_replays (envCrypto (dmEnv D)) s (network c) p"
    and "fs (mempoolPath D) = Some data" "Unmarshal (dmPoolJSON D) data = Inr (mempoolData (dmEnv D) n)" "nodeMempool n = p"
  shows "\<exists>d2 m2. startDaemon D (reboot fs) = (d2, Inr m2) \<and> nodeChain (dmNode m2) = Some c \<and> nodeState (dmNode m2) = Some s
    \<and> mset (pending (nodeMempool (dmNode m2))) = mset (pending p) \<and> node_inv (dmEnv D) (dmNode m2)"
proof -
  have ne: "blocks c \<noteq> []" using chain_ok_lookup(3) [OF assms(2)] .
  have local: "LocalNetworkID (envLocal (dmEnv D)) = network c" using assms(4) by (simp add: configured_def)
  from attachNode_node [OF assms(6,7) local assms(5) replayed_state_loads(4) [OF assms(2,5,3)] ne] obtain n0 n1 n2 where
    n: "NewNode (dmNodeID D) (dmListenAddress D) (Height c) (Hash (envCrypto (dmEnv D)) (last (blocks c))) = Inr n0"
    "SetChain (dmEnv D) n0 (Some c) = (n1, Inr ())" "SetState n1 (Some s) = (n2, Inr ())"
    "nodeChain n2 = Some c" "nodeState n2 = Some s" "listener n2 = None" by metis
  have inv: "node_inv (dmEnv D) n2" by (rule start_inv [OF n(1-3) assms(2,3)])
  have active: "ActiveNetwork n2 = network c" using n(4) by (simp add: ActiveNetwork_def Network_def)
  have read: "ReadFile (mempoolPath D) (reboot fs) = (reboot fs, Inr data)" using assms(12) by (simp add: ReadFile_reboot)
  from LoadMempool_saved [OF assms(9,10) assms(11) [folded active] data_paths(4) n(5) read assms(13,14)] obtain q where
    q: "LoadMempoolFromFile (dmEnv D) (dmPoolJSON D) n2 (mempoolPath D) (reboot fs)
      = (reboot fs, n2\<lparr>nodeMempool := q\<rparr>, length (pending p), 0, Inr ())" "mset (pending q) = mset (pending p)" by blast
  have inv2: "node_inv (dmEnv D) (n2\<lparr>nodeMempool := q\<rparr>)" using LoadMempool_spec [OF inv q(1)] by blast
  obtain k a where l: "l = (k, a)" by fastforce
  have "Tip c = Some (last (blocks c))" using ne by (simp add: Tip_def)
  from start_attached [OF assms(1) this n(1-3,6) q(1) refl assms(8) [unfolded l]] obtain d2 known where
    "startDaemon D (reboot fs) = (d2, Inr \<lparr>dmDisk = d2, dmNode = n2\<lparr>nodeMempool := q, listener := Some k, listenAddress := a\<rparr>,
      knownPeers = known, remoteNodeID = ''''\<rparr>)" by (auto simp: is_ok_def)
  then show ?thesis using n(4,5) q(2) listening_inv [where l = "Some k" and a = a, OF inv2] by simp
qed

lemma GenesisFor_height: "GenesisFor net = Inr b \<Longrightarrow> blkHeight b = 0"
  by (auto simp: GenesisFor_def NewGenesisBlock_def NewMainnetGenesisBlock_def newGenesisBlock_def split: if_splits)

lemma openState_keeps_chain:
  "files (fst (openState D policy c d)) (chainPath D) = files d (chainPath D)"
proof -
  obtain d1 r where l: "LoadStateFromFile (dmStateJSON D) (statePath D) d = (d1, r)" by fastforce
  then have f: "files d1 = files d"
    by (auto simp: LoadStateFromFile_def ReadFile_def syscall_def split: if_splits prod.splits sum.splits list.splits option.splits)
  have "files d2 (chainPath D) = files d1 (chainPath D)" if "SaveStateToFile (dmStateJSON D) sp (statePath D) d1 = (d2, x)" for sp d2 x
    by (rule state_file.others_after [OF that]) (use data_paths(1) [of D] in auto)
  with l f show ?thesis by (auto simp: openState_def split: sum.splits prod.splits)
qed

section \<open>Properties\<close>





text \<open>C16: chain and state are two files, and a kill between the two saves leaves them at different
  heights: a new chain is on the disk with the state of an older one. The next start accepts the pair,
  since neither the state loader nor the start compares the state with the chain, so the node runs with
  a state that is not the replay of its chain.\<close>

theorem crash_leaves_stale_state:
  assumes "saveNodeData D (Some c) (Some s) d = (d', Inr ())" "chain_ok (envCrypto (dmEnv D)) c" "configured D c" "clock_ok D c"
    and "BuildStateFromChain (envCrypto (dmEnv D)) (Some c) = Inr (Some s)" "json_ok (dmChainJSON D) (map Some (blocks c))"
    and "chain_ok (envCrypto (dmEnv D)) c0" "BuildStateFromChain (envCrypto (dmEnv D)) (Some c0) = Inr (Some s0)"
      "network c0 = network c" "s0 \<noteq> s" "files d (statePath D) = Some b0" "Unmarshal (dmStateJSON D) b0 = Inr (stateData s0)"
    and "dmNodeID D \<noteq> ''''" "dmListenAddress D \<noteq> ''''" "dmListening D = Inr l"
  shows "\<exists>fs\<in>set (crash_states d d'). \<exists>d2 m. startDaemon D (reboot fs) = (d2, Inr m)
    \<and> nodeChain (dmNode m) = Some c \<and> nodeState (dmNode m) = Some s0 \<and> \<not> node_inv (dmEnv D) (dmNode m)"
proof -
  from assms(1) obtain d1 x y where sv: "SaveChainToFile (dmChainJSON D) (Some c) (chainPath D) d = (d1, Inr x)"
    "SaveStateToFile (dmStateJSON D) (Some s) (statePath D) d1 = (d', Inr y)"
    by (auto simp: saveNodeData_def split: prod.splits sum.splits)
  have mid: "files d1 \<in> set (crash_states d d')"
    by (rule crash_states_between [OF chain_file.crash [OF sv(1)] state_file.crash [OF sv(2)]])
  have "files d1 (statePath D) = files d (statePath D)"
    by (rule chain_file.others_after [OF sv(1)]) (use data_paths(1) [of D] in auto)
  with assms(11) have f: "files d1 (statePath D) = Some b0" by simp
  obtain b1 where b1: "files d1 (chainPath D) = Some b1" "Unmarshal (dmChainJSON D) b1 = Inr (map Some (blocks c))"
    using chain_file.saved [OF sv(1)] assms(6) by (auto simp: json_ok_def encodedChain_def)
  obtain policy where mp: "MonetaryPolicyFor (network c) = Inr policy" using built_policy [OF assms(5)] by blast
  note st = replayed_state_loads [OF assms(7) mp [folded assms(9)] assms(8)]
  have "openData D (reboot (files d1)) = (reboot (files d1), Inr (c, s0))"
    by (rule openData_saved [OF assms(3,2,4) mp b1 st(1-3) f assms(12)])
  from start_any [OF this assms(2,3) st(4) mp assms(13-15)] obtain d2 m where
    m: "startDaemon D (reboot (files d1)) = (d2, Inr m)" "nodeChain (dmNode m) = Some c" "nodeState (dmNode m) = Some s0" by blast
  then have "\<not> node_inv (dmEnv D) (dmNode m)" using assms(5,10) by (auto simp: node_inv_def ledger_ok_def node_ok_def)
  with mid m show ?thesis by blast
qed


theorem crash_leaves_stale_state_witness:
  "\<exists>s d' fs d2 m. let D = small_daemon (map Some (blocks small_runtime_chain)) small_start_state in
     saveNodeData D (Some small_runtime_chain) (Some s) (reboot [statePath D \<mapsto> [1]]) = (d', Inr ())
     \<and> startDaemon D (reboot fs) = (d2, Inr m) \<and> nodeChain (dmNode m) = Some small_runtime_chain
     \<and> nodeState (dmNode m) = Some small_start_state"
proof -
  let ?c = small_runtime_chain
  let ?D = "small_daemon (map Some (blocks ?c)) small_start_state"
  let ?d = "reboot [statePath ?D \<mapsto> [1]]"
  obtain s where s: "BuildStateFromChain small_crypto (Some ?c) = Inr (Some s)" "small_start_state \<noteq> s"
    using small_runtime_state by blast
  have D: "dmNodeID ?D \<noteq> ''''" "dmListenAddress ?D \<noteq> ''''" "dmListening ?D = Inr (1, ''me:1'')" "envCrypto (dmEnv ?D) = small_crypto"
    "json_ok (dmChainJSON ?D) (map Some (blocks ?c))" "Marshal (dmChainJSON ?D) (map Some (blocks ?c)) = Inr [1]"
    "Marshal (dmStateJSON ?D) (stateData s) = Inr [1]" "Unmarshal (dmStateJSON ?D) [1] = Inr (stateData small_start_state)"
    by (simp_all add: small_daemon_def small_env_def small_json_ok) (simp_all add: small_json_def)
  have "faults ?d = []" by (simp add: reboot_def)
  from SaveChainToFile_fault_free [OF this data_paths(2) D(6)] obtain d1 where
    d1: "SaveChainToFile (dmChainJSON ?D) (Some ?c) (chainPath ?D) ?d = (d1, Inr ())" "faults d1 = []" by blast
  from SaveStateToFile_fault_free [OF this(2) data_paths(3) D(7)] obtain d' where
    "SaveStateToFile (dmStateJSON ?D) (Some s) (statePath ?D) d1 = (d', Inr ())" by blast
  with d1(1) have d': "saveNodeData ?D (Some ?c) (Some s) ?d = (d', Inr ())" by (simp add: saveNodeData_def)
  have clk: "clock_ok ?D ?c" using small_times by (auto simp: clock_ok_def small_daemon_def small_runtime_chain_def)
  have c0: "BuildStateFromChain small_crypto (Some small_genesis_chain) = Inr (Some small_start_state)"
    "network small_genesis_chain = network ?c" "files ?d (statePath ?D) = Some [1]"
    using small_node_ok by (simp_all add: node_ok_def small_runtime_chain_def reboot_def)
  from crash_leaves_stale_state [OF d' small_runtime_ok [folded D(4)] small_runtime_configured clk s(1) [folded D(4)] D(5)
      small_chain_ok(2) [folded D(4)] c0(1) [folded D(4)] c0(2) s(2) c0(3) D(8,1,2,3)] d'
  show ?thesis unfolding Let_def by blast
qed


text \<open>C32: a chain file that cannot be loaded is taken for a missing one, whatever the reason (an
  unreadable file, an encoding error, a block that fails validation): the start overwrites it with the
  genesis chain and goes on, with the account state of the lost chain when the state file is intact. The
  state file is protected: one that cannot be decoded stops the start and stays as it is.\<close>

theorem unreadable_chain_replaced:
  assumes "loadChainForNetwork D (chainPath D) net (reboot fs) = (d1, Inl err)" "newChainForNetwork D net = Inr c"
    and "Marshal (dmChainJSON D) (map Some (blocks c)) = Inr bs" "ParseNetwork (dmNetworkName D) = Inr net"
      "MonetaryPolicyFor net = Inr policy"
  shows "Height c = 0 \<and> files (fst (openData D (reboot fs))) (chainPath D) = Some bs
    \<and> (\<forall>s0 b0. fs (statePath D) = Some b0 \<and> Unmarshal (dmStateJSON D) b0 = Inr (stateData s0)
         \<and> ValidateMonetaryPolicy (monetaryPolicy s0) = Inr () \<and> developmentAddress s0 = DevelopmentTreasuryAddress
         \<and> issuedSupply s0 \<le> MaxSupplyFor (monetaryPolicy s0) \<longrightarrow> snd (openData D (reboot fs)) = Inr (c, s0))
    \<and> (\<forall>b0 e. fs (statePath D) = Some b0 \<and> Unmarshal (dmStateJSON D) b0 = Inl e \<longrightarrow>
         snd (openData D (reboot fs)) = Inl (StateDecodeFailed e) \<and> files (fst (openData D (reboot fs))) (statePath D) = Some b0)"
proof -
  have d1: "d1 = reboot fs"
    using assms(1) by (auto simp: loadChainForNetwork_def LoadChainFromFileForWithConsensus_def ReadFile_def syscall_def reboot_def
        split: sum.splits if_splits option.splits prod.splits)
  have "faults d1 = []" by (simp add: d1 reboot_def)
  from SaveChainToFile_fault_free [OF this data_paths(2) assms(3)] obtain d2 where
    d2: "SaveChainToFile (dmChainJSON D) (Some c) (chainPath D) d1 = (d2, Inr ())" "faults d2 = []" by blast
  from assms(1,2) d2(1) have opened: "openChain D net (reboot fs) = (d2, Inr c)" by (simp add: openChain_def)
  have h: "Height c = 0"
    using assms(2) GenesisFor_height by (auto simp: newChainForNetwork_def NewChainForWithConsensus_def Height_def
        newChainFromGenesisForNetworkWithConsensus_def split: sum.splits prod.splits option.splits if_splits)
  have f: "files d2 (chainPath D) = Some bs" using chain_file.saved [OF d2(1)] assms(3) by (simp add: encodedChain_def)
  have st: "files d2 (statePath D) = fs (statePath D)"
    using chain_file.others_after [OF d2(1), of "statePath D"] data_paths(1) [of D] by (auto simp: d1 reboot_def)
  have data: "openData D (reboot fs) = (case openState D policy c d2 of
      (d3, Inl err) \<Rightarrow> (d3, Inl err) | (d3, Inr s) \<Rightarrow> (d3, Inr (c, s)))"
    using assms(4,5) opened by (simp add: openData_def)
  have kept: "files (fst (openData D (reboot fs))) (chainPath D) = Some bs"
    using openState_keeps_chain [of D policy c d2] f by (auto simp: data split: prod.splits sum.splits)
  have read: "ReadFile (statePath D) d2 = (d2, Inr b0)" if "fs (statePath D) = Some b0" for b0
    using that d2(2) st by (simp add: ReadFile_def syscall_def)
  have bad: "openState D policy c d2 = (d2, Inl (StateDecodeFailed e))"
    if "fs (statePath D) = Some b0" "Unmarshal (dmStateJSON D) b0 = Inl e" for b0 e
    using read [OF that(1)] that(2) data_paths(3) [of D]
    by (simp add: openState_def LoadStateFromFile_def IsNotExist_def ErrNotExist_def StateDecodeFailed_def)
  show ?thesis
    using h kept st LoadState_saved [OF data_paths(3) read] bad by (auto simp: data openState_def)
qed


theorem unreadable_chain_replaced_witness:
  "\<exists>c. let D = small_daemon [] small_start_state; d = reboot [chainPath D \<mapsto> [9], statePath D \<mapsto> [1]] in
     Height c = 0 \<and> files (fst (openData D d)) (chainPath D) = Some [1] \<and> snd (openData D d) = Inr (c, small_start_state)"
proof -
  let ?D = "small_daemon [] small_start_state"
  let ?fs = "[chainPath ?D \<mapsto> [9], statePath ?D \<mapsto> [1]]"
  have C: "envCrypto (dmEnv ?D) = small_crypto" by (simp add: small_daemon_def small_env_def)
  note run = small_runtime_consensus [of "[]" small_start_state]
  obtain c where c: "newChainForNetwork ?D NetworkPublicTestnet = Inr c"
    using run C by (auto simp: newChainForNetwork_def NewChainForWithConsensus_def GenesisFor_def khushiVerifier_def
        newChainFromGenesisForNetworkWithConsensus_def MonetaryPolicyFor_def VersionAllowed_def expectedGenesis_def)
  have ne: "statePath ?D \<noteq> chainPath ?D" using data_paths(1) [of ?D] by auto
  then have "ReadFile (chainPath ?D) (reboot ?fs) = (reboot ?fs, Inr [9])" by (simp add: ReadFile_reboot)
  moreover have "Unmarshal (dmChainJSON ?D) [9] = Inl JSONInvalid" by (simp add: small_daemon_def small_json_def)
  ultimately have "loadChainForNetwork ?D (chainPath ?D) NetworkPublicTestnet (reboot ?fs) = (reboot ?fs, Inl (ChainDecodeFailed JSONInvalid))"
    using run data_paths(2) [of ?D] by (simp add: loadChainForNetwork_def LoadChainFromFileForWithConsensus_def MonetaryPolicyFor_def)
  moreover have "Marshal (dmChainJSON ?D) (map Some (blocks c)) = Inr [1]" "ParseNetwork (dmNetworkName ?D) = Inr NetworkPublicTestnet"
    "MonetaryPolicyFor NetworkPublicTestnet = Inr MonetaryPolicyPublicTestnet"
    by (simp_all add: small_daemon_def small_json_def ParseNetwork_def MonetaryPolicyFor_def)
  moreover have "Unmarshal (dmStateJSON ?D) [1] = Inr (stateData small_start_state)" by (simp add: small_daemon_def small_json_def)
  moreover have "ValidateMonetaryPolicy (monetaryPolicy small_start_state) = Inr ()" "issuedSupply small_start_state = 0"
    "developmentAddress small_start_state = DevelopmentTreasuryAddress"
    by (simp_all add: small_start_state_def ValidateMonetaryPolicy_def)
  ultimately show ?thesis
    using unreadable_chain_replaced [of ?D NetworkPublicTestnet ?fs] c unfolding Let_def by (intro exI [of _ c]) simp
qed

end
