(* ===== verification/GoStrings.thy ===== *)
theory GoStrings
  imports P2PMessages
begin

text \<open>
  What the pool, the HTTP interface and the wallet program use of Go's \<open>strings\<close>, \<open>strconv\<close>,
  \<open>math/big\<close> and \<open>encoding/base64\<close> packages. Lower-casing is modelled on ASCII letters: no other
  character has a lower-case form that the callers accept. The unpadded URL alphabet of base 64 is decoded
  as Go does: line breaks are skipped, a single left-over character is an error, and left-over bits are
  ignored.
\<close>

section \<open>Letters and numbers\<close>

definition lower_char :: "char \<Rightarrow> char" where
  "lower_char c = (let n = of_char c :: nat in if 65 \<le> n \<and> n \<le> 90 then char_of (n + 32) else c)"

definition ToLower :: "string \<Rightarrow> string" where
  "ToLower s = map lower_char s"

text \<open>\<open>big.Int.Text(16)\<close> of a natural number.\<close>

function hex_text :: "nat \<Rightarrow> string" where
  "hex_text n = (if n < 16 then [hex_digit n] else hex_text (n div 16) @ [hex_digit (n mod 16)])"
  by pat_completeness auto
termination by (relation "measure id") auto

declare hex_text.simps [simp del]

text \<open>The verb \<open>%08x\<close>.\<close>

definition hex8 :: "u32 \<Rightarrow> string" where
  "hex8 n = (let t = hex_text (unat n) in replicate (8 - length t) (CHR ''0'') @ t)"

text \<open>\<open>strconv.ParseUint\<close> and \<open>strconv.ParseInt\<close> in base ten.\<close>

definition ParseUint64 :: "string \<Rightarrow> u64 option" where
  "ParseUint64 s =
     (if s = [] \<or> \<not> list_all isDigit s then None
      else (let v = foldl (\<lambda>a c. 10 * a + digitValue c) 0 s in if v < 2 ^ 64 then Some (of_nat v) else None))"

definition ParseInt64 :: "string \<Rightarrow> i64 option" where
  "ParseInt64 s = (case SetString10 s of None \<Rightarrow> None | Some v \<Rightarrow> if - (2 ^ 63) \<le> v \<and> v < 2 ^ 63 then Some v else None)"

definition dec_int :: "int \<Rightarrow> string" where
  "dec_int x = (if x < 0 then CHR ''-'' # dec (nat (- x)) else dec (nat x))"

lemma ParseUint64_dec: "n < 2 ^ 64 \<Longrightarrow> ParseUint64 (dec n) = Some (of_nat n)"
  using dec_digits [of n] by (simp add: ParseUint64_def)

lemma SetString10_minus: "0 < n \<Longrightarrow> SetString10 (CHR ''-'' # dec n) = Some (- int n)"
  using dec_digits [of n] by (simp add: SetString10_def)

lemma lower_hex_plain:
  assumes "list_all is_lower_hex s" "s \<noteq> []"
  shows "ToLower (TrimSpace s) = s"
proof -
  have c: "printable c" "lower_char c = c" if "is_lower_hex c" for c
    using that by (auto simp: is_lower_hex_def printable_def lower_char_def Let_def)
  have "TrimSpace s = s" using assms c(1) by (intro TrimSpace_plain) (auto simp: list_all_iff)
  moreover have "map lower_char s = s" using assms(1) c(2) by (auto simp: list_all_iff intro: map_idI)
  ultimately show ?thesis by (simp add: ToLower_def)
qed


section \<open>Parts of strings\<close>

definition TrimPrefix :: "string \<Rightarrow> string \<Rightarrow> string" where
  "TrimPrefix s p = (if take (length p) s = p then drop (length p) s else s)"

definition HasPrefix :: "string \<Rightarrow> string \<Rightarrow> bool" where
  "HasPrefix s p \<longleftrightarrow> take (length p) s = p"

text \<open>\<open>strings.Split\<close> at a separator of one character.\<close>

fun Split :: "string \<Rightarrow> char \<Rightarrow> string list" where
  "Split [] sep = [[]]"
| "Split (c # s) sep = (if c = sep then [] # Split s sep else (case Split s sep of [] \<Rightarrow> [[c]] | p # ps \<Rightarrow> (c # p) # ps))"

lemma Split_not_Nil [simp]: "Split s sep \<noteq> []"
  by (induction s) (auto split: list.split)

lemma Split_plain: "sep \<notin> set s \<Longrightarrow> Split s sep = [s]"
  by (induction s) auto

lemma Split_append: "sep \<notin> set s \<Longrightarrow> Split (s @ sep # t) sep = s # Split t sep"
  by (induction s) auto

section \<open>Base 64\<close>

definition urlAlphabet :: string where
  "urlAlphabet = ''ABCDEFGHIJKLMNOPQRSTUVWXYZabcdefghijklmnopqrstuvwxyz0123456789-_''"

definition encodeSextet :: "nat \<Rightarrow> char" where
  "encodeSextet n = urlAlphabet ! (n mod 64)"

fun EncodeBase64 :: "bytes \<Rightarrow> string" where
  "EncodeBase64 [] = []"
| "EncodeBase64 [a] = (let v = unat a * 16 in [encodeSextet (v div 64), encodeSextet v])"
| "EncodeBase64 [a, b] = (let v = unat a * 1024 + unat b * 4 in
     [encodeSextet (v div 4096), encodeSextet (v div 64), encodeSextet v])"
| "EncodeBase64 (a # b # c # rest) = (let v = unat a * 65536 + unat b * 256 + unat c in
     encodeSextet (v div 262144) # encodeSextet (v div 4096) # encodeSextet (v div 64) # encodeSextet v # EncodeBase64 rest)"

definition decodeSextet :: "char \<Rightarrow> nat option" where
  "decodeSextet c = map_of (zip urlAlphabet [0..<64]) c"

text \<open>The quanta of four sextets, the last one possibly shorter.\<close>

fun decodeQuanta :: "nat list \<Rightarrow> bytes option" where
  "decodeQuanta [] = Some []"
| "decodeQuanta [p] = None"
| "decodeQuanta [p, q] = Some [of_nat ((p * 64 + q) div 16)]"
| "decodeQuanta [p, q, r] = (let v = p * 4096 + q * 64 + r in Some [of_nat (v div 1024), of_nat (v div 4)])"
| "decodeQuanta (p # q # r # s # rest) = (let v = p * 262144 + q * 4096 + r * 64 + s in
     (case decodeQuanta rest of None \<Rightarrow> None
      | Some bs \<Rightarrow> Some (of_nat (v div 65536) # of_nat (v div 256) # of_nat v # bs)))"

definition DecodeBase64 :: "string \<Rightarrow> bytes option" where
  "DecodeBase64 s =
     (let kept = filter (\<lambda>c. of_char c \<noteq> (10 :: nat) \<and> of_char c \<noteq> (13 :: nat)) s in
      (case those (map decodeSextet kept) of None \<Rightarrow> None | Some sextets \<Rightarrow> decodeQuanta sextets))"

lemma alphabet_size: "length urlAlphabet = 64"
  by (simp add: urlAlphabet_def)

lemma alphabet_distinct: "distinct urlAlphabet"
  by (simp add: urlAlphabet_def)

lemma alphabet_no_breaks: "list_all (\<lambda>c. of_char c \<noteq> (10 :: nat) \<and> of_char c \<noteq> (13 :: nat)) urlAlphabet"
  by (simp add: urlAlphabet_def)

lemma sextet_roundtrip: "decodeSextet (encodeSextet n) = Some (n mod 64)"
proof -
  have "n mod 64 < length urlAlphabet" by (simp add: alphabet_size)
  then have "map_of (zip urlAlphabet [0..<64]) (urlAlphabet ! (n mod 64)) = Some ([0..<64] ! (n mod 64))"
    by (intro map_of_zip_nth) (simp_all add: alphabet_size alphabet_distinct)
  then show ?thesis by (simp add: decodeSextet_def encodeSextet_def)
qed

lemma sextet_no_break: "of_char (encodeSextet n) \<noteq> (10 :: nat) \<and> of_char (encodeSextet n) \<noteq> (13 :: nat)"
proof -
  have "encodeSextet n \<in> set urlAlphabet" by (simp add: encodeSextet_def alphabet_size)
  then show ?thesis using alphabet_no_breaks by (simp add: list_all_iff)
qed

fun sextets :: "bytes \<Rightarrow> nat list" where
  "sextets [] = []"
| "sextets [a] = (let v = unat a * 16 in [v div 64 mod 64, v mod 64])"
| "sextets [a, b] = (let v = unat a * 1024 + unat b * 4 in [v div 4096 mod 64, v div 64 mod 64, v mod 64])"
| "sextets (a # b # c # rest) = (let v = unat a * 65536 + unat b * 256 + unat c in
     v div 262144 mod 64 # v div 4096 mod 64 # v div 64 mod 64 # v mod 64 # sextets rest)"

lemma those_sextets: "those (map decodeSextet (EncodeBase64 bs)) = Some (sextets bs)"
  by (induction bs rule: EncodeBase64.induct) (simp_all add: sextet_roundtrip Let_def)

lemma kept_all: "filter (\<lambda>c. of_char c \<noteq> (10 :: nat) \<and> of_char c \<noteq> (13 :: nat)) (EncodeBase64 bs) = EncodeBase64 bs"
  by (induction bs rule: EncodeBase64.induct) (simp_all add: sextet_no_break Let_def)

lemma four_sextets:
  assumes "(v :: nat) < 16777216"
  shows "v div 262144 mod 64 * 262144 + v div 4096 mod 64 * 4096 + v div 64 mod 64 * 64 + v mod 64 = v"
proof -
  have d: "v div 4096 = v div 64 div 64" "v div 262144 = v div 64 div 64 div 64" by (simp_all add: div_mult2_eq [symmetric])
  have "v div 262144 mod 64 = v div 262144" using assms by simp
  then show ?thesis unfolding d
    using div_mult_mod_eq [of v 64] div_mult_mod_eq [of "v div 64" 64] div_mult_mod_eq [of "v div 64 div 64" 64] by linarith
qed

lemma short_quanta:
  "(v :: nat) < 4096 \<Longrightarrow> v div 64 mod 64 * 64 + v mod 64 = v"
  "(w :: nat) < 262144 \<Longrightarrow> w div 4096 mod 64 * 4096 + w div 64 mod 64 * 64 + w mod 64 = w"
proof -
  show "v div 64 mod 64 * 64 + v mod 64 = v" if "v < 4096"
    using that div_mult_mod_eq [of v 64] by simp
  have d: "w div 4096 = w div 64 div 64" by (simp add: div_mult2_eq [symmetric])
  show "w div 4096 mod 64 * 4096 + w div 64 mod 64 * 64 + w mod 64 = w" if "w < 262144"
  proof -
    have "w div 64 div 64 mod 64 = w div 64 div 64" using that by (simp add: div_mult2_eq [symmetric])
    then show ?thesis unfolding d using div_mult_mod_eq [of w 64] div_mult_mod_eq [of "w div 64" 64] by linarith
  qed
qed

lemma unat_less_byte: "unat (b :: 8 word) < 256"
  using unsigned_less [of b, where 'a = nat] by simp

lemma low_byte:
  assumes "(v :: nat) mod 256 = unat b"
  shows "of_nat v = (b :: 8 word)"
proof -
  have "unat (of_nat v :: 8 word) = v mod 256" by (simp add: unat_of_nat take_bit_eq_mod)
  then show ?thesis using assms by (simp add: word_unat_eq_iff)
qed

lemma decodeQuanta_sextets: "decodeQuanta (sextets bs) = Some bs"
proof (induction bs rule: sextets.induct)
  case (2 a)
  have "unat a * 16 < 4096" using unat_less_byte [of a] by simp
  note e = short_quanta(1) [OF this]
  show ?case unfolding sextets.simps decodeQuanta.simps Let_def e by simp
next
  case (3 a b)
  have "unat a * 1024 + unat b * 4 < 262144" and b: "unat b * 4 < 1024"
    using unat_less_byte [of a] unat_less_byte [of b] by simp_all
  note e = short_quanta(2) [OF this(1)]
  have "(unat a * 1024 + unat b * 4) div 1024 = unat a" using b by simp
  moreover have "of_nat ((unat a * 1024 + unat b * 4) div 4) = b"
    by (rule low_byte) (use unat_less_byte [of b] in simp)
  ultimately show ?case unfolding sextets.simps decodeQuanta.simps Let_def e by simp
next
  case (4 a b c rest)
  let ?v = "unat a * 65536 + unat b * 256 + unat c"
  have v: "?v < 16777216" and bc: "unat b * 256 + unat c < 65536" and c: "unat c < 256"
    using unat_less_byte [of a] unat_less_byte [of b] unat_less_byte [of c] by simp_all
  note e = four_sextets [OF v]
  have "?v = (unat a * 256 + unat b) * 256 + unat c" by simp
  then have "?v div 256 = unat a * 256 + unat b" "?v mod 256 = unat c" using c by (simp_all only: div_mult_self3 mod_mult_self3 mod_less)
  moreover from this have "?v div 256 mod 256 = unat b" using unat_less_byte [of b] by simp
  ultimately have "of_nat (?v div 256) = b" "of_nat ?v = c" by (blast intro: low_byte)+
  moreover have "?v div 65536 = unat a" using bc by simp
  ultimately show ?case using 4 unfolding sextets.simps decodeQuanta.simps Let_def e by simp
qed simp

theorem base64_roundtrip: "DecodeBase64 (EncodeBase64 bs) = Some bs"
  by (simp add: DecodeBase64_def kept_all those_sextets decodeQuanta_sextets)

lemma EncodeBase64_length: "3 * length (EncodeBase64 bs) \<le> 4 * length bs + 4"
  by (induction bs rule: EncodeBase64.induct) (simp_all add: Let_def)

section \<open>Trimmed texts\<close>

lemma starts_with_zero: "starts_with codes s = 0 \<longleftrightarrow> (\<forall>c\<in>set codes. c \<noteq> [] \<longrightarrow> take (length c) s \<noteq> c)"
  by (auto simp: starts_with_def find_None_iff find_Some_iff split: option.splits)

lemma trim_left_split: "(starts_with codes (trim_left codes s) = 0 \<or> trim_left codes s = []) \<and> (\<exists>p. s = p @ trim_left codes s)"
proof (induction codes s rule: trim_left.induct)
  case (1 codes s)
  show ?case
  proof (cases "0 < starts_with codes s \<and> s \<noteq> []")
    case True
    then have "trim_left codes s = trim_left codes (drop (starts_with codes s) s)" by (subst trim_left.simps) simp
    then show ?thesis using "1.IH" [OF True] by (metis append_assoc append_take_drop_id)
  next
    case False
    then have "trim_left codes s = s" unfolding trim_left.simps [of codes s] by auto
    then show ?thesis using False by auto
  qed
qed

lemma trim_left_done: "starts_with codes s = 0 \<or> s = [] \<Longrightarrow> trim_left codes s = s"
  unfolding trim_left.simps [of codes s] by auto

lemma starts_with_prefix: "starts_with codes (xs @ ys) = 0 \<Longrightarrow> starts_with codes xs = 0"
  unfolding starts_with_zero by (metis append_eq_conv_conj append_take_drop_id append_assoc)

text \<open>Lower case of a trimmed text is trimmed: no letter is part of a space.\<close>

lemma lower_starts:
  assumes "\<forall>c\<in>set codes. \<forall>x\<in>set c. \<forall>z. lower_char z = x \<longrightarrow> z = x" "starts_with codes s = 0"
  shows "starts_with codes (ToLower s) = 0"
  unfolding starts_with_zero
proof (intro ballI impI notI)
  fix c
  assume c: "c \<in> set codes" "c \<noteq> []" "take (length c) (ToLower s) = c"
  then have "map lower_char (take (length c) s) = c" by (simp add: ToLower_def take_map)
  then have "take (length c) s = c" using assms(1) c(1) by (intro nth_equalityI) (auto simp: list_eq_iff_nth_eq)
  with assms(2) c show False unfolding starts_with_zero by blast
qed

lemma lower_char_other:
  assumes "\<not> (97 \<le> (of_char x :: nat) \<and> (of_char x :: nat) \<le> 122)" "lower_char z = x"
  shows "z = x"
  using assms by (auto simp: lower_char_def Let_def split: if_splits)

lemma space_not_lowered:
  "\<forall>c\<in>set space_codes. \<forall>x\<in>set c. \<forall>z. lower_char z = x \<longrightarrow> z = x"
  "\<forall>c\<in>set (map rev space_codes). \<forall>x\<in>set c. \<forall>z. lower_char z = x \<longrightarrow> z = x"
proof -
  have "\<forall>c\<in>set space_codes. \<forall>x\<in>set c. \<not> (97 \<le> (of_char x :: nat) \<and> (of_char x :: nat) \<le> 122)" by code_simp
  then show "\<forall>c\<in>set space_codes. \<forall>x\<in>set c. \<forall>z. lower_char z = x \<longrightarrow> z = x"
    "\<forall>c\<in>set (map rev space_codes). \<forall>x\<in>set c. \<forall>z. lower_char z = x \<longrightarrow> z = x"
    using lower_char_other by auto
qed

lemma ToLower_twice: "ToLower (ToLower s) = ToLower s"
proof -
  have "lower_char (lower_char c) = lower_char c" for c by (simp add: lower_char_def Let_def)
  then show ?thesis by (simp add: ToLower_def)
qed

lemma TrimSpace_ends:
  "(starts_with space_codes (TrimSpace s) = 0 \<or> TrimSpace s = [])
   \<and> (starts_with (map rev space_codes) (rev (TrimSpace s)) = 0 \<or> TrimSpace s = [])"
proof -
  let ?u = "trim_left space_codes s"
  let ?r = "trim_left (map rev space_codes) (rev ?u)"
  note u = trim_left_split [of space_codes s] and r = trim_left_split [of "map rev space_codes" "rev ?u"]
  from r obtain p where "rev ?u = p @ ?r" by blast
  then have "?u = rev ?r @ rev p" by (metis rev_append rev_rev_ident)
  then have "starts_with space_codes (rev ?r) = 0 \<or> ?r = []" using u starts_with_prefix by (metis Nil_is_append_conv rev_is_Nil_conv)
  with r show ?thesis by (simp add: TrimSpace_def)
qed

lemma normal_form: "ToLower (TrimSpace (ToLower (TrimSpace s))) = ToLower (TrimSpace s)"
proof -
  let ?t = "ToLower (TrimSpace s)"
  have rev: "rev ?t = ToLower (rev (TrimSpace s))" by (simp add: ToLower_def rev_map)
  have "starts_with space_codes ?t = 0 \<or> ?t = []"
    using TrimSpace_ends [of s] lower_starts [OF space_not_lowered(1)] by (auto simp: ToLower_def)
  moreover have "starts_with (map rev space_codes) (rev ?t) = 0 \<or> rev ?t = []"
    unfolding rev using TrimSpace_ends [of s] lower_starts [OF space_not_lowered(2)] by (auto simp: ToLower_def)
  ultimately have "TrimSpace ?t = ?t" unfolding TrimSpace_def by (simp only: trim_left_done rev_rev_ident)
  then show ?thesis by (simp add: ToLower_twice)
qed

section \<open>Bytes as text\<close>

text \<open>The conversion of a byte slice to a string.\<close>

definition text_of :: "bytes \<Rightarrow> string" where
  "text_of bs = map (\<lambda>b. char_of (unat b)) bs"

lemma text_of_bytes_of [simp]: "text_of (bytes_of s) = s"
proof -
  have "of_char c < (256 :: nat)" for c by (rule nat_of_char_less_256)
  then show ?thesis by (simp add: text_of_def bytes_of_def comp_def unat_of_nat)
qed

end
