(* ===== verification/ExplorerCursor.thy ===== *)
theory ExplorerCursor
  imports Explorer GoStrings
begin

text \<open>
  \<open>rpc/explorer_cursor.go\<close>: the pages of confirmed transactions that the HTTP interface serves. A cursor
  names the height, the position in the block and the hash of the block at which the next page starts.
  The loop over the heights runs down to zero and is recursion on the height; its result is the page and
  the cursor of the next one.

  The lemmas show that a cursor survives its encoding, that following the cursors lists every
  transaction of the filtered history exactly once and ends, and that a cursor is refused on a chain
  whose block at its height has another hash.
\<close>

section \<open>Cursors\<close>

definition maxExplorerCursorBytes :: nat where
  [go_const]: "maxExplorerCursorBytes = 256"

definition maxExplorerScanBlocks :: nat where
  [go_const]: "maxExplorerScanBlocks = 2000"

definition errExplorerInvalidCursor :: error where
  "errExplorerInvalidCursor = Errorf ''invalid explorer cursor'' []"

definition errExplorerStaleCursor :: error where
  "errExplorerStaleCursor = Errorf ''explorer cursor is stale'' []"

record explorerCursor =
  curHeight :: u64
  curOffset :: u64
  curBlockHash :: string

definition isLowerHex :: "string \<Rightarrow> bool" where
  "isLowerHex value = list_all is_lower_hex value"

definition encodeExplorerCursor :: "explorerCursor \<Rightarrow> string" where
  "encodeExplorerCursor cursor =
     EncodeBase64 (bytes_of (dec (unat (curHeight cursor)) @ '':'' @ dec (unat (curOffset cursor)) @ '':'' @ curBlockHash cursor))"

definition decodeExplorerCursor :: "string \<Rightarrow> explorerCursor result" where
  "decodeExplorerCursor raw =
     (if raw = '''' \<or> length raw > maxExplorerCursorBytes then Inl errExplorerInvalidCursor
      else (case DecodeBase64 raw of
        None \<Rightarrow> Inl errExplorerInvalidCursor
      | Some encoded \<Rightarrow>
      if length encoded = 0 \<or> length encoded > maxExplorerCursorBytes then Inl errExplorerInvalidCursor
      else (let parts = Split (text_of encoded) (CHR '':'') in
        if length parts \<noteq> 3 \<or> length (parts ! 2) \<noteq> 64 \<or> \<not> isLowerHex (parts ! 2) then Inl errExplorerInvalidCursor
        else (case ParseUint64 (parts ! 0) of
          None \<Rightarrow> Inl errExplorerInvalidCursor
        | Some height \<Rightarrow>
        (case ParseUint64 (parts ! 1) of
          None \<Rightarrow> Inl errExplorerInvalidCursor
        | Some offset \<Rightarrow> Inr \<lparr>curHeight = height, curOffset = offset, curBlockHash = parts ! 2\<rparr>)))))"

section \<open>Pages\<close>

text \<open>The loop over the transactions of one block; the second component is the index at which the page
  was found to be full.\<close>

fun scanTransactions ::
  "(transaction \<Rightarrow> bool) \<Rightarrow> (transaction \<Rightarrow> ConfirmedTransaction) \<Rightarrow> nat \<Rightarrow> nat \<Rightarrow> ConfirmedTransaction list
   \<Rightarrow> transaction option list \<Rightarrow> ConfirmedTransaction list \<times> nat option" where
  "scanTransactions want view limit index result [] = (result, None)"
| "scanTransactions want view limit index result (None # txs) = scanTransactions want view limit (Suc index) result txs"
| "scanTransactions want view limit index result (Some tx # txs) =
     (if \<not> want tx then scanTransactions want view limit (Suc index) result txs
      else if length result = limit then (result, Some index)
      else scanTransactions want view limit (Suc index) (result @ [view tx]) txs)"

definition confirmedView :: "crypto \<Rightarrow> nat \<Rightarrow> block \<Rightarrow> transaction \<Rightarrow> ConfirmedTransaction" where
  "confirmedView C height block tx =
     \<lparr>ctTransaction = tx, ctBlockHeight = of_nat height, ctBlockHash = Hash C block, ctBlockTimestamp = blkTimestamp block\<rparr>"

text \<open>The loop over the heights; \<open>offset\<close> is the position in the first block, \<open>scanned\<close> the number of
  blocks that were visited.\<close>

fun scanHeights ::
  "crypto \<Rightarrow> chain \<Rightarrow> (transaction \<Rightarrow> bool) \<Rightarrow> nat \<Rightarrow> nat \<Rightarrow> nat \<Rightarrow> ConfirmedTransaction list \<Rightarrow> nat
   \<Rightarrow> (ConfirmedTransaction list \<times> string) result" where
  "scanHeights C c want limit offset scanned result height =
     (case BlockByHeight c (of_nat height) of
       None \<Rightarrow> Inl errExplorerStaleCursor
     | Some block \<Rightarrow>
     (case scanTransactions want (confirmedView C height block) limit offset result (drop offset (blkTransactions block)) of
       (page, Some index) \<Rightarrow> Inr (page, encodeExplorerCursor
         \<lparr>curHeight = of_nat height, curOffset = of_nat index, curBlockHash = Hash C block\<rparr>)
     | (page, None) \<Rightarrow>
       (case height of
         0 \<Rightarrow> Inr (page, '''')
       | Suc nextHeight \<Rightarrow>
           if Suc scanned \<ge> maxExplorerScanBlocks
           then (case BlockByHeight c (of_nat nextHeight) of
               None \<Rightarrow> Inl errExplorerStaleCursor
             | Some nextBlock \<Rightarrow> Inr (page, encodeExplorerCursor
                 \<lparr>curHeight = of_nat nextHeight, curOffset = 0, curBlockHash = Hash C nextBlock\<rparr>))
           else scanHeights C c want limit 0 (Suc scanned) page nextHeight)))"

declare scanHeights.simps [simp del]

definition addressFilter :: "string \<Rightarrow> transaction \<Rightarrow> bool" where
  "addressFilter address tx \<longleftrightarrow> \<not> (address \<noteq> '''' \<and> txFrom tx \<noteq> address \<and> txTo tx \<noteq> address)"

definition explorerConfirmedPage ::
  "crypto \<Rightarrow> chain option \<Rightarrow> string \<Rightarrow> int \<Rightarrow> string \<Rightarrow> u64 option \<Rightarrow> (ConfirmedTransaction list \<times> string) result" where
  "explorerConfirmedPage C chainp address limit rawCursor beforeHeight =
     (case chainp of
       None \<Rightarrow> Inl errExplorerInvalidCursor
     | Some c \<Rightarrow>
     if limit \<le> 0 then Inl errExplorerInvalidCursor
     else if rawCursor \<noteq> '''' \<and> beforeHeight \<noteq> None then Inl errExplorerInvalidCursor
     else (let page = (\<lambda>height offset. scanHeights C c (addressFilter address) (nat limit) offset 0 [] (unat height)) in
       if rawCursor \<noteq> '''' then
         (case decodeExplorerCursor rawCursor of
           Inl err \<Rightarrow> Inl errExplorerInvalidCursor
         | Inr cursor \<Rightarrow>
         if curHeight cursor > Height c then Inl errExplorerInvalidCursor
         else (case BlockByHeight c (curHeight cursor) of
           None \<Rightarrow> Inl errExplorerStaleCursor
         | Some block \<Rightarrow>
         if Hash C block \<noteq> curBlockHash cursor then Inl errExplorerStaleCursor
         else if unat (curOffset cursor) > length (blkTransactions block) then Inl errExplorerInvalidCursor
         else page (curHeight cursor) (unat (curOffset cursor))))
       else (case beforeHeight of
           Some before \<Rightarrow>
             if before = 0 then Inr ([], '''')
             else page (if before - 1 < Height c then before - 1 else Height c) 0
         | None \<Rightarrow> page (Height c) 0)))"

section \<open>A cursor survives its encoding\<close>

lemma length_dec: "0 < k \<Longrightarrow> n < 10 ^ k \<Longrightarrow> length (dec n) \<le> k"
proof (induction k arbitrary: n)
  case (Suc k)
  show ?case
  proof (cases "n < 10")
    case False
    then have "0 < k" using Suc.prems by (cases k) auto
    moreover have "n div 10 < 10 ^ k" using Suc.prems by (simp add: less_mult_imp_div_less mult.commute)
    ultimately have "length (dec (n div 10)) \<le> k" by (rule Suc.IH)
    then show ?thesis using False by (simp del: dec.simps add: dec.simps [of n])
  qed (simp add: dec.simps [of n])
qed simp

lemma length_dec_u64: "length (dec (unat (x :: u64))) \<le> 20"
proof -
  have "unat x < 18446744073709551616" using unsigned_less [of x, where 'a = nat] by simp
  also have "\<dots> < 10 ^ 20" by simp
  finally show ?thesis by (intro length_dec) simp_all
qed

lemma colon_plain: "CHR '':'' \<notin> set (dec n)" "isLowerHex s \<Longrightarrow> CHR '':'' \<notin> set s"
  using set_dec [of "CHR '':''" n] by (auto simp: isLowerHex_def list_all_iff is_lower_hex_def)

lemma cursor_roundtrip:
  assumes "length (curBlockHash cursor) = 64" "isLowerHex (curBlockHash cursor)"
  shows "decodeExplorerCursor (encodeExplorerCursor cursor) = Inr cursor" "encodeExplorerCursor cursor \<noteq> ''''"
proof -
  let ?h = "dec (unat (curHeight cursor))" and ?o = "dec (unat (curOffset cursor))"
  let ?text = "?h @ CHR '':'' # ?o @ CHR '':'' # curBlockHash cursor"
  have e: "encodeExplorerCursor cursor = EncodeBase64 (bytes_of ?text)" by (simp add: encodeExplorerCursor_def)
  have len: "length ?text \<le> 106" using length_dec_u64 [of "curHeight cursor"] length_dec_u64 [of "curOffset cursor"] assms(1) by simp
  have "3 * length (EncodeBase64 (bytes_of ?text)) \<le> 4 * length ?text + 4" using EncodeBase64_length [of "bytes_of ?text"] by simp
  then have "length (EncodeBase64 (bytes_of ?text)) \<le> 256" using len by simp
  moreover show ne: "encodeExplorerCursor cursor \<noteq> ''''"
    unfolding e using base64_roundtrip [of "bytes_of ?text"] by (auto simp: DecodeBase64_def bytes_of_def)
  moreover have "Split ?text (CHR '':'') = [?h, ?o, curBlockHash cursor]"
    using assms(2) by (simp add: Split_append Split_plain colon_plain)
  moreover have "ParseUint64 ?h = Some (curHeight cursor)" "ParseUint64 ?o = Some (curOffset cursor)"
    using ParseUint64_dec [of "unat (curHeight cursor)"] ParseUint64_dec [of "unat (curOffset cursor)"]
      unsigned_less [of "curHeight cursor", where 'a = nat] unsigned_less [of "curOffset cursor", where 'a = nat] by simp_all
  ultimately show "decodeExplorerCursor (encodeExplorerCursor cursor) = Inr cursor"
    using len assms unfolding e decodeExplorerCursor_def base64_roundtrip
    by (simp add: go_const Let_def del: bytes_of_append)
qed

section \<open>A page is a prefix of what remains\<close>

definition entries :: "(transaction \<Rightarrow> bool) \<Rightarrow> (transaction \<Rightarrow> ConfirmedTransaction) \<Rightarrow> transaction option list \<Rightarrow> ConfirmedTransaction list" where
  "entries want view txs = map view (filter want (List.map_filter id txs))"

lemma entries_simps [simp]:
  "entries want view [] = []"
  "entries want view (None # txs) = entries want view txs"
  "entries want view (Some tx # txs) = (if want tx then view tx # entries want view txs else entries want view txs)"
  by (simp_all add: entries_def List.map_filter_simps)

lemma scanTransactions_all:
  "scanTransactions want view limit index result txs = (page, None) \<Longrightarrow> length result \<le> limit \<Longrightarrow>
   page = result @ entries want view txs \<and> length page \<le> limit"
  by (induction want view limit index result txs rule: scanTransactions.induct) (auto split: if_splits)

lemma scanTransactions_full:
  "scanTransactions want view limit index result txs = (page, Some i) \<Longrightarrow> length result \<le> limit \<Longrightarrow>
   index + (limit - length result) \<le> i \<and> i < index + length txs \<and> length page = limit
   \<and> page @ entries want view (drop (i - index) txs) = result @ entries want view txs"
proof (induction want view limit index result txs rule: scanTransactions.induct)
  case (2 want view limit index result txs)
  then have "i - index = Suc (i - Suc index)" by auto
  with 2 show ?case by auto
next
  case (3 want view limit index result tx txs)
  show ?case
  proof (cases "want tx \<and> length result = limit")
    case False
    then have "i - index = Suc (i - Suc index)" using 3 by (auto split: if_splits)
    with 3 False show ?thesis by (auto split: if_splits)
  qed (use 3 in auto)
qed simp

text \<open>What is left to list from a position on: the rest of its block, then all lower blocks.\<close>

fun remaining :: "crypto \<Rightarrow> (transaction \<Rightarrow> bool) \<Rightarrow> block list \<Rightarrow> nat \<Rightarrow> nat \<Rightarrow> ConfirmedTransaction list" where
  "remaining C want bs 0 offset = entries want (confirmedView C 0 (bs ! 0)) (drop offset (blkTransactions (bs ! 0)))"
| "remaining C want bs (Suc h) offset =
     entries want (confirmedView C (Suc h) (bs ! Suc h)) (drop offset (blkTransactions (bs ! Suc h))) @ remaining C want bs h 0"

lemma remaining_split:
  "remaining C want bs h offset = entries want (confirmedView C h (bs ! h)) (drop offset (blkTransactions (bs ! h)))
     @ (case h of 0 \<Rightarrow> [] | Suc g \<Rightarrow> remaining C want bs g 0)"
  by (cases h) simp_all

definition cursorAt :: "crypto \<Rightarrow> chain \<Rightarrow> nat \<Rightarrow> nat \<Rightarrow> explorerCursor" where
  "cursorAt C c h offset = \<lparr>curHeight = of_nat h, curOffset = of_nat offset, curBlockHash = Hash C (blocks c ! h)\<rparr>"

definition page_ok :: "crypto \<Rightarrow> chain \<Rightarrow> (transaction \<Rightarrow> bool) \<Rightarrow> nat \<Rightarrow> nat \<Rightarrow> nat \<Rightarrow> bool
    \<Rightarrow> ConfirmedTransaction list \<Rightarrow> ConfirmedTransaction list \<Rightarrow> string \<Rightarrow> bool" where
  "page_ok C c want limit h offset room result page next \<longleftrightarrow> length page \<le> limit
     \<and> (next = '''' \<and> page = result @ remaining C want (blocks c) h offset
        \<or> (\<exists>h' offset'. next = encodeExplorerCursor (cursorAt C c h' offset') \<and> h' \<le> h \<and> (h' = h \<longrightarrow> room \<longrightarrow> offset < offset')
             \<and> offset' \<le> length (blkTransactions (blocks c ! h'))
             \<and> page @ remaining C want (blocks c) h' offset' = result @ remaining C want (blocks c) h offset))"

lemma full_page:
  assumes "scanTransactions want (confirmedView C h (blocks c ! h)) limit offset result
      (drop offset (blkTransactions (blocks c ! h))) = (page, Some i)" "length result \<le> limit"
    "offset \<le> length (blkTransactions (blocks c ! h))"
  shows "page_ok C c want limit h offset (length result < limit) result page (encodeExplorerCursor (cursorAt C c h i))"
proof -
  note f = scanTransactions_full [OF assms(1,2)]
  then have "i \<le> length (blkTransactions (blocks c ! h))" "drop (i - offset) (drop offset (blkTransactions (blocks c ! h)))
      = drop i (blkTransactions (blocks c ! h))" using assms(3) by auto
  then have "page @ remaining C want (blocks c) h i = result @ remaining C want (blocks c) h offset"
    using f unfolding remaining_split [of C want "blocks c" h] by (metis append_assoc)
  then show ?thesis unfolding page_ok_def using f \<open>i \<le> _\<close> by (intro conjI disjI2 exI [of _ h] exI [of _ i]) auto
qed

lemma page_ok_down:
  assumes "page_ok C c want limit h 0 room page page' nxt"
    and "page @ remaining C want (blocks c) h 0 = result @ remaining C want (blocks c) (Suc h) offset"
  shows "page_ok C c want limit (Suc h) offset room' result page' nxt"
proof (cases "nxt = '''' \<and> page' = page @ remaining C want (blocks c) h 0")
  case True
  then show ?thesis using assms by (simp add: page_ok_def)
next
  case False
  then obtain h' offset' where "nxt = encodeExplorerCursor (cursorAt C c h' offset')" "h' \<le> h"
    "offset' \<le> length (blkTransactions (blocks c ! h'))" "page' @ remaining C want (blocks c) h' offset' = page @ remaining C want (blocks c) h 0"
    using assms(1) unfolding page_ok_def by blast
  then show ?thesis using assms unfolding page_ok_def by (intro conjI disjI2 exI [of _ h'] exI [of _ offset']) simp_all
qed

lemma scanHeights_page:
  assumes "chain_ok C c"
  shows "h < length (blocks c) \<Longrightarrow> length result \<le> limit \<Longrightarrow> offset \<le> length (blkTransactions (blocks c ! h)) \<Longrightarrow>
    \<exists>page next. scanHeights C c want limit offset scanned result h = Inr (page, next)
      \<and> page_ok C c want limit h offset (length result < limit) result page next"
proof (induction h arbitrary: result offset scanned)
  case (0 result offset scanned)
  let ?scan = "scanTransactions want (confirmedView C 0 (blocks c ! 0)) limit offset result (drop offset (blkTransactions (blocks c ! 0)))"
  have look: "BlockByHeight c 0 = Some (blocks c ! 0)" using chain_ok_lookup(1) [OF assms, of 0] 0 by simp
  obtain page stop where scan: "?scan = (page, stop)" by fastforce
  show ?case
  proof (cases stop)
    case None
    then show ?thesis using scanTransactions_all [of want _ limit offset result] scan look 0
      by (simp add: scanHeights.simps page_ok_def)
  next
    case (Some i)
    then show ?thesis using full_page [of want C 0 c limit offset result page i] scan look 0
      by (simp add: scanHeights.simps cursorAt_def)
  qed
next
  case (Suc h result offset scanned)
  let ?scan = "scanTransactions want (confirmedView C (Suc h) (blocks c ! Suc h)) limit offset result
      (drop offset (blkTransactions (blocks c ! Suc h)))"
  have big: "length (blocks c) < 2 ^ 64" using assms by (simp add: chain_ok_def)
  then have look: "BlockByHeight c (of_nat (Suc h)) = Some (blocks c ! Suc h)" "BlockByHeight c (of_nat h) = Some (blocks c ! h)"
    using chain_ok_lookup(1) [OF assms, of "of_nat (Suc h)"] chain_ok_lookup(1) [OF assms, of "of_nat h"] Suc.prems(1)
    by (simp_all only: unat_of_nat_64) simp_all
  obtain page stop where scan: "?scan = (page, stop)" by fastforce
  note step = scanHeights.simps [of C c want limit offset scanned result "Suc h", unfolded look(1) option.case scan prod.case nat.case]
  show ?case
  proof (cases stop)
    case (Some i)
    then show ?thesis using full_page [of want C "Suc h" c limit offset result page i] scan Suc.prems
      unfolding step by (simp add: cursorAt_def)
  next
    case None
    have p: "page = result @ entries want (confirmedView C (Suc h) (blocks c ! Suc h)) (drop offset (blkTransactions (blocks c ! Suc h)))"
      "length page \<le> limit" using scanTransactions_all [of want _ limit offset result] scan None Suc.prems(2) by blast+
    then have rest: "page @ remaining C want (blocks c) h 0 = result @ remaining C want (blocks c) (Suc h) offset" by simp
    show ?thesis
    proof (cases "Suc scanned \<ge> maxExplorerScanBlocks")
      case True
      have "page_ok C c want limit (Suc h) offset (length result < limit) result page (encodeExplorerCursor (cursorAt C c h 0))"
        unfolding page_ok_def using p(2) rest by (intro conjI disjI2 exI [of _ h] exI [of _ 0]) auto
      then show ?thesis unfolding step using None True look(2) by (simp add: cursorAt_def)
    next
      case False
      have "h < length (blocks c)" using Suc.prems(1) by simp
      from Suc.IH [OF this p(2), of 0 "Suc scanned"] obtain page' nxt where
        n: "scanHeights C c want limit 0 (Suc scanned) page h = Inr (page', nxt)"
          "page_ok C c want limit h 0 (length page < limit) page page' nxt" by auto
      have "page_ok C c want limit (Suc h) offset (length result < limit) result page' nxt"
        by (rule page_ok_down [OF n(2) rest])
      then show ?thesis unfolding step using None False n(1) by simp
    qed
  qed
qed

section \<open>Following the cursors\<close>

text \<open>A client reads page after page until a page comes without a cursor.\<close>

inductive browse :: "crypto \<Rightarrow> chain option \<Rightarrow> string \<Rightarrow> int \<Rightarrow> string \<Rightarrow> ConfirmedTransaction list list \<Rightarrow> bool"
  for C chainp address limit where
  browse_last: "explorerConfirmedPage C chainp address limit raw None = Inr (page, '''') \<Longrightarrow> browse C chainp address limit raw [page]"
| browse_more: "explorerConfirmedPage C chainp address limit raw None = Inr (page, nxt) \<Longrightarrow> nxt \<noteq> '''' \<Longrightarrow>
    browse C chainp address limit nxt pages \<Longrightarrow> browse C chainp address limit raw (page # pages)"

definition bodies_fit :: "chain \<Rightarrow> bool" where
  "bodies_fit c \<longleftrightarrow> (\<forall>b\<in>set (blocks c). length (blkTransactions b) < 2 ^ 64)"

text \<open>The position at which a page starts: the tip without a cursor, otherwise what the cursor says.\<close>

definition starts :: "crypto \<Rightarrow> chain \<Rightarrow> string \<Rightarrow> nat \<Rightarrow> nat \<Rightarrow> bool" where
  "starts C c raw h offset \<longleftrightarrow> h < length (blocks c) \<and> offset \<le> length (blkTransactions (blocks c ! h))
     \<and> (raw = '''' \<and> Suc h = length (blocks c) \<and> offset = 0 \<or> raw = encodeExplorerCursor (cursorAt C c h offset))"

lemma cursorAt_roundtrip:
  assumes "hash_size_ok C"
  shows "decodeExplorerCursor (encodeExplorerCursor (cursorAt C c h offset)) = Inr (cursorAt C c h offset)"
    "encodeExplorerCursor (cursorAt C c h offset) \<noteq> ''''"
proof -
  have h: "length (curBlockHash (cursorAt C c h offset)) = 64" "isLowerHex (curBlockHash (cursorAt C c h offset))"
    using length_Hash [OF assms] by (simp_all add: cursorAt_def isLowerHex_def Hash_def hex_encode_lower Let_def)
  from cursor_roundtrip [OF h] show "decodeExplorerCursor (encodeExplorerCursor (cursorAt C c h offset)) = Inr (cursorAt C c h offset)"
    "encodeExplorerCursor (cursorAt C c h offset) \<noteq> ''''" by blast+
qed

lemma page_at:
  assumes "chain_ok C c" "hash_size_ok C" "bodies_fit c" "0 < limit" "starts C c raw h offset"
  shows "explorerConfirmedPage C (Some c) a limit raw None = scanHeights C c (addressFilter a) (nat limit) offset 0 [] h"
proof (cases "raw = ''''")
  case True
  then have "offset = 0" "Suc h = length (blocks c)" using assms(5) cursorAt_roundtrip(2) [OF assms(2), THEN not_sym] by (auto simp: starts_def)
  moreover have "unat (Height c) = length (blocks c) - 1" by (rule chain_ok_lookup(2) [OF assms(1)])
  ultimately show ?thesis using True assms(4) by (simp add: explorerConfirmedPage_def flip: \<open>Suc h = length (blocks c)\<close>)
next
  case False
  then have raw: "raw = encodeExplorerCursor (cursorAt C c h offset)" and h: "h < length (blocks c)"
    and o: "offset \<le> length (blkTransactions (blocks c ! h))" using assms(5) by (auto simp: starts_def)
  have "length (blkTransactions (blocks c ! h)) < 2 ^ 64" using assms(3) h by (simp add: bodies_fit_def)
  then have uo: "unat (of_nat offset :: u64) = offset" using o by (intro unat_of_nat_64) simp
  have uh: "unat (of_nat h :: u64) = h" using h assms(1) by (intro unat_of_nat_64) (simp add: chain_ok_def)
  have "\<not> (of_nat h :: u64) > Height c" using uh h chain_ok_lookup(2) [OF assms(1)] by (simp add: word_less_nat_alt)
  moreover have "BlockByHeight c (of_nat h) = Some (blocks c ! h)" using chain_ok_lookup(1) [OF assms(1), of "of_nat h"] uh h by simp
  ultimately show ?thesis
    using False assms(4) o uo uh unfolding raw explorerConfirmedPage_def
    by (simp add: cursorAt_roundtrip [OF assms(2)] Let_def) (simp add: cursorAt_def)
qed

lemma page_from:
  assumes "chain_ok C c" "hash_size_ok C" "bodies_fit c" "0 < limit" "starts C c raw h offset"
  obtains page nxt where "explorerConfirmedPage C (Some c) a limit raw None = Inr (page, nxt)" "length page \<le> nat limit"
    "nxt = '''' \<Longrightarrow> page = remaining C (addressFilter a) (blocks c) h offset"
    "nxt \<noteq> '''' \<Longrightarrow> \<exists>h' offset'. starts C c nxt h' offset' \<and> h' \<le> h \<and> (h' = h \<longrightarrow> offset < offset')
       \<and> page @ remaining C (addressFilter a) (blocks c) h' offset' = remaining C (addressFilter a) (blocks c) h offset"
proof -
  have "h < length (blocks c)" "offset \<le> length (blkTransactions (blocks c ! h))" using assms(5) by (simp_all add: starts_def)
  with scanHeights_page [OF assms(1), of h "[]" "nat limit" offset "addressFilter a" 0] obtain page nxt where
    s: "scanHeights C c (addressFilter a) (nat limit) offset 0 [] h = Inr (page, nxt)"
    "page_ok C c (addressFilter a) (nat limit) h offset True [] page nxt" using assms(4) by auto
  have "nxt = '''' \<Longrightarrow> page = remaining C (addressFilter a) (blocks c) h offset"
    using s(2) cursorAt_roundtrip(2) [OF assms(2), THEN not_sym] by (auto simp: page_ok_def)
  moreover have "\<exists>h' offset'. starts C c nxt h' offset' \<and> h' \<le> h \<and> (h' = h \<longrightarrow> offset < offset')
       \<and> page @ remaining C (addressFilter a) (blocks c) h' offset' = remaining C (addressFilter a) (blocks c) h offset" if more: "nxt \<noteq> ''''"
  proof -
    obtain h' offset' where "nxt = encodeExplorerCursor (cursorAt C c h' offset')" "h' \<le> h" "h' = h \<longrightarrow> offset < offset'"
      "offset' \<le> length (blkTransactions (blocks c ! h'))"
      "page @ remaining C (addressFilter a) (blocks c) h' offset' = remaining C (addressFilter a) (blocks c) h offset"
      using s(2) more unfolding page_ok_def by auto
    then show ?thesis using \<open>h < length (blocks c)\<close> by (intro exI [of _ h'] exI [of _ offset']) (simp add: starts_def)
  qed
  ultimately show thesis using that [of page nxt] s page_at [OF assms, of a] by (simp add: page_ok_def)
qed

lemma browse_exists:
  assumes "chain_ok C c" "hash_size_ok C" "bodies_fit c" "0 < limit"
  shows "starts C c raw h offset \<Longrightarrow> \<exists>pages. browse C (Some c) a limit raw pages"
proof (induction "(h, length (blkTransactions (blocks c ! h)) - offset)" arbitrary: raw h offset
    rule: wf_induct_rule [OF wf_lex_prod [OF wf_less_than wf_less_than]])
  case 1
  obtain page nxt where p: "explorerConfirmedPage C (Some c) a limit raw None = Inr (page, nxt)"
    "nxt \<noteq> '''' \<Longrightarrow> \<exists>h' offset'. starts C c nxt h' offset' \<and> h' \<le> h \<and> (h' = h \<longrightarrow> offset < offset')"
    by (rule page_from [OF assms "1.prems", of a]) blast
  show ?case
  proof (cases "nxt = ''''")
    case True
    then show ?thesis using p(1) browse_last by blast
  next
    case False
    with p(2) obtain h' offset' where n: "starts C c nxt h' offset'" "h' \<le> h" "h' = h \<longrightarrow> offset < offset'" by blast
    have "((h', length (blkTransactions (blocks c ! h')) - offset'), (h, length (blkTransactions (blocks c ! h)) - offset)) \<in> less_than <*lex*> less_than"
      using n by (auto simp: starts_def)
    from "1.hyps" [OF this n(1)] p(1) False show ?thesis using browse_more by blast
  qed
qed

lemma browse_exact:
  assumes "chain_ok C c" "hash_size_ok C" "bodies_fit c" "0 < limit"
  shows "browse C (Some c) a limit raw pages \<Longrightarrow> starts C c raw h offset \<Longrightarrow>
    concat pages = remaining C (addressFilter a) (blocks c) h offset \<and> (\<forall>page\<in>set pages. length page \<le> nat limit)"
proof (induction arbitrary: h offset rule: browse.induct)
  case (browse_last raw page)
  show ?case by (rule page_from [OF assms browse_last.prems, of a]) (use browse_last.hyps in auto)
next
  case (browse_more raw page nxt pages)
  obtain h' offset' where "starts C c nxt h' offset'" "length page \<le> nat limit"
    "page @ remaining C (addressFilter a) (blocks c) h' offset' = remaining C (addressFilter a) (blocks c) h offset"
    by (rule page_from [OF assms browse_more.prems, of a]) (use browse_more.hyps in auto)
  with browse_more.IH show ?case by auto
qed

lemma chain_ok_heights: "chain_ok C c \<Longrightarrow> i < length (blocks c) \<Longrightarrow> blkHeight (blocks c ! i) = of_nat i"
  using chain_ok_lookup(1) [of C c "of_nat i"] unat_of_nat_64 [of i]
  by (auto simp: chain_ok_def BlockByHeight_def Let_def split: if_splits)

lemma remaining_history:
  assumes "chain_ok C c" "h < length (blocks c)"
  shows "remaining C want (blocks c) h 0 = history C want None (rev (take (Suc h) (blocks c)))"
  using assms(2)
proof (induction h)
  case 0
  have "confirmedView C 0 (blocks c ! 0) = confirmed C (blocks c ! 0)"
    using chain_ok_heights [OF assms(1) 0] by (auto simp: confirmedView_def confirmed_def fun_eq_iff)
  then show ?case using 0 by (simp add: history_def entries_def below_def take_Suc_conv_app_nth)
next
  case (Suc h)
  have "confirmedView C (Suc h) (blocks c ! Suc h) = confirmed C (blocks c ! Suc h)"
    using chain_ok_heights [OF assms(1) Suc.prems] by (auto simp: confirmedView_def confirmed_def fun_eq_iff)
  then show ?case using Suc by (simp add: history_def entries_def below_def take_Suc_conv_app_nth [of "Suc h"])
qed

text \<open>The entries of a page lie at or below its start, and carry the hash of their block.\<close>

lemma remaining_entries:
  assumes "chain_ok C c" "h < length (blocks c)" "e \<in> set (remaining C want (blocks c) h offset)"
  shows "unat (ctBlockHeight e) \<le> h \<and> ctBlockHash e = Hash C (blocks c ! unat (ctBlockHeight e))"
  using assms(2,3)
proof (induction h arbitrary: offset)
  case (Suc h)
  have "unat (of_nat (Suc h) :: u64) = Suc h" using Suc.prems(1) assms(1) by (intro unat_of_nat_64) (simp add: chain_ok_def)
  then have "unat (ctBlockHeight e) = Suc h \<and> ctBlockHash e = Hash C (blocks c ! Suc h)"
    if "e \<in> set (entries want (confirmedView C (Suc h) (blocks c ! Suc h)) (drop offset (blkTransactions (blocks c ! Suc h))))"
    using that by (auto simp: entries_def confirmedView_def)
  with Suc show ?case by fastforce
qed (auto simp: entries_def confirmedView_def)

text \<open>A chain that accepts the cursor of another one has the same block hash at its height.\<close>

lemma accepted_cursor:
  assumes "chain_ok C d" "hash_size_ok C" "h < 2 ^ 64" "offset < 2 ^ 64"
    and "explorerConfirmedPage C (Some d) a limit (encodeExplorerCursor (cursorAt C c h offset)) None = Inr r"
  shows "Hash C (blocks d ! h) = Hash C (blocks c ! h)" "starts C d (encodeExplorerCursor (cursorAt C c h offset)) h offset" "0 < limit"
proof -
  have u: "unat (of_nat h :: u64) = h" "unat (of_nat offset :: u64) = offset" using assms(3,4) by (simp_all add: unat_of_nat_64)
  obtain b where b: "BlockByHeight d (of_nat h) = Some b" "Hash C b = Hash C (blocks c ! h)" "offset \<le> length (blkTransactions b)" "0 < limit"
    using assms(5) u unfolding explorerConfirmedPage_def
    by (auto simp: cursorAt_roundtrip [OF assms(2)] Let_def split: if_splits option.splits) (auto simp: cursorAt_def)
  then have "h < length (blocks d)" "b = blocks d ! h" using chain_ok_lookup(1) [OF assms(1), of "of_nat h"] u by (auto split: if_splits)
  with b show "Hash C (blocks d ! h) = Hash C (blocks c ! h)" "0 < limit"
    "starts C d (encodeExplorerCursor (cursorAt C c h offset)) h offset" by (simp_all add: starts_def cursorAt_def)
qed

section \<open>Properties\<close>

text \<open>C12: the pages are complete and without repetition. On an unchanged chain, following the cursors
  comes to an end, no page exceeds the limit, and the pages together are exactly the newest-first
  history of the confirmed transactions, or of those that the address sent or received.\<close>

theorem explorer_pages_complete:
  assumes "chain_ok C c" "hash_size_ok C" "bodies_fit c" "0 < limit"
  shows "(\<exists>pages. browse C (Some c) a limit '''' pages)
    \<and> (\<forall>pages. browse C (Some c) a limit '''' pages \<longrightarrow>
         concat pages = history C (addressFilter a) None (rev (blocks c)) \<and> (\<forall>page\<in>set pages. length page \<le> nat limit))"
proof -
  have ne: "blocks c \<noteq> []" using chain_ok_lookup(3) [OF assms(1)] .
  then have s: "starts C c '''' (length (blocks c) - 1) 0" by (simp add: starts_def)
  have "remaining C (addressFilter a) (blocks c) (length (blocks c) - 1) 0 = history C (addressFilter a) None (rev (blocks c))"
    using remaining_history [OF assms(1), of "length (blocks c) - 1"] ne by simp
  then show ?thesis using browse_exists [OF assms s] browse_exact [OF assms _ s] by simp
qed

theorem explorer_pages_complete_witness:
  "\<exists>pages. browse small_crypto (Some (small_chain 7)) '''' 1 '''' pages
     \<and> concat pages = history small_crypto (addressFilter '''') None (rev (blocks (small_chain 7)))"
proof -
  have "bodies_fit (small_chain 7)" by (simp add: bodies_fit_def NewGenesisBlock_def newGenesisBlock_def)
  from explorer_pages_complete [OF small_chain_ok(1) [of 7] hash_size_small this, of 1 "''''"] show ?thesis by auto
qed

text \<open>Pages never mix two histories. A cursor that was made on one chain and is presented to another,
  as after a reorganization, is refused, or the two chains agree on the hash of every block up to the
  cursor's height; then every entry of the page lies at or below that height and is labelled with the
  hash that the first chain has there.\<close>

theorem cursor_pins_history:
  assumes "chain_ok C c" "chain_ok C d" "hash_size_ok C" "bodies_fit d"
    and "inj_on (sha256 C) (hashed_inputs C (set (blocks c) \<union> set (blocks d)))"
    and "h < length (blocks c)" "offset < 2 ^ 64"
    and "explorerConfirmedPage C (Some d) a limit (encodeExplorerCursor (cursorAt C c h offset)) None = Inr (page, nxt)"
  shows "(\<forall>i\<le>h. Hash C (blocks d ! i) = Hash C (blocks c ! i))
    \<and> (\<forall>e\<in>set page. unat (ctBlockHeight e) \<le> h \<and> ctBlockHash e = Hash C (blocks c ! unat (ctBlockHeight e)))"
proof -
  have "h < 2 ^ 64" using assms(1,6) by (simp add: chain_ok_def)
  note d = accepted_cursor [OF assms(2,3) this assms(7,8)]
  then have hd: "h < length (blocks d)" by (simp add: starts_def)
  have same: "Hash C (blocks d ! i) = Hash C (blocks c ! i)" if "i \<le> h" for i
    using equal_hash_commits [OF _ _ assms(3,5,6) hd d(1) [symmetric] that] assms(1,2) by (simp add: chain_ok_def)
  have "set page \<subseteq> set (remaining C (addressFilter a) (blocks d) h offset)"
    by (rule page_from [OF assms(2,3,4) d(3,2), of a]) (use assms(8) in \<open>fastforce dest: arg_cong [where f = set]\<close>)
  then show ?thesis using remaining_entries [OF assms(2) hd] same by fastforce
qed

theorem cursor_pins_history_witness:
  "\<exists>page nxt. explorerConfirmedPage small_crypto (Some small_genesis_chain) '''' 1
       (encodeExplorerCursor (cursorAt small_crypto (small_chain 7) 0 0)) None = Inr (page, nxt)
     \<and> Hash small_crypto (blocks small_genesis_chain ! 0) = Hash small_crypto (blocks (small_chain 7) ! 0)"
proof -
  have b: "bodies_fit small_genesis_chain" by (simp add: bodies_fit_def small_genesis_chain_def NewGenesisBlock_def newGenesisBlock_def)
  have s: "starts small_crypto small_genesis_chain (encodeExplorerCursor (cursorAt small_crypto (small_chain 7) 0 0)) 0 0"
    by (simp add: starts_def small_genesis_chain_def cursorAt_def)
  obtain page nxt where p: "explorerConfirmedPage small_crypto (Some small_genesis_chain) '''' 1
       (encodeExplorerCursor (cursorAt small_crypto (small_chain 7) 0 0)) None = Inr (page, nxt)"
    by (rule page_from [OF small_chain_ok(2) hash_size_small b zero_less_one s]) blast
  have "inj_on (sha256 small_crypto) (hashed_inputs small_crypto (set (blocks (small_chain 7)) \<union> set (blocks small_genesis_chain)))"
    by (rule inj_on_subset [OF small_chain_no_collision]) (auto simp: hashed_inputs_def small_genesis_chain_def)
  from cursor_pins_history [OF small_chain_ok(1) [of 7] small_chain_ok(2) hash_size_small b this _ _ p] p show ?thesis by auto
qed

end
