(* ===== verification/MiningParams.thy ===== *)
theory MiningParams
  imports Params GoStrings
begin

text \<open>
  The rest of package \<open>params\<close>: the mining algorithm, backends and endpoints of \<open>mining.go\<close>, and the
  launch gates of \<open>readiness.go\<close>, \<open>mining_readiness.go\<close> and \<open>security_review_evidence.go\<close>. The
  explanatory texts of the gates are left out.
\<close>

section \<open>Mining\<close>

definition ProductionMiningAlgorithm :: string where
  [go_const]: "ProductionMiningAlgorithm = ''sudharma-gpupow-v1''"

definition ProductionMiningBrand :: string where
  [go_const]: "ProductionMiningBrand = ''Khushi''"

definition ProductionMiningBackend :: string where
  [go_const]: "ProductionMiningBackend = ''gpu-only''"

definition MiningNetworkPublicTestnet :: string where
  [go_const]: "MiningNetworkPublicTestnet = ''public-testnet''"

definition MiningNetworkMainnet :: string where
  [go_const]: "MiningNetworkMainnet = ''mainnet''"

definition PublicTestnetMiningRPC :: string where
  [go_const]: "PublicTestnetMiningRPC = ''https://ja6a03avlc.execute-api.ap-south-1.amazonaws.com''"

definition PublicTestnetSeed1RPC :: string where
  [go_const]: "PublicTestnetSeed1RPC = ''http://172.31.10.171:29100''"

definition PublicTestnetSeed2RPC :: string where
  [go_const]: "PublicTestnetSeed2RPC = ''http://172.31.32.195:29100''"

definition MainnetMiningRPC :: string where
  [go_const]: "MainnetMiningRPC = ''https://mainnet.rpc.sudharma.invalid''"

definition MainnetSeed1RPC :: string where
  [go_const]: "MainnetSeed1RPC = ''http://REPLACE_WITH_SEED1_PRIVATE_IP:29100''"

definition MainnetSeed2RPC :: string where
  [go_const]: "MainnetSeed2RPC = ''http://REPLACE_WITH_SEED2_PRIVATE_IP:29100''"

definition MainnetMiningAuthorized :: bool where
  [go_const]: "MainnetMiningAuthorized = False"

definition GPUOnlyMiningMessage :: string where
  "GPUOnlyMiningMessage = ''Sudharma is GPU-only (Khushi / sudharma-gpupow-v1). CPU and ASIC mining are not supported on public-testnet or mainnet.''"

definition NormalizeMiningNetwork :: "string \<Rightarrow> string" where
  "NormalizeMiningNetwork network =
     (let n = ToLower (TrimSpace network) in
      if n \<in> set ['''', MiningNetworkPublicTestnet, ''testnet'', ''sudharma-testnet-1''] then MiningNetworkPublicTestnet
      else if n \<in> set [MiningNetworkMainnet, ''sudharma-mainnet-1''] then MiningNetworkMainnet
      else n)"

definition PublicTestnetMiningSeedRPCs :: "string list" where
  "PublicTestnetMiningSeedRPCs = [PublicTestnetSeed1RPC, PublicTestnetSeed2RPC]"

definition MainnetMiningSeedRPCs :: "string list" where
  "MainnetMiningSeedRPCs = [MainnetSeed1RPC, MainnetSeed2RPC]"

definition MiningRPCEndpointsForNetwork :: "string \<Rightarrow> string list result" where
  "MiningRPCEndpointsForNetwork network =
     (let n = NormalizeMiningNetwork network in
      if n = MiningNetworkPublicTestnet then Inr (PublicTestnetMiningRPC # PublicTestnetMiningSeedRPCs)
      else if n = MiningNetworkMainnet then
        (if \<not> MainnetMiningAuthorized
         then Inl (Errorf ''mainnet mining is not authorized; Sudharma mainnet remains GPU-only and closed until launch'' [])
         else Inr (MainnetMiningRPC # MainnetMiningSeedRPCs))
      else Inl (Errorf ''unsupported mining network %q (use public-testnet or mainnet)'' [network]))"

definition MiningRPCForNetwork :: "string \<Rightarrow> string result" where
  "MiningRPCForNetwork network =
     (case MiningRPCEndpointsForNetwork network of
        Inl err \<Rightarrow> Inl err
      | Inr [] \<Rightarrow> Inl (Errorf ''no mining RPC endpoints configured for network %q'' [network])
      | Inr (endpoint # _) \<Rightarrow> Inr endpoint)"

definition ValidateProductionMiningAlgorithm :: "string \<Rightarrow> unit result" where
  "ValidateProductionMiningAlgorithm algorithm =
     (let got = ToLower (TrimSpace algorithm) in
      if got = ProductionMiningAlgorithm \<or> got = ToLower ProductionMiningBrand then Inr ()
      else Inl (Errorf ''%s (got %q)'' [GPUOnlyMiningMessage, algorithm]))"

definition ValidateMiningBackend :: "string \<Rightarrow> unit result" where
  "ValidateMiningBackend backend =
     (let got = ToLower (TrimSpace backend) in
      if got \<in> set ['''', ProductionMiningBackend, ''gpu'', ''cuda'', ''opencl'', ''nvidia'', ''amd''] then Inr ()
      else if got \<in> set [''cpu'', ''asic'', ''sha256'', ''sha256d'', ''sudharma-cpu-v1'', ''cpu-v1'']
      then Inl (Errorf ''%s'' [GPUOnlyMiningMessage])
      else Inl (Errorf ''%s (unsupported backend %q)'' [GPUOnlyMiningMessage, backend]))"

definition CPUMiningSupported :: bool where
  "CPUMiningSupported = False"

definition ASICMiningSupported :: bool where
  "ASICMiningSupported = False"

definition GPUMiningSupported :: bool where
  "GPUMiningSupported = True"

section \<open>Launch gates\<close>

record ReadinessGate =
  gateName :: string
  gateReady :: bool

definition InternalSecurityAuditRemediationComplete :: bool where
  [go_const]: "InternalSecurityAuditRemediationComplete = True"

definition SecurityRegressionRaceAdversarialGatePassed :: bool where
  [go_const]: "SecurityRegressionRaceAdversarialGatePassed = True"

definition PhysicalGPUMiningEvidenceComplete :: bool where
  [go_const]: "PhysicalGPUMiningEvidenceComplete = False"

definition PublicCommunitySecurityReviewComplete :: bool where
  [go_const]: "PublicCommunitySecurityReviewComplete = False"

definition MainnetSecurityReviewEvidenceComplete :: bool where
  "MainnetSecurityReviewEvidenceComplete \<longleftrightarrow> InternalSecurityAuditRemediationComplete
     \<and> SecurityRegressionRaceAdversarialGatePassed \<and> PhysicalGPUMiningEvidenceComplete \<and> PublicCommunitySecurityReviewComplete"

definition SecurityReviewEvidenceGates :: "ReadinessGate list" where
  "SecurityReviewEvidenceGates =
     [\<lparr>gateName = ''internal-audit-remediation'', gateReady = InternalSecurityAuditRemediationComplete\<rparr>,
      \<lparr>gateName = ''security-regression-race-adversarial'', gateReady = SecurityRegressionRaceAdversarialGatePassed\<rparr>,
      \<lparr>gateName = ''physical-gpu-mining-evidence'', gateReady = PhysicalGPUMiningEvidenceComplete\<rparr>,
      \<lparr>gateName = ''public-community-security-review'', gateReady = PublicCommunitySecurityReviewComplete\<rparr>]"

definition MainnetReadiness :: "ReadinessGate list" where
  "MainnetReadiness =
     [\<lparr>gateName = ''tokenomics-schedule'', gateReady = (length MainnetEmissionEpochs = unat MainnetEpochCount)\<rparr>,
      \<lparr>gateName = ''network-identity-isolated'', gateReady = (NetworkMainnet \<noteq> NetworkPublicTestnet \<and> NetworkMainnet \<noteq> '''')\<rparr>,
      \<lparr>gateName = ''launch-authorization'', gateReady = MainnetLaunchAuthorized\<rparr>,
      \<lparr>gateName = ''genesis-timestamp-freeze'', gateReady = (MainnetGenesisTimestamp \<noteq> 0)\<rparr>,
      \<lparr>gateName = ''security-review-evidence'', gateReady = MainnetSecurityReviewEvidenceComplete\<rparr>,
      \<lparr>gateName = ''mainnet-seed-topology'', gateReady = False\<rparr>,
      \<lparr>gateName = ''mainnet-mining-authorization'', gateReady = MainnetMiningAuthorized\<rparr>]"

definition MainnetLaunchReady :: bool where
  "MainnetLaunchReady \<longleftrightarrow> list_all gateReady MainnetReadiness"

definition MiningReadiness :: "ReadinessGate list" where
  "MiningReadiness =
     [\<lparr>gateName = ''solo-http-api'', gateReady = True\<rparr>, \<lparr>gateName = ''pool-stratum-stack'', gateReady = True\<rparr>,
      \<lparr>gateName = ''payout-schemes'', gateReady = True\<rparr>, \<lparr>gateName = ''mainnet-mining'', gateReady = MainnetMiningAuthorized\<rparr>]"

definition MiningStackReady :: bool where
  "MiningStackReady \<longleftrightarrow> list_all (\<lambda>gate. gateName gate = ''mainnet-mining'' \<or> gateReady gate) MiningReadiness"

text \<open>The stack is ready on the test network, and one closed gate keeps the main network shut.\<close>

lemma mainnet_closed: "MiningStackReady" "\<not> MainnetLaunchReady"
proof -
  show "MiningStackReady" by (simp add: MiningStackReady_def MiningReadiness_def)
  have "\<exists>gate\<in>set MainnetReadiness. \<not> gateReady gate" unfolding MainnetReadiness_def by (simp add: MainnetMiningAuthorized_def)
  then show "\<not> MainnetLaunchReady" by (auto simp: MainnetLaunchReady_def list_all_iff)
qed

end
