(* ===== verification/RpcTypes.thy ===== *)
theory RpcTypes
  imports ExplorerCursor MiningParams P2PHistory Disk
begin

text \<open>
  The data of the HTTP interface, package \<open>rpc\<close>: requests, the response values with the fields that vary
  (the constant fields of the explorer's status are left out), the server's configuration and the server. The
  chain and the state that the server holds are the objects attached to its node.
\<close>

section \<open>Requests and responses\<close>

record http_request =
  reqMethod :: string
  reqPath :: string
  reqQuery :: "string \<Rightarrow> string"
  reqContentType :: string
  reqBody :: "bytes result"

text \<open>What the JSON decoder reports for a request body behind the size limit: the limit was hit, the
  text is no transaction, or a transaction, with whether the body ends after it.\<close>

datatype decoded_tx = BodyTooLarge | BodyInvalid | BodyDecoded transaction bool

record mining_probe =
  prAlgorithm :: string
  prMinerAddress :: string
  prPreviousHash :: string
  prHeight :: u64

record rpc_lib =
  decodeTx :: "i64 \<Rightarrow> bytes result \<Rightarrow> decoded_tx"
  unmarshalProbe :: "bytes \<Rightarrow> mining_probe"
  unmarshalMined :: "bytes \<Rightarrow> block result"
  decodeAddress :: "bytes result \<Rightarrow> string"
  redirectStatus :: nat

record statusResponse =
  stNetwork :: string
  stNetworkID :: string
  stCoin :: string
  stSymbol :: string
  stNodeID :: string
  stP2PAddress :: string
  stHeight :: u64
  stTipHash :: string
  stTotalWork :: string
  stPeers :: nat
  stMempool :: nat
  stIssuedSupply :: u64

record accountResponse =
  acAddress :: string
  acBalance :: u64
  acConfirmedNonce :: u64
  acNextNonce :: u64

record submitResponse =
  suTransactionID :: string
  suRelayedPeers :: nat
  suAccepted :: bool

record transactionStatusResponse =
  tsTransaction :: transaction
  tsStatus :: string
  tsBlockHeight :: "u64 option"
  tsBlockHash :: string
  tsConfirmations :: u64

record explorerTransactionView =
  evID :: string
  evFrom :: string
  evTo :: string
  evAmount :: u64
  evFee :: u64
  evNonce :: u64

record explorerTransactionResponse =
  erTransaction :: explorerTransactionView
  erStatus :: string
  erBlockHeight :: "u64 option"
  erBlockHash :: string
  erBlockTimestamp :: i64
  erConfirmations :: u64

record explorerBlockResponse =
  ebHeight :: u64
  ebHash :: string
  ebTimestamp :: i64
  ebPreviousHash :: string
  ebMerkleRoot :: string
  ebDifficulty :: u32
  ebNonce :: u64
  ebMinerAddress :: string
  ebTransactionCount :: nat
  ebTransactions :: "explorerTransactionView list"

record explorerStatusResponse =
  esHeight :: u64
  esTipHash :: string
  esTotalWork :: string
  esPeers :: nat
  esMempool :: nat
  esIssuedSupply :: u64

record explorerAddressResponse =
  eaAddress :: string
  eaBalance :: u64
  eaConfirmedNonce :: u64
  eaNextNonce :: u64
  eaTransactions :: "explorerTransactionResponse list"
  eaNextCursor :: string

record POWCompatWork =
  gbtPreviousBlockHash :: string
  gbtHeight :: u64
  gbtTarget :: string
  gbtBits :: string
  gbtCurtime :: i64
  gbtCoinbaseValue :: u64
  gbtTransactions :: nat
  ethHeaderHash :: string
  ethBoundary :: string

record miningWorkResponse =
  mwWorkID :: string
  mwAlgorithm :: string
  mwBackend :: string
  mwHeight :: u64
  mwParent :: string
  mwDifficulty :: u32
  mwTarget :: string
  mwTimestamp :: i64
  mwRewardAddress :: string
  mwBlock :: block
  mwBlockReward :: u64
  mwMinerBalance :: u64
  mwPowCompat :: POWCompatWork

record miningSubmitResponse =
  msHeight :: u64
  msHash :: string
  msRewardAddress :: string
  msBalance :: u64
  msBroadcast :: "error option"

datatype rpc_body =
    ErrorBody error
  | HealthBody
  | ReadyBody u64 string
  | MetricsBody u64 nat nat u64
  | StatusBody statusResponse
  | BlockBody block
  | AccountBody accountResponse
  | MempoolBody nat "transaction list"
  | SubmitBody submitResponse
  | TransactionBody transactionStatusResponse
  | ExplorerStatusBody explorerStatusResponse
  | ExplorerMempoolBody nat "explorerTransactionResponse list"
  | ExplorerBlocksBody "explorerBlockResponse list" "u64 option"
  | ExplorerBlockBody explorerBlockResponse
  | ExplorerTransactionsBody "explorerTransactionResponse list" string
  | ExplorerTransactionBody explorerTransactionResponse
  | ExplorerAddressBody explorerAddressResponse
  | ExplorerSearchBody string string
  | MiningWorkBody miningWorkResponse
  | MiningAcceptedBody miningSubmitResponse
  | RedirectBody string

record http_response =
  rspStatus :: nat
  rspAllow :: "string option"
  rspBody :: rpc_body

definition writeJSON :: "nat \<Rightarrow> rpc_body \<Rightarrow> http_response" where
  "writeJSON status v = \<lparr>rspStatus = status, rspAllow = None, rspBody = v\<rparr>"

definition writeError :: "nat \<Rightarrow> error \<Rightarrow> http_response" where
  "writeError status err = writeJSON status (ErrorBody err)"

definition methodNotAllowed :: "string \<Rightarrow> http_response" where
  "methodNotAllowed a = (writeError 405 (Errorf ''method not allowed'' []))\<lparr>rspAllow := Some a\<rparr>"

section \<open>The server\<close>

definition DefaultListenAddress :: string where
  [go_const]: "DefaultListenAddress = ''127.0.0.1:18545''"

definition DefaultMaxBodyBytes :: i64 where
  [go_const]: "DefaultMaxBodyBytes = 1048576"

definition DefaultMaxConcurrent :: int where
  [go_const]: "DefaultMaxConcurrent = 128"

definition DefaultMempoolLimit :: int where
  [go_const]: "DefaultMempoolLimit = 100"

definition MaxMempoolLimit :: int where
  [go_const]: "MaxMempoolLimit = 500"

text \<open>Durations are in nanoseconds.\<close>

record RPCConfig =
  rcListenAddress :: string
  rcMaxBodyBytes :: i64
  rcMaxConcurrent :: int
  rcReadTimeout :: i64
  rcWriteTimeout :: i64
  rcIdleTimeout :: i64
  rcShutdownTimeout :: i64
  rcEnableMetrics :: bool

definition seconds :: "int \<Rightarrow> i64" where
  "seconds n = n * 1000000000"

definition RPCDefaultConfig :: RPCConfig where
  "RPCDefaultConfig = \<lparr>rcListenAddress = DefaultListenAddress, rcMaxBodyBytes = DefaultMaxBodyBytes,
     rcMaxConcurrent = DefaultMaxConcurrent, rcReadTimeout = seconds 5, rcWriteTimeout = seconds 10, rcIdleTimeout = seconds 30,
     rcShutdownTimeout = seconds 5, rcEnableMetrics = True\<rparr>"

record rpc_server =
  srvConfig :: RPCConfig
  srvNode :: p2p_node
  srvInFlight :: nat

end
