(* ===== verification/Rpc.thy ===== *)
theory Rpc
  imports RpcTypes
begin

text \<open>
  The HTTP interface of a node, package \<open>rpc\<close>: \<open>server.go\<close>, \<open>transaction_status.go\<close>, \<open>explorer.go\<close>,
  \<open>gpu_mining.go\<close> and \<open>mining_compat.go\<close>.

  A request is its method, path, query, content type and body; a response is its status, the \<open>Allow\<close>
  header and the value that is encoded as JSON. The chain and the state that the server holds are the
  objects attached to its node, so they are read from the node; a handler that would dereference a nil
  chain or state panics, which the middleware turns into an internal server error. Decoding of request
  bodies is the argument record \<open>rpc_lib\<close>. A request is one step; the slots taken by requests that are
  still running are a number of the server.
\<close>

section \<open>The server\<close>

definition NewServer :: "RPCConfig \<Rightarrow> p2p_node option \<Rightarrow> chain option \<Rightarrow> state option \<Rightarrow> rpc_server result" where
  "NewServer config nodep chainp statep =
     (case (nodep, chainp, statep) of
        (Some node, Some c, Some s) \<Rightarrow>
          (let positive = (\<lambda>v d. if v \<le> 0 then d else v) in
           Inr \<lparr>srvConfig = config\<lparr>
               rcListenAddress := (if rcListenAddress config = '''' then DefaultListenAddress else rcListenAddress config),
               rcMaxBodyBytes := positive (rcMaxBodyBytes config) DefaultMaxBodyBytes,
               rcMaxConcurrent := positive (rcMaxConcurrent config) DefaultMaxConcurrent,
               rcReadTimeout := positive (rcReadTimeout config) (seconds 5),
               rcWriteTimeout := positive (rcWriteTimeout config) (seconds 10),
               rcIdleTimeout := positive (rcIdleTimeout config) (seconds 30),
               rcShutdownTimeout := positive (rcShutdownTimeout config) (seconds 5)\<rparr>,
             srvNode = node\<lparr>nodeChain := Some c, nodeState := Some s\<rparr>, srvInFlight = 0\<rparr>)
      | _ \<Rightarrow> Inl (Errorf ''rpc dependencies cannot be nil'' []))"

text \<open>The response of the middleware to a panic.\<close>

definition recovered :: http_response where
  "recovered = writeError 500 (Errorf ''internal server error'' [])"

definition withChain :: "rpc_server \<Rightarrow> (chain \<Rightarrow> http_response) \<Rightarrow> http_response" where
  "withChain s k = (case nodeChain (srvNode s) of None \<Rightarrow> recovered | Some c \<Rightarrow> k c)"

definition withState :: "rpc_server \<Rightarrow> (state \<Rightarrow> http_response) \<Rightarrow> http_response" where
  "withState s k = (case nodeState (srvNode s) of None \<Rightarrow> recovered | Some st \<Rightarrow> k st)"

definition onlyGET :: "http_request \<Rightarrow> http_response \<Rightarrow> http_response" where
  "onlyGET r response = (if reqMethod r \<noteq> ''GET'' then methodNotAllowed ''GET'' else response)"

definition handleHealth :: "http_request \<Rightarrow> http_response" where
  "handleHealth r = onlyGET r (writeJSON 200 HealthBody)"

definition handleReady :: "rpc_server \<Rightarrow> http_request \<Rightarrow> http_response" where
  "handleReady s r = onlyGET r
     (case AdvertisedChainStatus (srvNode s) of (height, tip) \<Rightarrow>
        if tip = '''' then writeError 503 (Errorf ''node is not ready'' [])
        else withChain s (\<lambda>c. case Tip c of
            None \<Rightarrow> writeError 503 (Errorf ''node is not ready'' [])
          | Some _ \<Rightarrow> writeJSON 200 (ReadyBody height tip)))"

definition handleMetrics :: "rpc_server \<Rightarrow> http_request \<Rightarrow> http_response" where
  "handleMetrics s r = onlyGET r
     (case AdvertisedChainStatus (srvNode s) of (height, _) \<Rightarrow>
        withState s (\<lambda>st. writeJSON 200
          (MetricsBody height (PeerCount (srvNode s)) (MempoolCount (srvNode s)) (IssuedSupply st))))"

definition handleStatus :: "rpc_server \<Rightarrow> http_request \<Rightarrow> http_response" where
  "handleStatus s r = onlyGET r
     (case AdvertisedChainStatus (srvNode s) of (height, tip) \<Rightarrow>
        withChain s (\<lambda>c. withState s (\<lambda>st. writeJSON 200 (StatusBody
          \<lparr>stNetwork = ''sudharma'', stNetworkID = Network (Some c), stCoin = CoinName, stSymbol = CoinSymbol,
           stNodeID = nodeID (srvNode s), stP2PAddress = listenAddress (srvNode s),
           stHeight = height, stTipHash = tip, stTotalWork = dec_int (TotalWork c), stPeers = PeerCount (srvNode s),
           stMempool = MempoolCount (srvNode s), stIssuedSupply = IssuedSupply st\<rparr>))))"

definition handleBlock :: "rpc_server \<Rightarrow> http_request \<Rightarrow> http_response" where
  "handleBlock s r = onlyGET r
     (let raw = TrimPrefix (reqPath r) ''/v1/blocks/'' in
      if raw = '''' \<or> CHR ''/'' \<in> set raw then writeError 400 (Errorf ''block height is required'' [])
      else (case ParseUint64 raw of
        None \<Rightarrow> writeError 400 (Errorf ''invalid block height'' [])
      | Some h \<Rightarrow> withChain s (\<lambda>c. case BlockByHeight c h of
          None \<Rightarrow> writeError 404 (Errorf ''block not found'' [])
        | Some b \<Rightarrow> writeJSON 200 (BlockBody b))))"

definition handleAccount :: "rpc_server \<Rightarrow> http_request \<Rightarrow> http_response" where
  "handleAccount s r = onlyGET r
     (let a = TrimSpace (TrimPrefix (reqPath r) ''/v1/accounts/'') in
      if a = '''' \<or> CHR ''/'' \<in> set a \<or> length a > 256 then writeError 400 (Errorf ''invalid account address'' [])
      else withState s (\<lambda>st. case ExpectedNonce st a of
          Inl err \<Rightarrow> writeError 409 err
        | Inr n \<Rightarrow> writeJSON 200 (AccountBody
            \<lparr>acAddress = a, acBalance = Balance st a, acConfirmedNonce = AccountNonce st a, acNextNonce = n\<rparr>)))"

text \<open>The sort of the pool by transaction ID; the IDs of a pool are distinct and none is nil.\<close>

definition sortedPool :: "p2p_env \<Rightarrow> rpc_server \<Rightarrow> transaction list" where
  "sortedPool E s = sort_key txID (AllTransactions (envPool E) (nodeMempool (srvNode s)))"

definition handleMempool :: "p2p_env \<Rightarrow> rpc_server \<Rightarrow> http_request \<Rightarrow> http_response" where
  "handleMempool E s r = onlyGET r
     (let raw = reqQuery r ''limit'';
          respond = (\<lambda>limit. writeJSON 200 (MempoolBody (MempoolCount (srvNode s)) (take (nat limit) (sortedPool E s)))) in
      if raw = '''' then respond DefaultMempoolLimit
      else (case ParseInt64 raw of
        None \<Rightarrow> writeError 400 (Errorf ''limit must be between 1 and 500'' [])
      | Some p \<Rightarrow>
        if p < 1 \<or> p > MaxMempoolLimit then writeError 400 (Errorf ''limit must be between 1 and 500'' []) else respond p))"

definition handleTransactions :: "p2p_env \<Rightarrow> rpc_lib \<Rightarrow> rpc_server \<Rightarrow> http_request \<Rightarrow> rpc_server \<times> http_response" where
  "handleTransactions E L s r =
     (if reqMethod r \<noteq> ''POST'' then (s, methodNotAllowed ''POST'')
      else if reqContentType r \<noteq> '''' \<and> \<not> HasPrefix (ToLower (reqContentType r)) ''application/json''
      then (s, writeError 415 (Errorf ''content type must be application/json'' []))
      else (case decodeTx L (rcMaxBodyBytes (srvConfig s)) (reqBody r) of
        BodyTooLarge \<Rightarrow> (s, writeError 413 (Errorf ''request body exceeds maximum size'' []))
      | BodyInvalid \<Rightarrow> (s, writeError 400 (Errorf ''invalid transaction JSON'' []))
      | BodyDecoded tx single \<Rightarrow>
        if \<not> single then (s, writeError 400 (Errorf ''request must contain exactly one JSON object'' []))
        else (case SubmitTransaction E (srvNode s) (Some tx) of
            (n, relayed, Inl err) \<Rightarrow> (s\<lparr>srvNode := n\<rparr>, writeError 422 err)
          | (n, relayed, Inr _) \<Rightarrow> (s\<lparr>srvNode := n\<rparr>, writeJSON 202 (SubmitBody
              \<lparr>suTransactionID = txID tx, suRelayedPeers = relayed, suAccepted = True\<rparr>)))))"

definition handleNotFound :: http_response where
  "handleNotFound = writeError 404 (Errorf ''endpoint not found'' [])"

definition handleTransactionStatus :: "crypto \<Rightarrow> rpc_server \<Rightarrow> http_request \<Rightarrow> http_response" where
  "handleTransactionStatus C s r = onlyGET r
     (let ident = TrimSpace (TrimPrefix (reqPath r) ''/v1/transactions/'') in
      if length ident \<noteq> 64 \<or> CHR ''/'' \<in> set ident \<or> \<not> isLowerHex ident
      then writeError 400 (Errorf ''invalid transaction ID'' [])
      else (case MempoolTransaction (srvNode s) ident of
        Some tx \<Rightarrow> writeJSON 200 (TransactionBody
          \<lparr>tsTransaction = tx, tsStatus = ''pending'', tsBlockHeight = None, tsBlockHash = '''', tsConfirmations = 0\<rparr>)
      | None \<Rightarrow> withChain s (\<lambda>c. case TransactionByID (Some c) ident of
          None \<Rightarrow> writeError 404 (Errorf ''transaction not found'' [])
        | Some (tx, block) \<Rightarrow> writeJSON 200 (TransactionBody
            \<lparr>tsTransaction = tx, tsStatus = ''confirmed'', tsBlockHeight = Some (blkHeight block), tsBlockHash = Hash C block,
             tsConfirmations = (if Height c \<ge> blkHeight block then Height c - blkHeight block + 1 else 1)\<rparr>))))"

section \<open>The explorer\<close>

definition DefaultExplorerLimit :: int where
  [go_const]: "DefaultExplorerLimit = 20"

definition MaxExplorerLimit :: int where
  [go_const]: "MaxExplorerLimit = 100"

definition explorerGET :: "http_request \<Rightarrow> http_response \<Rightarrow> http_response" where
  "explorerGET r response = (if reqMethod r \<noteq> ''GET'' then methodNotAllowed ''GET'' else response)"

definition explorerLimit :: "http_request \<Rightarrow> http_response + int" where
  "explorerLimit r =
     (let raw = reqQuery r ''limit'' in
      if raw = '''' then Inr DefaultExplorerLimit
      else (case ParseInt64 raw of
        None \<Rightarrow> Inl (writeError 400 (Errorf ''limit must be between 1 and 100'' []))
      | Some parsed \<Rightarrow>
        if parsed < 1 \<or> parsed > MaxExplorerLimit then Inl (writeError 400 (Errorf ''limit must be between 1 and 100'' []))
        else Inr parsed))"

definition explorerOptionalHeight :: "http_request \<Rightarrow> string \<Rightarrow> http_response + u64 option" where
  "explorerOptionalHeight r key =
     (let raw = reqQuery r key in
      if raw = '''' then Inr None
      else (case ParseUint64 raw of
        None \<Rightarrow> Inl (writeError 400 (Errorf ''%s must be an unsigned block height'' [key]))
      | Some value \<Rightarrow> Inr (Some value)))"

definition writeExplorerCursorError :: "error \<Rightarrow> http_response" where
  "writeExplorerCursorError err =
     (if err = errExplorerStaleCursor then writeError 409 (Errorf ''explorer cursor is stale; restart pagination'' [])
      else writeError 400 errExplorerInvalidCursor)"

definition explorerTransaction :: "transaction \<Rightarrow> explorerTransactionView" where
  "explorerTransaction tx = \<lparr>evID = txID tx, evFrom = txFrom tx, evTo = txTo tx, evAmount = txAmount tx,
     evFee = txFee tx, evNonce = txNonce tx\<rparr>"

definition explorerBlockView :: "crypto \<Rightarrow> block \<Rightarrow> bool \<Rightarrow> explorerBlockResponse" where
  "explorerBlockView C block includeTransactions =
     \<lparr>ebHeight = blkHeight block, ebHash = Hash C block, ebTimestamp = blkTimestamp block,
      ebPreviousHash = blkPreviousHash block, ebMerkleRoot = blkMerkleRoot block, ebDifficulty = blkDifficulty block,
      ebNonce = blkNonce block, ebMinerAddress = blkMinerAddress block, ebTransactionCount = length (blkTransactions block),
      ebTransactions = (if includeTransactions then map explorerTransaction (List.map_filter id (blkTransactions block)) else [])\<rparr>"

definition confirmationsAt :: "u64 \<Rightarrow> u64 \<Rightarrow> u64" where
  "confirmationsAt chainHeight blockHeight = (if chainHeight < blockHeight then 0 else chainHeight - blockHeight + 1)"

definition explorerConfirmedTransaction :: "ConfirmedTransaction \<Rightarrow> u64 \<Rightarrow> explorerTransactionResponse" where
  "explorerConfirmedTransaction item chainHeight =
     \<lparr>erTransaction = explorerTransaction (ctTransaction item), erStatus = ''confirmed'', erBlockHeight = Some (ctBlockHeight item),
      erBlockHash = ctBlockHash item, erBlockTimestamp = ctBlockTimestamp item,
      erConfirmations = confirmationsAt chainHeight (ctBlockHeight item)\<rparr>"

definition pendingView :: "transaction \<Rightarrow> explorerTransactionResponse" where
  "pendingView tx = \<lparr>erTransaction = explorerTransaction tx, erStatus = ''pending'', erBlockHeight = None, erBlockHash = '''',
     erBlockTimestamp = 0, erConfirmations = 0\<rparr>"

definition handleExplorerStatus :: "crypto \<Rightarrow> rpc_server \<Rightarrow> http_request \<Rightarrow> http_response" where
  "handleExplorerStatus C s r = explorerGET r
     (withChain s (\<lambda>c. case Tip c of
        None \<Rightarrow> writeError 503 (Errorf ''chain is unavailable'' [])
      | Some tip \<Rightarrow> withState s (\<lambda>st. writeJSON 200 (ExplorerStatusBody
          \<lparr>esHeight = Height c, esTipHash = Hash C tip, esTotalWork = dec_int (TotalWork c), esPeers = PeerCount (srvNode s),
           esMempool = MempoolCount (srvNode s), esIssuedSupply = IssuedSupply st\<rparr>))))"

definition handleExplorerMempool :: "p2p_env \<Rightarrow> rpc_server \<Rightarrow> http_request \<Rightarrow> http_response" where
  "handleExplorerMempool E s r = explorerGET r
     (case explorerLimit r of
        Inl response \<Rightarrow> response
      | Inr limit \<Rightarrow> writeJSON 200 (ExplorerMempoolBody (MempoolCount (srvNode s))
          (map pendingView (take (nat limit) (sortedPool E s)))))"

definition handleExplorerBlocks :: "crypto \<Rightarrow> rpc_server \<Rightarrow> http_request \<Rightarrow> http_response" where
  "handleExplorerBlocks C s r = explorerGET r
     (case explorerLimit r of
        Inl response \<Rightarrow> response
      | Inr limit \<Rightarrow>
      (case explorerOptionalHeight r ''before'' of
        Inl response \<Rightarrow> response
      | Inr before \<Rightarrow>
      (let bs = RecentBlocks (nodeChain (srvNode s)) limit before in
       writeJSON 200 (ExplorerBlocksBody (map (\<lambda>b. explorerBlockView C b False) bs)
         (if int (length bs) = limit \<and> length bs > 0 then Some (blkHeight (last bs)) else None)))))"

definition handleExplorerBlock :: "crypto \<Rightarrow> rpc_server \<Rightarrow> http_request \<Rightarrow> http_response" where
  "handleExplorerBlock C s r = explorerGET r
     (let raw = TrimSpace (TrimPrefix (reqPath r) ''/v1/explorer/blocks/'');
          respond = (\<lambda>found. case found of
              None \<Rightarrow> writeError 404 (Errorf ''block not found'' [])
            | Some block \<Rightarrow> writeJSON 200 (ExplorerBlockBody (explorerBlockView C block True))) in
      if raw = '''' \<or> CHR ''/'' \<in> set raw then writeError 400 (Errorf ''invalid block identifier'' [])
      else (case ParseUint64 raw of
        Some height \<Rightarrow> withChain s (\<lambda>c. respond (BlockByHeight c height))
      | None \<Rightarrow>
        if length raw = 64 \<and> isLowerHex raw then respond (BlockByHash C (nodeChain (srvNode s)) raw)
        else writeError 400 (Errorf ''invalid block identifier'' [])))"

definition handleExplorerTransactions :: "crypto \<Rightarrow> rpc_server \<Rightarrow> http_request \<Rightarrow> http_response" where
  "handleExplorerTransactions C s r = explorerGET r
     (case explorerLimit r of
        Inl response \<Rightarrow> response
      | Inr limit \<Rightarrow>
      (case explorerOptionalHeight r ''before_height'' of
        Inl response \<Rightarrow> response
      | Inr before \<Rightarrow>
      (case explorerConfirmedPage C (nodeChain (srvNode s)) '''' limit (TrimSpace (reqQuery r ''cursor'')) before of
        Inl err \<Rightarrow> writeExplorerCursorError err
      | Inr (items, nextCursor) \<Rightarrow> withChain s (\<lambda>c. writeJSON 200
          (ExplorerTransactionsBody (map (\<lambda>item. explorerConfirmedTransaction item (Height c)) items) nextCursor)))))"

definition handleExplorerTransaction :: "crypto \<Rightarrow> rpc_server \<Rightarrow> http_request \<Rightarrow> http_response" where
  "handleExplorerTransaction C s r = explorerGET r
     (let ident = TrimSpace (TrimPrefix (reqPath r) ''/v1/explorer/transactions/'') in
      if length ident \<noteq> 64 \<or> CHR ''/'' \<in> set ident \<or> \<not> isLowerHex ident
      then writeError 400 (Errorf ''invalid transaction ID'' [])
      else (case MempoolTransaction (srvNode s) ident of
        Some tx \<Rightarrow> writeJSON 200 (ExplorerTransactionBody (pendingView tx))
      | None \<Rightarrow>
        (case TransactionByID (nodeChain (srvNode s)) ident of
          None \<Rightarrow> writeError 404 (Errorf ''transaction not found'' [])
        | Some (tx, block) \<Rightarrow> withChain s (\<lambda>c. writeJSON 200 (ExplorerTransactionBody
            \<lparr>erTransaction = explorerTransaction tx, erStatus = ''confirmed'', erBlockHeight = Some (blkHeight block),
             erBlockHash = Hash C block, erBlockTimestamp = blkTimestamp block,
             erConfirmations = confirmationsAt (Height c) (blkHeight block)\<rparr>)))))"

definition handleExplorerAddress :: "crypto \<Rightarrow> rpc_server \<Rightarrow> http_request \<Rightarrow> http_response" where
  "handleExplorerAddress C s r = explorerGET r
     (let raw = TrimSpace (TrimPrefix (reqPath r) ''/v1/explorer/addresses/'') in
      if length raw \<noteq> 40 \<or> CHR ''/'' \<in> set raw \<or> \<not> isLowerHex raw
      then writeError 400 (Errorf ''invalid account address'' [])
      else (case explorerLimit r of
        Inl response \<Rightarrow> response
      | Inr limit \<Rightarrow>
      (case explorerOptionalHeight r ''before_height'' of
        Inl response \<Rightarrow> response
      | Inr before \<Rightarrow>
      withState s (\<lambda>st. case ExpectedNonce st raw of
        Inl err \<Rightarrow> writeError 409 err
      | Inr nextNonce \<Rightarrow>
      (case explorerConfirmedPage C (nodeChain (srvNode s)) raw limit (TrimSpace (reqQuery r ''cursor'')) before of
        Inl err \<Rightarrow> writeExplorerCursorError err
      | Inr (items, nextCursor) \<Rightarrow> withChain s (\<lambda>c. writeJSON 200 (ExplorerAddressBody
          \<lparr>eaAddress = raw, eaBalance = Balance st raw, eaConfirmedNonce = AccountNonce st raw, eaNextNonce = nextNonce,
           eaTransactions = map (\<lambda>item. explorerConfirmedTransaction item (Height c)) items, eaNextCursor = nextCursor\<rparr>)))))))"

definition handleExplorerSearch :: "crypto \<Rightarrow> rpc_server \<Rightarrow> http_request \<Rightarrow> http_response" where
  "handleExplorerSearch C s r = explorerGET r
     (let query = TrimSpace (reqQuery r ''q'');
          missing = writeError 404 (Errorf ''search result not found'' []);
          found = (\<lambda>kind path. writeJSON 200 (ExplorerSearchBody kind (path @ query))) in
      if query = '''' \<or> length query > 256 then writeError 400 (Errorf ''invalid search query'' [])
      else (case ParseUint64 query of
        Some height \<Rightarrow> withChain s (\<lambda>c. case BlockByHeight c height of
            Some _ \<Rightarrow> found ''block'' ''/explorer/block?id='' | None \<Rightarrow> missing)
      | None \<Rightarrow>
        if length query = 64 \<and> isLowerHex query then
          (if MempoolTransaction (srvNode s) query \<noteq> None \<or> TransactionByID (nodeChain (srvNode s)) query \<noteq> None
           then found ''transaction'' ''/explorer/tx?id=''
           else if BlockByHash C (nodeChain (srvNode s)) query \<noteq> None then found ''block'' ''/explorer/block?id=''
           else missing)
        else if length query = 40 \<and> isLowerHex query then found ''address'' ''/explorer/address?address=''
        else missing))"

section \<open>Mining\<close>

definition gpuMinerAddressPattern :: "string \<Rightarrow> bool" where
  "gpuMinerAddressPattern a \<longleftrightarrow> length a = 40 \<and> list_all is_lower_hex a"

definition validateGPUMinerAddress :: "string \<Rightarrow> unit result" where
  "validateGPUMinerAddress address =
     (if \<not> gpuMinerAddressPattern (ToLower (TrimSpace address))
      then Inl (Errorf ''wallet address must be 40 lowercase hex characters'' []) else Inr ())"

definition gpuMinerAddressFromRequest :: "rpc_lib \<Rightarrow> http_request \<Rightarrow> string result" where
  "gpuMinerAddressFromRequest L r =
     (let query = ToLower (TrimSpace (reqQuery r ''address''));
          address = (if query = '''' \<and> reqMethod r = ''POST'' then ToLower (TrimSpace (decodeAddress L (reqBody r))) else query) in
      if address = '''' then Inl (Errorf ''address required'' [])
      else (case validateGPUMinerAddress address of Inl err \<Rightarrow> Inl err | Inr _ \<Rightarrow> Inr address))"

definition candidateGPUMinerBlock ::
  "crypto \<Rightarrow> map_order \<Rightarrow> i64 \<Rightarrow> chain option \<Rightarrow> mempool option \<Rightarrow> string \<Rightarrow> block result" where
  "candidateGPUMinerBlock C iter now chainp poolp minerAddr =
     (case chainp of
       None \<Rightarrow> Inl (Errorf ''chain not ready'' [])
     | Some c \<Rightarrow>
     (case poolp of
       None \<Rightarrow> Inl (Errorf ''mempool not ready'' [])
     | Some pool \<Rightarrow>
     (case Tip c of
       None \<Rightarrow> Inl (Errorf ''chain tip not ready'' [])
     | Some tip \<Rightarrow>
     (case NewBlockFromMempool C iter now (Some tip) (Some pool) of
       Inl err \<Rightarrow> Inl err
     | Inr block0 \<Rightarrow>
     (let block1 = (if blkTimestamp block0 \<le> blkTimestamp tip
                    then block0\<lparr>blkTimestamp := wrap64 (blkTimestamp tip + 1)\<rparr> else block0) in
     (case ExpectedNextDifficulty (Some c) of
       Inl err \<Rightarrow> Inl err
     | Inr difficulty \<Rightarrow>
       Inr (UpdateMerkleRoot C (block1\<lparr>blkDifficulty := difficulty, blkMinerAddress := minerAddr, blkNonce := 0\<rparr>))))))))"

definition targetText :: "u32 \<Rightarrow> string" where
  "targetText difficulty = hex_text (nat (TargetFromDifficulty difficulty))"

definition buildPOWCompatWork :: "crypto \<Rightarrow> block \<Rightarrow> string \<Rightarrow> u64 \<Rightarrow> POWCompatWork" where
  "buildPOWCompatWork C block parent blockReward =
     \<lparr>gbtPreviousBlockHash = parent, gbtHeight = blkHeight block, gbtTarget = targetText (blkDifficulty block),
      gbtBits = hex8 (blkDifficulty block), gbtCurtime = blkTimestamp block, gbtCoinbaseValue = blockReward,
      gbtTransactions = length (blkTransactions block), ethHeaderHash = Hash C block, ethBoundary = targetText (blkDifficulty block)\<rparr>"

text \<open>\<open>now\<close> is the clock reading when the template is built; the tip of a node's chain exists, since its
  constructors start from a genesis block.\<close>

definition handleMiningWork :: "p2p_env \<Rightarrow> rpc_lib \<Rightarrow> i64 \<Rightarrow> rpc_server \<Rightarrow> http_request \<Rightarrow> http_response" where
  "handleMiningWork E L now s r =
     (if reqMethod r \<noteq> ''GET'' \<and> reqMethod r \<noteq> ''POST'' then methodNotAllowed ''GET, POST''
      else (case nodeChain (srvNode s) of
        None \<Rightarrow> writeError 503 (Errorf ''chain not ready'' [])
      | Some c \<Rightarrow>
      (case nodeState (srvNode s) of
        None \<Rightarrow> writeError 503 (Errorf ''chain not ready'' [])
      | Some st \<Rightarrow>
      (case gpuMinerAddressFromRequest L r of
        Inl err \<Rightarrow> writeError 400 err
      | Inr address \<Rightarrow>
      (case candidateGPUMinerBlock (envCrypto E) (envPool E) now (Some c) (Some (nodeMempool (srvNode s))) address of
        Inl err \<Rightarrow> writeError 503 err
      | Inr block \<Rightarrow>
      (let parent = (case Tip c of None \<Rightarrow> '''' | Some tip \<Rightarrow> Hash (envCrypto E) tip) in
       writeJSON 200 (MiningWorkBody
         \<lparr>mwWorkID = ''gpu-candidate-'' @ dec (unat (blkHeight block)) @ ''-'' @ take 8 address,
          mwAlgorithm = ProductionMiningAlgorithm, mwBackend = ProductionMiningBackend, mwHeight = blkHeight block,
          mwParent = parent, mwDifficulty = blkDifficulty block, mwTarget = targetText (blkDifficulty block),
          mwTimestamp = blkTimestamp block, mwRewardAddress = address, mwBlock = block,
          mwBlockReward = BlockSubsidy (blkHeight block), mwMinerBalance = Balance st address,
          mwPowCompat = buildPOWCompatWork (envCrypto E) block parent (BlockSubsidy (blkHeight block))\<rparr>)))))))"

definition acceptGPUMinerBlock :: "p2p_env \<Rightarrow> rpc_server \<Rightarrow> block \<Rightarrow> rpc_server \<times> http_response" where
  "acceptGPUMinerBlock E s submitted =
     (let block = submitted\<lparr>blkMinerAddress := ToLower (TrimSpace (blkMinerAddress submitted))\<rparr> in
      (case validateGPUMinerAddress (blkMinerAddress block) of
        Inl err \<Rightarrow> (s, writeError 400 (Wrapf ''miner_address: %s'' [] err))
      | Inr _ \<Rightarrow>
      (case AcceptBlock E (srvNode s) (Some block) of
        (n1, Inl err) \<Rightarrow> (s\<lparr>srvNode := n1\<rparr>, writeError 400 (Wrapf ''block rejected: %s'' [] err))
      | (n1, Inr _) \<Rightarrow>
      (case BroadcastBlock E n1 (Some block) of
        (n2, r) \<Rightarrow>
          (let s2 = s\<lparr>srvNode := n2\<rparr> in
           (s2, withState s2 (\<lambda>st. writeJSON 200 (MiningAcceptedBody
             \<lparr>msHeight = blkHeight block, msHash = Hash (envCrypto E) block, msRewardAddress = blkMinerAddress block,
              msBalance = Balance st (blkMinerAddress block),
              msBroadcast = (case r of Inl err \<Rightarrow> Some err | Inr _ \<Rightarrow> None)\<rparr>))))))))"

definition handleMiningSubmit :: "p2p_env \<Rightarrow> rpc_lib \<Rightarrow> rpc_server \<Rightarrow> http_request \<Rightarrow> rpc_server \<times> http_response" where
  "handleMiningSubmit E L s r =
     (if reqMethod r \<noteq> ''POST'' then (s, methodNotAllowed ''POST'')
      else if nodeChain (srvNode s) = None \<or> nodeState (srvNode s) = None
      then (s, writeError 503 (Errorf ''chain not ready'' []))
      else (case reqBody r of
        Inl err \<Rightarrow> (s, writeError 400 (Errorf ''invalid mining submit body'' []))
      | Inr raw \<Rightarrow>
      if int (length raw) > rcMaxBodyBytes (srvConfig s) then (s, writeError 400 (Errorf ''invalid mining submit body'' []))
      else (let probe = unmarshalProbe L raw in
        (case (if TrimSpace (prAlgorithm probe) \<noteq> '''' then ValidateProductionMiningAlgorithm (prAlgorithm probe) else Inr ()) of
          Inl err \<Rightarrow> (s, writeError 503 err)
        | Inr _ \<Rightarrow>
          if TrimSpace (prMinerAddress probe) \<noteq> '''' \<or> TrimSpace (prPreviousHash probe) \<noteq> '''' \<or> prHeight probe > 0
          then (case unmarshalMined L raw of
              Inl err \<Rightarrow> (s, writeError 400 (Wrapf ''invalid block JSON: %s'' [] err))
            | Inr block \<Rightarrow> acceptGPUMinerBlock E s block)
          else (s, writeError 503 (Errorf ''%s GPU-PoW work is not active on this node yet.'' [GPUOnlyMiningMessage]))))))"

section \<open>Routing\<close>

datatype endpoint = EHealth | EReady | EMetrics | EStatus | EBlock | EAccount | EMempool | ETransactions | ETransactionStatus
  | EExplorerStatus | EExplorerMempool | EExplorerBlocks | EExplorerBlock | EExplorerTransactions | EExplorerTransaction
  | EExplorerAddress | EExplorerSearch | EMiningWork | EMiningSubmit | ENotFound

definition routes :: "bool \<Rightarrow> (string \<times> endpoint) list" where
  "routes metrics = [(''/health'', EHealth), (''/ready'', EReady)] @ (if metrics then [(''/metrics'', EMetrics)] else []) @
     [(''/v1/status'', EStatus), (''/v1/blocks/'', EBlock), (''/v1/accounts/'', EAccount), (''/v1/mempool'', EMempool),
      (''/v1/transactions'', ETransactions), (''/v1/transactions/'', ETransactionStatus),
      (''/v1/explorer/status'', EExplorerStatus), (''/v1/explorer/mempool'', EExplorerMempool),
      (''/v1/explorer/blocks'', EExplorerBlocks), (''/v1/explorer/blocks/'', EExplorerBlock),
      (''/v1/explorer/transactions'', EExplorerTransactions), (''/v1/explorer/transactions/'', EExplorerTransaction),
      (''/v1/explorer/addresses/'', EExplorerAddress), (''/v1/explorer/search'', EExplorerSearch),
      (''/v1/mining/work'', EMiningWork), (''/v1/mining/submit'', EMiningSubmit), (''/'', ENotFound)]"

text \<open>The rules of \<open>http.ServeMux\<close>: the path is cleaned first, and a request whose path was not clean is
  redirected; an exact pattern wins, then a path that lacks only the final slash of a pattern is
  redirected, then the longest pattern that ends in a slash and is a prefix of the path wins.\<close>

definition cleanPath :: "string \<Rightarrow> string" where
  "cleanPath p =
     (let p1 = (if p = '''' \<or> hd p \<noteq> CHR ''/'' then CHR ''/'' # p else p); np = Clean p1
      in if last p1 = CHR ''/'' \<and> np \<noteq> ''/'' then np @ ''/'' else np)"

fun longestPattern :: "string \<Rightarrow> (string \<times> 'e) list \<Rightarrow> (string \<times> 'e) option" where
  "longestPattern path [] = None"
| "longestPattern path ((p, e) # rs) =
     (case longestPattern path rs of
        Some (q, f) \<Rightarrow> if last p = CHR ''/'' \<and> HasPrefix path p \<and> length p > length q then Some (p, e) else Some (q, f)
      | None \<Rightarrow> if last p = CHR ''/'' \<and> HasPrefix path p then Some (p, e) else None)"

definition muxRoute :: "(string \<times> 'e) list \<Rightarrow> http_request \<Rightarrow> string + 'e option" where
  "muxRoute rs r =
     (let path = (if reqMethod r = ''CONNECT'' then reqPath r else cleanPath (reqPath r));
          matched = (case map_of rs path of Some e \<Rightarrow> Some e | None \<Rightarrow> map_option snd (longestPattern path rs)) in
      if map_of rs path = None \<and> path \<noteq> '''' \<and> last path \<noteq> CHR ''/'' \<and> map_of rs (path @ ''/'') \<noteq> None then Inl (path @ ''/'')
      else if path \<noteq> reqPath r then Inl path
      else Inr matched)"

definition dispatch :: "p2p_env \<Rightarrow> rpc_lib \<Rightarrow> i64 \<Rightarrow> endpoint \<Rightarrow> rpc_server \<Rightarrow> http_request \<Rightarrow> rpc_server \<times> http_response" where
  "dispatch E L now e s r =
     (let C = envCrypto E in
      case e of
        EHealth \<Rightarrow> (s, handleHealth r)
      | EReady \<Rightarrow> (s, handleReady s r)
      | EMetrics \<Rightarrow> (s, handleMetrics s r)
      | EStatus \<Rightarrow> (s, handleStatus s r)
      | EBlock \<Rightarrow> (s, handleBlock s r)
      | EAccount \<Rightarrow> (s, handleAccount s r)
      | EMempool \<Rightarrow> (s, handleMempool E s r)
      | ETransactions \<Rightarrow> handleTransactions E L s r
      | ETransactionStatus \<Rightarrow> (s, handleTransactionStatus C s r)
      | EExplorerStatus \<Rightarrow> (s, handleExplorerStatus C s r)
      | EExplorerMempool \<Rightarrow> (s, handleExplorerMempool E s r)
      | EExplorerBlocks \<Rightarrow> (s, handleExplorerBlocks C s r)
      | EExplorerBlock \<Rightarrow> (s, handleExplorerBlock C s r)
      | EExplorerTransactions \<Rightarrow> (s, handleExplorerTransactions C s r)
      | EExplorerTransaction \<Rightarrow> (s, handleExplorerTransaction C s r)
      | EExplorerAddress \<Rightarrow> (s, handleExplorerAddress C s r)
      | EExplorerSearch \<Rightarrow> (s, handleExplorerSearch C s r)
      | EMiningWork \<Rightarrow> (s, handleMiningWork E L now s r)
      | EMiningSubmit \<Rightarrow> handleMiningSubmit E L s r
      | ENotFound \<Rightarrow> (s, handleNotFound))"

definition Handler :: "p2p_env \<Rightarrow> rpc_lib \<Rightarrow> i64 \<Rightarrow> rpc_server \<Rightarrow> http_request \<Rightarrow> rpc_server \<times> http_response" where
  "Handler E L now s r =
     (case muxRoute (routes (rcEnableMetrics (srvConfig s))) r of
        Inl location \<Rightarrow> (s, writeJSON (redirectStatus L) (RedirectBody location))
      | Inr None \<Rightarrow> (s, handleNotFound)
      | Inr (Some e) \<Rightarrow> dispatch E L now e s r)"

definition middleware :: "p2p_env \<Rightarrow> rpc_lib \<Rightarrow> i64 \<Rightarrow> rpc_server \<Rightarrow> http_request \<Rightarrow> rpc_server \<times> http_response" where
  "middleware E L now s r =
     (if int (srvInFlight s) \<ge> rcMaxConcurrent (srvConfig s) then (s, writeError 503 (Errorf ''rpc server is busy'' []))
      else Handler E L now s r)"

section \<open>Requests are runs of the node\<close>

lemma accept_then_broadcast:
  assumes "AcceptBlock E n bp = (n1, r1)" "BroadcastBlock E n1 bp' = (n2, r2)" "node_fits n2"
  shows "node_run E n n2"
proof -
  have "net_step E n1 n2" using assms(2) by (rule relay_net)
  then have "node_fits n1" using assms(3) node_fits_core [of n2 n1] by (simp add: net_step_def)
  with assms(1) have "node_run E n n1" by (blast intro: node_run_step node_step.submitBlock)
  moreover have "node_run E n1 n2" using assms(2,3) by (blast intro: node_run_step node_step.gossip)
  ultimately show ?thesis by (rule node_run_trans)
qed

lemma handleTransactions_run:
  assumes "handleTransactions E L s r = (s', rsp)" "node_fits (srvNode s')"
  shows "node_run E (srvNode s) (srvNode s') \<and> (reqMethod r \<noteq> ''POST'' \<longrightarrow> s' = s)
    \<and> srvConfig s' = srvConfig s \<and> srvInFlight s' = srvInFlight s"
  using assms node_run_step [OF node_step.submit]
  by (auto simp: handleTransactions_def split: if_splits decoded_tx.splits prod.splits sum.splits)

lemma acceptGPUMinerBlock_run:
  assumes "acceptGPUMinerBlock E s b = (s', rsp)" "node_fits (srvNode s')"
  shows "node_run E (srvNode s) (srvNode s') \<and> srvConfig s' = srvConfig s \<and> srvInFlight s' = srvInFlight s"
  using assms node_run_step [OF node_step.submitBlock] accept_then_broadcast
  by (auto simp: acceptGPUMinerBlock_def Let_def split: sum.splits prod.splits)

lemma handleMiningSubmit_run:
  assumes "handleMiningSubmit E L s r = (s', rsp)" "node_fits (srvNode s')"
  shows "node_run E (srvNode s) (srvNode s') \<and> (reqMethod r \<noteq> ''POST'' \<longrightarrow> s' = s)
    \<and> srvConfig s' = srvConfig s \<and> srvInFlight s' = srvInFlight s"
  using assms acceptGPUMinerBlock_run [of E s _ s' rsp]
  by (auto simp: handleMiningSubmit_def Let_def split: if_splits sum.splits)

lemma request_run:
  assumes "middleware E L now s r = (s', rsp)" "node_fits (srvNode s')"
  shows "node_run E (srvNode s) (srvNode s') \<and> (reqMethod r \<noteq> ''POST'' \<longrightarrow> s' = s)
    \<and> srvConfig s' = srvConfig s \<and> srvInFlight s' = srvInFlight s"
proof (cases "s' = s")
  case False
  then have "handleTransactions E L s r = (s', rsp) \<or> handleMiningSubmit E L s r = (s', rsp)"
    using assms(1) by (auto simp: middleware_def Handler_def dispatch_def Let_def split: if_splits sum.splits option.splits endpoint.splits)
  then show ?thesis using handleTransactions_run handleMiningSubmit_run assms(2) by blast
qed simp

section \<open>Histories of a server\<close>

text \<open>Requests, network activity and mining of the node, and the slots of other requests, in any order;
  every step has its own environment, over the same cryptography and address parser.\<close>

inductive server_run :: "crypto \<Rightarrow> netlib \<Rightarrow> rpc_lib \<Rightarrow> rpc_server \<Rightarrow> rpc_server \<Rightarrow> bool" for C N L s where
  started: "server_run C N L s s"
| request: "server_run C N L s s1 \<Longrightarrow> envCrypto E = C \<Longrightarrow> envNet E = N \<Longrightarrow> middleware E L now s1 r = (s2, rsp)
    \<Longrightarrow> node_fits (srvNode s2) \<Longrightarrow> server_run C N L s s2"
| activity: "server_run C N L s s1 \<Longrightarrow> envCrypto E = C \<Longrightarrow> envNet E = N \<Longrightarrow> node_step E (srvNode s1) n
    \<Longrightarrow> node_fits n \<Longrightarrow> server_run C N L s (s1\<lparr>srvNode := n\<rparr>)"
| slots: "server_run C N L s s1 \<Longrightarrow> server_run C N L s (s1\<lparr>srvInFlight := k\<rparr>)"

lemma server_run_inv:
  "server_run C N L s s' \<Longrightarrow> peer_inv N (srvNode s) \<and> ledger_ok C (srvNode s) \<Longrightarrow> peer_inv N (srvNode s') \<and> ledger_ok C (srvNode s')"
proof (induction rule: server_run.induct)
  case (request s1 E now r s2 rsp)
  then show ?case using request_run [of E L now s1 r s2 rsp] node_run_inv [of E "srvNode s1" "srvNode s2"] by (simp add: node_inv_def)
next
  case (activity s1 E n)
  then show ?case using node_step_inv [of E "srvNode s1" n] by (simp add: node_inv_def)
qed simp_all

section \<open>Work for miners\<close>

text \<open>The template of the mining endpoint is the one of the node's own pipeline.\<close>

lemma candidate_prepared:
  "candidateGPUMinerBlock C iter now (Some c) (Some pool) a = Inr b \<longleftrightarrow> prepareBlock C iter now c pool a = Inr b"
  by (auto simp: candidateGPUMinerBlock_def prepareBlock_def split: option.split sum.split)

lemma valid_address:
  assumes "validateGPUMinerAddress a = Inr ()" "ToLower (TrimSpace a) = a"
  shows "gpuMinerAddressPattern a" "a \<noteq> ''''"
  using assms by (auto simp: validateGPUMinerAddress_def gpuMinerAddressPattern_def split: if_splits)

lemma TrimSpace_empty [simp]: "TrimSpace '''' = ''''"
  by (simp add: TrimSpace_def)

lemma pattern_plain: "gpuMinerAddressPattern a \<Longrightarrow> ToLower (TrimSpace a) = a \<and> a \<noteq> ''''"
  using lower_hex_plain [of a] by (cases "a = ''''") (auto simp: gpuMinerAddressPattern_def)

text \<open>A template with a nonce that meets the legacy target extends the chain.\<close>

lemma solved_template_added:
  assumes "mempool_inv pool" "visits_all iter" "proofVerifier c = Some (legacyProofVerifier C)"
    and "prepareBlock C iter now c pool a = Inr b" "VersionAllowed (powPolicy c) 1 (blkHeight b)"
    and "validBlockProofOfWorkCore C (b\<lparr>blkNonce := k\<rparr>)"
    and "int64_range (blkTimestamp (last (blocks c)) + 1)" "blkTimestamp b \<le> wrap64 (now' + MaxFutureBlockSeconds)"
  shows "AddBlock C now' c (Some (b\<lparr>blkNonce := k\<rparr>)) = (c\<lparr>blocks := blocks c @ [b\<lparr>blkNonce := k\<rparr>],
      totalWork := totalWork c + blockWork (blkDifficulty b)\<rparr>, Inr ())"
proof -
  note p = prepareBlock_ok [OF assms(4)]
  let ?b = "b\<lparr>blkNonce := k\<rparr>" and ?t = "blkTimestamp (last (blocks c))"
  have "wrap64 (?t + 1) = ?t + 1" using assms(7) by (simp add: wrap64_def int64_range_def)
  then have time: "?t < blkTimestamp b" using p(9) by auto
  have tx: "validateBlockTransactions (Some ?b) = Inr ()"
    by (rule selected_valid(4) [OF assms(1,2)]) (simp add: p(6))
  have "extends C (powPolicy c) (legacyProofVerifier C) (blocks c) ?b"
    using p time tx assms(5,6) by (simp add: extends_def legacyProofVerifier_def CalculateMerkleRoot_def)
  then show ?thesis unfolding AddBlock_ok_iff using p(1) assms(3,8) by simp
qed

text \<open>A block that extends the chain and whose transactions apply is accepted.\<close>

lemma AcceptBlock_succeeds:
  assumes "nodeChain n = Some c" "nodeState n = Some st" "supply_inv st" "monetaryPolicy st = p"
    and "MonetaryPolicyFor (network c) = Inr p" "NetworkForMonetaryPolicy p = Inr net" "blkMinerAddress b \<noteq> ''''"
    and "applyBlockTransactions (envCrypto E) net (Some st) 0 (blkTransactions b) = (w, Inr fees)"
    and "AddBlock (envCrypto E) (envClock E 0 0) c (Some b) = (c1, Inr ())" "AddBlock (envCrypto E) (envClock E 0 1) c (Some b) = (c1, Inr ())"
  shows "\<exists>n1. AcceptBlock E n (Some b) = (n1, Inr ()) \<and> nodeChain n1 = Some c1"
proof -
  obtain t reward where t: "ProcessBlockFor (envCrypto E) (Some st) p (Some b) (blkMinerAddress b) = (Some t, Inr reward)"
    using ProcessBlockFor_complete [OF assms(3,7,4,6,8)] by blast
  have "is_ok (ValidateBlockAgainstChain (envCrypto E) (envClock E 0 0) (Some c) (Some b))"
    unfolding ValidateBlockAgainstChain_iff_AddBlock using assms(9) by simp
  then obtain u where "ValidateBlockAgainstChain (envCrypto E) (envClock E 0 0) (Some c) (Some b) = Inr u"
    by (cases "ValidateBlockAgainstChain (envCrypto E) (envClock E 0 0) (Some c) (Some b)") auto
  moreover have "Clone st = st" "ReplaceWith st (Some t) = (t, Inr ())" by (simp add: Clone_def) (cases t, simp add: ReplaceWith_def)
  moreover have "EnsureMonetaryPolicy st p = Inr ()" using assms(4) MonetaryPolicyFor_valid [OF assms(5)] by (simp add: EnsureMonetaryPolicy_def)
  moreover have "blocks c1 \<noteq> []" using assms(9) unfolding AddBlock_ok_iff by auto
  ultimately show ?thesis using assms(1,2,5,7,10) t Refresh_core [of "n\<lparr>nodeChain := Some c1, nodeState := Some t, nodeMempool := m\<rparr>" c1 "envCrypto E" for m]
    by (simp add: AcceptBlock_def MonetaryPolicy_def)
qed

section \<open>Properties\<close>


text \<open>A solved template is accepted by the node it came from.\<close>

lemma solved_block_accepted:
  assumes "ledger_ok (envCrypto E) (srvNode s)" "visits_all (envPool E)"
    and "nodeChain (srvNode s) = Some c" "nodeState (srvNode s) = Some st" "MonetaryPolicyFor (network c) = Inr p"
    and "NetworkForMonetaryPolicy p = Inr net" "proofVerifier c = Some (legacyProofVerifier (envCrypto E))"
    and "gpuMinerAddressPattern a" "prepareBlock (envCrypto E) (envPool E) now c (nodeMempool (srvNode s)) a = Inr b"
    and "VersionAllowed (powPolicy c) 1 (blkHeight b)" "validBlockProofOfWorkCore (envCrypto E) (b\<lparr>blkNonce := k\<rparr>)"
    and "int64_range (blkTimestamp (last (blocks c)) + 1)"
    and "is_ok (snd (applyBlockTransactions (envCrypto E) net (Some st) 0 (blkTransactions b)))"
    and "envCrypto E' = envCrypto E" "\<forall>i. blkTimestamp b \<le> wrap64 (envClock E' 0 i + MaxFutureBlockSeconds)"
  shows "\<exists>s' r c'. acceptGPUMinerBlock E' s (b\<lparr>blkNonce := k\<rparr>) = (s', writeJSON 200 (MiningAcceptedBody r))
    \<and> nodeChain (srvNode s') = Some c' \<and> blocks c' = blocks c @ [b\<lparr>blkNonce := k\<rparr>]"
proof -
  let ?b = "b\<lparr>blkNonce := k\<rparr>"
  have ok: "node_ok (envCrypto E) c st (nodeMempool (srvNode s))" using assms(1,3,4) by (auto simp: ledger_ok_def)
  have addr: "ToLower (TrimSpace a) = a" "a \<noteq> ''''" using pattern_plain [OF assms(8)] by blast+
  let ?c1 = "c\<lparr>blocks := blocks c @ [?b], totalWork := totalWork c + blockWork (blkDifficulty b)\<rparr>"
  have add: "AddBlock (envCrypto E) (envClock E' 0 i) c (Some ?b) = (?c1, Inr ())" for i
    using solved_template_added [OF _ assms(2,7,9), of k "envClock E' 0 i"] ok assms(10-12,15) by (simp add: node_ok_def)
  have miner: "blkMinerAddress ?b = a" using prepareBlock_ok(5) [OF assms(9)] by simp
  have st: "supply_inv st" "monetaryPolicy st = p"
    using BuildStateFromChain_supply [of "envCrypto E" c p "Some st"] ok assms(5) by (auto simp: node_ok_def)
  obtain w fees where "applyBlockTransactions (envCrypto E) net (Some st) 0 (blkTransactions ?b) = (w, Inr fees)"
    using assms(13) by (cases "applyBlockTransactions (envCrypto E) net (Some st) 0 (blkTransactions b)") (auto simp: is_ok_iff)
  then obtain n1 where n1: "AcceptBlock E' (srvNode s) (Some ?b) = (n1, Inr ())" "nodeChain n1 = Some ?c1"
    using AcceptBlock_succeeds [OF assms(3,4) st assms(5,6), of ?b E'] add [of 0] add [of 1] miner addr(2) assms(14) by auto
  obtain n2 q where n2: "BroadcastBlock E' n1 (Some ?b) = (n2, q)" by fastforce
  then have "core n2 = core n1" using relay_net(4) [OF n2] by (simp add: net_step_def)
  moreover have "nodeState n1 \<noteq> None"
    by (cases rule: AcceptBlock_cases [OF n1(1)]) (auto simp: RefreshChainStatus_def Let_def split: option.splits)
  ultimately have "nodeChain n2 = Some ?c1" "nodeState n2 \<noteq> None" using n1(2) by (auto simp: core_def)
  moreover have "?b\<lparr>blkMinerAddress := a\<rparr> = ?b" using miner by simp
  ultimately show ?thesis using n1(1) n2 miner addr assms(8)
    by (auto simp: acceptGPUMinerBlock_def validateGPUMinerAddress_def withState_def writeJSON_def Let_def)
qed

text \<open>Solved work is accepted. When the mining endpoint hands out a template for an address, a miner finds a
  nonce that meets its target, and the node has not changed, posting the block to the submit endpoint
  is answered with success and the block is the new tip of the node's chain, as long as the chosen
  transactions apply in their order, the proof is the legacy one and the block's time is not too far
  ahead of the clock. The body must decode to the block.\<close>

theorem mining_work_accepted:
  assumes "ledger_ok (envCrypto E) (srvNode s)" "visits_all (envPool E)"
    and "nodeChain (srvNode s) = Some c" "nodeState (srvNode s) = Some st" "MonetaryPolicyFor (network c) = Inr p"
    and "NetworkForMonetaryPolicy p = Inr net" "proofVerifier c = Some (legacyProofVerifier (envCrypto E))"
    and "reqMethod r = ''GET''" "reqQuery r ''address'' = a" "gpuMinerAddressPattern a"
    and "handleMiningWork E L now s r = writeJSON 200 (MiningWorkBody work)"
  defines "b \<equiv> mwBlock work" and "b' k \<equiv> (mwBlock work)\<lparr>blkNonce := k\<rparr>"
  assumes "VersionAllowed (powPolicy c) 1 (blkHeight b)" "validBlockProofOfWorkCore (envCrypto E) (b' k)"
    and "int64_range (blkTimestamp (last (blocks c)) + 1)"
    and "is_ok (snd (applyBlockTransactions (envCrypto E) net (Some st) 0 (blkTransactions b)))"
    and "envCrypto E' = envCrypto E" "\<forall>i. blkTimestamp b \<le> wrap64 (envClock E' 0 i + MaxFutureBlockSeconds)"
    and "reqMethod r' = ''POST''" "reqBody r' = Inr raw" "int (length raw) \<le> rcMaxBodyBytes (srvConfig s)"
    and "unmarshalMined L raw = Inr (b' k)" "prAlgorithm (unmarshalProbe L raw) = ''''" "prHeight (unmarshalProbe L raw) > 0"
  shows "\<exists>s' rsp c'. handleMiningSubmit E' L s r' = (s', rsp) \<and> rspStatus rsp = 200
    \<and> nodeChain (srvNode s') = Some c' \<and> blocks c' = blocks c @ [b' k]"
proof -
  have addr: "ToLower (TrimSpace a) = a" "a \<noteq> ''''" using pattern_plain [OF assms(10)] by blast+
  have "gpuMinerAddressFromRequest L r = Inr a"
    using addr assms(8,9,10) by (simp add: gpuMinerAddressFromRequest_def validateGPUMinerAddress_def)
  then have "candidateGPUMinerBlock (envCrypto E) (envPool E) now (Some c) (Some (nodeMempool (srvNode s))) a = Inr b"
    using assms(3,4,8,11) by (auto simp: handleMiningWork_def writeJSON_def writeError_def b_def Let_def split: sum.splits)
  then have prep: "prepareBlock (envCrypto E) (envPool E) now c (nodeMempool (srvNode s)) a = Inr b" unfolding candidate_prepared .
  have b': "b\<lparr>blkNonce := k\<rparr> = b' k" by (simp add: b_def b'_def)
  obtain s' res c' where "acceptGPUMinerBlock E' s (b' k) = (s', writeJSON 200 (MiningAcceptedBody res))"
    "nodeChain (srvNode s') = Some c'" "blocks c' = blocks c @ [b' k]"
    using solved_block_accepted [OF assms(1-7,10) prep assms(14) _ assms(16-19), of k] assms(15) unfolding b' by blast
  then show ?thesis using assms(3,4,20-25) by (auto simp: handleMiningSubmit_def writeJSON_def Let_def)
qed

text \<open>C34: from the activation height of the GPU proof on, the mining endpoint hands out work that no solution can
  redeem: the template keeps the version of the legacy proof, so whatever nonce is found, the node
  refuses the block. The node's own pipeline builds the same template.\<close>

theorem mining_work_dead_after_activation:
  assumes "handleMiningWork E L now s r = writeJSON 200 (MiningWorkBody work)" "nodeChain (srvNode s) = Some c"
    and "GPUV1ActivationHeight (powPolicy c) \<noteq> GPUV1ActivationDisabled" "GPUV1ActivationHeight (powPolicy c) \<le> blkHeight (mwBlock work)"
  shows "\<not> is_ok (snd (AcceptBlock E' (srvNode s) (Some ((mwBlock work)\<lparr>blkNonce := k\<rparr>))))
    \<and> prepareBlock (envCrypto E) (envPool E) now c (nodeMempool (srvNode s)) (mwRewardAddress work) = Inr (mwBlock work)"
proof -
  have prep: "prepareBlock (envCrypto E) (envPool E) now c (nodeMempool (srvNode s)) (mwRewardAddress work) = Inr (mwBlock work)"
    using assms(1,2) unfolding candidate_prepared [symmetric]
    by (auto simp: handleMiningWork_def writeJSON_def writeError_def methodNotAllowed_def Let_def split: if_splits sum.splits option.splits)
  have "\<not> VersionAllowed (powPolicy c) 1 (blkHeight (mwBlock work))" using assms(3,4) by (simp add: VersionAllowed_def)
  then have "\<not> extends C (powPolicy c) V (blocks c) ((mwBlock work)\<lparr>blkNonce := k\<rparr>)" for C V
    using prepareBlock_ok(2) [OF prep] by (simp add: extends_def)
  then have no: "\<not> is_ok (snd (AddBlock C t c (Some ((mwBlock work)\<lparr>blkNonce := k\<rparr>))))" for C t
    using AddBlock_ok_iff [of C t c "(mwBlock work)\<lparr>blkNonce := k\<rparr>"] by (metis (full_types) is_ok_iff old.unit.exhaust surjective_pairing)
  obtain n1 q where a: "AcceptBlock E' (srvNode s) (Some ((mwBlock work)\<lparr>blkNonce := k\<rparr>)) = (n1, q)" by fastforce
  have "\<not> is_ok q"
  proof (cases rule: AcceptBlock_cases [OF a])
    case (2 b d st p c1 t reward)
    then have "is_ok (snd (AddBlock (envCrypto E') (envClock E' 0 1) c (Some ((mwBlock work)\<lparr>blkNonce := k\<rparr>))))" using assms(2) by simp
    with no show ?thesis by blast
  qed
  with prep a show ?thesis by simp
qed

section \<open>A small server\<close>

definition small_server :: rpc_server where
  "small_server = \<lparr>srvConfig = RPCDefaultConfig, srvNode = small_node, srvInFlight = 0\<rparr>"

definition small_request :: "string \<Rightarrow> string \<Rightarrow> bytes \<Rightarrow> http_request" where
  "small_request meth path data = \<lparr>reqMethod = meth, reqPath = path,
     reqQuery = (\<lambda>key. if key = ''address'' then Address (small_wallet 7) else ''''), reqContentType = '''', reqBody = Inr data\<rparr>"

definition small_lib :: rpc_lib where
  "small_lib = \<lparr>decodeTx = (\<lambda>_ _. BodyInvalid), unmarshalProbe = (\<lambda>_. \<lparr>prAlgorithm = '''', prMinerAddress = '''', prPreviousHash = '''', prHeight = 1\<rparr>),
     unmarshalMined = (\<lambda>_. Inr (small_block 7 NewGenesisBlock)), decodeAddress = (\<lambda>_. ''''), redirectStatus = 301\<rparr>"

lemma small_address: "gpuMinerAddressPattern (Address (small_wallet 7))"
proof -
  have "Address (small_wallet 7) = ''0407070000000000000000000000000007070400''" by code_simp
  then show ?thesis by (simp add: gpuMinerAddressPattern_def is_lower_hex_def)
qed

lemma small_work:
  "\<exists>work. handleMiningWork small_env small_lib 1786924860 small_server (small_request ''GET'' ''/v1/mining/work'' [])
       = writeJSON 200 (MiningWorkBody work) \<and> mwBlock work = small_block 7 NewGenesisBlock"
proof -
  let ?r = "small_request ''GET'' ''/v1/mining/work'' []"
  have "gpuMinerAddressFromRequest small_lib ?r = Inr (Address (small_wallet 7))"
    using pattern_plain [OF small_address] small_address
    by (simp add: gpuMinerAddressFromRequest_def small_request_def validateGPUMinerAddress_def)
  moreover have "candidateGPUMinerBlock small_crypto rev 1786924860 (Some small_genesis_chain) (Some NewMempool) (Address (small_wallet 7))
      = Inr (small_block 7 NewGenesisBlock)"
    unfolding candidate_prepared by (rule small_prepared) (simp add: visits_all_def)
  ultimately show ?thesis
    by (simp add: handleMiningWork_def small_server_def small_node_def small_env_def small_request_def Let_def writeJSON_def)
qed

lemma prepareBlock_policy: "prepareBlock C iter now (c\<lparr>powPolicy := q\<rparr>) pool a = prepareBlock C iter now c pool a"
proof -
  have e: "ExpectedNextDifficulty (Some (c\<lparr>powPolicy := q\<rparr>)) = ExpectedNextDifficulty (Some c)" "Tip (c\<lparr>powPolicy := q\<rparr>) = Tip c"
    by (simp_all add: ExpectedNextDifficulty_def Tip_def)
  show ?thesis unfolding prepareBlock_def e ..
qed


theorem mining_work_accepted_witness:
  "\<exists>s' rsp c'. handleMiningSubmit small_env small_lib small_server (small_request ''POST'' ''/v1/mining/submit'' [1]) = (s', rsp)
     \<and> rspStatus rsp = 200 \<and> nodeChain (srvNode s') = Some c' \<and> length (blocks c') = 2"
proof -
  let ?b = "small_block 7 NewGenesisBlock" and ?r' = "small_request ''POST'' ''/v1/mining/submit'' [1]"
  obtain work where w: "handleMiningWork small_env small_lib 1786924860 small_server (small_request ''GET'' ''/v1/mining/work'' [])
       = writeJSON 200 (MiningWorkBody work)" "mwBlock work = ?b" using small_work by blast
  have led: "ledger_ok (envCrypto small_env) (srvNode small_server)" using small_node_inv by (simp add: node_inv_def small_server_def)
  have b: "?b\<lparr>blkNonce := 0\<rparr> = ?b" by (simp add: small_block_def UpdateMerkleRoot_def)
  have proof_ok: "validBlockProofOfWorkCore (envCrypto small_env) ((mwBlock work)\<lparr>blkNonce := 0\<rparr>)"
    using Mine_found [of small_crypto ?b 1] small_mined b unfolding w(2) by (auto simp: small_env_def)
  have net: "MonetaryPolicyFor (network small_genesis_chain) = Inr MonetaryPolicyPublicTestnet"
    "NetworkForMonetaryPolicy MonetaryPolicyPublicTestnet = Inr NetworkPublicTestnet"
    by (simp_all add: small_genesis_chain_def MonetaryPolicyFor_def NetworkForMonetaryPolicy_def)
  have "\<exists>s' rsp c'. handleMiningSubmit small_env small_lib small_server ?r' = (s', rsp) \<and> rspStatus rsp = 200
    \<and> nodeChain (srvNode s') = Some c' \<and> blocks c' = blocks small_genesis_chain @ [(mwBlock work)\<lparr>blkNonce := 0\<rparr>]"
    by (rule mining_work_accepted [OF led _ _ _ net _ _ _ small_address w(1) _ proof_ok, where raw = "[1]"])
      (simp_all add: w(2) b small_env_def visits_all_def small_server_def small_node_def small_genesis_chain_def small_request_def small_lib_def
        VersionAllowed_def int64_range_def wrap64_def MaxFutureBlockSeconds_def RPCDefaultConfig_def go_const small_block_def UpdateMerkleRoot_def)
  then show ?thesis by (auto simp: small_genesis_chain_def)
qed

theorem mining_work_dead_after_activation_witness:
  "\<exists>work. let s = small_server\<lparr>srvNode := small_node\<lparr>nodeChain := Some (small_genesis_chain\<lparr>powPolicy := \<lparr>GPUV1ActivationHeight = 1\<rparr>\<rparr>)\<rparr>\<rparr> in
     handleMiningWork small_env small_lib 1786924860 s (small_request ''GET'' ''/v1/mining/work'' []) = writeJSON 200 (MiningWorkBody work)
     \<and> \<not> is_ok (snd (AcceptBlock small_env (srvNode s) (Some ((mwBlock work)\<lparr>blkNonce := 0\<rparr>))))"
proof -
  let ?c = "small_genesis_chain\<lparr>powPolicy := \<lparr>GPUV1ActivationHeight = 1\<rparr>\<rparr>"
  let ?s = "small_server\<lparr>srvNode := small_node\<lparr>nodeChain := Some ?c\<rparr>\<rparr>" and ?r = "small_request ''GET'' ''/v1/mining/work'' []"
  have "prepareBlock small_crypto rev 1786924860 ?c NewMempool (Address (small_wallet 7)) = Inr (small_block 7 NewGenesisBlock)"
    unfolding prepareBlock_policy by (rule small_prepared) (simp add: visits_all_def)
  then have cand: "candidateGPUMinerBlock small_crypto rev 1786924860 (Some ?c) (Some NewMempool) (Address (small_wallet 7))
      = Inr (small_block 7 NewGenesisBlock)" unfolding candidate_prepared .
  have "gpuMinerAddressFromRequest small_lib ?r = Inr (Address (small_wallet 7))"
    using pattern_plain [OF small_address] small_address
    by (simp add: gpuMinerAddressFromRequest_def small_request_def validateGPUMinerAddress_def)
  with cand obtain work where w: "handleMiningWork small_env small_lib 1786924860 ?s ?r = writeJSON 200 (MiningWorkBody work)"
    "mwBlock work = small_block 7 NewGenesisBlock"
    by (simp add: handleMiningWork_def small_server_def small_node_def small_env_def small_request_def Let_def writeJSON_def)
  from mining_work_dead_after_activation [OF w(1), of ?c small_env 0] w show ?thesis
    by (auto simp: GPUV1ActivationDisabled_def)
qed

end
