(* ===== verification/WalletCli.thy ===== *)
theory WalletCli
  imports Rpc WalletStorage
begin

text \<open>
  The client of the HTTP interface, \<open>rpc/client.go\<close>, and the wallet program, \<open>cmd/sudharma-wallet\<close>.

  The client reaches the node through a transport, a function on the state of the remote side; with
  the model of the server as that state, the lemmas speak about the wallet and the node together.
  Parsing of URLs and the JSON of requests and responses are arguments. The program works on the
  disk, on the lines the user types, and on the remote side; what it prints is its result.
\<close>

section \<open>The client\<close>

type_synonym 'w transport = "string \<Rightarrow> http_request \<Rightarrow> 'w \<Rightarrow> 'w \<times> http_response result"

definition DefaultClientURL :: string where
  [go_const]: "DefaultClientURL = ''http://127.0.0.1:18545''"

text \<open>What the client uses of JSON: the encoding of a transaction, and the decoding of a response body, of
  which at most four megabytes are read, into the value that the call expects.\<close>

record client_codec =
  encodeTx :: "transaction \<Rightarrow> bytes result"
  decodeStatus :: "rpc_body \<Rightarrow> statusResponse result"
  decodeAccount :: "rpc_body \<Rightarrow> accountResponse result"
  decodeSubmit :: "rpc_body \<Rightarrow> submitResponse result"
  decodeTransaction :: "rpc_body \<Rightarrow> transactionStatusResponse result"

record 'w Client =
  clBaseURL :: string
  clTransport :: "'w transport"
  clCodec :: client_codec

text \<open>\<open>url.Parse\<close> gives the scheme, the host and the text of the URL.\<close>

fun TrimRightSlash :: "string \<Rightarrow> string" where
  "TrimRightSlash s = (if s \<noteq> '''' \<and> last s = CHR ''/'' then TrimRightSlash (butlast s) else s)"

declare TrimRightSlash.simps [simp del]

definition NewClient ::
  "(string \<Rightarrow> (string \<times> string \<times> string) option) \<Rightarrow> 'w transport \<Rightarrow> client_codec \<Rightarrow> string \<Rightarrow> 'w Client result" where
  "NewClient parseURL transport codec baseURL =
     (case parseURL (if TrimSpace baseURL = '''' then DefaultClientURL else baseURL) of
       None \<Rightarrow> Inl (Errorf ''invalid RPC URL'' [])
     | Some (scheme, host, text) \<Rightarrow>
       if scheme = '''' \<or> host = '''' then Inl (Errorf ''invalid RPC URL'' [])
       else if scheme \<noteq> ''http'' \<and> scheme \<noteq> ''https'' then Inl (Errorf ''RPC URL must use http or https'' [])
       else Inr \<lparr>clBaseURL = TrimRightSlash text, clTransport = transport, clCodec = codec\<rparr>)"

text \<open>A response outside the range of success is an RPC error with the message of its body.\<close>

definition RPCError :: "nat \<Rightarrow> rpc_body \<Rightarrow> error" where
  "RPCError status body =
     (case body of ErrorBody err \<Rightarrow> Wrapf ''rpc error (%d): %s'' [dec status] err | _ \<Rightarrow> Errorf ''rpc error (%d): %s'' [dec status])"

text \<open>The path of a request is the text before escaping, which is what the server sees again.\<close>

definition doJSON ::
  "'w Client \<Rightarrow> string \<Rightarrow> string \<Rightarrow> transaction option \<Rightarrow> (rpc_body \<Rightarrow> 'r result) \<Rightarrow> 'w \<Rightarrow> 'w \<times> 'r result" where
  "doJSON cl meth path requestValue decode w =
     (case (case requestValue of None \<Rightarrow> Inr [] | Some tx \<Rightarrow> encodeTx (clCodec cl) tx) of
       Inl err \<Rightarrow> (w, Inl err)
     | Inr encoded \<Rightarrow>
     (case clTransport cl (clBaseURL cl) \<lparr>reqMethod = meth, reqPath = path, reqQuery = (\<lambda>_. ''''),
         reqContentType = (if requestValue = None then '''' else ''application/json''), reqBody = Inr encoded\<rparr> w of
       (w1, Inl err) \<Rightarrow> (w1, Inl (Wrapf ''RPC request failed: %w'' [] err))
     | (w1, Inr rsp) \<Rightarrow>
       if rspStatus rsp < 200 \<or> rspStatus rsp \<ge> 300 then (w1, Inl (RPCError (rspStatus rsp) (rspBody rsp)))
       else (case decode (rspBody rsp) of
           Inl err \<Rightarrow> (w1, Inl (Wrapf ''invalid RPC response: %w'' [] err))
         | Inr responseValue \<Rightarrow> (w1, Inr responseValue))))"

definition ClientStatus :: "'w Client \<Rightarrow> 'w \<Rightarrow> 'w \<times> statusResponse result" where
  "ClientStatus cl w = doJSON cl ''GET'' ''/v1/status'' None (decodeStatus (clCodec cl)) w"

definition ClientAccount :: "'w Client \<Rightarrow> string \<Rightarrow> 'w \<Rightarrow> 'w \<times> accountResponse result" where
  "ClientAccount cl address w =
     (if TrimSpace address = '''' then (w, Inl (Errorf ''address cannot be empty'' []))
      else doJSON cl ''GET'' (''/v1/accounts/'' @ address) None (decodeAccount (clCodec cl)) w)"

definition ClientSubmitTransaction :: "'w Client \<Rightarrow> transaction option \<Rightarrow> 'w \<Rightarrow> 'w \<times> submitResponse result" where
  "ClientSubmitTransaction cl txp w =
     (case txp of
        None \<Rightarrow> (w, Inl (Errorf ''transaction cannot be nil'' []))
      | Some tx \<Rightarrow> doJSON cl ''POST'' ''/v1/transactions'' (Some tx) (decodeSubmit (clCodec cl)) w)"

definition ClientTransaction :: "'w Client \<Rightarrow> string \<Rightarrow> 'w \<Rightarrow> 'w \<times> transactionStatusResponse result" where
  "ClientTransaction cl ident w =
     (if length ident \<noteq> 64 \<or> \<not> isLowerHex ident then (w, Inl (Errorf ''invalid transaction ID'' []))
      else doJSON cl ''GET'' (''/v1/transactions/'' @ ident) None (decodeTransaction (clCodec cl)) w)"

section \<open>Amounts\<close>

function decimalPlaces :: "u64 \<Rightarrow> nat" where
  "decimalPlaces value = (if value > 1 \<and> value mod 10 = 0 then Suc (decimalPlaces (value div 10)) else 0)"
  by pat_completeness auto
termination
proof (relation "measure unat")
  fix v :: u64
  assume "v > 1 \<and> v mod 10 = 0"
  then show "(v div 10, v) \<in> measure unat" by (simp add: unat_div word_less_nat_alt)
qed simp

declare decimalPlaces.simps [simp del]

definition coinDecimalPlaces :: nat where
  "coinDecimalPlaces = decimalPlaces CoinDecimals"

definition parseCoinAmount :: "string \<Rightarrow> u64 result" where
  "parseCoinAmount value0 =
     (let value = TrimSpace value0 in
      if value = '''' \<or> HasPrefix value ''-'' \<or> HasPrefix value ''+''
      then Inl (Errorf ''amount must be a positive decimal number'' [])
      else (let parts = Split value (CHR ''.'') in
        if length parts > 2 then Inl (Errorf ''invalid decimal amount'' [])
        else (case ParseUint64 (if parts ! 0 = '''' then ''0'' else parts ! 0) of
          None \<Rightarrow> Inl (Errorf ''invalid whole amount'' [])
        | Some whole \<Rightarrow>
        (let decimals = coinDecimalPlaces; fractionText = (if length parts = 2 then parts ! 1 else '''') in
        if length fractionText > decimals then Inl (Errorf ''amount supports at most %d decimal places'' [dec decimals])
        else (let padded = fractionText @ replicate (decimals - length fractionText) (CHR ''0'') in
          (case (if padded \<noteq> '''' then ParseUint64 padded else Some 0) of
            None \<Rightarrow> Inl (Errorf ''invalid fractional amount'' [])
          | Some fraction \<Rightarrow>
            if whole > MaxUint64 div CoinDecimals then Inl (Errorf ''amount is too large'' [])
            else (let atomic = whole * CoinDecimals in
              if atomic > MaxUint64 - fraction then Inl (Errorf ''amount is too large'' []) else Inr (atomic + fraction))))))))"

text \<open>The verb \<open>%0*d\<close>.\<close>

definition padded :: "nat \<Rightarrow> nat \<Rightarrow> string" where
  "padded width n = replicate (width - length (dec n)) (CHR ''0'') @ dec n"

definition formatCoinAmount :: "u64 \<Rightarrow> string" where
  "formatCoinAmount amount =
     (let decimals = coinDecimalPlaces; whole = amount div CoinDecimals; fraction = amount mod CoinDecimals in
      if decimals = 0 then dec (unat whole) else dec (unat whole) @ ''.'' @ padded decimals (unat fraction))"

section \<open>The program\<close>

record 'w cli =
  cliDisk :: disk
  cliInput :: "string result list"
  cliRemote :: 'w

record 'w cli_lib =
  cbCrypto :: crypto
  cbSealing :: sealing
  cbJSON :: "encryptedWalletFile json"
  cbParseURL :: "string \<Rightarrow> (string \<times> string \<times> string) option"
  cbCodec :: client_codec
  cbTransport :: "'w transport"
  cbRandom :: wallet_random
  cbSeed :: nat
  cbTemps :: "path list"
  cbOriginals :: "path list"
  cbNetworkEnv :: string

datatype cli_output =
    Usage string
  | Failed error
  | Created string
  | AddressShown string
  | Verified string
  | BackedUp string
  | PasswordChanged string
  | NodeShown statusResponse
  | BalanceShown accountResponse
  | Sent submitResponse u64 u64 u64
  | NotSent string
  | TransactionShown transactionStatusResponse

text \<open>One line of input, or the error of reading it; at the end of the input the error is end-of-file.\<close>

definition readPassword :: "'w cli \<Rightarrow> 'w cli \<times> string result" where
  "readPassword w =
     (case cliInput w of
        [] \<Rightarrow> (w, Inl (Errorf ''EOF'' []))
      | Inl err # rest \<Rightarrow> (w\<lparr>cliInput := rest\<rparr>, Inl err)
      | Inr value # rest \<Rightarrow> (w\<lparr>cliInput := rest\<rparr>, Inr (TrimSpace value)))"

definition readNewPasswordWithPrompts :: "'w cli \<Rightarrow> 'w cli \<times> string result" where
  "readNewPasswordWithPrompts w =
     (case readPassword w of
       (w1, Inl err) \<Rightarrow> (w1, Inl err)
     | (w1, Inr first) \<Rightarrow>
     if length first < 12 then (w1, Inl (Errorf ''password must contain at least 12 characters'' []))
     else (case readPassword w1 of
       (w2, Inl err) \<Rightarrow> (w2, Inl err)
     | (w2, Inr second) \<Rightarrow>
       if first \<noteq> second then (w2, Inl (Errorf ''passwords do not match'' [])) else (w2, Inr first)))"

definition openWallet :: "'w cli_lib \<Rightarrow> path \<Rightarrow> 'w cli \<Rightarrow> 'w cli \<times> wallet result" where
  "openWallet B p w =
     (case readPassword w of
       (w1, Inl err) \<Rightarrow> (w1, Inl err)
     | (w1, Inr password) \<Rightarrow>
       (case LoadEncrypted (cbCrypto B) (cbSealing B) (cbJSON B) p password (cliDisk w1) of
         (d, r) \<Rightarrow> (w1\<lparr>cliDisk := d\<rparr>, r)))"

definition optionalRPCURL :: "string list \<Rightarrow> nat \<Rightarrow> string" where
  "optionalRPCURL args index = (if length args > index then args ! index else DefaultClientURL)"

definition rpcContext :: "'w cli_lib \<Rightarrow> string \<Rightarrow> 'w Client result" where
  "rpcContext B baseURL = NewClient (cbParseURL B) (cbTransport B) (cbCodec B) baseURL"

definition createWallet :: "'w cli_lib \<Rightarrow> string list \<Rightarrow> 'w cli \<Rightarrow> 'w cli \<times> cli_output" where
  "createWallet B args w =
     (if length args \<noteq> 3 then (w, Usage ''sudharma-wallet create <wallet-file>'')
      else (let p = args ! 2 in
        (case existing_only p (cliDisk w) of
          (d, Inr _) \<Rightarrow> (w\<lparr>cliDisk := d\<rparr>, Failed (Errorf ''ERROR: wallet file already exists.'' []))
        | (d, Inl _) \<Rightarrow>
        (case readNewPasswordWithPrompts (w\<lparr>cliDisk := d\<rparr>) of
          (w1, Inl err) \<Rightarrow> (w1, Failed (Wrapf ''Failed to read password: %v'' [] err))
        | (w1, Inr password) \<Rightarrow>
        (case NewWallet (cbCrypto B) (cbSeed B) of
          Inl err \<Rightarrow> (w1, Failed (Wrapf ''Failed to create wallet: %v'' [] err))
        | Inr wal \<Rightarrow>
        (case SaveEncrypted (cbSealing B) (cbJSON B) (cbRandom B) (Some wal) p password (cliDisk w1) of
          (d1, Inl err) \<Rightarrow> (w1\<lparr>cliDisk := d1\<rparr>, Failed (Wrapf ''Failed to save wallet: %v'' [] err))
        | (d1, Inr _) \<Rightarrow> (w1\<lparr>cliDisk := d1\<rparr>, Created (Address wal))))))))"

definition showAddress :: "'w cli_lib \<Rightarrow> string list \<Rightarrow> 'w cli \<Rightarrow> 'w cli \<times> cli_output" where
  "showAddress B args w =
     (if length args \<noteq> 3 then (w, Usage ''sudharma-wallet address <wallet-file>'')
      else (case openWallet B (args ! 2) w of
        (w1, Inl err) \<Rightarrow> (w1, Failed (Wrapf ''Failed to open wallet: %v'' [] err))
      | (w1, Inr wal) \<Rightarrow> (w1, AddressShown (Address wal))))"

definition verifyWallet :: "'w cli_lib \<Rightarrow> string list \<Rightarrow> 'w cli \<Rightarrow> 'w cli \<times> cli_output" where
  "verifyWallet B args w =
     (if length args \<noteq> 3 then (w, Usage ''sudharma-wallet verify <wallet-file>'')
      else (case openWallet B (args ! 2) w of
        (w1, Inl err) \<Rightarrow> (w1, Failed (Wrapf ''Wallet verification FAILED. %v'' [] err))
      | (w1, Inr wal) \<Rightarrow>
        (let testMessage = bytes_of ''Sudharma Network wallet verification'' in
         (case Sign (cbCrypto B) (cbSeed B) wal testMessage of
            Inl err \<Rightarrow> (w1, Failed (Wrapf ''Wallet verification FAILED. %v'' [] err))
          | Inr signature \<Rightarrow>
              if \<not> Verify (cbCrypto B) wal testMessage signature then (w1, Failed (Errorf ''Wallet verification FAILED.'' []))
              else (w1, Verified (Address wal))))))"

definition backupWallet :: "'w cli_lib \<Rightarrow> string list \<Rightarrow> 'w cli \<Rightarrow> 'w cli \<times> cli_output" where
  "backupWallet B args w =
     (if length args \<noteq> 4 then (w, Usage ''sudharma-wallet backup <wallet-file> <backup-file>'')
      else (case readPassword w of
        (w1, Inl err) \<Rightarrow> (w1, Failed (Wrapf ''Failed to read password: %v'' [] err))
      | (w1, Inr password) \<Rightarrow>
      (case BackupEncrypted (cbCrypto B) (cbSealing B) (cbJSON B) (args ! 2) (args ! 3) password (cliDisk w1) of
        (d, Inl err) \<Rightarrow> (w1\<lparr>cliDisk := d\<rparr>, Failed (Wrapf ''Wallet backup FAILED: %v'' [] err))
      | (d, Inr address) \<Rightarrow> (w1\<lparr>cliDisk := d\<rparr>, BackedUp address))))"

definition changeWalletPassword :: "'w cli_lib \<Rightarrow> string list \<Rightarrow> 'w cli \<Rightarrow> 'w cli \<times> cli_output" where
  "changeWalletPassword B args w =
     (if length args \<noteq> 3 then (w, Usage ''sudharma-wallet passwd <wallet-file>'')
      else (case readPassword w of
        (w1, Inl err) \<Rightarrow> (w1, Failed (Wrapf ''Failed to read password: %v'' [] err))
      | (w1, Inr currentPassword) \<Rightarrow>
      (case readNewPasswordWithPrompts w1 of
        (w2, Inl err) \<Rightarrow> (w2, Failed (Wrapf ''Failed to set new password: %v'' [] err))
      | (w2, Inr newPassword) \<Rightarrow>
      (case ChangeEncryptedPassword (cbCrypto B) (cbSealing B) (cbJSON B) (cbRandom B) (cbTemps B) (cbOriginals B) (args ! 2)
          currentPassword newPassword (cliDisk w2) of
        (d, Inl err) \<Rightarrow> (w2\<lparr>cliDisk := d\<rparr>, Failed (Wrapf ''Wallet password change FAILED: %v'' [] err))
      | (d, Inr address) \<Rightarrow> (w2\<lparr>cliDisk := d\<rparr>, PasswordChanged address)))))"

definition onRemote :: "('w \<Rightarrow> 'w \<times> 'r) \<Rightarrow> 'w cli \<Rightarrow> 'w cli \<times> 'r" where
  "onRemote f w = (case f (cliRemote w) of (w1, r) \<Rightarrow> (w\<lparr>cliRemote := w1\<rparr>, r))"

definition showNodeStatus :: "'w cli_lib \<Rightarrow> string list \<Rightarrow> 'w cli \<Rightarrow> 'w cli \<times> cli_output" where
  "showNodeStatus B args w =
     (if length args > 3 then (w, Usage ''sudharma-wallet node [rpc-url]'')
      else (case rpcContext B (optionalRPCURL args 2) of
        Inl err \<Rightarrow> (w, Failed err)
      | Inr client \<Rightarrow>
      (case onRemote (ClientStatus client) w of
        (w1, Inl err) \<Rightarrow> (w1, Failed (Wrapf ''RPC status failed: %v'' [] err))
      | (w1, Inr status) \<Rightarrow> (w1, NodeShown status))))"

definition showBalance :: "'w cli_lib \<Rightarrow> string list \<Rightarrow> 'w cli \<Rightarrow> 'w cli \<times> cli_output" where
  "showBalance B args w =
     (if length args < 3 \<or> length args > 4 then (w, Usage ''sudharma-wallet balance <wallet-file> [rpc-url]'')
      else (case openWallet B (args ! 2) w of
        (w1, Inl err) \<Rightarrow> (w1, Failed (Wrapf ''Failed to open wallet: %v'' [] err))
      | (w1, Inr wal) \<Rightarrow>
      (case rpcContext B (optionalRPCURL args 3) of
        Inl err \<Rightarrow> (w1, Failed err)
      | Inr client \<Rightarrow>
      (case onRemote (ClientAccount client (Address wal)) w1 of
        (w2, Inl err) \<Rightarrow> (w2, Failed (Wrapf ''Balance query failed: %v'' [] err))
      | (w2, Inr account) \<Rightarrow> (w2, BalanceShown account)))))"

definition walletExpectedNetwork :: "string \<Rightarrow> network_id result" where
  "walletExpectedNetwork env =
     (let raw = TrimSpace env in ParseNetwork (if raw = '''' then ''public-testnet'' else raw))"

definition signingNetworkFromStatus :: "string \<Rightarrow> statusResponse option \<Rightarrow> network_id result" where
  "signingNetworkFromStatus env statusp =
     (case statusp of
       None \<Rightarrow> Inl (Errorf ''RPC status is unavailable'' [])
     | Some status \<Rightarrow>
     (case walletExpectedNetwork env of
       Inl err \<Rightarrow> Inl (Wrapf ''wallet network selection is invalid: %w'' [] err)
     | Inr expected \<Rightarrow>
     (let raw = TrimSpace (stNetworkID status) in
      if raw = '''' then Inl (Errorf ''RPC status is missing canonical network_id'' [])
      else (case ParseNetwork raw of
        Inl err \<Rightarrow> Inl (Wrapf ''RPC reported unsupported network_id: %w'' [] err)
      | Inr net \<Rightarrow>
        if net \<noteq> expected then Inl (Errorf ''RPC network mismatch: expected %q, got %q'' [expected, net]) else Inr net))))"

definition sendTransaction :: "'w cli_lib \<Rightarrow> string list \<Rightarrow> 'w cli \<Rightarrow> 'w cli \<times> cli_output" where
  "sendTransaction B args w =
     (if length args < 5 \<or> length args > 6
      then (w, Usage ''sudharma-wallet send <wallet-file> <to-address> <amount-sudh> [rpc-url]'')
      else (let to = TrimSpace (args ! 3) in
      if to = '''' \<or> length to > 256 then (w, NotSent ''Invalid receiver address.'')
      else (case parseCoinAmount (args ! 4) of
        Inl err \<Rightarrow> (w, Failed (Wrapf ''Invalid amount: %v'' [] err))
      | Inr amount \<Rightarrow>
      if amount = 0 then (w, NotSent ''Invalid amount:'')
      else (case openWallet B (args ! 2) w of
        (w1, Inl err) \<Rightarrow> (w1, Failed (Wrapf ''Failed to open wallet: %v'' [] err))
      | (w1, Inr wal) \<Rightarrow>
      if Address wal = to then (w1, NotSent ''Refusing to send to the same wallet address.'')
      else (case rpcContext B (optionalRPCURL args 5) of
        Inl err \<Rightarrow> (w1, Failed err)
      | Inr client \<Rightarrow>
      (case onRemote (ClientStatus client) w1 of
        (w2, Inl err) \<Rightarrow> (w2, Failed (Wrapf ''Failed to query RPC network identity: %v'' [] err))
      | (w2, Inr status) \<Rightarrow>
      (case signingNetworkFromStatus (cbNetworkEnv B) (Some status) of
        Inl err \<Rightarrow> (w2, Failed (Wrapf ''Refusing to sign transaction: %v'' [] err))
      | Inr net \<Rightarrow>
      (case onRemote (ClientAccount client (Address wal)) w2 of
        (w3, Inl err) \<Rightarrow> (w3, Failed (Wrapf ''Failed to query sender account: %v'' [] err))
      | (w3, Inr account) \<Rightarrow>
      (let fee = CalculateFee amount in
      if amount > MaxUint64 - fee then (w3, NotSent ''Amount is too large.'')
      else (let need = amount + fee in
      if acBalance account < need
      then (w3, Failed (Errorf ''Insufficient balance: have %s, need %s including fee.'' [formatCoinAmount (acBalance account), formatCoinAmount need]))
      else (case SignForNetwork (cbCrypto B) (cbSeed B) (NewTransaction (cbCrypto B) (Address wal) to amount [acNextNonce account]) (Some wal) net of
        (_, Inl err) \<Rightarrow> (w3, Failed (Wrapf ''Failed to sign transaction: %v'' [] err))
      | (tx, Inr _) \<Rightarrow>
      (case onRemote (ClientSubmitTransaction client (Some tx)) w3 of
        (w4, Inl err) \<Rightarrow> (w4, Failed (Wrapf ''Transaction submission failed: %v'' [] err))
      | (w4, Inr result) \<Rightarrow> (w4, Sent result amount fee (txNonce tx))))))))))))))"

definition showTransactionStatus :: "'w cli_lib \<Rightarrow> string list \<Rightarrow> 'w cli \<Rightarrow> 'w cli \<times> cli_output" where
  "showTransactionStatus B args w =
     (if length args < 3 \<or> length args > 4 then (w, Usage ''sudharma-wallet tx <transaction-id> [rpc-url]'')
      else (case rpcContext B (optionalRPCURL args 3) of
        Inl err \<Rightarrow> (w, Failed err)
      | Inr client \<Rightarrow>
      (case onRemote (ClientTransaction client (TrimSpace (args ! 2))) w of
        (w1, Inl err) \<Rightarrow> (w1, Failed (Wrapf ''Transaction query failed: %v'' [] err))
      | (w1, Inr status) \<Rightarrow> (w1, TransactionShown status))))"

definition walletMain :: "'w cli_lib \<Rightarrow> string list \<Rightarrow> 'w cli \<Rightarrow> 'w cli \<times> cli_output" where
  "walletMain B args w =
     (if length args < 2 then (w, Usage '''')
      else if args ! 1 = ''create'' then createWallet B args w
      else if args ! 1 = ''address'' then showAddress B args w
      else if args ! 1 = ''verify'' then verifyWallet B args w
      else if args ! 1 = ''backup'' then backupWallet B args w
      else if args ! 1 = ''passwd'' then changeWalletPassword B args w
      else if args ! 1 = ''node'' then showNodeStatus B args w
      else if args ! 1 = ''balance'' then showBalance B args w
      else if args ! 1 = ''send'' then sendTransaction B args w
      else if args ! 1 = ''tx'' then showTransactionStatus B args w
      else (w, Usage (args ! 1)))"

section \<open>Amounts are exact\<close>

text \<open>The number that a string of digits denotes.\<close>

definition digits_value :: "string \<Rightarrow> nat" where
  "digits_value s = foldl (\<lambda>a c. 10 * a + digitValue c) 0 s"

lemma digits_value_simps [simp]: "digits_value [] = 0" "digits_value (s @ [c]) = 10 * digits_value s + digitValue c"
  by (simp_all add: digits_value_def)

lemma digits_value_zeros: "digits_value (s @ replicate k (CHR ''0'')) = digits_value s * 10 ^ k"
proof (induction k)
  case (Suc k)
  have "digits_value (s @ replicate (Suc k) (CHR ''0'')) = digits_value ((s @ replicate k (CHR ''0'')) @ [CHR ''0''])"
    by (simp add: replicate_append_same)
  then show ?case using Suc by (simp only: digits_value_simps) (simp add: digitValue_def)
qed simp

lemma digits_value_bound: "list_all isDigit s \<Longrightarrow> digits_value s < 10 ^ length s"
proof (induction s rule: rev_induct)
  case (snoc c s)
  then have "digitValue c < 10" by (auto simp: isDigit_def digitValue_def)
  then show ?case using snoc by simp
qed simp

lemma digits_value_leading: "digits_value (replicate k (CHR ''0'') @ s) = digits_value s"
  by (induction s rule: rev_induct) (use digits_value_zeros [of "[]" k] in \<open>simp_all flip: append_assoc\<close>)

lemma ParseUint64_value:
  "list_all isDigit s \<Longrightarrow> s \<noteq> [] \<Longrightarrow> ParseUint64 s = (if digits_value s < 2 ^ 64 then Some (of_nat (digits_value s)) else None)"
  by (simp add: ParseUint64_def digits_value_def Let_def)

lemma coinDecimalPlaces_eq [simp]: "coinDecimalPlaces = 8"
  by (simp add: coinDecimalPlaces_def go_const decimalPlaces.simps)

lemma decimal_text:
  assumes "list_all isDigit whole" "list_all isDigit fraction"
  shows "TrimSpace (whole @ CHR ''.'' # fraction) = whole @ CHR ''.'' # fraction"
    "Split (whole @ CHR ''.'' # fraction) (CHR ''.'') = [whole, fraction]"
    "\<not> HasPrefix (whole @ CHR ''.'' # fraction) ''-''" "\<not> HasPrefix (whole @ CHR ''.'' # fraction) ''+''"
proof -
  have d: "isDigit c \<Longrightarrow> printable c \<and> c \<noteq> CHR ''.'' \<and> c \<noteq> CHR ''-'' \<and> c \<noteq> CHR ''+''" for c
    by (auto simp: isDigit_def printable_def)
  have "\<forall>c \<in> set (whole @ CHR ''.'' # fraction). printable c"
    using assms d by (auto simp: list_all_iff printable_def)
  then show "TrimSpace (whole @ CHR ''.'' # fraction) = whole @ CHR ''.'' # fraction" by (intro TrimSpace_plain) (auto simp: hd_append)
  have "CHR ''.'' \<notin> set whole" "CHR ''.'' \<notin> set fraction" using assms d by (auto simp: list_all_iff)
  then show "Split (whole @ CHR ''.'' # fraction) (CHR ''.'') = [whole, fraction]" by (simp add: Split_append Split_plain)
  show "\<not> HasPrefix (whole @ CHR ''.'' # fraction) ''-''" "\<not> HasPrefix (whole @ CHR ''.'' # fraction) ''+''"
    using assms(1) d by (cases whole; auto simp: HasPrefix_def)+
qed

lemma parseCoinAmount_text:
  assumes "list_all isDigit whole" "list_all isDigit fraction" "length fraction \<le> 8"
  defines "v \<equiv> digits_value whole * 10 ^ 8 + digits_value fraction * 10 ^ (8 - length fraction)"
  shows "parseCoinAmount (whole @ CHR ''.'' # fraction) = Inr a \<longleftrightarrow> unat a = v"
proof -
  let ?w = "if whole = '''' then ''0'' else whole" and ?f = "fraction @ replicate (8 - length fraction) (CHR ''0'')"
  define f where "f = digits_value fraction * 10 ^ (8 - length fraction)"
  have "isDigit (CHR ''0'')" by (simp add: isDigit_def)
  then have digits: "list_all isDigit ?w" "?w \<noteq> ''''" "list_all isDigit ?f" "?f \<noteq> ''''"
    using assms(1,2,3) by (auto simp: list_all_iff)
  have val: "digits_value ?w = digits_value whole" "digits_value ?f = f"
    using digits_value_zeros [of "[]" 1] by (simp_all add: digits_value_zeros f_def)
  have f: "f < 10 ^ 8" using digits_value_bound [OF digits(3)] assms(3) unfolding val(2) by simp
  have frac: "ParseUint64 ?f = Some (of_nat f)" unfolding ParseUint64_value [OF digits(3,4)] val(2) using f by simp
  have nf: "unat (of_nat f :: u64) = f" using f by (simp add: unat_of_nat)
  show ?thesis
  proof (cases "digits_value whole < 2 ^ 64")
    case False
    then have "ParseUint64 ?w = None" unfolding ParseUint64_value [OF digits(1,2)] val(1) by simp
    moreover have "unat a \<noteq> v" using False unsigned_less [of a, where 'a = nat] by (simp add: v_def)
    ultimately show ?thesis by (simp add: parseCoinAmount_def decimal_text [OF assms(1,2)] Let_def split del: if_split cong: if_cong option.case_cong)
  next
    case True
    define h :: u64 where "h = of_nat (digits_value whole)"
    have h: "unat h = digits_value whole" using True by (simp add: h_def unat_of_nat)
    have whole: "ParseUint64 ?w = Some h" unfolding ParseUint64_value [OF digits(1,2)] val(1) h_def using True by simp
    have big: "h > MaxUint64 div CoinDecimals \<longleftrightarrow> digits_value whole * 10 ^ 8 \<ge> 2 ^ 64"
      unfolding h [symmetric] by (simp add: go_const word_less_nat_alt unat_div) (rule iffI; linarith)
    have eq: "parseCoinAmount (whole @ CHR ''.'' # fraction)
      = (if h > MaxUint64 div CoinDecimals then Inl (Errorf ''amount is too large'' [])
         else if h * CoinDecimals > MaxUint64 - of_nat f then Inl (Errorf ''amount is too large'' []) else Inr (h * CoinDecimals + of_nat f))"
      using whole frac digits(4) assms(3) by (simp add: parseCoinAmount_def decimal_text [OF assms(1,2)] Let_def split del: if_split cong: if_cong option.case_cong)
    show ?thesis
    proof (cases "digits_value whole * 10 ^ 8 \<ge> 2 ^ 64")
      case True
      then show ?thesis using big unsigned_less [of a, where 'a = nat] unfolding eq by (simp add: v_def)
    next
      case False
      then have hc: "unat (h * CoinDecimals) = digits_value whole * 10 ^ 8"
        using h by (simp add: go_const unat_word_ariths)
      have "h * CoinDecimals > MaxUint64 - of_nat f \<longleftrightarrow> v \<ge> 2 ^ 64"
        unfolding overflow_guard_iff hc nf by (simp only: v_def f_def)
      moreover have "unat (h * CoinDecimals + of_nat f) = v" if "v < 2 ^ 64"
        using that hc nf by (simp add: unat_word_ariths v_def f_def [symmetric])
      moreover have "unat a < 2 ^ 64" using unsigned_less [of a, where 'a = nat] by simp
      ultimately show ?thesis using big False unfolding eq by (auto simp flip: word_unat_eq_iff)
    qed
  qed
qed

text \<open>A number below a power of ten is padded to that many digits.\<close>

lemma dec_length:
  assumes "n < 10 ^ k" "0 < k"
  shows "length (dec n) \<le> k"
  using assms
proof (induction n arbitrary: k rule: dec.induct)
  case (1 n)
  show ?case
  proof (cases "n < 10")
    case True
    then show ?thesis using 1(3) by (simp add: dec.simps)
  next
    case False
    then obtain j where j: "k = Suc j" "0 < j" using 1(2,3) by (cases k; cases "k - 1") auto
    then have "length (dec (n div 10)) \<le> j" using 1(1) [of j] False 1(2) by simp
    then show ?thesis using False j by (subst dec.simps) simp
  qed
qed

lemma padded_digits:
  assumes "n < 10 ^ k" "0 < k"
  shows "list_all isDigit (padded k n)" "digits_value (padded k n) = n" "length (padded k n) = k"
  using dec_digits [of n] dec_length [OF assms]
  by (auto simp: padded_def digits_value_leading list_all_iff isDigit_def) (simp_all add: digits_value_def)

lemma formatCoinAmount_text:
  "formatCoinAmount a = dec (unat (a div CoinDecimals)) @ CHR ''.'' # padded 8 (unat (a mod CoinDecimals))"
  by (simp add: formatCoinAmount_def Let_def)

lemma parse_format: "parseCoinAmount (formatCoinAmount a) = Inr a"
proof -
  have m: "unat (a mod CoinDecimals) < 10 ^ 8" by (simp add: go_const unat_mod)
  note p = padded_digits [OF m]
  have "digits_value (dec n) = n" "list_all isDigit (dec n)" for n using dec_digits [of n] by (simp_all add: digits_value_def)
  then show ?thesis
    unfolding formatCoinAmount_text using p
    by (subst parseCoinAmount_text) (simp_all add: go_const unat_div unat_mod)
qed



end
