(* ===== verification/WalletNode.thy ===== *)
theory WalletNode
  imports WalletCli
begin

text \<open>
  The wallet program and a node together. The locale \<open>remote_node\<close> is what the wallet relies on: three
  calls of the client, answered from an account table and an admission function. It is interpreted on
  the client of \<open>rpc/client.go\<close> over the model of the server, so its lemmas about \<open>sendTransaction\<close> hold
  for a wallet that talks to that server.
\<close>

section \<open>The server as a transport\<close>

definition serverTransport :: "p2p_env \<Rightarrow> rpc_lib \<Rightarrow> i64 \<Rightarrow> rpc_server transport" where
  "serverTransport E L now url r s = (case middleware E L now s r of (s', rsp) \<Rightarrow> (s', Inr rsp))"

text \<open>JSON on both sides: a value that one side writes is read by the other, unless the body is too large.\<close>

definition json_agrees :: "rpc_lib \<Rightarrow> client_codec \<Rightarrow> bool" where
  "json_agrees L codec \<longleftrightarrow> (\<forall>v. decodeStatus codec (StatusBody v) = Inr v) \<and> (\<forall>v. decodeAccount codec (AccountBody v) = Inr v)
     \<and> (\<forall>v. decodeSubmit codec (SubmitBody v) = Inr v)
     \<and> (\<forall>tx bs limit. encodeTx codec tx = Inr bs \<longrightarrow>
          decodeTx L limit (Inr bs) = (if int (length bs) \<le> limit then BodyDecoded tx True else BodyTooLarge))"

definition serving :: "rpc_lib \<Rightarrow> client_codec \<Rightarrow> rpc_server \<Rightarrow> bool" where
  "serving L codec s \<longleftrightarrow> json_agrees L codec \<and> int (srvInFlight s) < rcMaxConcurrent (srvConfig s)
     \<and> nodeChain (srvNode s) \<noteq> None \<and> nodeState (srvNode s) \<noteq> None"

definition serverAccount :: "rpc_server \<Rightarrow> string \<Rightarrow> accountResponse result" where
  "serverAccount s a =
     (case nodeState (srvNode s) of
        None \<Rightarrow> Inl (RPCError 500 (ErrorBody (Errorf ''internal server error'' [])))
      | Some st \<Rightarrow> (case ExpectedNonce st a of
          Inl err \<Rightarrow> Inl (RPCError 409 (ErrorBody err))
        | Inr n \<Rightarrow> Inr \<lparr>acAddress = a, acBalance = Balance st a, acConfirmedNonce = AccountNonce st a, acNextNonce = n\<rparr>))"

definition serverSubmit :: "p2p_env \<Rightarrow> client_codec \<Rightarrow> rpc_server \<Rightarrow> transaction \<Rightarrow> rpc_server \<times> submitResponse result" where
  "serverSubmit E codec s tx =
     (case encodeTx codec tx of
        Inl err \<Rightarrow> (s, Inl err)
      | Inr bs \<Rightarrow>
        if int (length bs) > rcMaxBodyBytes (srvConfig s)
        then (s, Inl (RPCError 413 (ErrorBody (Errorf ''request body exceeds maximum size'' []))))
        else (case SubmitTransaction E (srvNode s) (Some tx) of
            (n, relayed, Inl err) \<Rightarrow> (s\<lparr>srvNode := n\<rparr>, Inl (RPCError 422 (ErrorBody err)))
          | (n, relayed, Inr _) \<Rightarrow> (s\<lparr>srvNode := n\<rparr>, Inr \<lparr>suTransactionID = txID tx, suRelayedPeers = relayed, suAccepted = True\<rparr>)))"

section \<open>Routing of the client's requests\<close>

lemma hex_plain:
  assumes "ValidateAddress a = Inr ()"
  shows "length a = 40" "TrimSpace a = a" "a \<noteq> ''''" "CHR ''/'' \<notin> set a" "a \<noteq> ''.''" "a \<noteq> ''..''"
proof -
  have h: "length a = 40" "list_all is_lower_hex a" using assms by (auto simp: ValidateAddress_def go_const split: if_splits)
  have "printable c" "c \<noteq> CHR ''/''" if "is_lower_hex c" for c using that by (auto simp: is_lower_hex_def printable_def Let_def)
  moreover have "a \<noteq> ''''" using h(1) by auto
  ultimately show "TrimSpace a = a" "a \<noteq> ''''" "CHR ''/'' \<notin> set a" using h(2) by (auto intro!: TrimSpace_plain simp: list_all_iff)
  show "length a = 40" "a \<noteq> ''.''" "a \<noteq> ''..''" using h(1) by auto
qed

lemma route_fixed:
  "reqMethod r \<noteq> ''CONNECT'' \<Longrightarrow> reqPath r = ''/v1/status'' \<Longrightarrow> muxRoute (routes m) r = Inr (Some EStatus)"
  "reqMethod r \<noteq> ''CONNECT'' \<Longrightarrow> reqPath r = ''/v1/transactions'' \<Longrightarrow> muxRoute (routes m) r = Inr (Some ETransactions)"
proof -
  have "cleanPath ''/v1/status'' = ''/v1/status''" "cleanPath ''/v1/transactions'' = ''/v1/transactions''" by code_simp+
  then show "reqMethod r \<noteq> ''CONNECT'' \<Longrightarrow> reqPath r = ''/v1/status'' \<Longrightarrow> muxRoute (routes m) r = Inr (Some EStatus)"
    "reqMethod r \<noteq> ''CONNECT'' \<Longrightarrow> reqPath r = ''/v1/transactions'' \<Longrightarrow> muxRoute (routes m) r = Inr (Some ETransactions)"
    by (simp_all add: muxRoute_def routes_def)
qed

lemma route_account:
  assumes "ValidateAddress a = Inr ()" "reqMethod r \<noteq> ''CONNECT''" "reqPath r = ''/v1/accounts/'' @ a"
  shows "muxRoute (routes m) r = Inr (Some EAccount)"
proof -
  note a = hex_plain [OF assms(1)]
  have "split_slash (''/v1/accounts'' @ CHR ''/'' # a) = ['''', ''v1'', ''accounts'', a]"
    unfolding split_slash_append split_slash_plain [OF a(4)] by simp
  then have "Clean (''/v1/accounts/'' @ a) = ''/v1/accounts/'' @ a" using a by (simp add: Clean_def Let_def)
  moreover have "last (''/v1/accounts/'' @ a) \<noteq> CHR ''/''" using a(3,4) by (metis last_appendR last_in_set)
  ultimately have clean: "cleanPath (''/v1/accounts/'' @ a) = ''/v1/accounts/'' @ a" "last (''/v1/accounts/'' @ a) \<noteq> CHR ''/''"
    by (simp_all add: cleanPath_def)
  then show ?thesis using a(3) assms(2,3) by (simp add: muxRoute_def routes_def HasPrefix_def)
qed

lemma SignForNetwork_fields:
  "SignForNetwork C k t wp net = (tx, q) \<Longrightarrow> txFrom tx = txFrom t \<and> txNonce tx = txNonce t"
  by (auto simp: SignForNetwork_def Let_def split: option.splits if_splits sum.splits)

section \<open>What the wallet relies on\<close>

locale remote_node =
  fixes tr :: "'w transport" and codec :: client_codec and ready :: "'w \<Rightarrow> bool"
    and netOf :: "'w \<Rightarrow> network_id"
    and accountOf :: "'w \<Rightarrow> string \<Rightarrow> accountResponse result"
    and submit :: "'w \<Rightarrow> transaction \<Rightarrow> 'w \<times> submitResponse result"
  assumes status: "ready w \<Longrightarrow> \<exists>st. ClientStatus \<lparr>clBaseURL = u, clTransport = tr, clCodec = codec\<rparr> w = (w, Inr st) \<and> stNetworkID st = netOf w"
    and account: "ready w \<Longrightarrow> ValidateAddress a = Inr () \<Longrightarrow>
      ClientAccount \<lparr>clBaseURL = u, clTransport = tr, clCodec = codec\<rparr> a w = (w, accountOf w a)"
    and submission: "ready w \<Longrightarrow> ClientSubmitTransaction \<lparr>clBaseURL = u, clTransport = tr, clCodec = codec\<rparr> (Some tx) w = submit w tx"
begin

lemma context_client:
  assumes "rpcContext B url = Inr cl" "cbTransport B = tr" "cbCodec B = codec"
  shows "\<exists>u. cl = \<lparr>clBaseURL = u, clTransport = tr, clCodec = codec\<rparr>"
  using assms by (auto simp: rpcContext_def NewClient_def split: option.splits if_splits)

text \<open>A send with a wallet that opens, a valid amount and a matching network comes down to the account query,
  the balance check, the signature and the submission.\<close>

lemma send_succeeds:
  assumes "cbTransport B = tr" "cbCodec B = codec" "length args = 5 \<or> length args = 6"
    and "rpcContext B (optionalRPCURL args 5) = Inr cl" "openWallet B (args ! 2) w = (w1, Inr wal)"
    and "TrimSpace (args ! 3) = to" "to \<noteq> ''''" "length to \<le> 256" "Address wal \<noteq> to" "ValidateAddress (Address wal) = Inr ()"
    and "parseCoinAmount (args ! 4) = Inr amount" "amount \<noteq> 0" "ready (cliRemote w1)"
    and "walletExpectedNetwork (cbNetworkEnv B) = Inr (netOf (cliRemote w1))" "TrimSpace (netOf (cliRemote w1)) = netOf (cliRemote w1)"
    and "netOf (cliRemote w1) \<noteq> ''''" "ParseNetwork (netOf (cliRemote w1)) = Inr (netOf (cliRemote w1))"
    and "accountOf (cliRemote w1) (Address wal) = Inr acc" "unat amount + unat (CalculateFee amount) \<le> unat (acBalance acc)"
    and "SignForNetwork (cbCrypto B) (cbSeed B) (NewTransaction (cbCrypto B) (Address wal) to amount [acNextNonce acc]) (Some wal)
        (netOf (cliRemote w1)) = (tx, Inr ())"
    and "submit (cliRemote w1) tx = (r', Inr res)"
  shows "sendTransaction B args w = (w1\<lparr>cliRemote := r'\<rparr>, Sent res amount (CalculateFee amount) (txNonce tx))"
proof -
  obtain u where cl: "cl = \<lparr>clBaseURL = u, clTransport = tr, clCodec = codec\<rparr>" using context_client [OF assms(4,1,2)] by blast
  obtain st where st: "ClientStatus cl (cliRemote w1) = (cliRemote w1, Inr st)" "stNetworkID st = netOf (cliRemote w1)"
    using status [OF assms(13), of u] by (auto simp: cl)
  have acc: "ClientAccount cl (Address wal) (cliRemote w1) = (cliRemote w1, Inr acc)"
    using account [OF assms(13,10), of u] assms(18) by (simp add: cl)
  have sub: "ClientSubmitTransaction cl (Some tx) (cliRemote w1) = (r', Inr res)" using submission [OF assms(13), of u] assms(21) by (simp add: cl)
  have net: "signingNetworkFromStatus (cbNetworkEnv B) (Some st) = Inr (netOf (cliRemote w1))"
    using assms(14-17) st(2) by (simp add: signingNetworkFromStatus_def Let_def)
  have le: "unat amount + unat (CalculateFee amount) < 2 ^ 64" using assms(19) unat_less_64 [of "acBalance acc"] by simp
  then have fits: "\<not> amount > MaxUint64 - CalculateFee amount" unfolding overflow_guard_iff by simp
  have "unat (amount + CalculateFee amount) = unat amount + unat (CalculateFee amount)" using le by (simp add: unat_word_ariths)
  then have bal: "\<not> acBalance acc < amount + CalculateFee amount" using assms(19) by (simp add: word_less_nat_alt)
  have upd: "w1\<lparr>cliRemote := cliRemote w1\<rparr> = w1" by simp
  have len: "\<not> (length args < 5 \<or> length args > 6)" "\<not> (to = '''' \<or> length to > 256)" using assms(3,7,8) by auto
  show ?thesis
    unfolding sendTransaction_def Let_def assms(6)
    by (simp only: len assms(5,11,12,9,4,20) st acc sub net fits bal upd if_False if_True sum.case prod.case onRemote_def simp_thms)
qed

text \<open>Whatever happens in a send, a submission is refused if the remote side refuses every transaction of the
  wallet's address with the nonce that its account query reports.\<close>

lemma send_refused:
  assumes "cbTransport B = tr" "cbCodec B = codec" "openWallet B (args ! 2) w = (w1, Inr wal)"
    and "ready (cliRemote w1)" "ValidateAddress (Address wal) = Inr ()"
    and refused: "\<And>acc tx. accountOf (cliRemote w1) (Address wal) = Inr acc \<Longrightarrow> txFrom tx = Address wal \<Longrightarrow> txNonce tx = acNextNonce acc
        \<Longrightarrow> \<exists>e. submit (cliRemote w1) tx = (cliRemote w1, Inl e)"
    and run: "sendTransaction B args w = (w', out)"
  shows "(w' = w \<or> w' = w1) \<and> (\<forall>res a f n. out \<noteq> Sent res a f n)"
proof (cases "rpcContext B (optionalRPCURL args 5)")
  case (Inl e)
  then show ?thesis using run assms(3) by (auto simp: sendTransaction_def Let_def split: if_splits sum.splits)
next
  case (Inr cl)
  obtain u where cl: "cl = \<lparr>clBaseURL = u, clTransport = tr, clCodec = codec\<rparr>" using context_client [OF Inr assms(1,2)] by blast
  obtain st where st: "ClientStatus cl (cliRemote w1) = (cliRemote w1, Inr st)" using status [OF assms(4), of u] by (auto simp: cl)
  have acc: "ClientAccount cl (Address wal) (cliRemote w1) = (cliRemote w1, accountOf (cliRemote w1) (Address wal))"
    using account [OF assms(4,5), of u] by (simp add: cl)
  have sub: "ClientSubmitTransaction cl (Some tx) (cliRemote w1) = submit (cliRemote w1) tx" for tx
    using submission [OF assms(4), of u] by (simp add: cl)
  have upd: "w1\<lparr>cliRemote := cliRemote w1\<rparr> = w1" by simp
  have no: "\<exists>e. submit (cliRemote w1) tx = (cliRemote w1, Inl e)"
    if "accountOf (cliRemote w1) (Address wal) = Inr a"
      "SignForNetwork C k (NewTransaction C (Address wal) to amount [acNextNonce a]) (Some wal) net = (tx, q)" for a C k to amount net tx q
    by (rule refused [OF that(1)]) (use SignForNetwork_fields [OF that(2)] in simp_all)
  show ?thesis
    using run unfolding sendTransaction_def Let_def onRemote_def
    by (auto simp: assms(3) Inr st acc sub dest: no split: if_splits sum.splits prod.splits)
qed

end

section \<open>The server provides it\<close>

lemma serving_handles:
  assumes "serving L codec s" "muxRoute (routes (rcEnableMetrics (srvConfig s))) r = Inr (Some e)"
  shows "serverTransport E L now u r s = (case dispatch E L now e s r of (s', rsp) \<Rightarrow> (s', Inr rsp))"
  using assms by (simp add: serverTransport_def middleware_def Handler_def serving_def)

lemma server_status:
  assumes "serving L codec s" "nodeChain (srvNode s) = Some c"
  shows "\<exists>st. ClientStatus \<lparr>clBaseURL = u, clTransport = serverTransport E L now, clCodec = codec\<rparr> s = (s, Inr st) \<and> stNetworkID st = network c"
proof -
  from assms obtain st where "nodeState (srvNode s) = Some st" "json_agrees L codec" by (auto simp: serving_def)
  then show ?thesis using assms(2)
    by (auto simp: ClientStatus_def doJSON_def serving_handles [OF assms(1) route_fixed(1)] dispatch_def handleStatus_def onlyGET_def
        withChain_def withState_def writeJSON_def json_agrees_def Network_def split: prod.split)
qed

lemma server_account:
  assumes "serving L codec s" "ValidateAddress a = Inr ()"
  shows "ClientAccount \<lparr>clBaseURL = u, clTransport = serverTransport E L now, clCodec = codec\<rparr> a s = (s, serverAccount s a)"
proof -
  note a = hex_plain [OF assms(2)]
  from assms obtain st where st: "nodeState (srvNode s) = Some st" "json_agrees L codec" by (auto simp: serving_def)
  define P where "P = ''/v1/accounts/'' @ a"
  have route: "muxRoute (routes m) \<lparr>reqMethod = ''GET'', reqPath = P, reqQuery = q, reqContentType = t, reqBody = b\<rparr>
      = Inr (Some EAccount)" for m q t b by (rule route_account [OF assms(2)]) (simp_all add: P_def)
  have "TrimPrefix P ''/v1/accounts/'' = a" by (simp add: TrimPrefix_def P_def)
  then show ?thesis using a st unfolding ClientAccount_def P_def [symmetric]
    by (simp add: doJSON_def serving_handles [OF assms(1) route] dispatch_def handleAccount_def onlyGET_def
        withState_def writeJSON_def writeError_def json_agrees_def serverAccount_def Let_def split: sum.split)
qed

lemma server_submission:
  assumes "serving L codec s"
  shows "ClientSubmitTransaction \<lparr>clBaseURL = u, clTransport = serverTransport E L now, clCodec = codec\<rparr> (Some tx) s = serverSubmit E codec s tx"
proof -
  have route: "muxRoute (routes m) \<lparr>reqMethod = ''POST'', reqPath = ''/v1/transactions'', reqQuery = q, reqContentType = t, reqBody = b\<rparr>
      = Inr (Some ETransactions)" for m q t b by (rule route_fixed) simp_all
  have "HasPrefix (ToLower ''application/json'') ''application/json''" by code_simp
  then show ?thesis using assms
    by (auto simp: ClientSubmitTransaction_def doJSON_def serving_handles [OF assms route] dispatch_def handleTransactions_def
        writeJSON_def writeError_def json_agrees_def serving_def serverSubmit_def not_le split: sum.splits prod.splits)
qed

interpretation srv: remote_node "serverTransport E L now" codec "serving L codec" "\<lambda>s. network (the (nodeChain (srvNode s)))"
    serverAccount "serverSubmit E codec"
  for E L now codec
proof
  fix w u assume w: "serving L codec w"
  then obtain c where "nodeChain (srvNode w) = Some c" by (auto simp: serving_def)
  from server_status [OF w this] this
  show "\<exists>st. ClientStatus \<lparr>clBaseURL = u, clTransport = serverTransport E L now, clCodec = codec\<rparr> w = (w, Inr st)
      \<and> stNetworkID st = network (the (nodeChain (srvNode w)))" by simp
qed (auto intro: server_account server_submission)

section \<open>Admission by the node\<close>

lemma SubmitTransaction_first:
  assumes "nodeState n = Some st" "supply_inv st" "admissible (envCrypto E) st tx (ActiveNetwork n)" "visits_all (envNonces E)"
    and "noncesOf (nodeMempool n) (txFrom tx) = []" "map_of (mpTransactions (nodeMempool n)) (txID tx) = None"
    and "length (mpTransactions (nodeMempool n)) < MaxMempoolTransactions"
    and "totalEstimatedBytes (nodeMempool n) + EstimatedSerializedSize (Some tx) \<le> MaxMempoolBytes"
    and "NewTransactionMessage (envCodec E) (Some tx) = Inr data"
  shows "\<exists>n' k. SubmitTransaction E n (Some tx) = (n', k, Inr ()) \<and> nodeChain n' = nodeChain n \<and> nodeState n' = Some st
    \<and> map_of (mpTransactions (nodeMempool n')) (txID tx) = Some tx"
proof -
  note adm = assms(3) [unfolded admissible_def]
  have vb: "ValidateResourceBounds (Some tx) = Inr ()" using adm by blast
  have lock: "checkAdmissionLocked (nodeMempool n) tx = Inr ()"
    using assms(5-8) bounds_ok(1) [OF vb] by (simp add: checkAdmissionLocked_def go_const)
  have "mset (envNonces E []) = mset []" using assms(4) by (simp only: visits_all_def)
  then have "envNonces E [] = []" by simp
  then have own: "TransactionsForSender (envNonces E) (nodeMempool n) (txFrom tx) = []"
    by (simp add: TransactionsForSender_def assms(5) List.map_filter_def)
  obtain t where "ApplyTransactionFor (envCrypto E) (Some st) (Some tx) (ActiveNetwork n) = (Some t, Inr (MiningFee (txAmount tx)))"
    using ApplyTransactionFor_complete [OF assms(3)] assms(2) unat_less_64 [of "issuedSupply st"]
    by (auto simp: backed_def)
  then have "ValidateMempoolTransactionFor (envCrypto E) (Some st) (map Some []) (Some tx) (ActiveNetwork n) = Inr ()"
    using vb bounds_ok(1) [OF vb] by (simp add: ValidateMempoolTransactionFor_def)
  moreover obtain m where m: "AddTransaction (Some (nodeMempool n)) (Some tx) = (Some m, Inr ())"
    "map_of (mpTransactions m) (txID tx) = Some tx"
    using vb lock by (auto simp: AddTransaction_def Let_def update_conv)
  ultimately have admit: "admitTransaction E n (Some tx) = (n\<lparr>nodeMempool := m\<rparr>, Inr ())"
    using assms(1) adm vb lock own by (simp add: admitTransaction_def admitVerifiedTransaction_def CheckAdmission_def)
  obtain n2 k q where rel: "relayTransaction E (n\<lparr>nodeMempool := m\<rparr>) (Some tx) '''' = (n2, k, q)" by (metis prod_cases3)
  then have "q = Inr ()" using adm assms(9) by (auto simp: relayTransaction_def ActiveNetwork_def split: prod.splits)
  moreover have "core n2 = core (n\<lparr>nodeMempool := m\<rparr>)" using relay_net(1) [OF rel] by (simp add: net_step_def)
  ultimately show ?thesis using admit rel m(2) assms(1) by (auto simp: SubmitTransaction_def core_def)
qed

lemma SubmitTransaction_nonce_taken:
  assumes "mempool_inv (nodeMempool n)" "map_of (mpTransactions (nodeMempool n)) i = Some old" "txFrom old = txFrom tx" "txNonce old = txNonce tx"
  shows "\<exists>e. SubmitTransaction E n (Some tx) = (n, 0, Inl e)"
proof -
  have "map_of (noncesOf (nodeMempool n) (txFrom tx)) (txNonce tx) \<noteq> None"
    using assms by (auto simp: mempool_inv_def index_inv_def)
  then have "\<not> is_ok (CheckAdmission (Some (nodeMempool n)) (Some tx))"
    by (auto simp: CheckAdmission_def checkAdmissionLocked_def split: sum.splits)
  then show ?thesis by (auto simp: SubmitTransaction_def admitTransaction_def split: sum.splits)
qed

text \<open>A network that the wallet can select is its own canonical name.\<close>

lemma expected_network:
  assumes "walletExpectedNetwork env = Inr net"
  shows "TrimSpace net = net" "net \<noteq> ''''" "ParseNetwork net = Inr net"
proof -
  have "net = NetworkPublicTestnet"
    using assms by (auto simp: walletExpectedNetwork_def ParseNetwork_def MainnetLaunchAuthorized_def Let_def split: if_splits)
  moreover have "TrimSpace NetworkPublicTestnet = NetworkPublicTestnet" by code_simp
  ultimately show "TrimSpace net = net" "net \<noteq> ''''" "ParseNetwork net = Inr net"
    by (simp_all add: ParseNetwork_def NetworkPublicTestnet_def)
qed

section \<open>Properties\<close>

text \<open>C10: a payment reaches the node. If the wallet file opens, the text denotes at least the minimal amount, the
  receiver is another valid address, the node runs on the network the wallet selects and has no pending
  transaction of the wallet, the balance it reports covers amount and fee, and its pool has room, then the
  send command reports success, and the node's pool holds exactly the transaction the user asked for, with
  the next nonce and a signature that verifies; its chain and its account state are untouched.\<close>

theorem wallet_send_reaches_pool:
  assumes B: "cbTransport B = serverTransport E L now" "cbCodec B = codec" "cbCrypto B = envCrypto E"
      "rpcContext B DefaultClientURL = Inr cl"
    and wal: "openWallet B p w = (w1, Inr wal)" "hash_size_ok (envCrypto E)" "wallet_ok (envCrypto E) wal"
    and cmd: "ValidateAddress to = Inr ()" "to \<noteq> Address wal" "parseCoinAmount amountText = Inr amount" "MinTransferAmount \<le> amount"
    and srv: "serving L codec (cliRemote w1)" "n = srvNode (cliRemote w1)" "nodeChain n = Some c" "nodeState n = Some st" "supply_inv st"
      "walletExpectedNetwork (cbNetworkEnv B) = Inr (network c)"
    and pay: "ExpectedNonce st (Address wal) = Inr nonce" "unat amount + unat (CalculateFee amount) \<le> unat (Balance st (Address wal))"
    and sign: "SignForNetwork (envCrypto E) (cbSeed B) (NewTransaction (envCrypto E) (Address wal) to amount [nonce]) (Some wal) (network c)
        = (tx, Inr ())"
    and wire: "encodeTx codec tx = Inr bs" "int (length bs) \<le> rcMaxBodyBytes (srvConfig (cliRemote w1))"
      "NewTransactionMessage (envCodec E) (Some tx) = Inr data"
    and pool: "visits_all (envNonces E)" "noncesOf (nodeMempool n) (Address wal) = []" "map_of (mpTransactions (nodeMempool n)) (txID tx) = None"
      "\<not> IsTransactionProcessed st (txID tx)" "length (mpTransactions (nodeMempool n)) < MaxMempoolTransactions"
      "totalEstimatedBytes (nodeMempool n) + EstimatedSerializedSize (Some tx) \<le> MaxMempoolBytes"
  shows "\<exists>w' res n'. walletMain B [prog, ''send'', p, to, amountText] w = (w', Sent res amount (CalculateFee amount) nonce)
    \<and> suTransactionID res = txID tx \<and> srvNode (cliRemote w') = n' \<and> map_of (mpTransactions (nodeMempool n')) (txID tx) = Some tx
    \<and> txFrom tx = Address wal \<and> txTo tx = to \<and> txAmount tx = amount \<and> txNonce tx = nonce \<and> VerifyForNetwork (envCrypto E) tx (network c)
    \<and> nodeChain n' = Some c \<and> nodeState n' = Some st"
proof -
  note net = expected_network [OF srv(6)]
  note v = SignForNetwork_verifies [OF wal(2,3) net(2) sign]
  have f: "txFrom tx = Address wal" "txTo tx = to" "txAmount tx = amount" "txNonce tx = nonce" "txFee tx = CalculateFee amount"
    by (subst v(2), simp)+
  have addr: "ValidateAddress (Address wal) = Inr ()"
    using AddressFromPublicKey_valid [OF wal(2), of "PublicKey wal"] wal(3) by (simp add: wallet_ok_def ValidateAddress_def go_const)
  have vb: "ValidateResourceBounds (Some tx) = Inr ()" by (rule signed_transfer_bounds [OF wal(2,3) cmd(1,4) v(2,3)])
  have an: "ActiveNetwork n = network c" by (simp add: ActiveNetwork_def srv(3) Network_def)
  have dev: "DevelopmentAddress st \<noteq> ''''" using srv(5) by (simp add: backed_def DevelopmentAddress_def DevelopmentTreasuryAddress_def)
  have adm: "admissible (envCrypto E) st tx (ActiveNetwork n)" using vb v(1) pay pool(4) dev f by (simp add: admissible_def an)
  obtain n' k where n': "SubmitTransaction E n (Some tx) = (n', k, Inr ())" "nodeChain n' = nodeChain n" "nodeState n' = Some st"
    "map_of (mpTransactions (nodeMempool n')) (txID tx) = Some tx"
    using SubmitTransaction_first [OF srv(4,5) adm pool(1) _ pool(3,5,6) wire(3)] pool(2) f(1) by auto
  let ?res = "\<lparr>suTransactionID = txID tx, suRelayedPeers = k, suAccepted = True\<rparr>"
  have sub: "serverSubmit E codec (cliRemote w1) tx = ((cliRemote w1)\<lparr>srvNode := n'\<rparr>, Inr ?res)"
    using wire n'(1) srv(2) by (simp add: serverSubmit_def)
  have acc: "serverAccount (cliRemote w1) (Address wal) = Inr \<lparr>acAddress = Address wal, acBalance = Balance st (Address wal),
      acConfirmedNonce = AccountNonce st (Address wal), acNextNonce = nonce\<rparr>"
    using srv(2,4) pay(1) by (simp add: serverAccount_def)
  have amt: "amount \<noteq> 0" using cmd(4) by (auto simp: go_const)
  note to = hex_plain [OF cmd(1)]
  have "sendTransaction B [prog, ''send'', p, to, amountText] w
      = (w1\<lparr>cliRemote := (cliRemote w1)\<lparr>srvNode := n'\<rparr>\<rparr>, Sent ?res amount (CalculateFee amount) (txNonce tx))"
    by (rule srv.send_succeeds [OF B(1,2) _ _ _ _ to(3) _ _ addr _ amt srv(1) _ _ _ _ acc _ _ sub])
      (use B wal cmd srv to net pay sign in \<open>simp_all add: optionalRPCURL_def\<close>)
  then show ?thesis using n' f v(1) srv(3) by (simp add: walletMain_def)
qed

text \<open>C35: while a payment is pending, a second one cannot be sent. If the node's pool holds a transaction of the
  wallet's address with the nonce that follows the confirmed one, as it does after a send, then whatever
  the receiver and the amount, the send command does not report success and the node is unchanged: the
  account endpoint reports the nonce that follows the confirmed one, which the pool refuses as taken,
  although the pool accepts up to 64 transactions of one sender.\<close>

theorem wallet_second_send_refused:
  assumes "cbTransport B = serverTransport E L now" "cbCodec B = codec" "openWallet B p w = (w1, Inr wal)"
    and "ValidateAddress (Address wal) = Inr ()" "serving L codec (cliRemote w1)" "n = srvNode (cliRemote w1)" "nodeState n = Some st"
    and "mempool_inv (nodeMempool n)" "GetTransaction (nodeMempool n) i = Some old" "txFrom old = Address wal"
    and "ExpectedNonce st (Address wal) = Inr (txNonce old)"
    and "walletMain B [prog, ''send'', p, to, amountText] w = (w', out)"
  shows "(w' = w \<or> w' = w1) \<and> (\<forall>res a f k. out \<noteq> Sent res a f k)"
proof (rule srv.send_refused [OF assms(1,2) _ assms(5,4)])
  show "openWallet B ([prog, ''send'', p, to, amountText] ! 2) w = (w1, Inr wal)" using assms(3) by simp
  show "sendTransaction B [prog, ''send'', p, to, amountText] w = (w', out)" using assms(12) by (simp add: walletMain_def)
  fix acc and tx :: transaction assume a: "serverAccount (cliRemote w1) (Address wal) = Inr acc" "txFrom tx = Address wal" "txNonce tx = acNextNonce acc"
  then have "acNextNonce acc = txNonce old" using assms(6,7,11) by (auto simp: serverAccount_def)
  then obtain e where "SubmitTransaction E n (Some tx) = (n, 0, Inl e)"
    using SubmitTransaction_nonce_taken [OF assms(8), of i old tx] assms(9,10) a by (auto simp: GetTransaction_def)
  then show "\<exists>e. serverSubmit E codec (cliRemote w1) tx = (cliRemote w1, Inl e)"
    using assms(6) by (auto simp: serverSubmit_def split: sum.splits)
qed

section \<open>A small wallet and a small server\<close>

definition small_client_codec :: client_codec where
  "small_client_codec = \<lparr>encodeTx = (\<lambda>tx. if tx = small_transfer 5000 1 then Inr [1] else Inl (Errorf ''unsupported'' [])),
     decodeStatus = (\<lambda>b. case b of StatusBody v \<Rightarrow> Inr v | _ \<Rightarrow> Inl (Errorf ''EOF'' [])),
     decodeAccount = (\<lambda>b. case b of AccountBody v \<Rightarrow> Inr v | _ \<Rightarrow> Inl (Errorf ''EOF'' [])),
     decodeSubmit = (\<lambda>b. case b of SubmitBody v \<Rightarrow> Inr v | _ \<Rightarrow> Inl (Errorf ''EOF'' [])),
     decodeTransaction = (\<lambda>b. case b of TransactionBody v \<Rightarrow> Inr v | _ \<Rightarrow> Inl (Errorf ''EOF'' []))\<rparr>"

definition small_pay_lib :: rpc_lib where
  "small_pay_lib = small_lib\<lparr>decodeTx := (\<lambda>limit _. if 1 \<le> limit then BodyDecoded (small_transfer 5000 1) True else BodyTooLarge)\<rparr>"

definition small_cli_lib :: "rpc_server cli_lib" where
  "small_cli_lib = \<lparr>cbCrypto = small_crypto, cbSealing = small_sealing, cbJSON = WalletStorage.small_codec (small_wallet 7),
     cbParseURL = (\<lambda>text. Some (''http'', ''127.0.0.1:18545'', text)), cbCodec = small_client_codec,
     cbTransport = serverTransport small_env small_pay_lib 0, cbRandom = small_random, cbSeed = 0, cbTemps = [], cbOriginals = [],
     cbNetworkEnv = ''''\<rparr>"

definition small_pay_server :: "mempool \<Rightarrow> rpc_server" where
  "small_pay_server m = small_server\<lparr>srvNode := small_node\<lparr>nodeState := Some small_state, nodeMempool := m\<rparr>\<rparr>"

definition small_cli :: "mempool \<Rightarrow> rpc_server cli" where
  "small_cli m = \<lparr>cliDisk = reboot [''w'' \<mapsto> [1]], cliInput = [Inr ''twelve chars''], cliRemote = small_pay_server m\<rparr>"

lemma small_serving: "serving small_pay_lib small_client_codec (small_pay_server m)"
  by (auto simp: serving_def json_agrees_def small_client_codec_def small_pay_lib_def small_pay_server_def small_server_def small_node_def
      RPCDefaultConfig_def go_const split: if_splits)

lemma small_opens:
  "\<exists>w1. openWallet small_cli_lib ''w'' (small_cli m) = (w1, Inr (small_wallet 7)) \<and> cliRemote w1 = small_pay_server m"
proof -
  have "TrimSpace ''twelve chars'' = ''twelve chars''" by (rule TrimSpace_plain) (simp_all add: printable_def)
  moreover have "decryptWallet small_crypto small_sealing (WalletStorage.small_codec (small_wallet 7)) ''twelve chars'' [1] = Inr (small_wallet 7)"
    using file_laws_reopens [OF small_file_laws small_wallet_of_key, of "''twelve chars''"]
    by (simp add: reopens_def small_random_def small_sealing_def WalletStorage.small_codec_def small_json_def)
  ultimately show ?thesis
    by (simp add: openWallet_def readPassword_def small_cli_def small_cli_lib_def LoadEncrypted_def ReadFile_reboot)
qed

lemma small_pay_fields [simp]:
  "nodeState (srvNode (small_pay_server m)) = Some small_state" "nodeMempool (srvNode (small_pay_server m)) = m"
  "nodeChain (srvNode (small_pay_server m)) = Some small_genesis_chain" "srvConfig (small_pay_server m) = RPCDefaultConfig"
  by (simp_all add: small_pay_server_def small_server_def small_node_def)

lemma small_cli_fields [simp]:
  "cbTransport small_cli_lib = serverTransport small_env small_pay_lib 0" "cbCodec small_cli_lib = small_client_codec"
  "cbCrypto small_cli_lib = small_crypto" "cbSeed small_cli_lib = 0" "cbNetworkEnv small_cli_lib = ''''"
  by (simp_all add: small_cli_lib_def)

lemma small_client: "\<exists>cl. rpcContext small_cli_lib DefaultClientURL = Inr cl"
  by (simp add: rpcContext_def NewClient_def small_cli_lib_def)

theorem wallet_send_reaches_pool_witness:
  "\<exists>w' res n'. walletMain small_cli_lib [''sudharma-wallet'', ''send'', ''w'', Address (small_wallet 8), formatCoinAmount 5000]
      (small_cli NewMempool) = (w', Sent res 5000 (CalculateFee 5000) 1)
    \<and> srvNode (cliRemote w') = n' \<and> map_of (mpTransactions (nodeMempool n')) (txID (small_transfer 5000 1)) = Some (small_transfer 5000 1)"
proof -
  obtain w1 where w1: "openWallet small_cli_lib ''w'' (small_cli NewMempool) = (w1, Inr (small_wallet 7))" "cliRemote w1 = small_pay_server NewMempool"
    using small_opens by blast
  obtain cl where cl: "rpcContext small_cli_lib DefaultClientURL = Inr cl" using small_client by blast
  have sign: "SignForNetwork small_crypto 0 (NewTransaction small_crypto (Address (small_wallet 7)) (Address (small_wallet 8)) 5000 [1])
      (Some (small_wallet 7)) NetworkPublicTestnet = (small_transfer 5000 1, Inr ())" by (rule small_transfer_ok)
  have adm: "admissible small_crypto small_state (small_transfer 5000 1) NetworkPublicTestnet" by (rule small_transfer_admissible)
  have other: "Address (small_wallet 8) \<noteq> Address (small_wallet 7)" by code_simp
  have net: "network small_genesis_chain = NetworkPublicTestnet" by (simp add: small_genesis_chain_def)
  have msg: "\<exists>data. NewTransactionMessage (envCodec small_env) (Some (small_transfer 5000 1)) = Inr data"
    by (simp add: NewTransactionMessage_def small_env_def P2PMessages.small_codec_def encodeMessage_def)
  then obtain data where data: "NewTransactionMessage (envCodec small_env) (Some (small_transfer 5000 1)) = Inr data" by blast
  have pick: "walletExpectedNetwork '''' = Inr NetworkPublicTestnet" "encodeTx small_client_codec (small_transfer 5000 1) = Inr [1]"
    "envCrypto small_env = small_crypto" "1 \<le> rcMaxBodyBytes RPCDefaultConfig" "mpTransactions NewMempool = []"
    "totalEstimatedBytes NewMempool = 0" "0 < MaxMempoolTransactions"
    by (simp_all add: walletExpectedNetwork_def ParseNetwork_def small_client_codec_def small_env_def RPCDefaultConfig_def NewMempool_def go_const)
  have size: "EstimatedSerializedSize (Some (small_transfer 5000 1)) \<le> MaxMempoolBytes"
    using bounds_ok [OF adm [unfolded admissible_def, THEN conjunct2, THEN conjunct1]] by (simp add: EstimatedSerializedSize_def go_const)
  have small: "ExpectedNonce small_state (Address (small_wallet 7)) = Inr 1" "visits_all (envNonces small_env)" "noncesOf NewMempool a = []" for a
    by (simp_all add: small_state_def ExpectedNonce_def small_env_def visits_all_def noncesOf_def NewMempool_def)
  have "\<exists>w' res n'. walletMain small_cli_lib [''sudharma-wallet'', ''send'', ''w'', Address (small_wallet 8), formatCoinAmount 5000]
      (small_cli NewMempool) = (w', Sent res 5000 (CalculateFee 5000) 1)
    \<and> suTransactionID res = txID (small_transfer 5000 1) \<and> srvNode (cliRemote w') = n'
    \<and> map_of (mpTransactions (nodeMempool n')) (txID (small_transfer 5000 1)) = Some (small_transfer 5000 1)
    \<and> txFrom (small_transfer 5000 1) = Address (small_wallet 7) \<and> txTo (small_transfer 5000 1) = Address (small_wallet 8)
    \<and> txAmount (small_transfer 5000 1) = 5000 \<and> txNonce (small_transfer 5000 1) = 1
    \<and> VerifyForNetwork (envCrypto small_env) (small_transfer 5000 1) (network small_genesis_chain)
    \<and> nodeChain n' = Some small_genesis_chain \<and> nodeState n' = Some small_state"
    by (rule wallet_send_reaches_pool [OF _ _ _ cl w1(1), where E = small_env and L = small_pay_lib and now = 0 and codec = small_client_codec
        and to = "Address (small_wallet 8)" and amount = 5000 and amountText = "formatCoinAmount 5000" and tx = "small_transfer 5000 1"
        and c = small_genesis_chain and st = small_state and nonce = 1 and bs = "[1]" and data = data and n = "srvNode (small_pay_server NewMempool)" and prog = "''sudharma-wallet''"])
      (use adm sign net other size small pick data in
        \<open>simp_all add: w1(2) hash_size_small small_address_valid small_state_backed small_serving small_wallet_ok parse_format admissible_def
          MinTransferAmount_def\<close>)
  then show ?thesis by blast
qed

theorem wallet_second_send_refused_witness:
  "\<forall>res a f k. snd (walletMain small_cli_lib [''sudharma-wallet'', ''send'', ''w'', Address (small_wallet 8), ''2'']
      (small_cli small_pool)) \<noteq> Sent res a f k"
proof -
  obtain w1 where w1: "openWallet small_cli_lib ''w'' (small_cli small_pool) = (w1, Inr (small_wallet 7))" "cliRemote w1 = small_pay_server small_pool"
    using small_opens by blast
  obtain w' out where run: "walletMain small_cli_lib [''sudharma-wallet'', ''send'', ''w'', Address (small_wallet 8), ''2''] (small_cli small_pool)
      = (w', out)" by fastforce
  have inv: "mempool_inv small_pool" by (rule pool_history_inv [OF small_pool_history])
  have "small_transfer 5000 1 \<in> set (pending small_pool)" by (simp add: small_pool_pending)
  then obtain i where i: "GetTransaction small_pool i = Some (small_transfer 5000 1)"
    using inv by (auto simp: pending_def mempool_inv_def GetTransaction_def)
  have nonce: "ExpectedNonce small_state (Address (small_wallet 7)) = Inr 1" by (simp add: small_state_def ExpectedNonce_def)
  have "(w' = small_cli small_pool \<or> w' = w1) \<and> (\<forall>res a f k. out \<noteq> Sent res a f k)"
    by (rule wallet_second_send_refused [OF _ _ w1(1) _ _ _ _ _ _ _ _ run, where E = small_env and L = small_pay_lib and now = 0
          and codec = small_client_codec and i = i and old = "small_transfer 5000 1" and st = small_state and n = "srvNode (small_pay_server small_pool)"])
      (use i inv nonce in \<open>simp_all add: w1(2) small_serving small_address_valid\<close>)
  with run show ?thesis by simp
qed

end
