(* ===== verification/Rpcd.thy ===== *)
theory Rpcd
  imports Daemon WalletNode
begin

text \<open>
  The server process, \<open>cmd/sudharma-rpcd\<close>, with its configuration from package \<open>operations\<close>: a node that serves
  the HTTP interface. The environment is the one of the node process; the flags, the JSON of the
  configuration file and the parser of durations are arguments. Logging is left out. The select of the
  main loop and the ticker are the caller that chooses between requests, network activity and saving.
\<close>

section \<open>Configuration\<close>

record OperationsConfig =
  ocNodeID :: string
  ocP2PAddress :: string
  ocRPCAddress :: string
  ocPeers :: "string list"
  ocDataDirectory :: string
  ocLogJSON :: bool
  ocMetrics :: bool
  ocPersistEvery :: string

definition OperationsDefaultConfig :: OperationsConfig where
  "OperationsDefaultConfig = \<lparr>ocNodeID = ''rpc-node'', ocP2PAddress = ''127.0.0.1:18444'', ocRPCAddress = ''127.0.0.1:18545'', ocPeers = [],
     ocDataDirectory = ''data-rpc-node'', ocLogJSON = False, ocMetrics = True, ocPersistEvery = ''30s''\<rparr>"

definition OperationsValidate :: "(string \<Rightarrow> i64 result) \<Rightarrow> OperationsConfig \<Rightarrow> unit result" where
  "OperationsValidate parse c =
     (if ocNodeID c = '''' then Inl (Errorf ''node_id is required'' [])
      else if ocP2PAddress c = '''' \<or> ocRPCAddress c = '''' then Inl (Errorf ''p2p_address and rpc_address are required'' [])
      else if ocDataDirectory c = '''' then Inl (Errorf ''data_directory is required'' [])
      else if ocPersistEvery c \<noteq> '''' then
        (case parse (ocPersistEvery c) of
           Inl _ \<Rightarrow> Inl (Errorf ''persist_every must be a duration of at least 1s'' [])
         | Inr d \<Rightarrow> if d < seconds 1 then Inl (Errorf ''persist_every must be a duration of at least 1s'' []) else Inr ())
      else Inr ())"

text \<open>Decoding writes the fields that the file has over the defaults.\<close>

definition OperationsLoadConfig ::
  "(string \<Rightarrow> i64 result) \<Rightarrow> (bytes \<Rightarrow> OperationsConfig \<Rightarrow> OperationsConfig result) \<Rightarrow> path \<Rightarrow> disk \<Rightarrow> (disk, OperationsConfig) outcome" where
  "OperationsLoadConfig parse unmarshal p d =
     (if p = '''' then (d, Inr OperationsDefaultConfig)
      else (case ReadFile p d of
        (d1, Inl err) \<Rightarrow> (d1, Inl (Wrapf ''read config: %w'' [] err))
      | (d1, Inr data) \<Rightarrow>
      (case unmarshal data OperationsDefaultConfig of
        Inl err \<Rightarrow> (d1, Inl (Wrapf ''decode config: %w'' [] err))
      | Inr cfg \<Rightarrow>
      (case OperationsValidate parse cfg of
        Inl err \<Rightarrow> (d1, Inl err)
      | Inr _ \<Rightarrow> (d1, Inr cfg)))))"

definition PersistenceInterval :: "(string \<Rightarrow> i64 result) \<Rightarrow> OperationsConfig \<Rightarrow> i64" where
  "PersistenceInterval parse c =
     (if ocPersistEvery c = '''' then 0 else (case parse (ocPersistEvery c) of Inl _ \<Rightarrow> 0 | Inr d \<Rightarrow> d))"

record rpcd_flags =
  rfConfig :: string
  rfNodeID :: string
  rfListen :: string
  rfRPC :: string
  rfPeer :: string
  rfDataDirectory :: string
  rfLogJSON :: bool
  rfNetwork :: string

definition applyFlags :: "rpcd_flags \<Rightarrow> OperationsConfig \<Rightarrow> OperationsConfig" where
  "applyFlags fl c = c\<lparr>
     ocNodeID := (if rfNodeID fl \<noteq> '''' then rfNodeID fl else ocNodeID c),
     ocP2PAddress := (if rfListen fl \<noteq> '''' then rfListen fl else ocP2PAddress c),
     ocRPCAddress := (if rfRPC fl \<noteq> '''' then rfRPC fl else ocRPCAddress c),
     ocDataDirectory := (if rfDataDirectory fl \<noteq> '''' then rfDataDirectory fl else ocDataDirectory c),
     ocPeers := ocPeers c @ (if rfPeer fl \<noteq> '''' then [rfPeer fl] else []),
     ocLogJSON := ocLogJSON c \<or> rfLogJSON fl\<rparr>"

text \<open>The network of the process, the paths of its data and the identity of its node.\<close>

definition rpcdEnvironment :: "daemon_env \<Rightarrow> network_id \<Rightarrow> OperationsConfig \<Rightarrow> daemon_env" where
  "rpcdEnvironment D net cfg = D\<lparr>
     dmEnv := (dmEnv D)\<lparr>envLocal := SetLocalNetworkID net (envLocal (dmEnv D))\<rparr>,
     dmDirectory := ocDataDirectory cfg, dmNodeID := ocNodeID cfg, dmListenAddress := ocP2PAddress cfg\<rparr>"

section \<open>Opening the data\<close>

definition loadOrCreateChain :: "daemon_env \<Rightarrow> network_id \<Rightarrow> disk \<Rightarrow> (disk, chain) outcome" where
  "loadOrCreateChain D net d =
     (case runtimeConsensusForNetwork D net of
       Inl err \<Rightarrow> (d, Inl err)
     | Inr (policy, verifier) \<Rightarrow>
     (case existing_only (chainPath D) d of
       (d1, Inr _) \<Rightarrow>
         LoadChainFromFileForWithConsensus (envCrypto (dmEnv D)) (dmClock D) (dmChainJSON D) (chainPath D) net policy (Some verifier) d1
     | (d1, Inl err) \<Rightarrow>
       if \<not> IsNotExist err then (d1, Inl err)
       else (case NewChainForWithConsensus (envCrypto (dmEnv D)) net policy (Some verifier) of
           Inl err1 \<Rightarrow> (d1, Inl err1)
         | Inr c \<Rightarrow>
           (case SaveChainToFile (dmChainJSON D) (Some c) (chainPath D) d1 of
              (d2, Inl err1) \<Rightarrow> (d2, Inl err1)
            | (d2, Inr _) \<Rightarrow> (d2, Inr c)))))"

fun replayHeights :: "crypto \<Rightarrow> chain \<Rightarrow> monetary_policy \<Rightarrow> state option \<Rightarrow> u64 list \<Rightarrow> state option result" where
  "replayHeights C c policy statep [] = Inr statep"
| "replayHeights C c policy statep (h # rest) =
     (case BlockByHeight c h of
        None \<Rightarrow> Inl (Errorf ''missing block %d during state rebuild'' [dec (unat h)])
      | Some b \<Rightarrow>
          if blkMinerAddress b = '''' then Inl (Errorf ''block %d has no miner address'' [dec (unat h)])
          else (case ProcessBlockFor C statep policy (Some b) (blkMinerAddress b) of
              (_, Inl err) \<Rightarrow> Inl (Wrapf ''replay block %d: %w'' [dec (unat h)] err)
            | (statep1, Inr _) \<Rightarrow> replayHeights C c policy statep1 rest))"

text \<open>A start on a policy that the constructor refuses is an error here; the networks have valid policies.\<close>

definition loadOrCreateState :: "daemon_env \<Rightarrow> monetary_policy \<Rightarrow> chain option \<Rightarrow> disk \<Rightarrow> (disk, state) outcome" where
  "loadOrCreateState D policy chainp d =
     (case chainp of
       None \<Rightarrow> (d, Inl (Errorf ''chain cannot be nil'' []))
     | Some c \<Rightarrow>
     (case MonetaryPolicy (Some c) of
       Inl err \<Rightarrow> (d, Inl err)
     | Inr chainPolicy \<Rightarrow>
     if chainPolicy \<noteq> policy then (d, Inl (Errorf ''chain/state policy mismatch: chain=%d requested=%d'' []))
     else (case existing_only (statePath D) d of
       (d1, Inr _) \<Rightarrow>
         (case LoadStateFromFile (dmStateJSON D) (statePath D) d1 of
            (d2, Inl err) \<Rightarrow> (d2, Inl err)
          | (d2, Inr s) \<Rightarrow> (case EnsureMonetaryPolicy s policy of Inl err \<Rightarrow> (d2, Inl err) | Inr _ \<Rightarrow> (d2, Inr s)))
     | (d1, Inl err) \<Rightarrow>
       if \<not> IsNotExist err then (d1, Inl err)
       else (case NewStateFor policy of
           Inl err1 \<Rightarrow> (d1, Inl err1)
         | Inr s0 \<Rightarrow>
         (case replayHeights (envCrypto (dmEnv D)) c policy (Some s0) (map of_nat [1..<Suc (unat (Height c))]) of
           Inl err1 \<Rightarrow> (d1, Inl err1)
         | Inr statep \<Rightarrow>
           (case SaveStateToFile (dmStateJSON D) statep (statePath D) d1 of
              (d2, Inl err1) \<Rightarrow> (d2, Inl err1)
            | (d2, Inr _) \<Rightarrow> (d2, (case statep of None \<Rightarrow> Inl NilState | Some s \<Rightarrow> Inr s))))))))"

definition saveData :: "daemon_env \<Rightarrow> p2p_node \<Rightarrow> disk \<Rightarrow> (disk, unit) outcome" where
  "saveData D n d =
     (case SaveChainToFile (dmChainJSON D) (nodeChain n) (chainPath D) d of
       (d1, Inl err) \<Rightarrow> (d1, Inl (Wrapf ''save chain: %w'' [] err))
     | (d1, Inr _) \<Rightarrow>
     (case SaveStateToFile (dmStateJSON D) (nodeState n) (statePath D) d1 of
       (d2, Inl err) \<Rightarrow> (d2, Inl (Wrapf ''save state: %w'' [] err))
     | (d2, Inr _) \<Rightarrow>
     (case SaveMempoolToFile (dmEnv D) (dmPoolJSON D) (Some n) (mempoolPath D) d2 of
       (d3, Inl err) \<Rightarrow> (d3, Inl (Wrapf ''save mempool: %w'' [] err))
     | (d3, Inr _) \<Rightarrow> (d3, Inr ()))))"

section \<open>The process\<close>

text \<open>Every configured peer is connected, its chain and its pool are synchronized; failures are only logged.\<close>

fun joinPeers :: "daemon_env \<Rightarrow> p2p_node \<Rightarrow> string list \<Rightarrow> p2p_node" where
  "joinPeers D n [] = n"
| "joinPeers D n (address # rest) =
     (case Connect (dmEnv D) n address of
       (n1, Inl _) \<Rightarrow> joinPeers D n1 rest
     | (n1, Inr peer) \<Rightarrow>
       (case SyncFromPeer (dmEnv D) (dmDuring D (infoNodeID peer)) (dmReplies D (infoNodeID peer)) n1 (infoNodeID peer) syncTimeout of
          (n2, Inl _) \<Rightarrow> joinPeers D n2 rest
        | (n2, Inr _) \<Rightarrow> joinPeers D (fst (SyncMempoolWithPeer (dmEnv D) id n2 (infoNodeID peer))) rest))"

definition openNode :: "daemon_env \<Rightarrow> chain \<Rightarrow> state \<Rightarrow> disk \<Rightarrow> (disk, p2p_node) outcome" where
  "openNode D c s d =
     (case Tip c of
       None \<Rightarrow> (d, Inl (Errorf ''chain tip is nil'' []))
     | Some tip \<Rightarrow>
     (case NewNode (dmNodeID D) (dmListenAddress D) (Height c) (Hash (envCrypto (dmEnv D)) tip) of
       Inl err \<Rightarrow> (d, Inl (Wrapf ''P2P node creation failed: %w'' [] err))
     | Inr n0 \<Rightarrow>
     (case SetChain (dmEnv D) n0 (Some c) of
       (n1, Inl err) \<Rightarrow> (d, Inl (Wrapf ''chain attachment failed: %w'' [] err))
     | (n1, Inr _) \<Rightarrow>
     (case SetState n1 (Some s) of
       (n2, Inl err) \<Rightarrow> (d, Inl (Wrapf ''state attachment failed: %w'' [] err))
     | (n2, Inr _) \<Rightarrow>
     (case LoadMempoolFromFile (dmEnv D) (dmPoolJSON D) n2 (mempoolPath D) d of
       (d1, n3, _, _, loaded) \<Rightarrow>
     (let n4 = (case loaded of Inl err \<Rightarrow> if IsNotExist err then n3 else n3\<lparr>nodeMempool := Clear (nodeMempool n3)\<rparr> | Inr _ \<Rightarrow> n3) in
     (case Start (dmListening D) n4 of
       (n5, Inl err) \<Rightarrow> (d1, Inl (Wrapf ''P2P startup failed: %w'' [] err))
     | (n5, Inr _) \<Rightarrow> (d1, Inr n5))))))))"

text \<open>The run up to the moment at which the HTTP server listens: the directory and the addresses of the environment
  are those of the configuration.\<close>

definition startRpcd ::
  "daemon_env \<Rightarrow> (string \<Rightarrow> i64 result) \<Rightarrow> (bytes \<Rightarrow> OperationsConfig \<Rightarrow> OperationsConfig result) \<Rightarrow> rpcd_flags \<Rightarrow> disk
     \<Rightarrow> (disk, rpc_server) outcome" where
  "startRpcd D0 parse unmarshal fl d =
     (case ParseNetwork (rfNetwork fl) of
       Inl err \<Rightarrow> (d, Inl err)
     | Inr net \<Rightarrow>
     (case MonetaryPolicyFor net of
       Inl err \<Rightarrow> (d, Inl err)
     | Inr policy \<Rightarrow>
     (case OperationsLoadConfig parse unmarshal (rfConfig fl) d of
       (d1, Inl err) \<Rightarrow> (d1, Inl err)
     | (d1, Inr cfg0) \<Rightarrow>
     (let cfg = applyFlags fl cfg0;
          D = rpcdEnvironment D0 net cfg in
     (case OperationsValidate parse cfg of
       Inl err \<Rightarrow> (d1, Inl err)
     | Inr _ \<Rightarrow>
     (case loadOrCreateChain D net d1 of
       (d2, Inl err) \<Rightarrow> (d2, Inl (Wrapf ''blockchain startup failed: %w'' [] err))
     | (d2, Inr c) \<Rightarrow>
     (case loadOrCreateState D policy (Some c) d2 of
       (d3, Inl err) \<Rightarrow> (d3, Inl (Wrapf ''state startup failed: %w'' [] err))
     | (d3, Inr s) \<Rightarrow>
     (case openNode D c s d3 of
       (d4, Inl err) \<Rightarrow> (d4, Inl err)
     | (d4, Inr n) \<Rightarrow>
     (let n1 = joinPeers D n (ocPeers cfg) in
     (case saveData D n1 d4 of
       (d5, Inl err) \<Rightarrow> (d5, Inl (Wrapf ''startup persistence failed: %w'' [] err))
     | (d5, Inr _) \<Rightarrow>
     (case NewServer (RPCDefaultConfig\<lparr>rcListenAddress := ocRPCAddress cfg, rcEnableMetrics := ocMetrics cfg\<rparr>) (Some n1) (nodeChain n1) (nodeState n1) of
       Inl err \<Rightarrow> (d5, Inl (Wrapf ''RPC server creation failed: %w'' [] err))
     | Inr server \<Rightarrow> (d5, Inr server))))))))))))"

definition shutdownRpcd :: "daemon_env \<Rightarrow> unit result \<Rightarrow> unit result \<Rightarrow> rpc_server \<Rightarrow> disk \<Rightarrow> (disk, rpc_server) outcome" where
  "shutdownRpcd D httpResult closeResult s d =
     (case httpResult of
       Inl err \<Rightarrow> (d, Inl (Wrapf ''RPC shutdown failed: %w'' [] err))
     | Inr _ \<Rightarrow>
     (case saveData D (srvNode s) d of
       (d1, Inl err) \<Rightarrow> (d1, Inl (Wrapf ''shutdown persistence failed: %w'' [] err))
     | (d1, Inr _) \<Rightarrow>
     (case Stop closeResult (srvNode s) of
       (n, Inl err) \<Rightarrow> (d1, Inl (Wrapf ''P2P shutdown failed: %w'' [] err))
     | (n, Inr _) \<Rightarrow> (d1, Inr (s\<lparr>srvNode := n\<rparr>)))))"

section \<open>Broken data\<close>

lemma LoadChain_reads:
  "LoadChainFromFileForWithConsensus C clk J p net policy V d = (d', r) \<Longrightarrow> evolves P d d' \<and> files d' = files d"
  by (auto simp: LoadChainFromFileForWithConsensus_def dest: ReadFile_files split: if_splits sum.splits prod.splits)

text \<open>No failure of a system call claims that a file does not exist.\<close>

definition honest :: "disk \<Rightarrow> bool" where
  "honest d \<longleftrightarrow> (\<forall>f. Some f \<in> set (faults d) \<longrightarrow> fault_error f \<noteq> ErrNotExist)"

lemma existing_honest:
  assumes "honest d" "files d p \<noteq> None" "existing_only p d = (d1, Inl err)"
  shows "\<not> IsNotExist err"
  using assms by (cases "faults d") (auto simp: existing_only_def call_only_def syscall_def IsNotExist_def honest_def split: option.splits)

lemma loadOrCreateChain_broken:
  assumes "honest d" "runtimeConsensusForNetwork D net = Inr (policy, V)" "files d (chainPath D) \<noteq> None"
    and "\<And>d2. files d2 = files d \<Longrightarrow> \<not> is_ok (snd (LoadChainFromFileForWithConsensus (envCrypto (dmEnv D)) (dmClock D) (dmChainJSON D)
        (chainPath D) net policy (Some V) d2))"
    and "loadOrCreateChain D net d = (d', r)"
  shows "\<not> is_ok r \<and> evolves P d d' \<and> files d' = files d"
proof -
  obtain d1 q where s: "existing_only (chainPath D) d = (d1, q)" by fastforce
  note e = existing_only_files [OF s]
  show ?thesis
  proof (cases q)
    case (Inl err)
    then have "\<not> IsNotExist err" using existing_honest [OF assms(1,3)] s by blast
    then show ?thesis using assms(2,5) s e Inl by (auto simp: loadOrCreateChain_def)
  next
    case (Inr u)
    then have l: "LoadChainFromFileForWithConsensus (envCrypto (dmEnv D)) (dmClock D) (dmChainJSON D) (chainPath D) net policy (Some V) d1 = (d', r)"
      using assms(2,5) s by (simp add: loadOrCreateChain_def)
    from LoadChain_reads [OF l, of P] e have "evolves P d d' \<and> files d' = files d" by (metis evolves_trans)
    moreover have "\<not> is_ok r" using assms(4) [of d1] e l by simp
    ultimately show ?thesis by blast
  qed
qed

text \<open>Reading the configuration writes nothing.\<close>

lemma LoadConfig_reads:
  "OperationsLoadConfig parse unmarshal p d = (d', r) \<Longrightarrow> evolves P d d' \<and> files d' = files d"
  by (auto simp: OperationsLoadConfig_def dest: ReadFile_files split: if_splits sum.splits prod.splits)

lemma LoadConfig_honest: "OperationsLoadConfig parse unmarshal p d = (d', r) \<Longrightarrow> honest d \<Longrightarrow> honest d'"
  by (cases "faults d") (auto simp: OperationsLoadConfig_def honest_def ReadFile_def syscall_def split: if_splits sum.splits prod.splits option.splits)

section \<open>Saved data\<close>

lemma existing_reboot: "existing_only p (reboot fs) = (reboot fs, if fs p = None then Inl ErrNotExist else Inr ())"
  by (simp add: existing_only_def call_only_def reboot_def syscall_def)

lemma saveData_all:
  assumes "saveData D n d = (d', Inr u)"
  shows "saveAll D n d = (d', Inr ())"
proof -
  obtain d1 q1 where s1: "SaveChainToFile (dmChainJSON D) (nodeChain n) (chainPath D) d = (d1, q1)" by fastforce
  with assms obtain u1 where q1: "q1 = Inr u1" by (cases q1) (auto simp: saveData_def)
  obtain d2 q2 where s2: "SaveStateToFile (dmStateJSON D) (nodeState n) (statePath D) d1 = (d2, q2)" by fastforce
  with assms s1 q1 obtain u2 where q2: "q2 = Inr u2" by (cases q2) (auto simp: saveData_def)
  obtain d3 q3 where s3: "SaveMempoolToFile (dmEnv D) (dmPoolJSON D) (Some n) (mempoolPath D) d2 = (d3, q3)" by fastforce
  with assms s1 q1 s2 q2 have q3: "q3 = Inr ()" "d3 = d'" by (cases q3; auto simp: saveData_def)+
  have "nodeChain n \<noteq> None" using s1 q1 by (cases "nodeChain n") (simp_all add: SaveChainToFile_def)
  moreover have "nodeState n \<noteq> None" using s2 q2 by (cases "nodeState n") (simp_all add: SaveStateToFile_def)
  ultimately show ?thesis using s1 q1 s2 q2 s3 q3 by (simp add: saveAll_def saveNodeData_def)
qed

lemma saveData_fault_free:
  assumes "faults d = []" "nodeChain n = Some c" "nodeState n = Some s"
    and "Marshal (dmChainJSON D) (map Some (blocks c)) = Inr b1" "Marshal (dmStateJSON D) (stateData s) = Inr b2"
      "Marshal (dmPoolJSON D) (mempoolData (dmEnv D) n) = Inr b3"
  shows "\<exists>d'. saveData D n d = (d', Inr ())"
proof -
  from SaveChainToFile_fault_free [OF assms(1) data_paths(2) assms(4)] obtain d1 where
    d1: "SaveChainToFile (dmChainJSON D) (Some c) (chainPath D) d = (d1, Inr ())" "faults d1 = []" by blast
  from SaveStateToFile_fault_free [OF this(2) data_paths(3) assms(5)] obtain d2 where
    d2: "SaveStateToFile (dmStateJSON D) (Some s) (statePath D) d1 = (d2, Inr ())" "faults d2 = []" by blast
  from SaveMempoolToFile_fault_free [OF this(2) data_paths(4) assms(6)] obtain d3 where
    "SaveMempoolToFile (dmEnv D) (dmPoolJSON D) (Some n) (mempoolPath D) d2 = (d3, Inr ())" by blast
  with d1(1) d2(1) assms(2,3) show ?thesis by (simp add: saveData_def)
qed

lemma load_saved:
  assumes "configured D c" "chain_ok (envCrypto (dmEnv D)) c" "clock_ok D c" "MonetaryPolicyFor (network c) = Inr policy"
    and "fs (chainPath D) = Some b1" "Unmarshal (dmChainJSON D) b1 = Inr (map Some (blocks c))"
    and "ValidateMonetaryPolicy (monetaryPolicy s) = Inr ()" "developmentAddress s = DevelopmentTreasuryAddress"
      "issuedSupply s \<le> MaxSupplyFor (monetaryPolicy s)" "monetaryPolicy s = policy"
    and "fs (statePath D) = Some b2" "Unmarshal (dmStateJSON D) b2 = Inr (stateData s)"
  shows "loadOrCreateChain D (network c) (reboot fs) = (reboot fs, Inr c)"
    "loadOrCreateState D policy (Some c) (reboot fs) = (reboot fs, Inr s)"
proof -
  have inv: "chain_inv (envCrypto (dmEnv D)) c" using assms(2) by (simp add: chain_ok_def)
  from configured_new [OF assms(1) inv assms(4)] obtain c0 where
    c0: "newChainFromGenesisForNetworkWithConsensus (envCrypto (dmEnv D)) (network c) (Some (hd (blocks c)))
      (powPolicy c) (proofVerifier c) = Inr c0" by blast
  have read: "ReadFile (chainPath D) (reboot fs) = (reboot fs, Inr b1)" "ReadFile (statePath D) (reboot fs) = (reboot fs, Inr b2)"
    using assms(5,11) by (simp_all add: ReadFile_reboot)
  from LoadChain_saved [OF inv data_paths(2) read(1) assms(6) c0 assms(3) [unfolded clock_ok_def]] assms(1,5)
  show "loadOrCreateChain D (network c) (reboot fs) = (reboot fs, Inr c)"
    by (auto simp: loadOrCreateChain_def configured_def existing_reboot)
  from LoadState_saved [OF data_paths(3) read(2) assms(12,7-9)] assms(4,10,11) MonetaryPolicyFor_valid [OF assms(4)]
  show "loadOrCreateState D policy (Some c) (reboot fs) = (reboot fs, Inr s)"
    by (simp add: loadOrCreateState_def MonetaryPolicy_def EnsureMonetaryPolicy_def existing_reboot)
qed

lemma openNode_saved:
  assumes "chain_ok (envCrypto (dmEnv D)) c" "BuildStateFromChain (envCrypto (dmEnv D)) (Some c) = Inr (Some s)"
    and "LocalNetworkID (envLocal (dmEnv D)) = network c" "MonetaryPolicyFor (network c) = Inr policy"
    and "dmNodeID D \<noteq> ''''" "dmListenAddress D \<noteq> ''''" "dmListening D = Inr l"
    and "mempool_inv p" "visits_all (envPool (dmEnv D))" "pool_replays (envCrypto (dmEnv D)) s (network c) p"
    and "fs (mempoolPath D) = Some data" "Unmarshal (dmPoolJSON D) data = Inr (mempoolData (dmEnv D) n)" "nodeMempool n = p"
  shows "\<exists>n'. openNode D c s (reboot fs) = (reboot fs, Inr n') \<and> nodeChain n' = Some c \<and> nodeState n' = Some s
    \<and> mset (pending (nodeMempool n')) = mset (pending p) \<and> node_inv (dmEnv D) n'"
proof -
  have ne: "blocks c \<noteq> []" using chain_ok_lookup(3) [OF assms(1)] .
  from attachNode_node [OF assms(5,6,3,4) replayed_state_loads(4) [OF assms(1,4,2)] ne] obtain n0 n1 n2 where
    n: "NewNode (dmNodeID D) (dmListenAddress D) (Height c) (Hash (envCrypto (dmEnv D)) (last (blocks c))) = Inr n0"
    "SetChain (dmEnv D) n0 (Some c) = (n1, Inr ())" "SetState n1 (Some s) = (n2, Inr ())"
    "nodeChain n2 = Some c" "nodeState n2 = Some s" "listener n2 = None" by metis
  have inv: "node_inv (dmEnv D) n2" by (rule start_inv [OF n(1-3) assms(1,2)])
  have active: "ActiveNetwork n2 = network c" using n(4) by (simp add: ActiveNetwork_def Network_def)
  have read: "ReadFile (mempoolPath D) (reboot fs) = (reboot fs, Inr data)" using assms(11) by (simp add: ReadFile_reboot)
  from LoadMempool_saved [OF assms(8,9) assms(10) [folded active] data_paths(4) n(5) read assms(12,13)] obtain q where
    q: "LoadMempoolFromFile (dmEnv D) (dmPoolJSON D) n2 (mempoolPath D) (reboot fs)
      = (reboot fs, n2\<lparr>nodeMempool := q\<rparr>, length (pending p), 0, Inr ())" "mset (pending q) = mset (pending p)" by blast
  have inv2: "node_inv (dmEnv D) (n2\<lparr>nodeMempool := q\<rparr>)" using LoadMempool_spec [OF inv q(1)] by blast
  obtain k a where l: "l = (k, a)" by fastforce
  have "Tip c = Some (last (blocks c))" using ne by (simp add: Tip_def)
  then have "openNode D c s (reboot fs) = (reboot fs, Inr (n2\<lparr>nodeMempool := q, listener := Some k, listenAddress := a\<rparr>))"
    using n q(1) assms(7) by (simp add: openNode_def Start_def l)
  then show ?thesis using n(4,5) q(2) listening_inv [where l = "Some k" and a = a, OF inv2] by simp
qed

section \<open>A small instance\<close>

definition small_rpcd :: "block option list \<Rightarrow> state \<Rightarrow> daemon_env" where
  "small_rpcd bs s = (small_daemon bs s)\<lparr>dmDirectory := ''data-rpc-node''\<rparr>"

definition small_rpcd_flags :: rpcd_flags where
  "small_rpcd_flags = \<lparr>rfConfig = '''', rfNodeID = ''me'', rfListen = ''me:1'', rfRPC = '''', rfPeer = '''', rfDataDirectory = '''',
     rfLogJSON = False, rfNetwork = ''''\<rparr>"

lemma small_rpcd_flags [simp]:
  "applyFlags small_rpcd_flags OperationsDefaultConfig = OperationsDefaultConfig\<lparr>ocNodeID := ''me'', ocP2PAddress := ''me:1''\<rparr>"
  "rfConfig small_rpcd_flags = ''''" "rfNetwork small_rpcd_flags = ''''"
  by (simp_all add: applyFlags_def small_rpcd_flags_def OperationsDefaultConfig_def)

lemma small_rpcd_environment:
  "small_rpcd bs s = rpcdEnvironment (small_daemon bs s) NetworkPublicTestnet (applyFlags small_rpcd_flags OperationsDefaultConfig)"
  by (simp add: rpcdEnvironment_def small_env_def SetLocalNetworkID_def localNetworkInit_def NetworkContextSet_def NetworkContextInit_def DefaultNetwork_def
      small_rpcd_def small_daemon_def OperationsDefaultConfig_def applyFlags_def small_rpcd_flags_def)

lemma small_rpcd_valid: "OperationsValidate (\<lambda>_. Inr (seconds 30)) (applyFlags small_rpcd_flags OperationsDefaultConfig) = Inr ()"
  by (simp add: OperationsValidate_def OperationsDefaultConfig_def applyFlags_def small_rpcd_flags_def seconds_def)

lemma small_rpcd_same_consensus: "runtimeConsensusForNetwork (small_rpcd bs s) = runtimeConsensusForNetwork (small_daemon bs s)"
  by (intro ext) (simp add: small_rpcd_def runtimeConsensusForNetwork_def cong: sum.case_cong)

lemma small_rpcd_consensus:
  "runtimeConsensusForNetwork (small_rpcd bs s) NetworkPublicTestnet
     = Inr (\<lparr>GPUV1ActivationHeight = GPUV1ActivationDisabled\<rparr>, khushiVerifier small_crypto id
         \<lparr>GPUV1ActivationHeight = GPUV1ActivationDisabled\<rparr> GPUV1ProductionCacheNodes)"
  unfolding small_rpcd_same_consensus by (rule small_runtime_consensus)

lemma small_rpcd_configured: "configured (small_rpcd bs s) small_runtime_chain"
  using small_runtime_configured [of bs s] unfolding configured_def small_rpcd_same_consensus by (simp add: small_rpcd_def)

section \<open>Properties\<close>

text \<open>C26: the server process never discards a chain it cannot read. If the chain file of the configured directory exists
  but does not load, for whatever reason (unreadable, undecodable, a block that fails validation), the start
  ends with an error, and at every moment, crashes and failing system calls included, every file of the disk
  is as it was.\<close>

theorem rpcd_keeps_unreadable_chain:
  assumes "startRpcd D0 parse unmarshal fl d = (d', r)" "honest d"
    and "OperationsLoadConfig parse unmarshal (rfConfig fl) d = (d1, Inr cfg0)" "cfg = applyFlags fl cfg0"
    and "D = rpcdEnvironment D0 net cfg"
    and "files d (chainPath D) \<noteq> None" "ParseNetwork (rfNetwork fl) = Inr net" "runtimeConsensusForNetwork D net = Inr (policy, V)"
    and "\<And>d2. files d2 = files d \<Longrightarrow> \<not> is_ok (snd (LoadChainFromFileForWithConsensus (envCrypto (dmEnv D)) (dmClock D) (dmChainJSON D)
        (chainPath D) net policy (Some V) d2))"
  shows "\<not> is_ok r \<and> (\<forall>fs\<in>set (crash_states d d'). fs = files d)"
proof -
  note c = LoadConfig_reads [OF assms(3), of "\<lambda>fs. fs = files d"]
  obtain d2 q where l: "loadOrCreateChain D net d1 = (d2, q)" by fastforce
  have "honest d1" by (rule LoadConfig_honest [OF assms(3,2)])
  from loadOrCreateChain_broken [OF this assms(8) _ _ l, where P = "\<lambda>fs. fs = files d"] c assms(6,9)
  have q: "\<not> is_ok q" "evolves (\<lambda>fs. fs = files d) d1 d2" by auto
  from q(1) obtain err where e: "q = Inl err" by (cases q) auto
  have "startRpcd D0 parse unmarshal fl d = (case MonetaryPolicyFor net of Inl e \<Rightarrow> (d, Inl e) | Inr _ \<Rightarrow>
      (case OperationsValidate parse cfg of Inl e \<Rightarrow> (d1, Inl e) | Inr _ \<Rightarrow> (d2, Inl (Wrapf ''blockchain startup failed: %w'' [] err))))"
    unfolding startRpcd_def Let_def assms(3,7) sum.case prod.case assms(4) [symmetric] assms(5) [symmetric] l e ..
  with assms(1) have "\<not> is_ok r" "d' = d \<or> d' = d1 \<or> d' = d2" by (auto split: sum.splits)
  moreover have "evolves (\<lambda>fs. fs = files d) d d2" using c q(2) by (blast intro: evolves_trans)
  ultimately have "\<not> is_ok r" "evolves (\<lambda>fs. fs = files d) d d'" using c by auto
  then show ?thesis using evolves_crash [of "\<lambda>fs. fs = files d" d d'] by blast
qed

theorem rpcd_keeps_unreadable_chain_witness:
  "let D = small_rpcd [] small_start_state; d = reboot [chainPath D \<mapsto> [9]];
       (d', r) = startRpcd (small_daemon [] small_start_state) (\<lambda>_. Inr (seconds 30)) (\<lambda>_ c. Inr c) small_rpcd_flags d in
     \<not> is_ok r \<and> (\<forall>fs\<in>set (crash_states d d'). fs = files d)"
proof -
  let ?D = "small_rpcd [] small_start_state"
  let ?d = "reboot [chainPath ?D \<mapsto> [9]]"
  let ?cfg = "applyFlags small_rpcd_flags OperationsDefaultConfig"
  obtain d' r where run: "startRpcd (small_daemon [] small_start_state) (\<lambda>_. Inr (seconds 30)) (\<lambda>_ c. Inr c) small_rpcd_flags ?d = (d', r)"
    by fastforce
  have "Unmarshal (dmChainJSON ?D) [9] = Inl JSONInvalid" by (simp add: small_rpcd_def small_daemon_def small_json_def)
  then have bad: "\<not> is_ok (snd (LoadChainFromFileForWithConsensus (envCrypto (dmEnv ?D)) (dmClock ?D) (dmChainJSON ?D)
      (chainPath ?D) NetworkPublicTestnet policy (Some V) d2))" if "files d2 = files ?d" for d2 policy V
    using that by (auto simp: LoadChainFromFileForWithConsensus_def ReadFile_def call_only_def syscall_def reboot_def
        split: option.splits sum.splits prod.splits list.splits)
  have "honest ?d" by (simp add: honest_def reboot_def)
  moreover have "OperationsLoadConfig (\<lambda>_. Inr (seconds 30)) (\<lambda>_ c. Inr c) (rfConfig small_rpcd_flags) ?d = (?d, Inr OperationsDefaultConfig)"
    by (simp add: OperationsLoadConfig_def)
  moreover have "ParseNetwork (rfNetwork small_rpcd_flags) = Inr NetworkPublicTestnet" "files ?d (chainPath ?D) \<noteq> None"
    by (simp_all add: ParseNetwork_def reboot_def)
  ultimately show ?thesis
    using rpcd_keeps_unreadable_chain [OF run _ _ refl small_rpcd_environment _ _ small_rpcd_consensus bad] run
    unfolding Let_def by simp
qed

text \<open>The server process comes back as it was. After a shutdown that reported no error, a start with the same
  flags and no peers on the same disk serves the same chain, the same account state and every pending
  transaction, and the node is consistent.\<close>

theorem rpcd_restart_restores:
  assumes "shutdownRpcd D http closed s d = (d', Inr s')" "node_inv (dmEnv D) (srvNode s)" "nodeChain (srvNode s) = Some c" "nodeState (srvNode s) = Some st"
    and "configured D c" "clock_ok D c" "dmListening D = Inr l"
    and "cfg = applyFlags fl OperationsDefaultConfig" "rfConfig fl = ''''" "rfNetwork fl = dmNetworkName D" "OperationsValidate parse cfg = Inr ()"
      "ocPeers cfg = []" "D = rpcdEnvironment D0 (network c) cfg"
    and "json_ok (dmChainJSON D) (map Some (blocks c))" "json_ok (dmStateJSON D) (stateData st)"
      "\<And>n. nodeMempool n = nodeMempool (srvNode s) \<Longrightarrow> json_ok (dmPoolJSON D) (mempoolData (dmEnv D) n)"
      "\<And>v. \<exists>bs. Marshal (dmPoolJSON D) v = Inr bs"
    and "visits_all (envPool (dmEnv D))" "pool_replays (envCrypto (dmEnv D)) st (network c) (nodeMempool (srvNode s))"
  shows "\<exists>d2 s2. startRpcd D0 parse unmarshal fl (reboot (files d')) = (d2, Inr s2)
    \<and> nodeChain (srvNode s2) = Some c \<and> nodeState (srvNode s2) = Some st
    \<and> mset (pending (nodeMempool (srvNode s2))) = mset (pending (nodeMempool (srvNode s))) \<and> node_inv (dmEnv D) (srvNode s2)"
proof -
  let ?fs = "files d'"
  from assms(2-4) have ok: "chain_ok (envCrypto (dmEnv D)) c" "BuildStateFromChain (envCrypto (dmEnv D)) (Some c) = Inr (Some st)"
    and pool: "mempool_inv (nodeMempool (srvNode s))" by (auto simp: node_inv_def ledger_ok_def node_ok_def)
  from ok(2) obtain policy where mp: "MonetaryPolicyFor (network c) = Inr policy" by (rule built_policy)
  from assms(1) have "saveData D (srvNode s) d = (d', Inr ())"
    by (auto simp: shutdownRpcd_def split: prod.splits sum.splits)
  note saved = saveAll_ok [OF saveData_all [OF this]]
  obtain b1 b2 b3 where b: "?fs (chainPath D) = Some b1" "Unmarshal (dmChainJSON D) b1 = Inr (map Some (blocks c))"
    "?fs (statePath D) = Some b2" "Unmarshal (dmStateJSON D) b2 = Inr (stateData st)"
    "?fs (mempoolPath D) = Some b3" "Unmarshal (dmPoolJSON D) b3 = Inr (mempoolData (dmEnv D) (srvNode s))"
    using assms(3,4,14,15) assms(16) [OF refl] saved by (auto simp: json_ok_def encodedChain_def encodedState_def encodedMempool_def)
  note st = replayed_state_loads [OF ok(1) mp ok(2)]
  note load = load_saved [where fs = ?fs, OF assms(5) ok(1) assms(6) mp b(1,2) st b(3,4)]
  have conf: "LocalNetworkID (envLocal (dmEnv D)) = network c" "ParseNetwork (rfNetwork fl) = Inr (network c)"
    using assms(5,10) by (simp_all add: configured_def)
  have ids: "dmNodeID D \<noteq> ''''" "dmListenAddress D \<noteq> ''''" using assms(11,13) by (auto simp: OperationsValidate_def rpcdEnvironment_def split: if_splits)
  obtain n where n: "openNode D c st (reboot ?fs) = (reboot ?fs, Inr n)" "nodeChain n = Some c" "nodeState n = Some st"
    "mset (pending (nodeMempool n)) = mset (pending (nodeMempool (srvNode s)))" "node_inv (dmEnv D) n"
    using openNode_saved [where fs = ?fs, OF ok conf(1) mp ids assms(7) pool assms(18,19) b(5,6) refl] by blast
  obtain b1' b2' b3' where m: "Marshal (dmChainJSON D) (map Some (blocks c)) = Inr b1'" "Marshal (dmStateJSON D) (stateData st) = Inr b2'"
    "Marshal (dmPoolJSON D) (mempoolData (dmEnv D) n) = Inr b3'" using assms(14,15,17) unfolding json_ok_def by blast
  have "faults (reboot ?fs) = []" by (simp add: reboot_def)
  from saveData_fault_free [OF this n(2,3) m] obtain d2 where d2: "saveData D n (reboot ?fs) = (d2, Inr ())" by blast
  have upd: "n\<lparr>nodeChain := Some c, nodeState := Some st\<rparr> = n" using n(2,3) by simp
  have cfg: "OperationsLoadConfig parse unmarshal (rfConfig fl) (reboot ?fs) = (reboot ?fs, Inr OperationsDefaultConfig)"
    by (simp add: OperationsLoadConfig_def assms(9))
  have "startRpcd D0 parse unmarshal fl (reboot ?fs) = (case NewServer (RPCDefaultConfig\<lparr>rcListenAddress := ocRPCAddress cfg,
      rcEnableMetrics := ocMetrics cfg\<rparr>) (Some n) (Some c) (Some st) of
      Inl err \<Rightarrow> (d2, Inl (Wrapf ''RPC server creation failed: %w'' [] err)) | Inr server \<Rightarrow> (d2, Inr server))"
    unfolding startRpcd_def Let_def conf(2) mp cfg sum.case prod.case assms(8) [symmetric] assms(11) assms(13) [symmetric] load n(1) assms(12)
      joinPeers.simps d2 n(2,3) ..
  then show ?thesis using n upd by (simp add: NewServer_def Let_def)
qed

theorem rpcd_restart_restores_witness:
  "\<exists>st s d d' s' d2 s2. let D = small_rpcd (map Some (blocks small_runtime_chain)) st in
     nodeState (srvNode s) = Some st \<and> shutdownRpcd D (Inr ()) (Inr ()) s d = (d', Inr s')
     \<and> startRpcd (small_daemon (map Some (blocks small_runtime_chain)) st) (\<lambda>_. Inr (seconds 30)) (\<lambda>_ c. Inr c) small_rpcd_flags
         (reboot (files d')) = (d2, Inr s2)
     \<and> nodeChain (srvNode s2) = Some small_runtime_chain \<and> nodeState (srvNode s2) = Some st"
proof -
  let ?c = small_runtime_chain
  obtain st where st: "BuildStateFromChain small_crypto (Some ?c) = Inr (Some st)" using small_runtime_state by blast
  let ?D = "small_rpcd (map Some (blocks ?c)) st"
  have D: "envCrypto (dmEnv ?D) = small_crypto" "dmListening ?D = Inr (1, ''me:1'')" "dmNodeID ?D \<noteq> ''''" "dmListenAddress ?D \<noteq> ''''"
    by (simp_all add: small_rpcd_def small_daemon_def small_env_def)
  note ok = small_runtime_ok [folded D(1)] and st' = st [folded D(1)]
  have conf: "configured ?D ?c" by (rule small_rpcd_configured)
  then have local: "LocalNetworkID (envLocal (dmEnv ?D)) = network ?c" by (simp add: configured_def)
  obtain policy where mp: "MonetaryPolicyFor (network ?c) = Inr policy" using built_policy [OF st] by blast
  have ne: "blocks ?c \<noteq> []" using chain_ok_lookup(3) [OF ok] .
  from attachNode_node [OF D(3,4) local mp replayed_state_loads(4) [OF ok mp st'] ne] obtain n0 n1 n2 where
    n: "NewNode (dmNodeID ?D) (dmListenAddress ?D) (Height ?c) (Hash (envCrypto (dmEnv ?D)) (last (blocks ?c))) = Inr n0"
    "SetChain (dmEnv ?D) n0 (Some ?c) = (n1, Inr ())" "SetState n1 (Some st) = (n2, Inr ())"
    "nodeChain n2 = Some ?c" "nodeState n2 = Some st" by metis
  have inv: "node_inv (dmEnv ?D) n2" by (rule start_inv [OF n(1-3) ok st'])
  have fresh: "nodeMempool n2 = NewMempool"
    using n(1-3) by (auto simp: NewNode_def SetChain_def SetState_def Let_def split: if_splits sum.splits option.splits)
  then have none: "pending (nodeMempool n2) = []" by (simp add: pending_def NewMempool_def)
  obtain s :: rpc_server where s: "srvNode s = n2" by (metis rpc_server.select_convs)
  have codecs: "Marshal (dmChainJSON ?D) (map Some (blocks ?c)) = Inr [1]" "Marshal (dmStateJSON ?D) (stateData st) = Inr [1]"
    "\<And>v. Marshal (dmPoolJSON ?D) v = Inr [1]" by (simp_all add: small_rpcd_def small_daemon_def small_json_def)
  have ff: "faults (reboot Map.empty) = []" by (simp add: reboot_def)
  from saveData_fault_free [OF ff n(4,5) codecs] obtain d' where "saveData ?D n2 (reboot Map.empty) = (d', Inr ())" by blast
  then obtain s' where down: "shutdownRpcd ?D (Inr ()) (Inr ()) s (reboot Map.empty) = (d', Inr s')"
    using s by (cases "listener n2") (simp_all add: shutdownRpcd_def Stop_def)
  have clk: "clock_ok ?D ?c"
    using small_times by (auto simp: clock_ok_def small_rpcd_def small_daemon_def small_runtime_chain_def)
  have js: "json_ok (dmChainJSON ?D) (map Some (blocks ?c))" "json_ok (dmStateJSON ?D) (stateData st)"
    by (simp_all add: small_rpcd_def small_daemon_def small_json_def json_ok_def)
  have pj: "json_ok (dmPoolJSON ?D) (mempoolData (dmEnv ?D) k)" if "nodeMempool k = nodeMempool (srvNode s)" for k
    using none s that by (simp add: small_rpcd_def small_daemon_def small_env_def small_json_def json_ok_def mempoolData_def
        AllTransactions_def pending_def MempoolFileVersion_def)
  have marshal: "\<exists>bs. Marshal (dmPoolJSON ?D) v = Inr bs" for v using codecs(3) by blast
  have pool: "visits_all (envPool (dmEnv ?D))" "pool_replays (envCrypto (dmEnv ?D)) st (network ?c) (nodeMempool (srvNode s))"
    using none s by (simp_all add: pool_replays_def small_rpcd_def small_daemon_def small_env_def visits_all_def)
  have flags: "rfNetwork small_rpcd_flags = dmNetworkName ?D" "ocPeers (applyFlags small_rpcd_flags OperationsDefaultConfig) = []"
    by (simp_all add: small_rpcd_def small_daemon_def OperationsDefaultConfig_def applyFlags_def small_rpcd_flags_def)
  have net: "network ?c = NetworkPublicTestnet"
    using conf by (simp add: configured_def small_rpcd_def small_daemon_def ParseNetwork_def)
  have node: "node_inv (dmEnv ?D) (srvNode s)" "nodeChain (srvNode s) = Some ?c" "nodeState (srvNode s) = Some st" using inv n(4,5) s by simp_all
  from rpcd_restart_restores [OF down node conf clk D(2) refl small_rpcd_flags(2) flags(1) small_rpcd_valid flags(2)
      small_rpcd_environment [folded net] js pj marshal pool, where unmarshal = "\<lambda>_ c. Inr c"] node(3) down
  show ?thesis unfolding Let_def by blast
qed

end
