(* ===== verification/Pool.thy ===== *)
theory Pool
  imports Miner Disk GoStrings
begin

text \<open>
  Package \<open>pool\<close>: worker logins, share validation, the payout ledger and the engine that hands out
  jobs, credits shares and submits blocks. The source of work is the argument record \<open>work_source\<close>.
  The division of a reward among the last shares uses floating point; double-precision arithmetic is
  modelled exactly on fractions of natural numbers, with rounding to nearest and ties to even, so the
  lemmas can say when it agrees with integer division.

  A payout scheme is a string, as in the code, since the ledger stores it as it was given.
\<close>

section \<open>Double-precision numbers\<close>

text \<open>The quotient rounded to the nearest integer, ties to even.\<close>

definition round_quotient :: "nat \<Rightarrow> nat \<Rightarrow> nat" where
  "round_quotient a b =
     (let q = a div b; m = a mod b in if 2 * m < b \<or> (2 * m = b \<and> even q) then q else q + 1)"

text \<open>How often a fraction can be doubled or has to be halved to have a 53-bit integer part.\<close>

function norm_up :: "nat \<Rightarrow> nat \<Rightarrow> nat" where
  "norm_up n t = (if 0 < n \<and> 2 * n < 2 ^ 53 * t then Suc (norm_up (2 * n) t) else 0)"
  by pat_completeness auto
termination by (relation "measure (\<lambda>(n, t). 2 ^ 53 * t - n)") auto

function norm_down :: "nat \<Rightarrow> nat \<Rightarrow> nat" where
  "norm_down n t = (if 0 < t \<and> 2 ^ 53 * t \<le> n then Suc (norm_down n (2 * t)) else 0)"
  by pat_completeness auto
termination by (relation "measure (\<lambda>(n, t). Suc n - t)") auto

declare norm_up.simps [simp del] norm_down.simps [simp del]

text \<open>The fraction \<open>n / t\<close> rounded to a double; positive numbers of this size have no underflow or overflow.\<close>

definition float64 :: "nat \<times> nat \<Rightarrow> nat \<times> nat" where
  "float64 x =
     (case x of (n, t) \<Rightarrow>
       if n = 0 then (0, 1)
       else if n < 2 ^ 53 * t then (let s = norm_up n t in (round_quotient (n * 2 ^ s) t, 2 ^ s))
       else (let r = norm_down n t in (round_quotient n (t * 2 ^ r) * 2 ^ r, 1)))"

definition float_of :: "u64 \<Rightarrow> nat \<times> nat" where
  "float_of x = float64 (unat x, 1)"

definition float_mult :: "nat \<times> nat \<Rightarrow> nat \<times> nat \<Rightarrow> nat \<times> nat" where
  "float_mult x y = float64 (fst x * fst y, snd x * snd y)"

definition float_divide :: "nat \<times> nat \<Rightarrow> nat \<times> nat \<Rightarrow> nat \<times> nat" where
  "float_divide x y = float64 (fst x * snd y, snd x * fst y)"

definition float_floor :: "nat \<times> nat \<Rightarrow> nat" where
  "float_floor x = fst x div snd x"

section \<open>Workers\<close>

record WorkerIdentity =
  wiAddress :: string
  wiWorkerName :: string
  wiLogin :: string

definition walletPattern :: "string \<Rightarrow> bool" where
  "walletPattern s \<longleftrightarrow> length s = 40 \<and> list_all is_lower_hex s"

definition ParseWorkerIdentity :: "string \<Rightarrow> WorkerIdentity result" where
  "ParseWorkerIdentity login =
     (let raw = TrimSpace login in
      if raw = '''' then Inl (Errorf ''worker login required'' [])
      else (let first = takeWhile (\<lambda>c. c \<noteq> CHR ''.'') raw; rest = dropWhile (\<lambda>c. c \<noteq> CHR ''.'') raw;
                address = ToLower (TrimSpace first)
            in if \<not> walletPattern address
               then Inl (Errorf ''worker login must start with a 40-character wallet address'' [])
               else if rest = [] then Inr \<lparr>wiAddress = address, wiWorkerName = ''default'', wiLogin = raw\<rparr>
               else (let name = TrimSpace (tl rest) in
                     if name = '''' then Inl (Errorf ''worker name cannot be empty'' [])
                     else Inr \<lparr>wiAddress = address, wiWorkerName = name, wiLogin = raw\<rparr>)))"

section \<open>Shares\<close>

datatype ShareKind = ShareInvalid | ShareValid | ShareBlock

definition ShareKindString :: "ShareKind \<Rightarrow> string" where
  "ShareKindString k = (case k of ShareValid \<Rightarrow> ''valid'' | ShareBlock \<Rightarrow> ''block'' | ShareInvalid \<Rightarrow> ''invalid'')"

record ShareResult =
  shKind :: ShareKind
  shHash :: string
  shNonce :: u64
  shPoolDifficulty :: u32
  shBlockDifficulty :: u32
  shShareWork :: u64
  shBlockWork :: u64

definition workUnits :: "u32 \<Rightarrow> u64" where
  "workUnits difficulty =
     (let work = WorkFromDifficulty difficulty in
      if \<not> (0 \<le> work \<and> work < 2 ^ 64) then - 1 else of_int work)"

definition ValidateShare :: "crypto \<Rightarrow> block option \<Rightarrow> u64 \<Rightarrow> u32 \<Rightarrow> u32 \<Rightarrow> ShareResult result" where
  "ValidateShare C blockp nonce poolDifficulty blockDifficulty =
     (case blockp of
       None \<Rightarrow> Inl (Errorf ''missing block template'' [])
     | Some block \<Rightarrow>
     if poolDifficulty = 0 \<or> blockDifficulty = 0 then Inl (Errorf ''difficulty must be >= 1'' [])
     else if poolDifficulty > blockDifficulty
     then Inl (Errorf ''pool difficulty %d exceeds block difficulty %d'' [dec (unat poolDifficulty), dec (unat blockDifficulty)])
     else (let hash = HashBlock C block nonce;
               result = \<lparr>shKind = ShareInvalid, shHash = hash, shNonce = nonce, shPoolDifficulty = poolDifficulty,
                 shBlockDifficulty = blockDifficulty, shShareWork = workUnits poolDifficulty,
                 shBlockWork = workUnits blockDifficulty\<rparr>
           in if ValidHash hash blockDifficulty then Inr (result\<lparr>shKind := ShareBlock\<rparr>)
              else if ValidHash hash poolDifficulty then Inr (result\<lparr>shKind := ShareValid\<rparr>)
              else Inr result))"

definition ShareValue :: "u64 \<Rightarrow> u32 \<Rightarrow> u32 \<Rightarrow> u64" where
  "ShareValue blockReward poolDifficulty blockDifficulty =
     (if blockReward = 0 \<or> poolDifficulty = 0 \<or> blockDifficulty = 0 then 0
      else (blockReward * ucast poolDifficulty) div ucast blockDifficulty)"

definition TargetHex :: "u32 \<Rightarrow> string" where
  "TargetHex difficulty = hex_text (nat (TargetFromDifficulty difficulty))"

section \<open>The payout ledger\<close>

definition SchemeSolo :: string where [go_const]: "SchemeSolo = ''solo''"
definition SchemePPS :: string where [go_const]: "SchemePPS = ''pps''"
definition SchemePPLNS :: string where [go_const]: "SchemePPLNS = ''pplns''"
definition SchemeFPPS :: string where [go_const]: "SchemeFPPS = ''fpps''"

definition NormalizePayoutScheme :: "string \<Rightarrow> string result" where
  "NormalizePayoutScheme raw =
     (let s = ToLower (TrimSpace raw) in
      if s = '''' \<or> s = SchemePPLNS then Inr SchemePPLNS
      else if s = SchemeSolo then Inr SchemeSolo
      else if s = SchemePPS then Inr SchemePPS
      else if s = SchemeFPPS then Inr SchemeFPPS
      else Inl (Errorf ''unsupported payout scheme %q (use solo, pps, pplns, or fpps)'' [raw]))"

record ShareCredit =
  scWorker :: WorkerIdentity
  scWork :: u64
  scValue :: u64
  scJobID :: string
  scHeight :: u64
  scIsBlock :: bool

definition noCredit :: ShareCredit where
  "noCredit = \<lparr>scWorker = \<lparr>wiAddress = '''', wiWorkerName = '''', wiLogin = ''''\<rparr>, scWork = 0, scValue = 0,
     scJobID = '''', scHeight = 0, scIsBlock = False\<rparr>"

record PayoutLedger =
  plScheme :: string
  plWindow :: int
  plFeeBPS :: u64
  plBalances :: "string \<rightharpoonup> u64"
  pendingPPLN :: "ShareCredit list"
  blocksFound :: u64
  sharesSeen :: u64

definition NewPayoutLedger :: "string \<Rightarrow> int \<Rightarrow> u64 \<Rightarrow> PayoutLedger result" where
  "NewPayoutLedger scheme pplnsWindow poolFeeBPS =
     (case NormalizePayoutScheme scheme of
       Inl err \<Rightarrow> Inl err
     | Inr _ \<Rightarrow>
       if poolFeeBPS > 10000 then Inl (Errorf ''pool fee must be <= 10000 bps'' [])
       else Inr \<lparr>plScheme = scheme, plWindow = (if pplnsWindow \<le> 0 then 10000 else pplnsWindow), plFeeBPS = poolFeeBPS,
         plBalances = Map.empty, pendingPPLN = [], blocksFound = 0, sharesSeen = 0\<rparr>)"

definition stringsLower :: "string \<Rightarrow> string" where
  "stringsLower v = ToLower (TrimSpace v)"

definition ledgerScheme :: "PayoutLedger option \<Rightarrow> string" where
  "ledgerScheme lp = (case lp of None \<Rightarrow> SchemePPLNS | Some l \<Rightarrow> plScheme l)"

definition ledgerBalance :: "PayoutLedger option \<Rightarrow> string \<Rightarrow> u64" where
  "ledgerBalance lp address = (case lp of None \<Rightarrow> 0 | Some l \<Rightarrow> goget (plBalances l) (stringsLower address) 0)"

definition applyFee :: "u64 \<Rightarrow> u64 \<Rightarrow> u64" where
  "applyFee amount feeBPS =
     (if amount = 0 \<or> feeBPS = 0 then amount
      else (let fee = (amount * feeBPS) div 10000 in if fee \<ge> amount then 0 else amount - fee))"

definition addBalance :: "string \<Rightarrow> u64 \<Rightarrow> PayoutLedger \<Rightarrow> PayoutLedger" where
  "addBalance address amount l =
     l\<lparr>plBalances := (plBalances l)(address \<mapsto> goget (plBalances l) address 0 + amount)\<rparr>"

text \<open>One share's part of the reward, computed in floating point.\<close>

definition shareReward :: "u64 \<Rightarrow> u64 \<Rightarrow> u64 \<Rightarrow> u64" where
  "shareReward reward work sumWork =
     of_nat (float_floor (float_divide (float_mult (float_of reward) (float_of work)) (float_of sumWork)))"

definition distributePPLNSLocked :: "u64 \<Rightarrow> PayoutLedger \<Rightarrow> PayoutLedger" where
  "distributePPLNSLocked blockReward l =
     (if pendingPPLN l = [] then l
      else (let sumWork = foldl (\<lambda>a item. a + scWork item) 0 (pendingPPLN l) in
        if sumWork = 0 then l
        else (let reward = applyFee blockReward (plFeeBPS l) in
          foldl (\<lambda>m item. addBalance (wiAddress (scWorker item)) (shareReward reward (scWork item) sumWork) m)
            l (pendingPPLN l))))"

text \<open>Appending to the window drops its oldest entries.\<close>

definition pushPending :: "ShareCredit \<Rightarrow> PayoutLedger \<Rightarrow> PayoutLedger" where
  "pushPending credit l =
     (let pending = pendingPPLN l @ [credit] in
      l\<lparr>pendingPPLN := (if int (length pending) > plWindow l then drop (length pending - nat (plWindow l)) pending else pending)\<rparr>)"

definition CreditShare ::
  "u64 \<Rightarrow> ShareResult \<Rightarrow> WorkerIdentity \<Rightarrow> string \<Rightarrow> u64 \<Rightarrow> PayoutLedger option \<Rightarrow> PayoutLedger option \<times> ShareCredit" where
  "CreditShare blockReward share worker jobID height lp =
     (case lp of
       None \<Rightarrow> (None, noCredit)
     | Some l \<Rightarrow>
     (let credit = \<lparr>scWorker = worker, scWork = shShareWork share,
            scValue = applyFee (ShareValue blockReward (shPoolDifficulty share) (shBlockDifficulty share)) (plFeeBPS l),
            scJobID = jobID, scHeight = height, scIsBlock = False\<rparr>;
          accepted = (shKind share = ShareValid \<or> shKind share = ShareBlock);
          found = (shKind share = ShareBlock);
          whole = applyFee blockReward (plFeeBPS l);
          l1 = l\<lparr>sharesSeen := sharesSeen l + 1\<rparr>;
          l2 = (if plScheme l = SchemeSolo then (if found then addBalance (wiAddress worker) whole l1 else l1)
                else if plScheme l = SchemePPS \<or> plScheme l = SchemeFPPS
                then (let l' = (if accepted then addBalance (wiAddress worker) (scValue credit) l1 else l1)
                      in if plScheme l = SchemeFPPS \<and> found then addBalance (wiAddress worker) whole l' else l')
                else if plScheme l = SchemePPLNS
                then (let l' = (if accepted then pushPending credit l1 else l1)
                      in if found then distributePPLNSLocked blockReward l' else l')
                else l1)
      in if found then (Some (l2\<lparr>blocksFound := blocksFound l2 + 1\<rparr>), credit\<lparr>scIsBlock := True\<rparr>)
         else (Some l2, credit)))"


section \<open>Configuration\<close>

definition DefaultPoolDifficulty :: u32 where
  [go_const]: "DefaultPoolDifficulty = 1"

record PoolConfig =
  pcNetwork :: string
  pcRPCURL :: string
  pcRPCURLs :: "string list"
  pcPayoutAddress :: string
  pcPayoutScheme :: string
  pcPoolDifficulty :: u32
  pcPoolFeeBPS :: u64
  pcPPLNSWindow :: int
  pcStratumListen :: string
  pcWorkPollSeconds :: int
  pcExpectedNetwork :: string

definition DefaultConfig :: PoolConfig where
  "DefaultConfig =
     \<lparr>pcNetwork = ''public-testnet'', pcRPCURL = '''', pcRPCURLs = [], pcPayoutAddress = '''', pcPayoutScheme = SchemePPLNS,
      pcPoolDifficulty = DefaultPoolDifficulty, pcPoolFeeBPS = 100, pcPPLNSWindow = 10000, pcStratumListen = '':3333'',
      pcWorkPollSeconds = 5, pcExpectedNetwork = ''sudharma''\<rparr>"

definition ResolveConfig :: "PoolConfig \<Rightarrow> PoolConfig result" where
  "ResolveConfig cfg =
     (if TrimSpace (pcPayoutAddress cfg) = '''' then Inl (Errorf ''payout_address is required'' [])
      else (case ParseWorkerIdentity (pcPayoutAddress cfg) of
        Inl err \<Rightarrow> Inl (Wrapf ''payout_address: %w'' [] err)
      | Inr identity \<Rightarrow>
      (case NormalizePayoutScheme (pcPayoutScheme cfg) of
        Inl err \<Rightarrow> Inl err
      | Inr scheme \<Rightarrow>
      if TrimSpace (pcRPCURL cfg) = '''' \<and> pcRPCURLs cfg = [] then Inl (Errorf ''rpc_url or rpc_urls is required'' [])
      else Inr (cfg\<lparr>pcPayoutAddress := wiAddress identity, pcPayoutScheme := scheme,
        pcPoolDifficulty := (if pcPoolDifficulty cfg = 0 then DefaultPoolDifficulty else pcPoolDifficulty cfg),
        pcPPLNSWindow := (if pcPPLNSWindow cfg \<le> 0 then 10000 else pcPPLNSWindow cfg),
        pcStratumListen := (if TrimSpace (pcStratumListen cfg) = '''' then '':3333'' else pcStratumListen cfg),
        pcWorkPollSeconds := (if pcWorkPollSeconds cfg \<le> 0 then 5 else pcWorkPollSeconds cfg),
        pcExpectedNetwork := (if TrimSpace (pcExpectedNetwork cfg) = '''' then ''sudharma'' else pcExpectedNetwork cfg),
        pcNetwork := (if TrimSpace (pcNetwork cfg) = '''' then ''public-testnet'' else pcNetwork cfg)\<rparr>))))"

text \<open>Decoding JSON over the defaults is an argument.\<close>

definition LoadConfig :: "(bytes \<Rightarrow> PoolConfig \<Rightarrow> PoolConfig result) \<Rightarrow> bytes \<Rightarrow> PoolConfig result" where
  "LoadConfig unmarshal raw =
     (if raw = [] then Inl (Errorf ''pool config is empty'' [])
      else (case unmarshal raw DefaultConfig of
        Inl err \<Rightarrow> Inl (Wrapf ''invalid pool config JSON: %w'' [] err)
      | Inr cfg \<Rightarrow> ResolveConfig cfg))"

definition WorkPollInterval :: "PoolConfig \<Rightarrow> i64" where
  "WorkPollInterval c = wrap64 ((if pcWorkPollSeconds c \<le> 0 then 5 else pcWorkPollSeconds c) * 10 ^ 9)"

section \<open>The engine\<close>

text \<open>The part of \<open>gpuminer.Work\<close> that the engine reads, and the node behind it.\<close>

record Work =
  workID :: string
  workHeight :: u64
  workParent :: string
  workBlockReward :: u64
  workBlock :: "block option"

record work_source =
  GetWork :: "string \<Rightarrow> Work result"
  SubmitBlock :: "block \<Rightarrow> unit result"

record Job =
  jobID :: string
  jobWorkID :: string
  jobHeight :: u64
  jobParent :: string
  jobTimestamp :: i64
  jobVersion :: u32
  jobBlockDifficulty :: u32
  jobPoolDifficulty :: u32
  jobPoolTarget :: string
  jobBlockTarget :: string
  jobBlockReward :: u64
  jobBlock :: block
  jobCreatedAt :: i64

record Engine =
  engCfg :: PoolConfig
  engLedger :: PayoutLedger
  engCurrent :: Job
  engBlockSeq :: u64

text \<open>Before the first refresh the current job is the zero value of its type.\<close>

definition noJob :: Job where
  "noJob = \<lparr>jobID = '''', jobWorkID = '''', jobHeight = 0, jobParent = '''', jobTimestamp = 0, jobVersion = 0,
     jobBlockDifficulty = 0, jobPoolDifficulty = 0, jobPoolTarget = '''', jobBlockTarget = '''', jobBlockReward = 0,
     jobBlock = \<lparr>blkVersion = 0, blkHeight = 0, blkTimestamp = 0, blkPreviousHash = '''', blkMerkleRoot = '''',
       blkDifficulty = 0, blkNonce = 0, blkMinerAddress = '''', blkTransactions = []\<rparr>, jobCreatedAt = 0\<rparr>"

definition NewEngine :: "PoolConfig \<Rightarrow> Engine result" where
  "NewEngine cfg =
     (case ResolveConfig cfg of
       Inl err \<Rightarrow> Inl err
     | Inr resolved \<Rightarrow>
     (case NewPayoutLedger (pcPayoutScheme resolved) (pcPPLNSWindow resolved) (pcPoolFeeBPS resolved) of
       Inl err \<Rightarrow> Inl err
     | Inr l \<Rightarrow> Inr \<lparr>engCfg = resolved, engLedger = l, engCurrent = noJob, engBlockSeq = 0\<rparr>))"

definition RefreshWork :: "work_source option \<Rightarrow> i64 \<Rightarrow> Engine \<Rightarrow> (Engine, Job) outcome" where
  "RefreshWork sourcep now e =
     (case sourcep of
       None \<Rightarrow> (e, Inl (Errorf ''pool engine unavailable'' []))
     | Some source \<Rightarrow>
     (case GetWork source (pcPayoutAddress (engCfg e)) of
       Inl err \<Rightarrow> (e, Inl err)
     | Inr work \<Rightarrow>
     (case workBlock work of
       None \<Rightarrow> (e, Inl (Errorf ''mining work missing candidate block'' []))
     | Some block \<Rightarrow>
     (let seq = engBlockSeq e + 1;
          job = \<lparr>jobID = ''sudh-'' @ dec (unat (workHeight work)) @ ''-'' @ dec (unat seq), jobWorkID = workID work,
            jobHeight = workHeight work, jobParent = workParent work, jobTimestamp = blkTimestamp block,
            jobVersion = blkVersion block, jobBlockDifficulty = blkDifficulty block,
            jobPoolDifficulty = pcPoolDifficulty (engCfg e), jobPoolTarget = TargetHex (pcPoolDifficulty (engCfg e)),
            jobBlockTarget = TargetHex (blkDifficulty block), jobBlockReward = workBlockReward work, jobBlock = block,
            jobCreatedAt = now\<rparr>
      in (e\<lparr>engBlockSeq := seq, engCurrent := job\<rparr>, Inr job)))))"

definition noShare :: ShareResult where
  "noShare = \<lparr>shKind = ShareInvalid, shHash = '''', shNonce = 0, shPoolDifficulty = 0, shBlockDifficulty = 0,
     shShareWork = 0, shBlockWork = 0\<rparr>"

text \<open>The block that a share of network difficulty is submitted as.\<close>

definition solvedBlock :: "Engine \<Rightarrow> Job \<Rightarrow> u64 \<Rightarrow> block" where
  "solvedBlock e job nonce = (jobBlock job)\<lparr>blkNonce := nonce, blkMinerAddress := pcPayoutAddress (engCfg e)\<rparr>"

definition SubmitShare ::
  "crypto \<Rightarrow> work_source \<Rightarrow> error option \<Rightarrow> Job \<Rightarrow> WorkerIdentity \<Rightarrow> u64 \<Rightarrow> Engine
   \<Rightarrow> Engine \<times> ShareResult \<times> ShareCredit \<times> unit result" where
  "SubmitShare C source ctxErr job worker nonce e =
     (case ctxErr of
       Some err \<Rightarrow> (e, noShare, noCredit, Inl err)
     | None \<Rightarrow>
     (case ValidateShare C (Some (jobBlock job)) nonce (jobPoolDifficulty job) (jobBlockDifficulty job) of
       Inl err \<Rightarrow> (e, noShare, noCredit, Inl err)
     | Inr result \<Rightarrow>
     if shKind result = ShareInvalid then (e, result, noCredit, Inl (Errorf ''share below pool difficulty'' []))
     else (case CreditShare (jobBlockReward job) result worker (jobID job) (jobHeight job) (Some (engLedger e)) of
       (lp, credit) \<Rightarrow>
       (let e1 = e\<lparr>engLedger := (case lp of None \<Rightarrow> engLedger e | Some l \<Rightarrow> l)\<rparr> in
        if shKind result = ShareBlock
        then (case SubmitBlock source (solvedBlock e job nonce) of
            Inl err \<Rightarrow> (e1, result, credit, Inl (Wrapf ''block submit failed: %w'' [] err))
          | Inr _ \<Rightarrow> (e1, result, credit, Inr ()))
        else (e1, result, credit, Inr ())))))"


section \<open>Exactness of the floating-point division\<close>

lemma norm_up_spec:
  "0 < n \<Longrightarrow> n < 2 ^ 53 * t \<Longrightarrow> n * 2 ^ norm_up n t < 2 ^ 53 * t \<and> 2 ^ 53 * t \<le> 2 * (n * 2 ^ norm_up n t)"
proof (induction n t rule: norm_up.induct)
  case (1 n t)
  show ?case
  proof (cases "2 * n < 2 ^ 53 * t")
    case True
    with 1 have "2 * n * 2 ^ norm_up (2 * n) t < 2 ^ 53 * t \<and> 2 ^ 53 * t \<le> 2 * (2 * n * 2 ^ norm_up (2 * n) t)" by simp
    moreover have "norm_up n t = Suc (norm_up (2 * n) t)" using True 1(2) by (subst norm_up.simps) simp
    ultimately show ?thesis by (simp add: algebra_simps)
  next
    case False
    then have "norm_up n t = 0" by (subst norm_up.simps) simp
    with False 1 show ?thesis by simp
  qed
qed

lemma round_quotient_exact: "0 < t \<Longrightarrow> round_quotient (k * t) t = k"
  by (simp add: round_quotient_def)

lemma round_quotient_cases: "round_quotient a b = a div b \<or> round_quotient a b = a div b + 1 \<and> b \<le> 2 * (a mod b)"
  by (auto simp: round_quotient_def Let_def)

lemma float64_integer:
  assumes "k < 2 ^ 53" "0 < t"
  shows "\<exists>s. float64 (k * t, t) = (k * 2 ^ s, 2 ^ s)"
proof (cases "k = 0")
  case True
  then show ?thesis by (intro exI [of _ 0]) (simp add: float64_def)
next
  case False
  have "k * t < 2 ^ 53 * t" using assms by simp
  moreover have "round_quotient (k * t * 2 ^ s) t = k * 2 ^ s" for s
    using round_quotient_exact [OF assms(2), of "k * 2 ^ s"] by (simp add: ac_simps)
  ultimately show ?thesis using False assms(2) by (auto simp: float64_def Let_def)
qed

lemma div_Suc_carry: "(q + 1) div m \<noteq> q div m \<Longrightarrow> q + 1 = (q div m + 1) * m" for q m :: nat
  using div_mult_mod_eq [of "Suc q" m] by (auto simp: div_Suc split: if_splits)

text \<open>Rounding cannot carry a quotient of integers below two to the 53 over the next integer.\<close>

lemma float_floor_quotient:
  assumes "k < 2 ^ 53" "0 < T" "0 < c"
  shows "float_floor (float64 (k * c, T * c)) = k div T"
proof (cases "k = 0")
  case True
  then show ?thesis by (simp add: float64_def float_floor_def)
next
  case False
  let ?n = "k * c" and ?t = "T * c"
  have lt: "?n < 2 ^ 53 * ?t"
  proof -
    have "k < 2 ^ 53 * T" using assms(1,2) by (cases T) simp_all
    then show ?thesis using assms(3) by (simp add: mult.assoc [symmetric])
  qed
  define s where "s = norm_up ?n ?t"
  have max: "2 ^ 53 * ?t \<le> 2 * (?n * 2 ^ s)" using norm_up_spec [OF _ lt] False assms(3) by (simp add: s_def)
  define a where "a = ?n * 2 ^ s"
  have div_eq: "a div ?t div 2 ^ s = k div T"
  proof -
    have "a div ?t div 2 ^ s = (k * (c * 2 ^ s)) div (T * (c * 2 ^ s))"
      by (simp add: a_def div_mult2_eq [symmetric] ac_simps)
    also have "\<dots> = k div T" using assms(3) by simp
    finally show ?thesis .
  qed
  have "round_quotient a ?t div 2 ^ s = k div T"
    using round_quotient_cases [of a ?t]
  proof (elim disjE conjE)
    assume "round_quotient a ?t = a div ?t"
    then show ?thesis using div_eq by simp
  next
    assume up: "round_quotient a ?t = a div ?t + 1" and half: "?t \<le> 2 * (a mod ?t)"
    show ?thesis
    proof (rule ccontr)
      assume ne: "round_quotient a ?t div 2 ^ s \<noteq> k div T"
      let ?j = "k div T"
      have next_unit: "a div ?t + 1 = (?j + 1) * 2 ^ s"
        using div_Suc_carry [of "a div ?t" "2 ^ s"] ne up div_eq by simp
      have "2 * (a div ?t) * ?t + ?t \<le> 2 * a"
        using half arg_cong [OF div_mult_mod_eq [of a ?t], of "\<lambda>x. 2 * x"] by (simp add: distrib_left mult.assoc)
      then have "2 * (a div ?t + 1) * ?t \<le> 2 * a + ?t" by (simp add: algebra_simps)
      then have "(2 * ((?j + 1) * 2 ^ s) * T) * c \<le> (2 * (k * 2 ^ s) + T) * c"
        unfolding next_unit by (simp add: a_def algebra_simps)
      then have "2 * ((?j + 1) * 2 ^ s) * T \<le> 2 * (k * 2 ^ s) + T" using assms(3) by simp
      moreover have "k + 1 \<le> (?j + 1) * T" using assms(2) dividend_less_times_div [of T k] by (simp add: algebra_simps)
      then have "2 * ((k + 1) * 2 ^ s) \<le> 2 * ((?j + 1) * 2 ^ s) * T"
        using mult_le_mono2 [of "k + 1" "(?j + 1) * T" "2 * 2 ^ s"] by (simp add: algebra_simps)
      ultimately have small: "2 * 2 ^ s \<le> T" by (simp add: algebra_simps)
      have "(2 ^ 53 * T) * c \<le> (2 * (k * 2 ^ s)) * c" using max by (simp add: algebra_simps)
      then have "2 ^ 53 * T \<le> 2 * (k * 2 ^ s)" using assms(3) by simp
      also have "\<dots> < 2 ^ 53 * (2 * 2 ^ s)" using assms(1) by simp
      also have "\<dots> \<le> 2 ^ 53 * T" using small by simp
      finally show False by simp
    qed
  qed
  then show ?thesis using False lt assms(3) by (simp add: float64_def float_floor_def Let_def s_def [symmetric] a_def)
qed


lemma float_of_integer: "unat x < 2 ^ 53 \<Longrightarrow> \<exists>s. float_of x = (unat x * 2 ^ s, 2 ^ s)"
  using float64_integer [of "unat x" 1] by (simp add: float_of_def)

lemma float64_zero [simp]: "float64 (0, t) = (0, 1)"
  by (simp add: float64_def)

lemma shareReward_exact:
  assumes "unat reward * unat work < 2 ^ 53" "0 < unat sumWork" "unat sumWork < 2 ^ 53"
  shows "shareReward reward work sumWork = of_nat (unat reward * unat work div unat sumWork)"
proof (cases "unat reward = 0 \<or> unat work = 0")
  case True
  then have "fst (float_of reward) = 0 \<or> fst (float_of work) = 0" by (auto simp: float_of_def)
  then have "float_mult (float_of reward) (float_of work) = (0, 1)" by (auto simp: float_mult_def)
  with True show ?thesis by (auto simp: shareReward_def float_divide_def float_floor_def)
next
  case False
  then have "unat reward \<le> unat reward * unat work" "unat work \<le> unat reward * unat work" by simp_all
  from this [THEN le_less_trans, OF assms(1)] have "unat reward < 2 ^ 53" "unat work < 2 ^ 53" .
  with assms(3) obtain a b d where f: "float_of reward = (unat reward * 2 ^ a, 2 ^ a)" "float_of work = (unat work * 2 ^ b, 2 ^ b)"
    "float_of sumWork = (unat sumWork * 2 ^ d, 2 ^ d)" using float_of_integer by meson
  have "float_mult (float_of reward) (float_of work) = float64 ((unat reward * unat work) * 2 ^ (a + b), 2 ^ (a + b))"
    by (simp add: float_mult_def f power_add ac_simps)
  with float64_integer [OF assms(1), of "2 ^ (a + b)"] obtain s where
    m: "float_mult (float_of reward) (float_of work) = ((unat reward * unat work) * 2 ^ s, 2 ^ s)" by auto
  have "float_divide (float_mult (float_of reward) (float_of work)) (float_of sumWork)
      = float64 ((unat reward * unat work) * 2 ^ (s + d), unat sumWork * 2 ^ (s + d))"
    unfolding m f(3) by (simp add: float_divide_def power_add ac_simps)
  then show ?thesis using float_floor_quotient [OF assms(1,2), of "2 ^ (s + d)"] by (simp add: shareReward_def)
qed

lemma sum_of_shares: "0 < (T :: nat) \<Longrightarrow> sum_list ws \<le> T \<Longrightarrow> (\<Sum>w\<leftarrow>ws. R * w div T) \<le> R"
proof -
  assume T: "0 < T" and ws: "sum_list ws \<le> T"
  have "(\<Sum>w\<leftarrow>ws. R * w div T) * T \<le> R * sum_list ws"
  proof (induction ws)
    case (Cons w ws)
    from add_mono [OF div_times_less_eq_dividend [of "R * w" T] Cons] show ?case
      by (simp add: add_mult_distrib distrib_left)
  qed simp
  also have "\<dots> \<le> R * T" using ws by simp
  finally show ?thesis using T by simp
qed

section \<open>Shares\<close>

lemma uint_pos: "d \<noteq> 0 \<Longrightarrow> 0 < uint (d :: u32)"
  by (metis uint_0_iff uint_nonnegative order_le_less)

lemma workUnits_exact: "d \<noteq> 0 \<Longrightarrow> int (unat (workUnits d)) = WorkFromDifficulty d"
proof -
  assume d: "d \<noteq> 0"
  have b: "0 \<le> WorkFromDifficulty d" "WorkFromDifficulty d < 2 ^ 32"
    using WorkFromDifficulty_exact [OF d] uint_lt2p [of d] uint_pos [OF d] by (simp_all split: if_splits)
  then have "workUnits d = of_int (WorkFromDifficulty d)" by (simp add: workUnits_def Let_def)
  moreover have "uint (of_int (WorkFromDifficulty d) :: u64) = WorkFromDifficulty d" using b by (simp add: unsigned_of_int take_bit_int_eq_self)
  ultimately show ?thesis by simp
qed

lemma ValidateShare_kinds:
  assumes "ValidateShare C (Some b) nonce pool net = Inr r"
  shows "shKind r = ShareBlock \<longleftrightarrow> ValidHash (HashBlock C b nonce) net"
    and "shKind r \<noteq> ShareInvalid \<longleftrightarrow> ValidHash (HashBlock C b nonce) pool"
proof -
  have d: "pool \<noteq> 0" "net \<noteq> 0" "pool \<le> net" using assms by (auto simp: ValidateShare_def split: if_splits)
  have mono: "ValidHash h net \<Longrightarrow> ValidHash h pool" for h
    using TargetFromDifficulty_antimono [OF d(1,3)] d(1) by (auto simp: ValidHash_def Let_def split: option.splits if_splits)
  show "shKind r = ShareBlock \<longleftrightarrow> ValidHash (HashBlock C b nonce) net"
    "shKind r \<noteq> ShareInvalid \<longleftrightarrow> ValidHash (HashBlock C b nonce) pool"
    using assms d mono by (auto simp: ValidateShare_def Let_def split: if_splits)
qed


section \<open>The ledger\<close>

lemma addBalance_simps [simp]:
  "plScheme (addBalance a v l) = plScheme l" "plWindow (addBalance a v l) = plWindow l" "plFeeBPS (addBalance a v l) = plFeeBPS l"
  "pendingPPLN (addBalance a v l) = pendingPPLN l" "blocksFound (addBalance a v l) = blocksFound l"
  "sharesSeen (addBalance a v l) = sharesSeen l"
  "goget (plBalances (addBalance a v l)) b 0 = goget (plBalances l) b 0 + (if b = a then v else 0)"
  by (simp_all add: addBalance_def)

lemma payments_fold:
  "goget (plBalances (foldl (\<lambda>m item. addBalance (addr item) (f item) m) l items)) a 0
     = goget (plBalances l) a 0 + (\<Sum>item\<leftarrow>filter (\<lambda>item. addr item = a) items. f item)"
  by (induction items arbitrary: l) (simp_all add: add.assoc)

lemma sum_word: "foldl (\<lambda>a item. a + f item) b items = b + of_nat (\<Sum>item\<leftarrow>items. unat (f item :: u64))"
  by (induction items arbitrary: b) (simp_all add: ac_simps)

lemma sum_list_of_nat: "(\<Sum>x\<leftarrow>xs. of_nat (f x)) = (of_nat (\<Sum>x\<leftarrow>xs. f x) :: u64)"
  by (induction xs) simp_all

lemma pplns_payment:
  assumes "\<forall>item\<in>set (pendingPPLN l). unat (applyFee reward (plFeeBPS l)) * unat (scWork item) < 2 ^ 53"
    and "0 < (\<Sum>item\<leftarrow>pendingPPLN l. unat (scWork item))" "(\<Sum>item\<leftarrow>pendingPPLN l. unat (scWork item)) < 2 ^ 53"
  defines "W \<equiv> \<Sum>item\<leftarrow>pendingPPLN l. unat (scWork item)" and "R \<equiv> unat (applyFee reward (plFeeBPS l))"
  shows "goget (plBalances (distributePPLNSLocked reward l)) a 0 = goget (plBalances l) a 0
      + of_nat (\<Sum>item\<leftarrow>filter (\<lambda>item. wiAddress (scWorker item) = a) (pendingPPLN l). R * unat (scWork item) div W)"
proof -
  let ?items = "pendingPPLN l" and ?fee = "applyFee reward (plFeeBPS l)"
  have "foldl (\<lambda>a item. a + scWork item) 0 ?items = of_nat W" unfolding W_def by (simp add: sum_word)
  moreover have W: "unat (of_nat W :: u64) = W" "0 < W" "W < 2 ^ 53" using assms(2,3) by (simp_all add: W_def unat_of_nat_64)
  then have "(of_nat W :: u64) \<noteq> 0" by (metis unat_0 less_numeral_extra(3))
  moreover have "?items \<noteq> []" using assms(2) by auto
  ultimately have d: "distributePPLNSLocked reward l = foldl (\<lambda>m item. addBalance (wiAddress (scWorker item))
      (shareReward ?fee (scWork item) (of_nat W)) m) l ?items" by (simp add: distributePPLNSLocked_def Let_def)
  have "shareReward ?fee (scWork item) (of_nat W) = of_nat (R * unat (scWork item) div W)" if "item \<in> set ?items" for item
    using shareReward_exact [of ?fee "scWork item" "of_nat W"] assms(1) that W by (simp add: R_def)
  then have "(\<Sum>item\<leftarrow>filter (\<lambda>item. wiAddress (scWorker item) = a) ?items. shareReward ?fee (scWork item) (of_nat W))
      = (\<Sum>item\<leftarrow>filter (\<lambda>item. wiAddress (scWorker item) = a) ?items. of_nat (R * unat (scWork item) div W))"
    by (intro arg_cong [of _ _ sum_list] map_cong) auto
  then show ?thesis unfolding d payments_fold by (simp add: sum_list_of_nat)
qed

lemma filtered_sum_le: "(\<Sum>x\<leftarrow>filter P xs. f x) \<le> (\<Sum>x\<leftarrow>xs. f x :: nat)"
  by (induction xs) auto


section \<open>The engine\<close>

lemma SubmitShare_valid:
  assumes "SubmitShare C source None job worker nonce e = (e1, r, credit, Inr ())" "shKind r = ShareValid"
  shows "ValidateShare C (Some (jobBlock job)) nonce (jobPoolDifficulty job) (jobBlockDifficulty job) = Inr r"
    and "CreditShare (jobBlockReward job) r worker (jobID job) (jobHeight job) (Some (engLedger e)) = (Some (engLedger e1), credit)"
    and "e1 = e\<lparr>engLedger := engLedger e1\<rparr>"
  using assms by (auto simp: SubmitShare_def CreditShare_def Let_def split: sum.splits prod.splits if_splits)

lemma CreditShare_valid:
  assumes "CreditShare reward r worker ident height (Some l) = (Some l1, credit)" "shKind r = ShareValid"
  shows "plScheme l1 = plScheme l" "plFeeBPS l1 = plFeeBPS l" "plWindow l1 = plWindow l" "sharesSeen l1 = sharesSeen l + 1"
    and "scValue credit = applyFee (ShareValue reward (shPoolDifficulty r) (shBlockDifficulty r)) (plFeeBPS l)"
    and "plScheme l = SchemePPS \<Longrightarrow>
      goget (plBalances l1) a 0 = goget (plBalances l) a 0 + (if a = wiAddress worker then scValue credit else 0)"
    and "plScheme l = SchemePPLNS \<Longrightarrow> pendingPPLN l1 = (let p = pendingPPLN l @ [credit] in
      if int (length p) > plWindow l then drop (length p - nat (plWindow l)) p else p)"
  using assms by (auto simp: CreditShare_def pushPending_def Let_def go_const split: if_splits)

lemma CreditShare_again:
  assumes "CreditShare reward r worker ident height (Some l) = (Some l1, credit)" "plFeeBPS l1 = plFeeBPS l" "shKind r = ShareValid"
  shows "\<exists>l2. CreditShare reward r worker ident height (Some l1) = (Some l2, credit)"
  using assms by (auto simp: CreditShare_def Let_def)

section \<open>A small instance\<close>

definition small_template :: block where
  "small_template = \<lparr>blkVersion = 2, blkHeight = 0, blkTimestamp = 0, blkPreviousHash = '''', blkMerkleRoot = '''',
     blkDifficulty = 0xFFFFFFFF, blkNonce = 0, blkMinerAddress = '''', blkTransactions = []\<rparr>"

definition small_job :: Job where
  "small_job = \<lparr>jobID = ''j'', jobWorkID = '''', jobHeight = 0, jobParent = '''', jobTimestamp = 0, jobVersion = 2,
     jobBlockDifficulty = 0xFFFFFFFF, jobPoolDifficulty = 1, jobPoolTarget = '''', jobBlockTarget = '''', jobBlockReward = 2 ^ 40,
     jobBlock = small_template, jobCreatedAt = 0\<rparr>"

definition small_worker :: WorkerIdentity where
  "small_worker = \<lparr>wiAddress = ''a'', wiWorkerName = ''default'', wiLogin = ''a''\<rparr>"

definition small_ledger :: "string \<Rightarrow> PayoutLedger" where
  "small_ledger scheme = \<lparr>plScheme = scheme, plWindow = 4, plFeeBPS = 0, plBalances = Map.empty,
     pendingPPLN = [], blocksFound = 0, sharesSeen = 0\<rparr>"

definition small_engine :: Engine where
  "small_engine = \<lparr>engCfg = DefaultConfig, engLedger = small_ledger SchemePPS, engCurrent = small_job, engBlockSeq = 1\<rparr>"

definition small_source :: work_source where
  "small_source = \<lparr>GetWork = (\<lambda>_. Inr \<lparr>workID = '''', workHeight = 0, workParent = '''', workBlockReward = 2 ^ 40,
     workBlock = Some small_template\<rparr>), SubmitBlock = (\<lambda>_. Inr ())\<rparr>"

lemma funpow_times: "((*) b ^^ n) x = b ^ n * (x :: nat)"
  by (induction n) simp_all

lemma small_template_header: "HeaderBytes small_template 0 = [0, 0, 0, 2] @ replicate 16 0 @ [255, 255, 255, 255] @ replicate 8 0"
  by (simp add: HeaderBytes_def small_template_def) code_simp

lemma small_share: "ValidHash (HashBlock small_crypto small_template 0) 1" "\<not> ValidHash (HashBlock small_crypto small_template 0) 0xFFFFFFFF"
  by (simp_all add: ValidHash_def HashBlock_def small_template_header sha256Hash_def small_digest_def Let_def TargetFromDifficulty_def be_nat_def
      funpow_times)


section \<open>Properties\<close>

text \<open>C21: the reward of a block is split over the window of recent shares as integer division would split it.
  As long as reward times work and the total work stay below two to the 53, the floating-point
  computation is exact, every address receives the rounded-down parts of its shares, and all parts
  together do not exceed the reward after the pool's fee.\<close>

theorem pplns_split_exact:
  assumes "\<forall>item\<in>set (pendingPPLN l). unat (applyFee reward (plFeeBPS l)) * unat (scWork item) < 2 ^ 53"
    and "0 < (\<Sum>item\<leftarrow>pendingPPLN l. unat (scWork item))" "(\<Sum>item\<leftarrow>pendingPPLN l. unat (scWork item)) < 2 ^ 53"
    and "unat (goget (plBalances l) a 0) + unat (applyFee reward (plFeeBPS l)) < 2 ^ 64"
  defines "W \<equiv> \<Sum>item\<leftarrow>pendingPPLN l. unat (scWork item)" and "R \<equiv> unat (applyFee reward (plFeeBPS l))"
  shows "unat (goget (plBalances (distributePPLNSLocked reward l)) a 0) = unat (goget (plBalances l) a 0)
        + (\<Sum>item\<leftarrow>filter (\<lambda>item. wiAddress (scWorker item) = a) (pendingPPLN l). R * unat (scWork item) div W)
    \<and> (\<Sum>item\<leftarrow>pendingPPLN l. R * unat (scWork item) div W) \<le> R"
proof -
  let ?mine = "\<Sum>item\<leftarrow>filter (\<lambda>item. wiAddress (scWorker item) = a) (pendingPPLN l). R * unat (scWork item) div W"
  have le: "(\<Sum>item\<leftarrow>pendingPPLN l. R * unat (scWork item) div W) \<le> R"
    using sum_of_shares [of W "map (\<lambda>item. unat (scWork item)) (pendingPPLN l)" R] assms(2) by (simp add: W_def comp_def)
  then have "unat (goget (plBalances l) a 0) + ?mine < 2 ^ 64"
    using filtered_sum_le [of "\<lambda>item. R * unat (scWork item) div W" "\<lambda>item. wiAddress (scWorker item) = a" "pendingPPLN l"]
      assms(4) by (simp add: R_def)
  then have "unat (goget (plBalances l) a 0 + of_nat ?mine) = unat (goget (plBalances l) a 0) + ?mine"
    by (simp add: unat_word_ariths unat_of_nat)
  then have "unat (goget (plBalances (distributePPLNSLocked reward l)) a 0) = unat (goget (plBalances l) a 0) + ?mine"
    using pplns_payment [OF assms(1-3), of a] by (simp add: W_def R_def)
  with le show ?thesis by blast
qed

theorem pplns_split_exact_witness:
  "let share = (\<lambda>a w. noCredit\<lparr>scWorker := \<lparr>wiAddress = a, wiWorkerName = '''', wiLogin = ''''\<rparr>, scWork := w\<rparr>);
       l = (small_ledger SchemePPLNS)\<lparr>pendingPPLN := [share ''a'' 1, share ''b'' 5, share ''a'' 1]\<rparr>
   in unat (goget (plBalances (distributePPLNSLocked 100 l)) ''a'' 0) = 28 \<and> unat (goget (plBalances (distributePPLNSLocked 100 l)) ''b'' 0) = 71"
proof -
  let ?share = "\<lambda>a w. noCredit\<lparr>scWorker := \<lparr>wiAddress = a, wiWorkerName = '''', wiLogin = ''''\<rparr>, scWork := w\<rparr>"
  let ?l = "(small_ledger SchemePPLNS)\<lparr>pendingPPLN := [?share ''a'' 1, ?share ''b'' 5, ?share ''a'' 1]\<rparr>"
  have "unat (goget (plBalances (distributePPLNSLocked 100 ?l)) x 0)
      = (\<Sum>item\<leftarrow>filter (\<lambda>item. wiAddress (scWorker item) = x) (pendingPPLN ?l). 100 * unat (scWork item) div 7)" for x
    using pplns_split_exact [of ?l 100 x] by (simp add: small_ledger_def applyFee_def)
  from this [of "''a''"] this [of "''b''"] show ?thesis by (simp add: Let_def)
qed

text \<open>C39: nothing stops a miner from being paid for the same share again. When a share below network
  difficulty was accepted, submitting the same nonce for the same job is accepted again, with the same
  credit: under PPS the balance grows by its value a second time, and under PPLNS it takes a second
  place in the window.\<close>

theorem duplicate_share_paid_again:
  assumes "SubmitShare C source None job worker nonce e = (e1, r, credit, Inr ())" "shKind r = ShareValid"
  shows "\<exists>e2. SubmitShare C source None job worker nonce e1 = (e2, r, credit, Inr ())
    \<and> sharesSeen (engLedger e2) = sharesSeen (engLedger e) + 2
    \<and> (plScheme (engLedger e) = SchemePPS \<longrightarrow> goget (plBalances (engLedger e2)) (wiAddress worker) 0
          = goget (plBalances (engLedger e)) (wiAddress worker) 0 + 2 * scValue credit)
    \<and> (plScheme (engLedger e) = SchemePPLNS \<and> int (length (pendingPPLN (engLedger e))) + 2 \<le> plWindow (engLedger e) \<longrightarrow>
          pendingPPLN (engLedger e2) = pendingPPLN (engLedger e) @ [credit, credit])"
proof -
  note s = SubmitShare_valid [OF assms] and c = CreditShare_valid [OF SubmitShare_valid(2) [OF assms] assms(2)]
  from CreditShare_again [OF s(2) c(2) assms(2)] obtain l2 where
    l2: "CreditShare (jobBlockReward job) r worker (jobID job) (jobHeight job) (Some (engLedger e1)) = (Some l2, credit)" by blast
  note c2 = CreditShare_valid [OF l2 assms(2)]
  have "SubmitShare C source None job worker nonce e1 = (e1\<lparr>engLedger := l2\<rparr>, r, credit, Inr ())"
    using s(1) l2 assms(2) by (simp add: SubmitShare_def)
  moreover have "plScheme (engLedger e) = SchemePPS \<Longrightarrow> goget (plBalances l2) (wiAddress worker) 0
      = goget (plBalances (engLedger e)) (wiAddress worker) 0 + 2 * scValue credit"
    using c(6) [of "wiAddress worker"] c2(6) [of "wiAddress worker"] c(1) by simp
  moreover have "pendingPPLN l2 = pendingPPLN (engLedger e) @ [credit, credit]"
    if "plScheme (engLedger e) = SchemePPLNS" "int (length (pendingPPLN (engLedger e))) + 2 \<le> plWindow (engLedger e)"
    using c(7) [OF that(1)] c2(7) c(1,3) that by (simp add: Let_def)
  ultimately show ?thesis using c(4) c2(4) by simp
qed

theorem duplicate_share_paid_again_witness:
  "\<exists>e1 r credit e2. SubmitShare small_crypto small_source None small_job small_worker 0 small_engine = (e1, r, credit, Inr ())
     \<and> SubmitShare small_crypto small_source None small_job small_worker 0 e1 = (e2, r, credit, Inr ())
     \<and> goget (plBalances (engLedger e2)) ''a'' 0 = 2 * scValue credit \<and> scValue credit = 256"
proof -
  obtain e1 r credit x where s: "SubmitShare small_crypto small_source None small_job small_worker 0 small_engine = (e1, r, credit, x)"
    by (metis prod_cases4)
  then have x: "x = Inr ()" "shKind r = ShareValid" "scValue credit = 256"
    using small_share by (auto simp: SubmitShare_def ValidateShare_def CreditShare_def small_job_def small_engine_def small_ledger_def
        ShareValue_def applyFee_def Let_def go_const)
  from duplicate_share_paid_again [OF s [unfolded x(1)] x(2)] obtain e2 where
    "SubmitShare small_crypto small_source None small_job small_worker 0 e1 = (e2, r, credit, Inr ())"
    "goget (plBalances (engLedger e2)) ''a'' 0 = 2 * scValue credit"
    by (auto simp: small_engine_def small_ledger_def small_worker_def)
  with s x show ?thesis by blast
qed


text \<open>Shares are classified exactly. On a job that the engine built from a template which names the pool's
  payout address as miner, a nonce is accepted exactly if its hash meets the pool's target, and it is a
  block exactly if the block that the engine submits for it passes the proof-of-work check.\<close>

theorem share_classification_exact:
  assumes "RefreshWork (Some source) now e = (e1, Inr job)" "blkMinerAddress (jobBlock job) = pcPayoutAddress (engCfg e)"
    and "ValidateShare C (Some (jobBlock job)) nonce (jobPoolDifficulty job) (jobBlockDifficulty job) = Inr r"
  shows "(shKind r = ShareBlock \<longleftrightarrow> CheckBlock C (solvedBlock e1 job nonce))
    \<and> (shKind r \<noteq> ShareInvalid \<longleftrightarrow> ValidHash (HashBlock C (solvedBlock e1 job nonce) nonce) (pcPoolDifficulty (engCfg e)))"
proof -
  have j: "jobBlockDifficulty job = blkDifficulty (jobBlock job)" "jobPoolDifficulty job = pcPoolDifficulty (engCfg e)" "engCfg e1 = engCfg e"
    using assms(1) by (auto simp: RefreshWork_def Let_def split: sum.splits option.splits)
  have "HashBlock C (solvedBlock e1 job nonce) nonce = HashBlock C (jobBlock job) nonce"
    using assms(2) j(3) by (simp add: HashBlock_def HeaderBytes_def solvedBlock_def)
  with ValidateShare_kinds [OF assms(3)] j show ?thesis by (simp add: CheckBlock_def Let_def solvedBlock_def)
qed

theorem share_classification_exact_witness:
  "\<exists>e1 job r. RefreshWork (Some small_source) 0 small_engine = (e1, Inr job)
     \<and> ValidateShare small_crypto (Some (jobBlock job)) 0 1 0xFFFFFFFF = Inr r \<and> shKind r = ShareValid
     \<and> \<not> CheckBlock small_crypto (solvedBlock e1 job 0)"
proof -
  obtain e1 job where w: "RefreshWork (Some small_source) 0 small_engine = (e1, Inr job)"
    by (simp add: RefreshWork_def small_source_def Let_def)
  then have j: "jobBlock job = small_template" "jobPoolDifficulty job = 1" "jobBlockDifficulty job = 0xFFFFFFFF"
    "pcPayoutAddress (engCfg small_engine) = ''''"
    by (auto simp: RefreshWork_def small_source_def small_engine_def DefaultConfig_def DefaultPoolDifficulty_def small_template_def Let_def)
  obtain r where r: "ValidateShare small_crypto (Some small_template) 0 1 0xFFFFFFFF = Inr r" "shKind r = ShareValid"
    using small_share by (simp add: ValidateShare_def Let_def)
  from share_classification_exact [OF w, of small_crypto 0 r] j r w show ?thesis
    by (intro exI [of _ e1] exI [of _ job] exI [of _ r]) (simp add: small_template_def)
qed

end
