(* ===== verification/Stratum.thy ===== *)
theory Stratum
  imports Pool
begin

text \<open>
  The Stratum protocol between pool and miners: \<open>pool/stratum\<close> (the server) and \<open>gpuminer/stratum\<close>
  (the miner's side: parsing of jobs, the reference search for a share, logins). A JSON value that is
  neither a string, a boolean, null nor an array is given by the text that \<open>fmt.Sprint\<close> prints for it; a
  number, which Go decodes as a floating-point number, also by its conversion to 64-bit integers.
  JSON encoding and \<open>fmt.Sscan\<close> are an argument record. A session is the loop of one connection: each
  line is one step on the engine and the session, and between two lines the engine may have been used by
  others. What is written to the connection is a list of frames; the result of a write influences only
  the log.
\<close>

section \<open>Messages\<close>

datatype json_any = JNull | JBool bool | JString string | JNumber i64 string | JOther string | JArray "json_any list"

text \<open>\<open>fmt.Sprint\<close>; the elements of an array are printed between brackets, separated by spaces.\<close>

fun Sprint :: "json_any \<Rightarrow> string" and SprintAll :: "json_any list \<Rightarrow> string" where
  "Sprint JNull = ''<nil>''"
| "Sprint (JBool b) = (if b then ''true'' else ''false'')"
| "Sprint (JString s) = s"
| "Sprint (JNumber v s) = s"
| "Sprint (JOther s) = s"
| "Sprint (JArray vs) = ''['' @ SprintAll vs @ '']''"
| "SprintAll [] = ''''"
| "SprintAll [v] = Sprint v"
| "SprintAll (v # vs) = Sprint v @ '' '' @ SprintAll vs"

record Request =
  rqID :: json_any
  rqMethod :: string
  rqParams :: "json_any list"

record ResponseError =
  reCode :: int
  reMessage :: error

record Response =
  rsID :: json_any
  rsResult :: "json_any option"
  rsError :: "ResponseError option"

record Notification =
  ntMethod :: string
  ntParams :: "json_any list"

record stratum_lib =
  marshalResponse :: "Response \<Rightarrow> bytes result"
  marshalNotification :: "Notification \<Rightarrow> bytes result"
  unmarshalRequest :: "bytes \<Rightarrow> Request result"
  sscanUint :: "string \<Rightarrow> u64 option"

definition ProtocolVersion :: string where
  [go_const]: "ProtocolVersion = ''sudharma-stratum/1.0.0''"

definition with_newline :: "bytes result \<Rightarrow> bytes result" where
  "with_newline r = (case r of Inl err \<Rightarrow> Inl err | Inr data \<Rightarrow> Inr (data @ [10]))"

definition EncodeResponse :: "stratum_lib \<Rightarrow> json_any \<Rightarrow> json_any \<Rightarrow> bytes result" where
  "EncodeResponse K ident res = with_newline (marshalResponse K \<lparr>rsID = ident, rsResult = Some res, rsError = None\<rparr>)"

definition EncodeError :: "stratum_lib \<Rightarrow> json_any \<Rightarrow> int \<Rightarrow> error \<Rightarrow> bytes result" where
  "EncodeError K ident code message =
     with_newline (marshalResponse K \<lparr>rsID = ident, rsResult = None, rsError = Some \<lparr>reCode = code, reMessage = message\<rparr>\<rparr>)"

definition EncodeNotification :: "stratum_lib \<Rightarrow> string \<Rightarrow> json_any list \<Rightarrow> bytes result" where
  "EncodeNotification K meth params = with_newline (marshalNotification K \<lparr>ntMethod = meth, ntParams = params\<rparr>)"

definition DecodeRequest :: "stratum_lib \<Rightarrow> bytes \<Rightarrow> Request result" where
  "DecodeRequest K line =
     (case unmarshalRequest K line of
       Inl err \<Rightarrow> Inl (Wrapf ''invalid stratum JSON: %w'' [] err)
     | Inr req \<Rightarrow> if rqMethod req = '''' then Inl (Errorf ''missing stratum method'' []) else Inr req)"

definition ParamString :: "json_any list \<Rightarrow> nat \<Rightarrow> string result" where
  "ParamString params index =
     (if index \<ge> length params then Inl (Errorf ''missing stratum param %d'' [dec index])
      else (case params ! index of JString v \<Rightarrow> Inr v | v \<Rightarrow> Inr (Sprint v)))"

definition ParamUint64 :: "stratum_lib \<Rightarrow> json_any list \<Rightarrow> nat \<Rightarrow> u64 result" where
  "ParamUint64 K params index =
     (case ParamString params index of
       Inl err \<Rightarrow> Inl err
     | Inr raw \<Rightarrow> (case sscanUint K raw of None \<Rightarrow> Inl (Errorf ''invalid nonce %q'' [raw]) | Some v \<Rightarrow> Inr v))"

section \<open>The server\<close>

record session =
  subscribed :: bool
  authorized :: bool
  sessionWorker :: WorkerIdentity
  extranonce1 :: string
  written :: "bytes list"

definition newSession :: "string \<Rightarrow> session" where
  "newSession extranonce = \<lparr>subscribed = False, authorized = False,
     sessionWorker = \<lparr>wiAddress = '''', wiWorkerName = '''', wiLogin = ''''\<rparr>, extranonce1 = extranonce, written = []\<rparr>"

definition writeFrame :: "bytes result \<Rightarrow> session \<Rightarrow> session" where
  "writeFrame frame s = (case frame of Inl _ \<Rightarrow> s | Inr bs \<Rightarrow> s\<lparr>written := written s @ [bs]\<rparr>)"

definition notifyParams :: "Job \<Rightarrow> json_any list" where
  "notifyParams job =
     [JString (jobID job), JString (dec (unat (jobHeight job))), JString (jobParent job), JString (blkMerkleRoot (jobBlock job)),
      JString (dec (unat (jobPoolDifficulty job))), JString (dec (unat (jobBlockDifficulty job))), JString (jobPoolTarget job),
      JString (dec_int (jobTimestamp job)), JString (dec (unat (jobVersion job))), JString (blkMinerAddress (jobBlock job)), JBool True]"

definition pushJob :: "stratum_lib \<Rightarrow> work_source option \<Rightarrow> i64 \<Rightarrow> Engine \<Rightarrow> session \<Rightarrow> Engine \<times> session" where
  "pushJob K sourcep now e s =
     (case RefreshWork sourcep now e of
        (e1, Inl _) \<Rightarrow> (e1, s)
      | (e1, Inr job) \<Rightarrow> (e1, writeFrame (EncodeNotification K ''mining.notify'' (notifyParams job)) s))"


text \<open>One turn of the loop. The context error is that of the session when a share is submitted.\<close>

definition handleAuthorize :: "stratum_lib \<Rightarrow> work_source option \<Rightarrow> i64 \<Rightarrow> Request \<Rightarrow> Engine \<Rightarrow> session \<Rightarrow> Engine \<times> session" where
  "handleAuthorize K sourcep now req e s =
     (case ParamString (rqParams req) 0 of
       Inl err \<Rightarrow> (e, writeFrame (EncodeError K (rqID req) 24 err) s)
     | Inr login \<Rightarrow>
     (case ParseWorkerIdentity login of
       Inl err \<Rightarrow> (e, writeFrame (EncodeError K (rqID req) 24 err)
           (s\<lparr>sessionWorker := \<lparr>wiAddress = '''', wiWorkerName = '''', wiLogin = ''''\<rparr>\<rparr>))
     | Inr worker \<Rightarrow>
     (let s1 = writeFrame (EncodeResponse K (rqID req) (JBool True)) (s\<lparr>sessionWorker := worker, authorized := True\<rparr>)
      in if subscribed s then pushJob K sourcep now e s1 else (e, s1))))"

definition handleSubmit ::
  "stratum_lib \<Rightarrow> crypto \<Rightarrow> work_source \<Rightarrow> error option \<Rightarrow> i64 \<Rightarrow> Request \<Rightarrow> Engine \<Rightarrow> session \<Rightarrow> Engine \<times> session" where
  "handleSubmit K C source ctxErr now req e s =
     (if \<not> authorized s then (e, writeFrame (EncodeError K (rqID req) 25 (Errorf ''authorize required'' [])) s)
      else (case ParamString (rqParams req) 1 of
        Inl err \<Rightarrow> (e, writeFrame (EncodeError K (rqID req) 21 err) s)
      | Inr ident \<Rightarrow>
      (case ParamUint64 K (rqParams req) 2 of
        Inl err \<Rightarrow> (e, writeFrame (EncodeError K (rqID req) 21 err) s)
      | Inr nonce \<Rightarrow>
      if jobID (engCurrent e) \<noteq> ident then (e, writeFrame (EncodeError K (rqID req) 21 (Errorf ''stale job'' [])) s)
      else (case SubmitShare C source ctxErr (engCurrent e) (sessionWorker s) nonce e of
        (e1, share, credit, Inl err) \<Rightarrow> (e1, writeFrame (EncodeError K (rqID req) 23 err) s)
      | (e1, share, credit, Inr _) \<Rightarrow>
        (let s1 = writeFrame (EncodeResponse K (rqID req) (JBool True)) s in
         if shKind share = ShareBlock then pushJob K (Some source) now e1 s1 else (e1, s1))))))"

definition handleLine ::
  "stratum_lib \<Rightarrow> crypto \<Rightarrow> work_source \<Rightarrow> error option \<Rightarrow> i64 \<Rightarrow> bytes \<Rightarrow> Engine \<times> session \<Rightarrow> Engine \<times> session" where
  "handleLine K C source ctxErr now line es =
     (case es of (e, s) \<Rightarrow>
     (case DecodeRequest K line of
       Inl err \<Rightarrow> (e, writeFrame (EncodeError K JNull 20 err) s)
     | Inr req \<Rightarrow>
       if rqMethod req = ''mining.subscribe''
       then (e, writeFrame (EncodeResponse K (rqID req)
           (JArray [JArray [JArray [JString ''mining.notify'', JString (extranonce1 s), JString ProtocolVersion]],
             JString (extranonce1 s), JNumber 4 ''4'']))
           (s\<lparr>subscribed := True\<rparr>))
       else if rqMethod req = ''mining.authorize'' then handleAuthorize K (Some source) now req e s
       else if rqMethod req = ''mining.submit'' then handleSubmit K C source ctxErr now req e s
       else (e, writeFrame (EncodeError K (rqID req) 20 (Errorf ''unsupported method %q'' [rqMethod req])) s)))"

text \<open>A line that arrives: what others did to the engine before, the clock, and whether the session has
  been cancelled. The list ends where reading fails.\<close>

record arrival =
  arrOthers :: "Engine \<Rightarrow> Engine"
  arrDone :: bool
  arrContext :: "error option"
  arrNow :: i64
  arrLine :: bytes

fun handleConn :: "stratum_lib \<Rightarrow> crypto \<Rightarrow> work_source \<Rightarrow> arrival list \<Rightarrow> Engine \<times> session \<Rightarrow> Engine \<times> session" where
  "handleConn K C source [] es = es"
| "handleConn K C source (a # rest) es =
     (if arrDone a then es
      else handleConn K C source rest
        (handleLine K C source (arrContext a) (arrNow a) (arrLine a) (arrOthers a (fst es), snd es)))"

section \<open>The miner\<close>

definition paramString :: "json_any list \<Rightarrow> nat \<Rightarrow> string result" where
  "paramString params index =
     (if index \<ge> length params then Inl (Errorf ''missing param %d'' [dec index])
      else (case params ! index of JString v \<Rightarrow> Inr v | JNumber v _ \<Rightarrow> Inr (dec_int v) | v \<Rightarrow> Inr (Sprint v)))"

definition paramUint64 :: "json_any list \<Rightarrow> nat \<Rightarrow> u64 result" where
  "paramUint64 params index =
     (case paramString params index of
       Inl err \<Rightarrow> Inl err
     | Inr raw \<Rightarrow> (case ParseUint64 raw of
         None \<Rightarrow> Inl (Errorf ''invalid uint64 param %d: %q'' [dec index, raw]) | Some v \<Rightarrow> Inr v))"

definition paramUint32 :: "json_any list \<Rightarrow> nat \<Rightarrow> u32 result" where
  "paramUint32 params index =
     (case paramUint64 params index of
       Inl err \<Rightarrow> Inl err
     | Inr v \<Rightarrow> if v > 0xFFFFFFFF then Inl (Errorf ''param %d overflows uint32'' [dec index]) else Inr (ucast v))"

definition paramInt64 :: "json_any list \<Rightarrow> nat \<Rightarrow> i64 result" where
  "paramInt64 params index =
     (case paramString params index of
       Inl err \<Rightarrow> Inl err
     | Inr raw \<Rightarrow> (case ParseInt64 raw of
         None \<Rightarrow> Inl (Errorf ''invalid int64 param %d: %q'' [dec index, raw]) | Some v \<Rightarrow> Inr v))"

definition paramBool :: "json_any list \<Rightarrow> nat \<Rightarrow> bool result" where
  "paramBool params index =
     (case paramString params index of
       Inl err \<Rightarrow> Inl err
     | Inr raw \<Rightarrow>
       (let v = ToLower raw in
        if v = ''true'' \<or> v = ''1'' then Inr True
        else if v = ''false'' \<or> v = ''0'' then Inr False
        else Inl (Errorf ''invalid bool param %d: %q'' [dec index, raw])))"

record MinerJob =
  mjID :: string
  mjHeight :: u64
  mjParent :: string
  mjMerkleRoot :: string
  mjPoolDifficulty :: u32
  mjBlockDifficulty :: u32
  mjPoolTarget :: string
  mjTimestamp :: i64
  mjVersion :: u32
  mjMinerAddress :: string
  mjClean :: bool
  mjBlock :: block

definition ParseNotify :: "json_any list \<Rightarrow> MinerJob result" where
  "ParseNotify params =
     (if length params < 11 then Inl (Errorf ''mining.notify requires 11 params, got %d'' [dec (length params)])
      else (case paramString params 0 of Inl err \<Rightarrow> Inl err | Inr ident \<Rightarrow>
      (case paramUint64 params 1 of Inl err \<Rightarrow> Inl err | Inr height \<Rightarrow>
      (case paramString params 2 of Inl err \<Rightarrow> Inl err | Inr parent \<Rightarrow>
      (case paramString params 3 of Inl err \<Rightarrow> Inl err | Inr merkle \<Rightarrow>
      (case paramUint32 params 4 of Inl err \<Rightarrow> Inl err | Inr poolDiff \<Rightarrow>
      (case paramUint32 params 5 of Inl err \<Rightarrow> Inl err | Inr blockDiff \<Rightarrow>
      (case paramString params 6 of Inl err \<Rightarrow> Inl err | Inr target \<Rightarrow>
      (case paramInt64 params 7 of Inl err \<Rightarrow> Inl err | Inr timestamp \<Rightarrow>
      (case paramUint32 params 8 of Inl err \<Rightarrow> Inl err | Inr version \<Rightarrow>
      (case paramString params 9 of Inl err \<Rightarrow> Inl err | Inr minerAddress \<Rightarrow>
      (case paramBool params 10 of Inl err \<Rightarrow> Inl err | Inr clean \<Rightarrow>
      (let address = ToLower (TrimSpace minerAddress);
           block = \<lparr>blkVersion = version, blkHeight = height, blkTimestamp = timestamp, blkPreviousHash = parent,
             blkMerkleRoot = merkle, blkDifficulty = blockDiff, blkNonce = 0, blkMinerAddress = address, blkTransactions = []\<rparr>
       in Inr \<lparr>mjID = ident, mjHeight = height, mjParent = parent, mjMerkleRoot = merkle, mjPoolDifficulty = poolDiff,
            mjBlockDifficulty = blockDiff, mjPoolTarget = target, mjTimestamp = timestamp, mjVersion = version,
            mjMinerAddress = address, mjClean = clean, mjBlock = block\<rparr>)))))))))))))"

text \<open>The reference search: blocks of a hundred thousand nonces, with a look at the context before each. It ends
  when a share is found, validation fails or the context is cancelled; otherwise it runs on, which is \<open>None\<close>.\<close>

definition shareChunk :: nat where
  "shareChunk = 100000"

fun scanChunk :: "crypto \<Rightarrow> MinerJob \<Rightarrow> u64 \<Rightarrow> nat \<Rightarrow> (u64 \<times> ShareResult) option result" where
  "scanChunk C job nonce 0 = Inr None"
| "scanChunk C job nonce (Suc k) =
     (case ValidateShare C (Some (mjBlock job)) nonce (mjPoolDifficulty job) (mjBlockDifficulty job) of
        Inl err \<Rightarrow> Inl err
      | Inr share \<Rightarrow>
          if shKind share = ShareValid \<or> shKind share = ShareBlock then Inr (Some (nonce, share))
          else scanChunk C job (nonce + 1) k)"

partial_function (option) mineShareFrom ::
  "crypto \<Rightarrow> (nat \<Rightarrow> error option) \<Rightarrow> MinerJob \<Rightarrow> nat \<Rightarrow> u64 \<Rightarrow> (u64 \<times> ShareResult) result option" where
  "mineShareFrom C ctx job i start =
     (case ctx i of
        Some err \<Rightarrow> Some (Inl err)
      | None \<Rightarrow>
          (case scanChunk C job start shareChunk of
             Inl err \<Rightarrow> Some (Inl err)
           | Inr (Some found) \<Rightarrow> Some (Inr found)
           | Inr None \<Rightarrow> mineShareFrom C ctx job (Suc i) (start + of_nat shareChunk)))"

definition MineShare :: "crypto \<Rightarrow> (nat \<Rightarrow> error option) \<Rightarrow> MinerJob \<Rightarrow> (u64 \<times> ShareResult) result option" where
  "MineShare C ctx job = mineShareFrom C ctx job 0 0"

definition WorkerLogin :: "string \<Rightarrow> string \<Rightarrow> string result" where
  "WorkerLogin address worker =
     (let address1 = ToLower (TrimSpace address);
          login = (if worker \<noteq> '''' \<and> worker \<noteq> ''default'' then address1 @ ''.'' @ worker else address1)
      in case ParseWorkerIdentity login of Inl err \<Rightarrow> Inl err | Inr identity \<Rightarrow> Inr (wiLogin identity))"

definition ParsePoolURL :: "string \<Rightarrow> string result" where
  "ParsePoolURL raw =
     (let trimmed = TrimSpace raw in
      if trimmed = '''' then Inl (Errorf ''stratum pool URL is required'' [])
      else (let host = TrimPrefix (TrimPrefix trimmed ''stratum+tcp://'') ''tcp://'' in
            if CHR '':'' \<notin> set host then Inl (Errorf ''stratum pool URL must include host:port'' []) else Inr host))"


section \<open>Job identifiers\<close>

lemma dash_not_dec: "CHR ''-'' \<notin> set (dec n)"
  using set_dec [of "CHR ''-''" n] by auto

lemma job_ident_eq: "''sudh-'' @ dec h @ ''-'' @ dec s = ''sudh-'' @ dec h' @ ''-'' @ dec s' \<longleftrightarrow> h = h' \<and> s = s'"
  using separator_split [OF dash_not_dec [of h] dash_not_dec [of h'], of "dec s" "dec s'"] by auto

lemma RefreshWork_ok:
  assumes "RefreshWork sourcep now e = (e1, Inr job)"
  obtains h where "jobID job = ''sudh-'' @ dec h @ ''-'' @ dec (unat (engBlockSeq e + 1))"
    "engCurrent e1 = job" "engBlockSeq e1 = engBlockSeq e + 1" "engLedger e1 = engLedger e" "engCfg e1 = engCfg e"
  using assms by (auto simp: RefreshWork_def Let_def split: sum.splits option.splits)

lemma refreshed_twice:
  assumes "RefreshWork sourcep now e = (e1, Inr job1)" "RefreshWork sourcep' now' e1 = (e2, Inr job2)"
  shows "jobID job2 \<noteq> jobID job1"
proof -
  obtain h where h: "jobID job1 = ''sudh-'' @ dec h @ ''-'' @ dec (unat (engBlockSeq e + 1))" "engBlockSeq e1 = engBlockSeq e + 1"
    by (rule RefreshWork_ok [OF assms(1)])
  obtain h' where h': "jobID job2 = ''sudh-'' @ dec h' @ ''-'' @ dec (unat (engBlockSeq e1 + 1))"
    by (rule RefreshWork_ok [OF assms(2)])
  have "engBlockSeq e1 + 1 \<noteq> engBlockSeq e1" by simp
  then have "unat (engBlockSeq e1 + 1) \<noteq> unat (engBlockSeq e + 1)" unfolding h(2) by (simp add: word_unat_eq_iff)
  with h(1) h' show ?thesis by (simp only: job_ident_eq) simp
qed

section \<open>Jobs on the wire\<close>

lemma ParseInt64_dec_int: "- (2 ^ 63) \<le> x \<Longrightarrow> x < 2 ^ 63 \<Longrightarrow> ParseInt64 (dec_int x) = Some x"
  using SetString10_dec [of "nat x"] SetString10_minus [of "nat (- x)"] by (simp add: ParseInt64_def dec_int_def)

text \<open>The template that the node hands out agrees with the fields beside it and pays to a wallet.\<close>

definition job_sound :: "Job \<Rightarrow> bool" where
  "job_sound job \<longleftrightarrow> blkHeight (jobBlock job) = jobHeight job \<and> blkPreviousHash (jobBlock job) = jobParent job
     \<and> blkTimestamp (jobBlock job) = jobTimestamp job \<and> blkVersion (jobBlock job) = jobVersion job
     \<and> blkDifficulty (jobBlock job) = jobBlockDifficulty job \<and> walletPattern (blkMinerAddress (jobBlock job))
     \<and> - (2 ^ 63) \<le> jobTimestamp job \<and> jobTimestamp job < 2 ^ 63"

lemma unat_u32_bounds: "unat (x :: u32) < 2 ^ 64" "unat (x :: u32) \<le> 0xFFFFFFFF"
  using unat_less_32 [of x] by simp_all

lemma param_reads:
  assumes "i < length ps"
  shows "ps ! i = JString (dec (unat (x :: u64))) \<Longrightarrow> paramUint64 ps i = Inr x"
    and "ps ! i = JString (dec (unat (y :: u32))) \<Longrightarrow> paramUint32 ps i = Inr y"
    and "ps ! i = JString (dec_int z) \<Longrightarrow> - (2 ^ 63) \<le> z \<Longrightarrow> z < 2 ^ 63 \<Longrightarrow> paramInt64 ps i = Inr z"
    and "ps ! i = JString s \<Longrightarrow> paramString ps i = Inr s"
    and "ps ! i = JBool b \<Longrightarrow> paramBool ps i = Inr b"
proof -
  show "ps ! i = JString (dec (unat x)) \<Longrightarrow> paramUint64 ps i = Inr x"
    using assms ParseUint64_dec [of "unat x"] unat_less_64 [of x] by (simp add: paramUint64_def paramString_def)
  have "unat (of_nat (unat y) :: u64) = unat y" using unat_of_nat_64 [OF unat_u32_bounds(1) [of y]] .
  then have "\<not> (0xFFFFFFFF :: u64) < of_nat (unat y)" using unat_u32_bounds(2) [of y] unfolding word_less_nat_alt by simp
  moreover have "(ucast (of_nat (unat y) :: u64) :: u32) = y" by (simp add: word_unat_eq_iff unsigned_ucast_eq take_bit_word_eq_self)
  ultimately show "ps ! i = JString (dec (unat y)) \<Longrightarrow> paramUint32 ps i = Inr y"
    using assms ParseUint64_dec [OF unat_u32_bounds(1) [of y]] by (simp add: paramUint32_def paramUint64_def paramString_def)
  show "ps ! i = JString (dec_int z) \<Longrightarrow> - (2 ^ 63) \<le> z \<Longrightarrow> z < 2 ^ 63 \<Longrightarrow> paramInt64 ps i = Inr z"
    using assms ParseInt64_dec_int [of z] by (simp add: paramInt64_def paramString_def)
  show "ps ! i = JString s \<Longrightarrow> paramString ps i = Inr s" using assms by (simp add: paramString_def)
  show "ps ! i = JBool b \<Longrightarrow> paramBool ps i = Inr b"
    using assms by (simp add: paramBool_def paramString_def ToLower_def lower_char_def Let_def)
qed

lemma ParseNotify_job:
  assumes "job_sound job"
  shows "\<exists>mj. ParseNotify (notifyParams job) = Inr mj \<and> mjID mj = jobID job \<and> mjPoolDifficulty mj = jobPoolDifficulty job
    \<and> mjBlockDifficulty mj = jobBlockDifficulty job
    \<and> mjBlock mj = (jobBlock job)\<lparr>blkNonce := 0, blkTransactions := []\<rparr>"
proof -
  let ?ps = "notifyParams job"
  have len: "length ?ps = 11" by (simp add: notifyParams_def)
  have ts: "- (2 ^ 63) \<le> jobTimestamp job" "jobTimestamp job < 2 ^ 63" using assms by (auto simp: job_sound_def)
  have "paramString ?ps 0 = Inr (jobID job)" "paramUint64 ?ps 1 = Inr (jobHeight job)" "paramString ?ps 2 = Inr (jobParent job)"
    "paramString ?ps 3 = Inr (blkMerkleRoot (jobBlock job))" "paramUint32 ?ps 4 = Inr (jobPoolDifficulty job)"
    "paramUint32 ?ps 5 = Inr (jobBlockDifficulty job)" "paramString ?ps 6 = Inr (jobPoolTarget job)"
    "paramInt64 ?ps 7 = Inr (jobTimestamp job)" "paramUint32 ?ps 8 = Inr (jobVersion job)"
    "paramString ?ps 9 = Inr (blkMinerAddress (jobBlock job))" "paramBool ?ps 10 = Inr True"
    by (rule param_reads; use ts in \<open>simp add: notifyParams_def\<close>)+
  moreover have "ToLower (TrimSpace (blkMinerAddress (jobBlock job))) = blkMinerAddress (jobBlock job)"
    using assms by (intro lower_hex_plain) (auto simp: job_sound_def walletPattern_def)
  ultimately show ?thesis using assms len by (simp add: ParseNotify_def job_sound_def Let_def)
qed


section \<open>The search for a share\<close>

lemma ValidateShare_total:
  assumes "p \<noteq> 0" "p \<le> d"
  shows "\<exists>r. ValidateShare C (Some b) nonce p d = Inr r"
  using assms by (auto simp: ValidateShare_def Let_def)

lemma scanChunk_none:
  assumes "mjPoolDifficulty job \<noteq> 0" "mjPoolDifficulty job \<le> mjBlockDifficulty job"
    and "\<forall>i<k. \<not> ValidHash (HashBlock C (mjBlock job) (n + of_nat i)) (mjPoolDifficulty job)"
  shows "scanChunk C job n k = Inr None"
  using assms(3)
proof (induction k arbitrary: n)
  case (Suc k)
  obtain r where r: "ValidateShare C (Some (mjBlock job)) n (mjPoolDifficulty job) (mjBlockDifficulty job) = Inr r"
    using ValidateShare_total [OF assms(1,2)] by blast
  have "shKind r = ShareInvalid" using ValidateShare_kinds(2) [OF r] Suc.prems by (auto dest: spec [of _ 0])
  moreover have "scanChunk C job (n + 1) k = Inr None"
    by (rule Suc.IH) (use Suc.prems in \<open>auto dest: spec [of _ "Suc _"] simp: ac_simps\<close>)
  ultimately show ?case using r by simp
qed simp

lemma scanChunk_first:
  assumes "mjPoolDifficulty job \<noteq> 0" "mjPoolDifficulty job \<le> mjBlockDifficulty job"
    and "i < k" "ValidHash (HashBlock C (mjBlock job) (n + of_nat i)) (mjPoolDifficulty job)"
    and "\<forall>j<i. \<not> ValidHash (HashBlock C (mjBlock job) (n + of_nat j)) (mjPoolDifficulty job)"
  shows "\<exists>r. scanChunk C job n k = Inr (Some (n + of_nat i, r))
    \<and> ValidateShare C (Some (mjBlock job)) (n + of_nat i) (mjPoolDifficulty job) (mjBlockDifficulty job) = Inr r"
  using assms(3-5)
proof (induction k arbitrary: n i)
  case (Suc k)
  obtain r where r: "ValidateShare C (Some (mjBlock job)) n (mjPoolDifficulty job) (mjBlockDifficulty job) = Inr r"
    using ValidateShare_total [OF assms(1,2)] by blast
  note kind = ValidateShare_kinds(2) [OF r]
  show ?case
  proof (cases i)
    case 0
    then have "shKind r \<noteq> ShareInvalid" using kind Suc.prems(2) by simp
    with 0 r show ?thesis by (cases "shKind r") simp_all
  next
    case (Suc j)
    then have "shKind r = ShareInvalid" using kind Suc.prems(3) by (auto dest: spec [of _ 0])
    moreover have "\<exists>r. scanChunk C job (n + 1) k = Inr (Some (n + 1 + of_nat j, r))
        \<and> ValidateShare C (Some (mjBlock job)) (n + 1 + of_nat j) (mjPoolDifficulty job) (mjBlockDifficulty job) = Inr r"
      by (rule Suc.IH) (use Suc Suc.prems in \<open>auto dest: spec [of _ "Suc _"] simp: ac_simps\<close>)
    ultimately show ?thesis using r Suc by (simp add: ac_simps)
  qed
qed simp

lemma mineShareFrom_first:
  assumes "mjPoolDifficulty job \<noteq> 0" "mjPoolDifficulty job \<le> mjBlockDifficulty job" "\<forall>i. ctx i = None"
    and "B \<le> N" "ValidHash (HashBlock C (mjBlock job) (of_nat N)) (mjPoolDifficulty job)"
    and "\<forall>j. B \<le> j \<and> j < N \<longrightarrow> \<not> ValidHash (HashBlock C (mjBlock job) (of_nat j)) (mjPoolDifficulty job)"
  shows "\<exists>r. mineShareFrom C ctx job i (of_nat B) = Some (Inr (of_nat N, r))
    \<and> ValidateShare C (Some (mjBlock job)) (of_nat N) (mjPoolDifficulty job) (mjBlockDifficulty job) = Inr r"
  using assms(4,6)
proof (induction "N - B" arbitrary: B i rule: less_induct)
  case less
  have at: "(of_nat B :: u64) + of_nat k = of_nat (B + k)" for k by simp
  show ?case
  proof (cases "N - B < shareChunk")
    case True
    have "\<exists>r. scanChunk C job (of_nat B) shareChunk = Inr (Some (of_nat B + of_nat (N - B), r))
        \<and> ValidateShare C (Some (mjBlock job)) (of_nat B + of_nat (N - B)) (mjPoolDifficulty job) (mjBlockDifficulty job) = Inr r"
      by (rule scanChunk_first [OF assms(1,2) True]) (use less.prems assms(5) in \<open>auto simp: at simp del: of_nat_add\<close>)
    then show ?thesis using less.prems(1) assms(3) by (subst mineShareFrom.simps) (auto simp: at simp del: of_nat_add)
  next
    case False
    have "scanChunk C job (of_nat B) shareChunk = Inr None"
      by (rule scanChunk_none [OF assms(1,2)]) (use less.prems False in \<open>auto simp: at simp del: of_nat_add\<close>)
    moreover have "\<exists>r. mineShareFrom C ctx job (Suc i) (of_nat (B + shareChunk)) = Some (Inr (of_nat N, r))
        \<and> ValidateShare C (Some (mjBlock job)) (of_nat N) (mjPoolDifficulty job) (mjBlockDifficulty job) = Inr r"
      by (rule less.hyps) (use less.prems False in \<open>auto simp: shareChunk_def\<close>)
    ultimately show ?thesis using assms(3) by (subst mineShareFrom.simps) simp
  qed
qed


lemma announced_job_mined:
  assumes "job_sound job" "jobPoolDifficulty job \<noteq> 0" "jobPoolDifficulty job \<le> jobBlockDifficulty job"
    and "ValidHash (HashBlock C (jobBlock job) n) (jobPoolDifficulty job)"
  shows "\<exists>mj nonce r. ParseNotify (notifyParams job) = Inr mj \<and> mjID mj = jobID job \<and> MineShare C (\<lambda>_. None) mj = Some (Inr (nonce, r))
    \<and> ValidateShare C (Some (jobBlock job)) nonce (jobPoolDifficulty job) (jobBlockDifficulty job) = Inr r
    \<and> shKind r \<noteq> ShareInvalid \<and> nonce \<le> n"
proof -
  let ?good = "\<lambda>N. ValidHash (HashBlock C (jobBlock job) (of_nat N)) (jobPoolDifficulty job)"
  from ParseNotify_job [OF assms(1)] obtain mj where mj: "ParseNotify (notifyParams job) = Inr mj" "mjID mj = jobID job"
    "mjPoolDifficulty mj = jobPoolDifficulty job" "mjBlockDifficulty mj = jobBlockDifficulty job"
    "mjBlock mj = (jobBlock job)\<lparr>blkNonce := 0, blkTransactions := []\<rparr>" by blast
  have hash: "HashBlock C (mjBlock mj) v = HashBlock C (jobBlock job) v" for v by (simp add: mj(5) HashBlock_def HeaderBytes_def)
  define N where "N = (LEAST N. ?good N)"
  have "?good (unat n)" using assms(4) by simp
  then have good: "?good N" and le: "N \<le> unat n" unfolding N_def by (rule LeastI, rule Least_le)
  have "\<exists>r. mineShareFrom C (\<lambda>_. None) mj 0 (of_nat 0) = Some (Inr (of_nat N, r))
      \<and> ValidateShare C (Some (mjBlock mj)) (of_nat N) (mjPoolDifficulty mj) (mjBlockDifficulty mj) = Inr r"
    by (rule mineShareFrom_first)
      (use assms(2,3) good in \<open>auto simp: mj(3,4) hash N_def dest: not_less_Least\<close>)
  then obtain r where r: "MineShare C (\<lambda>_. None) mj = Some (Inr (of_nat N, r))"
    "ValidateShare C (Some (mjBlock mj)) (of_nat N) (mjPoolDifficulty mj) (mjBlockDifficulty mj) = Inr r" by (auto simp: MineShare_def)
  then have v: "ValidateShare C (Some (jobBlock job)) (of_nat N) (jobPoolDifficulty job) (jobBlockDifficulty job) = Inr r"
    by (simp only: ValidateShare_def option.case mj(3,4) hash)
  have kind: "shKind r \<noteq> ShareInvalid" using ValidateShare_kinds(2) [OF v] good by simp
  have "(of_nat N :: u64) \<le> n"
    using le unat_of_nat_64 [of N] unat_less_64 [of n] unfolding word_le_nat_alt by simp
  with mj(1,2) r(1) v kind show ?thesis by blast
qed

section \<open>Submissions\<close>

lemma payments_sharesSeen: "sharesSeen (foldl (\<lambda>m item. addBalance (f item) (g item) m) l items) = sharesSeen l"
  by (induction items arbitrary: l) simp_all

lemma distribute_sharesSeen [simp]: "sharesSeen (distributePPLNSLocked reward l) = sharesSeen l"
  by (simp add: distributePPLNSLocked_def payments_sharesSeen Let_def)

lemma CreditShare_sharesSeen:
  "\<exists>l1 credit. CreditShare reward r worker ident height (Some l) = (Some l1, credit) \<and> sharesSeen l1 = sharesSeen l + 1"
  by (simp add: CreditShare_def pushPending_def Let_def)

lemma SubmitShare_counts:
  assumes "ValidateShare C (Some (jobBlock job)) nonce (jobPoolDifficulty job) (jobBlockDifficulty job) = Inr r" "shKind r \<noteq> ShareInvalid"
  shows "sharesSeen (engLedger (fst (SubmitShare C source None job worker nonce e))) = sharesSeen (engLedger e) + 1"
proof -
  obtain l1 credit where "CreditShare (jobBlockReward job) r worker (jobID job) (jobHeight job) (Some (engLedger e)) = (Some l1, credit)"
    "sharesSeen l1 = sharesSeen (engLedger e) + 1" using CreditShare_sharesSeen by blast
  with assms show ?thesis by (simp add: SubmitShare_def Let_def split: sum.split)
qed

lemma pushJob_ledger: "engLedger (fst (pushJob K sourcep now e s)) = engLedger e"
  by (auto simp: pushJob_def RefreshWork_def Let_def split: option.splits sum.splits)

lemma handleSubmit_counts:
  assumes "authorized s" "ParamString (rqParams req) 1 = Inr (jobID (engCurrent e))" "ParamUint64 K (rqParams req) 2 = Inr nonce"
    and "ValidateShare C (Some (jobBlock (engCurrent e))) nonce (jobPoolDifficulty (engCurrent e)) (jobBlockDifficulty (engCurrent e)) = Inr r"
    and "shKind r \<noteq> ShareInvalid"
  shows "sharesSeen (engLedger (fst (handleSubmit K C source None now req e s))) = sharesSeen (engLedger e) + 1"
proof -
  obtain e1 share credit x where s: "SubmitShare C source None (engCurrent e) (sessionWorker s) nonce e = (e1, share, credit, x)"
    by (metis prod_cases4)
  have "sharesSeen (engLedger e1) = sharesSeen (engLedger e) + 1" using SubmitShare_counts [OF assms(4,5)] s by (metis fst_conv)
  with assms(1-3) s show ?thesis by (simp add: handleSubmit_def pushJob_ledger Let_def split: sum.split)
qed

section \<open>Properties\<close>

text \<open>A miner that follows the protocol finds a share and is credited. When the current job is well-formed and
  some nonce meets the pool's target, the miner's side parses the notification, its search ends with the
  first such nonce, and submitting it on an authorized session is counted in the ledger. The only
  assumption on the library is that \<open>fmt.Sscan\<close> reads a decimal number.\<close>

theorem pool_job_mined_and_credited:
  assumes "job_sound (engCurrent e)" "jobPoolDifficulty (engCurrent e) \<noteq> 0" "jobPoolDifficulty (engCurrent e) \<le> jobBlockDifficulty (engCurrent e)"
    and "ValidHash (HashBlock C (jobBlock (engCurrent e)) n) (jobPoolDifficulty (engCurrent e))"
    and "authorized s" "\<forall>v. sscanUint K (dec (unat v)) = Some v"
  shows "\<exists>mj nonce r. ParseNotify (notifyParams (engCurrent e)) = Inr mj \<and> MineShare C (\<lambda>_. None) mj = Some (Inr (nonce, r))
    \<and> shKind r \<noteq> ShareInvalid \<and> nonce \<le> n
    \<and> sharesSeen (engLedger (fst (handleSubmit K C source None now \<lparr>rqID = ident, rqMethod = ''mining.submit'',
          rqParams = [JString login, JString (mjID mj), JString (dec (unat nonce))]\<rparr> e s))) = sharesSeen (engLedger e) + 1"
proof -
  from announced_job_mined [OF assms(1-4)] obtain mj nonce r where m: "ParseNotify (notifyParams (engCurrent e)) = Inr mj"
    "mjID mj = jobID (engCurrent e)" "MineShare C (\<lambda>_. None) mj = Some (Inr (nonce, r))"
    "ValidateShare C (Some (jobBlock (engCurrent e))) nonce (jobPoolDifficulty (engCurrent e)) (jobBlockDifficulty (engCurrent e)) = Inr r"
    "shKind r \<noteq> ShareInvalid" "nonce \<le> n" by blast
  have "sharesSeen (engLedger (fst (handleSubmit K C source None now \<lparr>rqID = ident, rqMethod = ''mining.submit'',
      rqParams = [JString login, JString (mjID mj), JString (dec (unat nonce))]\<rparr> e s))) = sharesSeen (engLedger e) + 1"
    by (rule handleSubmit_counts [OF assms(5) _ _ m(4,5)]) (simp_all add: ParamString_def ParamUint64_def m(2) assms(6))
  with m show ?thesis by blast
qed


theorem pool_job_mined_and_credited_witness:
  "\<exists>K mj nonce r. let e = small_engine\<lparr>engCurrent := small_job\<lparr>jobBlock := small_template\<lparr>blkMinerAddress := replicate 40 (CHR ''0'')\<rparr>\<rparr>\<rparr>;
       s = (newSession '''')\<lparr>authorized := True\<rparr> in
     ParseNotify (notifyParams (engCurrent e)) = Inr mj \<and> MineShare small_crypto (\<lambda>_. None) mj = Some (Inr (nonce, r)) \<and> nonce = 0
     \<and> sharesSeen (engLedger (fst (handleSubmit K small_crypto small_source None 0 \<lparr>rqID = JNull, rqMethod = ''mining.submit'',
          rqParams = [JString '''', JString (mjID mj), JString (dec (unat nonce))]\<rparr> e s))) = 1"
proof -
  let ?b = "small_template\<lparr>blkMinerAddress := replicate 40 (CHR ''0'')\<rparr>"
  let ?e = "small_engine\<lparr>engCurrent := small_job\<lparr>jobBlock := ?b\<rparr>\<rparr>" and ?s = "(newSession '''')\<lparr>authorized := True\<rparr>"
  let ?K = "\<lparr>marshalResponse = (\<lambda>_. Inr []), marshalNotification = (\<lambda>_. Inr []), unmarshalRequest = (\<lambda>_. Inl JSONInvalid),
      sscanUint = ParseUint64\<rparr>"
  have sound: "job_sound (engCurrent ?e)"
    by (simp add: job_sound_def small_job_def small_template_def walletPattern_def is_lower_hex_def list_all_iff)
  have "int (be_nat (sha256 small_crypto x)) \<le> 2 ^ 256 - 1" for x
    using be_nat_bound [of "sha256 small_crypto x"] by simp
  then have valid: "ValidHash (HashBlock small_crypto (jobBlock (engCurrent ?e)) 0) (jobPoolDifficulty (engCurrent ?e))"
    by (simp add: ValidHash_def HashBlock_def sha256Hash_def TargetFromDifficulty_def small_job_def Let_def)
  have "jobPoolDifficulty (engCurrent ?e) \<noteq> 0" "jobPoolDifficulty (engCurrent ?e) \<le> jobBlockDifficulty (engCurrent ?e)"
    "authorized ?s" "\<forall>v. sscanUint ?K (dec (unat v)) = Some v"
    using ParseUint64_dec unat_less_64 by (simp_all add: small_job_def)
  from pool_job_mined_and_credited [OF sound this(1,2) valid this(3,4), of small_source 0 JNull "''''"]
  obtain mj nonce r where m: "ParseNotify (notifyParams (engCurrent ?e)) = Inr mj" "MineShare small_crypto (\<lambda>_. None) mj = Some (Inr (nonce, r))"
    "nonce \<le> 0" "sharesSeen (engLedger (fst (handleSubmit ?K small_crypto small_source None 0 \<lparr>rqID = JNull, rqMethod = ''mining.submit'',
          rqParams = [JString '''', JString (mjID mj), JString (dec (unat nonce))]\<rparr> ?e ?s))) = sharesSeen (engLedger ?e) + 1" by blast
  have "nonce = 0" "sharesSeen (engLedger ?e) + 1 = 1" using m(3) by (simp_all add: small_engine_def small_ledger_def)
  with m show ?thesis unfolding Let_def by (intro exI [of _ ?K] exI [of _ mj] exI [of _ nonce] exI [of _ r]) simp
qed

text \<open>A refresh of the work strands every miner that is at work. A job is announced only to the session that
  caused the refresh; the timer of the pool announces it to nobody. After any further refresh the
  identifier of the current job differs, even if the template is the same, so every share that an
  authorized miner found for the job announced to it is refused as stale, and nothing is credited.\<close>

theorem refresh_strands_miners:
  assumes "RefreshWork sourcep now e = (e1, Inr job)" "RefreshWork sourcep' now' e1 = (e2, Inr job')" "authorized s"
    and "ParamString (rqParams req) 1 = Inr (jobID job)" "ParamUint64 K (rqParams req) 2 = Inr nonce"
  shows "handleSubmit K C source ctxErr now2 req e2 s = (e2, writeFrame (EncodeError K (rqID req) 21 (Errorf ''stale job'' [])) s)"
proof -
  have "engCurrent e2 = job'" using RefreshWork_ok [OF assms(2)] by blast
  with refreshed_twice [OF assms(1,2)] assms(3-5) show ?thesis by (simp add: handleSubmit_def)
qed

theorem refresh_strands_miners_witness:
  "\<exists>e1 job e2 job'. RefreshWork (Some small_source) 0 small_engine = (e1, Inr job) \<and> RefreshWork (Some small_source) 0 e1 = (e2, Inr job')
     \<and> jobBlock job' = jobBlock job
     \<and> fst (handleSubmit \<lparr>marshalResponse = (\<lambda>_. Inr []), marshalNotification = (\<lambda>_. Inr []), unmarshalRequest = (\<lambda>_. Inl JSONInvalid),
              sscanUint = (\<lambda>_. Some 0)\<rparr> small_crypto small_source None 0
            \<lparr>rqID = JNull, rqMethod = ''mining.submit'', rqParams = [JNull, JString (jobID job), JString ''0'']\<rparr> e2
            ((newSession '''')\<lparr>authorized := True\<rparr>)) = e2"
proof -
  obtain e1 job where a: "RefreshWork (Some small_source) 0 small_engine = (e1, Inr job)"
    by (simp add: RefreshWork_def small_source_def Let_def)
  obtain e2 job' where b: "RefreshWork (Some small_source) 0 e1 = (e2, Inr job')"
    by (simp add: RefreshWork_def small_source_def Let_def)
  have "jobBlock job' = jobBlock job" using a b by (auto simp: RefreshWork_def small_source_def Let_def)
  with refresh_strands_miners [OF a b] a b show ?thesis
    by (intro exI [of _ e1] exI [of _ job] exI [of _ e2] exI [of _ job']) (simp add: ParamString_def ParamUint64_def)
qed

text \<open>A login that fails on an authorized session replaces the worker by an empty one but leaves the session
  authorized, so the shares that follow are credited to the empty address.\<close>

theorem failed_login_keeps_session:
  assumes "authorized s" "ParamString (rqParams req) 0 = Inr login" "ParseWorkerIdentity login = Inl err"
  shows "\<exists>s'. handleAuthorize K sourcep now req e s = (e, s') \<and> authorized s' \<and> wiAddress (sessionWorker s') = ''''"
  using assms by (auto simp: handleAuthorize_def writeFrame_def split: sum.splits)

theorem failed_login_keeps_session_witness:
  "\<exists>s'. handleAuthorize \<lparr>marshalResponse = (\<lambda>_. Inr []), marshalNotification = (\<lambda>_. Inr []), unmarshalRequest = (\<lambda>_. Inl JSONInvalid),
       sscanUint = (\<lambda>_. Some 0)\<rparr> None 0 \<lparr>rqID = JNull, rqMethod = ''mining.authorize'', rqParams = [JString ''x'']\<rparr> small_engine
       ((newSession '''')\<lparr>authorized := True, sessionWorker := small_worker\<rparr>) = (small_engine, s')
     \<and> authorized s' \<and> wiAddress (sessionWorker s') = ''''"
proof -
  have "TrimSpace ''x'' = ''x''" by (simp add: TrimSpace_plain printable_def)
  then have "\<exists>err. ParseWorkerIdentity ''x'' = Inl err" by (simp add: ParseWorkerIdentity_def walletPattern_def ToLower_def)
  then obtain err where "ParseWorkerIdentity ''x'' = Inl err" by blast
  from failed_login_keeps_session [OF _ _ this] show ?thesis by (simp add: ParamString_def)
qed

end
