(* ===== verification/DemandMiner.thy ===== *)
theory DemandMiner
  imports WalletNode
begin

text \<open>
  The demand miner, package \<open>demandminer\<close> and \<open>cmd/sudharma-demand-miner\<close>: a supervisor that watches the
  status of a node and lets a child process mine blocks when transactions are pending, when the faucet
  runs low, or when a scheduled block is due.

  The supervisor works on a world of any type through the interfaces of \<open>supervisor.go\<close>, kept as a record of
  functions; one pass of its loop is one function, and \<open>Run\<close> makes a number of passes. The parsers of
  packages \<open>time\<close>, \<open>net\<close>, \<open>net/url\<close> and \<open>encoding/json\<close> are arguments. A run of the child process is what it
  writes and the case of the \<open>select\<close> statement that ends it.
\<close>

section \<open>Configuration\<close>

record DemandConfig =
  dcEnvironment :: string
  dcStatusURL :: string
  dcExpectedNetwork :: string
  dcExpectedCoin :: string
  dcExpectedSymbol :: string
  dcSeedAddress :: string
  dcRewardAddress :: string
  dcMinerBinary :: string
  dcDataDirectory :: string
  dcLockFile :: string
  dcPollEvery :: string
  dcCooldown :: string
  dcFailureBackoff :: string
  dcChildTimeout :: string
  dcScheduledSweepEvery :: string
  dcMaxBlocksPerSweep :: int
  dcFaucetMinBalance :: u64
  dcFaucetFundingBlocks :: int
  dcWakeListen :: string

text \<open>\<open>url.Parse\<close> gives scheme, host and host name; \<open>isLoopbackIP\<close> holds for the text of a loopback address.
  What follows the first JSON value of a file is its end, another value or an error.\<close>

datatype trailing = AtEOF | AnotherValue | TrailingInvalid error

record demand_lib =
  ParseDuration :: "string \<Rightarrow> i64 result"
  parseURL :: "string \<Rightarrow> (string \<times> string \<times> string) option"
  splitHostPort :: "string \<Rightarrow> (string \<times> string) option"
  isLoopbackIP :: "string \<Rightarrow> bool"
  decodeConfig :: "bytes \<Rightarrow> (DemandConfig \<times> trailing) result"

text \<open>\<open>strings.EqualFold\<close> against \<open>localhost\<close>: the long s folds to s.\<close>

fun foldLongS :: "string \<Rightarrow> string" where
  "foldLongS (a # b # s) = (if of_char a = (197 :: nat) \<and> of_char b = (191 :: nat) then CHR ''s'' # foldLongS s else a # foldLongS (b # s))"
| "foldLongS s = s"

definition isLocalhost :: "string \<Rightarrow> bool" where
  "isLocalhost host \<longleftrightarrow> ToLower (foldLongS host) = ''localhost''"

definition validateLoopbackURL :: "demand_lib \<Rightarrow> string \<Rightarrow> unit result" where
  "validateLoopbackURL D raw =
     (if TrimSpace raw = '''' then Inl (Errorf ''is required'' [])
      else (case parseURL D raw of
        None \<Rightarrow> Inl (Errorf ''must be an absolute URL'' [])
      | Some (scheme, host, name) \<Rightarrow>
        if scheme = '''' \<or> host = '''' then Inl (Errorf ''must be an absolute URL'' [])
        else if scheme \<noteq> ''http'' \<and> scheme \<noteq> ''https'' then Inl (Errorf ''scheme must be http or https'' [])
        else if isLocalhost name then Inr ()
        else if \<not> isLoopbackIP D name then Inl (Errorf ''host must be loopback'' [])
        else Inr ()))"

definition validateHostPort :: "demand_lib \<Rightarrow> string \<Rightarrow> unit result" where
  "validateHostPort D v =
     (if TrimSpace v = '''' then Inl (Errorf ''is required'' [])
      else (case splitHostPort D v of
        None \<Rightarrow> Inl (Errorf ''must be host:port'' [])
      | Some (host, port) \<Rightarrow>
        if host = '''' \<or> port = '''' then Inl (Errorf ''must be host:port'' [])
        else (case ParseInt64 port of
          None \<Rightarrow> Inl (Errorf ''port must be a number from 1 to 65535'' [])
        | Some portNumber \<Rightarrow>
          if portNumber < 1 \<or> portNumber > 65535 then Inl (Errorf ''port must be a number from 1 to 65535'' []) else Inr ())))"

definition validateLoopbackHostPort :: "demand_lib \<Rightarrow> string \<Rightarrow> unit result" where
  "validateLoopbackHostPort D v =
     (case splitHostPort D v of
        None \<Rightarrow> Inl (Errorf ''must be host:port'' [])
      | Some (host, port) \<Rightarrow>
        if host = '''' \<or> port = '''' then Inl (Errorf ''must be host:port'' [])
        else if isLocalhost host then Inr ()
        else if \<not> isLoopbackIP D host then Inl (Errorf ''host must be loopback'' [])
        else (case parseURL D (''http://'' @ v) of
            None \<Rightarrow> Inl (Errorf ''must be a valid listen address'' [])
          | Some (_, h, _) \<Rightarrow> if h = '''' then Inl (Errorf ''must be a valid listen address'' []) else Inr ()))"

definition positiveDuration :: "demand_lib \<Rightarrow> string \<Rightarrow> string \<Rightarrow> i64 result" where
  "positiveDuration D name raw =
     (case ParseDuration D raw of
        Inl err \<Rightarrow> Inl (Wrapf ''%s must be a valid duration: %w'' [name] err)
      | Inr d \<Rightarrow> if d \<le> 0 then Inl (Errorf ''%s must be positive'' [name]) else Inr d)"

definition IsAbs :: "path \<Rightarrow> bool" where
  "IsAbs p \<longleftrightarrow> HasPrefix p ''/''"

definition rewardAddressPattern :: "string \<Rightarrow> bool" where
  "rewardAddressPattern a \<longleftrightarrow> length a = 40 \<and> list_all is_lower_hex a"

definition DemandValidate :: "demand_lib \<Rightarrow> DemandConfig \<Rightarrow> unit result" where
  "DemandValidate D c =
     (if dcEnvironment c = '''' then Inl (Errorf ''environment is required'' [])
      else if dcEnvironment c \<noteq> ''public-testnet'' then Inl (Errorf ''environment must be public-testnet'' [])
      else (case validateLoopbackURL D (dcStatusURL c) of
        Inl err \<Rightarrow> Inl (Wrapf ''status_url: %w'' [] err)
      | Inr _ \<Rightarrow>
      if dcExpectedNetwork c \<noteq> ''sudharma'' then Inl (Errorf ''expected_network must be sudharma'' [])
      else if dcExpectedCoin c \<noteq> ''Sudharma'' then Inl (Errorf ''expected_coin must be Sudharma'' [])
      else if dcExpectedSymbol c \<noteq> ''SUDH'' then Inl (Errorf ''expected_symbol must be SUDH'' [])
      else (case validateHostPort D (dcSeedAddress c) of
        Inl err \<Rightarrow> Inl (Wrapf ''seed_address: %w'' [] err)
      | Inr _ \<Rightarrow>
      if \<not> rewardAddressPattern (dcRewardAddress c)
      then Inl (Errorf ''reward_address must be 40 lowercase hexadecimal characters'' [])
      else if \<not> IsAbs (dcMinerBinary c) then Inl (Errorf ''miner_binary must be an absolute path'' [])
      else if \<not> IsAbs (dcDataDirectory c) then Inl (Errorf ''data_directory must be an absolute path'' [])
      else if \<not> IsAbs (dcLockFile c) then Inl (Errorf ''lock_file must be an absolute path'' [])
      else (case positiveDuration D ''poll_every'' (dcPollEvery c) of
        Inl err \<Rightarrow> Inl err
      | Inr poll \<Rightarrow>
      (case positiveDuration D ''cooldown'' (dcCooldown c) of
        Inl err \<Rightarrow> Inl err
      | Inr cooldown \<Rightarrow>
      if cooldown < poll then Inl (Errorf ''cooldown must not be shorter than poll_every'' [])
      else (case positiveDuration D ''failure_backoff'' (dcFailureBackoff c) of
        Inl err \<Rightarrow> Inl err
      | Inr _ \<Rightarrow>
      (case positiveDuration D ''child_timeout'' (dcChildTimeout c) of
        Inl err \<Rightarrow> Inl err
      | Inr child \<Rightarrow>
      if child < 1000000000 then Inl (Errorf ''child_timeout must be at least 1s'' [])
      else (case (if dcScheduledSweepEvery c \<noteq> '''' then positiveDuration D ''scheduled_sweep_every'' (dcScheduledSweepEvery c) else Inr 0) of
        Inl err \<Rightarrow> Inl err
      | Inr _ \<Rightarrow>
      if dcMaxBlocksPerSweep c < 0 then Inl (Errorf ''max_blocks_per_sweep must not be negative'' [])
      else if dcWakeListen c \<noteq> '''' then
        (case validateLoopbackHostPort D (dcWakeListen c) of
           Inl err \<Rightarrow> Inl (Wrapf ''wake_listen: %w'' [] err)
         | Inr _ \<Rightarrow> Inr ())
      else Inr ()))))))))"

definition LoadDemandConfig :: "demand_lib \<Rightarrow> path \<Rightarrow> disk \<Rightarrow> (disk, DemandConfig) outcome" where
  "LoadDemandConfig D p d =
     (case ReadFile p d of
       (d1, Inl err) \<Rightarrow> (d1, Inl (Wrapf ''open config: %w'' [] err))
     | (d1, Inr data) \<Rightarrow>
     (case decodeConfig D data of
       Inl err \<Rightarrow> (d1, Inl (Wrapf ''decode config: %w'' [] err))
     | Inr (cfg, AnotherValue) \<Rightarrow> (d1, Inl (Errorf ''decode config: multiple JSON values'' []))
     | Inr (cfg, TrailingInvalid err) \<Rightarrow> (d1, Inl (Wrapf ''decode config: %w'' [] err))
     | Inr (cfg, AtEOF) \<Rightarrow>
     (case DemandValidate D cfg of
       Inl err \<Rightarrow> (d1, Inl err)
     | Inr _ \<Rightarrow> (d1, Inr cfg))))"

text \<open>A duration that does not parse is read as zero.\<close>

definition durationOrZero :: "demand_lib \<Rightarrow> string \<Rightarrow> i64" where
  "durationOrZero D raw = (case ParseDuration D raw of Inl _ \<Rightarrow> 0 | Inr d \<Rightarrow> d)"

definition PollDuration :: "demand_lib \<Rightarrow> DemandConfig \<Rightarrow> i64" where
  "PollDuration D c = durationOrZero D (dcPollEvery c)"

definition CooldownDuration :: "demand_lib \<Rightarrow> DemandConfig \<Rightarrow> i64" where
  "CooldownDuration D c = durationOrZero D (dcCooldown c)"

definition FailureBackoffDuration :: "demand_lib \<Rightarrow> DemandConfig \<Rightarrow> i64" where
  "FailureBackoffDuration D c = durationOrZero D (dcFailureBackoff c)"

definition ChildTimeoutDuration :: "demand_lib \<Rightarrow> DemandConfig \<Rightarrow> i64" where
  "ChildTimeoutDuration D c = durationOrZero D (dcChildTimeout c)"

definition ScheduledSweepDuration :: "demand_lib \<Rightarrow> DemandConfig \<Rightarrow> i64" where
  "ScheduledSweepDuration D c =
     (if TrimSpace (dcScheduledSweepEvery c) = '''' then seconds (30 * 60) else durationOrZero D (dcScheduledSweepEvery c))"

definition BlocksPerSweepLimit :: "DemandConfig \<Rightarrow> int" where
  "BlocksPerSweepLimit c = (if dcMaxBlocksPerSweep c \<le> 0 then 32 else dcMaxBlocksPerSweep c)"

definition FaucetFundingBlocksLimit :: "DemandConfig \<Rightarrow> int" where
  "FaucetFundingBlocksLimit c = (if dcFaucetFundingBlocks c \<le> 0 then 2 else dcFaucetFundingBlocks c)"

definition DefaultWakeListen :: string where
  [go_const]: "DefaultWakeListen = ''127.0.0.1:28546''"

definition WakeListenAddress :: "DemandConfig \<Rightarrow> string" where
  "WakeListenAddress c = (if TrimSpace (dcWakeListen c) = '''' then DefaultWakeListen else dcWakeListen c)"

section \<open>Evidence in the output of the child\<close>

definition maxMinerOutputBytes :: nat where
  [go_const]: "maxMinerOutputBytes = 65536"

definition miningEvidenceWindow :: nat where
  [go_const]: "miningEvidenceWindow = 8192"

text \<open>The two patterns. Within a match every step is forced: the runs of blanks and of digits are maximal,
  and the part after \<open>Hash:\<close> ends at the first bar. A match cannot begin inside another one, so the list of
  all matches is the list of the matches at every beginning of a line.\<close>

definition reSpace :: "char \<Rightarrow> bool" where
  "reSpace c \<longleftrightarrow> (of_char c :: nat) \<in> {9, 10, 12, 13, 32}"

definition newline :: char where
  "newline = CHR 0x0A"

definition pendingTransactionsPattern :: "string \<Rightarrow> string option" where
  "pendingTransactionsPattern s =
     (if \<not> HasPrefix s ''Pending Transactions:'' then None
      else (let r = dropWhile reSpace (TrimPrefix s ''Pending Transactions:'');
                ds = takeWhile isDigit r;
                after = dropWhile isDigit r in
        if ds \<noteq> '''' \<and> (newline \<in> set (takeWhile reSpace after) \<or> dropWhile reSpace after = '''') then Some ds else None))"

definition includedTransactionsPattern :: "string \<Rightarrow> string option" where
  "includedTransactionsPattern s =
     (let r1 = TrimPrefix s ''Block #''; r2 = dropWhile isDigit r1; r3 = TrimPrefix r2 '' found | Hash: '';
          hash = takeWhile (\<lambda>c. c \<noteq> CHR ''|'') r3; r4 = dropWhile (\<lambda>c. c \<noteq> CHR ''|'') r3;
          r5 = dropWhile reSpace (TrimPrefix r4 ''| Transactions:''); ds = takeWhile isDigit r5 in
      if HasPrefix s ''Block #'' \<and> takeWhile isDigit r1 \<noteq> '''' \<and> HasPrefix r2 '' found | Hash: ''
         \<and> length hash \<ge> 2 \<and> last hash = CHR '' '' \<and> HasPrefix r4 ''| Transactions:'' \<and> ds \<noteq> ''''
         \<and> HasPrefix (dropWhile reSpace (dropWhile isDigit r5)) ''|''
      then Some ds else None)"

fun findAll :: "(string \<Rightarrow> string option) \<Rightarrow> bool \<Rightarrow> string \<Rightarrow> string list" where
  "findAll p lineStart [] = []"
| "findAll p lineStart (c # s) =
     (case (if lineStart then p (c # s) else None) of Some ds \<Rightarrow> [ds] | None \<Rightarrow> []) @ findAll p (c = newline) s"

definition FindAllStringSubmatch :: "(string \<Rightarrow> string option) \<Rightarrow> string \<Rightarrow> string list" where
  "FindAllStringSubmatch p text = findAll p True text"

definition parseCount :: "(string \<Rightarrow> string option) \<Rightarrow> string \<Rightarrow> i64 option" where
  "parseCount p output = (case FindAllStringSubmatch p output of [] \<Rightarrow> None | m # _ \<Rightarrow> ParseInt64 m)"

definition validateMiningOutput :: "string \<Rightarrow> unit result" where
  "validateMiningOutput output =
     (case parseCount pendingTransactionsPattern output of
       None \<Rightarrow> Inl (Errorf ''miner output missing Pending Transactions evidence'' [])
     | Some waiting \<Rightarrow>
     if waiting \<le> 0 then Inl (Errorf ''miner reported no pending transactions'' [])
     else (case parseCount includedTransactionsPattern output of
       None \<Rightarrow> Inl (Errorf ''miner output missing Transactions evidence'' [])
     | Some included \<Rightarrow> if included \<le> 0 then Inl (Errorf ''miner reported no included transactions'' []) else Inr ()))"

record miningOutput =
  retained :: string
  tail :: string
  pendingSeen :: bool
  pendingPositive :: bool
  includedSeen :: bool
  includedPositive :: bool

definition newMiningOutput :: miningOutput where
  "newMiningOutput = \<lparr>retained = '''', tail = '''', pendingSeen = False, pendingPositive = False, includedSeen = False, includedPositive = False\<rparr>"

definition appendEvidenceTail :: "string \<Rightarrow> string \<Rightarrow> string" where
  "appendEvidenceTail t p =
     (if length p \<ge> miningEvidenceWindow then drop (length p - miningEvidenceWindow) p
      else drop (length t + length p - miningEvidenceWindow) t @ p)"

text \<open>The values of the matches that are numbers.\<close>

definition counts :: "(string \<Rightarrow> string option) \<Rightarrow> string \<Rightarrow> i64 list" where
  "counts p text = List.map_filter ParseInt64 (FindAllStringSubmatch p text)"

definition observeEvidence :: "miningOutput \<Rightarrow> string \<Rightarrow> miningOutput" where
  "observeEvidence o1 text =
     (let ps = counts pendingTransactionsPattern text; is = counts includedTransactionsPattern text in
      o1\<lparr>pendingSeen := pendingSeen o1 \<or> ps \<noteq> [], pendingPositive := pendingPositive o1 \<or> (\<exists>v\<in>set ps. v > 0),
         includedSeen := includedSeen o1 \<or> is \<noteq> [], includedPositive := includedPositive o1 \<or> (\<exists>v\<in>set is. v > 0)\<rparr>)"

text \<open>The second result tells whether the evidence is complete, which wakes the runner.\<close>

definition OutputWrite :: "miningOutput \<Rightarrow> string \<Rightarrow> miningOutput \<times> bool" where
  "OutputWrite o1 p =
     (let o2 = o1\<lparr>retained := retained o1 @ take (maxMinerOutputBytes - length (retained o1)) p,
                  tail := appendEvidenceTail (tail o1) p\<rparr>;
          o3 = observeEvidence o2 (tail o2)
      in (o3, pendingPositive o3 \<and> includedPositive o3))"

definition validationError :: "miningOutput \<Rightarrow> unit result" where
  "validationError o1 =
     (if \<not> pendingSeen o1 then Inl (Errorf ''miner output missing Pending Transactions evidence'' [])
      else if \<not> pendingPositive o1 then Inl (Errorf ''miner reported no pending transactions'' [])
      else if \<not> includedSeen o1 then Inl (Errorf ''miner output missing Transactions evidence'' [])
      else if \<not> includedPositive o1 then Inl (Errorf ''miner reported no included transactions'' [])
      else Inr ())"

definition observed :: "string list \<Rightarrow> miningOutput" where
  "observed ws = foldl (\<lambda>o1 p. fst (OutputWrite o1 p)) newMiningOutput ws"

section \<open>One run of the child\<close>

text \<open>\<open>mrSelected\<close> is the case of the \<open>select\<close> that was taken after the child had written \<open>mrWrites\<close>; \<open>mrLater\<close> is what it
  wrote until it was reaped.\<close>

datatype select_case = ChildExited "error option" | EvidenceSeen | RunContextDone error

record mine_run =
  mrContext :: "error option"
  mrMkdirAll :: "unit result"
  mrMkdirTemp :: "path result"
  mrAbs :: "path \<Rightarrow> path result"
  mrStart :: "unit result"
  mrWrites :: "string list"
  mrSelected :: select_case
  mrRunContext :: "error option"
  mrLater :: "string list"
  mrContextAfter :: "error option"

definition isImmediateChild :: "(path \<Rightarrow> path result) \<Rightarrow> path \<Rightarrow> path \<Rightarrow> bool" where
  "isImmediateChild absolute parent child =
     (case absolute parent of
       Inl _ \<Rightarrow> False
     | Inr parentAbs \<Rightarrow>
     (case absolute child of
       Inl _ \<Rightarrow> False
     | Inr childAbs \<Rightarrow> Dir childAbs = Clean parentAbs \<and> childAbs \<noteq> parentAbs))"

text \<open>\<open>filepath.Base\<close> of the name of a directory made by \<open>os.MkdirTemp\<close>: what follows the last slash.\<close>

definition Base :: "path \<Rightarrow> string" where
  "Base p = last (split_slash p)"

definition minerArgs :: "DemandConfig \<Rightarrow> path \<Rightarrow> string list" where
  "minerArgs c runDir = [''-nodeid'', ''demand-miner-'' @ TrimPrefix (Base runDir) ''run-'', ''-listen'', ''127.0.0.1:0'',
     ''-peer'', dcSeedAddress c, ''-datadir'', runDir, ''-mineblocks'', ''1'', ''-testmineraddress'', dcRewardAddress c]"

definition MineOne :: "DemandConfig \<Rightarrow> mine_run \<Rightarrow> unit result" where
  "MineOne c m =
     (case mrContext m of
       Some err \<Rightarrow> Inl err
     | None \<Rightarrow>
     (case mrMkdirAll m of
       Inl err \<Rightarrow> Inl (Wrapf ''create miner data directory: %w'' [] err)
     | Inr _ \<Rightarrow>
     (case mrMkdirTemp m of
       Inl err \<Rightarrow> Inl (Wrapf ''create miner run directory: %w'' [] err)
     | Inr runDir \<Rightarrow>
     if \<not> isImmediateChild (mrAbs m) (dcDataDirectory c) runDir then Inl (Errorf ''refusing unsafe miner run directory'' [])
     else (case mrStart m of
       Inl err \<Rightarrow> Inl (Wrapf ''start miner child: %w'' [] err)
     | Inr _ \<Rightarrow>
     (case mrSelected m of
       ChildExited runErr \<Rightarrow>
         (case mrRunContext m of
            Some err \<Rightarrow> Inl err
          | None \<Rightarrow>
            (case runErr of
               Some err \<Rightarrow> Inl (Wrapf ''miner child failed: %w; output: %s'' [retained (observed (mrWrites m))] err)
             | None \<Rightarrow> validationError (observed (mrWrites m))))
     | EvidenceSeen \<Rightarrow>
         (case mrRunContext m of
            Some err \<Rightarrow> Inl err
          | None \<Rightarrow>
            (case mrContextAfter m of
               Some err \<Rightarrow> Inl err
             | None \<Rightarrow> validationError (observed (mrWrites m @ mrLater m))))
     | RunContextDone err \<Rightarrow> Inl err)))))"

section \<open>The supervisor\<close>

record DemandStatus =
  dsNetwork :: string
  dsCoin :: string
  dsSymbol :: string
  dsHeight :: u64
  dsIssuedSupply :: u64
  dsMempool :: int

text \<open>The interfaces \<open>StatusSource\<close>, \<open>RewardBalanceSource\<close>, \<open>BlockMiner\<close>, \<open>Sleeper\<close> and \<open>Logger\<close>, the context and the clock.\<close>

record 'w supervisor_deps =
  ctxErr :: "'w \<Rightarrow> error option"
  statusSource :: "'w \<Rightarrow> 'w \<times> DemandStatus result"
  balanceSource :: "('w \<Rightarrow> 'w \<times> u64 result) option"
  blockMiner :: "'w \<Rightarrow> 'w \<times> unit result"
  sleeper :: "i64 \<Rightarrow> 'w \<Rightarrow> 'w \<times> unit result"
  clock :: "'w \<Rightarrow> 'w \<times> i64"
  logError :: "string \<Rightarrow> error \<Rightarrow> 'w \<Rightarrow> 'w"

record 'w Supervisor =
  supConfig :: DemandConfig
  supConfigErr :: "unit result"
  supDeps :: "'w supervisor_deps"

definition NewSupervisor :: "demand_lib \<Rightarrow> DemandConfig \<Rightarrow> 'w supervisor_deps \<Rightarrow> 'w Supervisor" where
  "NewSupervisor D c deps = \<lparr>supConfig = c, supConfigErr = DemandValidate D c, supDeps = deps\<rparr>"

definition validateStatusIdentity :: "'w Supervisor \<Rightarrow> DemandStatus \<Rightarrow> unit result" where
  "validateStatusIdentity s status =
     (if dsNetwork status \<noteq> dcExpectedNetwork (supConfig s) \<or> dsCoin status \<noteq> dcExpectedCoin (supConfig s)
         \<or> dsSymbol status \<noteq> dcExpectedSymbol (supConfig s)
      then Inl (Errorf ''status identity mismatch: network=%q coin=%q symbol=%q'' [dsNetwork status, dsCoin status, dsSymbol status])
      else Inr ())"

definition rewardBalance :: "'w Supervisor \<Rightarrow> 'w \<Rightarrow> 'w \<times> u64 result" where
  "rewardBalance s w = (case balanceSource (supDeps s) of None \<Rightarrow> (w, Inr 0) | Some f \<Rightarrow> f w)"

definition needsFaucetFunding :: "'w Supervisor \<Rightarrow> 'w \<Rightarrow> 'w \<times> bool result" where
  "needsFaucetFunding s w =
     (if balanceSource (supDeps s) = None \<or> dcFaucetMinBalance (supConfig s) = 0 then (w, Inr False)
      else (case rewardBalance s w of
        (w1, Inl err) \<Rightarrow> (w1, Inl err)
      | (w1, Inr balance) \<Rightarrow> (w1, Inr (balance < dcFaucetMinBalance (supConfig s)))))"

definition ErrFaucetFundingIncomplete :: error where
  "ErrFaucetFundingIncomplete = Errorf ''faucet funding incomplete after configured block limit'' []"

fun fundingLoop :: "'w Supervisor \<Rightarrow> nat \<Rightarrow> 'w \<Rightarrow> 'w \<times> unit result" where
  "fundingLoop s 0 w =
     (case rewardBalance s w of
        (w1, Inl err) \<Rightarrow> (w1, Inl err)
      | (w1, Inr balance) \<Rightarrow> (w1, if balance < dcFaucetMinBalance (supConfig s) then Inl ErrFaucetFundingIncomplete else Inr ()))"
| "fundingLoop s (Suc k) w =
     (case rewardBalance s w of
        (w1, Inl err) \<Rightarrow> (w1, Inl err)
      | (w1, Inr balance) \<Rightarrow>
        if balance \<ge> dcFaucetMinBalance (supConfig s) then (w1, Inr ())
        else (case blockMiner (supDeps s) w1 of
            (w2, Inl err) \<Rightarrow> (w2, Inl err)
          | (w2, Inr _) \<Rightarrow> fundingLoop s k w2))"

definition mineFaucetFundingBlocks :: "'w Supervisor \<Rightarrow> 'w \<Rightarrow> 'w \<times> unit result" where
  "mineFaucetFundingBlocks s w =
     (if balanceSource (supDeps s) = None \<or> dcFaucetMinBalance (supConfig s) = 0 then (w, Inr ())
      else fundingLoop s (nat (FaucetFundingBlocksLimit (supConfig s))) w)"

fun clearLoop :: "'w Supervisor \<Rightarrow> nat \<Rightarrow> 'w \<Rightarrow> 'w \<times> unit result" where
  "clearLoop s 0 w =
     (case statusSource (supDeps s) w of
        (w1, Inl err) \<Rightarrow> (w1, Inl err)
      | (w1, Inr status) \<Rightarrow>
        (w1, if dsMempool status > 0 then Inl (Errorf ''mempool still has %d transactions after %d blocks''
                [dec_int (dsMempool status), dec_int (BlocksPerSweepLimit (supConfig s))]) else Inr ()))"
| "clearLoop s (Suc k) w =
     (case ctxErr (supDeps s) w of
        Some err \<Rightarrow> (w, Inl err)
      | None \<Rightarrow>
      (case statusSource (supDeps s) w of
        (w1, Inl err) \<Rightarrow> (w1, Inl err)
      | (w1, Inr status) \<Rightarrow>
      (case validateStatusIdentity s status of
        Inl err \<Rightarrow> (w1, Inl err)
      | Inr _ \<Rightarrow>
      if dsMempool status \<le> 0 then (w1, Inr ())
      else (case blockMiner (supDeps s) w1 of
          (w2, Inl err) \<Rightarrow> (w2, Inl err)
        | (w2, Inr _) \<Rightarrow> clearLoop s k w2))))"

definition clearPendingMempool :: "'w Supervisor \<Rightarrow> 'w \<Rightarrow> 'w \<times> unit result" where
  "clearPendingMempool s w = clearLoop s (nat (BlocksPerSweepLimit (supConfig s))) w"

text \<open>Sleeping before the loop goes on with the time of the last sweep; a sleep that fails ends the loop.\<close>

definition sleepThen :: "'w Supervisor \<Rightarrow> i64 \<Rightarrow> i64 \<Rightarrow> 'w \<Rightarrow> 'w \<times> i64 result" where
  "sleepThen s d lastSweep w =
     (case sleeper (supDeps s) d w of (w1, Inl err) \<Rightarrow> (w1, Inl err) | (w1, Inr _) \<Rightarrow> (w1, Inr lastSweep))"

definition backOff :: "demand_lib \<Rightarrow> 'w Supervisor \<Rightarrow> string \<Rightarrow> error \<Rightarrow> i64 \<Rightarrow> 'w \<Rightarrow> 'w \<times> i64 result" where
  "backOff D s event err lastSweep w = sleepThen s (FailureBackoffDuration D (supConfig s)) lastSweep (logError (supDeps s) event err w)"

definition coolDown :: "demand_lib \<Rightarrow> 'w Supervisor \<Rightarrow> 'w \<Rightarrow> 'w \<times> i64 result" where
  "coolDown D s w = (case clock (supDeps s) w of (w1, now) \<Rightarrow> sleepThen s (CooldownDuration D (supConfig s)) now w1)"

text \<open>One pass of the loop: the error that \<open>Run\<close> returns, or the time of the last sweep.\<close>

definition runPass :: "demand_lib \<Rightarrow> 'w Supervisor \<Rightarrow> i64 \<Rightarrow> 'w \<Rightarrow> 'w \<times> i64 result" where
  "runPass D s lastSweep w =
     (case ctxErr (supDeps s) w of
       Some err \<Rightarrow> (w, Inl err)
     | None \<Rightarrow>
     (case statusSource (supDeps s) w of
       (w1, Inl err) \<Rightarrow> backOff D s ''status_error'' err lastSweep w1
     | (w1, Inr status) \<Rightarrow>
     (case validateStatusIdentity s status of
       Inl err \<Rightarrow> (w1, Inl err)
     | Inr _ \<Rightarrow>
     if dsMempool status < 0
     then backOff D s ''status_invalid'' (Errorf ''invalid negative mempool count: %d'' [dec_int (dsMempool status)]) lastSweep w1
     else if dsMempool status > 0 then
       (case clearPendingMempool s w1 of
          (w2, Inl err) \<Rightarrow> backOff D s ''sweep_error'' err lastSweep w2
        | (w2, Inr _) \<Rightarrow> coolDown D s w2)
     else (case needsFaucetFunding s w1 of
       (w2, Inl err) \<Rightarrow> backOff D s ''faucet_funding_status_error'' err lastSweep w2
     | (w2, Inr True) \<Rightarrow>
       (case mineFaucetFundingBlocks s w2 of
          (w3, Inl err) \<Rightarrow> backOff D s ''faucet_funding_error'' err lastSweep w3
        | (w3, Inr _) \<Rightarrow> coolDown D s w3)
     | (w2, Inr False) \<Rightarrow>
     (case clock (supDeps s) w2 of (w3, now) \<Rightarrow>
       if now \<ge> lastSweep + ScheduledSweepDuration D (supConfig s) then
         (case blockMiner (supDeps s) w3 of
            (w4, Inl err) \<Rightarrow> backOff D s ''scheduled_reward_error'' err lastSweep w4
          | (w4, Inr _) \<Rightarrow> coolDown D s w4)
       else sleepThen s (PollDuration D (supConfig s)) lastSweep w3)))))"

fun runPasses :: "demand_lib \<Rightarrow> 'w Supervisor \<Rightarrow> nat \<Rightarrow> i64 \<Rightarrow> 'w \<Rightarrow> 'w \<times> i64 result" where
  "runPasses D s 0 lastSweep w = (w, Inr lastSweep)"
| "runPasses D s (Suc n) lastSweep w =
     (case runPass D s lastSweep w of
        (w1, Inl err) \<Rightarrow> (w1, Inl err)
      | (w1, Inr lastSweep1) \<Rightarrow> runPasses D s n lastSweep1 w1)"

text \<open>\<open>Run\<close> after \<open>n\<close> passes: the error it returned, or the time of the last sweep while it is still running.\<close>

definition RunSupervisor :: "demand_lib \<Rightarrow> 'w Supervisor \<Rightarrow> nat \<Rightarrow> 'w \<Rightarrow> 'w \<times> i64 result" where
  "RunSupervisor D s n w =
     (case supConfigErr s of
        Inl err \<Rightarrow> (w, Inl (Wrapf ''invalid demand miner config: %w'' [] err))
      | Inr _ \<Rightarrow> (case clock (supDeps s) w of (w1, now) \<Rightarrow> runPasses D s n now w1))"

section \<open>Waking\<close>

text \<open>The channel of capacity one holds a wake-up until a sleep takes it. \<open>ended\<close> is the case that ends a sleep, the
  timer, the context or the channel, which must hold a value.\<close>

datatype sleep_end = TimerFired | ContextDone error | Woken

record WakeSleeper =
  wakePending :: bool

definition NewWakeSleeper :: WakeSleeper where
  "NewWakeSleeper = \<lparr>wakePending = False\<rparr>"

definition Wake :: "WakeSleeper \<Rightarrow> WakeSleeper" where
  "Wake s = s\<lparr>wakePending := True\<rparr>"

definition WakeSleep :: "WakeSleeper \<Rightarrow> sleep_end \<Rightarrow> (WakeSleeper \<times> unit result) option" where
  "WakeSleep s ended =
     (case ended of
        ContextDone err \<Rightarrow> Some (s, Inl err)
      | TimerFired \<Rightarrow> Some (s, Inr ())
      | Woken \<Rightarrow> if wakePending s then Some (s\<lparr>wakePending := False\<rparr>, Inr ()) else None)"

definition NewWakeServer :: "demand_lib \<Rightarrow> string \<Rightarrow> WakeSleeper option \<Rightarrow> string result" where
  "NewWakeServer D listen sl =
     (let addr = (if TrimSpace listen = '''' then DefaultWakeListen else listen) in
      case validateLoopbackHostPort D addr of
        Inl err \<Rightarrow> Inl (Wrapf ''wake_listen: %w'' [] err)
      | Inr _ \<Rightarrow> (case sl of None \<Rightarrow> Inl (Errorf ''wake signaler is required'' []) | Some _ \<Rightarrow> Inr addr))"

datatype wake_body = WakeError | WakeHealth | Awoken

definition handleWakeHealth :: "http_request \<Rightarrow> nat \<times> wake_body" where
  "handleWakeHealth r = (if reqMethod r \<noteq> ''GET'' then (405, WakeError) else (200, WakeHealth))"

definition handleWake :: "WakeSleeper \<Rightarrow> http_request \<Rightarrow> WakeSleeper \<times> nat \<times> wake_body" where
  "handleWake s r = (if reqMethod r \<noteq> ''POST'' then (s, 405, WakeError) else (Wake s, 202, Awoken))"

section \<open>The process\<close>

definition rpcStatusSource :: "'w Client option \<Rightarrow> 'w \<Rightarrow> 'w \<times> DemandStatus result" where
  "rpcStatusSource clp w =
     (case clp of
        None \<Rightarrow> (w, Inl (Errorf ''RPC status client is unavailable'' []))
      | Some cl \<Rightarrow> (case ClientStatus cl w of
          (w1, Inl err) \<Rightarrow> (w1, Inl err)
        | (w1, Inr status) \<Rightarrow> (w1, Inr \<lparr>dsNetwork = stNetwork status, dsCoin = stCoin status, dsSymbol = stSymbol status,
              dsHeight = stHeight status, dsIssuedSupply = stIssuedSupply status, dsMempool = int (stMempool status)\<rparr>)))"

definition rpcRewardBalanceSource :: "'w Client option \<Rightarrow> string \<Rightarrow> 'w \<Rightarrow> 'w \<times> u64 result" where
  "rpcRewardBalanceSource clp address w =
     (case clp of
        None \<Rightarrow> (w, Inl (Errorf ''RPC client is unavailable'' []))
      | Some cl \<Rightarrow> (case ClientAccount cl address w of
          (w1, Inl err) \<Rightarrow> (w1, Inl err)
        | (w1, Inr account) \<Rightarrow> (w1, Inr (acBalance account))))"

text \<open>The world of the process: the node behind the client, the wake-up channel, the children with what becomes of
  the node while each of them runs, the readings of the clock, the ends of the sleeps and the state of the context in their order, and the log.\<close>

record 'r demand_world =
  dwRemote :: 'r
  dwWake :: WakeSleeper
  dwChildren :: "nat \<Rightarrow> mine_run"
  dwEffects :: "nat \<Rightarrow> 'r \<Rightarrow> 'r"
  dwStarted :: nat
  dwClock :: "nat \<Rightarrow> i64"
  dwTick :: nat
  dwEnds :: "nat \<Rightarrow> sleep_end"
  dwSlept :: nat
  dwContext :: "error option"
  dwLog :: "(string \<times> error) list"

definition onNode :: "('r \<Rightarrow> 'r \<times> 'a) \<Rightarrow> 'r demand_world \<Rightarrow> 'r demand_world \<times> 'a" where
  "onNode f w = (case f (dwRemote w) of (r, x) \<Rightarrow> (w\<lparr>dwRemote := r\<rparr>, x))"

definition nativeMineOne :: "DemandConfig \<Rightarrow> 'r demand_world \<Rightarrow> 'r demand_world \<times> unit result" where
  "nativeMineOne c w = (w\<lparr>dwStarted := Suc (dwStarted w), dwRemote := dwEffects w (dwStarted w) (dwRemote w)\<rparr>, MineOne c (dwChildren w (dwStarted w)))"

definition wakeSleeper :: "'r demand_world \<Rightarrow> 'r demand_world \<times> unit result" where
  "wakeSleeper w =
     (case WakeSleep (dwWake w) (dwEnds w (dwSlept w)) of
        None \<Rightarrow> (w\<lparr>dwSlept := Suc (dwSlept w)\<rparr>, Inr ())
      | Some (sl, r) \<Rightarrow> (w\<lparr>dwSlept := Suc (dwSlept w), dwWake := sl\<rparr>, r))"

definition processDeps :: "DemandConfig \<Rightarrow> 'r Client \<Rightarrow> 'r demand_world supervisor_deps" where
  "processDeps c cl = \<lparr>ctxErr = dwContext, statusSource = onNode (rpcStatusSource (Some cl)),
     balanceSource = Some (onNode (rpcRewardBalanceSource (Some cl) (dcRewardAddress c))), blockMiner = nativeMineOne c,
     sleeper = (\<lambda>_. wakeSleeper), clock = (\<lambda>w. (w\<lparr>dwTick := Suc (dwTick w)\<rparr>, dwClock w (dwTick w))),
     logError = (\<lambda>event err w. w\<lparr>dwLog := dwLog w @ [(event, err)]\<rparr>)\<rparr>"

text \<open>Opening and locking the lock file are arguments; the supervisor and the address of the wake server come out.\<close>

definition acquireLock :: "(path \<Rightarrow> unit result) \<Rightarrow> (path \<Rightarrow> unit result) \<Rightarrow> path \<Rightarrow> unit result" where
  "acquireLock openFile flock p =
     (case openFile p of
        Inl err \<Rightarrow> Inl (Wrapf ''open lock file: %w'' [] err)
      | Inr _ \<Rightarrow> (case flock p of Inl err \<Rightarrow> Inl (Wrapf ''acquire lock: %w'' [] err) | Inr _ \<Rightarrow> Inr ()))"

definition demandSetup ::
  "demand_lib \<Rightarrow> (path \<Rightarrow> unit result) \<Rightarrow> (path \<Rightarrow> unit result) \<Rightarrow> (string \<Rightarrow> 'r Client result) \<Rightarrow> string result \<Rightarrow> disk
     \<Rightarrow> (disk, 'r demand_world Supervisor \<times> string) outcome" where
  "demandSetup D openFile flock newClient flags d =
     (case flags of
       Inl err \<Rightarrow> (d, Inl err)
     | Inr configPath \<Rightarrow>
     if configPath = '''' then (d, Inl (Errorf ''-config is required'' []))
     else if \<not> IsAbs configPath then (d, Inl (Errorf ''-config must be an absolute path'' []))
     else (case LoadDemandConfig D configPath d of
       (d1, Inl err) \<Rightarrow> (d1, Inl (Wrapf ''load demand miner config: %w'' [] err))
     | (d1, Inr cfg) \<Rightarrow>
     (case acquireLock openFile flock (dcLockFile cfg) of
       Inl err \<Rightarrow> (d1, Inl err)
     | Inr _ \<Rightarrow>
     (case newClient (dcStatusURL cfg) of
       Inl err \<Rightarrow> (d1, Inl (Wrapf ''create RPC client: %w'' [] err))
     | Inr cl \<Rightarrow>
     (case NewWakeServer D (WakeListenAddress cfg) (Some NewWakeSleeper) of
       Inl err \<Rightarrow> (d1, Inl (Wrapf ''create wake server: %w'' [] err))
     | Inr addr \<Rightarrow> (d1, Inr (NewSupervisor D cfg (processDeps cfg cl), addr)))))))"

section \<open>What an acknowledged block means\<close>

lemma MineOne_evidence:
  assumes "MineOne c m = Inr u"
  shows "\<exists>ws. (ws = mrWrites m \<or> ws = mrWrites m @ mrLater m) \<and> pendingPositive (observed ws) \<and> includedPositive (observed ws)"
  using assms by (auto simp: MineOne_def validationError_def split: option.splits sum.splits if_splits select_case.splits)

lemma observe_monotone:
  "pendingPositive o1 \<Longrightarrow> pendingPositive (fst (OutputWrite o1 p))" "includedPositive o1 \<Longrightarrow> includedPositive (fst (OutputWrite o1 p))"
  by (simp_all add: OutputWrite_def observeEvidence_def Let_def)

lemma observed_append:
  "pendingPositive (observed ws) \<Longrightarrow> pendingPositive (observed (ws @ vs))" "includedPositive (observed ws) \<Longrightarrow> includedPositive (observed (ws @ vs))"
  unfolding observed_def by (induction vs rule: rev_induct) (auto simp: observe_monotone)

text \<open>A child whose whole output never shows a positive number of pending transactions is never acknowledged.\<close>

lemma idle_child_fails:
  assumes "\<not> pendingPositive (observed (mrWrites m @ mrLater m))"
  shows "\<exists>e. MineOne c m = Inl e"
proof (cases "MineOne c m")
  case (Inr u)
  then show ?thesis using MineOne_evidence [OF Inr] observed_append assms by blast
qed simp

text \<open>A sweep launches at most as many children as the limit, each of them acknowledged but possibly the last.\<close>

lemma clearLoop_children:
  assumes "clearLoop s k w = (w', r)" "supDeps s = processDeps c cl"
  shows "dwStarted w' \<le> dwStarted w + k \<and> dwStarted w \<le> dwStarted w' \<and> dwChildren w' = dwChildren w
    \<and> (r = Inr () \<longrightarrow> (\<forall>i. dwStarted w \<le> i \<and> i < dwStarted w' \<longrightarrow> MineOne c (dwChildren w i) = Inr ()))"
  using assms(1)
proof (induction k arbitrary: w)
  case 0
  then show ?case by (auto simp: assms(2) processDeps_def onNode_def split: prod.splits sum.splits if_splits)
next
  case (Suc k)
  show ?case
  proof (cases "\<exists>w1 st. statusSource (supDeps s) w = (w1, Inr st) \<and> ctxErr (supDeps s) w = None \<and> is_ok (validateStatusIdentity s st)
      \<and> dsMempool st > 0 \<and> is_ok (snd (blockMiner (supDeps s) w1))")
    case False
    then show ?thesis using Suc.prems
      by (auto simp: assms(2) processDeps_def onNode_def nativeMineOne_def split: prod.splits sum.splits if_splits option.splits)
  next
    case True
    then obtain w1 st where w1: "statusSource (supDeps s) w = (w1, Inr st)" "ctxErr (supDeps s) w = None" "is_ok (validateStatusIdentity s st)"
      "dsMempool st > 0" "is_ok (snd (blockMiner (supDeps s) w1))" by blast
    have same: "dwStarted w1 = dwStarted w" "dwChildren w1 = dwChildren w"
      using w1(1) by (auto simp: assms(2) processDeps_def onNode_def split: prod.splits)
    have ok: "MineOne c (dwChildren w (dwStarted w)) = Inr ()"
      using w1(5) same by (auto simp: assms(2) processDeps_def nativeMineOne_def is_ok_iff)
    let ?w2 = "w1\<lparr>dwStarted := Suc (dwStarted w1), dwRemote := dwEffects w1 (dwStarted w1) (dwRemote w1)\<rparr>"
    have "clearLoop s k ?w2 = (w', r)"
      using Suc.prems w1 ok same by (auto simp: assms(2) processDeps_def nativeMineOne_def is_ok_iff)
    note ih = Suc.IH [OF this]
    have "MineOne c (dwChildren w i) = Inr ()" if "r = Inr ()" "dwStarted w \<le> i" "i < dwStarted w'" for i
      using ih that ok same by (cases "i = dwStarted w") auto
    then show ?thesis using ih same by auto
  qed
qed

section \<open>Idle passes\<close>

text \<open>What an idle supervisor relies on: while the invariant holds, the node reports no pending transactions, no faucet
  funding is needed, the context is alive and sleeps end normally, the scheduled block is due, and mining fails.\<close>

locale idle_supervisor =
  fixes D :: demand_lib and s :: "'w Supervisor" and sane :: "'w \<Rightarrow> bool" and mined :: "'w \<Rightarrow> nat" and t0 :: i64
  assumes context_alive: "sane w \<Longrightarrow> ctxErr (supDeps s) w = None"
    and idle_status: "sane w \<Longrightarrow> \<exists>w1 st. statusSource (supDeps s) w = (w1, Inr st) \<and> is_ok (validateStatusIdentity s st) \<and> dsMempool st = 0
      \<and> sane w1 \<and> mined w1 = mined w"
    and no_faucet: "sane w \<Longrightarrow> balanceSource (supDeps s) = None \<or> dcFaucetMinBalance (supConfig s) = 0"
    and due: "sane w \<Longrightarrow> \<exists>w1 now. clock (supDeps s) w = (w1, now) \<and> now \<ge> t0 + ScheduledSweepDuration D (supConfig s)
      \<and> sane w1 \<and> mined w1 = mined w"
    and miner_fails: "sane w \<Longrightarrow> \<exists>w1 e. blockMiner (supDeps s) w = (w1, Inl e) \<and> sane w1 \<and> mined w1 = Suc (mined w)"
    and logging: "sane w \<Longrightarrow> sane (logError (supDeps s) event err w) \<and> mined (logError (supDeps s) event err w) = mined w"
    and sleeping: "sane w \<Longrightarrow> \<exists>w1. sleeper (supDeps s) d w = (w1, Inr ()) \<and> sane w1 \<and> mined w1 = mined w"
begin

lemma idle_pass:
  assumes "sane w"
  shows "\<exists>w'. runPass D s t0 w = (w', Inr t0) \<and> sane w' \<and> mined w' = Suc (mined w)"
proof -
  obtain w1 st where w1: "statusSource (supDeps s) w = (w1, Inr st)" "is_ok (validateStatusIdentity s st)" "dsMempool st = 0" "sane w1" "mined w1 = mined w"
    using idle_status [OF assms] by blast
  obtain w2 now where w2: "clock (supDeps s) w1 = (w2, now)" "now \<ge> t0 + ScheduledSweepDuration D (supConfig s)" "sane w2" "mined w2 = mined w"
    using due [OF w1(4)] w1(5) by metis
  obtain w3 e where w3: "blockMiner (supDeps s) w2 = (w3, Inl e)" "sane w3" "mined w3 = Suc (mined w)" using miner_fails [OF w2(3)] w2(4) by metis
  let ?w4 = "logError (supDeps s) ''scheduled_reward_error'' e w3"
  have w4: "sane ?w4" "mined ?w4 = Suc (mined w)" using logging [OF w3(2)] w3(3) by simp_all
  obtain w5 where w5: "sleeper (supDeps s) (FailureBackoffDuration D (supConfig s)) ?w4 = (w5, Inr ())" "sane w5" "mined w5 = Suc (mined w)"
    using sleeping [OF w4(1)] w4(2) by metis
  have "needsFaucetFunding s w1 = (w1, Inr False)" using no_faucet [OF assms] by (auto simp: needsFaucetFunding_def)
  moreover obtain u where "validateStatusIdentity s st = Inr u" using w1(2) by (cases "validateStatusIdentity s st") auto
  ultimately have "runPass D s t0 w = (w5, Inr t0)"
    using context_alive [OF assms] w1 w2 w3 w5 by (simp add: runPass_def backOff_def sleepThen_def)
  then show ?thesis using w5 by blast
qed

lemma idle_passes: "sane w \<Longrightarrow> \<exists>w'. runPasses D s n t0 w = (w', Inr t0) \<and> mined w' = mined w + n"
proof (induction n arbitrary: w)
  case (Suc n)
  from idle_pass [OF Suc.prems] obtain w1 where "runPass D s t0 w = (w1, Inr t0)" "sane w1" "mined w1 = Suc (mined w)" by blast
  then show ?case using Suc.IH [of w1] by simp
qed simp

end

text \<open>A world of the process in which the node is idle: it stays quiet whatever the children do, and a quiet node
  reports the expected names and an empty pool and is left as it is by a status request; the children show
  no pending transactions, and the clock is past the due time.\<close>

definition idle_world :: "demand_lib \<Rightarrow> DemandConfig \<Rightarrow> 'r Client \<Rightarrow> ('r \<Rightarrow> bool) \<Rightarrow> i64 \<Rightarrow> 'r demand_world \<Rightarrow> bool" where
  "idle_world D c cl quiet t0 w \<longleftrightarrow> dwContext w = None \<and> dcFaucetMinBalance c = 0
     \<and> quiet (dwRemote w) \<and> (\<forall>i r. quiet r \<longrightarrow> quiet (dwEffects w i r))
     \<and> (\<forall>r. quiet r \<longrightarrow> (\<exists>st. ClientStatus cl r = (r, Inr st) \<and> stNetwork st = dcExpectedNetwork c \<and> stCoin st = dcExpectedCoin c
          \<and> stSymbol st = dcExpectedSymbol c \<and> stMempool st = 0))
     \<and> (\<forall>i. \<not> pendingPositive (observed (mrWrites (dwChildren w i) @ mrLater (dwChildren w i))))
     \<and> (\<forall>i. dwClock w i \<ge> t0 + ScheduledSweepDuration D c) \<and> (\<forall>i. dwEnds w i = TimerFired)"

lemma process_fields [simp]:
  "ctxErr (processDeps c cl) w = dwContext w" "statusSource (processDeps c cl) w = onNode (rpcStatusSource (Some cl)) w"
  "blockMiner (processDeps c cl) w = nativeMineOne c w" "sleeper (processDeps c cl) d w = wakeSleeper w"
  "clock (processDeps c cl) w = (w\<lparr>dwTick := Suc (dwTick w)\<rparr>, dwClock w (dwTick w))"
  "logError (processDeps c cl) event err w = w\<lparr>dwLog := dwLog w @ [(event, err)]\<rparr>"
  by (simp_all add: processDeps_def)

interpretation idle: idle_supervisor D "NewSupervisor D c (processDeps c cl)" "idle_world D c cl quiet t0" dwStarted t0
  for D c cl quiet t0
proof
  fix w and event :: string and err :: error and d :: i64
  let ?s = "NewSupervisor D c (processDeps c cl)"
  have f: "supDeps ?s = processDeps c cl" "supConfig ?s = c" by (simp_all add: NewSupervisor_def)
  assume w: "idle_world D c cl quiet t0 w"
  then show "balanceSource (supDeps ?s) = None \<or> dcFaucetMinBalance (supConfig ?s) = 0" by (simp add: f idle_world_def)
  show "ctxErr (supDeps ?s) w = None" using w by (simp add: f idle_world_def)
  from w obtain st where st: "ClientStatus cl (dwRemote w) = (dwRemote w, Inr st)" "stNetwork st = dcExpectedNetwork c" "stCoin st = dcExpectedCoin c"
    "stSymbol st = dcExpectedSymbol c" "stMempool st = 0" unfolding idle_world_def by blast
  then show "\<exists>w1 st. statusSource (supDeps ?s) w = (w1, Inr st) \<and> is_ok (validateStatusIdentity ?s st) \<and> dsMempool st = 0
      \<and> idle_world D c cl quiet t0 w1 \<and> dwStarted w1 = dwStarted w"
    using w by (simp add: f onNode_def rpcStatusSource_def validateStatusIdentity_def idle_world_def)
  show "\<exists>w1 now. clock (supDeps ?s) w = (w1, now) \<and> now \<ge> t0 + ScheduledSweepDuration D (supConfig ?s) \<and> idle_world D c cl quiet t0 w1
      \<and> dwStarted w1 = dwStarted w" using w by (simp add: f idle_world_def)
  obtain e' where "MineOne c (dwChildren w (dwStarted w)) = Inl e'" using idle_child_fails w unfolding idle_world_def by blast
  then show "\<exists>w1 e. blockMiner (supDeps ?s) w = (w1, Inl e) \<and> idle_world D c cl quiet t0 w1 \<and> dwStarted w1 = Suc (dwStarted w)"
    using w by (simp add: f nativeMineOne_def idle_world_def)
  show "idle_world D c cl quiet t0 (logError (supDeps ?s) event err w) \<and> dwStarted (logError (supDeps ?s) event err w) = dwStarted w"
    using w by (simp add: f idle_world_def)
  show "\<exists>w1. sleeper (supDeps ?s) d w = (w1, Inr ()) \<and> idle_world D c cl quiet t0 w1 \<and> dwStarted w1 = dwStarted w"
    using w by (simp add: f wakeSleeper_def WakeSleep_def idle_world_def)
qed

section \<open>Properties\<close>


text \<open>A sweep is backed by evidence. A sweep that reports success started no more children than the limit of
  the configuration, and each of them wrote a line with a positive number of pending transactions and a
  line with a positive number of transactions in the block.\<close>

theorem demand_sweep_evidence:
  assumes "clearPendingMempool s w = (w', Inr ())" "s = NewSupervisor D c (processDeps c cl)"
  shows "int (dwStarted w') \<le> int (dwStarted w) + BlocksPerSweepLimit c
    \<and> (\<forall>i. dwStarted w \<le> i \<and> i < dwStarted w' \<longrightarrow>
        (\<exists>ws. (ws = mrWrites (dwChildren w i) \<or> ws = mrWrites (dwChildren w i) @ mrLater (dwChildren w i))
          \<and> pendingPositive (observed ws) \<and> includedPositive (observed ws)))"
proof -
  have "supDeps s = processDeps c cl" "supConfig s = c" using assms(2) by (simp_all add: NewSupervisor_def)
  note k = clearLoop_children [OF assms(1) [unfolded clearPendingMempool_def] this(1)] this(2)
  have "0 < BlocksPerSweepLimit c" by (simp add: BlocksPerSweepLimit_def)
  moreover have "dwStarted w' \<le> dwStarted w + nat (BlocksPerSweepLimit c)" using k by simp
  ultimately have "int (dwStarted w') \<le> int (dwStarted w) + BlocksPerSweepLimit c" by linarith
  then show ?thesis using k MineOne_evidence by blast
qed

section \<open>The output of the node\<close>

text \<open>The two lines that \<open>runBlockMiningTest\<close> of the node prints around a mined block.\<close>

definition pendingLine :: "nat \<Rightarrow> string" where
  "pendingLine n = ''Pending Transactions: '' @ dec n"

definition foundLine :: "nat \<Rightarrow> string \<Rightarrow> nat \<Rightarrow> string \<Rightarrow> string" where
  "foundLine height hash k rest =
     ''Block #'' @ dec height @ '' found | Hash: '' @ hash @ '' | Transactions: '' @ dec k @ '' | '' @ rest"

lemma findAll_rest: "newline \<notin> set l \<Longrightarrow> findAll p False (l @ newline # t) = findAll p True t"
  by (induction l) auto

lemma findAll_line:
  assumes "newline \<notin> set l"
  shows "findAll p True (l @ newline # t) = (case p (l @ newline # t) of Some ds \<Rightarrow> [ds] | None \<Rightarrow> []) @ findAll p True t"
proof (cases l)
  case (Cons c l')
  then show ?thesis using assms findAll_rest [of l' p t] by (cases "c = newline") auto
qed simp

lemma takeWhile_digits:
  assumes "\<not> isDigit c"
  shows "takeWhile isDigit (dec n @ c # t) = dec n" "dropWhile isDigit (dec n @ c # t) = c # t"
  using dec_digits [of n] assms by (simp_all add: takeWhile_append2 dropWhile_append2 list_all_iff)

lemma blank_digits: "dropWhile reSpace (dec n @ t) = dec n @ t" "dec n \<noteq> ''''"
proof -
  have ne: "dec n \<noteq> ''''" by (subst dec.simps) simp
  then obtain c l where c: "dec n = c # l" by (cases "dec n") auto
  then have "isDigit c" using dec_digits [of n] by simp
  then have "\<not> reSpace c" by (auto simp: isDigit_def reSpace_def)
  then show "dropWhile reSpace (dec n @ t) = dec n @ t" using c by simp
  show "dec n \<noteq> ''''" by (rule ne)
qed

lemma pending_line_match: "pendingTransactionsPattern (pendingLine n @ newline # t) = Some (dec n)"
proof -
  have nl: "\<not> isDigit newline" "reSpace newline" "reSpace (CHR '' '')" by (simp_all add: isDigit_def reSpace_def newline_def)
  show ?thesis
    by (simp add: pendingTransactionsPattern_def pendingLine_def HasPrefix_def TrimPrefix_def Let_def nl blank_digits takeWhile_digits)
qed

lemma found_line_match:
  assumes "hash \<noteq> ''''" "CHR ''|'' \<notin> set hash"
  shows "includedTransactionsPattern (foundLine h hash k rest @ newline # t) = Some (dec k)"
proof -
  have sp: "\<not> isDigit (CHR '' '')" "reSpace (CHR '' '')" "\<not> reSpace (CHR ''|'')" by (simp_all add: isDigit_def reSpace_def)
  have run: "takeWhile (\<lambda>c. c \<noteq> CHR ''|'') (hash @ CHR '' '' # CHR ''|'' # x) = hash @ '' ''"
    "dropWhile (\<lambda>c. c \<noteq> CHR ''|'') (hash @ CHR '' '' # CHR ''|'' # x) = CHR ''|'' # x" for x
    using assms(2) by (induction hash) auto
  have "length (hash @ '' '') \<ge> 2" using assms(1) by (cases hash) auto
  then show ?thesis
    by (simp add: includedTransactionsPattern_def foundLine_def HasPrefix_def TrimPrefix_def Let_def sp run blank_digits takeWhile_digits)
qed

lemma other_lines:
  "pendingTransactionsPattern (foundLine h hash k rest @ newline # t) = None" "includedTransactionsPattern (pendingLine n @ newline # t) = None"
  by (simp_all add: pendingTransactionsPattern_def foundLine_def includedTransactionsPattern_def pendingLine_def HasPrefix_def)

lemma node_counts:
  assumes "n < 2 ^ 63" "k < 2 ^ 63" "hash \<noteq> ''''" "CHR ''|'' \<notin> set hash" "newline \<notin> set (hash @ rest)"
  shows "counts pendingTransactionsPattern (pendingLine n @ newline # foundLine h hash k rest @ [newline]) = [int n]"
    "counts includedTransactionsPattern (pendingLine n @ newline # foundLine h hash k rest @ [newline]) = [int k]"
proof -
  have digit: "newline \<notin> set (dec m)" for m using dec_digits [of m] by (auto simp: list_all_iff isDigit_def newline_def)
  have nl: "newline \<notin> set (pendingLine n)" "newline \<notin> set (foundLine h hash k rest)"
    using digit assms(5) by (auto simp: pendingLine_def foundLine_def) (simp_all add: newline_def)
  have parse: "ParseInt64 (dec m) = Some (int m)" if "m < 2 ^ 63" for m using that by (simp add: ParseInt64_def SetString10_dec)
  show "counts pendingTransactionsPattern (pendingLine n @ newline # foundLine h hash k rest @ [newline]) = [int n]"
    "counts includedTransactionsPattern (pendingLine n @ newline # foundLine h hash k rest @ [newline]) = [int k]"
    unfolding counts_def FindAllStringSubmatch_def
    using parse assms(1,2) findAll_line [OF nl(2), where t = "[]"]
    by (simp_all add: findAll_line [OF nl(1)] pending_line_match found_line_match [OF assms(3,4)] other_lines List.map_filter_def)
qed

text \<open>The evidence of the runner is what the node prints. If the child writes the line with the number of pending
  transactions and the line of the block it found, the runner accepts the output if and only if both
  numbers are positive.\<close>

theorem evidence_of_node_output:
  assumes "n < 2 ^ 63" "k < 2 ^ 63" "hash \<noteq> ''''" "CHR ''|'' \<notin> set hash" "newline \<notin> set (hash @ rest)"
    and "text = pendingLine n @ newline # foundLine h hash k rest @ [newline]" "length text < miningEvidenceWindow"
  shows "is_ok (validationError (observed [text])) \<longleftrightarrow> n > 0 \<and> k > 0"
proof -
  have "counts pendingTransactionsPattern text = [int n]" "counts includedTransactionsPattern text = [int k]"
    unfolding assms(6) by (rule node_counts [OF assms(1-5)])+
  moreover have "drop (length text - miningEvidenceWindow) ([] :: string) @ text = text" by simp
  ultimately show ?thesis using assms(7)
    by (auto simp: observed_def OutputWrite_def observeEvidence_def newMiningOutput_def appendEvidenceTail_def validationError_def Let_def)
qed

theorem evidence_of_node_output_witness:
  "is_ok (validationError (observed [pendingLine 2 @ newline # foundLine 7 ''ab'' 2 ''Reward'' @ [newline]]))"
proof -
  have nl: "newline \<notin> set (''ab'' @ ''Reward'')" by (simp add: newline_def)
  have "length (pendingLine 2 @ newline # foundLine 7 ''ab'' 2 ''Reward'' @ [newline]) < miningEvidenceWindow"
    by (simp add: pendingLine_def foundLine_def dec.simps go_const)
  from evidence_of_node_output [OF _ _ _ _ nl refl this] show ?thesis by simp
qed

section \<open>A small demand miner\<close>

definition small_demand_config :: DemandConfig where
  "small_demand_config = \<lparr>dcEnvironment = ''public-testnet'', dcStatusURL = ''http://localhost'', dcExpectedNetwork = ''sudharma'',
     dcExpectedCoin = ''Sudharma'', dcExpectedSymbol = ''SUDH'', dcSeedAddress = ''a:1'', dcRewardAddress = Address (small_wallet 7),
     dcMinerBinary = ''/bin/sudharmad'', dcDataDirectory = ''/d'', dcLockFile = ''/l'', dcPollEvery = ''1s'', dcCooldown = ''1s'',
     dcFailureBackoff = ''1s'', dcChildTimeout = ''1s'', dcScheduledSweepEvery = '''', dcMaxBlocksPerSweep = 0, dcFaucetMinBalance = 0,
     dcFaucetFundingBlocks = 0, dcWakeListen = ''''\<rparr>"

definition small_demand_lib :: demand_lib where
  "small_demand_lib = \<lparr>ParseDuration = (\<lambda>_. Inr (seconds 1)), parseURL = (\<lambda>_. Some (''http'', ''localhost'', ''localhost'')),
     splitHostPort = (\<lambda>_. Some (''localhost'', ''1'')), isLoopbackIP = (\<lambda>_. True), decodeConfig = (\<lambda>_. Inr (small_demand_config, AtEOF))\<rparr>"

text \<open>A child that mines a block of \<open>k\<close> transactions and is stopped when it has reported it, or by the time limit.\<close>

definition small_child :: "nat \<Rightarrow> mine_run" where
  "small_child k = \<lparr>mrContext = None, mrMkdirAll = Inr (), mrMkdirTemp = Inr ''/d/run-1'', mrAbs = Inr, mrStart = Inr (),
     mrWrites = [pendingLine k @ newline # foundLine 7 ''ab'' k ''Reward'' @ [newline]],
     mrSelected = (if k = 0 then RunContextDone (Errorf ''deadline exceeded'' []) else EvidenceSeen), mrRunContext = None, mrLater = [],
     mrContextAfter = None\<rparr>"

definition small_demand_world :: "nat \<Rightarrow> mempool \<Rightarrow> rpc_server demand_world" where
  "small_demand_world k m = \<lparr>dwRemote = small_pay_server m, dwWake = NewWakeSleeper, dwChildren = (\<lambda>_. small_child k),
     dwEffects = (\<lambda>_ _. small_pay_server NewMempool), dwStarted = 0,
     dwClock = (\<lambda>_. seconds 3600), dwTick = 0, dwEnds = (\<lambda>_. TimerFired), dwSlept = 0, dwContext = None, dwLog = []\<rparr>"

definition small_client :: "rpc_server Client" where
  "small_client = \<lparr>clBaseURL = ''http://localhost'', clTransport = serverTransport small_env small_pay_lib 0, clCodec = small_client_codec\<rparr>"

lemma small_demand_status:
  "\<exists>st. ClientStatus small_client (small_pay_server m) = (small_pay_server m, Inr st)
     \<and> stNetwork st = ''sudharma'' \<and> stCoin st = ''Sudharma'' \<and> stSymbol st = ''SUDH'' \<and> stMempool st = Count m"
  by (simp add: small_client_def ClientStatus_def doJSON_def serving_handles [OF small_serving route_fixed(1)] dispatch_def handleStatus_def onlyGET_def
      withChain_def withState_def writeJSON_def small_client_codec_def CoinName_def CoinSymbol_def MempoolCount_def split: prod.split)

lemma small_child_length: "k < 10 \<Longrightarrow> length (pendingLine k @ newline # foundLine 7 ''ab'' k ''Reward'' @ [newline]) < miningEvidenceWindow"
  using dec_length [of k 1] dec_length [of 7 1] by (simp add: pendingLine_def foundLine_def go_const)


theorem demand_sweep_evidence_witness:
  "\<exists>w'. clearPendingMempool (NewSupervisor small_demand_lib small_demand_config (processDeps small_demand_config small_client))
      (small_demand_world 2 small_pool) = (w', Inr ()) \<and> dwStarted w' = 1
    \<and> (\<exists>ws. pendingPositive (observed ws) \<and> includedPositive (observed ws))"
proof -
  let ?s = "NewSupervisor small_demand_lib small_demand_config (processDeps small_demand_config small_client)" and ?w = "small_demand_world 2 small_pool"
  have nl: "newline \<notin> set (''ab'' @ ''Reward'')" by (simp add: newline_def)
  have "is_ok (validationError (observed (mrWrites (small_child 2))))"
    using node_counts [of 2 2 "''ab''" "''Reward''" 7] nl small_child_length [of 2]
    by (simp add: small_child_def observed_def OutputWrite_def observeEvidence_def newMiningOutput_def appendEvidenceTail_def validationError_def
        Let_def)
  moreover have "Dir ''/d/run-1'' = Clean ''/d''" "''/d/run-1'' \<noteq> ''/d''" by code_simp+
  ultimately have mine: "MineOne small_demand_config (small_child 2) = Inr ()"
    by (simp add: MineOne_def small_child_def small_demand_config_def isImmediateChild_def is_ok_iff)
  have sizes: "Count small_pool = 1" "Count NewMempool = 0"
    using small_pool_pending by (simp_all add: Count_def pending_def NewMempool_def) (metis length_map length_Cons list.size(3))
  obtain st0 where st0: "ClientStatus small_client (small_pay_server small_pool) = (small_pay_server small_pool, Inr st0)"
    "stNetwork st0 = ''sudharma''" "stCoin st0 = ''Sudharma''" "stSymbol st0 = ''SUDH''" "stMempool st0 = 1" using small_demand_status sizes by metis
  obtain st1 where st1: "ClientStatus small_client (small_pay_server NewMempool) = (small_pay_server NewMempool, Inr st1)"
    "stNetwork st1 = ''sudharma''" "stCoin st1 = ''Sudharma''" "stSymbol st1 = ''SUDH''" "stMempool st1 = 0" using small_demand_status sizes by metis
  have limit: "nat (BlocksPerSweepLimit small_demand_config) = Suc (Suc 30)" by (simp add: BlocksPerSweepLimit_def small_demand_config_def)
  have f: "supConfig ?s = small_demand_config" "supDeps ?s = processDeps small_demand_config small_client" by (simp_all add: NewSupervisor_def)
  have cfg: "dcExpectedNetwork small_demand_config = ''sudharma''" "dcExpectedCoin small_demand_config = ''Sudharma''"
    "dcExpectedSymbol small_demand_config = ''SUDH''" by (simp_all add: small_demand_config_def)
  have loop: "clearLoop ?s (Suc (Suc m)) ?w = (?w\<lparr>dwRemote := small_pay_server NewMempool, dwStarted := 1\<rparr>, Inr ())" for m
    using st0 st1 mine by (simp add: f cfg onNode_def rpcStatusSource_def small_demand_world_def validateStatusIdentity_def nativeMineOne_def)
  define w' where "w' = ?w\<lparr>dwRemote := small_pay_server NewMempool, dwStarted := 1\<rparr>"
  have w': "clearPendingMempool ?s ?w = (w', Inr ())" "dwStarted w' = 1"
    unfolding clearPendingMempool_def f limit w'_def by (rule loop) simp
  from demand_sweep_evidence [OF w'(1) refl] w'(2) have "\<exists>ws. pendingPositive (observed ws) \<and> includedPositive (observed ws)"
    by (auto simp: small_demand_world_def)
  with w' show ?thesis by blast
qed

end
