(* ===== verification/GpuMiner.thy ===== *)
theory GpuMiner
  imports DemandMiner Daemon
begin

text \<open>
  Package \<open>gpuminer\<close>: the configuration of the GPU miner, its client of the mining endpoints with
  failover, the external hasher, the mining loop and the remembered reward address.

  The client reaches a node through the transport of the wallet's client. The texts of errors, which
  decide about retries, are arguments except where the client writes them itself. The hasher program is
  a function of its arguments. A pass is one turn of the loop; sleeping is what others do meanwhile.
\<close>

section \<open>Configuration\<close>

record MinerConfig =
  gcAddress :: string
  gcNetwork :: string
  gcRPCURL :: string
  gcRPCURLs :: "string list"
  gcBackend :: string
  gcDevice :: int
  gcExpectedNetwork :: string
  gcExpectedCoin :: string
  gcExpectedSymbol :: string

record MinerWork =
  wkWorkID :: string
  wkJob :: string
  wkAlgorithm :: string
  wkVersion :: u32
  wkHeight :: u64
  wkDifficulty :: u32
  wkTarget :: string
  wkHeaderPrefix :: string
  wkRewardAddress :: string
  wkCacheNodes :: u32
  wkParent :: string
  wkBlock :: "block option"
  wkBlockReward :: u64
  wkMinerBalance :: u64
  wkNote :: string

record Solution =
  snWorkID :: string
  snNonce :: u64
  snAlgorithm :: string
  snVersion :: u32
  snHeight :: u64
  snDifficulty :: u32
  snTarget :: string
  snHeaderPrefix :: string
  snRewardAddress :: string
  snCacheNodes :: u32

record SubmitResult =
  srStatus :: string
  srAccepted :: bool
  srError :: string
  srHeight :: u64
  srHash :: string
  srRewardAddress :: string
  srBalance :: u64
  srBroadcast :: string

definition ValidateRewardAddress :: "string \<Rightarrow> unit result" where
  "ValidateRewardAddress address =
     (if \<not> rewardAddressPattern (ToLower (TrimSpace address))
      then Inl (Errorf ''wallet address must be 40 lowercase hex characters'' []) else Inr ())"

definition NormalizeRewardAddress :: "string \<Rightarrow> string result" where
  "NormalizeRewardAddress address =
     (let got = ToLower (TrimSpace address) in
      case ValidateRewardAddress got of Inl err \<Rightarrow> Inl err | Inr _ \<Rightarrow> Inr got)"

text \<open>The endpoints of a list, trimmed, without the empty ones and without repetitions.\<close>

fun addEndpoints :: "string list \<Rightarrow> string list \<Rightarrow> string list" where
  "addEndpoints out [] = out"
| "addEndpoints out (raw # rest) =
     (let trimmed = TrimRightSlash (TrimSpace raw) in
      if trimmed = '''' \<or> trimmed \<in> set out then addEndpoints out rest else addEndpoints (out @ [trimmed]) rest)"

definition MainnetMiningClosed :: error where
  "MainnetMiningClosed = Errorf ''mainnet mining is not authorized; Sudharma mainnet remains GPU-only and closed until launch'' []"

definition resolveMiningEndpoints :: "string \<Rightarrow> string \<Rightarrow> string list \<Rightarrow> string list result" where
  "resolveMiningEndpoints net rpcURL rpcURLs =
     (let override = TrimRightSlash (TrimSpace rpcURL) in
      if override \<noteq> '''' then
        (if net = MiningNetworkMainnet \<and> \<not> MainnetMiningAuthorized then Inl MainnetMiningClosed else Inr [override])
      else if rpcURLs \<noteq> [] then
        (let out = addEndpoints [] rpcURLs in
         if out = [] then Inl (Errorf ''at least one mining RPC endpoint is required'' [])
         else if net = MiningNetworkMainnet \<and> \<not> MainnetMiningAuthorized then Inl MainnetMiningClosed
         else Inr out)
      else MiningRPCEndpointsForNetwork net)"

definition Resolve :: "MinerConfig \<Rightarrow> MinerConfig result" where
  "Resolve cfg =
     (case ValidateRewardAddress (gcAddress cfg) of
       Inl err \<Rightarrow> Inl err
     | Inr _ \<Rightarrow>
     (case ValidateMiningBackend (gcBackend cfg) of
       Inl err \<Rightarrow> Inl err
     | Inr _ \<Rightarrow>
     (let net = NormalizeMiningNetwork (gcNetwork cfg); orElse = (\<lambda>s d. if TrimSpace s = '''' then d else TrimSpace s) in
     (case resolveMiningEndpoints net (gcRPCURL cfg) (gcRPCURLs cfg) of
       Inl err \<Rightarrow> Inl err
     | Inr endpoints \<Rightarrow>
       Inr \<lparr>gcAddress = ToLower (TrimSpace (gcAddress cfg)), gcNetwork = net, gcRPCURL = endpoints ! 0, gcRPCURLs = endpoints,
         gcBackend = orElse (gcBackend cfg) ProductionMiningBackend, gcDevice = gcDevice cfg,
         gcExpectedNetwork = orElse (gcExpectedNetwork cfg) ''sudharma'', gcExpectedCoin = orElse (gcExpectedCoin cfg) ''Sudharma'',
         gcExpectedSymbol = orElse (gcExpectedSymbol cfg) ''SUDH''\<rparr>))))"

record NetworkStatus =
  nsNetwork :: string
  nsHeight :: u64
  nsPeers :: int
  nsMempool :: int

definition ValidateNetworkStatus :: "NetworkStatus \<Rightarrow> string \<Rightarrow> unit result" where
  "ValidateNetworkStatus status expectedNetwork =
     (let trimmed = ToLower (TrimSpace expectedNetwork);
          expected = (if trimmed = '''' then ''sudharma'' else trimmed);
          got = ToLower (TrimSpace (nsNetwork status)) in
      if got = '''' then Inl (Errorf ''mining RPC did not report a network identity'' [])
      else if got \<noteq> expected then Inl (Errorf ''expected network %q, got %q'' [expected, nsNetwork status])
      else Inr ())"

section \<open>The client\<close>

text \<open>The JSON of requests and responses, of which at most one megabyte is read, and the texts of errors.\<close>

record miner_codec =
  mcEncodeAddress :: "string \<Rightarrow> bytes result"
  mcEncodeSolution :: "Solution \<Rightarrow> bytes result"
  mcEncodeBlock :: "block \<Rightarrow> bytes result"
  mcReadBody :: "http_response \<Rightarrow> rpc_body result"
  mcDecodeWork :: "rpc_body \<Rightarrow> MinerWork result"
  mcDecodeSubmit :: "rpc_body \<Rightarrow> SubmitResult result"
  mcDecodeStatus :: "rpc_body \<Rightarrow> NetworkStatus result"
  mcErrorField :: "rpc_body \<Rightarrow> string"
  mcBodyText :: "rpc_body \<Rightarrow> string"
  mcStatusText :: "nat \<Rightarrow> string"
  mcErrorText :: "error \<Rightarrow> string"

record 'w MiningClient =
  miBaseURL :: string
  miTransport :: "'w transport"
  miCodec :: miner_codec

definition WorkFromJSON :: "miner_codec \<Rightarrow> rpc_body \<Rightarrow> MinerWork result" where
  "WorkFromJSON K raw =
     (case mcDecodeWork K raw of
       Inl err \<Rightarrow> Inl (Wrapf ''invalid mining work JSON: %w'' [] err)
     | Inr work \<Rightarrow>
     (case (if TrimSpace (wkAlgorithm work) \<noteq> '''' then ValidateProductionMiningAlgorithm (wkAlgorithm work)
            else if wkBlock work = None then Inl (Errorf ''%s'' [GPUOnlyMiningMessage]) else Inr ()) of
       Inl err \<Rightarrow> Inl err
     | Inr _ \<Rightarrow>
     if wkVersion work \<noteq> 0 \<and> wkVersion work \<noteq> 2
     then Inl (Errorf ''%s (unsupported work version %d)'' [GPUOnlyMiningMessage, dec (unat (wkVersion work))])
     else if wkBlock work \<noteq> None then Inr work
     else if TrimSpace (wkHeaderPrefix work) = '''' \<or> TrimSpace (wkTarget work) = ''''
     then Inl (Errorf ''mining work is missing GPU-PoW header or target'' [])
     else Inr work))"

definition NewMiningClient ::
  "(string \<Rightarrow> (string \<times> string) option) \<Rightarrow> 'w transport \<Rightarrow> miner_codec \<Rightarrow> string \<Rightarrow> 'w MiningClient result" where
  "NewMiningClient parse transport K baseURL =
     (let trimmed = TrimRightSlash (TrimSpace baseURL) in
      (case parse trimmed of
        None \<Rightarrow> Inl (Errorf ''invalid mining RPC URL'' [])
      | Some (scheme, host) \<Rightarrow>
        if scheme = '''' \<or> host = '''' then Inl (Errorf ''invalid mining RPC URL'' [])
        else if scheme \<noteq> ''http'' \<and> scheme \<noteq> ''https'' then Inl (Errorf ''mining RPC URL must use http or https'' [])
        else Inr \<lparr>miBaseURL = trimmed, miTransport = transport, miCodec = K\<rparr>))"

definition miningDo ::
  "'w MiningClient \<Rightarrow> string \<Rightarrow> string \<Rightarrow> (string \<Rightarrow> string) \<Rightarrow> bytes option \<Rightarrow> 'w \<Rightarrow> 'w \<times> rpc_body result" where
  "miningDo cl meth path query body w =
     (case miTransport cl (miBaseURL cl) \<lparr>reqMethod = meth, reqPath = path, reqQuery = query,
         reqContentType = (if body = None then '''' else ''application/json''),
         reqBody = Inr (case body of None \<Rightarrow> [] | Some data \<Rightarrow> data)\<rparr> w of
       (w1, Inl err) \<Rightarrow> (w1, Inl (Wrapf ''mining RPC request failed: %w'' [] err))
     | (w1, Inr rsp) \<Rightarrow>
     (case mcReadBody (miCodec cl) rsp of
       Inl err \<Rightarrow> (w1, Inl err)
     | Inr limited \<Rightarrow>
       if rspStatus rsp < 200 \<or> rspStatus rsp \<ge> 300 then
         (let plain = TrimSpace (mcBodyText (miCodec cl) limited);
              message = (if mcErrorField (miCodec cl) limited \<noteq> '''' then mcErrorField (miCodec cl) limited
                else if plain \<noteq> '''' then plain else mcStatusText (miCodec cl) (rspStatus rsp))
          in (w1, Inl (Errorf ''mining RPC %d: %s'' [dec (rspStatus rsp), message])))
       else (w1, Inr limited)))"

text \<open>\<open>err.Error()\<close> of the errors that the client makes.\<close>

definition miningErrorText :: "miner_codec \<Rightarrow> error \<Rightarrow> string" where
  "miningErrorText K err =
     (case err of
        Errorf f args \<Rightarrow> if f = ''mining RPC %d: %s'' then ''mining RPC '' @ args ! 0 @ '': '' @ args ! 1 else mcErrorText K err
      | Wrapf f args cause \<Rightarrow>
          if f = ''mining RPC request failed: %w'' then ''mining RPC request failed: '' @ mcErrorText K cause else mcErrorText K err)"

fun Contains :: "string \<Rightarrow> string \<Rightarrow> bool" where
  "Contains [] sub = (sub = [])"
| "Contains (c # s) sub = (HasPrefix (c # s) sub \<or> Contains s sub)"

definition isMissingRoute :: "miner_codec \<Rightarrow> error \<Rightarrow> bool" where
  "isMissingRoute K err =
     (let msg = ToLower (miningErrorText K err) in
      Contains msg ''mining rpc 404'' \<or> Contains msg ''mining rpc 405'' \<or> Contains msg ''route not found'')"

definition MinerGetWork :: "string \<Rightarrow> 'w MiningClient \<Rightarrow> 'w \<Rightarrow> 'w \<times> MinerWork result" where
  "MinerGetWork address cl w =
     (case ValidateRewardAddress address of
       Inl err \<Rightarrow> (w, Inl err)
     | Inr _ \<Rightarrow>
     (case mcEncodeAddress (miCodec cl) address of
       Inl err \<Rightarrow> (w, Inl err)
     | Inr body \<Rightarrow>
     (case (case miningDo cl ''POST'' ''/v1/mining/work'' (\<lambda>_. '''') (Some body) w of
         (w1, Inl err) \<Rightarrow>
           if isMissingRoute (miCodec cl) err
           then miningDo cl ''GET'' ''/v1/mining/work'' (\<lambda>key. if key = ''address'' then address else '''') None w1
           else (w1, Inl err)
       | (w1, Inr raw) \<Rightarrow> (w1, Inr raw)) of
       (w2, Inl err) \<Rightarrow> (w2, Inl err)
     | (w2, Inr raw) \<Rightarrow> (w2, WorkFromJSON (miCodec cl) raw))))"

definition minerDecodeSubmit :: "bytes \<Rightarrow> 'w MiningClient \<Rightarrow> 'w \<Rightarrow> 'w \<times> SubmitResult result" where
  "minerDecodeSubmit encoded cl w =
     (case miningDo cl ''POST'' ''/v1/mining/submit'' (\<lambda>_. '''') (Some encoded) w of
       (w1, Inl err) \<Rightarrow> (w1, Inl err)
     | (w1, Inr raw) \<Rightarrow>
     (case mcDecodeSubmit (miCodec cl) raw of
       Inl err \<Rightarrow> (w1, Inl (Wrapf ''invalid mining submit JSON: %w'' [] err))
     | Inr res \<Rightarrow> (w1, Inr (if srAccepted res \<and> srStatus res = '''' then res\<lparr>srStatus := ''accepted''\<rparr> else res))))"

definition MinerSubmit :: "MinerWork \<Rightarrow> u64 \<Rightarrow> 'w MiningClient \<Rightarrow> 'w \<Rightarrow> 'w \<times> SubmitResult result" where
  "MinerSubmit work nonce cl w =
     (case ValidateProductionMiningAlgorithm (wkAlgorithm work) of
       Inl err \<Rightarrow> (w, Inl err)
     | Inr _ \<Rightarrow>
     (case mcEncodeSolution (miCodec cl) \<lparr>snWorkID = wkWorkID work, snNonce = nonce, snAlgorithm = wkAlgorithm work, snVersion = wkVersion work,
         snHeight = wkHeight work, snDifficulty = wkDifficulty work, snTarget = wkTarget work, snHeaderPrefix = wkHeaderPrefix work,
         snRewardAddress = wkRewardAddress work, snCacheNodes = wkCacheNodes work\<rparr> of
       Inl err \<Rightarrow> (w, Inl err)
     | Inr encoded \<Rightarrow> minerDecodeSubmit encoded cl w))"

definition MinerSubmitBlock :: "block option \<Rightarrow> 'w MiningClient \<Rightarrow> 'w \<Rightarrow> 'w \<times> SubmitResult result" where
  "MinerSubmitBlock blockp cl w =
     (case blockp of
       None \<Rightarrow> (w, Inl (Errorf ''missing block'' []))
     | Some block \<Rightarrow>
     (case mcEncodeBlock (miCodec cl) block of
       Inl err \<Rightarrow> (w, Inl err)
     | Inr encoded \<Rightarrow> minerDecodeSubmit encoded cl w))"

definition MinerNetworkStatus :: "'w MiningClient \<Rightarrow> 'w \<Rightarrow> 'w \<times> NetworkStatus result" where
  "MinerNetworkStatus cl w =
     (case miningDo cl ''GET'' ''/v1/status'' (\<lambda>_. '''') None w of
       (w1, Inl err) \<Rightarrow> (w1, Inl err)
     | (w1, Inr raw) \<Rightarrow>
     (case mcDecodeStatus (miCodec cl) raw of
       Inl err \<Rightarrow> (w1, Inl (Wrapf ''invalid status JSON: %w'' [] err))
     | Inr status \<Rightarrow> (w1, Inr status)))"

section \<open>Failover\<close>

definition isRetryableMiningRPCError :: "miner_codec \<Rightarrow> error \<Rightarrow> bool" where
  "isRetryableMiningRPCError K err =
     (let msg = ToLower (miningErrorText K err) in
      Contains msg ''mining rpc request failed''
      \<or> (\<exists>code\<in>set [''500'', ''502'', ''503'', ''504'']. Contains msg (''mining rpc '' @ code)))"

fun NewFailoverClient ::
  "(string \<Rightarrow> (string \<times> string) option) \<Rightarrow> 'w transport \<Rightarrow> miner_codec \<Rightarrow> string list \<Rightarrow> 'w MiningClient list result" where
  "NewFailoverClient parse transport K [] = Inl (Errorf ''at least one mining RPC endpoint is required'' [])"
| "NewFailoverClient parse transport K (endpoint # rest) =
     (case NewMiningClient parse transport K endpoint of
       Inl err \<Rightarrow> Inl err
     | Inr cl \<Rightarrow>
       if rest = [] then Inr [cl]
       else (case NewFailoverClient parse transport K rest of Inl err \<Rightarrow> Inl err | Inr clients \<Rightarrow> Inr (cl # clients)))"

fun callWithFailover :: "'w MiningClient list \<Rightarrow> ('w MiningClient \<Rightarrow> 'w \<Rightarrow> 'w \<times> 'r result) \<Rightarrow> 'w \<Rightarrow> 'w \<times> 'r result" where
  "callWithFailover [] fn w = (w, Inl (Errorf ''mining RPC client is unavailable'' []))"
| "callWithFailover (cl # rest) fn w =
     (case fn cl w of
       (w1, Inr res) \<Rightarrow> (w1, Inr res)
     | (w1, Inl err) \<Rightarrow>
       if rest = [] \<or> \<not> isRetryableMiningRPCError (miCodec cl) err then (w1, Inl err)
       else callWithFailover rest fn w1)"

section \<open>The hasher\<close>

record 'w Backend =
  beName :: string
  beSearch :: "MinerWork \<Rightarrow> 'w \<Rightarrow> 'w \<times> u64 result"

record CommandBackend =
  cmPath :: string
  cmDevice :: int

definition CommandName :: "CommandBackend \<Rightarrow> string" where
  "CommandName c =
     (let lower = ToLower (cmPath c) in
      if Contains lower ''opencl'' then ''opencl''
      else if Contains lower ''nvidia'' \<or> Contains lower ''cuda'' then ''cuda''
      else ProductionMiningBackend)"

definition defaultGPUCacheNodes :: u32 where
  [go_const]: "defaultGPUCacheNodes = 8"

definition HasherArgs :: "MinerWork \<Rightarrow> int \<Rightarrow> string list" where
  "HasherArgs work device =
     (let cacheNodes = (if wkCacheNodes work = 0 then defaultGPUCacheNodes else wkCacheNodes work);
          args = [''--staging-search'', ''--header-prefix-hex'', TrimSpace (wkHeaderPrefix work), ''--target-hex'', TrimSpace (wkTarget work),
            ''--height'', dec (unat (wkHeight work)), ''--cache-nodes'', dec (unat cacheNodes)]
      in if device > 0 then [''--device'', dec_int device] @ args else args)"

fun nonceLine :: "string list \<Rightarrow> u64 result" where
  "nonceLine [] = Inl (Errorf ''GPU hasher did not print staging-solution-nonce; CPU fallback is not allowed'' [])"
| "nonceLine (line # rest) =
     (let text = TrimSpace line in
      if HasPrefix text ''staging-solution-nonce='' then
        (case ParseUint64 (TrimSpace (drop 23 text)) of
           None \<Rightarrow> Inl (Errorf ''invalid GPU hasher nonce: %w'' [])
         | Some nonce \<Rightarrow> Inr nonce)
      else nonceLine rest)"

definition ParseHasherNonce :: "bytes \<Rightarrow> u64 result" where
  "ParseHasherNonce output = nonceLine (Split (text_of output) newline)"

definition CommandSearch ::
  "(string \<Rightarrow> string list \<Rightarrow> 'w \<Rightarrow> 'w \<times> bytes result) \<Rightarrow> CommandBackend \<Rightarrow> MinerWork \<Rightarrow> 'w \<Rightarrow> 'w \<times> u64 result" where
  "CommandSearch runHasher c work w =
     (case ValidateMiningBackend (CommandName c) of
       Inl err \<Rightarrow> (w, Inl err)
     | Inr _ \<Rightarrow>
     if TrimSpace (cmPath c) = '''' then (w, Inl (Errorf ''%s GPU hasher is missing'' [GPUOnlyMiningMessage]))
     else (case runHasher (cmPath c) (HasherArgs work (cmDevice c)) w of
       (w1, Inl err) \<Rightarrow> (w1, Inl (Wrapf ''GPU hasher failed: %w'' [] err))
     | (w1, Inr out) \<Rightarrow> (w1, ParseHasherNonce out)))"

definition commandBackend :: "(string \<Rightarrow> string list \<Rightarrow> 'w \<Rightarrow> 'w \<times> bytes result) \<Rightarrow> CommandBackend \<Rightarrow> 'w Backend" where
  "commandBackend runHasher c = \<lparr>beName = CommandName c, beSearch = CommandSearch runHasher c\<rparr>"

definition StaticNonceBackend :: "string \<Rightarrow> u64 \<Rightarrow> 'w Backend" where
  "StaticNonceBackend name nonce =
     (let effective = (if name = '''' then ProductionMiningBackend else name) in
      \<lparr>beName = effective,
       beSearch = (\<lambda>work w. (w, case ValidateMiningBackend effective of Inl err \<Rightarrow> Inl err | Inr _ \<Rightarrow> Inr nonce))\<rparr>)"

definition RejectedBackend :: "string \<Rightarrow> 'w Backend" where
  "RejectedBackend name = \<lparr>beName = name, beSearch = (\<lambda>work w. (w, Inl (Errorf ''%s'' [GPUOnlyMiningMessage])))\<rparr>"

definition hasherNames :: "string list" where
  "hasherNames = [''khushi-miner-nvidia.exe'', ''khushi-miner-opencl.exe'', ''khushi-miner-nvidia'', ''khushi-miner-opencl'',
     ''sudharma-khushi-nvidia.exe'', ''sudharma-khushi-opencl.exe'']"

text \<open>\<open>isFile\<close> says which paths \<open>os.Stat\<close> finds as something other than a directory.\<close>

fun firstHasher :: "(path \<Rightarrow> bool) \<Rightarrow> path \<Rightarrow> string list \<Rightarrow> path result option" where
  "firstHasher isFile dir [] = None"
| "firstHasher isFile dir (name # rest) =
     (if \<not> isFile (Join dir name) then firstHasher isFile dir rest
      else (case ValidateMiningBackend (if Contains (ToLower name) ''opencl'' then ''opencl'' else ''cuda'') of
          Inl err \<Rightarrow> Some (Inl err)
        | Inr _ \<Rightarrow> Some (Inr (Join dir name))))"

definition DetectGPUHasher :: "(path \<Rightarrow> bool) \<Rightarrow> path result \<Rightarrow> path \<Rightarrow> path result" where
  "DetectGPUHasher isFile executable dir =
     (case (if TrimSpace dir = '''' then map_sum id Dir executable else Inr dir) of
       Inl err \<Rightarrow> Inl (Wrapf ''locate GPU miner: %w'' [] err)
     | Inr folder \<Rightarrow>
     (case firstHasher isFile folder hasherNames of
       Some found \<Rightarrow> found
     | None \<Rightarrow> Inl (Errorf ''%s Place khushi-miner-nvidia%s or khushi-miner-opencl%s in the same folder as this miner'' [GPUOnlyMiningMessage])))"

definition WorkFromCandidateBlock :: "block option \<Rightarrow> u32 \<Rightarrow> string \<Rightarrow> MinerWork" where
  "WorkFromCandidateBlock blockp poolDifficulty poolTarget =
     (let zero = \<lparr>wkWorkID = '''', wkJob = '''', wkAlgorithm = '''', wkVersion = 0, wkHeight = 0, wkDifficulty = 0, wkTarget = '''',
         wkHeaderPrefix = '''', wkRewardAddress = '''', wkCacheNodes = 0, wkParent = '''', wkBlock = None, wkBlockReward = 0,
         wkMinerBalance = 0, wkNote = ''''\<rparr> in
      case blockp of
        None \<Rightarrow> zero
      | Some block \<Rightarrow> zero\<lparr>wkAlgorithm := ProductionMiningAlgorithm, wkVersion := 2, wkHeight := blkHeight block,
          wkDifficulty := poolDifficulty, wkTarget := poolTarget, wkHeaderPrefix := hex_encode (HeaderBytes block 0),
          wkRewardAddress := blkMinerAddress block, wkBlock := Some block\<rparr>)"

section \<open>The loop\<close>

definition candidateChunk :: u64 where
  [go_const]: "candidateChunk = 100000"

text \<open>The search in a candidate block; \<open>ctx\<close> is the context before each chunk. The copy keeps its nonce
  between chunks, which the search does not read.\<close>

function mineChunks :: "crypto \<Rightarrow> (nat \<Rightarrow> error option) \<Rightarrow> block \<Rightarrow> nat \<Rightarrow> u64 \<Rightarrow> block option result" where
  "mineChunks C ctx block i start =
     (case ctx i of
        Some err \<Rightarrow> Inl err
      | None \<Rightarrow>
        (let res = Mine C block start candidateChunk in
         if resFound res then Inr (resBlock res)
         else if start + candidateChunk \<ge> 50000000 then Inl (Errorf ''no valid nonce found'' [])
         else mineChunks C ctx block (Suc i) (start + candidateChunk)))"
  by pat_completeness auto
termination
proof (relation "measure (\<lambda>(C, ctx, block, i, start). if unat start < 50000000 then 50000000 - unat start else 50000001)")
  fix C :: crypto and ctx :: "nat \<Rightarrow> error option" and block :: block and i :: nat and start :: u64 and res
  assume "\<not> start + candidateChunk \<ge> 50000000"
  then have lt: "unat (start + candidateChunk) < 50000000" by (simp add: word_le_nat_alt)
  show "((C, ctx, block, Suc i, start + candidateChunk), C, ctx, block, i, start)
      \<in> measure (\<lambda>(C, ctx, block, i, start). if unat start < 50000000 then 50000000 - unat start else 50000001)"
  proof (cases "unat start < 50000000")
    case True
    then have "unat (start + candidateChunk) = unat start + 100000" by (simp add: candidateChunk_def unat_word_ariths)
    with True lt show ?thesis by simp
  qed (use lt in simp)
qed simp

declare mineChunks.simps [simp del]

definition mineCandidateBlock :: "crypto \<Rightarrow> (nat \<Rightarrow> error option) \<Rightarrow> block option \<Rightarrow> block option result" where
  "mineCandidateBlock C ctx candidate =
     (case candidate of
        None \<Rightarrow> Inl (Errorf ''missing candidate block'' [])
      | Some block \<Rightarrow> mineChunks C ctx block 0 0)"

text \<open>The surroundings of the loop: whether the context has ended before a pass and during the search, and what
  happens while the loop sleeps.\<close>

record 'w loop_env =
  leCrypto :: crypto
  leDone :: "'w \<Rightarrow> bool"
  leSearching :: "'w \<Rightarrow> nat \<Rightarrow> error option"
  leSleep :: "i64 \<Rightarrow> 'w \<Rightarrow> 'w"

record 'w MinerLoop =
  mlClients :: "'w MiningClient list"
  mlAddress :: string
  mlBackend :: "'w Backend option"
  mlOnce :: bool

definition acceptedResult :: "SubmitResult \<Rightarrow> bool" where
  "acceptedResult res =
     (let status = (if srStatus res = '''' \<and> srAccepted res then ''accepted'' else srStatus res) in
      (if status = '''' then ''unknown'' else status) = ''accepted'')"

definition handleMinerWork :: "'w loop_env \<Rightarrow> 'w MinerLoop \<Rightarrow> MinerWork \<Rightarrow> 'w \<Rightarrow> 'w \<times> bool result" where
  "handleMinerWork V l work w =
     (if wkBlock work \<noteq> None then
        (case mineCandidateBlock (leCrypto V) (leSearching V w) (wkBlock work) of
          Inl err \<Rightarrow> (w, Inl err)
        | Inr mined \<Rightarrow>
        (case callWithFailover (mlClients l) (MinerSubmitBlock mined) w of
          (w1, Inl err) \<Rightarrow> (w1, Inl err)
        | (w1, Inr res) \<Rightarrow> (w1, Inr (acceptedResult res))))
      else (case mlBackend l of
        None \<Rightarrow> (w, Inl (Errorf ''%s'' [GPUOnlyMiningMessage]))
      | Some backend \<Rightarrow>
      (case beSearch backend work w of
        (w1, Inl err) \<Rightarrow> (w1, Inl err)
      | (w1, Inr nonce) \<Rightarrow>
      (case callWithFailover (mlClients l) (MinerSubmit work nonce) w1 of
        (w2, Inl err) \<Rightarrow> (w2, Inl err)
      | (w2, Inr res) \<Rightarrow> (w2, Inr (acceptedResult res))))))"

text \<open>One pass: the number of accepted blocks, and the end of the run if this pass ends it.\<close>

definition minerPass :: "'w loop_env \<Rightarrow> 'w MinerLoop \<Rightarrow> nat \<Rightarrow> 'w \<Rightarrow> 'w \<times> nat \<times> unit result option" where
  "minerPass V l accepted w =
     (if leDone V w then (w, accepted, Some (Inr ()))
      else (case callWithFailover (mlClients l) (MinerGetWork (mlAddress l)) w of
        (w1, Inl err) \<Rightarrow> if mlOnce l then (w1, accepted, Some (Inl err)) else (leSleep V (seconds 2) w1, accepted, None)
      | (w1, Inr work) \<Rightarrow>
      (case handleMinerWork V l work w1 of
        (w2, Inl err) \<Rightarrow> if mlOnce l then (w2, accepted, Some (Inl err)) else (leSleep V (seconds 1) w2, accepted, None)
      | (w2, Inr ok) \<Rightarrow>
        (let accepted1 = (if ok then Suc accepted else accepted) in
         if mlOnce l then (w2, accepted1, Some (Inr ()))
         else (if ok then w2 else leSleep V (seconds 1) w2, accepted1, None)))))"

fun minerPasses :: "'w loop_env \<Rightarrow> 'w MinerLoop \<Rightarrow> nat \<Rightarrow> nat \<Rightarrow> 'w \<Rightarrow> 'w \<times> nat \<times> unit result option" where
  "minerPasses V l 0 accepted w = (w, accepted, None)"
| "minerPasses V l (Suc k) accepted w =
     (case minerPass V l accepted w of
        (w1, accepted1, Some finish) \<Rightarrow> (w1, accepted1, Some finish)
      | (w1, accepted1, None) \<Rightarrow> minerPasses V l k accepted1 w1)"

text \<open>The run, observed for at most \<open>k\<close> passes.\<close>

definition RunMiner :: "'w loop_env \<Rightarrow> 'w MinerLoop \<Rightarrow> nat \<Rightarrow> 'w \<Rightarrow> 'w \<times> nat \<times> unit result option" where
  "RunMiner V l k w =
     (case (case mlBackend l of None \<Rightarrow> Inr () | Some backend \<Rightarrow> ValidateMiningBackend (beName backend)) of
        Inl err \<Rightarrow> (w, 0, Some (Inl err))
      | Inr _ \<Rightarrow> minerPasses V l k 0 w)"

section \<open>The remembered address\<close>

record store_env =
  evDataDir :: string
  evWindows :: bool
  evLocalAppData :: string
  evXdgDataHome :: string
  evHome :: "string result"

definition rewardAddressFile :: string where
  "rewardAddressFile = ''reward-address.txt''"

definition AddressStoreDir :: "store_env \<Rightarrow> path result" where
  "AddressStoreDir V =
     (if TrimSpace (evDataDir V) \<noteq> '''' then Inr (TrimSpace (evDataDir V))
      else if evWindows V then
        (if TrimSpace (evLocalAppData V) = '''' then Inl (Errorf ''LOCALAPPDATA is not set'' [])
         else Inr (Join (TrimSpace (evLocalAppData V)) ''Sudharma/gpu-miner''))
      else if TrimSpace (evXdgDataHome V) \<noteq> '''' then Inr (Join (TrimSpace (evXdgDataHome V)) ''sudharma/gpu-miner'')
      else (case evHome V of Inl err \<Rightarrow> Inl err | Inr home \<Rightarrow> Inr (Join home ''.local/share/sudharma/gpu-miner'')))"

definition rewardAddressPath :: "store_env \<Rightarrow> path result" where
  "rewardAddressPath V = (case AddressStoreDir V of Inl err \<Rightarrow> Inl err | Inr dir \<Rightarrow> Inr (Join dir rewardAddressFile))"

definition LoadSavedAddress :: "store_env \<Rightarrow> disk \<Rightarrow> (disk, string) outcome" where
  "LoadSavedAddress V d =
     (case rewardAddressPath V of
       Inl err \<Rightarrow> (d, Inl err)
     | Inr p \<Rightarrow>
     (case ReadFile p d of
       (d1, Inl err) \<Rightarrow> (d1, if IsNotExist err then Inr '''' else Inl err)
     | (d1, Inr raw) \<Rightarrow>
       (let address = ToLower (TrimSpace (text_of raw)) in
        if address = '''' then (d1, Inr '''')
        else (case ValidateRewardAddress address of Inl _ \<Rightarrow> (d1, Inr '''') | Inr _ \<Rightarrow> (d1, Inr address)))))"

definition SaveAddress :: "store_env \<Rightarrow> string \<Rightarrow> disk \<Rightarrow> (disk, unit) outcome" where
  "SaveAddress V address0 d =
     (let address = ToLower (TrimSpace address0) in
     (case ValidateRewardAddress address of
       Inl err \<Rightarrow> (d, Inl err)
     | Inr _ \<Rightarrow>
     (case rewardAddressPath V of
       Inl err \<Rightarrow> (d, Inl err)
     | Inr p \<Rightarrow>
     (case MkdirAll (Dir p) d of
       (d1, Inl err) \<Rightarrow> (d1, Inl err)
     | (d1, Inr _) \<Rightarrow> WriteFile p (bytes_of (address @ [newline])) d1))))"

section \<open>Configuration files\<close>

record FileConfig =
  fcEnvironment :: string
  fcPublicRPCURL :: string
  fcSeed1RPCURL :: string
  fcSeed2RPCURL :: string
  fcExpectedNetwork :: string
  fcExpectedCoin :: string
  fcExpectedSymbol :: string
  fcRewardAddress :: string
  fcBackend :: string
  fcDevice :: int

definition validateMiningRPCURL :: "(string \<Rightarrow> (string \<times> string) option) \<Rightarrow> string \<Rightarrow> unit result" where
  "validateMiningRPCURL parse raw =
     (let trimmed = TrimSpace raw in
      if trimmed = '''' then Inl (Errorf ''is required'' [])
      else (case parse trimmed of
        None \<Rightarrow> Inl (Errorf ''must be an absolute http or https URL'' [])
      | Some (scheme, host) \<Rightarrow>
        if scheme = '''' \<or> host = '''' then Inl (Errorf ''must be an absolute http or https URL'' [])
        else if scheme \<noteq> ''http'' \<and> scheme \<noteq> ''https'' then Inl (Errorf ''scheme must be http or https'' [])
        else Inr ()))"

definition validateBackendField :: "string \<Rightarrow> unit result" where
  "validateBackendField backend =
     (if backend = '''' then Inr ()
      else (case ValidateMiningBackend backend of Inl err \<Rightarrow> Inl (Wrapf ''backend: %w'' [] err) | Inr _ \<Rightarrow> Inr ()))"

definition FileValidate :: "(string \<Rightarrow> (string \<times> string) option) \<Rightarrow> FileConfig \<Rightarrow> unit result" where
  "FileValidate parse c =
     (let net = NormalizeMiningNetwork (fcEnvironment c) in
      if fcEnvironment c = '''' then Inl (Errorf ''environment is required'' [])
      else if net \<noteq> MiningNetworkPublicTestnet \<and> net \<noteq> MiningNetworkMainnet
      then Inl (Errorf ''environment must be %q or %q'' [MiningNetworkPublicTestnet, MiningNetworkMainnet])
      else if net = MiningNetworkPublicTestnet \<and> fcExpectedNetwork c \<noteq> ''sudharma''
      then Inl (Errorf ''expected_network must be sudharma for public-testnet'' [])
      else if net = MiningNetworkMainnet \<and> fcExpectedNetwork c \<noteq> NetworkMainnet
      then Inl (Errorf ''expected_network must be %q for mainnet'' [NetworkMainnet])
      else if fcExpectedCoin c \<noteq> ''Sudharma'' then Inl (Errorf ''expected_coin must be Sudharma'' [])
      else if fcExpectedSymbol c \<noteq> ''SUDH'' then Inl (Errorf ''expected_symbol must be SUDH'' [])
      else if \<not> rewardAddressPattern (fcRewardAddress c)
      then Inl (Errorf ''reward_address must be 40 lowercase hexadecimal characters'' [])
      else (case validateMiningRPCURL parse (fcPublicRPCURL c) of
        Inl err \<Rightarrow> Inl (Wrapf ''public_rpc_url: %w'' [] err)
      | Inr _ \<Rightarrow>
      (case validateMiningRPCURL parse (fcSeed1RPCURL c) of
        Inl err \<Rightarrow> Inl (Wrapf ''seed1_rpc_url: %w'' [] err)
      | Inr _ \<Rightarrow>
      (case validateMiningRPCURL parse (fcSeed2RPCURL c) of
        Inl err \<Rightarrow> Inl (Wrapf ''seed2_rpc_url: %w'' [] err)
      | Inr _ \<Rightarrow> validateBackendField (fcBackend c)))))"

text \<open>Reading of a strict JSON file: unknown fields and trailing values are errors.\<close>

definition loadStrict ::
  "string \<Rightarrow> (bytes \<Rightarrow> ('c \<times> trailing) result) \<Rightarrow> ('c \<Rightarrow> unit result) \<Rightarrow> path \<Rightarrow> disk \<Rightarrow> (disk, 'c) outcome" where
  "loadStrict what decode validate p d =
     (case ReadFile p d of
       (d1, Inl err) \<Rightarrow> (d1, Inl (Wrapf ''open %s: %w'' [what] err))
     | (d1, Inr data) \<Rightarrow>
     (case decode data of
       Inl err \<Rightarrow> (d1, Inl (Wrapf ''decode %s: %w'' [what] err))
     | Inr (cfg, AnotherValue) \<Rightarrow> (d1, Inl (Errorf ''decode %s: multiple JSON values'' [what]))
     | Inr (cfg, TrailingInvalid err) \<Rightarrow> (d1, Inl (Wrapf ''decode %s: %w'' [what] err))
     | Inr (cfg, AtEOF) \<Rightarrow> (case validate cfg of Inl err \<Rightarrow> (d1, Inl err) | Inr _ \<Rightarrow> (d1, Inr cfg))))"

definition LoadFileConfig ::
  "(string \<Rightarrow> (string \<times> string) option) \<Rightarrow> (bytes \<Rightarrow> (FileConfig \<times> trailing) result) \<Rightarrow> path \<Rightarrow> disk \<Rightarrow> (disk, FileConfig) outcome" where
  "LoadFileConfig parse decode = loadStrict ''config'' decode (FileValidate parse)"

definition MiningEndpoints :: "FileConfig \<Rightarrow> string list" where
  "MiningEndpoints c =
     (let endpoints = addEndpoints [] [fcSeed1RPCURL c, fcSeed2RPCURL c, fcPublicRPCURL c] in
      if endpoints = [] then (case MiningRPCEndpointsForNetwork (NormalizeMiningNetwork (fcEnvironment c)) of Inl _ \<Rightarrow> [] | Inr defaults \<Rightarrow> defaults)
      else endpoints)"

definition ToConfig :: "FileConfig \<Rightarrow> MinerConfig result" where
  "ToConfig c =
     (case NormalizeRewardAddress (fcRewardAddress c) of
       Inl err \<Rightarrow> Inl err
     | Inr address \<Rightarrow>
       Inr \<lparr>gcAddress = address, gcNetwork = NormalizeMiningNetwork (fcEnvironment c), gcRPCURL = '''', gcRPCURLs = MiningEndpoints c,
         gcBackend = (if TrimSpace (fcBackend c) = '''' then ProductionMiningBackend else TrimSpace (fcBackend c)),
         gcDevice = fcDevice c, gcExpectedNetwork = fcExpectedNetwork c, gcExpectedCoin = fcExpectedCoin c,
         gcExpectedSymbol = fcExpectedSymbol c\<rparr>)"

record PoolFileConfig =
  pfEnvironment :: string
  pfStratumURL :: string
  pfRewardAddress :: string
  pfWorkerName :: string
  pfPassword :: string
  pfBackend :: string
  pfDevice :: int

definition PoolFileValidate :: "PoolFileConfig \<Rightarrow> unit result" where
  "PoolFileValidate c =
     (let net = NormalizeMiningNetwork (pfEnvironment c) in
      if pfEnvironment c = '''' then Inl (Errorf ''environment is required'' [])
      else if net \<noteq> MiningNetworkPublicTestnet \<and> net \<noteq> MiningNetworkMainnet
      then Inl (Errorf ''environment must be %q or %q'' [MiningNetworkPublicTestnet, MiningNetworkMainnet])
      else if net = MiningNetworkMainnet \<and> \<not> MainnetMiningAuthorized
      then Inl (Errorf ''mainnet pool mining is not authorized until launch'' [])
      else if TrimSpace (pfStratumURL c) = '''' then Inl (Errorf ''stratum_url is required'' [])
      else if \<not> rewardAddressPattern (pfRewardAddress c)
      then Inl (Errorf ''reward_address must be 40 lowercase hexadecimal characters'' [])
      else validateBackendField (pfBackend c))"

definition LoadPoolFileConfig :: "(bytes \<Rightarrow> (PoolFileConfig \<times> trailing) result) \<Rightarrow> path \<Rightarrow> disk \<Rightarrow> (disk, PoolFileConfig) outcome" where
  "LoadPoolFileConfig decode = loadStrict ''pool config'' decode PoolFileValidate"

definition PoolNetwork :: "PoolFileConfig \<Rightarrow> string" where
  "PoolNetwork c = NormalizeMiningNetwork (pfEnvironment c)"

section \<open>What the address file holds\<close>

lemma starts_newline: "starts_with (map rev space_codes) (newline # s) = 1"
proof -
  have "char_of (10 :: nat) = newline" by code_simp
  then obtain rest where "map rev space_codes = [char_of (9 :: nat)] # [newline] # rest" by (simp add: space_codes_def)
  then show ?thesis by (simp add: starts_with_def newline_def)
qed

lemma TrimSpace_line:
  assumes "s \<noteq> []" "printable (hd s)" "printable (last s)"
  shows "TrimSpace (s @ [newline]) = s"
proof -
  have "trim_left space_codes (s @ [newline]) = s @ [newline]"
    by (rule trim_left_plain [OF space_codes_ends(1)]) (use assms in simp)
  moreover have "trim_left (map rev space_codes) (newline # rev s) = trim_left (map rev space_codes) (rev s)"
    by (subst trim_left.simps) (simp add: starts_newline)
  moreover have "trim_left (map rev space_codes) (rev s) = rev s"
    by (rule trim_left_plain [OF space_codes_ends(2)]) (simp add: hd_rev assms)
  ultimately show ?thesis by (simp add: TrimSpace_def)
qed

lemma lower_hex_char: "is_lower_hex c \<Longrightarrow> printable c \<and> lower_char c = c"
  by (auto simp: is_lower_hex_def printable_def lower_char_def Let_def)

lemma lower_hex_text:
  assumes "list_all is_lower_hex s"
  shows "TrimSpace s = s" "ToLower s = s" "s \<noteq> '''' \<Longrightarrow> TrimSpace (s @ [newline]) = s"
proof -
  have p: "printable (hd s)" "printable (last s)" if "s \<noteq> ''''" using assms that lower_hex_char by (auto simp: list_all_iff)
  show "TrimSpace s = s" using TrimSpace_plain p by (cases "s = ''''") auto
  show "ToLower s = s" using assms lower_hex_char by (auto simp: ToLower_def list_all_iff intro: map_idI)
  show "s \<noteq> '''' \<Longrightarrow> TrimSpace (s @ [newline]) = s" using TrimSpace_line p by blast
qed

lemma text_of_take: "text_of (take k bs) = take k (text_of bs)"
  by (simp add: text_of_def take_map)

text \<open>What is read back from the contents of the file.\<close>

definition savedAddress :: "bytes option \<Rightarrow> string" where
  "savedAddress contents =
     (case contents of
        None \<Rightarrow> ''''
      | Some raw \<Rightarrow> (let address = ToLower (TrimSpace (text_of raw)) in if is_ok (ValidateRewardAddress address) then address else ''''))"

lemma LoadSavedAddress_reboot:
  "rewardAddressPath V = Inr p \<Longrightarrow> LoadSavedAddress V (reboot fs) = (reboot fs, Inr (savedAddress (fs p)))"
  by (auto simp: LoadSavedAddress_def savedAddress_def ReadFile_def syscall_def reboot_def IsNotExist_def Let_def split: option.splits sum.splits)

lemma savedAddress_prefix:
  assumes "rewardAddressPattern a"
  shows "savedAddress (Some (take k (bytes_of (a @ [newline])))) = (if k < 40 then '''' else a)"
proof -
  have a: "length a = 40" "list_all is_lower_hex a" using assms by (simp_all add: rewardAddressPattern_def)
  have hex: "list_all is_lower_hex (take k a)" using a(2) by (auto simp: list_all_iff dest: in_set_takeD)
  note plain = lower_hex_text [OF a(2)] lower_hex_text [OF hex]
  have shown: "text_of (take k (bytes_of (a @ [newline]))) = (if k \<le> 40 then take k a else a @ [newline])"
    unfolding text_of_take text_of_bytes_of using a(1) by (auto simp: take_Cons')
  have "a \<noteq> ''''" using a(1) by auto
  with shown a plain assms show ?thesis
    by (auto simp: savedAddress_def ValidateRewardAddress_def rewardAddressPattern_def Let_def)
qed

text \<open>The remembered reward address is never a mangled one. Whatever system call fails and wherever the
  process is killed while an address is saved, the next start reads the address remembered before, none at
  all, or exactly the new address in its normal form; after a save without error it reads the new one.\<close>

theorem saved_address_whole:
  assumes "SaveAddress V a d = (d', r)" "fs \<in> set (crash_states d d')"
  shows "snd (LoadSavedAddress V (reboot fs)) \<in> {snd (LoadSavedAddress V (reboot (files d))), Inr '''', Inr (ToLower (TrimSpace a))}
    \<and> (r = Inr () \<longrightarrow> snd (LoadSavedAddress V (reboot (files d'))) = Inr (ToLower (TrimSpace a)))"
proof (cases "is_ok (ValidateRewardAddress (ToLower (TrimSpace a))) \<and> is_ok (rewardAddressPath V)")
  case False
  then have "d' = d" "r \<noteq> Inr ()" using assms(1) by (auto simp: SaveAddress_def Let_def split: sum.splits)
  then show ?thesis using assms(2) by (simp add: crash_states_def)
next
  case True
  let ?a = "ToLower (TrimSpace a)"
  from True obtain p where p: "rewardAddressPath V = Inr p" by (auto simp: is_ok_iff)
  have v: "ValidateRewardAddress ?a = Inr ()" using True by (auto simp: is_ok_iff)
  obtain d1 q where m: "MkdirAll (Dir p) d = (d1, q)" by fastforce
  have d1: "evolves P d d1 \<and> files d1 = files d" for P using call_only_files m unfolding MkdirAll_def by blast
  show ?thesis
  proof (cases q)
    case (Inl err)
    then have "d' = d1" "r \<noteq> Inr ()" using assms(1) v p m by (auto simp: SaveAddress_def)
    then have "fs = files d" using evolves_crash [OF conjunct1 [OF d1 [of "\<lambda>fs. fs = files d"]]] assms(2) by auto
    with \<open>r \<noteq> Inr ()\<close> show ?thesis by simp
  next
    case (Inr u)
    have w: "WriteFile p (bytes_of (?a @ [newline])) d1 = (d', r)" using assms(1) v p m Inr by (simp add: SaveAddress_def)
    have pat: "rewardAddressPattern ?a" using v by (simp add: ValidateRewardAddress_def normal_form split: if_splits)
    note saved = savedAddress_prefix [OF pat]
    have "evolves (\<lambda>fs. \<exists>k. fs p = Some (take k (bytes_of (?a @ [newline])))) d1 d'"
      by (rule write_calls(1) [OF w]) auto
    then have "evolves (\<lambda>fs. fs p = files d p \<or> (\<exists>k. fs p = Some (take k (bytes_of (?a @ [newline]))))) d d'"
      using d1 by (blast intro: evolves_trans evolves_mono)
    then have "fs p = files d p \<or> (\<exists>k. fs p = Some (take k (bytes_of (?a @ [newline]))))"
      using evolves_crash assms(2) by fastforce
    then have "savedAddress (fs p) \<in> {savedAddress (files d p), '''', ?a}" using saved by (auto split: if_splits)
    moreover have "savedAddress (files d' p) = ?a" if "r = Inr ()"
    proof -
      have "files d' p = Some (take 41 (bytes_of (?a @ [newline])))"
        using write_results(1) [OF w that] pat by (simp add: rewardAddressPattern_def)
      then show ?thesis by (simp only: saved) simp
    qed
    ultimately show ?thesis using LoadSavedAddress_reboot [OF p] by simp
  qed
qed

section \<open>The miner and a node\<close>

lemma mineChunks_finds:
  assumes "validBlockProofOfWorkCore C (b\<lparr>blkNonce := k\<rparr>)" "unat k < 50000000" "\<forall>i. ctx i = None" "start \<le> k"
  shows "\<exists>k'. mineChunks C ctx b i start = Inr (Some (b\<lparr>blkNonce := k'\<rparr>)) \<and> validBlockProofOfWorkCore C (b\<lparr>blkNonce := k'\<rparr>)"
  using assms
proof (induction C ctx b i start rule: mineChunks.induct)
  case (1 C ctx b i start)
  let ?m = "Mine C b start candidateChunk"
  note spec = mineFrom_spec [of C b start candidateChunk 0, folded Mine_def]
  show ?case
  proof (cases "resFound ?m")
    case True
    then have eq: "mineChunks C ctx b i start = Inr (resBlock ?m)" using "1.prems"(3) by (subst mineChunks.simps) (simp add: Let_def)
    from True spec show ?thesis unfolding eq by auto
  next
    case False
    have "start + (k - start) = k" by simp
    then have "\<not> k - start < candidateChunk" using False spec "1.prems"(1) by (metis word_zero_le)
    moreover have "unat (k - start) = unat k - unat start" using "1.prems"(4) by (rule unat_sub)
    ultimately have far: "unat start + 100000 \<le> unat k" by (simp add: word_less_nat_alt candidateChunk_def)
    then have sum: "unat (start + candidateChunk) = unat start + 100000"
      using "1.prems"(2) by (simp add: candidateChunk_def unat_word_ariths)
    have more: "\<not> start + candidateChunk \<ge> 50000000" using sum far "1.prems"(2) by (simp add: word_le_nat_alt)
    then have eq: "mineChunks C ctx b i start = mineChunks C ctx b (Suc i) (start + candidateChunk)"
      using "1.prems"(3) False by (subst mineChunks.simps) (simp add: Let_def)
    have "start + candidateChunk \<le> k" using sum far by (simp add: word_le_nat_alt)
    moreover have "ctx i = None" using "1.prems"(3) by simp
    ultimately show ?thesis unfolding eq using "1.IH" [OF _ refl False more "1.prems"(1-3)] by metis
  qed
qed

lemma route_mining:
  "reqMethod r \<noteq> ''CONNECT'' \<Longrightarrow> reqPath r = ''/v1/mining/work'' \<Longrightarrow> muxRoute (routes m) r = Inr (Some EMiningWork)"
  "reqMethod r \<noteq> ''CONNECT'' \<Longrightarrow> reqPath r = ''/v1/mining/submit'' \<Longrightarrow> muxRoute (routes m) r = Inr (Some EMiningSubmit)"
proof -
  have "cleanPath ''/v1/mining/work'' = ''/v1/mining/work''" "cleanPath ''/v1/mining/submit'' = ''/v1/mining/submit''" by code_simp+
  then show "reqMethod r \<noteq> ''CONNECT'' \<Longrightarrow> reqPath r = ''/v1/mining/work'' \<Longrightarrow> muxRoute (routes m) r = Inr (Some EMiningWork)"
    "reqMethod r \<noteq> ''CONNECT'' \<Longrightarrow> reqPath r = ''/v1/mining/submit'' \<Longrightarrow> muxRoute (routes m) r = Inr (Some EMiningSubmit)"
    by (simp_all add: muxRoute_def routes_def)
qed

text \<open>The fields of the node's answers that the miner decodes.\<close>

definition workOf :: "miningWorkResponse \<Rightarrow> MinerWork" where
  "workOf m = \<lparr>wkWorkID = mwWorkID m, wkJob = ''candidate-block'', wkAlgorithm = mwAlgorithm m, wkVersion = 0, wkHeight = mwHeight m,
     wkDifficulty = mwDifficulty m, wkTarget = mwTarget m, wkHeaderPrefix = '''', wkRewardAddress = mwRewardAddress m, wkCacheNodes = 0,
     wkParent = mwParent m, wkBlock = Some (mwBlock m), wkBlockReward = mwBlockReward m, wkMinerBalance = mwMinerBalance m,
     wkNote = ''GPU miner API. Demand miner is a separate process and is not modified. Submit the solved block to /v1/mining/submit to credit reward_address.''\<rparr>"

text \<open>JSON on both sides: bodies are read as they were written, and what one side encodes the other decodes.
  The last law is for one template and its solutions.\<close>

definition mining_agrees :: "rpc_lib \<Rightarrow> miner_codec \<Rightarrow> bool" where
  "mining_agrees L K \<longleftrightarrow> (\<forall>rsp. mcReadBody K rsp = Inr (rspBody rsp))
     \<and> (\<forall>a. \<exists>bs. mcEncodeAddress K a = Inr bs \<and> decodeAddress L (Inr bs) = a)
     \<and> (\<forall>m. mcDecodeWork K (MiningWorkBody m) = Inr (workOf m))
     \<and> (\<forall>m. \<exists>res. mcDecodeSubmit K (MiningAcceptedBody m) = Inr res \<and> srStatus res = ''accepted'' \<and> srAccepted res)"

definition block_travels :: "rpc_lib \<Rightarrow> miner_codec \<Rightarrow> i64 \<Rightarrow> block \<Rightarrow> bool" where
  "block_travels L K limit b \<longleftrightarrow> (\<forall>k. \<exists>bs. mcEncodeBlock K (b\<lparr>blkNonce := k\<rparr>) = Inr bs \<and> int (length bs) \<le> limit
     \<and> unmarshalMined L bs = Inr (b\<lparr>blkNonce := k\<rparr>)
     \<and> unmarshalProbe L bs = \<lparr>prAlgorithm = '''', prMinerAddress = blkMinerAddress b, prPreviousHash = blkPreviousHash b, prHeight = blkHeight b\<rparr>)"

lemma algorithm_valid: "ValidateProductionMiningAlgorithm ProductionMiningAlgorithm = Inr ()"
proof -
  have "ToLower (TrimSpace ProductionMiningAlgorithm) = ProductionMiningAlgorithm" by code_simp
  then show ?thesis by (simp add: ValidateProductionMiningAlgorithm_def)
qed

lemma reward_pattern: "rewardAddressPattern = gpuMinerAddressPattern"
  by (intro ext) (simp add: rewardAddressPattern_def gpuMinerAddressPattern_def)

text \<open>Fetching work from a node gives its template.\<close>

lemma GetWork_template:
  assumes "mining_agrees L K" "int (srvInFlight s) < rcMaxConcurrent (srvConfig s)" "rewardAddressPattern a"
    and "nodeChain (srvNode s) = Some c" "nodeState (srvNode s) = Some st"
    and "candidateGPUMinerBlock (envCrypto E) (envPool E) now (Some c) (Some (nodeMempool (srvNode s))) a = Inr b"
  shows "\<exists>work. MinerGetWork a \<lparr>miBaseURL = u, miTransport = serverTransport E L now, miCodec = K\<rparr> s = (s, Inr work) \<and> wkBlock work = Some b"
proof -
  have a: "ToLower (TrimSpace a) = a" "a \<noteq> ''''" using pattern_plain assms(3) reward_pattern by auto
  obtain bs where bs: "mcEncodeAddress K a = Inr bs" "decodeAddress L (Inr bs) = a" using assms(1) unfolding mining_agrees_def by blast
  let ?r = "\<lparr>reqMethod = ''POST'', reqPath = ''/v1/mining/work'', reqQuery = (\<lambda>_. ''''), reqContentType = ''application/json'', reqBody = Inr bs\<rparr>"
  have from_body: "gpuMinerAddressFromRequest L ?r = Inr a"
    using a bs(2) assms(3) by (simp add: gpuMinerAddressFromRequest_def validateGPUMinerAddress_def reward_pattern ToLower_def)
  then obtain m where m: "handleMiningWork E L now s ?r = writeJSON 200 (MiningWorkBody m)" "mwBlock m = b" "mwAlgorithm m = ProductionMiningAlgorithm"
    using assms(4-6) by (simp add: handleMiningWork_def Let_def writeJSON_def)
  have route: "muxRoute (routes (rcEnableMetrics (srvConfig s))) ?r = Inr (Some EMiningWork)" by (rule route_mining(1)) simp_all
  then have "middleware E L now s ?r = (s, writeJSON 200 (MiningWorkBody m))"
    using assms(2) m(1) by (simp add: middleware_def Handler_def dispatch_def)
  then have "miningDo \<lparr>miBaseURL = u, miTransport = serverTransport E L now, miCodec = K\<rparr> ''POST'' ''/v1/mining/work'' (\<lambda>_. '''') (Some bs) s
      = (s, Inr (MiningWorkBody m))"
    using assms(1) by (simp add: miningDo_def serverTransport_def writeJSON_def mining_agrees_def)
  moreover have "WorkFromJSON K (MiningWorkBody m) = Inr (workOf m)"
    using assms(1) algorithm_valid m(3) by (simp add: WorkFromJSON_def mining_agrees_def workOf_def)
  moreover have "ValidateRewardAddress a = Inr ()" using a assms(3) by (simp add: ValidateRewardAddress_def)
  ultimately show ?thesis using bs(1) m(2) by (simp add: MinerGetWork_def workOf_def)
qed

lemma SubmitBlock_accepted:
  assumes "mining_agrees L K" "int (srvInFlight s) < rcMaxConcurrent (srvConfig s)" "block_travels L K (rcMaxBodyBytes (srvConfig s)) b"
    and "blkHeight b > 0" "nodeChain (srvNode s) \<noteq> None" "nodeState (srvNode s) \<noteq> None"
    and "acceptGPUMinerBlock E s (b\<lparr>blkNonce := k\<rparr>) = (s', writeJSON 200 (MiningAcceptedBody m))"
  shows "\<exists>res. MinerSubmitBlock (Some (b\<lparr>blkNonce := k\<rparr>)) \<lparr>miBaseURL = u, miTransport = serverTransport E L now, miCodec = K\<rparr> s = (s', Inr res)
    \<and> acceptedResult res"
proof -
  obtain bs where bs: "mcEncodeBlock K (b\<lparr>blkNonce := k\<rparr>) = Inr bs" "int (length bs) \<le> rcMaxBodyBytes (srvConfig s)"
    "unmarshalMined L bs = Inr (b\<lparr>blkNonce := k\<rparr>)" "prAlgorithm (unmarshalProbe L bs) = ''''" "prHeight (unmarshalProbe L bs) > 0"
    using assms(3,4) unfolding block_travels_def by (metis mining_probe.select_convs(1,4))
  let ?r = "\<lparr>reqMethod = ''POST'', reqPath = ''/v1/mining/submit'', reqQuery = (\<lambda>_. ''''), reqContentType = ''application/json'', reqBody = Inr bs\<rparr>"
  have route: "muxRoute (routes (rcEnableMetrics (srvConfig s))) ?r = Inr (Some EMiningSubmit)" by (rule route_mining(2)) simp_all
  have "handleMiningSubmit E L s ?r = (s', writeJSON 200 (MiningAcceptedBody m))"
    using assms(5-7) bs by (auto simp: handleMiningSubmit_def Let_def)
  then have "middleware E L now s ?r = (s', writeJSON 200 (MiningAcceptedBody m))"
    using assms(2) route by (simp add: middleware_def Handler_def dispatch_def)
  then have "miningDo \<lparr>miBaseURL = u, miTransport = serverTransport E L now, miCodec = K\<rparr> ''POST'' ''/v1/mining/submit'' (\<lambda>_. '''') (Some bs) s
      = (s', Inr (MiningAcceptedBody m))"
    using assms(1) by (simp add: miningDo_def serverTransport_def writeJSON_def mining_agrees_def)
  moreover obtain res where "mcDecodeSubmit K (MiningAcceptedBody m) = Inr res" "srStatus res = ''accepted''" "srAccepted res"
    using assms(1) unfolding mining_agrees_def by blast
  ultimately show ?thesis using bs(1) by (auto simp: MinerSubmitBlock_def minerDecodeSubmit_def acceptedResult_def)
qed


section \<open>A small instance\<close>

theorem saved_address_whole_witness:
  "let V = \<lparr>evDataDir = ''store'', evWindows = False, evLocalAppData = '''', evXdgDataHome = '''', evHome = Inr ''''\<rparr>;
       a = replicate 40 (CHR ''a''); (d', r) = SaveAddress V a (reboot Map.empty) in
     r = Inr () \<and> snd (LoadSavedAddress V (reboot (files d'))) = Inr a
     \<and> (\<forall>fs\<in>set (crash_states (reboot Map.empty) d'). snd (LoadSavedAddress V (reboot fs)) \<in> {Inr '''', Inr a})"
proof -
  let ?V = "\<lparr>evDataDir = ''store'', evWindows = False, evLocalAppData = '''', evXdgDataHome = '''', evHome = Inr ''''\<rparr>"
  let ?a = "replicate 40 (CHR ''a'')"
  have hex: "list_all is_lower_hex ?a" by (simp add: is_lower_hex_def list_all_iff)
  then have a: "ToLower (TrimSpace ?a) = ?a" "ValidateRewardAddress ?a = Inr ()"
    using lower_hex_text [OF hex] by (simp_all add: ValidateRewardAddress_def rewardAddressPattern_def)
  have "TrimSpace ''store'' = ''store''" by (rule TrimSpace_plain) (simp_all add: printable_def)
  then have p: "rewardAddressPath ?V = Inr (Join ''store'' rewardAddressFile)" by (simp add: rewardAddressPath_def AddressStoreDir_def)
  obtain d' r where run: "SaveAddress ?V ?a (reboot Map.empty) = (d', r)" by fastforce
  then have r: "r = Inr ()"
    using a p by (simp add: SaveAddress_def MkdirAll_def call_only_def WriteFile_def write_at_def syscall_def reboot_def)
  have first: "files (reboot Map.empty) \<in> set (crash_states (reboot Map.empty) d')" by (simp add: crash_states_def)
  have none: "snd (LoadSavedAddress ?V (reboot (files (reboot Map.empty)))) = Inr ''''"
    using LoadSavedAddress_reboot [OF p] by (simp add: savedAddress_def reboot_def)
  note whole = saved_address_whole [OF run]
  show ?thesis using whole [OF first] whole r run none a(1) unfolding Let_def by auto
qed

definition small_miner_codec :: miner_codec where
  "small_miner_codec = \<lparr>mcEncodeAddress = (\<lambda>a. Inr (bytes_of a)), mcEncodeSolution = (\<lambda>_. Inr []),
     mcEncodeBlock = (\<lambda>b. Inr (bytes_of (dec (unat (blkNonce b))))), mcReadBody = (\<lambda>rsp. Inr (rspBody rsp)),
     mcDecodeWork = (\<lambda>body. case body of MiningWorkBody m \<Rightarrow> Inr (workOf m) | _ \<Rightarrow> Inl JSONInvalid),
     mcDecodeSubmit = (\<lambda>body. Inr \<lparr>srStatus = ''accepted'', srAccepted = True, srError = '''', srHeight = 0, srHash = '''', srRewardAddress = '''',
       srBalance = 0, srBroadcast = ''''\<rparr>),
     mcDecodeStatus = (\<lambda>_. Inl JSONInvalid), mcErrorField = (\<lambda>_. ''''), mcBodyText = (\<lambda>_. ''''), mcStatusText = (\<lambda>_. ''''), mcErrorText = (\<lambda>_. '''')\<rparr>"

definition small_mining_lib :: rpc_lib where
  "small_mining_lib = \<lparr>decodeTx = (\<lambda>_ _. BodyInvalid),
     unmarshalProbe = (\<lambda>_. let b = small_block 7 NewGenesisBlock in
       \<lparr>prAlgorithm = '''', prMinerAddress = blkMinerAddress b, prPreviousHash = blkPreviousHash b, prHeight = blkHeight b\<rparr>),
     unmarshalMined = (\<lambda>bs. case ParseUint64 (text_of bs) of None \<Rightarrow> Inl JSONInvalid | Some k \<Rightarrow> Inr ((small_block 7 NewGenesisBlock)\<lparr>blkNonce := k\<rparr>)),
     decodeAddress = (\<lambda>r. case r of Inl _ \<Rightarrow> '''' | Inr bs \<Rightarrow> text_of bs), redirectStatus = 301\<rparr>"

lemma small_mining_agrees:
  "mining_agrees small_mining_lib small_miner_codec"
  "block_travels small_mining_lib small_miner_codec (rcMaxBodyBytes RPCDefaultConfig) (small_block 7 NewGenesisBlock)"
proof -
  show "mining_agrees small_mining_lib small_miner_codec"
    by (simp add: mining_agrees_def small_mining_lib_def small_miner_codec_def)
  have "length (dec (unat (k :: u64))) \<le> 20" for k
    by (rule dec_length) (use unat_less_64 [of k] in simp_all)
  moreover have "20 \<le> rcMaxBodyBytes RPCDefaultConfig" by (simp add: RPCDefaultConfig_def go_const)
  ultimately have "int (length (dec (unat (k :: u64)))) \<le> rcMaxBodyBytes RPCDefaultConfig" for k by (metis nle_le of_nat_le_iff of_nat_numeral order_trans)
  moreover have "length (bytes_of (dec n)) = length (dec n)" for n by (simp add: bytes_of_def)
  ultimately have len: "int (length (bytes_of (dec (unat (k :: u64))))) \<le> rcMaxBodyBytes RPCDefaultConfig" for k by simp
  have parse: "ParseUint64 (dec (unat k)) = Some k" for k :: u64 using ParseUint64_dec [of "unat k"] unat_less_64 [of k] by simp
  show "block_travels small_mining_lib small_miner_codec (rcMaxBodyBytes RPCDefaultConfig) (small_block 7 NewGenesisBlock)"
    using parse len by (simp add: block_travels_def small_mining_lib_def small_miner_codec_def Let_def)
qed


end
