(* ===== verification/StratumClient.thy ===== *)
theory StratumClient
  imports Stratum GpuMiner
begin

text \<open>
  The miner's side of a Stratum connection, \<open>gpuminer/stratum/client.go\<close>, \<open>loop.go\<close> and \<open>hasher.go\<close>, and its
  composition with the server session of \<open>Stratum\<close>.

  The state of the connection is the client, the lines that have arrived and are not yet read, and the
  other side. Writing a line lets the other side react with further lines; a read with no line left ends
  with an error, as when the deadline passes. A pass is one turn of the loop.
\<close>

section \<open>The client\<close>

text \<open>What \<open>call\<close> decodes of a line: the identifier and the error. JSON is an argument; a line that is not JSON is
  \<open>None\<close>.\<close>

record Reply =
  rpID :: json_any
  rpError :: "error option"

record client_lib =
  marshalCall :: "int \<Rightarrow> string \<Rightarrow> json_any list \<Rightarrow> bytes result"
  unmarshalReply :: "bytes \<Rightarrow> Reply option"
  unmarshalNotice :: "bytes \<Rightarrow> (string \<times> json_any list) option"

record PoolClient =
  scAddress :: string
  scPassword :: string
  scNextID :: int

record 'w link =
  lkClient :: PoolClient
  lkInbox :: "bytes list"
  lkPeer :: 'w

text \<open>The surroundings: dialling, the reaction of the other side to a line, the error of a read without a line, the
  context before each line that is read, and what happens during a sleep.\<close>

record 'w stratum_env =
  seLib :: client_lib
  seDial :: "string \<Rightarrow> 'w \<Rightarrow> 'w \<times> unit result"
  seReact :: "bytes \<Rightarrow> 'w \<Rightarrow> 'w \<times> bytes list \<times> unit result"
  seReadError :: error
  seContext :: "'w \<Rightarrow> nat \<Rightarrow> error option"
  seSleep :: "i64 \<Rightarrow> 'w link \<Rightarrow> 'w link"

fun awaitReply :: "client_lib \<Rightarrow> error \<Rightarrow> string \<Rightarrow> int \<Rightarrow> bytes list \<Rightarrow> bytes list \<times> unit result" where
  "awaitReply J readErr meth ident [] = ([], Inl readErr)"
| "awaitReply J readErr meth ident (line # rest) =
     (case unmarshalReply J line of
        None \<Rightarrow> awaitReply J readErr meth ident rest
      | Some resp \<Rightarrow>
        if rpID resp = JNull \<or> Sprint (rpID resp) \<noteq> dec_int ident then awaitReply J readErr meth ident rest
        else (rest, case rpError resp of None \<Rightarrow> Inr () | Some err \<Rightarrow> Inl (Wrapf ''stratum %s failed: %s'' [meth] err)))"

definition stratumCall :: "'w stratum_env \<Rightarrow> string \<Rightarrow> json_any list \<Rightarrow> 'w link \<Rightarrow> 'w link \<times> unit result" where
  "stratumCall V meth params k =
     (case seContext V (lkPeer k) 0 of
       Some err \<Rightarrow> (k, Inl err)
     | None \<Rightarrow>
     (let ident = scNextID (lkClient k) + 1; k1 = k\<lparr>lkClient := (lkClient k)\<lparr>scNextID := ident\<rparr>\<rparr> in
     (case marshalCall (seLib V) ident meth params of
       Inl err \<Rightarrow> (k1, Inl err)
     | Inr encoded \<Rightarrow>
     (case seReact V (encoded @ [10]) (lkPeer k1) of
       (w, lines, Inl err) \<Rightarrow> (k1\<lparr>lkPeer := w, lkInbox := lkInbox k1 @ lines\<rparr>, Inl err)
     | (w, lines, Inr _) \<Rightarrow>
     (case awaitReply (seLib V) (seReadError V) meth ident (lkInbox k1 @ lines) of
       (inbox, res) \<Rightarrow> (k1\<lparr>lkPeer := w, lkInbox := inbox\<rparr>, res))))))"

definition handshake :: "'w stratum_env \<Rightarrow> 'w link \<Rightarrow> 'w link \<times> unit result" where
  "handshake V k =
     (case stratumCall V ''mining.subscribe'' [JString (scAddress (lkClient k))] k of
       (k1, Inl err) \<Rightarrow> (k1, Inl err)
     | (k1, Inr _) \<Rightarrow> stratumCall V ''mining.authorize'' [JString (scAddress (lkClient k1)), JString (scPassword (lkClient k1))] k1)"

definition Dial :: "'w stratum_env \<Rightarrow> string \<Rightarrow> string \<Rightarrow> string \<Rightarrow> 'w \<Rightarrow> 'w link \<times> unit result" where
  "Dial V poolURL login password w =
     (let client = \<lparr>scAddress = TrimSpace login, scPassword = password, scNextID = 0\<rparr> in
     (case ParsePoolURL poolURL of
       Inl err \<Rightarrow> (\<lparr>lkClient = client, lkInbox = [], lkPeer = w\<rparr>, Inl err)
     | Inr host \<Rightarrow>
     (case seDial V host w of
       (w1, Inl err) \<Rightarrow> (\<lparr>lkClient = client, lkInbox = [], lkPeer = w1\<rparr>, Inl (Wrapf ''stratum dial failed: %w'' [] err))
     | (w1, Inr _) \<Rightarrow> handshake V \<lparr>lkClient = client, lkInbox = [], lkPeer = w1\<rparr>)))"

definition ClientSubmitShare :: "'w stratum_env \<Rightarrow> string \<Rightarrow> u64 \<Rightarrow> 'w link \<Rightarrow> 'w link \<times> unit result" where
  "ClientSubmitShare V ident nonce k =
     stratumCall V ''mining.submit'' [JString (scAddress (lkClient k)), JString ident, JString (dec (unat nonce))] k"

fun awaitJob :: "client_lib \<Rightarrow> error \<Rightarrow> (nat \<Rightarrow> error option) \<Rightarrow> nat \<Rightarrow> bytes list \<Rightarrow> bytes list \<times> MinerJob result" where
  "awaitJob J readErr ctx i [] = ([], case ctx i of Some err \<Rightarrow> Inl err | None \<Rightarrow> Inl readErr)"
| "awaitJob J readErr ctx i (line # rest) =
     (case ctx i of
        Some err \<Rightarrow> (line # rest, Inl err)
      | None \<Rightarrow>
        (case unmarshalNotice J line of
           None \<Rightarrow> awaitJob J readErr ctx (Suc i) rest
         | Some (meth, params) \<Rightarrow>
           if meth \<noteq> ''mining.notify'' then awaitJob J readErr ctx (Suc i) rest
           else (rest, ParseNotify params)))"

definition NextJob :: "'w stratum_env \<Rightarrow> 'w link \<Rightarrow> 'w link \<times> MinerJob result" where
  "NextJob V k =
     (case awaitJob (seLib V) (seReadError V) (seContext V (lkPeer k)) 0 (lkInbox k) of
        (inbox, res) \<Rightarrow> (k\<lparr>lkInbox := inbox\<rparr>, res))"

section \<open>Searching for shares\<close>

text \<open>A share miner works in the surroundings of the link; the reference search may run forever.\<close>

type_synonym 'w share_miner = "MinerJob \<Rightarrow> 'w link \<Rightarrow> ('w link \<times> (u64 \<times> ShareResult) result) option"

definition ReferenceShareMiner :: "crypto \<Rightarrow> ('w link \<Rightarrow> nat \<Rightarrow> error option) \<Rightarrow> 'w share_miner" where
  "ReferenceShareMiner C ctx job k = map_option (\<lambda>r. (k, r)) (MineShare C (ctx k) job)"

definition CommandBackendShareMiner ::
  "crypto \<Rightarrow> (string \<Rightarrow> string list \<Rightarrow> 'w link \<Rightarrow> 'w link \<times> bytes result) \<Rightarrow> CommandBackend \<Rightarrow> 'w share_miner" where
  "CommandBackendShareMiner C runHasher backend job k =
     Some (case CommandSearch runHasher backend (WorkFromCandidateBlock (Some (mjBlock job)) (mjPoolDifficulty job) (mjPoolTarget job)) k of
       (k1, Inl err) \<Rightarrow> (k1, Inl err)
     | (k1, Inr nonce) \<Rightarrow>
     (case ValidateShare C (Some (mjBlock job)) nonce (mjPoolDifficulty job) (mjBlockDifficulty job) of
       Inl err \<Rightarrow> (k1, Inl err)
     | Inr res \<Rightarrow>
       if shKind res = ShareInvalid then (k1, Inl (Errorf ''GPU hasher nonce did not meet pool difficulty'' []))
       else (k1, Inr (nonce, res))))"

definition NewShareMiner ::
  "crypto \<Rightarrow> ('w link \<Rightarrow> nat \<Rightarrow> error option) \<Rightarrow> (string \<Rightarrow> string list \<Rightarrow> 'w link \<Rightarrow> 'w link \<times> bytes result) \<Rightarrow> CommandBackend
     \<Rightarrow> 'w share_miner" where
  "NewShareMiner C ctx runHasher backend =
     (if cmPath backend \<noteq> '''' then CommandBackendShareMiner C runHasher backend else ReferenceShareMiner C ctx)"

section \<open>The loop\<close>

record 'w stratum_loop =
  slPoolURL :: string
  slLogin :: string
  slPassword :: string
  slMiner :: "'w share_miner"
  slOnce :: bool

type_synonym tally = "nat \<times> nat"

definition countShare :: "ShareResult \<Rightarrow> tally \<Rightarrow> tally" where
  "countShare share t =
     (case t of (valid, solved) \<Rightarrow>
      (case shKind share of ShareBlock \<Rightarrow> (valid, Suc solved) | ShareValid \<Rightarrow> (Suc valid, solved) | ShareInvalid \<Rightarrow> (valid, solved)))"

text \<open>One pass: the counts of shares and blocks, and the end of the run if this pass ends it. \<open>None\<close> is a search
  that does not return.\<close>

definition stratumPass :: "'w stratum_env \<Rightarrow> 'w stratum_loop \<Rightarrow> tally \<Rightarrow> 'w link \<Rightarrow> ('w link \<times> tally \<times> unit result option) option" where
  "stratumPass V l t k =
     (let failed = (\<lambda>k err pause. if slOnce l then (k, t, Some (Inl err)) else (seSleep V pause k, t, None)) in
      if seContext V (lkPeer k) 0 \<noteq> None then Some (k, t, Some (Inr ()))
      else (case NextJob V k of
        (k1, Inl err) \<Rightarrow> Some (failed k1 err (seconds 2))
      | (k1, Inr job) \<Rightarrow>
      (case slMiner l job k1 of
        None \<Rightarrow> None
      | Some (k2, Inl err) \<Rightarrow> Some (failed k2 err (seconds 1))
      | Some (k2, Inr (nonce, share)) \<Rightarrow>
      (case ClientSubmitShare V (mjID job) nonce k2 of
        (k3, Inl err) \<Rightarrow> Some (failed k3 err (seconds 1))
      | (k3, Inr _) \<Rightarrow> Some (k3, countShare share t, if slOnce l then Some (Inr ()) else None)))))"

fun stratumPasses :: "'w stratum_env \<Rightarrow> 'w stratum_loop \<Rightarrow> nat \<Rightarrow> tally \<Rightarrow> 'w link \<Rightarrow> ('w link \<times> tally \<times> unit result option) option" where
  "stratumPasses V l 0 t k = Some (k, t, None)"
| "stratumPasses V l (Suc n) t k =
     (case stratumPass V l t k of
        None \<Rightarrow> None
      | Some (k1, t1, Some finish) \<Rightarrow> Some (k1, t1, Some finish)
      | Some (k1, t1, None) \<Rightarrow> stratumPasses V l n t1 k1)"

text \<open>The run, observed for at most \<open>n\<close> passes; the loop is given no client and dials.\<close>

definition RunStratum :: "'w stratum_env \<Rightarrow> 'w stratum_loop \<Rightarrow> nat \<Rightarrow> 'w \<Rightarrow> ('w link \<times> tally \<times> unit result option) option" where
  "RunStratum V l n w =
     (let idle = \<lparr>lkClient = \<lparr>scAddress = '''', scPassword = '''', scNextID = 0\<rparr>, lkInbox = [], lkPeer = w\<rparr> in
      if slPoolURL l = '''' \<or> slLogin l = '''' then Some (idle, (0, 0), Some (Inl (Errorf ''stratum pool URL and worker login are required'' [])))
      else (case Dial V (slPoolURL l) (slLogin l) (if slPassword l = '''' then ''x'' else slPassword l) w of
          (k, Inl err) \<Rightarrow> Some (k, (0, 0), Some (Inl err))
        | (k, Inr _) \<Rightarrow> stratumPasses V l n (0, 0) k))"

section \<open>A connection to the pool\<close>

record pool_side =
  psEngine :: Engine
  psSession :: session

text \<open>The server session reads a line and writes its frames. Nothing else writes to the connection.\<close>

definition poolReact :: "stratum_lib \<Rightarrow> crypto \<Rightarrow> work_source \<Rightarrow> i64 \<Rightarrow> bytes \<Rightarrow> pool_side \<Rightarrow> pool_side \<times> bytes list \<times> unit result" where
  "poolReact K C source now line w =
     (case handleLine K C source None now line (psEngine w, psSession w) of
        (e, s) \<Rightarrow> (\<lparr>psEngine = e, psSession = s\<rparr>, drop (length (written (psSession w))) (written s), Inr ()))"

text \<open>Both sides agree on the JSON of a call, of a reply and of the announcement of a job.\<close>

definition call_travels :: "stratum_lib \<Rightarrow> client_lib \<Rightarrow> int \<Rightarrow> string \<Rightarrow> json_any list \<Rightarrow> bool" where
  "call_travels K J ident meth ps \<longleftrightarrow> (\<exists>bs. marshalCall J ident meth ps = Inr bs
     \<and> unmarshalRequest K (bs @ [10]) = Inr \<lparr>rqID = JNumber ident (dec_int ident), rqMethod = meth, rqParams = ps\<rparr>)"

definition reply_travels :: "stratum_lib \<Rightarrow> client_lib \<Rightarrow> int \<Rightarrow> bool" where
  "reply_travels K J ident \<longleftrightarrow> (\<forall>res. \<exists>bs. EncodeResponse K (JNumber ident (dec_int ident)) res = Inr bs
     \<and> unmarshalReply J bs = Some \<lparr>rpID = JNumber ident (dec_int ident), rpError = None\<rparr>)"

definition job_travels :: "stratum_lib \<Rightarrow> client_lib \<Rightarrow> Job \<Rightarrow> bool" where
  "job_travels K J job \<longleftrightarrow> (\<exists>bs. EncodeNotification K ''mining.notify'' (notifyParams job) = Inr bs
     \<and> unmarshalNotice J bs = Some (''mining.notify'', notifyParams job))"

lemma call_answered:
  assumes "seContext V (lkPeer k) 0 = None" "lkInbox k = []" "ident = scNextID (lkClient k) + 1"
    and "seReact V = poolReact K C source now" "seLib V = J" "call_travels K J ident meth ps" "reply_travels K J ident" "meth \<noteq> ''''"
    and handled: "\<And>line frame. DecodeRequest K line = Inr \<lparr>rqID = JNumber ident (dec_int ident), rqMethod = meth, rqParams = ps\<rparr> \<Longrightarrow>
        EncodeResponse K (JNumber ident (dec_int ident)) res = Inr frame \<Longrightarrow>
        \<exists>s'. handleLine K C source None now line (psEngine (lkPeer k), psSession (lkPeer k)) = (e', s')
          \<and> written s' = written (psSession (lkPeer k)) @ frame # later \<and> P s'"
  shows "\<exists>s'. stratumCall V meth ps k = (k\<lparr>lkClient := (lkClient k)\<lparr>scNextID := ident\<rparr>, lkPeer := \<lparr>psEngine = e', psSession = s'\<rparr>,
      lkInbox := later\<rparr>, Inr ()) \<and> P s'"
proof -
  obtain bs where bs: "marshalCall J ident meth ps = Inr bs"
    "unmarshalRequest K (bs @ [10]) = Inr \<lparr>rqID = JNumber ident (dec_int ident), rqMethod = meth, rqParams = ps\<rparr>"
    using assms(6) by (auto simp: call_travels_def)
  obtain frame where frame: "EncodeResponse K (JNumber ident (dec_int ident)) res = Inr frame"
    "unmarshalReply J frame = Some \<lparr>rpID = JNumber ident (dec_int ident), rpError = None\<rparr>"
    using assms(7) unfolding reply_travels_def by blast
  have "DecodeRequest K (bs @ [10]) = Inr \<lparr>rqID = JNumber ident (dec_int ident), rqMethod = meth, rqParams = ps\<rparr>"
    using bs(2) assms(8) by (simp add: DecodeRequest_def)
  from handled [OF this frame(1)] obtain s' where
    s': "handleLine K C source None now (bs @ [10]) (psEngine (lkPeer k), psSession (lkPeer k)) = (e', s')"
    "written s' = written (psSession (lkPeer k)) @ frame # later" "P s'" by blast
  have "seReact V (bs @ [10]) (lkPeer k) = (\<lparr>psEngine = e', psSession = s'\<rparr>, frame # later, Inr ())"
    unfolding assms(4) poolReact_def s'(1) by (simp add: s'(2))
  then have "stratumCall V meth ps k = (k\<lparr>lkClient := (lkClient k)\<lparr>scNextID := ident\<rparr>, lkPeer := \<lparr>psEngine = e', psSession = s'\<rparr>,
      lkInbox := later\<rparr>, Inr ())"
    using assms(1-3,5) bs(1) frame(2) by (simp add: stratumCall_def Let_def)
  with s'(3) show ?thesis by blast
qed

text \<open>Logging in: the miner is subscribed and authorized, and the announcement of a fresh job waits to be read.\<close>

lemma handshake_gets_job:
  assumes "\<And>w i. seContext V w i = None" "seReact V = poolReact K C source now" "seLib V = J"
    and "lkInbox k = []" "scNextID (lkClient k) = 0" "scAddress (lkClient k) = login" "scPassword (lkClient k) = password"
    and "call_travels K J 1 ''mining.subscribe'' [JString login]" "call_travels K J 2 ''mining.authorize'' [JString login, JString password]"
    and "reply_travels K J 1" "reply_travels K J 2" "ParseWorkerIdentity login = Inr worker"
    and "RefreshWork (Some source) now (psEngine (lkPeer k)) = (e', Inr job)" "EncodeNotification K ''mining.notify'' (notifyParams job) = Inr notice"
  shows "\<exists>k'. handshake V k = (k', Inr ()) \<and> lkInbox k' = [notice] \<and> psEngine (lkPeer k') = e' \<and> authorized (psSession (lkPeer k'))
    \<and> scNextID (lkClient k') = 2 \<and> scAddress (lkClient k') = login"
proof -
  have "\<exists>s'. stratumCall V ''mining.subscribe'' [JString login] k = (k\<lparr>lkClient := (lkClient k)\<lparr>scNextID := 1\<rparr>,
      lkPeer := \<lparr>psEngine = psEngine (lkPeer k), psSession = s'\<rparr>, lkInbox := []\<rparr>, Inr ()) \<and> subscribed s'"
    by (rule call_answered [OF assms(1,4) _ assms(2,3,8,10), where res = "JArray [JArray [JArray [JString ''mining.notify'',
        JString (extranonce1 (psSession (lkPeer k))), JString Stratum.ProtocolVersion]], JString (extranonce1 (psSession (lkPeer k))), JNumber 4 ''4'']"])
      (simp_all add: assms(5) handleLine_def writeFrame_def)
  then obtain s1 where s1: "stratumCall V ''mining.subscribe'' [JString login] k = (k\<lparr>lkClient := (lkClient k)\<lparr>scNextID := 1\<rparr>,
      lkPeer := \<lparr>psEngine = psEngine (lkPeer k), psSession = s1\<rparr>, lkInbox := []\<rparr>, Inr ())" "subscribed s1" by blast
  let ?k1 = "k\<lparr>lkClient := (lkClient k)\<lparr>scNextID := 1\<rparr>, lkPeer := \<lparr>psEngine = psEngine (lkPeer k), psSession = s1\<rparr>, lkInbox := []\<rparr>"
  have "\<exists>s'. stratumCall V ''mining.authorize'' [JString login, JString password] ?k1 = (?k1\<lparr>lkClient := (lkClient ?k1)\<lparr>scNextID := 2\<rparr>,
      lkPeer := \<lparr>psEngine = e', psSession = s'\<rparr>, lkInbox := [notice]\<rparr>, Inr ()) \<and> authorized s'"
    by (rule call_answered [OF assms(1) _ _ assms(2,3,9,11), where res = "JBool True"])
      (simp_all add: handleLine_def handleAuthorize_def ParamString_def assms(12-14) s1(2) pushJob_def writeFrame_def Let_def)
  then show ?thesis using s1(1) assms(6,7) by (auto simp: handshake_def)
qed

lemma stalled_passes:
  assumes "\<not> slOnce l" "\<And>w i. seContext V w i = None" "\<And>pause k. lkInbox (seSleep V pause k) = lkInbox k" "lkInbox k = []"
  shows "\<exists>k'. stratumPasses V l n t k = Some (k', t, None)"
  using assms(4)
proof (induction n arbitrary: k)
  case (Suc n)
  have "stratumPass V l t k = Some (seSleep V (seconds 2) (k\<lparr>lkInbox := []\<rparr>), t, None)"
    using Suc.prems assms(1,2) by (simp add: stratumPass_def NextJob_def Let_def)
  moreover have "lkInbox (seSleep V (seconds 2) (k\<lparr>lkInbox := []\<rparr>)) = []" using assms(3) by simp
  ultimately show ?case using Suc.IH by auto
qed simp

section \<open>The first share\<close>

lemma SubmitShare_result:
  assumes "ValidateShare C (Some (jobBlock job)) nonce (jobPoolDifficulty job) (jobBlockDifficulty job) = Inr r" "shKind r \<noteq> ShareInvalid"
    and "shKind r = ShareBlock \<Longrightarrow> SubmitBlock source (solvedBlock e job nonce) = Inr ()"
  shows "\<exists>e1 credit. SubmitShare C source None job worker nonce e = (e1, r, credit, Inr ()) \<and> sharesSeen (engLedger e1) = sharesSeen (engLedger e) + 1"
proof -
  obtain l1 credit where "CreditShare (jobBlockReward job) r worker (jobID job) (jobHeight job) (Some (engLedger e)) = (Some l1, credit)"
    "sharesSeen l1 = sharesSeen (engLedger e) + 1" using CreditShare_sharesSeen by blast
  with assms show ?thesis by (simp add: SubmitShare_def Let_def)
qed

lemma handleSubmit_answers:
  assumes "authorized s" "ParamString (rqParams req) 1 = Inr (jobID (engCurrent e))" "ParamUint64 K (rqParams req) 2 = Inr nonce"
    and "ValidateShare C (Some (jobBlock (engCurrent e))) nonce (jobPoolDifficulty (engCurrent e)) (jobBlockDifficulty (engCurrent e)) = Inr r"
    and "shKind r \<noteq> ShareInvalid" "shKind r = ShareBlock \<Longrightarrow> SubmitBlock source (solvedBlock e (engCurrent e) nonce) = Inr ()"
    and "EncodeResponse K (rqID req) (JBool True) = Inr frame"
  shows "\<exists>e' s' later. handleSubmit K C source None now req e s = (e', s') \<and> written s' = written s @ frame # later
    \<and> sharesSeen (engLedger e') = sharesSeen (engLedger e) + 1 \<and> (shKind r = ShareValid \<longrightarrow> later = [])"
proof -
  obtain e1 credit where e1: "SubmitShare C source None (engCurrent e) (sessionWorker s) nonce e = (e1, r, credit, Inr ())"
    "sharesSeen (engLedger e1) = sharesSeen (engLedger e) + 1" using SubmitShare_result [OF assms(4-6)] by blast
  let ?s1 = "s\<lparr>written := written s @ [frame]\<rparr>"
  have eq: "handleSubmit K C source None now req e s = (if shKind r = ShareBlock then pushJob K (Some source) now e1 ?s1 else (e1, ?s1))"
    using assms(1-3,7) e1(1) by (simp add: handleSubmit_def writeFrame_def)
  obtain e2 s2 where p: "pushJob K (Some source) now e1 ?s1 = (e2, s2)" by fastforce
  have "engLedger e2 = engLedger e1" using pushJob_ledger [of K "Some source" now e1 ?s1] p by simp
  moreover have "\<exists>later. written s2 = written s @ frame # later"
    using p by (auto simp: pushJob_def writeFrame_def split: sum.splits prod.splits)
  ultimately show ?thesis using eq p e1(2) by (cases "shKind r") auto
qed

lemma first_share:
  assumes "\<And>w i. seContext V w i = None" "seReact V = poolReact K C source now" "seLib V = J"
    and "lkInbox k = [notice]" "unmarshalNotice J notice = Some (''mining.notify'', notifyParams job)"
    and "engCurrent (psEngine (lkPeer k)) = job" "authorized (psSession (lkPeer k))" "scNextID (lkClient k) = 2" "scAddress (lkClient k) = login"
    and "\<forall>nonce :: u64. call_travels K J 3 ''mining.submit'' [JString login, JString (jobID job), JString (dec (unat nonce))]" "reply_travels K J 3"
    and "\<forall>v. sscanUint K (dec (unat v)) = Some v" "slMiner l = ReferenceShareMiner C (\<lambda>_ _. None)"
    and "job_sound job" "jobPoolDifficulty job \<noteq> 0" "jobPoolDifficulty job \<le> jobBlockDifficulty job"
    and "ValidHash (HashBlock C (jobBlock job) n) (jobPoolDifficulty job)" "\<forall>b. is_ok (SubmitBlock source b)"
  shows "\<exists>k' nonce r. stratumPass V l t k = Some (k', countShare r t, if slOnce l then Some (Inr ()) else None) \<and> shKind r \<noteq> ShareInvalid
    \<and> ValidateShare C (Some (jobBlock job)) nonce (jobPoolDifficulty job) (jobBlockDifficulty job) = Inr r \<and> nonce \<le> n
    \<and> sharesSeen (engLedger (psEngine (lkPeer k'))) = sharesSeen (engLedger (psEngine (lkPeer k))) + 1 \<and> (shKind r = ShareValid \<longrightarrow> lkInbox k' = [])"
proof -
  from announced_job_mined [OF assms(14-17)] obtain mj nonce r where m: "ParseNotify (notifyParams job) = Inr mj" "mjID mj = jobID job"
    "MineShare C (\<lambda>_. None) mj = Some (Inr (nonce, r))" "shKind r \<noteq> ShareInvalid" "nonce \<le> n"
    and v: "ValidateShare C (Some (jobBlock job)) nonce (jobPoolDifficulty job) (jobBlockDifficulty job) = Inr r" by blast
  let ?k1 = "k\<lparr>lkInbox := []\<rparr>" and ?e = "psEngine (lkPeer k)" and ?s = "psSession (lkPeer k)"
  let ?req = "\<lparr>rqID = JNumber 3 (dec_int 3), rqMethod = ''mining.submit'',
      rqParams = [JString login, JString (jobID job), JString (dec (unat nonce))]\<rparr>"
  obtain frame where frame: "EncodeResponse K (JNumber 3 (dec_int 3)) (JBool True) = Inr frame"
    using assms(11) unfolding reply_travels_def by blast
  have block: "SubmitBlock source b = Inr ()" for b using assms(18) by (auto simp: is_ok_iff)
  have "\<exists>e' s' later. handleSubmit K C source None now ?req ?e ?s = (e', s') \<and> written s' = written ?s @ frame # later
    \<and> sharesSeen (engLedger e') = sharesSeen (engLedger ?e) + 1 \<and> (shKind r = ShareValid \<longrightarrow> later = [])"
    using handleSubmit_answers [OF assms(7) _ _ _ m(4), of ?req ?e K nonce C source frame now, unfolded assms(6), OF _ _ v] block frame assms(12)
    by (simp add: ParamString_def ParamUint64_def)
  then obtain e' s' later where h: "handleSubmit K C source None now ?req ?e ?s = (e', s')" "written s' = written ?s @ frame # later"
    "sharesSeen (engLedger e') = sharesSeen (engLedger ?e) + 1" "shKind r = ShareValid \<longrightarrow> later = []" by blast
  have travels: "call_travels K J 3 ''mining.submit'' [JString login, JString (jobID job), JString (dec (unat nonce))]" using assms(10) by blast
  have "\<exists>s''. stratumCall V ''mining.submit'' [JString login, JString (jobID job), JString (dec (unat nonce))] ?k1
      = (?k1\<lparr>lkClient := (lkClient ?k1)\<lparr>scNextID := 3\<rparr>, lkPeer := \<lparr>psEngine = e', psSession = s''\<rparr>, lkInbox := later\<rparr>, Inr ()) \<and> True"
    by (rule call_answered [where res = "JBool True" and k = ?k1 and P = "\<lambda>_. True", OF assms(1) _ _ assms(2,3) travels assms(11)])
      (simp_all add: assms(8) handleLine_def h(1,2) frame)
  then obtain s'' where call: "ClientSubmitShare V (mjID mj) nonce ?k1
      = (?k1\<lparr>lkClient := (lkClient ?k1)\<lparr>scNextID := 3\<rparr>, lkPeer := \<lparr>psEngine = e', psSession = s''\<rparr>, lkInbox := later\<rparr>, Inr ())"
    by (auto simp: ClientSubmitShare_def m(2) assms(9))
  have "NextJob V k = (?k1, Inr mj)" using assms(1,3-5) m(1) by (simp add: NextJob_def)
  moreover have "slMiner l mj ?k1 = Some (?k1, Inr (nonce, r))" using assms(13) m(3) by (simp add: ReferenceShareMiner_def)
  ultimately have "stratumPass V l t k = Some (?k1\<lparr>lkClient := (lkClient ?k1)\<lparr>scNextID := 3\<rparr>,
      lkPeer := \<lparr>psEngine = e', psSession = s''\<rparr>, lkInbox := later\<rparr>, countShare r t, if slOnce l then Some (Inr ()) else None)"
    using assms(1) call by (simp add: stratumPass_def Let_def)
  with h(3,4) m(4,5) v show ?thesis by fastforce
qed

lemma connected_share:
  assumes "\<And>w i. seContext V w i = None" "seReact V = poolReact K C source now" "seLib V = J" "\<And>h w. seDial V h w = (w, Inr ())"
    and "is_ok (ParsePoolURL url)" "TrimSpace name = login"
    and "call_travels K J 1 ''mining.subscribe'' [JString login]" "call_travels K J 2 ''mining.authorize'' [JString login, JString password]"
      "\<forall>nonce :: u64. call_travels K J 3 ''mining.submit'' [JString login, JString (jobID job), JString (dec (unat nonce))]"
      "\<forall>i\<in>{1, 2, 3}. reply_travels K J i" "job_travels K J job" "\<forall>v. sscanUint K (dec (unat v)) = Some v"
    and "ParseWorkerIdentity login = Inr worker" "RefreshWork (Some source) now (psEngine w) = (e', Inr job)" "\<forall>b. is_ok (SubmitBlock source b)"
    and "job_sound job" "jobPoolDifficulty job \<noteq> 0" "jobPoolDifficulty job \<le> jobBlockDifficulty job"
      "ValidHash (HashBlock C (jobBlock job) n) (jobPoolDifficulty job)" "slMiner l = ReferenceShareMiner C (\<lambda>_ _. None)"
  shows "\<exists>k. Dial V url name password w = (k, Inr ()) \<and> psEngine (lkPeer k) = e' \<and>
    (\<exists>k' nonce r. stratumPass V l t k = Some (k', countShare r t, if slOnce l then Some (Inr ()) else None) \<and> shKind r \<noteq> ShareInvalid
      \<and> ValidateShare C (Some (jobBlock job)) nonce (jobPoolDifficulty job) (jobBlockDifficulty job) = Inr r \<and> nonce \<le> n
      \<and> sharesSeen (engLedger (psEngine (lkPeer k'))) = sharesSeen (engLedger (psEngine (lkPeer k))) + 1 \<and> (shKind r = ShareValid \<longrightarrow> lkInbox k' = []))"
proof -
  let ?k0 = "\<lparr>lkClient = \<lparr>scAddress = login, scPassword = password, scNextID = 0\<rparr>, lkInbox = [], lkPeer = w\<rparr>"
  obtain notice where notice: "EncodeNotification K ''mining.notify'' (notifyParams job) = Inr notice"
    "unmarshalNotice J notice = Some (''mining.notify'', notifyParams job)" using assms(11) by (auto simp: job_travels_def)
  have "engCurrent e' = job" using RefreshWork_ok [OF assms(14)] by blast
  from handshake_gets_job [of V K C source now J ?k0 login password worker e' job notice] assms notice
  obtain k where k: "handshake V ?k0 = (k, Inr ())" "lkInbox k = [notice]" "psEngine (lkPeer k) = e'" "authorized (psSession (lkPeer k))"
    "scNextID (lkClient k) = 2" "scAddress (lkClient k) = login" by auto
  have "Dial V url name password w = (k, Inr ())" using assms(4-6) k(1) by (auto simp: Dial_def is_ok_iff Let_def)
  moreover have "engCurrent (psEngine (lkPeer k)) = job" using k(3) \<open>engCurrent e' = job\<close> by simp
  note first_share [OF assms(1-3) k(2) notice(2) this k(4-6) assms(9) _ assms(12,20,16-19,15), of t]
  ultimately show ?thesis using k(3) assms(10) by blast
qed

section \<open>Properties\<close>



section \<open>A small instance\<close>

definition small_login :: string where
  "small_login = replicate 40 (CHR ''0'')"

definition small_pool_template :: block where
  "small_pool_template = small_template\<lparr>blkMinerAddress := small_login\<rparr>"

definition small_pool_source :: work_source where
  "small_pool_source = \<lparr>GetWork = (\<lambda>_. Inr \<lparr>workID = '''', workHeight = 0, workParent = '''', workBlockReward = 2 ^ 40,
     workBlock = Some small_pool_template\<rparr>), SubmitBlock = (\<lambda>_. Inr ())\<rparr>"

definition small_pool_side :: pool_side where
  "small_pool_side = \<lparr>psEngine = small_engine\<lparr>engCfg := DefaultConfig\<lparr>pcPoolDifficulty := 1\<rparr>\<rparr>, psSession = newSession ''''\<rparr>"

definition small_pool_job :: Job where
  "small_pool_job = \<lparr>jobID = ''sudh-0-2'', jobWorkID = '''', jobHeight = 0, jobParent = '''', jobTimestamp = 0, jobVersion = 2,
     jobBlockDifficulty = 0xFFFFFFFF, jobPoolDifficulty = 1, jobPoolTarget = TargetHex 1, jobBlockTarget = TargetHex 0xFFFFFFFF,
     jobBlockReward = 2 ^ 40, jobBlock = small_pool_template, jobCreatedAt = 0\<rparr>"

text \<open>Messages as short byte strings: a number, and for a submission the text of the nonce.\<close>

definition small_server_lib :: stratum_lib where
  "small_server_lib = \<lparr>marshalResponse = (\<lambda>r. Inr [case rsID r of JNumber i _ \<Rightarrow> of_int i | _ \<Rightarrow> 0]), marshalNotification = (\<lambda>_. Inr [9]),
     unmarshalRequest = (\<lambda>bs. Inr (if hd bs = 1 then \<lparr>rqID = JNumber 1 ''1'', rqMethod = ''mining.subscribe'', rqParams = [JString small_login]\<rparr>
       else if hd bs = 2 then \<lparr>rqID = JNumber 2 ''2'', rqMethod = ''mining.authorize'', rqParams = [JString small_login, JString ''x'']\<rparr>
       else \<lparr>rqID = JNumber 3 ''3'', rqMethod = ''mining.submit'', rqParams = [JString small_login, JString ''sudh-0-2'', JString (text_of (butlast (tl bs)))]\<rparr>)),
     sscanUint = ParseUint64\<rparr>"

definition small_client_lib :: client_lib where
  "small_client_lib = \<lparr>marshalCall = (\<lambda>i m ps. Inr (of_int i # (case drop 2 ps of JString t # _ \<Rightarrow> bytes_of t | _ \<Rightarrow> []))),
     unmarshalReply = (\<lambda>bs. Some (if hd bs \<in> {1, 2, 3} then \<lparr>rpID = JNumber (uint (hd bs)) (dec_int (uint (hd bs))), rpError = None\<rparr>
       else \<lparr>rpID = JNull, rpError = None\<rparr>)),
     unmarshalNotice = (\<lambda>bs. Some (if hd bs = 9 then (''mining.notify'', notifyParams small_pool_job) else ('''', [])))\<rparr>"

definition small_stratum_env :: "pool_side stratum_env" where
  "small_stratum_env = \<lparr>seLib = small_client_lib, seDial = (\<lambda>h w. (w, Inr ())),
     seReact = poolReact small_server_lib small_crypto small_pool_source 0, seReadError = Errorf ''i/o timeout'' [],
     seContext = (\<lambda>_ _. None), seSleep = (\<lambda>_ k. k)\<rparr>"

definition small_stratum_loop :: "bool \<Rightarrow> pool_side stratum_loop" where
  "small_stratum_loop once = \<lparr>slPoolURL = ''pool:3333'', slLogin = small_login, slPassword = ''x'',
     slMiner = ReferenceShareMiner small_crypto (\<lambda>_ _. None), slOnce = once\<rparr>"

lemma small_pool_header:
  "HeaderBytes small_pool_template 0 = [0, 0, 0, 2] @ replicate 16 0 @ replicate 40 48 @ [255, 255, 255, 255] @ replicate 8 0"
  by (simp add: HeaderBytes_def small_pool_template_def small_template_def small_login_def) code_simp

lemma funpow_four: "(f ^^ 4) x = f (f (f (f x)))"
  by (simp add: numeral_eq_Suc)

lemma small_pool_share:
  "ValidHash (HashBlock small_crypto small_pool_template 0) 1" "\<not> ValidHash (HashBlock small_crypto small_pool_template 0) 0xFFFFFFFF"
  by (simp_all add: ValidHash_def HashBlock_def small_pool_header sha256Hash_def small_digest_def Let_def TargetFromDifficulty_def be_nat_def
      funpow_times funpow_four)

lemma small_pool_facts:
  "TrimSpace small_login = small_login" "ParseWorkerIdentity small_login = Inr \<lparr>wiAddress = small_login, wiWorkerName = ''default'', wiLogin = small_login\<rparr>"
  "is_ok (ParsePoolURL ''pool:3333'')" "job_sound small_pool_job"
  "\<exists>e'. RefreshWork (Some small_pool_source) 0 (psEngine small_pool_side) = (e', Inr small_pool_job)"
proof -
  have hex: "list_all is_lower_hex small_login" by (simp add: small_login_def is_lower_hex_def list_all_iff)
  note plain = lower_hex_text [OF hex]
  show "TrimSpace small_login = small_login" by (rule plain)
  have "takeWhile (\<lambda>c. c \<noteq> CHR ''.'') small_login = small_login" "dropWhile (\<lambda>c. c \<noteq> CHR ''.'') small_login = []" "length small_login = 40"
    by (simp_all add: small_login_def takeWhile_eq_all_conv)
  then show "ParseWorkerIdentity small_login = Inr \<lparr>wiAddress = small_login, wiWorkerName = ''default'', wiLogin = small_login\<rparr>"
    using plain hex by (simp add: ParseWorkerIdentity_def walletPattern_def Let_def) (auto simp: small_login_def)
  have "TrimSpace ''pool:3333'' = ''pool:3333''" by (rule TrimSpace_plain) (simp_all add: printable_def)
  then show "is_ok (ParsePoolURL ''pool:3333'')" by (simp add: ParsePoolURL_def TrimPrefix_def Let_def)
  show "job_sound small_pool_job"
    using hex by (simp add: job_sound_def small_pool_job_def small_pool_template_def small_template_def walletPattern_def small_login_def)
  have "dec 0 = ''0''" "dec 2 = ''2''" by code_simp+
  then show "\<exists>e'. RefreshWork (Some small_pool_source) 0 (psEngine small_pool_side) = (e', Inr small_pool_job)"
    by (simp add: RefreshWork_def small_pool_source_def small_pool_side_def small_engine_def small_pool_job_def small_pool_template_def
        small_template_def Let_def)
qed

lemma small_pool_travels:
  "call_travels small_server_lib small_client_lib 1 ''mining.subscribe'' [JString small_login]"
  "call_travels small_server_lib small_client_lib 2 ''mining.authorize'' [JString small_login, JString ''x'']"
  "\<forall>nonce :: u64. call_travels small_server_lib small_client_lib 3 ''mining.submit''
     [JString small_login, JString (jobID small_pool_job), JString (dec (unat nonce))]"
  "\<forall>i\<in>{1, 2, 3}. reply_travels small_server_lib small_client_lib i" "job_travels small_server_lib small_client_lib small_pool_job"
  "\<forall>v. sscanUint small_server_lib (dec (unat v)) = Some v"
proof -
  have d: "dec_int 1 = ''1''" "dec_int 2 = ''2''" "dec_int 3 = ''3''" by code_simp+
  show "call_travels small_server_lib small_client_lib 1 ''mining.subscribe'' [JString small_login]"
    "call_travels small_server_lib small_client_lib 2 ''mining.authorize'' [JString small_login, JString ''x'']"
    "\<forall>nonce :: u64. call_travels small_server_lib small_client_lib 3 ''mining.submit''
     [JString small_login, JString (jobID small_pool_job), JString (dec (unat nonce))]"
    by (simp_all add: call_travels_def small_server_lib_def small_client_lib_def d small_pool_job_def)
  show "\<forall>i\<in>{1, 2, 3}. reply_travels small_server_lib small_client_lib i"
    by (simp add: reply_travels_def EncodeResponse_def with_newline_def small_server_lib_def small_client_lib_def)
  show "job_travels small_server_lib small_client_lib small_pool_job"
    by (simp add: job_travels_def EncodeNotification_def with_newline_def small_server_lib_def small_client_lib_def)
  have "ParseUint64 (dec (unat k)) = Some k" for k :: u64 using ParseUint64_dec [of "unat k"] unat_less_64 [of k] by simp
  then show "\<forall>v. sscanUint small_server_lib (dec (unat v)) = Some v" by (simp add: small_server_lib_def)
qed



end
