(* ===== verification/MinerCli.thy ===== *)
theory MinerCli
  imports StratumClient
begin

text \<open>
  The programs \<open>cmd/sudharma-miner\<close> and \<open>cmd/sudharma-pool\<close>: flags, configuration, the choice between solo and
  pool mining, and what is started. What is printed is left out; flags arrive parsed. The user's input is
  a list of lines with the error at its end.
\<close>

section \<open>The miner program\<close>

record miner_flags =
  mfAddress :: string
  mfAuto :: bool
  mfConfig :: string
  mfNetwork :: string
  mfRPC :: string
  mfBackend :: string
  mfHasherDir :: string
  mfDevice :: int
  mfProbe :: bool
  mfOnce :: bool
  mfStratum :: string
  mfWorker :: string
  mfPassword :: string

text \<open>The values of flags that are not given.\<close>

definition defaultMinerFlags :: miner_flags where
  "defaultMinerFlags = \<lparr>mfAddress = '''', mfAuto = False, mfConfig = '''', mfNetwork = MiningNetworkPublicTestnet, mfRPC = '''',
     mfBackend = ProductionMiningBackend, mfHasherDir = '''', mfDevice = 0, mfProbe = False, mfOnce = False, mfStratum = '''',
     mfWorker = ''default'', mfPassword = ''x''\<rparr>"

record user_input =
  uiLines :: "string list"
  uiError :: "error option"

definition resolveRewardAddress :: "store_env \<Rightarrow> user_input \<Rightarrow> string \<Rightarrow> bool \<Rightarrow> disk \<Rightarrow> (disk, string) outcome" where
  "resolveRewardAddress S inp flagAddress auto d =
     (if TrimSpace flagAddress \<noteq> '''' then (d, NormalizeRewardAddress flagAddress)
      else (case LoadSavedAddress S d of
        (d1, Inl err) \<Rightarrow> (d1, Inl err)
      | (d1, Inr saved) \<Rightarrow>
        if auto then
          (d1, if saved = '''' then Inl (Errorf ''no saved wallet address yet; run once and enter your address'' []) else Inr saved)
        else if saved \<noteq> '''' then
          (d1, case uiLines inp of
             line # _ \<Rightarrow> if TrimSpace line \<noteq> '''' then NormalizeRewardAddress (TrimSpace line)
               else Inr saved
           | [] \<Rightarrow> (case uiError inp of Some err \<Rightarrow> Inl err | None \<Rightarrow> Inr saved))
        else
          (d1, case uiLines inp of
             [] \<Rightarrow> Inl (Errorf ''wallet address is required'' [])
           | line # _ \<Rightarrow> NormalizeRewardAddress line)))"

text \<open>The JSON of the two kinds of configuration files, and URL parsing.\<close>

record config_lib =
  parseHTTP :: "string \<Rightarrow> (string \<times> string) option"
  decodeFileConfig :: "bytes \<Rightarrow> (FileConfig \<times> trailing) result"
  decodePoolFile :: "bytes \<Rightarrow> (PoolFileConfig \<times> trailing) result"

definition resolveMinerConfig ::
  "config_lib \<Rightarrow> string \<Rightarrow> string \<Rightarrow> string \<Rightarrow> string \<Rightarrow> string \<Rightarrow> int \<Rightarrow> disk \<Rightarrow> (disk, MinerConfig) outcome" where
  "resolveMinerConfig J configPath reward net rpcURL backend device d =
     (if TrimSpace configPath \<noteq> '''' then
        (case LoadFileConfig (parseHTTP J) (decodeFileConfig J) configPath d of
          (d1, Inl err) \<Rightarrow> (d1, Inl err)
        | (d1, Inr fileCfg) \<Rightarrow>
        (case ToConfig fileCfg of
          Inl err \<Rightarrow> (d1, Inl err)
        | Inr cfg \<Rightarrow>
        (case (if TrimSpace reward \<noteq> '''' then NormalizeRewardAddress reward else Inr (gcAddress cfg)) of
          Inl err \<Rightarrow> (d1, Inl err)
        | Inr address \<Rightarrow>
          (d1, Resolve (cfg\<lparr>gcAddress := address, gcBackend := (if TrimSpace backend \<noteq> '''' then backend else gcBackend cfg),
             gcDevice := (if device \<noteq> 0 then device else gcDevice cfg)\<rparr>)))))
      else (d, Resolve \<lparr>gcAddress = reward, gcNetwork = net, gcRPCURL = rpcURL, gcRPCURLs = [], gcBackend = backend, gcDevice = device,
        gcExpectedNetwork = '''', gcExpectedCoin = '''', gcExpectedSymbol = ''''\<rparr>))"

record poolMinerConfig =
  pmStratumURL :: string
  pmLogin :: string
  pmPassword :: string
  pmNetwork :: string
  pmAddress :: string

text \<open>The result is \<open>None\<close> when the miner does not run in pool mode. A configuration file that does not load as a
  pool configuration is passed over here.\<close>

definition resolvePoolConfig ::
  "config_lib \<Rightarrow> string \<Rightarrow> string \<Rightarrow> string \<Rightarrow> string \<Rightarrow> string \<Rightarrow> disk \<Rightarrow> (disk, poolMinerConfig option) outcome" where
  "resolvePoolConfig J configPath stratumURL workerName password reward d =
     (let byFlag = (\<lambda>d. if TrimSpace stratumURL = '''' then (d, Inr None)
        else (d, case NormalizeRewardAddress reward of
            Inl err \<Rightarrow> Inl err
          | Inr address \<Rightarrow>
            (case WorkerLogin address workerName of
               Inl err \<Rightarrow> Inl err
             | Inr login \<Rightarrow> Inr (Some \<lparr>pmStratumURL = stratumURL, pmLogin = login, pmPassword = password, pmNetwork = '''', pmAddress = address\<rparr>)))) in
      if TrimSpace configPath \<noteq> '''' then
        (case LoadPoolFileConfig (decodePoolFile J) configPath d of
          (d1, Inl _) \<Rightarrow> byFlag d1
        | (d1, Inr poolCfg) \<Rightarrow>
          (d1, case (if TrimSpace reward \<noteq> '''' then NormalizeRewardAddress reward else Inr (pfRewardAddress poolCfg)) of
             Inl err \<Rightarrow> Inl err
           | Inr address \<Rightarrow>
             (case WorkerLogin address (if TrimSpace workerName \<noteq> '''' \<and> workerName \<noteq> ''default'' then workerName else pfWorkerName poolCfg) of
                Inl err \<Rightarrow> Inl err
              | Inr login \<Rightarrow> Inr (Some \<lparr>pmStratumURL = pfStratumURL poolCfg, pmLogin = login,
                  pmPassword = (if TrimSpace password \<noteq> '''' then password else pfPassword poolCfg),
                  pmNetwork = PoolNetwork poolCfg, pmAddress = address\<rparr>))))
      else byFlag d)"

text \<open>The world of the program: its disk and the remote side. Where hasher programs are found is an argument, as is
  the hasher itself.\<close>

record 'w miner_box =
  bxStore :: store_env
  bxInput :: user_input
  bxLib :: config_lib
  bxCodec :: miner_codec
  bxTransport :: "'w transport"
  bxIsFile :: "path \<Rightarrow> bool"
  bxExecutable :: "path result"
  bxHasher :: "string \<Rightarrow> string list \<Rightarrow> 'w \<Rightarrow> 'w \<times> bytes result"
  bxLoop :: "'w loop_env"

datatype miner_end =
    MinerFailed error
  | ProbeWaiting error
  | ProbeReady u64
  | PoolMode poolMinerConfig
  | Mining nat "unit result option"

text \<open>Solo mining, observed for \<open>passes\<close> turns of the loop. A status that cannot be fetched is not an error. Saving the
  address may fail; the loop runs anyway.\<close>

definition runSolo :: "'w miner_box \<Rightarrow> miner_flags \<Rightarrow> nat \<Rightarrow> MinerConfig \<Rightarrow> disk \<Rightarrow> 'w \<Rightarrow> disk \<times> 'w \<times> miner_end" where
  "runSolo B fl passes resolved d w =
     (case NewFailoverClient (parseHTTP (bxLib B)) (bxTransport B) (bxCodec B) (gcRPCURLs resolved) of
       Inl err \<Rightarrow> (d, w, MinerFailed err)
     | Inr clients \<Rightarrow>
     (case callWithFailover clients MinerNetworkStatus w of
       (w1, status) \<Rightarrow>
     (case (case status of Inl _ \<Rightarrow> Inr () | Inr st \<Rightarrow> ValidateNetworkStatus st (gcExpectedNetwork resolved)) of
       Inl err \<Rightarrow> (d, w1, MinerFailed err)
     | Inr _ \<Rightarrow>
       if mfProbe fl then
         (case callWithFailover clients (MinerGetWork (gcAddress resolved)) w1 of
            (w2, Inl err) \<Rightarrow> (d, w2, ProbeWaiting err)
          | (w2, Inr work) \<Rightarrow> (d, w2, ProbeReady (wkHeight work)))
       else
         (let d1 = fst (SaveAddress (bxStore B) (gcAddress resolved) d);
              backend = (case DetectGPUHasher (bxIsFile B) (bxExecutable B) (mfHasherDir fl) of
                 Inl _ \<Rightarrow> None
               | Inr path \<Rightarrow> Some (commandBackend (bxHasher B) \<lparr>cmPath = path, cmDevice = gcDevice resolved\<rparr>)) in
          (case RunMiner (bxLoop B) \<lparr>mlClients = clients, mlAddress = gcAddress resolved, mlBackend = backend, mlOnce = mfOnce fl\<rparr> passes w1 of
             (w2, accepted, Some (Inl err)) \<Rightarrow> (d1, w2, MinerFailed err)
           | (w2, accepted, finish) \<Rightarrow>
             (d1, w2, if finish = Some (Inr ()) \<and> mfOnce fl \<and> accepted < 1
                then MinerFailed (Errorf ''connected but no block was accepted yet'' []) else Mining accepted finish))))))"

definition minerMain :: "'w miner_box \<Rightarrow> miner_flags \<Rightarrow> nat \<Rightarrow> disk \<Rightarrow> 'w \<Rightarrow> disk \<times> 'w \<times> miner_end" where
  "minerMain B fl passes d w =
     (case resolveRewardAddress (bxStore B) (bxInput B) (mfAddress fl) (mfAuto fl) d of
       (d1, Inl err) \<Rightarrow> (d1, w, MinerFailed err)
     | (d1, Inr reward) \<Rightarrow>
     (case resolvePoolConfig (bxLib B) (mfConfig fl) (mfStratum fl) (mfWorker fl) (mfPassword fl) reward d1 of
       (d2, Inl err) \<Rightarrow> (d2, w, MinerFailed err)
     | (d2, Inr (Some poolCfg)) \<Rightarrow> (d2, w, PoolMode poolCfg)
     | (d2, Inr None) \<Rightarrow>
     (case resolveMinerConfig (bxLib B) (mfConfig fl) reward (mfNetwork fl) (mfRPC fl) (mfBackend fl) (mfDevice fl) d2 of
       (d3, Inl err) \<Rightarrow> (d3, w, MinerFailed err)
     | (d3, Inr resolved) \<Rightarrow> runSolo B fl passes resolved d3 w)))"

text \<open>Pool mining: the address is remembered, the hasher is used if one is found, and the loop is observed for \<open>passes\<close>
  turns.\<close>

definition runPoolMiner ::
  "store_env \<Rightarrow> (path \<Rightarrow> bool) \<Rightarrow> path result \<Rightarrow> crypto \<Rightarrow> ('w link \<Rightarrow> nat \<Rightarrow> error option)
   \<Rightarrow> (string \<Rightarrow> string list \<Rightarrow> 'w link \<Rightarrow> 'w link \<times> bytes result) \<Rightarrow> 'w stratum_env \<Rightarrow> poolMinerConfig \<Rightarrow> bool \<Rightarrow> path \<Rightarrow> int \<Rightarrow> nat
   \<Rightarrow> disk \<Rightarrow> 'w \<Rightarrow> disk \<times> ('w link \<times> tally \<times> unit result option) option" where
  "runPoolMiner S isFile executable C ctx runHasher V cfg once hasherDir device passes d w =
     (let d1 = fst (SaveAddress S (pmAddress cfg) d);
          searcher = (case DetectGPUHasher isFile executable hasherDir of
             Inl _ \<Rightarrow> ReferenceShareMiner C ctx
           | Inr hasher \<Rightarrow> NewShareMiner C ctx runHasher \<lparr>cmPath = hasher, cmDevice = device\<rparr>) in
      (d1, (case RunStratum V \<lparr>slPoolURL = pmStratumURL cfg, slLogin = pmLogin cfg, slPassword = pmPassword cfg, slMiner = searcher, slOnce = once\<rparr>
              passes w of
         None \<Rightarrow> None
       | Some (k, (valid, solved), finish) \<Rightarrow>
           Some (k, (valid, solved), if finish = Some (Inr ()) \<and> once \<and> valid + solved < 1
             then Some (Inl (Errorf ''connected to pool but no share was accepted yet'' [])) else finish))))"

section \<open>The pool program\<close>

record pool_flags =
  pgConfig :: string
  pgNetwork :: string
  pgRPC :: string
  pgPayoutAddress :: string
  pgPayoutScheme :: string
  pgPoolDifficulty :: u32
  pgStratumListen :: string
  pgProbe :: bool

definition poolLoadConfig :: "(bytes \<Rightarrow> PoolConfig \<Rightarrow> PoolConfig result) \<Rightarrow> pool_flags \<Rightarrow> disk \<Rightarrow> (disk, PoolConfig) outcome" where
  "poolLoadConfig unmarshal fl d =
     (if pgConfig fl \<noteq> '''' then
        (case ReadFile (pgConfig fl) d of (d1, Inl err) \<Rightarrow> (d1, Inl err) | (d1, Inr raw) \<Rightarrow> (d1, LoadConfig unmarshal raw))
      else (d, ResolveConfig (DefaultConfig\<lparr>pcNetwork := pgNetwork fl, pcRPCURL := pgRPC fl, pcPayoutAddress := pgPayoutAddress fl,
        pcPayoutScheme := pgPayoutScheme fl, pcPoolDifficulty := pgPoolDifficulty fl, pcStratumListen := pgStratumListen fl\<rparr>)))"

definition poolNewEngine :: "(string \<Rightarrow> (string \<times> string) option) \<Rightarrow> 'w transport \<Rightarrow> miner_codec \<Rightarrow> PoolConfig \<Rightarrow> ('w MiningClient list \<times> Engine) result" where
  "poolNewEngine parse transport K cfg =
     (case Resolve \<lparr>gcAddress = pcPayoutAddress cfg, gcNetwork = pcNetwork cfg, gcRPCURL = pcRPCURL cfg, gcRPCURLs = pcRPCURLs cfg,
         gcBackend = '''', gcDevice = 0, gcExpectedNetwork = '''', gcExpectedCoin = '''', gcExpectedSymbol = ''''\<rparr> of
       Inl err \<Rightarrow> Inl err
     | Inr resolved \<Rightarrow>
     (case NewFailoverClient parse transport K (gcRPCURLs resolved) of
       Inl err \<Rightarrow> Inl err
     | Inr clients \<Rightarrow>
     (case NewEngine cfg of Inl err \<Rightarrow> Inl err | Inr e \<Rightarrow> Inr (clients, e))))"

text \<open>The start of the pool: configuration, engine and a first job; \<open>sourceOf\<close> is the node behind the clients. With
  \<open>-probe\<close> that is all. Afterwards a timer refreshes the work and the server accepts sessions.\<close>

definition poolRun ::
  "(bytes \<Rightarrow> PoolConfig \<Rightarrow> PoolConfig result) \<Rightarrow> (string \<Rightarrow> (string \<times> string) option) \<Rightarrow> 'w transport \<Rightarrow> miner_codec
   \<Rightarrow> ('w MiningClient list \<Rightarrow> work_source) \<Rightarrow> i64 \<Rightarrow> pool_flags \<Rightarrow> disk \<Rightarrow> (disk, Engine \<times> Job) outcome" where
  "poolRun unmarshal parse transport K sourceOf now fl d =
     (case poolLoadConfig unmarshal fl d of
       (d1, Inl err) \<Rightarrow> (d1, Inl (Wrapf ''pool config: %w'' [] err))
     | (d1, Inr cfg) \<Rightarrow>
       (d1, case poolNewEngine parse transport K cfg of
          Inl err \<Rightarrow> Inl err
        | Inr (clients, e) \<Rightarrow>
          (case RefreshWork (Some (sourceOf clients)) now e of
             (e1, Inl err) \<Rightarrow> Inl (Wrapf (if pgProbe fl then ''mining work fetch failed: %w'' else ''initial work refresh: %w'') [] err)
           | (e1, Inr job) \<Rightarrow> Inr (e1, job))))"

section \<open>Who is paid\<close>

lemma NormalizeRewardAddress_ok: "NormalizeRewardAddress a = Inr got \<Longrightarrow> rewardAddressPattern got"
  by (auto simp: NormalizeRewardAddress_def ValidateRewardAddress_def normal_form Let_def split: if_splits)

lemma NormalizeRewardAddress_fixed:
  assumes "rewardAddressPattern a"
  shows "NormalizeRewardAddress a = Inr a" "TrimSpace a \<noteq> ''''" "ToLower (TrimSpace a) = a"
proof -
  have a: "length a = 40" "list_all is_lower_hex a" using assms by (simp_all add: rewardAddressPattern_def)
  note plain = lower_hex_text [OF a(2)]
  show "NormalizeRewardAddress a = Inr a" using plain assms by (simp add: NormalizeRewardAddress_def ValidateRewardAddress_def)
  show "TrimSpace a \<noteq> ''''" "ToLower (TrimSpace a) = a" using plain a(1) by auto
qed

lemma LoadSavedAddress_ok: "LoadSavedAddress S d = (d1, Inr a) \<Longrightarrow> a \<noteq> '''' \<Longrightarrow> rewardAddressPattern a"
  by (auto simp: LoadSavedAddress_def ValidateRewardAddress_def normal_form Let_def split: sum.splits prod.splits if_splits)

lemma Resolve_address: "Resolve cfg = Inr cfg' \<Longrightarrow> gcAddress cfg' = ToLower (TrimSpace (gcAddress cfg))"
  by (auto simp: Resolve_def Let_def split: sum.splits)

text \<open>The miner works for the address the user chose. The address that the program takes from its flag, from its
  memory or from the user is a well-formed address in its normal form, and whatever configuration file is
  given, solo mining and pool mining pay to exactly that address.\<close>

theorem miner_pays_chosen_address:
  assumes "resolveRewardAddress S inp flagAddress auto d = (d1, Inr reward)"
  shows "rewardAddressPattern reward
    \<and> (resolveMinerConfig J configPath reward net rpcURL backend device d2 = (d3, Inr cfg) \<longrightarrow> gcAddress cfg = reward)
    \<and> (resolvePoolConfig J configPath stratumURL workerName password reward d2 = (d4, Inr (Some pc)) \<longrightarrow> pmAddress pc = reward)"
proof -
  have pat: "rewardAddressPattern reward"
    using assms by (auto simp: resolveRewardAddress_def dest: NormalizeRewardAddress_ok LoadSavedAddress_ok
        split: if_splits prod.splits sum.splits list.splits option.splits)
  note fixed = NormalizeRewardAddress_fixed [OF pat]
  have "gcAddress cfg = reward" if "resolveMinerConfig J configPath reward net rpcURL backend device d2 = (d3, Inr cfg)"
    using that fixed by (auto simp: resolveMinerConfig_def dest!: Resolve_address split: if_splits prod.splits sum.splits)
  moreover have "pmAddress pc = reward" if "resolvePoolConfig J configPath stratumURL workerName password reward d2 = (d4, Inr (Some pc))"
    using that fixed by (auto simp: resolvePoolConfig_def Let_def split: if_splits prod.splits sum.splits)
  ultimately show ?thesis using pat by blast
qed

theorem miner_pays_chosen_address_witness:
  "let S = \<lparr>evDataDir = ''store'', evWindows = False, evLocalAppData = '''', evXdgDataHome = '''', evHome = Inr ''''\<rparr>;
       J = \<lparr>parseHTTP = (\<lambda>_. None), decodeFileConfig = (\<lambda>_. Inl JSONInvalid), decodePoolFile = (\<lambda>_. Inl JSONInvalid)\<rparr>;
       d = reboot Map.empty in
     \<exists>pc. snd (resolveRewardAddress S \<lparr>uiLines = [], uiError = None\<rparr> small_login False d) = Inr small_login
       \<and> resolvePoolConfig J '''' ''pool:3333'' ''default'' ''x'' small_login d = (d, Inr (Some pc)) \<and> pmAddress pc = small_login"
proof -
  let ?S = "\<lparr>evDataDir = ''store'', evWindows = False, evLocalAppData = '''', evXdgDataHome = '''', evHome = Inr ''''\<rparr>"
  let ?J = "\<lparr>parseHTTP = (\<lambda>_. None), decodeFileConfig = (\<lambda>_. Inl JSONInvalid), decodePoolFile = (\<lambda>_. Inl JSONInvalid)\<rparr>"
  let ?d = "reboot Map.empty"
  have pat: "rewardAddressPattern small_login" by (simp add: rewardAddressPattern_def small_login_def is_lower_hex_def list_all_iff)
  note fixed = NormalizeRewardAddress_fixed [OF pat]
  have first: "resolveRewardAddress ?S \<lparr>uiLines = [], uiError = None\<rparr> small_login False ?d = (?d, Inr small_login)"
    using fixed by (simp add: resolveRewardAddress_def)
  have "TrimSpace ''pool:3333'' = ''pool:3333''" by (rule TrimSpace_plain) (simp_all add: printable_def)
  then obtain pc where "resolvePoolConfig ?J '''' ''pool:3333'' ''default'' ''x'' small_login ?d = (?d, Inr (Some pc))"
    using fixed small_pool_facts(1,2) by (simp add: resolvePoolConfig_def WorkerLogin_def Let_def)
  with miner_pays_chosen_address [OF first] first show ?thesis unfolding Let_def by (metis snd_conv)
qed

end
