(* ===== verification/Staging.thy ===== *)
theory Staging
  imports DemandMiner Daemon
begin

text \<open>
  The rehearsal server of the GPU proof, \<open>cmd/sudharma-gpupow-staging\<close>: \<open>main.go\<close> hands out random
  challenges and checks their solutions, \<open>rehearsal.go\<close> mines a private chain under the rules of the main
  network with the GPU proof active from height one. The verifier is the function of package \<open>pow\<close>; the
  random bytes, the clock, the decoder of submissions and the name of the temporary file are arguments.
  A handler answers with the status and the value it writes.
\<close>

section \<open>Challenges and submissions\<close>

definition stagingHeight :: u64 where
  [go_const]: "stagingHeight = 0"

definition stagingCacheNodes :: u32 where
  [go_const]: "stagingCacheNodes = 8"

definition GPUV1AlgorithmID :: string where
  [go_const]: "GPUV1AlgorithmID = ''sudharma-gpupow-v1''"

definition stagingTarget :: bytes where
  "stagingTarget = 0x0f # replicate 31 0xff"

record stagingChallenge =
  scChallengeID :: string
  scAlgorithm :: string
  scStaging :: bool
  scHeaderPrefix :: string
  scTarget :: string
  scHeight :: u64
  scCacheNodes :: u32
  scProgramSeed :: string
  scEpochSeed :: string

record stagingSubmission =
  ssChallenge :: stagingChallenge
  ssNonce :: u64

record rehearsalStatus =
  reMode :: string
  reNetwork :: string
  reChainHeight :: u64
  reAcceptedBlocks :: u64
  reTargetBlocks :: u64
  reIssuedSupply :: u64
  reCompleted :: bool

text \<open>What a handler writes; \<open>Aborted\<close> is a panic, on which the HTTP server drops the connection.\<close>

datatype staging_body =
    ChallengeReply stagingChallenge
  | ResultReply string
  | StatusReply rehearsalStatus
  | ErrorReply string
  | FailureReply error
  | Aborted error

type_synonym staging_reply = "nat \<times> staging_body"

definition wrongMethod :: staging_reply where
  "wrongMethod = (405, ErrorReply ''method not allowed'')"

definition rejected :: staging_reply where
  "rejected = (200, ResultReply ''rejected'')"

definition accepted :: staging_reply where
  "accepted = (200, ResultReply ''accepted'')"

text \<open>The decoder of a submission behind its limit of a mebibyte; unknown fields are an error.\<close>

type_synonym submission_decoder = "i64 \<Rightarrow> bytes result \<Rightarrow> stagingSubmission result"

section \<open>The staging verifier\<close>

record stagingAPI =
  saChallenges :: "string \<rightharpoonup> stagingChallenge"
  saCache :: "GPUV1CacheNode list"

definition newStagingAPI :: "crypto \<Rightarrow> (bytes \<Rightarrow> bytes) \<Rightarrow> stagingAPI" where
  "newStagingAPI C K =
     (let epoch = GPUV1EpochForHeight stagingHeight
      in \<lparr>saChallenges = Map.empty, saCache = GPUV1BuildCache K (GPUV1EpochSeed C epoch) stagingCacheNodes\<rparr>)"

definition issueChallenge :: "bytes result \<Rightarrow> bytes result \<Rightarrow> stagingAPI \<Rightarrow> (stagingAPI, stagingChallenge) outcome" where
  "issueChallenge idBytes header a =
     (case idBytes of
       Inl err \<Rightarrow> (a, Inl err)
     | Inr i \<Rightarrow>
     (case header of
       Inl err \<Rightarrow> (a, Inl err)
     | Inr h \<Rightarrow>
     (let challenge = \<lparr>scChallengeID = hex_encode i, scAlgorithm = GPUV1AlgorithmID, scStaging = True,
            scHeaderPrefix = hex_encode h, scTarget = hex_encode stagingTarget, scHeight = stagingHeight,
            scCacheNodes = stagingCacheNodes, scProgramSeed = '''', scEpochSeed = ''''\<rparr> in
      if saChallenges a (scChallengeID challenge) \<noteq> None then (a, Inl (Errorf ''challenge id collision'' []))
      else (a\<lparr>saChallenges := (saChallenges a)(scChallengeID challenge \<mapsto> challenge)\<rparr>, Inr challenge))))"

definition handleStagingChallenge :: "bytes result \<Rightarrow> bytes result \<Rightarrow> stagingAPI \<Rightarrow> http_request \<Rightarrow> stagingAPI \<times> staging_reply" where
  "handleStagingChallenge idBytes header a r =
     (if reqMethod r \<noteq> ''GET'' then (a, wrongMethod)
      else (case issueChallenge idBytes header a of
          (a1, Inl err) \<Rightarrow> (a1, 500, ErrorReply ''unable to issue staging challenge'')
        | (a1, Inr challenge) \<Rightarrow> (a1, 200, ChallengeReply challenge)))"

text \<open>\<open>bytes.Compare\<close>, the lexicographic order.\<close>

fun Compare :: "bytes \<Rightarrow> bytes \<Rightarrow> int" where
  "Compare [] [] = 0"
| "Compare [] (b # bs) = - 1"
| "Compare (a # as) [] = 1"
| "Compare (a # as) (b # bs) = (if a < b then - 1 else if b < a then 1 else Compare as bs)"

definition acceptSubmission :: "crypto \<Rightarrow> (bytes \<Rightarrow> bytes) \<Rightarrow> stagingAPI \<Rightarrow> stagingSubmission \<Rightarrow> stagingAPI \<times> bool" where
  "acceptSubmission C K a s =
     (case saChallenges a (scChallengeID (ssChallenge s)) of
       None \<Rightarrow> (a, False)
     | Some issued \<Rightarrow>
     (let a1 = a\<lparr>saChallenges := (saChallenges a)(scChallengeID (ssChallenge s) := None)\<rparr> in
      if issued \<noteq> ssChallenge s then (a1, False)
      else (case hex_decode (scHeaderPrefix issued) of
        None \<Rightarrow> (a1, False)
      | Some header \<Rightarrow>
      (case hex_decode (scTarget issued) of
        None \<Rightarrow> (a1, False)
      | Some target \<Rightarrow>
      if length target \<noteq> 32 then (a1, False)
      else (let digest = GPUV1ReferenceDigest C K header (ssNonce s) (scHeight issued) (saCache a)
            in (a1, Compare digest target \<le> 0))))))"

definition handleStagingSubmit :: "crypto \<Rightarrow> (bytes \<Rightarrow> bytes) \<Rightarrow> submission_decoder \<Rightarrow> stagingAPI \<Rightarrow> http_request \<Rightarrow> stagingAPI \<times> staging_reply" where
  "handleStagingSubmit C K decode a r =
     (if reqMethod r \<noteq> ''POST'' then (a, wrongMethod)
      else (case decode 1048576 (reqBody r) of
          Inl err \<Rightarrow> (a, rejected)
        | Inr s \<Rightarrow> (case acceptSubmission C K a s of (a1, ok) \<Rightarrow> (a1, if ok then accepted else rejected))))"

definition validateListenAddress :: "demand_lib \<Rightarrow> string \<Rightarrow> unit result" where
  "validateListenAddress D address =
     (case DemandMiner.splitHostPort D address of
       None \<Rightarrow> Inl (Errorf ''invalid listen address: %w'' [])
     | Some (host, port) \<Rightarrow>
       if TrimSpace port = '''' then Inl (Errorf ''listen port is required'' [])
       else if isLocalhost host then Inr ()
       else if \<not> isLoopbackIP D host then Inl (Errorf ''staging verifier must bind to loopback only'' [])
       else Inr ())"

section \<open>The rehearsal of the main network\<close>

definition rehearsalMinerAddress :: string where
  "rehearsalMinerAddress = replicate 40 (CHR ''a'')"

text \<open>The temporary file that carries the genesis block to the loader has a fresh name; it is removed when the
  function returns, and a failure of that removal is ignored.\<close>

definition newValidationOnlyMainnetChain ::
  "crypto \<Rightarrow> (nat \<Rightarrow> i64) \<Rightarrow> block option list json \<Rightarrow> path \<Rightarrow> pow_policy \<Rightarrow> proof_verifier \<Rightarrow> disk \<Rightarrow> (disk, chain) outcome" where
  "newValidationOnlyMainnetChain C clk J tmp policy verifier d =
     (case Marshal J [Some NewMainnetGenesisBlock] of
       Inl err \<Rightarrow> (d, Inl (Wrapf ''encode mainnet rehearsal genesis: %w'' [] err))
     | Inr encoded \<Rightarrow>
     (case OpenExclusive tmp d of
       (d1, Inl err) \<Rightarrow> (d1, Inl (Wrapf ''create mainnet rehearsal chain file: %w'' [] err))
     | (d1, Inr _) \<Rightarrow>
     (case FileClose tmp d1 of
       (d2, Inl err) \<Rightarrow> (fst (Remove tmp d2), Inl (Wrapf ''close mainnet rehearsal chain file: %w'' [] err))
     | (d2, Inr _) \<Rightarrow>
     (case WriteFile tmp encoded d2 of
       (d3, Inl err) \<Rightarrow> (fst (Remove tmp d3), Inl (Wrapf ''write mainnet rehearsal chain file: %w'' [] err))
     | (d3, Inr _) \<Rightarrow>
     (case LoadChainFromFileForWithConsensus C clk J tmp NetworkMainnet policy (Some verifier) d3 of
       (d4, Inl err) \<Rightarrow> (fst (Remove tmp d4), Inl (Wrapf ''construct validation-only mainnet rehearsal chain: %w'' [] err))
     | (d4, Inr c) \<Rightarrow> (fst (Remove tmp d4), Inr c))))))"

record rehearsalAPI =
  raChain :: chain
  raState :: state
  raTargetBlocks :: u64
  raAcceptedBlocks :: u64
  raChallenge :: "stagingChallenge option"
  raCandidate :: "block option"

definition newMainnetRehearsalAPI ::
  "crypto \<Rightarrow> (bytes \<Rightarrow> bytes) \<Rightarrow> (nat \<Rightarrow> i64) \<Rightarrow> block option list json \<Rightarrow> path \<Rightarrow> u64 \<Rightarrow> disk \<Rightarrow> (disk, rehearsalAPI) outcome" where
  "newMainnetRehearsalAPI C K clk J tmp targetBlocks d =
     (if targetBlocks < 25 then (d, Inl (Errorf ''mainnet rehearsal requires at least 25 blocks'' []))
      else if targetBlocks > 1000 then (d, Inl (Errorf ''mainnet rehearsal block count is unreasonably large'' []))
      else if MainnetLaunchAuthorized \<or> MainnetMiningAuthorized
      then (d, Inl (Errorf ''isolated mainnet rehearsal requires public mainnet launch and mining gates to remain closed'' []))
      else if GPUV1MainnetActivationHeight \<noteq> GPUV1ActivationDisabled
      then (d, Inl (Errorf ''isolated mainnet rehearsal requires public mainnet GPU activation to remain disabled'' []))
      else (let policy = \<lparr>GPUV1ActivationHeight = 1\<rparr> in
      (case NewChainProofVerifier policy of
        Inl err \<Rightarrow> (d, Inl (Wrapf ''construct mainnet rehearsal proof verifier: %w'' [] err))
      | Inr v \<Rightarrow>
      (case newValidationOnlyMainnetChain C clk J tmp policy (khushiVerifier C K (cvPolicy v) (cacheNodeCount v)) d of
        (d1, Inl err) \<Rightarrow> (d1, Inl err)
      | (d1, Inr c) \<Rightarrow>
      (case NewStateFor MonetaryPolicyMainnet of
        Inl err \<Rightarrow> (d1, Inl err)
      | Inr s \<Rightarrow> (d1, Inr \<lparr>raChain = c, raState = s, raTargetBlocks = targetBlocks, raAcceptedBlocks = 0,
          raChallenge = None, raCandidate = None\<rparr>))))))"

definition statusLocked :: "rehearsalAPI \<Rightarrow> rehearsalStatus" where
  "statusLocked a = \<lparr>reMode = ''mainnet-rehearsal'', reNetwork = NetworkMainnet, reChainHeight = Height (raChain a),
     reAcceptedBlocks = raAcceptedBlocks a, reTargetBlocks = raTargetBlocks a, reIssuedSupply = IssuedSupply (raState a),
     reCompleted = (raAcceptedBlocks a = raTargetBlocks a)\<rparr>"

text \<open>The target is below two to the 256, so \<open>FillBytes\<close> has room for it.\<close>

definition issueChallengeLocked ::
  "crypto \<Rightarrow> bytes result \<Rightarrow> rehearsalAPI \<Rightarrow> (stagingChallenge \<times> block) result" where
  "issueChallengeLocked C idBytes a =
     (case Tip (raChain a) of
       None \<Rightarrow> Inl (Errorf ''mainnet rehearsal chain has no tip'' [])
     | Some tip \<Rightarrow>
     (let height = blkHeight tip + 1 in
     (case ExpectedNextDifficulty (Some (raChain a)) of
       Inl err \<Rightarrow> Inl err
     | Inr difficulty \<Rightarrow>
     (let candidate = UpdateMerkleRoot C \<lparr>blkVersion = 2, blkHeight = height,
            blkTimestamp = wrap64 (blkTimestamp tip + sint TargetBlockTimeSeconds), blkPreviousHash = Hash C tip,
            blkMerkleRoot = '''', blkDifficulty = difficulty, blkNonce = 0, blkMinerAddress = rehearsalMinerAddress,
            blkTransactions = []\<rparr>;
          header = HeaderBytes candidate 0 in
      if length header < 8 then Inl (Errorf ''candidate header is too short'' [])
      else (case idBytes of
        Inl err \<Rightarrow> Inl err
      | Inr i \<Rightarrow>
        Inr (\<lparr>scChallengeID = hex_encode i, scAlgorithm = GPUV1AlgorithmID, scStaging = True,
           scHeaderPrefix = hex_encode (take (length header - 8) header),
           scTarget = hex_encode (fill_bytes 32 (nat (TargetFromDifficulty difficulty))),
           scHeight = height, scCacheNodes = GPUV1ProductionCacheNodes,
           scProgramSeed = hex_encode (GPUV1ProgramSeed C (GPUV1ProgramForHeight height)),
           scEpochSeed = hex_encode (GPUV1EpochSeed C (GPUV1EpochForHeight height))\<rparr>, candidate))))))"

definition handleRehearsalChallenge :: "crypto \<Rightarrow> bytes result \<Rightarrow> rehearsalAPI \<Rightarrow> http_request \<Rightarrow> rehearsalAPI \<times> staging_reply" where
  "handleRehearsalChallenge C idBytes a r =
     (if reqMethod r \<noteq> ''GET'' then (a, wrongMethod)
      else if raAcceptedBlocks a \<ge> raTargetBlocks a then (a, 200, StatusReply (statusLocked a))
      else (case raChallenge a of
        Some challenge \<Rightarrow> (a, 200, ChallengeReply challenge)
      | None \<Rightarrow>
      (case issueChallengeLocked C idBytes a of
        Inl err \<Rightarrow> (a, 500, FailureReply err)
      | Inr (challenge, candidate) \<Rightarrow>
          (a\<lparr>raChallenge := Some challenge, raCandidate := Some candidate\<rparr>, 200, ChallengeReply challenge))))"

definition commitCandidate :: "crypto \<Rightarrow> i64 \<Rightarrow> rehearsalAPI \<Rightarrow> block \<Rightarrow> rehearsalAPI \<times> staging_reply" where
  "commitCandidate C now a candidate =
     (case ProcessBlockFor C (Some (Clone (raState a))) MonetaryPolicyMainnet (Some candidate) rehearsalMinerAddress of
       (_, Inl err) \<Rightarrow> (a, rejected)
     | (workingState, Inr _) \<Rightarrow>
     (case AddBlock C now (raChain a) (Some candidate) of
       (c, Inl err) \<Rightarrow> (a\<lparr>raChain := c\<rparr>, rejected)
     | (c, Inr _) \<Rightarrow>
     (case ReplaceWith (raState a) workingState of
       (s, Inl err) \<Rightarrow> (a\<lparr>raChain := c, raState := s\<rparr>, 500, Aborted err)
     | (s, Inr _) \<Rightarrow>
       (a\<lparr>raChain := c, raState := s, raAcceptedBlocks := raAcceptedBlocks a + 1, raChallenge := None, raCandidate := None\<rparr>,
        accepted))))"

definition handleRehearsalSubmit :: "crypto \<Rightarrow> i64 \<Rightarrow> submission_decoder \<Rightarrow> rehearsalAPI \<Rightarrow> http_request \<Rightarrow> rehearsalAPI \<times> staging_reply" where
  "handleRehearsalSubmit C now decode a r =
     (if reqMethod r \<noteq> ''POST'' then (a, wrongMethod)
      else (case decode 1048576 (reqBody r) of
        Inl err \<Rightarrow> (a, rejected)
      | Inr s \<Rightarrow>
      (case (raChallenge a, raCandidate a) of
        (Some challenge, Some candidate) \<Rightarrow>
          if challenge \<noteq> ssChallenge s then (a, rejected)
          else commitCandidate C now a (candidate\<lparr>blkNonce := ssNonce s\<rparr>)
      | _ \<Rightarrow> (a, rejected))))"

definition handleRehearsalStatus :: "rehearsalAPI \<Rightarrow> http_request \<Rightarrow> rehearsalAPI \<times> staging_reply" where
  "handleRehearsalStatus a r =
     (if reqMethod r \<noteq> ''GET'' then (a, wrongMethod) else (a, 200, StatusReply (statusLocked a)))"

section \<open>Routing and start\<close>

datatype staging_route = RChallenge | RSubmit | RStatus

definition stagingRoutes :: "(string \<times> staging_route) list" where
  "stagingRoutes = [(''/v1/mining/staging/challenge'', RChallenge), (''/v1/mining/staging/submit'', RSubmit)]"

definition rehearsalRoutes :: "(string \<times> staging_route) list" where
  "rehearsalRoutes = stagingRoutes @ [(''/v1/mining/staging/status'', RStatus)]"

text \<open>What the environment supplies for one request.\<close>

record staging_event =
  evRequest :: http_request
  evIdBytes :: "bytes result"
  evHeader :: "bytes result"
  evNow :: i64

definition routed :: "(string \<times> staging_route) list \<Rightarrow> nat \<Rightarrow> (staging_route \<Rightarrow> 'a \<times> staging_reply) \<Rightarrow> 'a \<Rightarrow> http_request \<Rightarrow> 'a \<times> staging_reply" where
  "routed rs redirect handle a r =
     (case muxRoute rs r of
        Inl location \<Rightarrow> (a, redirect, ErrorReply location)
      | Inr None \<Rightarrow> (a, 404, ErrorReply ''404 page not found'')
      | Inr (Some e) \<Rightarrow> handle e)"

definition stagingHandler ::
  "crypto \<Rightarrow> (bytes \<Rightarrow> bytes) \<Rightarrow> submission_decoder \<Rightarrow> nat \<Rightarrow> stagingAPI \<Rightarrow> staging_event \<Rightarrow> stagingAPI \<times> staging_reply" where
  "stagingHandler C K decode redirect a e =
     routed stagingRoutes redirect (\<lambda>e1.
       if e1 = RChallenge then handleStagingChallenge (evIdBytes e) (evHeader e) a (evRequest e)
       else handleStagingSubmit C K decode a (evRequest e)) a (evRequest e)"

definition rehearsalHandler ::
  "crypto \<Rightarrow> submission_decoder \<Rightarrow> nat \<Rightarrow> rehearsalAPI \<Rightarrow> staging_event \<Rightarrow> rehearsalAPI \<times> staging_reply" where
  "rehearsalHandler C decode redirect a e =
     routed rehearsalRoutes redirect (\<lambda>e1.
       if e1 = RChallenge then handleRehearsalChallenge C (evIdBytes e) a (evRequest e)
       else if e1 = RSubmit then handleRehearsalSubmit C (evNow e) decode a (evRequest e)
       else handleRehearsalStatus a (evRequest e)) a (evRequest e)"

text \<open>The server that \<open>main\<close> starts to serve.\<close>

record staging_flags =
  sfListen :: string
  sfRehearsal :: bool
  sfBlocks :: u64

definition defaultListenAddress :: string where
  "defaultListenAddress = ''127.0.0.1:28646''"

definition defaultStagingFlags :: staging_flags where
  "defaultStagingFlags = \<lparr>sfListen = defaultListenAddress, sfRehearsal = False, sfBlocks = 50\<rparr>"

definition stagingMain ::
  "demand_lib \<Rightarrow> crypto \<Rightarrow> (bytes \<Rightarrow> bytes) \<Rightarrow> (nat \<Rightarrow> i64) \<Rightarrow> block option list json \<Rightarrow> path \<Rightarrow> unit result \<Rightarrow> staging_flags \<Rightarrow> disk
     \<Rightarrow> (disk, stagingAPI + rehearsalAPI) outcome" where
  "stagingMain D C K clk J tmp listening fl d =
     (case validateListenAddress D (sfListen fl) of
       Inl err \<Rightarrow> (d, Inl err)
     | Inr _ \<Rightarrow>
     (case (if sfRehearsal fl
            then (case newMainnetRehearsalAPI C K clk J tmp (sfBlocks fl) d of
                (d1, Inl err) \<Rightarrow> (d1, Inl err)
              | (d1, Inr a) \<Rightarrow> (d1, Inr (Inr a)))
            else (d, Inr (Inl (newStagingAPI C K)))) of
       (d1, Inl err) \<Rightarrow> (d1, Inl err)
     | (d1, Inr api) \<Rightarrow> (case listening of Inl err \<Rightarrow> (d1, Inl err) | Inr _ \<Rightarrow> (d1, Inr api))))"

section \<open>Digests and targets\<close>

lemma be_nat_Cons: "be_nat (b # bs) = unat b * 256 ^ length bs + be_nat bs"
proof -
  have "fold (\<lambda>b n. 256 * n + unat b) bs n = n * 256 ^ length bs + be_nat bs" for n
    by (induction bs rule: rev_induct) (simp_all add: be_nat_append_one be_nat_def [of "[]"])
  from this [of "unat b"] show ?thesis by (simp add: be_nat_def [of "b # bs"])
qed

lemma Compare_be_nat: "length as = length bs \<Longrightarrow> Compare as bs \<le> 0 \<longleftrightarrow> be_nat as \<le> be_nat bs"
proof (induction as bs rule: Compare.induct)
  case (4 a as b bs)
  then have l: "length as = length bs" by simp
  have bound: "be_nat as < 256 ^ length bs" "be_nat bs < 256 ^ length bs" using be_nat_bound [of as] be_nat_bound [of bs] l by simp_all
  have less: "unat x * 256 ^ n + m < unat y * 256 ^ n + k" if "x < y" "m < 256 ^ n" for x y :: "8 word" and n m k :: nat
  proof -
    have "(unat x + 1) * 256 ^ n \<le> unat y * 256 ^ n" using that(1) by (intro mult_right_mono) (simp_all add: word_less_nat_alt)
    then show ?thesis using that(2) by simp
  qed
  consider "a < b" | "b < a" | "a = b" by (meson linorder_less_linear)
  then show ?case
  proof cases
    case 1
    then show ?thesis using less [OF 1 bound(1), of "be_nat bs"] l by (simp add: be_nat_Cons)
  next
    case 2
    then show ?thesis using less [OF 2 bound(2), of "be_nat as"] l by (auto simp: be_nat_Cons)
  next
    case 3
    then show ?thesis using 4 l by (simp add: be_nat_Cons)
  qed
qed simp_all

lemma target_bytes:
  assumes "d \<noteq> 0"
  shows "length (fill_bytes 32 (nat (TargetFromDifficulty d))) = 32"
    "int (be_nat (fill_bytes 32 (nat (TargetFromDifficulty d)))) = TargetFromDifficulty d"
proof -
  have pos: "0 < TargetFromDifficulty d" using TargetFromDifficulty_pos [OF assms] .
  have "1 \<le> uint d" using assms by (simp add: int_one_le_iff_zero_less order_less_le unsigned_eq_0_iff)
  then have "TargetFromDifficulty d \<le> 2 ^ 256 - 1"
    using assms zdiv_mono2 [of "2 ^ 256 - 1" 1 "uint d"] by (simp add: TargetFromDifficulty_def Let_def)
  then have "nat (TargetFromDifficulty d) < 256 ^ 32" using pos by (simp add: nat_less_iff)
  then show "int (be_nat (fill_bytes 32 (nat (TargetFromDifficulty d)))) = TargetFromDifficulty d"
    using pos by (simp add: be_nat_fill_bytes)
  show "length (fill_bytes 32 (nat (TargetFromDifficulty d))) = 32" by simp
qed

section \<open>The rehearsed chain\<close>

definition rehearsal_inv :: "crypto \<Rightarrow> (bytes \<Rightarrow> bytes) \<Rightarrow> u64 \<Rightarrow> rehearsalAPI \<Rightarrow> bool" where
  "rehearsal_inv C K n a \<longleftrightarrow>
     chain_inv C (raChain a) \<and> blkHeight (hd (blocks (raChain a))) = 0 \<and> network (raChain a) = NetworkMainnet
     \<and> powPolicy (raChain a) = \<lparr>GPUV1ActivationHeight = 1\<rparr>
     \<and> proofVerifier (raChain a) = Some (khushiVerifier C K \<lparr>GPUV1ActivationHeight = 1\<rparr> GPUV1ProductionCacheNodes)
     \<and> BuildStateFromChain C (Some (raChain a)) = Inr (Some (raState a))
     \<and> raTargetBlocks a = n \<and> n \<le> 1000 \<and> length (blocks (raChain a)) = Suc (unat (raAcceptedBlocks a)) \<and> raAcceptedBlocks a \<le> n
     \<and> blkTimestamp (last (blocks (raChain a))) = 60 * int (unat (raAcceptedBlocks a))
     \<and> (case (raChallenge a, raCandidate a) of
          (None, None) \<Rightarrow> True
        | (Some challenge, Some candidate) \<Rightarrow> raAcceptedBlocks a < n \<and> (\<exists>i. issueChallengeLocked C (Inr i) a = Inr (challenge, candidate))
        | _ \<Rightarrow> False)"

lemma rehearsal_chain_ok: "rehearsal_inv C K n a \<Longrightarrow> chain_ok C (raChain a)"
  using unat_less_64 [of "raAcceptedBlocks a"] by (auto simp: rehearsal_inv_def chain_ok_def word_le_nat_alt)

lemma rehearsal_height:
  assumes "rehearsal_inv C K n a"
  shows "Height (raChain a) = raAcceptedBlocks a" "blocks (raChain a) \<noteq> []"
proof -
  have "length (blocks (raChain a)) = Suc (unat (raAcceptedBlocks a))" using assms by (simp add: rehearsal_inv_def)
  then show "Height (raChain a) = raAcceptedBlocks a" "blocks (raChain a) \<noteq> []"
    using chain_ok_lookup(2) [OF rehearsal_chain_ok [OF assms]] by (auto simp: word_unat_eq_iff)
qed

text \<open>The block that a challenge asks to solve, and what the challenge tells of it.\<close>

definition rehearsal_block :: "crypto \<Rightarrow> chain \<Rightarrow> block" where
  "rehearsal_block C c = \<lparr>blkVersion = 2, blkHeight = blkHeight (last (blocks c)) + 1,
     blkTimestamp = wrap64 (blkTimestamp (last (blocks c)) + 60), blkPreviousHash = Hash C (last (blocks c)),
     blkMerkleRoot = emptySetRoot C,
     blkDifficulty = NextDifficultyFromHistory (blkDifficulty (last (blocks c))) (recentBlockIntervalsLocked (blocks c)),
     blkNonce = 0, blkMinerAddress = rehearsalMinerAddress, blkTransactions = []\<rparr>"

lemma issued_shape:
  assumes "issueChallengeLocked C ids a = Inr (challenge, candidate)"
  shows "candidate = rehearsal_block C (raChain a)"
    "hex_decode (scHeaderPrefix challenge) = Some (take (length (HeaderBytes candidate 0) - 8) (HeaderBytes candidate 0))"
    "hex_decode (scTarget challenge) = Some (fill_bytes 32 (nat (TargetFromDifficulty (blkDifficulty candidate))))"
    "hex_decode (scEpochSeed challenge) = Some (GPUV1EpochSeed C (GPUV1EpochForHeight (blkHeight candidate)))"
    "scHeight challenge = blkHeight candidate" "scCacheNodes challenge = GPUV1ProductionCacheNodes"
  using assms
  by (auto simp: issueChallengeLocked_def rehearsal_block_def UpdateMerkleRoot_def CalculateMerkleRoot_def Tip_def ExpectedNextDifficulty_def Let_def
      split: option.splits sum.splits if_splits)

lemma issued_id:
  assumes "issueChallengeLocked C ids a = Inr x"
  shows "\<exists>i. ids = Inr i"
proof (cases ids)
  case (Inl err)
  then show ?thesis using assms unfolding issueChallengeLocked_def Let_def Inl by (simp split: option.splits sum.splits if_splits)
qed simp

lemma issue_needs_chain:
  assumes "raChain a = raChain b"
  shows "issueChallengeLocked C i a = issueChallengeLocked C i b"
  unfolding issueChallengeLocked_def assms ..

lemma validationOnly_chain:
  assumes "json_ok J [Some NewMainnetGenesisBlock]" "newValidationOnlyMainnetChain C clk J tmp policy V d = (d', Inr c)"
  shows "newChainFromGenesisForNetworkWithConsensus C NetworkMainnet (Some NewMainnetGenesisBlock) policy (Some V) = Inr c"
proof -
  obtain bs where bs: "Marshal J [Some NewMainnetGenesisBlock] = Inr bs" "Unmarshal J bs = Inr [Some NewMainnetGenesisBlock]"
    using assms(1) by (auto simp: json_ok_def)
  from assms(2) bs(1) obtain d2 d3 d4 where w: "WriteFile tmp bs d2 = (d3, Inr ())"
    "LoadChainFromFileForWithConsensus C clk J tmp NetworkMainnet policy (Some V) d3 = (d4, Inr c)"
    by (auto simp: newValidationOnlyMainnetChain_def split: prod.splits sum.splits)
  have "files d3 tmp = Some bs" using write_results(1) [OF w(1)] by simp
  then show ?thesis using w(2) bs(2)
    by (auto simp: LoadChainFromFileForWithConsensus_def dest!: ReadFile_ok split: prod.splits sum.splits if_splits)
qed

lemma rehearsal_verifier:
  "NewChainProofVerifier policy = Inr \<lparr>cvPolicy = policy, cacheNodeCount = GPUV1ProductionCacheNodes, cacheSet = False, cacheEpoch = 0,
     verifierCache = []\<rparr>"
  by (simp add: NewChainProofVerifier_def newChainProofVerifier_def GPUV1ProductionCacheNodes_def)

lemma rehearsal_starts:
  assumes "json_ok J [Some NewMainnetGenesisBlock]" "newMainnetRehearsalAPI C K clk J tmp n d = (d', Inr a)"
  shows "rehearsal_inv C K n a"
proof -
  let ?policy = "\<lparr>GPUV1ActivationHeight = 1\<rparr> :: pow_policy"
  obtain s where s: "NewStateFor MonetaryPolicyMainnet = Inr s" by (simp add: NewStateFor_def ValidateMonetaryPolicy_def)
  from assms(2) obtain c d1 where c: "newValidationOnlyMainnetChain C clk J tmp ?policy (khushiVerifier C K ?policy GPUV1ProductionCacheNodes) d = (d1, Inr c)"
    and a: "a = \<lparr>raChain = c, raState = s, raTargetBlocks = n, raAcceptedBlocks = 0, raChallenge = None, raCandidate = None\<rparr>" and n: "n \<le> 1000"
    unfolding newMainnetRehearsalAPI_def Let_def rehearsal_verifier s by (auto split: if_splits prod.splits sum.splits)
  note new = newChain_inv [OF validationOnly_chain [OF assms(1) c]]
  have blocks: "blocks c = [NewMainnetGenesisBlock]" using new(5) by auto
  have "Height c = 0" by (simp add: Height_def blocks NewMainnetGenesisBlock_def newGenesisBlock_def)
  then have "BuildStateFromChain C (Some c) = Inr (Some s)"
    using new(2) s by (simp add: BuildStateFromChain_def MonetaryPolicy_def MonetaryPolicyFor_def)
  then show ?thesis using new n blocks
    by (simp add: rehearsal_inv_def a NewMainnetGenesisBlock_def newGenesisBlock_def MainnetGenesisTimestamp_def)
qed

lemma rehearsal_time:
  assumes "rehearsal_inv C K n a" "raAcceptedBlocks a < n"
  shows "unat (raAcceptedBlocks a + 1) = Suc (unat (raAcceptedBlocks a))"
    "wrap64 (blkTimestamp (last (blocks (raChain a))) + 60) = 60 * int (unat (raAcceptedBlocks a + 1))"
proof -
  have k: "unat (raAcceptedBlocks a) < 1000" "blkTimestamp (last (blocks (raChain a))) = 60 * int (unat (raAcceptedBlocks a))"
    using assms by (auto simp: rehearsal_inv_def word_le_nat_alt word_less_nat_alt)
  then show "unat (raAcceptedBlocks a + 1) = Suc (unat (raAcceptedBlocks a))" by (simp add: unat_word_ariths)
  moreover have "wrap64 (60 * int m + 60) = 60 * int (Suc m)" if "m < 1000" for m using that by (simp add: wrap64_def)
  ultimately show "wrap64 (blkTimestamp (last (blocks (raChain a))) + 60) = 60 * int (unat (raAcceptedBlocks a + 1))"
    using k by metis
qed

lemma rehearsal_commit:
  assumes inv: "rehearsal_inv C K n a" and ch: "raChallenge a = Some challenge" "raCandidate a = Some candidate"
    and commit: "commitCandidate C now a (candidate\<lparr>blkNonce := nonce\<rparr>) = (a', reply)"
  shows "rehearsal_inv C K n a'"
proof -
  let ?b = "candidate\<lparr>blkNonce := nonce\<rparr>"
  have shape: "candidate = rehearsal_block C (raChain a)" and room: "raAcceptedBlocks a < n"
    using inv ch issued_shape(1) by (auto simp: rehearsal_inv_def)
  then have cand: "blkMinerAddress ?b = rehearsalMinerAddress" by (simp add: rehearsal_block_def)
  consider "a' = a"
    | c t u where "ProcessBlockFor C (Some (raState a)) MonetaryPolicyMainnet (Some ?b) rehearsalMinerAddress = (Some t, Inr u)"
      "AddBlock C now (raChain a) (Some ?b) = (c, Inr ())"
      "a' = a\<lparr>raChain := c, raState := t, raAcceptedBlocks := raAcceptedBlocks a + 1, raChallenge := None, raCandidate := None\<rparr>"
    using commit AddBlock_err [of C now "raChain a" "Some ?b"]
    by (auto simp: commitCandidate_def ReplaceWith_def split: prod.splits sum.splits option.splits)
  then show ?thesis
  proof cases
    case 1
    then show ?thesis using inv by simp
  next
    case (2 c t u)
    have i: "chain_inv C (raChain a)" "network (raChain a) = NetworkMainnet" using inv by (simp_all add: rehearsal_inv_def)
    note new = AddBlock_inv [OF i(1) 2(2)]
    have bs: "blocks c = blocks (raChain a) @ [?b]" "blocks (raChain a) \<noteq> []" using 2(2) by (auto simp: AddBlock_ok_iff)
    have len: "length (blocks c) = Suc (unat (raAcceptedBlocks a + 1))" "raAcceptedBlocks a + 1 \<le> n"
      using bs(1) inv room by (simp_all add: rehearsal_inv_def unat_word_ariths word_le_nat_alt word_less_nat_alt)
    have ok: "chain_ok C c" using new(1) bs len inv unat_less_64 [of n]
      by (simp add: chain_ok_def rehearsal_inv_def word_le_nat_alt)
    have "BuildStateFromChain C (Some c) = Inr (Some t)"
    proof (rule BuildStateFromChain_snoc [OF rehearsal_chain_ok [OF inv] ok bs(1) new(2)])
      show "MonetaryPolicyFor (network (raChain a)) = Inr MonetaryPolicyMainnet" by (simp add: i(2) MonetaryPolicyFor_def)
      show "BuildStateFromChain C (Some (raChain a)) = Inr (Some (raState a))" using inv by (simp add: rehearsal_inv_def)
      show "ProcessBlockFor C (Some (raState a)) MonetaryPolicyMainnet (Some ?b) (blkMinerAddress ?b) = (Some t, Inr u)" using 2(1) cand by simp
    qed (use cand in \<open>simp add: rehearsalMinerAddress_def\<close>)
    moreover have "blkTimestamp ?b = 60 * int (unat (raAcceptedBlocks a + 1))"
      using rehearsal_time [OF inv room] by (simp add: shape rehearsal_block_def)
    ultimately show ?thesis using new bs len(2) inv by (simp add: rehearsal_inv_def 2(3) rehearsal_time(1) [OF inv room])
  qed
qed

lemma rehearsal_step:
  assumes inv: "rehearsal_inv C K n a"
  shows "rehearsal_inv C K n (fst (rehearsalHandler C decode redirect a e))"
proof -
  have issue: "rehearsal_inv C K n (a\<lparr>raChallenge := Some challenge, raCandidate := Some candidate\<rparr>)"
    if new: "issueChallengeLocked C (evIdBytes e) a = Inr (challenge, candidate)" "raAcceptedBlocks a < raTargetBlocks a" for challenge candidate
  proof -
    obtain i where "evIdBytes e = Inr i" using issued_id [OF new(1)] by blast
    then show ?thesis using inv new issue_needs_chain [of "a\<lparr>raChallenge := Some challenge, raCandidate := Some candidate\<rparr>" a C "Inr i"]
      by (auto simp: rehearsal_inv_def)
  qed
  have challenge: "rehearsal_inv C K n (fst (handleRehearsalChallenge C (evIdBytes e) a r))" for r
    using inv issue by (auto simp: handleRehearsalChallenge_def not_le split: option.splits sum.splits)
  have submit: "rehearsal_inv C K n (fst (handleRehearsalSubmit C (evNow e) decode a r))" for r
    using inv rehearsal_commit [OF inv] by (auto simp: handleRehearsalSubmit_def split: sum.splits option.splits) (metis prod.collapse)
  show ?thesis
    using inv challenge submit by (auto simp: rehearsalHandler_def routed_def handleRehearsalStatus_def split: sum.splits option.splits)
qed

lemma rehearsal_run:
  assumes "rehearsal_inv C K n a"
  shows "rehearsal_inv C K n (fold (\<lambda>e a. fst (rehearsalHandler C decode redirect a e)) es a)"
  using assms by (induction es arbitrary: a) (simp_all add: rehearsal_step)

lemma gpu_version:
  assumes "\<not> height < 1" "VersionAllowed \<lparr>GPUV1ActivationHeight = 1\<rparr> version height"
  shows "version = 2"
proof -
  have "\<not> (GPUV1ActivationHeight \<lparr>GPUV1ActivationHeight = 1\<rparr> = GPUV1ActivationDisabled \<or> height < GPUV1ActivationHeight \<lparr>GPUV1ActivationHeight = 1\<rparr>)"
    using assms(1) by (simp add: GPUV1ActivationDisabled_def)
  then show ?thesis using assms(2) unfolding VersionAllowed_def by metis
qed

text \<open>Every block after the genesis carries a valid GPU proof.\<close>

lemma rehearsal_proofs:
  assumes "rehearsal_inv C K n a" "0 < i" "i < length (blocks (raChain a))"
  shows "GPUV1CheckBlockWithCache C K (Some (blocks (raChain a) ! i))
    (GPUV1BuildCache K (GPUV1EpochSeed C (GPUV1EpochForHeight (of_nat i))) GPUV1ProductionCacheNodes)"
proof -
  have i: "chain_inv C (raChain a)" "powPolicy (raChain a) = \<lparr>GPUV1ActivationHeight = 1\<rparr>"
    "proofVerifier (raChain a) = Some (khushiVerifier C K \<lparr>GPUV1ActivationHeight = 1\<rparr> GPUV1ProductionCacheNodes)"
    "blkHeight (hd (blocks (raChain a))) = 0" "length (blocks (raChain a)) < 2 ^ 64"
    using assms(1) rehearsal_chain_ok [OF assms(1)] by (simp_all add: rehearsal_inv_def chain_ok_def)
  let ?b = "blocks (raChain a) ! i"
  have h: "blkHeight ?b = of_nat i" using chain_heights [OF i(1) assms(3)] i(4) by simp
  then have "unat (blkHeight ?b) = i" using unat_of_nat_64 [of i] assms(3) i(5) by simp
  then have "blkHeight ?b \<noteq> 0" using assms(2) by auto
  then have pos: "\<not> blkHeight ?b < 1" by simp
  have e: "extends C (powPolicy (raChain a)) (khushiVerifier C K \<lparr>GPUV1ActivationHeight = 1\<rparr> GPUV1ProductionCacheNodes)
      (take i (blocks (raChain a))) ?b"
    using chain_inv_extends [OF i(1,3), of "i - 1"] assms(2,3) by simp
  have "VersionAllowed \<lparr>GPUV1ActivationHeight = 1\<rparr> (blkVersion ?b) (blkHeight ?b)" using e unfolding extends_def i(2) by blast
  then have "blkVersion ?b = 2" by (rule gpu_version [OF pos])
  moreover have "VerifyProof (khushiVerifier C K \<lparr>GPUV1ActivationHeight = 1\<rparr> GPUV1ProductionCacheNodes) (Some ?b)"
    using e unfolding extends_def by blast
  ultimately show ?thesis using h by (simp add: khushiVerifier_def)
qed

text \<open>The rehearsal reports what it did. From the start of a rehearsal of \<open>n\<close> blocks, along every sequence of
  requests, the account state is the replay of the rehearsed chain, the status reports the height of that
  chain as the number of accepted blocks, never more than \<open>n\<close>, and the supply that the schedule of the main
  network issues up to it; every block above the genesis carries a valid GPU proof.\<close>

theorem rehearsal_consistent:
  assumes "json_ok J [Some NewMainnetGenesisBlock]" "newMainnetRehearsalAPI C K clk J tmp n d = (d', Inr a0)"
    and "a = fold (\<lambda>e a. fst (rehearsalHandler C decode redirect a e)) es a0"
  shows "chain_inv C (raChain a) \<and> BuildStateFromChain C (Some (raChain a)) = Inr (Some (raState a))
    \<and> (let status = statusLocked a in reChainHeight status = reAcceptedBlocks status \<and> reAcceptedBlocks status \<le> n
        \<and> unat (reIssuedSupply status) = emitted MonetaryPolicyMainnet (unat (reAcceptedBlocks status)))
    \<and> (\<forall>i\<in>{1..<length (blocks (raChain a))}. GPUV1CheckBlockWithCache C K (Some (blocks (raChain a) ! i))
        (GPUV1BuildCache K (GPUV1EpochSeed C (GPUV1EpochForHeight (of_nat i))) GPUV1ProductionCacheNodes))"
proof -
  have inv: "rehearsal_inv C K n a" unfolding assms(3) by (rule rehearsal_run [OF rehearsal_starts [OF assms(1,2)]])
  note ok = rehearsal_chain_ok [OF inv]
  have i: "BuildStateFromChain C (Some (raChain a)) = Inr (Some (raState a))" "network (raChain a) = NetworkMainnet"
    "length (blocks (raChain a)) = Suc (unat (raAcceptedBlocks a))" "raAcceptedBlocks a \<le> n" "chain_inv C (raChain a)"
    using inv by (simp_all add: rehearsal_inv_def)
  note h = rehearsal_height(1) [OF inv]
  have "MonetaryPolicyFor (network (raChain a)) = Inr MonetaryPolicyMainnet" by (simp add: i(2) MonetaryPolicyFor_def)
  from BuildStateFromChain_supply [OF ok this i(1)]
  have "unat (IssuedSupply (raState a)) = emitted MonetaryPolicyMainnet (unat (raAcceptedBlocks a))" by (simp add: h IssuedSupply_def)
  then show ?thesis using i h rehearsal_proofs [OF inv] by (simp add: statusLocked_def)
qed

section \<open>A solved challenge\<close>

lemma rehearsal_challenge:
  assumes "rehearsal_inv C K n a" "raAcceptedBlocks a < n" "reqMethod r = ''GET''" "handleRehearsalChallenge C (Inr i) a r = (a1, 200, reply)"
  shows "\<exists>challenge. reply = ChallengeReply challenge \<and> raChallenge a1 = Some challenge \<and> raCandidate a1 = Some (rehearsal_block C (raChain a))
    \<and> raChain a1 = raChain a \<and> raState a1 = raState a \<and> raAcceptedBlocks a1 = raAcceptedBlocks a
    \<and> (\<exists>j. issueChallengeLocked C (Inr j) a = Inr (challenge, rehearsal_block C (raChain a)))"
proof -
  have t: "\<not> raTargetBlocks a \<le> raAcceptedBlocks a" using assms(1,2) by (simp add: rehearsal_inv_def not_le)
  show ?thesis
  proof (cases "raChallenge a")
    case (Some challenge)
    then obtain candidate j where "raCandidate a = Some candidate" "issueChallengeLocked C (Inr j) a = Inr (challenge, candidate)"
      using assms(1) by (auto simp: rehearsal_inv_def split: option.splits)
    then show ?thesis using issued_shape(1) assms(3,4) t Some by (auto simp: handleRehearsalChallenge_def)
  next
    case None
    then obtain challenge candidate where "issueChallengeLocked C (Inr i) a = Inr (challenge, candidate)"
      "a1 = a\<lparr>raChallenge := Some challenge, raCandidate := Some candidate\<rparr>" "reply = ChallengeReply challenge"
      using assms(3,4) t by (auto simp: handleRehearsalChallenge_def split: sum.splits prod.splits)
    then show ?thesis using issued_shape(1) by auto
  qed
qed

lemma solved_block_proof:
  assumes "hash_size_ok C" "blkVersion b = 2" "blkDifficulty b \<noteq> 0"
    and "Compare (GPUV1ReferenceDigest C K (take (length (HeaderBytes b 0) - 8) (HeaderBytes b 0)) nonce (blkHeight b) cache)
      (fill_bytes 32 (nat (TargetFromDifficulty (blkDifficulty b)))) \<le> 0" "cache \<noteq> []"
  shows "GPUV1CheckBlockWithCache C K (Some (b\<lparr>blkNonce := nonce\<rparr>)) cache"
proof -
  let ?digest = "GPUV1ReferenceDigest C K (take (length (HeaderBytes b 0) - 8) (HeaderBytes b 0)) nonce (blkHeight b) cache"
  have len: "length ?digest = 32"
    using assms(1,5) by (simp add: GPUV1ReferenceDigest_def gpuV1FinalizeDigest_def hash_size_ok_def Let_def)
  then have "int (be_nat ?digest) \<le> TargetFromDifficulty (blkDifficulty b)"
    using assms(4) Compare_be_nat [of ?digest "fill_bytes 32 (nat (TargetFromDifficulty (blkDifficulty b)))"] target_bytes [OF assms(3)] by simp
  moreover have "HeaderBytes (b\<lparr>blkNonce := nonce\<rparr>) 0 = HeaderBytes b 0" "8 \<le> length (HeaderBytes b 0)" by (simp_all add: HeaderBytes_def)
  moreover have "hex_encode ?digest \<noteq> ''''" using len by (metis length_hex_encode length_0_conv mult_eq_0_iff zero_neq_numeral)
  ultimately show ?thesis using assms(2,3,5)
    by (simp add: GPUV1CheckBlockWithCache_def GPUV1HashBlockWithCache_def ValidHash_def Let_def)
qed

lemma rehearsal_block_extends:
  assumes inv: "rehearsal_inv C K n a" and room: "raAcceptedBlocks a < n" and b: "b = (rehearsal_block C (raChain a))\<lparr>blkNonce := nonce\<rparr>"
    and proof_ok: "GPUV1CheckBlockWithCache C K (Some b) (GPUV1BuildCache K (GPUV1EpochSeed C (GPUV1EpochForHeight (blkHeight b))) GPUV1ProductionCacheNodes)"
  shows "extends C (powPolicy (raChain a)) (khushiVerifier C K \<lparr>GPUV1ActivationHeight = 1\<rparr> GPUV1ProductionCacheNodes) (blocks (raChain a)) b"
proof -
  note time = rehearsal_time [OF inv room]
  have h: "blkHeight b = raAcceptedBlocks a + 1"
    using rehearsal_height [OF inv] by (simp add: b rehearsal_block_def Height_def)
  then have "unat (blkHeight b) \<noteq> 0" using time(1) by simp
  then have "blkHeight b \<noteq> 0" by auto
  then have "VersionAllowed \<lparr>GPUV1ActivationHeight = 1\<rparr> 2 (blkHeight b)" by (simp add: VersionAllowed_def GPUV1ActivationDisabled_def)
  moreover have "blkTimestamp (last (blocks (raChain a))) < blkTimestamp b"
    using inv time by (simp add: b rehearsal_block_def rehearsal_inv_def)
  moreover have "validateBlockTransactions (Some b) = Inr ()"
    by (simp add: b rehearsal_block_def validateBlockTransactions_def MaxBlockTransactions_def MaxBlockTransactionBytes_def)
  moreover have "powPolicy (raChain a) = \<lparr>GPUV1ActivationHeight = 1\<rparr>" using inv by (simp add: rehearsal_inv_def)
  ultimately show ?thesis using proof_ok
    by (simp add: extends_def khushiVerifier_def b rehearsal_block_def CalculateMerkleRoot_def)
qed

lemma rehearsal_pays:
  assumes "rehearsal_inv C K n a" "blkTransactions b = []"
  shows "\<exists>t u. ProcessBlockFor C (Some (raState a)) MonetaryPolicyMainnet (Some b) rehearsalMinerAddress = (Some t, Inr u)"
proof -
  have i: "BuildStateFromChain C (Some (raChain a)) = Inr (Some (raState a))" "network (raChain a) = NetworkMainnet"
    using assms(1) by (simp_all add: rehearsal_inv_def)
  have "MonetaryPolicyFor (network (raChain a)) = Inr MonetaryPolicyMainnet" by (simp add: i(2) MonetaryPolicyFor_def)
  from BuildStateFromChain_supply [OF rehearsal_chain_ok [OF assms(1)] this i(1)]
  have s: "supply_inv (raState a)" "monetaryPolicy (raState a) = MonetaryPolicyMainnet" by simp_all
  show ?thesis
    by (rule ProcessBlockFor_complete [OF s(1) _ s(2)])
      (simp_all add: rehearsalMinerAddress_def NetworkForMonetaryPolicy_def assms(2))
qed

text \<open>C13: a miner that has only the challenge can extend the chain. In every reachable state of a rehearsal that is not
  complete, if a nonce brings the digest of the header, the height and the epoch cache that the challenge
  describes to the target of the challenge, then submitting it is answered with \<open>accepted\<close>, and the rehearsed
  chain has one more block, with that nonce.\<close>

theorem rehearsal_solution_accepted:
  assumes "hash_size_ok C" "json_ok J [Some NewMainnetGenesisBlock]" "newMainnetRehearsalAPI C K clk J tmp n d = (d', Inr a0)"
    and "a = fold (\<lambda>e a. fst (rehearsalHandler C decode redirect a e)) es a0" "raAcceptedBlocks a < n"
    and "reqMethod get = ''GET''" "handleRehearsalChallenge C (Inr i) a get = (a1, 200, ChallengeReply challenge)"
    and "hex_decode (scHeaderPrefix challenge) = Some header" "hex_decode (scTarget challenge) = Some target"
      "hex_decode (scEpochSeed challenge) = Some seed"
    and "Compare (GPUV1ReferenceDigest C K header nonce (scHeight challenge) (GPUV1BuildCache K seed (scCacheNodes challenge))) target \<le> 0"
    and "reqMethod post = ''POST''" "decode 1048576 (reqBody post) = Inr \<lparr>ssChallenge = challenge, ssNonce = nonce\<rparr>"
    and "60 * (int (unat (raAcceptedBlocks a)) + 1) \<le> wrap64 (now + MaxFutureBlockSeconds)"
  shows "\<exists>a2 b. handleRehearsalSubmit C now decode a1 post = (a2, accepted) \<and> blocks (raChain a2) = blocks (raChain a) @ [b]
    \<and> blkNonce b = nonce \<and> raAcceptedBlocks a2 = raAcceptedBlocks a + 1"
proof -
  have inv: "rehearsal_inv C K n a" unfolding assms(4) by (rule rehearsal_run [OF rehearsal_starts [OF assms(2,3)]])
  let ?c = "rehearsal_block C (raChain a)"
  define b where "b = ?c\<lparr>blkNonce := nonce\<rparr>"
  from rehearsal_challenge [OF inv assms(5,6,7)] obtain j where
    a1: "raChallenge a1 = Some challenge" "raCandidate a1 = Some ?c" "raChain a1 = raChain a" "raState a1 = raState a"
      "raAcceptedBlocks a1 = raAcceptedBlocks a" and j: "issueChallengeLocked C (Inr j) a = Inr (challenge, ?c)" by auto
  note shape = issued_shape [OF j]
  have c: "blkVersion ?c = 2" "blkDifficulty ?c \<noteq> 0" "blkHeight b = blkHeight ?c" "blkTransactions b = []" "blkNonce b = nonce"
    by (simp_all add: b_def rehearsal_block_def NextDifficultyFromHistory_def NextDifficulty_pos)
  have "GPUV1ProductionCacheNodes \<noteq> 0" by (simp add: GPUV1ProductionCacheNodes_def)
  then have "GPUV1CheckBlockWithCache C K (Some b) (GPUV1BuildCache K (GPUV1EpochSeed C (GPUV1EpochForHeight (blkHeight b))) GPUV1ProductionCacheNodes)"
    unfolding b_def using assms(8-11) shape(2-6) c(3)
    by (intro solved_block_proof [OF assms(1) c(1,2)]) (simp_all add: GPUV1BuildCache_empty_iff b_def)
  note ext = rehearsal_block_extends [OF inv assms(5) b_def this]
  have "blkTimestamp b \<le> wrap64 (now + MaxFutureBlockSeconds)"
    using assms(14) rehearsal_time [OF inv assms(5)] by (simp add: b_def rehearsal_block_def algebra_simps)
  then have add: "AddBlock C now (raChain a) (Some b) = ((raChain a)\<lparr>blocks := blocks (raChain a) @ [b],
      totalWork := totalWork (raChain a) + blockWork (blkDifficulty b)\<rparr>, Inr ())"
    using ext rehearsal_height(2) [OF inv] inv by (simp add: AddBlock_ok_iff rehearsal_inv_def)
  obtain t u where "ProcessBlockFor C (Some (raState a)) MonetaryPolicyMainnet (Some b) rehearsalMinerAddress = (Some t, Inr u)"
    using rehearsal_pays [OF inv c(4)] by blast
  then have "\<exists>a2. commitCandidate C now a1 b = (a2, accepted) \<and> blocks (raChain a2) = blocks (raChain a) @ [b]
      \<and> raAcceptedBlocks a2 = raAcceptedBlocks a + 1"
    using add by (simp add: commitCandidate_def a1 ReplaceWith_def)
  then show ?thesis using assms(12,13) a1 c(5) by (auto simp: handleRehearsalSubmit_def b_def)
qed

section \<open>A challenge is used once\<close>

fun staging_trace ::
  "crypto \<Rightarrow> (bytes \<Rightarrow> bytes) \<Rightarrow> submission_decoder \<Rightarrow> nat \<Rightarrow> stagingAPI \<Rightarrow> staging_event list \<Rightarrow> (staging_event \<times> staging_reply) list" where
  "staging_trace C K decode redirect a [] = []"
| "staging_trace C K decode redirect a (e # es) =
     (case stagingHandler C K decode redirect a e of (a1, reply) \<Rightarrow> (e, reply) # staging_trace C K decode redirect a1 es)"

definition issued_with :: "string \<Rightarrow> staging_event \<times> staging_reply \<Rightarrow> bool" where
  "issued_with i = (\<lambda>(e, status, body). case body of ChallengeReply challenge \<Rightarrow> scChallengeID challenge = i | _ \<Rightarrow> False)"

definition accepted_with :: "submission_decoder \<Rightarrow> string \<Rightarrow> staging_event \<times> staging_reply \<Rightarrow> bool" where
  "accepted_with decode i = (\<lambda>(e, reply). reply = accepted \<and>
     (case decode 1048576 (reqBody (evRequest e)) of Inl _ \<Rightarrow> False | Inr s \<Rightarrow> scChallengeID (ssChallenge s) = i))"

lemmas reply_simps = accepted_def rejected_def wrongMethod_def

lemma routed_cases:
  "routed rs redirect handle a r = (a1, reply) \<Longrightarrow> (\<exists>location. a1 = a \<and> reply = (redirect, ErrorReply location))
    \<or> a1 = a \<and> reply = (404, ErrorReply ''404 page not found'') \<or> (\<exists>e. handle e = (a1, reply))"
  by (auto simp: routed_def split: sum.splits option.splits)

text \<open>One request: an acceptance uses up an open challenge, a new open challenge was issued by it.\<close>

lemma staging_step:
  assumes "stagingHandler C K decode redirect a e = (a1, reply)"
  shows "of_bool (accepted_with decode i (e, reply)) + of_bool (saChallenges a1 i \<noteq> None)
    \<le> (of_bool (issued_with i (e, reply)) + of_bool (saChallenges a i \<noteq> None) :: nat)"
proof -
  have challenge: ?thesis if "handleStagingChallenge (evIdBytes e) (evHeader e) a (evRequest e) = (a1, reply)"
    using that by (auto simp: handleStagingChallenge_def issueChallenge_def issued_with_def accepted_with_def reply_simps Let_def
        split: if_splits sum.splits prod.splits)
  have submit: ?thesis if "handleStagingSubmit C K decode a (evRequest e) = (a1, reply)"
    using that by (auto simp: handleStagingSubmit_def acceptSubmission_def issued_with_def accepted_with_def reply_simps Let_def
        split: if_splits sum.splits prod.splits option.splits)
  have other: ?thesis if "a1 = a" "reply = (status, ErrorReply message)" for status message
    using that by (simp add: accepted_with_def accepted_def issued_with_def)
  from routed_cases [OF assms [unfolded stagingHandler_def]] show ?thesis
  proof (elim disjE exE conjE)
    fix e1 assume "(if e1 = RChallenge then handleStagingChallenge (evIdBytes e) (evHeader e) a (evRequest e)
        else handleStagingSubmit C K decode a (evRequest e)) = (a1, reply)"
    then show ?thesis using challenge submit by metis
  qed (rule other, assumption+)+
qed

lemma staging_uses:
  "length (filter (accepted_with decode i) (staging_trace C K decode redirect a es))
    \<le> length (filter (issued_with i) (staging_trace C K decode redirect a es)) + of_bool (saChallenges a i \<noteq> None)"
proof (induction es arbitrary: a)
  case (Cons e es)
  obtain a1 reply where s: "stagingHandler C K decode redirect a e = (a1, reply)" by (metis surj_pair)
  from staging_step [OF s, of i] Cons [of a1] show ?case
    by (cases "saChallenges a i"; cases "saChallenges a1 i"; auto simp: s split: if_splits)
qed simp

text \<open>No challenge is paid twice: from the start of the staging verifier, along every sequence of requests, the
  submissions accepted under an identifier are at most as many as the challenges issued with it.\<close>

theorem staging_challenge_once:
  "length (filter (accepted_with decode i) (staging_trace C K decode redirect (newStagingAPI C K) es))
    \<le> length (filter (issued_with i) (staging_trace C K decode redirect (newStagingAPI C K) es))"
  using staging_uses [of decode i C K redirect "newStagingAPI C K" es] by (simp add: newStagingAPI_def Let_def)

section \<open>A small rehearsal\<close>

definition small_genesis_json :: "block option list json" where
  "small_genesis_json = \<lparr>Marshal = (\<lambda>_. Inr [1]), Unmarshal = (\<lambda>_. Inr [Some NewMainnetGenesisBlock])\<rparr>"

definition small_rehearsal :: rehearsalAPI where
  "small_rehearsal = \<lparr>raChain = \<lparr>network = NetworkMainnet, blocks = [NewMainnetGenesisBlock], totalWork = blockWork 1,
       powPolicy = \<lparr>GPUV1ActivationHeight = 1\<rparr>,
       proofVerifier = Some (khushiVerifier small_crypto id \<lparr>GPUV1ActivationHeight = 1\<rparr> GPUV1ProductionCacheNodes)\<rparr>,
     raState = \<lparr>balances = Map.empty, processedTx = Map.empty, accountNonces = Map.empty,
       developmentAddress = DevelopmentTreasuryAddress, issuedSupply = 0, monetaryPolicy = MonetaryPolicyMainnet\<rparr>,
     raTargetBlocks = 25, raAcceptedBlocks = 0, raChallenge = None, raCandidate = None\<rparr>"

lemma small_rehearsal_chain:
  "newChainFromGenesisForNetworkWithConsensus small_crypto NetworkMainnet (Some NewMainnetGenesisBlock) \<lparr>GPUV1ActivationHeight = 1\<rparr>
     (proofVerifier (raChain small_rehearsal)) = Inr (raChain small_rehearsal)"
proof -
  have "VersionAllowed \<lparr>GPUV1ActivationHeight = 1\<rparr> 1 0" by (simp add: VersionAllowed_def)
  then show ?thesis
    by (simp add: newChainFromGenesisForNetworkWithConsensus_def small_rehearsal_def MonetaryPolicyFor_def expectedGenesis_def khushiVerifier_def
        NewMainnetGenesisBlock_def newGenesisBlock_def)
qed

lemma small_rehearsal_starts:
  "\<exists>d'. newMainnetRehearsalAPI small_crypto id (\<lambda>_. 0) small_genesis_json ''t'' 25 \<lparr>files = Map.empty, faults = [], seen = []\<rparr> = (d', Inr small_rehearsal)"
  "json_ok small_genesis_json [Some NewMainnetGenesisBlock]"
proof -
  let ?policy = "\<lparr>GPUV1ActivationHeight = 1\<rparr> :: pow_policy"
  let ?V = "khushiVerifier small_crypto id ?policy GPUV1ProductionCacheNodes"
  have c: "newChainFromGenesisForNetworkWithConsensus small_crypto NetworkMainnet (Some NewMainnetGenesisBlock) ?policy (Some ?V) = Inr (raChain small_rehearsal)"
    using small_rehearsal_chain by (simp add: small_rehearsal_def)
  have l: "\<exists>d'. newValidationOnlyMainnetChain small_crypto (\<lambda>_. 0) small_genesis_json ''t'' ?policy ?V \<lparr>files = Map.empty, faults = [], seen = []\<rparr>
      = (d', Inr (raChain small_rehearsal))"
    by (simp add: newValidationOnlyMainnetChain_def small_genesis_json_def OpenExclusive_def FileClose_def WriteFile_def write_at_def call_only_def
        syscall_def pass_through_def prefix_states_def LoadChainFromFileForWithConsensus_def MonetaryPolicyFor_def ReadFile_def c)
  then show "\<exists>d'. newMainnetRehearsalAPI small_crypto id (\<lambda>_. 0) small_genesis_json ''t'' 25 \<lparr>files = Map.empty, faults = [], seen = []\<rparr>
      = (d', Inr small_rehearsal)"
    by (auto simp: newMainnetRehearsalAPI_def MainnetLaunchAuthorized_def MainnetMiningAuthorized_def GPUV1MainnetActivationHeight_def
        rehearsal_verifier NewStateFor_def ValidateMonetaryPolicy_def small_rehearsal_def Let_def)
  show "json_ok small_genesis_json [Some NewMainnetGenesisBlock]" by (simp add: json_ok_def small_genesis_json_def)
qed

lemma issue_succeeds:
  assumes "blocks (raChain a) \<noteq> []"
  shows "\<exists>challenge. issueChallengeLocked C (Inr i) a = Inr (challenge, rehearsal_block C (raChain a))"
proof -
  have "issueChallengeLocked C (Inr i) a \<noteq> Inl err" for err
    using assms by (auto simp: issueChallengeLocked_def Tip_def ExpectedNextDifficulty_def HeaderBytes_def Let_def)
  then obtain challenge candidate where "issueChallengeLocked C (Inr i) a = Inr (challenge, candidate)" by (metis obj_sumE surj_pair)
  then show ?thesis using issued_shape(1) by blast
qed

definition small_get :: http_request where
  "small_get = \<lparr>reqMethod = ''GET'', reqPath = ''/v1/mining/staging/status'', reqQuery = (\<lambda>_. ''''), reqContentType = '''', reqBody = Inr []\<rparr>"

theorem rehearsal_consistent_witness:
  "\<exists>d' a. newMainnetRehearsalAPI small_crypto id (\<lambda>_. 0) small_genesis_json ''t'' 25 \<lparr>files = Map.empty, faults = [], seen = []\<rparr> = (d', Inr small_rehearsal)
    \<and> a = fst (rehearsalHandler small_crypto (\<lambda>_ r. Inl ErrNotExist) 301 small_rehearsal
        \<lparr>evRequest = small_get, evIdBytes = Inr [7], evHeader = Inr [], evNow = 0\<rparr>)
    \<and> chain_inv small_crypto (raChain a) \<and> reChainHeight (statusLocked a) = reAcceptedBlocks (statusLocked a)"
proof -
  let ?e = "\<lparr>evRequest = small_get, evIdBytes = Inr [7], evHeader = Inr [], evNow = 0\<rparr> :: staging_event"
  obtain d' where d': "newMainnetRehearsalAPI small_crypto id (\<lambda>_. 0) small_genesis_json ''t'' 25 \<lparr>files = Map.empty, faults = [], seen = []\<rparr>
      = (d', Inr small_rehearsal)"
    using small_rehearsal_starts(1) by blast
  from rehearsal_consistent [OF small_rehearsal_starts(2) d' refl, where es = "[?e]" and decode = "\<lambda>_ r. Inl ErrNotExist" and redirect = 301]
  show ?thesis unfolding d' by (simp add: Let_def)
qed

theorem rehearsal_solution_accepted_witness:
  "\<exists>a1 challenge a2 b. handleRehearsalChallenge small_crypto (Inr [7]) small_rehearsal small_get = (a1, 200, ChallengeReply challenge)
    \<and> handleRehearsalSubmit small_crypto 0 (\<lambda>_ _. Inr \<lparr>ssChallenge = challenge, ssNonce = 5\<rparr>) a1 (small_get\<lparr>reqMethod := ''POST''\<rparr>) = (a2, accepted)
    \<and> blocks (raChain a2) = [NewMainnetGenesisBlock, b] \<and> blkNonce b = 5 \<and> raAcceptedBlocks a2 = 1"
proof -
  let ?c = "rehearsal_block small_crypto (raChain small_rehearsal)"
  obtain d' where d': "newMainnetRehearsalAPI small_crypto id (\<lambda>_. 0) small_genesis_json ''t'' 25 \<lparr>files = Map.empty, faults = [], seen = []\<rparr>
      = (d', Inr small_rehearsal)"
    using small_rehearsal_starts(1) by blast
  have bs: "blocks (raChain small_rehearsal) = [NewMainnetGenesisBlock]" by (simp add: small_rehearsal_def)
  then obtain challenge where ch: "issueChallengeLocked small_crypto (Inr [7]) small_rehearsal = Inr (challenge, ?c)"
    using issue_succeeds [of small_rehearsal small_crypto "[7]"] by auto
  note shape = issued_shape [OF ch]
  have diff: "blkDifficulty ?c = 1"
    by (simp add: rehearsal_block_def bs recentBlockIntervalsLocked_def NewMainnetGenesisBlock_def newGenesisBlock_def small_first_difficulty)
  have "Compare digest (fill_bytes 32 (nat (TargetFromDifficulty 1))) \<le> 0" if "length digest = 32" for digest
    using that Compare_be_nat [of digest "fill_bytes 32 (nat (TargetFromDifficulty 1))"] target_bytes [of 1] be_nat_bound [of digest]
    by (simp add: TargetFromDifficulty_def)
  moreover have "length (GPUV1ReferenceDigest small_crypto id h v z cache) = 32" for h v z cache
    using hash_size_small by (simp add: GPUV1ReferenceDigest_def gpuV1FinalizeDigest_def hash_size_ok_def Let_def)
  ultimately have digest: "Compare (GPUV1ReferenceDigest small_crypto id h v z cache) (fill_bytes 32 (nat (TargetFromDifficulty (blkDifficulty ?c)))) \<le> 0"
    for h v z cache unfolding diff by blast
  have get: "handleRehearsalChallenge small_crypto (Inr [7]) small_rehearsal small_get
      = (small_rehearsal\<lparr>raChallenge := Some challenge, raCandidate := Some ?c\<rparr>, 200, ChallengeReply challenge)"
    using ch by (simp add: handleRehearsalChallenge_def small_get_def) (simp add: small_rehearsal_def)
  from rehearsal_solution_accepted [OF hash_size_small small_rehearsal_starts(2) d' fold_simps(1) [symmetric] _ _ get shape(2-4) digest,
      where post = "small_get\<lparr>reqMethod := ''POST''\<rparr>" and decode = "\<lambda>_ _. Inr \<lparr>ssChallenge = challenge, ssNonce = 5\<rparr>" and now = 0]
  show ?thesis using get bs by (simp add: small_get_def small_rehearsal_def wrap64_def MaxFutureBlockSeconds_def)
qed

end
