(* ===== verification/Testnet.thy ===== *)
theory Testnet
  imports DemandMiner Daemon
begin

text \<open>
  The launch metadata of the public test network, package \<open>testnet\<close>, and the tools under \<open>cmd\<close> that print values of
  the other packages: \<open>sudharma-testnet-info\<close>, \<open>sudharma-testnet-manifest\<close>, \<open>sudharma-mainnet-genesis-info\<close>,
  \<open>sudharma-mainnet-genesis-preview\<close>, \<open>sudharma-mainnet-readiness\<close> and \<open>sudharma-mining-readiness\<close>. A tool is the
  value that it prints with its exit status; the explanatory text of a readiness gate is left out.
\<close>

section \<open>The profile\<close>

definition TestnetName :: string where
  [go_const]: "TestnetName = ''Sudharma Public Testnet 1''"

definition Slug :: string where
  [go_const]: "Slug = ''sudharma-testnet-1''"

definition DefaultP2PPort :: int where
  [go_const]: "DefaultP2PPort = 28444"

definition DefaultRPCPort :: int where
  [go_const]: "DefaultRPCPort = 28545"

definition DefaultDataDir :: string where
  [go_const]: "DefaultDataDir = ''data-testnet-1''"

definition MinimumSeedNodes :: nat where
  [go_const]: "MinimumSeedNodes = 2"

record Profile =
  pfName :: string
  pfSlug :: string
  pfP2PPort :: int
  pfRPCPort :: int
  pfDataDir :: string
  pfSeeds :: "string list"

text \<open>What the package uses of \<open>net\<close> and of Unicode: an address that is no IP address has no bytes.\<close>

record seed_lib =
  splitSeed :: "string \<Rightarrow> (string \<times> string) result"
  seedIP :: "string \<Rightarrow> bytes option"
  lowerCase :: "string \<Rightarrow> string"

definition DefaultProfile :: Profile where
  "DefaultProfile = \<lparr>pfName = TestnetName, pfSlug = Slug, pfP2PPort = DefaultP2PPort, pfRPCPort = DefaultRPCPort,
     pfDataDir = DefaultDataDir, pfSeeds = []\<rparr>"

fun checkSeeds :: "seed_lib \<Rightarrow> string set \<Rightarrow> string list \<Rightarrow> unit result" where
  "checkSeeds L known [] = Inr ()"
| "checkSeeds L known (raw # rest) =
     (let seed = TrimSpace raw in
      if seed = '''' then Inl (Errorf ''seed address cannot be empty'' [])
      else (case splitSeed L seed of
        Inl err \<Rightarrow> Inl (Wrapf ''invalid seed %q: %w'' [seed] err)
      | Inr _ \<Rightarrow>
        if seed \<in> known then Inl (Errorf ''duplicate seed %q'' [seed])
        else checkSeeds L (insert seed known) rest))"

definition ProfileValidate :: "seed_lib \<Rightarrow> Profile \<Rightarrow> unit result" where
  "ProfileValidate L p =
     (if TrimSpace (pfName p) = '''' \<or> TrimSpace (pfSlug p) = '''' then Inl (Errorf ''testnet name and slug are required'' [])
      else if pfP2PPort p < 1024 \<or> pfP2PPort p > 65535 \<or> pfRPCPort p < 1024 \<or> pfRPCPort p > 65535 \<or> pfP2PPort p = pfRPCPort p
      then Inl (Errorf ''testnet ports must be distinct user ports'' [])
      else if TrimSpace (pfDataDir p) = '''' then Inl (Errorf ''testnet data directory is required'' [])
      else checkSeeds L {} (pfSeeds p))"

text \<open>The classes of addresses of \<open>net.IP\<close>.\<close>

definition IsLoopback :: "bytes \<Rightarrow> bool" where
  "IsLoopback ip = (case To4 ip of Some v4 \<Rightarrow> v4 ! 0 = 127 | None \<Rightarrow> ip = replicate 15 0 @ [1])"

definition IsPrivate :: "bytes \<Rightarrow> bool" where
  "IsPrivate ip = (case To4 ip of
      Some v4 \<Rightarrow> v4 ! 0 = 10 \<or> v4 ! 0 = 172 \<and> unat (v4 ! 1) div 16 = 1 \<or> v4 ! 0 = 192 \<and> v4 ! 1 = 168
    | None \<Rightarrow> length ip = 16 \<and> unat (ip ! 0) div 2 = 126)"

definition IsUnspecified :: "bytes \<Rightarrow> bool" where
  "IsUnspecified ip \<longleftrightarrow> To4 ip = Some [0, 0, 0, 0] \<or> ip = replicate 16 0"

definition IsLinkLocalUnicast :: "bytes \<Rightarrow> bool" where
  "IsLinkLocalUnicast ip = (case To4 ip of
      Some v4 \<Rightarrow> v4 ! 0 = 169 \<and> v4 ! 1 = 254
    | None \<Rightarrow> length ip = 16 \<and> ip ! 0 = 0xfe \<and> unat (ip ! 1) div 64 = 2)"

definition IsLinkLocalMulticast :: "bytes \<Rightarrow> bool" where
  "IsLinkLocalMulticast ip = (case To4 ip of
      Some v4 \<Rightarrow> v4 ! 0 = 224 \<and> v4 ! 1 = 0 \<and> v4 ! 2 = 0
    | None \<Rightarrow> length ip = 16 \<and> ip ! 0 = 0xff \<and> unat (ip ! 1) mod 16 = 2)"

definition HasSuffix :: "string \<Rightarrow> string \<Rightarrow> bool" where
  "HasSuffix s suf \<longleftrightarrow> length suf \<le> length s \<and> drop (length s - length suf) s = suf"

definition clearlyNonPublicHost :: "seed_lib \<Rightarrow> string \<Rightarrow> bool" where
  "clearlyNonPublicHost L host0 =
     (let host = trim_chars {CHR ''['', CHR '']''} (lowerCase L (TrimSpace host0)) in
      if host = '''' \<or> host = ''localhost'' \<or> HasSuffix host ''.localhost'' \<or> HasSuffix host ''.local''
        \<or> HasSuffix host ''.example'' \<or> HasSuffix host ''.invalid'' \<or> HasSuffix host ''.test'' then True
      else (case seedIP L host of
          Some ip \<Rightarrow> IsLoopback ip \<or> IsPrivate ip \<or> IsUnspecified ip \<or> IsLinkLocalUnicast ip \<or> IsLinkLocalMulticast ip
        | None \<Rightarrow> False))"

text \<open>The host of a seed, empty where the address cannot be split.\<close>

definition seedHost :: "seed_lib \<Rightarrow> string \<Rightarrow> string" where
  "seedHost L seed = (case splitSeed L seed of Inl _ \<Rightarrow> '''' | Inr (host, _) \<Rightarrow> host)"

definition ValidatePublicLaunch :: "seed_lib \<Rightarrow> Profile \<Rightarrow> unit result" where
  "ValidatePublicLaunch L p =
     (case ProfileValidate L p of
       Inl err \<Rightarrow> Inl err
     | Inr _ \<Rightarrow>
       if pfSlug p \<noteq> Slug then Inl (Errorf ''unexpected public testnet slug %q'' [pfSlug p])
       else if length (pfSeeds p) < MinimumSeedNodes then Inl (Errorf ''public testnet requires at least %d seed nodes'' [])
       else (case find (\<lambda>seed. clearlyNonPublicHost L (seedHost L seed)) (pfSeeds p) of
           Some seed \<Rightarrow> Inl (Errorf ''public testnet seed %q is not a public endpoint'' [seed])
         | None \<Rightarrow> Inr ()))"

section \<open>The manifest\<close>

definition ProtocolNetworkID :: string where
  "ProtocolNetworkID = NetworkID"

definition GenesisHash :: "crypto \<Rightarrow> string" where
  "GenesisHash C = Hash C NewGenesisBlock"

record LaunchManifest =
  lmName :: string
  lmSlug :: string
  lmProtocolNetworkID :: string
  lmGenesisHash :: string
  lmP2PPort :: int
  lmRPCPort :: int
  lmSeeds :: "string list"

definition NewLaunchManifest :: "crypto \<Rightarrow> seed_lib \<Rightarrow> Profile \<Rightarrow> LaunchManifest result" where
  "NewLaunchManifest C L p =
     (case ValidatePublicLaunch L p of
        Inl err \<Rightarrow> Inl err
      | Inr _ \<Rightarrow> Inr \<lparr>lmName = pfName p, lmSlug = pfSlug p, lmProtocolNetworkID = ProtocolNetworkID, lmGenesisHash = GenesisHash C,
          lmP2PPort = pfP2PPort p, lmRPCPort = pfRPCPort p, lmSeeds = pfSeeds p\<rparr>)"

definition LoadProfile :: "seed_lib \<Rightarrow> Profile json \<Rightarrow> path \<Rightarrow> disk \<Rightarrow> (disk, Profile) outcome" where
  "LoadProfile L J p d =
     (case ReadFile p d of
       (d1, Inl err) \<Rightarrow> (d1, Inl (Wrapf ''read testnet profile: %w'' [] err))
     | (d1, Inr data) \<Rightarrow>
     (case Unmarshal J data of
       Inl err \<Rightarrow> (d1, Inl (Wrapf ''decode testnet profile: %w'' [] err))
     | Inr profile \<Rightarrow> (case ProfileValidate L profile of Inl err \<Rightarrow> (d1, Inl err) | Inr _ \<Rightarrow> (d1, Inr profile))))"

definition testnetManifestMain :: "crypto \<Rightarrow> seed_lib \<Rightarrow> Profile json \<Rightarrow> path \<Rightarrow> disk \<Rightarrow> disk \<times> nat \<times> LaunchManifest option" where
  "testnetManifestMain C L J profilePath d =
     (if profilePath = '''' then (d, 2, None)
      else (case LoadProfile L J profilePath d of
          (d1, Inl err) \<Rightarrow> (d1, 1, None)
        | (d1, Inr profile) \<Rightarrow>
            (case NewLaunchManifest C L profile of Inl err \<Rightarrow> (d1, 1, None) | Inr manifest \<Rightarrow> (d1, 0, Some manifest))))"

record testnetInfo =
  tiName :: string
  tiSlug :: string
  tiProtocolNetworkID :: string
  tiGenesisHash :: string
  tiDefaultP2PPort :: int
  tiDefaultRPCPort :: int
  tiDefaultDataDir :: string

definition testnetInfoMain :: "crypto \<Rightarrow> testnetInfo" where
  "testnetInfoMain C = \<lparr>tiName = TestnetName, tiSlug = Slug, tiProtocolNetworkID = ProtocolNetworkID, tiGenesisHash = GenesisHash C,
     tiDefaultP2PPort = DefaultP2PPort, tiDefaultRPCPort = DefaultRPCPort, tiDefaultDataDir = DefaultDataDir\<rparr>"

section \<open>The genesis block of the main network\<close>

record genesisInfo =
  giNetwork :: string
  giLaunchAuthorized :: bool
  giGenesisTimestamp :: u64
  giNote :: string
  giMerkleRoot :: string
  giHash :: string
  giDifficulty :: u32
  giAlgorithm :: string
  giMiningBackend :: string
  giMiningAuthorized :: bool

definition buildGenesisInfo :: "crypto \<Rightarrow> genesisInfo" where
  "buildGenesisInfo C =
     (let genesis = NewMainnetGenesisBlock;
          note_text = (if MainnetGenesisTimestamp = 0
            then ''timestamp is unset (0) until an operator freeze replaces params.MainnetGenesisTimestamp''
            else ''timestamp is frozen for operator review'')
      in \<lparr>giNetwork = NetworkMainnet, giLaunchAuthorized = MainnetLaunchAuthorized, giGenesisTimestamp = MainnetGenesisTimestamp,
          giNote = note_text, giMerkleRoot = blkMerkleRoot genesis, giHash = Hash C genesis, giDifficulty = blkDifficulty genesis,
          giAlgorithm = ProductionMiningAlgorithm, giMiningBackend = ProductionMiningBackend, giMiningAuthorized = MainnetMiningAuthorized\<rparr>)"

record genesisPreview =
  gpNetwork :: string
  gpTimestamp :: u64
  gpHash :: string
  gpMerkleRoot :: string
  gpLaunchAuthorized :: bool

definition previewGenesis :: "crypto \<Rightarrow> u64 \<Rightarrow> genesisPreview" where
  "previewGenesis C ts =
     (let genesis = UpdateMerkleRoot C (NewMainnetGenesisBlock\<lparr>blkTimestamp := sint ts\<rparr>)
      in \<lparr>gpNetwork = NetworkMainnet, gpTimestamp = ts, gpHash = Hash C genesis, gpMerkleRoot = blkMerkleRoot genesis,
          gpLaunchAuthorized = MainnetLaunchAuthorized\<rparr>)"

fun previewAll :: "crypto \<Rightarrow> string list \<Rightarrow> genesisPreview list \<times> nat" where
  "previewAll C [] = ([], 0)"
| "previewAll C (raw # rest) =
     (case ParseUint64 raw of
        None \<Rightarrow> ([], 1)
      | Some ts \<Rightarrow> (case previewAll C rest of (printed, status) \<Rightarrow> (previewGenesis C ts # printed, status)))"

definition genesisPreviewMain :: "crypto \<Rightarrow> string list \<Rightarrow> genesisPreview list \<times> nat" where
  "genesisPreviewMain C args = (if args = [] then ([], 2) else previewAll C args)"

section \<open>Readiness reports\<close>

record gateJSON =
  gjName :: string
  gjReady :: bool

definition gatesToJSON :: "ReadinessGate list \<Rightarrow> gateJSON list" where
  "gatesToJSON gates = map (\<lambda>gate. \<lparr>gjName = gateName gate, gjReady = gateReady gate\<rparr>) gates"

record mainnetOutput =
  moLaunchAuthorized :: bool
  moLaunchReady :: bool
  moGates :: "gateJSON list"
  moSecurityReviewGates :: "gateJSON list"
  moSecurityReviewComplete :: bool
  moMiningStackReady :: bool
  moMiningGates :: "gateJSON list"

definition mainnetBuildOutput :: mainnetOutput where
  "mainnetBuildOutput = \<lparr>moLaunchAuthorized = MainnetLaunchAuthorized, moLaunchReady = MainnetLaunchReady,
     moGates = gatesToJSON MainnetReadiness, moSecurityReviewGates = gatesToJSON SecurityReviewEvidenceGates,
     moSecurityReviewComplete = MainnetSecurityReviewEvidenceComplete, moMiningStackReady = MiningStackReady,
     moMiningGates = gatesToJSON MiningReadiness\<rparr>"

definition mainnetReadinessMain :: "mainnetOutput \<times> nat" where
  "mainnetReadinessMain = (let out = mainnetBuildOutput in (out, if moLaunchReady out then 2 else 0))"

record miningOutputReport =
  mrStackReady :: bool
  mrMainnetMiningAuthorized :: bool
  mrGates :: "gateJSON list"

definition miningBuildOutput :: miningOutputReport where
  "miningBuildOutput = \<lparr>mrStackReady = MiningStackReady, mrMainnetMiningAuthorized = MainnetMiningAuthorized,
     mrGates = gatesToJSON MiningReadiness\<rparr>"

definition miningReadinessMain :: "miningOutputReport \<times> nat" where
  "miningReadinessMain = (let out = miningBuildOutput in (out, if \<not> mrStackReady out then 2 else 0))"

section \<open>What a manifest guarantees\<close>

lemma checkSeeds_ok:
  "checkSeeds L known seeds = Inr () \<Longrightarrow> distinct (map TrimSpace seeds) \<and> set (map TrimSpace seeds) \<inter> known = {}
    \<and> (\<forall>seed\<in>set seeds. is_ok (splitSeed L (TrimSpace seed)))"
  by (induction L known seeds rule: checkSeeds.induct) (auto simp: Let_def split: if_splits sum.splits)

lemma public_host:
  assumes "\<not> clearlyNonPublicHost L host" "seedIP L (trim_chars {CHR ''['', CHR '']''} (lowerCase L (TrimSpace host))) = Some ip"
  shows "\<not> IsLoopback ip \<and> \<not> IsPrivate ip \<and> \<not> IsUnspecified ip"
  using assms by (simp add: clearlyNonPublicHost_def Let_def split: if_splits)

text \<open>A manifest identifies the network. If a manifest is issued, its identifier is the namespace of the handshakes of
  the test network, its genesis hash is that of the first block of every valid chain of this network, its
  ports are distinct, and it names at least two different seeds, of which none can be split into a host
  that is local, private or reserved.\<close>

theorem manifest_identifies_network:
  assumes "NewLaunchManifest C L p = Inr m" "chain_inv C c" "network c = NetworkPublicTestnet"
  shows "lmProtocolNetworkID m = LocalNetworkID (SetLocalNetworkID NetworkPublicTestnet g) \<and> lmSlug m = lmProtocolNetworkID m
    \<and> lmGenesisHash m = Hash C (hd (blocks c)) \<and> lmP2PPort m \<noteq> lmRPCPort m
    \<and> 2 \<le> card (TrimSpace ` set (lmSeeds m)) \<and> (\<forall>seed\<in>set (lmSeeds m). \<not> clearlyNonPublicHost L (seedHost L seed))"
proof -
  have v: "ProfileValidate L p = Inr ()" "pfSlug p = Slug" "MinimumSeedNodes \<le> length (pfSeeds p)"
    "find (\<lambda>seed. clearlyNonPublicHost L (seedHost L seed)) (pfSeeds p) = None"
    and m: "m = \<lparr>lmName = pfName p, lmSlug = pfSlug p, lmProtocolNetworkID = ProtocolNetworkID, lmGenesisHash = GenesisHash C,
      lmP2PPort = pfP2PPort p, lmRPCPort = pfRPCPort p, lmSeeds = pfSeeds p\<rparr>"
    using assms(1) by (auto simp: NewLaunchManifest_def ValidatePublicLaunch_def split: sum.splits if_splits option.splits)
  have p: "pfP2PPort p \<noteq> pfRPCPort p" "checkSeeds L {} (pfSeeds p) = Inr ()"
    using v(1) by (auto simp: ProfileValidate_def split: if_splits)
  have "card (TrimSpace ` set (pfSeeds p)) = length (pfSeeds p)"
    using checkSeeds_ok [OF p(2)] distinct_card [of "map TrimSpace (pfSeeds p)"] by simp
  moreover have "Hash C (hd (blocks c)) = GenesisHash C"
    using assms(2,3) by (simp add: chain_inv_def expectedGenesis_def GenesisHash_def)
  ultimately show ?thesis using v p
    by (auto simp: m MinimumSeedNodes_def find_None_iff ProtocolNetworkID_def Slug_def NetworkID_def LocalNetworkID_def SetLocalNetworkID_def)
qed

section \<open>The preview of a genesis block\<close>

text \<open>The headers of the previewed block and of the genesis block with the same timestamp.\<close>

definition preview_headers :: "crypto \<Rightarrow> u64 \<Rightarrow> bytes \<times> bytes" where
  "preview_headers C ts =
     (let genesis = NewMainnetGenesisBlock\<lparr>blkTimestamp := sint ts\<rparr>
      in (HeaderBytes (UpdateMerkleRoot C genesis) 0, HeaderBytes genesis 0))"

text \<open>C24: the preview shows the wrong hash. The tool that previews the genesis block of the main network recalculates
  the Merkle root, which the genesis block itself does not do: its root is a fixed text. Whatever timestamp
  is chosen, the printed hash is not the hash that the genesis block with this timestamp has, unless the
  hash function collides on the two headers or on their digests.\<close>

theorem preview_hash_wrong:
  assumes "hash_size_ok C" "preview_headers C ts = (h, g)" "inj_on (sha256 C) {h, g, sha256 C h, sha256 C g}"
  shows "gpHash (previewGenesis C ts) \<noteq> Hash C (NewMainnetGenesisBlock\<lparr>blkTimestamp := sint ts\<rparr>)"
proof -
  let ?g = "NewMainnetGenesisBlock\<lparr>blkTimestamp := sint ts\<rparr>"
  have hg: "h = HeaderBytes (UpdateMerkleRoot C ?g) 0" "g = HeaderBytes ?g 0" using assms(2) by (simp_all add: preview_headers_def Let_def)
  have "length h \<noteq> length g" using assms(1)
    by (simp add: hg HeaderBytes_def UpdateMerkleRoot_def CalculateMerkleRoot_def emptySetRoot_def NewMainnetGenesisBlock_def newGenesisBlock_def
        hash_size_ok_def)
  then have "sha256 C h \<noteq> sha256 C g" using assms(3) by (auto simp: inj_on_def)
  then have "sha256 C (sha256 C h) \<noteq> sha256 C (sha256 C g)" using assms(3) by (auto simp: inj_on_def)
  moreover have "blkNonce (UpdateMerkleRoot C ?g) = 0" "blkNonce ?g = 0"
    by (simp_all add: UpdateMerkleRoot_def NewMainnetGenesisBlock_def newGenesisBlock_def)
  ultimately show ?thesis by (simp add: previewGenesis_def Hash_def Let_def hg)
qed

section \<open>A small network\<close>

definition small_seed_lib :: seed_lib where
  "small_seed_lib = \<lparr>splitSeed = (\<lambda>s. Inr (s, ''1'')), seedIP = (\<lambda>_. None), lowerCase = id\<rparr>"

definition small_profile :: Profile where
  "small_profile = DefaultProfile\<lparr>pfName := ''t'', pfSeeds := [''a.net'', ''b.net'']\<rparr>"

lemma small_manifest: "is_ok (NewLaunchManifest small_crypto small_seed_lib small_profile)"
proof -
  have "checkSeeds small_seed_lib {} [''a.net'', ''b.net''] = Inr ()" by (simp add: small_seed_lib_def TrimSpace_plain Let_def printable_def)
  moreover have "\<not> clearlyNonPublicHost small_seed_lib ''a.net''" "\<not> clearlyNonPublicHost small_seed_lib ''b.net''"
    by (simp_all add: clearlyNonPublicHost_def small_seed_lib_def TrimSpace_plain printable_def trim_chars_def HasSuffix_def Let_def)
  moreover have "TrimSpace ''t'' \<noteq> ''''" "TrimSpace Slug \<noteq> ''''" "TrimSpace DefaultDataDir \<noteq> ''''"
    by (simp_all add: TrimSpace_plain printable_def Slug_def DefaultDataDir_def)
  ultimately show ?thesis
    by (simp add: NewLaunchManifest_def ValidatePublicLaunch_def ProfileValidate_def small_profile_def DefaultProfile_def DefaultP2PPort_def
        DefaultRPCPort_def MinimumSeedNodes_def seedHost_def small_seed_lib_def)
qed

theorem manifest_identifies_network_witness:
  "\<exists>m. NewLaunchManifest small_crypto small_seed_lib small_profile = Inr m \<and> lmGenesisHash m = Hash small_crypto (hd (blocks small_genesis_chain))
    \<and> 2 \<le> card (TrimSpace ` set (lmSeeds m))"
proof -
  obtain m where m: "NewLaunchManifest small_crypto small_seed_lib small_profile = Inr m"
    using small_manifest by (cases "NewLaunchManifest small_crypto small_seed_lib small_profile") auto
  have "chain_inv small_crypto small_genesis_chain" "network small_genesis_chain = NetworkPublicTestnet"
    using small_chain_ok(2) by (simp_all add: small_genesis_chain_def chain_ok_def)
  from manifest_identifies_network [OF m this] show ?thesis using m by blast
qed

lemma small_preview_no_collision:
  "distinct (map (sha256 small_crypto) [fst (preview_headers small_crypto 0), snd (preview_headers small_crypto 0),
     sha256 small_crypto (fst (preview_headers small_crypto 0)), sha256 small_crypto (snd (preview_headers small_crypto 0))])"
  by code_simp

theorem preview_hash_wrong_witness:
  "gpHash (previewGenesis small_crypto 0) \<noteq> Hash small_crypto (NewMainnetGenesisBlock\<lparr>blkTimestamp := sint (0 :: u64)\<rparr>)"
proof (rule preview_hash_wrong [OF hash_size_small])
  show "preview_headers small_crypto 0 = (fst (preview_headers small_crypto 0), snd (preview_headers small_crypto 0))" by simp
  show "inj_on (sha256 small_crypto) {fst (preview_headers small_crypto 0), snd (preview_headers small_crypto 0),
      sha256 small_crypto (fst (preview_headers small_crypto 0)), sha256 small_crypto (snd (preview_headers small_crypto 0))}"
    using small_preview_no_collision unfolding distinct_map list.set by blast
qed

end
