(* ===== verification/Spec2Isabelle.thy ===== *)
theory Spec2Isabelle
  imports Explorer WalletStorage Rpcd MinerCli Staging Testnet
begin

text \<open>
  \<^bold>\<open>Verification of the Sudharma node.\<close>

  Sudharma is a proof-of-work coin in Go. A node holds a chain of blocks, the account state that the
  chain produces and a pool of pending transactions; it exchanges them with peers, mines, and keeps
  them on disk. It serves an HTTP interface to wallets with encrypted files and to miners; there are a
  GPU miner, a mining pool that speaks Stratum and a supervisor that mines on demand. This
  library translates these packages into definitions, function by function under their Go names, and
  proves what makes them correct.

  \<^bold>\<open>The parts and where they are modelled.\<close>

  \<^item> Rules. \<open>Params\<close> and \<open>MiningParams\<close> (package \<open>params\<close>: constants, monetary policies, networks; mining
    endpoints and readiness gates), \<open>Consensus\<close>
    (package \<open>consensus\<close>: difficulty, subsidy, target, work).
  \<^item> Transactions. \<open>Wallet\<close> (\<open>wallet/address.go\<close>, \<open>private_key.go\<close>, \<open>wallet.go\<close>),
    \<open>Transactions\<close> (packages \<open>transactions\<close> and \<open>networkcontext\<close>).
  \<^item> Ledger, package \<open>blockchain\<close>. \<open>State\<close> (\<open>state.go\<close>), \<open>TransactionProcessor\<close>, \<open>Blocks\<close>
    (\<open>block.go\<close>), \<open>BlockProcessor\<close> (\<open>rewards.go\<close>, \<open>block_processor.go\<close>), \<open>Chain\<close> (\<open>chain.go\<close> and the
    validators), \<open>Reorg\<close> (fork choice, finality, reorganization), \<open>Mempool\<close>, \<open>Explorer\<close> (lookups).
  \<^item> Mining. \<open>Miner\<close> (\<open>block_builder.go\<close>, \<open>pow/pow.go\<close>, package \<open>miner\<close>), \<open>GpuPow\<close> (the rest of
    package \<open>pow\<close>: the GPU proof and the chain verifier with its epoch cache).
  \<^item> Network, package \<open>p2p\<close>. \<open>Peers\<close> (peer table, reputation, discovery), \<open>P2PMessages\<close> (wire format
    and framing), \<open>P2PNode\<close> (handlers, gossip, synchronization, read loop), \<open>P2PHistory\<close> (what any
    interleaving of them keeps).
  \<^item> Storage. \<open>Disk\<close> (the system calls, with faults and crash points), \<open>Storage\<close> (chain and state
    files), \<open>NodeStorage\<close> (pending transactions and known peers), \<open>WalletStorage\<close> (wallet files, backup,
    change of password).
  \<^item> HTTP interface, package \<open>rpc\<close>. \<open>RpcTypes\<close> (requests, responses, the JSON bodies), \<open>ExplorerCursor\<close>
    (\<open>explorer.go\<close>: cursors and pages), \<open>Rpc\<close> (\<open>server.go\<close>, \<open>explorer.go\<close>, \<open>gpu_mining.go\<close>: every handler,
    the routes and the middleware).
  \<^item> Wallet program. \<open>WalletCli\<close> (\<open>rpc/client.go\<close> and \<open>cmd/sudharma-wallet\<close>), \<open>WalletNode\<close> (the program and the
    server connected to each other).
  \<^item> Processes. \<open>Daemon\<close> (\<open>cmd/sudharmad\<close>: start, reconnection, tick, shutdown, mining modes), \<open>Rpcd\<close>
    (\<open>cmd/sudharma-rpcd\<close> and \<open>operations/config.go\<close>), \<open>DemandMiner\<close> (package \<open>demandminer\<close> and its executable).
  \<^item> Miners. \<open>GpuMiner\<close> (package \<open>gpuminer\<close>: client of the mining endpoints, hasher program, candidate search,
    mining loop, remembered address), \<open>MinerCli\<close> (\<open>cmd/sudharma-miner\<close> and \<open>cmd/sudharma-pool\<close>).
  \<^item> Tools. \<open>Staging\<close> (\<open>cmd/sudharma-gpupow-staging\<close>: verifier of challenges and rehearsal of the main network),
    \<open>Testnet\<close> (package \<open>testnet\<close> and the tools under \<open>cmd\<close> that print genesis, readiness and manifest).
  \<^item> Mining pool. \<open>Pool\<close> (package \<open>pool\<close>: shares, payouts, engine), \<open>Stratum\<close> (\<open>pool/stratum\<close> and the
    messages and search of \<open>gpuminer/stratum\<close>), \<open>StratumClient\<close> (client and loop of \<open>gpuminer/stratum\<close>, and
    the client connected to the server).

  \<open>Errors\<close> names the error messages, \<open>Prelude\<close> holds the machine types and the shared lemmas, \<open>GoStrings\<close>
  the functions of Go's package \<open>strings\<close> with theirs.
  Structs are records, enums are datatypes, a method that writes returns its object as it leaves it
  beside its result, also on the error paths, and an error is a value of the left summand.

  \<^bold>\<open>What the lemmas show.\<close>

  \<^item> Ledger: the exact effect of a transaction and of a block, all-or-nothing processing, conservation
    of coins, issuance equal to the schedule and within the cap, and the agreement of incremental
    processing with a replay of the chain.
  \<^item> Chain: every reachable chain satisfies the consensus links, a block hash commits to the history
    below it, validation agrees with appending, and a reorganization is atomic, adopts only a better
    validated chain and never replaces a finalized block.
  \<^item> Pool of transactions: its limits and indexes hold in every reachable pool, admission is gapless
    in the nonces, and recovery after a reorganization does not depend on Go's map order.
  \<^item> Mining and proof: the search finds the first valid nonce, mined blocks validate, the cached GPU
    verifier is the cache-free one, and its digest binds the header.
  \<^item> Network: decoders invert encoders, frames are read exactly, the peer table keeps its limits, and
    along every history of frames, submissions, synchronizations, mining and connections the node is
    consistent (\<open>node_inv\<close>, by rule induction on \<open>node_run\<close>).
  \<^item> Storage: what is on disk after any fault or kill (\<open>crash_states\<close>); a restart after a shutdown
    restores the node; a change of password never loses the key.
  \<^item> Mining pool: shares are classified by the two targets, the floating-point split of a reward is the
    integer split in the range of real rewards, and a miner connected to the pool is credited.
  \<^item> HTTP interface: the status is truthful along every history; following the cursors of the explorer
    gives the whole history once, and a cursor does not outlive a reorganization; a solved template
    becomes the tip of the node.
  \<^item> Programs against a node: a payment of the wallet program reaches the pool as requested; the GPU
    miner extends the chain of its node by the template it was given; amounts are read and printed
    exactly; the miner pays to the chosen address, whose file is never torn.
  \<^item> Processes: the server process never discards a chain file that it cannot load, and restores the
    node after a shutdown; a sweep of the demand miner is backed by what the child printed.
  \<^item> Tools: the rehearsed chain is consistent and is extended by every solved challenge, a staging challenge is
    accepted at most once, and a launch manifest identifies the test network.
  \<^item> A few theorems state behaviour that the code shows and should not: a state file that vanishes
    during a save, a crash that leaves chain and state apart, a chain file that is replaced when it
    cannot be read, synchronization that fails outside the test network, mining that depends on map
    order, Merkle roots that do not distinguish a repeated last entry, shares that are paid twice,
    miners that are left on a stale job or without one, templates that no node accepts after the
    activation of the GPU proof, a second payment that is refused while the first is pending, an
    idle schedule that mines on every pass, and a preview of the genesis block with the wrong hash.

  \<^bold>\<open>Interfaces.\<close> \<open>ledger\<close> (State) is what the processors rely on, \<open>proof_system\<close> (Chain) what the chain
  demands of a verifier (interpreted by the legacy and the GPU verifier), \<open>tx_pool\<close> (Mempool) what the
  node relies on, \<open>file_store\<close> and \<open>atomic_store\<close> (Disk) what callers may assume of a save routine
  (interpreted by the four save routines; only chain and peer files are atomic), \<open>remote_node\<close> (WalletNode)
  what the wallet program relies on (interpreted by the HTTP server), \<open>idle_supervisor\<close> (DemandMiner) what the
  supervisor sees of an idle node (interpreted by the runner and the node's status).

  \<^bold>\<open>Arguments in place of other code.\<close> Hashing and elliptic curves (\<open>crypto\<close>), Keccak, scrypt and AES-GCM
  (\<open>sealing\<close>), JSON (\<open>codec\<close>, \<open>json\<close>, \<open>stratum_lib\<close>, \<open>rpc_lib\<close>, \<open>client_codec\<close>, \<open>miner_codec\<close>, \<open>client_lib\<close>),
  address parsing (\<open>netlib\<close>), what sockets deliver (\<open>p2p_env\<close>, \<open>daemon_env\<close>, \<open>transport\<close>, \<open>stratum_env\<close>), child
  programs and the pool's source of work (\<open>work_source\<close>) are arguments; laws about them
  (\<open>json_ok\<close>, \<open>codec_ok\<close>, \<open>sealing_ok\<close>, \<open>json_agrees\<close>, \<open>mining_agrees\<close>) are hypotheses of the theorems that use them. The clock is an
  argument, once per reading; the order in which Go visits a map is the argument \<open>iter\<close>, and theorems hold
  for every order. A mutex is not modelled: a method that holds one is one step, and where a handler
  waits on the network the other activity of the node is the argument \<open>during\<close>.

  \<^bold>\<open>Termination and bounds.\<close> No definition uses fuel: loops are structural or have termination proofs.
  The search for a share may run forever and is a \<open>partial_function\<close>; that it returns is proved where
  some nonce is valid. Loops of a process that end only when it is told to stop are observed for a number
  of passes, and theorems hold for every number. Integers keep their width; a chain is assumed to be shorter than two to the 64
  blocks where heights are compared with lengths (\<open>node_fits\<close>).

  \<^bold>\<open>Not modelled.\<close> What is printed or logged (\<open>operations/logger.go\<close>), except where another program reads
  it or it is the purpose of a tool; socket deadlines and the opening of sockets.
\<close>

end
